(* ===== verification/Prelude.thy ===== *)
theory Prelude
  imports Main "HOL-Library.Signed_Division"
begin

text \<open>
  Shared foundations of the development.

  \<^item> C integers: a C \<open>long long\<close> (the type \<open>PedSector\<close>) and a C \<open>int\<close> are HOL integers;
    \<open>s64\<close> and \<open>s32\<close> reduce the result of an arithmetic operation to the two's complement
    value of that width, and are written wherever the C code adds, subtracts, multiplies or
    converts. Division and remainder are the truncating \<open>sdiv\<close> and \<open>smod\<close>.
  \<^item> The collections \<open>c_arith\<close> (facts that remove a wrap-around or turn a truncating
    operation into the mathematical one) and \<open>list_walk\<close> (generic facts on lists that the
    linked-list walks use).
\<close>

named_theorems c_arith "wrap-around and truncating division under range conditions"
named_theorems list_walk "lists walked by the code"

section \<open>Two's complement integers\<close>

definition s64 :: "int \<Rightarrow> int" where
  "s64 x = (x + 2 ^ 63) mod 2 ^ 64 - 2 ^ 63"

definition s32 :: "int \<Rightarrow> int" where
  "s32 x = (x + 2 ^ 31) mod 2 ^ 32 - 2 ^ 31"

text \<open>The values a C \<open>long long\<close> and a C \<open>int\<close> can hold.\<close>

definition in_s64 :: "int \<Rightarrow> bool" where
  "in_s64 x \<longleftrightarrow> - (2 ^ 63) \<le> x \<and> x < 2 ^ 63"

definition in_s32 :: "int \<Rightarrow> bool" where
  "in_s32 x \<longleftrightarrow> - (2 ^ 31) \<le> x \<and> x < 2 ^ 31"

lemma s64_id [c_arith]: "- (2 ^ 63) \<le> x \<Longrightarrow> x < 2 ^ 63 \<Longrightarrow> s64 x = x"
  by (simp add: s64_def)

lemma s32_id [c_arith]: "- (2 ^ 31) \<le> x \<Longrightarrow> x < 2 ^ 31 \<Longrightarrow> s32 x = x"
  by (simp add: s32_def)

lemma s64_in_range [simp]: "in_s64 (s64 x)"
  by (simp add: s64_def in_s64_def algebra_simps)

lemma s32_in_range [simp]: "in_s32 (s32 x)"
  by (simp add: s32_def in_s32_def algebra_simps)

lemma s64_idem [simp]: "s64 (s64 x) = s64 x"
  using s64_in_range [of x] by (auto simp: in_s64_def intro: s64_id)

lemma s32_idem [simp]: "s32 (s32 x) = s32 x"
  using s32_in_range [of x] by (auto simp: in_s32_def intro: s32_id)

text \<open>A wrapped operation only depends on its operands modulo \<open>2 ^ 64\<close>.\<close>

lemma s64_cong_mod: "x mod 2 ^ 64 = y mod 2 ^ 64 \<Longrightarrow> s64 x = s64 y"
  unfolding s64_def by (metis mod_add_left_eq)

lemma s64_mod: "s64 x mod 2 ^ 64 = x mod 2 ^ 64"
  by (simp add: s64_def mod_diff_left_eq)

lemma s64_add_s64_left [simp]: "s64 (s64 x + y) = s64 (x + y)"
  by (rule s64_cong_mod) (metis mod_add_left_eq s64_mod)

lemma s64_add_s64_right [simp]: "s64 (x + s64 y) = s64 (x + y)"
  by (rule s64_cong_mod) (metis mod_add_right_eq s64_mod)

lemma s64_diff_s64_left [simp]: "s64 (s64 x - y) = s64 (x - y)"
  by (rule s64_cong_mod) (metis mod_diff_left_eq s64_mod)

lemma s64_diff_s64_right [simp]: "s64 (x - s64 y) = s64 (x - y)"
  by (rule s64_cong_mod) (metis mod_diff_right_eq s64_mod)

lemma s64_mult_s64_left [simp]: "s64 (s64 x * y) = s64 (x * y)"
  by (rule s64_cong_mod) (metis mod_mult_left_eq s64_mod)

lemma s64_mult_s64_right [simp]: "s64 (x * s64 y) = s64 (x * y)"
  by (rule s64_cong_mod) (metis mod_mult_right_eq s64_mod)

lemmas s64_nested = s64_add_s64_left s64_add_s64_right s64_diff_s64_left s64_diff_s64_right
  s64_mult_s64_left s64_mult_s64_right

section \<open>Truncating division\<close>

lemma smod_nonneg [c_arith]: "0 \<le> a \<Longrightarrow> 0 < b \<Longrightarrow> a smod b = a mod (b::int)"
  by (simp add: signed_modulo_int_def sgn_if)

lemma smod_neg: "a < 0 \<Longrightarrow> 0 < b \<Longrightarrow> a smod b = - ((- a) mod (b::int))"
  by (simp add: signed_modulo_int_def sgn_if)

lemma sdiv_nonneg [c_arith]: "0 \<le> a \<Longrightarrow> 0 < b \<Longrightarrow> a sdiv b = a div (b::int)"
  by (auto simp: signed_divide_int_def sgn_if)

lemma smod_eq_0_iff_dvd: "a smod b = 0 \<longleftrightarrow> b dvd (a::int)"
  by (auto simp: signed_modulo_int_def sgn_if mod_eq_0_iff_dvd)

lemma sdiv_dvd_mult: "b dvd a \<Longrightarrow> a sdiv b * b = (a::int)"
  using sdiv_mult_smod_eq [of a b] by (simp add: smod_eq_0_iff_dvd [THEN iffD2])

lemma abs_smod_less: "b \<noteq> 0 \<Longrightarrow> \<bar>a smod b\<bar> < \<bar>b::int\<bar>"
  by (simp add: signed_modulo_int_def abs_mult abs_sgn_eq)

lemma smod_bounds: "0 < b \<Longrightarrow> - b < a smod b \<and> a smod b < (b::int)"
  using abs_smod_less [of b a] by auto

lemma abs_sdiv_le: "\<bar>a sdiv b\<bar> \<le> \<bar>a::int\<bar>"
  using sdiv_int_range [of a b] by auto

lemma abs_sdiv_mult_le: "\<bar>a sdiv b * b\<bar> \<le> \<bar>a::int\<bar>"
proof -
  have "\<bar>a sdiv b * b\<bar> \<le> \<bar>a\<bar> div \<bar>b\<bar> * \<bar>b\<bar>"
    by (auto simp: signed_divide_int_def abs_mult abs_sgn_eq pos_imp_zdiv_nonneg_iff)
  also have "\<dots> \<le> \<bar>a\<bar>"
    by (cases "b = 0") (simp_all flip: minus_mod_eq_div_mult)
  finally show ?thesis .
qed

section \<open>Lists\<close>

lemma find_Some_set [list_walk]: "find P xs = Some x \<Longrightarrow> x \<in> set xs \<and> P x"
  by (induction xs) (auto split: if_splits)

lemma find_None_all [list_walk]: "find P xs = None \<Longrightarrow> x \<in> set xs \<Longrightarrow> \<not> P x"
  by (induction xs) (auto split: if_splits)


section \<open>The interface of solution sets\<close>

text \<open>
  Geometries, alignments and constraints all describe sets of solutions, and all have an
  intersection operation whose \<open>NULL\<close> stands for the empty set. \<open>meet_semantics\<close> is the
  contract of such an operation; \<open>closed_meet\<close> adds that well-formedness is kept, so that
  intersections can be chained.
\<close>

locale meet_semantics =
  fixes sat :: "'a option \<Rightarrow> 'p set"
    and ok :: "'a option \<Rightarrow> bool"
    and meet :: "'a option \<Rightarrow> 'a option \<Rightarrow> 'a option"
  assumes sat_None: "sat None = {}"
    and sat_meet: "ok a \<Longrightarrow> ok b \<Longrightarrow> sat (meet a b) = sat a \<inter> sat b"
begin

lemma meet_None_disjoint: "ok a \<Longrightarrow> ok b \<Longrightarrow> meet a b = None \<Longrightarrow> sat a \<inter> sat b = {}"
  using sat_meet [of a b] sat_None by simp

lemma sat_meet_commute: "ok a \<Longrightarrow> ok b \<Longrightarrow> sat (meet a b) = sat (meet b a)"
  by (simp add: sat_meet Int_commute)

lemma sat_meet_mono: "ok a \<Longrightarrow> ok b \<Longrightarrow> sat (meet a b) \<subseteq> sat a"
  by (simp add: sat_meet)

lemma sat_meet_idem: "ok a \<Longrightarrow> sat (meet a a) = sat a"
  by (simp add: sat_meet)

end

locale closed_meet = meet_semantics +
  assumes ok_meet: "ok a \<Longrightarrow> ok b \<Longrightarrow> ok (meet a b)"
begin

lemma sat_meet_assoc:
  "ok a \<Longrightarrow> ok b \<Longrightarrow> ok c \<Longrightarrow> sat (meet (meet a b) c) = sat (meet a (meet b c))"
  by (simp add: sat_meet ok_meet Int_assoc)

lemma sat_fold_meet:
  "ok a \<Longrightarrow> (\<And>x. x \<in> set xs \<Longrightarrow> ok x) \<Longrightarrow>
   sat (fold (\<lambda>x acc. meet acc x) xs a) = sat a \<inter> (\<Inter>x\<in>set xs. sat x)"
  by (induction xs arbitrary: a) (auto simp: sat_meet ok_meet)

end

end
