(* ===== verification/Ped_Geom.thy ===== *)
theory Ped_Geom
  imports Prelude
begin

text \<open>
  The regions of a device: \<^verbatim>\<open>libparted/cs/geom.c\<close> and the structures of
  \<^verbatim>\<open>include/parted/geom.h\<close> and \<^verbatim>\<open>include/parted/device.h\<close>.

  A pointer to a \<open>PedDevice\<close> is the record of the fields that never change while the device
  is open, with its address: two pointers are equal when the records are. A pointer that the
  code tests against \<open>NULL\<close> is an \<open>option\<close>. A function that writes through a pointer
  returns the exception it threw (\<open>None\<close> when it returned 1) and the object afterwards, so
  that the callers that ignore the return code can be modelled too. Allocation succeeds, and an
  assertion that fails takes its action (the exception handler does not answer IGNORE).
\<close>

type_synonym PedSector = int

record PedDevice =
  dev_addr :: nat
  dev_path :: string
  sector_size :: int
  phys_sector_size :: int
  dev_length :: PedSector
  bios_cylinders :: int
  bios_heads :: int
  bios_sectors :: int

record PedGeometry =
  g_dev :: PedDevice
  g_start :: PedSector
  g_length :: PedSector
  g_end :: PedSector

text \<open>The exceptions the modelled code throws, by their message.\<close>

datatype PedException =
    EndBeforeStart
  | OutsideDisk
  | WriteOutsidePartition
  | NoExtendedSupport
  | TooManyPrimary
  | NoExtendedPartition
  | MoreThanOneExtended
  | LogicalOutsideExtended
  | OverlappingPartitions
  | PrimaryInsideExtended
  | FlagNotAvailable
  | NamesNotSupported
  | UnknownFlag
  | LabelFailure
  | AssertionFailed

section \<open>Construction\<close>

definition ped_geometry_set ::
  "PedGeometry \<Rightarrow> PedSector \<Rightarrow> PedSector \<Rightarrow> PedException option \<times> PedGeometry" where
  "ped_geometry_set geom start len =
     (if len < 1 then (Some EndBeforeStart, geom)
      else if start < 0 \<or> s64 (s64 (start + len) - 1) \<ge> dev_length (g_dev geom)
      then (Some OutsideDisk, geom)
      else (None, geom\<lparr>g_start := start, g_length := len,
                       g_end := s64 (s64 (start + len) - 1)\<rparr>))"

definition ped_geometry_init ::
  "PedGeometry \<Rightarrow> PedDevice \<Rightarrow> PedSector \<Rightarrow> PedSector \<Rightarrow> PedException option \<times> PedGeometry" where
  "ped_geometry_init geom dev start len =
     ped_geometry_set (geom\<lparr>g_dev := dev\<rparr>) start len"

text \<open>\<open>ped_malloc\<close> returns memory of unspecified content, which \<open>ped_geometry_init\<close>
  overwrites: any record will do.\<close>

definition fresh_geometry :: "PedDevice \<Rightarrow> PedGeometry" where
  "fresh_geometry dev = \<lparr>g_dev = dev, g_start = 0, g_length = 0, g_end = 0\<rparr>"

definition ped_geometry_new :: "PedDevice \<Rightarrow> PedSector \<Rightarrow> PedSector \<Rightarrow> PedGeometry option" where
  "ped_geometry_new dev start len =
     (case ped_geometry_init (fresh_geometry dev) dev start len of
        (None, geom) \<Rightarrow> Some geom
      | (Some _, _) \<Rightarrow> None)"

definition ped_geometry_duplicate :: "PedGeometry \<Rightarrow> PedGeometry option" where
  "ped_geometry_duplicate geom = ped_geometry_new (g_dev geom) (g_start geom) (g_length geom)"

definition PED_MAX :: "int \<Rightarrow> int \<Rightarrow> int" where
  "PED_MAX a b = (if a > b then a else b)"

definition PED_MIN :: "int \<Rightarrow> int \<Rightarrow> int" where
  "PED_MIN a b = (if a < b then a else b)"

definition ped_geometry_intersect ::
  "PedGeometry option \<Rightarrow> PedGeometry option \<Rightarrow> PedGeometry option" where
  "ped_geometry_intersect a b =
     (case (a, b) of
        (Some a, Some b) \<Rightarrow>
          if g_dev a \<noteq> g_dev b then None
          else let start = PED_MAX (g_start a) (g_start b);
                   end = PED_MIN (g_end a) (g_end b)
               in if start > end then None
                  else ped_geometry_new (g_dev a) start (s64 (s64 (end - start) + 1))
      | _ \<Rightarrow> None)"

definition ped_geometry_set_start ::
  "PedGeometry \<Rightarrow> PedSector \<Rightarrow> PedException option \<times> PedGeometry" where
  "ped_geometry_set_start geom start =
     ped_geometry_set geom start (s64 (s64 (g_end geom - start) + 1))"

definition ped_geometry_set_end ::
  "PedGeometry \<Rightarrow> PedSector \<Rightarrow> PedException option \<times> PedGeometry" where
  "ped_geometry_set_end geom end =
     ped_geometry_set geom (g_start geom) (s64 (s64 (end - g_start geom) + 1))"

section \<open>Tests\<close>

definition ped_geometry_test_overlap :: "PedGeometry \<Rightarrow> PedGeometry \<Rightarrow> bool" where
  "ped_geometry_test_overlap a b =
     (if g_dev a \<noteq> g_dev b then False
      else if g_start a < g_start b then g_end a \<ge> g_start b
      else g_end b \<ge> g_start a)"

definition ped_geometry_test_inside :: "PedGeometry \<Rightarrow> PedGeometry \<Rightarrow> bool" where
  "ped_geometry_test_inside a b =
     (if g_dev a \<noteq> g_dev b then False
      else g_start b \<ge> g_start a \<and> g_end b \<le> g_end a)"

definition ped_geometry_test_equal :: "PedGeometry \<Rightarrow> PedGeometry \<Rightarrow> bool" where
  "ped_geometry_test_equal a b \<longleftrightarrow>
     g_dev a = g_dev b \<and> g_start a = g_start b \<and> g_end a = g_end b"

definition ped_geometry_test_sector_inside :: "PedGeometry \<Rightarrow> PedSector \<Rightarrow> bool" where
  "ped_geometry_test_sector_inside geom sector \<longleftrightarrow>
     sector \<ge> g_start geom \<and> sector \<le> g_end geom"

section \<open>Access\<close>

text \<open>
  \<open>dread dev start count\<close> is \<open>ped_device_read\<close> (\<open>None\<close> when it fails, else the sectors
  read), \<open>dwrite\<close> the status and new content of \<open>ped_device_write\<close>: both go to the
  operating system. \<open>ignore\<close> is the answer of the exception handler.
\<close>

definition ped_geometry_read ::
  "(PedDevice \<Rightarrow> PedSector \<Rightarrow> PedSector \<Rightarrow> 'b option) \<Rightarrow>
   PedGeometry \<Rightarrow> PedSector \<Rightarrow> PedSector \<Rightarrow> 'b option" where
  "ped_geometry_read dread geom offset count =
     (if \<not> offset \<ge> 0 then None
      else if \<not> count \<ge> 0 then None
      else let real_start = s64 (g_start geom + offset)
           in if s64 (s64 (real_start + count) - 1) > g_end geom then None
              else dread (g_dev geom) real_start count)"

definition ped_geometry_write ::
  "(PedDevice \<Rightarrow> PedSector \<Rightarrow> PedSector \<Rightarrow> 'd \<Rightarrow> bool \<times> 'd) \<Rightarrow> bool \<Rightarrow>
   PedGeometry \<Rightarrow> PedSector \<Rightarrow> PedSector \<Rightarrow> 'd \<Rightarrow> bool \<times> 'd" where
  "ped_geometry_write dwrite ignore geom offset count disk =
     (if \<not> offset \<ge> 0 then (False, disk)
      else if \<not> count \<ge> 0 then (False, disk)
      else let real_start = s64 (g_start geom + offset)
           in if s64 (s64 (real_start + count) - 1) > g_end geom then (ignore, disk)
              else dwrite (g_dev geom) real_start count disk)"

definition ped_geometry_map :: "PedGeometry \<Rightarrow> PedGeometry \<Rightarrow> PedSector \<Rightarrow> PedSector" where
  "ped_geometry_map dst src sector =
     (if \<not> ped_geometry_test_sector_inside src sector then -1
      else if g_dev dst \<noteq> g_dev src then -1
      else let result = s64 (s64 (g_start src + sector) - g_start dst)
           in if result < 0 \<or> result > g_length dst then -1 else result)"


section \<open>Well-formed devices and geometries\<close>

text \<open>
  \<open>geometry_ok\<close> is the list of conditions at the head of geom.c. Devices are at most
  \<open>2 ^ 61\<close> sectors long, so that a sum of two sector numbers or lengths does not wrap.
\<close>

definition dev_ok :: "PedDevice \<Rightarrow> bool" where
  "dev_ok d \<longleftrightarrow> 0 < dev_length d \<and> dev_length d \<le> 2 ^ 61"

definition geometry_ok :: "PedGeometry \<Rightarrow> bool" where
  "geometry_ok g \<longleftrightarrow>
     dev_ok (g_dev g) \<and> g_start g + g_length g - 1 = g_end g \<and> g_length g > 0 \<and>
     g_start g \<ge> 0 \<and> g_end g < dev_length (g_dev g)"

text \<open>A device of a given length, for the concrete instances of the theorems.\<close>

definition sample_dev :: "PedSector \<Rightarrow> PedDevice" where
  "sample_dev n = \<lparr>dev_addr = 1, dev_path = ''/dev/rdsk/c0t0d0p0'', sector_size = 512,
     phys_sector_size = 512, dev_length = n, bios_cylinders = 1024, bios_heads = 255,
     bios_sectors = 63\<rparr>"

text \<open>The sectors a geometry pointer describes; \<open>NULL\<close> describes none.\<close>

definition region :: "PedGeometry option \<Rightarrow> (PedDevice \<times> PedSector) set" where
  "region go = (case go of None \<Rightarrow> {} | Some g \<Rightarrow> {(d, s). d = g_dev g \<and> g_start g \<le> s \<and> s \<le> g_end g})"

definition geometry_opt_ok :: "PedGeometry option \<Rightarrow> bool" where
  "geometry_opt_ok go = (case go of None \<Rightarrow> True | Some g \<Rightarrow> geometry_ok g)"

lemma geometry_opt_ok_simps [simp]:
  "geometry_opt_ok None" "geometry_opt_ok (Some g) = geometry_ok g"
  by (simp_all add: geometry_opt_ok_def)

lemma region_None [simp]: "region None = {}"
  by (simp add: region_def)

lemma region_Some:
  "region (Some g) = {(d, s). d = g_dev g \<and> g_start g \<le> s \<and> s \<le> g_end g}"
  by (simp add: region_def)

lemma geometry_okD:
  assumes "geometry_ok g"
  shows "0 \<le> g_start g" "g_start g \<le> g_end g" "g_end g < dev_length (g_dev g)"
    "dev_length (g_dev g) \<le> 2 ^ 61" "0 < dev_length (g_dev g)"
    "g_length g = g_end g - g_start g + 1"
  using assms by (auto simp: geometry_ok_def dev_ok_def)

lemma region_Int_nonempty:
  "region (Some a) \<inter> region (Some b) \<noteq> {} \<longleftrightarrow>
   g_dev a = g_dev b \<and> max (g_start a) (g_start b) \<le> min (g_end a) (g_end b)"
proof
  assume "region (Some a) \<inter> region (Some b) \<noteq> {}"
  then show "g_dev a = g_dev b \<and> max (g_start a) (g_start b) \<le> min (g_end a) (g_end b)"
    by (auto simp: region_Some)
next
  assume "g_dev a = g_dev b \<and> max (g_start a) (g_start b) \<le> min (g_end a) (g_end b)"
  then have "(g_dev a, max (g_start a) (g_start b)) \<in> region (Some a) \<inter> region (Some b)"
    by (auto simp: region_Some)
  then show "region (Some a) \<inter> region (Some b) \<noteq> {}" by blast
qed

lemma region_subset:
  assumes "g_start a \<le> g_end a"
  shows "region (Some a) \<subseteq> region (Some b) \<longleftrightarrow>
    g_dev a = g_dev b \<and> g_start b \<le> g_start a \<and> g_end a \<le> g_end b"
proof
  assume s: "region (Some a) \<subseteq> region (Some b)"
  have "(g_dev a, g_start a) \<in> region (Some a)" "(g_dev a, g_end a) \<in> region (Some a)"
    using assms by (auto simp: region_Some)
  with s have "(g_dev a, g_start a) \<in> region (Some b)" "(g_dev a, g_end a) \<in> region (Some b)"
    by blast+
  then show "g_dev a = g_dev b \<and> g_start b \<le> g_start a \<and> g_end a \<le> g_end b"
    by (auto simp: region_Some)
qed (auto simp: region_Some)

lemma ped_geometry_set_in_range:
  assumes "dev_ok (g_dev geom)" "0 \<le> start" "1 \<le> len" "start + len \<le> dev_length (g_dev geom)"
  shows "ped_geometry_set geom start len =
    (None, geom\<lparr>g_start := start, g_length := len, g_end := start + len - 1\<rparr>)"
  using assms by (simp add: ped_geometry_set_def dev_ok_def s64_id)

lemma ped_geometry_new_in_range:
  assumes "dev_ok dev" "0 \<le> start" "1 \<le> len" "start + len \<le> dev_length dev"
  shows "ped_geometry_new dev start len =
    Some \<lparr>g_dev = dev, g_start = start, g_length = len, g_end = start + len - 1\<rparr>"
  using assms
  by (simp add: ped_geometry_new_def ped_geometry_init_def fresh_geometry_def
      ped_geometry_set_in_range)

lemma geometry_ok_make:
  "dev_ok dev \<Longrightarrow> 0 \<le> start \<Longrightarrow> 1 \<le> len \<Longrightarrow> start + len \<le> dev_length dev \<Longrightarrow>
   geometry_ok \<lparr>g_dev = dev, g_start = start, g_length = len, g_end = start + len - 1\<rparr>"
  by (simp add: geometry_ok_def)

lemma ped_geometry_duplicate_ok:
  "geometry_ok g \<Longrightarrow> ped_geometry_duplicate g = Some g"
  by (auto simp: ped_geometry_duplicate_def geometry_ok_def ped_geometry_new_in_range)

text \<open>The intersection of two well-formed geometries, spelled out.\<close>

lemma ped_geometry_intersect_ok:
  assumes "geometry_ok a" "geometry_ok b"
  shows "ped_geometry_intersect (Some a) (Some b) =
    (if g_dev a = g_dev b \<and> max (g_start a) (g_start b) \<le> min (g_end a) (g_end b)
     then Some \<lparr>g_dev = g_dev a, g_start = max (g_start a) (g_start b),
                g_length = min (g_end a) (g_end b) - max (g_start a) (g_start b) + 1,
                g_end = min (g_end a) (g_end b)\<rparr>
     else None)"
proof -
  have mx: "PED_MAX x y = max x y" and mn: "PED_MIN x y = min x y" for x y
    by (auto simp: PED_MAX_def PED_MIN_def)
  define st where "st = max (g_start a) (g_start b)"
  define en where "en = min (g_end a) (g_end b)"
  have b: "0 \<le> st" "en < dev_length (g_dev a)" "dev_ok (g_dev a)" "dev_length (g_dev a) \<le> 2 ^ 61"
    using geometry_okD [OF assms(1)] geometry_okD [OF assms(2)] assms
    by (auto simp: geometry_ok_def st_def en_def)
  then have "s64 (en - st + 1) = en - st + 1" if "st \<le> en"
    using that by (intro s64_id) auto
  with b show ?thesis
    by (auto simp: ped_geometry_intersect_def mx mn Let_def ped_geometry_new_in_range
        simp flip: st_def en_def)
qed

lemma ped_geometry_intersect_None [simp]:
  "ped_geometry_intersect None b = None" "ped_geometry_intersect a None = None"
  by (cases a; simp add: ped_geometry_intersect_def)+

interpretation geom_meet: closed_meet region geometry_opt_ok ped_geometry_intersect
proof
  show "region None = {}" by simp
next
  fix a b assume ok: "geometry_opt_ok a" "geometry_opt_ok b"
  show "region (ped_geometry_intersect a b) = region a \<inter> region b"
    using ok by (cases a; cases b)
      (auto simp: ped_geometry_intersect_ok region_Some)
  show "geometry_opt_ok (ped_geometry_intersect a b)"
    using ok by (cases a; cases b)
      (auto simp: ped_geometry_intersect_ok, auto simp: geometry_ok_def)
qed


section \<open>Properties\<close>

text \<open>
  Remark. \<open>ped_geometry_set\<close> on a valid device, with a start and a length whose sum does not
  overflow: it succeeds exactly for a non-empty region inside the device, and then the geometry
  is well formed and has the requested start and length; otherwise it throws and leaves the
  geometry as it was.
\<close>

theorem ped_geometry_set_correct:
  assumes "dev_ok (g_dev geom)" and "in_s64 start" and "in_s64 len" and "start + len < 2 ^ 63"
  shows "case ped_geometry_set geom start len of
      (None, g) \<Rightarrow> geometry_ok g \<and> g_dev g = g_dev geom \<and> g_start g = start \<and> g_length g = len
        \<and> 0 \<le> start \<and> 1 \<le> len \<and> start + len \<le> dev_length (g_dev geom)
    | (Some e, g) \<Rightarrow> g = geom \<and>
        e = (if len < 1 then EndBeforeStart else OutsideDisk) \<and>
        (len < 1 \<or> start < 0 \<or> dev_length (g_dev geom) < start + len)"
proof (cases "len < 1 \<or> start < 0")
  case True
  then show ?thesis by (auto simp: ped_geometry_set_def)
next
  case False
  with assms have "s64 (start + len - 1) = start + len - 1"
    by (intro s64_id) (auto simp: in_s64_def)
  with False assms show ?thesis
    by (auto simp: ped_geometry_set_def geometry_ok_def)
qed

theorem ped_geometry_set_correct_witness:
  "let g = \<lparr>g_dev = sample_dev 1000, g_start = 0, g_length = 10, g_end = 9\<rparr>
   in dev_ok (g_dev g) \<and> in_s64 63 \<and> in_s64 937 \<and> in_s64 938 \<and>
      geometry_ok (snd (ped_geometry_set g 63 937)) \<and>
      ped_geometry_set g 63 938 = (Some OutsideDisk, g)"
proof -
  let ?g = "\<lparr>g_dev = sample_dev 1000, g_start = 0, g_length = 10, g_end = 9\<rparr> :: PedGeometry"
  have h: "dev_ok (g_dev ?g)" "in_s64 63" "in_s64 937" "in_s64 938"
    by (simp_all add: dev_ok_def in_s64_def sample_dev_def)
  have e: "fst (ped_geometry_set ?g 63 937) = None"
    "fst (ped_geometry_set ?g 63 938) = Some OutsideDisk"
    by (simp_all add: ped_geometry_set_def s64_def sample_dev_def)
  from ped_geometry_set_correct [OF h(1,2,3)] ped_geometry_set_correct [OF h(1,2,4)] e h
  show ?thesis
    by (auto simp: Let_def split: prod.splits option.splits)
qed

text \<open>
  Remark. The bounds check of \<open>ped_geometry_set\<close> is made on a sum that can wrap: on every
  device there are a start and a length, both valid \<open>PedSector\<close> values, for which it reports
  success and stores a region with a negative end.
\<close>

theorem ped_geometry_set_overflow:
  assumes "dev_ok (g_dev geom)"
  shows "\<exists>start len g'. in_s64 start \<and> in_s64 len \<and>
     ped_geometry_set geom start len = (None, g') \<and> g_end g' < 0 \<and> \<not> geometry_ok g'"
proof -
  have "in_s64 (2 ^ 62)" "in_s64 (2 ^ 62 + 1)"
    by (simp_all add: in_s64_def)
  moreover have "ped_geometry_set geom (2 ^ 62) (2 ^ 62 + 1) =
     (None, geom\<lparr>g_start := 2 ^ 62, g_length := 2 ^ 62 + 1, g_end := - (2 ^ 63)\<rparr>)"
    using assms by (simp add: ped_geometry_set_def s64_def dev_ok_def)
  ultimately show ?thesis
    by (intro exI conjI) (assumption | simp add: geometry_ok_def)+
qed

theorem ped_geometry_set_overflow_witness:
  "dev_ok (sample_dev 1000) \<and>
   (\<exists>start len g'. in_s64 start \<and> in_s64 len \<and>
     ped_geometry_set \<lparr>g_dev = sample_dev 1000, g_start = 0, g_length = 10, g_end = 9\<rparr> start len
       = (None, g') \<and> g_end g' < 0 \<and> \<not> geometry_ok g')"
proof -
  have h: "dev_ok (g_dev \<lparr>g_dev = sample_dev 1000, g_start = 0, g_length = 10, g_end = 9\<rparr>)"
    by (simp add: dev_ok_def sample_dev_def)
  from ped_geometry_set_overflow [OF h] h show ?thesis by simp
qed

text \<open>
  Remark. \<open>ped_geometry_intersect\<close> computes the intersection of the two regions, for all
  well-formed geometries, \<open>NULL\<close> and different devices included, and its result is well formed.
\<close>

theorem ped_geometry_intersect_region:
  assumes "geometry_opt_ok a" and "geometry_opt_ok b"
  shows "region (ped_geometry_intersect a b) = region a \<inter> region b \<and>
    geometry_opt_ok (ped_geometry_intersect a b)"
  using assms by (simp add: geom_meet.sat_meet geom_meet.ok_meet)

theorem ped_geometry_intersect_region_witness:
  "let a = Some \<lparr>g_dev = sample_dev 1000, g_start = 10, g_length = 90, g_end = 99\<rparr>;
       b = Some \<lparr>g_dev = sample_dev 1000, g_start = 50, g_length = 100, g_end = 149\<rparr>
   in geometry_opt_ok a \<and> geometry_opt_ok b \<and>
      region (ped_geometry_intersect a b) = region a \<inter> region b"
proof -
  let ?a = "Some \<lparr>g_dev = sample_dev 1000, g_start = 10, g_length = 90, g_end = 99\<rparr>"
  let ?b = "Some \<lparr>g_dev = sample_dev 1000, g_start = 50, g_length = 100, g_end = 149\<rparr>"
  have h: "geometry_opt_ok ?a" "geometry_opt_ok ?b"
    by (simp_all add: geometry_ok_def dev_ok_def sample_dev_def)
  from ped_geometry_intersect_region [OF h] h show ?thesis by simp
qed

text \<open>
  Remark. The three tests decide the relation between the regions that their names promise:
  a common sector, inclusion, equality.
\<close>

theorem ped_geometry_tests_region:
  assumes "geometry_ok a" and "geometry_ok b"
  shows "(ped_geometry_test_overlap a b \<longleftrightarrow> region (Some a) \<inter> region (Some b) \<noteq> {}) \<and>
    (ped_geometry_test_inside a b \<longleftrightarrow> region (Some b) \<subseteq> region (Some a)) \<and>
    (ped_geometry_test_equal a b \<longleftrightarrow> region (Some a) = region (Some b))"
proof (intro conjI)
  note ok = geometry_okD [OF assms(1)] geometry_okD [OF assms(2)]
  from ok show "ped_geometry_test_overlap a b \<longleftrightarrow> region (Some a) \<inter> region (Some b) \<noteq> {}"
    unfolding region_Int_nonempty ped_geometry_test_overlap_def by auto
  note sub = region_subset [OF ok(2)] region_subset [OF ok(8)]
  from sub show "ped_geometry_test_inside a b \<longleftrightarrow> region (Some b) \<subseteq> region (Some a)"
    by (auto simp: ped_geometry_test_inside_def)
  show "ped_geometry_test_equal a b \<longleftrightarrow> region (Some a) = region (Some b)"
    unfolding ped_geometry_test_equal_def set_eq_subset sub by auto
qed

theorem ped_geometry_tests_region_witness:
  "let a = \<lparr>g_dev = sample_dev 1000, g_start = 10, g_length = 90, g_end = 99\<rparr>;
       b = \<lparr>g_dev = sample_dev 1000, g_start = 50, g_length = 10, g_end = 59\<rparr>
   in geometry_ok a \<and> geometry_ok b \<and> ped_geometry_test_inside a b \<and>
      region (Some b) \<subseteq> region (Some a)"
proof -
  let ?a = "\<lparr>g_dev = sample_dev 1000, g_start = 10, g_length = 90, g_end = 99\<rparr> :: PedGeometry"
  let ?b = "\<lparr>g_dev = sample_dev 1000, g_start = 50, g_length = 10, g_end = 59\<rparr> :: PedGeometry"
  have h: "geometry_ok ?a" "geometry_ok ?b"
    by (simp_all add: geometry_ok_def dev_ok_def sample_dev_def)
  have "ped_geometry_test_inside ?a ?b"
    by (simp add: ped_geometry_test_inside_def)
  with ped_geometry_tests_region [OF h] h show ?thesis by simp
qed

text \<open>
  Remark. A read or a write through a geometry reaches the device only with sectors of the region:
  it either is refused (the device is not touched) or is the device operation on
  \<open>count\<close> sectors from \<open>start + offset\<close>, all of them inside the region.
\<close>

theorem ped_geometry_access_inside:
  assumes "geometry_ok geom" and "in_s64 offset" and "in_s64 count" and "offset + count < 2 ^ 62"
  shows "(if 0 \<le> offset \<and> 0 \<le> count \<and> offset + count \<le> g_length geom
     then ped_geometry_read dread geom offset count = dread (g_dev geom) (g_start geom + offset) count \<and>
       ped_geometry_write dwrite ignore geom offset count disk
         = dwrite (g_dev geom) (g_start geom + offset) count disk \<and>
       (\<forall>s. g_start geom + offset \<le> s \<and> s < g_start geom + offset + count \<longrightarrow>
          ped_geometry_test_sector_inside geom s)
     else ped_geometry_read dread geom offset count = None \<and>
       snd (ped_geometry_write dwrite ignore geom offset count disk) = disk)"
proof (cases "0 \<le> offset \<and> 0 \<le> count")
  case False
  then show ?thesis
    by (auto simp: ped_geometry_read_def ped_geometry_write_def)
next
  case True
  note ok = geometry_okD [OF assms(1)]
  from ok assms True have w: "s64 (g_start geom + offset) = g_start geom + offset"
    "s64 (g_start geom + offset + count - 1) = g_start geom + offset + count - 1"
    by (auto intro!: s64_id)
  from True w ok show ?thesis
    by (auto simp: ped_geometry_read_def ped_geometry_write_def Let_def
        ped_geometry_test_sector_inside_def)
qed

theorem ped_geometry_access_inside_witness:
  "let g = \<lparr>g_dev = sample_dev 1000, g_start = 10, g_length = 90, g_end = 99\<rparr>
   in geometry_ok g \<and>
      ped_geometry_read (\<lambda>d s c. Some (s, c)) g 5 85 = Some (15, 85) \<and>
      ped_geometry_read (\<lambda>d s c. Some (s, c)) g 5 86 = None"
proof -
  let ?g = "\<lparr>g_dev = sample_dev 1000, g_start = 10, g_length = 90, g_end = 99\<rparr> :: PedGeometry"
  have h: "geometry_ok ?g" "in_s64 5" "in_s64 85" "in_s64 86"
    by (simp_all add: geometry_ok_def dev_ok_def sample_dev_def in_s64_def)
  from ped_geometry_access_inside [OF h(1,2,3), of "\<lambda>d s c. Some (s, c)" "\<lambda>d s c k. (True, k)" False "()"]
    ped_geometry_access_inside [OF h(1,2,4), of "\<lambda>d s c. Some (s, c)" "\<lambda>d s c k. (True, k)" False "()"] h
  show ?thesis by (simp add: Let_def)
qed

text \<open>
  Remark. \<open>ped_geometry_map\<close> does not do what its comment says: onto itself, a geometry that starts
  further from the beginning of the device than it is long maps no sector at all, neither one
  counted from its start (as the comment and the formula do) nor one counted from the start of
  the device (as the test does), although every sector is in the overlap.
\<close>

theorem ped_geometry_map_self_fails:
  assumes "geometry_ok g" and "g_length g < g_start g"
  shows "ped_geometry_map g g sector = -1"
proof (cases "ped_geometry_test_sector_inside g sector")
  case True
  with geometry_okD [OF assms(1)] have "s64 sector = sector"
    by (auto simp: ped_geometry_test_sector_inside_def intro!: s64_id)
  with True assms show ?thesis
    by (simp add: ped_geometry_map_def ped_geometry_test_sector_inside_def)
qed (simp add: ped_geometry_map_def)

theorem ped_geometry_map_self_fails_witness:
  "let g = \<lparr>g_dev = sample_dev 1000, g_start = 100, g_length = 50, g_end = 149\<rparr>
   in geometry_ok g \<and> g_length g < g_start g \<and>
      ped_geometry_map g g 10 = -1 \<and> ped_geometry_map g g 110 = -1"
proof -
  let ?g = "\<lparr>g_dev = sample_dev 1000, g_start = 100, g_length = 50, g_end = 149\<rparr> :: PedGeometry"
  have h: "geometry_ok ?g" "g_length ?g < g_start ?g"
    by (simp_all add: geometry_ok_def dev_ok_def sample_dev_def)
  from ped_geometry_map_self_fails [OF h] h show ?thesis by simp
qed

end
