(* ===== verification/Ped_Natmath.thy ===== *)
theory Ped_Natmath
  imports Ped_Geom
begin

text \<open>
  Rounding and alignments: \<^verbatim>\<open>libparted/cs/natmath.c\<close>.

  An alignment describes the sectors \<open>offset + X * grain_size\<close>; a grain size of 0 describes the
  single sector \<open>offset\<close>, and a \<open>NULL\<close> pointer (\<open>None\<close>) no sector. \<open>extended_euclid\<close>
  takes C \<open>int\<close> arguments and \<open>closest\<close> calls the C function \<open>abs\<close> on \<open>int\<close>, so both
  convert their 64-bit arguments; the conversions are written as \<open>s32\<close>.
\<close>

section \<open>Rounding\<close>

definition abs_mod :: "PedSector \<Rightarrow> PedSector \<Rightarrow> PedSector" where
  "abs_mod a b = (if a < 0 then s64 (a smod b + b) else a smod b)"

definition ped_round_down_to :: "PedSector \<Rightarrow> PedSector \<Rightarrow> PedSector" where
  "ped_round_down_to sector grain_size = s64 (sector - abs_mod sector grain_size)"

definition ped_div_round_up :: "PedSector \<Rightarrow> PedSector \<Rightarrow> PedSector" where
  "ped_div_round_up numerator divisor = s64 (s64 (numerator + divisor) - 1) sdiv divisor"

definition ped_div_round_to_nearest :: "PedSector \<Rightarrow> PedSector \<Rightarrow> PedSector" where
  "ped_div_round_to_nearest numerator divisor = s64 (numerator + divisor sdiv 2) sdiv divisor"

definition ped_round_up_to :: "PedSector \<Rightarrow> PedSector \<Rightarrow> PedSector" where
  "ped_round_up_to sector grain_size =
     (if sector smod grain_size \<noteq> 0 then s64 (ped_round_down_to sector grain_size + grain_size)
      else sector)"

definition ped_round_to_nearest :: "PedSector \<Rightarrow> PedSector \<Rightarrow> PedSector" where
  "ped_round_to_nearest sector grain_size =
     (if sector smod grain_size > grain_size sdiv 2 then ped_round_up_to sector grain_size
      else ped_round_down_to sector grain_size)"

function ped_greatest_common_divisor :: "PedSector \<Rightarrow> PedSector \<Rightarrow> PedSector" where
  "ped_greatest_common_divisor a b =
     (if \<not> a \<ge> 0 then 0
      else if \<not> b \<ge> 0 then 0
      else if b > a then ped_greatest_common_divisor b a
      else if b \<noteq> 0 then ped_greatest_common_divisor b (a smod b)
      else a)"
  by pat_completeness auto
termination
  by (relation "measures [\<lambda>(a, b). nat b, \<lambda>(a, b). nat (b - a)]")
    (auto simp: smod_nonneg)

declare ped_greatest_common_divisor.simps [simp del]

section \<open>Alignments\<close>

record PedAlignment =
  offset :: PedSector
  grain_size :: PedSector

definition ped_alignment_init :: "PedSector \<Rightarrow> PedSector \<Rightarrow> PedAlignment option" where
  "ped_alignment_init off grain =
     (if grain < 0 then None
      else Some \<lparr>offset = (if grain \<noteq> 0 then abs_mod off grain else off), grain_size = grain\<rparr>)"

definition ped_alignment_new :: "PedSector \<Rightarrow> PedSector \<Rightarrow> PedAlignment option" where
  "ped_alignment_new off grain = ped_alignment_init off grain"

definition ped_alignment_any :: "PedAlignment option" where
  "ped_alignment_any = Some \<lparr>offset = 0, grain_size = 1\<rparr>"

definition ped_alignment_none :: "PedAlignment option" where
  "ped_alignment_none = None"

definition ped_alignment_duplicate :: "PedAlignment option \<Rightarrow> PedAlignment option" where
  "ped_alignment_duplicate align =
     (case align of None \<Rightarrow> None | Some al \<Rightarrow> ped_alignment_new (offset al) (grain_size al))"

record EuclidTriple =
  e_gcd :: PedSector
  e_x :: PedSector
  e_y :: PedSector

function extended_euclid :: "int \<Rightarrow> int \<Rightarrow> EuclidTriple" where
  "extended_euclid a b =
     (if b = 0 then \<lparr>e_gcd = a, e_x = 1, e_y = 0\<rparr>
      else let tmp = extended_euclid b (a smod b)
           in \<lparr>e_gcd = e_gcd tmp, e_x = e_y tmp, e_y = s64 (e_x tmp - s64 ((a sdiv b) * e_y tmp))\<rparr>)"
  by pat_completeness auto
termination
  by (relation "measure (\<lambda>(a, b). nat \<bar>b\<bar>)") (auto simp: abs_smod_less)

declare extended_euclid.simps [simp del]

definition ped_alignment_intersect ::
  "PedAlignment option \<Rightarrow> PedAlignment option \<Rightarrow> PedAlignment option" where
  "ped_alignment_intersect ao bo =
     (case (ao, bo) of
        (Some a0, Some b0) \<Rightarrow>
          let (a, b) = (if grain_size a0 < grain_size b0 then (b0, a0) else (a0, b0))
          in if grain_size a = 0 \<and> grain_size b = 0
             then (if offset a = offset b then ped_alignment_duplicate (Some a) else None)
             else
               let gcd_factors = extended_euclid (s32 (grain_size a)) (s32 (grain_size b));
                   delta_on_gcd = s64 (offset b - offset a) sdiv e_gcd gcd_factors;
                   new_offset =
                     s64 (offset a + s64 (s64 (e_x gcd_factors * delta_on_gcd) * grain_size a));
                   new_grain_size = s64 (grain_size a * grain_size b) sdiv e_gcd gcd_factors
               in if new_offset \<noteq>
                     s64 (offset b - s64 (s64 (e_y gcd_factors * delta_on_gcd) * grain_size b))
                  then None
                  else ped_alignment_new new_offset new_grain_size
      | _ \<Rightarrow> None)"

definition ped_alignment_is_aligned ::
  "PedAlignment option \<Rightarrow> PedGeometry option \<Rightarrow> PedSector \<Rightarrow> bool" where
  "ped_alignment_is_aligned align geom sector =
     (case align of
        None \<Rightarrow> False
      | Some al \<Rightarrow>
          if (case geom of None \<Rightarrow> False | Some g \<Rightarrow> \<not> ped_geometry_test_sector_inside g sector)
          then False
          else if grain_size al \<noteq> 0 then s64 (sector - offset al) smod grain_size al = 0
          else sector = offset al)"

definition closest_inside_geometry ::
  "PedAlignment \<Rightarrow> PedGeometry \<Rightarrow> PedSector \<Rightarrow> PedSector" where
  "closest_inside_geometry align geom sector =
     (if grain_size align = 0 then
        (if ped_alignment_is_aligned (Some align) (Some geom) sector
            \<and> ped_geometry_test_sector_inside geom sector
         then sector else -1)
      else
        let sector1 =
              (if sector < g_start geom
               then s64 (sector + ped_round_up_to (s64 (g_start geom - sector)) (grain_size align))
               else sector);
            sector2 =
              (if sector1 > g_end geom
               then s64 (sector1 - ped_round_up_to (s64 (sector1 - g_end geom)) (grain_size align))
               else sector1)
        in if \<not> ped_geometry_test_sector_inside geom sector2 then -1 else sector2)"

definition ped_alignment_align_up ::
  "PedAlignment option \<Rightarrow> PedGeometry option \<Rightarrow> PedSector \<Rightarrow> PedSector" where
  "ped_alignment_align_up align geom sector =
     (case align of
        None \<Rightarrow> -1
      | Some al \<Rightarrow>
          let result =
            (if grain_size al = 0 then offset al
             else s64 (ped_round_up_to (s64 (sector - offset al)) (grain_size al) + offset al))
          in case geom of None \<Rightarrow> result | Some g \<Rightarrow> closest_inside_geometry al g result)"

definition ped_alignment_align_down ::
  "PedAlignment option \<Rightarrow> PedGeometry option \<Rightarrow> PedSector \<Rightarrow> PedSector" where
  "ped_alignment_align_down align geom sector =
     (case align of
        None \<Rightarrow> -1
      | Some al \<Rightarrow>
          let result =
            (if grain_size al = 0 then offset al
             else s64 (ped_round_down_to (s64 (sector - offset al)) (grain_size al) + offset al))
          in case geom of None \<Rightarrow> result | Some g \<Rightarrow> closest_inside_geometry al g result)"

text \<open>\<open>abs\<close> is the C library's, on \<open>int\<close>: its argument is converted to 32 bits.\<close>

definition c_abs :: "int \<Rightarrow> int" where
  "c_abs x = s32 \<bar>s32 x\<bar>"

definition closest :: "PedSector \<Rightarrow> PedSector \<Rightarrow> PedSector \<Rightarrow> PedSector" where
  "closest sector a b =
     (if a = -1 then b
      else if b = -1 then a
      else if c_abs (s64 (sector - a)) < c_abs (s64 (sector - b)) then a else b)"

definition ped_alignment_align_nearest ::
  "PedAlignment option \<Rightarrow> PedGeometry option \<Rightarrow> PedSector \<Rightarrow> PedSector" where
  "ped_alignment_align_nearest align geom sector =
     (case align of
        None \<Rightarrow> -1
      | Some _ \<Rightarrow> closest sector (ped_alignment_align_up align geom sector)
                    (ped_alignment_align_down align geom sector))"


section \<open>Rounding: lemmas\<close>

lemma abs_mod_eq:
  assumes "0 < b" "b \<le> 2 ^ 62"
  shows "abs_mod a b = (if a < 0 \<and> b dvd a then b else a mod b)"
proof (cases "a < 0")
  case True
  have r: "0 \<le> (- a) mod b" "(- a) mod b < b"
    using assms by auto
  have "s64 (a smod b + b) = b - (- a) mod b"
    using True assms r by (simp add: smod_neg s64_id)
  moreover have "b - (- a) mod b = (if b dvd a then b else a mod b)"
    using assms by (simp add: zmod_zminus1_eq_if dvd_eq_mod_eq_0)
  ultimately show ?thesis
    using True by (simp add: abs_mod_def)
next
  case False
  with assms show ?thesis by (simp add: abs_mod_def smod_nonneg)
qed

lemma abs_mod_bounds: "0 < b \<Longrightarrow> b \<le> 2 ^ 62 \<Longrightarrow> 0 \<le> abs_mod a b \<and> abs_mod a b \<le> b"
  by (simp add: abs_mod_eq order_less_imp_le)

lemma abs_mod_dvd: "0 < b \<Longrightarrow> b \<le> 2 ^ 62 \<Longrightarrow> b dvd a - abs_mod a b"
  by (auto simp: abs_mod_eq)

text \<open>What a rounding result has to satisfy: \<open>m\<close> is the multiple of \<open>g\<close> next to \<open>x\<close>.\<close>

definition next_multiple :: "int \<Rightarrow> int \<Rightarrow> int \<Rightarrow> bool" where
  "next_multiple g x m \<longleftrightarrow> g dvd m \<and> x \<le> m \<and> m < x + g"

definition prev_multiple :: "int \<Rightarrow> int \<Rightarrow> int \<Rightarrow> bool" where
  "prev_multiple g x m \<longleftrightarrow> g dvd m \<and> m \<le> x \<and> x - g < m"

lemma ped_round_down_to_eq:
  assumes "0 < g" "g \<le> 2 ^ 61" "- (2 ^ 62) \<le> x" "x \<le> 2 ^ 62"
  shows "ped_round_down_to x g = (if x < 0 \<and> g dvd x then x - g else x - x mod g)"
proof -
  have "0 \<le> x mod g" "x mod g < g" using assms by auto
  with assms show ?thesis
    by (simp add: ped_round_down_to_def abs_mod_eq s64_id)
qed

lemma ped_round_down_to_prev:
  assumes "0 < g" "g \<le> 2 ^ 61" "- (2 ^ 62) \<le> x" "x \<le> 2 ^ 62" "0 \<le> x \<or> \<not> g dvd x"
  shows "prev_multiple g x (ped_round_down_to x g)"
proof -
  have "ped_round_down_to x g = x - x mod g"
    using assms by (auto simp: ped_round_down_to_eq)
  moreover have "0 \<le> x mod g" "x mod g < g" using assms by auto
  ultimately show ?thesis by (simp add: prev_multiple_def)
qed

lemma ped_round_up_to_next:
  assumes "0 < g" "g \<le> 2 ^ 61" "- (2 ^ 62) \<le> x" "x \<le> 2 ^ 62"
  shows "next_multiple g x (ped_round_up_to x g)"
proof (cases "g dvd x")
  case True
  then show ?thesis
    using assms by (simp add: ped_round_up_to_def smod_eq_0_iff_dvd next_multiple_def)
next
  case False
  have m: "0 \<le> x mod g" "x mod g < g" "x mod g \<noteq> 0"
    using assms False by (auto simp: dvd_eq_mod_eq_0)
  have "ped_round_up_to x g = x - x mod g + g"
    using assms False m
    by (simp add: ped_round_up_to_def smod_eq_0_iff_dvd ped_round_down_to_eq s64_id)
  with m show ?thesis by (auto simp: next_multiple_def)
qed

section \<open>Alignments: lemmas\<close>

text \<open>\<open>aligned_at al s\<close>: the sector is of the form \<open>offset + X * grain_size\<close>.\<close>

definition aligned_at :: "PedAlignment \<Rightarrow> PedSector \<Rightarrow> bool" where
  "aligned_at al s \<longleftrightarrow> (\<exists>X. s = offset al + X * grain_size al)"

definition aligned :: "PedAlignment option \<Rightarrow> PedSector set" where
  "aligned ao = (case ao of None \<Rightarrow> {} | Some al \<Rightarrow> {s. aligned_at al s})"

lemma aligned_at_dvd: "aligned_at al s \<longleftrightarrow> grain_size al dvd s - offset al"
  by (auto simp: aligned_at_def dvd_def algebra_simps)

lemma aligned_None [simp]: "aligned None = {}"
  by (simp add: aligned_def)

lemma aligned_Some: "aligned (Some al) = {s. grain_size al dvd s - offset al}"
  by (auto simp: aligned_def aligned_at_dvd)

text \<open>
  Well-formed alignments: the natmath.h conditions, with the bound that keeps the 64-bit
  arithmetic exact. A normalised offset may be equal to the grain size (see below).
\<close>

definition alignment_ok :: "PedAlignment \<Rightarrow> bool" where
  "alignment_ok al \<longleftrightarrow> 0 \<le> grain_size al \<and> grain_size al \<le> 2 ^ 40 \<and> 0 \<le> offset al \<and>
     offset al \<le> (if grain_size al = 0 then 2 ^ 61 else grain_size al)"

definition alignment_opt_ok :: "PedAlignment option \<Rightarrow> bool" where
  "alignment_opt_ok ao = (case ao of None \<Rightarrow> True | Some al \<Rightarrow> alignment_ok al)"

text \<open>The alignments that can be intersected without overflow.\<close>

definition alignment_small :: "PedAlignment option \<Rightarrow> bool" where
  "alignment_small ao =
     (case ao of None \<Rightarrow> True | Some al \<Rightarrow> alignment_ok al \<and> grain_size al \<le> 2 ^ 20)"

lemma alignment_okD:
  assumes "alignment_ok al"
  shows "0 \<le> grain_size al" "grain_size al \<le> 2 ^ 40" "0 \<le> offset al" "offset al \<le> 2 ^ 61"
    "grain_size al \<noteq> 0 \<Longrightarrow> offset al \<le> grain_size al"
  using assms by (auto simp: alignment_ok_def split: if_splits)

lemma ped_alignment_new_spec:
  assumes "0 \<le> g" "g \<le> 2 ^ 40" "g = 0 \<longrightarrow> 0 \<le> off \<and> off \<le> 2 ^ 61"
  obtains al where "ped_alignment_new off g = Some al" "alignment_ok al" "grain_size al = g"
    "aligned (Some al) = {s. g dvd s - off}"
proof (cases "g = 0")
  case True
  with assms show ?thesis
    by (intro that [of "\<lparr>offset = off, grain_size = 0\<rparr>"])
      (simp_all add: ped_alignment_new_def ped_alignment_init_def alignment_ok_def aligned_Some)
next
  case False
  have d: "g dvd off - abs_mod off g"
    using False assms by (intro abs_mod_dvd) auto
  have b: "0 \<le> abs_mod off g \<and> abs_mod off g \<le> g"
    using False assms by (intro abs_mod_bounds) auto
  have "g dvd s - abs_mod off g \<longleftrightarrow> g dvd s - off" for s
    using dvd_add_left_iff [OF d, of "s - off"] by simp
  with False assms b show ?thesis
    by (intro that [of "\<lparr>offset = abs_mod off g, grain_size = g\<rparr>"])
      (simp_all add: ped_alignment_new_def ped_alignment_init_def alignment_ok_def aligned_Some)
qed

lemma ped_alignment_duplicate_spec:
  assumes "alignment_ok al"
  obtains al' where "ped_alignment_duplicate (Some al) = Some al'" "alignment_ok al'"
    "grain_size al' = grain_size al" "aligned (Some al') = aligned (Some al)"
proof -
  have "grain_size al = 0 \<longrightarrow> 0 \<le> offset al \<and> offset al \<le> 2 ^ 61"
    using assms by (auto simp: alignment_ok_def)
  with alignment_okD [OF assms] obtain al' where
    "ped_alignment_new (offset al) (grain_size al) = Some al'" "alignment_ok al'"
    "grain_size al' = grain_size al" "aligned (Some al') = {s. grain_size al dvd s - offset al}"
    by (auto elim: ped_alignment_new_spec)
  then show ?thesis
    by (intro that [of al']) (simp_all add: ped_alignment_duplicate_def aligned_Some)
qed

section \<open>Euclid\<close>

lemma ped_greatest_common_divisor_eq:
  "0 \<le> a \<Longrightarrow> 0 \<le> b \<Longrightarrow> ped_greatest_common_divisor a b = gcd a b"
proof (induction a b rule: ped_greatest_common_divisor.induct)
  case (1 a b)
  consider "b > a" | "b \<le> a" "b \<noteq> 0" | "b = 0" by linarith
  then show ?case
  proof cases
    case 1
    with "1.IH" "1.prems" show ?thesis
      by (simp add: ped_greatest_common_divisor.simps [of a b] gcd.commute)
  next
    case 2
    with "1.prems" have "a smod b = a mod b" "0 \<le> a mod b" by (simp_all add: smod_nonneg)
    with 2 "1.IH" "1.prems" show ?thesis
      by (simp add: ped_greatest_common_divisor.simps [of a b] gcd_red_int [of a b])
  next
    case 3
    with "1.prems" show ?thesis
      by (simp add: ped_greatest_common_divisor.simps [of a 0])
  qed
qed

text \<open>The extended algorithm on non-negative C \<open>int\<close> values never wraps.\<close>

definition bezout :: "int \<Rightarrow> int \<Rightarrow> EuclidTriple \<Rightarrow> bool" where
  "bezout a b t \<longleftrightarrow> e_gcd t = gcd a b \<and> e_x t * a + e_y t * b = gcd a b \<and>
     \<bar>e_x t\<bar> \<le> max 1 b \<and> \<bar>e_y t\<bar> \<le> max 1 a"

lemma bezout_step:
  assumes "0 \<le> a" "a < 2 ^ 31" "0 < b" "b < 2 ^ 31"
    and t: "bezout b (a mod b) t" and zero: "a mod b = 0 \<Longrightarrow> e_x t = 1 \<and> e_y t = 0"
  shows "bezout a b \<lparr>e_gcd = e_gcd t, e_x = e_y t, e_y = s64 (e_x t - s64 ((a div b) * e_y t))\<rparr>"
proof -
  let ?y = "e_x t - (a div b) * e_y t"
  have q: "0 \<le> a div b" "a div b * b + a mod b = a" "0 \<le> a mod b" "a mod b < b"
    using assms by (auto simp: pos_imp_zdiv_nonneg_iff)
  have yb: "\<bar>?y\<bar> \<le> max 1 a"
  proof (cases "a mod b = 0")
    case True
    with zero show ?thesis by simp
  next
    case False
    from t q False have "\<bar>e_x t\<bar> \<le> a mod b" "\<bar>e_y t\<bar> \<le> b"
      using assms(3) by (auto simp: bezout_def)
    moreover from this q have "\<bar>(a div b) * e_y t\<bar> \<le> a div b * b"
      by (simp add: abs_mult mult_left_mono)
    ultimately have "\<bar>?y\<bar> \<le> a mod b + a div b * b" by linarith
    with q show ?thesis by linarith
  qed
  have "e_y t * a + ?y * b = e_x t * b + e_y t * (a - a div b * b)"
    by (simp add: algebra_simps)
  also have "a - a div b * b = a mod b" using q by linarith
  finally have eq: "e_y t * a + ?y * b = gcd a b"
    using t by (simp add: bezout_def gcd_red_int [of a b])
  from yb assms have "s64 ?y = ?y" by (intro s64_id) auto
  with t yb eq assms(3) show ?thesis
    by (auto simp: bezout_def gcd_red_int [of a b])
qed

lemma extended_euclid_bezout:
  "0 \<le> a \<Longrightarrow> a < 2 ^ 31 \<Longrightarrow> 0 \<le> b \<Longrightarrow> b < 2 ^ 31 \<Longrightarrow> bezout a b (extended_euclid a b)"
proof (induction a b rule: extended_euclid.induct)
  case (1 a b)
  show ?case
  proof (cases "b = 0")
    case True
    with "1.prems" show ?thesis by (simp add: extended_euclid.simps [of a 0] bezout_def)
  next
    case False
    with "1.prems" have b: "0 < b" by simp
    have m: "a smod b = a mod b" "a sdiv b = a div b" "0 \<le> a mod b" "a mod b < 2 ^ 31"
      using "1.prems" b less_trans [OF pos_mod_bound [OF b, of a]] by (auto simp: c_arith)
    with "1.IH" [OF False] "1.prems" have "bezout b (a mod b) (extended_euclid b (a mod b))"
      by simp
    with bezout_step [of a b] "1.prems" False show ?thesis
      by (simp add: extended_euclid.simps [of a b] m Let_def extended_euclid.simps [of b 0])
  qed
qed


section \<open>Intersection of alignments\<close>

text \<open>
  The general case of \<open>ped_alignment_intersect\<close> after the swap, over unbounded integers: with
  Bezout coefficients \<open>x\<close>, \<open>y\<close> of the two grains and the truncated quotient \<open>delta\<close>, the
  two candidate offsets agree exactly when there is a solution, and then the solutions are those
  of the new alignment.
\<close>

lemma candidate_offsets_agree:
  fixes ag bg ao bo x y :: int
  assumes "x * ag + y * bg = gcd ag bg"
  shows "ao + x * ((bo - ao) sdiv gcd ag bg) * ag = bo - y * ((bo - ao) sdiv gcd ag bg) * bg
    \<longleftrightarrow> gcd ag bg dvd bo - ao"
proof -
  define g where "g = gcd ag bg"
  define d where "d = (bo - ao) sdiv g"
  have "ao + x * d * ag = bo - y * d * bg \<longleftrightarrow> d * (x * ag + y * bg) = bo - ao"
    by (auto simp: algebra_simps)
  also have "\<dots> \<longleftrightarrow> d * g = bo - ao" using assms by (simp add: g_def)
  also have "\<dots> \<longleftrightarrow> g dvd bo - ao"
    using sdiv_dvd_mult [of g "bo - ao"] by (auto simp: d_def dvd_def) (metis mult.commute)
  finally show ?thesis by (simp add: d_def g_def)
qed

lemma common_solutions:
  fixes ag bg ao bo n :: int
  assumes "ag dvd n - ao" "bg dvd n - bo"
  shows "{s. ag dvd s - ao} \<inter> {s. bg dvd s - bo} = {s. lcm ag bg dvd s - n}"
proof -
  have "ag dvd s - ao \<longleftrightarrow> ag dvd s - n" "bg dvd s - bo \<longleftrightarrow> bg dvd s - n" for s
    using dvd_add_left_iff [OF assms(1), of "s - n"] dvd_add_left_iff [OF assms(2), of "s - n"]
    by simp_all
  then show ?thesis by (auto simp: lcm_least_iff)
qed

lemma no_common_solution:
  fixes ag bg ao bo :: int
  assumes "\<not> gcd ag bg dvd bo - ao"
  shows "{s. ag dvd s - ao} \<inter> {s. bg dvd s - bo} = {}"
proof -
  have "gcd ag bg dvd bo - ao" if "ag dvd s - ao" "bg dvd s - bo" for s
  proof -
    have "gcd ag bg dvd (s - ao) - (s - bo)"
      using dvd_diff [OF dvd_trans [OF gcd_dvd1 that(1)] dvd_trans [OF gcd_dvd2 that(2)]] .
    then show ?thesis by simp
  qed
  with assms show ?thesis by blast
qed

text \<open>The 64-bit computation is exact for well-formed alignments of small grain.\<close>

lemma abs_mult3_le:
  "\<bar>x\<bar> \<le> A \<Longrightarrow> \<bar>y\<bar> \<le> B \<Longrightarrow> \<bar>z\<bar> \<le> C \<Longrightarrow> \<bar>x * y * z :: int\<bar> \<le> A * B * C"
  unfolding abs_mult by (intro mult_mono) auto

lemma s64_abs: "\<bar>x\<bar> \<le> 2 ^ 62 \<Longrightarrow> s64 x = x"
  by (rule s64_id) auto

lemma intersect_products_bound:
  assumes ok: "alignment_ok a" "alignment_ok b"
    and g: "0 < grain_size a" "grain_size a \<le> 2 ^ 20" "grain_size b \<le> grain_size a"
    and t: "bezout (grain_size a) (grain_size b) t"
  defines "d \<equiv> (offset b - offset a) sdiv e_gcd t"
  shows "\<bar>e_x t * d * grain_size a\<bar> \<le> 2 ^ 61" and "\<bar>e_y t * d * grain_size b\<bar> \<le> 2 ^ 61"
proof -
  note oka = alignment_okD [OF ok(1)] and okb = alignment_okD [OF ok(2)]
  have "\<bar>e_x t * d * grain_size a\<bar> \<le> 2 ^ 61 \<and> \<bar>e_y t * d * grain_size b\<bar> \<le> 2 ^ 61"
  proof (cases "grain_size b = 0")
    case True
    with t g have gx: "e_gcd t = grain_size a" "e_x t = 1"
      by (auto simp: bezout_def)
    have "\<bar>d * grain_size a\<bar> \<le> \<bar>offset b - offset a\<bar>"
      by (simp add: d_def gx abs_sdiv_mult_le)
    then show ?thesis using True gx oka okb by auto
  next
    case False
    with okb g have b: "1 \<le> grain_size b" by linarith
    have "\<bar>d\<bar> \<le> \<bar>offset b - offset a\<bar>" by (simp add: d_def abs_sdiv_le)
    also have "\<dots> \<le> 2 ^ 20" using oka okb g False by auto
    finally have d: "\<bar>d\<bar> \<le> 2 ^ 20" .
    have x: "\<bar>e_x t\<bar> \<le> 2 ^ 20" "\<bar>e_y t\<bar> \<le> 2 ^ 20"
      using t b g by (auto simp: bezout_def)
    have "\<bar>e_x t * d * grain_size a\<bar> \<le> 2 ^ 20 * 2 ^ 20 * 2 ^ 20"
      using x d g by (intro abs_mult3_le) auto
    moreover have "\<bar>e_y t * d * grain_size b\<bar> \<le> 2 ^ 20 * 2 ^ 20 * 2 ^ 20"
      using x d g b by (intro abs_mult3_le) auto
    ultimately show ?thesis by simp
  qed
  then show "\<bar>e_x t * d * grain_size a\<bar> \<le> 2 ^ 61" "\<bar>e_y t * d * grain_size b\<bar> \<le> 2 ^ 61"
    by simp_all
qed

text \<open>
  The values of the general case with the swap already made: nothing wraps, the new grain size is
  the least common multiple, and the two candidate offsets agree when a solution exists.
\<close>

lemma intersect_values:
  assumes ok: "alignment_ok a" "alignment_ok b"
    and g: "0 < grain_size a" "grain_size a \<le> 2 ^ 20" "grain_size b \<le> grain_size a"
  defines "t \<equiv> extended_euclid (s32 (grain_size a)) (s32 (grain_size b))"
  defines "d \<equiv> s64 (offset b - offset a) sdiv e_gcd t"
  shows "bezout (grain_size a) (grain_size b) t"
    and "s64 (offset a + s64 (s64 (e_x t * d) * grain_size a)) = offset a + e_x t * d * grain_size a"
    and "s64 (offset b - s64 (s64 (e_y t * d) * grain_size b)) = offset b - e_y t * d * grain_size b"
    and "s64 (grain_size a * grain_size b) sdiv e_gcd t = lcm (grain_size a) (grain_size b)"
    and "d = (offset b - offset a) sdiv gcd (grain_size a) (grain_size b)"
proof -
  let ?ag = "grain_size a" and ?bg = "grain_size b"
  note oka = alignment_okD [OF ok(1)] and okb = alignment_okD [OF ok(2)]
  have s: "s32 ?ag = ?ag" "s32 ?bg = ?bg" using g oka okb by (auto intro!: s32_id)
  show t: "bezout ?ag ?bg t"
    unfolding t_def s using g oka okb by (intro extended_euclid_bezout) auto
  then have gcd: "e_gcd t = gcd ?ag ?bg" by (simp add: bezout_def)
  have diff: "s64 (offset b - offset a) = offset b - offset a"
    using oka okb by (intro s64_abs) auto
  then have d: "d = (offset b - offset a) sdiv e_gcd t" by (simp add: d_def)
  then show "d = (offset b - offset a) sdiv gcd ?ag ?bg" by (simp add: gcd)
  note bd = intersect_products_bound [OF ok g t, folded d]
  show "s64 (offset a + s64 (s64 (e_x t * d) * ?ag)) = offset a + e_x t * d * ?ag"
    "s64 (offset b - s64 (s64 (e_y t * d) * ?bg)) = offset b - e_y t * d * ?bg"
    using bd oka okb by (auto intro!: s64_abs)
  have "?ag * ?bg \<le> 2 ^ 20 * 2 ^ 20" using g okb by (intro mult_mono) auto
  with mult_nonneg_nonneg [OF oka(1) okb(1)] have "s64 (?ag * ?bg) = ?ag * ?bg"
    by (intro s64_abs) simp
  moreover have "0 < gcd ?ag ?bg" using g by simp
  ultimately show "s64 (?ag * ?bg) sdiv e_gcd t = lcm ?ag ?bg"
    using oka okb by (simp add: gcd sdiv_nonneg lcm_altdef_int)
qed

lemma lcm_le_mult: "0 < a \<Longrightarrow> 0 \<le> b \<Longrightarrow> lcm a b \<le> a * (b::int)"
  by (cases "b = 0") (auto intro!: zdvd_imp_le lcm_least)

lemma intersect_general:
  assumes ok: "alignment_ok a" "alignment_ok b"
    and g: "0 < grain_size a" "grain_size a \<le> 2 ^ 20" "grain_size b \<le> grain_size a"
  defines "t \<equiv> extended_euclid (s32 (grain_size a)) (s32 (grain_size b))"
  defines "d \<equiv> s64 (offset b - offset a) sdiv e_gcd t"
  defines "n \<equiv> s64 (offset a + s64 (s64 (e_x t * d) * grain_size a))"
  defines "r \<equiv> (if n \<noteq> s64 (offset b - s64 (s64 (e_y t * d) * grain_size b)) then None
     else ped_alignment_new n (s64 (grain_size a * grain_size b) sdiv e_gcd t))"
  shows "aligned r = aligned (Some a) \<inter> aligned (Some b) \<and> alignment_opt_ok r"
proof -
  let ?ag = "grain_size a" and ?bg = "grain_size b" and ?ao = "offset a" and ?bo = "offset b"
  note v = intersect_values [OF ok g, folded t_def, folded d_def]
  from v(1) have bz: "e_x t * ?ag + e_y t * ?bg = gcd ?ag ?bg" by (simp add: bezout_def)
  have n: "n = ?ao + e_x t * d * ?ag" by (simp only: n_def v(2))
  have agree: "n = ?bo - e_y t * d * ?bg \<longleftrightarrow> gcd ?ag ?bg dvd ?bo - ?ao"
    using candidate_offsets_agree [OF bz, of ?ao ?bo] by (simp only: n v(5))
  have r: "r = (if n \<noteq> ?bo - e_y t * d * ?bg then None else ped_alignment_new n (lcm ?ag ?bg))"
    by (simp only: r_def v(3,4))
  show ?thesis
  proof (cases "gcd ?ag ?bg dvd ?bo - ?ao")
    case False
    then have "r = None" using agree r by simp
    with no_common_solution [OF False] show ?thesis
      by (simp add: aligned_Some alignment_opt_ok_def)
  next
    case True
    with agree have n2: "n = ?bo - e_y t * d * ?bg" by simp
    from r n2 have r2: "r = ped_alignment_new n (lcm ?ag ?bg)" by simp
    have "lcm ?ag ?bg \<le> 2 ^ 20 * 2 ^ 20"
      using lcm_le_mult [of ?ag ?bg] mult_mono [of ?ag "2 ^ 20" ?bg "2 ^ 20"] g alignment_okD [OF ok(2)]
      by linarith
    then have lc: "lcm ?ag ?bg \<le> 2 ^ 40" by simp
    have "lcm ?ag ?bg = 0 \<longrightarrow> 0 \<le> n \<and> n \<le> 2 ^ 61"
      using n2 g alignment_okD [OF ok(2)] by (auto simp: lcm_eq_0_iff)
    with lc obtain al where al: "ped_alignment_new n (lcm ?ag ?bg) = Some al" "alignment_ok al"
      "grain_size al = lcm ?ag ?bg" "aligned (Some al) = {s. lcm ?ag ?bg dvd s - n}"
      by (rule ped_alignment_new_spec [OF lcm_ge_0_int])
    have "{s. ?ag dvd s - ?ao} \<inter> {s. ?bg dvd s - ?bo} = {s. lcm ?ag ?bg dvd s - n}"
      by (rule common_solutions) (simp add: n, simp add: n2)
    with al(4) have "aligned (Some al) = aligned (Some a) \<inter> aligned (Some b)"
      by (simp only: aligned_Some)
    with al(1,2) r2 show ?thesis by (simp only: alignment_opt_ok_def option.case)
  qed
qed


lemma ped_alignment_intersect_None [simp]:
  "ped_alignment_intersect None b = None" "ped_alignment_intersect a None = None"
  by (cases a; simp add: ped_alignment_intersect_def)+

lemma intersect_spec:
  assumes "alignment_small (Some a)" "alignment_small (Some b)"
  shows "aligned (ped_alignment_intersect (Some a) (Some b)) = aligned (Some a) \<inter> aligned (Some b) \<and>
    alignment_opt_ok (ped_alignment_intersect (Some a) (Some b))"
proof -
  from assms have ok: "alignment_ok a" "alignment_ok b"
    and g: "grain_size a \<le> 2 ^ 20" "grain_size b \<le> 2 ^ 20"
    by (auto simp: alignment_small_def)
  note oka = alignment_okD [OF ok(1)] and okb = alignment_okD [OF ok(2)]
  consider "grain_size a = 0" "grain_size b = 0" | "grain_size a < grain_size b"
    | "grain_size b \<le> grain_size a" "0 < grain_size a"
    using oka okb by linarith
  then show ?thesis
  proof cases
    case 1
    obtain al where al: "ped_alignment_duplicate (Some a) = Some al" "alignment_ok al"
      "aligned (Some al) = aligned (Some a)"
      using ped_alignment_duplicate_spec [OF ok(1)] by metis
    from 1 al show ?thesis
      by (auto simp: ped_alignment_intersect_def alignment_opt_ok_def) (auto simp: aligned_Some)
  next
    case 2
    with oka have b: "0 < grain_size b" "grain_size a \<le> grain_size b" by auto
    from intersect_general [OF ok(2,1) b(1) g(2) b(2)] 2 b show ?thesis
      by (simp add: ped_alignment_intersect_def Let_def Int_commute del: s64_nested)
  next
    case 3
    from intersect_general [OF ok 3(2) g(1) 3(1)] 3 show ?thesis
      by (simp add: ped_alignment_intersect_def Let_def del: s64_nested)
  qed
qed

interpretation align_meet: meet_semantics aligned alignment_small ped_alignment_intersect
proof
  fix a b assume "alignment_small a" "alignment_small b"
  then show "aligned (ped_alignment_intersect a b) = aligned a \<inter> aligned b"
    by (cases a; cases b) (simp_all add: intersect_spec)
qed simp

lemma alignment_small_imp_ok: "alignment_small a \<Longrightarrow> alignment_opt_ok a"
  by (auto simp: alignment_small_def alignment_opt_ok_def split: option.splits)

lemma ped_alignment_intersect_ok:
  "alignment_small a \<Longrightarrow> alignment_small b \<Longrightarrow> alignment_opt_ok (ped_alignment_intersect a b)"
  by (cases a; cases b) (simp_all add: intersect_spec, simp_all add: alignment_opt_ok_def)


section \<open>Aligning inside a geometry\<close>

abbreviation inside :: "PedGeometry \<Rightarrow> PedSector \<Rightarrow> bool" where
  "inside g s \<equiv> g_start g \<le> s \<and> s \<le> g_end g"

lemma is_aligned_iff:
  assumes "alignment_ok al" "- (2 ^ 61) \<le> s" "s \<le> 2 ^ 62"
  shows "ped_alignment_is_aligned (Some al) None s \<longleftrightarrow> s \<in> aligned (Some al)"
proof -
  have "s64 (s - offset al) = s - offset al"
    using assms alignment_okD [OF assms(1)] by (intro s64_id) auto
  then show ?thesis
    by (auto simp: ped_alignment_is_aligned_def smod_eq_0_iff_dvd aligned_Some)
qed

lemma is_aligned_geom:
  "ped_alignment_is_aligned (Some al) (Some g) s \<longleftrightarrow>
   inside g s \<and> ped_alignment_is_aligned (Some al) None s"
  by (auto simp: ped_alignment_is_aligned_def ped_geometry_test_sector_inside_def)

text \<open>Two aligned sectors less than a grain apart are the same.\<close>

lemma aligned_unique:
  assumes "g dvd x - c" "g dvd y - c" "\<bar>x - y\<bar> < (g::int)"
  shows "x = y"
proof (rule ccontr)
  assume "x \<noteq> y"
  have "g dvd (x - c) - (y - c)" using assms(1,2) by (rule dvd_diff)
  with \<open>x \<noteq> y\<close> have "\<bar>g\<bar> \<le> \<bar>x - y\<bar>" by (intro dvd_imp_le_int) auto
  with assms(3) show False by simp
qed

lemma shift_up:
  assumes "0 < g" "g \<le> 2 ^ 61" "- (2 ^ 61) \<le> x" "x \<le> b" "b \<le> 2 ^ 61" "g dvd x - c"
  defines "y \<equiv> s64 (x + ped_round_up_to (s64 (b - x)) g)"
  shows "g dvd y - c" "b \<le> y" "y < b + g"
proof -
  have w: "s64 (b - x) = b - x" using assms by (intro s64_id) auto
  have nm: "next_multiple g (b - x) (ped_round_up_to (b - x) g)"
    using assms by (intro ped_round_up_to_next) auto
  then have "y = x + ped_round_up_to (b - x) g"
    unfolding y_def w using assms by (intro s64_id) (auto simp: next_multiple_def)
  moreover from nm assms(6) have "g dvd (x - c) + ped_round_up_to (b - x) g"
    by (auto simp: next_multiple_def intro: dvd_add)
  ultimately show "g dvd y - c" "b \<le> y" "y < b + g"
    using nm by (simp_all add: next_multiple_def algebra_simps)
qed

lemma shift_down:
  assumes "0 < g" "g \<le> 2 ^ 61" "0 \<le> b" "b \<le> x" "x \<le> 2 ^ 62" "g dvd x - c"
  defines "y \<equiv> s64 (x - ped_round_up_to (s64 (x - b)) g)"
  shows "g dvd y - c" "y \<le> b" "b - g < y"
proof -
  have w: "s64 (x - b) = x - b" using assms by (intro s64_id) auto
  have nm: "next_multiple g (x - b) (ped_round_up_to (x - b) g)"
    using assms by (intro ped_round_up_to_next) auto
  then have y: "y = x - ped_round_up_to (x - b) g"
    unfolding y_def w using assms by (intro s64_id) (auto simp: next_multiple_def)
  have "g dvd (x - c) - ped_round_up_to (x - b) g"
    using assms(6) nm by (auto simp: next_multiple_def intro: dvd_diff)
  also have "(x - c) - ped_round_up_to (x - b) g = y - c" by (simp add: y)
  finally show "g dvd y - c" .
  from y nm show "y \<le> b" "b - g < y" by (auto simp: next_multiple_def)
qed

text \<open>
  \<open>between s r t\<close>: the sector \<open>r\<close> lies on the way from \<open>s\<close> to \<open>t\<close>. A result that is
  on the way to every solution is the solution closest to where the search started.
\<close>

definition between :: "int \<Rightarrow> int \<Rightarrow> int \<Rightarrow> bool" where
  "between s r t \<longleftrightarrow> s \<le> r \<and> r \<le> t \<or> t \<le> r \<and> r \<le> s"

definition closest_solution :: "PedAlignment \<Rightarrow> PedGeometry \<Rightarrow> PedSector \<Rightarrow> PedSector \<Rightarrow> bool" where
  "closest_solution al g s r \<longleftrightarrow>
     (if r = -1 then \<forall>t. t \<in> aligned (Some al) \<longrightarrow> \<not> inside g t
      else r \<in> aligned (Some al) \<and> inside g r \<and>
        (\<forall>t. t \<in> aligned (Some al) \<and> inside g t \<longrightarrow> between s r t))"

lemma aligned_lowest:
  assumes "g dvd x - c" "g dvd t - c" "x < b + g" "b \<le> t"
  shows "x \<le> (t::int)"
  using assms aligned_unique [OF assms(1,2)] by (cases "x \<le> t") auto

lemma aligned_highest:
  assumes "g dvd x - c" "g dvd t - c" "b - g < x" "t \<le> b"
  shows "(t::int) \<le> x"
  using assms aligned_unique [OF assms(1,2)] by (cases "t \<le> x") auto

lemma closest_inside_geometry_grain:
  assumes al: "alignment_ok al" "grain_size al \<noteq> 0" and g: "geometry_ok g"
    and s: "s \<in> aligned (Some al)" "- (2 ^ 61) \<le> s" "s \<le> 2 ^ 62"
  shows "closest_solution al g s (closest_inside_geometry al g s)"
proof -
  let ?g = "grain_size al" and ?c = "offset al"
  note okg = geometry_okD [OF g] and oka = alignment_okD [OF al(1)]
  have gr: "0 < ?g" "?g \<le> 2 ^ 61" and sc: "?g dvd s - ?c"
    using oka al(2) s(1) by (auto simp: aligned_Some)
  define s1 where "s1 = (if s < g_start g
     then s64 (s + ped_round_up_to (s64 (g_start g - s)) ?g) else s)"
  define s2 where "s2 = (if s1 > g_end g
     then s64 (s1 - ped_round_up_to (s64 (s1 - g_end g)) ?g) else s1)"
  have s1: "?g dvd s1 - ?c" "g_start g \<le> s1" "s < g_start g \<Longrightarrow> s1 < g_start g + ?g"
    "g_start g \<le> s \<Longrightarrow> s1 = s" "s1 \<le> 2 ^ 62"
    using shift_up [OF gr, of s "g_start g" ?c] sc s okg oka by (auto simp: s1_def)
  have s2: "?g dvd s2 - ?c" "s2 \<le> g_end g" "g_end g < s1 \<Longrightarrow> g_end g - ?g < s2"
    "s1 \<le> g_end g \<Longrightarrow> s2 = s1"
    using shift_down [OF gr, of "g_end g" s1 ?c] s1 okg by (auto simp: s2_def)
  have r: "closest_inside_geometry al g s = (if inside g s2 then s2 else -1)"
    unfolding closest_inside_geometry_def Let_def ped_geometry_test_sector_inside_def
      s1_def [symmetric] s2_def [symmetric] using al(2) by simp
  have low: "s1 \<le> t" if "s < g_start g" "?g dvd t - ?c" "g_start g \<le> t" for t
    using aligned_lowest [OF s1(1) that(2) s1(3) that(3)] that by simp
  have high: "t \<le> s2" if "g_end g < s1" "?g dvd t - ?c" "t \<le> g_end g" for t
    using aligned_highest [OF s2(1) that(2) s2(3) that(3)] that by simp
  consider (into) "s < g_start g" "s1 \<le> g_end g" | (stay) "inside g s" | (beyond) "s < g_start g" "g_end g < s1" | (above) "g_end g < s"
    by linarith
  then show ?thesis
  proof cases
    case into
    then have "s2 = s1" "inside g s1" "s \<le> s1" using s1 s2 by auto
    then show ?thesis
      using s1(1) low [OF into(1)] okg by (auto simp: r closest_solution_def between_def aligned_Some)
  next
    case stay
    then have "s2 = s" using s1 s2 by auto
    then show ?thesis
      using stay s1 okg sc by (auto simp: r closest_solution_def between_def aligned_Some)
  next
    case beyond
    with low have none: "\<not> inside g t" if "?g dvd t - ?c" for t
      using that by (meson leD order_trans)
    with s2(1) show ?thesis
      by (auto simp: r closest_solution_def aligned_Some)
  next
    case above
    with okg s1(4) have e: "g_end g < s1" by simp
    have "g_start g \<le> s2" if "inside g t" "?g dvd t - ?c" for t
      using high [OF e that(2)] that(1) by simp
    with e above high s2 okg show ?thesis
      by (auto simp: r closest_solution_def between_def aligned_Some)
  qed
qed

lemma closest_inside_geometry_spec:
  assumes al: "alignment_ok al" and g: "geometry_ok g"
    and s: "s \<in> aligned (Some al)" "- (2 ^ 61) \<le> s" "s \<le> 2 ^ 62"
  shows "closest_solution al g s (closest_inside_geometry al g s)"
proof (cases "grain_size al = 0")
  case True
  with s geometry_okD [OF g] is_aligned_iff [OF al s(2,3)] show ?thesis
    by (auto simp: closest_inside_geometry_def is_aligned_geom closest_solution_def between_def
        ped_geometry_test_sector_inside_def aligned_Some)
next
  case False
  from closest_inside_geometry_grain [OF al False g s] show ?thesis .
qed


text \<open>Where the two searches start: the aligned sectors around the given one.\<close>

definition up_start :: "PedAlignment \<Rightarrow> PedSector \<Rightarrow> PedSector" where
  "up_start al sector = (if grain_size al = 0 then offset al
     else s64 (ped_round_up_to (s64 (sector - offset al)) (grain_size al) + offset al))"

definition down_start :: "PedAlignment \<Rightarrow> PedSector \<Rightarrow> PedSector" where
  "down_start al sector = (if grain_size al = 0 then offset al
     else s64 (ped_round_down_to (s64 (sector - offset al)) (grain_size al) + offset al))"

lemma align_up_Some:
  "ped_alignment_align_up (Some al) (Some g) sector = closest_inside_geometry al g (up_start al sector)"
  by (simp add: ped_alignment_align_up_def up_start_def Let_def)

lemma align_down_Some:
  "ped_alignment_align_down (Some al) (Some g) sector = closest_inside_geometry al g (down_start al sector)"
  by (simp add: ped_alignment_align_down_def down_start_def Let_def)

lemma up_start_spec:
  assumes "alignment_ok al" "grain_size al \<noteq> 0" "0 \<le> sector" "sector \<le> 2 ^ 61"
  shows "up_start al sector \<in> aligned (Some al)"
    "sector \<le> up_start al sector" "up_start al sector < sector + grain_size al"
proof -
  note ok = alignment_okD [OF assms(1)]
  have w: "s64 (sector - offset al) = sector - offset al"
    using assms ok by (intro s64_id) auto
  have nm: "next_multiple (grain_size al) (sector - offset al)
      (ped_round_up_to (sector - offset al) (grain_size al))"
    using assms ok by (intro ped_round_up_to_next) auto
  then have "up_start al sector = ped_round_up_to (sector - offset al) (grain_size al) + offset al"
    unfolding up_start_def w using assms ok by (auto simp: next_multiple_def intro!: s64_id)
  with nm show "up_start al sector \<in> aligned (Some al)"
    "sector \<le> up_start al sector" "up_start al sector < sector + grain_size al"
    by (auto simp: next_multiple_def aligned_Some)
qed

lemma down_start_spec:
  assumes "alignment_ok al" "grain_size al \<noteq> 0" "0 \<le> sector" "sector \<le> 2 ^ 61"
  shows "down_start al sector \<in> aligned (Some al)"
    "sector - grain_size al \<le> down_start al sector" "down_start al sector \<le> sector"
proof -
  let ?x = "sector - offset al" and ?g = "grain_size al"
  note ok = alignment_okD [OF assms(1)]
  have w: "s64 ?x = ?x" using assms ok by (intro s64_id) auto
  have m: "0 \<le> ?x mod ?g" "?x mod ?g < ?g" using assms ok by auto
  have rd: "ped_round_down_to ?x ?g = (if ?x < 0 \<and> ?g dvd ?x then ?x - ?g else ?x - ?x mod ?g)"
    using assms ok by (intro ped_round_down_to_eq) auto
  then have d: "down_start al sector = ped_round_down_to ?x ?g + offset al"
    unfolding down_start_def w using assms ok m by (auto intro!: s64_id)
  from rd m ok show "down_start al sector \<in> aligned (Some al)"
    by (auto simp: d aligned_Some)
  from rd m ok show "sector - ?g \<le> down_start al sector" "down_start al sector \<le> sector"
    by (auto simp: d)
qed

lemma align_starts_in_range:
  assumes "alignment_ok al" "0 \<le> sector" "sector \<le> 2 ^ 61"
  shows "up_start al sector \<in> aligned (Some al)" "- (2 ^ 61) \<le> up_start al sector"
    "up_start al sector \<le> 2 ^ 62"
    "down_start al sector \<in> aligned (Some al)" "- (2 ^ 61) \<le> down_start al sector"
    "down_start al sector \<le> 2 ^ 62"
proof -
  note ok = alignment_okD [OF assms(1)]
  have "up_start al sector = offset al" "down_start al sector = offset al" if "grain_size al = 0"
    using that by (simp_all add: up_start_def down_start_def)
  moreover note up_start_spec [OF assms(1) _ assms(2,3)] down_start_spec [OF assms(1) _ assms(2,3)]
  ultimately show "up_start al sector \<in> aligned (Some al)" "- (2 ^ 61) \<le> up_start al sector"
    "up_start al sector \<le> 2 ^ 62"
    "down_start al sector \<in> aligned (Some al)" "- (2 ^ 61) \<le> down_start al sector"
    "down_start al sector \<le> 2 ^ 62"
    using ok assms(2,3) by (cases "grain_size al = 0"; auto simp: aligned_Some)+
qed

lemma align_up_spec:
  assumes "alignment_ok al" "geometry_ok g" "0 \<le> sector" "sector \<le> 2 ^ 61"
  shows "closest_solution al g (up_start al sector) (ped_alignment_align_up (Some al) (Some g) sector)"
  unfolding align_up_Some
  using assms align_starts_in_range [OF assms(1,3,4)] by (intro closest_inside_geometry_spec)

lemma align_down_spec:
  assumes "alignment_ok al" "geometry_ok g" "0 \<le> sector" "sector \<le> 2 ^ 61"
  shows "closest_solution al g (down_start al sector) (ped_alignment_align_down (Some al) (Some g) sector)"
  unfolding align_down_Some
  using assms align_starts_in_range [OF assms(1,3,4)] by (intro closest_inside_geometry_spec)

text \<open>No aligned sector lies strictly between the two starting points.\<close>

lemma starts_adjacent:
  assumes "alignment_ok al" "0 \<le> sector" "sector \<le> 2 ^ 61" "t \<in> aligned (Some al)"
  shows "t \<le> down_start al sector \<or> up_start al sector \<le> t"
proof (cases "grain_size al = 0")
  case True
  with assms(4) show ?thesis by (simp add: down_start_def aligned_Some)
next
  case False
  let ?g = "grain_size al"
  note u = up_start_spec [OF assms(1) False assms(2,3)]
    and d = down_start_spec [OF assms(1) False assms(2,3)]
  have g: "0 < ?g" using False alignment_okD [OF assms(1)] by simp
  show ?thesis
  proof (rule ccontr)
    assume n: "\<not> ?thesis"
    have "up_start al sector = t" if "\<bar>up_start al sector - t\<bar> < ?g"
      using aligned_unique that u(1) assms(4) by (simp add: aligned_Some)
    moreover have "t = down_start al sector" if "\<bar>t - down_start al sector\<bar> < ?g"
      using aligned_unique that d(1) assms(4) by (simp add: aligned_Some)
    ultimately show False using n u d g by linarith
  qed
qed


lemma c_abs_small: "\<bar>x\<bar> < 2 ^ 31 \<Longrightarrow> c_abs (s64 x) = \<bar>x\<bar>"
  by (simp add: c_abs_def s64_id s32_id)

text \<open>Whatever distance comparison \<open>closest\<close> makes, the result is one of the two candidates.\<close>

lemma align_nearest_solution:
  assumes "alignment_ok al" "geometry_ok g" "0 \<le> sector" "sector \<le> 2 ^ 61"
  defines "r \<equiv> ped_alignment_align_nearest (Some al) (Some g) sector"
  shows "r = -1 \<longleftrightarrow> (\<forall>t \<in> aligned (Some al). \<not> inside g t)"
    "r \<noteq> -1 \<Longrightarrow> r \<in> aligned (Some al) \<and> inside g r"
proof -
  note u = align_up_spec [OF assms(1-4)] and d = align_down_spec [OF assms(1-4)]
  have pos: "\<not> inside g (-1)" using geometry_okD [OF assms(2)] by simp
  have r: "r = ped_alignment_align_up (Some al) (Some g) sector \<or>
      r = ped_alignment_align_down (Some al) (Some g) sector"
    by (auto simp: r_def ped_alignment_align_nearest_def closest_def)
  with u d show "r \<noteq> -1 \<Longrightarrow> r \<in> aligned (Some al) \<and> inside g r"
    by (auto simp: closest_solution_def)
  with r u d pos show "r = -1 \<longleftrightarrow> (\<forall>t \<in> aligned (Some al). \<not> inside g t)"
    by (auto simp: closest_solution_def)
qed

lemma align_nearest_closest:
  assumes "alignment_ok al" "geometry_ok g" "0 \<le> sector" "sector < dev_length (g_dev g)"
    and small: "dev_length (g_dev g) \<le> 2 ^ 31"
  defines "r \<equiv> ped_alignment_align_nearest (Some al) (Some g) sector"
  assumes t: "t \<in> aligned (Some al)" "inside g t"
  shows "\<bar>sector - r\<bar> \<le> \<bar>sector - t\<bar>"
proof -
  define u where "u = ped_alignment_align_up (Some al) (Some g) sector"
  define d where "d = ped_alignment_align_down (Some al) (Some g) sector"
  have sec: "sector \<le> 2 ^ 61" using assms(4) small by simp
  note okg = geometry_okD [OF assms(2)]
  from align_up_spec [OF assms(1-3) sec, folded u_def] t
  have u: "u \<noteq> -1" "inside g u" "between (up_start al sector) u t"
    by (auto simp: closest_solution_def split: if_splits)
  from align_down_spec [OF assms(1-3) sec, folded d_def] t
  have d: "d \<noteq> -1" "inside g d" "between (down_start al sector) d t"
    by (auto simp: closest_solution_def split: if_splits)
  have "\<bar>sector - u\<bar> < 2 ^ 31" "\<bar>sector - d\<bar> < 2 ^ 31"
    using u(2) d(2) okg assms(3,4) small by auto
  then have r: "r = (if \<bar>sector - u\<bar> < \<bar>sector - d\<bar> then u else d)"
    using u(1) d(1)
    by (simp add: r_def ped_alignment_align_nearest_def closest_def c_abs_small
        flip: u_def d_def)
  have "\<bar>sector - u\<bar> \<le> \<bar>sector - t\<bar> \<or> \<bar>sector - d\<bar> \<le> \<bar>sector - t\<bar>"
  proof (cases "grain_size al = 0")
    case True
    with t(1) u(3) show ?thesis by (auto simp: up_start_def aligned_Some between_def)
  next
    case False
    have "down_start al sector \<le> sector" "sector \<le> up_start al sector"
      using up_start_spec [OF assms(1) False assms(3) sec] down_start_spec [OF assms(1) False assms(3) sec]
      by simp_all
    with starts_adjacent [OF assms(1,3) sec t(1)] u(3) d(3) show ?thesis
      by (auto simp: between_def)
  qed
  with r show ?thesis by auto
qed

section \<open>Properties\<close>

lemma ped_round_to_nearest_half:
  assumes "0 < g" "g \<le> 2 ^ 61" "0 \<le> x" "x \<le> 2 ^ 61"
  shows "g dvd ped_round_to_nearest x g \<and> 2 * \<bar>x - ped_round_to_nearest x g\<bar> \<le> g"
proof -
  have c: "x smod g = x mod g" "g sdiv 2 = g div 2" "0 \<le> x mod g" "x mod g < g"
    using assms by (auto simp: c_arith)
  have dn: "ped_round_down_to x g = x - x mod g"
    using assms by (simp add: ped_round_down_to_eq)
  show ?thesis
  proof (cases "x mod g > g div 2")
    case True
    with c assms have nz: "x mod g \<noteq> 0" by (auto simp: pos_imp_zdiv_nonneg_iff)
    define m where "m = x mod g"
    have "\<bar>x - m + g\<bar> \<le> 2 ^ 62" using c(3,4) assms by (simp flip: m_def)
    then have "ped_round_up_to x g = x - x mod g + g"
      using nz c by (simp add: ped_round_up_to_def dn s64_abs m_def)
    with True c have r: "ped_round_to_nearest x g = x - x mod g + g"
      by (simp add: ped_round_to_nearest_def)
    have "2 * (g - m) \<le> g" using True [folded m_def] by presburger
    then have "2 * (g - x mod g) \<le> g" by (simp add: m_def)
    with c show ?thesis by (simp add: r)
  next
    case False
    with c have r: "ped_round_to_nearest x g = x - x mod g"
      by (simp add: ped_round_to_nearest_def dn)
    have "2 * (x mod g) \<le> g" using False by linarith
    with c show ?thesis by (simp add: r)
  qed
qed

lemma multiple_within_half_nearest:
  assumes "g dvd r" "g dvd m" "2 * \<bar>x - r\<bar> \<le> (g::int)"
  shows "\<bar>x - r\<bar> \<le> \<bar>x - m\<bar>"
proof (cases "r = m")
  case False
  have "2 * \<bar>x - r\<bar> \<le> g" by (fact assms(3))
  also from False aligned_unique [of g r 0 m] assms(1,2) have "g \<le> \<bar>r - m\<bar>" by force
  also have "\<dots> \<le> \<bar>x - r\<bar> + \<bar>x - m\<bar>" by arith
  finally show ?thesis by simp
qed simp

lemma ped_div_round_up_bounds:
  assumes "0 < g" "g \<le> 2 ^ 61" "0 \<le> x" "x \<le> 2 ^ 61"
  shows "x \<le> ped_div_round_up x g * g \<and> (ped_div_round_up x g - 1) * g < x"
proof -
  have "s64 (x + g - 1) = x + g - 1" using assms by (intro s64_id) auto
  with assms have q: "ped_div_round_up x g = (x + g - 1) div g"
    by (simp add: ped_div_round_up_def sdiv_nonneg)
  have "(x + g - 1) div g * g = x + g - 1 - (x + g - 1) mod g" by (simp add: minus_mod_eq_div_mult)
  moreover have "0 \<le> (x + g - 1) mod g" "(x + g - 1) mod g < g" using assms by auto
  ultimately show ?thesis by (auto simp: q left_diff_distrib)
qed

text \<open>
  Remark. Rounding of a non-negative sector to a positive grain: down is the greatest multiple not
  above, up the least multiple not below, nearest a multiple at least as near as every other, and
  \<open>ped_div_round_up\<close> is the least quotient that covers the numerator.
\<close>

theorem ped_round_correct:
  assumes "0 < g" and "g \<le> 2 ^ 61" and "0 \<le> x" and "x \<le> 2 ^ 61"
  shows "prev_multiple g x (ped_round_down_to x g) \<and> next_multiple g x (ped_round_up_to x g) \<and>
    g dvd ped_round_to_nearest x g \<and>
    (\<forall>m. g dvd m \<longrightarrow> \<bar>x - ped_round_to_nearest x g\<bar> \<le> \<bar>x - m\<bar>) \<and>
    x \<le> ped_div_round_up x g * g \<and> (ped_div_round_up x g - 1) * g < x"
  using assms ped_round_down_to_prev [of g x] ped_round_up_to_next [of g x]
    ped_round_to_nearest_half [of g x] ped_div_round_up_bounds [of g x] multiple_within_half_nearest
  by auto

theorem ped_round_correct_witness:
  "prev_multiple 8 21 (ped_round_down_to 21 8) \<and> next_multiple 8 21 (ped_round_up_to 21 8) \<and>
   ped_round_to_nearest 21 8 = 24 \<and> 21 \<le> ped_div_round_up 21 8 * 8"
proof -
  have "ped_round_to_nearest 21 8 = 24"
    by (simp add: ped_round_to_nearest_def ped_round_up_to_def ped_round_down_to_def abs_mod_def s64_def)
  with ped_round_correct [of 8 21] show ?thesis by simp
qed

text \<open>
  Remark. On a negative multiple of \<open>b\<close>, \<open>abs_mod\<close> returns \<open>b\<close> itself, not a remainder between
  0 and \<open>b - 1\<close> as its comment says, and \<open>ped_round_down_to\<close> returns the multiple below
  instead of the sector itself.
\<close>

theorem abs_mod_negative_multiple:
  assumes "0 < b" and "b \<le> 2 ^ 61" and "a < 0" and "- (2 ^ 62) \<le> a" and "b dvd a"
  shows "abs_mod a b = b \<and> ped_round_down_to a b = a - b"
  using assms by (simp add: abs_mod_eq ped_round_down_to_eq)

theorem abs_mod_negative_multiple_witness: "abs_mod (-4) 4 = 4 \<and> ped_round_down_to (-4) 4 = -8"
  using abs_mod_negative_multiple [of 4 "-4"] by simp

text \<open>
  Remark. \<open>ped_greatest_common_divisor\<close> terminates on all inputs and computes the greatest common
  divisor of two non-negative numbers; a failed assertion returns 0.
\<close>

theorem ped_greatest_common_divisor_correct:
  "ped_greatest_common_divisor a b = (if 0 \<le> a \<and> 0 \<le> b then gcd a b else 0)"
  using ped_greatest_common_divisor_eq [of a b]
  by (auto simp: ped_greatest_common_divisor.simps [of a b])

text \<open>
  C33. \<open>extended_euclid\<close> on non-negative C \<open>int\<close> values returns the greatest common divisor
  and Bezout coefficients for it, with the bounds that keep the computation in range; the divisor
  is not 0 unless both arguments are.
\<close>

theorem extended_euclid_correct:
  assumes "0 \<le> a" and "a < 2 ^ 31" and "0 \<le> b" and "b < 2 ^ 31"
  shows "let t = extended_euclid a b
    in e_gcd t = gcd a b \<and> e_x t * a + e_y t * b = gcd a b \<and>
       \<bar>e_x t\<bar> \<le> max 1 b \<and> \<bar>e_y t\<bar> \<le> max 1 a \<and> (e_gcd t = 0 \<longleftrightarrow> a = 0 \<and> b = 0)"
  using extended_euclid_bezout [OF assms] by (simp add: Let_def bezout_def)

theorem extended_euclid_correct_witness:
  "e_gcd (extended_euclid 48 18) = 6 \<and>
   e_x (extended_euclid 48 18) * 48 + e_y (extended_euclid 48 18) * 18 = 6"
proof -
  have "gcd 48 (18::int) = 6" by code_simp
  with extended_euclid_correct [of 48 18] show ?thesis by (simp add: Let_def)
qed

text \<open>
  C34. \<open>ped_alignment_intersect\<close> is the intersection: a sector satisfies the alignment it
  returns if and only if it satisfies both arguments, \<open>NULL\<close> included, and what it returns is
  well formed. The grain sizes are at most \<open>2 ^ 20\<close>, which keeps the products in 64 bits.
\<close>

theorem ped_alignment_intersect_aligned:
  assumes "alignment_small a" and "alignment_small b"
  shows "aligned (ped_alignment_intersect a b) = aligned a \<inter> aligned b \<and>
    alignment_opt_ok (ped_alignment_intersect a b)"
  using assms by (simp add: align_meet.sat_meet ped_alignment_intersect_ok)

theorem ped_alignment_intersect_aligned_witness:
  "let a = Some \<lparr>offset = 1, grain_size = 6\<rparr>; b = Some \<lparr>offset = 3, grain_size = 4\<rparr>
   in alignment_small a \<and> alignment_small b \<and>
      aligned (ped_alignment_intersect a b) = aligned a \<inter> aligned b"
proof -
  let ?a = "Some \<lparr>offset = 1, grain_size = 6\<rparr>" and ?b = "Some \<lparr>offset = 3, grain_size = 4\<rparr>"
  have h: "alignment_small ?a" "alignment_small ?b"
    by (simp_all add: alignment_small_def alignment_ok_def)
  from ped_alignment_intersect_aligned [OF h] h show ?thesis by simp
qed

text \<open>
  Remark. \<open>extended_euclid\<close> takes C \<open>int\<close> arguments: for grain sizes that are multiples of
  \<open>2 ^ 32\<close> both are truncated to 0, and the divisor of the divisions in
  \<open>ped_alignment_intersect\<close> is 0.
\<close>

theorem extended_euclid_truncates:
  assumes "2 ^ 32 dvd grain_size a" and "2 ^ 32 dvd grain_size b"
  shows "e_gcd (extended_euclid (s32 (grain_size a)) (s32 (grain_size b))) = 0"
proof -
  have "s32 x = 0" if "2 ^ 32 dvd x" for x :: int
    using that by (auto simp: s32_def dvd_def)
  with assms show ?thesis by (simp add: extended_euclid.simps [of 0 0])
qed

theorem extended_euclid_truncates_witness:
  "let a = \<lparr>offset = 0, grain_size = 2 ^ 32\<rparr>
   in e_gcd (extended_euclid (s32 (grain_size a)) (s32 (grain_size a))) = 0"
  using extended_euclid_truncates [of "\<lparr>offset = 0, grain_size = 2 ^ 32\<rparr>" "\<lparr>offset = 0, grain_size = 2 ^ 32\<rparr>"]
  by (simp add: Let_def)

text \<open>
  Remark. \<open>ped_alignment_align_nearest\<close> in a geometry: it returns -1 exactly when no sector of the
  geometry satisfies the alignment, else a sector of the geometry that satisfies it; and on a
  device of at most \<open>2 ^ 31\<close> sectors no sector of the geometry that satisfies it is closer.
\<close>

theorem ped_alignment_align_nearest_correct:
  assumes "alignment_ok al" and "geometry_ok g" and "0 \<le> sector"
    and "sector < dev_length (g_dev g)"
  shows "let r = ped_alignment_align_nearest (Some al) (Some g) sector;
             sol = {t. ped_alignment_is_aligned (Some al) (Some g) t}
    in (if sol = {} then r = -1 else r \<in> sol) \<and>
       (dev_length (g_dev g) \<le> 2 ^ 31 \<longrightarrow> (\<forall>t \<in> sol. \<bar>sector - r\<bar> \<le> \<bar>sector - t\<bar>))"
proof -
  note okg = geometry_okD [OF assms(2)]
  have sec: "sector \<le> 2 ^ 61" using assms(4) okg by simp
  have sol: "{t. ped_alignment_is_aligned (Some al) (Some g) t} = {t \<in> aligned (Some al). inside g t}"
    using is_aligned_iff [OF assms(1)] okg by (auto simp: is_aligned_geom)
  show ?thesis
    unfolding sol using align_nearest_solution [OF assms(1-3) sec]
      align_nearest_closest [OF assms(1-4)] by (auto simp: Let_def)
qed

theorem ped_alignment_align_nearest_correct_witness:
  "let al = \<lparr>offset = 0, grain_size = 8\<rparr>;
       g = \<lparr>g_dev = sample_dev 1000, g_start = 10, g_length = 90, g_end = 99\<rparr>
   in alignment_ok al \<and> geometry_ok g \<and>
      ped_alignment_is_aligned (Some al) (Some g) (ped_alignment_align_nearest (Some al) (Some g) 3)"
proof -
  let ?al = "\<lparr>offset = 0, grain_size = 8\<rparr> :: PedAlignment"
  let ?g = "\<lparr>g_dev = sample_dev 1000, g_start = 10, g_length = 90, g_end = 99\<rparr> :: PedGeometry"
  have h: "alignment_ok ?al" "geometry_ok ?g" "3 < dev_length (g_dev ?g)"
    by (simp_all add: alignment_ok_def geometry_ok_def dev_ok_def sample_dev_def)
  have "ped_alignment_is_aligned (Some ?al) (Some ?g) 16"
    by (simp add: ped_alignment_is_aligned_def ped_geometry_test_sector_inside_def s64_def)
  then have "{t. ped_alignment_is_aligned (Some ?al) (Some ?g) t} \<noteq> {}" by blast
  with ped_alignment_align_nearest_correct [OF h(1,2) _ h(3)]
  have "ped_alignment_align_nearest (Some ?al) (Some ?g) 3
      \<in> {t. ped_alignment_is_aligned (Some ?al) (Some ?g) t}"
    unfolding Let_def by (simp only: if_False)
  with h show ?thesis by simp
qed

text \<open>
  Remark. \<open>closest\<close> compares distances with the C function \<open>abs\<close>, which takes an \<open>int\<close>: it
  prefers a candidate \<open>2 ^ 32\<close> sectors away to one that is 1 sector away.
\<close>

theorem closest_prefers_far:
  assumes "0 \<le> sector" and "sector \<le> 2 ^ 61"
  shows "closest sector (sector + 2 ^ 32) (sector + 1) = sector + 2 ^ 32"
  using assms by (simp add: closest_def c_abs_def s64_def s32_def)

theorem closest_prefers_far_witness: "closest 100 (100 + 2 ^ 32) 101 = 100 + 2 ^ 32"
  using closest_prefers_far [of 100] by simp

end
