(* ===== verification/Ped_Constraint.thy ===== *)
theory Ped_Constraint
  imports Ped_Natmath
begin

text \<open>
  Constraints on regions and their solver: \<^verbatim>\<open>libparted/cs/constraint.c\<close>.

  A constraint gives an alignment and a range for the start and for the end of a region, and
  bounds on its length. Several functions declare a \<open>PedGeometry\<close> on the stack and ignore the
  status of the \<open>ped_geometry_init\<close> that should fill it: \<open>stack v\<close> is the content the
  variable \<open>v\<close> has when it comes into scope, about which nothing is assumed. A pointer that the
  code dereferences without a test is \<open>the\<close> of an option, unspecified for \<open>NULL\<close>.
\<close>

type_synonym stack_memory = "string \<Rightarrow> PedGeometry"

record PedConstraint =
  start_align :: "PedAlignment option"
  end_align :: "PedAlignment option"
  start_range :: "PedGeometry option"
  end_range :: "PedGeometry option"
  min_size :: PedSector
  max_size :: PedSector

section \<open>Construction\<close>

definition ped_constraint_init ::
  "PedAlignment option \<Rightarrow> PedAlignment option \<Rightarrow> PedGeometry option \<Rightarrow> PedGeometry option \<Rightarrow>
   PedSector \<Rightarrow> PedSector \<Rightarrow> PedConstraint option" where
  "ped_constraint_init sa ea sr er mn mx =
     (case (sr, er) of
        (Some s, Some e) \<Rightarrow>
          if \<not> mn > 0 then None
          else if \<not> mx > 0 then None
          else Some \<lparr>start_align = ped_alignment_duplicate sa,
                     end_align = ped_alignment_duplicate ea,
                     start_range = ped_geometry_duplicate s,
                     end_range = ped_geometry_duplicate e,
                     min_size = mn, max_size = mx\<rparr>
      | _ \<Rightarrow> None)"

definition ped_constraint_new ::
  "PedAlignment option \<Rightarrow> PedAlignment option \<Rightarrow> PedGeometry option \<Rightarrow> PedGeometry option \<Rightarrow>
   PedSector \<Rightarrow> PedSector \<Rightarrow> PedConstraint option" where
  "ped_constraint_new sa ea sr er mn mx = ped_constraint_init sa ea sr er mn mx"

definition ped_constraint_new_from_min_max ::
  "stack_memory \<Rightarrow> PedGeometry option \<Rightarrow> PedGeometry option \<Rightarrow> PedConstraint option" where
  "ped_constraint_new_from_min_max stack mino maxo =
     (case (mino, maxo) of
        (Some mn, Some mx) \<Rightarrow>
          if \<not> ped_geometry_test_inside mx mn then None
          else
            let start_range = snd (ped_geometry_init (stack ''start_range'') (g_dev mn) (g_start mx)
                                    (s64 (s64 (g_start mn - g_start mx) + 1)));
                end_range = snd (ped_geometry_init (stack ''end_range'') (g_dev mn) (g_end mn)
                                    (s64 (s64 (g_end mx - g_end mn) + 1)))
            in ped_constraint_new ped_alignment_any ped_alignment_any
                 (Some start_range) (Some end_range) (g_length mn) (g_length mx)
      | _ \<Rightarrow> None)"

definition ped_constraint_new_from_min ::
  "stack_memory \<Rightarrow> PedGeometry option \<Rightarrow> PedConstraint option" where
  "ped_constraint_new_from_min stack mino =
     (case mino of
        None \<Rightarrow> None
      | Some mn \<Rightarrow>
          let full_dev = snd (ped_geometry_init (stack ''full_dev'') (g_dev mn) 0
                                (dev_length (g_dev mn)))
          in ped_constraint_new_from_min_max stack (Some mn) (Some full_dev))"

definition ped_constraint_new_from_max :: "PedGeometry option \<Rightarrow> PedConstraint option" where
  "ped_constraint_new_from_max maxo =
     (case maxo of
        None \<Rightarrow> None
      | Some mx \<Rightarrow> ped_constraint_new ped_alignment_any ped_alignment_any
                     (Some mx) (Some mx) 1 (g_length mx))"

definition ped_constraint_duplicate :: "PedConstraint option \<Rightarrow> PedConstraint option" where
  "ped_constraint_duplicate co =
     (case co of
        None \<Rightarrow> None
      | Some c \<Rightarrow> ped_constraint_new (start_align c) (end_align c) (start_range c) (end_range c)
                     (min_size c) (max_size c))"

definition ped_constraint_intersect ::
  "PedConstraint option \<Rightarrow> PedConstraint option \<Rightarrow> PedConstraint option" where
  "ped_constraint_intersect ao bo =
     (case (ao, bo) of
        (Some a, Some b) \<Rightarrow>
          (case ped_alignment_intersect (start_align a) (start_align b) of
             None \<Rightarrow> None
           | Some sa \<Rightarrow>
             (case ped_alignment_intersect (end_align a) (end_align b) of
                None \<Rightarrow> None
              | Some ea \<Rightarrow>
                (case ped_geometry_intersect (start_range a) (start_range b) of
                   None \<Rightarrow> None
                 | Some sr \<Rightarrow>
                   (case ped_geometry_intersect (end_range a) (end_range b) of
                      None \<Rightarrow> None
                    | Some er \<Rightarrow>
                        ped_constraint_new (Some sa) (Some ea) (Some sr) (Some er)
                          (PED_MAX (min_size a) (min_size b))
                          (PED_MIN (max_size a) (max_size b))))))
      | _ \<Rightarrow> None)"

definition ped_constraint_any :: "stack_memory \<Rightarrow> PedDevice \<Rightarrow> PedConstraint option" where
  "ped_constraint_any stack dev =
     (case ped_geometry_init (stack ''full_dev'') dev 0 (dev_length dev) of
        (Some _, _) \<Rightarrow> None
      | (None, full_dev) \<Rightarrow>
          ped_constraint_new ped_alignment_any ped_alignment_any (Some full_dev) (Some full_dev)
            1 (dev_length dev))"

definition ped_constraint_exact :: "stack_memory \<Rightarrow> PedGeometry \<Rightarrow> PedConstraint option" where
  "ped_constraint_exact stack geom =
     (let start_al = ped_alignment_init (g_start geom) 0;
          end_al = ped_alignment_init (g_end geom) 0;
          start_sector = snd (ped_geometry_init (stack ''start_sector'') (g_dev geom) (g_start geom) 1);
          end_sector = snd (ped_geometry_init (stack ''end_sector'') (g_dev geom) (g_end geom) 1)
      in ped_constraint_new start_al end_al (Some start_sector) (Some end_sector)
           1 (dev_length (g_dev geom)))"

section \<open>The solver\<close>

definition constraint_get_canonical_start_range ::
  "stack_memory \<Rightarrow> PedConstraint \<Rightarrow> PedGeometry option" where
  "constraint_get_canonical_start_range stack c =
     (if min_size c > max_size c then None
      else
        let first_end_soln =
              ped_alignment_align_down (end_align c) (end_range c) (g_start (the (end_range c)));
            last_end_soln =
              ped_alignment_align_up (end_align c) (end_range c) (g_end (the (end_range c)))
        in if first_end_soln = -1 \<or> last_end_soln = -1 \<or> first_end_soln > last_end_soln
              \<or> last_end_soln < min_size c then None
           else
             let min_start0 = s64 (s64 (first_end_soln - max_size c) + 1);
                 min_start = (if min_start0 < 0 then 0 else min_start0);
                 max_start = s64 (s64 (last_end_soln - min_size c) + 1)
             in if max_start < 0 then None
                else
                  let start_min_max_range =
                    snd (ped_geometry_init (stack ''start_min_max_range'')
                           (g_dev (the (start_range c))) min_start
                           (s64 (s64 (max_start - min_start) + 1)))
                  in ped_geometry_intersect (Some start_min_max_range) (start_range c))"

definition constraint_get_nearest_start_soln ::
  "stack_memory \<Rightarrow> PedConstraint \<Rightarrow> PedSector \<Rightarrow> PedSector" where
  "constraint_get_nearest_start_soln stack c start =
     (case constraint_get_canonical_start_range stack c of
        None \<Rightarrow> -1
      | Some rg \<Rightarrow> ped_alignment_align_nearest (start_align c) (Some rg) start)"

definition constraint_get_end_range ::
  "stack_memory \<Rightarrow> PedConstraint \<Rightarrow> PedSector \<Rightarrow> PedGeometry option" where
  "constraint_get_end_range stack c start =
     (let dev = g_dev (the (end_range c))
      in if s64 (s64 (start + min_size c) - 1) > s64 (dev_length dev - 1) then None
         else
           let first_min_max_end = s64 (s64 (start + min_size c) - 1);
               last0 = s64 (s64 (start + max_size c) - 1);
               last_min_max_end =
                 (if last0 > s64 (dev_length dev - 1) then s64 (dev_length dev - 1) else last0);
               end_min_max_range =
                 snd (ped_geometry_init (stack ''end_min_max_range'') dev first_min_max_end
                        (s64 (s64 (last_min_max_end - first_min_max_end) + 1)))
           in ped_geometry_intersect (Some end_min_max_range) (end_range c))"

definition constraint_get_nearest_end_soln ::
  "stack_memory \<Rightarrow> PedConstraint \<Rightarrow> PedSector \<Rightarrow> PedSector \<Rightarrow> PedSector" where
  "constraint_get_nearest_end_soln stack c start end =
     (case constraint_get_end_range stack c start of
        None \<Rightarrow> -1
      | Some rg \<Rightarrow> ped_alignment_align_nearest (end_align c) (Some rg) end)"

definition ped_constraint_is_solution :: "PedConstraint \<Rightarrow> PedGeometry \<Rightarrow> bool" where
  "ped_constraint_is_solution c geom =
     (if \<not> ped_alignment_is_aligned (start_align c) None (g_start geom) then False
      else if \<not> ped_alignment_is_aligned (end_align c) None (g_end geom) then False
      else if \<not> ped_geometry_test_sector_inside (the (start_range c)) (g_start geom) then False
      else if \<not> ped_geometry_test_sector_inside (the (end_range c)) (g_end geom) then False
      else if g_length geom < min_size c then False
      else if g_length geom > max_size c then False
      else True)"

definition ped_constraint_solve_nearest ::
  "stack_memory \<Rightarrow> PedConstraint option \<Rightarrow> PedGeometry option \<Rightarrow> PedGeometry option" where
  "ped_constraint_solve_nearest stack co geomo =
     (case co of
        None \<Rightarrow> None
      | Some c \<Rightarrow>
        (case geomo of
           None \<Rightarrow> None
         | Some geom \<Rightarrow>
             if g_dev (the (start_range c)) \<noteq> g_dev geom then None
             else
               let start = constraint_get_nearest_start_soln stack c (g_start geom)
               in if start = -1 then None
                  else
                    let end = constraint_get_nearest_end_soln stack c start (g_end geom)
                    in if end = -1 then None
                       else
                         (case ped_geometry_new (g_dev geom) start (s64 (s64 (end - start) + 1)) of
                            None \<Rightarrow> None
                          | Some result \<Rightarrow>
                              if \<not> ped_constraint_is_solution c result then None
                              else Some result)))"

definition ped_constraint_solve_max ::
  "stack_memory \<Rightarrow> PedConstraint option \<Rightarrow> PedGeometry option" where
  "ped_constraint_solve_max stack co =
     (case co of
        None \<Rightarrow> None
      | Some c \<Rightarrow>
          let dev = g_dev (the (start_range c));
              full_dev = snd (ped_geometry_init (stack ''full_dev'') dev 0 (s64 (dev_length dev - 1)))
          in ped_constraint_solve_nearest stack co (Some full_dev))"

section \<open>Well-formed constraints and their solutions\<close>

definition constraint_ok :: "PedConstraint \<Rightarrow> bool" where
  "constraint_ok c \<longleftrightarrow>
     alignment_opt_ok (start_align c) \<and> alignment_opt_ok (end_align c) \<and>
     (case (start_range c, end_range c) of
        (Some s, Some e) \<Rightarrow> geometry_ok s \<and> geometry_ok e \<and> g_dev s = g_dev e
      | _ \<Rightarrow> False) \<and>
     1 \<le> min_size c \<and> min_size c \<le> 2 ^ 61 \<and> 1 \<le> max_size c \<and> max_size c \<le> 2 ^ 61"

definition constraint_small :: "PedConstraint option \<Rightarrow> bool" where
  "constraint_small co =
     (case co of
        None \<Rightarrow> True
      | Some c \<Rightarrow> constraint_ok c \<and> alignment_small (start_align c) \<and> alignment_small (end_align c))"

text \<open>The regions that satisfy a constraint; \<open>NULL\<close> is the constraint nothing satisfies.\<close>

definition solutions :: "PedConstraint option \<Rightarrow> PedGeometry set" where
  "solutions co =
     (case co of
        None \<Rightarrow> {}
      | Some c \<Rightarrow>
          {g. geometry_ok g \<and> g_start g \<in> aligned (start_align c) \<and> g_end g \<in> aligned (end_align c) \<and>
              (g_dev g, g_start g) \<in> region (start_range c) \<and>
              (g_dev g, g_end g) \<in> region (end_range c) \<and>
              min_size c \<le> g_length g \<and> g_length g \<le> max_size c})"


lemma solutions_None [simp]: "solutions None = {}"
  by (simp add: solutions_def)

lemma solutions_Some:
  "g \<in> solutions (Some c) \<longleftrightarrow>
     geometry_ok g \<and> g_start g \<in> aligned (start_align c) \<and> g_end g \<in> aligned (end_align c) \<and>
     (g_dev g, g_start g) \<in> region (start_range c) \<and> (g_dev g, g_end g) \<in> region (end_range c) \<and>
     min_size c \<le> g_length g \<and> g_length g \<le> max_size c"
  by (simp add: solutions_def)

lemma constraint_okE:
  assumes "constraint_ok c"
  obtains s e where "start_range c = Some s" "end_range c = Some e" "geometry_ok s" "geometry_ok e"
    "g_dev s = g_dev e"
  using assms by (auto simp: constraint_ok_def split: option.splits prod.splits)

lemma constraint_okD:
  assumes "constraint_ok c"
  shows "1 \<le> min_size c" "min_size c \<le> 2 ^ 61" "1 \<le> max_size c" "max_size c \<le> 2 ^ 61"
    "alignment_opt_ok (start_align c)" "alignment_opt_ok (end_align c)"
  using assms by (auto simp: constraint_ok_def)

lemma is_aligned_opt_iff:
  assumes "alignment_opt_ok ao" "0 \<le> s" "s \<le> 2 ^ 62"
  shows "ped_alignment_is_aligned ao None s \<longleftrightarrow> s \<in> aligned ao"
  using assms is_aligned_iff by (cases ao) (auto simp: alignment_opt_ok_def ped_alignment_is_aligned_def)

text \<open>\<open>ped_constraint_is_solution\<close> decides membership, for the regions of the right device.\<close>

lemma is_solution_iff:
  assumes "constraint_ok c" "geometry_ok g" "g_dev g = g_dev (the (start_range c))"
  shows "ped_constraint_is_solution c g \<longleftrightarrow> g \<in> solutions (Some c)"
proof -
  from assms(1) obtain s e where r: "start_range c = Some s" "end_range c = Some e" "g_dev s = g_dev e"
    by (rule constraint_okE)
  note okg = geometry_okD [OF assms(2)]
  have "ped_alignment_is_aligned ao None x \<longleftrightarrow> x \<in> aligned ao"
    if "alignment_opt_ok ao" "g_start g \<le> x" "x \<le> g_end g" for ao x
    using that okg by (intro is_aligned_opt_iff) auto
  with constraint_okD [OF assms(1)] okg
  have "ped_alignment_is_aligned (start_align c) None (g_start g) \<longleftrightarrow> g_start g \<in> aligned (start_align c)"
    "ped_alignment_is_aligned (end_align c) None (g_end g) \<longleftrightarrow> g_end g \<in> aligned (end_align c)"
    by blast+
  with r assms(2,3) show ?thesis
    by (auto simp: ped_constraint_is_solution_def solutions_Some region_Some
        ped_geometry_test_sector_inside_def)
qed

section \<open>Intersection\<close>

lemma alignment_duplicate_opt:
  assumes "alignment_opt_ok ao"
  shows "aligned (ped_alignment_duplicate ao) = aligned ao"
    "alignment_opt_ok (ped_alignment_duplicate ao)"
    "ped_alignment_duplicate ao = None \<longleftrightarrow> ao = None"
proof -
  have "aligned (ped_alignment_duplicate ao) = aligned ao \<and>
    alignment_opt_ok (ped_alignment_duplicate ao) \<and> (ped_alignment_duplicate ao = None \<longleftrightarrow> ao = None)"
  proof (cases ao)
    case None
    then show ?thesis by (simp add: ped_alignment_duplicate_def alignment_opt_ok_def)
  next
    case (Some al)
    with assms have "alignment_ok al" by (simp add: alignment_opt_ok_def)
    then obtain al' where "ped_alignment_duplicate (Some al) = Some al'" "alignment_ok al'"
      "aligned (Some al') = aligned (Some al)"
      by (rule ped_alignment_duplicate_spec)
    with Some show ?thesis by (simp add: alignment_opt_ok_def)
  qed
  then show "aligned (ped_alignment_duplicate ao) = aligned ao"
    "alignment_opt_ok (ped_alignment_duplicate ao)"
    "ped_alignment_duplicate ao = None \<longleftrightarrow> ao = None" by auto
qed

text \<open>What \<open>ped_constraint_new\<close> builds from well-formed parts.\<close>

lemma ped_constraint_new_ok:
  assumes "alignment_opt_ok sa" "alignment_opt_ok ea" "geometry_ok s" "geometry_ok e"
    "g_dev s = g_dev e" "1 \<le> mn" "mn \<le> 2 ^ 61" "1 \<le> mx" "mx \<le> 2 ^ 61"
  defines "c \<equiv> \<lparr>start_align = ped_alignment_duplicate sa, end_align = ped_alignment_duplicate ea,
                 start_range = Some s, end_range = Some e, min_size = mn, max_size = mx\<rparr>"
  shows "ped_constraint_new sa ea (Some s) (Some e) mn mx = Some c" "constraint_ok c"
    "solutions (Some c) =
      {g. geometry_ok g \<and> g_dev g = g_dev s \<and> g_start g \<in> aligned sa \<and> g_end g \<in> aligned ea \<and>
          inside s (g_start g) \<and> inside e (g_end g) \<and> mn \<le> g_length g \<and> g_length g \<le> mx}"
proof -
  note dup = alignment_duplicate_opt [OF assms(1)] alignment_duplicate_opt [OF assms(2)]
  show "ped_constraint_new sa ea (Some s) (Some e) mn mx = Some c"
    using assms by (simp add: ped_constraint_new_def ped_constraint_init_def ped_geometry_duplicate_ok)
  show "constraint_ok c" using assms dup by (simp add: constraint_ok_def)
  show "solutions (Some c) =
      {g. geometry_ok g \<and> g_dev g = g_dev s \<and> g_start g \<in> aligned sa \<and> g_end g \<in> aligned ea \<and>
          inside s (g_start g) \<and> inside e (g_end g) \<and> mn \<le> g_length g \<and> g_length g \<le> mx}"
    by (rule set_eqI) (simp add: solutions_Some c_def region_Some dup(1,4) assms(5) conj_ac cong: conj_cong)
qed

text \<open>The intersection of two well-formed constraints, with its solutions.\<close>

lemma constraint_small_Some:
  "constraint_small (Some c) \<longleftrightarrow>
     constraint_ok c \<and> alignment_small (start_align c) \<and> alignment_small (end_align c)"
  by (simp add: constraint_small_def)

lemma region_Some_meet:
  assumes "ped_geometry_intersect (Some a) (Some b) = Some r" "geometry_ok a" "geometry_ok b"
  shows "geometry_ok r" "region (Some r) = region (Some a) \<inter> region (Some b)"
    "g_dev r = g_dev a" "g_dev r = g_dev b"
proof -
  from assms(2,3) have o: "geometry_opt_ok (Some a)" "geometry_opt_ok (Some b)" by simp_all
  from geom_meet.ok_meet [OF o] show "geometry_ok r" by (simp add: assms(1))
  from geom_meet.sat_meet [OF o] show "region (Some r) = region (Some a) \<inter> region (Some b)"
    by (simp add: assms(1))
  from assms show "g_dev r = g_dev a" "g_dev r = g_dev b"
    by (auto simp: ped_geometry_intersect_ok split: if_splits)
qed

lemma constraint_intersect_spec:
  assumes "constraint_small (Some a)" "constraint_small (Some b)"
  shows "solutions (ped_constraint_intersect (Some a) (Some b)) = solutions (Some a) \<inter> solutions (Some b)"
    "ped_constraint_intersect (Some a) (Some b) = Some c \<Longrightarrow> constraint_ok c"
proof -
  from assms have ok: "constraint_ok a" "constraint_ok b" by (simp_all add: constraint_small_Some)
  from ok obtain sA eA sB eB where r: "start_range a = Some sA" "end_range a = Some eA"
    "start_range b = Some sB" "end_range b = Some eB"
    and g: "geometry_ok sA" "geometry_ok eA" "g_dev sA = g_dev eA"
      "geometry_ok sB" "geometry_ok eB" "g_dev sB = g_dev eB"
    using constraint_okE [OF ok(1)] constraint_okE [OF ok(2)] by (metis (no_types))
  define sa where "sa = ped_alignment_intersect (start_align a) (start_align b)"
  define ea where "ea = ped_alignment_intersect (end_align a) (end_align b)"
  have sa: "aligned sa = aligned (start_align a) \<inter> aligned (start_align b)" "alignment_opt_ok sa"
    and ea: "aligned ea = aligned (end_align a) \<inter> aligned (end_align b)" "alignment_opt_ok ea"
    using assms by (auto simp: sa_def ea_def constraint_small_Some align_meet.sat_meet
        ped_alignment_intersect_ok)
  define sr where "sr = ped_geometry_intersect (Some sA) (Some sB)"
  define er where "er = ped_geometry_intersect (Some eA) (Some eB)"
  have sr: "region sr = region (Some sA) \<inter> region (Some sB)"
    and er: "region er = region (Some eA) \<inter> region (Some eB)"
    using g by (simp_all add: sr_def er_def geom_meet.sat_meet)
  define mn where "mn = PED_MAX (min_size a) (min_size b)"
  define mx where "mx = PED_MIN (max_size a) (max_size b)"
  have mm: "1 \<le> mn" "mn \<le> 2 ^ 61" "1 \<le> mx" "mx \<le> 2 ^ 61"
    using constraint_okD [OF ok(1)] constraint_okD [OF ok(2)]
    by (auto simp: mn_def mx_def PED_MAX_def PED_MIN_def)
  have mem: "x \<in> solutions (Some a) \<inter> solutions (Some b) \<longleftrightarrow>
      geometry_ok x \<and> g_start x \<in> aligned sa \<and> g_end x \<in> aligned ea \<and>
      (g_dev x, g_start x) \<in> region sr \<and> (g_dev x, g_end x) \<in> region er \<and>
      mn \<le> g_length x \<and> g_length x \<le> mx" for x
    by (auto simp: solutions_Some r sa ea sr er mn_def mx_def PED_MAX_def PED_MIN_def)
  have "solutions (ped_constraint_intersect (Some a) (Some b)) = solutions (Some a) \<inter> solutions (Some b) \<and>
    (\<forall>c. ped_constraint_intersect (Some a) (Some b) = Some c \<longrightarrow> constraint_ok c)"
  proof (cases "sa = None \<or> ea = None \<or> sr = None \<or> er = None")
    case True
    then have "ped_constraint_intersect (Some a) (Some b) = None"
      by (auto simp: ped_constraint_intersect_def r simp flip: sa_def ea_def sr_def er_def
          split: option.splits)
    moreover from True have "solutions (Some a) \<inter> solutions (Some b) = {}"
      using mem by auto
    ultimately show ?thesis by simp
  next
    case False
    then obtain s e where se: "sr = Some s" "er = Some e" by auto
    note s = region_Some_meet [OF se(1) [unfolded sr_def] g(1,4)]
    note e = region_Some_meet [OF se(2) [unfolded er_def] g(2,5)]
    have "g_dev s = g_dev e" using s e g by simp
    note new = ped_constraint_new_ok [OF sa(2) ea(2) s(1) e(1) this mm]
    from False se have "ped_constraint_intersect (Some a) (Some b)
        = ped_constraint_new sa ea (Some s) (Some e) mn mx"
      by (auto simp: ped_constraint_intersect_def r simp flip: sa_def ea_def sr_def er_def mn_def mx_def)
    moreover have "x \<in> solutions (ped_constraint_new sa ea (Some s) (Some e) mn mx) \<longleftrightarrow>
        x \<in> solutions (Some a) \<inter> solutions (Some b)" for x
      unfolding mem se region_Some new(1) new(3) using \<open>g_dev s = g_dev e\<close> by auto
    ultimately show ?thesis using new(1,2) by auto
  qed
  then show "solutions (ped_constraint_intersect (Some a) (Some b)) = solutions (Some a) \<inter> solutions (Some b)"
    "ped_constraint_intersect (Some a) (Some b) = Some c \<Longrightarrow> constraint_ok c" by auto
qed

lemma ped_constraint_intersect_None [simp]:
  "ped_constraint_intersect None b = None" "ped_constraint_intersect a None = None"
  by (cases a; simp add: ped_constraint_intersect_def)+

interpretation constraint_meet: meet_semantics solutions constraint_small ped_constraint_intersect
proof
  show "solutions None = {}" by simp
next
  fix a b assume "constraint_small a" "constraint_small b"
  then show "solutions (ped_constraint_intersect a b) = solutions a \<inter> solutions b"
    by (cases a; cases b) (simp_all add: constraint_intersect_spec)
qed

section \<open>The solver\<close>

text \<open>The least and the greatest solution of an alignment in a geometry.\<close>

lemma align_first_last:
  assumes "alignment_ok al" "geometry_ok g"
  defines "f \<equiv> ped_alignment_align_down (Some al) (Some g) (g_start g)"
    and "l \<equiv> ped_alignment_align_up (Some al) (Some g) (g_end g)"
    and "S \<equiv> {t \<in> aligned (Some al). inside g t}"
  shows "S = {} \<and> f = -1 \<and> l = -1 \<or>
    f \<in> S \<and> l \<in> S \<and> f \<noteq> -1 \<and> l \<noteq> -1 \<and> (\<forall>t\<in>S. f \<le> t \<and> t \<le> l)"
proof -
  note okg = geometry_okD [OF assms(2)]
  have b: "g_start g \<le> 2 ^ 61" "g_end g \<le> 2 ^ 61" "0 \<le> g_end g" using okg by auto
  note d = align_down_spec [OF assms(1,2) okg(1) b(1), folded f_def]
  note u = align_up_spec [OF assms(1,2) b(3,2), folded l_def]
  have ds: "grain_size al \<noteq> 0 \<Longrightarrow> down_start al (g_start g) \<le> g_start g"
    using down_start_spec [OF assms(1) _ okg(1) b(1)] by simp
  have us: "grain_size al \<noteq> 0 \<Longrightarrow> g_end g \<le> up_start al (g_end g)"
    using up_start_spec [OF assms(1) _ b(3,2)] by simp
  have one: "t = offset al" if "grain_size al = 0" "t \<in> S" for t
    using that by (simp add: S_def aligned_Some)
  show ?thesis
  proof (cases "S = {}")
    case True
    then have "f = -1" "l = -1" using d u by (auto simp: closest_solution_def S_def split: if_splits)
    with True show ?thesis by simp
  next
    case False
    have neg: "-1 \<notin> S" using okg by (simp add: S_def)
    have f: "f \<in> S" "\<forall>t\<in>S. between (down_start al (g_start g)) f t"
      using d False neg by (auto simp: closest_solution_def S_def split: if_splits)
    have l: "l \<in> S" "\<forall>t\<in>S. between (up_start al (g_end g)) l t"
      using u False neg by (auto simp: closest_solution_def S_def split: if_splits)
    have "f \<le> t \<and> t \<le> l" if "t \<in> S" for t
    proof (cases "grain_size al = 0")
      case True
      with one that f(1) l(1) show ?thesis by auto
    next
      case False
      with ds us f(2) l(2) that show ?thesis by (fastforce simp: between_def S_def)
    qed
    with f l neg show ?thesis by auto
  qed
qed

lemma init_in_range:
  assumes "dev_ok dev" "0 \<le> start" "1 \<le> len" "start + len \<le> dev_length dev"
  shows "ped_geometry_init g dev start len =
    (None, \<lparr>g_dev = dev, g_start = start, g_length = len, g_end = start + len - 1\<rparr>)"
  using assms by (simp add: ped_geometry_init_def ped_geometry_set_in_range)

text \<open>
  The canonical start range: it does not depend on the content of the stack, it contains the
  start of every solution, and it only fails when there is no solution that ends at or after
  sector \<open>min_size\<close>.
\<close>

lemma canonical_start_range_cases:
  assumes ok: "constraint_ok c" and r: "start_range c = Some s" "end_range c = Some e"
  obtains (none) "\<And>stack. constraint_get_canonical_start_range stack c = None"
      "\<forall>g\<in>solutions (Some c). g_end g < min_size c"
  | (some) rg f l where "\<And>stack. constraint_get_canonical_start_range stack c = Some rg" "geometry_ok rg"
      "g_dev rg = g_dev s" "f \<in> aligned (end_align c)" "inside e f" "l \<in> aligned (end_align c)" "inside e l"
      "\<forall>t. t \<in> aligned (end_align c) \<and> inside e t \<longrightarrow> f \<le> t \<and> t \<le> l"
      "g_start rg = max (max 0 (f - max_size c + 1)) (g_start s)"
      "g_end rg = min (l - min_size c + 1) (g_end s)" "min_size c \<le> max_size c" "min_size c \<le> l"
proof -
  from ok r have g: "geometry_ok s" "geometry_ok e" "g_dev s = g_dev e"
    by (auto simp: constraint_ok_def)
  note cb = constraint_okD [OF ok]
  define f where "f = ped_alignment_align_down (end_align c) (Some e) (g_start e)"
  define l where "l = ped_alignment_align_up (end_align c) (Some e) (g_end e)"
  define S where "S = {t \<in> aligned (end_align c). inside e t}"
  have sol: "g_end x \<in> S" "g_length x \<le> max_size c" "min_size c \<le> g_length x" "geometry_ok x"
    "g_dev x = g_dev s" "inside s (g_start x)"
    if "x \<in> solutions (Some c)" for x
    using that by (auto simp: solutions_Some r region_Some S_def)
  have fl: "S = {} \<and> f = -1 \<and> l = -1 \<or> f \<in> S \<and> l \<in> S \<and> f \<noteq> -1 \<and> l \<noteq> -1 \<and> (\<forall>t\<in>S. f \<le> t \<and> t \<le> l)"
  proof (cases "end_align c")
    case None
    then show ?thesis
      by (simp add: S_def f_def l_def ped_alignment_align_down_def ped_alignment_align_up_def)
  next
    case (Some al)
    with cb(6) have "alignment_ok al" by (simp add: alignment_opt_ok_def)
    from align_first_last [OF this g(2)] show ?thesis by (simp add: Some S_def f_def l_def)
  qed
  show ?thesis
  proof (cases "min_size c > max_size c \<or> S = {} \<or> l < min_size c")
    case True
    then have "constraint_get_canonical_start_range stack c = None" for stack
      using fl by (auto simp: constraint_get_canonical_start_range_def Let_def r simp flip: f_def l_def)
    moreover have "g_end x < min_size c" if "x \<in> solutions (Some c)" for x
      using sol [OF that] True fl by auto
    ultimately show ?thesis by (blast intro: none)
  next
    case False
    with fl have f: "f \<in> S" "l \<in> S" "f \<noteq> -1" "l \<noteq> -1" "\<forall>t\<in>S. f \<le> t \<and> t \<le> l" by auto
    then have fl2: "f \<le> l" "0 \<le> f" "l < dev_length (g_dev s)"
      using geometry_okD [OF g(2)] g(3) by (auto simp: S_def)
    define mns where "mns = max 0 (f - max_size c + 1)"
    define mxs where "mxs = l - min_size c + 1"
    have dl: "dev_length (g_dev s) \<le> 2 ^ 61" "dev_ok (g_dev s)"
      using geometry_okD [OF g(1)] g(1) by (auto simp: geometry_ok_def)
    have w: "s64 (f - max_size c + 1) = f - max_size c + 1" "s64 (l - min_size c + 1) = mxs"
      "s64 (mxs - mns + 1) = mxs - mns + 1" "mns \<le> mxs" "0 \<le> mns" "mxs < dev_length (g_dev s)"
      using fl2 dl cb False by (auto simp: mns_def mxs_def intro!: s64_id)
    define rg where "rg = \<lparr>g_dev = g_dev s, g_start = mns, g_length = mxs - mns + 1, g_end = mxs\<rparr>"
    have ini: "ped_geometry_init u (g_dev s) mns (mxs - mns + 1) = (None, rg)" for u
      using w dl by (subst init_in_range) (auto simp: rg_def)
    have rgok: "geometry_ok rg" using w dl by (simp add: geometry_ok_def rg_def)
    have c0: "\<not> min_size c > max_size c" "\<not> (f = -1 \<or> l = -1 \<or> f > l \<or> l < min_size c)" "\<not> mxs < 0"
      "(if f - max_size c + 1 < 0 then 0 else f - max_size c + 1) = mns"
      using False f fl2 w by (auto simp: mns_def)
    have can: "constraint_get_canonical_start_range stack c = ped_geometry_intersect (Some rg) (Some s)" for stack
      by (simp add: constraint_get_canonical_start_range_def Let_def r c0 w ini
          del: de_Morgan_disj flip: f_def l_def)
    show ?thesis
    proof (cases "ped_geometry_intersect (Some rg) (Some s)")
      case None
      then have "\<not> max mns (g_start s) \<le> min mxs (g_end s)"
        using ped_geometry_intersect_ok [OF rgok g(1)] by (auto simp: rg_def split: if_splits)
      then have "x \<notin> solutions (Some c)" for x
        using sol [of x] f(5) geometry_okD [of x] by (force simp: mns_def mxs_def)
      with None can show ?thesis by (auto intro: none)
    next
      case (Some r')
      with ped_geometry_intersect_ok [OF rgok g(1)] region_Some_meet [OF Some rgok g(1)] f False can show ?thesis
        by (intro some [of r' f l]) (auto simp: rg_def mns_def mxs_def S_def split: if_splits)
    qed
  qed
qed

text \<open>The ends that go with a start: again independent of the content of the stack.\<close>

lemma end_range_eq:
  assumes ok: "constraint_ok c" and r: "start_range c = Some s" "end_range c = Some e"
    and st: "0 \<le> start" "start < dev_length (g_dev e)" and mm: "min_size c \<le> max_size c"
  shows "constraint_get_end_range stack c start =
    (if max (start + min_size c - 1) (g_start e) \<le> min (start + max_size c - 1) (g_end e)
     then Some \<lparr>g_dev = g_dev e, g_start = max (start + min_size c - 1) (g_start e),
       g_length = min (start + max_size c - 1) (g_end e) - max (start + min_size c - 1) (g_start e) + 1,
       g_end = min (start + max_size c - 1) (g_end e)\<rparr>
     else None)"
proof -
  from ok r have g: "geometry_ok e" by (auto simp: constraint_ok_def)
  note okg = geometry_okD [OF g] and cb = constraint_okD [OF ok]
  define a where "a = start + min_size c - 1"
  define b where "b = start + max_size c - 1"
  define L where "L = dev_length (g_dev e) - 1"
  have w: "s64 (start + min_size c - 1) = a" "s64 (start + max_size c - 1) = b" "s64 L = L"
    using st okg cb by (auto simp: a_def b_def L_def intro!: s64_id)
  have ab: "a \<le> b" "0 \<le> a" using st mm cb by (auto simp: a_def b_def)
  show ?thesis
  proof (cases "a > L")
    case True
    then have "constraint_get_end_range stack c start = None"
      by (simp add: constraint_get_end_range_def Let_def r w flip: L_def)
    moreover have "g_end e < a" using True okg by (simp add: L_def)
    ultimately show ?thesis unfolding a_def by auto
  next
    case False
    define m where "m = min b L"
    have m: "(if b > L then L else b) = m" "a \<le> m" "m < dev_length (g_dev e)" "m \<le> 2 ^ 61"
      using False ab okg(4) by (auto simp: m_def L_def)
    have "s64 (m - a + 1) = m - a + 1" using m ab by (intro s64_id) auto
    moreover define rg where "rg = \<lparr>g_dev = g_dev e, g_start = a, g_length = m - a + 1, g_end = m\<rparr>"
    have "ped_geometry_init u (g_dev e) a (m - a + 1) = (None, rg)" for u
      using m ab g by (subst init_in_range) (auto simp: rg_def geometry_ok_def)
    ultimately have "constraint_get_end_range stack c start = ped_geometry_intersect (Some rg) (Some e)"
      using False m(1) w(3) by (cases "b > L") (auto simp: constraint_get_end_range_def Let_def r w simp flip: L_def)
    moreover have "geometry_ok rg" using m ab g by (auto simp: rg_def geometry_ok_def)
    moreover have "min m (g_end e) = min b (g_end e)" using okg by (auto simp: m_def L_def)
    ultimately show ?thesis
      unfolding a_def [symmetric] b_def [symmetric] by (simp add: ped_geometry_intersect_ok g rg_def)
  qed
qed

lemma align_nearest_opt:
  assumes "alignment_opt_ok ao" "geometry_ok g" "0 \<le> sector" "sector \<le> 2 ^ 61"
  defines "r \<equiv> ped_alignment_align_nearest ao (Some g) sector"
  shows "r = -1 \<longleftrightarrow> (\<forall>t \<in> aligned ao. \<not> inside g t)"
    "r \<noteq> -1 \<Longrightarrow> r \<in> aligned ao \<and> inside g r"
  using assms align_nearest_solution
  by (cases ao; simp add: alignment_opt_ok_def ped_alignment_align_nearest_def)+

text \<open>The outcome of the solver.\<close>

lemma solve_nearest_None:
  assumes "\<forall>stack. constraint_get_canonical_start_range stack c = None"
  shows "ped_constraint_solve_nearest stack (Some c) (Some geom) = None"
  using assms by (simp add: ped_constraint_solve_nearest_def constraint_get_nearest_start_soln_def)

lemma nearest_start_soln:
  assumes ok: "constraint_ok c" and r: "start_range c = Some s" "end_range c = Some e"
    and x: "0 \<le> x" "x \<le> 2 ^ 61"
  defines "st \<equiv> \<lambda>stack. constraint_get_nearest_start_soln stack c x"
  shows "st stack = st stack'"
    "st stack \<noteq> -1 \<Longrightarrow> st stack \<in> aligned (start_align c) \<and> inside s (st stack) \<and> min_size c \<le> max_size c"
proof -
  have "st stack = st stack' \<and> (st stack \<noteq> -1 \<longrightarrow> st stack \<in> aligned (start_align c) \<and>
      inside s (st stack) \<and> min_size c \<le> max_size c)"
    using ok r
  proof (cases rule: canonical_start_range_cases)
    case none
    then show ?thesis by (simp add: st_def constraint_get_nearest_start_soln_def)
  next
    case (some rg f l)
    from align_nearest_opt [OF constraint_okD(5) [OF ok] some(2) x] show ?thesis
      by (auto simp: st_def constraint_get_nearest_start_soln_def some(1,9,10,11))
  qed
  then show "st stack = st stack'"
    "st stack \<noteq> -1 \<Longrightarrow> st stack \<in> aligned (start_align c) \<and> inside s (st stack) \<and> min_size c \<le> max_size c"
    by auto
qed

lemma nearest_end_soln:
  assumes ok: "constraint_ok c" and r: "start_range c = Some s" "end_range c = Some e"
    and x: "0 \<le> x" "x \<le> 2 ^ 61" and st: "inside s st" "min_size c \<le> max_size c"
  defines "en \<equiv> \<lambda>stack. constraint_get_nearest_end_soln stack c st x"
  shows "en stack = en stack'"
    "en stack = -1 \<longleftrightarrow> (\<forall>t \<in> aligned (end_align c). \<not> (inside e t \<and>
       min_size c \<le> t - st + 1 \<and> t - st + 1 \<le> max_size c))"
    "en stack \<noteq> -1 \<Longrightarrow> en stack \<in> aligned (end_align c) \<and> inside e (en stack) \<and>
        min_size c \<le> en stack - st + 1 \<and> en stack - st + 1 \<le> max_size c"
proof -
  from ok r have g: "geometry_ok s" "geometry_ok e" "g_dev s = g_dev e"
    by (auto simp: constraint_ok_def)
  have "0 \<le> st" "st < dev_length (g_dev e)" using st geometry_okD [OF g(1)] g(3) by auto
  note er = end_range_eq [OF ok r this st(2)]
  have "en stack = en stack' \<and> (en stack = -1 \<longleftrightarrow> (\<forall>t \<in> aligned (end_align c). \<not> (inside e t \<and>
       min_size c \<le> t - st + 1 \<and> t - st + 1 \<le> max_size c))) \<and>
     (en stack \<noteq> -1 \<longrightarrow> en stack \<in> aligned (end_align c) \<and> inside e (en stack) \<and>
        min_size c \<le> en stack - st + 1 \<and> en stack - st + 1 \<le> max_size c)"
  proof (cases "constraint_get_end_range stack c st")
    case None
    then have "constraint_get_end_range stack' c st = None" unfolding er by simp
    moreover have "\<not> max (st + min_size c - 1) (g_start e) \<le> min (st + max_size c - 1) (g_end e)"
      using None unfolding er by (simp split: if_splits)
    ultimately show ?thesis using None by (auto simp: en_def constraint_get_nearest_end_soln_def)
  next
    case (Some rg)
    then have same: "constraint_get_end_range stack' c st = Some rg" unfolding er by simp
    from Some er have rg: "geometry_ok rg" "g_start rg = max (st + min_size c - 1) (g_start e)"
      "g_end rg = min (st + max_size c - 1) (g_end e)"
      using geometry_okD [OF g(2)] g(2) by (auto simp: geometry_ok_def split: if_splits)
    have en: "en stack = ped_alignment_align_nearest (end_align c) (Some rg) x" "en stack = en stack'"
      using Some same by (simp_all add: en_def constraint_get_nearest_end_soln_def)
    have ins: "inside rg t \<longleftrightarrow> inside e t \<and> min_size c \<le> t - st + 1 \<and> t - st + 1 \<le> max_size c" for t
      using rg by auto
    show ?thesis
      using align_nearest_opt [OF constraint_okD(6) [OF ok] rg(1) x, folded en(1)] en(2)
      unfolding ins by auto
  qed
  then show "en stack = en stack'"
    "en stack = -1 \<longleftrightarrow> (\<forall>t \<in> aligned (end_align c). \<not> (inside e t \<and>
       min_size c \<le> t - st + 1 \<and> t - st + 1 \<le> max_size c))"
    "en stack \<noteq> -1 \<Longrightarrow> en stack \<in> aligned (end_align c) \<and> inside e (en stack) \<and>
        min_size c \<le> en stack - st + 1 \<and> en stack - st + 1 \<le> max_size c" by blast+
qed

text \<open>
  When a start and an end are found, they are the solution that is returned: \<open>ped_geometry_new\<close>
  succeeds and the final assertion holds.
\<close>

lemma solve_nearest_found:
  assumes ok: "constraint_ok c" and gm: "geometry_ok geom" "g_dev (the (start_range c)) = g_dev geom"
    and st: "constraint_get_nearest_start_soln stack c (g_start geom) = st" "st \<noteq> -1"
    and en: "constraint_get_nearest_end_soln stack c st (g_end geom) = en" "en \<noteq> -1"
  defines "x \<equiv> \<lparr>g_dev = g_dev geom, g_start = st, g_length = en - st + 1, g_end = en\<rparr>"
  shows "ped_constraint_solve_nearest stack (Some c) (Some geom) = Some x" "x \<in> solutions (Some c)"
proof -
  from ok obtain s e where r: "start_range c = Some s" "end_range c = Some e"
    and g: "geometry_ok s" "geometry_ok e" "g_dev s = g_dev e" by (rule constraint_okE)
  note okm = geometry_okD [OF gm(1)]
  have b: "0 \<le> g_start geom" "g_start geom \<le> 2 ^ 61" "0 \<le> g_end geom" "g_end geom \<le> 2 ^ 61"
    using okm by auto
  have st': "st \<in> aligned (start_align c)" "inside s st" "min_size c \<le> max_size c"
    using nearest_start_soln(2) [OF ok r b(1,2)] st by auto
  have en': "en \<in> aligned (end_align c)" "inside e en" "min_size c \<le> en - st + 1" "en - st + 1 \<le> max_size c"
    using nearest_end_soln(3) [OF ok r b(3,4) st'(2,3)] en by auto
  have bb: "0 \<le> st" "st \<le> en" "en < dev_length (g_dev geom)" "dev_ok (g_dev geom)"
    using st' en' constraint_okD [OF ok] geometry_okD [OF g(1)] geometry_okD [OF g(2)] g gm(2) r
    by (auto simp: geometry_ok_def)
  then have w: "s64 (en - st + 1) = en - st + 1" by (intro s64_id) (auto simp: dev_ok_def)
  have xok: "geometry_ok x" using bb by (simp add: geometry_ok_def x_def)
  show x: "x \<in> solutions (Some c)"
    using xok st' en' r gm(2) g(3) by (simp add: solutions_Some region_Some x_def)
  then have "ped_constraint_is_solution c x"
    using is_solution_iff [OF ok xok] gm(2) by (simp add: x_def)
  moreover have "ped_geometry_new (g_dev geom) st (en - st + 1) = Some x"
    using bb by (simp add: ped_geometry_new_in_range x_def)
  ultimately show "ped_constraint_solve_nearest stack (Some c) (Some geom) = Some x"
    using st en gm(2) w by (simp add: ped_constraint_solve_nearest_def Let_def)
qed

lemma solve_nearest_sound:
  assumes ok: "constraint_ok c" and gm: "geometry_ok geom"
  shows "ped_constraint_solve_nearest stack (Some c) (Some geom)
      = ped_constraint_solve_nearest stack' (Some c) (Some geom)" (is ?indep)
    and "ped_constraint_solve_nearest stack (Some c) (Some geom) = Some x \<Longrightarrow>
      x \<in> solutions (Some c) \<and> g_dev x = g_dev geom \<and> ped_constraint_is_solution c x"
      (is "?s \<Longrightarrow> ?sound")
proof -
  from ok obtain s e where r: "start_range c = Some s" "end_range c = Some e" by (rule constraint_okE)
  note okm = geometry_okD [OF gm]
  have b: "0 \<le> g_start geom" "g_start geom \<le> 2 ^ 61" "0 \<le> g_end geom" "g_end geom \<le> 2 ^ 61"
    using okm by auto
  let ?start = "\<lambda>stack. constraint_get_nearest_start_soln stack c (g_start geom)"
  let ?endsol = "\<lambda>stack start. constraint_get_nearest_end_soln stack c start (g_end geom)"
  have "?start stack = ?start stack'" by (rule nearest_start_soln(1) [OF ok r b(1,2)])
  moreover have "?start stack \<noteq> -1 \<Longrightarrow> ?endsol stack (?start stack) = ?endsol stack' (?start stack)"
    using nearest_end_soln(1) [OF ok r b(3,4)] nearest_start_soln(2) [OF ok r b(1,2)] by blast
  ultimately show ?indep
    by (simp add: ped_constraint_solve_nearest_def Let_def)
  assume s: ?s
  then have h: "g_dev (the (start_range c)) = g_dev geom" "?start stack \<noteq> -1"
    "?endsol stack (?start stack) \<noteq> -1"
    by (auto simp: ped_constraint_solve_nearest_def Let_def split: if_splits)
  from solve_nearest_found [OF ok gm h(1) refl h(2) refl h(3)] s
  have x: "x \<in> solutions (Some c)" "g_dev x = g_dev geom" by auto
  with is_solution_iff [OF ok _, of x] h(1) show ?sound by (simp add: solutions_Some)
qed

lemma canonical_start_range_of_solution:
  assumes ok: "constraint_ok c" and sol: "y \<in> solutions (Some c)" "min_size c \<le> g_end y"
  obtains rg where "\<And>stack. constraint_get_canonical_start_range stack c = Some rg" "geometry_ok rg"
    "g_dev rg = g_dev y" "inside rg (g_start y)"
proof -
  from ok obtain s e where r: "start_range c = Some s" "end_range c = Some e"
    and g: "geometry_ok s" "geometry_ok e" "g_dev s = g_dev e" by (rule constraint_okE)
  show ?thesis using ok r
  proof (cases rule: canonical_start_range_cases)
    case none
    with sol show ?thesis by auto
  next
    case (some rg f l)
    from sol(1) have y: "g_end y \<in> aligned (end_align c)" "g_dev y = g_dev s"
      "inside s (g_start y)" "inside e (g_end y)" "min_size c \<le> g_length y" "g_length y \<le> max_size c"
      "geometry_ok y"
      by (auto simp: solutions_Some r region_Some)
    then have "inside rg (g_start y)"
      using some(8) geometry_okD [OF y(7)] by (force simp: some(9,10))
    with some y that show ?thesis by simp
  qed
qed

lemma nearest_start_exists:
  assumes ok: "constraint_ok c" and x: "0 \<le> x" "x \<le> 2 ^ 61"
    and sol: "y \<in> solutions (Some c)" "min_size c \<le> g_end y"
  shows "constraint_get_nearest_start_soln stack c x \<noteq> -1"
proof -
  from ok sol obtain rg where rg: "constraint_get_canonical_start_range stack c = Some rg" "geometry_ok rg"
    "inside rg (g_start y)" by (metis canonical_start_range_of_solution)
  moreover have "g_start y \<in> aligned (start_align c)" using sol(1) by (simp add: solutions_Some)
  ultimately show ?thesis
    using align_nearest_opt(1) [OF constraint_okD(5) [OF ok] rg(2) x]
    by (auto simp: constraint_get_nearest_start_soln_def)
qed

lemma nearest_end_exists:
  assumes ok: "constraint_ok c" and x: "0 \<le> x" "x \<le> 2 ^ 61" "0 \<le> y" "y \<le> 2 ^ 61"
    and al: "end_align c = Some al" "grain_size al \<le> max_size c - min_size c + 1"
    and st: "constraint_get_nearest_start_soln stack c x = st" "st \<noteq> -1"
  shows "constraint_get_nearest_end_soln stack c st y \<noteq> -1"
proof -
  from ok obtain s e where r: "start_range c = Some s" "end_range c = Some e"
    and g: "geometry_ok s" "geometry_ok e" "g_dev s = g_dev e" by (rule constraint_okE)
  have alok: "alignment_ok al" using constraint_okD(6) [OF ok] al by (simp add: alignment_opt_ok_def)
  have s': "inside s st" "min_size c \<le> max_size c"
    using nearest_start_soln(2) [OF ok r x(1,2)] st by auto
  show ?thesis using ok r
  proof (cases rule: canonical_start_range_cases)
    case none
    with st show ?thesis by (auto simp: constraint_get_nearest_start_soln_def)
  next
    case (some rg f l)
    from st have "inside rg st"
      using align_nearest_opt(2) [OF constraint_okD(5) [OF ok] some(2) x(1,2)]
      by (auto simp: constraint_get_nearest_start_soln_def some(1))
    then have st2: "f \<le> st + max_size c - 1" "st + min_size c - 1 \<le> l" "0 \<le> st"
      by (auto simp: some(9,10))
    define a where "a = st + min_size c - 1"
    have a: "0 \<le> a" "a \<le> 2 ^ 61"
      using st2 constraint_okD [OF ok] some(7) geometry_okD [OF g(2)] by (auto simp: a_def)
    have "\<exists>t \<in> aligned (end_align c). inside e t \<and> a \<le> t \<and> t - st + 1 \<le> max_size c" (is "Bex _ ?Q")
    proof (cases "a \<le> f \<or> grain_size al = 0")
      case True
      have "f = l" if "grain_size al = 0" using that some(4,6) al(1) by (simp add: aligned_Some)
      with True some(4,5) st2 show ?thesis by (auto simp: a_def)
    next
      case False
      let ?t = "up_start al a"
      have t: "?t \<in> aligned (Some al)" "a \<le> ?t" "?t < a + grain_size al"
        using up_start_spec [OF alok _ a] False by auto
      have "?t \<le> l"
        using t st2 some(6) al(1) aligned_lowest [of "grain_size al" ?t "offset al" l a]
        by (auto simp: aligned_Some a_def)
      with t False al some(5,7) show ?thesis by (auto simp: a_def intro!: bexI [of _ ?t])
    qed
    then obtain t where t: "t \<in> aligned (end_align c)" "?Q t" by blast
    then have "inside e t \<and> min_size c \<le> t - st + 1 \<and> t - st + 1 \<le> max_size c" by (simp add: a_def)
    with t(1) show ?thesis
      unfolding nearest_end_soln(2) [OF ok r x(3,4) s'] by blast
  qed
qed

lemma align_nearest_fixed:
  assumes "alignment_opt_ok ao" "geometry_ok g" "dev_length (g_dev g) \<le> 2 ^ 31"
    "x \<in> aligned ao" "inside g x"
  shows "ped_alignment_align_nearest ao (Some g) x = x"
proof -
  from assms(4) obtain al where al: "ao = Some al" by (cases ao) auto
  with assms have "alignment_ok al" "0 \<le> x" "x < dev_length (g_dev g)"
    using geometry_okD [OF assms(2)] by (auto simp: alignment_opt_ok_def)
  from align_nearest_closest [OF this(1) assms(2) this(2,3) assms(3), of x] assms(4,5) show ?thesis
    by (simp add: al)
qed

lemma solve_nearest_fixed:
  assumes ok: "constraint_ok c" and sol: "y \<in> solutions (Some c)" "min_size c \<le> g_end y"
    and dev: "dev_length (g_dev y) \<le> 2 ^ 31"
  shows "ped_constraint_solve_nearest stack (Some c) (Some y) = Some y"
proof -
  from ok obtain s e where r: "start_range c = Some s" "end_range c = Some e"
    and g: "geometry_ok s" "geometry_ok e" "g_dev s = g_dev e" by (rule constraint_okE)
  from sol(1) have y: "g_start y \<in> aligned (start_align c)" "g_end y \<in> aligned (end_align c)"
    "g_dev y = g_dev s" "inside s (g_start y)" "inside e (g_end y)"
    "min_size c \<le> g_length y" "g_length y \<le> max_size c" "geometry_ok y"
    by (auto simp: solutions_Some r region_Some)
  note oky = geometry_okD [OF y(8)] and cb = constraint_okD [OF ok]
  obtain rg where rg: "constraint_get_canonical_start_range stack c = Some rg" "geometry_ok rg"
    "g_dev rg = g_dev y" "inside rg (g_start y)"
    using canonical_start_range_of_solution [OF ok sol] by metis
  have st: "constraint_get_nearest_start_soln stack c (g_start y) = g_start y"
    using align_nearest_fixed [OF cb(5) rg(2) _ y(1) rg(4)] dev rg
    by (simp add: constraint_get_nearest_start_soln_def)
  have lim: "0 \<le> g_start y" "g_start y < dev_length (g_dev e)" "min_size c \<le> max_size c"
    using oky y g by auto
  define er where "er = \<lparr>g_dev = g_dev e, g_start = max (g_start y + min_size c - 1) (g_start e),
       g_length = min (g_start y + max_size c - 1) (g_end e) - max (g_start y + min_size c - 1) (g_start e) + 1,
       g_end = min (g_start y + max_size c - 1) (g_end e)\<rparr>"
  have ins: "inside er (g_end y)" using y oky by (auto simp: er_def)
  then have ere: "constraint_get_end_range stack c (g_start y) = Some er"
    unfolding end_range_eq [OF ok r lim] by (auto simp: er_def)
  have "geometry_ok er"
    using ins geometry_okD [OF g(2)] g(2) by (auto simp: er_def geometry_ok_def)
  from align_nearest_fixed [OF cb(6) this _ y(2) ins] dev y(3) g(3)
  have en: "constraint_get_nearest_end_soln stack c (g_start y) (g_end y) = g_end y"
    by (simp add: constraint_get_nearest_end_soln_def ere, simp add: er_def)
  have "g_start y \<noteq> -1" "g_end y \<noteq> -1" "g_dev (the (start_range c)) = g_dev y"
    using oky r y by auto
  from solve_nearest_found(1) [OF ok y(8) this(3) st this(1) en this(2)]
  show ?thesis using oky by simp
qed

section \<open>The constraint constructors: lemmas\<close>

lemma alignment_any_ok: "alignment_opt_ok ped_alignment_any" "aligned ped_alignment_any = UNIV"
  by (simp_all add: ped_alignment_any_def alignment_opt_ok_def alignment_ok_def aligned_Some)

definition whole_device :: "PedDevice \<Rightarrow> PedGeometry" where
  "whole_device dev = \<lparr>g_dev = dev, g_start = 0, g_length = dev_length dev, g_end = dev_length dev - 1\<rparr>"

lemma whole_device_ok: "dev_ok dev \<Longrightarrow> geometry_ok (whole_device dev)"
  by (simp add: whole_device_def geometry_ok_def dev_ok_def)

lemma init_whole_device: "dev_ok dev \<Longrightarrow> ped_geometry_init g dev 0 (dev_length dev) = (None, whole_device dev)"
  by (subst init_in_range) (simp_all add: whole_device_def dev_ok_def)

lemma constraint_any_ok:
  assumes "dev_ok dev"
  obtains c where "\<And>stack. ped_constraint_any stack dev = Some c" "constraint_ok c"
    "solutions (Some c) = {g. geometry_ok g \<and> g_dev g = dev}"
    "min_size c = 1" "g_dev (the (start_range c)) = dev" "end_align c = Some \<lparr>offset = 0, grain_size = 1\<rparr>"
    "max_size c = dev_length dev"
proof -
  note g = whole_device_ok [OF assms]
  have d: "1 \<le> dev_length dev" "dev_length dev \<le> 2 ^ 61" using assms by (auto simp: dev_ok_def)
  note new = ped_constraint_new_ok [OF alignment_any_ok(1) alignment_any_ok(1) g g refl order_refl _ d]
  have "g_length x \<le> dev_length (g_dev x)" "0 \<le> g_start x" "g_end x \<le> dev_length (g_dev x) - 1"
    "g_start x \<le> dev_length (g_dev x) - 1" "1 \<le> g_length x" "0 \<le> g_end x"
    if "geometry_ok x" for x
    using geometry_okD [OF that] by auto
  then have "solutions (ped_constraint_new ped_alignment_any ped_alignment_any (Some (whole_device dev))
      (Some (whole_device dev)) 1 (dev_length dev)) = {g. geometry_ok g \<and> g_dev g = dev}"
    using new(1,3) by (auto simp: alignment_any_ok whole_device_def)
  then have "solutions (Some c) = {g. geometry_ok g \<and> g_dev g = dev}"
    if "ped_constraint_new ped_alignment_any ped_alignment_any (Some (whole_device dev))
      (Some (whole_device dev)) 1 (dev_length dev) = Some c" for c
    using that by simp
  moreover have "ped_alignment_duplicate ped_alignment_any = Some \<lparr>offset = 0, grain_size = 1\<rparr>"
    by (simp add: ped_alignment_duplicate_def ped_alignment_any_def ped_alignment_new_def
        ped_alignment_init_def abs_mod_def)
  ultimately show ?thesis
    by (intro that [OF _ new(2)])
      (simp_all add: new(1) ped_constraint_any_def init_whole_device assms, simp_all add: whole_device_def)
qed

lemma constraint_from_min_max_ok:
  assumes mn: "geometry_ok mn" and mx: "geometry_ok mx" and ins: "ped_geometry_test_inside mx mn"
  obtains c where "\<And>stack. ped_constraint_new_from_min_max stack (Some mn) (Some mx) = Some c"
    "constraint_ok c"
    "solutions (Some c) = {g. geometry_ok g \<and> region (Some mn) \<subseteq> region (Some g) \<and> region (Some g) \<subseteq> region (Some mx)}"
    "min_size c = g_length mn" "start_range c = Some \<lparr>g_dev = g_dev mn, g_start = g_start mx,
       g_length = g_start mn - g_start mx + 1, g_end = g_start mn\<rparr>"
    "end_range c = Some \<lparr>g_dev = g_dev mn, g_start = g_end mn, g_length = g_end mx - g_end mn + 1, g_end = g_end mx\<rparr>"
proof -
  define s where "s = \<lparr>g_dev = g_dev mn, g_start = g_start mx,
       g_length = g_start mn - g_start mx + 1, g_end = g_start mn\<rparr>"
  define e where "e = \<lparr>g_dev = g_dev mn, g_start = g_end mn, g_length = g_end mx - g_end mn + 1, g_end = g_end mx\<rparr>"
  from ins have i: "g_dev mx = g_dev mn" "g_start mx \<le> g_start mn" "g_end mn \<le> g_end mx"
    by (auto simp: ped_geometry_test_inside_def split: if_splits)
  note o = geometry_okD [OF mn] geometry_okD [OF mx]
  have se: "geometry_ok s" "geometry_ok e" "g_dev s = g_dev e"
    using mn mx i by (auto simp: s_def e_def geometry_ok_def)
  have w: "s64 (g_start mn - g_start mx + 1) = g_start mn - g_start mx + 1"
    "s64 (g_end mx - g_end mn + 1) = g_end mx - g_end mn + 1"
    using o i by (auto intro!: s64_id)
  have ini: "ped_geometry_init u (g_dev mn) (g_start mx) (g_start mn - g_start mx + 1) = (None, s)"
    "ped_geometry_init u (g_dev mn) (g_end mn) (g_end mx - g_end mn + 1) = (None, e)" for u
    using o i mn by (subst init_in_range; simp add: s_def e_def geometry_ok_def)+
  have len: "1 \<le> g_length mn" "g_length mn \<le> 2 ^ 61" "1 \<le> g_length mx" "g_length mx \<le> 2 ^ 61"
    using o by auto
  note new = ped_constraint_new_ok [OF alignment_any_ok(1) alignment_any_ok(1) se len]
  have eq: "ped_constraint_new_from_min_max stack (Some mn) (Some mx) =
      ped_constraint_new ped_alignment_any ped_alignment_any (Some s) (Some e) (g_length mn) (g_length mx)" for stack
    using ins by (simp add: ped_constraint_new_from_min_max_def Let_def w ini)
  have "region (Some mn) \<subseteq> region (Some g) \<and> region (Some g) \<subseteq> region (Some mx) \<longleftrightarrow>
    g_dev g = g_dev s \<and> inside s (g_start g) \<and> inside e (g_end g) \<and> g_length mn \<le> g_length g \<and> g_length g \<le> g_length mx"
    if "geometry_ok g" for g
    unfolding region_subset [OF o(2)] region_subset [OF geometry_okD(2) [OF that]]
    using o(6,12) i geometry_okD(6) [OF that] by (cases "g_dev g = g_dev mn") (simp_all add: s_def e_def, arith)
  then have "solutions (ped_constraint_new ped_alignment_any ped_alignment_any (Some s) (Some e)
      (g_length mn) (g_length mx)) =
    {g. geometry_ok g \<and> region (Some mn) \<subseteq> region (Some g) \<and> region (Some g) \<subseteq> region (Some mx)}"
    unfolding new(1) new(3) by (auto simp: alignment_any_ok)
  with eq show ?thesis by (intro that [OF _ new(2)]) (simp_all add: new(1), simp_all add: s_def e_def)
qed

lemma constraint_exact_ok:
  assumes g: "geometry_ok geom"
  obtains c where "\<And>stack. ped_constraint_exact stack geom = Some c" "constraint_ok c"
    "solutions (Some c) = {geom}" "min_size c = 1"
proof -
  note o = geometry_okD [OF g]
  define s where "s = \<lparr>g_dev = g_dev geom, g_start = g_start geom, g_length = 1, g_end = g_start geom\<rparr>"
  define e where "e = \<lparr>g_dev = g_dev geom, g_start = g_end geom, g_length = 1, g_end = g_end geom\<rparr>"
  have se: "geometry_ok s" "geometry_ok e" "g_dev s = g_dev e"
    using g o by (auto simp: s_def e_def geometry_ok_def)
  have ini: "ped_geometry_init u (g_dev geom) (g_start geom) 1 = (None, s)"
    "ped_geometry_init u (g_dev geom) (g_end geom) 1 = (None, e)" for u
    using g o by (subst init_in_range; simp add: s_def e_def geometry_ok_def)+
  let ?al = "\<lambda>x. Some \<lparr>offset = x, grain_size = 0\<rparr>"
  have al: "alignment_opt_ok (?al (g_start geom))" "alignment_opt_ok (?al (g_end geom))"
    using o by (auto simp: alignment_opt_ok_def alignment_ok_def)
  have d: "1 \<le> dev_length (g_dev geom)" "dev_length (g_dev geom) \<le> 2 ^ 61" using o by auto
  note new = ped_constraint_new_ok [OF al se order_refl _ d]
  have "x = geom" if "geometry_ok x" "g_dev x = g_dev geom" "g_start x = g_start geom" "g_end x = g_end geom" for x
    using geometry_okD(6) [OF that(1)] o that by simp
  then have "solutions (ped_constraint_new (?al (g_start geom)) (?al (g_end geom)) (Some s) (Some e)
      1 (dev_length (g_dev geom))) = {geom}"
    using new(1,3) g o by (auto simp: s_def e_def aligned_Some)
  then show ?thesis
    by (intro that [OF _ new(2)]) (simp_all add: new(1) ped_constraint_exact_def Let_def ini ped_alignment_init_def)
qed

section \<open>Properties\<close>

text \<open>
  C30. \<open>ped_constraint_intersect\<close> is the intersection: a region satisfies the constraint it
  returns if and only if it satisfies both arguments, \<open>NULL\<close> (nothing satisfies it) and
  constraints on different devices included, and the constraint it returns is well formed.
\<close>

theorem ped_constraint_intersect_solutions:
  assumes "constraint_small a" and "constraint_small b"
  shows "solutions (ped_constraint_intersect a b) = solutions a \<inter> solutions b \<and>
    (\<forall>c. ped_constraint_intersect a b = Some c \<longrightarrow> constraint_ok c)"
  using assms constraint_meet.sat_meet [OF assms]
  by (cases a; cases b) (auto dest: constraint_intersect_spec(2))

text \<open>Two concrete constraints: a region in the first 100 sectors that starts on a multiple of 8,
  and one of at least 10 sectors that ends before a multiple of 4.\<close>

definition sample_constraint_a :: PedConstraint where
  "sample_constraint_a =
     \<lparr>start_align = Some \<lparr>offset = 0, grain_size = 8\<rparr>, end_align = Some \<lparr>offset = 0, grain_size = 1\<rparr>,
      start_range = Some \<lparr>g_dev = sample_dev 1000, g_start = 0, g_length = 100, g_end = 99\<rparr>,
      end_range = Some \<lparr>g_dev = sample_dev 1000, g_start = 0, g_length = 100, g_end = 99\<rparr>,
      min_size = 1, max_size = 100\<rparr>"

definition sample_constraint_b :: PedConstraint where
  "sample_constraint_b =
     \<lparr>start_align = Some \<lparr>offset = 0, grain_size = 1\<rparr>, end_align = Some \<lparr>offset = 3, grain_size = 4\<rparr>,
      start_range = Some \<lparr>g_dev = sample_dev 1000, g_start = 0, g_length = 1000, g_end = 999\<rparr>,
      end_range = Some \<lparr>g_dev = sample_dev 1000, g_start = 0, g_length = 1000, g_end = 999\<rparr>,
      min_size = 10, max_size = 1000\<rparr>"

lemma sample_constraints_ok:
  "constraint_ok sample_constraint_a" "constraint_ok sample_constraint_b"
  "constraint_small (Some sample_constraint_a)" "constraint_small (Some sample_constraint_b)"
  by (simp_all add: constraint_small_Some constraint_ok_def alignment_opt_ok_def alignment_small_def
      alignment_ok_def geometry_ok_def dev_ok_def sample_constraint_a_def sample_constraint_b_def sample_dev_def)

lemma sample_solution:
  "\<lparr>g_dev = sample_dev 1000, g_start = 8, g_length = 12, g_end = 19\<rparr>
     \<in> solutions (Some sample_constraint_a) \<inter> solutions (Some sample_constraint_b)"
  by (simp add: solutions_Some sample_constraint_a_def sample_constraint_b_def aligned_Some region_Some
      geometry_ok_def dev_ok_def sample_dev_def)

theorem ped_constraint_intersect_solutions_witness:
  "let a = Some sample_constraint_a; b = Some sample_constraint_b
   in constraint_small a \<and> constraint_small b \<and>
      \<lparr>g_dev = sample_dev 1000, g_start = 8, g_length = 12, g_end = 19\<rparr>
        \<in> solutions (ped_constraint_intersect a b)"
  using ped_constraint_intersect_solutions [OF sample_constraints_ok(3,4)] sample_constraints_ok(3,4)
    sample_solution by simp

text \<open>
  C31. \<open>ped_constraint_solve_nearest\<close> only returns regions that satisfy the constraint, on the
  device of the region it was given; and although it passes stack variables it never checks
  to be initialised, its result does not depend on what they contained.
\<close>

theorem ped_constraint_solve_nearest_sound:
  assumes "constraint_ok c" and "geometry_ok geom"
  shows "ped_constraint_solve_nearest stack (Some c) (Some geom)
      = ped_constraint_solve_nearest stack' (Some c) (Some geom) \<and>
    (case ped_constraint_solve_nearest stack (Some c) (Some geom) of
       None \<Rightarrow> True
     | Some r \<Rightarrow> geometry_ok r \<and> g_dev r = g_dev geom \<and> ped_constraint_is_solution c r \<and>
         r \<in> solutions (Some c))"
proof (intro conjI solve_nearest_sound(1) [OF assms])
  show "case ped_constraint_solve_nearest stack (Some c) (Some geom) of
       None \<Rightarrow> True
     | Some r \<Rightarrow> geometry_ok r \<and> g_dev r = g_dev geom \<and> ped_constraint_is_solution c r \<and>
         r \<in> solutions (Some c)"
  proof (cases "ped_constraint_solve_nearest stack (Some c) (Some geom)")
    case (Some r)
    from solve_nearest_sound(2) [OF assms Some]
    have "geometry_ok r \<and> g_dev r = g_dev geom \<and> ped_constraint_is_solution c r \<and> r \<in> solutions (Some c)"
      by (auto simp: solutions_Some)
    with Some show ?thesis by (simp only: option.case)
  qed simp
qed

lemma sample_geometry_ok:
  "geometry_ok \<lparr>g_dev = sample_dev 1000, g_start = 5, g_length = 20, g_end = 24\<rparr>"
  by (simp add: geometry_ok_def dev_ok_def sample_dev_def)

theorem ped_constraint_solve_nearest_sound_witness:
  "let st = (\<lambda>_. fresh_geometry (sample_dev 1000));
       g = \<lparr>g_dev = sample_dev 1000, g_start = 5, g_length = 20, g_end = 24\<rparr>
   in constraint_ok sample_constraint_b \<and> geometry_ok g \<and>
      ped_constraint_solve_nearest st (Some sample_constraint_b) (Some g) =
        Some \<lparr>g_dev = sample_dev 1000, g_start = 5, g_length = 19, g_end = 23\<rparr> \<and>
      \<lparr>g_dev = sample_dev 1000, g_start = 5, g_length = 19, g_end = 23\<rparr>
        \<in> solutions (Some sample_constraint_b)"
proof -
  let ?st = "\<lambda>_. fresh_geometry (sample_dev 1000)"
  let ?g = "\<lparr>g_dev = sample_dev 1000, g_start = 5, g_length = 20, g_end = 24\<rparr>"
  have "ped_constraint_solve_nearest ?st (Some sample_constraint_b) (Some ?g) =
        Some \<lparr>g_dev = sample_dev 1000, g_start = 5, g_length = 19, g_end = 23\<rparr>"
    unfolding sample_constraint_b_def sample_dev_def by code_simp
  with ped_constraint_solve_nearest_sound [OF sample_constraints_ok(2) sample_geometry_ok, of ?st ?st]
    sample_constraints_ok(2) sample_geometry_ok
  show ?thesis by (simp add: Let_def)
qed

text \<open>
  C32. \<open>ped_constraint_solve_nearest\<close> finds a solution when the constraint has one on the device of the region
  that ends at or after sector \<open>min_size\<close> (every solution does that does not start at sector 0), provided that
  the range of lengths, from \<open>min_size\<close> to \<open>max_size\<close>, is not narrower than the grain of the end alignment.
  Without them the code can miss every solution, see \<open>ped_constraint_whole_device_unsolved\<close> for the first
  and \<open>ped_constraint_solve_nearest_incomplete\<close> for the second.
\<close>

theorem ped_constraint_solve_nearest_complete:
  assumes "constraint_ok c" and "geometry_ok geom" and "y \<in> solutions (Some c)"
    and "min_size c \<le> g_end y" and "g_dev y = g_dev geom"
    and "end_align c = Some al" and "grain_size al \<le> max_size c - min_size c + 1"
  shows "\<exists>r. ped_constraint_solve_nearest stack (Some c) (Some geom) = Some r \<and>
    ped_constraint_is_solution c r"
proof -
  note okm = geometry_okD [OF assms(2)]
  have b: "0 \<le> g_start geom" "g_start geom \<le> 2 ^ 61" "0 \<le> g_end geom" "g_end geom \<le> 2 ^ 61"
    using okm by auto
  have dev: "g_dev (the (start_range c)) = g_dev geom"
    using assms(1,3,5) by (auto simp: solutions_Some region_Some elim!: constraint_okE)
  note st = nearest_start_exists [OF assms(1) b(1,2) assms(3,4), of stack]
  note en = nearest_end_exists [OF assms(1) b assms(6,7) refl st]
  from solve_nearest_found [OF assms(1,2) dev refl st refl en] is_solution_iff [OF assms(1)] dev
  show ?thesis by (auto simp: solutions_Some)
qed

theorem ped_constraint_solve_nearest_complete_witness:
  "let g = \<lparr>g_dev = sample_dev 1000, g_start = 5, g_length = 20, g_end = 24\<rparr>
   in \<exists>r. ped_constraint_solve_nearest (\<lambda>_. fresh_geometry (sample_dev 1000))
            (Some sample_constraint_a) (Some g) = Some r \<and>
          ped_constraint_is_solution sample_constraint_a r"
proof -
  have "\<lparr>g_dev = sample_dev 1000, g_start = 8, g_length = 12, g_end = 19\<rparr> \<in> solutions (Some sample_constraint_a)"
    using sample_solution by simp
  from ped_constraint_solve_nearest_complete [OF sample_constraints_ok(1) sample_geometry_ok this,
      of "\<lparr>offset = 0, grain_size = 1\<rparr>" "\<lambda>_. fresh_geometry (sample_dev 1000)"]
  show ?thesis by (simp add: sample_constraint_a_def)
qed

text \<open>
  Remark. A region that already satisfies the constraint is its own nearest solution, on a device of
  at most \<open>2 ^ 31\<close> sectors and for a region that ends at or after sector \<open>min_size\<close>.
\<close>

theorem ped_constraint_solve_nearest_fixed_point:
  assumes "constraint_ok c" and "y \<in> solutions (Some c)" and "min_size c \<le> g_end y"
    and "dev_length (g_dev y) \<le> 2 ^ 31"
  shows "ped_constraint_solve_nearest stack (Some c) (Some y) = Some y"
  using assms by (rule solve_nearest_fixed)

theorem ped_constraint_solve_nearest_fixed_point_witness:
  "let y = \<lparr>g_dev = sample_dev 1000, g_start = 8, g_length = 12, g_end = 19\<rparr>
   in y \<in> solutions (Some sample_constraint_b) \<and>
      ped_constraint_solve_nearest (\<lambda>_. fresh_geometry (sample_dev 1000)) (Some sample_constraint_b) (Some y)
        = Some y"
proof -
  let ?y = "\<lparr>g_dev = sample_dev 1000, g_start = 8, g_length = 12, g_end = 19\<rparr>"
  have y: "?y \<in> solutions (Some sample_constraint_b)" using sample_solution by simp
  have "min_size sample_constraint_b \<le> g_end ?y" "dev_length (g_dev ?y) \<le> 2 ^ 31"
    by (simp_all add: sample_constraint_b_def sample_dev_def)
  with ped_constraint_solve_nearest_fixed_point [OF sample_constraints_ok(2) y] y
  show ?thesis by (simp add: Let_def)
qed

lemma constraint_from_max_ok:
  assumes g: "geometry_ok mx"
  shows "solutions (ped_constraint_new_from_max (Some mx)) =
    {g. geometry_ok g \<and> region (Some g) \<subseteq> region (Some mx)}"
proof -
  note o = geometry_okD [OF g]
  have len: "(1::int) \<le> 1" "(1::int) \<le> 2 ^ 61" "1 \<le> g_length mx" "g_length mx \<le> 2 ^ 61" using o by auto
  note new = ped_constraint_new_ok [OF alignment_any_ok(1) alignment_any_ok(1) g g refl len]
  have "region (Some x) \<subseteq> region (Some mx) \<longleftrightarrow> g_dev x = g_dev mx \<and> inside mx (g_start x) \<and>
      inside mx (g_end x) \<and> 1 \<le> g_length x \<and> g_length x \<le> g_length mx" if "geometry_ok x" for x
    unfolding region_subset [OF geometry_okD(2) [OF that]]
    using o geometry_okD [OF that] by (cases "g_dev x = g_dev mx") (simp_all, arith)
  then show ?thesis
    unfolding ped_constraint_new_from_max_def option.case new(1) new(3) alignment_any_ok by blast
qed

lemma constraint_duplicate_ok:
  assumes "constraint_ok c"
  shows "solutions (ped_constraint_duplicate (Some c)) = solutions (Some c)"
proof -
  from assms obtain s e where r: "start_range c = Some s" "end_range c = Some e"
    and g: "geometry_ok s" "geometry_ok e" "g_dev s = g_dev e" by (rule constraint_okE)
  note cb = constraint_okD [OF assms]
  note new = ped_constraint_new_ok [OF cb(5,6) g cb(1-4)]
  show ?thesis
    unfolding ped_constraint_duplicate_def option.case r new(1) new(3)
    by (rule set_eqI) (simp add: solutions_Some r region_Some g(3) conj_ac cong: conj_cong)
qed

text \<open>
  Remark. The constructors build constraints with the solutions their comments promise, whatever was on
  the stack: every region of the device (\<open>any\<close>), only the given region (\<open>exact\<close>), the regions
  that contain \<open>mn\<close> and are contained in \<open>mx\<close> (\<open>new_from_min_max\<close>), the regions that
  contain \<open>mn\<close> (\<open>new_from_min\<close>), and those inside \<open>mx\<close> (\<open>new_from_max\<close>); and
  \<open>ped_constraint_duplicate\<close> keeps the solutions.
\<close>

theorem ped_constraint_constructors:
  assumes "geometry_ok mn" and "geometry_ok mx" and "ped_geometry_test_inside mx mn"
    and "constraint_ok c"
  shows "solutions (ped_constraint_any stack (g_dev mx)) = {g. geometry_ok g \<and> g_dev g = g_dev mx} \<and>
    solutions (ped_constraint_exact stack mx) = {mx} \<and>
    solutions (ped_constraint_new_from_min_max stack (Some mn) (Some mx)) =
      {g. geometry_ok g \<and> region (Some mn) \<subseteq> region (Some g) \<and> region (Some g) \<subseteq> region (Some mx)} \<and>
    solutions (ped_constraint_new_from_min stack (Some mn)) =
      {g. geometry_ok g \<and> region (Some mn) \<subseteq> region (Some g)} \<and>
    solutions (ped_constraint_new_from_max (Some mx)) =
      {g. geometry_ok g \<and> region (Some g) \<subseteq> region (Some mx)} \<and>
    solutions (ped_constraint_duplicate (Some c)) = solutions (Some c)"
proof (intro conjI)
  have d: "dev_ok (g_dev mx)" "dev_ok (g_dev mn)" using assms(1,2) by (simp_all add: geometry_ok_def)
  show "solutions (ped_constraint_any stack (g_dev mx)) = {g. geometry_ok g \<and> g_dev g = g_dev mx}"
    by (rule constraint_any_ok [OF d(1)]) simp
  show "solutions (ped_constraint_exact stack mx) = {mx}"
    by (rule constraint_exact_ok [OF assms(2)]) simp
  show "solutions (ped_constraint_new_from_min_max stack (Some mn) (Some mx)) =
      {g. geometry_ok g \<and> region (Some mn) \<subseteq> region (Some g) \<and> region (Some g) \<subseteq> region (Some mx)}"
    by (rule constraint_from_min_max_ok [OF assms(1-3)]) simp
  have "ped_geometry_test_inside (whole_device (g_dev mn)) mn"
    using geometry_okD [OF assms(1)] by (simp add: ped_geometry_test_inside_def whole_device_def)
  note fmm = constraint_from_min_max_ok [OF assms(1) whole_device_ok [OF d(2)] this]
  have eq: "solutions (ped_constraint_new_from_min stack (Some mn)) =
      {g. geometry_ok g \<and> region (Some mn) \<subseteq> region (Some g) \<and> region (Some g) \<subseteq> region (Some (whole_device (g_dev mn)))}"
    by (rule fmm) (simp add: ped_constraint_new_from_min_def init_whole_device [OF d(2)])
  have "region (Some g) \<subseteq> region (Some (whole_device (g_dev mn)))"
    if "geometry_ok g" "region (Some mn) \<subseteq> region (Some g)" for g
    using that(2) geometry_okD(1,3) [OF that(1)]
    unfolding region_subset [OF geometry_okD(2) [OF assms(1)]] region_subset [OF geometry_okD(2) [OF that(1)]]
    by (simp add: whole_device_def)
  with eq show "solutions (ped_constraint_new_from_min stack (Some mn)) =
      {g. geometry_ok g \<and> region (Some mn) \<subseteq> region (Some g)}" by blast
  show "solutions (ped_constraint_new_from_max (Some mx)) =
      {g. geometry_ok g \<and> region (Some g) \<subseteq> region (Some mx)}"
    by (rule constraint_from_max_ok [OF assms(2)])
  show "solutions (ped_constraint_duplicate (Some c)) = solutions (Some c)"
    by (rule constraint_duplicate_ok [OF assms(4)])
qed

theorem ped_constraint_constructors_witness:
  "let mn = \<lparr>g_dev = sample_dev 1000, g_start = 10, g_length = 10, g_end = 19\<rparr>;
       mx = \<lparr>g_dev = sample_dev 1000, g_start = 5, g_length = 20, g_end = 24\<rparr>
   in geometry_ok mn \<and> geometry_ok mx \<and> ped_geometry_test_inside mx mn \<and>
      mx \<in> solutions (ped_constraint_new_from_min_max (\<lambda>_. mn) (Some mn) (Some mx))"
proof -
  let ?mn = "\<lparr>g_dev = sample_dev 1000, g_start = 10, g_length = 10, g_end = 19\<rparr>"
  let ?mx = "\<lparr>g_dev = sample_dev 1000, g_start = 5, g_length = 20, g_end = 24\<rparr>"
  have h: "geometry_ok ?mn" "ped_geometry_test_inside ?mx ?mn" "region (Some ?mn) \<subseteq> region (Some ?mx)"
    by (auto simp: geometry_ok_def dev_ok_def sample_dev_def ped_geometry_test_inside_def region_Some)
  from ped_constraint_constructors [OF h(1) sample_geometry_ok h(2) sample_constraints_ok(1), of "\<lambda>_. ?mn"]
    h sample_geometry_ok
  show ?thesis by (simp add: Let_def)
qed

text \<open>
  Remark. The test \<open>last_end_soln < min_size\<close> is off by one. The constraint that asks for a
  region containing the whole device has the whole device as its solution, and the solver returns
  \<open>NULL\<close> for it, even when it starts from that solution.
\<close>

theorem ped_constraint_whole_device_unsolved:
  assumes "dev_ok dev"
  shows "whole_device dev \<in> solutions (ped_constraint_new_from_min stack (Some (whole_device dev))) \<and>
    ped_constraint_solve_nearest stack
      (ped_constraint_new_from_min stack (Some (whole_device dev))) (Some (whole_device dev)) = None"
proof -
  let ?w = "whole_device dev"
  note w = whole_device_ok [OF assms]
  have i: "ped_geometry_test_inside ?w ?w" by (simp add: ped_geometry_test_inside_def)
  have w0: "g_dev ?w = dev" "g_start ?w = 0" "g_end ?w = dev_length dev - 1" "g_length ?w = dev_length dev"
    by (simp_all add: whole_device_def)
  from constraint_from_min_max_ok [OF w w i] obtain c
    where c0: "\<And>stack. ped_constraint_new_from_min_max stack (Some ?w) (Some ?w) = Some c" and c: "constraint_ok c"
      "solutions (Some c) = {g. geometry_ok g \<and> region (Some ?w) \<subseteq> region (Some g) \<and> region (Some g) \<subseteq> region (Some ?w)}"
      "min_size c = dev_length dev"
      "start_range c = Some \<lparr>g_dev = dev, g_start = 0, g_length = 1, g_end = 0\<rparr>"
      "end_range c = Some \<lparr>g_dev = dev, g_start = dev_length dev - 1, g_length = 1, g_end = dev_length dev - 1\<rparr>"
    unfolding w0 by auto
  have m: "ped_constraint_new_from_min stack (Some ?w) = Some c"
    by (simp add: ped_constraint_new_from_min_def Let_def init_whole_device assms c0 w0)
  have sol: "whole_device dev \<in> solutions (Some c)" using w by (simp add: c(2))
  have "\<forall>stack. constraint_get_canonical_start_range stack c = None"
    using c(1,4,5)
  proof (cases rule: canonical_start_range_cases)
    case (some rg f l)
    from some(7,12) show ?thesis by (simp add: c(3))
  qed simp
  then show ?thesis using sol by (simp add: m solve_nearest_None)
qed

theorem ped_constraint_whole_device_unsolved_witness:
  "ped_constraint_solve_nearest (\<lambda>_. whole_device (sample_dev 1000))
     (ped_constraint_new_from_min (\<lambda>_. whole_device (sample_dev 1000)) (Some (whole_device (sample_dev 1000))))
     (Some (whole_device (sample_dev 1000))) = None"
proof -
  have "dev_ok (sample_dev 1000)" by (simp add: dev_ok_def sample_dev_def)
  from ped_constraint_whole_device_unsolved [OF this] show ?thesis by simp
qed

text \<open>
  Remark. \<open>ped_constraint_solve_max\<close> starts from a region one sector shorter than the device: when
  every region of the device is allowed it returns the device without its last sector, and not the
  largest solution.
\<close>

theorem ped_constraint_solve_max_misses_last_sector:
  assumes "dev_ok dev" and "3 \<le> dev_length dev" and "dev_length dev \<le> 2 ^ 31"
  shows "\<exists>r. ped_constraint_solve_max stack (ped_constraint_any stack dev) = Some r \<and>
    g_length r = dev_length dev - 1 \<and>
    whole_device dev \<in> solutions (ped_constraint_any stack dev) \<and>
    g_length r < g_length (whole_device dev)"
proof -
  obtain c where c: "ped_constraint_any stack dev = Some c" "constraint_ok c"
    "solutions (Some c) = {g. geometry_ok g \<and> g_dev g = dev}" "min_size c = 1"
    "g_dev (the (start_range c)) = dev"
    by (rule constraint_any_ok [OF assms(1)]) blast
  let ?y = "\<lparr>g_dev = dev, g_start = 0, g_length = dev_length dev - 1, g_end = dev_length dev - 2\<rparr>"
  have y: "?y \<in> solutions (Some c)" "min_size c \<le> g_end ?y" "dev_length (g_dev ?y) \<le> 2 ^ 31"
    using assms by (simp_all add: c geometry_ok_def)
  have "s64 (dev_length dev - 1) = dev_length dev - 1" using assms by (intro s64_id) auto
  moreover have "ped_geometry_init u dev 0 (dev_length dev - 1) = (None, ?y)" for u
    using assms by (subst init_in_range) auto
  ultimately have "ped_constraint_solve_max stack (Some c) = Some ?y"
    using solve_nearest_fixed [OF c(2) y] by (simp add: ped_constraint_solve_max_def c(5) Let_def)
  moreover have "whole_device dev \<in> solutions (Some c)"
    using whole_device_ok [OF assms(1)] by (simp add: c(3) whole_device_def)
  ultimately show ?thesis by (simp add: c(1) whole_device_def)
qed

theorem ped_constraint_solve_max_misses_last_sector_witness:
  "let st = (\<lambda>_. whole_device (sample_dev 1000))
   in \<exists>r. ped_constraint_solve_max st (ped_constraint_any st (sample_dev 1000)) = Some r \<and>
          g_length r = 999"
proof -
  have "dev_ok (sample_dev 1000)" "dev_length (sample_dev 1000) = 1000"
    by (simp_all add: dev_ok_def sample_dev_def)
  with ped_constraint_solve_max_misses_last_sector [OF this(1), of "\<lambda>_. whole_device (sample_dev 1000)"]
  show ?thesis by auto
qed

definition coarse_end_constraint :: PedConstraint where
  "coarse_end_constraint =
     \<lparr>start_align = Some \<lparr>offset = 0, grain_size = 1\<rparr>, end_align = Some \<lparr>offset = 0, grain_size = 10\<rparr>,
      start_range = Some (whole_device (sample_dev 1000)), end_range = Some (whole_device (sample_dev 1000)),
      min_size = 1, max_size = 1\<rparr>"

text \<open>
  Remark. The solver is not complete when the end is aligned more coarsely than the lengths allow:
  for the one-sector regions that lie on a multiple of 10, starting from sector 5, it picks the
  start 5, finds no end for it, and returns \<open>NULL\<close>, although sector 10 is a solution. Its comment
  says that \<open>NULL\<close> means that the constraint cannot be satisfied, and the comment of
  \<open>_constraint_get_canonical_start_range\<close> that every start in that range has an end.
\<close>

theorem ped_constraint_solve_nearest_incomplete:
  "let st = (\<lambda>_. fresh_geometry (sample_dev 1000));
       near = \<lparr>g_dev = sample_dev 1000, g_start = 5, g_length = 1, g_end = 5\<rparr>;
       sol = \<lparr>g_dev = sample_dev 1000, g_start = 10, g_length = 1, g_end = 10\<rparr>
   in constraint_ok coarse_end_constraint \<and> geometry_ok near \<and> geometry_ok sol \<and>
      ped_constraint_is_solution coarse_end_constraint sol \<and>
      ped_constraint_solve_nearest st (Some coarse_end_constraint) (Some near) = None"
proof -
  have "ped_constraint_solve_nearest (\<lambda>_. fresh_geometry (sample_dev 1000)) (Some coarse_end_constraint)
     (Some \<lparr>g_dev = sample_dev 1000, g_start = 5, g_length = 1, g_end = 5\<rparr>) = None"
    by code_simp
  moreover have "ped_constraint_is_solution coarse_end_constraint
     \<lparr>g_dev = sample_dev 1000, g_start = 10, g_length = 1, g_end = 10\<rparr>"
    by code_simp
  moreover have "constraint_ok coarse_end_constraint"
    by (simp add: constraint_ok_def coarse_end_constraint_def alignment_opt_ok_def alignment_ok_def
        whole_device_ok dev_ok_def sample_dev_def)
  ultimately show ?thesis
    by (simp add: Let_def geometry_ok_def dev_ok_def sample_dev_def)
qed

end
