(* ===== verification/Ped_Disk.thy ===== *)
theory Ped_Disk
  imports Ped_Constraint
begin

text \<open>
  Partitions and partition tables: the structures of \<^verbatim>\<open>include/parted/disk.h\<close> and the functions
  of \<^verbatim>\<open>libparted/disk.c\<close> that walk, query and edit the partition lists.

  A partition carries its address (\<open>p_id\<close>), which is what the code compares when it compares
  pointers. The links \<open>prev\<close> and \<open>next\<close> are the positions in the list that holds the
  partition (the list of the disk, or the list \<open>p_list\<close> of the extended partition); changing
  the links around a partition is inserting or removing it at that position. The data a label
  attaches to a partition and to a disk (\<open>disk_specific\<close>) are the type parameters \<open>'p\<close> and
  \<open>'d\<close>. The field \<open>dk_heap\<close> is not in the C structure: it is the next address the allocator
  hands out.
\<close>

unbundle bit_operations_syntax

section \<open>Types\<close>

definition PED_PARTITION_NORMAL :: int where "PED_PARTITION_NORMAL = 0"
definition PED_PARTITION_LOGICAL :: int where "PED_PARTITION_LOGICAL = 1"
definition PED_PARTITION_EXTENDED :: int where "PED_PARTITION_EXTENDED = 2"
definition PED_PARTITION_FREESPACE :: int where "PED_PARTITION_FREESPACE = 4"
definition PED_PARTITION_METADATA :: int where "PED_PARTITION_METADATA = 8"

definition PED_DISK_TYPE_EXTENDED :: int where "PED_DISK_TYPE_EXTENDED = 1"
definition PED_DISK_TYPE_PARTITION_NAME :: int where "PED_DISK_TYPE_PARTITION_NAME = 2"

lemmas ped_type_defs = PED_PARTITION_NORMAL_def PED_PARTITION_LOGICAL_def PED_PARTITION_EXTENDED_def
  PED_PARTITION_FREESPACE_def PED_PARTITION_METADATA_def

datatype 'p PedPartition =
  Partition (p_id: nat) (p_disk: nat) (p_geom: PedGeometry) (p_num: int) (p_type: int)
    (p_fs: "string option") (p_list: "'p PedPartition list") (p_specific: "'p option")

text \<open>Assignments to a field of a partition.\<close>

definition set_geom :: "PedGeometry \<Rightarrow> 'p PedPartition \<Rightarrow> 'p PedPartition" where
  "set_geom g p = Partition (p_id p) (p_disk p) g (p_num p) (p_type p) (p_fs p) (p_list p) (p_specific p)"

definition set_num :: "int \<Rightarrow> 'p PedPartition \<Rightarrow> 'p PedPartition" where
  "set_num n p = Partition (p_id p) (p_disk p) (p_geom p) n (p_type p) (p_fs p) (p_list p) (p_specific p)"

definition set_list :: "'p PedPartition list \<Rightarrow> 'p PedPartition \<Rightarrow> 'p PedPartition" where
  "set_list l p = Partition (p_id p) (p_disk p) (p_geom p) (p_num p) (p_type p) (p_fs p) l (p_specific p)"

definition set_fs :: "string option \<Rightarrow> 'p option \<Rightarrow> 'p PedPartition \<Rightarrow> 'p PedPartition" where
  "set_fs f s p = Partition (p_id p) (p_disk p) (p_geom p) (p_num p) (p_type p) f (p_list p) s"

lemma set_geom_simps [simp]:
  "p_id (set_geom g p) = p_id p" "p_geom (set_geom g p) = g" "p_num (set_geom g p) = p_num p"
  "p_type (set_geom g p) = p_type p" "p_list (set_geom g p) = p_list p" "p_disk (set_geom g p) = p_disk p"
  "p_fs (set_geom g p) = p_fs p" "p_specific (set_geom g p) = p_specific p"
  by (simp_all add: set_geom_def)

lemma set_num_simps [simp]:
  "p_id (set_num n p) = p_id p" "p_geom (set_num n p) = p_geom p" "p_num (set_num n p) = n"
  "p_type (set_num n p) = p_type p" "p_list (set_num n p) = p_list p" "p_disk (set_num n p) = p_disk p"
  "p_fs (set_num n p) = p_fs p" "p_specific (set_num n p) = p_specific p"
  by (simp_all add: set_num_def)

lemma set_list_simps [simp]:
  "p_id (set_list l p) = p_id p" "p_geom (set_list l p) = p_geom p" "p_num (set_list l p) = p_num p"
  "p_type (set_list l p) = p_type p" "p_list (set_list l p) = l" "p_disk (set_list l p) = p_disk p"
  "p_fs (set_list l p) = p_fs p" "p_specific (set_list l p) = p_specific p"
  by (simp_all add: set_list_def)

lemma set_fs_simps [simp]:
  "p_id (set_fs f s p) = p_id p" "p_geom (set_fs f s p) = p_geom p" "p_num (set_fs f s p) = p_num p"
  "p_type (set_fs f s p) = p_type p" "p_list (set_fs f s p) = p_list p" "p_disk (set_fs f s p) = p_disk p"
  "p_fs (set_fs f s p) = f" "p_specific (set_fs f s p) = s"
  by (simp_all add: set_fs_def)

record PedDiskType =
  dt_name :: string
  dt_features :: int

record ('p, 'd) PedDisk =
  dk_addr :: nat
  dk_dev :: PedDevice
  dk_type :: PedDiskType
  part_list :: "'p PedPartition list"
  dk_specific :: 'd
  needs_clobber :: bool
  update_mode :: int
  dk_heap :: nat

section \<open>Queries\<close>

definition ped_partition_is_active :: "'p PedPartition \<Rightarrow> bool" where
  "ped_partition_is_active part \<longleftrightarrow>
     \<not> (p_type part AND PED_PARTITION_FREESPACE \<noteq> 0 \<or> p_type part AND PED_PARTITION_METADATA \<noteq> 0)"

definition ped_disk_type_check_feature :: "PedDiskType \<Rightarrow> int \<Rightarrow> bool" where
  "ped_disk_type_check_feature disk_type feature \<longleftrightarrow> dt_features disk_type AND feature \<noteq> 0"

text \<open>The \<open>PED_PARTITION_LOGICAL\<close> and \<open>PED_PARTITION_FREESPACE\<close> bits of the type.\<close>

definition is_logical :: "'p PedPartition \<Rightarrow> bool" where
  "is_logical p \<longleftrightarrow> p_type p AND PED_PARTITION_LOGICAL \<noteq> 0"

definition is_freespace :: "'p PedPartition \<Rightarrow> bool" where
  "is_freespace p \<longleftrightarrow> p_type p AND PED_PARTITION_FREESPACE \<noteq> 0"

definition is_metadata :: "'p PedPartition \<Rightarrow> bool" where
  "is_metadata p \<longleftrightarrow> p_type p AND PED_PARTITION_METADATA \<noteq> 0"

definition ped_disk_extended_partition :: "('p, 'd) PedDisk \<Rightarrow> 'p PedPartition option" where
  "ped_disk_extended_partition disk = find (\<lambda>walk. p_type walk = PED_PARTITION_EXTENDED) (part_list disk)"

text \<open>The successor of a partition in the list that holds it: its \<open>next\<close> pointer.\<close>

fun next_in :: "'p PedPartition list \<Rightarrow> nat \<Rightarrow> 'p PedPartition option" where
  "next_in [] i = None"
| "next_in [p] i = None"
| "next_in (p # q # ps) i = (if p_id p = i then Some q else next_in (q # ps) i)"

definition ext_list :: "('p, 'd) PedDisk \<Rightarrow> 'p PedPartition list" where
  "ext_list disk = (case ped_disk_extended_partition disk of None \<Rightarrow> [] | Some e \<Rightarrow> p_list e)"

definition part_next :: "('p, 'd) PedDisk \<Rightarrow> 'p PedPartition \<Rightarrow> 'p PedPartition option" where
  "part_next disk part = next_in (if is_logical part then ext_list disk else part_list disk) (p_id part)"

definition ped_disk_next_partition ::
  "('p, 'd) PedDisk \<Rightarrow> 'p PedPartition option \<Rightarrow> 'p PedPartition option" where
  "ped_disk_next_partition disk parto =
     (case parto of
        None \<Rightarrow> (case part_list disk of [] \<Rightarrow> None | p # _ \<Rightarrow> Some p)
      | Some part \<Rightarrow>
          if p_type part = PED_PARTITION_EXTENDED
          then (case p_list part of p # _ \<Rightarrow> Some p | [] \<Rightarrow> part_next disk part)
          else (case part_next disk part of
                  Some p \<Rightarrow> Some p
                | None \<Rightarrow> if is_logical part
                          then part_next disk (the (ped_disk_extended_partition disk))
                          else None))"

text \<open>
  The partitions in the order in which the loops
  \<open>for (walk = disk->part_list; walk; walk = ped_disk_next_partition (disk, walk))\<close> meet them;
  that \<open>ped_disk_next_partition\<close> enumerates exactly this list is proved below.
\<close>

definition sub_walk :: "'p PedPartition \<Rightarrow> 'p PedPartition list" where
  "sub_walk p = p # (if p_type p = PED_PARTITION_EXTENDED then p_list p else [])"

definition disk_walk :: "('p, 'd) PedDisk \<Rightarrow> 'p PedPartition list" where
  "disk_walk disk = concat (map sub_walk (part_list disk))"

definition ped_disk_get_primary_partition_count :: "('p, 'd) PedDisk \<Rightarrow> int" where
  "ped_disk_get_primary_partition_count disk =
     fold (\<lambda>walk count. if ped_partition_is_active walk \<and> \<not> is_logical walk then count + 1 else count)
       (disk_walk disk) 0"

definition ped_disk_get_last_partition_num :: "('p, 'd) PedDisk \<Rightarrow> int" where
  "ped_disk_get_last_partition_num disk =
     fold (\<lambda>walk highest. if p_num walk > highest then p_num walk else highest) (disk_walk disk) (-1)"

definition ped_disk_get_partition :: "('p, 'd) PedDisk \<Rightarrow> int \<Rightarrow> 'p PedPartition option" where
  "ped_disk_get_partition disk num =
     find (\<lambda>walk. p_num walk = num \<and> \<not> is_freespace walk) (disk_walk disk)"

definition ped_disk_get_partition_by_sector :: "('p, 'd) PedDisk \<Rightarrow> PedSector \<Rightarrow> 'p PedPartition option" where
  "ped_disk_get_partition_by_sector disk sect =
     find (\<lambda>walk. ped_geometry_test_sector_inside (p_geom walk) sect \<and> p_type walk \<noteq> PED_PARTITION_EXTENDED)
       (disk_walk disk)"

definition disk_check_sanity :: "('p, 'd) PedDisk \<Rightarrow> bool" where
  "disk_check_sanity disk =
     (if list_ex is_logical (part_list disk) then False
      else case ped_disk_extended_partition disk of
             None \<Rightarrow> True
           | Some ext \<Rightarrow> list_all is_logical (p_list ext))"

section \<open>Editing the lists\<close>

text \<open>Assignment to \<open>ped_disk_extended_partition (disk)->part_list\<close>.\<close>

fun update_first :: "('a \<Rightarrow> bool) \<Rightarrow> ('a \<Rightarrow> 'a) \<Rightarrow> 'a list \<Rightarrow> 'a list" where
  "update_first P f [] = []"
| "update_first P f (x # xs) = (if P x then f x # xs else x # update_first P f xs)"

definition set_ext_list :: "('p PedPartition list \<Rightarrow> 'p PedPartition list) \<Rightarrow> ('p, 'd) PedDisk \<Rightarrow> ('p, 'd) PedDisk" where
  "set_ext_list f disk =
     disk\<lparr>part_list := update_first (\<lambda>p. p_type p = PED_PARTITION_EXTENDED)
                         (\<lambda>p. set_list (f (p_list p)) p) (part_list disk)\<rparr>"

text \<open>Assignment through a pointer to a partition that is in one of the lists.\<close>

definition update_part :: "nat \<Rightarrow> ('p PedPartition \<Rightarrow> 'p PedPartition) \<Rightarrow> ('p, 'd) PedDisk \<Rightarrow> ('p, 'd) PedDisk" where
  "update_part i f disk =
     disk\<lparr>part_list := map (\<lambda>p. let q = (if p_id p = i then f p else p)
                                in set_list (map (\<lambda>l. if p_id l = i then f l else l) (p_list q)) q)
                         (part_list disk)\<rparr>"

text \<open>The partition at an address.\<close>

definition lookup_part :: "('p, 'd) PedDisk \<Rightarrow> nat \<Rightarrow> 'p PedPartition option" where
  "lookup_part disk i = find (\<lambda>p. p_id p = i) (disk_walk disk)"

definition disk_raw_remove :: "('p, 'd) PedDisk \<Rightarrow> 'p PedPartition \<Rightarrow> ('p, 'd) PedDisk" where
  "disk_raw_remove disk part =
     (if is_logical part then set_ext_list (filter (\<lambda>p. p_id p \<noteq> p_id part)) disk
      else disk\<lparr>part_list := filter (\<lambda>p. p_id p \<noteq> p_id part) (part_list disk)\<rparr>)"

text \<open>The walk of \<open>_disk_raw_add\<close> to the first partition that starts after the end of the new
  one, and the insertion before it (or after the last one). The position is all there is of the links: a partition that was removed
  keeps its old \<open>prev\<close> and \<open>next\<close> in the C code, and \<open>_disk_raw_add\<close> does not clear them when it makes it the only one of a
  list. Where the code removes and adds at once, an empty list means that there were no neighbours; a caller of the library that
  removes a partition, empties the list and adds the partition again is abstracted away.\<close>

fun insert_part :: "'p PedPartition \<Rightarrow> 'p PedPartition list \<Rightarrow> 'p PedPartition list" where
  "insert_part part [] = [part]"
| "insert_part part (walk # ws) =
     (if g_start (p_geom walk) > g_end (p_geom part) then part # walk # ws
      else walk # insert_part part ws)"

definition disk_raw_add :: "('p, 'd) PedDisk \<Rightarrow> 'p PedPartition \<Rightarrow> ('p, 'd) PedDisk option" where
  "disk_raw_add disk part =
     (if update_mode disk = 0 then None
      else if is_logical part then Some (set_ext_list (insert_part part) disk)
      else Some (disk\<lparr>part_list := insert_part part (part_list disk)\<rparr>))"

section \<open>The invariant of a partition table\<close>

definition parts_ok :: "PedDevice \<Rightarrow> 'p PedPartition list \<Rightarrow> bool" where
  "parts_ok dev ps \<longleftrightarrow>
     (\<forall>p\<in>set ps. geometry_ok (p_geom p) \<and> g_dev (p_geom p) = dev) \<and>
     sorted_wrt (\<lambda>a b. g_end (p_geom a) < g_start (p_geom b)) ps"

definition logical_ok :: "PedDevice \<Rightarrow> 'p PedPartition \<Rightarrow> bool" where
  "logical_ok dev e \<longleftrightarrow> parts_ok dev (p_list e) \<and>
     (\<forall>l\<in>set (p_list e). is_logical l \<and> p_list l = [] \<and>
        g_start (p_geom e) \<le> g_start (p_geom l) \<and> g_end (p_geom l) \<le> g_end (p_geom e))"

abbreviation is_ext :: "'p PedPartition \<Rightarrow> bool" where
  "is_ext p \<equiv> p_type p = PED_PARTITION_EXTENDED"

text \<open>
  \<open>disk_ok\<close>: the partitions of each list are regions of the device in increasing order without
  overlap; the disk's own list has no logical partition and at most one extended partition, and only
  that one has a list, of logical partitions inside it; no address occurs twice, and all were
  allocated.
\<close>

definition disk_ok :: "('p, 'd) PedDisk \<Rightarrow> bool" where
  "disk_ok disk \<longleftrightarrow>
     dev_ok (dk_dev disk) \<and> parts_ok (dk_dev disk) (part_list disk) \<and>
     (\<forall>p\<in>set (part_list disk). \<not> is_logical p) \<and>
     length (filter is_ext (part_list disk)) \<le> 1 \<and>
     (\<forall>p\<in>set (part_list disk). if is_ext p then logical_ok (dk_dev disk) p else p_list p = []) \<and>
     distinct (map p_id (disk_walk disk)) \<and>
     (\<forall>p\<in>set (disk_walk disk). p_id p < dk_heap disk \<and> p_disk p = dk_addr disk)"

lemma set_list_set_list [simp]: "set_list l (set_list l' p) = set_list l p"
  by (simp add: set_list_def)

lemma ext_not_logical: "is_ext p \<Longrightarrow> \<not> is_logical p"
  by (simp add: is_logical_def ped_type_defs)

lemma logical_not_ext: "is_logical p \<Longrightarrow> \<not> is_ext p"
  using ext_not_logical by blast

lemma update_first_split:
  assumes "\<forall>x\<in>set xs. \<not> P x" "P e"
  shows "update_first P f (xs @ e # ys) = xs @ f e # ys"
  using assms by (induction xs) auto

lemma update_first_none: "\<forall>x\<in>set xs. \<not> P x \<Longrightarrow> update_first P f xs = xs"
  by (induction xs) auto

lemma find_split:
  assumes "find P xs = Some e"
  obtains as bs where "xs = as @ e # bs" "\<forall>x\<in>set as. \<not> P x" "P e"
proof -
  have "\<exists>as bs. xs = as @ e # bs \<and> (\<forall>x\<in>set as. \<not> P x) \<and> P e"
    using assms
  proof (induction xs)
    case (Cons x xs)
    then show ?case
    proof (cases "P x")
      case True
      with Cons.prems show ?thesis by (intro exI [of _ "[]"] exI [of _ xs]) auto
    next
      case False
      with Cons obtain as bs where "xs = as @ e # bs" "\<forall>x\<in>set as. \<not> P x" "P e" by auto
      with False show ?thesis by (intro exI [of _ "x # as"] exI [of _ bs]) auto
    qed
  qed simp
  with that show ?thesis by blast
qed

lemma concat_sub_walk: "\<forall>x\<in>set zs. p_type x \<noteq> PED_PARTITION_EXTENDED \<Longrightarrow> concat (map sub_walk zs) = zs"
  by (induction zs) (auto simp: sub_walk_def)

text \<open>A table either has no extended partition, or splits around it.\<close>

lemma disk_ext_cases:
  assumes "disk_ok disk"
  obtains (none) "ped_disk_extended_partition disk = None" "\<forall>p\<in>set (part_list disk). \<not> is_ext p"
      "disk_walk disk = part_list disk" "\<And>f. set_ext_list f disk = disk" "ext_list disk = []"
  | (ext) xs e ys where "ped_disk_extended_partition disk = Some e" "part_list disk = xs @ e # ys"
      "is_ext e" "\<forall>p\<in>set (xs @ ys). \<not> is_ext p" "disk_walk disk = xs @ e # p_list e @ ys"
      "\<And>f. set_ext_list f disk = disk\<lparr>part_list := xs @ set_list (f (p_list e)) e # ys\<rparr>"
      "ext_list disk = p_list e" "logical_ok (dk_dev disk) e"
proof (cases "ped_disk_extended_partition disk")
  case None
  then have n: "\<forall>p\<in>set (part_list disk). \<not> is_ext p"
    by (auto simp: ped_disk_extended_partition_def find_None_iff)
  then have "disk_walk disk = part_list disk" by (simp add: disk_walk_def concat_sub_walk)
  with None n show ?thesis by (intro none) (auto simp: set_ext_list_def update_first_none ext_list_def)
next
  case (Some e)
  then obtain xs ys where s: "part_list disk = xs @ e # ys" "\<forall>x\<in>set xs. \<not> is_ext x" "is_ext e"
    unfolding ped_disk_extended_partition_def by (rule find_split)
  from assms s have ys: "\<forall>x\<in>set ys. \<not> is_ext x" and l: "logical_ok (dk_dev disk) e"
    by (auto simp: disk_ok_def filter_empty_conv)
  have "disk_walk disk = xs @ e # p_list e @ ys"
    using s ys by (simp add: disk_walk_def concat_sub_walk, simp add: sub_walk_def)
  with Some s ys l show ?thesis
    by (intro ext) (auto simp: set_ext_list_def update_first_split ext_list_def)
qed

lemma part_list_in_walk: "set (part_list disk) \<subseteq> set (disk_walk disk)"
  by (auto simp: disk_walk_def sub_walk_def)

lemma parts_ok_append:
  "parts_ok dev (xs @ ys) \<longleftrightarrow> parts_ok dev xs \<and> parts_ok dev ys \<and>
     (\<forall>x\<in>set xs. \<forall>y\<in>set ys. g_end (p_geom x) < g_start (p_geom y))"
  by (auto simp: parts_ok_def sorted_wrt_append)

lemma parts_ok_Cons:
  "parts_ok dev (x # ys) \<longleftrightarrow> geometry_ok (p_geom x) \<and> g_dev (p_geom x) = dev \<and> parts_ok dev ys \<and>
     (\<forall>y\<in>set ys. g_end (p_geom x) < g_start (p_geom y))"
  by (auto simp: parts_ok_def)

lemma parts_ok_Nil [simp]: "parts_ok dev []"
  by (simp add: parts_ok_def)

lemma parts_ok_filter: "parts_ok dev ps \<Longrightarrow> parts_ok dev (filter P ps)"
  by (simp add: parts_ok_def sorted_wrt_filter)

lemma parts_ok_map:
  assumes "\<And>p. p \<in> set ps \<Longrightarrow> p_geom (f p) = p_geom p"
  shows "parts_ok dev (map f ps) = parts_ok dev ps"
  using assms
proof (induction ps)
  case (Cons p ps)
  then show ?case by (simp add: parts_ok_Cons)
qed simp

lemma no_overlap_iff:
  assumes "geometry_ok a" "geometry_ok b" "g_dev a = g_dev b"
  shows "\<not> ped_geometry_test_overlap a b \<longleftrightarrow> g_end a < g_start b \<or> g_end b < g_start a"
  using geometry_okD [OF assms(1)] geometry_okD [OF assms(2)] assms(3)
  by (auto simp: ped_geometry_test_overlap_def)

lemma set_insert_part [simp]: "set (insert_part p ps) = insert p (set ps)"
  by (induction ps) auto

lemma mset_insert_part_ids: "distinct (map p_id (insert_part p ps)) \<longleftrightarrow> distinct (p_id p # map p_id ps)"
  by (induction ps) auto

text \<open>Insertion of a region that overlaps nothing keeps the order.\<close>

lemma parts_ok_insert:
  assumes "parts_ok dev ps" "geometry_ok (p_geom p)" "g_dev (p_geom p) = dev"
    "\<forall>q\<in>set ps. \<not> ped_geometry_test_overlap (p_geom q) (p_geom p)"
  shows "parts_ok dev (insert_part p ps)"
  using assms
proof (induction ps)
  case (Cons w ws)
  have ov: "g_end (p_geom w) < g_start (p_geom p) \<or> g_end (p_geom p) < g_start (p_geom w)"
    using Cons.prems no_overlap_iff [of "p_geom w" "p_geom p"] by (auto simp: parts_ok_Cons)
  show ?case
  proof (cases "g_start (p_geom w) > g_end (p_geom p)")
    case True
    have "g_end (p_geom p) < g_start (p_geom q)" if "q \<in> set ws" for q
      using Cons.prems(1) that True geometry_okD(2) [of "p_geom w"] by (force simp: parts_ok_Cons)
    with True Cons.prems show ?thesis by (simp add: parts_ok_Cons)
  next
    case False
    with ov Cons show ?thesis by (auto simp: parts_ok_Cons)
  qed
qed (simp add: parts_ok_Cons)

lemma filter_insert_part:
  assumes "p_id p \<notin> p_id ` set ps"
  shows "filter (\<lambda>q. p_id q \<noteq> p_id p) (insert_part p ps) = ps"
proof -
  have "filter (\<lambda>q. p_id q \<noteq> p_id p) qs = qs" if "p_id p \<notin> p_id ` set qs" for qs :: "'a PedPartition list"
    using that by (intro filter_True) (auto simp: image_iff)
  with assms show ?thesis by (induction ps) auto
qed

section \<open>Walking\<close>

lemma next_in_skip:
  assumes "\<forall>p\<in>set as. p_id p \<noteq> i" "ps \<noteq> []"
  shows "next_in (as @ ps) i = next_in ps i"
  using assms
proof (induction as)
  case (Cons a as)
  from \<open>ps \<noteq> []\<close> obtain b bs where "as @ ps = b # bs" by (cases "as @ ps") auto
  with Cons show ?case by simp
qed simp

lemma next_in_split:
  assumes "distinct (map p_id (as @ p # bs))"
  shows "next_in (as @ p # bs) (p_id p) = (case bs of [] \<Rightarrow> None | b # _ \<Rightarrow> Some b)"
proof -
  have "\<forall>q\<in>set as. p_id q \<noteq> p_id p" using assms by (auto simp: image_iff)
  then show ?thesis using next_in_skip [of as "p_id p" "p # bs"] by (cases bs) simp_all
qed

lemma append_Cons_split:
  assumes "as @ p # bs = xs @ ys"
  obtains us where "xs = as @ p # us" "bs = us @ ys" | us where "ys = us @ p # bs" "as = xs @ us"
proof -
  have "(\<exists>us. xs = as @ p # us \<and> bs = us @ ys) \<or> (\<exists>us. ys = us @ p # bs \<and> as = xs @ us)"
    using assms
  proof (induction xs arbitrary: as)
    case (Cons x xs)
    then show ?case by (cases as) auto
  qed auto
  with that show ?thesis by blast
qed

text \<open>The partition after \<open>p\<close> in the walk is the one \<open>ped_disk_next_partition\<close> returns.\<close>

lemma next_partition_step:
  assumes ok: "disk_ok disk" and w: "disk_walk disk = as @ p # bs"
  shows "ped_disk_next_partition disk (Some p) = (case bs of [] \<Rightarrow> None | b # _ \<Rightarrow> Some b)"
proof -
  from ok have dist: "distinct (map p_id (disk_walk disk))" by (simp add: disk_ok_def)
  have nl: "\<forall>p\<in>set (part_list disk). \<not> is_logical p" using ok by (simp add: disk_ok_def)
  show ?thesis using ok
  proof (cases rule: disk_ext_cases)
    case none
    with w nl have p: "part_list disk = as @ p # bs" "\<not> is_ext p" "\<not> is_logical p" by auto
    then show ?thesis
      using dist none(3) next_in_split [of as p bs]
      by (auto simp: ped_disk_next_partition_def part_next_def split: list.split)
  next
    case (ext xs e ys)
    have d: "distinct (map p_id (xs @ e # ys))" "distinct (map p_id (p_list e))"
      using dist unfolding ext(5) by auto
    have e: "is_ext e" "\<not> is_logical e" using ext ext_not_logical by auto
    have next_e: "part_next disk e = (case ys of [] \<Rightarrow> None | b # _ \<Rightarrow> Some b)"
      using next_in_split [OF d(1)] e by (simp add: part_next_def ext(2))
    from w ext(5) have "as @ p # bs = xs @ e # p_list e @ ys" by simp
    then consider (before) us where "xs = as @ p # us" "bs = us @ e # p_list e @ ys"
      | (at) "as = xs" "p = e" "bs = p_list e @ ys"
      | (logical) us vs where "p_list e = us @ p # vs" "bs = vs @ ys"
      | (after) us where "ys = us @ p # bs"
    proof (cases rule: append_Cons_split)
      case (2 us)
      then show ?thesis
      proof (cases us)
        case (Cons u us')
        with 2 have "us' @ p # bs = p_list e @ ys" by auto
        then show ?thesis by (rule append_Cons_split) (use logical after in auto)
      qed (use at 2 in auto)
    qed (use before in auto)
    then show ?thesis
    proof cases
      case before
      then have "\<not> is_ext p" "\<not> is_logical p" using ext nl by auto
      moreover have "next_in (as @ p # us @ e # ys) (p_id p) = (case us @ e # ys of [] \<Rightarrow> None | b # _ \<Rightarrow> Some b)"
        using d(1) before by (intro next_in_split) simp
      ultimately show ?thesis
        using before by (cases us) (auto simp: ped_disk_next_partition_def part_next_def ext(2))
    next
      case at
      with next_e e show ?thesis
        by (auto simp: ped_disk_next_partition_def split: list.split)
    next
      case logical
      then have p: "\<not> is_ext p" "is_logical p"
        using ext(8) logical_not_ext by (auto simp: logical_ok_def)
      have "next_in (us @ p # vs) (p_id p) = (case vs of [] \<Rightarrow> None | b # _ \<Rightarrow> Some b)"
        using d(2) logical by (intro next_in_split) simp
      with p logical next_e show ?thesis
        by (cases vs) (auto simp: ped_disk_next_partition_def part_next_def ext(1,7) ext_not_logical split: list.split)
    next
      case after
      then have "\<not> is_ext p" "\<not> is_logical p" using ext nl by auto
      moreover have "next_in ((xs @ e # us) @ p # bs) (p_id p) = (case bs of [] \<Rightarrow> None | b # _ \<Rightarrow> Some b)"
        using d(1) after by (intro next_in_split) simp
      ultimately show ?thesis
        using after by (auto simp: ped_disk_next_partition_def part_next_def ext(2) split: list.split)
    qed
  qed
qed

section \<open>Editing keeps the invariant\<close>

lemma disk_okD:
  assumes "disk_ok disk"
  shows "dev_ok (dk_dev disk)" "parts_ok (dk_dev disk) (part_list disk)"
    "distinct (map p_id (disk_walk disk))"
    "p \<in> set (disk_walk disk) \<Longrightarrow> p_id p < dk_heap disk"
    "p \<in> set (disk_walk disk) \<Longrightarrow> p_disk p = dk_addr disk"
    "p \<in> set (part_list disk) \<Longrightarrow> \<not> is_logical p"
    "p \<in> set (part_list disk) \<Longrightarrow> \<not> is_ext p \<Longrightarrow> p_list p = []"
    "length (filter is_ext (part_list disk)) \<le> 1"
  using assms by (auto simp: disk_ok_def split: if_splits)

lemma disk_walk_geometry_ok:
  assumes "disk_ok disk" "p \<in> set (disk_walk disk)"
  shows "geometry_ok (p_geom p)" "g_dev (p_geom p) = dk_dev disk"
proof -
  have "geometry_ok (p_geom p) \<and> g_dev (p_geom p) = dk_dev disk"
    using assms(1)
  proof (cases rule: disk_ext_cases)
    case none
    with assms(2) disk_okD(2) [OF assms(1)] show ?thesis by (auto simp: parts_ok_def)
  next
    case (ext xs e ys)
    with assms(2) disk_okD(2) [OF assms(1)] show ?thesis by (auto simp: parts_ok_def logical_ok_def)
  qed
  then show "geometry_ok (p_geom p)" "g_dev (p_geom p) = dk_dev disk" by auto
qed

text \<open>The walk of a table given by its parts.\<close>

lemma disk_walk_no_ext:
  "\<forall>p\<in>set ps. \<not> is_ext p \<Longrightarrow> disk_walk (disk\<lparr>part_list := ps\<rparr>) = ps"
  by (simp add: disk_walk_def concat_sub_walk)

lemma disk_walk_ext:
  "is_ext e \<Longrightarrow> \<forall>p\<in>set (xs @ ys). \<not> is_ext p \<Longrightarrow>
   disk_walk (disk\<lparr>part_list := xs @ e # ys\<rparr>) = xs @ e # p_list e @ ys"
  by (simp add: disk_walk_def concat_sub_walk) (simp add: sub_walk_def)

lemma disk_ok_replace_none:
  assumes "disk_ok disk" "parts_ok (dk_dev disk) ps" "\<forall>p\<in>set ps. \<not> is_ext p \<and> \<not> is_logical p \<and> p_list p = []"
    "distinct (map p_id ps)" "\<forall>p\<in>set ps. p_id p < dk_heap disk \<and> p_disk p = dk_addr disk"
  shows "disk_ok (disk\<lparr>part_list := ps\<rparr>)"
  using assms disk_walk_no_ext [of ps disk] by (auto simp: disk_ok_def filter_empty_conv)

lemma disk_ok_replace_ext:
  assumes "disk_ok disk" "parts_ok (dk_dev disk) (xs @ e # ys)" "is_ext e"
    "\<forall>p\<in>set (xs @ ys). \<not> is_ext p \<and> \<not> is_logical p \<and> p_list p = []" "logical_ok (dk_dev disk) e"
    "distinct (map p_id (xs @ e # p_list e @ ys))"
    "\<forall>p\<in>set (xs @ e # p_list e @ ys). p_id p < dk_heap disk \<and> p_disk p = dk_addr disk"
  shows "disk_ok (disk\<lparr>part_list := xs @ e # ys\<rparr>)"
proof -
  have w: "disk_walk (disk\<lparr>part_list := xs @ e # ys\<rparr>) = xs @ e # p_list e @ ys"
    using assms(3,4) by (intro disk_walk_ext) auto
  have "filter is_ext (xs @ e # ys) = [e]"
    using assms(3,4) by (auto simp: filter_empty_conv)
  then show ?thesis
    unfolding disk_ok_def w using assms ext_not_logical disk_okD(1) [OF assms(1)] by auto
qed

lemma logical_ok_set_list:
  assumes "parts_ok dev ls" "\<forall>l\<in>set ls. is_logical l \<and> p_list l = [] \<and>
    g_start (p_geom e) \<le> g_start (p_geom l) \<and> g_end (p_geom l) \<le> g_end (p_geom e)"
  shows "logical_ok dev (set_list ls e)"
  using assms by (simp add: logical_ok_def)

lemma raw_remove_ok:
  assumes "disk_ok disk"
  shows "disk_ok (disk_raw_remove disk part)"
  using assms
proof (cases rule: disk_ext_cases)
  case none
  then show ?thesis
    using assms disk_okD [OF assms] parts_ok_filter
    by (auto simp: disk_raw_remove_def intro!: disk_ok_replace_none distinct_map_filter)
next
  case (ext xs e ys)
  note D = disk_okD [OF assms, unfolded ext(2) ext(5)]
  have d: "distinct (map p_id (xs @ e # p_list e @ ys))" by (fact D(3))
  have side: "\<forall>p\<in>set (xs @ ys). \<not> is_ext p \<and> \<not> is_logical p \<and> p_list p = []"
    using ext(4) D(6,7) by auto
  let ?P = "\<lambda>p. p_id p \<noteq> p_id part"
  show ?thesis
  proof (cases "is_logical part")
    case True
    have "parts_ok (dk_dev disk) (xs @ set_list (filter ?P (p_list e)) e # ys)"
      using D(2) by (simp add: parts_ok_append parts_ok_Cons)
    moreover have "logical_ok (dk_dev disk) (set_list (filter ?P (p_list e)) e)"
      using ext(8) by (intro logical_ok_set_list) (auto simp: logical_ok_def parts_ok_filter)
    moreover have "distinct (map p_id (xs @ set_list (filter ?P (p_list e)) e # filter ?P (p_list e) @ ys))"
      using d by (auto intro: distinct_map_filter)
    ultimately show ?thesis
      using True assms ext(3) side D(4,5)
      by (auto simp: disk_raw_remove_def ext(6) intro!: disk_ok_replace_ext)
  next
    case False
    have f: "parts_ok (dk_dev disk) (filter ?P (xs @ e # ys))" by (intro parts_ok_filter) (fact D(2))
    show ?thesis
    proof (cases "?P e")
      case True
      have "distinct (map p_id (filter ?P xs @ e # p_list e @ filter ?P ys))"
        using d by (auto intro: distinct_map_filter)
      with True False f assms ext(3,8) side D(4,5) show ?thesis
        by (auto simp: disk_raw_remove_def ext(2) intro!: disk_ok_replace_ext)
    next
      case n: False
      have "distinct (map p_id (filter ?P xs @ filter ?P ys))"
        using d by (auto intro: distinct_map_filter)
      with n False f assms side D(4,5) show ?thesis
        by (auto simp: disk_raw_remove_def ext(2) intro!: disk_ok_replace_none)
    qed
  qed
qed

text \<open>
  What a partition must satisfy to be added: it is a region of the device, of the right kind of
  address, and overlaps no partition of the list it goes to; a logical one lies inside the extended
  partition, an extended one is the only one and brings at most its own logical partitions.
\<close>

definition can_add :: "('p, 'd) PedDisk \<Rightarrow> 'p PedPartition \<Rightarrow> bool" where
  "can_add disk part \<longleftrightarrow>
     geometry_ok (p_geom part) \<and> g_dev (p_geom part) = dk_dev disk \<and>
     (if is_ext part
      then ped_disk_extended_partition disk = None \<and> logical_ok (dk_dev disk) part
      else p_list part = []) \<and>
     distinct (map p_id (sub_walk part)) \<and>
     (\<forall>q\<in>set (sub_walk part). p_id q < dk_heap disk \<and> p_disk q = dk_addr disk \<and> p_id q \<notin> p_id ` set (disk_walk disk)) \<and>
     (if is_logical part
      then \<exists>e. ped_disk_extended_partition disk = Some e \<and>
             g_start (p_geom e) \<le> g_start (p_geom part) \<and> g_end (p_geom part) \<le> g_end (p_geom e) \<and>
             (\<forall>q\<in>set (p_list e). \<not> ped_geometry_test_overlap (p_geom q) (p_geom part))
      else \<forall>q\<in>set (part_list disk). \<not> ped_geometry_test_overlap (p_geom q) (p_geom part))"

lemma insert_part_split: "\<exists>as bs. ps = as @ bs \<and> insert_part p ps = as @ p # bs"
proof (induction ps)
  case (Cons w ws)
  then obtain as bs where "ws = as @ bs" "insert_part p ws = as @ p # bs" by blast
  then show ?case
    by (cases "g_start (p_geom w) > g_end (p_geom p)")
      (auto intro: exI [of _ "[]"] exI [of _ "w # as"])
qed simp

lemma raw_add_ok:
  assumes ok: "disk_ok disk" and m: "update_mode disk \<noteq> 0" and c: "can_add disk part"
  obtains disk' where "disk_raw_add disk part = Some disk'" "disk_ok disk'"
proof -
  have pg: "geometry_ok (p_geom part)" "g_dev (p_geom part) = dk_dev disk" using c by (auto simp: can_add_def)
  have pid: "\<forall>q\<in>set (sub_walk part). p_id q < dk_heap disk \<and> p_disk q = dk_addr disk \<and> p_id q \<notin> p_id ` set (disk_walk disk)"
    "distinct (map p_id (sub_walk part))"
    using c by (auto simp: can_add_def)
  have self: "part \<in> set (sub_walk part)" by (simp add: sub_walk_def)
  show ?thesis
  proof (cases "is_logical part")
    case True
    with c obtain e where e: "ped_disk_extended_partition disk = Some e"
      "g_start (p_geom e) \<le> g_start (p_geom part)" "g_end (p_geom part) \<le> g_end (p_geom e)"
      "\<forall>q\<in>set (p_list e). \<not> ped_geometry_test_overlap (p_geom q) (p_geom part)"
      by (auto simp: can_add_def)
    have np: "p_list part = []" using c logical_not_ext [OF True] by (simp add: can_add_def)
    show ?thesis using ok
    proof (cases rule: disk_ext_cases)
      case none
      with e show ?thesis by simp
    next
      case (ext xs e' ys)
      then have ee: "e' = e" using e by simp
      note D = disk_okD [OF ok, unfolded ext(2) ext(5) ee]
      let ?l = "insert_part part (p_list e)"
      have "logical_ok (dk_dev disk) (set_list ?l e)"
        using ext(8) e pg True np unfolding ee
        by (intro logical_ok_set_list) (auto simp: logical_ok_def intro!: parts_ok_insert)
      moreover have "distinct (map p_id (xs @ set_list ?l e # ?l @ ys))"
        using D(3) pid self unfolding ext(5) ee
        by (auto simp: mset_insert_part_ids image_iff)
      moreover have "parts_ok (dk_dev disk) (xs @ set_list ?l e # ys)"
        using D(2) by (simp add: parts_ok_append parts_ok_Cons)
      ultimately have "disk_ok (disk\<lparr>part_list := xs @ set_list ?l e # ys\<rparr>)"
        using ok ext(3,4) D(4-7) pid(1) self unfolding ee
        by (intro disk_ok_replace_ext) auto
      with that True m show ?thesis by (auto simp: disk_raw_add_def ext(6) ee)
    qed
  next
    case False
    then have no: "\<forall>q\<in>set (part_list disk). \<not> ped_geometry_test_overlap (p_geom q) (p_geom part)"
      using c by (simp add: can_add_def)
    have so: "parts_ok (dk_dev disk) (insert_part part (part_list disk))"
      using disk_okD(2) [OF ok] pg no by (intro parts_ok_insert)
    obtain as bs where ab: "part_list disk = as @ bs" "insert_part part (part_list disk) = as @ part # bs"
      using insert_part_split by blast
    have "disk_ok (disk\<lparr>part_list := insert_part part (part_list disk)\<rparr>)"
      using ok
    proof (cases rule: disk_ext_cases)
      case none
      note D = disk_okD [OF ok, unfolded none(3)]
      show ?thesis
      proof (cases "is_ext part")
        case True
        then have l: "logical_ok (dk_dev disk) part" "sub_walk part = part # p_list part"
          using c by (simp_all add: can_add_def sub_walk_def)
        have "distinct (map p_id (as @ part # p_list part @ bs))"
          using D(3) pid unfolding none(3) ab(1) l(2) by (auto simp: image_iff) (metis UnCI)+
        then show ?thesis
          using ok so True l D(4-7) none(2) pid(1) unfolding ab(2)
          by (intro disk_ok_replace_ext) (auto simp: ab(1))
      next
        case n: False
        then have "p_list part = []" using c by (simp add: can_add_def)
        moreover have "distinct (map p_id (insert_part part (part_list disk)))"
          using D(3) pid self unfolding none(3) by (simp add: mset_insert_part_ids)
        ultimately show ?thesis
          using ok so n False D(4-7) none(2) pid(1) self by (intro disk_ok_replace_none) auto
      qed
    next
      case (ext xs e ys)
      have n: "\<not> is_ext part" using c ext(1) by (auto simp: can_add_def)
      then have np: "p_list part = []" using c by (simp add: can_add_def)
      note D = disk_okD [OF ok, unfolded ext(5)]
      from ab ext(2) have "as @ bs = xs @ e # ys" by simp
      then obtain us vs where uv: "as @ part # bs = us @ e # vs" "set us \<union> set vs = insert part (set (xs @ ys))"
        "distinct (map p_id (us @ e # p_list e @ vs))"
      proof -
        have "(\<exists>us. as = xs @ e # us \<and> ys = us @ bs) \<or> (\<exists>us. xs = as @ us \<and> bs = us @ e # ys)"
          using \<open>as @ bs = xs @ e # ys\<close> by (auto simp: append_eq_append_conv2 append_eq_Cons_conv)
        then show ?thesis
        proof (elim disjE exE conjE)
          fix us assume "as = xs @ e # us" "ys = us @ bs"
          then show ?thesis using D(3) pid self unfolding ext(5)
            by (intro that [of xs "us @ part # bs"]) (auto simp: image_iff)
        next
          fix us assume "xs = as @ us" "bs = us @ e # ys"
          then show ?thesis using D(3) pid self unfolding ext(5)
            by (intro that [of "as @ part # us" ys]) (auto simp: image_iff)
        qed
      qed
      have "disk_ok (disk\<lparr>part_list := us @ e # vs\<rparr>)"
      proof (rule disk_ok_replace_ext [OF ok _ ext(3) _ ext(8) uv(3)])
        show "parts_ok (dk_dev disk) (us @ e # vs)" using so ab uv(1) by simp
        have "\<forall>p\<in>set (xs @ ys). \<not> is_ext p \<and> \<not> is_logical p \<and> p_list p = []"
          using ext(2,4) D(6,7) by auto
        then show "\<forall>p\<in>set (us @ vs). \<not> is_ext p \<and> \<not> is_logical p \<and> p_list p = []"
          using uv(2) n False np by auto
        show "\<forall>p\<in>set (us @ e # p_list e @ vs). p_id p < dk_heap disk \<and> p_disk p = dk_addr disk"
        proof
          fix p assume "p \<in> set (us @ e # p_list e @ vs)"
          then have "p = part \<or> p \<in> set (disk_walk disk)" using uv(2) unfolding ext(5) by auto
          then show "p_id p < dk_heap disk \<and> p_disk p = dk_addr disk"
            using disk_okD(4,5) [OF ok] pid(1) self by blast
        qed
      qed
      then show ?thesis using ab uv(1) by simp
    qed
    with that False m show ?thesis by (simp add: disk_raw_add_def)
  qed
qed

text \<open>Adding a partition and removing it again gives the table back.\<close>

lemma raw_add_remove:
  assumes ok: "disk_ok disk" and c: "can_add disk part" and a: "disk_raw_add disk part = Some disk'"
  shows "part \<in> set (disk_walk disk')" "disk_raw_remove disk' part = disk"
proof -
  have fresh: "p_id part \<notin> p_id ` set (disk_walk disk)" using c by (auto simp: can_add_def sub_walk_def)
  have "part \<in> set (disk_walk disk') \<and> disk_raw_remove disk' part = disk"
  proof (cases "is_logical part")
    case True
    with c obtain e0 where e0: "ped_disk_extended_partition disk = Some e0" by (auto simp: can_add_def)
    show ?thesis using ok
    proof (cases rule: disk_ext_cases)
      case none
      with e0 show ?thesis by simp
    next
      case (ext xs e ys)
      have d': "disk' = disk\<lparr>part_list := xs @ set_list (insert_part part (p_list e)) e # ys\<rparr>"
        using a True by (auto simp: disk_raw_add_def ext(6) split: if_splits)
      have "p_id part \<notin> p_id ` set (p_list e)" using fresh ext(5) by auto
      then have f: "filter (\<lambda>q. p_id q \<noteq> p_id part) (insert_part part (p_list e)) = p_list e"
        by (rule filter_insert_part)
      have sl: "set_list (p_list e) e = e" by (simp add: set_list_def)
      have "disk_walk disk' = xs @ set_list (insert_part part (p_list e)) e # insert_part part (p_list e) @ ys"
        unfolding d' using ext(3,4) by (subst disk_walk_ext) auto
      moreover have "disk_raw_remove disk' part = disk\<lparr>part_list := xs @ set_list (p_list e) e # ys\<rparr>"
        using True ext(3,4) f by (simp add: d' disk_raw_remove_def set_ext_list_def update_first_split)
      ultimately show ?thesis by (simp add: sl ext(2) [symmetric])
    qed
  next
    case False
    then have d': "disk' = disk\<lparr>part_list := insert_part part (part_list disk)\<rparr>"
      using a by (auto simp: disk_raw_add_def split: if_splits)
    have "p_id part \<notin> p_id ` set (part_list disk)" using fresh part_list_in_walk by blast
    then have "filter (\<lambda>q. p_id q \<noteq> p_id part) (insert_part part (part_list disk)) = part_list disk"
      by (rule filter_insert_part)
    with False show ?thesis
      using part_list_in_walk [of disk'] by (auto simp: d' disk_raw_remove_def)
  qed
  then show "part \<in> set (disk_walk disk')" "disk_raw_remove disk' part = disk" by auto
qed

lemma lookup_part_iff:
  assumes "disk_ok disk"
  shows "lookup_part disk i = Some p \<longleftrightarrow> p \<in> set (disk_walk disk) \<and> p_id p = i"
proof
  assume "lookup_part disk i = Some p"
  then show "p \<in> set (disk_walk disk) \<and> p_id p = i"
    unfolding lookup_part_def by (auto dest: find_Some_set)
next
  assume p: "p \<in> set (disk_walk disk) \<and> p_id p = i"
  have "inj_on p_id (set (disk_walk disk))"
    using disk_okD(3) [OF assms] by (simp add: distinct_map)
  moreover obtain q where q: "lookup_part disk i = Some q"
    using p find_None_all [of _ "disk_walk disk" p] by (cases "lookup_part disk i") (auto simp: lookup_part_def)
  moreover from q have "q \<in> set (disk_walk disk)" "p_id q = i"
    unfolding lookup_part_def by (auto dest: find_Some_set)
  ultimately show "lookup_part disk i = Some p" using p by (auto dest: inj_onD)
qed

text \<open>Two different partitions that share a sector: one of them is the extended partition.\<close>

lemma parts_ok_same:
  assumes "parts_ok dev ps" "p \<in> set ps" "q \<in> set ps" "inside (p_geom p) s" "inside (p_geom q) s"
  shows "p = q"
proof (rule ccontr)
  assume "p \<noteq> q"
  from assms(2) obtain as bs where ps: "ps = as @ p # bs" by (auto dest: split_list)
  with assms(3) \<open>p \<noteq> q\<close> have "q \<in> set as \<or> q \<in> set bs" by auto
  with assms(1,4,5) show False by (force simp: ps parts_ok_append parts_ok_Cons)
qed

lemma walk_same_sector:
  assumes ok: "disk_ok disk" and p: "p \<in> set (disk_walk disk)" "inside (p_geom p) s" "\<not> is_ext p"
    and q: "q \<in> set (disk_walk disk)" "inside (p_geom q) s" "\<not> is_ext q"
  shows "p = q"
  using ok
proof (cases rule: disk_ext_cases)
  case none
  with p q show ?thesis using parts_ok_same [OF disk_okD(2) [OF ok]] by simp
next
  case (ext xs e ys)
  note top = parts_ok_same [OF disk_okD(2) [OF ok], unfolded ext(2)]
  have log: "inside (p_geom e) s" if "l \<in> set (p_list e)" "inside (p_geom l) s" for l
    using that ext(8) by (force simp: logical_ok_def)
  have e: "x = e" if "x \<in> set (xs @ e # ys)" "inside (p_geom x) s" "inside (p_geom e) s" for x
    using top [of x e s] that by simp
  have ls: "parts_ok (dk_dev disk) (p_list e)" using ext(8) by (simp add: logical_ok_def)
  have pq: "x \<in> set (xs @ e # ys) \<or> x \<in> set (p_list e)" if "x \<in> set (disk_walk disk)" for x
    using that unfolding ext(5) by auto
  show ?thesis
  proof (cases "p \<in> set (p_list e) \<or> q \<in> set (p_list e)")
    case True
    with log p q have "inside (p_geom e) s" by blast
    with e p q ext(3) pq have "p \<in> set (p_list e)" "q \<in> set (p_list e)" by blast+
    with parts_ok_same [OF ls] p q show ?thesis by blast
  next
    case False
    with pq p q top show ?thesis by blast
  qed
qed

section \<open>Properties\<close>

text \<open>
  C29. \<open>ped_disk_next_partition\<close> visits every partition exactly once: from \<open>NULL\<close> it gives the
  first partition of \<open>disk_walk\<close>, from each one the following one, and \<open>NULL\<close> after the last;
  in particular every loop over the partitions terminates, the nested list of the extended
  partition included.
\<close>

theorem ped_disk_next_partition_enumerates:
  assumes "disk_ok disk"
  shows "ped_disk_next_partition disk None = (if disk_walk disk = [] then None else Some (hd (disk_walk disk))) \<and>
    (\<forall>i < length (disk_walk disk). ped_disk_next_partition disk (Some (disk_walk disk ! i)) =
       (if Suc i < length (disk_walk disk) then Some (disk_walk disk ! Suc i) else None)) \<and>
    distinct (disk_walk disk)"
proof (intro conjI allI impI)
  show "ped_disk_next_partition disk None = (if disk_walk disk = [] then None else Some (hd (disk_walk disk)))"
    by (cases "part_list disk") (simp_all add: ped_disk_next_partition_def disk_walk_def sub_walk_def)
  show "distinct (disk_walk disk)"
    using disk_okD(3) [OF assms] by (simp add: distinct_map)
  fix i assume i: "i < length (disk_walk disk)"
  have "disk_walk disk = take i (disk_walk disk) @ disk_walk disk ! i # drop (Suc i) (disk_walk disk)"
    using i by (rule id_take_nth_drop)
  from next_partition_step [OF assms this]
  show "ped_disk_next_partition disk (Some (disk_walk disk ! i)) =
       (if Suc i < length (disk_walk disk) then Some (disk_walk disk ! Suc i) else None)"
    by (cases "Suc i < length (disk_walk disk)") (simp_all add: Cons_nth_drop_Suc [symmetric])
qed

text \<open>A small table with a primary, an extended and two logical partitions.\<close>

definition sample_part :: "nat \<Rightarrow> int \<Rightarrow> PedSector \<Rightarrow> PedSector \<Rightarrow> int \<Rightarrow> unit PedPartition list \<Rightarrow> unit PedPartition" where
  "sample_part i typ st en num l =
     Partition i 7 \<lparr>g_dev = sample_dev 1000, g_start = st, g_length = en - st + 1, g_end = en\<rparr> num typ None l None"

definition sample_disk :: "(unit, unit) PedDisk" where
  "sample_disk =
     \<lparr>dk_addr = 7, dk_dev = sample_dev 1000, dk_type = \<lparr>dt_name = ''msdos'', dt_features = 1\<rparr>,
      part_list = [sample_part 1 0 10 99 1 [],
                   sample_part 2 2 200 499 2 [sample_part 3 1 201 299 5 [], sample_part 4 1 301 400 6 []]],
      dk_specific = (), needs_clobber = False, update_mode = 1, dk_heap = 10\<rparr>"

lemma sample_disk_ok: "disk_ok sample_disk"
  by (simp add: disk_ok_def sample_disk_def sample_part_def parts_ok_def logical_ok_def is_logical_def
      disk_walk_def sub_walk_def geometry_ok_def dev_ok_def sample_dev_def ped_type_defs)

theorem ped_disk_next_partition_enumerates_witness:
  "disk_ok sample_disk \<and> map p_id (disk_walk sample_disk) = [1, 2, 3, 4] \<and>
   map_option p_id (ped_disk_next_partition sample_disk (Some (disk_walk sample_disk ! 1))) = Some 3"
proof -
  have w: "map p_id (disk_walk sample_disk) = [1, 2, 3, 4]" "p_id (disk_walk sample_disk ! 2) = 3"
    by (simp_all add: sample_disk_def disk_walk_def sub_walk_def sample_part_def ped_type_defs)
  have l: "length (disk_walk sample_disk) = 4" using arg_cong [OF w(1), of length] by simp
  from ped_disk_next_partition_enumerates [OF sample_disk_ok] l
  have "ped_disk_next_partition sample_disk (Some (disk_walk sample_disk ! 1)) = Some (disk_walk sample_disk ! 2)"
    by (simp add: numeral_2_eq_2)
  with w sample_disk_ok show ?thesis by simp
qed

text \<open>
  C28. \<open>ped_disk_get_partition_by_sector\<close> returns the one partition, other than the extended one, that
  contains the sector, and \<open>NULL\<close> exactly when no such partition does.
\<close>

theorem ped_disk_get_partition_by_sector_correct:
  assumes "disk_ok disk"
  shows "case ped_disk_get_partition_by_sector disk sect of
      None \<Rightarrow> \<forall>p\<in>set (disk_walk disk). inside (p_geom p) sect \<longrightarrow> is_ext p
    | Some p \<Rightarrow> {q \<in> set (disk_walk disk). inside (p_geom q) sect \<and> \<not> is_ext q} = {p}"
proof (cases "ped_disk_get_partition_by_sector disk sect")
  case None
  then have "\<not> (inside (p_geom p) sect \<and> \<not> is_ext p)" if "p \<in> set (disk_walk disk)" for p
    unfolding ped_disk_get_partition_by_sector_def
    using that find_None_all by (fastforce simp: ped_geometry_test_sector_inside_def)
  with None show ?thesis by auto
next
  case (Some p)
  then have p: "p \<in> set (disk_walk disk)" "inside (p_geom p) sect" "\<not> is_ext p"
    unfolding ped_disk_get_partition_by_sector_def
    by (auto dest!: find_Some_set simp: ped_geometry_test_sector_inside_def)
  have "q = p" if "q \<in> set (disk_walk disk)" "inside (p_geom q) sect" "\<not> is_ext q" for q
    using walk_same_sector [OF assms that p] .
  with p have "{q \<in> set (disk_walk disk). inside (p_geom q) sect \<and> \<not> is_ext q} = {p}" by blast
  with Some show ?thesis by simp
qed

theorem ped_disk_get_partition_by_sector_correct_witness:
  "disk_ok sample_disk \<and>
   map_option p_id (ped_disk_get_partition_by_sector sample_disk 350) = Some 4 \<and>
   {q \<in> set (disk_walk sample_disk). inside (p_geom q) 350 \<and> \<not> is_ext q} =
     {the (ped_disk_get_partition_by_sector sample_disk 350)}"
proof -
  have "map_option p_id (ped_disk_get_partition_by_sector sample_disk 350) = Some 4"
    by (simp add: ped_disk_get_partition_by_sector_def sample_disk_def disk_walk_def sub_walk_def
        sample_part_def ped_type_defs ped_geometry_test_sector_inside_def)
  with ped_disk_get_partition_by_sector_correct [OF sample_disk_ok, of 350] sample_disk_ok
  show ?thesis by (auto split: option.splits)
qed

text \<open>
  Remark. \<open>_disk_raw_add\<close> puts a partition that fits (\<open>can_add\<close>) into the right list at the right
  place: the table stays well formed, the partition is found at its address, and
  \<open>_disk_raw_remove\<close> gives back the table as it was; and \<open>_disk_raw_remove\<close> keeps every
  table well formed.
\<close>

theorem disk_raw_add_remove:
  assumes "disk_ok disk" and "update_mode disk \<noteq> 0" and "can_add disk part"
  shows "(\<exists>disk'. disk_raw_add disk part = Some disk' \<and> disk_ok disk' \<and>
      lookup_part disk' (p_id part) = Some part \<and> disk_raw_remove disk' part = disk) \<and>
    disk_ok (disk_raw_remove disk q)"
proof -
  from assms obtain disk' where a: "disk_raw_add disk part = Some disk'" "disk_ok disk'" by (rule raw_add_ok)
  with raw_add_remove [OF assms(1,3) a(1)] raw_remove_ok [OF assms(1)] lookup_part_iff [OF a(2)]
  show ?thesis by blast
qed

theorem disk_raw_add_remove_witness:
  "let p = sample_part 5 1 420 450 7 []
   in disk_ok sample_disk \<and> can_add sample_disk p \<and>
      disk_raw_remove (the (disk_raw_add sample_disk p)) p = sample_disk"
proof -
  let ?p = "sample_part 5 1 420 450 7 []"
  have c: "can_add sample_disk ?p" "update_mode sample_disk \<noteq> 0"
    by (simp_all add: can_add_def sample_disk_def sample_part_def is_logical_def disk_walk_def sub_walk_def
        ped_disk_extended_partition_def ped_geometry_test_overlap_def geometry_ok_def dev_ok_def
        sample_dev_def ped_type_defs)
  from disk_raw_add_remove [OF sample_disk_ok c(2,1)]
  obtain d where "disk_raw_add sample_disk ?p = Some d" "disk_raw_remove d ?p = sample_disk" by blast
  with c sample_disk_ok show ?thesis by (simp add: Let_def)
qed

end
