(* ===== verification/Ped_Disk_Update.thy ===== *)
theory Ped_Disk_Update
  imports Ped_Disk
begin

text \<open>
  Update mode, metadata and free space of \<^verbatim>\<open>libparted/disk.c\<close>, with the removal of partitions that
  it needs.

  The label-specific operations of \<open>PedDiskOps\<close> are the fields of a record, an argument of every
  function that calls them. The functions \<open>_disk_push_update_mode\<close>, \<open>_disk_remove_metadata\<close>,
  \<open>ped_disk_delete_partition\<close> and \<open>_disk_pop_update_mode\<close> call each other, but once a disk is in
  update mode a nested push or pop only counts. The functions that push and pop therefore take the
  two as parameters (the suffix \<open>_with\<close>); the nested calls use the counting versions, and
  that these are the same as the full versions in update mode is proved below. A pointer to a
  partition of the disk is its address; a function given the address of a partition that was freed,
  which is undefined in C, does nothing.
\<close>

record ('p, 'd) PedDiskOps =
  op_partition_new :: "('p, 'd) PedDisk \<Rightarrow> int \<Rightarrow> string option \<Rightarrow> PedSector \<Rightarrow> PedSector \<Rightarrow>
    ('p, 'd) PedDisk \<times> 'p PedPartition option"
  op_partition_set_system :: "('p, 'd) PedDisk \<Rightarrow> 'p PedPartition \<Rightarrow> string option \<Rightarrow> bool \<times> 'p PedPartition"
  op_partition_align :: "('p, 'd) PedDisk \<Rightarrow> 'p PedPartition \<Rightarrow> PedConstraint option \<Rightarrow> bool \<times> PedGeometry"
  op_partition_enumerate :: "('p, 'd) PedDisk \<Rightarrow> 'p PedPartition \<Rightarrow> bool \<times> int"
  op_alloc_metadata :: "('p, 'd) PedDisk \<Rightarrow> bool \<times> ('p, 'd) PedDisk"
  op_get_max_primary_partition_count :: "('p, 'd) PedDisk \<Rightarrow> int"

section \<open>Creating partitions\<close>

definition ped_partition_alloc ::
  "('p, 'd) PedDisk \<Rightarrow> int \<Rightarrow> string option \<Rightarrow> PedSector \<Rightarrow> PedSector \<Rightarrow>
   ('p, 'd) PedDisk \<times> 'p PedPartition option" where
  "ped_partition_alloc disk type fs_type start end =
     (case ped_geometry_init (fresh_geometry (dk_dev disk)) (dk_dev disk) start (s64 (s64 (end - start) + 1)) of
        (Some _, _) \<Rightarrow> (disk, None)
      | (None, geom) \<Rightarrow>
          (disk\<lparr>dk_heap := dk_heap disk + 1\<rparr>,
           Some (Partition (dk_heap disk) (dk_addr disk) geom (-1) type fs_type [] None)))"

definition ped_partition_set_system ::
  "('p, 'd) PedDiskOps \<Rightarrow> ('p, 'd) PedDisk \<Rightarrow> 'p PedPartition \<Rightarrow> string option \<Rightarrow> bool \<times> 'p PedPartition" where
  "ped_partition_set_system ops disk part fs_type =
     (if \<not> ped_partition_is_active part then (False, part)
      else op_partition_set_system ops disk part fs_type)"

definition ped_partition_new ::
  "('p, 'd) PedDiskOps \<Rightarrow> ('p, 'd) PedDisk \<Rightarrow> int \<Rightarrow> string option \<Rightarrow> PedSector \<Rightarrow> PedSector \<Rightarrow>
   ('p, 'd) PedDisk \<times> (PedException + 'p PedPartition)" where
  "ped_partition_new ops disk type fs_type start end =
     (let supports_extended = ped_disk_type_check_feature (dk_type disk) PED_DISK_TYPE_EXTENDED
      in if \<not> supports_extended \<and> (type = PED_PARTITION_EXTENDED \<or> type = PED_PARTITION_LOGICAL)
         then (disk, Inl NoExtendedSupport)
         else case op_partition_new ops disk type fs_type start end of
                (disk', None) \<Rightarrow> (disk', Inl LabelFailure)
              | (disk', Some part) \<Rightarrow>
                  if fs_type \<noteq> None \<or> p_type part = PED_PARTITION_EXTENDED
                  then case ped_partition_set_system ops disk' part fs_type of
                         (True, part') \<Rightarrow> (disk', Inr part')
                       | (False, _) \<Rightarrow> (disk', Inl LabelFailure)
                  else (disk', Inr part))"

section \<open>Numbering\<close>

definition partition_enumerate ::
  "('p, 'd) PedDiskOps \<Rightarrow> ('p, 'd) PedDisk \<Rightarrow> 'p PedPartition \<Rightarrow> bool \<times> 'p PedPartition" where
  "partition_enumerate ops disk part =
     (let (ok, n) = op_partition_enumerate ops disk part in (ok, set_num n part))"

text \<open>\<open>_partition_enumerate\<close> on a partition of the disk.\<close>

definition enumerate_in_disk :: "('p, 'd) PedDiskOps \<Rightarrow> nat \<Rightarrow> ('p, 'd) PedDisk \<Rightarrow> bool \<times> ('p, 'd) PedDisk" where
  "enumerate_in_disk ops i disk =
     (case lookup_part disk i of
        None \<Rightarrow> (True, disk)
      | Some part \<Rightarrow>
          let (ok, n) = op_partition_enumerate ops disk part in (ok, update_part i (set_num n) disk))"

fun enumerate_numbers :: "('p, 'd) PedDiskOps \<Rightarrow> int list \<Rightarrow> ('p, 'd) PedDisk \<Rightarrow> bool \<times> ('p, 'd) PedDisk" where
  "enumerate_numbers ops [] disk = (True, disk)"
| "enumerate_numbers ops (i # is) disk =
     (case ped_disk_get_partition disk i of
        None \<Rightarrow> enumerate_numbers ops is disk
      | Some walk \<Rightarrow>
          (case enumerate_in_disk ops (p_id walk) disk of
             (False, disk') \<Rightarrow> (False, disk')
           | (True, disk') \<Rightarrow> enumerate_numbers ops is disk'))"

fun enumerate_rest :: "('p, 'd) PedDiskOps \<Rightarrow> nat list \<Rightarrow> ('p, 'd) PedDisk \<Rightarrow> bool \<times> ('p, 'd) PedDisk" where
  "enumerate_rest ops [] disk = (True, disk)"
| "enumerate_rest ops (i # is) disk =
     (case lookup_part disk i of
        None \<Rightarrow> enumerate_rest ops is disk
      | Some walk \<Rightarrow>
          if ped_partition_is_active walk \<and> p_num walk = -1
          then (case enumerate_in_disk ops i disk of
                  (False, disk') \<Rightarrow> (False, disk')
                | (True, disk') \<Rightarrow> enumerate_rest ops is disk')
          else enumerate_rest ops is disk)"

definition ped_disk_enumerate_partitions ::
  "('p, 'd) PedDiskOps \<Rightarrow> ('p, 'd) PedDisk \<Rightarrow> bool \<times> ('p, 'd) PedDisk" where
  "ped_disk_enumerate_partitions ops disk =
     (case enumerate_numbers ops [1..ped_disk_get_last_partition_num disk] disk of
        (False, disk') \<Rightarrow> (False, disk')
      | (True, disk') \<Rightarrow> enumerate_rest ops (map p_id (disk_walk disk')) disk')"

section \<open>Removing partitions\<close>

definition remove_partition_with ::
  "(('p, 'd) PedDisk \<Rightarrow> ('p, 'd) PedDisk) \<Rightarrow> (('p, 'd) PedDisk \<Rightarrow> ('p, 'd) PedDisk) \<Rightarrow>
   ('p, 'd) PedDiskOps \<Rightarrow> ('p, 'd) PedDisk \<Rightarrow> nat \<Rightarrow> bool \<times> ('p, 'd) PedDisk" where
  "remove_partition_with push pop ops disk i =
     (let disk1 = push disk
      in case lookup_part disk1 i of
           None \<Rightarrow> (False, pop disk1)
         | Some part \<Rightarrow>
             if p_list part \<noteq> [] then (False, pop disk1)
             else (True, snd (ped_disk_enumerate_partitions ops (pop (disk_raw_remove disk1 part)))))"

text \<open>The loop of \<open>ped_disk_delete_all_logical\<close> and of \<open>ped_disk_delete_all\<close>.\<close>

fun delete_loop :: "(('p, 'd) PedDisk \<Rightarrow> nat \<Rightarrow> bool \<times> ('p, 'd) PedDisk) \<Rightarrow> nat list \<Rightarrow> ('p, 'd) PedDisk \<Rightarrow>
  bool \<times> ('p, 'd) PedDisk" where
  "delete_loop del [] disk = (True, disk)"
| "delete_loop del (i # is) disk =
     (case del disk i of
        (False, disk') \<Rightarrow> (False, disk')
      | (True, disk') \<Rightarrow> delete_loop del is disk')"

definition delete_all_logical_with ::
  "(('p, 'd) PedDisk \<Rightarrow> nat \<Rightarrow> bool \<times> ('p, 'd) PedDisk) \<Rightarrow> ('p, 'd) PedDisk \<Rightarrow> bool \<times> ('p, 'd) PedDisk" where
  "delete_all_logical_with del disk =
     (case ped_disk_extended_partition disk of
        None \<Rightarrow> (False, disk)
      | Some ext_part \<Rightarrow> delete_loop del (map p_id (p_list ext_part)) disk)"

text \<open>
  \<open>ped_disk_delete_partition\<close> and \<open>ped_disk_delete_all_logical\<close> call each other; the depth is
  2, because the logical partitions the latter deletes are not extended. The first argument bounds
  the depth.
\<close>

fun delete_partition_with ::
  "nat \<Rightarrow> (('p, 'd) PedDisk \<Rightarrow> ('p, 'd) PedDisk) \<Rightarrow> (('p, 'd) PedDisk \<Rightarrow> ('p, 'd) PedDisk) \<Rightarrow>
   ('p, 'd) PedDiskOps \<Rightarrow> ('p, 'd) PedDisk \<Rightarrow> nat \<Rightarrow> bool \<times> ('p, 'd) PedDisk" where
  "delete_partition_with 0 push pop ops disk i = (False, disk)"
| "delete_partition_with (Suc n) push pop ops disk i =
     (let disk1 = push disk;
          disk2 = (case lookup_part disk1 i of
                     None \<Rightarrow> disk1
                   | Some part \<Rightarrow>
                       if p_type part = PED_PARTITION_EXTENDED
                       then snd (delete_all_logical_with (delete_partition_with n push pop ops) disk1)
                       else disk1);
          disk3 = snd (remove_partition_with push pop ops disk2 i)
      in (True, pop disk3))"

section \<open>Metadata and free space\<close>

definition push_nested :: "('p, 'd) PedDisk \<Rightarrow> ('p, 'd) PedDisk" where
  "push_nested disk = disk\<lparr>update_mode := update_mode disk + 1\<rparr>"

definition pop_nested :: "('p, 'd) PedDisk \<Rightarrow> ('p, 'd) PedDisk" where
  "pop_nested disk = disk\<lparr>update_mode := update_mode disk - 1\<rparr>"

definition disk_remove_metadata :: "('p, 'd) PedDiskOps \<Rightarrow> ('p, 'd) PedDisk \<Rightarrow> ('p, 'd) PedDisk" where
  "disk_remove_metadata ops disk =
     fold (\<lambda>walk d. snd (delete_partition_with 1 push_nested pop_nested ops d (p_id walk)))
       (filter is_metadata (disk_walk disk)) disk"

text \<open>
  The only caller is \<open>_disk_pop_update_mode\<close>, when the mode is still on: the branch that removes the old metadata is dead
  code in \<^verbatim>\<open>disk.c\<close>. It stands here as it is written, with the nested changes of the mode.
\<close>

definition disk_alloc_metadata :: "('p, 'd) PedDiskOps \<Rightarrow> ('p, 'd) PedDisk \<Rightarrow> bool \<times> ('p, 'd) PedDisk" where
  "disk_alloc_metadata ops disk =
     op_alloc_metadata ops (if update_mode disk = 0 then disk_remove_metadata ops disk else disk)"

definition disk_remove_freespace :: "('p, 'd) PedDisk \<Rightarrow> ('p, 'd) PedDisk" where
  "disk_remove_freespace disk =
     fold (\<lambda>walk d. if is_freespace walk then disk_raw_remove d walk else d) (disk_walk disk) disk"

fun insert_before :: "nat \<Rightarrow> 'p PedPartition \<Rightarrow> 'p PedPartition list \<Rightarrow> 'p PedPartition list" where
  "insert_before i part [] = []"
| "insert_before i part (p # ps) = (if p_id p = i then part # p # ps else p # insert_before i part ps)"

fun insert_after :: "nat \<Rightarrow> 'p PedPartition \<Rightarrow> 'p PedPartition list \<Rightarrow> 'p PedPartition list" where
  "insert_after i part [] = []"
| "insert_after i part (p # ps) = (if p_id p = i then p # part # ps else p # insert_after i part ps)"

definition in_list_of ::
  "'p PedPartition \<Rightarrow> ('p PedPartition list \<Rightarrow> 'p PedPartition list) \<Rightarrow> ('p, 'd) PedDisk \<Rightarrow> ('p, 'd) PedDisk" where
  "in_list_of loc f disk =
     (if is_logical loc then set_ext_list f disk else disk\<lparr>part_list := f (part_list disk)\<rparr>)"

definition disk_raw_insert_before ::
  "('p, 'd) PedDisk \<Rightarrow> 'p PedPartition \<Rightarrow> 'p PedPartition \<Rightarrow> ('p, 'd) PedDisk" where
  "disk_raw_insert_before disk loc part = in_list_of loc (insert_before (p_id loc) part) disk"

definition disk_raw_insert_after ::
  "('p, 'd) PedDisk \<Rightarrow> 'p PedPartition \<Rightarrow> 'p PedPartition \<Rightarrow> ('p, 'd) PedDisk" where
  "disk_raw_insert_after disk loc part = in_list_of loc (insert_after (p_id loc) part) disk"

text \<open>The loop of \<open>_disk_alloc_freespace\<close> and of \<open>_alloc_extended_freespace\<close>: a free space
  partition before every partition that does not start right after the one before it. It returns the
  disk, the end of the last partition and the last partition.\<close>

fun fill_gaps :: "('p, 'd) PedDiskOps \<Rightarrow> int \<Rightarrow> PedSector \<Rightarrow> 'p PedPartition option \<Rightarrow>
  'p PedPartition list \<Rightarrow> ('p, 'd) PedDisk \<Rightarrow> ('p, 'd) PedDisk \<times> PedSector \<times> 'p PedPartition option" where
  "fill_gaps ops type last_end lst [] disk = (disk, last_end, lst)"
| "fill_gaps ops type last_end lst (walk # ws) disk =
     fill_gaps ops type (g_end (p_geom walk)) (Some walk) ws
       (if g_start (p_geom walk) > s64 (last_end + 1)
        then case ped_partition_new ops disk type None (s64 (last_end + 1)) (s64 (g_start (p_geom walk) - 1)) of
               (d, Inl _) \<Rightarrow> d
             | (d, Inr free_space) \<Rightarrow> disk_raw_insert_before d walk free_space
        else disk)"

definition alloc_extended_freespace :: "('p, 'd) PedDiskOps \<Rightarrow> ('p, 'd) PedDisk \<Rightarrow> bool \<times> ('p, 'd) PedDisk" where
  "alloc_extended_freespace ops disk =
     (case ped_disk_extended_partition disk of
        None \<Rightarrow> (True, disk)
      | Some extended_part \<Rightarrow>
          let type = PED_PARTITION_FREESPACE OR PED_PARTITION_LOGICAL;
              (disk1, last_end, lst) =
                fill_gaps ops type (g_start (p_geom extended_part)) None (p_list extended_part) disk
          in if last_end < g_end (p_geom extended_part)
             then (case ped_partition_new ops disk1 type None (s64 (last_end + 1)) (g_end (p_geom extended_part)) of
                     (d, Inl _) \<Rightarrow> (case lst of Some _ \<Rightarrow> (False, d) | None \<Rightarrow> (True, set_ext_list (\<lambda>_. []) d))
                   | (d, Inr free_space) \<Rightarrow>
                       (True, case lst of
                                Some l \<Rightarrow> disk_raw_insert_after d l free_space
                              | None \<Rightarrow> set_ext_list (\<lambda>_. [free_space]) d))
             else (True, disk1))"

definition disk_alloc_freespace :: "('p, 'd) PedDiskOps \<Rightarrow> ('p, 'd) PedDisk \<Rightarrow> bool \<times> ('p, 'd) PedDisk" where
  "disk_alloc_freespace ops disk =
     (case alloc_extended_freespace ops (disk_remove_freespace disk) of
        (False, disk1) \<Rightarrow> (False, disk1)
      | (True, disk1) \<Rightarrow>
          let (disk2, last_end, lst) =
                fill_gaps ops PED_PARTITION_FREESPACE (-1) None (part_list disk1) disk1;
              dev_end = s64 (dev_length (dk_dev disk2) - 1)
          in if last_end < dev_end
             then (case ped_partition_new ops disk2 PED_PARTITION_FREESPACE None (s64 (last_end + 1)) dev_end of
                     (d, Inl _) \<Rightarrow> (case lst of Some _ \<Rightarrow> (False, d) | None \<Rightarrow> (True, d\<lparr>part_list := []\<rparr>))
                   | (d, Inr free_space) \<Rightarrow>
                       (True, case lst of
                                Some l \<Rightarrow> disk_raw_insert_after d l free_space
                              | None \<Rightarrow> d\<lparr>part_list := [free_space]\<rparr>))
             else (True, disk2))"

section \<open>Update mode\<close>

definition disk_push_update_mode :: "('p, 'd) PedDiskOps \<Rightarrow> ('p, 'd) PedDisk \<Rightarrow> ('p, 'd) PedDisk" where
  "disk_push_update_mode ops disk =
     (if update_mode disk = 0
      then disk_remove_metadata ops
             (let d = disk_remove_freespace disk in d\<lparr>update_mode := update_mode d + 1\<rparr>)
      else disk\<lparr>update_mode := update_mode disk + 1\<rparr>)"

definition disk_pop_update_mode :: "('p, 'd) PedDiskOps \<Rightarrow> ('p, 'd) PedDisk \<Rightarrow> ('p, 'd) PedDisk" where
  "disk_pop_update_mode ops disk =
     (if update_mode disk = 0 then disk
      else if update_mode disk = 1
      then snd (disk_alloc_freespace ops
             (let d = snd (disk_alloc_metadata ops disk) in d\<lparr>update_mode := update_mode d - 1\<rparr>))
      else disk\<lparr>update_mode := update_mode disk - 1\<rparr>)"

definition ped_disk_remove_partition ::
  "('p, 'd) PedDiskOps \<Rightarrow> ('p, 'd) PedDisk \<Rightarrow> nat \<Rightarrow> bool \<times> ('p, 'd) PedDisk" where
  "ped_disk_remove_partition ops =
     remove_partition_with (disk_push_update_mode ops) (disk_pop_update_mode ops) ops"

definition ped_disk_delete_partition ::
  "('p, 'd) PedDiskOps \<Rightarrow> ('p, 'd) PedDisk \<Rightarrow> nat \<Rightarrow> bool \<times> ('p, 'd) PedDisk" where
  "ped_disk_delete_partition ops =
     delete_partition_with 2 (disk_push_update_mode ops) (disk_pop_update_mode ops) ops"

definition ped_disk_delete_all_logical ::
  "('p, 'd) PedDiskOps \<Rightarrow> ('p, 'd) PedDisk \<Rightarrow> bool \<times> ('p, 'd) PedDisk" where
  "ped_disk_delete_all_logical ops disk = delete_all_logical_with (ped_disk_delete_partition ops) disk"

definition ped_disk_delete_all ::
  "('p, 'd) PedDiskOps \<Rightarrow> ('p, 'd) PedDisk \<Rightarrow> bool \<times> ('p, 'd) PedDisk" where
  "ped_disk_delete_all ops disk =
     (let disk1 = disk_push_update_mode ops disk
      in case delete_loop (ped_disk_delete_partition ops) (map p_id (part_list disk1)) disk1 of
           (False, disk2) \<Rightarrow> (False, disk2)
         | (True, disk2) \<Rightarrow> (True, disk_pop_update_mode ops disk2))"

end
