(* ===== verification/Ped_Disk_Frame.thy ===== *)
theory Ped_Disk_Frame
  imports Ped_Disk_Update
begin

text \<open>
  Lemmas on the functions of \<open>Ped_Disk_Update\<close> that remove partitions or change their numbers:
  what they keep of a partition table. \<open>keep_parts P\<close> restricts a table to the partitions that
  satisfy \<open>P\<close>; removing partitions one after the other is such a restriction.
  \<open>same_but_nums\<close> relates two tables that differ in the partition numbers only, which the labels
  may reassign at any removal.
\<close>

section \<open>Restricting a table\<close>

lemma kind_simps [simp]:
  "is_logical (set_list l p) = is_logical p" "is_freespace (set_list l p) = is_freespace p"
  "is_metadata (set_list l p) = is_metadata p" "ped_partition_is_active (set_list l p) = ped_partition_is_active p"
  "is_logical (set_num n p) = is_logical p" "is_freespace (set_num n p) = is_freespace p"
  "is_metadata (set_num n p) = is_metadata p" "ped_partition_is_active (set_num n p) = ped_partition_is_active p"
  "is_logical (set_geom g p) = is_logical p" "is_freespace (set_geom g p) = is_freespace p"
  "is_metadata (set_geom g p) = is_metadata p" "ped_partition_is_active (set_geom g p) = ped_partition_is_active p"
  by (simp_all add: is_logical_def is_freespace_def is_metadata_def ped_partition_is_active_def)

lemma active_iff: "ped_partition_is_active p \<longleftrightarrow> \<not> is_freespace p \<and> \<not> is_metadata p"
  by (simp add: ped_partition_is_active_def is_freespace_def is_metadata_def)

lemma ext_active: "p_type p = PED_PARTITION_EXTENDED \<Longrightarrow> ped_partition_is_active p"
  by (simp add: ped_partition_is_active_def ped_type_defs)

definition keep_parts :: "('p PedPartition \<Rightarrow> bool) \<Rightarrow> 'p PedPartition list \<Rightarrow> 'p PedPartition list" where
  "keep_parts P ps = map (\<lambda>p. set_list (filter P (p_list p)) p) (filter P ps)"

text \<open>A predicate on partitions that does not look into the list of an extended partition.\<close>

definition shallow :: "('p PedPartition \<Rightarrow> bool) \<Rightarrow> bool" where
  "shallow P \<longleftrightarrow> (\<forall>l p. P (set_list l p) = P p)"

lemma shallow_simps [simp]:
  "shallow (\<lambda>p. p_id p \<noteq> i)" "shallow (\<lambda>p. \<not> is_freespace p)" "shallow (\<lambda>p. \<not> is_metadata p)"
  "shallow ped_partition_is_active" "shallow (\<lambda>p. p_id p \<notin> I)"
  by (simp_all add: shallow_def)

lemma keep_parts_keep_parts:
  assumes "shallow P"
  shows "keep_parts P (keep_parts Q ps) = keep_parts (\<lambda>p. P p \<and> Q p) ps"
  using assms
  by (induction ps) (auto simp: keep_parts_def shallow_def conj_commute)

lemma keep_parts_cong:
  assumes "\<And>p. p \<in> set ps \<Longrightarrow> P p = Q p" "\<And>p l. p \<in> set ps \<Longrightarrow> P p \<Longrightarrow> l \<in> set (p_list p) \<Longrightarrow> P l = Q l"
  shows "keep_parts P ps = keep_parts Q ps"
  using assms unfolding keep_parts_def by (auto cong: filter_cong simp: set_list_def intro!: map_cong)

lemma keep_parts_Nil_Cons [simp]:
  "keep_parts P [] = []"
  "keep_parts P (p # ps) = (if P p then [set_list (filter P (p_list p)) p] else []) @ keep_parts P ps"
  "keep_parts P (xs @ ys) = keep_parts P xs @ keep_parts P ys"
  by (simp_all add: keep_parts_def)

lemma keep_parts_flat: "\<forall>p\<in>set ps. p_list p = [] \<Longrightarrow> keep_parts P ps = filter P ps"
  unfolding keep_parts_def by (rule map_idI) (auto simp: set_list_def PedPartition.expand)

lemma disk_ok_mode [simp]:
  "disk_ok (disk\<lparr>update_mode := m\<rparr>) = disk_ok disk" "disk_walk (disk\<lparr>update_mode := m\<rparr>) = disk_walk disk"
  by (simp_all add: disk_ok_def disk_walk_def)

lemma lookup_mode [simp]: "lookup_part (disk\<lparr>update_mode := m\<rparr>) i = lookup_part disk i"
  by (simp add: lookup_part_def)

lemma disk_ok_keep:
  assumes "disk_ok disk"
  shows "disk_ok (disk\<lparr>part_list := keep_parts P (part_list disk)\<rparr>)"
  using assms
proof (cases rule: disk_ext_cases)
  case none
  note D = disk_okD [OF assms, unfolded none(3)]
  have k: "keep_parts P (part_list disk) = filter P (part_list disk)"
    using D(7) none(2) by (intro keep_parts_flat) auto
  show ?thesis
    unfolding k using assms D none(2) parts_ok_filter
    by (intro disk_ok_replace_none) (auto intro: distinct_map_filter)
next
  case (ext xs e ys)
  note D = disk_okD [OF assms, unfolded ext(2) ext(5)]
  have flat: "\<forall>p\<in>set (xs @ ys). p_list p = []" using D(7) ext(4) by auto
  have k: "keep_parts P (part_list disk) =
      filter P xs @ (if P e then [set_list (filter P (p_list e)) e] else []) @ filter P ys"
    using flat by (simp add: ext(2) keep_parts_flat)
  have pk: "parts_ok (dk_dev disk) (filter P xs @ filter P ys)"
    "P e \<Longrightarrow> parts_ok (dk_dev disk) (filter P xs @ set_list (filter P (p_list e)) e # filter P ys)"
    using D(2) parts_ok_filter by (auto simp: parts_ok_append parts_ok_Cons)
  have side: "\<forall>p\<in>set (filter P xs @ filter P ys). \<not> is_ext p \<and> \<not> is_logical p \<and> p_list p = []"
    using ext(4) D(6) flat by auto
  have lo: "logical_ok (dk_dev disk) (set_list (filter P (p_list e)) e)"
    using ext(8) by (intro logical_ok_set_list) (auto simp: logical_ok_def parts_ok_filter)
  have di: "distinct (map p_id (filter P xs @ filter P (p_list e) @ filter P ys))"
    "distinct (map p_id (filter P xs @ set_list (filter P (p_list e)) e # filter P (p_list e) @ filter P ys))"
    using D(3) by (auto intro: distinct_map_filter)
  show ?thesis
  proof (cases "P e")
    case True
    then show ?thesis
      unfolding k using assms pk(2) side lo di(2) ext(3) D(4,5)
      by (simp only: if_True append_Cons append_Nil) (rule disk_ok_replace_ext, auto)
  next
    case False
    then show ?thesis
      unfolding k using assms pk(1) side di(1) D(4,5)
      by (simp only: if_False append_Nil) (rule disk_ok_replace_none, auto)
  qed
qed

lemma raw_remove_keep:
  assumes ok: "disk_ok disk" and w: "w \<in> set (disk_walk disk)"
  shows "disk_raw_remove disk w = disk\<lparr>part_list := keep_parts (\<lambda>p. p_id p \<noteq> p_id w) (part_list disk)\<rparr>"
  using ok
proof (cases rule: disk_ext_cases)
  case none
  then have n: "\<not> is_logical w" using w disk_okD(6) [OF ok] by simp
  have "keep_parts P (part_list disk) = filter P (part_list disk)" for P
    using disk_okD(7) [OF ok] none(2) by (intro keep_parts_flat) auto
  with n show ?thesis by (simp add: disk_raw_remove_def)
next
  case (ext xs e ys)
  let ?P = "\<lambda>p. p_id p \<noteq> p_id w"
  note D = disk_okD [OF ok, unfolded ext(2) ext(5)]
  have flat: "\<forall>p\<in>set (xs @ ys). p_list p = []" using D(7) ext(4) by auto
  have k: "keep_parts ?P (part_list disk) =
      filter ?P xs @ (if ?P e then [set_list (filter ?P (p_list e)) e] else []) @ filter ?P ys"
    using flat by (simp add: ext(2) keep_parts_flat)
  have id: "filter ?P zs = zs" if "p_id w \<notin> p_id ` set zs" for zs :: "'a PedPartition list"
    using that by (intro filter_True) (auto simp: image_iff)
  show ?thesis
  proof (cases "is_logical w")
    case True
    then have "w \<in> set (p_list e)"
      using w D(6) ext(3) ext_not_logical unfolding ext(5) by auto
    then have "p_id w \<notin> p_id ` set xs" "p_id w \<notin> p_id ` set ys" "p_id e \<noteq> p_id w"
      using D(3) by (auto simp: image_iff)
    with True k show ?thesis by (simp add: disk_raw_remove_def ext(6) id)
  next
    case False
    then have "w = e \<or> w \<in> set xs \<or> w \<in> set ys" using w ext(8) unfolding ext(5) by (auto simp: logical_ok_def)
    then have "p_id w \<notin> p_id ` set (p_list e)" using D(3) by (auto simp: image_iff)
    moreover have "set_list (p_list e) e = e" by (simp add: set_list_def)
    ultimately show ?thesis using False k by (simp add: disk_raw_remove_def ext(2) id)
  qed
qed

text \<open>The address of a partition determines it.\<close>

lemma walk_id_inj:
  "disk_ok disk \<Longrightarrow> p \<in> set (disk_walk disk) \<Longrightarrow> q \<in> set (disk_walk disk) \<Longrightarrow> p_id p = p_id q \<Longrightarrow> p = q"
  using disk_okD(3) [of disk] by (auto simp: distinct_map dest: inj_onD)

lemma walk_id_iff_in_list:
  "disk_ok disk \<Longrightarrow> p \<in> set (part_list disk) \<Longrightarrow> l \<in> set (p_list p) \<Longrightarrow> l \<in> set (disk_walk disk)"
  by (auto simp: disk_ok_def disk_walk_def sub_walk_def split: if_splits)

lemma in_walk_iff:
  "q \<in> set (disk_walk disk) \<longleftrightarrow>
   (\<exists>p\<in>set (part_list disk). q = p \<or> is_ext p \<and> q \<in> set (p_list p))"
  by (auto simp: disk_walk_def sub_walk_def split: if_splits)

lemma set_list_same: "set_list (p_list p) p = p"
  by (simp add: set_list_def)

lemma walk_keep:
  assumes ok: "disk_ok disk" and P: "shallow P" "\<forall>p\<in>set (part_list disk). is_ext p \<longrightarrow> P p" and q: "\<not> is_ext q"
  shows "q \<in> set (disk_walk (disk\<lparr>part_list := keep_parts P (part_list disk)\<rparr>)) \<longleftrightarrow>
    q \<in> set (disk_walk disk) \<and> P q"
proof -
  have nl: "set_list (filter P (p_list p)) p = p" if "p \<in> set (part_list disk)" "\<not> is_ext p" for p
    using disk_okD(7) [OF ok that] by (metis filter.simps(1) set_list_same)
  show ?thesis (is "?l \<longleftrightarrow> ?r")
  proof
    assume ?l
    then obtain p where p: "p \<in> set (part_list disk)" "P p"
      "q = set_list (filter P (p_list p)) p \<or> is_ext p \<and> q \<in> set (filter P (p_list p))"
      by (auto simp: in_walk_iff keep_parts_def)
    have "\<not> is_ext p" if "q = set_list (filter P (p_list p)) p" using that q by auto
    with p nl show ?r by (auto simp: in_walk_iff)
  next
    assume r: ?r
    then obtain p where p: "p \<in> set (part_list disk)" "q = p \<or> is_ext p \<and> q \<in> set (p_list p)"
      by (auto simp: in_walk_iff)
    then have "P p" using r P(2) by auto
    with p(1) have "set_list (filter P (p_list p)) p \<in> set (keep_parts P (part_list disk))"
      by (auto simp: keep_parts_def)
    with p r nl q show ?l by (force simp: in_walk_iff)
  qed
qed

lemma fold_raw_remove:
  assumes "disk_ok disk" "\<forall>w\<in>set ws. w \<in> set (disk_walk disk) \<and> \<not> is_ext w" "distinct (map p_id ws)"
  shows "fold (\<lambda>w d. disk_raw_remove d w) ws disk =
    disk\<lparr>part_list := keep_parts (\<lambda>p. p_id p \<notin> p_id ` set ws) (part_list disk)\<rparr>"
  using assms
proof (induction ws arbitrary: disk)
  case Nil
  have "set_list (filter (\<lambda>p. True) (p_list p)) p = p" for p :: "'a PedPartition"
    by (simp add: set_list_def)
  then have "keep_parts (\<lambda>p. True) (part_list disk) = part_list disk"
    by (simp add: keep_parts_def)
  then show ?case by simp
next
  case (Cons w ws)
  let ?P = "\<lambda>p. p_id p \<noteq> p_id w"
  let ?d = "disk\<lparr>part_list := keep_parts ?P (part_list disk)\<rparr>"
  have w: "w \<in> set (disk_walk disk)" "\<not> is_ext w" using Cons.prems by auto
  have rm: "disk_raw_remove disk w = ?d" using raw_remove_keep [OF Cons.prems(1) w(1)] .
  have ext: "\<forall>p\<in>set (part_list disk). is_ext p \<longrightarrow> ?P p"
    using walk_id_inj [OF Cons.prems(1) _ w(1)] w(2) part_list_in_walk by blast
  have "v \<in> set (disk_walk ?d) \<and> \<not> is_ext v" if v: "v \<in> set ws" for v
    using v Cons.prems(2,3) walk_keep [OF Cons.prems(1) shallow_simps(1) ext, of v]
    by (auto simp: image_iff)
  then have "fold (\<lambda>w d. disk_raw_remove d w) ws ?d =
      ?d\<lparr>part_list := keep_parts (\<lambda>p. p_id p \<notin> p_id ` set ws) (part_list ?d)\<rparr>"
    using Cons.prems disk_ok_keep by (intro Cons.IH) auto
  also have "keep_parts (\<lambda>p. p_id p \<notin> p_id ` set ws) (part_list ?d) =
      keep_parts (\<lambda>p. p_id p \<notin> p_id ` set (w # ws)) (part_list disk)"
    by (simp add: keep_parts_keep_parts) (simp add: conj_commute)
  finally show ?case by (simp add: rm)
qed

lemma freespace_not_ext: "is_freespace p \<Longrightarrow> \<not> is_ext p"
  by (auto simp: is_freespace_def ped_type_defs)

lemma metadata_not_ext: "is_metadata p \<Longrightarrow> \<not> is_ext p"
  by (auto simp: is_metadata_def ped_type_defs)

lemma keep_ids_eq:
  assumes ok: "disk_ok disk" and ws: "ws = filter F (disk_walk disk)"
  shows "keep_parts (\<lambda>p. p_id p \<notin> p_id ` set ws) (part_list disk) = keep_parts (\<lambda>p. \<not> F p) (part_list disk)"
proof -
  have "p_id p \<in> p_id ` set ws \<longleftrightarrow> F p" if "p \<in> set (disk_walk disk)" for p
    using walk_id_inj [OF ok that] that by (auto simp: ws)
  then show ?thesis
    using part_list_in_walk walk_id_iff_in_list [OF ok] by (intro keep_parts_cong) blast+
qed

text \<open>Removing the free space keeps exactly the other partitions.\<close>

lemma remove_freespace_eq:
  assumes "disk_ok disk"
  shows "disk_remove_freespace disk = disk\<lparr>part_list := keep_parts (\<lambda>p. \<not> is_freespace p) (part_list disk)\<rparr>"
proof -
  let ?ws = "filter is_freespace (disk_walk disk)"
  have "fold (\<lambda>w d. if F w then f d w else d) ws d = fold (\<lambda>w d. f d w) (filter F ws) d" for F f ws and d :: "('p, 'd) PedDisk"
    by (induction ws arbitrary: d) auto
  then have "disk_remove_freespace disk = fold (\<lambda>w d. disk_raw_remove d w) ?ws disk"
    by (simp add: disk_remove_freespace_def)
  also have "\<dots> = disk\<lparr>part_list := keep_parts (\<lambda>p. p_id p \<notin> p_id ` set ?ws) (part_list disk)\<rparr>"
    using assms disk_okD(3) [OF assms] freespace_not_ext
    by (intro fold_raw_remove) (auto intro: distinct_map_filter)
  also have "keep_parts (\<lambda>p. p_id p \<notin> p_id ` set ?ws) (part_list disk) =
      keep_parts (\<lambda>p. \<not> is_freespace p) (part_list disk)"
    by (rule keep_ids_eq [OF assms refl])
  finally show ?thesis .
qed

section \<open>Numbers\<close>

text \<open>The partition lists without the partition numbers, which the labels reassign.\<close>

definition denum :: "'p PedPartition \<Rightarrow> 'p PedPartition" where
  "denum p = set_num 0 (set_list (map (set_num 0) (p_list p)) p)"

lemma denum_simps [simp]:
  "p_id (denum p) = p_id p" "p_geom (denum p) = p_geom p" "p_type (denum p) = p_type p"
  "p_disk (denum p) = p_disk p" "p_list (denum p) = map (set_num 0) (p_list p)"
  "is_logical (denum p) = is_logical p" "is_freespace (denum p) = is_freespace p"
  "is_metadata (denum p) = is_metadata p" "ped_partition_is_active (denum p) = ped_partition_is_active p"
  by (simp_all add: denum_def)

lemma disk_ok_denum: "disk_ok (disk\<lparr>part_list := map denum (part_list disk)\<rparr>) = disk_ok disk"
proof -
  let ?d = "disk\<lparr>part_list := map denum (part_list disk)\<rparr>"
  have sub: "sub_walk (denum p) = denum p # (if is_ext p then map (set_num 0) (p_list p) else [])" for p :: "'a PedPartition"
    by (simp add: sub_walk_def)
  have w1: "map p_id (disk_walk ?d) = map p_id (disk_walk disk)"
  proof -
    have "map p_id (sub_walk (denum p)) = map p_id (sub_walk p)" for p :: "'a PedPartition"
      by (simp add: sub_walk_def)
    then show ?thesis by (simp add: disk_walk_def map_concat o_def)
  qed
  have w2: "(\<forall>p\<in>set (disk_walk ?d). p_id p < h \<and> p_disk p = a) \<longleftrightarrow>
      (\<forall>p\<in>set (disk_walk disk). p_id p < h \<and> p_disk p = a)" for h a
  proof -
    have "(\<forall>q\<in>set (sub_walk (denum p)). p_id q < h \<and> p_disk q = a) \<longleftrightarrow>
        (\<forall>q\<in>set (sub_walk p). p_id q < h \<and> p_disk q = a)" for p :: "'a PedPartition"
      by (cases "is_ext p") (simp_all add: sub_walk_def)
    then show ?thesis by (simp add: disk_walk_def)
  qed
  have l: "logical_ok dev (denum p) = logical_ok dev p" for dev and p :: "'a PedPartition"
    by (auto simp: logical_ok_def parts_ok_map)
  have f: "length (filter is_ext (map denum ps)) = length (filter is_ext ps)" for ps :: "'a PedPartition list"
    by (simp add: filter_map o_def)
  show ?thesis
    unfolding disk_ok_def w1 w2 using f [of "part_list disk"] by (simp add: parts_ok_map l)
qed

text \<open>Two disks that differ at most in the numbers of their partitions.\<close>

definition same_but_nums :: "('p, 'd) PedDisk \<Rightarrow> ('p, 'd) PedDisk \<Rightarrow> bool" where
  "same_but_nums d d' \<longleftrightarrow> d'\<lparr>part_list := map denum (part_list d')\<rparr> = d\<lparr>part_list := map denum (part_list d)\<rparr>"

lemma same_but_nums_refl [simp]: "same_but_nums d d"
  by (simp add: same_but_nums_def)

lemma same_but_nums_trans: "same_but_nums a b \<Longrightarrow> same_but_nums b c \<Longrightarrow> same_but_nums a c"
  by (simp add: same_but_nums_def)

lemma same_but_nums_ok: "same_but_nums d d' \<Longrightarrow> disk_ok d' = disk_ok d"
  using disk_ok_denum [of d] disk_ok_denum [of d'] by (simp add: same_but_nums_def)

lemma same_but_nums_iff:
  "same_but_nums d d' \<longleftrightarrow> dk_addr d' = dk_addr d \<and> dk_dev d' = dk_dev d \<and> dk_type d' = dk_type d \<and>
     dk_specific d' = dk_specific d \<and> update_mode d' = update_mode d \<and> dk_heap d' = dk_heap d \<and>
     needs_clobber d' = needs_clobber d \<and> map denum (part_list d') = map denum (part_list d)"
  by (cases d; cases d') (auto simp: same_but_nums_def)

lemma same_but_nums_fields:
  assumes "same_but_nums d d'"
  shows "dk_addr d' = dk_addr d" "dk_dev d' = dk_dev d" "dk_type d' = dk_type d" "dk_specific d' = dk_specific d"
    "update_mode d' = update_mode d" "dk_heap d' = dk_heap d" "needs_clobber d' = needs_clobber d"
    "map denum (part_list d') = map denum (part_list d)"
  using assms by (simp_all add: same_but_nums_iff)

lemma update_num_same: "same_but_nums d (update_part i (set_num n) d)"
proof -
  have s: "set_num 0 (set_num n p) = set_num 0 p" "set_list l (set_num n p) = set_num n (set_list l p)" for p :: "'a PedPartition" and l
    by (simp_all add: set_num_def set_list_def)
  have "denum (let q = (if p_id p = i then set_num n p else p)
        in set_list (map (\<lambda>l. if p_id l = i then set_num n l else l) (p_list q)) q) = denum p" for p :: "'a PedPartition"
    by (simp add: Let_def denum_def s o_def if_distrib [of "set_num 0"] cong: if_cong)
  then show ?thesis by (simp add: same_but_nums_def update_part_def)
qed

lemma enumerate_in_disk_same: "same_but_nums d (snd (enumerate_in_disk ops i d))"
  by (auto simp: enumerate_in_disk_def update_num_same split: option.split prod.split)

lemma enumerate_numbers_same: "same_but_nums d (snd (enumerate_numbers ops is d))"
proof (induction "is" arbitrary: d)
  case (Cons i "is")
  have "same_but_nums d x \<Longrightarrow> same_but_nums d (snd (enumerate_numbers ops is x))" for x
    using Cons same_but_nums_trans by blast
  moreover have "same_but_nums d x" if "enumerate_in_disk ops j d = (b, x)" for j b x
    using enumerate_in_disk_same [of d ops j] that by simp
  ultimately show ?case
    using Cons by (auto split: option.split prod.split bool.split)
qed simp

lemma enumerate_rest_same: "same_but_nums d (snd (enumerate_rest ops is d))"
proof (induction "is" arbitrary: d)
  case (Cons i "is")
  have "same_but_nums d x \<Longrightarrow> same_but_nums d (snd (enumerate_rest ops is x))" for x
    using Cons same_but_nums_trans by blast
  moreover have "same_but_nums d x" if "enumerate_in_disk ops j d = (b, x)" for j b x
    using enumerate_in_disk_same [of d ops j] that by simp
  ultimately show ?case
    using Cons by (auto split: option.split prod.split bool.split)
qed simp

lemma enumerate_same: "same_but_nums d (snd (ped_disk_enumerate_partitions ops d))"
  using enumerate_numbers_same [of d ops "[1..ped_disk_get_last_partition_num d]"]
  by (auto simp: ped_disk_enumerate_partitions_def intro: same_but_nums_trans enumerate_rest_same
      split: prod.split bool.split)

text \<open>A partition without its number and its list.\<close>

definition bare :: "'p PedPartition \<Rightarrow> 'p PedPartition" where
  "bare p = set_num 0 (set_list [] p)"

lemma bare_eqD:
  assumes "bare p = bare q"
  shows "p_id p = p_id q" "p_geom p = p_geom q" "p_type p = p_type q" "is_logical p = is_logical q"
    "is_metadata p = is_metadata q" "is_freespace p = is_freespace q"
    "ped_partition_is_active p = ped_partition_is_active q"
proof -
  from assms show t: "p_id p = p_id q" "p_geom p = p_geom q" "p_type p = p_type q"
    by (auto simp: bare_def set_num_def set_list_def)
  then show "is_logical p = is_logical q" "is_metadata p = is_metadata q" "is_freespace p = is_freespace q"
    "ped_partition_is_active p = ped_partition_is_active q"
    by (simp_all add: is_logical_def is_metadata_def is_freespace_def ped_partition_is_active_def)
qed

lemma map_bare_walk:
  assumes "same_but_nums d d'"
  shows "map bare (disk_walk d') = map bare (disk_walk d)"
proof -
  have s: "bare (denum p) = bare p" "bare (set_num 0 p) = bare p" for p :: "'a PedPartition"
    by (simp_all add: bare_def denum_def set_num_def set_list_def)
  have "map bare (sub_walk (denum p)) = map bare (sub_walk p)" for p :: "'a PedPartition"
    by (simp add: sub_walk_def s)
  then have "map bare (concat (map sub_walk (map denum ps))) = map bare (concat (map sub_walk ps))" for ps :: "'a PedPartition list"
    by (simp add: map_concat o_def)
  then show ?thesis
    using same_but_nums_fields(8) [OF assms] by (metis disk_walk_def)
qed

lemma same_but_nums_walk:
  assumes "same_but_nums d d'" "w \<in> set (disk_walk d)"
  obtains w' where "w' \<in> set (disk_walk d')" "bare w' = bare w"
  using map_bare_walk [OF assms(1)] assms(2) by (metis imageE image_eqI image_set)

lemma same_but_nums_mode:
  "same_but_nums d d' \<Longrightarrow> same_but_nums (d\<lparr>update_mode := m\<rparr>) (d'\<lparr>update_mode := m\<rparr>)"
  by (simp add: same_but_nums_iff)

lemma denum_keep:
  assumes "\<And>n p. P (set_num n p) = P p" "shallow P"
  shows "map denum (keep_parts P ps) = keep_parts P (map denum ps)"
proof -
  have "P (denum p) = P p" for p using assms by (simp add: denum_def shallow_def)
  moreover have "denum (set_list (filter P (p_list p)) p) = set_list (filter P (map (set_num 0) (p_list p))) (denum p)" for p
    using assms(1) by (simp add: denum_def filter_map o_def set_num_def set_list_def)
  ultimately show ?thesis by (induction ps) simp_all
qed

lemma same_but_nums_keep:
  assumes "same_but_nums d d'" "\<And>n p. P (set_num n p) = P p" "shallow P"
  shows "same_but_nums (d\<lparr>part_list := keep_parts P (part_list d)\<rparr>) (d'\<lparr>part_list := keep_parts P (part_list d')\<rparr>)"
  using assms(1) by (simp add: same_but_nums_iff denum_keep [OF assms(2,3)])

lemma walk_nonext_no_list:
  assumes "disk_ok disk" "w \<in> set (disk_walk disk)" "\<not> is_ext w"
  shows "p_list w = []"
  using assms by (auto simp: in_walk_iff disk_ok_def logical_ok_def split: if_splits)

section \<open>Removing partitions in update mode\<close>

lemma delete_nested:
  assumes ok: "disk_ok disk" and w: "w \<in> set (disk_walk disk)" "\<not> is_ext w"
  shows "same_but_nums (disk_raw_remove disk w)
    (snd (delete_partition_with (Suc n) push_nested pop_nested ops disk (p_id w)))"
proof -
  have l: "lookup_part disk (p_id w) = Some w" using lookup_part_iff [OF ok] w by simp
  have p: "p_list w = []" using walk_nonext_no_list [OF ok w] .
  have rm: "disk_raw_remove (disk\<lparr>update_mode := m\<rparr>) w = (disk_raw_remove disk w)\<lparr>update_mode := m\<rparr>" for m
    by (simp add: disk_raw_remove_def set_ext_list_def)
  let ?m = "update_mode disk"
  let ?d = "(disk_raw_remove disk w)\<lparr>update_mode := ?m + 1\<rparr>"
  have del: "snd (delete_partition_with (Suc n) push_nested pop_nested ops disk (p_id w)) =
      pop_nested (snd (ped_disk_enumerate_partitions ops ?d))"
    using w(2) by (simp add: push_nested_def pop_nested_def Let_def remove_partition_with_def l p rm add.commute)
  have e: "same_but_nums ?d (snd (ped_disk_enumerate_partitions ops ?d))" by (rule enumerate_same)
  have um: "update_mode (disk_raw_remove disk w) = ?m" by (simp add: disk_raw_remove_def set_ext_list_def)
  have "same_but_nums (?d\<lparr>update_mode := ?m\<rparr>) ((snd (ped_disk_enumerate_partitions ops ?d))\<lparr>update_mode := ?m\<rparr>)"
    by (rule same_but_nums_mode [OF e])
  moreover have "?d\<lparr>update_mode := ?m\<rparr> = disk_raw_remove disk w" using um by simp
  ultimately show ?thesis
    unfolding del pop_nested_def same_but_nums_fields(5) [OF e] by simp
qed

lemma remove_metadata_same:
  assumes ok: "disk_ok disk"
  shows "same_but_nums (disk\<lparr>part_list := keep_parts (\<lambda>p. \<not> is_metadata p) (part_list disk)\<rparr>)
    (disk_remove_metadata ops disk)"
proof -
  let ?K = "\<lambda>I. disk\<lparr>part_list := keep_parts (\<lambda>p. p_id p \<notin> I) (part_list disk)\<rparr>"
  let ?del = "\<lambda>walk d. snd (delete_partition_with 1 push_nested pop_nested ops d (p_id walk))"
  have gen: "same_but_nums (?K (I \<union> p_id ` set ws)) (fold ?del ws d)"
    if "\<forall>w\<in>set ws. w \<in> set (disk_walk disk) \<and> \<not> is_ext w \<and> p_id w \<notin> I" "distinct (map p_id ws)"
      "\<forall>p\<in>set (part_list disk). is_ext p \<longrightarrow> p_id p \<notin> I" "same_but_nums (?K I) d" for ws I d
    using that
  proof (induction ws arbitrary: I d)
    case (Cons w ws)
    have w: "w \<in> set (disk_walk disk)" "\<not> is_ext w" "p_id w \<notin> I" using Cons.prems(1) by auto
    have okK: "disk_ok (?K I)" by (rule disk_ok_keep [OF ok])
    then have okd: "disk_ok d" using same_but_nums_ok [OF Cons.prems(4)] by simp
    have "w \<in> set (disk_walk (?K I))" using walk_keep [OF ok _ Cons.prems(3) w(2)] w by simp
    then obtain w' where w': "w' \<in> set (disk_walk d)" "bare w' = bare w"
      using same_but_nums_walk [OF Cons.prems(4)] by blast
    note eq = bare_eqD [OF w'(2)]
    have "same_but_nums (d\<lparr>part_list := keep_parts (\<lambda>p. p_id p \<noteq> p_id w) (part_list d)\<rparr>) (?del w d)"
      using delete_nested [OF okd w'(1), of 0 ops] w(2) eq raw_remove_keep [OF okd w'(1)] by simp
    moreover have "same_but_nums ((?K I)\<lparr>part_list := keep_parts (\<lambda>p. p_id p \<noteq> p_id w) (part_list (?K I))\<rparr>)
        (d\<lparr>part_list := keep_parts (\<lambda>p. p_id p \<noteq> p_id w) (part_list d)\<rparr>)"
      using Cons.prems(4) by (rule same_but_nums_keep) simp_all
    moreover have "(?K I)\<lparr>part_list := keep_parts (\<lambda>p. p_id p \<noteq> p_id w) (part_list (?K I))\<rparr> = ?K (insert (p_id w) I)"
      by (simp add: keep_parts_keep_parts)
    ultimately have "same_but_nums (?K (insert (p_id w) I)) (?del w d)"
      by (simp only: same_but_nums_trans)
    then have "same_but_nums (?K (insert (p_id w) I \<union> p_id ` set ws)) (fold ?del ws (?del w d))"
    proof (rule Cons.IH [rotated 3])
      show "\<forall>v\<in>set ws. v \<in> set (disk_walk disk) \<and> \<not> is_ext v \<and> p_id v \<notin> insert (p_id w) I"
        using Cons.prems(1,2) by (auto simp: image_iff)
      show "distinct (map p_id ws)" using Cons.prems(2) by simp
      show "\<forall>p\<in>set (part_list disk). is_ext p \<longrightarrow> p_id p \<notin> insert (p_id w) I"
        using Cons.prems(3) walk_id_inj [OF ok _ w(1)] w(2) part_list_in_walk by blast
    qed
    then show ?case by simp
  qed simp
  have "keep_parts (\<lambda>p. True) ps = ps" for ps :: "'a PedPartition list"
    by (induction ps) (simp_all add: set_list_same)
  then have "?K {} = disk" by simp
  then have "same_but_nums (?K (p_id ` set (filter is_metadata (disk_walk disk)))) (disk_remove_metadata ops disk)"
  proof -
    assume k: "?K {} = disk"
    have "\<forall>w\<in>set (filter is_metadata (disk_walk disk)). w \<in> set (disk_walk disk) \<and> \<not> is_ext w \<and> p_id w \<notin> {}"
      using metadata_not_ext by auto
    from gen [OF this distinct_map_filter [OF disk_okD(3) [OF ok]], of disk] show ?thesis
      unfolding disk_remove_metadata_def k by simp
  qed
  then show ?thesis unfolding keep_ids_eq [OF ok refl] .
qed

end
