(* ===== verification/Ped_Freespace.thy ===== *)
theory Ped_Freespace
  imports Ped_Disk_Frame
begin

text \<open>
  The contract of the disk labels as a locale, and what the update mode guarantees under it: entering
  it removes the free space and the metadata, leaving it fills every gap, and neither changes the
  active partitions or breaks the invariant of the table.
\<close>

section \<open>Filling the gaps\<close>

text \<open>The list of the disk, or (\<open>lg\<close>) that of its extended partition.\<close>

definition the_list :: "bool \<Rightarrow> ('p, 'd) PedDisk \<Rightarrow> 'p PedPartition list" where
  "the_list lg disk = (if lg then ext_list disk else part_list disk)"

definition upd_list :: "bool \<Rightarrow> ('p PedPartition list \<Rightarrow> 'p PedPartition list) \<Rightarrow> ('p, 'd) PedDisk \<Rightarrow> ('p, 'd) PedDisk" where
  "upd_list lg f disk = (if lg then set_ext_list f disk else disk\<lparr>part_list := f (part_list disk)\<rparr>)"

text \<open>The active partitions, without numbers, and the fields that free space does not touch.\<close>

definition acts :: "('p, 'd) PedDisk \<Rightarrow> 'p PedPartition list" where
  "acts disk = map denum (keep_parts ped_partition_is_active (part_list disk))"

definition frame :: "('p, 'd) PedDisk \<Rightarrow> ('p, 'd) PedDisk \<Rightarrow> bool" where
  "frame d d' \<longleftrightarrow> dk_addr d' = dk_addr d \<and> dk_dev d' = dk_dev d \<and> dk_type d' = dk_type d \<and>
     dk_specific d' = dk_specific d \<and> needs_clobber d' = needs_clobber d \<and> dk_heap d \<le> dk_heap d'"

lemma frame_refl [simp]: "frame d d"
  by (simp add: frame_def)

lemma frame_trans: "frame a b \<Longrightarrow> frame b c \<Longrightarrow> frame a c"
  by (auto simp: frame_def)

lemma same_but_nums_acts: "same_but_nums d d' \<Longrightarrow> acts d' = acts d"
  by (simp add: acts_def same_but_nums_iff denum_keep)

lemma same_but_nums_frame: "same_but_nums d d' \<Longrightarrow> frame d d'"
  by (simp add: frame_def same_but_nums_iff)

fun tiles :: "PedSector \<Rightarrow> 'p PedPartition list \<Rightarrow> PedSector \<Rightarrow> bool" where
  "tiles lo [] hi \<longleftrightarrow> lo = hi + 1"
| "tiles lo (p # ps) hi \<longleftrightarrow> g_start (p_geom p) = lo \<and> tiles (g_end (p_geom p) + 1) ps hi"

lemma tiles_append: "tiles lo (xs @ ys) hi \<longleftrightarrow> (\<exists>m. tiles lo xs m \<and> tiles (m + 1) ys hi)"
proof (induction xs arbitrary: lo)
  case Nil
  have "(\<exists>m. lo = m + 1 \<and> tiles (m + 1) ys hi) \<longleftrightarrow> tiles lo ys hi"
    by (rule iffI) (auto intro: exI [of _ "lo - 1"])
  then show ?case by simp
qed auto

lemma tiles_snoc: "tiles lo (xs @ [x]) hi \<longleftrightarrow> tiles lo xs (g_start (p_geom x) - 1) \<and> g_end (p_geom x) = hi"
  by (auto simp: tiles_append intro: exI [of _ "g_start (p_geom x) - 1"])

text \<open>\<open>cover le0 ps le\<close>: the partitions follow each other without a gap from the sector after
  \<open>le0\<close> (or from \<open>le0\<close> itself) up to \<open>le\<close>.\<close>

definition cover :: "PedSector \<Rightarrow> 'p PedPartition list \<Rightarrow> PedSector \<Rightarrow> bool" where
  "cover le0 ps le \<longleftrightarrow> (if ps = [] then le = le0 else tiles (le0 + 1) ps le \<or> tiles le0 ps le)"

lemma cover_last: "cover le0 ps le \<Longrightarrow> ps \<noteq> [] \<Longrightarrow> g_end (p_geom (last ps)) = le"
  by (cases ps rule: rev_cases) (auto simp: cover_def tiles_snoc)

lemma cover_snoc:
  assumes "cover le0 ps le" "g_start (p_geom w) = le + 1 \<or> ps = [] \<and> g_start (p_geom w) = le"
  shows "cover le0 (ps @ [w]) (g_end (p_geom w))"
  using assms by (cases "ps = []") (auto simp: cover_def tiles_snoc)

lemma upd_list_cong:
  assumes "disk_ok disk" "f (the_list lg disk) = g (the_list lg disk)"
  shows "upd_list lg f disk = upd_list lg g disk"
  using assms(1)
proof (cases rule: disk_ext_cases)
  case none
  with assms show ?thesis by (cases lg) (simp_all add: upd_list_def the_list_def)
next
  case (ext xs e ys)
  with assms show ?thesis by (cases lg) (simp_all add: upd_list_def the_list_def)
qed

lemma the_list_upd:
  assumes "disk_ok disk" "lg \<Longrightarrow> ped_disk_extended_partition disk = Some e"
  shows "the_list lg (upd_list lg f disk) = f (the_list lg disk)"
    "lg \<Longrightarrow> ped_disk_extended_partition (upd_list lg f disk) = Some (set_list (f (p_list e)) e)"
proof -
  have ext: "ped_disk_extended_partition (upd_list lg f disk) = Some (set_list (f (p_list e)) e) \<and> ext_list disk = p_list e" if lg
    using assms(1)
  proof (cases rule: disk_ext_cases)
    case none
    with assms(2) that show ?thesis by simp
  next
    case (ext xs e' ys)
    have "find is_ext (xs @ z # ys) = Some z" if "is_ext z" for z
      using ext(4) that by (induction xs) auto
    from this [of "set_list (f (p_list e)) e"]
    have "find is_ext (xs @ set_list (f (p_list e)) e # ys) = Some (set_list (f (p_list e)) e)"
      using ext assms(2) that by simp
    with ext assms(2) that show ?thesis by (simp add: upd_list_def ped_disk_extended_partition_def)
  qed
  then show "lg \<Longrightarrow> ped_disk_extended_partition (upd_list lg f disk) = Some (set_list (f (p_list e)) e)" by simp
  show "the_list lg (upd_list lg f disk) = f (the_list lg disk)"
    using ext by (cases lg) (simp_all add: the_list_def upd_list_def ext_list_def)
qed

lemma insert_part_between:
  assumes "\<forall>p\<in>set xs. g_start (p_geom p) \<le> g_end (p_geom f)" "\<forall>p\<in>set ys. g_end (p_geom f) < g_start (p_geom p)"
  shows "insert_part f (xs @ ys) = xs @ f # ys"
  using assms
proof (induction xs)
  case Nil
  then show ?case by (cases ys) auto
qed auto

text \<open>A new partition put into a gap of its list.\<close>

lemma insert_gap:
  assumes ok: "disk_ok disk" and l: "the_list lg disk = xs @ ys" and lg: "is_logical f = lg" "\<not> is_ext f" "p_list f = []"
    and e: "lg \<Longrightarrow> ped_disk_extended_partition disk = Some e \<and> g_start (p_geom e) \<le> g_start (p_geom f) \<and>
      g_end (p_geom f) \<le> g_end (p_geom e)"
    and f: "geometry_ok (p_geom f)" "g_dev (p_geom f) = dk_dev disk" "p_disk f = dk_addr disk"
      "p_id f < dk_heap disk" "p_id f \<notin> p_id ` set (disk_walk disk)"
    and o: "\<forall>p\<in>set xs. g_end (p_geom p) < g_start (p_geom f)" "\<forall>p\<in>set ys. g_end (p_geom f) < g_start (p_geom p)"
  shows "disk_ok (upd_list lg (\<lambda>_. xs @ f # ys) disk)"
proof -
  have elem: "p \<in> set (disk_walk disk)" if "p \<in> set (the_list lg disk)" for p
    using that e part_list_in_walk walk_id_iff_in_list [OF ok]
    by (auto simp: the_list_def ext_list_def ped_disk_extended_partition_def split: if_splits option.splits dest!: find_Some_set)
  have geo: "geometry_ok (p_geom p)" "g_dev (p_geom p) = dk_dev disk" if "p \<in> set (xs @ ys)" for p
    using disk_walk_geometry_ok [OF ok elem] that l by auto
  have no: "\<forall>q\<in>set (the_list lg disk). \<not> ped_geometry_test_overlap (p_geom q) (p_geom f)"
  proof
    fix q assume "q \<in> set (the_list lg disk)"
    then have q: "q \<in> set (xs @ ys)" using l by simp
    then have "g_end (p_geom q) < g_start (p_geom f) \<or> g_end (p_geom f) < g_start (p_geom q)" using o by auto
    then show "\<not> ped_geometry_test_overlap (p_geom q) (p_geom f)"
      using no_overlap_iff [OF geo(1) [OF q] f(1)] geo(2) [OF q] f(2) by simp
  qed
  have "insert_part f (xs @ ys) = xs @ f # ys"
  proof (rule insert_part_between)
    show "\<forall>p\<in>set xs. g_start (p_geom p) \<le> g_end (p_geom f)"
    proof
      fix p assume p: "p \<in> set xs"
      then have "g_start (p_geom p) \<le> g_end (p_geom p)" using geo(1) by (intro geometry_okD(2)) simp
      also have "\<dots> \<le> g_start (p_geom f)" using o(1) p by (simp add: less_imp_le)
      also have "\<dots> \<le> g_end (p_geom f)" using f(1) by (rule geometry_okD(2))
      finally show "g_start (p_geom p) \<le> g_end (p_geom f)" .
    qed
  qed (fact o(2))
  then have u: "upd_list lg (insert_part f) disk = upd_list lg (\<lambda>_. xs @ f # ys) disk"
    using l by (intro upd_list_cong [OF ok]) simp
  let ?d = "disk\<lparr>update_mode := 1\<rparr>"
  have x: "ped_disk_extended_partition ?d = ped_disk_extended_partition disk"
    by (simp add: ped_disk_extended_partition_def)
  have c: "can_add ?d f"
    using lg f e no unfolding can_add_def x
    by (auto simp: the_list_def ext_list_def sub_walk_def split: if_splits)
  obtain d' where "disk_raw_add ?d f = Some d'" "disk_ok d'"
    using ok c by (auto intro: raw_add_ok [of ?d f])
  then have "disk_ok (upd_list lg (insert_part f) ?d)"
    using lg(1) by (auto simp: disk_raw_add_def upd_list_def split: if_splits)
  also have "upd_list lg (insert_part f) ?d = (upd_list lg (insert_part f) disk)\<lparr>update_mode := 1\<rparr>"
    by (simp add: upd_list_def set_ext_list_def)
  finally show ?thesis by (simp add: u)
qed

lemma acts_insert_gap:
  assumes ok: "disk_ok disk" and l: "the_list lg disk = xs @ ys" and f: "is_freespace f"
    and e: "lg \<Longrightarrow> ped_disk_extended_partition disk = Some e"
  shows "acts (upd_list lg (\<lambda>_. xs @ f # ys) disk) = acts disk"
proof -
  have nf: "\<not> ped_partition_is_active f" using f by (simp add: active_iff)
  show ?thesis
  proof (cases lg)
    case False
    with l nf show ?thesis by (simp add: acts_def upd_list_def the_list_def)
  next
    case True
    show ?thesis using ok
    proof (cases rule: disk_ext_cases)
      case none
      with e True show ?thesis by simp
    next
      case (ext as e' bs)
      with True l e nf have pe: "p_list e' = xs @ ys" by (simp add: the_list_def)
      then show ?thesis
        using True nf by (simp add: acts_def upd_list_def ext(2,6) pe)
    qed
  qed
qed

text \<open>
  What libparted relies on from a disk label: \<open>partition_new\<close> allocates a partition with the
  region it is given (if that is a region of the device), \<open>alloc_metadata\<close> keeps the table well
  formed and does not touch the active partitions, and \<open>partition_align\<close> sets a region of the
  same device that the constraint allows.
\<close>

locale disk_label =
  fixes ops :: "('p, 'd) PedDiskOps"
  assumes partition_new: "dev_ok (dk_dev d) \<Longrightarrow> 0 \<le> s \<Longrightarrow> s \<le> e \<Longrightarrow> e < dev_length (dk_dev d) \<Longrightarrow>
      \<exists>sp. op_partition_new ops d t fs s e = (d\<lparr>dk_heap := dk_heap d + 1\<rparr>,
        Some (Partition (dk_heap d) (dk_addr d)
          \<lparr>g_dev = dk_dev d, g_start = s, g_length = e - s + 1, g_end = e\<rparr> (-1) t fs [] sp))"
    and alloc_metadata: "disk_ok d \<Longrightarrow> update_mode d = 1 \<Longrightarrow>
      disk_ok (snd (op_alloc_metadata ops d)) \<and> frame d (snd (op_alloc_metadata ops d)) \<and>
      update_mode (snd (op_alloc_metadata ops d)) = 1 \<and> acts (snd (op_alloc_metadata ops d)) = acts d"
    and partition_align: "geometry_ok (p_geom p) \<Longrightarrow> constraint_small c \<Longrightarrow>
      op_partition_align ops d p c = (True, g) \<Longrightarrow>
      g \<in> solutions c \<and> g_dev g = g_dev (p_geom p)"
begin

text \<open>A new free space partition, and the table with it.\<close>

lemma new_freespace:
  assumes "dev_ok (dk_dev d)" "0 \<le> s" "s \<le> e" "e < dev_length (dk_dev d)"
    "t = PED_PARTITION_FREESPACE \<or> t = PED_PARTITION_FREESPACE OR PED_PARTITION_LOGICAL"
  obtains f where "ped_partition_new ops d t None s e = (d\<lparr>dk_heap := dk_heap d + 1\<rparr>, Inr f)"
    "p_id f = dk_heap d" "p_disk f = dk_addr d" "p_list f = []" "p_type f = t"
    "p_geom f = \<lparr>g_dev = dk_dev d, g_start = s, g_length = e - s + 1, g_end = e\<rparr>"
proof -
  obtain sp where "op_partition_new ops d t None s e = (d\<lparr>dk_heap := dk_heap d + 1\<rparr>,
        Some (Partition (dk_heap d) (dk_addr d)
          \<lparr>g_dev = dk_dev d, g_start = s, g_length = e - s + 1, g_end = e\<rparr> (-1) t None [] sp))"
    using partition_new [OF assms(1-4)] by blast
  moreover have "t \<noteq> PED_PARTITION_EXTENDED" "t \<noteq> PED_PARTITION_LOGICAL"
    using assms(5) by (auto simp: ped_type_defs)
  ultimately show ?thesis
    by (intro that) (auto simp: ped_partition_new_def Let_def)
qed

lemma heap_simps:
  "disk_ok d \<Longrightarrow> disk_ok (d\<lparr>dk_heap := dk_heap d + 1\<rparr>)" "the_list lg (d\<lparr>dk_heap := h\<rparr>) = the_list lg d"
  "acts (d\<lparr>dk_heap := h\<rparr>) = acts d" "disk_walk (d\<lparr>dk_heap := h\<rparr>) = disk_walk d"
  "ped_disk_extended_partition (d\<lparr>dk_heap := h\<rparr>) = ped_disk_extended_partition d"
  by (auto simp: disk_ok_def disk_walk_def the_list_def ext_list_def ped_disk_extended_partition_def acts_def
      intro: less_SucI)

lemma frame_upd: "frame d (upd_list lg f (d\<lparr>dk_heap := dk_heap d + 1\<rparr>))"
  "update_mode (upd_list lg f (d\<lparr>dk_heap := h\<rparr>)) = update_mode d"
  by (simp_all add: frame_def upd_list_def set_ext_list_def)

text \<open>One free space partition between \<open>xs\<close> and \<open>ys\<close>.\<close>

lemma gap_step:
  assumes ok: "disk_ok d" and l: "the_list lg d = xs @ ys"
    and b: "0 \<le> s" "s \<le> e" "e < dev_length (dk_dev d)"
    and x: "lg \<Longrightarrow> ped_disk_extended_partition d = Some ext \<and> g_start (p_geom ext) \<le> s \<and> e \<le> g_end (p_geom ext)"
    and o: "\<forall>p\<in>set xs. g_end (p_geom p) < s" "\<forall>p\<in>set ys. e < g_start (p_geom p)"
    and t: "t = (if lg then PED_PARTITION_FREESPACE OR PED_PARTITION_LOGICAL else PED_PARTITION_FREESPACE)"
  obtains f d1 where "ped_partition_new ops d t None s e = (d1, Inr f)"
    "g_start (p_geom f) = s" "g_end (p_geom f) = e" "is_logical f = lg" "is_freespace f"
    "disk_ok (upd_list lg (\<lambda>_. xs @ f # ys) d1)" "the_list lg d1 = xs @ ys"
    "the_list lg (upd_list lg (\<lambda>_. xs @ f # ys) d1) = xs @ f # ys" "disk_ok d1"
    "acts (upd_list lg (\<lambda>_. xs @ f # ys) d1) = acts d" "frame d (upd_list lg (\<lambda>_. xs @ f # ys) d1)"
    "update_mode (upd_list lg (\<lambda>_. xs @ f # ys) d1) = update_mode d"
    "lg \<longrightarrow> ped_disk_extended_partition (upd_list lg (\<lambda>_. xs @ f # ys) d1) = Some (set_list (xs @ f # ys) ext)"
    "\<not> lg \<longrightarrow> ped_disk_extended_partition (upd_list lg (\<lambda>_. xs @ f # ys) d1) = ped_disk_extended_partition d"
proof -
  have dv: "dev_ok (dk_dev d)" using ok by (simp add: disk_ok_def)
  let ?d1 = "d\<lparr>dk_heap := dk_heap d + 1\<rparr>"
  have t': "t = PED_PARTITION_FREESPACE \<or> t = PED_PARTITION_FREESPACE OR PED_PARTITION_LOGICAL" using t by auto
  obtain f where f: "ped_partition_new ops d t None s e = (?d1, Inr f)"
    "p_id f = dk_heap d" "p_disk f = dk_addr d" "p_list f = []" "p_type f = t"
    "p_geom f = \<lparr>g_dev = dk_dev d, g_start = s, g_length = e - s + 1, g_end = e\<rparr>"
    by (rule new_freespace [OF dv b t'])
  have k: "is_logical f = lg" "\<not> is_ext f" "is_freespace f"
    using t f(5) by (auto simp: is_logical_def is_freespace_def ped_type_defs)
  have g: "geometry_ok (p_geom f)" using f(6) b dv by (simp add: geometry_ok_def)
  have ok1: "disk_ok ?d1" by (rule heap_simps(1) [OF ok])
  have l1: "the_list lg ?d1 = xs @ ys" by (simp only: heap_simps(2) l)
  have fresh: "p_id f \<notin> p_id ` set (disk_walk ?d1)"
    using disk_okD(4) [OF ok] f(2) by (force simp: heap_simps(4))
  have okf: "disk_ok (upd_list lg (\<lambda>_. xs @ f # ys) ?d1)"
    by (rule insert_gap [OF ok1 l1 k(1,2) f(4) _ g _ _ _ fresh]) (use x f o in \<open>auto simp: heap_simps(5)\<close>)
  have x1: "lg \<Longrightarrow> ped_disk_extended_partition ?d1 = Some ext" using x by (simp add: heap_simps(5))
  have "acts (upd_list lg (\<lambda>_. xs @ f # ys) ?d1) = acts d"
    using acts_insert_gap [OF ok1 l1 k(3) x1] by (simp add: heap_simps(3))
  moreover have "find is_ext (xs @ f # ys) = find is_ext (xs @ ys)"
    using k(2) by (induction xs) auto
  then have "\<not> lg \<longrightarrow> ped_disk_extended_partition (upd_list lg (\<lambda>_. xs @ f # ys) ?d1) = ped_disk_extended_partition d"
    using l by (cases lg) (simp_all add: ped_disk_extended_partition_def upd_list_def the_list_def)
  ultimately show ?thesis
    using f k okf ok1 l1 the_list_upd [OF ok1 x1, of lg "\<lambda>_. xs @ f # ys"]
      frame_upd(1) [of d lg "\<lambda>_. xs @ f # ys"] frame_upd(2) [of lg "\<lambda>_. xs @ f # ys" "dk_heap d + 1" d]
    by (intro that [of ?d1 f]) auto
qed

end

lemma insert_before_split:
  assumes "distinct (map p_id (xs @ w # ys))"
  shows "insert_before (p_id w) f (xs @ w # ys) = xs @ f # w # ys"
  using assms by (induction xs) (auto simp: image_iff)

lemma insert_after_snoc:
  assumes "distinct (map p_id (xs @ [w]))"
  shows "insert_after (p_id w) f (xs @ [w]) = xs @ [w, f]"
  using assms by (induction xs) (auto simp: image_iff)

lemma the_list_ok:
  assumes ok: "disk_ok d"
  shows "parts_ok (dk_dev d) (the_list lg d)" "distinct (map p_id (the_list lg d))"
    "set (the_list lg d) \<subseteq> set (disk_walk d)" "w \<in> set (the_list lg d) \<Longrightarrow> is_logical w = lg"
proof -
  have "parts_ok (dk_dev d) (the_list lg d) \<and> distinct (map p_id (the_list lg d)) \<and>
    set (the_list lg d) \<subseteq> set (disk_walk d) \<and> (\<forall>w\<in>set (the_list lg d). is_logical w = lg)"
    using ok
  proof (cases rule: disk_ext_cases)
    case none
    note D = disk_okD [OF ok, unfolded none(3)]
    show ?thesis using D none by (auto simp: the_list_def)
  next
    case (ext xs e ys)
    note D = disk_okD [OF ok, unfolded ext(5)]
    show ?thesis
      using D(2,3,6) ext(7,8) unfolding the_list_def by (auto simp: ext(2,5) logical_ok_def)
  qed
  then show "parts_ok (dk_dev d) (the_list lg d)" "distinct (map p_id (the_list lg d))"
    "set (the_list lg d) \<subseteq> set (disk_walk d)" "w \<in> set (the_list lg d) \<Longrightarrow> is_logical w = lg" by auto
qed

text \<open>
  The state of the loop over a list: everything up to \<open>le\<close> is covered by \<open>pre\<close>, the partitions
  \<open>ws\<close> are still to come; \<open>hi\<close> is the end of the region that the list divides and \<open>le0\<close> the
  last sector before it (for the extended partition its first sector, which is reserved).
\<close>

definition fill_state :: "bool \<Rightarrow> PedSector \<Rightarrow> PedSector \<Rightarrow> ('p, 'd) PedDisk \<Rightarrow> 'p PedPartition list \<Rightarrow>
  'p PedPartition list \<Rightarrow> PedSector \<Rightarrow> 'p PedPartition option \<Rightarrow> bool" where
  "fill_state lg le0 hi d pre ws le lst \<longleftrightarrow>
     disk_ok d \<and> the_list lg d = pre @ ws \<and> cover le0 pre le \<and>
     lst = (if pre = [] then None else Some (last pre)) \<and> -1 \<le> le0 \<and> le0 \<le> hi \<and> hi < dev_length (dk_dev d) \<and>
     (\<forall>w\<in>set (pre @ ws). le0 \<le> g_start (p_geom w) \<and> g_end (p_geom w) \<le> hi) \<and>
     (lg \<longrightarrow> (\<exists>ext. ped_disk_extended_partition d = Some ext \<and> g_start (p_geom ext) = le0 \<and> g_end (p_geom ext) = hi))"

definition same_acts :: "('p, 'd) PedDisk \<Rightarrow> ('p, 'd) PedDisk \<Rightarrow> bool" where
  "same_acts d d' \<longleftrightarrow> acts d' = acts d \<and> frame d d' \<and> update_mode d' = update_mode d"

lemma same_acts_refl [simp]: "same_acts d d"
  by (simp add: same_acts_def)

lemma same_acts_trans: "same_acts a b \<Longrightarrow> same_acts b c \<Longrightarrow> same_acts a c"
  by (auto simp: same_acts_def intro: frame_trans)

definition same_step :: "bool \<Rightarrow> ('p, 'd) PedDisk \<Rightarrow> ('p, 'd) PedDisk \<Rightarrow> bool" where
  "same_step lg d d' \<longleftrightarrow> same_acts d d' \<and>
     (\<not> lg \<longrightarrow> ped_disk_extended_partition d' = ped_disk_extended_partition d)"

lemma same_step_refl [simp]: "same_step lg d d"
  by (simp add: same_step_def)

lemma same_step_trans: "same_step lg a b \<Longrightarrow> same_step lg b c \<Longrightarrow> same_step lg a c"
  by (auto simp: same_step_def intro: same_acts_trans)

lemma parts_ok_last:
  assumes "parts_ok dev ps" "p \<in> set ps"
  shows "g_end (p_geom p) \<le> g_end (p_geom (last ps))"
proof -
  from assms(2) obtain xs y where ps: "ps = xs @ [y]" by (cases ps rule: rev_cases) auto
  show ?thesis
  proof (cases "p = y")
    case False
    with assms ps have "g_end (p_geom p) < g_start (p_geom y)" "geometry_ok (p_geom y)"
      by (auto simp: parts_ok_append parts_ok_Cons)
    with geometry_okD(2) show ?thesis by (force simp: ps)
  qed (simp add: ps)
qed

lemma fill_state_le:
  assumes "fill_state lg le0 hi d pre (w # ws) le lst"
  shows "le0 \<le> le" "le \<le> g_start (p_geom w)" "pre \<noteq> [] \<Longrightarrow> le < g_start (p_geom w)" "le \<le> hi"
    "\<forall>p\<in>set pre. g_end (p_geom p) \<le> le" "geometry_ok (p_geom w)" "g_dev (p_geom w) = dk_dev d"
    "\<forall>p\<in>set (w # ws). g_start (p_geom w) \<le> g_start (p_geom p)"
proof -
  have s: "disk_ok d" "the_list lg d = pre @ w # ws" "cover le0 pre le" "le0 \<le> hi"
    "\<forall>v\<in>set (pre @ w # ws). le0 \<le> g_start (p_geom v) \<and> g_end (p_geom v) \<le> hi"
    using assms by (auto simp: fill_state_def)
  have po: "parts_ok (dk_dev d) (pre @ w # ws)" using the_list_ok(1) [OF s(1), of lg] s(2) by simp
  then show gw: "geometry_ok (p_geom w)" "g_dev (p_geom w) = dk_dev d"
    by (auto simp: parts_ok_append parts_ok_Cons)
  have le: "le = le0" if "pre = []" using s(3) that by (simp add: cover_def)
  have lp: "le = g_end (p_geom (last pre))" "last pre \<in> set pre" if "pre \<noteq> []"
    using cover_last [OF s(3) that] that by auto
  have aw: "g_end (p_geom p) < g_start (p_geom w)" "geometry_ok (p_geom p)" if "p \<in> set pre" for p
    using that po [unfolded parts_ok_append] by (simp_all add: parts_ok_def)
  show lt: "pre \<noteq> [] \<Longrightarrow> le < g_start (p_geom w)" using lp aw by auto
  show "le \<le> g_start (p_geom w)" using lt le s(5) by (cases "pre = []") auto
  have "le0 \<le> le \<and> le \<le> hi"
  proof (cases "pre = []")
    case False
    then have "le0 \<le> g_start (p_geom (last pre))" "g_end (p_geom (last pre)) \<le> hi" using s(5) lp(2) by auto
    with geometry_okD(2) [OF aw(2) [OF lp(2) [OF False]]] lp(1) [OF False] show ?thesis by linarith
  qed (use le s(4) in simp)
  then show "le0 \<le> le" "le \<le> hi" by auto
  show "\<forall>p\<in>set pre. g_end (p_geom p) \<le> le"
    using po lp(1) parts_ok_last by (metis empty_iff empty_set parts_ok_append)
  have "g_end (p_geom w) < g_start (p_geom p)" if "p \<in> set ws" for p
    using po that by (auto simp: parts_ok_append parts_ok_Cons)
  then show "\<forall>p\<in>set (w # ws). g_start (p_geom w) \<le> g_start (p_geom p)"
    using geometry_okD(2) [OF gw(1)] by force
qed

lemma fill_state_keep:
  assumes "fill_state lg le0 hi d pre (w # ws) le lst" "\<not> g_start (p_geom w) > le + 1"
  shows "fill_state lg le0 hi d (pre @ [w]) ws (g_end (p_geom w)) (Some w)"
proof -
  note f = fill_state_le [OF assms(1)]
  have "g_start (p_geom w) = le + 1 \<or> pre = [] \<and> g_start (p_geom w) = le"
    using f(2,3) assms(2) by (cases "pre = []") auto
  moreover have "cover le0 pre le" using assms(1) by (simp add: fill_state_def)
  ultimately have "cover le0 (pre @ [w]) (g_end (p_geom w))" using cover_snoc by blast
  with assms(1) show ?thesis by (simp add: fill_state_def)
qed

context disk_label
begin

lemma fill_step:
  assumes s: "fill_state lg le0 hi d pre (w # ws) le lst"
    and t: "t = (if lg then PED_PARTITION_FREESPACE OR PED_PARTITION_LOGICAL else PED_PARTITION_FREESPACE)"
  obtains d2 pre2 where
    "fill_gaps ops t le lst (w # ws) d = fill_gaps ops t (g_end (p_geom w)) (Some w) ws d2"
    "fill_state lg le0 hi d2 pre2 ws (g_end (p_geom w)) (Some w)" "same_step lg d d2"
proof -
  note f = fill_state_le [OF s] and okw = geometry_okD [OF fill_state_le(6) [OF s]]
  have S: "disk_ok d" "the_list lg d = pre @ w # ws" "cover le0 pre le" "-1 \<le> le0" "hi < dev_length (dk_dev d)"
    "\<forall>v\<in>set (pre @ w # ws). le0 \<le> g_start (p_geom v) \<and> g_end (p_geom v) \<le> hi" "le0 \<le> hi"
    using s by (auto simp: fill_state_def)
  have w1: "s64 (le + 1) = le + 1" "s64 (g_start (p_geom w) - 1) = g_start (p_geom w) - 1"
    using f(1,2) okw S(4) by (auto intro!: s64_id)
  show ?thesis
  proof (cases "g_start (p_geom w) > le + 1")
    case False
    with fill_state_keep [OF s] w1 show ?thesis by (intro that [of d]) simp_all
  next
    case True
    obtain e0 where e0: "lg \<Longrightarrow> ped_disk_extended_partition d = Some e0 \<and> g_start (p_geom e0) = le0 \<and> g_end (p_geom e0) = hi"
      using s by (cases lg) (auto simp: fill_state_def)
    have bb: "0 \<le> le + 1" "le + 1 \<le> g_start (p_geom w) - 1" "g_start (p_geom w) - 1 < dev_length (dk_dev d)"
      using True f(1,7) S(4) okw by auto
    have xx: "ped_disk_extended_partition d = Some e0 \<and> g_start (p_geom e0) \<le> le + 1 \<and> g_start (p_geom w) - 1 \<le> g_end (p_geom e0)"
      if lg using e0 [OF that] f(1) S(6) okw by auto
    have oo: "\<forall>p\<in>set pre. g_end (p_geom p) < le + 1" "\<forall>p\<in>set (w # ws). g_start (p_geom w) - 1 < g_start (p_geom p)"
      using f(5,8) by force+
    obtain fs d1 where fs: "ped_partition_new ops d t None (le + 1) (g_start (p_geom w) - 1) = (d1, Inr fs)"
      "g_start (p_geom fs) = le + 1" "g_end (p_geom fs) = g_start (p_geom w) - 1"
      "disk_ok (upd_list lg (\<lambda>_. pre @ fs # w # ws) d1)" "the_list lg d1 = pre @ w # ws"
      "the_list lg (upd_list lg (\<lambda>_. pre @ fs # w # ws) d1) = pre @ fs # w # ws" "disk_ok d1"
      "acts (upd_list lg (\<lambda>_. pre @ fs # w # ws) d1) = acts d" "frame d (upd_list lg (\<lambda>_. pre @ fs # w # ws) d1)"
      "update_mode (upd_list lg (\<lambda>_. pre @ fs # w # ws) d1) = update_mode d"
      "lg \<longrightarrow> ped_disk_extended_partition (upd_list lg (\<lambda>_. pre @ fs # w # ws) d1) = Some (set_list (pre @ fs # w # ws) e0)"
      "\<not> lg \<longrightarrow> ped_disk_extended_partition (upd_list lg (\<lambda>_. pre @ fs # w # ws) d1) = ped_disk_extended_partition d"
      by (rule gap_step [OF S(1,2) bb xx oo t]) blast
    let ?d2 = "upd_list lg (\<lambda>_. pre @ fs # w # ws) d1"
    have "is_logical w = lg" using the_list_ok(4) [OF S(1)] S(2) by simp
    then have ins: "disk_raw_insert_before d1 w fs = ?d2"
      using upd_list_cong [OF fs(7), of "insert_before (p_id w) fs" lg "\<lambda>_. pre @ fs # w # ws"] fs(5)
        insert_before_split [of pre w ws] the_list_ok(2) [OF S(1), of lg] S(2)
      by (simp add: disk_raw_insert_before_def in_list_of_def upd_list_def)
    have cv: "cover le0 (pre @ [fs, w]) (g_end (p_geom w))"
      using cover_snoc [OF cover_snoc [OF S(3), of fs], of w] fs(2,3) by simp
    have "fill_state lg le0 hi ?d2 (pre @ [fs, w]) ws (g_end (p_geom w)) (Some w)"
      unfolding fill_state_def using cv fs(4,6,9,11) S(4-7) fs(2,3) f(1,2) okw e0
      by (auto simp: frame_def)
    moreover have "same_step lg d ?d2" using fs(8,9,10,12) by (simp add: same_step_def same_acts_def)
    ultimately show ?thesis using True w1 fs(1) ins by (intro that [of ?d2]) simp_all
  qed
qed

lemma fill_all:
  assumes "fill_state lg le0 hi d pre ws le lst"
    and t: "t = (if lg then PED_PARTITION_FREESPACE OR PED_PARTITION_LOGICAL else PED_PARTITION_FREESPACE)"
  shows "\<exists>d' le' lst'. fill_gaps ops t le lst ws d = (d', le', lst') \<and>
    fill_state lg le0 hi d' (the_list lg d') [] le' lst' \<and> same_step lg d d'"
  using assms(1)
proof (induction ws arbitrary: d pre le lst)
  case Nil
  then show ?case by (auto simp: fill_state_def)
next
  case (Cons w ws)
  obtain d2 pre2 where "fill_gaps ops t le lst (w # ws) d = fill_gaps ops t (g_end (p_geom w)) (Some w) ws d2"
    "fill_state lg le0 hi d2 pre2 ws (g_end (p_geom w)) (Some w)" "same_step lg d d2"
    by (rule fill_step [OF Cons.prems t])
  with Cons.IH [OF this(2)] same_step_trans show ?case by metis
qed

end

text \<open>The extended partition's list covers it, its first sector apart.\<close>

definition ext_covered :: "('p, 'd) PedDisk \<Rightarrow> bool" where
  "ext_covered d \<longleftrightarrow> (\<forall>e. ped_disk_extended_partition d = Some e \<longrightarrow>
     cover (g_start (p_geom e)) (p_list e) (g_end (p_geom e)))"

context disk_label
begin

lemma finish_gap:
  assumes s: "fill_state lg le0 hi d (the_list lg d) [] le lst" and le: "le < hi"
    and t: "t = (if lg then PED_PARTITION_FREESPACE OR PED_PARTITION_LOGICAL else PED_PARTITION_FREESPACE)"
  obtains d1 f d' where "ped_partition_new ops d t None (s64 (le + 1)) hi = (d1, Inr f)"
    "(case lst of Some l \<Rightarrow> disk_raw_insert_after d1 l f | None \<Rightarrow> upd_list lg (\<lambda>_. [f]) d1) = d'"
    "fill_state lg le0 hi d' (the_list lg d') [] hi (Some f)" "same_step lg d d'"
proof -
  let ?L = "the_list lg d"
  have S: "disk_ok d" "cover le0 ?L le" "-1 \<le> le0" "hi < dev_length (dk_dev d)" "le0 \<le> hi"
    "\<forall>v\<in>set ?L. le0 \<le> g_start (p_geom v) \<and> g_end (p_geom v) \<le> hi" "lst = (if ?L = [] then None else Some (last ?L))"
    using s by (auto simp: fill_state_def)
  note po = the_list_ok [OF S(1), where lg = lg]
  have le0: "le0 \<le> le" and ends: "\<forall>p\<in>set ?L. g_end (p_geom p) < le + 1"
  proof -
    show "le0 \<le> le"
    proof (cases "?L = []")
      case True
      with S(2) show ?thesis by (simp add: cover_def)
    next
      case False
      then have "geometry_ok (p_geom (last ?L))" "le0 \<le> g_start (p_geom (last ?L))"
        using po(1) S(6) by (auto simp: parts_ok_def)
      with cover_last [OF S(2) False] geometry_okD(2) show ?thesis by force
    qed
    show "\<forall>p\<in>set ?L. g_end (p_geom p) < le + 1"
      using parts_ok_last [OF po(1)] cover_last [OF S(2)] by fastforce
  qed
  have dl: "dev_length (dk_dev d) \<le> 2 ^ 61" using S(1) by (simp add: disk_ok_def dev_ok_def)
  have w1: "s64 (le + 1) = le + 1" using le0 le S(3,4) dl by (intro s64_id) auto
  obtain e0 where e0: "lg \<Longrightarrow> ped_disk_extended_partition d = Some e0 \<and> g_start (p_geom e0) = le0 \<and> g_end (p_geom e0) = hi"
    using s by (cases lg) (auto simp: fill_state_def)
  have bb: "0 \<le> le + 1" "le + 1 \<le> hi" "hi < dev_length (dk_dev d)" using le0 le S(3,4) by auto
  have xx: "ped_disk_extended_partition d = Some e0 \<and> g_start (p_geom e0) \<le> le + 1 \<and> hi \<le> g_end (p_geom e0)"
    if lg using e0 [OF that] le0 by auto
  have l: "?L = ?L @ []" by simp
  obtain f d1 where f: "ped_partition_new ops d t None (le + 1) hi = (d1, Inr f)"
    "g_start (p_geom f) = le + 1" "g_end (p_geom f) = hi"
    "disk_ok (upd_list lg (\<lambda>_. ?L @ [f]) d1)" "the_list lg d1 = ?L @ []"
    "the_list lg (upd_list lg (\<lambda>_. ?L @ [f]) d1) = ?L @ [f]" "disk_ok d1"
    "acts (upd_list lg (\<lambda>_. ?L @ [f]) d1) = acts d" "frame d (upd_list lg (\<lambda>_. ?L @ [f]) d1)"
    "update_mode (upd_list lg (\<lambda>_. ?L @ [f]) d1) = update_mode d"
    "lg \<longrightarrow> ped_disk_extended_partition (upd_list lg (\<lambda>_. ?L @ [f]) d1) = Some (set_list (?L @ [f]) e0)"
    "\<not> lg \<longrightarrow> ped_disk_extended_partition (upd_list lg (\<lambda>_. ?L @ [f]) d1) = ped_disk_extended_partition d"
  proof (rule gap_step [OF S(1) l bb xx ends _ t])
  qed (assumption | simp | blast)+
  let ?d2 = "upd_list lg (\<lambda>_. ?L @ [f]) d1"
  have ins: "(case lst of Some l \<Rightarrow> disk_raw_insert_after d1 l f | None \<Rightarrow> upd_list lg (\<lambda>_. [f]) d1) = ?d2"
  proof (cases "?L = []")
    case True
    then show ?thesis using S(7) by simp
  next
    case False
    then obtain xs z where xz: "?L = xs @ [z]" by (cases ?L rule: rev_cases) auto
    have "is_logical z = lg" using po(4) [of z] xz by simp
    moreover have "insert_after (p_id z) f ?L = ?L @ [f]"
      using insert_after_snoc [of xs z f] po(2) xz by simp
    ultimately show ?thesis
      using S(7) xz upd_list_cong [OF f(7), of "insert_after (p_id z) f" lg "\<lambda>_. ?L @ [f]"] f(5)
      by (simp add: disk_raw_insert_after_def in_list_of_def upd_list_def)
  qed
  have "cover le0 (?L @ [f]) hi" using cover_snoc [OF S(2), of f] f(2,3) by simp
  then have "fill_state lg le0 hi ?d2 (the_list lg ?d2) [] hi (Some f)"
    unfolding f(6) fill_state_def using f(2,3,4,6,9,11) S(3-6) le0 e0 by (auto simp: frame_def)
  moreover have "same_step lg d ?d2" using f(8,9,10,12) by (simp add: same_step_def same_acts_def)
  ultimately show ?thesis using f(1) ins w1 by (intro that) auto
qed

lemma fill_state_end:
  assumes "fill_state lg le0 hi d (the_list lg d) [] le lst" "\<not> le < hi"
  shows "le = hi"
proof -
  have "cover le0 (the_list lg d) le" "\<forall>v\<in>set (the_list lg d). g_end (p_geom v) \<le> hi" "le0 \<le> hi"
    using assms(1) by (auto simp: fill_state_def)
  then have "le \<le> hi" using cover_last [of le0 "the_list lg d" le] by (cases "the_list lg d = []") (auto simp: cover_def)
  with assms(2) show ?thesis by simp
qed

lemma alloc_extended_freespace_ok:
  assumes ok: "disk_ok d"
  obtains d' where "alloc_extended_freespace ops d = (True, d')" "disk_ok d'" "same_acts d d'" "ext_covered d'"
proof (cases "ped_disk_extended_partition d")
  case None
  then show ?thesis using ok
    by (intro that [of d]) (simp_all add: alloc_extended_freespace_def ext_covered_def)
next
  case (Some e)
  note dest = that
  let ?t = "PED_PARTITION_FREESPACE OR PED_PARTITION_LOGICAL"
  have tl: "the_list True d = p_list e" using Some by (simp add: the_list_def ext_list_def)
  have e: "e \<in> set (part_list d)" "is_ext e"
    using Some unfolding ped_disk_extended_partition_def by (auto dest: find_Some_set)
  then have lo: "logical_ok (dk_dev d) e" using ok by (auto simp: disk_ok_def split: if_splits)
  have ge: "geometry_ok (p_geom e)" "g_dev (p_geom e) = dk_dev d"
    using disk_okD(2) [OF ok] e by (auto simp: parts_ok_def)
  note oe = geometry_okD [OF ge(1)]
  have "fill_state True (g_start (p_geom e)) (g_end (p_geom e)) d [] (p_list e) (g_start (p_geom e)) None"
    using ok tl Some oe ge lo by (auto simp: fill_state_def cover_def logical_ok_def)
  from fill_all [OF this, of ?t] obtain d1 le lst where f: "fill_gaps ops ?t (g_start (p_geom e)) None (p_list e) d = (d1, le, lst)"
    "fill_state True (g_start (p_geom e)) (g_end (p_geom e)) d1 (the_list True d1) [] le lst" "same_step True d d1"
    by auto
  have fin: ?thesis if r: "alloc_extended_freespace ops d = (True, d')"
    "fill_state True (g_start (p_geom e)) (g_end (p_geom e)) d' (the_list True d') [] (g_end (p_geom e)) x" "same_step True d1 d'" for d' x
  proof (rule dest [OF r(1)])
    show "disk_ok d'" using r(2) by (simp add: fill_state_def)
    show "same_acts d d'" using f(3) r(3) same_acts_trans by (auto simp: same_step_def)
    show "ext_covered d'" using r(2) by (auto simp: ext_covered_def fill_state_def the_list_def ext_list_def)
  qed
  show ?thesis
  proof (cases "le < g_end (p_geom e)")
    case False
    with fill_state_end [OF f(2)] f fin [of d1 lst] show ?thesis
      by (simp add: alloc_extended_freespace_def Some Let_def)
  next
    case True
    obtain d2 fs d' where g: "ped_partition_new ops d1 ?t None (s64 (le + 1)) (g_end (p_geom e)) = (d2, Inr fs)"
      "(case lst of Some l \<Rightarrow> disk_raw_insert_after d2 l fs | None \<Rightarrow> upd_list True (\<lambda>_. [fs]) d2) = d'"
      "fill_state True (g_start (p_geom e)) (g_end (p_geom e)) d' (the_list True d') [] (g_end (p_geom e)) (Some fs)" "same_step True d1 d'"
      by (rule finish_gap [OF f(2) True]) auto
    have "alloc_extended_freespace ops d = (True, d')"
      using True f(1) g(1,2) by (simp add: alloc_extended_freespace_def Some Let_def upd_list_def cong: option.case_cong)
    from fin [OF this g(3,4)] show ?thesis .
  qed
qed

lemma disk_alloc_freespace_ok:
  assumes ok: "disk_ok d"
  obtains d' where "disk_alloc_freespace ops d = (True, d')" "disk_ok d'" "same_acts d d'" "ext_covered d'"
    "tiles 0 (part_list d') (dev_length (dk_dev d') - 1)"
proof -
  note dest = that
  let ?d0 = "disk_remove_freespace d"
  have ok0: "disk_ok ?d0" unfolding remove_freespace_eq [OF ok] by (rule disk_ok_keep [OF ok])
  have "ped_partition_is_active p \<and> \<not> is_freespace p \<longleftrightarrow> ped_partition_is_active p" for p :: "'p PedPartition"
    by (auto simp: active_iff)
  then have sa0: "same_acts d ?d0"
    unfolding remove_freespace_eq [OF ok] by (simp add: same_acts_def acts_def frame_def keep_parts_keep_parts)
  obtain d1 where e: "alloc_extended_freespace ops ?d0 = (True, d1)" "disk_ok d1" "same_acts ?d0 d1" "ext_covered d1"
    by (rule alloc_extended_freespace_ok [OF ok0])
  have dev: "dev_ok (dk_dev d1)" using e(2) by (simp add: disk_ok_def)
  let ?hi = "dev_length (dk_dev d1) - 1"
  have tl: "the_list False x = part_list x" for x :: "('p, 'd) PedDisk" by (simp add: the_list_def)
  have geo: "geometry_ok (p_geom w)" "g_dev (p_geom w) = dk_dev d1" if "w \<in> set (part_list d1)" for w
    using disk_okD(2) [OF e(2)] that by (auto simp: parts_ok_def)
  have "fill_state False (-1) ?hi d1 [] (part_list d1) (-1) None"
    using e(2) dev geo geometry_okD(1,3) by (force simp: fill_state_def cover_def tl dev_ok_def)
  from fill_all [OF this, of PED_PARTITION_FREESPACE] obtain d2 le lst
    where f: "fill_gaps ops PED_PARTITION_FREESPACE (-1) None (part_list d1) d1 = (d2, le, lst)"
      "fill_state False (-1) ?hi d2 (the_list False d2) [] le lst" "same_step False d1 d2" by auto
  have d2: "dk_dev d2 = dk_dev d1" using f(3) by (simp add: same_step_def same_acts_def frame_def)
  have w: "s64 ?hi = ?hi" using dev by (intro s64_id) (auto simp: dev_ok_def)
  have fin: ?thesis if r: "disk_alloc_freespace ops d = (True, d')"
    "fill_state False (-1) ?hi d' (the_list False d') [] ?hi x" "same_step False d2 d'" for d' x
  proof (rule dest [OF r(1)])
    show okd: "disk_ok d'" using r(2) by (simp add: fill_state_def)
    have st: "same_step False d1 d'" by (rule same_step_trans [OF f(3) r(3)])
    show "same_acts d d'"
      using same_acts_trans [OF sa0 same_acts_trans [OF e(3)]] st by (simp add: same_step_def)
    show "ext_covered d'" using e(4) st by (simp add: ext_covered_def same_step_def)
    have dd: "dk_dev d' = dk_dev d1" using st by (simp add: same_step_def same_acts_def frame_def)
    have c: "cover (-1) (part_list d') ?hi" using r(2) by (simp add: fill_state_def tl)
    moreover have "\<not> tiles (-1) (part_list d') ?hi"
      using disk_okD(2) [OF okd] geometry_okD(1) dev
      by (cases "part_list d'") (force simp: parts_ok_Cons dev_ok_def)+
    ultimately show "tiles 0 (part_list d') (dev_length (dk_dev d') - 1)"
      using dev by (auto simp: cover_def dd dev_ok_def split: if_splits)
  qed
  show ?thesis
  proof (cases "le < ?hi")
    case False
    with fill_state_end [OF f(2)] f w d2 e(1) fin [of d2 lst] show ?thesis
      by (simp add: disk_alloc_freespace_def Let_def)
  next
    case True
    obtain d3 fs d' where g: "ped_partition_new ops d2 PED_PARTITION_FREESPACE None (s64 (le + 1)) ?hi = (d3, Inr fs)"
      "(case lst of Some l \<Rightarrow> disk_raw_insert_after d3 l fs | None \<Rightarrow> upd_list False (\<lambda>_. [fs]) d3) = d'"
      "fill_state False (-1) ?hi d' (the_list False d') [] ?hi (Some fs)" "same_step False d2 d'"
      by (rule finish_gap [OF f(2) True]) auto
    have "disk_alloc_freespace ops d = (True, d')"
      using True e(1) f(1) g(1,2) w d2 by (simp add: disk_alloc_freespace_def Let_def upd_list_def cong: option.case_cong)
    from fin [OF this g(3,4)] show ?thesis .
  qed
qed

end

section \<open>Update mode\<close>

text \<open>Every sector of the device is in exactly one partition of the disk's list, and every sector of
  the extended partition after its first in exactly one partition of its list.\<close>

definition tiled :: "('p, 'd) PedDisk \<Rightarrow> bool" where
  "tiled d \<longleftrightarrow> tiles 0 (part_list d) (dev_length (dk_dev d) - 1) \<and> ext_covered d"

lemma push_in_update_mode: "update_mode d \<noteq> 0 \<Longrightarrow> disk_push_update_mode ops d = push_nested d"
  by (simp add: disk_push_update_mode_def push_nested_def)

lemma pop_in_update_mode: "1 < update_mode d \<Longrightarrow> disk_pop_update_mode ops d = pop_nested d"
  by (simp add: disk_pop_update_mode_def pop_nested_def)

lemma mode_simps [simp]:
  "acts (d\<lparr>update_mode := m\<rparr>) = acts d" "frame d (d'\<lparr>update_mode := m\<rparr>) = frame d d'"
  "frame (d\<lparr>update_mode := m\<rparr>) d' = frame d d'" "ext_covered (d\<lparr>update_mode := m\<rparr>) = ext_covered d"
  "ped_disk_extended_partition (d\<lparr>update_mode := m\<rparr>) = ped_disk_extended_partition d"
  by (simp_all add: acts_def frame_def ext_covered_def ped_disk_extended_partition_def)

lemma tiles_denum: "tiles lo (map denum ps) hi = tiles lo ps hi"
  "tiles lo (map (set_num 0) ps) hi = tiles lo ps hi"
  by (induction ps arbitrary: lo) simp_all

lemma cover_denum: "cover lo (map (set_num 0) ps) hi = cover lo ps hi"
  by (simp add: cover_def tiles_denum)

lemma find_denum: "find is_ext (map denum ps) = map_option denum (find is_ext ps)"
  by (induction ps) simp_all

lemma same_but_nums_tiled:
  assumes "same_but_nums d d'"
  shows "tiled d' = tiled d"
proof -
  have m: "map denum (part_list d') = map denum (part_list d)" "dk_dev d' = dk_dev d"
    using assms by (simp_all add: same_but_nums_iff)
  have x: "map_option denum (ped_disk_extended_partition d') = map_option denum (ped_disk_extended_partition d)"
    unfolding ped_disk_extended_partition_def find_denum [symmetric] m ..
  have c: "ext_covered z = (\<forall>e. map_option denum (ped_disk_extended_partition z) = Some e \<longrightarrow>
      cover (g_start (p_geom e)) (p_list e) (g_end (p_geom e)))" for z :: "('p, 'd) PedDisk"
    by (auto simp: ext_covered_def cover_denum)
  have "tiles lo (part_list d') hi = tiles lo (part_list d) hi" for lo hi
    using tiles_denum(1) [of lo "part_list d'" hi] tiles_denum(1) [of lo "part_list d" hi] m by simp
  then show ?thesis by (simp add: tiled_def c x m(2))
qed

lemma acts_keep:
  assumes "\<And>n p. P (set_num n p) = P p" "shallow P"
  shows "acts (d\<lparr>part_list := keep_parts P (part_list d)\<rparr>) = keep_parts P (acts d)"
proof -
  have "keep_parts P (map denum (keep_parts ped_partition_is_active (part_list d))) =
      map denum (keep_parts P (keep_parts ped_partition_is_active (part_list d)))"
    using denum_keep [OF assms] by simp
  also have "\<dots> = map denum (keep_parts ped_partition_is_active (keep_parts P (part_list d)))"
    using assms(2) by (simp add: keep_parts_keep_parts conj_commute)
  finally show ?thesis by (simp add: acts_def)
qed

lemma acts_keep_weaker:
  assumes "\<And>p. ped_partition_is_active p \<Longrightarrow> P p" "shallow P"
  shows "acts (d\<lparr>part_list := keep_parts P (part_list d)\<rparr>) = acts d"
proof -
  have "(\<lambda>p. ped_partition_is_active p \<and> P p) = ped_partition_is_active" using assms(1) by auto
  then show ?thesis by (simp add: acts_def keep_parts_keep_parts)
qed

context disk_label
begin

lemma push_ok:
  assumes ok: "disk_ok d" and m: "0 \<le> update_mode d"
  defines "d' \<equiv> disk_push_update_mode ops d"
  shows "disk_ok d'" "acts d' = acts d" "frame d d'" "update_mode d' = update_mode d + 1"
    "update_mode d = 0 \<Longrightarrow>
       same_but_nums (d\<lparr>part_list := keep_parts ped_partition_is_active (part_list d), update_mode := 1\<rparr>) d'"
proof -
  show push: "same_but_nums (d\<lparr>part_list := keep_parts ped_partition_is_active (part_list d), update_mode := 1\<rparr>) d'"
    if "update_mode d = 0"
  proof -
    let ?f = "disk_remove_freespace d"
    have f: "?f = d\<lparr>part_list := keep_parts (\<lambda>p. \<not> is_freespace p) (part_list d)\<rparr>"
      by (rule remove_freespace_eq [OF ok])
    have okf: "disk_ok (?f\<lparr>update_mode := 1\<rparr>)" unfolding f using disk_ok_keep [OF ok] by simp
    have "keep_parts (\<lambda>p. \<not> is_metadata p \<and> \<not> is_freespace p) (part_list d) = keep_parts ped_partition_is_active (part_list d)"
      by (rule keep_parts_cong) (simp_all add: active_iff conj_commute)
    then have "(?f\<lparr>update_mode := 1\<rparr>)\<lparr>part_list := keep_parts (\<lambda>p. \<not> is_metadata p) (part_list (?f\<lparr>update_mode := 1\<rparr>))\<rparr>
        = d\<lparr>part_list := keep_parts ped_partition_is_active (part_list d), update_mode := 1\<rparr>"
      by (simp add: f keep_parts_keep_parts)
    moreover have "d' = disk_remove_metadata ops (?f\<lparr>update_mode := 1\<rparr>)"
      using that by (simp add: d'_def disk_push_update_mode_def Let_def f)
    ultimately show ?thesis using remove_metadata_same [OF okf, of ops] by simp
  qed
  have "disk_ok d' \<and> acts d' = acts d \<and> frame d d' \<and> update_mode d' = update_mode d + 1"
  proof (cases "update_mode d = 0")
    case True
    note p = push [OF True]
    have "disk_ok (d\<lparr>part_list := keep_parts ped_partition_is_active (part_list d), update_mode := 1\<rparr>)"
      using disk_ok_keep [OF ok] by simp
    with same_but_nums_ok [OF p] have "disk_ok d'" by simp
    moreover have "acts d' = acts d"
      using same_but_nums_acts [OF p] acts_keep_weaker [of ped_partition_is_active d] by simp
    moreover have "frame d d'" using same_but_nums_frame [OF p] by (simp add: frame_def)
    moreover have "update_mode d' = 1" using p by (simp add: same_but_nums_iff)
    ultimately show ?thesis using True by simp
  next
    case False
    then show ?thesis using ok by (simp add: d'_def disk_push_update_mode_def)
  qed
  then show "disk_ok d'" "acts d' = acts d" "frame d d'" "update_mode d' = update_mode d + 1" by auto
qed

lemma pop_ok:
  assumes ok: "disk_ok d" and m: "1 \<le> update_mode d"
  defines "d' \<equiv> disk_pop_update_mode ops d"
  shows "disk_ok d'" "acts d' = acts d" "frame d d'" "update_mode d' = update_mode d - 1"
    "update_mode d = 1 \<Longrightarrow> tiled d'"
proof -
  have "disk_ok d' \<and> acts d' = acts d \<and> frame d d' \<and> update_mode d' = update_mode d - 1 \<and> (update_mode d = 1 \<longrightarrow> tiled d')"
  proof (cases "update_mode d = 1")
    case True
    let ?m = "snd (op_alloc_metadata ops d)"
    have a: "disk_ok ?m" "frame d ?m" "update_mode ?m = 1" "acts ?m = acts d"
      using alloc_metadata [OF ok True] by auto
    have "disk_ok (?m\<lparr>update_mode := 0\<rparr>)" using a(1) by simp
    then obtain e where e: "disk_alloc_freespace ops (?m\<lparr>update_mode := 0\<rparr>) = (True, e)" "disk_ok e"
      "same_acts (?m\<lparr>update_mode := 0\<rparr>) e" "ext_covered e" "tiles 0 (part_list e) (dev_length (dk_dev e) - 1)"
      by (rule disk_alloc_freespace_ok)
    have "d' = e" using True a(3) e(1) by (simp add: d'_def disk_pop_update_mode_def disk_alloc_metadata_def Let_def)
    moreover have "frame d e" using e(3) a(2) frame_trans by (auto simp: same_acts_def)
    ultimately show ?thesis using e a True by (simp add: tiled_def same_acts_def)
  next
    case False
    then show ?thesis using m ok by (simp add: d'_def disk_pop_update_mode_def)
  qed
  then show "disk_ok d'" "acts d' = acts d" "frame d d'" "update_mode d' = update_mode d - 1"
    "update_mode d = 1 \<Longrightarrow> tiled d'" by auto
qed

lemma remove_ok:
  assumes ok: "disk_ok d" and m: "0 \<le> update_mode d" and r: "ped_disk_remove_partition ops d i = (b, d')"
  shows "disk_ok d'" "acts d' = (if b then keep_parts (\<lambda>p. p_id p \<noteq> i) (acts d) else acts d)" "frame d d'"
    "update_mode d' = update_mode d" "update_mode d = 0 \<Longrightarrow> tiled d'"
    "b \<longleftrightarrow> (\<exists>p. lookup_part (disk_push_update_mode ops d) i = Some p \<and> p_list p = [])"
proof -
  let ?d1 = "disk_push_update_mode ops d"
  note P = push_ok [OF ok m]
  have "disk_ok d' \<and> acts d' = (if b then keep_parts (\<lambda>p. p_id p \<noteq> i) (acts d) else acts d) \<and> frame d d' \<and>
    update_mode d' = update_mode d \<and> (update_mode d = 0 \<longrightarrow> tiled d') \<and>
    (b \<longleftrightarrow> (\<exists>p. lookup_part ?d1 i = Some p \<and> p_list p = []))"
  proof (cases "\<exists>p. lookup_part ?d1 i = Some p \<and> p_list p = []")
    case False
    then have r': "b = False" "d' = disk_pop_update_mode ops ?d1"
      using r by (auto simp: ped_disk_remove_partition_def remove_partition_with_def Let_def split: option.splits if_splits)
    have "1 \<le> update_mode ?d1" using P(4) m by simp
    note Q = pop_ok [OF P(1) this]
    show ?thesis using Q P r' False frame_trans [OF P(3) Q(3)] by auto
  next
    case True
    then obtain p where p: "lookup_part ?d1 i = Some p" "p_list p = []" by blast
    let ?d2 = "disk_raw_remove ?d1 p"
    let ?d3 = "disk_pop_update_mode ops ?d2"
    from p have r': "b = True" "d' = snd (ped_disk_enumerate_partitions ops ?d3)"
      using r by (auto simp: ped_disk_remove_partition_def remove_partition_with_def Let_def)
    have pi: "p \<in> set (disk_walk ?d1)" "p_id p = i" using lookup_part_iff [OF P(1)] p(1) by auto
    have d2: "?d2 = ?d1\<lparr>part_list := keep_parts (\<lambda>q. p_id q \<noteq> i) (part_list ?d1)\<rparr>"
      using raw_remove_keep [OF P(1) pi(1)] pi(2) by simp
    have a2: "acts ?d2 = keep_parts (\<lambda>q. p_id q \<noteq> i) (acts d)" "update_mode ?d2 = update_mode d + 1" "frame d ?d2"
      unfolding d2 using P by (simp_all add: acts_keep frame_def)
    have "disk_ok ?d2" by (rule raw_remove_ok [OF P(1)])
    note Q = pop_ok [OF this]
    have e: "same_but_nums ?d3 d'" unfolding r' by (rule enumerate_same)
    show ?thesis
      using Q a2 m True r'(1) same_but_nums_ok [OF e] same_but_nums_acts [OF e] same_but_nums_tiled [OF e]
        frame_trans [OF frame_trans [OF a2(3) Q(3)] same_but_nums_frame [OF e]] same_but_nums_fields(5) [OF e]
      by simp
  qed
  then show "disk_ok d'" "acts d' = (if b then keep_parts (\<lambda>p. p_id p \<noteq> i) (acts d) else acts d)" "frame d d'"
    "update_mode d' = update_mode d" "update_mode d = 0 \<Longrightarrow> tiled d'"
    "b \<longleftrightarrow> (\<exists>p. lookup_part (disk_push_update_mode ops d) i = Some p \<and> p_list p = [])" by auto
qed

end

end
