(* ===== verification/Ped_Loop.thy ===== *)
theory Ped_Loop
  imports Ped_Freespace
begin

text \<open>
  The loop label of \<^verbatim>\<open>libparted/labels/loop.c\<close>: one partition over the whole device, no
  metadata. It is the first implementation of the label contract; the properties of the update mode
  are stated for every label that satisfies the contract, and instantiated with this one.
\<close>

definition loop_partition_new ::
  "('p, 'd) PedDisk \<Rightarrow> int \<Rightarrow> string option \<Rightarrow> PedSector \<Rightarrow> PedSector \<Rightarrow> ('p, 'd) PedDisk \<times> 'p PedPartition option" where
  "loop_partition_new disk part_type fs_type start end =
     (case ped_partition_alloc disk part_type fs_type start end of
        (disk', None) \<Rightarrow> (disk', None)
      | (disk', Some part) \<Rightarrow> (disk', Some (set_fs (p_fs part) None part)))"

definition loop_partition_set_system ::
  "('p, 'd) PedDisk \<Rightarrow> 'p PedPartition \<Rightarrow> string option \<Rightarrow> bool \<times> 'p PedPartition" where
  "loop_partition_set_system disk part fs_type = (True, set_fs fs_type (p_specific part) part)"

definition loop_partition_align ::
  "stack_memory \<Rightarrow> ('p, 'd) PedDisk \<Rightarrow> 'p PedPartition \<Rightarrow> PedConstraint option \<Rightarrow> bool \<times> PedGeometry" where
  "loop_partition_align stack disk part constraint =
     (case ped_constraint_solve_nearest stack constraint (Some (p_geom part)) of
        None \<Rightarrow> (False, p_geom part)
      | Some new_geom \<Rightarrow> (True, snd (ped_geometry_set (p_geom part) (g_start new_geom) (g_length new_geom))))"

definition loop_partition_enumerate :: "('p, 'd) PedDisk \<Rightarrow> 'p PedPartition \<Rightarrow> bool \<times> int" where
  "loop_partition_enumerate disk part = (True, 1)"

definition loop_alloc_metadata :: "('p, 'd) PedDisk \<Rightarrow> bool \<times> ('p, 'd) PedDisk" where
  "loop_alloc_metadata disk = (True, disk)"

definition loop_get_max_primary_partition_count :: "('p, 'd) PedDisk \<Rightarrow> int" where
  "loop_get_max_primary_partition_count disk = 1"

definition loop_disk_ops :: "stack_memory \<Rightarrow> ('p, 'd) PedDiskOps" where
  "loop_disk_ops stack =
     \<lparr>op_partition_new = loop_partition_new,
      op_partition_set_system = loop_partition_set_system,
      op_partition_align = loop_partition_align stack,
      op_partition_enumerate = loop_partition_enumerate,
      op_alloc_metadata = loop_alloc_metadata,
      op_get_max_primary_partition_count = loop_get_max_primary_partition_count\<rparr>"

lemma ped_partition_alloc_in_range:
  assumes "dev_ok (dk_dev d)" "0 \<le> s" "s \<le> e" "e < dev_length (dk_dev d)"
  shows "ped_partition_alloc d t fs s e = (d\<lparr>dk_heap := dk_heap d + 1\<rparr>,
    Some (Partition (dk_heap d) (dk_addr d) \<lparr>g_dev = dk_dev d, g_start = s, g_length = e - s + 1, g_end = e\<rparr>
      (-1) t fs [] None))"
proof -
  have "s64 (e - s + 1) = e - s + 1" using assms by (intro s64_id) (auto simp: dev_ok_def)
  moreover have "ped_geometry_init (fresh_geometry (dk_dev d)) (dk_dev d) s (e - s + 1) =
      (None, \<lparr>g_dev = dk_dev d, g_start = s, g_length = e - s + 1, g_end = e\<rparr>)"
    using assms by (subst init_in_range) auto
  ultimately show ?thesis by (simp add: ped_partition_alloc_def)
qed

text \<open>Setting a partition's region to a solution of a constraint, as all the labels do.\<close>

lemma set_to_solution:
  assumes "geometry_ok g" "constraint_small (Some c)"
    "ped_constraint_solve_nearest stack (Some c) (Some g) = Some r"
  shows "ped_geometry_set g (g_start r) (g_length r) = (None, r)" "r \<in> solutions (Some c)" "g_dev r = g_dev g"
proof -
  have "constraint_ok c" using assms(2) by (simp add: constraint_small_Some)
  from solve_nearest_sound(2) [OF this assms(1,3)] have r: "geometry_ok r" "g_dev r = g_dev g" "r \<in> solutions (Some c)"
    by (auto simp: solutions_Some)
  then show "r \<in> solutions (Some c)" "g_dev r = g_dev g" by auto
  have "ped_geometry_set g (g_start r) (g_length r) =
      (None, g\<lparr>g_start := g_start r, g_length := g_length r, g_end := g_start r + g_length r - 1\<rparr>)"
    using r geometry_okD [OF r(1)] assms(1) by (intro ped_geometry_set_in_range) (auto simp: geometry_ok_def)
  also have "\<dots> = (None, r)" using r(2) geometry_okD(6) [OF r(1)] by (cases r) simp
  finally show "ped_geometry_set g (g_start r) (g_length r) = (None, r)" .
qed

interpretation loop: disk_label "loop_disk_ops stack"
proof
  show "\<exists>sp. op_partition_new (loop_disk_ops stack) d t fs s e =
      (d\<lparr>dk_heap := dk_heap d + 1\<rparr>, Some (Partition (dk_heap d) (dk_addr d)
         \<lparr>g_dev = dk_dev d, g_start = s, g_length = e - s + 1, g_end = e\<rparr> (-1) t fs [] sp))"
    if "dev_ok (dk_dev d)" "0 \<le> s" "s \<le> e" "e < dev_length (dk_dev d)" for d :: "('a, 'b) PedDisk" and t fs s e
    using that by (simp add: loop_disk_ops_def loop_partition_new_def ped_partition_alloc_in_range set_fs_def)
  show "disk_ok (snd (op_alloc_metadata (loop_disk_ops stack) d)) \<and>
      frame d (snd (op_alloc_metadata (loop_disk_ops stack) d)) \<and>
      update_mode (snd (op_alloc_metadata (loop_disk_ops stack) d)) = 1 \<and>
      acts (snd (op_alloc_metadata (loop_disk_ops stack) d)) = acts d"
    if "disk_ok d" "update_mode d = 1" for d :: "('a, 'b) PedDisk"
    using that by (simp add: loop_disk_ops_def loop_alloc_metadata_def)
  show "g \<in> solutions c \<and> g_dev g = g_dev (p_geom p)"
    if "geometry_ok (p_geom p)" "constraint_small c" "op_partition_align (loop_disk_ops stack) d p c = (True, g)"
    for d :: "('a, 'b) PedDisk" and p c g
  proof (cases c)
    case None
    then show ?thesis
      using that(3) by (simp add: loop_disk_ops_def loop_partition_align_def ped_constraint_solve_nearest_def)
  next
    case (Some c')
    with that(3) obtain r where r: "ped_constraint_solve_nearest stack (Some c') (Some (p_geom p)) = Some r"
      "g = snd (ped_geometry_set (p_geom p) (g_start r) (g_length r))"
      by (auto simp: loop_disk_ops_def loop_partition_align_def split: option.splits)
    with set_to_solution [OF that(1) _ r(1)] that(2) Some show ?thesis by simp
  qed
qed

section \<open>Properties\<close>

text \<open>
  C2. \<open>_disk_push_update_mode\<close> and \<open>_disk_pop_update_mode\<close>, for every label that keeps its
  contract: they keep the table well formed and the active partitions as they are, they count the
  nesting, entering update mode leaves the active partitions only, and leaving it divides
  the whole device, and the extended partition after its first sector, into partitions without
  gap or overlap.
\<close>

theorem disk_update_mode_correct:
  assumes "disk_label ops" and "disk_ok d" and "0 \<le> update_mode d"
  shows "(let d' = disk_push_update_mode ops d
     in disk_ok d' \<and> acts d' = acts d \<and> update_mode d' = update_mode d + 1 \<and>
        (update_mode d = 0 \<longrightarrow> (\<forall>p\<in>set (disk_walk d'). ped_partition_is_active p)) \<and>
        (let d'' = disk_pop_update_mode ops d'
         in disk_ok d'' \<and> acts d'' = acts d \<and> update_mode d'' = update_mode d \<and>
            (update_mode d = 0 \<longrightarrow> tiled d'')))"
proof -
  let ?d1 = "disk_push_update_mode ops d"
  note P = disk_label.push_ok [OF assms]
  have m: "1 \<le> update_mode ?d1" using P(4) assms(3) by simp
  note Q = disk_label.pop_ok [OF assms(1) P(1) m]
  have "\<forall>p\<in>set (disk_walk ?d1). ped_partition_is_active p" if z: "update_mode d = 0"
  proof
    fix p assume p: "p \<in> set (disk_walk ?d1)"
    let ?k = "d\<lparr>part_list := keep_parts ped_partition_is_active (part_list d), update_mode := 1\<rparr>"
    have "same_but_nums ?d1 ?k" using P(5) [OF z] by (simp add: same_but_nums_def)
    then obtain q where q: "q \<in> set (disk_walk ?k)" "bare q = bare p"
      using p by (rule same_but_nums_walk)
    then have "ped_partition_is_active q" by (auto simp: in_walk_iff keep_parts_def)
    with bare_eqD(7) [OF q(2)] show "ped_partition_is_active p" by simp
  qed
  then show ?thesis using P Q by (simp add: Let_def)
qed

theorem disk_update_mode_correct_witness:
  "let d = sample_disk\<lparr>update_mode := 0\<rparr>; ops = loop_disk_ops (\<lambda>_. whole_device (sample_dev 1000));
       d'' = disk_pop_update_mode ops (disk_push_update_mode ops d)
   in disk_ok d \<and> tiled d'' \<and> acts d'' = acts d"
proof -
  let ?d = "sample_disk\<lparr>update_mode := 0\<rparr>"
  have "disk_ok ?d" "0 \<le> update_mode ?d" "update_mode ?d = 0" using sample_disk_ok by simp_all
  with disk_update_mode_correct [OF loop.disk_label_axioms this(1,2)] show ?thesis by (simp add: Let_def)
qed

text \<open>
  C3. \<open>ped_disk_remove_partition\<close>, for every label that keeps its contract: it succeeds exactly when
  the partition is there and has no partitions of its own, then it has taken that partition and
  nothing else from the active partitions; otherwise these are as before. The table stays well formed, and
  outside update mode every gap is free space again.
\<close>

theorem ped_disk_remove_partition_correct:
  assumes "disk_label ops" and "disk_ok d" and "0 \<le> update_mode d"
  shows "case ped_disk_remove_partition ops d i of (b, d') \<Rightarrow>
    (b \<longleftrightarrow> (\<exists>p. lookup_part (disk_push_update_mode ops d) i = Some p \<and> p_list p = [])) \<and>
    disk_ok d' \<and> update_mode d' = update_mode d \<and> (update_mode d = 0 \<longrightarrow> tiled d') \<and>
    acts d' = (if b then keep_parts (\<lambda>p. p_id p \<noteq> i) (acts d) else acts d)"
proof (cases "ped_disk_remove_partition ops d i")
  case (Pair b d')
  from disk_label.remove_ok [OF assms Pair] Pair show ?thesis by simp
qed

theorem ped_disk_remove_partition_correct_witness:
  "let ops = loop_disk_ops (\<lambda>_. whole_device (sample_dev 1000)) :: (unit, unit) PedDiskOps
   in disk_ok sample_disk \<and> fst (ped_disk_remove_partition ops sample_disk 1) \<and>
      acts (snd (ped_disk_remove_partition ops sample_disk 1)) = keep_parts (\<lambda>p. p_id p \<noteq> 1) (acts sample_disk)"
proof -
  let ?ops = "loop_disk_ops (\<lambda>_. whole_device (sample_dev 1000)) :: (unit, unit) PedDiskOps"
  have u: "update_mode sample_disk = 1" by (simp add: sample_disk_def)
  then have "lookup_part (disk_push_update_mode ?ops sample_disk) 1 = Some (sample_part 1 0 10 99 1 [])"
    by (simp add: disk_push_update_mode_def) (simp add: lookup_part_def disk_walk_def sub_walk_def sample_disk_def sample_part_def)
  moreover have "p_list (sample_part 1 0 10 99 1 []) = []" by (simp add: sample_part_def)
  ultimately have "\<exists>p. lookup_part (disk_push_update_mode ?ops sample_disk) 1 = Some p \<and> p_list p = []" by blast
  with ped_disk_remove_partition_correct [OF loop.disk_label_axioms sample_disk_ok, of "\<lambda>_. whole_device (sample_dev 1000)" 1] u
    sample_disk_ok
  show ?thesis by (auto simp: Let_def split: prod.splits)
qed

end
