(* ===== verification/Ped_Disk_Ops.thy ===== *)
theory Ped_Disk_Ops
  imports Ped_Loop
begin

text \<open>
  Adding, moving and resizing partitions: the rest of \<^verbatim>\<open>libparted/disk.c\<close>.

  A partition that is not yet part of the disk is an argument and a result; one that is in the disk is
  given by its address. Each function returns the exception it threw (\<open>None\<close> for success) and the
  new state.
\<close>

section \<open>Checks\<close>

definition is_ext_bit :: "'p PedPartition \<Rightarrow> bool" where
  "is_ext_bit p \<longleftrightarrow> p_type p AND PED_PARTITION_EXTENDED \<noteq> 0"

text \<open>The loop of \<open>_partition_get_overlap_constraint\<close> to the first partition that starts after
  the wanted region.\<close>

fun overlap_walk :: "nat \<Rightarrow> PedGeometry \<Rightarrow> PedSector \<Rightarrow> 'p PedPartition list \<Rightarrow> PedSector \<times> 'p PedPartition list" where
  "overlap_walk i geom min_start [] = (min_start, [])"
| "overlap_walk i geom min_start (walk # ws) =
     (if g_start (p_geom walk) < g_start geom \<or> min_start \<ge> g_start (p_geom walk)
      then overlap_walk i geom (if p_id walk \<noteq> i then s64 (g_end (p_geom walk) + 1) else min_start) ws
      else (min_start, walk # ws))"

definition partition_get_overlap_constraint ::
  "stack_memory \<Rightarrow> ('p, 'd) PedDisk \<Rightarrow> 'p PedPartition \<Rightarrow> PedGeometry \<Rightarrow> PedConstraint option" where
  "partition_get_overlap_constraint stack disk part geom =
     (if update_mode disk = 0 then None
      else if g_dev (p_geom part) \<noteq> g_dev geom then None
      else if is_logical part \<and> ped_disk_extended_partition disk = None then None
      else
        let (min_start0, max_end0, ws) =
              (if is_logical part
               then let ext_part = the (ped_disk_extended_partition disk)
                    in (g_start (p_geom ext_part), g_end (p_geom ext_part), p_list ext_part)
               else (0, s64 (dev_length (dk_dev disk) - 1), part_list disk));
            (min_start, rest) = overlap_walk (p_id part) geom min_start0 ws;
            rest' = (case rest of w # ws' \<Rightarrow> if p_id w = p_id part then ws' else rest | [] \<Rightarrow> []);
            max_end = (case rest' of w # _ \<Rightarrow> s64 (g_start (p_geom w) - 1) | [] \<Rightarrow> max_end0)
        in if min_start \<ge> max_end then None
           else ped_constraint_new_from_max
                  (Some (snd (ped_geometry_init (stack ''free_space'') (dk_dev disk) min_start
                                (s64 (s64 (max_end - min_start) + 1))))))"

fun check_overlaps :: "'p PedPartition \<Rightarrow> 'p PedPartition list \<Rightarrow> bool" where
  "check_overlaps part [] = True"
| "check_overlaps part (walk # ws) =
     (if is_freespace walk then check_overlaps part ws
      else if p_id walk = p_id part then check_overlaps part ws
      else if is_ext_bit part \<and> is_logical walk then check_overlaps part ws
      else if ped_geometry_test_overlap (p_geom walk) (p_geom part)
      then (if is_ext_bit walk \<and> is_logical part \<and> ped_geometry_test_inside (p_geom walk) (p_geom part)
            then check_overlaps part ws else False)
      else check_overlaps part ws)"

definition disk_check_part_overlaps :: "('p, 'd) PedDisk \<Rightarrow> 'p PedPartition \<Rightarrow> bool" where
  "disk_check_part_overlaps disk part = check_overlaps part (disk_walk disk)"

definition partition_check_basic_sanity ::
  "('p, 'd) PedDiskOps \<Rightarrow> ('p, 'd) PedDisk \<Rightarrow> 'p PedPartition \<Rightarrow> PedException option" where
  "partition_check_basic_sanity ops disk part =
     (if p_disk part \<noteq> dk_addr disk then Some AssertionFailed
      else if \<not> g_start (p_geom part) \<ge> 0 then Some AssertionFailed
      else if \<not> g_end (p_geom part) < dev_length (dk_dev disk) then Some AssertionFailed
      else if \<not> g_start (p_geom part) \<le> g_end (p_geom part) then Some AssertionFailed
      else if \<not> ped_disk_type_check_feature (dk_type disk) PED_DISK_TYPE_EXTENDED
              \<and> (p_type part = PED_PARTITION_EXTENDED \<or> p_type part = PED_PARTITION_LOGICAL)
      then Some NoExtendedSupport
      else if ped_partition_is_active part \<and> \<not> is_logical part
              \<and> ped_disk_get_primary_partition_count disk + 1 > op_get_max_primary_partition_count ops disk
      then Some TooManyPrimary
      else if is_logical part \<and> ped_disk_extended_partition disk = None then Some NoExtendedPartition
      else None)"

definition check_extended_partition :: "('p, 'd) PedDisk \<Rightarrow> 'p PedPartition \<Rightarrow> PedException option" where
  "check_extended_partition disk part =
     (let ext_part = (case ped_disk_extended_partition disk of None \<Rightarrow> part | Some e \<Rightarrow> e)
      in if p_id part \<noteq> p_id ext_part then Some MoreThanOneExtended
         else if list_ex (\<lambda>walk. \<not> ped_geometry_test_inside (p_geom ext_part) (p_geom walk)) (p_list ext_part)
         then Some LogicalOutsideExtended
         else None)"

definition check_partition :: "('p, 'd) PedDisk \<Rightarrow> 'p PedPartition \<Rightarrow> PedException option" where
  "check_partition disk part =
     (let ext_part = ped_disk_extended_partition disk
      in if \<not> g_start (p_geom part) \<le> g_end (p_geom part) then Some AssertionFailed
         else if p_type part = PED_PARTITION_EXTENDED \<and> check_extended_partition disk part \<noteq> None
         then check_extended_partition disk part
         else if is_logical part \<and> \<not> ped_geometry_test_inside (p_geom (the ext_part)) (p_geom part)
         then Some LogicalOutsideExtended
         else if \<not> disk_check_part_overlaps disk part then Some OverlappingPartitions
         else if \<not> is_logical part \<and> ext_part \<noteq> None \<and> p_id (the ext_part) \<noteq> p_id part
                 \<and> ped_geometry_test_inside (p_geom (the ext_part)) (p_geom part)
         then Some PrimaryInsideExtended
         else None)"

section \<open>Alignment\<close>

definition partition_align ::
  "('p, 'd) PedDiskOps \<Rightarrow> ('p, 'd) PedDisk \<Rightarrow> 'p PedPartition \<Rightarrow> PedConstraint option \<Rightarrow> bool \<times> PedGeometry" where
  "partition_align ops disk part constraint =
     (if p_num part = -1 then (False, p_geom part)
      else if update_mode disk = 0 then (False, p_geom part)
      else op_partition_align ops disk part constraint)"

definition ped_partition_attempt_align ::
  "stack_memory \<Rightarrow> 'p PedPartition \<Rightarrow> PedConstraint option \<Rightarrow> PedConstraint option \<Rightarrow> bool \<times> PedGeometry" where
  "ped_partition_attempt_align stack part external internal =
     (case ped_constraint_intersect external internal of
        None \<Rightarrow> (False, p_geom part)
      | Some intersection \<Rightarrow>
          (case ped_constraint_solve_nearest stack (Some intersection) (Some (p_geom part)) of
             None \<Rightarrow> (False, p_geom part)
           | Some solution \<Rightarrow>
               (True, snd (ped_geometry_set (p_geom part) (g_start solution) (g_length solution)))))"

section \<open>Adding a partition\<close>

text \<open>The part of \<open>ped_disk_add_partition\<close> between the push and the pop: the partition after it,
  and the disk or the exception.\<close>

definition add_partition_checked ::
  "stack_memory \<Rightarrow> ('p, 'd) PedDiskOps \<Rightarrow> ('p, 'd) PedDisk \<Rightarrow> 'p PedPartition \<Rightarrow>
   'p PedPartition \<times> (PedException + ('p, 'd) PedDisk)" where
  "add_partition_checked stack ops disk part =
     (part, case check_partition disk part of
              Some e \<Rightarrow> Inl e
            | None \<Rightarrow> (case disk_raw_add disk part of None \<Rightarrow> Inl AssertionFailed | Some disk' \<Rightarrow> Inr disk'))"

definition add_partition_core ::
  "stack_memory \<Rightarrow> ('p, 'd) PedDiskOps \<Rightarrow> ('p, 'd) PedDisk \<Rightarrow> 'p PedPartition \<Rightarrow> PedConstraint option \<Rightarrow>
   'p PedPartition \<times> (PedException + ('p, 'd) PedDisk)" where
  "add_partition_core stack ops disk part constraint =
     (if ped_partition_is_active part
      then
        let overlap_constraint = partition_get_overlap_constraint stack disk part (p_geom part);
            constraints = ped_constraint_intersect overlap_constraint constraint
        in if constraints = None \<and> constraint \<noteq> None then (part, Inl OverlappingPartitions)
           else
             (case partition_enumerate ops disk part of
                (False, part') \<Rightarrow> (part', Inl LabelFailure)
              | (True, part') \<Rightarrow>
                  (case partition_align ops disk part' constraints of
                     (False, g) \<Rightarrow> (set_geom g part', Inl LabelFailure)
                   | (True, g) \<Rightarrow> add_partition_checked stack ops disk (set_geom g part')))
      else add_partition_checked stack ops disk part)"

definition add_partition_with ::
  "(('p, 'd) PedDisk \<Rightarrow> ('p, 'd) PedDisk) \<Rightarrow> (('p, 'd) PedDisk \<Rightarrow> ('p, 'd) PedDisk) \<Rightarrow>
   stack_memory \<Rightarrow> ('p, 'd) PedDiskOps \<Rightarrow> ('p, 'd) PedDisk \<Rightarrow> 'p PedPartition \<Rightarrow> PedConstraint option \<Rightarrow>
   PedException option \<times> ('p, 'd) PedDisk \<times> 'p PedPartition" where
  "add_partition_with push pop stack ops disk part constraint =
     (case partition_check_basic_sanity ops disk part of
        Some e \<Rightarrow> (Some e, disk, part)
      | None \<Rightarrow>
          let disk1 = push disk
          in case add_partition_core stack ops disk1 part constraint of
               (part', Inl e) \<Rightarrow> (Some e, pop disk1, part')
             | (part', Inr disk2) \<Rightarrow>
                 let disk3 = pop disk2
                 in if \<not> disk_check_sanity disk3 then (Some AssertionFailed, disk3, part')
                    else (None, disk3, part'))"

definition ped_disk_add_partition ::
  "stack_memory \<Rightarrow> ('p, 'd) PedDiskOps \<Rightarrow> ('p, 'd) PedDisk \<Rightarrow> 'p PedPartition \<Rightarrow> PedConstraint option \<Rightarrow>
   PedException option \<times> ('p, 'd) PedDisk \<times> 'p PedPartition" where
  "ped_disk_add_partition stack ops =
     add_partition_with (disk_push_update_mode ops) (disk_pop_update_mode ops) stack ops"

section \<open>Changing a partition\<close>

definition ped_disk_set_partition_geom ::
  "stack_memory \<Rightarrow> ('p, 'd) PedDiskOps \<Rightarrow> ('p, 'd) PedDisk \<Rightarrow> nat \<Rightarrow> PedConstraint option \<Rightarrow>
   PedSector \<Rightarrow> PedSector \<Rightarrow> PedException option \<times> ('p, 'd) PedDisk" where
  "ped_disk_set_partition_geom stack ops disk i constraint start end =
     (case lookup_part disk i of
        None \<Rightarrow> (Some AssertionFailed, disk)
      | Some part0 \<Rightarrow>
          if p_disk part0 \<noteq> dk_addr disk then (Some AssertionFailed, disk)
          else
            let old_geom = p_geom part0;
                new_geom = snd (ped_geometry_init (stack ''new_geom'') (g_dev (p_geom part0)) start
                                  (s64 (s64 (end - start) + 1)));
                disk1 = disk_push_update_mode ops disk
            in case lookup_part disk1 i of
                 None \<Rightarrow> (Some AssertionFailed, disk1)
               | Some part1 \<Rightarrow>
                   let overlap_constraint = partition_get_overlap_constraint stack disk1 part1 new_geom;
                       constraints = ped_constraint_intersect overlap_constraint constraint
                   in if constraints = None \<and> constraint \<noteq> None
                      then (Some OverlappingPartitions,
                            update_part i (set_geom old_geom) (disk_pop_update_mode ops disk1))
                      else
                        let disk2 = update_part i (set_geom new_geom) disk1;
                            (ok, g) = partition_align ops disk2 (set_geom new_geom part1) constraints;
                            disk3 = update_part i (set_geom g) disk2;
                            part3 = set_geom g part1
                        in if \<not> ok
                           then (Some LabelFailure,
                                 update_part i (set_geom old_geom) (disk_pop_update_mode ops disk3))
                           else case check_partition disk3 part3 of
                                  Some e \<Rightarrow>
                                    (Some e, update_part i (set_geom old_geom) (disk_pop_update_mode ops disk3))
                                | None \<Rightarrow>
                                    let disk4 = disk_raw_remove disk3 part3
                                    in (None, disk_pop_update_mode ops
                                                (case disk_raw_add disk4 part3 of None \<Rightarrow> disk4 | Some d \<Rightarrow> d)))"

text \<open>The predecessor of a partition in the list that holds it: its \<open>prev\<close> pointer.\<close>

fun prev_in :: "'p PedPartition list \<Rightarrow> nat \<Rightarrow> 'p PedPartition option" where
  "prev_in [] i = None"
| "prev_in [p] i = None"
| "prev_in (p # q # ps) i = (if p_id q = i then Some p else prev_in (q # ps) i)"

definition part_prev :: "('p, 'd) PedDisk \<Rightarrow> 'p PedPartition \<Rightarrow> 'p PedPartition option" where
  "part_prev disk part = prev_in (if is_logical part then ext_list disk else part_list disk) (p_id part)"

definition ped_disk_maximize_partition ::
  "stack_memory \<Rightarrow> ('p, 'd) PedDiskOps \<Rightarrow> ('p, 'd) PedDisk \<Rightarrow> nat \<Rightarrow> PedConstraint option \<Rightarrow>
   PedException option \<times> ('p, 'd) PedDisk" where
  "ped_disk_maximize_partition stack ops disk i constraint =
     (case lookup_part disk i of
        None \<Rightarrow> (Some AssertionFailed, disk)
      | Some part \<Rightarrow>
          if is_logical part \<and> ped_disk_extended_partition disk = None then (Some AssertionFailed, disk)
          else
            let (global_min_start, global_max_end) =
                  (if is_logical part
                   then let ext_part = the (ped_disk_extended_partition disk)
                        in (g_start (p_geom ext_part), g_end (p_geom ext_part))
                   else (0, s64 (dev_length (dk_dev disk) - 1)));
                old_geom = p_geom part;
                disk1 = disk_push_update_mode ops disk;
                new_start = (case part_prev disk1 part of
                               Some p \<Rightarrow> s64 (g_end (p_geom p) + 1) | None \<Rightarrow> global_min_start);
                new_end = (case part_next disk1 part of
                             Some p \<Rightarrow> s64 (g_start (p_geom p) - 1) | None \<Rightarrow> global_max_end)
            in case ped_disk_set_partition_geom stack ops disk1 i constraint new_start new_end of
                 (None, disk2) \<Rightarrow> (None, disk_pop_update_mode ops disk2)
               | (Some e, disk2) \<Rightarrow>
                   let constraint_any = ped_constraint_any stack (dk_dev disk2)
                   in (Some e, disk_pop_update_mode ops
                         (snd (ped_disk_set_partition_geom stack ops disk2 i constraint_any
                                 (g_start old_geom) (g_end old_geom)))))"

definition ped_disk_get_max_partition_geometry ::
  "stack_memory \<Rightarrow> ('p, 'd) PedDiskOps \<Rightarrow> ('p, 'd) PedDisk \<Rightarrow> nat \<Rightarrow> PedConstraint option \<Rightarrow>
   PedGeometry option \<times> ('p, 'd) PedDisk" where
  "ped_disk_get_max_partition_geometry stack ops disk i constraint =
     (case lookup_part disk i of
        None \<Rightarrow> (None, disk)
      | Some part \<Rightarrow>
          if \<not> ped_partition_is_active part then (None, disk)
          else
            let old_geom = p_geom part
            in case ped_disk_maximize_partition stack ops disk i constraint of
                 (Some _, disk1) \<Rightarrow> (None, disk1)
               | (None, disk1) \<Rightarrow>
                   let max_geom = ped_geometry_duplicate (p_geom (the (lookup_part disk1 i)));
                       constraint_exact = ped_constraint_exact stack old_geom;
                       disk2 = snd (ped_disk_set_partition_geom stack ops disk1 i constraint_exact
                                      (g_start old_geom) (g_end old_geom))
                   in if \<not> ped_geometry_test_equal (p_geom (the (lookup_part disk2 i))) old_geom
                      then (None, disk2)
                      else (max_geom, disk2))"

definition ped_disk_minimize_extended_partition ::
  "stack_memory \<Rightarrow> ('p, 'd) PedDiskOps \<Rightarrow> ('p, 'd) PedDisk \<Rightarrow> bool \<times> ('p, 'd) PedDisk" where
  "ped_disk_minimize_extended_partition stack ops disk =
     (case ped_disk_extended_partition disk of
        None \<Rightarrow> (True, disk)
      | Some ext_part0 \<Rightarrow>
          let disk1 = disk_push_update_mode ops disk;
              ext_part = the (lookup_part disk1 (p_id ext_part0))
          in case p_list ext_part of
               [] \<Rightarrow> ped_disk_delete_partition ops (disk_pop_update_mode ops disk1) (p_id ext_part)
             | first_logical # _ \<Rightarrow>
                 let last_logical = last (p_list ext_part);
                     constraint = ped_constraint_any stack (dk_dev disk1);
                     (status, disk2) = ped_disk_set_partition_geom stack ops disk1 (p_id ext_part) constraint
                       (g_start (p_geom first_logical)) (g_end (p_geom last_logical))
                 in (status = None, disk_pop_update_mode ops disk2))"

section \<open>The overlap constraint: lemmas\<close>

text \<open>Alignments with the same sectors have the same grain.\<close>

lemma aligned_same_grain:
  assumes "alignment_ok a" "alignment_ok b" "aligned (Some a) = aligned (Some b)"
  shows "grain_size a = grain_size b"
proof -
  have e: "grain_size a dvd s - offset a \<longleftrightarrow> grain_size b dvd s - offset b" for s
    using assms(3) unfolding aligned_Some by blast
  have oa: "grain_size b dvd offset a - offset b" using e [of "offset a"] by simp
  have ob: "grain_size a dvd offset b - offset a" using e [of "offset b"] by simp
  have ha: "grain_size b dvd offset a + grain_size a - offset b" using e [of "offset a + grain_size a"] by simp
  have hb: "grain_size a dvd offset b + grain_size b - offset a" using e [of "offset b + grain_size b"] by simp
  have "grain_size b dvd grain_size a" using dvd_diff [OF ha oa] by simp
  moreover have "grain_size a dvd grain_size b" using dvd_diff [OF hb ob] by simp
  ultimately show ?thesis
    using alignment_okD(1) [OF assms(1)] alignment_okD(1) [OF assms(2)]
    by (simp add: zdvd_antisym_nonneg)
qed

lemma alignment_small_same:
  assumes "alignment_small a" "alignment_opt_ok b" "aligned b = aligned a"
  shows "alignment_small b"
proof (cases b)
  case (Some al)
  have "offset al \<in> aligned (Some al)" by (simp add: aligned_Some)
  with assms(3) Some obtain al' where "a = Some al'" by (cases a) auto
  with assms Some aligned_same_grain [of al al'] show ?thesis
    by (simp add: alignment_small_def alignment_opt_ok_def)
qed (simp add: alignment_small_def)

text \<open>A constraint that says nothing about alignment.\<close>

definition unaligned :: "PedConstraint \<Rightarrow> bool" where
  "unaligned c \<longleftrightarrow> constraint_ok c \<and> start_align c = Some \<lparr>offset = 0, grain_size = 1\<rparr> \<and>
     end_align c = Some \<lparr>offset = 0, grain_size = 1\<rparr>"

lemma unaligned_small: "unaligned c \<Longrightarrow> constraint_small (Some c)"
  by (simp add: unaligned_def constraint_small_Some alignment_small_def alignment_ok_def)

lemma intersect_unaligned_small:
  assumes "unaligned c" "constraint_small co"
  shows "constraint_small (ped_constraint_intersect (Some c) co)"
proof (cases "ped_constraint_intersect (Some c) co")
  case (Some r)
  then obtain b where b: "co = Some b" by (cases co) auto
  let ?any = "Some \<lparr>offset = 0, grain_size = 1\<rparr>"
  have sm: "constraint_small (Some b)" using assms(2) b by simp
  have any: "alignment_small ?any" "aligned ?any = UNIV"
    by (simp_all add: alignment_small_def alignment_ok_def aligned_Some)
  have al: "alignment_small (ped_alignment_duplicate (ped_alignment_intersect ?any x))" if "alignment_small x" for x
  proof -
    have i: "alignment_opt_ok (ped_alignment_intersect ?any x)" "aligned (ped_alignment_intersect ?any x) = aligned x"
      using ped_alignment_intersect_ok [OF any(1) that] align_meet.sat_meet [OF any(1) that] any(2) by auto
    from alignment_duplicate_opt [OF i(1)] i(2) show ?thesis
      by (intro alignment_small_same [OF that]) auto
  qed
  have "start_align r = ped_alignment_duplicate (ped_alignment_intersect ?any (start_align b))"
    "end_align r = ped_alignment_duplicate (ped_alignment_intersect ?any (end_align b))"
    using Some assms(1) b unfolding unaligned_def
    by (auto simp: ped_constraint_intersect_def ped_constraint_new_def ped_constraint_init_def split: option.splits if_splits)
  with al sm have "alignment_small (start_align r)" "alignment_small (end_align r)"
    by (simp_all add: constraint_small_Some)
  with constraint_intersect_spec(2) [OF unaligned_small [OF assms(1)] sm] Some b show ?thesis
    by (simp add: constraint_small_Some)
qed (simp add: constraint_small_def)

lemma new_from_max_unaligned:
  assumes g: "geometry_ok mx"
  obtains c where "ped_constraint_new_from_max (Some mx) = Some c" "unaligned c"
    "solutions (Some c) = {g. geometry_ok g \<and> region (Some g) \<subseteq> region (Some mx)}"
proof -
  note o = geometry_okD [OF g]
  have len: "(1::int) \<le> 1" "(1::int) \<le> 2 ^ 61" "1 \<le> g_length mx" "g_length mx \<le> 2 ^ 61" using o by auto
  note new = ped_constraint_new_ok [OF alignment_any_ok(1) alignment_any_ok(1) g g refl len]
  have d: "ped_alignment_duplicate ped_alignment_any = Some \<lparr>offset = 0, grain_size = 1\<rparr>"
    by (simp add: ped_alignment_duplicate_def ped_alignment_any_def ped_alignment_new_def
        ped_alignment_init_def abs_mod_def)
  show ?thesis
  proof (rule that)
    show "ped_constraint_new_from_max (Some mx) = Some \<lparr>start_align = ped_alignment_duplicate ped_alignment_any,
      end_align = ped_alignment_duplicate ped_alignment_any, start_range = Some mx, end_range = Some mx,
      min_size = 1, max_size = g_length mx\<rparr>" (is "_ = Some ?c")
      by (simp add: ped_constraint_new_from_max_def new(1))
    then show "solutions (Some ?c) = {g. geometry_ok g \<and> region (Some g) \<subseteq> region (Some mx)}"
      using constraint_from_max_ok [OF g] by simp
    show "unaligned ?c" using new(2) by (simp add: unaligned_def d)
  qed
qed

lemma overlap_walk_gap:
  assumes "parts_ok dev ps" "\<forall>w\<in>set ps. m0 \<le> g_start (p_geom w)" "overlap_walk i geom m0 ps = (m, rest)"
  shows "\<exists>pre. ps = pre @ rest \<and> m0 \<le> m \<and> (\<forall>w\<in>set pre. p_id w \<noteq> i \<longrightarrow> g_end (p_geom w) < m) \<and>
    (m = m0 \<or> (\<exists>w\<in>set pre. m = g_end (p_geom w) + 1))"
  using assms
proof (induction ps arbitrary: m0)
  case (Cons w ws)
  have gw: "geometry_ok (p_geom w)" and so: "parts_ok dev ws" "\<forall>v\<in>set ws. g_end (p_geom w) < g_start (p_geom v)"
    using Cons.prems(1) by (auto simp: parts_ok_Cons)
  have s: "s64 (g_end (p_geom w) + 1) = g_end (p_geom w) + 1"
    using geometry_okD [OF gw] by (intro s64_id) auto
  show ?case
  proof (cases "g_start (p_geom w) < g_start geom \<or> m0 \<ge> g_start (p_geom w)")
    case False
    with Cons.prems(3) show ?thesis by (intro exI [of _ "[]"]) auto
  next
    case True
    let ?m = "if p_id w \<noteq> i then g_end (p_geom w) + 1 else m0"
    have m0: "m0 \<le> g_start (p_geom w)" using Cons.prems(2) by simp
    have b: "\<forall>v\<in>set ws. ?m \<le> g_start (p_geom v)" using so(2) Cons.prems(2) by force
    have "overlap_walk i geom ?m ws = (m, rest)" using Cons.prems(3) True s by (cases "p_id w = i") simp_all
    from Cons.IH [OF so(1) b this] obtain pre where pre: "ws = pre @ rest" "?m \<le> m"
      "\<forall>v\<in>set pre. p_id v \<noteq> i \<longrightarrow> g_end (p_geom v) < m" "m = ?m \<or> (\<exists>v\<in>set pre. m = g_end (p_geom v) + 1)"
      by blast
    have mm: "m0 \<le> ?m" using m0 geometry_okD(2) [OF gw] by auto
    have "m = m0 \<or> (\<exists>v\<in>set (w # pre). m = g_end (p_geom v) + 1)" using pre(4) by (auto split: if_splits)
    moreover have "\<forall>v\<in>set (w # pre). p_id v \<noteq> i \<longrightarrow> g_end (p_geom v) < m" using pre(2,3) by auto
    ultimately show ?thesis using pre(1,2) mm by (intro exI [of _ "w # pre"]) auto
  qed
qed auto

lemma overlap_constraint_gap:
  assumes ok: "disk_ok d" and c: "partition_get_overlap_constraint stack d part geom = Some c"
  obtains lo hi where "unaligned c" "lo \<le> hi"
    "solutions (Some c) = {g. geometry_ok g \<and> g_dev g = dk_dev d \<and> lo \<le> g_start g \<and> g_end g \<le> hi}"
    "\<forall>w\<in>set (the_list (is_logical part) d). p_id w \<noteq> p_id part \<longrightarrow> g_end (p_geom w) < lo \<or> hi < g_start (p_geom w)"
    "is_logical part \<longrightarrow> (\<exists>e. ped_disk_extended_partition d = Some e \<and> g_start (p_geom e) \<le> lo \<and> hi \<le> g_end (p_geom e))"
proof -
  let ?lg = "is_logical part"
  let ?L = "the_list ?lg d"
  have dev: "dev_ok (dk_dev d)" using ok by (simp add: disk_ok_def)
  have dl: "s64 (dev_length (dk_dev d) - 1) = dev_length (dk_dev d) - 1"
    using dev by (intro s64_id) (auto simp: dev_ok_def)
  note L = the_list_ok [OF ok, where lg = ?lg]
  obtain e where e: "?lg \<longrightarrow> ped_disk_extended_partition d = Some e"
    using c by (auto simp: partition_get_overlap_constraint_def split: if_splits)
  define m0 where "m0 = (if ?lg then g_start (p_geom e) else 0)"
  define h0 where "h0 = (if ?lg then g_end (p_geom e) else dev_length (dk_dev d) - 1)"
  have eok: "geometry_ok (p_geom e) \<and> g_dev (p_geom e) = dk_dev d \<and> logical_ok (dk_dev d) e" if ?lg
  proof -
    have "e \<in> set (part_list d)" "is_ext e"
      using e that unfolding ped_disk_extended_partition_def by (auto dest: find_Some_set)
    with ok show ?thesis by (auto simp: disk_ok_def parts_ok_def split: if_splits)
  qed
  have bounds: "\<forall>w\<in>set ?L. m0 \<le> g_start (p_geom w) \<and> g_end (p_geom w) \<le> h0" "0 \<le> m0" "h0 < dev_length (dk_dev d)"
  proof -
    show "\<forall>w\<in>set ?L. m0 \<le> g_start (p_geom w) \<and> g_end (p_geom w) \<le> h0"
    proof (cases ?lg)
      case True
      then have "?L = p_list e" using e by (simp add: the_list_def ext_list_def)
      with eok [OF True] True show ?thesis by (simp add: logical_ok_def m0_def h0_def)
    next
      case False
      show ?thesis
      proof
        fix w assume "w \<in> set ?L"
        then have "geometry_ok (p_geom w)" "g_dev (p_geom w) = dk_dev d" using L(1) by (auto simp: parts_ok_def)
        with False geometry_okD(1,3) [OF this(1)] show "m0 \<le> g_start (p_geom w) \<and> g_end (p_geom w) \<le> h0"
          by (simp add: m0_def h0_def)
      qed
    qed
    show "0 \<le> m0" "h0 < dev_length (dk_dev d)"
      using eok geometry_okD [of "p_geom e"] by (auto simp: m0_def h0_def)
  qed
  obtain m rest where mr: "overlap_walk (p_id part) geom m0 ?L = (m, rest)" by fastforce
  from overlap_walk_gap [OF L(1) _ mr] bounds(1) obtain pre where pre: "?L = pre @ rest" "m0 \<le> m"
    "\<forall>w\<in>set pre. p_id w \<noteq> p_id part \<longrightarrow> g_end (p_geom w) < m" by auto
  define rest' where "rest' = (case rest of w # ws' \<Rightarrow> if p_id w = p_id part then ws' else rest | [] \<Rightarrow> [])"
  define mx where "mx = (case rest' of w # _ \<Rightarrow> g_start (p_geom w) - 1 | [] \<Rightarrow> h0)"
  have rest': "\<exists>xs. rest = xs @ rest' \<and> (\<forall>x\<in>set xs. p_id x = p_id part)"
    by (auto simp: rest'_def split: list.split)
  have pr: "parts_ok (dk_dev d) rest'" using L(1) pre(1) rest' by (auto simp: parts_ok_append)
  have mxs: "(case rest' of w # _ \<Rightarrow> s64 (g_start (p_geom w) - 1) | [] \<Rightarrow> h0) = mx"
  proof (cases rest')
    case (Cons w ws)
    then have "geometry_ok (p_geom w)" using pr by (simp add: parts_ok_Cons)
    from geometry_okD [OF this] Cons show ?thesis by (simp add: mx_def) (rule s64_id, auto)
  qed (simp add: mx_def)
  have three: "(if ?lg then let ext_part = the (ped_disk_extended_partition d)
                    in (g_start (p_geom ext_part), g_end (p_geom ext_part), p_list ext_part)
               else (0, s64 (dev_length (dk_dev d) - 1), part_list d)) = (m0, h0, ?L)"
    using e dl by (simp add: m0_def h0_def the_list_def ext_list_def Let_def)
  from c have c2: "m < mx" "ped_constraint_new_from_max
      (Some (snd (ped_geometry_init (stack ''free_space'') (dk_dev d) m (s64 (s64 (mx - m) + 1))))) = Some c"
    unfolding partition_get_overlap_constraint_def three
    by (simp_all add: Let_def mr rest'_def [symmetric] mxs split: if_splits)
  have mh: "mx < dev_length (dk_dev d)" "\<forall>w\<in>set rest'. mx < g_start (p_geom w)"
  proof -
    show "mx < dev_length (dk_dev d)"
    proof (cases rest')
      case (Cons w ws)
      then have "geometry_ok (p_geom w)" "g_dev (p_geom w) = dk_dev d" using pr by (auto simp: parts_ok_Cons)
      with geometry_okD [OF this(1)] Cons show ?thesis by (simp add: mx_def)
    qed (simp add: mx_def bounds(3))
    show "\<forall>w\<in>set rest'. mx < g_start (p_geom w)"
    proof (cases rest')
      case (Cons w ws)
      then have "geometry_ok (p_geom w)" "\<forall>v\<in>set ws. g_end (p_geom w) < g_start (p_geom v)"
        using pr by (auto simp: parts_ok_Cons)
      with geometry_okD(2) [OF this(1)] Cons show ?thesis by (force simp: mx_def)
    qed simp
  qed
  let ?g = "\<lparr>g_dev = dk_dev d, g_start = m, g_length = mx - m + 1, g_end = mx\<rparr>"
  have m0m: "0 \<le> m" using pre(2) bounds(2) by simp
  have "s64 (mx - m + 1) = mx - m + 1" using c2(1) m0m mh(1) dev by (intro s64_id) (auto simp: dev_ok_def)
  then have c3: "ped_constraint_new_from_max (Some ?g) = Some c"
    using c2 m0m mh(1) dev by (simp add: init_in_range)
  have gok: "geometry_ok ?g" using c2(1) m0m mh(1) dev by (simp add: geometry_ok_def)
  obtain c' where c': "ped_constraint_new_from_max (Some ?g) = Some c'" "unaligned c'"
    "solutions (Some c') = {g. geometry_ok g \<and> region (Some g) \<subseteq> region (Some ?g)}"
    by (rule new_from_max_unaligned [OF gok])
  have sol: "solutions (Some c) = {g. geometry_ok g \<and> g_dev g = dk_dev d \<and> m \<le> g_start g \<and> g_end g \<le> mx}"
    using c' c3 region_subset [OF geometry_okD(2), of _ ?g] by auto
  have mxh: "mx \<le> h0"
  proof (cases rest')
    case (Cons w ws)
    then have "w \<in> set ?L" using pre(1) rest' by auto
    with bounds(1) L(1) Cons geometry_okD(2) [of "p_geom w"] show ?thesis by (force simp: mx_def parts_ok_def)
  qed (simp add: mx_def)
  have "\<forall>w\<in>set ?L. p_id w \<noteq> p_id part \<longrightarrow> g_end (p_geom w) < m \<or> mx < g_start (p_geom w)"
    using pre rest' mh(2) by auto
  then show ?thesis
    using c' c3 c2(1) sol e pre(2) mxh by (intro that [of m mx]) (auto simp: m0_def h0_def)
qed

section \<open>Adding a partition: lemmas\<close>

text \<open>The type bits the header allows: an extended partition is nothing else, and in particular not
  logical.\<close>

definition valid_type :: "'p PedPartition \<Rightarrow> bool" where
  "valid_type p \<longleftrightarrow> (is_ext_bit p \<longrightarrow> is_ext p)"

text \<open>The table between two calls: well formed, with valid types, and without free space while in
  update mode.\<close>

definition table_ok :: "('p, 'd) PedDisk \<Rightarrow> bool" where
  "table_ok d \<longleftrightarrow> disk_ok d \<and> 0 \<le> update_mode d \<and> (\<forall>p\<in>set (disk_walk d). valid_type p) \<and>
     (0 < update_mode d \<longrightarrow> (\<forall>p\<in>set (disk_walk d). \<not> is_freespace p))"

text \<open>A partition that is ready to be added: allocated for this disk, not in it, without
  partitions of its own.\<close>

definition new_part_ok :: "('p, 'd) PedDisk \<Rightarrow> 'p PedPartition \<Rightarrow> bool" where
  "new_part_ok d p \<longleftrightarrow> geometry_ok (p_geom p) \<and> g_dev (p_geom p) = dk_dev d \<and> valid_type p \<and>
     p_list p = [] \<and> p_id p < dk_heap d \<and> p_id p \<notin> p_id ` set (disk_walk d) \<and> p_disk p = dk_addr d"

text \<open>The active partitions, logical ones included, without numbers.\<close>

definition act_set :: "('p, 'd) PedDisk \<Rightarrow> 'p PedPartition set" where
  "act_set d = (\<Union>p\<in>set (acts d). insert (bare p) (bare ` set (p_list p)))"

lemma bare_simps [simp]: "bare (denum p) = bare p" "bare (set_list l p) = bare p" "bare (set_num n p) = bare p"
  by (simp_all add: bare_def denum_def set_num_def set_list_def)

lemma act_set_walk:
  assumes "disk_ok d"
  shows "act_set d = bare ` {p \<in> set (disk_walk d). ped_partition_is_active p}"
proof -
  have nl: "p_list p = []" if "p \<in> set (part_list d)" "\<not> is_ext p" for p
    using disk_okD(7) [OF assms that] .
  have a: "act_set d = (\<Union>p\<in>{p \<in> set (part_list d). ped_partition_is_active p}.
      insert (bare p) (bare ` {l \<in> set (p_list p). ped_partition_is_active l}))"
    unfolding act_set_def acts_def keep_parts_def by (simp add: image_image)
  show ?thesis
  proof (intro set_eqI iffI)
    fix x assume "x \<in> act_set d"
    then obtain p where p: "p \<in> set (part_list d)" "ped_partition_is_active p"
      "x = bare p \<or> (\<exists>l\<in>set (p_list p). ped_partition_is_active l \<and> x = bare l)"
      unfolding a by auto
    from p(3) show "x \<in> bare ` {p \<in> set (disk_walk d). ped_partition_is_active p}"
    proof
      assume "x = bare p"
      with p(1,2) part_list_in_walk show ?thesis by blast
    next
      assume "\<exists>l\<in>set (p_list p). ped_partition_is_active l \<and> x = bare l"
      with walk_id_iff_in_list [OF assms p(1)] show ?thesis by blast
    qed
  next
    fix x assume "x \<in> bare ` {p \<in> set (disk_walk d). ped_partition_is_active p}"
    then obtain q p where q: "x = bare q" "ped_partition_is_active q" "p \<in> set (part_list d)"
      "q = p \<or> is_ext p \<and> q \<in> set (p_list p)"
      by (auto simp: in_walk_iff)
    with ext_active show "x \<in> act_set d" unfolding a by auto
  qed
qed

lemma check_overlapsD:
  assumes "check_overlaps part ws" "w \<in> set ws" "\<not> is_freespace w" "p_id w \<noteq> p_id part"
    "\<not> (is_ext_bit part \<and> is_logical w)" "\<not> (is_ext_bit w \<and> is_logical part)"
  shows "\<not> ped_geometry_test_overlap (p_geom w) (p_geom part)"
  using assms by (induction ws) (auto split: if_splits)

lemma check_partition_can_add:
  assumes ok: "table_ok d" and m: "0 < update_mode d" and n: "new_part_ok d part"
    and c: "check_partition d part = None"
    and e: "is_logical part \<Longrightarrow> ped_disk_extended_partition d \<noteq> None"
  shows "can_add d part"
proof -
  have dk: "disk_ok d" and vt: "\<forall>p\<in>set (disk_walk d). valid_type p" and nf: "\<forall>p\<in>set (disk_walk d). \<not> is_freespace p"
    using ok m by (auto simp: table_ok_def)
  have N: "geometry_ok (p_geom part)" "g_dev (p_geom part) = dk_dev d" "valid_type part" "p_list part = []"
    "p_id part < dk_heap d" "p_id part \<notin> p_id ` set (disk_walk d)" "p_disk part = dk_addr d"
    using n by (auto simp: new_part_ok_def)
  have chk: "check_overlaps part (disk_walk d)" "is_ext part \<Longrightarrow> check_extended_partition d part = None"
    "is_logical part \<Longrightarrow> ped_geometry_test_inside (p_geom (the (ped_disk_extended_partition d))) (p_geom part)"
    using c by (auto simp: check_partition_def Let_def disk_check_part_overlaps_def split: if_splits)
  have xn: "ped_disk_extended_partition d = None" if "is_ext part"
  proof (rule ccontr)
    assume "ped_disk_extended_partition d \<noteq> None"
    then obtain x where x: "ped_disk_extended_partition d = Some x" by blast
    then have "x \<in> set (disk_walk d)"
      using part_list_in_walk unfolding ped_disk_extended_partition_def by (blast dest: find_Some_set)
    with N(6) have "p_id part \<noteq> p_id x" by auto
    with chk(2) [OF that] x show False by (simp add: check_extended_partition_def)
  qed
  have ov: "\<not> ped_geometry_test_overlap (p_geom w) (p_geom part)"
    if w: "w \<in> set (disk_walk d)" "\<not> (is_ext_bit part \<and> is_logical w)" "\<not> (is_ext_bit w \<and> is_logical part)" for w
    using check_overlapsD [OF chk(1) w(1) _ _ w(2,3)] nf w(1) N(6) by (metis image_eqI)
  have "if is_logical part
      then \<exists>x. ped_disk_extended_partition d = Some x \<and>
             g_start (p_geom x) \<le> g_start (p_geom part) \<and> g_end (p_geom part) \<le> g_end (p_geom x) \<and>
             (\<forall>q\<in>set (p_list x). \<not> ped_geometry_test_overlap (p_geom q) (p_geom part))
      else \<forall>q\<in>set (part_list d). \<not> ped_geometry_test_overlap (p_geom q) (p_geom part)"
  proof (cases "is_logical part")
    case True
    with e obtain x where x: "ped_disk_extended_partition d = Some x" by auto
    then have xi: "x \<in> set (part_list d)" "is_ext x"
      unfolding ped_disk_extended_partition_def by (auto dest: find_Some_set)
    have "\<not> ped_geometry_test_overlap (p_geom q) (p_geom part)" if q: "q \<in> set (p_list x)" for q
    proof (rule ov)
      show qw: "q \<in> set (disk_walk d)" using q xi by (auto simp: in_walk_iff)
      have "is_logical q" using dk xi q by (auto simp: disk_ok_def logical_ok_def split: if_splits)
      then show "\<not> (is_ext_bit q \<and> is_logical part)" "\<not> (is_ext_bit part \<and> is_logical q)"
        using vt qw N(3) True logical_not_ext by (auto simp: valid_type_def)
    qed
    with True x chk(3) show ?thesis by (auto simp: ped_geometry_test_inside_def split: if_splits)
  next
    case False
    have "\<not> is_logical q" if "q \<in> set (part_list d)" for q using disk_okD(6) [OF dk that] .
    with ov False part_list_in_walk [of d] show ?thesis by (simp add: subset_iff)
  qed
  moreover have "sub_walk part = [part]" using N(4) by (simp add: sub_walk_def)
  ultimately show ?thesis
    using N xn by (auto simp: can_add_def logical_ok_def)
qed

lemma walk_raw_add:
  assumes ok: "disk_ok d" and c: "can_add d part" "p_list part = []" and a: "disk_raw_add d part = Some d'"
  shows "bare ` set (disk_walk d') = insert (bare part) (bare ` set (disk_walk d))"
    "valid_type part \<Longrightarrow> (\<forall>p\<in>set (disk_walk d). valid_type p) \<Longrightarrow> \<forall>p\<in>set (disk_walk d'). valid_type p"
proof -
  have "\<exists>X Y. set (disk_walk d) = X \<and> set (disk_walk d') = Y \<and> bare ` Y = insert (bare part) (bare ` X) \<and>
    (\<forall>y\<in>Y. y = part \<or> (\<exists>x\<in>X. p_type x = p_type y))"
  proof (cases "is_logical part")
    case True
    show ?thesis using ok
    proof (cases rule: disk_ext_cases)
      case none
      with c True show ?thesis by (auto simp: can_add_def)
    next
      case (ext xs e ys)
      have d': "d' = d\<lparr>part_list := xs @ set_list (insert_part part (p_list e)) e # ys\<rparr>"
        using a True by (auto simp: disk_raw_add_def ext(6) split: if_splits)
      have "disk_walk d' = xs @ set_list (insert_part part (p_list e)) e # insert_part part (p_list e) @ ys"
        unfolding d' using ext(3,4) by (subst disk_walk_ext) auto
      then show ?thesis unfolding ext(5) by (auto simp: image_Un)
    qed
  next
    case False
    then have d': "d' = d\<lparr>part_list := insert_part part (part_list d)\<rparr>"
      using a by (auto simp: disk_raw_add_def split: if_splits)
    then have "set (disk_walk d') = insert part (set (disk_walk d))"
      using c(2) by (auto simp: in_walk_iff)
    then show ?thesis by auto
  qed
  then obtain XY where w: "bare ` set (disk_walk d') = insert (bare part) (bare ` set (disk_walk d))"
    "\<forall>y\<in>set (disk_walk d'). y = part \<or> (\<exists>x\<in>set (disk_walk d). p_type x = p_type y)" by auto
  show "bare ` set (disk_walk d') = insert (bare part) (bare ` set (disk_walk d))" by (fact w(1))
  show "valid_type part \<Longrightarrow> (\<forall>p\<in>set (disk_walk d). valid_type p) \<Longrightarrow> \<forall>p\<in>set (disk_walk d'). valid_type p"
    using w(2) unfolding valid_type_def is_ext_bit_def by metis
qed

lemma act_set_acts: "acts d' = acts d \<Longrightarrow> act_set d' = act_set d"
  by (simp add: act_set_def)

lemma valid_type_bare: "bare p = bare q \<Longrightarrow> valid_type p = valid_type q"
  using bare_eqD(3) [of p q] unfolding valid_type_def is_ext_bit_def by simp

lemma keep_walk_bare:
  "bare ` set (disk_walk (d\<lparr>part_list := keep_parts P (part_list d), update_mode := m\<rparr>))
   \<subseteq> bare ` {p \<in> set (disk_walk d). P p}"
proof
  fix x assume "x \<in> bare ` set (disk_walk (d\<lparr>part_list := keep_parts P (part_list d), update_mode := m\<rparr>))"
  then obtain q where q: "q \<in> set (disk_walk (d\<lparr>part_list := keep_parts P (part_list d), update_mode := m\<rparr>))" "x = bare q"
    by blast
  then obtain p where p: "p \<in> set (part_list d)" "P p"
    "q = set_list (filter P (p_list p)) p \<or> is_ext p \<and> q \<in> set (p_list p) \<and> P q"
    by (auto simp: in_walk_iff keep_parts_def)
  from p(3) show "x \<in> bare ` {p \<in> set (disk_walk d). P p}"
  proof
    assume "q = set_list (filter P (p_list p)) p"
    then have "x = bare p" using q(2) by simp
    moreover have "p \<in> set (disk_walk d)" using p(1) part_list_in_walk [of d] by blast
    ultimately show ?thesis using p(2) by blast
  next
    assume "is_ext p \<and> q \<in> set (p_list p) \<and> P q"
    moreover from this p(1) have "q \<in> set (disk_walk d)" by (auto simp: in_walk_iff)
    ultimately show ?thesis using q(2) by blast
  qed
qed

text \<open>The table after entering update mode.\<close>

lemma push_table:
  assumes l: "disk_label ops" and ok: "table_ok d"
  defines "d1 \<equiv> disk_push_update_mode ops d"
  shows "table_ok d1" "bare ` set (disk_walk d1) \<subseteq> bare ` set (disk_walk d)"
    "update_mode d1 = update_mode d + 1" "act_set d1 = act_set d" "frame d d1"
proof -
  have dk: "disk_ok d" and m: "0 \<le> update_mode d" and vt: "\<forall>p\<in>set (disk_walk d). valid_type p"
    and nf: "0 < update_mode d \<longrightarrow> (\<forall>p\<in>set (disk_walk d). \<not> is_freespace p)"
    using ok by (auto simp: table_ok_def)
  note P = disk_label.push_ok [OF l dk m, folded d1_def]
  have w: "bare ` set (disk_walk d1) \<subseteq> bare ` {p \<in> set (disk_walk d). 0 < update_mode d \<or> ped_partition_is_active p}"
  proof (cases "update_mode d = 0")
    case True
    from map_bare_walk [OF P(5) [OF True]]
    have "bare ` set (disk_walk d1) = bare ` set (disk_walk
      (d\<lparr>part_list := keep_parts ped_partition_is_active (part_list d), update_mode := 1\<rparr>))"
      by (metis image_set)
    with keep_walk_bare [where d = d and P = ped_partition_is_active and m = 1] True show ?thesis by simp
  next
    case False
    then have "disk_walk d1 = disk_walk d" by (simp add: d1_def push_in_update_mode push_nested_def)
    with False m show ?thesis by auto
  qed
  then show w': "bare ` set (disk_walk d1) \<subseteq> bare ` set (disk_walk d)" by auto
  have "valid_type p \<and> \<not> is_freespace p" if "p \<in> set (disk_walk d1)" for p
  proof -
    from that w obtain q where q: "q \<in> set (disk_walk d)" "bare p = bare q" "0 < update_mode d \<or> ped_partition_is_active q"
      by blast
    with vt have "valid_type p" using valid_type_bare by blast
    moreover have "\<not> is_freespace q" using q(1,3) nf by (auto simp: active_iff)
    ultimately show ?thesis using bare_eqD(6) [OF q(2)] by simp
  qed
  with P m show "table_ok d1" by (simp add: table_ok_def)
  show "update_mode d1 = update_mode d + 1" "frame d d1" by (fact P)+
  show "act_set d1 = act_set d" by (rule act_set_acts) (fact P(2))
qed

lemma push_new_part:
  assumes "disk_label ops" "table_ok d" "new_part_ok d part"
  shows "new_part_ok (disk_push_update_mode ops d) part"
proof -
  note P = push_table [OF assms(1,2)]
  have "p_id ` set (disk_walk (disk_push_update_mode ops d)) \<subseteq> p_id ` set (disk_walk d)"
  proof
    fix i assume "i \<in> p_id ` set (disk_walk (disk_push_update_mode ops d))"
    then obtain p where p: "p \<in> set (disk_walk (disk_push_update_mode ops d))" "i = p_id p" by blast
    with P(2) obtain q where "q \<in> set (disk_walk d)" "bare p = bare q" by blast
    with p(2) bare_eqD(1) show "i \<in> p_id ` set (disk_walk d)" by blast
  qed
  with assms(3) P(5) show ?thesis by (auto simp: new_part_ok_def frame_def)
qed

lemma ext_in_act_set:
  assumes "disk_ok d"
  shows "ped_disk_extended_partition d \<noteq> None \<longleftrightarrow> (\<exists>q\<in>act_set d. is_ext q)"
proof
  assume "ped_disk_extended_partition d \<noteq> None"
  then obtain e where e: "ped_disk_extended_partition d = Some e" by blast
  then have "e \<in> set (part_list d)" "is_ext e" unfolding ped_disk_extended_partition_def by (auto dest: find_Some_set)
  moreover from this have "bare e \<in> act_set d"
    unfolding act_set_walk [OF assms] using part_list_in_walk [of d] ext_active by blast
  ultimately show "\<exists>q\<in>act_set d. is_ext q" by (auto intro!: bexI [of _ "bare e"] simp: bare_def)
next
  assume "\<exists>q\<in>act_set d. is_ext q"
  then obtain p where p: "p \<in> set (disk_walk d)" "is_ext p"
    unfolding act_set_walk [OF assms] by (auto simp: bare_def)
  then have "p \<in> set (part_list d)"
    using assms ext_not_logical by (auto simp: in_walk_iff disk_ok_def logical_ok_def split: if_splits)
  with p(2) show "ped_disk_extended_partition d \<noteq> None"
    unfolding ped_disk_extended_partition_def by (auto simp: find_None_iff)
qed

text \<open>The region that the alignment step leaves is one the constraint allows.\<close>

lemma add_core_ok:
  assumes l: "disk_label ops" and ok: "table_ok d" and m: "0 < update_mode d" and n: "new_part_ok d part"
    and c: "constraint_small constraint" and e: "is_logical part \<longrightarrow> ped_disk_extended_partition d \<noteq> None"
    and r: "add_partition_core stack ops d part constraint = (part', Inr d2)"
  shows "can_add d part'" "disk_raw_add d part' = Some d2" "new_part_ok d part'" "p_type part' = p_type part"
    "p_id part' = p_id part" "ped_partition_is_active part \<Longrightarrow> p_geom part' \<in> solutions constraint"
proof -
  have dk: "disk_ok d" using ok by (simp add: table_ok_def)
  have chk: "check_partition d part' = None \<and> disk_raw_add d part' = Some d2 \<and> new_part_ok d part' \<and>
    p_type part' = p_type part \<and> p_id part' = p_id part \<and>
    (ped_partition_is_active part \<longrightarrow> p_geom part' \<in> solutions constraint)"
  proof (cases "ped_partition_is_active part")
    case False
    with r n show ?thesis
      by (auto simp: add_partition_core_def add_partition_checked_def split: option.splits)
  next
    case True
    let ?ov = "partition_get_overlap_constraint stack d part (p_geom part)"
    let ?cs = "ped_constraint_intersect ?ov constraint"
    have cs: "constraint_small ?cs \<and> solutions ?cs \<subseteq> solutions constraint"
    proof (cases ?ov)
      case (Some oc)
      then have u: "unaligned oc" by (rule overlap_constraint_gap [OF dk])
      from intersect_unaligned_small [OF u c] constraint_meet.sat_meet [OF unaligned_small [OF u] c]
      show ?thesis unfolding Some by blast
    qed (simp add: solutions_def constraint_small_def)
    obtain k g where k: "partition_align ops d (set_num k part) ?cs = (True, g)"
      "part' = set_geom g (set_num k part)" "check_partition d part' = None" "disk_raw_add d part' = Some d2"
      using r True
      by (auto simp: add_partition_core_def add_partition_checked_def Let_def partition_enumerate_def
          split: prod.splits bool.splits option.splits if_splits)
    from k(1) have al: "op_partition_align ops d (set_num k part) ?cs = (True, g)"
      by (auto simp: partition_align_def split: if_splits)
    have "g \<in> solutions ?cs \<and> g_dev g = g_dev (p_geom part)"
      using disk_label.partition_align [OF l _ conjunct1 [OF cs] al] n by (simp add: new_part_ok_def)
    with cs have g: "g \<in> solutions constraint" "g_dev g = g_dev (p_geom part)" by auto
    have "geometry_ok g" using g(1) by (cases constraint) (auto simp: solutions_def)
    with g(2) n k(2) have "new_part_ok d part'"
      by (simp add: new_part_ok_def valid_type_def is_ext_bit_def)
    with k g(1) show ?thesis by simp
  qed
  then show "disk_raw_add d part' = Some d2" "new_part_ok d part'" "p_type part' = p_type part" "p_id part' = p_id part"
    "ped_partition_is_active part \<Longrightarrow> p_geom part' \<in> solutions constraint" by auto
  from chk have "is_logical part' = is_logical part" by (simp add: is_logical_def)
  with check_partition_can_add [OF ok m] chk e show "can_add d part'" by auto
qed

lemma sane_disk: "disk_ok d \<Longrightarrow> disk_check_sanity d"
  by (auto simp: disk_check_sanity_def disk_ok_def logical_ok_def list_ex_iff list_all_iff
      ped_disk_extended_partition_def split: option.split dest!: find_Some_set)

lemma add_ok:
  assumes l: "disk_label ops" and ok: "table_ok d" and n: "new_part_ok d part" and act: "ped_partition_is_active part"
    and c: "constraint_small constraint"
    and r: "ped_disk_add_partition stack ops d part constraint = (err, d', part')"
  shows "disk_ok d'" "update_mode d' = update_mode d" "update_mode d = 0 \<Longrightarrow> tiled d \<Longrightarrow> tiled d'"
    "act_set d' = (if err = None then insert (bare part') (act_set d) else act_set d)"
    "err = None \<Longrightarrow> p_id part' = p_id part \<and> p_type part' = p_type part \<and> p_geom part' \<in> solutions constraint"
proof -
  let ?d1 = "disk_push_update_mode ops d"
  have dk: "disk_ok d" and m: "0 \<le> update_mode d" using ok by (auto simp: table_ok_def)
  note P = push_table [OF l ok]
  have dk1: "disk_ok ?d1" using P(1) by (simp add: table_ok_def)
  have m1: "0 < update_mode ?d1" "1 \<le> update_mode ?d1" using P(3) m by auto
  note n1 = push_new_part [OF l ok n]
  show "disk_ok d'" "update_mode d' = update_mode d" "update_mode d = 0 \<Longrightarrow> tiled d \<Longrightarrow> tiled d'"
    "act_set d' = (if err = None then insert (bare part') (act_set d) else act_set d)"
    "err = None \<Longrightarrow> p_id part' = p_id part \<and> p_type part' = p_type part \<and> p_geom part' \<in> solutions constraint"
  proof -
    have "disk_ok d' \<and> update_mode d' = update_mode d \<and> (update_mode d = 0 \<longrightarrow> tiled d \<longrightarrow> tiled d') \<and>
      act_set d' = (if err = None then insert (bare part') (act_set d) else act_set d) \<and>
      (err = None \<longrightarrow> p_id part' = p_id part \<and> p_type part' = p_type part \<and> p_geom part' \<in> solutions constraint)"
    proof (cases "partition_check_basic_sanity ops d part")
      case (Some x)
      with r dk show ?thesis by (auto simp: ped_disk_add_partition_def add_partition_with_def)
    next
      case None
      have lg: "is_logical part \<longrightarrow> ped_disk_extended_partition ?d1 \<noteq> None"
      proof
        assume "is_logical part"
        then have "ped_disk_extended_partition d \<noteq> None"
          using None by (auto simp: partition_check_basic_sanity_def split: if_splits)
        with P(4) ext_in_act_set [OF dk] ext_in_act_set [OF dk1]
        show "ped_disk_extended_partition ?d1 \<noteq> None" by simp
      qed
      show ?thesis
      proof (cases "add_partition_core stack ops ?d1 part constraint")
        case (Pair p2 res)
        show ?thesis
        proof (cases res)
          case (Inl x)
          then have r': "err = Some x" "d' = disk_pop_update_mode ops ?d1"
            using r None Pair by (auto simp: ped_disk_add_partition_def add_partition_with_def Let_def)
          note Q = disk_label.pop_ok [OF l dk1 m1(2)]
          have "act_set d' = act_set d" unfolding r' using act_set_acts [OF Q(2)] P(4) by simp
          with Q P(3) r' show ?thesis by simp
        next
          case (Inr d2)
          note C = add_core_ok [OF l P(1) m1(1) n1 c lg Pair [unfolded Inr]]
          from raw_add_ok [OF dk1 _ C(1)] m1 C(2) have dk2: "disk_ok d2" by auto
          have fr: "update_mode d2 = update_mode ?d1"
            using C(2) by (auto simp: disk_raw_add_def set_ext_list_def split: if_splits)
          note Q = disk_label.pop_ok [OF l dk2 m1(2) [folded fr]]
          have r': "err = None" "d' = disk_pop_update_mode ops d2" "part' = p2"
            using r None Pair Inr sane_disk [OF Q(1)]
            by (auto simp: ped_disk_add_partition_def add_partition_with_def Let_def)
          have pl: "p_list p2 = []" using C(3) by (simp add: new_part_ok_def)
          have a2: "ped_partition_is_active p2" using act C(4) by (simp add: ped_partition_is_active_def)
          have ac: "bare ` {p \<in> X. ped_partition_is_active p} = {q \<in> bare ` X. ped_partition_is_active q}" for X :: "'a PedPartition set"
            by (auto simp: bare_def)
          have w: "bare ` set (disk_walk d2) = insert (bare p2) (bare ` set (disk_walk ?d1))"
            by (rule walk_raw_add(1) [OF dk1 C(1) pl C(2)])
          have gen: "P x \<Longrightarrow> {q \<in> insert x X. P q} = insert x {q \<in> X. P q}" for P and x :: "'a PedPartition" and X by auto
          have ab: "ped_partition_is_active (bare p2)" using a2 by (simp add: bare_def)
          have "act_set d2 = insert (bare p2) (act_set ?d1)"
            unfolding act_set_walk [OF dk2] act_set_walk [OF dk1] ac
            using gen [of ped_partition_is_active "bare p2"] ab w by simp
          then have "act_set d' = insert (bare p2) (act_set d)"
            unfolding r' using act_set_acts [OF Q(2)] P(4) by simp
          with Q fr P(3) r' C(4,5) C(6) [OF act] show ?thesis by simp
        qed
      qed
    qed
    then show "disk_ok d'" "update_mode d' = update_mode d" "update_mode d = 0 \<Longrightarrow> tiled d \<Longrightarrow> tiled d'"
      "act_set d' = (if err = None then insert (bare part') (act_set d) else act_set d)"
      "err = None \<Longrightarrow> p_id part' = p_id part \<and> p_type part' = p_type part \<and> p_geom part' \<in> solutions constraint"
      by auto
  qed
qed

section \<open>Properties\<close>

text \<open>
  C1. \<open>ped_disk_add_partition\<close>, for every label that keeps its contract, on a well-formed table and an
  active partition that is not in it yet: on success exactly that partition has been added to the
  active ones (logical ones included), with a region that the constraint allows; on every error the
  active partitions are as before. In both cases the table is well formed, so no two partitions of a
  list overlap, the nesting of update mode is as before, and outside update mode the gaps are free
  space.
\<close>

theorem ped_disk_add_partition_correct:
  assumes "disk_label ops" and "table_ok d" and "new_part_ok d part" and "ped_partition_is_active part"
    and "constraint_small constraint"
  shows "case ped_disk_add_partition stack ops d part constraint of (err, d', part') \<Rightarrow>
    disk_ok d' \<and> update_mode d' = update_mode d \<and> (update_mode d = 0 \<and> tiled d \<longrightarrow> tiled d') \<and>
    act_set d' = (if err = None then insert (bare part') (act_set d) else act_set d) \<and>
    (err = None \<longrightarrow> p_id part' = p_id part \<and> p_type part' = p_type part \<and> p_geom part' \<in> solutions constraint)"
proof (cases "ped_disk_add_partition stack ops d part constraint")
  case (fields err d' part')
  from add_ok [OF assms fields] fields show ?thesis by simp
qed

theorem ped_disk_add_partition_correct_witness:
  "let ops = loop_disk_ops (\<lambda>_. whole_device (sample_dev 1000)) :: (unit, unit) PedDiskOps;
       part = sample_part 5 1 430 450 (-1) [];
       (err, d', part') = ped_disk_add_partition (\<lambda>_. whole_device (sample_dev 1000)) ops sample_disk part
                            (Some sample_constraint_b)
   in err = None \<and> p_geom part' = \<lparr>g_dev = sample_dev 1000, g_start = 430, g_length = 22, g_end = 451\<rparr> \<and>
      disk_ok d' \<and> act_set d' = insert (bare part') (act_set sample_disk)"
proof -
  let ?ops = "loop_disk_ops (\<lambda>_. whole_device (sample_dev 1000)) :: (unit, unit) PedDiskOps"
  let ?part = "sample_part 5 1 430 450 (-1) []"
  let ?r = "ped_disk_add_partition (\<lambda>_. whole_device (sample_dev 1000)) ?ops sample_disk ?part (Some sample_constraint_b)"
  have t: "table_ok sample_disk" using sample_disk_ok
    by (simp add: table_ok_def) (simp add: sample_disk_def disk_walk_def sub_walk_def sample_part_def valid_type_def
        is_ext_bit_def is_freespace_def ped_type_defs)
  have n: "new_part_ok sample_disk ?part"
    by (simp add: new_part_ok_def geometry_ok_def sample_part_def sample_disk_def valid_type_def is_ext_bit_def
        ped_type_defs dev_ok_def sample_dev_def disk_walk_def sub_walk_def)
  have a: "ped_partition_is_active ?part" by (simp add: ped_partition_is_active_def sample_part_def ped_type_defs)
  have v: "fst ?r = None \<and> p_geom (snd (snd ?r)) = \<lparr>g_dev = sample_dev 1000, g_start = 430, g_length = 22, g_end = 451\<rparr>"
    by code_simp
  from ped_disk_add_partition_correct [OF loop.disk_label_axioms t n a sample_constraints_ok(4),
      of "\<lambda>_. whole_device (sample_dev 1000)" "\<lambda>_. whole_device (sample_dev 1000)"] v
  show ?thesis by (simp add: Let_def split: prod.splits)
qed

text \<open>
  C4. \<open>_partition_get_overlap_constraint\<close>: every region that its constraint allows is on the disk's
  device, overlaps no other partition of the list the partition goes to, and is inside the
  extended partition if the partition is logical.
\<close>

theorem partition_get_overlap_constraint_safe:
  assumes "disk_ok d" and "partition_get_overlap_constraint stack d part geom = Some c"
    and "g \<in> solutions (Some c)" and "w \<in> set (if is_logical part then ext_list d else part_list d)"
    and "p_id w \<noteq> p_id part"
  shows "g_dev g = dk_dev d \<and> \<not> ped_geometry_test_overlap (p_geom w) g \<and>
    (is_logical part \<longrightarrow> (\<exists>e. ped_disk_extended_partition d = Some e \<and> ped_geometry_test_inside (p_geom e) g))"
proof -
  from assms(1,2) obtain lo hi where c: "lo \<le> hi"
    "solutions (Some c) = {g. geometry_ok g \<and> g_dev g = dk_dev d \<and> lo \<le> g_start g \<and> g_end g \<le> hi}"
    "\<forall>w\<in>set (the_list (is_logical part) d). p_id w \<noteq> p_id part \<longrightarrow> g_end (p_geom w) < lo \<or> hi < g_start (p_geom w)"
    "is_logical part \<longrightarrow> (\<exists>e. ped_disk_extended_partition d = Some e \<and> g_start (p_geom e) \<le> lo \<and> hi \<le> g_end (p_geom e))"
    by (rule overlap_constraint_gap)
  have g: "g_dev g = dk_dev d" "lo \<le> g_start g" "g_end g \<le> hi" using assms(3) c(2) by auto
  have "g_end (p_geom w) < lo \<or> hi < g_start (p_geom w)"
    using c(3) assms(4,5) by (simp add: the_list_def)
  moreover have "g_start (p_geom w) \<le> g_end (p_geom w)"
    using the_list_ok(1) [OF assms(1), of "is_logical part"] assms(4) geometry_okD(2)
    by (auto simp: the_list_def parts_ok_def)
  moreover have "g_start g \<le> g_end g" using assms(3) c(2) geometry_okD(2) [of g] by blast
  ultimately have "\<not> ped_geometry_test_overlap (p_geom w) g"
    using g by (auto simp: ped_geometry_test_overlap_def)
  moreover have "ped_geometry_test_inside (p_geom e) g"
    if "ped_disk_extended_partition d = Some e" "g_start (p_geom e) \<le> lo" "hi \<le> g_end (p_geom e)" for e
  proof -
    have "e \<in> set (part_list d)" using that(1) unfolding ped_disk_extended_partition_def by (auto dest: find_Some_set)
    then have "g_dev (p_geom e) = dk_dev d" using assms(1) by (auto simp: disk_ok_def parts_ok_def)
    with that g show ?thesis by (simp add: ped_geometry_test_inside_def)
  qed
  ultimately show ?thesis using c(4) g(1) by blast
qed

theorem partition_get_overlap_constraint_safe_witness:
  "let c = partition_get_overlap_constraint (\<lambda>_. whole_device (sample_dev 1000)) sample_disk
             (sample_part 5 1 430 450 (-1) []) (p_geom (sample_part 5 1 430 450 (-1) []));
       g = \<lparr>g_dev = sample_dev 1000, g_start = 401, g_length = 99, g_end = 499\<rparr>
   in g \<in> solutions c \<and> \<not> ped_geometry_test_overlap (p_geom (sample_part 4 1 301 400 6 [])) g"
proof -
  let ?p = "sample_part 5 1 430 450 (-1) []" and ?w = "sample_part 4 1 301 400 6 []"
  let ?c = "partition_get_overlap_constraint (\<lambda>_. whole_device (sample_dev 1000)) sample_disk ?p (p_geom ?p)"
  let ?g = "\<lparr>g_dev = sample_dev 1000, g_start = 401, g_length = 99, g_end = 499\<rparr>"
  have c: "?c = Some \<lparr>start_align = Some \<lparr>offset = 0, grain_size = 1\<rparr>, end_align = Some \<lparr>offset = 0, grain_size = 1\<rparr>,
      start_range = Some ?g, end_range = Some ?g, min_size = 1, max_size = 99\<rparr>" (is "_ = Some ?d")
    by code_simp
  have g: "?g \<in> solutions (Some ?d)"
    by (simp add: solutions_Some aligned_Some region_Some geometry_ok_def dev_ok_def sample_dev_def)
  have w: "?w \<in> set (if is_logical ?p then ext_list sample_disk else part_list sample_disk)" "p_id ?w \<noteq> p_id ?p"
    by (simp_all add: sample_disk_def sample_part_def ext_list_def ped_disk_extended_partition_def is_logical_def
        ped_type_defs)
  note safe = partition_get_overlap_constraint_safe [OF sample_disk_ok c g w]
  show ?thesis unfolding Let_def c using g conjunct1 [OF conjunct2 [OF safe]] by (rule conjI)
qed

definition one_sector_gap :: "(unit, unit) PedDisk" where
  "one_sector_gap = sample_disk\<lparr>part_list := [sample_part 1 0 0 499 1 [], sample_part 2 0 501 999 2 []]\<rparr>"

text \<open>
  Remark. \<open>_partition_get_overlap_constraint\<close> gives up on a gap of one sector, because it tests
  \<open>min_start >= max_end\<close> on inclusive bounds: on a table whose only free sector is 500, a new
  partition on that sector is refused.
\<close>

theorem partition_get_overlap_constraint_one_sector:
  "disk_ok one_sector_gap \<and> can_add one_sector_gap (sample_part 3 0 500 500 3 []) \<and>
   partition_get_overlap_constraint stack one_sector_gap (sample_part 3 0 500 500 3 [])
     (p_geom (sample_part 3 0 500 500 3 [])) = None"
proof (intro conjI)
  show "disk_ok one_sector_gap"
    by (simp add: disk_ok_def one_sector_gap_def sample_disk_def sample_part_def parts_ok_def is_logical_def
        disk_walk_def sub_walk_def geometry_ok_def dev_ok_def sample_dev_def ped_type_defs)
  show "can_add one_sector_gap (sample_part 3 0 500 500 3 [])"
    by (simp add: can_add_def one_sector_gap_def sample_disk_def sample_part_def is_logical_def
        disk_walk_def sub_walk_def geometry_ok_def dev_ok_def sample_dev_def ped_type_defs ped_geometry_test_overlap_def)
  show "partition_get_overlap_constraint stack one_sector_gap (sample_part 3 0 500 500 3 [])
     (p_geom (sample_part 3 0 500 500 3 [])) = None"
    by (simp add: partition_get_overlap_constraint_def one_sector_gap_def sample_disk_def sample_part_def
        is_logical_def ped_type_defs s64_def sample_dev_def)
qed

definition movable_disk :: "(unit, unit) PedDisk" where
  "movable_disk = sample_disk\<lparr>part_list := [sample_part 8 4 0 99 (-1) [], sample_part 1 0 100 199 1 [],
     sample_part 9 4 200 999 (-1) []], update_mode := 0\<rparr>"

definition unsolvable_constraint :: PedConstraint where
  "unsolvable_constraint = sample_constraint_b\<lparr>start_align := Some \<lparr>offset = 0, grain_size = 64\<rparr>,
     start_range := Some \<lparr>g_dev = sample_dev 1000, g_start = 1, g_length = 10, g_end = 10\<rparr>\<rparr>"

text \<open>
  Remark. An example. \<open>ped_disk_set_partition_geom\<close> leaves update mode before it restores the region after a failed
  alignment: the free space is computed around the region that was refused. On one tiled table, with one
  partition on sectors 100 to 199, the refused request to move it to 300 to 399 leaves free space on
  0 to 299 and on 400 to 999: sector 150 is in two partitions and sector 350 in none.
\<close>

theorem ped_disk_set_partition_geom_stale_freespace:
  "disk_ok movable_disk \<and> tiled movable_disk \<and>
   (let (err, d') = ped_disk_set_partition_geom (\<lambda>_. whole_device (sample_dev 1000))
                      (loop_disk_ops (\<lambda>_. whole_device (sample_dev 1000))) movable_disk 1
                      (Some unsolvable_constraint) 300 399
    in err = Some LabelFailure \<and> \<not> disk_ok d' \<and>
       map (\<lambda>p. (is_freespace p, g_start (p_geom p), g_end (p_geom p))) (part_list d') =
         [(True, 0, 299), (False, 100, 199), (True, 400, 999)])"
proof (intro conjI)
  let ?r = "ped_disk_set_partition_geom (\<lambda>_. whole_device (sample_dev 1000))
                      (loop_disk_ops (\<lambda>_. whole_device (sample_dev 1000))) movable_disk 1
                      (Some unsolvable_constraint) 300 399"
  show "disk_ok movable_disk"
    by (simp add: disk_ok_def movable_disk_def sample_disk_def sample_part_def parts_ok_def is_logical_def
        disk_walk_def sub_walk_def geometry_ok_def dev_ok_def sample_dev_def ped_type_defs)
  show "tiled movable_disk"
    by (simp add: tiled_def ext_covered_def ped_disk_extended_partition_def movable_disk_def sample_disk_def
        sample_part_def sample_dev_def ped_type_defs)
  have v: "fst ?r = Some LabelFailure \<and>
      map (\<lambda>p. (is_freespace p, g_start (p_geom p), g_end (p_geom p))) (part_list (snd ?r)) =
         [(True, 0, 299), (False, 100, 199), (True, 400, 999)]"
    by code_simp
  then have "\<not> disk_ok (snd ?r)"
    by (auto simp: disk_ok_def parts_ok_def map_eq_Cons_conv)
  with v show "let (err, d') = ?r
    in err = Some LabelFailure \<and> \<not> disk_ok d' \<and>
       map (\<lambda>p. (is_freespace p, g_start (p_geom p), g_end (p_geom p))) (part_list d') =
         [(True, 0, 299), (False, 100, 199), (True, 400, 999)]"
    by (simp only: Let_def case_prod_beta simp_thms not_False_eq_True)
qed

end
