(* ===== verification/Tss_Base.thy ===== *)
theory Tss_Base
  imports Prelude "HOL-Library.Word"
begin

text \<open>
  The wire format of the TPM 2.0 library (\<^verbatim>\<open>libtss2\<close>): buffers, the base functions of
  \<^verbatim>\<open>Unmarshal.c\<close> and \<^verbatim>\<open>tssmarshal.c\<close>, and the contract between the two directions.

  \<^item> An unmarshal function gets the bytes that follow \<open>*buffer\<close> in memory and the value of
    \<open>*size\<close>, and returns what it has written to its target with the buffer after it (\<open>Ok\<close>),
    or the response code with the buffer where it stopped (\<open>Fail\<close>); \<open>Overread\<close> says that it read
    past the end of memory. What a target holds after a failure is not modelled.
  \<^item> A marshal function changes \<open>*written\<close>, the memory, \<open>*buffer\<close> (an offset into the memory, or
    \<open>None\<close> for a null pointer) and \<open>*size\<close> (\<open>None\<close> for a null pointer). \<open>BadSource\<close> says that it
    read a member of its source that was never written.
\<close>

unbundle bit_operations_syntax

type_synonym byte = "8 word"

abbreviation TPM_RC_SUCCESS :: "32 word" where "TPM_RC_SUCCESS \<equiv> 0"
abbreviation TPM_RC_SIZE :: "32 word" where "TPM_RC_SIZE \<equiv> 0x95"
abbreviation TPM_RC_INSUFFICIENT :: "32 word" where "TPM_RC_INSUFFICIENT \<equiv> 0x9A"
abbreviation TSS_RC_INSUFFICIENT_BUFFER :: "32 word" where "TSS_RC_INSUFFICIENT_BUFFER \<equiv> 0xB0004"

named_theorems codec_intro "the two directions of a type agree"
named_theorems emits_intro "what a marshal function writes"

section \<open>Unmarshalling\<close>

record ubuf =
  rest :: "byte list"
  avail :: int

datatype 'a ures = Ok 'a ubuf | Fail "32 word" ubuf | Overread

type_synonym 'a unmarshal = "ubuf \<Rightarrow> 'a ures"

definition u_return :: "'a \<Rightarrow> 'a unmarshal" where
  "u_return v b = Ok v b"

definition u_fail :: "32 word \<Rightarrow> 'a unmarshal" where
  "u_fail rc b = Fail rc b"

definition u_bind :: "'a unmarshal \<Rightarrow> ('a \<Rightarrow> 'b unmarshal) \<Rightarrow> 'b unmarshal" where
  "u_bind u f b = (case u b of Ok v b' \<Rightarrow> f v b' | Fail rc b' \<Rightarrow> Fail rc b' | Overread \<Rightarrow> Overread)"

text \<open>\<open>if (bad) rc = e;\<close> before the rest of the function.\<close>

definition u_guard :: "bool \<Rightarrow> 32 word \<Rightarrow> 'a unmarshal \<Rightarrow> 'a unmarshal" where
  "u_guard bad e u = (if bad then u_fail e else u)"

definition u_map :: "('a \<Rightarrow> 'b) \<Rightarrow> 'a unmarshal \<Rightarrow> 'b unmarshal" where
  "u_map f u = u_bind u (\<lambda>v. u_return (f v))"

text \<open>\<open>for (i = 0; rc == TPM_RC_SUCCESS && i < count; i++)\<close> over the elements of an array.\<close>

fun u_list :: "nat \<Rightarrow> 'a unmarshal \<Rightarrow> 'a list unmarshal" where
  "u_list 0 u = u_return []"
| "u_list (Suc n) u = u_bind u (\<lambda>v. u_bind (u_list n u) (\<lambda>vs. u_return (v # vs)))"

text \<open>A call whose result is not kept, under a condition: the parameter size of a response with sessions.\<close>

definition u_when :: "bool \<Rightarrow> 'a unmarshal \<Rightarrow> unit unmarshal" where
  "u_when c u = (if c then u_map (\<lambda>_. ()) u else u_return ())"

text \<open>\<open>if (rc != TPM_RC_SUCCESS) rc += RC_...;\<close> after a call: the number of the parameter is added to the error.\<close>

definition u_add_rc :: "32 word \<Rightarrow> 'a unmarshal \<Rightarrow> 'a unmarshal" where
  "u_add_rc add u b = (case u b of Fail rc b' \<Rightarrow> Fail (rc + add) b' | r \<Rightarrow> r)"

text \<open>The value of \<open>*size\<close>.\<close>

definition u_size :: "int unmarshal" where
  "u_size b = Ok (avail b) b"

text \<open>The first \<open>n\<close> bytes of the buffer, after the test that each base function makes on \<open>*size\<close>.\<close>

definition u_take :: "nat \<Rightarrow> byte list unmarshal" where
  "u_take n b = (if length (rest b) < n then Overread
     else Ok (take n (rest b)) \<lparr>rest = drop n (rest b), avail = s32 (avail b - int n)\<rparr>)"

definition u_fixed :: "nat \<Rightarrow> byte list unmarshal" where
  "u_fixed n b = (if (word_of_int (avail b) :: 32 word) < of_nat n then Fail TPM_RC_INSUFFICIENT b else u_take n b)"

definition UINT8_Unmarshal :: "8 word unmarshal" where
  "UINT8_Unmarshal = u_bind (u_fixed 1) (\<lambda>buffer. u_return (buffer ! 0))"

definition INT8_Unmarshal :: "8 word unmarshal" where
  "INT8_Unmarshal = UINT8_Unmarshal"

definition UINT16_Unmarshal :: "16 word unmarshal" where
  "UINT16_Unmarshal = u_bind (u_fixed 2) (\<lambda>buffer. u_return
     (push_bit 8 (ucast (buffer ! 0)) OR push_bit 0 (ucast (buffer ! 1))))"

definition UINT32_Unmarshal :: "32 word unmarshal" where
  "UINT32_Unmarshal = u_bind (u_fixed 4) (\<lambda>buffer. u_return
     (push_bit 24 (ucast (buffer ! 0)) OR push_bit 16 (ucast (buffer ! 1)) OR
      push_bit 8 (ucast (buffer ! 2)) OR push_bit 0 (ucast (buffer ! 3))))"

definition INT32_Unmarshal :: "32 word unmarshal" where
  "INT32_Unmarshal = UINT32_Unmarshal"

definition UINT64_Unmarshal :: "64 word unmarshal" where
  "UINT64_Unmarshal = u_bind (u_fixed 8) (\<lambda>buffer. u_return
     (push_bit 56 (ucast (buffer ! 0)) OR push_bit 48 (ucast (buffer ! 1)) OR
      push_bit 40 (ucast (buffer ! 2)) OR push_bit 32 (ucast (buffer ! 3)) OR
      push_bit 24 (ucast (buffer ! 4)) OR push_bit 16 (ucast (buffer ! 5)) OR
      push_bit 8 (ucast (buffer ! 6)) OR push_bit 0 (ucast (buffer ! 7))))"

definition Array_Unmarshal :: "16 word \<Rightarrow> byte list unmarshal" where
  "Array_Unmarshal targetSize b =
     (if int (unat targetSize) > avail b then Fail TPM_RC_INSUFFICIENT b else u_take (unat targetSize) b)"

text \<open>A sized buffer: the union \<open>TPM2B\<close> and its instances, which differ in the length of the array.\<close>

record TPM2B =
  TPM2B_size :: "16 word"
  TPM2B_buffer :: "byte list"

definition TPM2B_Unmarshal :: "16 word \<Rightarrow> TPM2B unmarshal" where
  "TPM2B_Unmarshal targetSize =
     u_bind UINT16_Unmarshal (\<lambda>size.
     u_guard (size > targetSize) TPM_RC_SIZE (
     u_bind (Array_Unmarshal size) (\<lambda>buffer.
     u_return \<lparr>TPM2B_size = size, TPM2B_buffer = buffer\<rparr>)))"

section \<open>Marshalling\<close>

record mst =
  written :: "16 word"
  memory :: "nat \<Rightarrow> byte"
  position :: "nat option"
  room :: "int option"

datatype mres = Done "32 word" mst | BadSource

type_synonym marshal = "mst \<Rightarrow> mres"

definition m_done :: marshal where
  "m_done s = Done 0 s"

definition m_fail :: "32 word \<Rightarrow> marshal" where
  "m_fail rc s = Done rc s"

definition m_bad :: marshal where
  "m_bad s = BadSource"

text \<open>\<open>if (rc == 0) rc = ...;\<close> after a first call.\<close>

definition m_then :: "marshal \<Rightarrow> marshal \<Rightarrow> marshal" where
  "m_then m m' s = (case m s of Done rc s' \<Rightarrow> if rc = 0 then m' s' else Done rc s' | BadSource \<Rightarrow> BadSource)"

text \<open>The loop over the first \<open>n\<close> elements of an array of the source.\<close>

fun m_list :: "nat \<Rightarrow> ('a \<Rightarrow> marshal) \<Rightarrow> 'a list \<Rightarrow> marshal" where
  "m_list 0 m vs = m_done"
| "m_list (Suc n) m [] = m_bad"
| "m_list (Suc n) m (v # vs) = m_then (m v) (m_list n m vs)"

definition put_bytes :: "nat \<Rightarrow> byte list \<Rightarrow> (nat \<Rightarrow> byte) \<Rightarrow> nat \<Rightarrow> byte" where
  "put_bytes p bs mem a = (if p \<le> a \<and> a < p + length bs then bs ! (a - p) else mem a)"

text \<open>
  The common body of the base functions: \<open>enough\<close> is their test of \<open>*size\<close>, made only if neither
  pointer is null. The bytes are counted in \<open>*written\<close> in every case.
\<close>

definition m_put :: "(int \<Rightarrow> bool) \<Rightarrow> byte list \<Rightarrow> marshal" where
  "m_put enough bs s =
     (let n = length bs;
          s1 = s\<lparr>written := written s + of_nat n\<rparr>
      in case position s of
           None \<Rightarrow> Done 0 s1
         | Some p \<Rightarrow>
             (case room s of
                None \<Rightarrow> Done 0 (s1\<lparr>memory := put_bytes p bs (memory s), position := Some (p + n)\<rparr>)
              | Some r \<Rightarrow>
                  if enough r
                  then Done 0 (s1\<lparr>memory := put_bytes p bs (memory s), position := Some (p + n),
                                  room := Some (s32 (r - int n))\<rparr>)
                  else Done TSS_RC_INSUFFICIENT_BUFFER s1))"

definition m_fixed :: "byte list \<Rightarrow> marshal" where
  "m_fixed bs = m_put (\<lambda>r. (word_of_int r :: 32 word) \<ge> of_nat (length bs)) bs"

definition TSS_UINT8_Marshal :: "8 word \<Rightarrow> marshal" where
  "TSS_UINT8_Marshal source = m_fixed [source]"

definition TSS_INT8_Marshal :: "8 word \<Rightarrow> marshal" where
  "TSS_INT8_Marshal source = TSS_UINT8_Marshal source"

definition TSS_UINT16_Marshal :: "16 word \<Rightarrow> marshal" where
  "TSS_UINT16_Marshal source = m_fixed
     [ucast (drop_bit 8 source AND 0xff), ucast (drop_bit 0 source AND 0xff)]"

definition TSS_UINT32_Marshal :: "32 word \<Rightarrow> marshal" where
  "TSS_UINT32_Marshal source = m_fixed
     [ucast (drop_bit 24 source AND 0xff), ucast (drop_bit 16 source AND 0xff),
      ucast (drop_bit 8 source AND 0xff), ucast (drop_bit 0 source AND 0xff)]"

definition TSS_INT32_Marshal :: "32 word \<Rightarrow> marshal" where
  "TSS_INT32_Marshal source = TSS_UINT32_Marshal source"

definition TSS_UINT64_Marshal :: "64 word \<Rightarrow> marshal" where
  "TSS_UINT64_Marshal source = m_fixed
     [ucast (drop_bit 56 source AND 0xff), ucast (drop_bit 48 source AND 0xff),
      ucast (drop_bit 40 source AND 0xff), ucast (drop_bit 32 source AND 0xff),
      ucast (drop_bit 24 source AND 0xff), ucast (drop_bit 16 source AND 0xff),
      ucast (drop_bit 8 source AND 0xff), ucast (drop_bit 0 source AND 0xff)]"

definition TSS_Array_Marshal :: "byte list \<Rightarrow> 16 word \<Rightarrow> marshal" where
  "TSS_Array_Marshal source sourceSize =
     (if length source < unat sourceSize then m_bad
      else m_put (\<lambda>r. r \<ge> int (unat sourceSize)) (take (unat sourceSize) source))"

text \<open>
  The body that the sized structures share: it leaves room for the size, marshals the structure, and fills
  in the number of bytes written. \<open>null\<close> is what it adds for the size when the buffer is null.
\<close>

definition m_sized :: "16 word \<Rightarrow> marshal \<Rightarrow> marshal" where
  "m_sized null m s =
     (case m (s\<lparr>written := 0, position := map_option (\<lambda>p. p + 2) (position s)\<rparr>) of
        BadSource \<Rightarrow> BadSource
      | Done rc s1 \<Rightarrow>
          if rc = 0
          then let sizeWritten = written s1;
                   s2 = s1\<lparr>written := written s + sizeWritten, position := position s\<rparr>
               in case position s of
                    None \<Rightarrow> Done 0 (s2\<lparr>written := written s2 + null\<rparr>)
                  | Some sizePtr \<Rightarrow>
                      (case TSS_UINT16_Marshal sizeWritten s2 of
                         BadSource \<Rightarrow> BadSource
                       | Done rc' s3 \<Rightarrow> Done rc' (s3\<lparr>position := position s1\<rparr>))
          else Done rc (s1\<lparr>written := written s\<rparr>))"

definition TSS_TPM2B_Marshal :: "TPM2B \<Rightarrow> marshal" where
  "TSS_TPM2B_Marshal source =
     m_then (TSS_UINT16_Marshal (TPM2B_size source))
       (TSS_Array_Marshal (TPM2B_buffer source) (TPM2B_size source))"

section \<open>What a marshal function writes\<close>

text \<open>The states the callers make: \<open>*size\<close> is a count of bytes.\<close>

definition good :: "mst \<Rightarrow> bool" where
  "good s \<longleftrightarrow> (\<forall>r. room s = Some r \<longrightarrow> 0 \<le> r \<and> r < 2 ^ 31)"

definition fits :: "nat \<Rightarrow> mst \<Rightarrow> bool" where
  "fits n s \<longleftrightarrow> position s = None \<or> room s = None \<or> int n \<le> the (room s)"

definition emit :: "byte list \<Rightarrow> mst \<Rightarrow> mst" where
  "emit bs s = (case position s of
       None \<Rightarrow> s\<lparr>written := written s + of_nat (length bs)\<rparr>
     | Some p \<Rightarrow> s\<lparr>written := written s + of_nat (length bs), memory := put_bytes p bs (memory s),
          position := Some (p + length bs), room := map_option (\<lambda>r. r - int (length bs)) (room s)\<rparr>)"

text \<open>
  \<open>emits k m rc bs\<close>: with enough room, \<open>m\<close> writes \<open>bs\<close>, advances by their number and returns \<open>rc\<close>;
  with too little room it returns the error for that, and has written at most \<open>k\<close> bytes past the end of the
  buffer and nothing before its start.
\<close>

definition inside_buffer :: "nat \<Rightarrow> mst \<Rightarrow> mst \<Rightarrow> bool" where
  "inside_buffer k s s' \<longleftrightarrow> (\<forall>a. memory s' a \<noteq> memory s a \<longrightarrow>
     the (position s) \<le> a \<and> int a < int (the (position s)) + the (room s) + int k)"

definition emits :: "nat \<Rightarrow> marshal \<Rightarrow> 32 word \<Rightarrow> byte list \<Rightarrow> bool" where
  "emits k m rc bs \<longleftrightarrow> (\<forall>s. good s \<longrightarrow>
     (fits (length bs) s \<longrightarrow> m s = Done rc (emit bs s)) \<and>
     (\<not> fits (length bs) s \<longrightarrow>
        (\<exists>s'. m s = Done TSS_RC_INSUFFICIENT_BUFFER s' \<and> inside_buffer k s s')))"

lemma emitsI:
  assumes "\<And>s. good s \<Longrightarrow> fits (length bs) s \<Longrightarrow> m s = Done rc (emit bs s)"
    and "\<And>s. good s \<Longrightarrow> \<not> fits (length bs) s \<Longrightarrow>
      \<exists>s'. m s = Done TSS_RC_INSUFFICIENT_BUFFER s' \<and> inside_buffer k s s'"
  shows "emits k m rc bs"
  using assms unfolding emits_def by blast

lemma emits_fits: "emits k m rc bs \<Longrightarrow> good s \<Longrightarrow> fits (length bs) s \<Longrightarrow> m s = Done rc (emit bs s)"
  unfolding emits_def by blast

lemma emits_short:
  assumes "emits k m rc bs" "good s" "\<not> fits (length bs) s"
  obtains s' where "m s = Done TSS_RC_INSUFFICIENT_BUFFER s'" "inside_buffer k s s'"
  using assms unfolding emits_def by blast

lemma good_emit: "good s \<Longrightarrow> fits (length bs) s \<Longrightarrow> good (emit bs s)"
  by (auto simp: good_def fits_def emit_def split: option.splits)

lemma put_bytes_append:
  "put_bytes (p + length bs) cs (put_bytes p bs mem) = put_bytes p (bs @ cs) mem"
  by (rule ext) (auto simp: put_bytes_def nth_append)

lemma put_bytes_Nil [simp]: "put_bytes p [] mem = mem"
  by (rule ext) (auto simp: put_bytes_def)

lemma emit_append: "emit cs (emit bs s) = emit (bs @ cs) s"
  by (simp add: emit_def put_bytes_append option.map_comp comp_def algebra_simps split: option.split)

lemma emit_Nil [simp]: "emit [] s = s"
  by (cases s) (simp add: emit_def option.map_ident split: option.split)

lemma fits_append: "fits (length bs + length cs) s \<longleftrightarrow> fits (length bs) s \<and> fits (length cs) (emit bs s)"
  by (cases "position s"; cases "room s") (auto simp: fits_def emit_def)

lemma fits_0 [simp]: "good s \<Longrightarrow> fits 0 s"
  by (cases "room s") (auto simp: fits_def good_def)

lemma emits_done [emits_intro]: "emits k m_done 0 []"
  by (rule emitsI) (simp_all add: m_done_def)

lemma emits_fail: "emits k (m_fail rc) rc []"
  by (rule emitsI) (simp_all add: m_fail_def)

lemma emits_then:
  assumes m: "emits k m 0 bs" and m': "emits k m' rc cs"
  shows "emits k (m_then m m') rc (bs @ cs)"
proof (rule emitsI)
  fix s assume g: "good s" and "fits (length (bs @ cs)) s"
  then have f: "fits (length bs) s" "fits (length cs) (emit bs s)" by (simp_all add: fits_append)
  show "m_then m m' s = Done rc (emit (bs @ cs) s)"
    using emits_fits [OF m g f(1)] emits_fits [OF m' good_emit [OF g f(1)] f(2)]
    by (simp add: m_then_def emit_append)
next
  fix s assume g: "good s" and nf: "\<not> fits (length (bs @ cs)) s"
  show "\<exists>s'. m_then m m' s = Done TSS_RC_INSUFFICIENT_BUFFER s' \<and> inside_buffer k s s'"
  proof (cases "fits (length bs) s")
    case True
    with nf have f: "\<not> fits (length cs) (emit bs s)" by (simp add: fits_append)
    then obtain p r where pr: "position s = Some p" "room s = Some r" "int (length bs) \<le> r"
      using True by (auto simp: fits_def emit_def split: option.splits)
    have e: "position (emit bs s) = Some (p + length bs)" "room (emit bs s) = Some (r - int (length bs))"
      "memory (emit bs s) = put_bytes p bs (memory s)" using pr by (simp_all add: emit_def)
    from emits_short [OF m' good_emit [OF g True] f] obtain s'
      where s': "m' (emit bs s) = Done TSS_RC_INSUFFICIENT_BUFFER s'" "inside_buffer k (emit bs s) s'" .
    have "p \<le> a \<and> int a < int p + r + int k" if d: "memory s' a \<noteq> memory s a" for a
    proof (cases "memory s' a = memory (emit bs s) a")
      case True
      with d have "put_bytes p bs (memory s) a \<noteq> memory s a" using e(3) by simp
      then have "p \<le> a" "a < p + length bs" by (auto simp: put_bytes_def split: if_splits)
      with pr(3) show ?thesis by auto
    next
      case False
      with s'(2) e(1,2) have "p + length bs \<le> a" "int a < int (p + length bs) + (r - int (length bs)) + int k"
        unfolding inside_buffer_def by auto
      then show ?thesis by auto
    qed
    then have "inside_buffer k s s'" using pr(1,2) by (simp add: inside_buffer_def)
    moreover have "m_then m m' s = Done TSS_RC_INSUFFICIENT_BUFFER s'"
      using s'(1) emits_fits [OF m g True] by (simp add: m_then_def)
    ultimately show ?thesis by blast
  next
    case False
    from emits_short [OF m g this] obtain s'
      where "m s = Done TSS_RC_INSUFFICIENT_BUFFER s'" "inside_buffer k s s'" .
    then show ?thesis by (auto simp: m_then_def)
  qed
qed

text \<open>An error stops the function.\<close>

lemma emits_stop:
  assumes m: "emits k m rc bs" and rc: "rc \<noteq> 0"
  shows "emits k (m_then m m') rc bs"
proof (rule emitsI)
  fix s assume "good s" "fits (length bs) s"
  from emits_fits [OF m this] rc show "m_then m m' s = Done rc (emit bs s)" by (simp add: m_then_def)
next
  fix s assume "good s" "\<not> fits (length bs) s"
  from emits_short [OF m this] obtain s'
    where "m s = Done TSS_RC_INSUFFICIENT_BUFFER s'" "inside_buffer k s s'" .
  then show "\<exists>s'. m_then m m' s = Done TSS_RC_INSUFFICIENT_BUFFER s' \<and> inside_buffer k s s'"
    by (auto simp: m_then_def)
qed

lemma inside_buffer_mono: "inside_buffer k s s' \<Longrightarrow> k \<le> l \<Longrightarrow> inside_buffer l s s'"
  unfolding inside_buffer_def by fastforce

lemma emits_mono: "emits k m rc bs \<Longrightarrow> k \<le> l \<Longrightarrow> emits l m rc bs"
  unfolding emits_def using inside_buffer_mono by blast

lemma emits_put:
  assumes "\<And>r. 0 \<le> r \<Longrightarrow> r < 2 ^ 31 \<Longrightarrow> enough r \<longleftrightarrow> int (length bs) \<le> r"
  shows "emits k (m_put enough bs) 0 bs"
proof (rule emitsI)
  fix s assume g: "good s" and f: "fits (length bs) s"
  show "m_put enough bs s = Done 0 (emit bs s)"
  proof (cases "position s")
    case (Some p)
    show ?thesis
    proof (cases "room s")
      case r: (Some r)
      with g f Some have b: "0 \<le> r" "r < 2 ^ 31" "int (length bs) \<le> r" by (auto simp: good_def fits_def)
      then have "s32 (r - int (length bs)) = r - int (length bs)" by (intro s32_id) auto
      with b assms Some r show ?thesis by (simp add: m_put_def emit_def Let_def)
    qed (simp add: Some m_put_def emit_def Let_def)
  qed (simp add: m_put_def emit_def Let_def)
next
  fix s assume g: "good s" and f: "\<not> fits (length bs) s"
  then obtain p r where "position s = Some p" "room s = Some r" "0 \<le> r" "r < 2 ^ 31" "\<not> int (length bs) \<le> r"
    by (auto simp: good_def fits_def)
  with assms show "\<exists>s'. m_put enough bs s = Done TSS_RC_INSUFFICIENT_BUFFER s' \<and> inside_buffer k s s'"
    by (simp add: m_put_def Let_def inside_buffer_def)
qed

lemma emits_fixed [emits_intro]:
  assumes "length bs \<le> 8"
  shows "emits k (m_fixed bs) 0 bs"
  unfolding m_fixed_def
proof (rule emits_put)
  fix r :: int assume r: "0 \<le> r" "r < 2 ^ 31"
  have "uint (word_of_int r :: 32 word) = r mod 2 ^ 32" by (simp only: uint_word_of_int len_num0 len_bit0) simp
  then have "unat (word_of_int r :: 32 word) = nat r" using r by (simp only: unat_eq_nat_uint) simp
  moreover have "unat (of_nat (length bs) :: 32 word) = length bs"
    using assms by (simp add: unat_of_nat)
  ultimately show "(of_nat (length bs) \<le> (word_of_int r :: 32 word)) \<longleftrightarrow> int (length bs) \<le> r"
    unfolding word_le_nat_alt using r(1) by (simp only: le_nat_iff)
qed

section \<open>Bytes of a word\<close>

lemma ucast_low_byte: "(ucast (w AND 0xff :: 'a :: len word) :: 8 word) = ucast w"
proof -
  have "(0xff :: 'a word) = mask 8" by (simp add: mask_eq_exp_minus_1)
  then show ?thesis
    by (intro bit_word_eqI) (simp only: bit_unsigned_iff bit_and_iff bit_mask_iff, auto dest: bit_imp_le_length)
qed

lemma bit_byte: "bit (ucast (drop_bit k w :: 'a :: len word) :: 8 word) n \<longleftrightarrow> n < 8 \<and> bit w (k + n)"
  by (auto simp: bit_simps dest: bit_imp_le_length)

lemma bit_shifted: "bit (push_bit k (ucast (a :: 8 word)) :: 'a :: len word) n \<longleftrightarrow> k \<le> n \<and> n < k + 8 \<and> n < LENGTH('a) \<and> bit a (n - k)"
  by (auto simp: bit_simps dest: bit_imp_le_length)

lemma bit_byte_back: "bit (push_bit k (ucast (ucast (drop_bit k (w :: 'a :: len word)) :: 8 word)) :: 'a word) n \<longleftrightarrow> k \<le> n \<and> n < k + 8 \<and> bit w n"
  unfolding bit_shifted bit_byte by (auto dest: bit_imp_le_length)

lemma word16_bytes: "(push_bit 8 (ucast (ucast (drop_bit 8 w AND 0xff) :: 8 word)) OR
    push_bit 0 (ucast (ucast (drop_bit 0 w AND 0xff) :: 8 word)) :: 16 word) = w"
  unfolding ucast_low_byte
  by (rule bit_word_eqI, case_tac "bit w n") (simp_all only: bit_or_iff bit_byte_back, simp_all, arith)

lemma word32_bytes: "(push_bit 24 (ucast (ucast (drop_bit 24 w AND 0xff) :: 8 word)) OR
    push_bit 16 (ucast (ucast (drop_bit 16 w AND 0xff) :: 8 word)) OR
    push_bit 8 (ucast (ucast (drop_bit 8 w AND 0xff) :: 8 word)) OR
    push_bit 0 (ucast (ucast (drop_bit 0 w AND 0xff) :: 8 word)) :: 32 word) = w"
  unfolding ucast_low_byte
  by (rule bit_word_eqI, case_tac "bit w n") (simp_all only: bit_or_iff bit_byte_back, simp_all, arith)

lemma word64_bytes: "(push_bit 56 (ucast (ucast (drop_bit 56 w AND 0xff) :: 8 word)) OR
    push_bit 48 (ucast (ucast (drop_bit 48 w AND 0xff) :: 8 word)) OR
    push_bit 40 (ucast (ucast (drop_bit 40 w AND 0xff) :: 8 word)) OR
    push_bit 32 (ucast (ucast (drop_bit 32 w AND 0xff) :: 8 word)) OR
    push_bit 24 (ucast (ucast (drop_bit 24 w AND 0xff) :: 8 word)) OR
    push_bit 16 (ucast (ucast (drop_bit 16 w AND 0xff) :: 8 word)) OR
    push_bit 8 (ucast (ucast (drop_bit 8 w AND 0xff) :: 8 word)) OR
    push_bit 0 (ucast (ucast (drop_bit 0 w AND 0xff) :: 8 word)) :: 64 word) = w"
  unfolding ucast_low_byte
  by (rule bit_word_eqI, case_tac "bit w n") (simp_all only: bit_or_iff bit_byte_back, simp_all, arith)

lemma bytes_word16:
  assumes "(w :: 16 word) = push_bit 8 (ucast (a :: 8 word)) OR push_bit 0 (ucast (b :: 8 word))"
  shows "ucast (drop_bit 8 w AND 0xff) = a" "ucast (drop_bit 0 w AND 0xff) = b"
  unfolding assms ucast_low_byte
  by (rule bit_word_eqI, simp only: bit_or_iff bit_shifted bit_byte len_num1 len_num0 len_bit0, force dest: bit_imp_le_length)+

lemma bytes_word32:
  assumes "(w :: 32 word) = push_bit 24 (ucast (a :: 8 word)) OR push_bit 16 (ucast (b :: 8 word)) OR
    push_bit 8 (ucast (c :: 8 word)) OR push_bit 0 (ucast (d :: 8 word))"
  shows "ucast (drop_bit 24 w AND 0xff) = a" "ucast (drop_bit 16 w AND 0xff) = b"
    "ucast (drop_bit 8 w AND 0xff) = c" "ucast (drop_bit 0 w AND 0xff) = d"
  unfolding assms ucast_low_byte
  by (rule bit_word_eqI, simp only: bit_or_iff bit_shifted bit_byte len_num1 len_num0 len_bit0, force dest: bit_imp_le_length)+

lemma bytes_word64:
  assumes "(w :: 64 word) = push_bit 56 (ucast (a :: 8 word)) OR push_bit 48 (ucast (b :: 8 word)) OR
    push_bit 40 (ucast (c :: 8 word)) OR push_bit 32 (ucast (d :: 8 word)) OR
    push_bit 24 (ucast (e :: 8 word)) OR push_bit 16 (ucast (f :: 8 word)) OR
    push_bit 8 (ucast (g :: 8 word)) OR push_bit 0 (ucast (h :: 8 word))"
  shows "ucast (drop_bit 56 w AND 0xff) = a" "ucast (drop_bit 48 w AND 0xff) = b"
    "ucast (drop_bit 40 w AND 0xff) = c" "ucast (drop_bit 32 w AND 0xff) = d"
    "ucast (drop_bit 24 w AND 0xff) = e" "ucast (drop_bit 16 w AND 0xff) = f"
    "ucast (drop_bit 8 w AND 0xff) = g" "ucast (drop_bit 0 w AND 0xff) = h"
  unfolding assms ucast_low_byte
  by (rule bit_word_eqI, simp only: bit_or_iff bit_shifted bit_byte len_num1 len_num0 len_bit0, force dest: bit_imp_le_length)+

section \<open>The contract between the two directions\<close>

text \<open>
  \<open>u_good\<close>: the callers pass the number of bytes that are really there. \<open>parses u bs v\<close>: whatever follows, \<open>u\<close>
  reads \<open>v\<close> from \<open>bs\<close> and stops after them.
\<close>

definition u_good :: "ubuf \<Rightarrow> bool" where
  "u_good b \<longleftrightarrow> 0 \<le> avail b \<and> avail b \<le> int (length (rest b)) \<and> avail b < 2 ^ 31"

definition parses :: "'a unmarshal \<Rightarrow> byte list \<Rightarrow> 'a \<Rightarrow> bool" where
  "parses u bs v \<longleftrightarrow> (\<forall>r n. int (length bs) \<le> n \<and> n < 2 ^ 31 \<longrightarrow>
     u \<lparr>rest = bs @ r, avail = n\<rparr> = Ok v \<lparr>rest = r, avail = n - int (length bs)\<rparr>)"

definition consumed :: "ubuf \<Rightarrow> byte list \<Rightarrow> ubuf \<Rightarrow> bool" where
  "consumed b bs b' \<longleftrightarrow> rest b = bs @ rest b' \<and> avail b' = avail b - int (length bs) \<and> int (length bs) \<le> avail b"

text \<open>
  \<open>reads_e E k ps u m\<close>, where \<open>ps\<close> has been read before: on a good buffer \<open>u\<close> never reads past its end; if it
  fails, with a response code in \<open>E\<close>, it has only moved forward inside the buffer; and if it returns \<open>v\<close>, then it has
  consumed bytes from which it always reads \<open>v\<close>, and marshalling \<open>v\<close> with \<open>m\<close> writes \<open>ps\<close> and
  exactly those bytes. The errors of the types are below \<open>0x1000\<close>; a command adds the number of the parameter.
\<close>

definition basic_error :: "32 word \<Rightarrow> bool" where
  "basic_error rc \<longleftrightarrow> rc \<noteq> 0 \<and> rc < 0x1000"

definition param_error :: "32 word \<Rightarrow> bool" where
  "param_error rc \<longleftrightarrow> rc \<noteq> 0 \<and> rc < 0x2000"

lemmas basic_error_numeral [simp] = basic_error_def [of "numeral n" for n]

definition reads_e :: "(32 word \<Rightarrow> bool) \<Rightarrow> nat \<Rightarrow> byte list \<Rightarrow> 'a unmarshal \<Rightarrow> ('a \<Rightarrow> marshal) \<Rightarrow> bool" where
  "reads_e E k ps u m \<longleftrightarrow> (\<forall>b. u_good b \<longrightarrow>
     (case u b of
        Ok v b' \<Rightarrow> \<exists>bs. consumed b bs b' \<and> parses u bs v \<and> emits k (m v) 0 (ps @ bs)
      | Fail rc b' \<Rightarrow> E rc \<and> (\<exists>bs. consumed b bs b')
      | Overread \<Rightarrow> False))"

abbreviation reads :: "nat \<Rightarrow> byte list \<Rightarrow> 'a unmarshal \<Rightarrow> ('a \<Rightarrow> marshal) \<Rightarrow> bool" where
  "reads \<equiv> reads_e basic_error"

lemma consumed_good: "u_good b \<Longrightarrow> consumed b bs b' \<Longrightarrow> u_good b'"
  by (auto simp: u_good_def consumed_def)

lemma consumed_Nil [simp]: "u_good b \<Longrightarrow> consumed b [] b"
  by (simp add: u_good_def consumed_def)

lemma consumed_append: "consumed b bs b' \<Longrightarrow> consumed b' cs b'' \<Longrightarrow> consumed b (bs @ cs) b''"
  by (auto simp: consumed_def)

lemma parses_return: "parses (u_return v) [] v"
  by (simp add: parses_def u_return_def)

lemma parses_bind:
  assumes "parses u bs x" "parses (f x) cs v"
  shows "parses (u_bind u f) (bs @ cs) v"
  using assms by (auto simp: parses_def u_bind_def algebra_simps)

lemma readsE:
  assumes "reads_e E k ps u m" "u_good b"
  obtains (ok) v b' bs where "u b = Ok v b'" "consumed b bs b'" "parses u bs v" "emits k (m v) 0 (ps @ bs)"
    | (failed) rc b' bs where "u b = Fail rc b'" "E rc" "consumed b bs b'"
proof -
  from assms have "case u b of
        Ok v b' \<Rightarrow> \<exists>bs. consumed b bs b' \<and> parses u bs v \<and> emits k (m v) 0 (ps @ bs)
      | Fail rc b' \<Rightarrow> E rc \<and> (\<exists>bs. consumed b bs b')
      | Overread \<Rightarrow> False" by (auto simp: reads_e_def)
  then show ?thesis using ok failed by (cases "u b") auto
qed

lemma reads_return: "emits k (m v) 0 ps \<Longrightarrow> reads_e E k ps (u_return v) m"
  unfolding reads_e_def
  by (auto simp: u_return_def parses_return [unfolded u_return_def] parses_def intro!: exI [of _ "[]"])

lemma reads_fail: "E rc \<Longrightarrow> reads_e E k ps (u_fail rc) m"
  unfolding reads_e_def by (auto simp: u_fail_def intro!: exI [of _ "[]"])

lemma reads_guard: "E e \<Longrightarrow> (\<not> bad \<Longrightarrow> reads_e E k ps u m) \<Longrightarrow> reads_e E k ps (u_guard bad e u) m"
  by (simp add: u_guard_def reads_fail)

text \<open>A call of another function, whose own contract is that of a field of the result.\<close>

lemma reads_bind:
  assumes u: "reads_e E k [] u mu" and f: "\<And>x bs. emits k (mu x) 0 bs \<Longrightarrow> reads_e E k (ps @ bs) (f x) m"
  shows "reads_e E k ps (u_bind u f) m"
  unfolding reads_e_def
proof (intro allI impI)
  fix b assume g: "u_good b"
  from u g show "case u_bind u f b of
        Ok v b' \<Rightarrow> \<exists>bs. consumed b bs b' \<and> parses (u_bind u f) bs v \<and> emits k (m v) 0 (ps @ bs)
      | Fail rc b' \<Rightarrow> E rc \<and> (\<exists>bs. consumed b bs b')
      | Overread \<Rightarrow> False"
  proof (cases rule: readsE)
    case (ok x b1 bs)
    from f [of x bs] ok(4) have fx: "reads_e E k (ps @ bs) (f x) m" by simp
    note g1 = consumed_good [OF g ok(2)]
    from fx g1 show ?thesis
    proof (cases rule: readsE)
      case o2: (ok v b2 cs)
      then show ?thesis
        using ok consumed_append [OF ok(2) o2(2)] parses_bind [where f = f, OF ok(3) o2(3)]
        by (auto simp: u_bind_def)
    next
      case (failed rc b2 cs)
      then show ?thesis using ok consumed_append [OF ok(2) failed(3)] by (auto simp: u_bind_def)
    qed
  next
    case (failed rc b1 bs)
    then show ?thesis by (auto simp: u_bind_def)
  qed
qed

section \<open>The contract for the base functions\<close>

lemma emits_unique:
  assumes "emits k m rc bs" "emits k' m rc' cs"
  shows "bs = cs"
proof -
  have eq: "emit bs (s :: mst) = emit cs s" if "good s" "position s \<noteq> None" "room s = None" for s
    using emits_fits [OF assms(1) that(1)] emits_fits [OF assms(2) that(1)] that by (simp add: fits_def)
  let ?s = "\<lambda>mem. \<lparr>written = 0, memory = mem, position = Some 0, room = None\<rparr> :: mst"
  have e: "put_bytes 0 bs mem = put_bytes 0 cs mem \<and> length bs = length cs" for mem
    using eq [of "?s mem"] by (simp add: good_def emit_def)
  show ?thesis
  proof (rule nth_equalityI)
    show "length bs = length cs" using e by blast
    show "bs ! i = cs ! i" if i: "i < length bs" for i
    proof -
      have "put_bytes 0 bs (\<lambda>_. 0) i = put_bytes 0 cs (\<lambda>_. 0) i" "length bs = length cs" using e by simp_all
      with i show ?thesis by (simp add: put_bytes_def)
    qed
  qed
qed

lemma not_emits_bad: "\<not> emits k m_bad rc bs"
proof
  assume "emits k m_bad rc bs"
  from emits_fits [OF this, of "\<lparr>written = 0, memory = \<lambda>_. 0, position = None, room = None\<rparr>"]
  show False by (simp add: m_bad_def good_def fits_def)
qed

lemma u_take_good:
  assumes "u_good b" "int n \<le> avail b"
  shows "u_take n b = Ok (take n (rest b)) \<lparr>rest = drop n (rest b), avail = avail b - int n\<rparr>"
    "consumed b (take n (rest b)) \<lparr>rest = drop n (rest b), avail = avail b - int n\<rparr>"
    "length (take n (rest b)) = n"
proof -
  have "s32 (avail b - int n) = avail b - int n" using assms by (intro s32_id) (auto simp: u_good_def)
  then show "u_take n b = Ok (take n (rest b)) \<lparr>rest = drop n (rest b), avail = avail b - int n\<rparr>"
    using assms by (auto simp: u_take_def u_good_def)
  show "consumed b (take n (rest b)) \<lparr>rest = drop n (rest b), avail = avail b - int n\<rparr>"
    "length (take n (rest b)) = n"
    using assms by (auto simp: consumed_def u_good_def)
qed

lemma parses_take:
  assumes "length bs = n" "\<And>b. int n \<le> avail b \<Longrightarrow> avail b < 2 ^ 31 \<Longrightarrow> u b = u_take n b"
  shows "parses u bs bs"
  unfolding parses_def
proof (intro allI impI)
  fix r and i :: int assume i: "int (length bs) \<le> i \<and> i < 2 ^ 31"
  then have "s32 (i - int n) = i - int n" using assms(1) by (intro s32_id) auto
  with i assms show "u \<lparr>rest = bs @ r, avail = i\<rparr> = Ok bs \<lparr>rest = r, avail = i - int (length bs)\<rparr>"
    by (simp add: u_take_def)
qed

text \<open>Reading \<open>n\<close> bytes after a test that they are available.\<close>

lemma reads_take:
  assumes ok: "\<And>b. int n \<le> avail b \<Longrightarrow> avail b < 2 ^ 31 \<Longrightarrow> u b = u_take n b"
    and short: "\<And>b. u_good b \<Longrightarrow> avail b < int n \<Longrightarrow> u b = Fail TPM_RC_INSUFFICIENT b"
    and m: "\<And>bs. length bs = n \<Longrightarrow> emits k (m bs) 0 bs"
  shows "reads k [] u m"
  unfolding reads_e_def
proof (intro allI impI)
  fix b assume g: "u_good b"
  show "case u b of
        Ok v b' \<Rightarrow> \<exists>bs. consumed b bs b' \<and> parses u bs v \<and> emits k (m v) 0 ([] @ bs)
      | Fail rc b' \<Rightarrow> basic_error rc \<and> (\<exists>bs. consumed b bs b')
      | Overread \<Rightarrow> False"
  proof (cases "int n \<le> avail b")
    case True
    note t = u_take_good [OF g True]
    have "parses u (take n (rest b)) (take n (rest b))" using t(3) ok by (rule parses_take)
    with t ok [OF True] g m [OF t(3)] show ?thesis by (auto simp: u_good_def)
  next
    case False
    with short g show ?thesis by (auto intro!: exI [of _ "[]"])
  qed
qed

lemma fixed_test:
  assumes "0 \<le> i" "i < 2 ^ 31" "n \<le> 8"
  shows "(word_of_int i :: 32 word) < of_nat n \<longleftrightarrow> i < int n"
proof -
  have "uint (word_of_int i :: 32 word) = i mod 2 ^ 32" by (simp only: uint_word_of_int len_num0 len_bit0) simp
  then have "unat (word_of_int i :: 32 word) = nat i" using assms by (simp only: unat_eq_nat_uint) simp
  moreover have "unat (of_nat n :: 32 word) = n" using assms(3) by (simp add: unat_of_nat)
  ultimately show ?thesis unfolding word_less_nat_alt using assms(1) by (simp only: nat_less_iff)
qed

lemma reads_fixed:
  assumes n: "n \<le> 8" and m: "\<And>bs. length bs = n \<Longrightarrow> emits k (m (f bs)) 0 bs"
  shows "reads k [] (u_bind (u_fixed n) (\<lambda>bs. u_return (f bs))) m"
proof (rule reads_bind)
  show "reads k [] (u_fixed n) (\<lambda>bs. if length bs = n then m_fixed bs else m_bad)"
  proof (rule reads_take)
    fix b :: ubuf assume b: "int n \<le> avail b" "avail b < 2 ^ 31"
    then have "\<not> (word_of_int (avail b) :: 32 word) < of_nat n" using fixed_test [of "avail b" n] n by auto
    then show "u_fixed n b = u_take n b" by (simp add: u_fixed_def)
  next
    fix b :: ubuf assume "u_good b" "avail b < int n"
    then show "u_fixed n b = Fail TPM_RC_INSUFFICIENT b"
      using fixed_test [of "avail b" n] n by (auto simp: u_fixed_def u_good_def)
  qed (use n in \<open>simp add: emits_fixed\<close>)
next
  fix x bs assume "emits k (if length x = n then m_fixed x else m_bad) 0 bs"
  then have x: "length x = n" "emits k (m_fixed x) 0 bs" using not_emits_bad by (auto split: if_splits)
  then have "bs = x" using emits_unique emits_fixed n by metis
  with m x(1) show "reads k ([] @ bs) (u_return (f x)) m" by (simp add: reads_return)
qed

lemma length_list_cases:
  "length bs = 1 \<Longrightarrow> bs = [bs ! 0]" "length bs = 2 \<Longrightarrow> bs = [bs ! 0, bs ! 1]"
  "length bs = 4 \<Longrightarrow> bs = [bs ! 0, bs ! 1, bs ! 2, bs ! 3]"
  "length bs = 8 \<Longrightarrow> bs = [bs ! 0, bs ! 1, bs ! 2, bs ! 3, bs ! 4, bs ! 5, bs ! 6, bs ! 7]"
  by (auto simp: list_eq_iff_nth_eq less_Suc_eq eval_nat_numeral)

lemma UINT8_codec [codec_intro]: "reads k [] UINT8_Unmarshal TSS_UINT8_Marshal"
  unfolding UINT8_Unmarshal_def TSS_UINT8_Marshal_def
  by (rule reads_fixed) (simp, metis length_list_cases(1) emits_fixed le_numeral_extra(4) one_le_numeral)

lemma UINT16_codec [codec_intro]: "reads k [] UINT16_Unmarshal TSS_UINT16_Marshal"
  unfolding UINT16_Unmarshal_def
proof (rule reads_fixed)
  fix bs :: "byte list" assume l: "length bs = 2"
  have "TSS_UINT16_Marshal (push_bit 8 (ucast (bs ! 0)) OR push_bit 0 (ucast (bs ! 1))) = m_fixed bs"
    unfolding TSS_UINT16_Marshal_def bytes_word16 [OF refl] by (subst (3) length_list_cases(2) [OF l]) simp
  with l show "emits k (TSS_UINT16_Marshal (push_bit 8 (ucast (bs ! 0)) OR push_bit 0 (ucast (bs ! 1)))) 0 bs"
    by (simp add: emits_fixed)
qed simp

lemma UINT32_codec [codec_intro]: "reads k [] UINT32_Unmarshal TSS_UINT32_Marshal"
  unfolding UINT32_Unmarshal_def
proof (rule reads_fixed)
  fix bs :: "byte list" assume l: "length bs = 4"
  let ?w = "push_bit 24 (ucast (bs ! 0)) OR push_bit 16 (ucast (bs ! 1)) OR
      push_bit 8 (ucast (bs ! 2)) OR push_bit 0 (ucast (bs ! 3)) :: 32 word"
  have "TSS_UINT32_Marshal ?w = m_fixed [bs ! 0, bs ! 1, bs ! 2, bs ! 3]"
    unfolding TSS_UINT32_Marshal_def bytes_word32 [OF refl] ..
  also have "\<dots> = m_fixed bs" using length_list_cases(3) [OF l] by simp
  finally show "emits k (TSS_UINT32_Marshal ?w) 0 bs" using l by (simp add: emits_fixed)
qed simp

lemma UINT64_codec [codec_intro]: "reads k [] UINT64_Unmarshal TSS_UINT64_Marshal"
  unfolding UINT64_Unmarshal_def
proof (rule reads_fixed)
  fix bs :: "byte list" assume l: "length bs = 8"
  let ?w = "push_bit 56 (ucast (bs ! 0)) OR push_bit 48 (ucast (bs ! 1)) OR
      push_bit 40 (ucast (bs ! 2)) OR push_bit 32 (ucast (bs ! 3)) OR
      push_bit 24 (ucast (bs ! 4)) OR push_bit 16 (ucast (bs ! 5)) OR
      push_bit 8 (ucast (bs ! 6)) OR push_bit 0 (ucast (bs ! 7)) :: 64 word"
  have "TSS_UINT64_Marshal ?w = m_fixed [bs ! 0, bs ! 1, bs ! 2, bs ! 3, bs ! 4, bs ! 5, bs ! 6, bs ! 7]"
    unfolding TSS_UINT64_Marshal_def bytes_word64 [OF refl] ..
  also have "\<dots> = m_fixed bs" using length_list_cases(4) [OF l] by simp
  finally show "emits k (TSS_UINT64_Marshal ?w) 0 bs" using l by (simp add: emits_fixed)
qed simp

lemma INT8_codec [codec_intro]: "reads k [] INT8_Unmarshal TSS_INT8_Marshal"
  unfolding INT8_Unmarshal_def TSS_INT8_Marshal_def by (rule UINT8_codec)

lemma INT32_codec [codec_intro]: "reads k [] INT32_Unmarshal TSS_INT32_Marshal"
  unfolding INT32_Unmarshal_def TSS_INT32_Marshal_def by (rule UINT32_codec)

lemma emits_array: "length bs = unat n \<Longrightarrow> emits k (TSS_Array_Marshal bs n) 0 bs"
  unfolding TSS_Array_Marshal_def by (simp add: emits_put)

lemma Array_codec [codec_intro]: "reads k [] (Array_Unmarshal n) (\<lambda>bs. TSS_Array_Marshal bs n)"
  by (rule reads_take [of "unat n"]) (simp_all add: Array_Unmarshal_def emits_array)

lemma TPM2B_codec [codec_intro]: "reads k [] (TPM2B_Unmarshal n) TSS_TPM2B_Marshal"
  unfolding TPM2B_Unmarshal_def TSS_TPM2B_Marshal_def
  by (intro reads_bind [OF UINT16_codec] reads_guard reads_bind [OF Array_codec] reads_return)
    (simp_all add: emits_then)

lemma reads_list [codec_intro]:
  assumes "reads k [] u m"
  shows "reads k [] (u_list n u) (m_list n m)"
proof (induction n)
  case 0
  show ?case by (simp add: reads_return emits_done)
next
  case (Suc n)
  show ?case
    unfolding u_list.simps
    by (intro reads_bind [OF assms] reads_bind [OF Suc] reads_return) (simp add: emits_then)
qed

lemma reads_map:
  assumes "reads_e E k [] u m" "\<And>v. m' (f v) = m v"
  shows "reads_e E k [] (u_map f u) m'"
  unfolding u_map_def by (intro reads_bind [OF assms(1)] reads_return) (simp add: assms(2))

section \<open>Sized structures\<close>

lemma fits_le: "good s \<Longrightarrow> fits n s \<Longrightarrow> i \<le> n \<Longrightarrow> fits i s"
  by (auto simp: fits_def)

lemma written_emit: "written (emit bs s) = written s + of_nat (length bs)"
  by (simp add: emit_def split: option.split)

lemma emits_UINT16: "emits k (TSS_UINT16_Marshal w) 0 [ucast (drop_bit 8 w AND 0xff), ucast (drop_bit 0 w AND 0xff)]"
  unfolding TSS_UINT16_Marshal_def by (rule emits_fixed) simp

text \<open>The encoding of a 32-bit value, such as a handle.\<close>

definition be32 :: "32 word \<Rightarrow> byte list" where
  "be32 w = [ucast (drop_bit 24 w AND 0xff), ucast (drop_bit 16 w AND 0xff),
     ucast (drop_bit 8 w AND 0xff), ucast (drop_bit 0 w AND 0xff)]"

lemma emits_UINT32: "emits k (TSS_UINT32_Marshal w) 0 (be32 w)"
  unfolding TSS_UINT32_Marshal_def be32_def by (rule emits_fixed) simp

definition be64 :: "64 word \<Rightarrow> byte list" where
  "be64 w = [ucast (drop_bit 56 w AND 0xff), ucast (drop_bit 48 w AND 0xff),
     ucast (drop_bit 40 w AND 0xff), ucast (drop_bit 32 w AND 0xff),
     ucast (drop_bit 24 w AND 0xff), ucast (drop_bit 16 w AND 0xff),
     ucast (drop_bit 8 w AND 0xff), ucast (drop_bit 0 w AND 0xff)]"

lemma emits_UINT64: "emits k (TSS_UINT64_Marshal w) 0 (be64 w)"
  unfolding TSS_UINT64_Marshal_def be64_def by (rule emits_fixed) simp

lemma parses_exact:
  assumes "parses u bs v" "length bs < 2 ^ 31"
  shows "u \<lparr>rest = bs, avail = int (length bs)\<rparr> = Ok v \<lparr>rest = [], avail = 0\<rparr>"
  using assms unfolding parses_def by (elim allE [of _ "[]"] allE [of _ "int (length bs)"]) simp

lemma parses_fixed:
  assumes "length bs = n" "n \<le> 8" "f bs = v"
  shows "parses (u_bind (u_fixed n) (\<lambda>bs. u_return (f bs))) bs v"
proof -
  have "parses (u_fixed n) bs bs"
  proof (rule parses_take [OF assms(1)])
    fix b :: ubuf assume "int n \<le> avail b" "avail b < 2 ^ 31"
    with fixed_test [of "avail b" n] assms(2) show "u_fixed n b = u_take n b" by (simp add: u_fixed_def)
  qed
  from parses_bind [where f = "\<lambda>bs. u_return (f bs)", OF this parses_return] show ?thesis by (simp add: assms(3))
qed

lemma parses_UINT8: "parses UINT8_Unmarshal [w] w"
  unfolding UINT8_Unmarshal_def by (rule parses_fixed) simp_all

lemma parses_UINT32: "parses UINT32_Unmarshal (be32 w) w"
  unfolding UINT32_Unmarshal_def be32_def using word32_bytes [of w] by (intro parses_fixed) simp_all

lemma parses_UINT64: "parses UINT64_Unmarshal (be64 w) w"
  unfolding UINT64_Unmarshal_def be64_def using word64_bytes [of w] by (intro parses_fixed) simp_all

lemma parses_array: "length bs = unat n \<Longrightarrow> parses (Array_Unmarshal n) bs bs"
  by (rule parses_take [of _ "unat n"]) (simp_all add: Array_Unmarshal_def)

lemma emits_sized:
  assumes m: "emits k m 0 bs" and sz: "emits 0 (TSS_UINT16_Marshal (of_nat (length bs))) 0 cs"
  shows "emits (k + 2) (m_sized 2 m) 0 (cs @ bs)"
proof (rule emitsI)
  have c2: "length cs = 2"
    using emits_unique [OF sz emits_UINT16] by simp
  fix s assume g: "good s" and f: "fits (length (cs @ bs)) s"
  let ?s0 = "s\<lparr>written := 0, position := map_option (\<lambda>p. p + 2) (position s)\<rparr>"
  have "good ?s0" "fits (length bs) ?s0" using g f by (auto simp: good_def fits_def)
  note i = emits_fits [OF m this]
  show "m_sized 2 m s = Done 0 (emit (cs @ bs) s)"
  proof (cases "position s")
    case None
    then show ?thesis using i c2 by (simp add: m_sized_def emit_def Let_def add.assoc)
  next
    case (Some p)
    let ?s2 = "(emit bs ?s0)\<lparr>written := written s + of_nat (length bs), position := Some p\<rparr>"
    have "good ?s2" "fits (length cs) ?s2"
      using g f Some c2 by (cases "room s"; auto simp: good_def fits_def emit_def)+
    note e = emits_fits [OF sz this]
    have "put_bytes p cs (put_bytes (p + 2) bs mem) = put_bytes p (cs @ bs) mem" for mem
      using c2 by (intro ext) (auto simp: put_bytes_def nth_append)
    then show ?thesis
      using i e Some c2 by (simp add: m_sized_def emit_def Let_def option.map_comp comp_def algebra_simps)
  qed
next
  have c2: "length cs = 2"
    using emits_unique [OF sz emits_UINT16] by simp
  fix s assume g: "good s" and f: "\<not> fits (length (cs @ bs)) s"
  let ?s0 = "s\<lparr>written := 0, position := map_option (\<lambda>p. p + 2) (position s)\<rparr>"
  have g0: "good ?s0" using g by (simp add: good_def)
  obtain p r where pr: "position s = Some p" "room s = Some r" "0 \<le> r" "r < 2 ^ 31" "r < int (length bs) + 2"
    using f g c2 by (auto simp: fits_def good_def)
  show "\<exists>s'. m_sized 2 m s = Done TSS_RC_INSUFFICIENT_BUFFER s' \<and> inside_buffer (k + 2) s s'"
  proof (cases "fits (length bs) ?s0")
    case True
    then have lr: "int (length bs) \<le> r" using pr by (simp add: fits_def)
    note i = emits_fits [OF m g0 True]
    let ?s2 = "(emit bs ?s0)\<lparr>written := written s + of_nat (length bs), position := Some p\<rparr>"
    have "good ?s2" "\<not> fits (length cs) ?s2" using pr lr c2 by (auto simp: good_def fits_def emit_def)
    from emits_short [OF sz this] obtain s3
      where s3: "TSS_UINT16_Marshal (of_nat (length bs)) ?s2 = Done TSS_RC_INSUFFICIENT_BUFFER s3" "inside_buffer 0 ?s2 s3" .
    have "m_sized 2 m s = Done TSS_RC_INSUFFICIENT_BUFFER (s3\<lparr>position := position (emit bs ?s0)\<rparr>)"
      using i s3(1) pr(1) by (simp add: m_sized_def Let_def written_emit)
    moreover have "p \<le> a \<and> int a < int p + r + int (k + 2)" if d: "memory s3 a \<noteq> memory s a" for a
    proof (cases "memory s3 a = memory ?s2 a")
      case True
      with d have "put_bytes (p + 2) bs (memory s) a \<noteq> memory s a" using pr(1) by (simp add: emit_def)
      then have "p + 2 \<le> a" "a < p + 2 + length bs" by (auto simp: put_bytes_def split: if_splits)
      with lr show ?thesis by auto
    next
      case False
      with s3(2) pr(1,2) have "p \<le> a" "int a < int p + (r - int (length bs))"
        unfolding inside_buffer_def by (auto simp: emit_def)
      then show ?thesis by auto
    qed
    ultimately show ?thesis using pr(1,2) by (auto simp: inside_buffer_def)
  next
    case False
    from emits_short [OF m g0 this] obtain s1
      where s1: "m ?s0 = Done TSS_RC_INSUFFICIENT_BUFFER s1" "inside_buffer k ?s0 s1" .
    have "m_sized 2 m s = Done TSS_RC_INSUFFICIENT_BUFFER (s1\<lparr>written := written s\<rparr>)"
      using s1(1) by (simp add: m_sized_def)
    moreover have "inside_buffer (k + 2) s s1"
      using s1(2) pr(1,2) unfolding inside_buffer_def by force
    ultimately show ?thesis by (auto simp: inside_buffer_def)
  qed
qed

text \<open>
  The tail of a sized structure's unmarshal function, after its size has been read: \<open>startSize\<close> is
  remembered, the structure is read, and the difference has to be the size.
\<close>

definition u_exactly :: "16 word \<Rightarrow> 'a unmarshal \<Rightarrow> 'a unmarshal" where
  "u_exactly sz u =
     u_bind u_size (\<lambda>startSize.
     u_bind u (\<lambda>v.
     u_bind u_size (\<lambda>endSize.
     u_guard (int (unat sz) \<noteq> s32 (startSize - endSize)) TPM_RC_SIZE (
     u_return v))))"

lemma u_exactly_eq:
  "u_exactly sz u b = (case u b of
     Ok v b' \<Rightarrow> if int (unat sz) = s32 (avail b - avail b') then Ok v b' else Fail TPM_RC_SIZE b'
   | Fail rc b' \<Rightarrow> Fail rc b' | Overread \<Rightarrow> Overread)"
  by (simp add: u_exactly_def u_bind_def u_size_def u_guard_def u_fail_def u_return_def split: ures.split)

lemma reads_if:
  "(c \<Longrightarrow> reads_e E k ps u m) \<Longrightarrow> (\<not> c \<Longrightarrow> reads_e E k ps u' m) \<Longrightarrow> reads_e E k ps (if c then u else u') m"
  by simp

lemma reads_sized_tail:
  assumes u: "reads k [] u m" and M: "\<And>v. M (mk v) = m_sized 2 (m v)"
    and cs: "emits (k + 2) (TSS_UINT16_Marshal sz) 0 cs"
  shows "reads (k + 2) cs (u_bind (u_exactly sz u) (\<lambda>v. u_return (mk v))) M"
proof -
  have c0: "emits 0 (TSS_UINT16_Marshal sz) 0 cs" using emits_unique [OF cs emits_UINT16] emits_UINT16 by simp
  have "reads (k + 2) [] (u_exactly sz u) (\<lambda>v. if \<exists>bs. emits k (m v) 0 bs \<and> length bs = unat sz then m v else m_bad)"
    unfolding reads_e_def
  proof (intro allI impI)
    fix b assume g: "u_good b"
    from u g show "case u_exactly sz u b of
        Ok v b' \<Rightarrow> \<exists>bs. consumed b bs b' \<and> parses (u_exactly sz u) bs v \<and>
          emits (k + 2) (if \<exists>bs. emits k (m v) 0 bs \<and> length bs = unat sz then m v else m_bad) 0 ([] @ bs)
      | Fail rc b' \<Rightarrow> basic_error rc \<and> (\<exists>bs. consumed b bs b')
      | Overread \<Rightarrow> False"
    proof (cases rule: readsE)
      case (ok v b' bs)
      have s: "s32 (avail b - avail b') = int (length bs)"
        using ok(2) g by (subst s32_id) (auto simp: consumed_def u_good_def)
      show ?thesis
      proof (cases "unat sz = length bs")
        case True
        have "parses (u_exactly sz u) bs v"
          unfolding parses_def
        proof (intro allI impI)
          fix r and n :: int assume n: "int (length bs) \<le> n \<and> n < 2 ^ 31"
          with ok(3) have "u \<lparr>rest = bs @ r, avail = n\<rparr> = Ok v \<lparr>rest = r, avail = n - int (length bs)\<rparr>"
            by (simp add: parses_def)
          moreover have "s32 (n - (n - int (length bs))) = int (length bs)" using n by (subst s32_id) auto
          ultimately show "u_exactly sz u \<lparr>rest = bs @ r, avail = n\<rparr> = Ok v \<lparr>rest = r, avail = n - int (length bs)\<rparr>"
            using True by (simp add: u_exactly_eq)
        qed
        then show ?thesis
          using ok s True emits_mono [of k "m v" 0 bs "k + 2"] by (auto simp: u_exactly_eq)
      next
        case False
        then have "u_exactly sz u b = Fail TPM_RC_SIZE b'"
          unfolding u_exactly_eq ok(1) ures.case s of_nat_eq_iff by simp
        with ok(2) show ?thesis by auto
      qed
    qed (auto simp: u_exactly_eq)
  qed
  then show "reads (k + 2) cs (u_bind (u_exactly sz u) (\<lambda>v. u_return (mk v))) M"
  proof (rule reads_bind)
    fix v bs assume e: "emits (k + 2) (if \<exists>bs. emits k (m v) 0 bs \<and> length bs = unat sz then m v else m_bad) 0 bs"
    then obtain bs' where b: "emits k (m v) 0 bs'" "length bs' = unat sz" "emits (k + 2) (m v) 0 bs"
      using not_emits_bad by (auto split: if_splits)
    have "bs = bs'" using emits_unique [OF b(3,1)] .
    moreover have "unat sz < 2 ^ LENGTH(16)" by (rule unsigned_less)
    ultimately have "emits k (m v) 0 bs" "length bs < 2 ^ 16" "sz = of_nat (length bs)"
      using b by simp_all
    with emits_sized [of k "m v" bs cs] c0 M show "reads (k + 2) (cs @ bs) (u_return (mk v)) M"
      by (simp add: reads_return)
  qed
qed


lemma reads_sized:
  assumes u: "reads k [] u m" and M: "\<And>sz v. M (mk sz v) = m_sized 2 (m v)"
  shows "reads (k + 2) [] (u_bind UINT16_Unmarshal (\<lambda>sz. u_guard (sz = 0) TPM_RC_SIZE
    (u_bind (u_exactly sz u) (\<lambda>v. u_return (mk sz v))))) M"
proof (intro reads_bind [OF UINT16_codec] reads_guard)
  fix sz :: "16 word" and cs assume "emits (k + 2) (TSS_UINT16_Marshal sz) 0 cs"
  from reads_sized_tail [where mk = "mk sz", OF u M this]
  show "reads (k + 2) ([] @ cs) (u_bind (u_exactly sz u) (\<lambda>v. u_return (mk sz v))) M" by simp
qed simp

text \<open>A structure that may be absent, with the size 0: the caller that marshals it makes the same test.\<close>

lemma reads_optional:
  assumes u: "reads k [] u m" and some: "\<And>sz v. sz \<noteq> 0 \<Longrightarrow> M (mk sz v) = m_sized 2 (m v)"
    and none: "M (absent 0) = TSS_UINT16_Marshal 0"
  shows "reads (k + 2) [] (u_bind UINT16_Unmarshal (\<lambda>sz. if sz \<noteq> 0
    then u_bind (u_exactly sz u) (\<lambda>v. u_return (mk sz v)) else u_return (absent sz))) M"
proof (intro reads_bind [OF UINT16_codec] reads_if)
  fix sz :: "16 word" and cs assume cs: "emits (k + 2) (TSS_UINT16_Marshal sz) 0 cs"
  show "reads (k + 2) ([] @ cs) (u_bind (u_exactly sz u) (\<lambda>v. u_return (mk sz v))) M" if "sz \<noteq> 0"
    using reads_sized_tail [where mk = "mk sz", OF u some [OF that] cs] by simp
  show "reads (k + 2) ([] @ cs) (u_return (absent sz)) M" if "\<not> sz \<noteq> 0"
    using cs that none by (intro reads_return) simp
qed

lemma reads_sized_ge:
  assumes u: "\<And>k. reads k [] u m" and M: "\<And>sz v. M (mk sz v) = m_sized 2 (m v)" and k: "2 \<le> k"
  shows "reads k [] (u_bind UINT16_Unmarshal (\<lambda>sz. u_guard (sz = 0) TPM_RC_SIZE
    (u_bind (u_exactly sz u) (\<lambda>v. u_return (mk sz v))))) M"
proof -
  from k obtain k' where k': "k = k' + 2" by (metis add.commute le_iff_add)
  show ?thesis unfolding k' by (rule reads_sized [OF u]) (rule M)
qed

section \<open>Results of an unmarshal function\<close>

text \<open>
  \<open>delivers_e E P u\<close>: on a good buffer \<open>u\<close> never reads past its end, a failure is a code in \<open>E\<close> with the buffer
  moved forward only, and every result satisfies \<open>P\<close>. It asks nothing of the other direction, so it holds of types
  that have no marshal function, or one that does not agree.
\<close>

definition delivers_e :: "(32 word \<Rightarrow> bool) \<Rightarrow> ('a \<Rightarrow> bool) \<Rightarrow> 'a unmarshal \<Rightarrow> bool" where
  "delivers_e E P u \<longleftrightarrow> (\<forall>b. u_good b \<longrightarrow>
     (case u b of
        Ok v b' \<Rightarrow> P v \<and> (\<exists>bs. consumed b bs b')
      | Fail rc b' \<Rightarrow> E rc \<and> (\<exists>bs. consumed b bs b')
      | Overread \<Rightarrow> False))"

abbreviation delivers :: "('a \<Rightarrow> bool) \<Rightarrow> 'a unmarshal \<Rightarrow> bool" where
  "delivers \<equiv> delivers_e basic_error"

named_theorems delivers_intro "what an unmarshal function delivers"

lemma deliversE:
  assumes "delivers_e E P u" "u_good b"
  obtains (ok) v b' bs where "u b = Ok v b'" "P v" "consumed b bs b'"
    | (failed) rc b' bs where "u b = Fail rc b'" "E rc" "consumed b bs b'"
proof -
  from assms have "case u b of
        Ok v b' \<Rightarrow> P v \<and> (\<exists>bs. consumed b bs b')
      | Fail rc b' \<Rightarrow> E rc \<and> (\<exists>bs. consumed b bs b')
      | Overread \<Rightarrow> False" by (auto simp: delivers_e_def)
  then show ?thesis using ok failed by (cases "u b") auto
qed

lemma deliversI:
  assumes "\<And>b. u_good b \<Longrightarrow> u b \<noteq> Overread"
    and "\<And>b v b'. u_good b \<Longrightarrow> u b = Ok v b' \<Longrightarrow> P v \<and> (\<exists>bs. consumed b bs b')"
    and "\<And>b rc b'. u_good b \<Longrightarrow> u b = Fail rc b' \<Longrightarrow> E rc \<and> (\<exists>bs. consumed b bs b')"
  shows "delivers_e E P u"
  unfolding delivers_e_def
proof (intro allI impI)
  fix b assume "u_good b"
  with assms show "case u b of
        Ok v b' \<Rightarrow> P v \<and> (\<exists>bs. consumed b bs b')
      | Fail rc b' \<Rightarrow> E rc \<and> (\<exists>bs. consumed b bs b')
      | Overread \<Rightarrow> False"
    by (cases "u b") simp_all
qed

lemma reads_delivers:
  assumes "reads_e E k ps u m"
  shows "delivers_e E (\<lambda>_. True) u"
proof (rule deliversI)
  fix b assume g: "u_good b"
  from assms g show "u b \<noteq> Overread" by (cases rule: readsE) auto
next
  fix b v b' assume g: "u_good b" and "u b = Ok v b'"
  with readsE [OF assms g] show "True \<and> (\<exists>bs. consumed b bs b')" by fastforce
next
  fix b rc b' assume g: "u_good b" and "u b = Fail rc b'"
  with readsE [OF assms g] show "E rc \<and> (\<exists>bs. consumed b bs b')" by fastforce
qed

lemma delivers_return [delivers_intro]: "P v \<Longrightarrow> delivers_e E P (u_return v)"
  by (rule deliversI) (auto simp: u_return_def intro!: exI [of _ "[]"])

lemma delivers_fail [delivers_intro]: "E rc \<Longrightarrow> delivers_e E P (u_fail rc)"
  by (rule deliversI) (auto simp: u_fail_def intro!: exI [of _ "[]"])

lemma delivers_guard [delivers_intro]:
  "E e \<Longrightarrow> (\<not> bad \<Longrightarrow> delivers_e E P u) \<Longrightarrow> delivers_e E P (u_guard bad e u)"
  by (simp add: u_guard_def delivers_fail)

lemma delivers_if [delivers_intro]:
  "(c \<Longrightarrow> delivers_e E P u) \<Longrightarrow> (\<not> c \<Longrightarrow> delivers_e E P u') \<Longrightarrow> delivers_e E P (if c then u else u')"
  by simp

lemma delivers_mono: "delivers_e E P u \<Longrightarrow> (\<And>v. P v \<Longrightarrow> Q v) \<Longrightarrow> delivers_e E Q u"
  unfolding delivers_e_def by (fastforce split: ures.splits)

lemma delivers_bind:
  assumes u: "delivers_e E Q u" and f: "\<And>x. Q x \<Longrightarrow> delivers_e E P (f x)"
  shows "delivers_e E P (u_bind u f)"
  unfolding delivers_e_def
proof (intro allI impI)
  fix b assume g: "u_good b"
  from u g show "case u_bind u f b of
        Ok v b' \<Rightarrow> P v \<and> (\<exists>bs. consumed b bs b')
      | Fail rc b' \<Rightarrow> E rc \<and> (\<exists>bs. consumed b bs b')
      | Overread \<Rightarrow> False"
  proof (cases rule: deliversE)
    case (ok x b1 bs)
    from f [OF ok(2)] consumed_good [OF g ok(3)] show ?thesis
      by (cases rule: deliversE) (use ok consumed_append [OF ok(3)] in \<open>auto simp: u_bind_def\<close>)
  qed (auto simp: u_bind_def)
qed

lemma delivers_map: "delivers_e E Q u \<Longrightarrow> (\<And>x. Q x \<Longrightarrow> P (f x)) \<Longrightarrow> delivers_e E P (u_map f u)"
  unfolding u_map_def by (blast intro: delivers_bind delivers_return)

lemma delivers_when: "delivers_e E Q u \<Longrightarrow> delivers_e E (\<lambda>_. True) (u_when c u)"
  unfolding u_when_def by (intro delivers_if delivers_map delivers_return) simp_all

lemma delivers_list:
  assumes "delivers_e E P u"
  shows "delivers_e E (\<lambda>vs. length vs = n \<and> list_all P vs) (u_list n u)"
proof (induction n)
  case (Suc n)
  show ?case unfolding u_list.simps
    by (rule delivers_bind [OF assms], rule delivers_bind [OF Suc], rule delivers_return) simp
qed (simp add: delivers_return)

lemma delivers_exactly:
  assumes "delivers P u"
  shows "delivers P (u_exactly sz u)"
  unfolding delivers_e_def
proof (intro allI impI)
  fix b assume g: "u_good b"
  from assms g show "case u_exactly sz u b of
        Ok v b' \<Rightarrow> P v \<and> (\<exists>bs. consumed b bs b')
      | Fail rc b' \<Rightarrow> basic_error rc \<and> (\<exists>bs. consumed b bs b')
      | Overread \<Rightarrow> False"
    by (cases rule: deliversE) (auto simp: u_exactly_eq)
qed

lemma delivers_take:
  assumes ok: "\<And>b. int n \<le> avail b \<Longrightarrow> avail b < 2 ^ 31 \<Longrightarrow> u b = u_take n b"
    and short: "\<And>b. u_good b \<Longrightarrow> avail b < int n \<Longrightarrow> u b = Fail TPM_RC_INSUFFICIENT b"
  shows "delivers (\<lambda>bs. length bs = n) u"
  unfolding delivers_e_def
proof (intro allI impI)
  fix b assume g: "u_good b"
  show "case u b of
        Ok v b' \<Rightarrow> length v = n \<and> (\<exists>bs. consumed b bs b')
      | Fail rc b' \<Rightarrow> basic_error rc \<and> (\<exists>bs. consumed b bs b')
      | Overread \<Rightarrow> False"
  proof (cases "int n \<le> avail b")
    case True
    note t = u_take_good [OF g True]
    with ok [OF True] g show ?thesis by (auto simp: u_good_def)
  next
    case False
    with short g show ?thesis by (auto intro!: exI [of _ "[]"])
  qed
qed

lemma Array_delivers: "delivers (\<lambda>bs. length bs = unat n) (Array_Unmarshal n)"
  by (rule delivers_take) (simp_all add: Array_Unmarshal_def)

text \<open>A byte buffer that has room for what is in it.\<close>

definition bounded :: "nat \<Rightarrow> TPM2B \<Rightarrow> bool" where
  "bounded capacity v \<longleftrightarrow> length (TPM2B_buffer v) = unat (TPM2B_size v) \<and> unat (TPM2B_size v) \<le> capacity"

lemma TPM2B_delivers: "delivers (bounded (unat n)) (TPM2B_Unmarshal n)"
  unfolding TPM2B_Unmarshal_def
  by (rule delivers_bind [OF reads_delivers [OF UINT16_codec]], rule delivers_guard, simp,
      rule delivers_bind [OF Array_delivers], rule delivers_return)
    (simp add: bounded_def word_le_nat_alt not_less)

section \<open>Sized structures and their callers\<close>

lemma reads_delivers_emits:
  assumes "reads_e E k [] u m"
  shows "delivers_e E (\<lambda>v. \<exists>bs. emits k (m v) 0 bs) u"
proof (rule deliversI)
  fix b assume g: "u_good b"
  from assms g show "u b \<noteq> Overread" by (cases rule: readsE) auto
next
  fix b v b' assume g: "u_good b" and "u b = Ok v b'"
  with readsE [OF assms g] show "(\<exists>bs. emits k (m v) 0 bs) \<and> (\<exists>bs. consumed b bs b')" by fastforce
next
  fix b rc b' assume g: "u_good b" and "u b = Fail rc b'"
  with readsE [OF assms g] show "E rc \<and> (\<exists>bs. consumed b bs b')" by fastforce
qed

lemma sized_delivers:
  assumes "reads k [] u m" "\<And>sz v. g (mk sz v) = v"
  shows "delivers (\<lambda>v. \<exists>bs. emits k (m (g v)) 0 bs) (u_bind UINT16_Unmarshal (\<lambda>sz. u_guard (sz = 0) TPM_RC_SIZE
    (u_bind (u_exactly sz u) (\<lambda>v. u_return (mk sz v)))))"
  by (intro delivers_bind [OF reads_delivers [OF UINT16_codec]] delivers_guard
      delivers_bind [OF delivers_exactly [OF reads_delivers_emits [OF assms(1)]]] delivers_return)
    (simp_all add: assms(2))

text \<open>For a null buffer only the count is kept, with what the function adds for the size.\<close>

lemma m_sized_null:
  assumes m: "emits k m 0 bs" and s: "good s" "position s = None"
  shows "m_sized null m s = Done 0 (s\<lparr>written := written s + of_nat (length bs) + null\<rparr>)"
proof -
  let ?s0 = "s\<lparr>written := 0, position := map_option (\<lambda>p. p + 2) (position s)\<rparr>"
  have "good ?s0" "fits (length bs) ?s0" using s by (auto simp: good_def fits_def)
  from emits_fits [OF m this] s(2) show ?thesis by (simp add: m_sized_def emit_def Let_def)
qed

lemma m_sized_buffer: "position s = Some p \<Longrightarrow> m_sized null m s = m_sized null' m s"
  by (simp add: m_sized_def Let_def split: mres.split)

text \<open>
  The structure is written two bytes after the start with the whole of the room: if only the size does not fit, it
  overruns the end of the buffer by two bytes before the error is returned.
\<close>

lemma m_sized_overrun:
  assumes m: "emits k m 0 bs" and s: "good s" "position s = Some p" "room s = Some (int (length bs))"
  shows "\<exists>s'. m_sized null m s = Done TSS_RC_INSUFFICIENT_BUFFER s' \<and> (\<forall>i<length bs. memory s' (p + 2 + i) = bs ! i)"
proof -
  let ?s0 = "s\<lparr>written := 0, position := map_option (\<lambda>p. p + 2) (position s)\<rparr>"
  let ?s2 = "(emit bs ?s0)\<lparr>written := written s + of_nat (length bs), position := Some p\<rparr>"
  have f: "good ?s0" "fits (length bs) ?s0" using s by (auto simp: good_def fits_def)
  have "position ?s2 = Some p" "room ?s2 = Some 0" "memory ?s2 = put_bytes (p + 2) bs (memory s)"
    using s by (simp_all add: emit_def)
  then have "TSS_UINT16_Marshal (of_nat (length bs)) ?s2 =
      Done TSS_RC_INSUFFICIENT_BUFFER (?s2\<lparr>written := written ?s2 + 2\<rparr>)"
    by (simp add: TSS_UINT16_Marshal_def m_fixed_def m_put_def Let_def)
  with emits_fits [OF m f] s(2) show ?thesis
    by (simp add: m_sized_def Let_def emit_def put_bytes_def)
qed

lemma emits_sized_bytes:
  assumes m: "emits k m 0 bs" and M: "emits k' (m_sized 2 m) 0 cs"
  shows "length cs = length bs + 2 \<and> (\<forall>i<length bs. cs ! (i + 2) = bs ! i)"
  using emits_unique [OF M emits_sized [OF m emits_UINT16]] by simp

section \<open>The errors of a parameter\<close>

lemma param_error_add:
  assumes "basic_error rc" "add < 0x1000"
  shows "param_error (rc + add)"
proof -
  have "unat rc + unat add < 2 ^ LENGTH(32)"
    using assms by (simp add: basic_error_def word_less_nat_alt)
  then have "unat (rc + add) = unat rc + unat add" by (rule unat_add_lem [THEN iffD1])
  with assms show ?thesis
    by (simp add: basic_error_def param_error_def word_less_nat_alt unat_eq_zero flip: unat_eq_zero)
qed

lemma parses_add_rc: "parses u bs v \<Longrightarrow> parses (u_add_rc add u) bs v"
  by (simp add: parses_def u_add_rc_def)

lemma reads_add_rc:
  assumes u: "reads k ps u m" and "add < 0x1000"
  shows "reads_e param_error k ps (u_add_rc add u) m"
  unfolding reads_e_def
proof (intro allI impI)
  fix b assume g: "u_good b"
  from u g show "case u_add_rc add u b of
        Ok v b' \<Rightarrow> \<exists>bs. consumed b bs b' \<and> parses (u_add_rc add u) bs v \<and> emits k (m v) 0 (ps @ bs)
      | Fail rc b' \<Rightarrow> param_error rc \<and> (\<exists>bs. consumed b bs b')
      | Overread \<Rightarrow> False"
    by (cases rule: readsE)
      (use assms(2) in \<open>auto simp: u_add_rc_def [of add u b] intro: param_error_add parses_add_rc\<close>)
qed

lemma basic_param_error: "basic_error rc \<Longrightarrow> param_error rc"
  by (simp add: basic_error_def param_error_def word_less_nat_alt)

lemma reads_param: "reads k ps u m \<Longrightarrow> reads_e param_error k ps u m"
  unfolding reads_e_def by (fastforce intro: basic_param_error split: ures.splits)

section \<open>The interface of a type\<close>

text \<open>
  A type of the wire format is used through its unmarshal and its marshal function, a command through those of its
  parameters, which follow the encoding \<open>ps\<close> of its handles. What the clients rely on follows from the contract:
  unmarshalling stays inside the buffer, accepts an encoding whatever follows it, and accepts only what marshalling
  produces; and the count of the first, null-buffer pass of marshalling is the number of bytes that the second pass
  writes.
\<close>

locale codec =
  fixes E :: "32 word \<Rightarrow> bool" and k :: nat and ps :: "byte list"
    and u :: "'a unmarshal" and m :: "'a \<Rightarrow> marshal"
  assumes codec: "reads_e E k ps u m" and errors: "E rc \<Longrightarrow> rc \<noteq> 0"
begin

lemma never_overreads: "u_good b \<Longrightarrow> u b \<noteq> Overread"
  using codec by (cases rule: readsE) auto

lemma fail_moves_forward:
  assumes "u_good b" "u b = Fail rc b'"
  shows "rc \<noteq> 0 \<and> (\<exists>bs. rest b = bs @ rest b' \<and> avail b' = avail b - int (length bs) \<and> 0 \<le> avail b')"
  using codec assms(1) by (cases rule: readsE) (use assms errors in \<open>auto simp: consumed_def\<close>)

lemma canonical:
  assumes "u_good b" "u b = Ok v b'"
  shows "\<exists>bs. rest b = bs @ rest b' \<and> avail b' = avail b - int (length bs) \<and> 0 \<le> avail b' \<and>
    emits k (m v) 0 (ps @ bs) \<and> parses u bs v"
  using codec assms(1) by (cases rule: readsE) (use assms in \<open>auto simp: consumed_def\<close>)

text \<open>A value has one encoding.\<close>

lemma unique_encoding:
  assumes "u_good b" "u b = Ok v b'" "u_good c" "u c = Ok v c'"
  shows "take (length (rest b) - length (rest b')) (rest b) = take (length (rest c) - length (rest c')) (rest c)"
proof -
  from canonical [OF assms(1,2)] obtain bs where bs: "rest b = bs @ rest b'" "emits k (m v) 0 (ps @ bs)" by blast
  from canonical [OF assms(3,4)] obtain cs where cs: "rest c = cs @ rest c'" "emits k (m v) 0 (ps @ cs)" by blast
  from emits_unique [OF bs(2) cs(2)] bs(1) cs(1) show ?thesis by simp
qed

lemma roundtrip:
  assumes v: "u_good b" "u b = Ok v b'"
    and s: "good s" "position s = Some p" "room s = None \<or> avail b + int (length ps) \<le> the (room s)"
  shows "\<exists>bs s'. rest b = bs @ rest b' \<and> m v s = Done 0 s' \<and> position s' = Some (p + length (ps @ bs)) \<and>
    (\<forall>i<length (ps @ bs). memory s' (p + i) = (ps @ bs) ! i) \<and>
    (\<forall>r n. int (length bs) \<le> n \<and> n < 2 ^ 31 \<longrightarrow>
       u \<lparr>rest = bs @ r, avail = n\<rparr> = Ok v \<lparr>rest = r, avail = n - int (length bs)\<rparr>)"
proof -
  from canonical [OF v] obtain bs where bs: "rest b = bs @ rest b'" "avail b' = avail b - int (length bs)"
    "0 \<le> avail b'" "emits k (m v) 0 (ps @ bs)" "parses u bs v" by blast
  have "fits (length (ps @ bs)) s" using s bs(2,3) by (auto simp: fits_def)
  from emits_fits [OF bs(4) s(1) this] have "m v s = Done 0 (emit (ps @ bs) s)" .
  moreover have "position (emit (ps @ bs) s) = Some (p + length (ps @ bs))"
    "\<forall>i<length (ps @ bs). memory (emit (ps @ bs) s) (p + i) = (ps @ bs) ! i"
    using s(2) by (simp_all add: emit_def put_bytes_def)
  ultimately show ?thesis using bs(1,5) unfolding parses_def by blast
qed

lemma two_pass:
  assumes v: "u_good b" "u b = Ok v b'"
    and s: "good s" "written s = 0" "position s = None"
    and t: "good t" "written t = 0" "position t = Some p" "room t = None"
  shows "\<exists>n s' t'. m v s = Done 0 s' \<and> m v t = Done 0 t' \<and> position t' = Some (p + n) \<and>
    written s' = of_nat n \<and> written t' = of_nat n"
proof -
  from canonical [OF v] obtain bs where e: "emits k (m v) 0 (ps @ bs)" by blast
  have "fits (length (ps @ bs)) t" "fits (length (ps @ bs)) s" using s t by (auto simp: fits_def)
  from emits_fits [OF e t(1) this(1)] emits_fits [OF e s(1) this(2)] s t show ?thesis
    by (intro exI [of _ "length (ps @ bs)"]) (simp add: emit_def)
qed

lemma short_buffer:
  assumes v: "u_good b" "u b = Ok v b'" and s: "good s" "m v s = Done rc s'" "rc \<noteq> 0"
  shows "rc = TSS_RC_INSUFFICIENT_BUFFER \<and> inside_buffer k s s'"
proof -
  from canonical [OF v] obtain bs where e: "emits k (m v) 0 (ps @ bs)" by blast
  show ?thesis
  proof (cases "fits (length (ps @ bs)) s")
    case True
    from emits_fits [OF e s(1) True] s show ?thesis by simp
  next
    case False
    from emits_short [OF e s(1) False] obtain s1
      where "m v s = Done TSS_RC_INSUFFICIENT_BUFFER s1" "inside_buffer k s s1" .
    with s(2) show ?thesis by simp
  qed
qed

end

lemma basic_error_nonzero: "basic_error rc \<Longrightarrow> rc \<noteq> 0"
  by (simp add: basic_error_def)

lemma param_error_nonzero: "param_error rc \<Longrightarrow> rc \<noteq> 0"
  by (simp add: param_error_def)

section \<open>Properties of the base functions\<close>

text \<open>
  Remark. Every 64-bit value survives: \<open>TSS_UINT64_Marshal\<close> writes eight bytes from which \<open>UINT64_Unmarshal\<close> reads the same
  value, whatever follows them.
\<close>

theorem UINT64_roundtrip:
  "\<exists>bs. length bs = 8 \<and> emits 0 (TSS_UINT64_Marshal w) 0 bs \<and> parses UINT64_Unmarshal bs w"
  using emits_UINT64 parses_UINT64 by (intro exI [of _ "be64 w"]) (simp add: be64_def)

text \<open>
  Remark. The base functions compare \<open>(UINT32)*size\<close>, so a negative size passes their test: \<open>UINT32_Unmarshal\<close> then reads
  past the end of the memory behind the buffer.
\<close>

theorem UINT32_negative_size:
  assumes "- (2 ^ 31) \<le> avail b" "avail b < 0" "length (rest b) < 4"
  shows "UINT32_Unmarshal b = Overread"
proof -
  have "uint (word_of_int (avail b) :: 32 word) = avail b mod 2 ^ 32"
    by (simp only: uint_word_of_int len_num0 len_bit0) simp
  also have "\<dots> = avail b + 2 ^ 32"
    using assms(1,2) by (subst mod_add_self2 [symmetric], intro mod_pos_pos_trivial) simp_all
  finally have "\<not> (word_of_int (avail b) :: 32 word) < of_nat 4"
    using assms(1) by (simp add: word_less_def)
  then show ?thesis using assms(3) by (simp add: UINT32_Unmarshal_def u_bind_def u_fixed_def u_take_def)
qed

theorem UINT32_negative_size_witness: "UINT32_Unmarshal \<lparr>rest = [1, 2], avail = - 8\<rparr> = Overread"
  by (rule UINT32_negative_size) simp_all

end
