(* ===== verification/Tss_Types.thy ===== *)
theory Tss_Types
  imports Tss_Base
begin

text \<open>
  The constants and data types of the TPM 2.0 interface that the marshalling code uses
  (\<^verbatim>\<open>tss2/TPM_Types.h\<close>, \<^verbatim>\<open>tss2/Implementation.h\<close>), with the algorithms that \<^verbatim>\<open>Implementation.h\<close> enables.

  \<^item> A \<^verbatim>\<open>#define\<close>d constant is an abbreviation for its value, at every width at which the code compares it.
  \<^item> A struct is a record, its fields prefixed by its name; an array in it is a list of the elements that have been
    written, so its length is not bounded by the type. An attribute word (\<open>TPMA_*\<close>) is the word \<open>val\<close>.
  \<^item> A union is a datatype with a constructor for each member and one for the state in which none is written.
  \<^item> A sized buffer (\<open>TPM2B_DIGEST\<close> and so on: the union of \<open>t\<close> and \<open>b\<close>) is a \<open>TPM2B\<close>; a sized structure
    (\<open>TPM2B_PUBLIC\<close> and so on) is a record of the size and the structure. The structure of \<open>TPM2B_SENSITIVE\<close>
    is optional, since its unmarshal function accepts the size 0 and then leaves it unwritten.
\<close>

section \<open>Constants\<close>

abbreviation HASH_COUNT :: "'a::len word" where "HASH_COUNT \<equiv> 3"
abbreviation HMAC_SESSION_FIRST :: "'a::len word" where "HMAC_SESSION_FIRST \<equiv> 0x2000000"
abbreviation HMAC_SESSION_LAST :: "'a::len word" where "HMAC_SESSION_LAST \<equiv> 0x200003f"
abbreviation MAX_ALG_LIST_SIZE :: "'a::len word" where "MAX_ALG_LIST_SIZE \<equiv> 64"
abbreviation MAX_CAP_ALGS :: "'a::len word" where "MAX_CAP_ALGS \<equiv> 255"
abbreviation MAX_CAP_CC :: "'a::len word" where "MAX_CAP_CC \<equiv> 0x1fe"
abbreviation MAX_CAP_HANDLES :: "'a::len word" where "MAX_CAP_HANDLES \<equiv> 0x1fe"
abbreviation MAX_CONTEXT_SIZE :: "'a::len word" where "MAX_CONTEXT_SIZE \<equiv> 0x800"
abbreviation MAX_DIGEST_BUFFER :: "'a::len word" where "MAX_DIGEST_BUFFER \<equiv> 0x800"
abbreviation MAX_ECC_CURVES :: "'a::len word" where "MAX_ECC_CURVES \<equiv> 0x3fc"
abbreviation MAX_ECC_KEY_BYTES :: "'a::len word" where "MAX_ECC_KEY_BYTES \<equiv> 48"
abbreviation MAX_NV_BUFFER_SIZE :: "'a::len word" where "MAX_NV_BUFFER_SIZE \<equiv> 0x800"
abbreviation MAX_NV_INDEX_SIZE :: "'a::len word" where "MAX_NV_INDEX_SIZE \<equiv> 0x800"
abbreviation MAX_PCR_PROPERTIES :: "'a::len word" where "MAX_PCR_PROPERTIES \<equiv> 255"
abbreviation MAX_RSA_KEY_BYTES :: "'a::len word" where "MAX_RSA_KEY_BYTES \<equiv> 0x100"
abbreviation MAX_SYM_BLOCK_SIZE :: "'a::len word" where "MAX_SYM_BLOCK_SIZE \<equiv> 16"
abbreviation MAX_SYM_DATA :: "'a::len word" where "MAX_SYM_DATA \<equiv> 128"
abbreviation MAX_SYM_KEY_BYTES :: "'a::len word" where "MAX_SYM_KEY_BYTES \<equiv> 32"
abbreviation MAX_TPM_PROPERTIES :: "'a::len word" where "MAX_TPM_PROPERTIES \<equiv> 255"
abbreviation NO :: "'a::len word" where "NO \<equiv> 0"
abbreviation NV_INDEX_FIRST :: "'a::len word" where "NV_INDEX_FIRST \<equiv> 0x1000000"
abbreviation NV_INDEX_LAST :: "'a::len word" where "NV_INDEX_LAST \<equiv> 0x1ffffff"
abbreviation PCR_LAST :: "'a::len word" where "PCR_LAST \<equiv> 23"
abbreviation PCR_SELECT_MAX :: "'a::len word" where "PCR_SELECT_MAX \<equiv> 3"
abbreviation PCR_SELECT_MIN :: "'a::len word" where "PCR_SELECT_MIN \<equiv> 3"
abbreviation PERSISTENT_FIRST :: "'a::len word" where "PERSISTENT_FIRST \<equiv> 0x81000000"
abbreviation PERSISTENT_LAST :: "'a::len word" where "PERSISTENT_LAST \<equiv> 0x81ffffff"
abbreviation POLICY_SESSION_FIRST :: "'a::len word" where "POLICY_SESSION_FIRST \<equiv> 0x3000000"
abbreviation POLICY_SESSION_LAST :: "'a::len word" where "POLICY_SESSION_LAST \<equiv> 0x300003f"
abbreviation SHA1_DIGEST_SIZE :: "'a::len word" where "SHA1_DIGEST_SIZE \<equiv> 20"
abbreviation SHA256_DIGEST_SIZE :: "'a::len word" where "SHA256_DIGEST_SIZE \<equiv> 32"
abbreviation SHA384_DIGEST_SIZE :: "'a::len word" where "SHA384_DIGEST_SIZE \<equiv> 48"
abbreviation TPMA_ALGORITHM_RESERVED :: "'a::len word" where "TPMA_ALGORITHM_RESERVED \<equiv> 0xfffff8f0"
abbreviation TPMA_CC_RESERVED :: "'a::len word" where "TPMA_CC_RESERVED \<equiv> 0xc03f0000"
abbreviation TPMA_NV_RESERVED :: "'a::len word" where "TPMA_NV_RESERVED \<equiv> 0x1f00300"
abbreviation TPMA_OBJECT_RESERVED :: "'a::len word" where "TPMA_OBJECT_RESERVED \<equiv> 0xfff8f309"
abbreviation TPMA_SESSION_RESERVED :: "'a::len word" where "TPMA_SESSION_RESERVED \<equiv> 24"
abbreviation TPM_ALG_AES :: "'a::len word" where "TPM_ALG_AES \<equiv> 6"
abbreviation TPM_ALG_CBC :: "'a::len word" where "TPM_ALG_CBC \<equiv> 66"
abbreviation TPM_ALG_CFB :: "'a::len word" where "TPM_ALG_CFB \<equiv> 67"
abbreviation TPM_ALG_CTR :: "'a::len word" where "TPM_ALG_CTR \<equiv> 64"
abbreviation TPM_ALG_ECB :: "'a::len word" where "TPM_ALG_ECB \<equiv> 68"
abbreviation TPM_ALG_ECC :: "'a::len word" where "TPM_ALG_ECC \<equiv> 35"
abbreviation TPM_ALG_ECDAA :: "'a::len word" where "TPM_ALG_ECDAA \<equiv> 26"
abbreviation TPM_ALG_ECDH :: "'a::len word" where "TPM_ALG_ECDH \<equiv> 25"
abbreviation TPM_ALG_ECDSA :: "'a::len word" where "TPM_ALG_ECDSA \<equiv> 24"
abbreviation TPM_ALG_ECSCHNORR :: "'a::len word" where "TPM_ALG_ECSCHNORR \<equiv> 28"
abbreviation TPM_ALG_HMAC :: "'a::len word" where "TPM_ALG_HMAC \<equiv> 5"
abbreviation TPM_ALG_KDF1_SP800_108 :: "'a::len word" where "TPM_ALG_KDF1_SP800_108 \<equiv> 34"
abbreviation TPM_ALG_KDF1_SP800_56A :: "'a::len word" where "TPM_ALG_KDF1_SP800_56A \<equiv> 32"
abbreviation TPM_ALG_KEYEDHASH :: "'a::len word" where "TPM_ALG_KEYEDHASH \<equiv> 8"
abbreviation TPM_ALG_MGF1 :: "'a::len word" where "TPM_ALG_MGF1 \<equiv> 7"
abbreviation TPM_ALG_NULL :: "'a::len word" where "TPM_ALG_NULL \<equiv> 16"
abbreviation TPM_ALG_OAEP :: "'a::len word" where "TPM_ALG_OAEP \<equiv> 23"
abbreviation TPM_ALG_OFB :: "'a::len word" where "TPM_ALG_OFB \<equiv> 65"
abbreviation TPM_ALG_RSA :: "'a::len word" where "TPM_ALG_RSA \<equiv> 1"
abbreviation TPM_ALG_RSAES :: "'a::len word" where "TPM_ALG_RSAES \<equiv> 21"
abbreviation TPM_ALG_RSAPSS :: "'a::len word" where "TPM_ALG_RSAPSS \<equiv> 22"
abbreviation TPM_ALG_RSASSA :: "'a::len word" where "TPM_ALG_RSASSA \<equiv> 20"
abbreviation TPM_ALG_SHA1 :: "'a::len word" where "TPM_ALG_SHA1 \<equiv> 4"
abbreviation TPM_ALG_SHA256 :: "'a::len word" where "TPM_ALG_SHA256 \<equiv> 11"
abbreviation TPM_ALG_SHA384 :: "'a::len word" where "TPM_ALG_SHA384 \<equiv> 12"
abbreviation TPM_ALG_SM2 :: "'a::len word" where "TPM_ALG_SM2 \<equiv> 27"
abbreviation TPM_ALG_SYMCIPHER :: "'a::len word" where "TPM_ALG_SYMCIPHER \<equiv> 37"
abbreviation TPM_ALG_XOR :: "'a::len word" where "TPM_ALG_XOR \<equiv> 10"
abbreviation TPM_CAP_ALGS :: "'a::len word" where "TPM_CAP_ALGS \<equiv> 0"
abbreviation TPM_CAP_AUDIT_COMMANDS :: "'a::len word" where "TPM_CAP_AUDIT_COMMANDS \<equiv> 4"
abbreviation TPM_CAP_COMMANDS :: "'a::len word" where "TPM_CAP_COMMANDS \<equiv> 2"
abbreviation TPM_CAP_ECC_CURVES :: "'a::len word" where "TPM_CAP_ECC_CURVES \<equiv> 8"
abbreviation TPM_CAP_HANDLES :: "'a::len word" where "TPM_CAP_HANDLES \<equiv> 1"
abbreviation TPM_CAP_PCRS :: "'a::len word" where "TPM_CAP_PCRS \<equiv> 5"
abbreviation TPM_CAP_PCR_PROPERTIES :: "'a::len word" where "TPM_CAP_PCR_PROPERTIES \<equiv> 7"
abbreviation TPM_CAP_PP_COMMANDS :: "'a::len word" where "TPM_CAP_PP_COMMANDS \<equiv> 3"
abbreviation TPM_CAP_TPM_PROPERTIES :: "'a::len word" where "TPM_CAP_TPM_PROPERTIES \<equiv> 6"
abbreviation TPM_CAP_VENDOR_PROPERTY :: "'a::len word" where "TPM_CAP_VENDOR_PROPERTY \<equiv> 0x100"
abbreviation TPM_CLOCK_COARSE_FASTER :: "'a::len word" where "TPM_CLOCK_COARSE_FASTER \<equiv> 3"
abbreviation TPM_CLOCK_COARSE_SLOWER :: "'a::len word" where "TPM_CLOCK_COARSE_SLOWER \<equiv> -3"
abbreviation TPM_CLOCK_FINE_FASTER :: "'a::len word" where "TPM_CLOCK_FINE_FASTER \<equiv> 1"
abbreviation TPM_CLOCK_FINE_SLOWER :: "'a::len word" where "TPM_CLOCK_FINE_SLOWER \<equiv> -1"
abbreviation TPM_CLOCK_MEDIUM_FASTER :: "'a::len word" where "TPM_CLOCK_MEDIUM_FASTER \<equiv> 2"
abbreviation TPM_CLOCK_MEDIUM_SLOWER :: "'a::len word" where "TPM_CLOCK_MEDIUM_SLOWER \<equiv> -2"
abbreviation TPM_CLOCK_NO_CHANGE :: "'a::len word" where "TPM_CLOCK_NO_CHANGE \<equiv> 0"
abbreviation TPM_ECC_BN_P256 :: "'a::len word" where "TPM_ECC_BN_P256 \<equiv> 16"
abbreviation TPM_ECC_BN_P638 :: "'a::len word" where "TPM_ECC_BN_P638 \<equiv> 17"
abbreviation TPM_ECC_NIST_P192 :: "'a::len word" where "TPM_ECC_NIST_P192 \<equiv> 1"
abbreviation TPM_ECC_NIST_P224 :: "'a::len word" where "TPM_ECC_NIST_P224 \<equiv> 2"
abbreviation TPM_ECC_NIST_P256 :: "'a::len word" where "TPM_ECC_NIST_P256 \<equiv> 3"
abbreviation TPM_ECC_NIST_P384 :: "'a::len word" where "TPM_ECC_NIST_P384 \<equiv> 4"
abbreviation TPM_ECC_NIST_P521 :: "'a::len word" where "TPM_ECC_NIST_P521 \<equiv> 5"
abbreviation TPM_ECC_NONE :: "'a::len word" where "TPM_ECC_NONE \<equiv> 0"
abbreviation TPM_ECC_SM2_P256 :: "'a::len word" where "TPM_ECC_SM2_P256 \<equiv> 32"
abbreviation TPM_EO_BITCLEAR :: "'a::len word" where "TPM_EO_BITCLEAR \<equiv> 11"
abbreviation TPM_EO_BITSET :: "'a::len word" where "TPM_EO_BITSET \<equiv> 10"
abbreviation TPM_EO_EQ :: "'a::len word" where "TPM_EO_EQ \<equiv> 0"
abbreviation TPM_EO_NEQ :: "'a::len word" where "TPM_EO_NEQ \<equiv> 1"
abbreviation TPM_EO_SIGNED_GE :: "'a::len word" where "TPM_EO_SIGNED_GE \<equiv> 6"
abbreviation TPM_EO_SIGNED_GT :: "'a::len word" where "TPM_EO_SIGNED_GT \<equiv> 2"
abbreviation TPM_EO_SIGNED_LE :: "'a::len word" where "TPM_EO_SIGNED_LE \<equiv> 8"
abbreviation TPM_EO_SIGNED_LT :: "'a::len word" where "TPM_EO_SIGNED_LT \<equiv> 4"
abbreviation TPM_EO_UNSIGNED_GE :: "'a::len word" where "TPM_EO_UNSIGNED_GE \<equiv> 7"
abbreviation TPM_EO_UNSIGNED_GT :: "'a::len word" where "TPM_EO_UNSIGNED_GT \<equiv> 3"
abbreviation TPM_EO_UNSIGNED_LE :: "'a::len word" where "TPM_EO_UNSIGNED_LE \<equiv> 9"
abbreviation TPM_EO_UNSIGNED_LT :: "'a::len word" where "TPM_EO_UNSIGNED_LT \<equiv> 5"
abbreviation TPM_GENERATED_VALUE :: "'a::len word" where "TPM_GENERATED_VALUE \<equiv> 0xff544347"
abbreviation TPM_RC_BAD_TAG :: "'a::len word" where "TPM_RC_BAD_TAG \<equiv> 30"
abbreviation TPM_RC_CURVE :: "'a::len word" where "TPM_RC_CURVE \<equiv> 166"
abbreviation TPM_RC_HASH :: "'a::len word" where "TPM_RC_HASH \<equiv> 131"
abbreviation TPM_RC_KDF :: "'a::len word" where "TPM_RC_KDF \<equiv> 140"
abbreviation TPM_RC_MODE :: "'a::len word" where "TPM_RC_MODE \<equiv> 137"
abbreviation TPM_RC_RESERVED_BITS :: "'a::len word" where "TPM_RC_RESERVED_BITS \<equiv> 161"
abbreviation TPM_RC_SCHEME :: "'a::len word" where "TPM_RC_SCHEME \<equiv> 146"
abbreviation TPM_RC_SELECTOR :: "'a::len word" where "TPM_RC_SELECTOR \<equiv> 152"
abbreviation TPM_RC_SYMMETRIC :: "'a::len word" where "TPM_RC_SYMMETRIC \<equiv> 150"
abbreviation TPM_RC_TAG :: "'a::len word" where "TPM_RC_TAG \<equiv> 151"
abbreviation TPM_RC_TYPE :: "'a::len word" where "TPM_RC_TYPE \<equiv> 138"
abbreviation TPM_RC_VALUE :: "'a::len word" where "TPM_RC_VALUE \<equiv> 132"
abbreviation TPM_RH_AUTH_00 :: "'a::len word" where "TPM_RH_AUTH_00 \<equiv> 0x40000010"
abbreviation TPM_RH_AUTH_FF :: "'a::len word" where "TPM_RH_AUTH_FF \<equiv> 0x4000010f"
abbreviation TPM_RH_ENDORSEMENT :: "'a::len word" where "TPM_RH_ENDORSEMENT \<equiv> 0x4000000b"
abbreviation TPM_RH_LOCKOUT :: "'a::len word" where "TPM_RH_LOCKOUT \<equiv> 0x4000000a"
abbreviation TPM_RH_NULL :: "'a::len word" where "TPM_RH_NULL \<equiv> 0x40000007"
abbreviation TPM_RH_OWNER :: "'a::len word" where "TPM_RH_OWNER \<equiv> 0x40000001"
abbreviation TPM_RH_PLATFORM :: "'a::len word" where "TPM_RH_PLATFORM \<equiv> 0x4000000c"
abbreviation TPM_RH_PLATFORM_NV :: "'a::len word" where "TPM_RH_PLATFORM_NV \<equiv> 0x4000000d"
abbreviation TPM_RS_PW :: "'a::len word" where "TPM_RS_PW \<equiv> 0x40000009"
abbreviation TPM_SE_HMAC :: "'a::len word" where "TPM_SE_HMAC \<equiv> 0"
abbreviation TPM_SE_POLICY :: "'a::len word" where "TPM_SE_POLICY \<equiv> 1"
abbreviation TPM_SE_TRIAL :: "'a::len word" where "TPM_SE_TRIAL \<equiv> 3"
abbreviation TPM_ST_ATTEST_CERTIFY :: "'a::len word" where "TPM_ST_ATTEST_CERTIFY \<equiv> 0x8017"
abbreviation TPM_ST_ATTEST_COMMAND_AUDIT :: "'a::len word" where "TPM_ST_ATTEST_COMMAND_AUDIT \<equiv> 0x8015"
abbreviation TPM_ST_ATTEST_CREATION :: "'a::len word" where "TPM_ST_ATTEST_CREATION \<equiv> 0x801a"
abbreviation TPM_ST_ATTEST_NV :: "'a::len word" where "TPM_ST_ATTEST_NV \<equiv> 0x8014"
abbreviation TPM_ST_ATTEST_QUOTE :: "'a::len word" where "TPM_ST_ATTEST_QUOTE \<equiv> 0x8018"
abbreviation TPM_ST_ATTEST_SESSION_AUDIT :: "'a::len word" where "TPM_ST_ATTEST_SESSION_AUDIT \<equiv> 0x8016"
abbreviation TPM_ST_ATTEST_TIME :: "'a::len word" where "TPM_ST_ATTEST_TIME \<equiv> 0x8019"
abbreviation TPM_ST_AUTH_SECRET :: "'a::len word" where "TPM_ST_AUTH_SECRET \<equiv> 0x8023"
abbreviation TPM_ST_AUTH_SIGNED :: "'a::len word" where "TPM_ST_AUTH_SIGNED \<equiv> 0x8025"
abbreviation TPM_ST_CREATION :: "'a::len word" where "TPM_ST_CREATION \<equiv> 0x8021"
abbreviation TPM_ST_HASHCHECK :: "'a::len word" where "TPM_ST_HASHCHECK \<equiv> 0x8024"
abbreviation TPM_ST_NO_SESSIONS :: "'a::len word" where "TPM_ST_NO_SESSIONS \<equiv> 0x8001"
abbreviation TPM_ST_NULL :: "'a::len word" where "TPM_ST_NULL \<equiv> 0x8000"
abbreviation TPM_ST_RSP_COMMAND :: "'a::len word" where "TPM_ST_RSP_COMMAND \<equiv> 196"
abbreviation TPM_ST_SESSIONS :: "'a::len word" where "TPM_ST_SESSIONS \<equiv> 0x8002"
abbreviation TPM_ST_VERIFIED :: "'a::len word" where "TPM_ST_VERIFIED \<equiv> 0x8022"
abbreviation TPM_SU_CLEAR :: "'a::len word" where "TPM_SU_CLEAR \<equiv> 0"
abbreviation TPM_SU_STATE :: "'a::len word" where "TPM_SU_STATE \<equiv> 1"
abbreviation TRANSIENT_FIRST :: "'a::len word" where "TRANSIENT_FIRST \<equiv> 0x80000000"
abbreviation TRANSIENT_LAST :: "'a::len word" where "TRANSIENT_LAST \<equiv> 0x8fffffff"
abbreviation YES :: "'a::len word" where "YES \<equiv> 1"

text \<open>The sizes of types, on a machine with natural alignment.\<close>

abbreviation sizeof_EVENT_2B :: "'a::len word" where "sizeof_EVENT_2B \<equiv> 0x402"
abbreviation sizeof_ID_OBJECT :: "'a::len word" where "sizeof_ID_OBJECT \<equiv> 0x104"
abbreviation sizeof_PRIVATE :: "'a::len word" where "sizeof_PRIVATE \<equiv> 0x48e"
abbreviation sizeof_TPMS_ATTEST :: "'a::len word" where "sizeof_TPMS_ATTEST \<equiv> 0x9c0"
abbreviation sizeof_TPMS_CONTEXT_DATA :: "'a::len word" where "sizeof_TPMS_CONTEXT_DATA \<equiv> 0x884"
abbreviation sizeof_TPMT_HA :: "'a::len word" where "sizeof_TPMT_HA \<equiv> 130"
abbreviation sizeof_TPMU_ENCRYPTED_SECRET :: "'a::len word" where "sizeof_TPMU_ENCRYPTED_SECRET \<equiv> 0x100"
abbreviation sizeof_TPMU_HA :: "'a::len word" where "sizeof_TPMU_HA \<equiv> 128"
abbreviation sizeof_TPMU_NAME :: "'a::len word" where "sizeof_TPMU_NAME \<equiv> 132"
abbreviation sizeof_UINT16 :: "'a::len word" where "sizeof_UINT16 \<equiv> 2"

section \<open>Types\<close>

type_synonym UINT16 = "16 word"

type_synonym TPM_KEY_BITS = "UINT16"

type_synonym UINT32 = "32 word"

type_synonym TPM_GENERATED = "UINT32"

type_synonym TPM_ALG_ID = "UINT16"

type_synonym TPM_ECC_CURVE = "UINT16"

type_synonym TPM_RC = "UINT32"

type_synonym INT8 = "8 word"

type_synonym TPM_CLOCK_ADJUST = "INT8"

type_synonym TPM_EO = "UINT16"

type_synonym TPM_ST = "UINT16"

type_synonym TPM_SU = "UINT16"

type_synonym UINT8 = "8 word"

type_synonym TPM_SE = "UINT8"

type_synonym TPM_CAP = "UINT32"

type_synonym TPM_HANDLE = "UINT32"

type_synonym TPM_PT_PCR = "UINT32"

type_synonym TPMA_ALGORITHM = "32 word"

type_synonym TPMA_OBJECT = "32 word"

type_synonym TPMA_SESSION = "8 word"

type_synonym TPMA_LOCALITY = "8 word"

type_synonym TPMA_CC = "32 word"

type_synonym TPMI_YES_NO = "byte"

type_synonym TPMI_DH_OBJECT = "TPM_HANDLE"

type_synonym TPMI_DH_PERSISTENT = "TPM_HANDLE"

type_synonym TPMI_DH_ENTITY = "TPM_HANDLE"

type_synonym TPMI_DH_PCR = "TPM_HANDLE"

type_synonym TPMI_SH_AUTH_SESSION = "TPM_HANDLE"

type_synonym TPMI_SH_HMAC = "TPM_HANDLE"

type_synonym TPMI_SH_POLICY = "TPM_HANDLE"

type_synonym TPMI_DH_CONTEXT = "TPM_HANDLE"

type_synonym TPMI_RH_HIERARCHY = "TPM_HANDLE"

type_synonym TPMI_RH_ENABLES = "TPM_HANDLE"

type_synonym TPMI_RH_HIERARCHY_AUTH = "TPM_HANDLE"

type_synonym TPMI_RH_PLATFORM = "TPM_HANDLE"

type_synonym TPMI_RH_ENDORSEMENT = "TPM_HANDLE"

type_synonym TPMI_RH_PROVISION = "TPM_HANDLE"

type_synonym TPMI_RH_CLEAR = "TPM_HANDLE"

type_synonym TPMI_RH_NV_AUTH = "TPM_HANDLE"

type_synonym TPMI_RH_LOCKOUT = "TPM_HANDLE"

type_synonym TPMI_RH_NV_INDEX = "TPM_HANDLE"

type_synonym TPMI_ALG_HASH = "TPM_ALG_ID"

type_synonym TPMI_ALG_SYM = "TPM_ALG_ID"

type_synonym TPMI_ALG_SYM_OBJECT = "TPM_ALG_ID"

type_synonym TPMI_ALG_SYM_MODE = "TPM_ALG_ID"

type_synonym TPMI_ALG_KDF = "TPM_ALG_ID"

type_synonym TPMI_ALG_SIG_SCHEME = "TPM_ALG_ID"

type_synonym TPMI_ECC_KEY_EXCHANGE = "TPM_ALG_ID"

type_synonym TPMI_ST_COMMAND_TAG = "TPM_ST"

type_synonym TPMS_EMPTY = unit

datatype TPMU_HA =
    TPMU_HA_unset
  | TPMU_HA_sha1 "byte list"
  | TPMU_HA_sha256 "byte list"
  | TPMU_HA_sha384 "byte list"
  | TPMU_HA_tssmax "byte list"

record TPMT_HA =
  TPMT_HA_hashAlg :: "TPMI_ALG_HASH"
  TPMT_HA_digest :: "TPMU_HA"

type_synonym TPM2B_DIGEST = TPM2B

type_synonym TPM2B_DATA = TPM2B

type_synonym TPM2B_NONCE = "TPM2B_DIGEST"

type_synonym TPM2B_AUTH = "TPM2B_DIGEST"

type_synonym TPM2B_OPERAND = "TPM2B_DIGEST"

type_synonym TPM2B_EVENT = TPM2B

type_synonym TPM2B_MAX_BUFFER = TPM2B

type_synonym TPM2B_MAX_NV_BUFFER = TPM2B

type_synonym TPM2B_TIMEOUT = "TPM2B_DIGEST"

type_synonym TPM2B_IV = TPM2B

type_synonym TPM2B_NAME = TPM2B

record TPMS_PCR_SELECTION =
  TPMS_PCR_SELECTION_hash :: "TPMI_ALG_HASH"
  TPMS_PCR_SELECTION_sizeofSelect :: "UINT8"
  TPMS_PCR_SELECTION_pcrSelect :: "byte list"

record TPMT_TK_CREATION =
  TPMT_TK_CREATION_tag :: "TPM_ST"
  TPMT_TK_CREATION_hierarchy :: "TPMI_RH_HIERARCHY"
  TPMT_TK_CREATION_digest :: "TPM2B_DIGEST"

record TPMT_TK_VERIFIED =
  TPMT_TK_VERIFIED_tag :: "TPM_ST"
  TPMT_TK_VERIFIED_hierarchy :: "TPMI_RH_HIERARCHY"
  TPMT_TK_VERIFIED_digest :: "TPM2B_DIGEST"

record TPMT_TK_AUTH =
  TPMT_TK_AUTH_tag :: "TPM_ST"
  TPMT_TK_AUTH_hierarchy :: "TPMI_RH_HIERARCHY"
  TPMT_TK_AUTH_digest :: "TPM2B_DIGEST"

record TPMT_TK_HASHCHECK =
  TPMT_TK_HASHCHECK_tag :: "TPM_ST"
  TPMT_TK_HASHCHECK_hierarchy :: "TPMI_RH_HIERARCHY"
  TPMT_TK_HASHCHECK_digest :: "TPM2B_DIGEST"

record TPMS_ALG_PROPERTY =
  TPMS_ALG_PROPERTY_alg :: "TPM_ALG_ID"
  TPMS_ALG_PROPERTY_algProperties :: "TPMA_ALGORITHM"

type_synonym TPM_PT = "UINT32"

record TPMS_TAGGED_PROPERTY =
  TPMS_TAGGED_PROPERTY_property :: "TPM_PT"
  TPMS_TAGGED_PROPERTY_value :: "UINT32"

record TPMS_TAGGED_PCR_SELECT =
  TPMS_TAGGED_PCR_SELECT_tag :: "TPM_PT_PCR"
  TPMS_TAGGED_PCR_SELECT_sizeofSelect :: "UINT8"
  TPMS_TAGGED_PCR_SELECT_pcrSelect :: "byte list"

type_synonym TPM_CC = "UINT32"

record TPML_CC =
  TPML_CC_count :: "UINT32"
  TPML_CC_commandCodes :: "TPM_CC list"

record TPML_CCA =
  TPML_CCA_count :: "UINT32"
  TPML_CCA_commandAttributes :: "TPMA_CC list"

record TPML_ALG =
  TPML_ALG_count :: "UINT32"
  TPML_ALG_algorithms :: "TPM_ALG_ID list"

record TPML_HANDLE =
  TPML_HANDLE_count :: "UINT32"
  TPML_HANDLE_handle :: "TPM_HANDLE list"

record TPML_DIGEST =
  TPML_DIGEST_count :: "UINT32"
  TPML_DIGEST_digests :: "TPM2B_DIGEST list"

record TPML_DIGEST_VALUES =
  TPML_DIGEST_VALUES_count :: "UINT32"
  TPML_DIGEST_VALUES_digests :: "TPMT_HA list"

record TPML_PCR_SELECTION =
  TPML_PCR_SELECTION_count :: "UINT32"
  TPML_PCR_SELECTION_pcrSelections :: "TPMS_PCR_SELECTION list"

record TPML_ALG_PROPERTY =
  TPML_ALG_PROPERTY_count :: "UINT32"
  TPML_ALG_PROPERTY_algProperties :: "TPMS_ALG_PROPERTY list"

record TPML_TAGGED_TPM_PROPERTY =
  TPML_TAGGED_TPM_PROPERTY_count :: "UINT32"
  TPML_TAGGED_TPM_PROPERTY_tpmProperty :: "TPMS_TAGGED_PROPERTY list"

record TPML_TAGGED_PCR_PROPERTY =
  TPML_TAGGED_PCR_PROPERTY_count :: "UINT32"
  TPML_TAGGED_PCR_PROPERTY_pcrProperty :: "TPMS_TAGGED_PCR_SELECT list"

record TPML_ECC_CURVE =
  TPML_ECC_CURVE_count :: "UINT32"
  TPML_ECC_CURVE_eccCurves :: "TPM_ECC_CURVE list"

datatype TPMU_CAPABILITIES =
    TPMU_CAPABILITIES_unset
  | TPMU_CAPABILITIES_algorithms "TPML_ALG_PROPERTY"
  | TPMU_CAPABILITIES_handles "TPML_HANDLE"
  | TPMU_CAPABILITIES_command "TPML_CCA"
  | TPMU_CAPABILITIES_ppCommands "TPML_CC"
  | TPMU_CAPABILITIES_auditCommands "TPML_CC"
  | TPMU_CAPABILITIES_assignedPCR "TPML_PCR_SELECTION"
  | TPMU_CAPABILITIES_tpmProperties "TPML_TAGGED_TPM_PROPERTY"
  | TPMU_CAPABILITIES_pcrProperties "TPML_TAGGED_PCR_PROPERTY"
  | TPMU_CAPABILITIES_eccCurves "TPML_ECC_CURVE"

record TPMS_CAPABILITY_DATA =
  TPMS_CAPABILITY_DATA_capability :: "TPM_CAP"
  TPMS_CAPABILITY_DATA_data :: "TPMU_CAPABILITIES"

type_synonym UINT64 = "64 word"

record TPMS_CLOCK_INFO =
  TPMS_CLOCK_INFO_clock :: "UINT64"
  TPMS_CLOCK_INFO_resetCount :: "UINT32"
  TPMS_CLOCK_INFO_restartCount :: "UINT32"
  TPMS_CLOCK_INFO_safe :: "TPMI_YES_NO"

record TPMS_TIME_INFO =
  TPMS_TIME_INFO_time :: "UINT64"
  TPMS_TIME_INFO_clockInfo :: "TPMS_CLOCK_INFO"

record TPMS_TIME_ATTEST_INFO =
  TPMS_TIME_ATTEST_INFO_time :: "TPMS_TIME_INFO"
  TPMS_TIME_ATTEST_INFO_firmwareVersion :: "UINT64"

record TPMS_CERTIFY_INFO =
  TPMS_CERTIFY_INFO_name :: "TPM2B_NAME"
  TPMS_CERTIFY_INFO_qualifiedName :: "TPM2B_NAME"

record TPMS_QUOTE_INFO =
  TPMS_QUOTE_INFO_pcrSelect :: "TPML_PCR_SELECTION"
  TPMS_QUOTE_INFO_pcrDigest :: "TPM2B_DIGEST"

record TPMS_COMMAND_AUDIT_INFO =
  TPMS_COMMAND_AUDIT_INFO_auditCounter :: "UINT64"
  TPMS_COMMAND_AUDIT_INFO_digestAlg :: "TPM_ALG_ID"
  TPMS_COMMAND_AUDIT_INFO_auditDigest :: "TPM2B_DIGEST"
  TPMS_COMMAND_AUDIT_INFO_commandDigest :: "TPM2B_DIGEST"

record TPMS_SESSION_AUDIT_INFO =
  TPMS_SESSION_AUDIT_INFO_exclusiveSession :: "TPMI_YES_NO"
  TPMS_SESSION_AUDIT_INFO_sessionDigest :: "TPM2B_DIGEST"

record TPMS_CREATION_INFO =
  TPMS_CREATION_INFO_objectName :: "TPM2B_NAME"
  TPMS_CREATION_INFO_creationHash :: "TPM2B_DIGEST"

record TPMS_NV_CERTIFY_INFO =
  TPMS_NV_CERTIFY_INFO_indexName :: "TPM2B_NAME"
  TPMS_NV_CERTIFY_INFO_offset :: "UINT16"
  TPMS_NV_CERTIFY_INFO_nvContents :: "TPM2B_MAX_NV_BUFFER"

type_synonym TPMI_ST_ATTEST = "TPM_ST"

datatype TPMU_ATTEST =
    TPMU_ATTEST_unset
  | TPMU_ATTEST_certify "TPMS_CERTIFY_INFO"
  | TPMU_ATTEST_creation "TPMS_CREATION_INFO"
  | TPMU_ATTEST_quote "TPMS_QUOTE_INFO"
  | TPMU_ATTEST_commandAudit "TPMS_COMMAND_AUDIT_INFO"
  | TPMU_ATTEST_sessionAudit "TPMS_SESSION_AUDIT_INFO"
  | TPMU_ATTEST_time "TPMS_TIME_ATTEST_INFO"
  | TPMU_ATTEST_nv "TPMS_NV_CERTIFY_INFO"

record TPMS_ATTEST =
  TPMS_ATTEST_magic :: "TPM_GENERATED"
  TPMS_ATTEST_type :: "TPMI_ST_ATTEST"
  TPMS_ATTEST_qualifiedSigner :: "TPM2B_NAME"
  TPMS_ATTEST_extraData :: "TPM2B_DATA"
  TPMS_ATTEST_clockInfo :: "TPMS_CLOCK_INFO"
  TPMS_ATTEST_firmwareVersion :: "UINT64"
  TPMS_ATTEST_attested :: "TPMU_ATTEST"

type_synonym TPM2B_ATTEST = TPM2B

record TPMS_AUTH_RESPONSE =
  TPMS_AUTH_RESPONSE_nonce :: "TPM2B_NONCE"
  TPMS_AUTH_RESPONSE_sessionAttributes :: "TPMA_SESSION"
  TPMS_AUTH_RESPONSE_hmac :: "TPM2B_AUTH"

type_synonym TPMI_AES_KEY_BITS = "TPM_KEY_BITS"

datatype TPMU_SYM_KEY_BITS =
    TPMU_SYM_KEY_BITS_unset
  | TPMU_SYM_KEY_BITS_aes "TPMI_AES_KEY_BITS"
  | TPMU_SYM_KEY_BITS_xorr "TPMI_ALG_HASH"
  | TPMU_SYM_KEY_BITS_sym "TPM_KEY_BITS"

datatype TPMU_SYM_MODE =
    TPMU_SYM_MODE_unset
  | TPMU_SYM_MODE_aes "TPMI_ALG_SYM_MODE"
  | TPMU_SYM_MODE_sym "TPMI_ALG_SYM_MODE"

record TPMT_SYM_DEF =
  TPMT_SYM_DEF_algorithm :: "TPMI_ALG_SYM"
  TPMT_SYM_DEF_keyBits :: "TPMU_SYM_KEY_BITS"
  TPMT_SYM_DEF_mode :: "TPMU_SYM_MODE"

record TPMT_SYM_DEF_OBJECT =
  TPMT_SYM_DEF_OBJECT_algorithm :: "TPMI_ALG_SYM_OBJECT"
  TPMT_SYM_DEF_OBJECT_keyBits :: "TPMU_SYM_KEY_BITS"
  TPMT_SYM_DEF_OBJECT_mode :: "TPMU_SYM_MODE"

type_synonym TPM2B_SYM_KEY = TPM2B

record TPMS_SYMCIPHER_PARMS =
  TPMS_SYMCIPHER_PARMS_sym :: "TPMT_SYM_DEF_OBJECT"

type_synonym TPM2B_SENSITIVE_DATA = TPM2B

record TPMS_SENSITIVE_CREATE =
  TPMS_SENSITIVE_CREATE_userAuth :: "TPM2B_AUTH"
  TPMS_SENSITIVE_CREATE_data :: "TPM2B_SENSITIVE_DATA"

record TPM2B_SENSITIVE_CREATE =
  TPM2B_SENSITIVE_CREATE_size :: UINT16
  TPM2B_SENSITIVE_CREATE_sensitive :: "TPMS_SENSITIVE_CREATE"

record TPMS_SCHEME_HASH =
  TPMS_SCHEME_HASH_hashAlg :: "TPMI_ALG_HASH"

record TPMS_SCHEME_ECDAA =
  TPMS_SCHEME_ECDAA_hashAlg :: "TPMI_ALG_HASH"
  TPMS_SCHEME_ECDAA_count :: "UINT16"

type_synonym TPMI_ALG_KEYEDHASH_SCHEME = "TPM_ALG_ID"

type_synonym TPMS_SCHEME_HMAC = "TPMS_SCHEME_HASH"

record TPMS_SCHEME_XOR =
  TPMS_SCHEME_XOR_hashAlg :: "TPMI_ALG_HASH"
  TPMS_SCHEME_XOR_kdf :: "TPMI_ALG_KDF"

datatype TPMU_SCHEME_KEYEDHASH =
    TPMU_SCHEME_KEYEDHASH_unset
  | TPMU_SCHEME_KEYEDHASH_hmac "TPMS_SCHEME_HMAC"
  | TPMU_SCHEME_KEYEDHASH_xorr "TPMS_SCHEME_XOR"

record TPMT_KEYEDHASH_SCHEME =
  TPMT_KEYEDHASH_SCHEME_scheme :: "TPMI_ALG_KEYEDHASH_SCHEME"
  TPMT_KEYEDHASH_SCHEME_details :: "TPMU_SCHEME_KEYEDHASH"

type_synonym TPMS_SIG_SCHEME_RSAPSS = "TPMS_SCHEME_HASH"

type_synonym TPMS_SIG_SCHEME_RSASSA = "TPMS_SCHEME_HASH"

type_synonym TPMS_SIG_SCHEME_ECDAA = "TPMS_SCHEME_ECDAA"

type_synonym TPMS_SIG_SCHEME_ECDSA = "TPMS_SCHEME_HASH"

type_synonym TPMS_SIG_SCHEME_ECSCHNORR = "TPMS_SCHEME_HASH"

type_synonym TPMS_SIG_SCHEME_SM2 = "TPMS_SCHEME_HASH"

datatype TPMU_SIG_SCHEME =
    TPMU_SIG_SCHEME_unset
  | TPMU_SIG_SCHEME_rsassa "TPMS_SIG_SCHEME_RSASSA"
  | TPMU_SIG_SCHEME_rsapss "TPMS_SIG_SCHEME_RSAPSS"
  | TPMU_SIG_SCHEME_ecdsa "TPMS_SIG_SCHEME_ECDSA"
  | TPMU_SIG_SCHEME_ecdaa "TPMS_SIG_SCHEME_ECDAA"
  | TPMU_SIG_SCHEME_sm2 "TPMS_SIG_SCHEME_SM2"
  | TPMU_SIG_SCHEME_ecSchnorr "TPMS_SIG_SCHEME_ECSCHNORR"
  | TPMU_SIG_SCHEME_hmac "TPMS_SCHEME_HMAC"
  | TPMU_SIG_SCHEME_any "TPMS_SCHEME_HASH"

record TPMT_SIG_SCHEME =
  TPMT_SIG_SCHEME_scheme :: "TPMI_ALG_SIG_SCHEME"
  TPMT_SIG_SCHEME_details :: "TPMU_SIG_SCHEME"

type_synonym TPMS_ENC_SCHEME_OAEP = "TPMS_SCHEME_HASH"

type_synonym TPMS_ENC_SCHEME_RSAES = "TPMS_EMPTY"

type_synonym TPMS_KEY_SCHEME_ECDH = "TPMS_SCHEME_HASH"

type_synonym TPMS_KEY_SCHEME_ECMQV = "TPMS_SCHEME_HASH"

type_synonym TPMS_SCHEME_KDF1_SP800_108 = "TPMS_SCHEME_HASH"

type_synonym TPMS_SCHEME_KDF1_SP800_56A = "TPMS_SCHEME_HASH"

type_synonym TPMS_SCHEME_KDF2 = "TPMS_SCHEME_HASH"

type_synonym TPMS_SCHEME_MGF1 = "TPMS_SCHEME_HASH"

datatype TPMU_KDF_SCHEME =
    TPMU_KDF_SCHEME_unset
  | TPMU_KDF_SCHEME_mgf1 "TPMS_SCHEME_MGF1"
  | TPMU_KDF_SCHEME_kdf1_SP800_56a "TPMS_SCHEME_KDF1_SP800_56A"
  | TPMU_KDF_SCHEME_kdf1_sp800_108 "TPMS_SCHEME_KDF1_SP800_108"

record TPMT_KDF_SCHEME =
  TPMT_KDF_SCHEME_scheme :: "TPMI_ALG_KDF"
  TPMT_KDF_SCHEME_details :: "TPMU_KDF_SCHEME"

datatype TPMU_ASYM_SCHEME =
    TPMU_ASYM_SCHEME_unset
  | TPMU_ASYM_SCHEME_ecdh "TPMS_KEY_SCHEME_ECDH"
  | TPMU_ASYM_SCHEME_rsassa "TPMS_SIG_SCHEME_RSASSA"
  | TPMU_ASYM_SCHEME_rsapss "TPMS_SIG_SCHEME_RSAPSS"
  | TPMU_ASYM_SCHEME_ecdsa "TPMS_SIG_SCHEME_ECDSA"
  | TPMU_ASYM_SCHEME_ecdaa "TPMS_SIG_SCHEME_ECDAA"
  | TPMU_ASYM_SCHEME_sm2 "TPMS_SIG_SCHEME_SM2"
  | TPMU_ASYM_SCHEME_ecSchnorr "TPMS_SIG_SCHEME_ECSCHNORR"
  | TPMU_ASYM_SCHEME_rsaes "TPMS_ENC_SCHEME_RSAES"
  | TPMU_ASYM_SCHEME_oaep "TPMS_ENC_SCHEME_OAEP"
  | TPMU_ASYM_SCHEME_anySig "TPMS_SCHEME_HASH"

type_synonym TPMI_ALG_RSA_SCHEME = "TPM_ALG_ID"

record TPMT_RSA_SCHEME =
  TPMT_RSA_SCHEME_scheme :: "TPMI_ALG_RSA_SCHEME"
  TPMT_RSA_SCHEME_details :: "TPMU_ASYM_SCHEME"

type_synonym TPMI_ALG_RSA_DECRYPT = "TPM_ALG_ID"

record TPMT_RSA_DECRYPT =
  TPMT_RSA_DECRYPT_scheme :: "TPMI_ALG_RSA_DECRYPT"
  TPMT_RSA_DECRYPT_details :: "TPMU_ASYM_SCHEME"

type_synonym TPM2B_PUBLIC_KEY_RSA = TPM2B

type_synonym TPMI_RSA_KEY_BITS = "TPM_KEY_BITS"

type_synonym TPM2B_PRIVATE_KEY_RSA = TPM2B

type_synonym TPM2B_ECC_PARAMETER = TPM2B

record TPMS_ECC_POINT =
  TPMS_ECC_POINT_x :: "TPM2B_ECC_PARAMETER"
  TPMS_ECC_POINT_y :: "TPM2B_ECC_PARAMETER"

record TPM2B_ECC_POINT =
  TPM2B_ECC_POINT_size :: UINT16
  TPM2B_ECC_POINT_point :: "TPMS_ECC_POINT"

type_synonym TPMI_ALG_ECC_SCHEME = "TPM_ALG_ID"

type_synonym TPMI_ECC_CURVE = "TPM_ECC_CURVE"

record TPMT_ECC_SCHEME =
  TPMT_ECC_SCHEME_scheme :: "TPMI_ALG_ECC_SCHEME"
  TPMT_ECC_SCHEME_details :: "TPMU_ASYM_SCHEME"

record TPMS_ALGORITHM_DETAIL_ECC =
  TPMS_ALGORITHM_DETAIL_ECC_curveID :: "TPM_ECC_CURVE"
  TPMS_ALGORITHM_DETAIL_ECC_keySize :: "UINT16"
  TPMS_ALGORITHM_DETAIL_ECC_kdf :: "TPMT_KDF_SCHEME"
  TPMS_ALGORITHM_DETAIL_ECC_sign :: "TPMT_ECC_SCHEME"
  TPMS_ALGORITHM_DETAIL_ECC_p :: "TPM2B_ECC_PARAMETER"
  TPMS_ALGORITHM_DETAIL_ECC_a :: "TPM2B_ECC_PARAMETER"
  TPMS_ALGORITHM_DETAIL_ECC_b :: "TPM2B_ECC_PARAMETER"
  TPMS_ALGORITHM_DETAIL_ECC_gX :: "TPM2B_ECC_PARAMETER"
  TPMS_ALGORITHM_DETAIL_ECC_gY :: "TPM2B_ECC_PARAMETER"
  TPMS_ALGORITHM_DETAIL_ECC_n :: "TPM2B_ECC_PARAMETER"
  TPMS_ALGORITHM_DETAIL_ECC_h :: "TPM2B_ECC_PARAMETER"

record TPMS_SIGNATURE_RSA =
  TPMS_SIGNATURE_RSA_hash :: "TPMI_ALG_HASH"
  TPMS_SIGNATURE_RSA_sig :: "TPM2B_PUBLIC_KEY_RSA"

type_synonym TPMS_SIGNATURE_RSASSA = "TPMS_SIGNATURE_RSA"

type_synonym TPMS_SIGNATURE_RSAPSS = "TPMS_SIGNATURE_RSA"

record TPMS_SIGNATURE_ECC =
  TPMS_SIGNATURE_ECC_hash :: "TPMI_ALG_HASH"
  TPMS_SIGNATURE_ECC_signatureR :: "TPM2B_ECC_PARAMETER"
  TPMS_SIGNATURE_ECC_signatureS :: "TPM2B_ECC_PARAMETER"

type_synonym TPMS_SIGNATURE_ECDSA = "TPMS_SIGNATURE_ECC"

type_synonym TPMS_SIGNATURE_ECDAA = "TPMS_SIGNATURE_ECC"

type_synonym TPMS_SIGNATURE_SM2 = "TPMS_SIGNATURE_ECC"

type_synonym TPMS_SIGNATURE_ECSCHNORR = "TPMS_SIGNATURE_ECC"

datatype TPMU_SIGNATURE =
    TPMU_SIGNATURE_unset
  | TPMU_SIGNATURE_rsassa "TPMS_SIGNATURE_RSASSA"
  | TPMU_SIGNATURE_rsapss "TPMS_SIGNATURE_RSAPSS"
  | TPMU_SIGNATURE_ecdsa "TPMS_SIGNATURE_ECDSA"
  | TPMU_SIGNATURE_ecdaa "TPMS_SIGNATURE_ECDSA"
  | TPMU_SIGNATURE_sm2 "TPMS_SIGNATURE_ECDSA"
  | TPMU_SIGNATURE_ecschnorr "TPMS_SIGNATURE_ECDSA"
  | TPMU_SIGNATURE_hmac "TPMT_HA"
  | TPMU_SIGNATURE_any "TPMS_SCHEME_HASH"

record TPMT_SIGNATURE =
  TPMT_SIGNATURE_sigAlg :: "TPMI_ALG_SIG_SCHEME"
  TPMT_SIGNATURE_signature :: "TPMU_SIGNATURE"

type_synonym TPM2B_ENCRYPTED_SECRET = TPM2B

type_synonym TPMI_ALG_PUBLIC = "TPM_ALG_ID"

datatype TPMU_PUBLIC_ID =
    TPMU_PUBLIC_ID_unset
  | TPMU_PUBLIC_ID_keyedHash "TPM2B_DIGEST"
  | TPMU_PUBLIC_ID_sym "TPM2B_DIGEST"
  | TPMU_PUBLIC_ID_rsa "TPM2B_PUBLIC_KEY_RSA"
  | TPMU_PUBLIC_ID_ecc "TPMS_ECC_POINT"

record TPMS_KEYEDHASH_PARMS =
  TPMS_KEYEDHASH_PARMS_scheme :: "TPMT_KEYEDHASH_SCHEME"

record TPMS_RSA_PARMS =
  TPMS_RSA_PARMS_symmetric :: "TPMT_SYM_DEF_OBJECT"
  TPMS_RSA_PARMS_scheme :: "TPMT_RSA_SCHEME"
  TPMS_RSA_PARMS_keyBits :: "TPMI_RSA_KEY_BITS"
  TPMS_RSA_PARMS_exponent :: "UINT32"

record TPMS_ECC_PARMS =
  TPMS_ECC_PARMS_symmetric :: "TPMT_SYM_DEF_OBJECT"
  TPMS_ECC_PARMS_scheme :: "TPMT_ECC_SCHEME"
  TPMS_ECC_PARMS_curveID :: "TPMI_ECC_CURVE"
  TPMS_ECC_PARMS_kdf :: "TPMT_KDF_SCHEME"

type_synonym TPMI_ALG_ASYM_SCHEME = "TPM_ALG_ID"

record TPMT_ASYM_SCHEME =
  TPMT_ASYM_SCHEME_scheme :: "TPMI_ALG_ASYM_SCHEME"
  TPMT_ASYM_SCHEME_details :: "TPMU_ASYM_SCHEME"

record TPMS_ASYM_PARMS =
  TPMS_ASYM_PARMS_symmetric :: "TPMT_SYM_DEF_OBJECT"
  TPMS_ASYM_PARMS_scheme :: "TPMT_ASYM_SCHEME"

datatype TPMU_PUBLIC_PARMS =
    TPMU_PUBLIC_PARMS_unset
  | TPMU_PUBLIC_PARMS_keyedHashDetail "TPMS_KEYEDHASH_PARMS"
  | TPMU_PUBLIC_PARMS_symDetail "TPMS_SYMCIPHER_PARMS"
  | TPMU_PUBLIC_PARMS_rsaDetail "TPMS_RSA_PARMS"
  | TPMU_PUBLIC_PARMS_eccDetail "TPMS_ECC_PARMS"
  | TPMU_PUBLIC_PARMS_asymDetail "TPMS_ASYM_PARMS"

record TPMT_PUBLIC_PARMS =
  TPMT_PUBLIC_PARMS_type :: "TPMI_ALG_PUBLIC"
  TPMT_PUBLIC_PARMS_parameters :: "TPMU_PUBLIC_PARMS"

record TPMT_PUBLIC =
  TPMT_PUBLIC_type :: "TPMI_ALG_PUBLIC"
  TPMT_PUBLIC_nameAlg :: "TPMI_ALG_HASH"
  TPMT_PUBLIC_objectAttributes :: "TPMA_OBJECT"
  TPMT_PUBLIC_authPolicy :: "TPM2B_DIGEST"
  TPMT_PUBLIC_parameters :: "TPMU_PUBLIC_PARMS"
  TPMT_PUBLIC_unique :: "TPMU_PUBLIC_ID"

record TPM2B_PUBLIC =
  TPM2B_PUBLIC_size :: UINT16
  TPM2B_PUBLIC_publicArea :: "TPMT_PUBLIC"

type_synonym TPM2B_PRIVATE_VENDOR_SPECIFIC = TPM2B

datatype TPMU_SENSITIVE_COMPOSITE =
    TPMU_SENSITIVE_COMPOSITE_unset
  | TPMU_SENSITIVE_COMPOSITE_rsa "TPM2B_PRIVATE_KEY_RSA"
  | TPMU_SENSITIVE_COMPOSITE_ecc "TPM2B_ECC_PARAMETER"
  | TPMU_SENSITIVE_COMPOSITE_bits "TPM2B_SENSITIVE_DATA"
  | TPMU_SENSITIVE_COMPOSITE_sym "TPM2B_SYM_KEY"
  | TPMU_SENSITIVE_COMPOSITE_any "TPM2B_PRIVATE_VENDOR_SPECIFIC"

record TPMT_SENSITIVE =
  TPMT_SENSITIVE_sensitiveType :: "TPMI_ALG_PUBLIC"
  TPMT_SENSITIVE_authValue :: "TPM2B_AUTH"
  TPMT_SENSITIVE_seedValue :: "TPM2B_DIGEST"
  TPMT_SENSITIVE_sensitive :: "TPMU_SENSITIVE_COMPOSITE"

record TPM2B_SENSITIVE =
  TPM2B_SENSITIVE_size :: UINT16
  TPM2B_SENSITIVE_sensitiveArea :: "TPMT_SENSITIVE option"

type_synonym TPM2B_PRIVATE = TPM2B

type_synonym TPM2B_ID_OBJECT = TPM2B

type_synonym TPMA_NV = "32 word"

record TPMS_NV_PUBLIC =
  TPMS_NV_PUBLIC_nvIndex :: "TPMI_RH_NV_INDEX"
  TPMS_NV_PUBLIC_nameAlg :: "TPMI_ALG_HASH"
  TPMS_NV_PUBLIC_attributes :: "TPMA_NV"
  TPMS_NV_PUBLIC_authPolicy :: "TPM2B_DIGEST"
  TPMS_NV_PUBLIC_dataSize :: "UINT16"

record TPM2B_NV_PUBLIC =
  TPM2B_NV_PUBLIC_size :: UINT16
  TPM2B_NV_PUBLIC_nvPublic :: "TPMS_NV_PUBLIC"

type_synonym TPM2B_CONTEXT_SENSITIVE = TPM2B

record TPMS_CONTEXT_DATA =
  TPMS_CONTEXT_DATA_integrity :: "TPM2B_DIGEST"
  TPMS_CONTEXT_DATA_encrypted :: "TPM2B_CONTEXT_SENSITIVE"

type_synonym TPM2B_CONTEXT_DATA = TPM2B

record TPMS_CONTEXT =
  TPMS_CONTEXT_sequence :: "UINT64"
  TPMS_CONTEXT_savedHandle :: "TPMI_DH_CONTEXT"
  TPMS_CONTEXT_hierarchy :: "TPMI_RH_HIERARCHY"
  TPMS_CONTEXT_contextBlob :: "TPM2B_CONTEXT_DATA"

record TPMS_CREATION_DATA =
  TPMS_CREATION_DATA_pcrSelect :: "TPML_PCR_SELECTION"
  TPMS_CREATION_DATA_pcrDigest :: "TPM2B_DIGEST"
  TPMS_CREATION_DATA_locality :: "TPMA_LOCALITY"
  TPMS_CREATION_DATA_parentNameAlg :: "TPM_ALG_ID"
  TPMS_CREATION_DATA_parentName :: "TPM2B_NAME"
  TPMS_CREATION_DATA_parentQualifiedName :: "TPM2B_NAME"
  TPMS_CREATION_DATA_outsideInfo :: "TPM2B_DATA"

record TPM2B_CREATION_DATA =
  TPM2B_CREATION_DATA_size :: UINT16
  TPM2B_CREATION_DATA_creationData :: "TPMS_CREATION_DATA"

record TPMS_AUTH_COMMAND =
  TPMS_AUTH_COMMAND_sessionHandle :: "TPMI_SH_AUTH_SESSION"
  TPMS_AUTH_COMMAND_nonce :: "TPM2B_NONCE"
  TPMS_AUTH_COMMAND_sessionAttributes :: "TPMA_SESSION"
  TPMS_AUTH_COMMAND_hmac :: "TPM2B_AUTH"

type_synonym INT32 = "32 word"

end
