(* ===== verification/Tss_Hash.thy ===== *)
theory Tss_Hash
  imports Tss_Types
begin

text \<open>
  Digests, HMAC and the key derivation functions of \<^verbatim>\<open>libtss2/CpriHash.c\<close> with the table of \<^verbatim>\<open>CpriHashData.c\<close>.
  OpenSSL is a parameter: what a digest of some bytes is, and the size of the state that it keeps of a digest in progress. A context
  of OpenSSL is modelled by the bytes that it was given, so that finishing it gives the digest of them. \<open>None\<close> says that
  a function reads behind a buffer or bytes that were never written. The build has SHA-1, SHA-256 and SHA-384. A failed assertion or
  \<open>FAIL\<close> only prints a message (\<^verbatim>\<open>fail.c\<close>).
\<close>

section \<open>Algorithms\<close>

datatype EVP_MD = EVP_sha1 | EVP_sha256 | EVP_sha384

record openssl =
  EVP_Digest :: "EVP_MD \<Rightarrow> byte list \<Rightarrow> byte list"
  ctx_size :: "EVP_MD \<Rightarrow> nat"

fun EVP_MD_size :: "EVP_MD \<Rightarrow> nat" where
  "EVP_MD_size EVP_sha1 = 20"
| "EVP_MD_size EVP_sha256 = 32"
| "EVP_MD_size EVP_sha384 = 48"

definition GetHashServer :: "TPM_ALG_ID \<Rightarrow> EVP_MD option" where
  "GetHashServer hashAlg =
     (if hashAlg = TPM_ALG_SHA1 then Some EVP_sha1
      else if hashAlg = TPM_ALG_SHA256 then Some EVP_sha256
      else if hashAlg = TPM_ALG_SHA384 then Some EVP_sha384
      else None)"

record HASH_INFO =
  HASH_INFO_alg :: TPM_ALG_ID
  HASH_INFO_digestSize :: "16 word"
  HASH_INFO_blockSize :: "16 word"
  HASH_INFO_derSize :: "16 word"
  HASH_INFO_der :: "byte list"

definition g_hashData :: "HASH_INFO list" where
  "g_hashData =
    [\<lparr>HASH_INFO_alg = TPM_ALG_SHA1, HASH_INFO_digestSize = 20, HASH_INFO_blockSize = 64, HASH_INFO_derSize = 15,
        HASH_INFO_der = [0x30, 0x21, 0x30, 0x09, 0x06, 0x05, 0x2B, 0x0E, 0x03, 0x02, 0x1A, 0x05, 0x00, 0x04, 0x14]\<rparr>,
     \<lparr>HASH_INFO_alg = TPM_ALG_SHA256, HASH_INFO_digestSize = 32, HASH_INFO_blockSize = 64, HASH_INFO_derSize = 19,
        HASH_INFO_der = [0x30, 0x31, 0x30, 0x0D, 0x06, 0x09, 0x60, 0x86, 0x48, 0x01, 0x65, 0x03, 0x04, 0x02, 0x01, 0x05, 0x00, 0x04, 0x20]\<rparr>,
     \<lparr>HASH_INFO_alg = TPM_ALG_SHA384, HASH_INFO_digestSize = 48, HASH_INFO_blockSize = 128, HASH_INFO_derSize = 19,
        HASH_INFO_der = [0x30, 0x41, 0x30, 0x0D, 0x06, 0x09, 0x60, 0x86, 0x48, 0x01, 0x65, 0x03, 0x04, 0x02, 0x02, 0x05, 0x00, 0x04, 0x30]\<rparr>,
     \<lparr>HASH_INFO_alg = TPM_ALG_NULL, HASH_INFO_digestSize = 0, HASH_INFO_blockSize = 0, HASH_INFO_derSize = 0, HASH_INFO_der = [0]\<rparr>]"

definition HASH_COUNT :: nat where
  "HASH_COUNT = 3"

text \<open>The search ends before the last entry, which stands for every other algorithm.\<close>

definition GetHashInfoPointer :: "TPM_ALG_ID \<Rightarrow> HASH_INFO" where
  "GetHashInfoPointer hashAlg =
     (case find (\<lambda>q. HASH_INFO_alg q = hashAlg) (butlast g_hashData) of Some q \<Rightarrow> q | None \<Rightarrow> last g_hashData)"

definition cpri__GetHashAlgByIndex :: "32 word \<Rightarrow> TPM_ALG_ID" where
  "cpri__GetHashAlgByIndex index = (if unat index \<ge> HASH_COUNT then TPM_ALG_NULL else HASH_INFO_alg (g_hashData ! unat index))"

definition cpri__GetHashBlockSize :: "TPM_ALG_ID \<Rightarrow> 16 word" where
  "cpri__GetHashBlockSize hashAlg = HASH_INFO_blockSize (GetHashInfoPointer hashAlg)"

definition cpri__GetHashDER :: "TPM_ALG_ID \<Rightarrow> 16 word \<times> byte list" where
  "cpri__GetHashDER hashAlg = (let q = GetHashInfoPointer hashAlg in (HASH_INFO_derSize q, HASH_INFO_der q))"

definition cpri__GetDigestSize :: "TPM_ALG_ID \<Rightarrow> 16 word" where
  "cpri__GetDigestSize hashAlg = HASH_INFO_digestSize (GetHashInfoPointer hashAlg)"

section \<open>Hash states\<close>

text \<open>
  The union of a state holds a live context, or the saved state of one (what OpenSSL keeps of the bytes so far; which digest it
  is for is not part of it). The sign of \<open>copySize\<close> says which; it is 0 when the state holds nothing.
\<close>

datatype hash_context = No_context | Context EVP_MD "byte list" | Data "byte list"

record CPRI_HASH_STATE =
  CPRI_HASH_STATE_hashAlg :: TPM_ALG_ID
  CPRI_HASH_STATE_copySize :: int
  CPRI_HASH_STATE_context :: hash_context

definition MarshalHashState :: "openssl \<Rightarrow> EVP_MD \<Rightarrow> byte list \<Rightarrow> nat \<times> hash_context" where
  "MarshalHashState L md d = (ctx_size L md, Data d)"

definition GetHashState :: "openssl \<Rightarrow> TPM_ALG_ID \<Rightarrow> byte list \<Rightarrow> nat \<times> hash_context" where
  "GetHashState L algType d = (case GetHashServer algType of None \<Rightarrow> (0, No_context) | Some md \<Rightarrow> (ctx_size L md, Context md d))"

definition cpri__GetContextAlg :: "CPRI_HASH_STATE \<Rightarrow> TPM_ALG_ID" where
  "cpri__GetContextAlg hashState = CPRI_HASH_STATE_hashAlg hashState"

text \<open>OpenSSL refuses to copy what is no context, and the copy is then an empty one.\<close>

definition cpri__CopyHashState :: "CPRI_HASH_STATE \<Rightarrow> CPRI_HASH_STATE option" where
  "cpri__CopyHashState in' = (case CPRI_HASH_STATE_context in' of
       Context _ _ \<Rightarrow> Some in'
     | No_context \<Rightarrow> if CPRI_HASH_STATE_copySize in' = 0 then Some in' else None
     | Data _ \<Rightarrow> None)"

definition cpri__ImportExportHashState :: "CPRI_HASH_STATE \<Rightarrow> CPRI_HASH_STATE" where
  "cpri__ImportExportHashState from = from"

definition cpri__StartHash :: "openssl \<Rightarrow> TPM_ALG_ID \<Rightarrow> bool \<Rightarrow> 16 word \<times> CPRI_HASH_STATE" where
  "cpri__StartHash L hashAlg sequence' = (case GetHashServer hashAlg of
       None \<Rightarrow> (0, \<lparr>CPRI_HASH_STATE_hashAlg = hashAlg, CPRI_HASH_STATE_copySize = 0, CPRI_HASH_STATE_context = No_context\<rparr>)
     | Some md \<Rightarrow>
         if sequence' then (let (copySize, data) = MarshalHashState L md [] in
           if copySize = 0
           then (0, \<lparr>CPRI_HASH_STATE_hashAlg = hashAlg, CPRI_HASH_STATE_copySize = 0, CPRI_HASH_STATE_context = data\<rparr>)
           else (of_nat (EVP_MD_size md),
             \<lparr>CPRI_HASH_STATE_hashAlg = hashAlg, CPRI_HASH_STATE_copySize = int copySize, CPRI_HASH_STATE_context = data\<rparr>))
         else (of_nat (EVP_MD_size md),
           \<lparr>CPRI_HASH_STATE_hashAlg = hashAlg, CPRI_HASH_STATE_copySize = - 1, CPRI_HASH_STATE_context = Context md []\<rparr>))"

definition cpri__UpdateHash :: "openssl \<Rightarrow> CPRI_HASH_STATE \<Rightarrow> 32 word \<Rightarrow> byte list \<Rightarrow> CPRI_HASH_STATE option" where
  "cpri__UpdateHash L hashState dataSize data =
     (if CPRI_HASH_STATE_copySize hashState = 0 then Some hashState
      else if length data < unat dataSize then None
      else (case CPRI_HASH_STATE_context hashState of
          No_context \<Rightarrow> None
        | Context md d \<Rightarrow> Some (hashState\<lparr>CPRI_HASH_STATE_context := Context md (d @ take (unat dataSize) data)\<rparr>)
        | Data d \<Rightarrow> (case GetHashState L (CPRI_HASH_STATE_hashAlg hashState) d of
              (n, Context md d') \<Rightarrow> if n = 0 then Some hashState
                else Some (hashState\<lparr>CPRI_HASH_STATE_context := snd (MarshalHashState L md (d' @ take (unat dataSize) data))\<rparr>)
            | _ \<Rightarrow> Some hashState)))"

text \<open>The result and the bytes that it puts into \<open>dOut\<close>.\<close>

definition finish_context :: "openssl \<Rightarrow> CPRI_HASH_STATE \<Rightarrow> EVP_MD \<Rightarrow> byte list \<Rightarrow> 32 word \<Rightarrow>
  16 word \<times> byte list \<times> CPRI_HASH_STATE" where
  "finish_context L hashState md d dOutSize =
     (let temp = EVP_Digest L md d; hLen = EVP_MD_size md;
          state = hashState\<lparr>CPRI_HASH_STATE_copySize := 0, CPRI_HASH_STATE_context := No_context\<rparr> in
      if hLen > unat dOutSize then (ucast dOutSize, take (unat dOutSize) temp, state) else (of_nat hLen, temp, state))"

definition cpri__CompleteHash :: "openssl \<Rightarrow> CPRI_HASH_STATE \<Rightarrow> 32 word \<Rightarrow> (16 word \<times> byte list \<times> CPRI_HASH_STATE) option" where
  "cpri__CompleteHash L hashState dOutSize =
     (if CPRI_HASH_STATE_copySize hashState = 0 then Some (0, [], hashState)
      else (case CPRI_HASH_STATE_context hashState of
          No_context \<Rightarrow> None
        | Context md d \<Rightarrow> Some (finish_context L hashState md d dOutSize)
        | Data d \<Rightarrow> (case GetHashState L (CPRI_HASH_STATE_hashAlg hashState) d of
              (n, Context md d') \<Rightarrow> if n = 0 then Some (0, [], hashState) else Some (finish_context L hashState md d' dOutSize)
            | _ \<Rightarrow> Some (0, [], hashState))))"

definition cpri__HashBlock :: "openssl \<Rightarrow> TPM_ALG_ID \<Rightarrow> 32 word \<Rightarrow> byte list \<Rightarrow> 32 word \<Rightarrow> (16 word \<times> byte list) option" where
  "cpri__HashBlock L hashAlg dataSize data digestSize =
     (let dSize = cpri__GetDigestSize hashAlg in
      if dSize = 0 then Some (0, [])
      else (case GetHashServer hashAlg of
          None \<Rightarrow> Some (0, [])
        | Some md \<Rightarrow>
            if length data < unat dataSize then None
            else let b = EVP_Digest L md (take (unat dataSize) data) in
              if unat dSize > unat digestSize then Some (ucast digestSize, take (unat digestSize) b)
              else Some (of_nat (EVP_MD_size md), b)))"

section \<open>HMAC\<close>

definition xor_with :: "byte \<Rightarrow> byte list \<Rightarrow> byte list" where
  "xor_with k = map (\<lambda>b. b XOR k)"

text \<open>The key of an HMAC, or its digest when it is longer than a block.\<close>

definition hmac_key :: "openssl \<Rightarrow> TPM_ALG_ID \<Rightarrow> 16 word \<Rightarrow> byte list \<Rightarrow> byte list option option" where
  "hmac_key L hashAlg keySize key =
     (if keySize > cpri__GetHashBlockSize hashAlg then
        (case cpri__StartHash L hashAlg False of (digestSize, localState) \<Rightarrow>
           if digestSize = 0 then Some None
           else Option.bind (cpri__UpdateHash L localState (ucast keySize) key) (\<lambda>localState.
             Option.bind (cpri__CompleteHash L localState (ucast digestSize)) (\<lambda>(_, dOut, _). Some (Some dOut))))
      else if length key < unat keySize then None
      else Some (Some (take (unat keySize) key)))"

definition cpri__StartHMAC :: "openssl \<Rightarrow> TPM_ALG_ID \<Rightarrow> bool \<Rightarrow> CPRI_HASH_STATE \<Rightarrow> 16 word \<Rightarrow> byte list \<Rightarrow> TPM2B \<Rightarrow>
  (16 word \<times> CPRI_HASH_STATE \<times> TPM2B) option" where
  "cpri__StartHMAC L hashAlg sequence' state keySize key oPadKey =
     (let blockSize = cpri__GetHashBlockSize hashAlg in
      Option.bind (hmac_key L hashAlg keySize key) (\<lambda>k. case k of
        None \<Rightarrow> Some (0, state, oPadKey)
      | Some k \<Rightarrow>
          let iPad = xor_with 0x36 k @ replicate (unat blockSize - length k) 0x36 in
          (case cpri__StartHash L hashAlg sequence' of (digestSize, state) \<Rightarrow>
             if digestSize > 0
             then map_option (\<lambda>state. (digestSize, state, \<lparr>TPM2B_size = blockSize, TPM2B_buffer = xor_with (0x5c XOR 0x36) iPad\<rparr>))
               (cpri__UpdateHash L state (ucast blockSize) iPad)
             else Some (digestSize, state, \<lparr>TPM2B_size = blockSize, TPM2B_buffer = iPad\<rparr>))))"

definition cpri__CompleteHMAC :: "openssl \<Rightarrow> CPRI_HASH_STATE \<Rightarrow> TPM2B \<Rightarrow> 32 word \<Rightarrow>
  (16 word \<times> byte list \<times> CPRI_HASH_STATE) option" where
  "cpri__CompleteHMAC L hashState oPadKey dOutSize =
     (let digestSize = cpri__GetDigestSize (CPRI_HASH_STATE_hashAlg hashState) in
      Option.bind (cpri__CompleteHash L hashState (ucast digestSize)) (\<lambda>(_, digest, hashState).
        case cpri__StartHash L (CPRI_HASH_STATE_hashAlg hashState) False of (n, localState) \<Rightarrow>
          if n \<noteq> digestSize then Some (0, [], hashState)
          else Option.bind (cpri__UpdateHash L localState (ucast (TPM2B_size oPadKey)) (TPM2B_buffer oPadKey)) (\<lambda>localState.
            Option.bind (cpri__UpdateHash L localState (ucast digestSize) digest) (\<lambda>localState.
            map_option (\<lambda>(n, dOut, _). (n, dOut, hashState)) (cpri__CompleteHash L localState dOutSize)))))"

section \<open>Mask and key generation\<close>

text \<open>The loop of MGF1: the bytes of the mask, and whether it has set \<open>retVal\<close>, which it does not where it breaks.\<close>

function MGF1_loop :: "openssl \<Rightarrow> EVP_MD \<Rightarrow> nat \<Rightarrow> byte list \<Rightarrow> 32 word \<Rightarrow> nat \<Rightarrow> byte list \<times> bool" where
  "MGF1_loop L md dSize seed counter remaining =
     (if remaining = 0 \<or> dSize = 0 then ([], False)
      else let b = EVP_Digest L md (seed @ be32 counter) in
        if remaining < dSize then (take remaining b, False)
        else (b @ fst (MGF1_loop L md dSize seed (counter + 1) (remaining - dSize)), True))"
  by auto
termination by (relation "measure (\<lambda>(_, _, _, _, _, remaining). remaining)") auto

declare MGF1_loop.simps [simp del]

definition cpri__MGF1 :: "openssl \<Rightarrow> 32 word \<Rightarrow> TPM_ALG_ID \<Rightarrow> 32 word \<Rightarrow> byte list \<Rightarrow> (16 word \<times> byte list) option" where
  "cpri__MGF1 L mSize hashAlg sSize seed =
     (let dSize = cpri__GetDigestSize hashAlg in
      if dSize = 0 then Some (0, [])
      else (case GetHashServer hashAlg of
          None \<Rightarrow> Some (0, [])
        | Some md \<Rightarrow>
            if mSize \<noteq> 0 \<and> length seed < unat sSize then None
            else (case MGF1_loop L md (unat dSize) (take (unat sSize) seed) 0 (unat mSize) of
              (m, full) \<Rightarrow> Some (if full then ucast mSize else 0, m))))"

text \<open>A label is a string in memory; its size counts the 0 at its end.\<close>

definition label_bytes :: "byte list \<Rightarrow> byte list option" where
  "label_bytes label = (if 0 \<in> set label then Some (takeWhile (\<lambda>b. b \<noteq> 0) label @ [0]) else None)"

definition update_label :: "openssl \<Rightarrow> CPRI_HASH_STATE \<Rightarrow> byte list \<Rightarrow> CPRI_HASH_STATE option" where
  "update_label L hashState label =
     Option.bind (label_bytes label) (\<lambda>bs. cpri__UpdateHash L hashState (of_nat (length bs)) bs)"

text \<open>A member that the caller may leave out.\<close>

definition update_TPM2B :: "openssl \<Rightarrow> CPRI_HASH_STATE \<Rightarrow> TPM2B option \<Rightarrow> CPRI_HASH_STATE option" where
  "update_TPM2B L hashState b = (case b of
       None \<Rightarrow> Some hashState
     | Some b \<Rightarrow> cpri__UpdateHash L hashState (ucast (TPM2B_size b)) (TPM2B_buffer b))"

text \<open>One iteration of KDFa, which writes \<open>hLen\<close> bytes.\<close>

definition KDFa_block :: "openssl \<Rightarrow> TPM_ALG_ID \<Rightarrow> TPM2B \<Rightarrow> byte list option \<Rightarrow> TPM2B option \<Rightarrow> TPM2B option \<Rightarrow> 32 word \<Rightarrow>
  32 word \<Rightarrow> int \<Rightarrow> byte list option" where
  "KDFa_block L hashAlg key label contextU contextV sizeInBits counter hLen =
     Option.bind (cpri__StartHMAC L hashAlg False undefined (TPM2B_size key) (TPM2B_buffer key) undefined) (\<lambda>(_, hashState, hmacKey).
     Option.bind (cpri__UpdateHash L hashState 4 (be32 counter)) (\<lambda>hashState.
     Option.bind (case label of None \<Rightarrow> Some hashState | Some label \<Rightarrow> update_label L hashState label) (\<lambda>hashState.
     Option.bind (update_TPM2B L hashState contextU) (\<lambda>hashState.
     Option.bind (update_TPM2B L hashState contextV) (\<lambda>hashState.
     Option.bind (cpri__UpdateHash L hashState 4 (be32 sizeInBits)) (\<lambda>hashState.
     Option.bind (cpri__CompleteHMAC L hashState hmacKey (word_of_int hLen)) (\<lambda>(_, stream, _). Some stream)))))))"

text \<open>
  The loop of both functions. \<open>bytes\<close> and \<open>hLen\<close> are 16-bit integers, and \<open>hLen\<close> is positive. It returns the
  bytes that it writes and the last counter.
\<close>

function KDF_loop :: "(32 word \<Rightarrow> int \<Rightarrow> byte list option) \<Rightarrow> 32 word \<Rightarrow> int \<Rightarrow> int \<Rightarrow> (byte list \<times> 32 word) option" where
  "KDF_loop block counter hLen bytes =
     (if bytes \<le> 0 \<or> hLen \<le> 0 then Some ([], counter)
      else let hLen' = if bytes < hLen then bytes else hLen in
        Option.bind (block (counter + 1) hLen') (\<lambda>stream.
        map_option (\<lambda>(more, counter). (stream @ more, counter)) (KDF_loop block (counter + 1) hLen' (bytes - hLen'))))"
  by auto
termination by (relation "measure (\<lambda>(_, _, _, bytes). nat bytes)") auto

declare KDF_loop.simps [simp del]

definition mask_bits :: "32 word \<Rightarrow> byte list \<Rightarrow> byte list option" where
  "mask_bits sizeInBits keyStream =
     (if sizeInBits mod 8 = 0 then Some keyStream
      else (case keyStream of
          [] \<Rightarrow> None
        | b # bs \<Rightarrow> Some ((b AND mask (unat (sizeInBits mod 8))) # bs)))"

definition size_in_bytes :: "32 word \<Rightarrow> 32 word" where
  "size_in_bytes sizeInBits = (sizeInBits + 7) div 8"

text \<open>The result, the bytes of \<open>keyStream\<close>, and \<open>*counterInOut\<close>.\<close>

definition cpri__KDFa :: "openssl \<Rightarrow> TPM_ALG_ID \<Rightarrow> TPM2B \<Rightarrow> byte list option \<Rightarrow> TPM2B option \<Rightarrow> TPM2B option \<Rightarrow> 32 word \<Rightarrow>
  32 word option \<Rightarrow> bool \<Rightarrow> (16 word \<times> byte list \<times> 32 word option) option" where
  "cpri__KDFa L hashAlg key label contextU contextV sizeInBits counterInOut once =
     (let hLen = cpri__GetDigestSize hashAlg;
          counter = (case counterInOut of None \<Rightarrow> 0 | Some c \<Rightarrow> c);
          bytes = (if once then sint hLen else sint (ucast (size_in_bytes sizeInBits) :: 16 word)) in
      if hLen = 0 then Some (0, [], counterInOut)
      else Option.bind (KDF_loop (KDFa_block L hashAlg key label contextU contextV sizeInBits) counter (sint hLen) bytes)
        (\<lambda>(keyStream, counter). Option.bind (mask_bits sizeInBits keyStream) (\<lambda>keyStream.
          Some (ucast (size_in_bytes sizeInBits), keyStream, map_option (\<lambda>_. counter) counterInOut))))"

definition KDFe_block :: "openssl \<Rightarrow> TPM_ALG_ID \<Rightarrow> TPM2B option \<Rightarrow> byte list option \<Rightarrow> TPM2B option \<Rightarrow> TPM2B option \<Rightarrow>
  32 word \<Rightarrow> int \<Rightarrow> byte list option" where
  "KDFe_block L hashAlg Z label partyUInfo partyVInfo counter hLen =
     (case cpri__StartHash L hashAlg False of (_, hashState) \<Rightarrow>
      Option.bind (cpri__UpdateHash L hashState 4 (be32 counter)) (\<lambda>hashState.
      Option.bind (update_TPM2B L hashState Z) (\<lambda>hashState.
      Option.bind (case label of None \<Rightarrow> cpri__UpdateHash L hashState 1 [0] | Some label \<Rightarrow> update_label L hashState label) (\<lambda>hashState.
      Option.bind (update_TPM2B L hashState partyUInfo) (\<lambda>hashState.
      Option.bind (update_TPM2B L hashState partyVInfo) (\<lambda>hashState.
      Option.bind (cpri__CompleteHash L hashState (word_of_int hLen)) (\<lambda>(_, stream, _). Some stream)))))))"

definition cpri__KDFe :: "openssl \<Rightarrow> TPM_ALG_ID \<Rightarrow> TPM2B option \<Rightarrow> byte list option \<Rightarrow> TPM2B option \<Rightarrow> TPM2B option \<Rightarrow> 32 word \<Rightarrow>
  (16 word \<times> byte list) option" where
  "cpri__KDFe L hashAlg Z label partyUInfo partyVInfo sizeInBits =
     (let hLen = cpri__GetDigestSize hashAlg; bytes = sint (ucast (size_in_bytes sizeInBits) :: 16 word) in
      if hLen = 0 then Some (0, [])
      else Option.bind (KDF_loop (KDFe_block L hashAlg Z label partyUInfo partyVInfo) 0 (sint hLen) bytes)
        (\<lambda>(keyStream, _). Option.bind (mask_bits sizeInBits keyStream) (\<lambda>keyStream.
          Some (ucast (size_in_bytes sizeInBits), keyStream))))"


section \<open>Reference definitions\<close>

text \<open>What the code relies on: OpenSSL's digests have their size, and its states fit (\<^verbatim>\<open>MarshalHashState\<close> asserts it).\<close>

definition openssl_ok :: "openssl \<Rightarrow> bool" where
  "openssl_ok L \<longleftrightarrow> (\<forall>md m. length (EVP_Digest L md m) = EVP_MD_size md) \<and> (\<forall>md. 0 < ctx_size L md)"

fun md_block_size :: "EVP_MD \<Rightarrow> nat" where
  "md_block_size EVP_sha1 = 64"
| "md_block_size EVP_sha256 = 64"
| "md_block_size EVP_sha384 = 128"

text \<open>The HMAC of RFC 2104.\<close>

definition HMAC_key :: "(byte list \<Rightarrow> byte list) \<Rightarrow> nat \<Rightarrow> byte list \<Rightarrow> byte list" where
  "HMAC_key H B K = (let K' = if length K > B then H K else K in K' @ replicate (B - length K') 0)"

definition HMAC :: "(byte list \<Rightarrow> byte list) \<Rightarrow> nat \<Rightarrow> byte list \<Rightarrow> byte list \<Rightarrow> byte list" where
  "HMAC H B K text' = H (xor_with 0x5c (HMAC_key H B K) @ H (xor_with 0x36 (HMAC_key H B K) @ text'))"

abbreviation md_HMAC :: "openssl \<Rightarrow> EVP_MD \<Rightarrow> byte list \<Rightarrow> byte list \<Rightarrow> byte list" where
  "md_HMAC L md \<equiv> HMAC (EVP_Digest L md) (md_block_size md)"

text \<open>The first \<open>n\<close> bytes of the blocks of a counter.\<close>

definition blocks :: "nat \<Rightarrow> nat \<Rightarrow> nat" where
  "blocks n sz = (n + sz - 1) div sz"

definition counter_mode :: "(32 word \<Rightarrow> byte list) \<Rightarrow> nat \<Rightarrow> 32 word \<Rightarrow> nat \<Rightarrow> byte list" where
  "counter_mode f sz c n = take n (concat (map (\<lambda>i. f (c + of_nat i)) [0..<blocks n sz]))"

text \<open>A buffer that holds what its size says.\<close>

definition TPM2B_ok :: "TPM2B \<Rightarrow> bool" where
  "TPM2B_ok b \<longleftrightarrow> unat (TPM2B_size b) \<le> length (TPM2B_buffer b)"

definition TPM2B_bytes :: "TPM2B \<Rightarrow> byte list" where
  "TPM2B_bytes b = take (unat (TPM2B_size b)) (TPM2B_buffer b)"

definition optional :: "('a \<Rightarrow> byte list) \<Rightarrow> 'a option \<Rightarrow> byte list" where
  "optional f x = (case x of None \<Rightarrow> [] | Some y \<Rightarrow> f y)"

definition KDFa_message :: "byte list option \<Rightarrow> TPM2B option \<Rightarrow> TPM2B option \<Rightarrow> 32 word \<Rightarrow> 32 word \<Rightarrow> byte list" where
  "KDFa_message label U V bits counter =
     be32 counter @ optional (\<lambda>l. takeWhile (\<lambda>b. b \<noteq> 0) l @ [0]) label @ optional TPM2B_bytes U @ optional TPM2B_bytes V @ be32 bits"

definition mask_first :: "32 word \<Rightarrow> byte list \<Rightarrow> byte list" where
  "mask_first bits bs = (if bits mod 8 = 0 then bs else (hd bs AND mask (unat (bits mod 8))) # tl bs)"

section \<open>Hashing\<close>

lemma server_cases:
  assumes "GetHashServer a = Some md"
  obtains "a = TPM_ALG_SHA1" "md = EVP_sha1" | "a = TPM_ALG_SHA256" "md = EVP_sha256" | "a = TPM_ALG_SHA384" "md = EVP_sha384"
  using assms by (auto simp: GetHashServer_def split: if_splits)

lemma server_sizes [simp]:
  assumes "GetHashServer a = Some md"
  shows "cpri__GetDigestSize a = of_nat (EVP_MD_size md)" "cpri__GetHashBlockSize a = of_nat (md_block_size md)"
  using assms by (rule server_cases; simp add: cpri__GetDigestSize_def cpri__GetHashBlockSize_def GetHashInfoPointer_def g_hashData_def)+

lemma no_server:
  assumes "GetHashServer a = None"
  shows "cpri__GetDigestSize a = 0" "cpri__GetHashBlockSize a = 0"
  using assms by (auto simp: cpri__GetDigestSize_def cpri__GetHashBlockSize_def GetHashInfoPointer_def g_hashData_def GetHashServer_def
    split: if_splits)

lemma md_sizes: "0 < EVP_MD_size md" "EVP_MD_size md \<le> 48" "EVP_MD_size md \<le> md_block_size md" "md_block_size md \<le> 128"
  by (cases md; simp)+

lemma md_size_words [simp]:
  "unat (of_nat (EVP_MD_size md) :: 16 word) = EVP_MD_size md" "unat (of_nat (EVP_MD_size md) :: 32 word) = EVP_MD_size md"
  "(of_nat (EVP_MD_size md) :: 16 word) \<noteq> 0" "unat (of_nat (md_block_size md) :: 16 word) = md_block_size md"
  "unat (of_nat (md_block_size md) :: 32 word) = md_block_size md" "(0 :: 16 word) < of_nat (EVP_MD_size md)"
  "ucast (of_nat (EVP_MD_size md) :: 16 word) = (of_nat (EVP_MD_size md) :: 32 word)"
  "ucast (of_nat (md_block_size md) :: 16 word) = (of_nat (md_block_size md) :: 32 word)"
  "sint (of_nat (EVP_MD_size md) :: 16 word) = int (EVP_MD_size md)"
  by (cases md; simp)+

lemma unat_16_32: "unat (ucast (n :: 16 word) :: 32 word) = unat n"
proof -
  have "unat n < 2 ^ 16" using unsigned_less [of n, where 'a = nat] by simp
  then show ?thesis by (simp add: unsigned_ucast_eq take_bit_nat_eq_self)
qed

lemma openssl_okD [simp]:
  "openssl_ok L \<Longrightarrow> length (EVP_Digest L md m) = EVP_MD_size md" "openssl_ok L \<Longrightarrow> ctx_size L md \<noteq> 0"
  by (auto simp: openssl_ok_def)

lemma take_digest [simp]: "openssl_ok L \<Longrightarrow> EVP_MD_size md \<le> n \<Longrightarrow> take n (EVP_Digest L md m) = EVP_Digest L md m"
  by simp

text \<open>A state in use, as a live context or as a saved one.\<close>

definition hash_state :: "openssl \<Rightarrow> bool \<Rightarrow> TPM_ALG_ID \<Rightarrow> EVP_MD \<Rightarrow> byte list \<Rightarrow> CPRI_HASH_STATE" where
  "hash_state L sequence' a md d =
     (if sequence' then \<lparr>CPRI_HASH_STATE_hashAlg = a, CPRI_HASH_STATE_copySize = int (ctx_size L md), CPRI_HASH_STATE_context = Data d\<rparr>
      else \<lparr>CPRI_HASH_STATE_hashAlg = a, CPRI_HASH_STATE_copySize = - 1, CPRI_HASH_STATE_context = Context md d\<rparr>)"

lemma hash_state_alg [simp]: "CPRI_HASH_STATE_hashAlg (hash_state L q a md d) = a"
  by (simp add: hash_state_def)

lemma StartHash_state [simp]:
  "openssl_ok L \<Longrightarrow> GetHashServer a = Some md \<Longrightarrow> cpri__StartHash L a q = (of_nat (EVP_MD_size md), hash_state L q a md [])"
  by (simp add: cpri__StartHash_def hash_state_def MarshalHashState_def)

lemma UpdateHash_state [simp]:
  "openssl_ok L \<Longrightarrow> GetHashServer a = Some md \<Longrightarrow> unat n \<le> length bs \<Longrightarrow>
    cpri__UpdateHash L (hash_state L q a md d) n bs = Some (hash_state L q a md (d @ take (unat n) bs))"
  by (simp add: cpri__UpdateHash_def hash_state_def GetHashState_def MarshalHashState_def)

lemma CompleteHash_state:
  assumes "openssl_ok L" "GetHashServer a = Some md"
  obtains s where "cpri__CompleteHash L (hash_state L q a md d) n = Some (if unat n < EVP_MD_size md then ucast n else of_nat (EVP_MD_size md),
    take (unat n) (EVP_Digest L md d), s)" "CPRI_HASH_STATE_hashAlg s = a"
proof
  let ?s = "\<lparr>CPRI_HASH_STATE_hashAlg = a, CPRI_HASH_STATE_copySize = 0, CPRI_HASH_STATE_context = No_context\<rparr>"
  show "cpri__CompleteHash L (hash_state L q a md d) n = Some (if unat n < EVP_MD_size md then ucast n else of_nat (EVP_MD_size md),
    take (unat n) (EVP_Digest L md d), ?s)"
    using assms by (auto simp: cpri__CompleteHash_def hash_state_def finish_context_def GetHashState_def Let_def)
qed simp

fun update_all :: "openssl \<Rightarrow> CPRI_HASH_STATE \<Rightarrow> byte list list \<Rightarrow> CPRI_HASH_STATE option" where
  "update_all L s [] = Some s"
| "update_all L s (bs # bss) = Option.bind (cpri__UpdateHash L s (of_nat (length bs)) bs) (\<lambda>s. update_all L s bss)"

lemma update_all_state:
  assumes "openssl_ok L" "GetHashServer a = Some md"
  shows "\<forall>bs\<in>set bss. length bs < 2 ^ 32 \<Longrightarrow> update_all L (hash_state L q a md d) bss = Some (hash_state L q a md (d @ concat bss))"
proof (induction bss arbitrary: d)
  case (Cons bs bss)
  have "unat (of_nat (length bs) :: 32 word) = length bs" using Cons.prems by (simp add: unat_of_nat)
  with Cons assms show ?case by simp
qed simp

section \<open>HMAC\<close>

lemma xor_with_simps [simp]:
  "xor_with k (xs @ ys) = xor_with k xs @ xor_with k ys" "length (xor_with k xs) = length xs"
  "xor_with k (replicate n b) = replicate n (b XOR k)" "xor_with 0x6A (xor_with 0x36 xs) = xor_with 0x5c xs"
  by (induction xs) (simp_all add: xor_with_def xor.assoc)

lemma length_HMAC_key [simp]: "openssl_ok L \<Longrightarrow> length (HMAC_key (EVP_Digest L md) (md_block_size md) K) = md_block_size md"
  using md_sizes(3) [of md] by (simp add: HMAC_key_def Let_def)

lemma hmac_key_ok:
  assumes L: "openssl_ok L" "GetHashServer a = Some md" and n: "unat n \<le> length key"
  shows "\<exists>k. hmac_key L a n key = Some (Some k) \<and>
    k @ replicate (md_block_size md - length k) 0 = HMAC_key (EVP_Digest L md) (md_block_size md) (take (unat n) key)"
proof -
  have "n > of_nat (md_block_size md) \<longleftrightarrow> unat n > md_block_size md"
    by (simp add: word_less_nat_alt)
  moreover have "unat (ucast n :: 32 word) = unat n" by (rule unat_16_32)
  moreover obtain s where "cpri__CompleteHash L (hash_state L False a md (take (unat n) key)) (of_nat (EVP_MD_size md)) =
      Some (of_nat (EVP_MD_size md), EVP_Digest L md (take (unat n) key), s)"
    by (rule CompleteHash_state [OF L, where q = False and n = "of_nat (EVP_MD_size md)"]) (use L in simp)
  ultimately show ?thesis using assms by (auto simp: hmac_key_def HMAC_key_def Let_def)
qed

lemma StartHMAC_state:
  assumes L: "openssl_ok L" "GetHashServer a = Some md" and n: "unat n \<le> length key"
  defines "K \<equiv> HMAC_key (EVP_Digest L md) (md_block_size md) (take (unat n) key)"
  shows "cpri__StartHMAC L a q s n key p = Some (of_nat (EVP_MD_size md), hash_state L q a md (xor_with 0x36 K),
    \<lparr>TPM2B_size = of_nat (md_block_size md), TPM2B_buffer = xor_with 0x5c K\<rparr>)"
proof -
  obtain k where k: "hmac_key L a n key = Some (Some k)" "k @ replicate (md_block_size md - length k) 0 = K"
    using hmac_key_ok [OF L n] unfolding K_def by blast
  have K: "xor_with 0x36 k @ replicate (md_block_size md - length k) 0x36 = xor_with 0x36 K" by (simp flip: k(2))
  have "length K = md_block_size md" using L by (simp add: K_def)
  then show ?thesis using L by (simp add: cpri__StartHMAC_def k(1) K Let_def) (simp flip: k(2))
qed

lemma CompleteHMAC_state:
  assumes L: "openssl_ok L" "GetHashServer a = Some md" and K: "length K = md_block_size md"
  obtains s where "cpri__CompleteHMAC L (hash_state L q a md d) \<lparr>TPM2B_size = of_nat (md_block_size md), TPM2B_buffer = K\<rparr> n =
    Some (if unat n < EVP_MD_size md then ucast n else of_nat (EVP_MD_size md),
      take (unat n) (EVP_Digest L md (K @ EVP_Digest L md d)), s)"
proof -
  obtain s where s: "cpri__CompleteHash L (hash_state L q a md d) (of_nat (EVP_MD_size md)) =
      Some (of_nat (EVP_MD_size md), EVP_Digest L md d, s)" "CPRI_HASH_STATE_hashAlg s = a"
    by (rule CompleteHash_state [OF L, where q = q and n = "of_nat (EVP_MD_size md)"]) (use L in simp)
  obtain s' where s': "cpri__CompleteHash L (hash_state L False a md (K @ EVP_Digest L md d)) n =
      Some (if unat n < EVP_MD_size md then ucast n else of_nat (EVP_MD_size md), take (unat n) (EVP_Digest L md (K @ EVP_Digest L md d)), s')"
    by (rule CompleteHash_state [OF L])
  show ?thesis
    by (rule that [of s]) (use L K s s' in \<open>simp add: cpri__CompleteHMAC_def Let_def\<close>)
qed

text \<open>C22. The digest and HMAC interface computes the digest, and the HMAC of RFC 2104, of the bytes that it was given in any number of
  pieces, shortened to the size of the caller's buffer, whether or not the state is saved between the pieces; a key
  longer than a block is replaced by its digest.\<close>

theorem cpri_hash_and_HMAC_correct:
  assumes L: "openssl_ok L" "GetHashServer a = Some md" and n: "unat n \<le> length key" and b: "\<forall>bs\<in>set bss. length bs < 2 ^ 32"
  shows "(\<exists>s s' s''. cpri__StartHash L a q = (of_nat (EVP_MD_size md), s) \<and> update_all L s bss = Some s' \<and>
      cpri__CompleteHash L s' dOutSize = Some (if unat dOutSize < EVP_MD_size md then ucast dOutSize else of_nat (EVP_MD_size md),
        take (unat dOutSize) (EVP_Digest L md (concat bss)), s'')) \<and>
    (\<exists>s oPadKey s' s''. cpri__StartHMAC L a q state n key pad = Some (of_nat (EVP_MD_size md), s, oPadKey) \<and> update_all L s bss = Some s' \<and>
      cpri__CompleteHMAC L s' oPadKey dOutSize = Some (if unat dOutSize < EVP_MD_size md then ucast dOutSize else of_nat (EVP_MD_size md),
        take (unat dOutSize) (HMAC (EVP_Digest L md) (md_block_size md) (take (unat n) key) (concat bss)), s''))"
proof -
  obtain s where "cpri__CompleteHash L (hash_state L q a md (concat bss)) dOutSize =
      Some (if unat dOutSize < EVP_MD_size md then ucast dOutSize else of_nat (EVP_MD_size md), take (unat dOutSize) (EVP_Digest L md (concat bss)), s)"
    by (rule CompleteHash_state [OF L])
  moreover define K where "K = HMAC_key (EVP_Digest L md) (md_block_size md) (take (unat n) key)"
  moreover have "length (xor_with 0x5c K) = md_block_size md" using L by (simp add: K_def)
  then obtain s' where "cpri__CompleteHMAC L (hash_state L q a md (xor_with 0x36 K @ concat bss))
      \<lparr>TPM2B_size = of_nat (md_block_size md), TPM2B_buffer = xor_with 0x5c K\<rparr> dOutSize =
    Some (if unat dOutSize < EVP_MD_size md then ucast dOutSize else of_nat (EVP_MD_size md),
      take (unat dOutSize) (EVP_Digest L md (xor_with 0x5c K @ EVP_Digest L md (xor_with 0x36 K @ concat bss))), s')"
    by (rule CompleteHMAC_state [OF L])
  ultimately show ?thesis
    using L StartHMAC_state [OF L n] update_all_state [OF L b] by (simp add: HMAC_def K_def)
qed


section \<open>Key derivation\<close>

lemma blocks_rec:
  assumes "0 < sz"
  shows "blocks 0 sz = 0" "0 < n \<Longrightarrow> blocks n sz = Suc (blocks (n - sz) sz)"
proof -
  show "blocks n sz = Suc (blocks (n - sz) sz)" if "0 < n"
  proof (cases "n \<le> sz")
    case True
    with that have "(n + sz - 1) div sz = 1" by (intro div_nat_eqI) auto
    with True assms show ?thesis by (simp add: blocks_def)
  next
    case False
    with assms have e: "n + sz - 1 = (n - 1) + sz" "n - sz + sz - 1 = n - 1" by simp_all
    show ?thesis unfolding blocks_def e using assms by (simp only: div_add_self2)
  qed
qed (use assms in \<open>simp add: blocks_def\<close>)

lemma counter_mode_rec:
  assumes "0 < sz" "\<And>c. length (f c) = sz"
  shows "counter_mode f sz c n = (if n = 0 then [] else take n (f c) @ counter_mode f sz (c + 1) (n - sz))"
proof (cases "n = 0")
  case False
  have "map (\<lambda>i. f (c + of_nat i)) [0..<Suc m] = f c # map (\<lambda>i. f (c + 1 + of_nat i)) [0..<m]" for m
    unfolding upt_conv_Cons [OF zero_less_Suc] map_Suc_upt [symmetric] by (simp add: comp_def add.assoc)
  with False assms show ?thesis by (simp add: counter_mode_def blocks_rec)
qed (simp add: counter_mode_def)

lemma length_counter_mode:
  assumes "0 < sz" "\<And>c. length (f c) = sz"
  shows "length (counter_mode f sz c n) = n"
proof (induction n arbitrary: c rule: less_induct)
  case (less n)
  show ?case
  proof (cases "n = 0")
    case False
    with less [of "n - sz"] assms show ?thesis by (subst counter_mode_rec [OF assms]) auto
  qed (simp add: counter_mode_def)
qed

lemma KDF_loop_correct:
  assumes f: "0 < sz" "\<And>c. length (f c) = sz" and b: "\<And>c h. 0 \<le> h \<Longrightarrow> h \<le> int sz \<Longrightarrow> block c h = Some (take (nat h) (f c))"
  shows "KDF_loop block c (int sz) (int n) = Some (counter_mode f sz (c + 1) n, c + of_nat (blocks n sz))"
proof (induction n arbitrary: c rule: less_induct)
  case (less n)
  consider "n = 0" | "0 < n" "n < sz" | "sz \<le> n" by linarith
  then show ?case
  proof cases
    case 1
    then show ?thesis using f(1) by (simp add: KDF_loop.simps [of _ _ _ 0] counter_mode_def blocks_rec)
  next
    case 2
    then show ?thesis using f
      by (simp add: KDF_loop.simps [of _ _ _ "int n"] KDF_loop.simps [of _ _ _ 0] b counter_mode_rec [OF f, where n = n] blocks_rec)
        (simp add: counter_mode_def)
  next
    case 3
    with f(1) have e: "blocks n sz = Suc (blocks (n - sz) sz)" by (simp add: blocks_rec)
    have "KDF_loop block (c + 1) (int sz) (int n - int sz) =
        Some (counter_mode f sz (c + 1 + 1) (n - sz), c + 1 + of_nat (blocks (n - sz) sz))"
      using 3 f(1) less [of "n - sz" "c + 1"] by (simp only: of_nat_diff)
    moreover have "counter_mode f sz (c + 1) n = f (c + 1) @ counter_mode f sz (c + 1 + 1) (n - sz)"
      using 3 f by (subst counter_mode_rec [OF f]) simp
    moreover have "KDF_loop block c (int sz) (int n) = map_option (\<lambda>(more, counter). (f (c + 1) @ more, counter))
        (KDF_loop block (c + 1) (int sz) (int n - int sz))"
      using 3 f by (subst KDF_loop.simps) (simp add: b Let_def)
    ultimately show ?thesis by (simp add: e add.assoc)
  qed
qed

lemma MGF1_loop_correct:
  assumes L: "openssl_ok L"
  shows "MGF1_loop L md (EVP_MD_size md) seed c n =
    (counter_mode (\<lambda>c. EVP_Digest L md (seed @ be32 c)) (EVP_MD_size md) c n, EVP_MD_size md \<le> n)"
proof (induction n arbitrary: c rule: less_induct)
  case (less n)
  note r = counter_mode_rec [OF md_sizes(1), where f = "\<lambda>c. EVP_Digest L md (seed @ be32 c)" and n = n and c = c, OF openssl_okD(1) [OF L]]
  consider "n = 0" | "0 < n" "n < EVP_MD_size md" | "EVP_MD_size md \<le> n" by linarith
  then show ?case
  proof cases
    case 1
    then show ?thesis using md_sizes(1) [of md] by (simp add: MGF1_loop.simps [of _ _ _ _ _ 0] counter_mode_def)
  next
    case 2
    then show ?thesis using L by (simp add: MGF1_loop.simps [of _ _ _ _ _ n] r) (simp add: counter_mode_def)
  next
    case 3
    then show ?thesis using L md_sizes(1) [of md] less [of "n - EVP_MD_size md"]
      by (simp add: MGF1_loop.simps [of _ _ _ _ _ n] r)
  qed
qed

definition label_ok :: "byte list option \<Rightarrow> bool" where
  "label_ok label \<longleftrightarrow> (\<forall>l. label = Some l \<longrightarrow> 0 \<in> set l \<and> length l < 2 ^ 31)"

definition context_ok :: "TPM2B option \<Rightarrow> bool" where
  "context_ok b \<longleftrightarrow> (\<forall>x. b = Some x \<longrightarrow> TPM2B_ok x)"

lemma update_TPM2B_state [simp]:
  "openssl_ok L \<Longrightarrow> GetHashServer a = Some md \<Longrightarrow> context_ok b \<Longrightarrow>
    update_TPM2B L (hash_state L q a md d) b = Some (hash_state L q a md (d @ optional TPM2B_bytes b))"
  by (auto simp: update_TPM2B_def optional_def context_ok_def TPM2B_ok_def TPM2B_bytes_def unat_16_32 split: option.split)

lemma update_label_state:
  assumes L: "openssl_ok L" "GetHashServer a = Some md" and l: "0 \<in> set l" "length l < 2 ^ 31"
  shows "update_label L (hash_state L q a md d) l = Some (hash_state L q a md (d @ takeWhile (\<lambda>b. b \<noteq> 0) l @ [0]))"
proof -
  have "length (takeWhile (\<lambda>b. b \<noteq> 0) l) \<le> length l" by (rule length_takeWhile_le)
  then have "unat (of_nat (Suc (length (takeWhile (\<lambda>b. b \<noteq> 0) l))) :: 32 word) = Suc (length (takeWhile (\<lambda>b. b \<noteq> 0) l))"
    using l(2) by (simp only: unat_of_nat) simp
  with L l show ?thesis by (simp add: update_label_def label_bytes_def)
qed

lemma length_be32 [simp]: "length (be32 w) = 4"
  by (simp add: be32_def)

lemma block_size_word: "0 \<le> h \<Longrightarrow> h \<le> int (EVP_MD_size md) \<Longrightarrow> unat (word_of_int h :: 32 word) = nat h"
  using md_sizes(2) [of md] by (simp add: unsigned_of_int take_bit_int_eq_self)

lemma KDFa_block_correct:
  assumes L: "openssl_ok L" "GetHashServer a = Some md" and ok: "TPM2B_ok key" "label_ok label" "context_ok U" "context_ok V"
    and h: "0 \<le> h" "h \<le> int (EVP_MD_size md)"
  shows "KDFa_block L a key label U V bits c h =
    Some (take (nat h) (md_HMAC L md (TPM2B_bytes key) (KDFa_message label U V bits c)))"
proof -
  define K where "K = HMAC_key (EVP_Digest L md) (md_block_size md) (TPM2B_bytes key)"
  have s: "cpri__StartHMAC L a False undefined (TPM2B_size key) (TPM2B_buffer key) undefined = Some (of_nat (EVP_MD_size md),
      hash_state L False a md (xor_with 0x36 K), \<lparr>TPM2B_size = of_nat (md_block_size md), TPM2B_buffer = xor_with 0x5c K\<rparr>)"
    unfolding K_def TPM2B_bytes_def using ok(1) by (intro StartHMAC_state L) (simp add: TPM2B_ok_def)
  have l: "(case label of None \<Rightarrow> Some (hash_state L False a md d) | Some label \<Rightarrow> update_label L (hash_state L False a md d) label) =
      Some (hash_state L False a md (d @ optional (\<lambda>l. takeWhile (\<lambda>b. b \<noteq> 0) l @ [0]) label))" for d
    using ok(2) L by (auto simp: label_ok_def optional_def update_label_state split: option.split)
  have "length (xor_with 0x5c K) = md_block_size md" using L by (simp add: K_def)
  then obtain s' where "cpri__CompleteHMAC L (hash_state L False a md (xor_with 0x36 K @ KDFa_message label U V bits c))
      \<lparr>TPM2B_size = of_nat (md_block_size md), TPM2B_buffer = xor_with 0x5c K\<rparr> (word_of_int h) =
    Some (if unat (word_of_int h :: 32 word) < EVP_MD_size md then ucast (word_of_int h :: 32 word) else of_nat (EVP_MD_size md),
      take (nat h) (EVP_Digest L md (xor_with 0x5c K @ EVP_Digest L md (xor_with 0x36 K @ KDFa_message label U V bits c))), s')"
    by (rule CompleteHMAC_state [OF L, of _ False _ "word_of_int h"]) (simp add: block_size_word [OF h])
  then show ?thesis
    using L ok by (simp add: KDFa_block_def s l KDFa_message_def HMAC_def K_def)
qed


lemma size_in_bytes_eq:
  assumes "unat bits \<le> 2 ^ 32 - 8"
  shows "unat (size_in_bytes bits) = (unat bits + 7) div 8"
proof -
  have "unat (bits + 7) = unat bits + 7" using assms by (subst unat_plus_if') simp
  then show ?thesis by (simp add: size_in_bytes_def unat_div_distrib)
qed

lemma size_in_bytes_sint:
  assumes "(unat bits + 7) div 8 \<le> 32767"
  shows "sint (of_nat ((unat bits + 7) div 8) :: 16 word) = int ((unat bits + 7) div 8)"
    "ucast (size_in_bytes bits) = (of_nat ((unat bits + 7) div 8) :: 16 word)"
proof -
  let ?n = "(unat bits + 7) div 8"
  have "unat bits \<le> 2 ^ 32 - 8" using assms by simp
  then have n: "unat (size_in_bytes bits) = ?n" by (rule size_in_bytes_eq)
  then have "size_in_bytes bits = of_nat ?n" by (metis of_nat_unat ucast_id)
  then show "ucast (size_in_bytes bits) = (of_nat ?n :: 16 word)" using assms by (simp add: ucast_eq unsigned_of_nat take_bit_nat_eq_self)
  show "sint (of_nat ?n :: 16 word) = int ?n"
    using assms by (simp add: signed_of_nat signed_take_bit_int_eq_self)
qed

lemma mask_bits_counter_mode:
  assumes "length bs = (unat bits + 7) div 8"
  shows "mask_bits bits bs = Some (mask_first bits bs)"
proof (cases "bits mod 8 = 0")
  case False
  then have "bits \<noteq> 0" by auto
  then have "0 < unat bits" by (simp add: unat_gt_0)
  with assms have "bs \<noteq> []" by (cases bs) auto
  with False show ?thesis by (cases bs) (auto simp: mask_bits_def mask_first_def)
qed (simp add: mask_bits_def mask_first_def)

lemma length_HMAC: "openssl_ok L \<Longrightarrow> length (md_HMAC L md K m) = EVP_MD_size md"
  by (simp add: HMAC_def)

lemma KDFa_supported:
  fixes bits :: "32 word"
  defines "n \<equiv> (unat bits + 7) div 8" and "c \<equiv> \<lambda>counter. case counter of None \<Rightarrow> 0 | Some c \<Rightarrow> c"
  assumes L: "openssl_ok L" "GetHashServer a = Some md" and ok: "TPM2B_ok key" "label_ok label" "context_ok U" "context_ok V"
    and bound: "n \<le> 32767"
  defines "block \<equiv> \<lambda>c. md_HMAC L md (TPM2B_bytes key) (KDFa_message label U V bits c)"
  shows "cpri__KDFa L a key label U V bits counter False = Some (of_nat n,
      mask_first bits (counter_mode block (EVP_MD_size md) (c counter + 1) n), map_option (\<lambda>_. c counter + of_nat (blocks n (EVP_MD_size md))) counter)"
    and "bits mod 8 = 0 \<Longrightarrow> cpri__KDFa L a key label U V bits counter True = Some (of_nat n, block (c counter + 1), map_option (\<lambda>_. c counter + 1) counter)"
    and "length (counter_mode block (EVP_MD_size md) x n) = n"
proof -
  let ?sz = "EVP_MD_size md"
  have f: "length (block x) = ?sz" for x unfolding block_def by (rule length_HMAC [OF L(1)])
  have k: "KDF_loop (KDFa_block L a key label U V bits) c (int ?sz) (int m) =
      Some (counter_mode block ?sz (c + 1) m, c + of_nat (blocks m ?sz))" for c m
    unfolding block_def by (rule KDF_loop_correct [OF md_sizes(1) length_HMAC [OF L(1)] KDFa_block_correct [OF L ok]])
  have l: "length (counter_mode block ?sz c n) = n" for c by (rule length_counter_mode [OF md_sizes(1) f])
  have one: "counter_mode block ?sz (c + 1) ?sz = block (c + 1)" "blocks ?sz ?sz = 1" for c
    using md_sizes(1) [of md] f by (simp_all add: counter_mode_def blocks_rec [OF md_sizes(1)])
  note s = size_in_bytes_sint [OF bound [unfolded n_def], folded n_def]
  show "cpri__KDFa L a key label U V bits counter False = Some (of_nat n,
      mask_first bits (counter_mode block ?sz (c counter + 1) n), map_option (\<lambda>_. c counter + of_nat (blocks n ?sz)) counter)"
    using L(2) by (simp add: cpri__KDFa_def s k mask_bits_counter_mode [OF l [unfolded n_def], folded n_def] c_def)
  show "cpri__KDFa L a key label U V bits counter True = Some (of_nat n, block (c counter + 1), map_option (\<lambda>_. c counter + 1) counter)"
    if "bits mod 8 = 0"
    using L(2) that by (simp add: cpri__KDFa_def s k one mask_bits_def c_def)
  show "length (counter_mode block ?sz x n) = n" by (rule l)
qed

text \<open>C21. KDFa terminates, and makes its key from the blocks of HMAC in counter mode over the label with its 0 byte, the two
  contexts and the size in bits, as many bytes as were asked for, with the unused bits of the first byte cleared; the counter moves on
  by the number of blocks. With \<open>once\<close> it makes the one block of the next counter, so that calls in a row make the blocks of the
  mask that one call makes. An algorithm that is not supported gives no bytes.\<close>

theorem cpri_KDFa_correct:
  assumes L: "openssl_ok L" and ok: "TPM2B_ok key" "label_ok label" "context_ok U" "context_ok V" and n: "(unat bits + 7) div 8 \<le> 32767"
  shows "case GetHashServer a of
      None \<Rightarrow> cpri__KDFa L a key label U V bits counter once = Some (0, [], counter)
    | Some md \<Rightarrow>
        (let n = (unat bits + 7) div 8; c = (case counter of None \<Rightarrow> 0 | Some c \<Rightarrow> c);
             block = (\<lambda>c. md_HMAC L md (TPM2B_bytes key) (KDFa_message label U V bits c));
             keyStream = counter_mode block (EVP_MD_size md) (c + 1) n in
         length keyStream = n \<and>
         cpri__KDFa L a key label U V bits counter False = Some (of_nat n, mask_first bits keyStream,
           map_option (\<lambda>_. c + of_nat (blocks n (EVP_MD_size md))) counter) \<and>
         (bits mod 8 = 0 \<longrightarrow> cpri__KDFa L a key label U V bits counter True = Some (of_nat n, block (c + 1), map_option (\<lambda>_. c + 1) counter)))"
proof (cases "GetHashServer a")
  case None
  then show ?thesis by (simp add: cpri__KDFa_def no_server)
next
  case (Some md)
  from KDFa_supported [OF L Some ok n] show ?thesis using Some by (simp add: Let_def)
qed


lemma example_openssl [simp]: "openssl_ok \<lparr>EVP_Digest = \<lambda>md m. replicate (EVP_MD_size md) (of_nat (length m)), ctx_size = \<lambda>_. 100\<rparr>"
  by (simp add: openssl_ok_def)

theorem cpri_hash_and_HMAC_correct_witness:
  "\<exists>s oPadKey s' s''. cpri__StartHMAC \<lparr>EVP_Digest = \<lambda>md m. replicate (EVP_MD_size md) (of_nat (length m)), ctx_size = \<lambda>_. 100\<rparr> TPM_ALG_SHA256 True
      \<lparr>CPRI_HASH_STATE_hashAlg = 0, CPRI_HASH_STATE_copySize = 0, CPRI_HASH_STATE_context = No_context\<rparr> 3 [1, 2, 3] \<lparr>TPM2B_size = 0, TPM2B_buffer = []\<rparr> = Some (32, s, oPadKey) \<and>
    update_all \<lparr>EVP_Digest = \<lambda>md m. replicate (EVP_MD_size md) (of_nat (length m)), ctx_size = \<lambda>_. 100\<rparr> s [[4, 5], [], [6]] = Some s' \<and>
    cpri__CompleteHMAC \<lparr>EVP_Digest = \<lambda>md m. replicate (EVP_MD_size md) (of_nat (length m)), ctx_size = \<lambda>_. 100\<rparr> s' oPadKey 2 = Some (2, replicate 2 96, s'')"
  using cpri_hash_and_HMAC_correct [OF example_openssl, of TPM_ALG_SHA256 EVP_sha256 3 "[1, 2, 3]" "[[4, 5], [], [6]]" True 2
    "\<lparr>CPRI_HASH_STATE_hashAlg = 0, CPRI_HASH_STATE_copySize = 0, CPRI_HASH_STATE_context = No_context\<rparr>" "\<lparr>TPM2B_size = 0, TPM2B_buffer = []\<rparr>", THEN conjunct2]
  by (simp add: GetHashServer_def HMAC_def HMAC_key_def xor_with_def)

theorem cpri_KDFa_correct_witness:
  "\<exists>out. cpri__KDFa \<lparr>EVP_Digest = \<lambda>md m. replicate (EVP_MD_size md) (of_nat (length m)), ctx_size = \<lambda>_. 100\<rparr> TPM_ALG_SHA1
     \<lparr>TPM2B_size = 2, TPM2B_buffer = [1, 2]\<rparr> (Some [65, 0]) None (Some \<lparr>TPM2B_size = 1, TPM2B_buffer = [7]\<rparr>) 200 (Some 4) False =
     Some (25, out, Some 6) \<and> length out = 25"
  using cpri_KDFa_correct [OF example_openssl, of "\<lparr>TPM2B_size = 2, TPM2B_buffer = [1, 2]\<rparr>" "Some [65, 0]" None
    "Some \<lparr>TPM2B_size = 1, TPM2B_buffer = [7]\<rparr>" 200 TPM_ALG_SHA1 "Some 4" False]
  by (simp add: GetHashServer_def TPM2B_ok_def label_ok_def context_ok_def Let_def blocks_def mask_first_def)

text \<open>Remark. The mask generation function makes as many bytes of the mask as were asked for, from the digests of the seed and a counter
  (MGF1 of PKCS 1). What it returns is the size only where the mask holds a whole digest: for a shorter mask the loop breaks before it sets
  the result, and it returns 0, which its comment reserves for an algorithm that is not supported.\<close>

theorem cpri_MGF1_short_mask:
  assumes L: "openssl_ok L" "GetHashServer a = Some md" and n: "unat sSize \<le> length seed" "unat mSize < 2 ^ 16"
  shows "cpri__MGF1 L mSize a sSize seed = Some (if unat mSize < EVP_MD_size md then 0 else ucast mSize,
      counter_mode (\<lambda>c. EVP_Digest L md (take (unat sSize) seed @ be32 c)) (EVP_MD_size md) 0 (unat mSize)) \<and>
    length (counter_mode (\<lambda>c. EVP_Digest L md (take (unat sSize) seed @ be32 c)) (EVP_MD_size md) 0 (unat mSize)) = unat mSize"
  using assms length_counter_mode [OF md_sizes(1), where f = "\<lambda>c. EVP_Digest L md (take (unat sSize) seed @ be32 c)"]
  by (simp add: cpri__MGF1_def MGF1_loop_correct not_le)

theorem cpri_MGF1_short_mask_witness:
  "cpri__MGF1 \<lparr>EVP_Digest = \<lambda>md m. replicate (EVP_MD_size md) (of_nat (length m)), ctx_size = \<lambda>_. 100\<rparr> 3 TPM_ALG_SHA1 1 [5] = Some (0, replicate 3 5)"
  using cpri_MGF1_short_mask [OF example_openssl, of TPM_ALG_SHA1 EVP_sha1 1 "[5]" 3]
  by (simp add: GetHashServer_def counter_mode_def blocks_def be32_def upt_rec)

definition KDFe_message :: "TPM2B option \<Rightarrow> byte list option \<Rightarrow> TPM2B option \<Rightarrow> TPM2B option \<Rightarrow> 32 word \<Rightarrow> byte list" where
  "KDFe_message Z label U V counter = be32 counter @ optional TPM2B_bytes Z @
     (case label of None \<Rightarrow> [0] | Some l \<Rightarrow> takeWhile (\<lambda>b. b \<noteq> 0) l @ [0]) @ optional TPM2B_bytes U @ optional TPM2B_bytes V"

lemma KDFe_block_correct:
  assumes L: "openssl_ok L" "GetHashServer a = Some md" and ok: "context_ok Z" "label_ok label" "context_ok U" "context_ok V"
    and h: "0 \<le> h" "h \<le> int (EVP_MD_size md)"
  shows "KDFe_block L a Z label U V c h = Some (take (nat h) (EVP_Digest L md (KDFe_message Z label U V c)))"
proof -
  have l: "(case label of None \<Rightarrow> cpri__UpdateHash L (hash_state L False a md d) 1 [0]
        | Some label \<Rightarrow> update_label L (hash_state L False a md d) label) =
      Some (hash_state L False a md (d @ (case label of None \<Rightarrow> [0] | Some l \<Rightarrow> takeWhile (\<lambda>b. b \<noteq> 0) l @ [0])))" for d
    using ok(2) L by (auto simp: label_ok_def update_label_state split: option.split)
  obtain s' where "cpri__CompleteHash L (hash_state L False a md (KDFe_message Z label U V c)) (word_of_int h) =
    Some (if unat (word_of_int h :: 32 word) < EVP_MD_size md then ucast (word_of_int h :: 32 word) else of_nat (EVP_MD_size md),
      take (nat h) (EVP_Digest L md (KDFe_message Z label U V c)), s')"
    by (rule CompleteHash_state [OF L, of False _ "word_of_int h"]) (simp add: block_size_word [OF h])
  then show ?thesis using L ok by (simp add: KDFe_block_def l KDFe_message_def)
qed

text \<open>KDFe in the same way, over plain digests and from the counter 1.\<close>

lemma cpri_KDFe_correct:
  assumes L: "openssl_ok L" "GetHashServer a = Some md" and ok: "context_ok Z" "label_ok label" "context_ok U" "context_ok V"
    and n: "(unat bits + 7) div 8 \<le> 32767"
  shows "cpri__KDFe L a Z label U V bits = Some (of_nat ((unat bits + 7) div 8), mask_first bits
    (counter_mode (\<lambda>c. EVP_Digest L md (KDFe_message Z label U V c)) (EVP_MD_size md) 1 ((unat bits + 7) div 8)))"
proof -
  have k: "KDF_loop (KDFe_block L a Z label U V) c (int (EVP_MD_size md)) (int m) = Some (counter_mode
      (\<lambda>c. EVP_Digest L md (KDFe_message Z label U V c)) (EVP_MD_size md) (c + 1) m, c + of_nat (blocks m (EVP_MD_size md)))" for c m
    by (rule KDF_loop_correct [OF md_sizes(1) openssl_okD(1) [OF L(1)] KDFe_block_correct [OF L ok]])
  have l: "length (counter_mode (\<lambda>c. EVP_Digest L md (KDFe_message Z label U V c)) (EVP_MD_size md) c m) = m" for c m
    by (rule length_counter_mode [OF md_sizes(1) openssl_okD(1) [OF L(1)]])
  show ?thesis using L by (simp add: cpri__KDFe_def size_in_bytes_sint [OF n] k mask_bits_counter_mode [OF l])
qed

end
