(* ===== verification/Tss_Crypto.thy ===== *)
theory Tss_Crypto
  imports Tss_Hash
begin

text \<open>
  The cryptographic functions of \<^verbatim>\<open>libtss2/tsscrypto.c\<close> and the utilities of \<^verbatim>\<open>libtss2/tssutils.c\<close>. A function returns
  its response code (\<open>Inl\<close>) or what it writes (\<open>Inr\<close>, with the code 0); \<open>None\<close> says that it reads or writes outside of
  a buffer or reads what was never written. A function that draws random numbers, reads the key of the library or uses
  files runs in a state, the \<open>world\<close>: what the random number generator is going to return (it fails when nothing is left), the
  AES key that protects stored sessions, and the files, with what becomes of an attempt to read, write or remove each of them.
  \<open>malloc\<close> is taken to succeed.
\<close>

abbreviation TSS_RC_ALLOC_INPUT :: "32 word" where "TSS_RC_ALLOC_INPUT \<equiv> 0xB0002"
abbreviation TSS_RC_MALLOC_SIZE :: "32 word" where "TSS_RC_MALLOC_SIZE \<equiv> 0xB0003"
abbreviation TSS_RC_FILE_OPEN :: "32 word" where "TSS_RC_FILE_OPEN \<equiv> 0xB0010"
abbreviation TSS_RC_FILE_SEEK :: "32 word" where "TSS_RC_FILE_SEEK \<equiv> 0xB0011"
abbreviation TSS_RC_FILE_FTELL :: "32 word" where "TSS_RC_FILE_FTELL \<equiv> 0xB0012"
abbreviation TSS_RC_FILE_READ :: "32 word" where "TSS_RC_FILE_READ \<equiv> 0xB0013"
abbreviation TSS_RC_FILE_CLOSE :: "32 word" where "TSS_RC_FILE_CLOSE \<equiv> 0xB0014"
abbreviation TSS_RC_FILE_WRITE :: "32 word" where "TSS_RC_FILE_WRITE \<equiv> 0xB0015"
abbreviation TSS_RC_FILE_REMOVE :: "32 word" where "TSS_RC_FILE_REMOVE \<equiv> 0xB0016"
abbreviation TSS_RC_RNG_FAILURE :: "32 word" where "TSS_RC_RNG_FAILURE \<equiv> 0xB0020"
abbreviation TSS_RC_AES_DECRYPT_FAILURE :: "32 word" where "TSS_RC_AES_DECRYPT_FAILURE \<equiv> 0xB0057"
abbreviation TSS_RC_HMAC :: "32 word" where "TSS_RC_HMAC \<equiv> 0xB0071"
abbreviation TSS_RC_HMAC_VERIFY :: "32 word" where "TSS_RC_HMAC_VERIFY \<equiv> 0xB0073"
abbreviation TSS_RC_BAD_HASH_ALGORITHM :: "32 word" where "TSS_RC_BAD_HASH_ALGORITHM \<equiv> 0xB0074"
abbreviation TSS_RC_HASH :: "32 word" where "TSS_RC_HASH \<equiv> 0xB0075"
abbreviation TSS_RC_RSA_PADDING :: "32 word" where "TSS_RC_RSA_PADDING \<equiv> 0xB0077"
abbreviation TSS_RC_RSA_ENCRYPT :: "32 word" where "TSS_RC_RSA_ENCRYPT \<equiv> 0xB0078"

section \<open>Results and effects\<close>

text \<open>\<open>if (rc == 0) rc = ...\<close>, without and with a state.\<close>

type_synonym 'a result = "(32 word + 'a) option"

definition r_return :: "'a \<Rightarrow> 'a result" where
  "r_return x = Some (Inr x)"

definition r_fail :: "32 word \<Rightarrow> 'a result" where
  "r_fail rc = Some (Inl rc)"

definition r_bind :: "'a result \<Rightarrow> ('a \<Rightarrow> 'b result) \<Rightarrow> 'b result" where
  "r_bind r f = (case r of None \<Rightarrow> None | Some (Inl rc) \<Rightarrow> Some (Inl rc) | Some (Inr x) \<Rightarrow> f x)"

text \<open>
  What the C library does with a file. A write is done, or the file is not opened, or \<open>fwrite\<close> stops after some bytes of a file
  that was already emptied, or \<open>fclose\<close> fails when some of the bytes are there. A read is done, or fails in one of its calls.
\<close>

datatype write_outcome = Written | Not_opened | Cut_short nat | Not_closed nat

datatype read_outcome = Completed | Open_fails | Seek_fails | Tell_fails | Read_fails | Close_fails

record world =
  random :: "byte list"
  aes_key :: "byte list option"
  files :: "string \<Rightarrow> byte list option"
  on_write :: "string \<Rightarrow> write_outcome"
  on_read :: "string \<Rightarrow> read_outcome"
  removable :: "string \<Rightarrow> bool"

abbreviation writable :: "'s world_scheme \<Rightarrow> string \<Rightarrow> bool" where
  "writable w filename \<equiv> on_write w filename = Written"

abbreviation readable :: "'s world_scheme \<Rightarrow> string \<Rightarrow> bool" where
  "readable w filename \<equiv> on_read w filename = Completed"

type_synonym ('s, 'a) effect = "'s \<Rightarrow> ((32 word + 'a) \<times> 's) option"

definition e_return :: "'a \<Rightarrow> ('s, 'a) effect" where
  "e_return x s = Some (Inr x, s)"

definition e_fail :: "32 word \<Rightarrow> ('s, 'a) effect" where
  "e_fail rc s = Some (Inl rc, s)"

definition e_bind :: "('s, 'a) effect \<Rightarrow> ('a \<Rightarrow> ('s, 'b) effect) \<Rightarrow> ('s, 'b) effect" where
  "e_bind m f s = (case m s of None \<Rightarrow> None | Some (Inl rc, s') \<Rightarrow> Some (Inl rc, s') | Some (Inr x, s') \<Rightarrow> f x s')"

definition e_lift :: "'a result \<Rightarrow> ('s, 'a) effect" where
  "e_lift r s = map_option (\<lambda>x. (x, s)) r"

text \<open>\<open>if (bad) rc = e;\<close> before the rest of the function.\<close>

definition r_guard :: "bool \<Rightarrow> 32 word \<Rightarrow> 'a result \<Rightarrow> 'a result" where
  "r_guard bad e r = (if bad then r_fail e else r)"

definition e_guard :: "bool \<Rightarrow> 32 word \<Rightarrow> ('s, 'a) effect \<Rightarrow> ('s, 'a) effect" where
  "e_guard bad e m = (if bad then e_fail e else m)"

text \<open>A call whose code is not looked at.\<close>

definition e_ignore :: "('s, 'a) effect \<Rightarrow> ('s, unit) effect" where
  "e_ignore m s = map_option (\<lambda>(_, s'). (Inr (), s')) (m s)"

text \<open>A use of memory that has to be there.\<close>

definition r_need :: "bool \<Rightarrow> 'a result \<Rightarrow> 'a result" where
  "r_need ok r = (if ok then r else None)"

section \<open>Sized buffers\<close>

text \<open>The first argument is the number of bytes that the target array really has.\<close>

definition TSS_TPM2B_Copy :: "nat \<Rightarrow> TPM2B \<Rightarrow> 16 word \<Rightarrow> TPM2B result" where
  "TSS_TPM2B_Copy room' source targetSize =
     r_guard (TPM2B_size source > targetSize) TSS_RC_INSUFFICIENT_BUFFER
     (r_need (TPM2B_ok source \<and> unat (TPM2B_size source) \<le> room')
     (r_return \<lparr>TPM2B_size = TPM2B_size source, TPM2B_buffer = TPM2B_bytes source\<rparr>))"

definition TSS_TPM2B_Append :: "nat \<Rightarrow> TPM2B \<Rightarrow> TPM2B \<Rightarrow> 16 word \<Rightarrow> TPM2B result" where
  "TSS_TPM2B_Append room' target source targetSize =
     r_guard (unat (TPM2B_size target) + unat (TPM2B_size source) > unat targetSize) TSS_RC_INSUFFICIENT_BUFFER
     (r_need (TPM2B_ok source \<and> TPM2B_ok target \<and> unat (TPM2B_size target) + unat (TPM2B_size source) \<le> room')
     (r_return \<lparr>TPM2B_size = TPM2B_size target + TPM2B_size source, TPM2B_buffer = TPM2B_bytes target @ TPM2B_bytes source\<rparr>))"

definition TSS_TPM2B_Create :: "nat \<Rightarrow> byte list \<Rightarrow> 16 word \<Rightarrow> 16 word \<Rightarrow> TPM2B result" where
  "TSS_TPM2B_Create room' buffer sz targetSize =
     r_guard (sz > targetSize) TSS_RC_INSUFFICIENT_BUFFER
     (r_need (unat sz \<le> length buffer \<and> unat sz \<le> room')
     (r_return \<lparr>TPM2B_size = sz, TPM2B_buffer = take (unat sz) buffer\<rparr>))"

definition TSS_TPM2B_CreateUint32 :: "32 word \<Rightarrow> 16 word \<Rightarrow> TPM2B result" where
  "TSS_TPM2B_CreateUint32 source targetSize =
     r_guard (4 > unat targetSize) TSS_RC_INSUFFICIENT_BUFFER (r_return \<lparr>TPM2B_size = 4, TPM2B_buffer = be32 source\<rparr>)"

text \<open>A string is given by its bytes before the NUL.\<close>

definition TSS_TPM2B_StringCopy :: "byte list option \<Rightarrow> 16 word \<Rightarrow> TPM2B result" where
  "TSS_TPM2B_StringCopy source targetSize = (case source of
       None \<Rightarrow> r_return \<lparr>TPM2B_size = 0, TPM2B_buffer = []\<rparr>
     | Some bs \<Rightarrow> r_guard (length bs > unat targetSize) TSS_RC_INSUFFICIENT_BUFFER
         (r_return \<lparr>TPM2B_size = of_nat (length bs), TPM2B_buffer = bs\<rparr>))"

definition TSS_TPM2B_Compare :: "TPM2B \<Rightarrow> TPM2B \<Rightarrow> bool option" where
  "TSS_TPM2B_Compare expect actual =
     (if TPM2B_size expect \<noteq> TPM2B_size actual then Some False
      else if TPM2B_ok expect \<and> TPM2B_ok actual then Some (TPM2B_bytes expect = TPM2B_bytes actual)
      else None)"

definition TSS_Malloc :: "bool \<Rightarrow> 32 word \<Rightarrow> unit result" where
  "TSS_Malloc null sz =
     r_guard (\<not> null) TSS_RC_ALLOC_INPUT
     (r_guard (sz > 0x10000) TSS_RC_MALLOC_SIZE
     (r_guard (sz = 0) TSS_RC_MALLOC_SIZE (r_return ())))"

text \<open>The structure is marshalled once to find the size and once more to write it, into a buffer that \<open>alloc\<close> returns.\<close>

definition marshal_twice :: "(16 word \<Rightarrow> unit result) \<Rightarrow> marshal \<Rightarrow> byte list result" where
  "marshal_twice alloc marshalFunction =
     (case marshalFunction \<lparr>written = 0, memory = \<lambda>_. 0, position = None, room = None\<rparr> of
        BadSource \<Rightarrow> None
      | Done rc s \<Rightarrow>
          if rc \<noteq> 0 then r_fail rc
          else r_bind (alloc (written s)) (\<lambda>_.
            case marshalFunction \<lparr>written = 0, memory = \<lambda>_. 0, position = Some 0, room = None\<rparr> of
              BadSource \<Rightarrow> None
            | Done rc s' \<Rightarrow>
                if rc \<noteq> 0 then r_fail rc
                else if unat (written s') > unat (written s) then None
                else r_return (map (memory s') [0..<unat (written s')])))"

definition TSS_Structure_Marshal :: "marshal \<Rightarrow> byte list result" where
  "TSS_Structure_Marshal = marshal_twice (\<lambda>n. TSS_Malloc True (ucast n))"

section \<open>Files\<close>

text \<open>\<open>bs\<close> is what the file holds; a failing \<open>fclose\<close> replaces the code of an earlier error.\<close>

definition file_contents :: "bool \<Rightarrow> byte list \<Rightarrow> byte list result" where
  "file_contents fails bs =
     (if bs = [] then r_return []
      else r_bind (TSS_Malloc True (of_nat (length bs))) (\<lambda>_.
           r_need (length bs < 2 ^ 32) (r_guard fails TSS_RC_FILE_READ (r_return bs))))"

definition TSS_File_ReadBinaryFile :: "string \<Rightarrow> ('s world_scheme, byte list) effect" where
  "TSS_File_ReadBinaryFile filename w = (case files w filename of
       None \<Rightarrow> e_fail TSS_RC_FILE_OPEN w
     | Some bs \<Rightarrow> (case on_read w filename of
           Open_fails \<Rightarrow> e_fail TSS_RC_FILE_OPEN w
         | Seek_fails \<Rightarrow> e_fail TSS_RC_FILE_SEEK w
         | Tell_fails \<Rightarrow> e_fail TSS_RC_FILE_FTELL w
         | Read_fails \<Rightarrow> e_lift (file_contents True bs) w
         | Close_fails \<Rightarrow> e_bind (e_ignore (e_lift (file_contents False bs))) (\<lambda>_. e_fail TSS_RC_FILE_CLOSE) w
         | Completed \<Rightarrow> e_lift (file_contents False bs) w))"

text \<open>
  On an error the function frees the buffer that it has allocated, but sets its own parameter to \<open>NULL\<close> and not the pointer of
  the caller. Each caller of the library frees the pointer too, which is then freed twice.
\<close>

definition freed_twice :: "string \<Rightarrow> 's world_scheme \<Rightarrow> bool" where
  "freed_twice filename w = (case files w filename of
       None \<Rightarrow> False
     | Some bs \<Rightarrow> bs \<noteq> [] \<and> on_read w filename \<in> {Read_fails, Close_fails} \<and> TSS_Malloc True (of_nat (length bs)) = r_return ())"

definition read_and_free :: "string \<Rightarrow> ('s world_scheme, byte list) effect" where
  "read_and_free filename w = (if freed_twice filename w then None else TSS_File_ReadBinaryFile filename w)"

definition TSS_File_WriteBinaryFile :: "byte list \<Rightarrow> string \<Rightarrow> ('s world_scheme, unit) effect" where
  "TSS_File_WriteBinaryFile data filename w = (case on_write w filename of
       Written \<Rightarrow> e_return () (w\<lparr>files := (files w)(filename \<mapsto> data)\<rparr>)
     | Not_opened \<Rightarrow> e_fail TSS_RC_FILE_OPEN w
     | Cut_short n \<Rightarrow> e_guard (n < length data) TSS_RC_FILE_WRITE (e_return ()) (w\<lparr>files := (files w)(filename \<mapsto> take n data)\<rparr>)
     | Not_closed n \<Rightarrow> e_fail TSS_RC_FILE_CLOSE (w\<lparr>files := (files w)(filename \<mapsto> take n data)\<rparr>))"

text \<open>The size becomes a signed 32-bit integer, and only the structure read is kept.\<close>

definition TSS_File_ReadStructure :: "'a unmarshal \<Rightarrow> string \<Rightarrow> ('s world_scheme, 'a) effect" where
  "TSS_File_ReadStructure unmarshalFunction filename =
     e_bind (read_and_free filename) (\<lambda>bs.
       e_lift (case unmarshalFunction \<lparr>rest = bs, avail = s32 (int (length bs))\<rparr> of
           Ok x _ \<Rightarrow> r_return x
         | Fail rc _ \<Rightarrow> r_fail rc
         | Overread \<Rightarrow> None))"

definition TSS_File_WriteStructure :: "marshal \<Rightarrow> string \<Rightarrow> ('s world_scheme, unit) effect" where
  "TSS_File_WriteStructure marshalFunction filename =
     e_bind (e_lift (TSS_Structure_Marshal marshalFunction)) (\<lambda>bs. TSS_File_WriteBinaryFile bs filename)"

definition TSS_File_Read2B :: "nat \<Rightarrow> 16 word \<Rightarrow> string \<Rightarrow> ('s world_scheme, TPM2B) effect" where
  "TSS_File_Read2B room' targetSize filename =
     e_bind (read_and_free filename) (\<lambda>bs. e_lift (TSS_TPM2B_Create room' bs (of_nat (length bs)) targetSize))"

definition TSS_File_DeleteFile :: "string \<Rightarrow> ('s world_scheme, unit) effect" where
  "TSS_File_DeleteFile filename w =
     (if files w filename = None then e_return () w
      else if removable w filename then e_return () (w\<lparr>files := (files w)(filename := None)\<rparr>)
      else e_fail TSS_RC_FILE_REMOVE w)"

text \<open>A file that can be read and written.\<close>

lemma read_file:
  "files w fn = Some bs \<Longrightarrow> readable w fn \<Longrightarrow> length bs \<le> 0x10000 \<Longrightarrow> read_and_free fn w = Some (Inr bs, w)"
  by (cases "bs = []")
    (simp_all add: read_and_free_def freed_twice_def TSS_File_ReadBinaryFile_def file_contents_def e_lift_def r_bind_def r_return_def
      TSS_Malloc_def r_guard_def r_need_def word_less_nat_alt unat_of_nat word_of_nat_eq_0_iff nat_dvd_not_less)

lemma write_file:
  "writable w fn \<Longrightarrow> TSS_File_WriteBinaryFile bs fn w = Some (Inr (), w\<lparr>files := (files w)(fn \<mapsto> bs)\<rparr>)"
  by (simp add: TSS_File_WriteBinaryFile_def e_return_def)

text \<open>Whatever the outcome, a write changes one file at most, and it succeeds only when the file holds the data.\<close>

lemma write_effect:
  assumes "TSS_File_WriteBinaryFile bs fn w = Some (r, w')"
  obtains "w' = w" "r = Inl TSS_RC_FILE_OPEN" "on_write w fn = Not_opened"
    | rc bs' where "w' = w\<lparr>files := (files w)(fn \<mapsto> bs')\<rparr>" "r = Inl rc" "on_write w fn \<noteq> Written" "on_write w fn \<noteq> Not_opened"
    | "w' = w\<lparr>files := (files w)(fn \<mapsto> bs)\<rparr>" "r = Inr ()" "on_write w fn \<noteq> Not_opened"
  using assms
  by (auto simp: TSS_File_WriteBinaryFile_def e_return_def e_fail_def e_guard_def split: write_outcome.splits if_splits)

section \<open>Digests\<close>

text \<open>What OpenSSL has besides digests: HMAC, raw RSA and AES in CBC mode.\<close>

record crypto = openssl +
  HMAC_Final :: "EVP_MD \<Rightarrow> byte list \<Rightarrow> byte list \<Rightarrow> byte list"
  RSA_public_encrypt :: "byte list \<Rightarrow> byte list \<Rightarrow> byte list \<Rightarrow> byte list option"
  AES_cbc_encrypt :: "byte list \<Rightarrow> byte list \<Rightarrow> byte list \<Rightarrow> byte list"
  AES_cbc_decrypt :: "byte list \<Rightarrow> byte list \<Rightarrow> byte list \<Rightarrow> byte list"
  AES_encrypt :: "byte list \<Rightarrow> byte list \<Rightarrow> byte list"

definition TSS_Hash_GetMd :: "TPM_ALG_ID \<Rightarrow> EVP_MD result" where
  "TSS_Hash_GetMd hashAlg =
     (if hashAlg = TPM_ALG_SHA1 then r_return EVP_sha1
      else if hashAlg = TPM_ALG_SHA256 then r_return EVP_sha256
      else if hashAlg = TPM_ALG_SHA384 then r_return EVP_sha384
      else r_fail TSS_RC_BAD_HASH_ALGORITHM)"

definition TSS_GetDigestSize :: "TPM_ALG_ID \<Rightarrow> 16 word" where
  "TSS_GetDigestSize hashAlg =
     (if hashAlg = TPM_ALG_SHA1 then 20 else if hashAlg = TPM_ALG_SHA256 then 32 else if hashAlg = TPM_ALG_SHA384 then 48 else 0)"

text \<open>The variable arguments are lengths and buffers; a null pointer ends them.\<close>

type_synonym streams = "(int \<times> byte list option) list"

fun update_streams :: "32 word \<Rightarrow> streams \<Rightarrow> byte list result" where
  "update_streams e [] = None"
| "update_streams e ((_, None) # _) = r_return []"
| "update_streams e ((n, Some buffer) # ap) =
     r_guard (n < 0) e
     (r_need (nat n \<le> length buffer)
     (r_bind (update_streams e ap) (\<lambda>m. r_return (take (nat n) buffer @ m))))"

definition TSS_Hash_Generate :: "'z openssl_scheme \<Rightarrow> TPM_ALG_ID \<Rightarrow> streams \<Rightarrow> byte list result" where
  "TSS_Hash_Generate L hashAlg ap =
     r_bind (TSS_Hash_GetMd hashAlg) (\<lambda>md.
     r_bind (update_streams TSS_RC_HASH ap) (\<lambda>m. r_return (EVP_Digest L md m)))"

definition TSS_HMAC_Generate :: "'z crypto_scheme \<Rightarrow> TPM_ALG_ID \<Rightarrow> TPM2B \<Rightarrow> streams \<Rightarrow> byte list result" where
  "TSS_HMAC_Generate L hashAlg hmacKey ap =
     r_bind (TSS_Hash_GetMd hashAlg) (\<lambda>md.
     r_need (TPM2B_ok hmacKey)
     (r_bind (update_streams TSS_RC_HMAC ap) (\<lambda>m. r_return (HMAC_Final L md (TPM2B_bytes hmacKey) m))))"

definition TSS_HMAC_Verify :: "'z crypto_scheme \<Rightarrow> TPM_ALG_ID \<Rightarrow> byte list \<Rightarrow> TPM2B \<Rightarrow> 32 word \<Rightarrow> streams \<Rightarrow> unit result" where
  "TSS_HMAC_Verify L hashAlg expect hmacKey sizeInBytes ap =
     r_bind (TSS_HMAC_Generate L hashAlg hmacKey ap) (\<lambda>actual.
     r_need (unat sizeInBytes \<le> length expect \<and> unat sizeInBytes \<le> length actual)
     (r_guard (take (unat sizeInBytes) expect \<noteq> take (unat sizeInBytes) actual) TSS_RC_HMAC_VERIFY (r_return ())))"

section \<open>Random numbers\<close>

definition TSS_RandBytes :: "nat \<Rightarrow> ('s world_scheme, byte list) effect" where
  "TSS_RandBytes n w =
     (if n \<le> length (random w) then e_return (take n (random w)) (w\<lparr>random := drop n (random w)\<rparr>)
      else e_fail TSS_RC_RNG_FAILURE w)"

section \<open>OAEP\<close>

text \<open>The loop of MGF1; the lengths here are far below the range of the 32-bit counters.\<close>

function TSS_MGF1_loop :: "'z openssl_scheme \<Rightarrow> nat \<Rightarrow> byte list \<Rightarrow> TPM_ALG_ID \<Rightarrow> 32 word \<Rightarrow> nat \<Rightarrow> byte list result" where
  "TSS_MGF1_loop L maskLen mgfSeed halg count outLen =
     (if outLen \<ge> maskLen then r_return []
      else r_bind (TSS_Hash_Generate L halg
          [(int (length mgfSeed), Some mgfSeed), (4, Some (be32 count)), (0, None)]) (\<lambda>digest.
        let digestSize = unat (TSS_GetDigestSize halg) in
        if digestSize = 0 then None
        else if outLen + digestSize < maskLen then
          r_bind (TSS_MGF1_loop L maskLen mgfSeed halg (count + 1) (outLen + digestSize)) (\<lambda>m. r_return (take digestSize digest @ m))
        else r_return (take (maskLen - outLen) digest)))"
  by auto
termination by (relation "measure (\<lambda>(_, maskLen, _, _, _, outLen). maskLen - outLen)") auto

declare TSS_MGF1_loop.simps [simp del]

definition TSS_MGF1 :: "'z openssl_scheme \<Rightarrow> nat \<Rightarrow> byte list \<Rightarrow> TPM_ALG_ID \<Rightarrow> byte list result" where
  "TSS_MGF1 L maskLen mgfSeed halg = TSS_MGF1_loop L maskLen mgfSeed halg 0 0"

definition TSS_XOR :: "byte list \<Rightarrow> byte list \<Rightarrow> byte list" where
  "TSS_XOR in1 in2 = map2 (XOR) in1 in2"

text \<open>The bytes of \<open>em\<close> from the second on; the first is set by the caller.\<close>

definition TSS_RSA_padding_add_PKCS1_OAEP :: "'z openssl_scheme \<Rightarrow> 32 word \<Rightarrow> byte list \<Rightarrow> byte list \<Rightarrow> TPM_ALG_ID \<Rightarrow>
  ('s world_scheme, byte list) effect" where
  "TSS_RSA_padding_add_PKCS1_OAEP L emLen from p halg =
     (let hlen = unat (TSS_GetDigestSize halg); fLen = length from; dbLen = unat emLen - hlen - 1 in
      e_guard (length p > 0xffff) TSS_RC_RSA_PADDING
      (e_guard (emLen < of_nat (2 * hlen + 2 + fLen)) TSS_RC_RSA_PADDING
      (e_bind (e_lift (TSS_Hash_Generate L halg [(int (length p), Some p), (0, None)])) (\<lambda>lHash.
      let db = take hlen lHash @ replicate (unat emLen - fLen - 2 * hlen - 2) 0 @ [1] @ from in
      e_bind (e_lift (TSS_Malloc True (of_nat hlen))) (\<lambda>_.
      e_bind (TSS_RandBytes hlen) (\<lambda>seed.
      e_bind (e_lift (TSS_Malloc True (of_nat dbLen))) (\<lambda>_.
      e_bind (e_lift (TSS_MGF1 L dbLen seed halg)) (\<lambda>dbMask.
      let maskedDb = TSS_XOR db dbMask in
      e_bind (e_lift (TSS_MGF1 L hlen maskedDb halg)) (\<lambda>seedMask.
      e_return (TSS_XOR seed seedMask @ maskedDb))))))))))"

definition TSS_RSAGeneratePublicToken :: "byte list \<Rightarrow> nat \<Rightarrow> byte list \<Rightarrow> nat \<Rightarrow> (byte list \<times> byte list) result" where
  "TSS_RSAGeneratePublicToken narr nbytes earr ebytes =
     r_need (nbytes \<le> length narr \<and> ebytes \<le> length earr) (r_return (take nbytes narr, take ebytes earr))"

definition TSS_RSAPublicEncrypt :: "'z crypto_scheme \<Rightarrow> nat \<Rightarrow> byte list \<Rightarrow> byte list \<Rightarrow> nat \<Rightarrow> byte list \<Rightarrow> nat \<Rightarrow> byte list \<Rightarrow>
  TPM_ALG_ID \<Rightarrow> ('s world_scheme, byte list) effect" where
  "TSS_RSAPublicEncrypt L encrypt_data_size decrypt_data narr nbytes earr ebytes p halg =
     e_bind (e_lift (TSS_Malloc True (of_nat encrypt_data_size))) (\<lambda>_.
     e_bind (e_lift (TSS_RSAGeneratePublicToken narr nbytes earr ebytes)) (\<lambda>(n, e).
     e_bind (TSS_RSA_padding_add_PKCS1_OAEP L (of_nat encrypt_data_size) decrypt_data p halg) (\<lambda>padded_data.
     e_lift (case RSA_public_encrypt L n e (0 # padded_data) of
         None \<Rightarrow> r_fail TSS_RC_RSA_ENCRYPT
       | Some c \<Rightarrow> r_return c))))"

section \<open>AES\<close>

definition TSS_AES_KeyGenerate :: "('s world_scheme, unit) effect" where
  "TSS_AES_KeyGenerate = e_bind (TSS_RandBytes 16) (\<lambda>userKey w. e_return () (w\<lparr>aes_key := Some userKey\<rparr>))"

definition TSS_Crypto_Init :: "('s world_scheme, unit) effect" where
  "TSS_Crypto_Init = TSS_AES_KeyGenerate"

definition TSS_AES_Encrypt :: "'z crypto_scheme \<Rightarrow> byte list \<Rightarrow> ('s world_scheme, byte list) effect" where
  "TSS_AES_Encrypt L decrypt_data w =
     (let pad_length = 16 - length decrypt_data mod 16; encrypt_length = length decrypt_data + pad_length in
      e_lift (r_bind (TSS_Malloc True (of_nat encrypt_length)) (\<lambda>_. case aes_key w of
          None \<Rightarrow> None
        | Some k \<Rightarrow> r_return (AES_cbc_encrypt L k (replicate 16 0) (decrypt_data @ replicate pad_length (of_nat pad_length))))) w)"

definition TSS_AES_Decrypt :: "'z crypto_scheme \<Rightarrow> byte list \<Rightarrow> ('s world_scheme, byte list) effect" where
  "TSS_AES_Decrypt L encrypt_data w =
     e_lift (r_guard (length encrypt_data < 16) TSS_RC_AES_DECRYPT_FAILURE
       (r_bind (TSS_Malloc True (of_nat (length encrypt_data))) (\<lambda>_. case aes_key w of
          None \<Rightarrow> None
        | Some k \<Rightarrow>
            let decrypt_data = AES_cbc_decrypt L k (replicate 16 0) encrypt_data;
                pad_length = unat (decrypt_data ! (length encrypt_data - 1));
                decrypt_length = length encrypt_data - pad_length in
            r_need (length decrypt_data = length encrypt_data)
            (r_guard (pad_length = 0 \<or> pad_length > 16) TSS_RC_AES_DECRYPT_FAILURE
            (r_guard (\<exists>b\<in>set (drop decrypt_length decrypt_data). unat b \<noteq> pad_length) TSS_RC_AES_DECRYPT_FAILURE
            (r_return (take decrypt_length decrypt_data))))))) w"


section \<open>Calculation rules\<close>

lemma r_simps [simp]:
  "r_bind (r_return x) f = f x" "r_bind (r_fail rc) f = r_fail rc" "r_bind None f = None"
  "r_guard False e r = r" "r_guard True e r = r_fail e" "r_need True r = r" "r_need False r = None"
  "r_return x = r_return y \<longleftrightarrow> x = y" "r_fail rc \<noteq> r_return x" "r_return x \<noteq> r_fail rc" "r_return x \<noteq> None" "None \<noteq> r_return x"
  "r_fail rc \<noteq> None" "None \<noteq> r_fail rc" "r_fail rc = r_fail rc' \<longleftrightarrow> rc = rc'"
  by (simp_all add: r_bind_def r_return_def r_fail_def r_guard_def r_need_def)

lemma e_simps [simp]:
  "e_bind (e_return x) f = f x" "e_bind (e_fail rc) f = e_fail rc" "e_guard False e m = m" "e_guard True e m = e_fail e"
  "e_lift (r_return x) = e_return x" "e_lift (r_fail rc) = e_fail rc" "e_lift None s = None"
  by (simp_all add: e_bind_def e_return_def e_fail_def e_guard_def e_lift_def r_return_def r_fail_def fun_eq_iff)

lemma e_bind_Some:
  "m s = Some (Inr x, s') \<Longrightarrow> e_bind m f s = f x s'" "m s = Some (Inl rc, s') \<Longrightarrow> e_bind m f s = Some (Inl rc, s')"
  "m s = None \<Longrightarrow> e_bind m f s = None"
  by (simp_all add: e_bind_def)

lemma r_return_cases: "r \<noteq> None \<Longrightarrow> (\<exists>rc. r = r_fail rc) \<or> (\<exists>x. r = r_return x)"
  by (metis not_None_eq r_fail_def r_return_def sum.exhaust)

lemma Malloc_ok [simp]: "0 < n \<Longrightarrow> n \<le> 0x10000 \<Longrightarrow> TSS_Malloc True (of_nat n) = r_return ()"
proof -
  assume n: "0 < n" "n \<le> 0x10000"
  then have "unat (of_nat n :: 32 word) = n" by (simp add: unat_of_nat)
  then have "\<not> (of_nat n :: 32 word) > 0x10000" "(of_nat n :: 32 word) \<noteq> 0" using n by (auto simp: word_less_nat_alt unat_eq_0)
  then show ?thesis by (simp only: TSS_Malloc_def r_simps simp_thms)
qed

lemma GetMd_server: "TSS_Hash_GetMd a = (case GetHashServer a of None \<Rightarrow> r_fail TSS_RC_BAD_HASH_ALGORITHM | Some md \<Rightarrow> r_return md)"
  by (simp add: TSS_Hash_GetMd_def GetHashServer_def)

lemma DigestSize_cpri: "TSS_GetDigestSize a = cpri__GetDigestSize a"
  by (simp add: TSS_GetDigestSize_def cpri__GetDigestSize_def GetHashInfoPointer_def g_hashData_def)

lemma DigestSize_server [simp]: "GetHashServer a = Some md \<Longrightarrow> unat (TSS_GetDigestSize a) = EVP_MD_size md"
  by (simp add: DigestSize_cpri)

lemma counter_mode_0 [simp]: "counter_mode f sz c 0 = []"
  by (simp add: counter_mode_def)

definition whole :: "byte list \<Rightarrow> int \<times> byte list option" where
  "whole bs = (int (length bs), Some bs)"

lemma update_streams_whole [simp]:
  "update_streams e (whole bs # ap) = r_bind (update_streams e ap) (\<lambda>m. r_return (bs @ m))"
  by (simp add: whole_def)

section \<open>Mask generation and OAEP\<close>

abbreviation MGF :: "'z openssl_scheme \<Rightarrow> EVP_MD \<Rightarrow> byte list \<Rightarrow> nat \<Rightarrow> byte list" where
  "MGF L md seed \<equiv> counter_mode (\<lambda>c. EVP_Digest L md (seed @ be32 c)) (EVP_MD_size md) 0"

lemma openssl_ok_truncate:
  assumes "openssl_ok (openssl.truncate L)"
  shows "length (EVP_Digest L md m) = EVP_MD_size md"
  using assms by (cases L) (simp add: openssl_ok_def openssl.defs)

lemma TSS_MGF1_correct:
  assumes L: "openssl_ok (openssl.truncate L)" "GetHashServer a = Some md"
  shows "TSS_MGF1 L n seed a = r_return (MGF L md seed n)"
proof -
  let ?f = "\<lambda>c. EVP_Digest L md (seed @ be32 c)"
  have "TSS_MGF1_loop L n seed a c out = r_return (counter_mode ?f (EVP_MD_size md) c (n - out))" for c out
  proof (induction "n - out" arbitrary: c out rule: less_induct)
    case less
    have d: "TSS_Hash_Generate L a [(int (length seed), Some seed), (4, Some (be32 c)), (0, None)] = r_return (?f c)"
      using L by (simp add: TSS_Hash_Generate_def GetMd_server)
    note r = counter_mode_rec [OF md_sizes(1), where f = ?f and n = "n - out" and c = c, OF openssl_ok_truncate [OF L(1)]]
    consider "n \<le> out" | "out < n" "n \<le> out + EVP_MD_size md" | "out + EVP_MD_size md < n" by linarith
    then show ?case
    proof cases
      case 1
      then show ?thesis by (simp add: TSS_MGF1_loop.simps [of _ n _ _ _ out] r)
    next
      case 2
      then have "counter_mode ?f (EVP_MD_size md) (c + 1) (n - out - EVP_MD_size md) = []" by (simp add: counter_mode_def)
      with 2 L md_sizes(1) [of md] show ?thesis by (simp add: TSS_MGF1_loop.simps [of _ n _ _ _ out] r d Let_def)
    next
      case 3
      with md_sizes(1) [of md]
      have "TSS_MGF1_loop L n seed a (c + 1) (out + EVP_MD_size md) =
          r_return (counter_mode ?f (EVP_MD_size md) (c + 1) (n - out - EVP_MD_size md))"
        by (subst less) simp_all
      with 3 L md_sizes(1) [of md] openssl_ok_truncate [OF L(1)] show ?thesis
        by (simp add: TSS_MGF1_loop.simps [of _ n _ _ _ out] r d Let_def)
    qed
  qed
  then show ?thesis by (simp add: TSS_MGF1_def)
qed

text \<open>The decoding of RFC 8017, without the first byte.\<close>

definition OAEP_decode :: "'z openssl_scheme \<Rightarrow> EVP_MD \<Rightarrow> byte list \<Rightarrow> byte list \<Rightarrow> byte list option" where
  "OAEP_decode L md p em =
     (let hlen = EVP_MD_size md; maskedSeed = take hlen em; maskedDb = drop hlen em;
          seed = TSS_XOR maskedSeed (MGF L md maskedDb hlen);
          db = TSS_XOR maskedDb (MGF L md seed (length maskedDb)) in
      if take hlen db \<noteq> EVP_Digest L md p then None
      else (case dropWhile (\<lambda>b. b = 0) (drop hlen db) of
          [] \<Rightarrow> None
        | b # m \<Rightarrow> if b = 1 then Some m else None))"

lemma TSS_XOR_simps [simp]:
  "length (TSS_XOR xs ys) = min (length xs) (length ys)" "length xs \<le> length ys \<Longrightarrow> TSS_XOR (TSS_XOR xs ys) ys = xs"
  by (simp_all add: TSS_XOR_def) (rule nth_equalityI; simp add: xor.assoc)

lemma length_MGF:
  assumes "openssl_ok (openssl.truncate L)"
  shows "length (MGF L md seed n) = n"
  by (rule length_counter_mode [OF md_sizes(1) openssl_ok_truncate [OF assms]])

lemma dropWhile_zeros: "dropWhile (\<lambda>b. b = 0) (replicate n 0 @ 1 # (m :: byte list)) = 1 # m"
  by (induction n) simp_all

text \<open>Remark. A message that fits is padded to the size of the key, with the random seed taken from the generator, and the decoding of OAEP
  gets it back with the same label; a message that does not fit is refused and nothing is drawn.\<close>

theorem TSS_OAEP_roundtrip:
  assumes L: "openssl_ok (openssl.truncate L)" "GetHashServer halg = Some md" and p: "length p \<le> 0xffff" and m: "length m < 0x10000"
    and n: "unat emLen \<le> 0x10000" and r: "EVP_MD_size md \<le> length (random w)"
  shows "if 2 * EVP_MD_size md + 2 + length m \<le> unat emLen
    then \<exists>em. TSS_RSA_padding_add_PKCS1_OAEP L emLen m p halg w = Some (Inr em, w\<lparr>random := drop (EVP_MD_size md) (random w)\<rparr>) \<and>
      Suc (length em) = unat emLen \<and> OAEP_decode L md p em = Some m
    else TSS_RSA_padding_add_PKCS1_OAEP L emLen m p halg w = Some (Inl TSS_RC_RSA_PADDING, w)"
proof -
  let ?h = "EVP_MD_size md"
  have u: "unat (of_nat (2 * ?h + 2 + length m) :: 32 word) = 2 * ?h + 2 + length m"
    using md_sizes(2) [of md] m by (subst unat_of_nat) simp
  then have g: "emLen < of_nat (2 * ?h + 2 + length m) \<longleftrightarrow> \<not> 2 * ?h + 2 + length m \<le> unat emLen"
    by (simp only: word_less_nat_alt not_le)
  have gg: "(emLen < 2 * of_nat ?h + 2 + of_nat (length m)) = (\<not> 2 * ?h + 2 + length m \<le> unat emLen)"
    using g by (simp add: add.commute add.left_commute)
  show ?thesis
  proof (cases "2 * ?h + 2 + length m \<le> unat emLen")
    case False
    with g L p show ?thesis by (simp add: TSS_RSA_padding_add_PKCS1_OAEP_def Let_def e_fail_def)
  next
    case True
    define seed where "seed = take ?h (random w)"
    define dbLen where "dbLen = unat emLen - ?h - 1"
    define db where "db = EVP_Digest L md p @ replicate (unat emLen - length m - 2 * ?h - 2) 0 @ [1] @ m"
    define maskedDb where "maskedDb = TSS_XOR db (MGF L md seed dbLen)"
    define em where "em = TSS_XOR seed (MGF L md maskedDb ?h) @ maskedDb"
    have len: "length db = dbLen" "length seed = ?h" "0 < ?h" "0 < dbLen" "dbLen \<le> 0x10000"
      using True r n md_sizes(1) [of md] openssl_ok_truncate [OF L(1), of md p] by (simp_all add: db_def dbLen_def seed_def)
    then have lm: "length maskedDb = dbLen" by (simp add: maskedDb_def length_MGF [OF L(1)])
    have H: "TSS_Hash_Generate L halg [(int (length p), Some p), (0, None)] = r_return (EVP_Digest L md p)"
      using L by (simp add: TSS_Hash_Generate_def GetMd_server)
    have rand: "TSS_RandBytes ?h w = Some (Inr seed, w\<lparr>random := drop ?h (random w)\<rparr>)"
      using r by (simp add: TSS_RandBytes_def e_return_def seed_def)
    have "TSS_RSA_padding_add_PKCS1_OAEP L emLen m p halg w = Some (Inr em, w\<lparr>random := drop ?h (random w)\<rparr>)"
      using L p g True len md_sizes(2) [of md] openssl_ok_truncate [OF L(1), of md p]
      unfolding TSS_RSA_padding_add_PKCS1_OAEP_def Let_def dbLen_def [symmetric] DigestSize_server [OF L(2)]
      by (simp add: H TSS_MGF1_correct [OF L] e_bind_Some(1) [where m = "TSS_RandBytes ?h" and s = w, OF rand]
        db_def maskedDb_def em_def e_return_def del: of_nat_add of_nat_mult)
    moreover have "OAEP_decode L md p em = Some m"
    proof -
      have e: "take ?h em = TSS_XOR seed (MGF L md maskedDb ?h)" "drop ?h em = maskedDb"
        using len by (simp_all add: em_def length_MGF [OF L(1)])
      have s: "TSS_XOR (TSS_XOR seed (MGF L md maskedDb ?h)) (MGF L md maskedDb ?h) = seed" using len by (simp add: length_MGF [OF L(1)])
      have d: "TSS_XOR maskedDb (MGF L md seed (length maskedDb)) = db"
        unfolding lm using len by (simp add: maskedDb_def length_MGF [OF L(1)])
      have t: "take ?h db = EVP_Digest L md p" "drop ?h db = replicate (unat emLen - length m - 2 * ?h - 2) 0 @ 1 # m"
        using openssl_ok_truncate [OF L(1), of md p] by (simp_all add: db_def)
      show ?thesis unfolding OAEP_decode_def Let_def e s d t dropWhile_zeros by simp
    qed
    moreover have "Suc (length em) = unat emLen" using len lm True by (simp add: em_def length_MGF [OF L(1)] dbLen_def)
    ultimately show ?thesis using True by auto
  qed
qed


definition example_crypto :: crypto where
  "example_crypto = \<lparr>EVP_Digest = \<lambda>md m. replicate (EVP_MD_size md) (of_nat (length m)), ctx_size = \<lambda>_. 100,
     HMAC_Final = \<lambda>md K m. replicate (EVP_MD_size md) (of_nat (length K + length m)), RSA_public_encrypt = \<lambda>n e m. Some m,
     AES_cbc_encrypt = \<lambda>k iv d. map (\<lambda>b. b + 1) d, AES_cbc_decrypt = \<lambda>k iv d. map (\<lambda>b. b - 1) d, AES_encrypt = \<lambda>k b. map (\<lambda>x. x + 1) b\<rparr>"

definition example_world :: world where
  "example_world = \<lparr>random = replicate 100 7, aes_key = Some (replicate 16 3), files = Map.empty, on_write = \<lambda>_. Written, on_read = \<lambda>_. Completed, removable = \<lambda>_. True\<rparr>"

lemma example_crypto_ok [simp]: "openssl_ok (openssl.truncate example_crypto)"
  by (simp add: example_crypto_def openssl_ok_def openssl.defs)

theorem TSS_OAEP_roundtrip_witness:
  "\<exists>em w. TSS_RSA_padding_add_PKCS1_OAEP example_crypto 256 [1, 2, 3] [83, 0] TPM_ALG_SHA256 example_world = Some (Inr em, w) \<and>
     length em = 255 \<and> OAEP_decode example_crypto EVP_sha256 [83, 0] em = Some [1, 2, 3]"
  using TSS_OAEP_roundtrip [OF example_crypto_ok, of TPM_ALG_SHA256 EVP_sha256 "[83, 0]" "[1, 2, 3]" 256 example_world]
  by (auto simp: GetHashServer_def example_world_def)

section \<open>Stored data\<close>

definition cbc_ok :: "'z crypto_scheme \<Rightarrow> bool" where
  "cbc_ok L \<longleftrightarrow> (\<forall>k iv d. length d mod 16 = 0 \<longrightarrow>
     length (AES_cbc_encrypt L k iv d) = length d \<and> AES_cbc_decrypt L k iv (AES_cbc_encrypt L k iv d) = d)"

lemma r_guards_iff:
  "r_need a (r_guard b e (r_guard c e' (r_return x))) = r_return y \<longleftrightarrow> a \<and> \<not> b \<and> \<not> c \<and> x = y"
  by (simp add: r_need_def r_guard_def)

lemma AES_Encrypt_correct:
  assumes L: "cbc_ok L" and d: "length d + 16 \<le> 0x10000"
  shows "\<exists>e. length e = length d + (16 - length d mod 16) \<and> (\<forall>w :: 's world_scheme. aes_key w = Some k \<longrightarrow>
    TSS_AES_Encrypt L d w = Some (Inr e, w) \<and> TSS_AES_Decrypt L e w = Some (Inr d, w))"
proof -
  define n where "n = 16 - length d mod 16"
  have n: "0 < n" "n \<le> 16" "length d + n = (length d div 16 + 1) * 16"
  proof -
    have "length d mod 16 < 16" by simp
    then show "0 < n" "n \<le> 16" "length d + n = (length d div 16 + 1) * 16" unfolding n_def
      using div_mult_mod_eq [of "length d" 16] by presburger+
  qed
  define p where "p = d @ replicate n (of_nat n :: byte)"
  define e where "e = AES_cbc_encrypt L k (replicate 16 0) p"
  have "length p mod 16 = 0" using n by (simp add: p_def)
  then have e: "length e = length d + n" "AES_cbc_decrypt L k (replicate 16 0) e = p"
    using L unfolding cbc_ok_def e_def by (simp_all add: p_def)
  have u: "unat (of_nat n :: byte) = n" using n by (simp add: unat_of_nat)
  have l: "p ! (length p - 1) = of_nat n" using n(1) by (auto simp: p_def nth_append)
  have E: "TSS_AES_Encrypt L d w = Some (Inr e, w)" if "aes_key w = Some k" for w :: "'s world_scheme"
    using that d n Malloc_ok [of "length d + n"]
    by (simp add: TSS_AES_Encrypt_def Let_def n_def [symmetric] p_def [symmetric] e_def [symmetric] e_return_def del: of_nat_add)
  have "TSS_AES_Decrypt L e w = Some (Inr d, w)" if "aes_key w = Some k" for w :: "'s world_scheme"
  proof -
    have "e \<noteq> []" "16 \<le> length e" "length p = length e" "length e \<le> 0x10000" "p ! (length e - 1) = of_nat n" using e n d l by (auto simp: p_def)
    moreover have "take (length e - n) p = d" "set (drop (length e - n) p) = {of_nat n}" using e n by (simp_all add: p_def)
    ultimately show ?thesis using that e(2) n u by (simp add: TSS_AES_Decrypt_def Let_def e_return_def)
  qed
  with E e(1) n_def show ?thesis by (intro exI [of _ e]) simp
qed

text \<open>C24. What the library encrypts with its AES key it can decrypt: data of any size that it can allocate is padded to whole blocks and
  comes back as it was. What it accepts for decryption is padded correctly.\<close>

theorem TSS_AES_roundtrip:
  assumes L: "cbc_ok L" "aes_key w = Some k" and d: "length d + 16 \<le> 0x10000"
  shows "(\<exists>e. TSS_AES_Encrypt L d w = Some (Inr e, w) \<and> length e = length d + (16 - length d mod 16) \<and>
      TSS_AES_Decrypt L e w = Some (Inr d, w)) \<and>
    (TSS_AES_Decrypt L e' w = Some (Inr d', w) \<longrightarrow>
      (\<exists>n. 1 \<le> n \<and> n \<le> 16 \<and> AES_cbc_decrypt L k (replicate 16 0) e' = d' @ replicate n (of_nat n)))"
proof
  show "\<exists>e. TSS_AES_Encrypt L d w = Some (Inr e, w) \<and> length e = length d + (16 - length d mod 16) \<and>
      TSS_AES_Decrypt L e w = Some (Inr d, w)"
    using AES_Encrypt_correct [OF L(1) d] L(2) by blast
next
  show "TSS_AES_Decrypt L e' w = Some (Inr d', w) \<longrightarrow>
      (\<exists>n. 1 \<le> n \<and> n \<le> 16 \<and> AES_cbc_decrypt L k (replicate 16 0) e' = d' @ replicate n (of_nat n))"
  proof
    let ?p = "AES_cbc_decrypt L k (replicate 16 0) e'"
    let ?n = "unat (?p ! (length e' - 1))"
    assume a: "TSS_AES_Decrypt L e' w = Some (Inr d', w)"
    have guard: "r_bind (TSS_Malloc True m) f = r_return x \<Longrightarrow> f () = r_return x" for m and f :: "unit \<Rightarrow> byte list result" and x
      by (auto simp: TSS_Malloc_def r_guard_def split: if_splits)
    from a have "\<not> length e' < 16" by (auto simp: TSS_AES_Decrypt_def e_fail_def)
    with a have "r_bind (TSS_Malloc True (of_nat (length e'))) (\<lambda>_. r_need (length ?p = length e')
        (r_guard (?n = 0 \<or> ?n > 16) TSS_RC_AES_DECRYPT_FAILURE
        (r_guard (\<exists>b\<in>set (drop (length e' - ?n) ?p). unat b \<noteq> ?n) TSS_RC_AES_DECRYPT_FAILURE
        (r_return (take (length e' - ?n) ?p))))) = r_return d'"
      using L(2) by (simp add: TSS_AES_Decrypt_def Let_def e_lift_def r_return_def)
    from guard [OF this] have h: "length ?p = length e'" "\<not> (?n = 0 \<or> ?n > 16)"
        "\<not> (\<exists>b\<in>set (drop (length e' - ?n) ?p). unat b \<noteq> ?n)" "take (length e' - ?n) ?p = d'"
      unfolding r_guards_iff by blast+
    have "drop (length e' - ?n) ?p = replicate ?n (of_nat ?n)"
    proof (rule replicate_eqI)
      show "length (drop (length e' - ?n) ?p) = ?n" using h(1,2) \<open>\<not> length e' < 16\<close> by simp
      show "b = of_nat ?n" if "b \<in> set (drop (length e' - ?n) ?p)" for b
        using h(3) that by (metis of_nat_unat ucast_id)
    qed
    then have "?p = d' @ replicate ?n (of_nat ?n)" using h(4) by (metis append_take_drop_id)
    moreover have "1 \<le> ?n" "?n \<le> 16" using h(2) by auto
    ultimately show "\<exists>n. 1 \<le> n \<and> n \<le> 16 \<and> ?p = d' @ replicate n (of_nat n)" by blast
  qed
qed

lemma example_cbc [simp]: "cbc_ok example_crypto"
  by (simp add: cbc_ok_def example_crypto_def comp_def)

theorem TSS_AES_roundtrip_witness:
  "\<exists>e. TSS_AES_Encrypt example_crypto [1, 2, 3] example_world = Some (Inr e, example_world) \<and> length e = 16 \<and>
     TSS_AES_Decrypt example_crypto e example_world = Some (Inr [1, 2, 3], example_world)"
  using TSS_AES_roundtrip [OF example_cbc, of example_world "replicate 16 3" "[1, 2, 3]" "[]" "[]"] by (simp add: example_world_def)

end
