(* ===== verification/Tss_Attributes.thy ===== *)
theory Tss_Attributes
  imports Tss_Types
begin

text \<open>
  The attributes of the commands: the tables of \<^verbatim>\<open>libtss2/CommandAttributeData.c\<close> as \<^verbatim>\<open>COMPRESSED_LISTS\<close> leaves them, with
  the terminating entries, and the functions of \<^verbatim>\<open>libtss2/tssccattributes.c\<close> that read them. \<open>None\<close> says that a function
  reads outside of its table.
\<close>

unbundle bit_operations_syntax

section \<open>Command codes and attribute bits\<close>

abbreviation TPM_CC_NV_UndefineSpaceSpecial :: "32 word" where "TPM_CC_NV_UndefineSpaceSpecial \<equiv> 0x11f"
abbreviation TPM_CC_EvictControl :: "32 word" where "TPM_CC_EvictControl \<equiv> 0x120"
abbreviation TPM_CC_HierarchyControl :: "32 word" where "TPM_CC_HierarchyControl \<equiv> 0x121"
abbreviation TPM_CC_NV_UndefineSpace :: "32 word" where "TPM_CC_NV_UndefineSpace \<equiv> 0x122"
abbreviation TPM_CC_ChangeEPS :: "32 word" where "TPM_CC_ChangeEPS \<equiv> 0x124"
abbreviation TPM_CC_ChangePPS :: "32 word" where "TPM_CC_ChangePPS \<equiv> 0x125"
abbreviation TPM_CC_Clear :: "32 word" where "TPM_CC_Clear \<equiv> 0x126"
abbreviation TPM_CC_ClearControl :: "32 word" where "TPM_CC_ClearControl \<equiv> 0x127"
abbreviation TPM_CC_ClockSet :: "32 word" where "TPM_CC_ClockSet \<equiv> 0x128"
abbreviation TPM_CC_HierarchyChangeAuth :: "32 word" where "TPM_CC_HierarchyChangeAuth \<equiv> 0x129"
abbreviation TPM_CC_NV_DefineSpace :: "32 word" where "TPM_CC_NV_DefineSpace \<equiv> 0x12a"
abbreviation TPM_CC_PCR_Allocate :: "32 word" where "TPM_CC_PCR_Allocate \<equiv> 0x12b"
abbreviation TPM_CC_PCR_SetAuthPolicy :: "32 word" where "TPM_CC_PCR_SetAuthPolicy \<equiv> 0x12c"
abbreviation TPM_CC_PP_Commands :: "32 word" where "TPM_CC_PP_Commands \<equiv> 0x12d"
abbreviation TPM_CC_SetPrimaryPolicy :: "32 word" where "TPM_CC_SetPrimaryPolicy \<equiv> 0x12e"
abbreviation TPM_CC_ClockRateAdjust :: "32 word" where "TPM_CC_ClockRateAdjust \<equiv> 0x130"
abbreviation TPM_CC_CreatePrimary :: "32 word" where "TPM_CC_CreatePrimary \<equiv> 0x131"
abbreviation TPM_CC_NV_GlobalWriteLock :: "32 word" where "TPM_CC_NV_GlobalWriteLock \<equiv> 0x132"
abbreviation TPM_CC_GetCommandAuditDigest :: "32 word" where "TPM_CC_GetCommandAuditDigest \<equiv> 0x133"
abbreviation TPM_CC_NV_Increment :: "32 word" where "TPM_CC_NV_Increment \<equiv> 0x134"
abbreviation TPM_CC_NV_SetBits :: "32 word" where "TPM_CC_NV_SetBits \<equiv> 0x135"
abbreviation TPM_CC_NV_Extend :: "32 word" where "TPM_CC_NV_Extend \<equiv> 0x136"
abbreviation TPM_CC_NV_Write :: "32 word" where "TPM_CC_NV_Write \<equiv> 0x137"
abbreviation TPM_CC_NV_WriteLock :: "32 word" where "TPM_CC_NV_WriteLock \<equiv> 0x138"
abbreviation TPM_CC_DictionaryAttackLockReset :: "32 word" where "TPM_CC_DictionaryAttackLockReset \<equiv> 0x139"
abbreviation TPM_CC_DictionaryAttackParameters :: "32 word" where "TPM_CC_DictionaryAttackParameters \<equiv> 0x13a"
abbreviation TPM_CC_NV_ChangeAuth :: "32 word" where "TPM_CC_NV_ChangeAuth \<equiv> 0x13b"
abbreviation TPM_CC_PCR_Event :: "32 word" where "TPM_CC_PCR_Event \<equiv> 0x13c"
abbreviation TPM_CC_PCR_Reset :: "32 word" where "TPM_CC_PCR_Reset \<equiv> 0x13d"
abbreviation TPM_CC_SequenceComplete :: "32 word" where "TPM_CC_SequenceComplete \<equiv> 0x13e"
abbreviation TPM_CC_SetAlgorithmSet :: "32 word" where "TPM_CC_SetAlgorithmSet \<equiv> 0x13f"
abbreviation TPM_CC_SetCommandCodeAuditStatus :: "32 word" where "TPM_CC_SetCommandCodeAuditStatus \<equiv> 0x140"
abbreviation TPM_CC_IncrementalSelfTest :: "32 word" where "TPM_CC_IncrementalSelfTest \<equiv> 0x142"
abbreviation TPM_CC_SelfTest :: "32 word" where "TPM_CC_SelfTest \<equiv> 0x143"
abbreviation TPM_CC_Startup :: "32 word" where "TPM_CC_Startup \<equiv> 0x144"
abbreviation TPM_CC_Shutdown :: "32 word" where "TPM_CC_Shutdown \<equiv> 0x145"
abbreviation TPM_CC_StirRandom :: "32 word" where "TPM_CC_StirRandom \<equiv> 0x146"
abbreviation TPM_CC_ActivateCredential :: "32 word" where "TPM_CC_ActivateCredential \<equiv> 0x147"
abbreviation TPM_CC_Certify :: "32 word" where "TPM_CC_Certify \<equiv> 0x148"
abbreviation TPM_CC_PolicyNV :: "32 word" where "TPM_CC_PolicyNV \<equiv> 0x149"
abbreviation TPM_CC_CertifyCreation :: "32 word" where "TPM_CC_CertifyCreation \<equiv> 0x14a"
abbreviation TPM_CC_Duplicate :: "32 word" where "TPM_CC_Duplicate \<equiv> 0x14b"
abbreviation TPM_CC_GetTime :: "32 word" where "TPM_CC_GetTime \<equiv> 0x14c"
abbreviation TPM_CC_GetSessionAuditDigest :: "32 word" where "TPM_CC_GetSessionAuditDigest \<equiv> 0x14d"
abbreviation TPM_CC_NV_Read :: "32 word" where "TPM_CC_NV_Read \<equiv> 0x14e"
abbreviation TPM_CC_NV_ReadLock :: "32 word" where "TPM_CC_NV_ReadLock \<equiv> 0x14f"
abbreviation TPM_CC_ObjectChangeAuth :: "32 word" where "TPM_CC_ObjectChangeAuth \<equiv> 0x150"
abbreviation TPM_CC_PolicySecret :: "32 word" where "TPM_CC_PolicySecret \<equiv> 0x151"
abbreviation TPM_CC_Rewrap :: "32 word" where "TPM_CC_Rewrap \<equiv> 0x152"
abbreviation TPM_CC_Create :: "32 word" where "TPM_CC_Create \<equiv> 0x153"
abbreviation TPM_CC_ECDH_ZGen :: "32 word" where "TPM_CC_ECDH_ZGen \<equiv> 0x154"
abbreviation TPM_CC_HMAC :: "32 word" where "TPM_CC_HMAC \<equiv> 0x155"
abbreviation TPM_CC_Import :: "32 word" where "TPM_CC_Import \<equiv> 0x156"
abbreviation TPM_CC_Load :: "32 word" where "TPM_CC_Load \<equiv> 0x157"
abbreviation TPM_CC_Quote :: "32 word" where "TPM_CC_Quote \<equiv> 0x158"
abbreviation TPM_CC_RSA_Decrypt :: "32 word" where "TPM_CC_RSA_Decrypt \<equiv> 0x159"
abbreviation TPM_CC_HMAC_Start :: "32 word" where "TPM_CC_HMAC_Start \<equiv> 0x15b"
abbreviation TPM_CC_SequenceUpdate :: "32 word" where "TPM_CC_SequenceUpdate \<equiv> 0x15c"
abbreviation TPM_CC_Sign :: "32 word" where "TPM_CC_Sign \<equiv> 0x15d"
abbreviation TPM_CC_Unseal :: "32 word" where "TPM_CC_Unseal \<equiv> 0x15e"
abbreviation TPM_CC_PolicySigned :: "32 word" where "TPM_CC_PolicySigned \<equiv> 0x160"
abbreviation TPM_CC_ContextLoad :: "32 word" where "TPM_CC_ContextLoad \<equiv> 0x161"
abbreviation TPM_CC_ContextSave :: "32 word" where "TPM_CC_ContextSave \<equiv> 0x162"
abbreviation TPM_CC_ECDH_KeyGen :: "32 word" where "TPM_CC_ECDH_KeyGen \<equiv> 0x163"
abbreviation TPM_CC_EncryptDecrypt :: "32 word" where "TPM_CC_EncryptDecrypt \<equiv> 0x164"
abbreviation TPM_CC_FlushContext :: "32 word" where "TPM_CC_FlushContext \<equiv> 0x165"
abbreviation TPM_CC_LoadExternal :: "32 word" where "TPM_CC_LoadExternal \<equiv> 0x167"
abbreviation TPM_CC_MakeCredential :: "32 word" where "TPM_CC_MakeCredential \<equiv> 0x168"
abbreviation TPM_CC_NV_ReadPublic :: "32 word" where "TPM_CC_NV_ReadPublic \<equiv> 0x169"
abbreviation TPM_CC_PolicyAuthorize :: "32 word" where "TPM_CC_PolicyAuthorize \<equiv> 0x16a"
abbreviation TPM_CC_PolicyAuthValue :: "32 word" where "TPM_CC_PolicyAuthValue \<equiv> 0x16b"
abbreviation TPM_CC_PolicyCommandCode :: "32 word" where "TPM_CC_PolicyCommandCode \<equiv> 0x16c"
abbreviation TPM_CC_PolicyCounterTimer :: "32 word" where "TPM_CC_PolicyCounterTimer \<equiv> 0x16d"
abbreviation TPM_CC_PolicyCpHash :: "32 word" where "TPM_CC_PolicyCpHash \<equiv> 0x16e"
abbreviation TPM_CC_PolicyLocality :: "32 word" where "TPM_CC_PolicyLocality \<equiv> 0x16f"
abbreviation TPM_CC_PolicyNameHash :: "32 word" where "TPM_CC_PolicyNameHash \<equiv> 0x170"
abbreviation TPM_CC_PolicyOR :: "32 word" where "TPM_CC_PolicyOR \<equiv> 0x171"
abbreviation TPM_CC_PolicyTicket :: "32 word" where "TPM_CC_PolicyTicket \<equiv> 0x172"
abbreviation TPM_CC_ReadPublic :: "32 word" where "TPM_CC_ReadPublic \<equiv> 0x173"
abbreviation TPM_CC_RSA_Encrypt :: "32 word" where "TPM_CC_RSA_Encrypt \<equiv> 0x174"
abbreviation TPM_CC_StartAuthSession :: "32 word" where "TPM_CC_StartAuthSession \<equiv> 0x176"
abbreviation TPM_CC_VerifySignature :: "32 word" where "TPM_CC_VerifySignature \<equiv> 0x177"
abbreviation TPM_CC_ECC_Parameters :: "32 word" where "TPM_CC_ECC_Parameters \<equiv> 0x178"
abbreviation TPM_CC_GetCapability :: "32 word" where "TPM_CC_GetCapability \<equiv> 0x17a"
abbreviation TPM_CC_GetRandom :: "32 word" where "TPM_CC_GetRandom \<equiv> 0x17b"
abbreviation TPM_CC_GetTestResult :: "32 word" where "TPM_CC_GetTestResult \<equiv> 0x17c"
abbreviation TPM_CC_Hash :: "32 word" where "TPM_CC_Hash \<equiv> 0x17d"
abbreviation TPM_CC_PCR_Read :: "32 word" where "TPM_CC_PCR_Read \<equiv> 0x17e"
abbreviation TPM_CC_PolicyPCR :: "32 word" where "TPM_CC_PolicyPCR \<equiv> 0x17f"
abbreviation TPM_CC_PolicyRestart :: "32 word" where "TPM_CC_PolicyRestart \<equiv> 0x180"
abbreviation TPM_CC_ReadClock :: "32 word" where "TPM_CC_ReadClock \<equiv> 0x181"
abbreviation TPM_CC_PCR_Extend :: "32 word" where "TPM_CC_PCR_Extend \<equiv> 0x182"
abbreviation TPM_CC_PCR_SetAuthValue :: "32 word" where "TPM_CC_PCR_SetAuthValue \<equiv> 0x183"
abbreviation TPM_CC_NV_Certify :: "32 word" where "TPM_CC_NV_Certify \<equiv> 0x184"
abbreviation TPM_CC_EventSequenceComplete :: "32 word" where "TPM_CC_EventSequenceComplete \<equiv> 0x185"
abbreviation TPM_CC_HashSequenceStart :: "32 word" where "TPM_CC_HashSequenceStart \<equiv> 0x186"
abbreviation TPM_CC_PolicyPhysicalPresence :: "32 word" where "TPM_CC_PolicyPhysicalPresence \<equiv> 0x187"
abbreviation TPM_CC_PolicyDuplicationSelect :: "32 word" where "TPM_CC_PolicyDuplicationSelect \<equiv> 0x188"
abbreviation TPM_CC_PolicyGetDigest :: "32 word" where "TPM_CC_PolicyGetDigest \<equiv> 0x189"
abbreviation TPM_CC_TestParms :: "32 word" where "TPM_CC_TestParms \<equiv> 0x18a"
abbreviation TPM_CC_Commit :: "32 word" where "TPM_CC_Commit \<equiv> 0x18b"
abbreviation TPM_CC_PolicyPassword :: "32 word" where "TPM_CC_PolicyPassword \<equiv> 0x18c"
abbreviation TPM_CC_ZGen_2Phase :: "32 word" where "TPM_CC_ZGen_2Phase \<equiv> 0x18d"
abbreviation TPM_CC_EC_Ephemeral :: "32 word" where "TPM_CC_EC_Ephemeral \<equiv> 0x18e"
abbreviation TPM_CC_PolicyNvWritten :: "32 word" where "TPM_CC_PolicyNvWritten \<equiv> 0x18f"

abbreviation IS_IMPLEMENTED :: "32 word" where "IS_IMPLEMENTED \<equiv> 0x1"
abbreviation HANDLE_1_USER :: "32 word" where "HANDLE_1_USER \<equiv> 0x2"
abbreviation HANDLE_1_ADMIN :: "32 word" where "HANDLE_1_ADMIN \<equiv> 0x4"
abbreviation HANDLE_1_DUP :: "32 word" where "HANDLE_1_DUP \<equiv> 0x8"
abbreviation HANDLE_2_USER :: "32 word" where "HANDLE_2_USER \<equiv> 0x10"
abbreviation PP_COMMAND :: "32 word" where "PP_COMMAND \<equiv> 0x20"
abbreviation PP_REQUIRED :: "32 word" where "PP_REQUIRED \<equiv> 0x40"
abbreviation ALLOW_TRIAL :: "32 word" where "ALLOW_TRIAL \<equiv> 0x80"
abbreviation NO_SESSIONS :: "32 word" where "NO_SESSIONS \<equiv> 0x100"
abbreviation DECRYPT_2 :: "32 word" where "DECRYPT_2 \<equiv> 0x200"
abbreviation DECRYPT_4 :: "32 word" where "DECRYPT_4 \<equiv> 0x400"
abbreviation ENCRYPT_2 :: "32 word" where "ENCRYPT_2 \<equiv> 0x800"
abbreviation ENCRYPT_4 :: "32 word" where "ENCRYPT_4 \<equiv> 0x1000"
abbreviation R_HANDLE :: "32 word" where "R_HANDLE \<equiv> 0x2000"

abbreviation AUTH_NONE :: "32 word" where "AUTH_NONE \<equiv> 0"
abbreviation AUTH_USER :: "32 word" where "AUTH_USER \<equiv> 1"
abbreviation AUTH_ADMIN :: "32 word" where "AUTH_ADMIN \<equiv> 2"
abbreviation AUTH_DUP :: "32 word" where "AUTH_DUP \<equiv> 3"

type_synonym COMMAND_INDEX = "16 word"

abbreviation UNIMPLEMENTED_COMMAND_INDEX :: COMMAND_INDEX where "UNIMPLEMENTED_COMMAND_INDEX \<equiv> NOT 0"

section \<open>The tables\<close>

record TPMA_CC_TSS =
  attr_commandCode :: "32 word"
  attr_nv :: "8 word"
  attr_extensive :: "8 word"
  attr_flushed :: "8 word"
  attr_cHandles :: "8 word"
  attr_rHandle :: "8 word"
  attr_V :: "8 word"

text \<open>An initializer, without the two reserved members, which are zero.\<close>

definition cc_attr :: "32 word \<Rightarrow> 8 word \<Rightarrow> 8 word \<Rightarrow> 8 word \<Rightarrow> 8 word \<Rightarrow> 8 word \<Rightarrow> 8 word \<Rightarrow> TPMA_CC_TSS" where
  "cc_attr cc nv extensive flushed cHandles rHandle v =
     \<lparr>attr_commandCode = cc, attr_nv = nv, attr_extensive = extensive, attr_flushed = flushed,
      attr_cHandles = cHandles, attr_rHandle = rHandle, attr_V = v\<rparr>"

definition s_ccAttr :: "TPMA_CC_TSS list" where
  "s_ccAttr =
    [cc_attr 0x011f 1 0 0 2 0 0, cc_attr 0x0120 1 0 0 2 0 0, cc_attr 0x0121 1 1 0 1 0 0,
     cc_attr 0x0122 1 0 0 2 0 0, cc_attr 0x0124 1 1 0 1 0 0, cc_attr 0x0125 1 1 0 1 0 0,
     cc_attr 0x0126 1 1 0 1 0 0, cc_attr 0x0127 1 0 0 1 0 0, cc_attr 0x0128 1 0 0 1 0 0,
     cc_attr 0x0129 1 0 0 1 0 0, cc_attr 0x012a 1 0 0 1 0 0, cc_attr 0x012b 1 0 0 1 0 0,
     cc_attr 0x012c 1 0 0 1 0 0, cc_attr 0x012d 1 0 0 1 0 0, cc_attr 0x012e 1 0 0 1 0 0,
     cc_attr 0x0130 0 0 0 1 0 0, cc_attr 0x0131 0 0 0 1 1 0, cc_attr 0x0132 0 0 0 1 0 0,
     cc_attr 0x0133 1 0 0 2 0 0, cc_attr 0x0134 1 0 0 2 0 0, cc_attr 0x0135 1 0 0 2 0 0,
     cc_attr 0x0136 1 0 0 2 0 0, cc_attr 0x0137 1 0 0 2 0 0, cc_attr 0x0138 1 0 0 2 0 0,
     cc_attr 0x0139 1 0 0 1 0 0, cc_attr 0x013a 1 0 0 1 0 0, cc_attr 0x013b 1 0 0 1 0 0,
     cc_attr 0x013c 1 0 0 1 0 0, cc_attr 0x013d 1 0 0 1 0 0, cc_attr 0x013e 0 0 1 1 0 0,
     cc_attr 0x013f 1 0 0 1 0 0, cc_attr 0x0140 1 0 0 1 0 0, cc_attr 0x0142 1 0 0 0 0 0,
     cc_attr 0x0143 1 0 0 0 0 0, cc_attr 0x0144 1 0 0 0 0 0, cc_attr 0x0145 1 0 0 0 0 0,
     cc_attr 0x0146 1 0 0 0 0 0, cc_attr 0x0147 0 0 0 2 0 0, cc_attr 0x0148 0 0 0 2 0 0,
     cc_attr 0x0149 0 0 0 3 0 0, cc_attr 0x014a 0 0 0 2 0 0, cc_attr 0x014b 0 0 0 2 0 0,
     cc_attr 0x014c 0 0 0 2 0 0, cc_attr 0x014d 0 0 0 3 0 0, cc_attr 0x014e 0 0 0 2 0 0,
     cc_attr 0x014f 0 0 0 2 0 0, cc_attr 0x0150 0 0 0 2 0 0, cc_attr 0x0151 0 0 0 2 0 0,
     cc_attr 0x0152 0 0 0 2 0 0, cc_attr 0x0153 0 0 0 1 0 0, cc_attr 0x0154 0 0 0 1 0 0,
     cc_attr 0x0155 0 0 0 1 0 0, cc_attr 0x0156 0 0 0 1 0 0, cc_attr 0x0157 0 0 0 1 1 0,
     cc_attr 0x0158 0 0 0 1 0 0, cc_attr 0x0159 0 0 0 1 0 0, cc_attr 0x015b 0 0 0 1 1 0,
     cc_attr 0x015c 0 0 0 1 0 0, cc_attr 0x015d 0 0 0 1 0 0, cc_attr 0x015e 0 0 0 1 0 0,
     cc_attr 0x0160 0 0 0 2 0 0, cc_attr 0x0161 0 0 0 0 1 0, cc_attr 0x0162 0 0 0 1 0 0,
     cc_attr 0x0163 0 0 0 1 0 0, cc_attr 0x0164 0 0 0 1 0 0, cc_attr 0x0165 0 0 0 0 0 0,
     cc_attr 0x0167 0 0 0 0 1 0, cc_attr 0x0168 0 0 0 1 0 0, cc_attr 0x0169 0 0 0 1 0 0,
     cc_attr 0x016a 0 0 0 1 0 0, cc_attr 0x016b 0 0 0 1 0 0, cc_attr 0x016c 0 0 0 1 0 0,
     cc_attr 0x016d 0 0 0 1 0 0, cc_attr 0x016e 0 0 0 1 0 0, cc_attr 0x016f 0 0 0 1 0 0,
     cc_attr 0x0170 0 0 0 1 0 0, cc_attr 0x0171 0 0 0 1 0 0, cc_attr 0x0172 0 0 0 1 0 0,
     cc_attr 0x0173 0 0 0 1 0 0, cc_attr 0x0174 0 0 0 1 0 0, cc_attr 0x0176 0 0 0 2 1 0,
     cc_attr 0x0177 0 0 0 1 0 0, cc_attr 0x0178 0 0 0 0 0 0, cc_attr 0x017a 0 0 0 0 0 0,
     cc_attr 0x017b 0 0 0 0 0 0, cc_attr 0x017c 0 0 0 0 0 0, cc_attr 0x017d 0 0 0 0 0 0,
     cc_attr 0x017e 0 0 0 0 0 0, cc_attr 0x017f 0 0 0 1 0 0, cc_attr 0x0180 0 0 0 1 0 0,
     cc_attr 0x0181 0 0 0 0 0 0, cc_attr 0x0182 1 0 0 1 0 0, cc_attr 0x0183 0 0 0 1 0 0,
     cc_attr 0x0184 0 0 0 3 0 0, cc_attr 0x0185 1 0 1 2 0 0, cc_attr 0x0186 0 0 0 0 1 0,
     cc_attr 0x0187 0 0 0 1 0 0, cc_attr 0x0188 0 0 0 1 0 0, cc_attr 0x0189 0 0 0 1 0 0,
     cc_attr 0x018a 0 0 0 0 0 0, cc_attr 0x018b 0 0 0 1 0 0, cc_attr 0x018c 0 0 0 1 0 0,
     cc_attr 0x018d 0 0 0 1 0 0, cc_attr 0x018e 0 0 0 0 0 0, cc_attr 0x018f 0 0 0 1 0 0,
     cc_attr 0x0000 0 0 0 0 0 1, cc_attr 0x0000 0 0 0 0 0 0]"

definition s_commandAttributes :: "32 word list" where
  "s_commandAttributes =
    [IS_IMPLEMENTED + HANDLE_1_ADMIN + HANDLE_2_USER + PP_COMMAND,
     IS_IMPLEMENTED + HANDLE_1_USER + PP_COMMAND, IS_IMPLEMENTED + HANDLE_1_USER + PP_COMMAND,
     IS_IMPLEMENTED + HANDLE_1_USER + PP_COMMAND, IS_IMPLEMENTED + HANDLE_1_USER + PP_COMMAND,
     IS_IMPLEMENTED + HANDLE_1_USER + PP_COMMAND, IS_IMPLEMENTED + HANDLE_1_USER + PP_COMMAND,
     IS_IMPLEMENTED + HANDLE_1_USER + PP_COMMAND, IS_IMPLEMENTED + HANDLE_1_USER + PP_COMMAND,
     IS_IMPLEMENTED + DECRYPT_2 + HANDLE_1_USER + PP_COMMAND,
     IS_IMPLEMENTED + DECRYPT_2 + HANDLE_1_USER + PP_COMMAND,
     IS_IMPLEMENTED + HANDLE_1_USER + PP_COMMAND,
     IS_IMPLEMENTED + DECRYPT_2 + HANDLE_1_USER + PP_COMMAND,
     IS_IMPLEMENTED + HANDLE_1_USER + PP_REQUIRED,
     IS_IMPLEMENTED + DECRYPT_2 + HANDLE_1_USER + PP_COMMAND,
     IS_IMPLEMENTED + HANDLE_1_USER + PP_COMMAND,
     IS_IMPLEMENTED + DECRYPT_2 + HANDLE_1_USER + PP_COMMAND + ENCRYPT_2 + R_HANDLE,
     IS_IMPLEMENTED + HANDLE_1_USER + PP_COMMAND,
     IS_IMPLEMENTED + DECRYPT_2 + HANDLE_1_USER + HANDLE_2_USER + ENCRYPT_2,
     IS_IMPLEMENTED + HANDLE_1_USER, IS_IMPLEMENTED + HANDLE_1_USER,
     IS_IMPLEMENTED + DECRYPT_2 + HANDLE_1_USER, IS_IMPLEMENTED + DECRYPT_2 + HANDLE_1_USER,
     IS_IMPLEMENTED + HANDLE_1_USER, IS_IMPLEMENTED + HANDLE_1_USER, IS_IMPLEMENTED + HANDLE_1_USER,
     IS_IMPLEMENTED + DECRYPT_2 + HANDLE_1_ADMIN, IS_IMPLEMENTED + DECRYPT_2 + HANDLE_1_USER,
     IS_IMPLEMENTED + HANDLE_1_USER, IS_IMPLEMENTED + DECRYPT_2 + HANDLE_1_USER + ENCRYPT_2,
     IS_IMPLEMENTED + HANDLE_1_USER, IS_IMPLEMENTED + HANDLE_1_USER + PP_COMMAND, IS_IMPLEMENTED,
     IS_IMPLEMENTED, IS_IMPLEMENTED + NO_SESSIONS, IS_IMPLEMENTED, IS_IMPLEMENTED + DECRYPT_2,
     IS_IMPLEMENTED + DECRYPT_2 + HANDLE_1_ADMIN + HANDLE_2_USER + ENCRYPT_2,
     IS_IMPLEMENTED + DECRYPT_2 + HANDLE_1_ADMIN + HANDLE_2_USER + ENCRYPT_2,
     IS_IMPLEMENTED + DECRYPT_2 + HANDLE_1_USER + ALLOW_TRIAL,
     IS_IMPLEMENTED + DECRYPT_2 + HANDLE_1_USER + ENCRYPT_2,
     IS_IMPLEMENTED + DECRYPT_2 + HANDLE_1_DUP + ENCRYPT_2,
     IS_IMPLEMENTED + DECRYPT_2 + HANDLE_1_USER + HANDLE_2_USER + ENCRYPT_2,
     IS_IMPLEMENTED + DECRYPT_2 + HANDLE_1_USER + HANDLE_2_USER + ENCRYPT_2,
     IS_IMPLEMENTED + HANDLE_1_USER + ENCRYPT_2, IS_IMPLEMENTED + HANDLE_1_USER,
     IS_IMPLEMENTED + DECRYPT_2 + HANDLE_1_ADMIN + ENCRYPT_2,
     IS_IMPLEMENTED + DECRYPT_2 + HANDLE_1_USER + ALLOW_TRIAL + ENCRYPT_2,
     IS_IMPLEMENTED + DECRYPT_2 + HANDLE_1_USER + ENCRYPT_2,
     IS_IMPLEMENTED + DECRYPT_2 + HANDLE_1_USER + ENCRYPT_2,
     IS_IMPLEMENTED + DECRYPT_2 + HANDLE_1_USER + ENCRYPT_2,
     IS_IMPLEMENTED + DECRYPT_2 + HANDLE_1_USER + ENCRYPT_2,
     IS_IMPLEMENTED + DECRYPT_2 + HANDLE_1_USER + ENCRYPT_2,
     IS_IMPLEMENTED + DECRYPT_2 + HANDLE_1_USER + ENCRYPT_2 + R_HANDLE,
     IS_IMPLEMENTED + DECRYPT_2 + HANDLE_1_USER + ENCRYPT_2,
     IS_IMPLEMENTED + DECRYPT_2 + HANDLE_1_USER + ENCRYPT_2,
     IS_IMPLEMENTED + DECRYPT_2 + HANDLE_1_USER + R_HANDLE,
     IS_IMPLEMENTED + DECRYPT_2 + HANDLE_1_USER, IS_IMPLEMENTED + DECRYPT_2 + HANDLE_1_USER,
     IS_IMPLEMENTED + HANDLE_1_USER + ENCRYPT_2, IS_IMPLEMENTED + DECRYPT_2 + ALLOW_TRIAL + ENCRYPT_2,
     IS_IMPLEMENTED + NO_SESSIONS + R_HANDLE, IS_IMPLEMENTED + NO_SESSIONS,
     IS_IMPLEMENTED + ENCRYPT_2, IS_IMPLEMENTED + HANDLE_1_USER + ENCRYPT_2,
     IS_IMPLEMENTED + NO_SESSIONS, IS_IMPLEMENTED + DECRYPT_2 + ENCRYPT_2 + R_HANDLE,
     IS_IMPLEMENTED + DECRYPT_2 + ENCRYPT_2, IS_IMPLEMENTED + ENCRYPT_2,
     IS_IMPLEMENTED + DECRYPT_2 + ALLOW_TRIAL, IS_IMPLEMENTED + ALLOW_TRIAL,
     IS_IMPLEMENTED + ALLOW_TRIAL, IS_IMPLEMENTED + DECRYPT_2 + ALLOW_TRIAL,
     IS_IMPLEMENTED + DECRYPT_2 + ALLOW_TRIAL, IS_IMPLEMENTED + ALLOW_TRIAL,
     IS_IMPLEMENTED + DECRYPT_2 + ALLOW_TRIAL, IS_IMPLEMENTED + ALLOW_TRIAL,
     IS_IMPLEMENTED + DECRYPT_2 + ALLOW_TRIAL, IS_IMPLEMENTED + ENCRYPT_2,
     IS_IMPLEMENTED + DECRYPT_2 + ENCRYPT_2, IS_IMPLEMENTED + DECRYPT_2 + ENCRYPT_2 + R_HANDLE,
     IS_IMPLEMENTED + DECRYPT_2, IS_IMPLEMENTED, IS_IMPLEMENTED, IS_IMPLEMENTED + ENCRYPT_2,
     IS_IMPLEMENTED + ENCRYPT_2, IS_IMPLEMENTED + DECRYPT_2 + ENCRYPT_2, IS_IMPLEMENTED,
     IS_IMPLEMENTED + DECRYPT_2 + ALLOW_TRIAL, IS_IMPLEMENTED + ALLOW_TRIAL,
     IS_IMPLEMENTED + NO_SESSIONS, IS_IMPLEMENTED + HANDLE_1_USER,
     IS_IMPLEMENTED + DECRYPT_2 + HANDLE_1_USER,
     IS_IMPLEMENTED + DECRYPT_2 + HANDLE_1_USER + HANDLE_2_USER + ENCRYPT_2,
     IS_IMPLEMENTED + DECRYPT_2 + HANDLE_1_USER + HANDLE_2_USER,
     IS_IMPLEMENTED + DECRYPT_2 + R_HANDLE, IS_IMPLEMENTED + ALLOW_TRIAL,
     IS_IMPLEMENTED + DECRYPT_2 + ALLOW_TRIAL, IS_IMPLEMENTED + ALLOW_TRIAL + ENCRYPT_2,
     IS_IMPLEMENTED, IS_IMPLEMENTED + DECRYPT_2 + HANDLE_1_USER + ENCRYPT_2,
     IS_IMPLEMENTED + ALLOW_TRIAL, IS_IMPLEMENTED + DECRYPT_2 + HANDLE_1_USER + ENCRYPT_2,
     IS_IMPLEMENTED + ENCRYPT_2, IS_IMPLEMENTED + ALLOW_TRIAL, IS_IMPLEMENTED + DECRYPT_2 + ENCRYPT_2,
     0]"

section \<open>Reading them\<close>

definition array_at :: "'a list \<Rightarrow> COMMAND_INDEX \<Rightarrow> 'a option" where
  "array_at xs i = (if unat i < length xs then Some (xs ! unat i) else None)"

text \<open>The loop ends at the entry with command code and \<open>V\<close> zero; a table without one would be read past its end.\<close>

fun cc_search :: "TPM_CC \<Rightarrow> COMMAND_INDEX \<Rightarrow> TPMA_CC_TSS list \<Rightarrow> COMMAND_INDEX option" where
  "cc_search commandCode i [] = None"
| "cc_search commandCode i (a # as) =
     (if attr_commandCode a \<noteq> 0 \<or> attr_V a \<noteq> 0
      then if attr_commandCode a = commandCode then Some i else cc_search commandCode (i + 1) as
      else Some UNIMPLEMENTED_COMMAND_INDEX)"

definition CommandCodeToCommandIndex :: "TPM_CC \<Rightarrow> COMMAND_INDEX option" where
  "CommandCodeToCommandIndex commandCode = cc_search commandCode 0 s_ccAttr"

definition getCommandHandleCount :: "COMMAND_INDEX \<Rightarrow> 32 word option" where
  "getCommandHandleCount index = map_option (\<lambda>a. ucast (attr_cHandles a)) (array_at s_ccAttr index)"

definition getresponseHandleCount :: "COMMAND_INDEX \<Rightarrow> 32 word option" where
  "getresponseHandleCount index = map_option (\<lambda>a. ucast (attr_rHandle a)) (array_at s_ccAttr index)"

definition getDecryptSize :: "COMMAND_INDEX \<Rightarrow> int option" where
  "getDecryptSize commandIndex = map_option (\<lambda>ca.
     if ca AND DECRYPT_2 \<noteq> 0 then 2 else if ca AND DECRYPT_4 \<noteq> 0 then 4 else 0)
     (array_at s_commandAttributes commandIndex)"

definition getEncryptSize :: "COMMAND_INDEX \<Rightarrow> int option" where
  "getEncryptSize commandIndex = map_option (\<lambda>ca.
     if ca AND ENCRYPT_2 \<noteq> 0 then 2 else if ca AND ENCRYPT_4 \<noteq> 0 then 4 else 0)
     (array_at s_commandAttributes commandIndex)"

definition getCommandAuthRole :: "COMMAND_INDEX \<Rightarrow> 32 word \<Rightarrow> 32 word option" where
  "getCommandAuthRole commandIndex handleIndex =
     (if handleIndex = 0
      then map_option (\<lambda>properties.
             if properties AND HANDLE_1_USER \<noteq> 0 then AUTH_USER
             else if properties AND HANDLE_1_ADMIN \<noteq> 0 then AUTH_ADMIN
             else if properties AND HANDLE_1_DUP \<noteq> 0 then AUTH_DUP
             else AUTH_NONE) (array_at s_commandAttributes commandIndex)
      else if handleIndex = 1
      then map_option (\<lambda>properties. if properties AND HANDLE_2_USER \<noteq> 0 then AUTH_USER else AUTH_NONE)
             (array_at s_commandAttributes commandIndex)
      else Some AUTH_NONE)"

lemmas attribute_simps = CommandCodeToCommandIndex_def getCommandHandleCount_def getresponseHandleCount_def
  getDecryptSize_def getEncryptSize_def getCommandAuthRole_def array_at_def s_ccAttr_def cc_attr_def s_commandAttributes_def

end
