(* ===== verification/Tss_Unmarshal.thy ===== *)
theory Tss_Unmarshal
  imports Tss_Types
begin

text \<open>
  The unmarshal functions of \<^verbatim>\<open>libtss2/Unmarshal.c\<close>, one definition each, in its order.
  A chain of \<open>if (rc == TPM_RC_SUCCESS) rc = ...\<close> is a chain of \<^const>\<open>u_bind\<close>; a check that sets \<open>rc\<close> is a
  \<^const>\<open>u_guard\<close>; a \<open>switch\<close> that only checks its value is membership in the set of its cases. The parameters
  \<open>allowNull\<close>, \<open>allowPwd\<close>, \<open>minCount\<close> and \<open>selector\<close> come first; a selector is widened to 32 bits as at the call.
\<close>

section \<open>Constants of the interface\<close>

definition TPM_KEY_BITS_Unmarshal :: "TPM_KEY_BITS unmarshal" where
  "TPM_KEY_BITS_Unmarshal = UINT16_Unmarshal"

definition TPM_GENERATED_Unmarshal :: "TPM_GENERATED unmarshal" where
  "TPM_GENERATED_Unmarshal =
     u_bind UINT32_Unmarshal (\<lambda>target.
     u_guard (target \<noteq> TPM_GENERATED_VALUE) TPM_RC_VALUE (
     u_return target))"

definition TPM_ALG_ID_Unmarshal :: "TPM_ALG_ID unmarshal" where
  "TPM_ALG_ID_Unmarshal = UINT16_Unmarshal"

definition TPM_ECC_CURVE_Unmarshal :: "TPM_ECC_CURVE unmarshal" where
  "TPM_ECC_CURVE_Unmarshal =
     u_bind UINT16_Unmarshal (\<lambda>target.
     u_guard (target \<notin> {TPM_ECC_NONE, TPM_ECC_NIST_P192, TPM_ECC_NIST_P224, TPM_ECC_NIST_P256,
       TPM_ECC_NIST_P384, TPM_ECC_NIST_P521, TPM_ECC_BN_P256, TPM_ECC_BN_P638,
       TPM_ECC_SM2_P256}) TPM_RC_CURVE (
     u_return target))"

definition TPM_CC_Unmarshal :: "TPM_RC unmarshal" where
  "TPM_CC_Unmarshal = UINT32_Unmarshal"

definition TPM_RC_Unmarshal :: "TPM_RC unmarshal" where
  "TPM_RC_Unmarshal = UINT32_Unmarshal"

definition TPM_CLOCK_ADJUST_Unmarshal :: "TPM_CLOCK_ADJUST unmarshal" where
  "TPM_CLOCK_ADJUST_Unmarshal =
     u_bind INT8_Unmarshal (\<lambda>target.
     u_guard (target \<notin> {TPM_CLOCK_COARSE_SLOWER, TPM_CLOCK_MEDIUM_SLOWER, TPM_CLOCK_FINE_SLOWER,
       TPM_CLOCK_NO_CHANGE, TPM_CLOCK_FINE_FASTER, TPM_CLOCK_MEDIUM_FASTER,
       TPM_CLOCK_COARSE_FASTER}) TPM_RC_VALUE (
     u_return target))"

definition TPM_EO_Unmarshal :: "TPM_EO unmarshal" where
  "TPM_EO_Unmarshal =
     u_bind UINT16_Unmarshal (\<lambda>target.
     u_guard (target \<notin> {TPM_EO_EQ, TPM_EO_NEQ, TPM_EO_SIGNED_GT, TPM_EO_UNSIGNED_GT,
       TPM_EO_SIGNED_LT, TPM_EO_UNSIGNED_LT, TPM_EO_SIGNED_GE, TPM_EO_UNSIGNED_GE, TPM_EO_SIGNED_LE,
       TPM_EO_UNSIGNED_LE, TPM_EO_BITSET, TPM_EO_BITCLEAR}) TPM_RC_VALUE (
     u_return target))"

definition TPM_ST_Unmarshal :: "TPM_ST unmarshal" where
  "TPM_ST_Unmarshal =
     u_bind UINT16_Unmarshal (\<lambda>target.
     u_guard (target \<notin> {TPM_ST_RSP_COMMAND, TPM_ST_NULL, TPM_ST_NO_SESSIONS, TPM_ST_SESSIONS,
       TPM_ST_ATTEST_NV, TPM_ST_ATTEST_COMMAND_AUDIT, TPM_ST_ATTEST_SESSION_AUDIT, TPM_ST_ATTEST_CERTIFY,
       TPM_ST_ATTEST_QUOTE, TPM_ST_ATTEST_TIME, TPM_ST_ATTEST_CREATION, TPM_ST_CREATION, TPM_ST_VERIFIED,
       TPM_ST_AUTH_SECRET, TPM_ST_HASHCHECK, TPM_ST_AUTH_SIGNED}) TPM_RC_VALUE (
     u_return target))"

definition TPM_SU_Unmarshal :: "TPM_SU unmarshal" where
  "TPM_SU_Unmarshal =
     u_bind UINT16_Unmarshal (\<lambda>target.
     u_guard (target \<notin> {TPM_SU_CLEAR, TPM_SU_STATE}) TPM_RC_VALUE (
     u_return target))"

definition TPM_SE_Unmarshal :: "TPM_SE unmarshal" where
  "TPM_SE_Unmarshal =
     u_bind UINT8_Unmarshal (\<lambda>target.
     u_guard (target \<notin> {TPM_SE_HMAC, TPM_SE_POLICY, TPM_SE_TRIAL}) TPM_RC_VALUE (
     u_return target))"

definition TPM_CAP_Unmarshal :: "TPM_CAP unmarshal" where
  "TPM_CAP_Unmarshal =
     u_bind UINT32_Unmarshal (\<lambda>target.
     u_guard (target \<notin> {TPM_CAP_ALGS, TPM_CAP_HANDLES, TPM_CAP_COMMANDS, TPM_CAP_PP_COMMANDS,
       TPM_CAP_AUDIT_COMMANDS, TPM_CAP_PCRS, TPM_CAP_TPM_PROPERTIES, TPM_CAP_PCR_PROPERTIES,
       TPM_CAP_ECC_CURVES, TPM_CAP_VENDOR_PROPERTY}) TPM_RC_VALUE (
     u_return target))"

definition TPM_PT_Unmarshal :: "TPM_HANDLE unmarshal" where
  "TPM_PT_Unmarshal = UINT32_Unmarshal"

definition TPM_PT_PCR_Unmarshal :: "TPM_PT_PCR unmarshal" where
  "TPM_PT_PCR_Unmarshal = UINT32_Unmarshal"

definition TPM_HANDLE_Unmarshal :: "TPM_HANDLE unmarshal" where
  "TPM_HANDLE_Unmarshal = UINT32_Unmarshal"

section \<open>Attributes\<close>

definition TPMA_ALGORITHM_Unmarshal :: "TPMA_ALGORITHM unmarshal" where
  "TPMA_ALGORITHM_Unmarshal =
     u_bind UINT32_Unmarshal (\<lambda>target.
     u_guard ((target AND TPMA_ALGORITHM_RESERVED) \<noteq> 0) TPM_RC_RESERVED_BITS (
     u_return target))"

definition TPMA_OBJECT_Unmarshal :: "TPMA_OBJECT unmarshal" where
  "TPMA_OBJECT_Unmarshal =
     u_bind UINT32_Unmarshal (\<lambda>target.
     u_guard ((target AND TPMA_OBJECT_RESERVED) \<noteq> 0) TPM_RC_RESERVED_BITS (
     u_return target))"

definition TPMA_SESSION_Unmarshal :: "TPMA_SESSION unmarshal" where
  "TPMA_SESSION_Unmarshal =
     u_bind UINT8_Unmarshal (\<lambda>target.
     u_guard ((target AND TPMA_SESSION_RESERVED) \<noteq> 0) TPM_RC_RESERVED_BITS (
     u_return target))"

definition TPMA_LOCALITY_Unmarshal :: "TPMA_LOCALITY unmarshal" where
  "TPMA_LOCALITY_Unmarshal = UINT8_Unmarshal"

definition TPMA_CC_Unmarshal :: "TPMA_CC unmarshal" where
  "TPMA_CC_Unmarshal =
     u_bind UINT32_Unmarshal (\<lambda>target.
     u_guard ((target AND TPMA_CC_RESERVED) \<noteq> 0) TPM_RC_RESERVED_BITS (
     u_return target))"

section \<open>Interface types\<close>

definition TPMI_YES_NO_Unmarshal :: "TPMI_YES_NO unmarshal" where
  "TPMI_YES_NO_Unmarshal =
     u_bind UINT8_Unmarshal (\<lambda>target.
     u_guard (target \<notin> {NO, YES}) TPM_RC_VALUE (
     u_return target))"

definition TPMI_DH_OBJECT_Unmarshal :: "bool \<Rightarrow> TPMI_DH_OBJECT unmarshal" where
  "TPMI_DH_OBJECT_Unmarshal allowNull =
     u_bind TPM_HANDLE_Unmarshal (\<lambda>target.
     let isNotTransient = (target < TRANSIENT_FIRST \<or> target > TRANSIENT_LAST);
         isNotPersistent = (target < PERSISTENT_FIRST \<or> target > PERSISTENT_LAST);
         isNotLegalNull = (target \<noteq> TPM_RH_NULL \<or> \<not> allowNull)
     in u_guard (isNotTransient \<and> isNotPersistent \<and> isNotLegalNull) TPM_RC_VALUE (
     u_return target))"

definition TPMI_DH_PERSISTENT_Unmarshal :: "TPMI_DH_PERSISTENT unmarshal" where
  "TPMI_DH_PERSISTENT_Unmarshal =
     u_bind TPM_HANDLE_Unmarshal (\<lambda>target.
     let isNotPersistent = (target < PERSISTENT_FIRST \<or> target > PERSISTENT_LAST)
     in u_guard (isNotPersistent) TPM_RC_VALUE (
     u_return target))"

definition TPMI_DH_ENTITY_Unmarshal :: "bool \<Rightarrow> TPMI_DH_ENTITY unmarshal" where
  "TPMI_DH_ENTITY_Unmarshal allowNull =
     u_bind TPM_HANDLE_Unmarshal (\<lambda>target.
     let isNotOwner = (target \<noteq> TPM_RH_OWNER);
         isNotEndorsement = (target \<noteq> TPM_RH_ENDORSEMENT);
         isNotPlatform = (target \<noteq> TPM_RH_PLATFORM);
         isNotLockout = (target \<noteq> TPM_RH_LOCKOUT);
         isNotTransient = (target < TRANSIENT_FIRST \<or> target > TRANSIENT_LAST);
         isNotPersistent = (target < PERSISTENT_FIRST \<or> target > PERSISTENT_LAST);
         isNotNv = (target < NV_INDEX_FIRST \<or> target > NV_INDEX_LAST);
         isNotPcr = (target > PCR_LAST);
         isNotAuth = (target < TPM_RH_AUTH_00 \<or> target > TPM_RH_AUTH_FF);
         isNotLegalNull = (target \<noteq> TPM_RH_NULL \<or> \<not> allowNull)
     in u_guard (isNotOwner \<and> isNotEndorsement \<and> isNotPlatform \<and> isNotLockout
       \<and> isNotTransient \<and> isNotPersistent \<and> isNotNv \<and> isNotPcr \<and> isNotAuth
       \<and> isNotLegalNull) TPM_RC_VALUE (
     u_return target))"

definition TPMI_DH_PCR_Unmarshal :: "bool \<Rightarrow> TPMI_DH_PCR unmarshal" where
  "TPMI_DH_PCR_Unmarshal allowNull =
     u_bind TPM_HANDLE_Unmarshal (\<lambda>target.
     let isNotPcr = (target > PCR_LAST);
         isNotLegalNull = (target \<noteq> TPM_RH_NULL \<or> \<not> allowNull)
     in u_guard (isNotPcr \<and> isNotLegalNull) TPM_RC_VALUE (
     u_return target))"

definition TPMI_SH_AUTH_SESSION_Unmarshal :: "bool \<Rightarrow> TPMI_SH_AUTH_SESSION unmarshal" where
  "TPMI_SH_AUTH_SESSION_Unmarshal allowPwd =
     u_bind TPM_HANDLE_Unmarshal (\<lambda>target.
     let isNotHmacSession = (target < HMAC_SESSION_FIRST \<or> target > HMAC_SESSION_LAST);
         isNotPolicySession = (target < POLICY_SESSION_FIRST \<or> target > POLICY_SESSION_LAST);
         isNotLegalPwd = (target \<noteq> TPM_RS_PW \<or> \<not> allowPwd)
     in u_guard (isNotHmacSession \<and> isNotPolicySession \<and> isNotLegalPwd) TPM_RC_VALUE (
     u_return target))"

definition TPMI_SH_HMAC_Unmarshal :: "bool \<Rightarrow> TPMI_SH_HMAC unmarshal" where
  "TPMI_SH_HMAC_Unmarshal allowNull =
     u_bind TPM_HANDLE_Unmarshal (\<lambda>target.
     let isNotHmacSession = (target < HMAC_SESSION_FIRST \<or> target > HMAC_SESSION_LAST)
     in u_guard (isNotHmacSession) TPM_RC_VALUE (
     u_return target))"

definition TPMI_SH_POLICY_Unmarshal :: "bool \<Rightarrow> TPMI_SH_POLICY unmarshal" where
  "TPMI_SH_POLICY_Unmarshal allowNull =
     u_bind TPM_HANDLE_Unmarshal (\<lambda>target.
     let isNotPolicySession = (target < POLICY_SESSION_FIRST \<or> target > POLICY_SESSION_LAST)
     in u_guard (isNotPolicySession) TPM_RC_VALUE (
     u_return target))"

definition TPMI_DH_CONTEXT_Unmarshal :: "bool \<Rightarrow> TPMI_DH_CONTEXT unmarshal" where
  "TPMI_DH_CONTEXT_Unmarshal allowNull =
     u_bind TPM_HANDLE_Unmarshal (\<lambda>target.
     let isNotHmacSession = (target < HMAC_SESSION_FIRST \<or> target > HMAC_SESSION_LAST);
         isNotPolicySession = (target < POLICY_SESSION_FIRST \<or> target > POLICY_SESSION_LAST);
         isNotTransient = (target < TRANSIENT_FIRST \<or> target > TRANSIENT_LAST)
     in u_guard (isNotHmacSession \<and> isNotPolicySession \<and> isNotTransient) TPM_RC_VALUE (
     u_return target))"

definition TPMI_RH_HIERARCHY_Unmarshal :: "bool \<Rightarrow> TPMI_RH_HIERARCHY unmarshal" where
  "TPMI_RH_HIERARCHY_Unmarshal allowNull =
     u_bind TPM_HANDLE_Unmarshal (\<lambda>target.
     u_guard (target \<notin> {TPM_RH_OWNER, TPM_RH_PLATFORM, TPM_RH_ENDORSEMENT}
       \<and> \<not> (target = TPM_RH_NULL \<and> allowNull)) TPM_RC_VALUE (
     u_return target))"

definition TPMI_RH_ENABLES_Unmarshal :: "bool \<Rightarrow> TPMI_RH_ENABLES unmarshal" where
  "TPMI_RH_ENABLES_Unmarshal allowNull =
     u_bind TPM_HANDLE_Unmarshal (\<lambda>target.
     u_guard (target \<notin> {TPM_RH_OWNER, TPM_RH_PLATFORM, TPM_RH_ENDORSEMENT, TPM_RH_PLATFORM_NV}
       \<and> \<not> (target = TPM_RH_NULL \<and> allowNull)) TPM_RC_VALUE (
     u_return target))"

definition TPMI_RH_HIERARCHY_AUTH_Unmarshal :: "bool \<Rightarrow> TPMI_RH_HIERARCHY_AUTH unmarshal" where
  "TPMI_RH_HIERARCHY_AUTH_Unmarshal allowNull =
     u_bind TPM_HANDLE_Unmarshal (\<lambda>target.
     u_guard (target \<notin> {TPM_RH_OWNER, TPM_RH_PLATFORM, TPM_RH_ENDORSEMENT,
       TPM_RH_LOCKOUT}) TPM_RC_VALUE (
     u_return target))"

definition TPMI_RH_PLATFORM_Unmarshal :: "bool \<Rightarrow> TPMI_RH_PLATFORM unmarshal" where
  "TPMI_RH_PLATFORM_Unmarshal allowNull =
     u_bind TPM_HANDLE_Unmarshal (\<lambda>target.
     u_guard (target \<notin> {TPM_RH_PLATFORM}) TPM_RC_VALUE (
     u_return target))"

definition TPMI_RH_ENDORSEMENT_Unmarshal :: "bool \<Rightarrow> TPMI_RH_ENDORSEMENT unmarshal" where
  "TPMI_RH_ENDORSEMENT_Unmarshal allowNull =
     u_bind TPM_HANDLE_Unmarshal (\<lambda>target.
     u_guard (target \<notin> {TPM_RH_ENDORSEMENT} \<and> \<not> (target = TPM_RH_NULL
       \<and> allowNull)) TPM_RC_VALUE (
     u_return target))"

definition TPMI_RH_PROVISION_Unmarshal :: "bool \<Rightarrow> TPMI_RH_PROVISION unmarshal" where
  "TPMI_RH_PROVISION_Unmarshal allowNull =
     u_bind TPM_HANDLE_Unmarshal (\<lambda>target.
     u_guard (target \<notin> {TPM_RH_OWNER, TPM_RH_PLATFORM}) TPM_RC_VALUE (
     u_return target))"

definition TPMI_RH_CLEAR_Unmarshal :: "bool \<Rightarrow> TPMI_RH_CLEAR unmarshal" where
  "TPMI_RH_CLEAR_Unmarshal allowNull =
     u_bind TPM_HANDLE_Unmarshal (\<lambda>target.
     u_guard (target \<notin> {TPM_RH_LOCKOUT, TPM_RH_PLATFORM}) TPM_RC_VALUE (
     u_return target))"

definition TPMI_RH_NV_AUTH_Unmarshal :: "bool \<Rightarrow> TPMI_RH_NV_AUTH unmarshal" where
  "TPMI_RH_NV_AUTH_Unmarshal allowNull =
     u_bind TPM_HANDLE_Unmarshal (\<lambda>target.
     let isNotNv = (target < NV_INDEX_FIRST \<or> target > NV_INDEX_LAST)
     in u_guard (target \<notin> {TPM_RH_OWNER, TPM_RH_PLATFORM} \<and> isNotNv) TPM_RC_VALUE (
     u_return target))"

definition TPMI_RH_LOCKOUT_Unmarshal :: "bool \<Rightarrow> TPMI_RH_LOCKOUT unmarshal" where
  "TPMI_RH_LOCKOUT_Unmarshal allowNull =
     u_bind TPM_HANDLE_Unmarshal (\<lambda>target.
     u_guard (target \<notin> {TPM_RH_LOCKOUT}) TPM_RC_VALUE (
     u_return target))"

definition TPMI_RH_NV_INDEX_Unmarshal :: "bool \<Rightarrow> TPMI_RH_NV_INDEX unmarshal" where
  "TPMI_RH_NV_INDEX_Unmarshal allowNull =
     u_bind TPM_HANDLE_Unmarshal (\<lambda>target.
     let isNotNv = (target < NV_INDEX_FIRST \<or> target > NV_INDEX_LAST)
     in u_guard (isNotNv) TPM_RC_VALUE (
     u_return target))"

definition TPMI_ALG_HASH_Unmarshal :: "bool \<Rightarrow> TPMI_ALG_HASH unmarshal" where
  "TPMI_ALG_HASH_Unmarshal allowNull =
     u_bind TPM_ALG_ID_Unmarshal (\<lambda>target.
     u_guard (target \<notin> {TPM_ALG_SHA1, TPM_ALG_SHA256, TPM_ALG_SHA384}
       \<and> \<not> (target = TPM_ALG_NULL \<and> allowNull)) TPM_RC_HASH (
     u_return target))"

definition TPMI_ALG_SYM_Unmarshal :: "bool \<Rightarrow> TPMI_ALG_SYM unmarshal" where
  "TPMI_ALG_SYM_Unmarshal allowNull =
     u_bind TPM_ALG_ID_Unmarshal (\<lambda>target.
     u_guard (target \<notin> {TPM_ALG_AES, TPM_ALG_XOR} \<and> \<not> (target = TPM_ALG_NULL
       \<and> allowNull)) TPM_RC_SYMMETRIC (
     u_return target))"

definition TPMI_ALG_SYM_OBJECT_Unmarshal :: "bool \<Rightarrow> TPMI_ALG_SYM_OBJECT unmarshal" where
  "TPMI_ALG_SYM_OBJECT_Unmarshal allowNull =
     u_bind TPM_ALG_ID_Unmarshal (\<lambda>target.
     u_guard (target \<notin> {TPM_ALG_AES} \<and> \<not> (target = TPM_ALG_NULL
       \<and> allowNull)) TPM_RC_SYMMETRIC (
     u_return target))"

definition TPMI_ALG_SYM_MODE_Unmarshal :: "bool \<Rightarrow> TPMI_ALG_SYM_MODE unmarshal" where
  "TPMI_ALG_SYM_MODE_Unmarshal allowNull =
     u_bind TPM_ALG_ID_Unmarshal (\<lambda>target.
     u_guard (target \<notin> {TPM_ALG_CTR, TPM_ALG_OFB, TPM_ALG_CBC, TPM_ALG_CFB, TPM_ALG_ECB}
       \<and> \<not> (target = TPM_ALG_NULL \<and> allowNull)) TPM_RC_MODE (
     u_return target))"

definition TPMI_ALG_KDF_Unmarshal :: "bool \<Rightarrow> TPMI_ALG_KDF unmarshal" where
  "TPMI_ALG_KDF_Unmarshal allowNull =
     u_bind TPM_ALG_ID_Unmarshal (\<lambda>target.
     u_guard (target \<notin> {TPM_ALG_MGF1, TPM_ALG_KDF1_SP800_56A, TPM_ALG_KDF1_SP800_108}
       \<and> \<not> (target = TPM_ALG_NULL \<and> allowNull)) TPM_RC_KDF (
     u_return target))"

definition TPMI_ALG_SIG_SCHEME_Unmarshal :: "bool \<Rightarrow> TPMI_ALG_SIG_SCHEME unmarshal" where
  "TPMI_ALG_SIG_SCHEME_Unmarshal allowNull =
     u_bind TPM_ALG_ID_Unmarshal (\<lambda>target.
     u_guard (target \<notin> {TPM_ALG_HMAC, TPM_ALG_RSASSA, TPM_ALG_RSAPSS, TPM_ALG_ECDSA, TPM_ALG_ECDAA,
       TPM_ALG_SM2, TPM_ALG_ECSCHNORR} \<and> \<not> (target = TPM_ALG_NULL
       \<and> allowNull)) TPM_RC_SCHEME (
     u_return target))"

definition TPMI_ECC_KEY_EXCHANGE_Unmarshal :: "bool \<Rightarrow> TPMI_ECC_KEY_EXCHANGE unmarshal" where
  "TPMI_ECC_KEY_EXCHANGE_Unmarshal allowNull =
     u_bind TPM_ALG_ID_Unmarshal (\<lambda>target.
     u_guard (target \<notin> {TPM_ALG_ECDH, TPM_ALG_SM2} \<and> \<not> (target = TPM_ALG_NULL
       \<and> allowNull)) TPM_RC_SCHEME (
     u_return target))"

definition TPMI_ST_COMMAND_TAG_Unmarshal :: "TPMI_ST_COMMAND_TAG unmarshal" where
  "TPMI_ST_COMMAND_TAG_Unmarshal =
     u_bind TPM_ST_Unmarshal (\<lambda>target.
     u_guard (target \<notin> {TPM_ST_NO_SESSIONS, TPM_ST_SESSIONS}) TPM_RC_BAD_TAG (
     u_return target))"

section \<open>Digests, sized buffers, tickets and lists\<close>

definition TPMS_EMPTY_Unmarshal :: "TPMS_EMPTY unmarshal" where
  "TPMS_EMPTY_Unmarshal = u_return ()"

definition TPMU_HA_Unmarshal :: "UINT32 \<Rightarrow> TPMU_HA unmarshal" where
  "TPMU_HA_Unmarshal selector =
    (if selector = TPM_ALG_SHA1 then u_map TPMU_HA_sha1 (Array_Unmarshal SHA1_DIGEST_SIZE)
     else if selector = TPM_ALG_SHA256 then u_map TPMU_HA_sha256 (Array_Unmarshal SHA256_DIGEST_SIZE)
     else if selector = TPM_ALG_SHA384 then u_map TPMU_HA_sha384 (Array_Unmarshal SHA384_DIGEST_SIZE)
     else if selector = TPM_ALG_NULL then u_return TPMU_HA_unset
     else u_fail TPM_RC_SELECTOR)"

definition TPMT_HA_Unmarshal :: "bool \<Rightarrow> TPMT_HA unmarshal" where
  "TPMT_HA_Unmarshal allowNull =
     u_bind (TPMI_ALG_HASH_Unmarshal allowNull) (\<lambda>hashAlg.
     u_bind (TPMU_HA_Unmarshal (ucast hashAlg)) (\<lambda>digest.
     u_return \<lparr>TPMT_HA_hashAlg = hashAlg, TPMT_HA_digest = digest\<rparr>))"

definition TPM2B_DIGEST_Unmarshal :: "TPM2B_DIGEST unmarshal" where
  "TPM2B_DIGEST_Unmarshal = TPM2B_Unmarshal sizeof_TPMU_HA"

definition TPM2B_DATA_Unmarshal :: "TPM2B_DATA unmarshal" where
  "TPM2B_DATA_Unmarshal = TPM2B_Unmarshal sizeof_TPMT_HA"

definition TPM2B_NONCE_Unmarshal :: "TPM2B_NONCE unmarshal" where
  "TPM2B_NONCE_Unmarshal = TPM2B_DIGEST_Unmarshal"

definition TPM2B_AUTH_Unmarshal :: "TPM2B_AUTH unmarshal" where
  "TPM2B_AUTH_Unmarshal = TPM2B_DIGEST_Unmarshal"

definition TPM2B_OPERAND_Unmarshal :: "TPM2B_OPERAND unmarshal" where
  "TPM2B_OPERAND_Unmarshal = TPM2B_DIGEST_Unmarshal"

definition TPM2B_EVENT_Unmarshal :: "TPM2B_EVENT unmarshal" where
  "TPM2B_EVENT_Unmarshal = TPM2B_Unmarshal (sizeof_EVENT_2B - sizeof_UINT16)"

definition TPM2B_MAX_BUFFER_Unmarshal :: "TPM2B_MAX_BUFFER unmarshal" where
  "TPM2B_MAX_BUFFER_Unmarshal = TPM2B_Unmarshal MAX_DIGEST_BUFFER"

definition TPM2B_MAX_NV_BUFFER_Unmarshal :: "TPM2B_MAX_NV_BUFFER unmarshal" where
  "TPM2B_MAX_NV_BUFFER_Unmarshal = TPM2B_Unmarshal MAX_NV_BUFFER_SIZE"

definition TPM2B_TIMEOUT_Unmarshal :: "TPM2B_TIMEOUT unmarshal" where
  "TPM2B_TIMEOUT_Unmarshal = TPM2B_DIGEST_Unmarshal"

definition TPM2B_IV_Unmarshal :: "TPM2B_IV unmarshal" where
  "TPM2B_IV_Unmarshal = TPM2B_Unmarshal MAX_SYM_BLOCK_SIZE"

definition TPM2B_NAME_Unmarshal :: "TPM2B_NAME unmarshal" where
  "TPM2B_NAME_Unmarshal = TPM2B_Unmarshal sizeof_TPMU_NAME"

definition TPMS_PCR_SELECTION_Unmarshal :: "TPMS_PCR_SELECTION unmarshal" where
  "TPMS_PCR_SELECTION_Unmarshal =
     u_bind (TPMI_ALG_HASH_Unmarshal False) (\<lambda>hash.
     u_bind UINT8_Unmarshal (\<lambda>sizeofSelect.
     u_guard (sizeofSelect < PCR_SELECT_MIN \<or> sizeofSelect > PCR_SELECT_MAX) TPM_RC_VALUE (
     u_bind (Array_Unmarshal (ucast sizeofSelect)) (\<lambda>pcrSelect.
     u_return \<lparr>TPMS_PCR_SELECTION_hash = hash, TPMS_PCR_SELECTION_sizeofSelect = sizeofSelect,
       TPMS_PCR_SELECTION_pcrSelect = pcrSelect\<rparr>))))"

definition TPMT_TK_CREATION_Unmarshal :: "TPMT_TK_CREATION unmarshal" where
  "TPMT_TK_CREATION_Unmarshal =
     u_bind TPM_ST_Unmarshal (\<lambda>tag.
     u_guard (tag \<noteq> TPM_ST_CREATION) TPM_RC_TAG (
     u_bind (TPMI_RH_HIERARCHY_Unmarshal True) (\<lambda>hierarchy.
     u_bind TPM2B_DIGEST_Unmarshal (\<lambda>digest.
     u_return \<lparr>TPMT_TK_CREATION_tag = tag, TPMT_TK_CREATION_hierarchy = hierarchy,
       TPMT_TK_CREATION_digest = digest\<rparr>))))"

definition TPMT_TK_VERIFIED_Unmarshal :: "TPMT_TK_VERIFIED unmarshal" where
  "TPMT_TK_VERIFIED_Unmarshal =
     u_bind TPM_ST_Unmarshal (\<lambda>tag.
     u_guard (tag \<noteq> TPM_ST_VERIFIED) TPM_RC_TAG (
     u_bind (TPMI_RH_HIERARCHY_Unmarshal True) (\<lambda>hierarchy.
     u_bind TPM2B_DIGEST_Unmarshal (\<lambda>digest.
     u_return \<lparr>TPMT_TK_VERIFIED_tag = tag, TPMT_TK_VERIFIED_hierarchy = hierarchy,
       TPMT_TK_VERIFIED_digest = digest\<rparr>))))"

definition TPMT_TK_AUTH_Unmarshal :: "TPMT_TK_AUTH unmarshal" where
  "TPMT_TK_AUTH_Unmarshal =
     u_bind TPM_ST_Unmarshal (\<lambda>tag.
     u_guard (tag \<noteq> TPM_ST_AUTH_SIGNED \<and> tag \<noteq> TPM_ST_AUTH_SECRET) TPM_RC_TAG (
     u_bind (TPMI_RH_HIERARCHY_Unmarshal True) (\<lambda>hierarchy.
     u_bind TPM2B_DIGEST_Unmarshal (\<lambda>digest.
     u_return \<lparr>TPMT_TK_AUTH_tag = tag, TPMT_TK_AUTH_hierarchy = hierarchy,
       TPMT_TK_AUTH_digest = digest\<rparr>))))"

definition TPMT_TK_HASHCHECK_Unmarshal :: "TPMT_TK_HASHCHECK unmarshal" where
  "TPMT_TK_HASHCHECK_Unmarshal =
     u_bind TPM_ST_Unmarshal (\<lambda>tag.
     u_guard (tag \<noteq> TPM_ST_HASHCHECK) TPM_RC_TAG (
     u_bind (TPMI_RH_HIERARCHY_Unmarshal True) (\<lambda>hierarchy.
     u_bind TPM2B_DIGEST_Unmarshal (\<lambda>digest.
     u_return \<lparr>TPMT_TK_HASHCHECK_tag = tag, TPMT_TK_HASHCHECK_hierarchy = hierarchy,
       TPMT_TK_HASHCHECK_digest = digest\<rparr>))))"

definition TPMS_ALG_PROPERTY_Unmarshal :: "TPMS_ALG_PROPERTY unmarshal" where
  "TPMS_ALG_PROPERTY_Unmarshal =
     u_bind TPM_ALG_ID_Unmarshal (\<lambda>alg.
     u_bind TPMA_ALGORITHM_Unmarshal (\<lambda>algProperties.
     u_return \<lparr>TPMS_ALG_PROPERTY_alg = alg,
       TPMS_ALG_PROPERTY_algProperties = algProperties\<rparr>))"

definition TPMS_TAGGED_PROPERTY_Unmarshal :: "TPMS_TAGGED_PROPERTY unmarshal" where
  "TPMS_TAGGED_PROPERTY_Unmarshal =
     u_bind TPM_PT_Unmarshal (\<lambda>property.
     u_bind UINT32_Unmarshal (\<lambda>value.
     u_return \<lparr>TPMS_TAGGED_PROPERTY_property = property,
       TPMS_TAGGED_PROPERTY_value = value\<rparr>))"

definition TPMS_TAGGED_PCR_SELECT_Unmarshal :: "TPMS_TAGGED_PCR_SELECT unmarshal" where
  "TPMS_TAGGED_PCR_SELECT_Unmarshal =
     u_bind TPM_PT_PCR_Unmarshal (\<lambda>tag.
     u_bind UINT8_Unmarshal (\<lambda>sizeofSelect.
     u_bind (Array_Unmarshal (ucast sizeofSelect)) (\<lambda>pcrSelect.
     u_return \<lparr>TPMS_TAGGED_PCR_SELECT_tag = tag, TPMS_TAGGED_PCR_SELECT_sizeofSelect = sizeofSelect,
       TPMS_TAGGED_PCR_SELECT_pcrSelect = pcrSelect\<rparr>)))"

definition TPML_CC_Unmarshal :: "TPML_CC unmarshal" where
  "TPML_CC_Unmarshal =
     u_bind UINT32_Unmarshal (\<lambda>count.
     u_guard (count > MAX_CAP_CC) TPM_RC_SIZE (
     u_bind (u_list (unat count) TPM_CC_Unmarshal) (\<lambda>commandCodes.
     u_return \<lparr>TPML_CC_count = count, TPML_CC_commandCodes = commandCodes\<rparr>)))"

definition TPML_CCA_Unmarshal :: "TPML_CCA unmarshal" where
  "TPML_CCA_Unmarshal =
     u_bind UINT32_Unmarshal (\<lambda>count.
     u_guard (count > MAX_CAP_CC) TPM_RC_SIZE (
     u_bind (u_list (unat count) TPMA_CC_Unmarshal) (\<lambda>commandAttributes.
     u_return \<lparr>TPML_CCA_count = count, TPML_CCA_commandAttributes = commandAttributes\<rparr>)))"

definition TPML_ALG_Unmarshal :: "TPML_ALG unmarshal" where
  "TPML_ALG_Unmarshal =
     u_bind UINT32_Unmarshal (\<lambda>count.
     u_guard (count > MAX_ALG_LIST_SIZE) TPM_RC_SIZE (
     u_bind (u_list (unat count) TPM_ALG_ID_Unmarshal) (\<lambda>algorithms.
     u_return \<lparr>TPML_ALG_count = count, TPML_ALG_algorithms = algorithms\<rparr>)))"

definition TPML_HANDLE_Unmarshal :: "TPML_HANDLE unmarshal" where
  "TPML_HANDLE_Unmarshal =
     u_bind UINT32_Unmarshal (\<lambda>count.
     u_guard (count > MAX_CAP_HANDLES) TPM_RC_SIZE (
     u_bind (u_list (unat count) TPM_HANDLE_Unmarshal) (\<lambda>handle.
     u_return \<lparr>TPML_HANDLE_count = count, TPML_HANDLE_handle = handle\<rparr>)))"

definition TPML_DIGEST_Unmarshal :: "UINT32 \<Rightarrow> TPML_DIGEST unmarshal" where
  "TPML_DIGEST_Unmarshal minCount =
     u_bind UINT32_Unmarshal (\<lambda>count.
     u_guard (count < minCount) TPM_RC_SIZE (
     u_guard (count > 8) TPM_RC_SIZE (
     u_bind (u_list (unat count) TPM2B_DIGEST_Unmarshal) (\<lambda>digests.
     u_return \<lparr>TPML_DIGEST_count = count, TPML_DIGEST_digests = digests\<rparr>))))"

definition TPML_DIGEST_VALUES_Unmarshal :: "TPML_DIGEST_VALUES unmarshal" where
  "TPML_DIGEST_VALUES_Unmarshal =
     u_bind UINT32_Unmarshal (\<lambda>count.
     u_guard (count > HASH_COUNT) TPM_RC_SIZE (
     u_bind (u_list (unat count) (TPMT_HA_Unmarshal False)) (\<lambda>digests.
     u_return \<lparr>TPML_DIGEST_VALUES_count = count, TPML_DIGEST_VALUES_digests = digests\<rparr>)))"

definition TPML_PCR_SELECTION_Unmarshal :: "TPML_PCR_SELECTION unmarshal" where
  "TPML_PCR_SELECTION_Unmarshal =
     u_bind UINT32_Unmarshal (\<lambda>count.
     u_guard (count > HASH_COUNT) TPM_RC_SIZE (
     u_bind (u_list (unat count) TPMS_PCR_SELECTION_Unmarshal) (\<lambda>pcrSelections.
     u_return \<lparr>TPML_PCR_SELECTION_count = count,
       TPML_PCR_SELECTION_pcrSelections = pcrSelections\<rparr>)))"

definition TPML_ALG_PROPERTY_Unmarshal :: "TPML_ALG_PROPERTY unmarshal" where
  "TPML_ALG_PROPERTY_Unmarshal =
     u_bind UINT32_Unmarshal (\<lambda>count.
     u_guard (count > MAX_CAP_ALGS) TPM_RC_SIZE (
     u_bind (u_list (unat count) TPMS_ALG_PROPERTY_Unmarshal) (\<lambda>algProperties.
     u_return \<lparr>TPML_ALG_PROPERTY_count = count,
       TPML_ALG_PROPERTY_algProperties = algProperties\<rparr>)))"

definition TPML_TAGGED_TPM_PROPERTY_Unmarshal :: "TPML_TAGGED_TPM_PROPERTY unmarshal" where
  "TPML_TAGGED_TPM_PROPERTY_Unmarshal =
     u_bind UINT32_Unmarshal (\<lambda>count.
     u_guard (count > MAX_TPM_PROPERTIES) TPM_RC_SIZE (
     u_bind (u_list (unat count) TPMS_TAGGED_PROPERTY_Unmarshal) (\<lambda>tpmProperty.
     u_return \<lparr>TPML_TAGGED_TPM_PROPERTY_count = count,
       TPML_TAGGED_TPM_PROPERTY_tpmProperty = tpmProperty\<rparr>)))"

definition TPML_TAGGED_PCR_PROPERTY_Unmarshal :: "TPML_TAGGED_PCR_PROPERTY unmarshal" where
  "TPML_TAGGED_PCR_PROPERTY_Unmarshal =
     u_bind UINT32_Unmarshal (\<lambda>count.
     u_guard (count > MAX_PCR_PROPERTIES) TPM_RC_SIZE (
     u_bind (u_list (unat count) TPMS_TAGGED_PCR_SELECT_Unmarshal) (\<lambda>pcrProperty.
     u_return \<lparr>TPML_TAGGED_PCR_PROPERTY_count = count,
       TPML_TAGGED_PCR_PROPERTY_pcrProperty = pcrProperty\<rparr>)))"

definition TPML_ECC_CURVE_Unmarshal :: "TPML_ECC_CURVE unmarshal" where
  "TPML_ECC_CURVE_Unmarshal =
     u_bind UINT32_Unmarshal (\<lambda>count.
     u_guard (count > MAX_ECC_CURVES) TPM_RC_SIZE (
     u_bind (u_list (unat count) TPM_ECC_CURVE_Unmarshal) (\<lambda>eccCurves.
     u_return \<lparr>TPML_ECC_CURVE_count = count, TPML_ECC_CURVE_eccCurves = eccCurves\<rparr>)))"

section \<open>Capabilities and attestation\<close>

definition TPMU_CAPABILITIES_Unmarshal :: "UINT32 \<Rightarrow> TPMU_CAPABILITIES unmarshal" where
  "TPMU_CAPABILITIES_Unmarshal selector =
    (if selector = TPM_CAP_ALGS then u_map TPMU_CAPABILITIES_algorithms TPML_ALG_PROPERTY_Unmarshal
     else if selector = TPM_CAP_HANDLES then u_map TPMU_CAPABILITIES_handles TPML_HANDLE_Unmarshal
     else if selector = TPM_CAP_COMMANDS then u_map TPMU_CAPABILITIES_command TPML_CCA_Unmarshal
     else if selector = TPM_CAP_PP_COMMANDS then u_map TPMU_CAPABILITIES_ppCommands TPML_CC_Unmarshal
     else if selector = TPM_CAP_AUDIT_COMMANDS then u_map TPMU_CAPABILITIES_auditCommands TPML_CC_Unmarshal
     else if selector = TPM_CAP_PCRS then u_map TPMU_CAPABILITIES_assignedPCR TPML_PCR_SELECTION_Unmarshal
     else if selector = TPM_CAP_TPM_PROPERTIES then u_map TPMU_CAPABILITIES_tpmProperties TPML_TAGGED_TPM_PROPERTY_Unmarshal
     else if selector = TPM_CAP_PCR_PROPERTIES then u_map TPMU_CAPABILITIES_pcrProperties TPML_TAGGED_PCR_PROPERTY_Unmarshal
     else if selector = TPM_CAP_ECC_CURVES then u_map TPMU_CAPABILITIES_eccCurves TPML_ECC_CURVE_Unmarshal
     else u_fail TPM_RC_SELECTOR)"

definition TPMS_CAPABILITY_DATA_Unmarshal :: "TPMS_CAPABILITY_DATA unmarshal" where
  "TPMS_CAPABILITY_DATA_Unmarshal =
     u_bind TPM_CAP_Unmarshal (\<lambda>capability.
     u_bind (TPMU_CAPABILITIES_Unmarshal capability) (\<lambda>data.
     u_return \<lparr>TPMS_CAPABILITY_DATA_capability = capability,
       TPMS_CAPABILITY_DATA_data = data\<rparr>))"

definition TPMS_CLOCK_INFO_Unmarshal :: "TPMS_CLOCK_INFO unmarshal" where
  "TPMS_CLOCK_INFO_Unmarshal =
     u_bind UINT64_Unmarshal (\<lambda>clock.
     u_bind UINT32_Unmarshal (\<lambda>resetCount.
     u_bind UINT32_Unmarshal (\<lambda>restartCount.
     u_bind TPMI_YES_NO_Unmarshal (\<lambda>safe.
     u_return \<lparr>TPMS_CLOCK_INFO_clock = clock, TPMS_CLOCK_INFO_resetCount = resetCount,
       TPMS_CLOCK_INFO_restartCount = restartCount, TPMS_CLOCK_INFO_safe = safe\<rparr>))))"

definition TPMS_TIME_INFO_Unmarshal :: "TPMS_TIME_INFO unmarshal" where
  "TPMS_TIME_INFO_Unmarshal =
     u_bind UINT64_Unmarshal (\<lambda>time.
     u_bind TPMS_CLOCK_INFO_Unmarshal (\<lambda>clockInfo.
     u_return \<lparr>TPMS_TIME_INFO_time = time, TPMS_TIME_INFO_clockInfo = clockInfo\<rparr>))"

definition TPMS_TIME_ATTEST_INFO_Unmarshal :: "TPMS_TIME_ATTEST_INFO unmarshal" where
  "TPMS_TIME_ATTEST_INFO_Unmarshal =
     u_bind TPMS_TIME_INFO_Unmarshal (\<lambda>time.
     u_bind UINT64_Unmarshal (\<lambda>firmwareVersion.
     u_return \<lparr>TPMS_TIME_ATTEST_INFO_time = time,
       TPMS_TIME_ATTEST_INFO_firmwareVersion = firmwareVersion\<rparr>))"

definition TPMS_CERTIFY_INFO_Unmarshal :: "TPMS_CERTIFY_INFO unmarshal" where
  "TPMS_CERTIFY_INFO_Unmarshal =
     u_bind TPM2B_NAME_Unmarshal (\<lambda>name.
     u_bind TPM2B_NAME_Unmarshal (\<lambda>qualifiedName.
     u_return \<lparr>TPMS_CERTIFY_INFO_name = name,
       TPMS_CERTIFY_INFO_qualifiedName = qualifiedName\<rparr>))"

definition TPMS_QUOTE_INFO_Unmarshal :: "TPMS_QUOTE_INFO unmarshal" where
  "TPMS_QUOTE_INFO_Unmarshal =
     u_bind TPML_PCR_SELECTION_Unmarshal (\<lambda>pcrSelect.
     u_bind TPM2B_DIGEST_Unmarshal (\<lambda>pcrDigest.
     u_return \<lparr>TPMS_QUOTE_INFO_pcrSelect = pcrSelect,
       TPMS_QUOTE_INFO_pcrDigest = pcrDigest\<rparr>))"

definition TPMS_COMMAND_AUDIT_INFO_Unmarshal :: "TPMS_COMMAND_AUDIT_INFO unmarshal" where
  "TPMS_COMMAND_AUDIT_INFO_Unmarshal =
     u_bind UINT64_Unmarshal (\<lambda>auditCounter.
     u_bind TPM_ALG_ID_Unmarshal (\<lambda>digestAlg.
     u_bind TPM2B_DIGEST_Unmarshal (\<lambda>auditDigest.
     u_bind TPM2B_DIGEST_Unmarshal (\<lambda>commandDigest.
     u_return \<lparr>TPMS_COMMAND_AUDIT_INFO_auditCounter = auditCounter,
       TPMS_COMMAND_AUDIT_INFO_digestAlg = digestAlg, TPMS_COMMAND_AUDIT_INFO_auditDigest = auditDigest,
       TPMS_COMMAND_AUDIT_INFO_commandDigest = commandDigest\<rparr>))))"

definition TPMS_SESSION_AUDIT_INFO_Unmarshal :: "TPMS_SESSION_AUDIT_INFO unmarshal" where
  "TPMS_SESSION_AUDIT_INFO_Unmarshal =
     u_bind TPMI_YES_NO_Unmarshal (\<lambda>exclusiveSession.
     u_bind TPM2B_DIGEST_Unmarshal (\<lambda>sessionDigest.
     u_return \<lparr>TPMS_SESSION_AUDIT_INFO_exclusiveSession = exclusiveSession,
       TPMS_SESSION_AUDIT_INFO_sessionDigest = sessionDigest\<rparr>))"

definition TPMS_CREATION_INFO_Unmarshal :: "TPMS_CREATION_INFO unmarshal" where
  "TPMS_CREATION_INFO_Unmarshal =
     u_bind TPM2B_NAME_Unmarshal (\<lambda>objectName.
     u_bind TPM2B_DIGEST_Unmarshal (\<lambda>creationHash.
     u_return \<lparr>TPMS_CREATION_INFO_objectName = objectName,
       TPMS_CREATION_INFO_creationHash = creationHash\<rparr>))"

definition TPMS_NV_CERTIFY_INFO_Unmarshal :: "TPMS_NV_CERTIFY_INFO unmarshal" where
  "TPMS_NV_CERTIFY_INFO_Unmarshal =
     u_bind TPM2B_NAME_Unmarshal (\<lambda>indexName.
     u_bind UINT16_Unmarshal (\<lambda>offset.
     u_bind TPM2B_MAX_NV_BUFFER_Unmarshal (\<lambda>nvContents.
     u_return \<lparr>TPMS_NV_CERTIFY_INFO_indexName = indexName, TPMS_NV_CERTIFY_INFO_offset = offset,
       TPMS_NV_CERTIFY_INFO_nvContents = nvContents\<rparr>)))"

definition TPMI_ST_ATTEST_Unmarshal :: "TPMI_ST_ATTEST unmarshal" where
  "TPMI_ST_ATTEST_Unmarshal =
     u_bind TPM_ST_Unmarshal (\<lambda>target.
     u_guard (target \<notin> {TPM_ST_ATTEST_CERTIFY, TPM_ST_ATTEST_CREATION, TPM_ST_ATTEST_QUOTE,
       TPM_ST_ATTEST_COMMAND_AUDIT, TPM_ST_ATTEST_SESSION_AUDIT, TPM_ST_ATTEST_TIME,
       TPM_ST_ATTEST_NV}) TPM_RC_SELECTOR (
     u_return target))"

definition TPMU_ATTEST_Unmarshal :: "UINT32 \<Rightarrow> TPMU_ATTEST unmarshal" where
  "TPMU_ATTEST_Unmarshal selector =
    (if selector = TPM_ST_ATTEST_CERTIFY then u_map TPMU_ATTEST_certify TPMS_CERTIFY_INFO_Unmarshal
     else if selector = TPM_ST_ATTEST_CREATION then u_map TPMU_ATTEST_creation TPMS_CREATION_INFO_Unmarshal
     else if selector = TPM_ST_ATTEST_QUOTE then u_map TPMU_ATTEST_quote TPMS_QUOTE_INFO_Unmarshal
     else if selector = TPM_ST_ATTEST_COMMAND_AUDIT then u_map TPMU_ATTEST_commandAudit TPMS_COMMAND_AUDIT_INFO_Unmarshal
     else if selector = TPM_ST_ATTEST_SESSION_AUDIT then u_map TPMU_ATTEST_sessionAudit TPMS_SESSION_AUDIT_INFO_Unmarshal
     else if selector = TPM_ST_ATTEST_TIME then u_map TPMU_ATTEST_time TPMS_TIME_ATTEST_INFO_Unmarshal
     else if selector = TPM_ST_ATTEST_NV then u_map TPMU_ATTEST_nv TPMS_NV_CERTIFY_INFO_Unmarshal
     else u_fail TPM_RC_SELECTOR)"

definition TPMS_ATTEST_Unmarshal :: "TPMS_ATTEST unmarshal" where
  "TPMS_ATTEST_Unmarshal =
     u_bind TPM_GENERATED_Unmarshal (\<lambda>magic.
     u_bind TPMI_ST_ATTEST_Unmarshal (\<lambda>type.
     u_bind TPM2B_NAME_Unmarshal (\<lambda>qualifiedSigner.
     u_bind TPM2B_DATA_Unmarshal (\<lambda>extraData.
     u_bind TPMS_CLOCK_INFO_Unmarshal (\<lambda>clockInfo.
     u_bind UINT64_Unmarshal (\<lambda>firmwareVersion.
     u_bind (TPMU_ATTEST_Unmarshal (ucast type)) (\<lambda>attested.
     u_return \<lparr>TPMS_ATTEST_magic = magic, TPMS_ATTEST_type = type,
       TPMS_ATTEST_qualifiedSigner = qualifiedSigner, TPMS_ATTEST_extraData = extraData,
       TPMS_ATTEST_clockInfo = clockInfo, TPMS_ATTEST_firmwareVersion = firmwareVersion,
       TPMS_ATTEST_attested = attested\<rparr>)))))))"

definition TPM2B_ATTEST_Unmarshal :: "TPM2B_ATTEST unmarshal" where
  "TPM2B_ATTEST_Unmarshal = TPM2B_Unmarshal sizeof_TPMS_ATTEST"

definition TPMS_AUTH_RESPONSE_Unmarshal :: "TPMS_AUTH_RESPONSE unmarshal" where
  "TPMS_AUTH_RESPONSE_Unmarshal =
     u_bind TPM2B_NONCE_Unmarshal (\<lambda>nonce.
     u_bind TPMA_SESSION_Unmarshal (\<lambda>sessionAttributes.
     u_bind TPM2B_AUTH_Unmarshal (\<lambda>hmac.
     u_return \<lparr>TPMS_AUTH_RESPONSE_nonce = nonce,
       TPMS_AUTH_RESPONSE_sessionAttributes = sessionAttributes, TPMS_AUTH_RESPONSE_hmac = hmac\<rparr>)))"

section \<open>Algorithm parameters and schemes\<close>

definition TPMI_AES_KEY_BITS_Unmarshal :: "TPMI_AES_KEY_BITS unmarshal" where
  "TPMI_AES_KEY_BITS_Unmarshal =
     u_bind TPM_KEY_BITS_Unmarshal (\<lambda>target.
     u_guard (target \<notin> {128, 256}) TPM_RC_VALUE (
     u_return target))"

definition TPMU_SYM_KEY_BITS_Unmarshal :: "UINT32 \<Rightarrow> TPMU_SYM_KEY_BITS unmarshal" where
  "TPMU_SYM_KEY_BITS_Unmarshal selector =
    (if selector = TPM_ALG_AES then u_map TPMU_SYM_KEY_BITS_aes TPMI_AES_KEY_BITS_Unmarshal
     else if selector = TPM_ALG_XOR then u_map TPMU_SYM_KEY_BITS_xorr (TPMI_ALG_HASH_Unmarshal False)
     else if selector = TPM_ALG_NULL then u_return TPMU_SYM_KEY_BITS_unset
     else u_fail TPM_RC_SELECTOR)"

definition TPMU_SYM_MODE_Unmarshal :: "UINT32 \<Rightarrow> TPMU_SYM_MODE unmarshal" where
  "TPMU_SYM_MODE_Unmarshal selector =
    (if selector = TPM_ALG_AES then u_map TPMU_SYM_MODE_aes (TPMI_ALG_SYM_MODE_Unmarshal True)
     else if selector = TPM_ALG_XOR \<or> selector = TPM_ALG_NULL then u_return TPMU_SYM_MODE_unset
     else u_fail TPM_RC_SELECTOR)"

definition TPMT_SYM_DEF_Unmarshal :: "bool \<Rightarrow> TPMT_SYM_DEF unmarshal" where
  "TPMT_SYM_DEF_Unmarshal allowNull =
     u_bind (TPMI_ALG_SYM_Unmarshal allowNull) (\<lambda>algorithm.
     u_bind (TPMU_SYM_KEY_BITS_Unmarshal (ucast algorithm)) (\<lambda>keyBits.
     u_bind (TPMU_SYM_MODE_Unmarshal (ucast algorithm)) (\<lambda>mode.
     u_return \<lparr>TPMT_SYM_DEF_algorithm = algorithm, TPMT_SYM_DEF_keyBits = keyBits,
       TPMT_SYM_DEF_mode = mode\<rparr>)))"

definition TPMT_SYM_DEF_OBJECT_Unmarshal :: "bool \<Rightarrow> TPMT_SYM_DEF_OBJECT unmarshal" where
  "TPMT_SYM_DEF_OBJECT_Unmarshal allowNull =
     u_bind (TPMI_ALG_SYM_OBJECT_Unmarshal allowNull) (\<lambda>algorithm.
     u_bind (TPMU_SYM_KEY_BITS_Unmarshal (ucast algorithm)) (\<lambda>keyBits.
     u_bind (TPMU_SYM_MODE_Unmarshal (ucast algorithm)) (\<lambda>mode.
     u_return \<lparr>TPMT_SYM_DEF_OBJECT_algorithm = algorithm, TPMT_SYM_DEF_OBJECT_keyBits = keyBits,
       TPMT_SYM_DEF_OBJECT_mode = mode\<rparr>)))"

definition TPM2B_SYM_KEY_Unmarshal :: "TPM2B_SYM_KEY unmarshal" where
  "TPM2B_SYM_KEY_Unmarshal = TPM2B_Unmarshal MAX_SYM_KEY_BYTES"

definition TPMS_SYMCIPHER_PARMS_Unmarshal :: "TPMS_SYMCIPHER_PARMS unmarshal" where
  "TPMS_SYMCIPHER_PARMS_Unmarshal =
     u_bind (TPMT_SYM_DEF_OBJECT_Unmarshal False) (\<lambda>sym.
     u_return \<lparr>TPMS_SYMCIPHER_PARMS_sym = sym\<rparr>)"

definition TPM2B_SENSITIVE_DATA_Unmarshal :: "TPM2B_SENSITIVE_DATA unmarshal" where
  "TPM2B_SENSITIVE_DATA_Unmarshal = TPM2B_Unmarshal MAX_SYM_DATA"

definition TPMS_SENSITIVE_CREATE_Unmarshal :: "TPMS_SENSITIVE_CREATE unmarshal" where
  "TPMS_SENSITIVE_CREATE_Unmarshal =
     u_bind TPM2B_AUTH_Unmarshal (\<lambda>userAuth.
     u_bind TPM2B_SENSITIVE_DATA_Unmarshal (\<lambda>data.
     u_return \<lparr>TPMS_SENSITIVE_CREATE_userAuth = userAuth,
       TPMS_SENSITIVE_CREATE_data = data\<rparr>))"

definition TPM2B_SENSITIVE_CREATE_Unmarshal :: "TPM2B_SENSITIVE_CREATE unmarshal" where
  "TPM2B_SENSITIVE_CREATE_Unmarshal =
     u_bind UINT16_Unmarshal (\<lambda>size.
     u_guard (size = 0) TPM_RC_SIZE (
     u_bind (u_exactly size TPMS_SENSITIVE_CREATE_Unmarshal) (\<lambda>sensitive.
     u_return \<lparr>TPM2B_SENSITIVE_CREATE_size = size,
       TPM2B_SENSITIVE_CREATE_sensitive = sensitive\<rparr>)))"

definition TPMS_SCHEME_HASH_Unmarshal :: "TPMS_SCHEME_HASH unmarshal" where
  "TPMS_SCHEME_HASH_Unmarshal =
     u_bind (TPMI_ALG_HASH_Unmarshal False) (\<lambda>hashAlg.
     u_return \<lparr>TPMS_SCHEME_HASH_hashAlg = hashAlg\<rparr>)"

definition TPMS_SCHEME_ECDAA_Unmarshal :: "TPMS_SCHEME_ECDAA unmarshal" where
  "TPMS_SCHEME_ECDAA_Unmarshal =
     u_bind (TPMI_ALG_HASH_Unmarshal False) (\<lambda>hashAlg.
     u_bind UINT16_Unmarshal (\<lambda>count.
     u_return \<lparr>TPMS_SCHEME_ECDAA_hashAlg = hashAlg, TPMS_SCHEME_ECDAA_count = count\<rparr>))"

definition TPMI_ALG_KEYEDHASH_SCHEME_Unmarshal :: "bool \<Rightarrow> TPMI_ALG_KEYEDHASH_SCHEME unmarshal" where
  "TPMI_ALG_KEYEDHASH_SCHEME_Unmarshal allowNull =
     u_bind TPM_ALG_ID_Unmarshal (\<lambda>target.
     u_guard (target \<notin> {TPM_ALG_HMAC, TPM_ALG_XOR} \<and> \<not> (target = TPM_ALG_NULL
       \<and> allowNull)) TPM_RC_VALUE (
     u_return target))"

definition TPMS_SCHEME_HMAC_Unmarshal :: "TPMS_SCHEME_HMAC unmarshal" where
  "TPMS_SCHEME_HMAC_Unmarshal = TPMS_SCHEME_HASH_Unmarshal"

definition TPMS_SCHEME_XOR_Unmarshal :: "TPMS_SCHEME_XOR unmarshal" where
  "TPMS_SCHEME_XOR_Unmarshal =
     u_bind (TPMI_ALG_HASH_Unmarshal True) (\<lambda>hashAlg.
     u_bind (TPMI_ALG_KDF_Unmarshal True) (\<lambda>kdf.
     u_return \<lparr>TPMS_SCHEME_XOR_hashAlg = hashAlg, TPMS_SCHEME_XOR_kdf = kdf\<rparr>))"

definition TPMU_SCHEME_KEYEDHASH_Unmarshal :: "UINT32 \<Rightarrow> TPMU_SCHEME_KEYEDHASH unmarshal" where
  "TPMU_SCHEME_KEYEDHASH_Unmarshal selector =
    (if selector = TPM_ALG_HMAC then u_map TPMU_SCHEME_KEYEDHASH_hmac TPMS_SCHEME_HMAC_Unmarshal
     else if selector = TPM_ALG_XOR then u_map TPMU_SCHEME_KEYEDHASH_xorr TPMS_SCHEME_XOR_Unmarshal
     else if selector = TPM_ALG_NULL then u_return TPMU_SCHEME_KEYEDHASH_unset
     else u_fail TPM_RC_SELECTOR)"

definition TPMT_KEYEDHASH_SCHEME_Unmarshal :: "bool \<Rightarrow> TPMT_KEYEDHASH_SCHEME unmarshal" where
  "TPMT_KEYEDHASH_SCHEME_Unmarshal allowNull =
     u_bind (TPMI_ALG_KEYEDHASH_SCHEME_Unmarshal allowNull) (\<lambda>scheme.
     u_bind (TPMU_SCHEME_KEYEDHASH_Unmarshal (ucast scheme)) (\<lambda>details.
     u_return \<lparr>TPMT_KEYEDHASH_SCHEME_scheme = scheme,
       TPMT_KEYEDHASH_SCHEME_details = details\<rparr>))"

definition TPMS_SIG_SCHEME_RSAPSS_Unmarshal :: "TPMS_SIG_SCHEME_RSAPSS unmarshal" where
  "TPMS_SIG_SCHEME_RSAPSS_Unmarshal = TPMS_SCHEME_HASH_Unmarshal"

definition TPMS_SIG_SCHEME_RSASSA_Unmarshal :: "TPMS_SIG_SCHEME_RSASSA unmarshal" where
  "TPMS_SIG_SCHEME_RSASSA_Unmarshal = TPMS_SCHEME_HASH_Unmarshal"

definition TPMS_SIG_SCHEME_ECDAA_Unmarshal :: "TPMS_SIG_SCHEME_ECDAA unmarshal" where
  "TPMS_SIG_SCHEME_ECDAA_Unmarshal = TPMS_SCHEME_ECDAA_Unmarshal"

definition TPMS_SIG_SCHEME_ECDSA_Unmarshal :: "TPMS_SIG_SCHEME_ECDSA unmarshal" where
  "TPMS_SIG_SCHEME_ECDSA_Unmarshal = TPMS_SCHEME_HASH_Unmarshal"

definition TPMS_SIG_SCHEME_ECSCHNORR_Unmarshal :: "TPMS_SIG_SCHEME_ECSCHNORR unmarshal" where
  "TPMS_SIG_SCHEME_ECSCHNORR_Unmarshal = TPMS_SCHEME_HASH_Unmarshal"

definition TPMS_SIG_SCHEME_SM2_Unmarshal :: "TPMS_SIG_SCHEME_SM2 unmarshal" where
  "TPMS_SIG_SCHEME_SM2_Unmarshal = TPMS_SCHEME_HASH_Unmarshal"

definition TPMU_SIG_SCHEME_Unmarshal :: "UINT32 \<Rightarrow> TPMU_SIG_SCHEME unmarshal" where
  "TPMU_SIG_SCHEME_Unmarshal selector =
    (if selector = TPM_ALG_RSASSA then u_map TPMU_SIG_SCHEME_rsassa TPMS_SIG_SCHEME_RSASSA_Unmarshal
     else if selector = TPM_ALG_RSAPSS then u_map TPMU_SIG_SCHEME_rsapss TPMS_SIG_SCHEME_RSAPSS_Unmarshal
     else if selector = TPM_ALG_ECDSA then u_map TPMU_SIG_SCHEME_ecdsa TPMS_SIG_SCHEME_ECDSA_Unmarshal
     else if selector = TPM_ALG_ECDAA then u_map TPMU_SIG_SCHEME_ecdaa TPMS_SIG_SCHEME_ECDAA_Unmarshal
     else if selector = TPM_ALG_SM2 then u_map TPMU_SIG_SCHEME_sm2 TPMS_SIG_SCHEME_SM2_Unmarshal
     else if selector = TPM_ALG_ECSCHNORR then u_map TPMU_SIG_SCHEME_ecSchnorr TPMS_SIG_SCHEME_ECSCHNORR_Unmarshal
     else if selector = TPM_ALG_HMAC then u_map TPMU_SIG_SCHEME_hmac TPMS_SCHEME_HMAC_Unmarshal
     else if selector = TPM_ALG_NULL then u_return TPMU_SIG_SCHEME_unset
     else u_fail TPM_RC_SELECTOR)"

definition TPMT_SIG_SCHEME_Unmarshal :: "bool \<Rightarrow> TPMT_SIG_SCHEME unmarshal" where
  "TPMT_SIG_SCHEME_Unmarshal allowNull =
     u_bind (TPMI_ALG_SIG_SCHEME_Unmarshal allowNull) (\<lambda>scheme.
     u_bind (TPMU_SIG_SCHEME_Unmarshal (ucast scheme)) (\<lambda>details.
     u_return \<lparr>TPMT_SIG_SCHEME_scheme = scheme, TPMT_SIG_SCHEME_details = details\<rparr>))"

definition TPMS_ENC_SCHEME_OAEP_Unmarshal :: "TPMS_ENC_SCHEME_OAEP unmarshal" where
  "TPMS_ENC_SCHEME_OAEP_Unmarshal = TPMS_SCHEME_HASH_Unmarshal"

definition TPMS_ENC_SCHEME_RSAES_Unmarshal :: "TPMS_ENC_SCHEME_RSAES unmarshal" where
  "TPMS_ENC_SCHEME_RSAES_Unmarshal = TPMS_EMPTY_Unmarshal"

definition TPMS_KEY_SCHEME_ECDH_Unmarshal :: "TPMS_KEY_SCHEME_ECDH unmarshal" where
  "TPMS_KEY_SCHEME_ECDH_Unmarshal = TPMS_SCHEME_HASH_Unmarshal"

definition TPMS_KEY_SCHEME_ECMQV_Unmarshal :: "TPMS_KEY_SCHEME_ECMQV unmarshal" where
  "TPMS_KEY_SCHEME_ECMQV_Unmarshal = TPMS_SCHEME_HASH_Unmarshal"

definition TPMS_SCHEME_KDF1_SP800_108_Unmarshal :: "TPMS_SCHEME_KDF1_SP800_108 unmarshal" where
  "TPMS_SCHEME_KDF1_SP800_108_Unmarshal = TPMS_SCHEME_HASH_Unmarshal"

definition TPMS_SCHEME_KDF1_SP800_56A_Unmarshal :: "TPMS_SCHEME_KDF1_SP800_56A unmarshal" where
  "TPMS_SCHEME_KDF1_SP800_56A_Unmarshal = TPMS_SCHEME_HASH_Unmarshal"

definition TPMS_SCHEME_KDF2_Unmarshal :: "TPMS_SCHEME_KDF2 unmarshal" where
  "TPMS_SCHEME_KDF2_Unmarshal = TPMS_SCHEME_HASH_Unmarshal"

definition TPMS_SCHEME_MGF1_Unmarshal :: "TPMS_SCHEME_MGF1 unmarshal" where
  "TPMS_SCHEME_MGF1_Unmarshal = TPMS_SCHEME_HASH_Unmarshal"

definition TPMU_KDF_SCHEME_Unmarshal :: "UINT32 \<Rightarrow> TPMU_KDF_SCHEME unmarshal" where
  "TPMU_KDF_SCHEME_Unmarshal selector =
    (if selector = TPM_ALG_MGF1 then u_map TPMU_KDF_SCHEME_mgf1 TPMS_SCHEME_MGF1_Unmarshal
     else if selector = TPM_ALG_KDF1_SP800_56A then u_map TPMU_KDF_SCHEME_kdf1_SP800_56a TPMS_SCHEME_KDF1_SP800_56A_Unmarshal
     else if selector = TPM_ALG_KDF1_SP800_108 then u_map TPMU_KDF_SCHEME_kdf1_sp800_108 TPMS_SCHEME_KDF1_SP800_108_Unmarshal
     else if selector = TPM_ALG_NULL then u_return TPMU_KDF_SCHEME_unset
     else u_fail TPM_RC_SELECTOR)"

definition TPMT_KDF_SCHEME_Unmarshal :: "bool \<Rightarrow> TPMT_KDF_SCHEME unmarshal" where
  "TPMT_KDF_SCHEME_Unmarshal allowNull =
     u_bind (TPMI_ALG_KDF_Unmarshal allowNull) (\<lambda>scheme.
     u_bind (TPMU_KDF_SCHEME_Unmarshal (ucast scheme)) (\<lambda>details.
     u_return \<lparr>TPMT_KDF_SCHEME_scheme = scheme, TPMT_KDF_SCHEME_details = details\<rparr>))"

definition TPMU_ASYM_SCHEME_Unmarshal :: "UINT32 \<Rightarrow> TPMU_ASYM_SCHEME unmarshal" where
  "TPMU_ASYM_SCHEME_Unmarshal selector =
    (if selector = TPM_ALG_ECDH then u_map TPMU_ASYM_SCHEME_ecdh TPMS_KEY_SCHEME_ECDH_Unmarshal
     else if selector = TPM_ALG_RSASSA then u_map TPMU_ASYM_SCHEME_rsassa TPMS_SIG_SCHEME_RSASSA_Unmarshal
     else if selector = TPM_ALG_RSAPSS then u_map TPMU_ASYM_SCHEME_rsapss TPMS_SIG_SCHEME_RSAPSS_Unmarshal
     else if selector = TPM_ALG_ECDSA then u_map TPMU_ASYM_SCHEME_ecdsa TPMS_SIG_SCHEME_ECDSA_Unmarshal
     else if selector = TPM_ALG_ECDAA then u_map TPMU_ASYM_SCHEME_ecdaa TPMS_SIG_SCHEME_ECDAA_Unmarshal
     else if selector = TPM_ALG_SM2 then u_map TPMU_ASYM_SCHEME_sm2 TPMS_SIG_SCHEME_SM2_Unmarshal
     else if selector = TPM_ALG_ECSCHNORR then u_map TPMU_ASYM_SCHEME_ecSchnorr TPMS_SIG_SCHEME_ECSCHNORR_Unmarshal
     else if selector = TPM_ALG_RSAES then u_map TPMU_ASYM_SCHEME_rsaes TPMS_ENC_SCHEME_RSAES_Unmarshal
     else if selector = TPM_ALG_OAEP then u_map TPMU_ASYM_SCHEME_oaep TPMS_ENC_SCHEME_OAEP_Unmarshal
     else if selector = TPM_ALG_NULL then u_return TPMU_ASYM_SCHEME_unset
     else u_fail TPM_RC_SELECTOR)"

definition TPMI_ALG_RSA_SCHEME_Unmarshal :: "bool \<Rightarrow> TPMI_ALG_RSA_SCHEME unmarshal" where
  "TPMI_ALG_RSA_SCHEME_Unmarshal allowNull =
     u_bind TPM_ALG_ID_Unmarshal (\<lambda>target.
     u_guard (target \<notin> {TPM_ALG_RSASSA, TPM_ALG_RSAPSS, TPM_ALG_RSAES, TPM_ALG_OAEP}
       \<and> \<not> (target = TPM_ALG_NULL \<and> allowNull)) TPM_RC_VALUE (
     u_return target))"

definition TPMT_RSA_SCHEME_Unmarshal :: "bool \<Rightarrow> TPMT_RSA_SCHEME unmarshal" where
  "TPMT_RSA_SCHEME_Unmarshal allowNull =
     u_bind (TPMI_ALG_RSA_SCHEME_Unmarshal allowNull) (\<lambda>scheme.
     u_bind (TPMU_ASYM_SCHEME_Unmarshal (ucast scheme)) (\<lambda>details.
     u_return \<lparr>TPMT_RSA_SCHEME_scheme = scheme, TPMT_RSA_SCHEME_details = details\<rparr>))"

definition TPMI_ALG_RSA_DECRYPT_Unmarshal :: "bool \<Rightarrow> TPMI_ALG_RSA_DECRYPT unmarshal" where
  "TPMI_ALG_RSA_DECRYPT_Unmarshal allowNull =
     u_bind TPM_ALG_ID_Unmarshal (\<lambda>target.
     u_guard (target \<notin> {TPM_ALG_RSAES, TPM_ALG_OAEP} \<and> \<not> (target = TPM_ALG_NULL
       \<and> allowNull)) TPM_RC_VALUE (
     u_return target))"

definition TPMT_RSA_DECRYPT_Unmarshal :: "bool \<Rightarrow> TPMT_RSA_DECRYPT unmarshal" where
  "TPMT_RSA_DECRYPT_Unmarshal allowNull =
     u_bind (TPMI_ALG_RSA_DECRYPT_Unmarshal allowNull) (\<lambda>scheme.
     u_bind (TPMU_ASYM_SCHEME_Unmarshal (ucast scheme)) (\<lambda>details.
     u_return \<lparr>TPMT_RSA_DECRYPT_scheme = scheme, TPMT_RSA_DECRYPT_details = details\<rparr>))"

definition TPM2B_PUBLIC_KEY_RSA_Unmarshal :: "TPM2B_PUBLIC_KEY_RSA unmarshal" where
  "TPM2B_PUBLIC_KEY_RSA_Unmarshal = TPM2B_Unmarshal MAX_RSA_KEY_BYTES"

definition TPMI_RSA_KEY_BITS_Unmarshal :: "TPMI_RSA_KEY_BITS unmarshal" where
  "TPMI_RSA_KEY_BITS_Unmarshal =
     u_bind TPM_KEY_BITS_Unmarshal (\<lambda>target.
     u_guard (target \<notin> {1024, 2048}) TPM_RC_VALUE (
     u_return target))"

definition TPM2B_PRIVATE_KEY_RSA_Unmarshal :: "TPM2B_PRIVATE_KEY_RSA unmarshal" where
  "TPM2B_PRIVATE_KEY_RSA_Unmarshal = TPM2B_Unmarshal (MAX_RSA_KEY_BYTES div 2)"

definition TPM2B_ECC_PARAMETER_Unmarshal :: "TPM2B_ECC_PARAMETER unmarshal" where
  "TPM2B_ECC_PARAMETER_Unmarshal = TPM2B_Unmarshal MAX_ECC_KEY_BYTES"

definition TPMS_ECC_POINT_Unmarshal :: "TPMS_ECC_POINT unmarshal" where
  "TPMS_ECC_POINT_Unmarshal =
     u_bind TPM2B_ECC_PARAMETER_Unmarshal (\<lambda>x.
     u_bind TPM2B_ECC_PARAMETER_Unmarshal (\<lambda>y.
     u_return \<lparr>TPMS_ECC_POINT_x = x, TPMS_ECC_POINT_y = y\<rparr>))"

definition TPM2B_ECC_POINT_Unmarshal :: "TPM2B_ECC_POINT unmarshal" where
  "TPM2B_ECC_POINT_Unmarshal =
     u_bind UINT16_Unmarshal (\<lambda>size.
     u_guard (size = 0) TPM_RC_SIZE (
     u_bind (u_exactly size TPMS_ECC_POINT_Unmarshal) (\<lambda>point.
     u_return \<lparr>TPM2B_ECC_POINT_size = size, TPM2B_ECC_POINT_point = point\<rparr>)))"

definition TPMI_ALG_ECC_SCHEME_Unmarshal :: "bool \<Rightarrow> TPMI_ALG_ECC_SCHEME unmarshal" where
  "TPMI_ALG_ECC_SCHEME_Unmarshal allowNull =
     u_bind TPM_ALG_ID_Unmarshal (\<lambda>target.
     u_guard (target \<notin> {TPM_ALG_ECDSA, TPM_ALG_SM2, TPM_ALG_ECDAA, TPM_ALG_ECSCHNORR, TPM_ALG_ECDH}
       \<and> \<not> (target = TPM_ALG_NULL \<and> allowNull)) TPM_RC_SCHEME (
     u_return target))"

definition TPMI_ECC_CURVE_Unmarshal :: "TPMI_ECC_CURVE unmarshal" where
  "TPMI_ECC_CURVE_Unmarshal =
     u_bind TPM_ECC_CURVE_Unmarshal (\<lambda>target.
     u_guard (target \<notin> {TPM_ECC_BN_P256, TPM_ECC_NIST_P256, TPM_ECC_NIST_P384}) TPM_RC_CURVE (
     u_return target))"

definition TPMT_ECC_SCHEME_Unmarshal :: "bool \<Rightarrow> TPMT_ECC_SCHEME unmarshal" where
  "TPMT_ECC_SCHEME_Unmarshal allowNull =
     u_bind (TPMI_ALG_ECC_SCHEME_Unmarshal allowNull) (\<lambda>scheme.
     u_bind (TPMU_ASYM_SCHEME_Unmarshal (ucast scheme)) (\<lambda>details.
     u_return \<lparr>TPMT_ECC_SCHEME_scheme = scheme, TPMT_ECC_SCHEME_details = details\<rparr>))"

definition TPMS_ALGORITHM_DETAIL_ECC_Unmarshal :: "TPMS_ALGORITHM_DETAIL_ECC unmarshal" where
  "TPMS_ALGORITHM_DETAIL_ECC_Unmarshal =
     u_bind TPM_ECC_CURVE_Unmarshal (\<lambda>curveID.
     u_bind UINT16_Unmarshal (\<lambda>keySize.
     u_bind (TPMT_KDF_SCHEME_Unmarshal True) (\<lambda>kdf.
     u_bind (TPMT_ECC_SCHEME_Unmarshal True) (\<lambda>sign.
     u_bind TPM2B_ECC_PARAMETER_Unmarshal (\<lambda>p.
     u_bind TPM2B_ECC_PARAMETER_Unmarshal (\<lambda>a.
     u_bind TPM2B_ECC_PARAMETER_Unmarshal (\<lambda>b.
     u_bind TPM2B_ECC_PARAMETER_Unmarshal (\<lambda>gX.
     u_bind TPM2B_ECC_PARAMETER_Unmarshal (\<lambda>gY.
     u_bind TPM2B_ECC_PARAMETER_Unmarshal (\<lambda>n.
     u_bind TPM2B_ECC_PARAMETER_Unmarshal (\<lambda>h.
     u_return \<lparr>TPMS_ALGORITHM_DETAIL_ECC_curveID = curveID,
       TPMS_ALGORITHM_DETAIL_ECC_keySize = keySize, TPMS_ALGORITHM_DETAIL_ECC_kdf = kdf,
       TPMS_ALGORITHM_DETAIL_ECC_sign = sign, TPMS_ALGORITHM_DETAIL_ECC_p = p,
       TPMS_ALGORITHM_DETAIL_ECC_a = a, TPMS_ALGORITHM_DETAIL_ECC_b = b, TPMS_ALGORITHM_DETAIL_ECC_gX = gX,
       TPMS_ALGORITHM_DETAIL_ECC_gY = gY, TPMS_ALGORITHM_DETAIL_ECC_n = n,
       TPMS_ALGORITHM_DETAIL_ECC_h = h\<rparr>)))))))))))"

section \<open>Signatures\<close>

definition TPMS_SIGNATURE_RSA_Unmarshal :: "TPMS_SIGNATURE_RSA unmarshal" where
  "TPMS_SIGNATURE_RSA_Unmarshal =
     u_bind (TPMI_ALG_HASH_Unmarshal False) (\<lambda>hash.
     u_bind TPM2B_PUBLIC_KEY_RSA_Unmarshal (\<lambda>sig.
     u_return \<lparr>TPMS_SIGNATURE_RSA_hash = hash, TPMS_SIGNATURE_RSA_sig = sig\<rparr>))"

definition TPMS_SIGNATURE_RSASSA_Unmarshal :: "TPMS_SIGNATURE_RSASSA unmarshal" where
  "TPMS_SIGNATURE_RSASSA_Unmarshal = TPMS_SIGNATURE_RSA_Unmarshal"

definition TPMS_SIGNATURE_RSAPSS_Unmarshal :: "TPMS_SIGNATURE_RSAPSS unmarshal" where
  "TPMS_SIGNATURE_RSAPSS_Unmarshal = TPMS_SIGNATURE_RSA_Unmarshal"

definition TPMS_SIGNATURE_ECC_Unmarshal :: "TPMS_SIGNATURE_ECC unmarshal" where
  "TPMS_SIGNATURE_ECC_Unmarshal =
     u_bind (TPMI_ALG_HASH_Unmarshal False) (\<lambda>hash.
     u_bind TPM2B_ECC_PARAMETER_Unmarshal (\<lambda>signatureR.
     u_bind TPM2B_ECC_PARAMETER_Unmarshal (\<lambda>signatureS.
     u_return \<lparr>TPMS_SIGNATURE_ECC_hash = hash, TPMS_SIGNATURE_ECC_signatureR = signatureR,
       TPMS_SIGNATURE_ECC_signatureS = signatureS\<rparr>)))"

definition TPMS_SIGNATURE_ECDSA_Unmarshal :: "TPMS_SIGNATURE_ECDSA unmarshal" where
  "TPMS_SIGNATURE_ECDSA_Unmarshal = TPMS_SIGNATURE_ECC_Unmarshal"

definition TPMS_SIGNATURE_ECDAA_Unmarshal :: "TPMS_SIGNATURE_ECDAA unmarshal" where
  "TPMS_SIGNATURE_ECDAA_Unmarshal = TPMS_SIGNATURE_ECC_Unmarshal"

definition TPMS_SIGNATURE_SM2_Unmarshal :: "TPMS_SIGNATURE_SM2 unmarshal" where
  "TPMS_SIGNATURE_SM2_Unmarshal = TPMS_SIGNATURE_ECC_Unmarshal"

definition TPMS_SIGNATURE_ECSCHNORR_Unmarshal :: "TPMS_SIGNATURE_ECSCHNORR unmarshal" where
  "TPMS_SIGNATURE_ECSCHNORR_Unmarshal = TPMS_SIGNATURE_ECC_Unmarshal"

definition TPMU_SIGNATURE_Unmarshal :: "UINT32 \<Rightarrow> TPMU_SIGNATURE unmarshal" where
  "TPMU_SIGNATURE_Unmarshal selector =
    (if selector = TPM_ALG_RSASSA then u_map TPMU_SIGNATURE_rsassa TPMS_SIGNATURE_RSASSA_Unmarshal
     else if selector = TPM_ALG_RSAPSS then u_map TPMU_SIGNATURE_rsapss TPMS_SIGNATURE_RSAPSS_Unmarshal
     else if selector = TPM_ALG_ECDSA then u_map TPMU_SIGNATURE_ecdsa TPMS_SIGNATURE_ECDSA_Unmarshal
     else if selector = TPM_ALG_ECDAA then u_map TPMU_SIGNATURE_ecdaa TPMS_SIGNATURE_ECDAA_Unmarshal
     else if selector = TPM_ALG_SM2 then u_map TPMU_SIGNATURE_sm2 TPMS_SIGNATURE_SM2_Unmarshal
     else if selector = TPM_ALG_ECSCHNORR then u_map TPMU_SIGNATURE_ecschnorr TPMS_SIGNATURE_ECSCHNORR_Unmarshal
     else if selector = TPM_ALG_HMAC then u_map TPMU_SIGNATURE_hmac (TPMT_HA_Unmarshal False)
     else if selector = TPM_ALG_NULL then u_return TPMU_SIGNATURE_unset
     else u_fail TPM_RC_SELECTOR)"

definition TPMT_SIGNATURE_Unmarshal :: "bool \<Rightarrow> TPMT_SIGNATURE unmarshal" where
  "TPMT_SIGNATURE_Unmarshal allowNull =
     u_bind (TPMI_ALG_SIG_SCHEME_Unmarshal allowNull) (\<lambda>sigAlg.
     u_bind (TPMU_SIGNATURE_Unmarshal (ucast sigAlg)) (\<lambda>signature.
     u_return \<lparr>TPMT_SIGNATURE_sigAlg = sigAlg, TPMT_SIGNATURE_signature = signature\<rparr>))"

definition TPM2B_ENCRYPTED_SECRET_Unmarshal :: "TPM2B_ENCRYPTED_SECRET unmarshal" where
  "TPM2B_ENCRYPTED_SECRET_Unmarshal = TPM2B_Unmarshal sizeof_TPMU_ENCRYPTED_SECRET"

section \<open>Objects\<close>

definition TPMI_ALG_PUBLIC_Unmarshal :: "TPMI_ALG_PUBLIC unmarshal" where
  "TPMI_ALG_PUBLIC_Unmarshal =
     u_bind TPM_ALG_ID_Unmarshal (\<lambda>target.
     u_guard (target \<notin> {TPM_ALG_KEYEDHASH, TPM_ALG_RSA, TPM_ALG_ECC,
       TPM_ALG_SYMCIPHER}) TPM_RC_TYPE (
     u_return target))"

definition TPMU_PUBLIC_ID_Unmarshal :: "UINT32 \<Rightarrow> TPMU_PUBLIC_ID unmarshal" where
  "TPMU_PUBLIC_ID_Unmarshal selector =
    (if selector = TPM_ALG_KEYEDHASH then u_map TPMU_PUBLIC_ID_keyedHash TPM2B_DIGEST_Unmarshal
     else if selector = TPM_ALG_SYMCIPHER then u_map TPMU_PUBLIC_ID_sym TPM2B_DIGEST_Unmarshal
     else if selector = TPM_ALG_RSA then u_map TPMU_PUBLIC_ID_rsa TPM2B_PUBLIC_KEY_RSA_Unmarshal
     else if selector = TPM_ALG_ECC then u_map TPMU_PUBLIC_ID_ecc TPMS_ECC_POINT_Unmarshal
     else u_fail TPM_RC_SELECTOR)"

definition TPMS_KEYEDHASH_PARMS_Unmarshal :: "TPMS_KEYEDHASH_PARMS unmarshal" where
  "TPMS_KEYEDHASH_PARMS_Unmarshal =
     u_bind (TPMT_KEYEDHASH_SCHEME_Unmarshal True) (\<lambda>scheme.
     u_return \<lparr>TPMS_KEYEDHASH_PARMS_scheme = scheme\<rparr>)"

definition TPMS_RSA_PARMS_Unmarshal :: "TPMS_RSA_PARMS unmarshal" where
  "TPMS_RSA_PARMS_Unmarshal =
     u_bind (TPMT_SYM_DEF_OBJECT_Unmarshal True) (\<lambda>symmetric.
     u_bind (TPMT_RSA_SCHEME_Unmarshal True) (\<lambda>scheme.
     u_bind TPMI_RSA_KEY_BITS_Unmarshal (\<lambda>keyBits.
     u_bind UINT32_Unmarshal (\<lambda>exponent.
     u_return \<lparr>TPMS_RSA_PARMS_symmetric = symmetric, TPMS_RSA_PARMS_scheme = scheme,
       TPMS_RSA_PARMS_keyBits = keyBits, TPMS_RSA_PARMS_exponent = exponent\<rparr>))))"

definition TPMS_ECC_PARMS_Unmarshal :: "TPMS_ECC_PARMS unmarshal" where
  "TPMS_ECC_PARMS_Unmarshal =
     u_bind (TPMT_SYM_DEF_OBJECT_Unmarshal True) (\<lambda>symmetric.
     u_bind (TPMT_ECC_SCHEME_Unmarshal True) (\<lambda>scheme.
     u_bind TPMI_ECC_CURVE_Unmarshal (\<lambda>curveID.
     u_bind (TPMT_KDF_SCHEME_Unmarshal True) (\<lambda>kdf.
     u_return \<lparr>TPMS_ECC_PARMS_symmetric = symmetric, TPMS_ECC_PARMS_scheme = scheme,
       TPMS_ECC_PARMS_curveID = curveID, TPMS_ECC_PARMS_kdf = kdf\<rparr>))))"

definition TPMU_PUBLIC_PARMS_Unmarshal :: "UINT32 \<Rightarrow> TPMU_PUBLIC_PARMS unmarshal" where
  "TPMU_PUBLIC_PARMS_Unmarshal selector =
    (if selector = TPM_ALG_KEYEDHASH then u_map TPMU_PUBLIC_PARMS_keyedHashDetail TPMS_KEYEDHASH_PARMS_Unmarshal
     else if selector = TPM_ALG_SYMCIPHER then u_map TPMU_PUBLIC_PARMS_symDetail TPMS_SYMCIPHER_PARMS_Unmarshal
     else if selector = TPM_ALG_RSA then u_map TPMU_PUBLIC_PARMS_rsaDetail TPMS_RSA_PARMS_Unmarshal
     else if selector = TPM_ALG_ECC then u_map TPMU_PUBLIC_PARMS_eccDetail TPMS_ECC_PARMS_Unmarshal
     else u_fail TPM_RC_SELECTOR)"

definition TPMT_PUBLIC_PARMS_Unmarshal :: "TPMT_PUBLIC_PARMS unmarshal" where
  "TPMT_PUBLIC_PARMS_Unmarshal =
     u_bind TPMI_ALG_PUBLIC_Unmarshal (\<lambda>type.
     u_bind (TPMU_PUBLIC_PARMS_Unmarshal (ucast type)) (\<lambda>parameters.
     u_return \<lparr>TPMT_PUBLIC_PARMS_type = type, TPMT_PUBLIC_PARMS_parameters = parameters\<rparr>))"

definition TPMT_PUBLIC_Unmarshal :: "bool \<Rightarrow> TPMT_PUBLIC unmarshal" where
  "TPMT_PUBLIC_Unmarshal allowNull =
     u_bind TPMI_ALG_PUBLIC_Unmarshal (\<lambda>type.
     u_bind (TPMI_ALG_HASH_Unmarshal allowNull) (\<lambda>nameAlg.
     u_bind TPMA_OBJECT_Unmarshal (\<lambda>objectAttributes.
     u_bind TPM2B_DIGEST_Unmarshal (\<lambda>authPolicy.
     u_bind (TPMU_PUBLIC_PARMS_Unmarshal (ucast type)) (\<lambda>parameters.
     u_bind (TPMU_PUBLIC_ID_Unmarshal (ucast type)) (\<lambda>unique.
     u_return \<lparr>TPMT_PUBLIC_type = type, TPMT_PUBLIC_nameAlg = nameAlg,
       TPMT_PUBLIC_objectAttributes = objectAttributes, TPMT_PUBLIC_authPolicy = authPolicy,
       TPMT_PUBLIC_parameters = parameters, TPMT_PUBLIC_unique = unique\<rparr>))))))"

definition TPM2B_PUBLIC_Unmarshal :: "bool \<Rightarrow> TPM2B_PUBLIC unmarshal" where
  "TPM2B_PUBLIC_Unmarshal allowNull =
     u_bind UINT16_Unmarshal (\<lambda>size.
     u_guard (size = 0) TPM_RC_SIZE (
     u_bind (u_exactly size (TPMT_PUBLIC_Unmarshal allowNull)) (\<lambda>publicArea.
     u_return \<lparr>TPM2B_PUBLIC_size = size, TPM2B_PUBLIC_publicArea = publicArea\<rparr>)))"

definition TPMU_SENSITIVE_COMPOSITE_Unmarshal :: "UINT32 \<Rightarrow> TPMU_SENSITIVE_COMPOSITE unmarshal" where
  "TPMU_SENSITIVE_COMPOSITE_Unmarshal selector =
    (if selector = TPM_ALG_RSA then u_map TPMU_SENSITIVE_COMPOSITE_rsa TPM2B_PRIVATE_KEY_RSA_Unmarshal
     else if selector = TPM_ALG_ECC then u_map TPMU_SENSITIVE_COMPOSITE_ecc TPM2B_ECC_PARAMETER_Unmarshal
     else if selector = TPM_ALG_KEYEDHASH then u_map TPMU_SENSITIVE_COMPOSITE_bits TPM2B_SENSITIVE_DATA_Unmarshal
     else if selector = TPM_ALG_SYMCIPHER then u_map TPMU_SENSITIVE_COMPOSITE_sym TPM2B_SYM_KEY_Unmarshal
     else u_fail TPM_RC_SELECTOR)"

definition TPMT_SENSITIVE_Unmarshal :: "TPMT_SENSITIVE unmarshal" where
  "TPMT_SENSITIVE_Unmarshal =
     u_bind TPMI_ALG_PUBLIC_Unmarshal (\<lambda>sensitiveType.
     u_bind TPM2B_AUTH_Unmarshal (\<lambda>authValue.
     u_bind TPM2B_DIGEST_Unmarshal (\<lambda>seedValue.
     u_bind (TPMU_SENSITIVE_COMPOSITE_Unmarshal (ucast sensitiveType)) (\<lambda>sensitive.
     u_return \<lparr>TPMT_SENSITIVE_sensitiveType = sensitiveType, TPMT_SENSITIVE_authValue = authValue,
       TPMT_SENSITIVE_seedValue = seedValue, TPMT_SENSITIVE_sensitive = sensitive\<rparr>))))"

definition TPM2B_SENSITIVE_Unmarshal :: "TPM2B_SENSITIVE unmarshal" where
  "TPM2B_SENSITIVE_Unmarshal =
     u_bind UINT16_Unmarshal (\<lambda>size.
     if size \<noteq> 0
     then u_bind (u_exactly size TPMT_SENSITIVE_Unmarshal) (\<lambda>sensitiveArea.
       u_return \<lparr>TPM2B_SENSITIVE_size = size,
         TPM2B_SENSITIVE_sensitiveArea = Some sensitiveArea\<rparr>)
     else u_return \<lparr>TPM2B_SENSITIVE_size = size, TPM2B_SENSITIVE_sensitiveArea = None\<rparr>)"

definition TPM2B_PRIVATE_Unmarshal :: "TPM2B_PRIVATE unmarshal" where
  "TPM2B_PRIVATE_Unmarshal = TPM2B_Unmarshal sizeof_PRIVATE"

definition TPM2B_ID_OBJECT_Unmarshal :: "TPM2B_ID_OBJECT unmarshal" where
  "TPM2B_ID_OBJECT_Unmarshal = TPM2B_Unmarshal sizeof_ID_OBJECT"

section \<open>NV indices, contexts and creation data\<close>

definition TPMA_NV_Unmarshal :: "TPMA_NV unmarshal" where
  "TPMA_NV_Unmarshal =
     u_bind UINT32_Unmarshal (\<lambda>target.
     u_guard ((target AND TPMA_NV_RESERVED) \<noteq> 0) TPM_RC_RESERVED_BITS (
     u_return target))"

definition TPMS_NV_PUBLIC_Unmarshal :: "TPMS_NV_PUBLIC unmarshal" where
  "TPMS_NV_PUBLIC_Unmarshal =
     u_bind (TPMI_RH_NV_INDEX_Unmarshal False) (\<lambda>nvIndex.
     u_bind (TPMI_ALG_HASH_Unmarshal False) (\<lambda>nameAlg.
     u_bind TPMA_NV_Unmarshal (\<lambda>attributes.
     u_bind TPM2B_DIGEST_Unmarshal (\<lambda>authPolicy.
     u_bind UINT16_Unmarshal (\<lambda>dataSize.
     u_guard (dataSize > MAX_NV_INDEX_SIZE) TPM_RC_SIZE (
     u_return \<lparr>TPMS_NV_PUBLIC_nvIndex = nvIndex, TPMS_NV_PUBLIC_nameAlg = nameAlg,
       TPMS_NV_PUBLIC_attributes = attributes, TPMS_NV_PUBLIC_authPolicy = authPolicy,
       TPMS_NV_PUBLIC_dataSize = dataSize\<rparr>))))))"

definition TPM2B_NV_PUBLIC_Unmarshal :: "TPM2B_NV_PUBLIC unmarshal" where
  "TPM2B_NV_PUBLIC_Unmarshal =
     u_bind UINT16_Unmarshal (\<lambda>size.
     u_guard (size = 0) TPM_RC_SIZE (
     u_bind (u_exactly size TPMS_NV_PUBLIC_Unmarshal) (\<lambda>nvPublic.
     u_return \<lparr>TPM2B_NV_PUBLIC_size = size, TPM2B_NV_PUBLIC_nvPublic = nvPublic\<rparr>)))"

definition TPM2B_CONTEXT_SENSITIVE_Unmarshal :: "TPM2B_CONTEXT_SENSITIVE unmarshal" where
  "TPM2B_CONTEXT_SENSITIVE_Unmarshal = TPM2B_Unmarshal MAX_CONTEXT_SIZE"

definition TPMS_CONTEXT_DATA_Unmarshal :: "TPMS_CONTEXT_DATA unmarshal" where
  "TPMS_CONTEXT_DATA_Unmarshal =
     u_bind TPM2B_DIGEST_Unmarshal (\<lambda>integrity.
     u_bind TPM2B_CONTEXT_SENSITIVE_Unmarshal (\<lambda>encrypted.
     u_return \<lparr>TPMS_CONTEXT_DATA_integrity = integrity,
       TPMS_CONTEXT_DATA_encrypted = encrypted\<rparr>))"

definition TPM2B_CONTEXT_DATA_Unmarshal :: "TPM2B_CONTEXT_DATA unmarshal" where
  "TPM2B_CONTEXT_DATA_Unmarshal = TPM2B_Unmarshal sizeof_TPMS_CONTEXT_DATA"

definition TPMS_CONTEXT_Unmarshal :: "TPMS_CONTEXT unmarshal" where
  "TPMS_CONTEXT_Unmarshal =
     u_bind UINT64_Unmarshal (\<lambda>sequence.
     u_bind (TPMI_DH_CONTEXT_Unmarshal False) (\<lambda>savedHandle.
     u_bind (TPMI_RH_HIERARCHY_Unmarshal True) (\<lambda>hierarchy.
     u_bind TPM2B_CONTEXT_DATA_Unmarshal (\<lambda>contextBlob.
     u_return \<lparr>TPMS_CONTEXT_sequence = sequence, TPMS_CONTEXT_savedHandle = savedHandle,
       TPMS_CONTEXT_hierarchy = hierarchy, TPMS_CONTEXT_contextBlob = contextBlob\<rparr>))))"

definition TPMS_CREATION_DATA_Unmarshal :: "TPMS_CREATION_DATA unmarshal" where
  "TPMS_CREATION_DATA_Unmarshal =
     u_bind TPML_PCR_SELECTION_Unmarshal (\<lambda>pcrSelect.
     u_bind TPM2B_DIGEST_Unmarshal (\<lambda>pcrDigest.
     u_bind TPMA_LOCALITY_Unmarshal (\<lambda>locality.
     u_bind TPM_ALG_ID_Unmarshal (\<lambda>parentNameAlg.
     u_bind TPM2B_NAME_Unmarshal (\<lambda>parentName.
     u_bind TPM2B_NAME_Unmarshal (\<lambda>parentQualifiedName.
     u_bind TPM2B_DATA_Unmarshal (\<lambda>outsideInfo.
     u_return \<lparr>TPMS_CREATION_DATA_pcrSelect = pcrSelect, TPMS_CREATION_DATA_pcrDigest = pcrDigest,
       TPMS_CREATION_DATA_locality = locality, TPMS_CREATION_DATA_parentNameAlg = parentNameAlg,
       TPMS_CREATION_DATA_parentName = parentName,
       TPMS_CREATION_DATA_parentQualifiedName = parentQualifiedName,
       TPMS_CREATION_DATA_outsideInfo = outsideInfo\<rparr>)))))))"

definition TPM2B_CREATION_DATA_Unmarshal :: "TPM2B_CREATION_DATA unmarshal" where
  "TPM2B_CREATION_DATA_Unmarshal =
     u_bind UINT16_Unmarshal (\<lambda>size.
     u_guard (size = 0) TPM_RC_SIZE (
     u_bind (u_exactly size TPMS_CREATION_DATA_Unmarshal) (\<lambda>creationData.
     u_return \<lparr>TPM2B_CREATION_DATA_size = size,
       TPM2B_CREATION_DATA_creationData = creationData\<rparr>)))"

end
