(* ===== verification/Tss_Marshal.thy ===== *)
theory Tss_Marshal
  imports Tss_Types
begin

text \<open>
  The marshal functions for the types of the interface (\<^verbatim>\<open>libtss2/tssmarshal.c\<close>, from \<open>TSS_TPM_KEY_BITS_Marshal\<close>
  on), one definition each. A chain of \<open>if (rc == 0) rc = ...\<close> is a chain of \<^const>\<open>m_then\<close>. A union whose selector
  asks for another member than the one that is written is a \<^const>\<open>m_bad\<close> source.
\<close>

section \<open>Constants of the interface\<close>

definition TSS_TPM_KEY_BITS_Marshal :: "TPM_KEY_BITS \<Rightarrow> marshal" where
  "TSS_TPM_KEY_BITS_Marshal source = TSS_UINT16_Marshal source"

definition TSS_TPM_GENERATED_Marshal :: "TPM_GENERATED \<Rightarrow> marshal" where
  "TSS_TPM_GENERATED_Marshal source = TSS_UINT32_Marshal source"

definition TSS_TPM_ALG_ID_Marshal :: "TPM_ALG_ID \<Rightarrow> marshal" where
  "TSS_TPM_ALG_ID_Marshal source = TSS_UINT16_Marshal source"

definition TSS_TPM_ECC_CURVE_Marshal :: "TPM_ECC_CURVE \<Rightarrow> marshal" where
  "TSS_TPM_ECC_CURVE_Marshal source = TSS_UINT16_Marshal source"

definition TSS_TPM_RC_Marshal :: "TPM_RC \<Rightarrow> marshal" where
  "TSS_TPM_RC_Marshal source = TSS_UINT32_Marshal source"

definition TSS_TPM_CLOCK_ADJUST_Marshal :: "TPM_CLOCK_ADJUST \<Rightarrow> marshal" where
  "TSS_TPM_CLOCK_ADJUST_Marshal source = TSS_INT8_Marshal source"

definition TSS_TPM_EO_Marshal :: "TPM_EO \<Rightarrow> marshal" where
  "TSS_TPM_EO_Marshal source = TSS_UINT16_Marshal source"

definition TSS_TPM_ST_Marshal :: "TPM_ST \<Rightarrow> marshal" where
  "TSS_TPM_ST_Marshal source = TSS_UINT16_Marshal source"

definition TSS_TPM_SU_Marshal :: "TPM_ST \<Rightarrow> marshal" where
  "TSS_TPM_SU_Marshal source = TSS_UINT16_Marshal source"

definition TSS_TPM_SE_Marshal :: "TPM_SE \<Rightarrow> marshal" where
  "TSS_TPM_SE_Marshal source = TSS_UINT8_Marshal source"

definition TSS_TPM_CAP_Marshal :: "TPM_CAP \<Rightarrow> marshal" where
  "TSS_TPM_CAP_Marshal source = TSS_UINT32_Marshal source"

definition TSS_TPM_PT_Marshal :: "TPM_PT \<Rightarrow> marshal" where
  "TSS_TPM_PT_Marshal source = TSS_UINT32_Marshal source"

definition TSS_TPM_PT_PCR_Marshal :: "TPM_PT_PCR \<Rightarrow> marshal" where
  "TSS_TPM_PT_PCR_Marshal source = TSS_UINT32_Marshal source"

definition TSS_TPM_HANDLE_Marshal :: "TPM_HANDLE \<Rightarrow> marshal" where
  "TSS_TPM_HANDLE_Marshal source = TSS_UINT32_Marshal source"

section \<open>Attributes\<close>

definition TSS_TPMA_ALGORITHM_Marshal :: "TPMA_ALGORITHM \<Rightarrow> marshal" where
  "TSS_TPMA_ALGORITHM_Marshal source = TSS_UINT32_Marshal source"

definition TSS_TPMA_OBJECT_Marshal :: "TPMA_OBJECT \<Rightarrow> marshal" where
  "TSS_TPMA_OBJECT_Marshal source = TSS_UINT32_Marshal source"

definition TSS_TPMA_SESSION_Marshal :: "TPMA_SESSION \<Rightarrow> marshal" where
  "TSS_TPMA_SESSION_Marshal source = TSS_UINT8_Marshal source"

definition TSS_TPMA_LOCALITY_Marshal :: "TPMA_LOCALITY \<Rightarrow> marshal" where
  "TSS_TPMA_LOCALITY_Marshal source = TSS_UINT8_Marshal source"

definition TSS_TPM_CC_Marshal :: "TPM_CC \<Rightarrow> marshal" where
  "TSS_TPM_CC_Marshal source = TSS_UINT32_Marshal source"

definition TSS_TPMA_CC_Marshal :: "TPMA_CC \<Rightarrow> marshal" where
  "TSS_TPMA_CC_Marshal source = TSS_UINT32_Marshal source"

section \<open>Interface types\<close>

definition TSS_TPMI_YES_NO_Marshal :: "TPMI_YES_NO \<Rightarrow> marshal" where
  "TSS_TPMI_YES_NO_Marshal source = TSS_UINT8_Marshal source"

definition TSS_TPMI_DH_OBJECT_Marshal :: "TPMI_DH_OBJECT \<Rightarrow> marshal" where
  "TSS_TPMI_DH_OBJECT_Marshal source = TSS_TPM_HANDLE_Marshal source"

definition TSS_TPMI_DH_PERSISTENT_Marshal :: "TPMI_DH_PERSISTENT \<Rightarrow> marshal" where
  "TSS_TPMI_DH_PERSISTENT_Marshal source = TSS_TPM_HANDLE_Marshal source"

definition TSS_TPMI_DH_ENTITY_Marshal :: "TPMI_DH_ENTITY \<Rightarrow> marshal" where
  "TSS_TPMI_DH_ENTITY_Marshal source = TSS_TPM_HANDLE_Marshal source"

definition TSS_TPMI_DH_PCR_Marshal :: "TPMI_DH_PCR \<Rightarrow> marshal" where
  "TSS_TPMI_DH_PCR_Marshal source = TSS_TPM_HANDLE_Marshal source"

definition TSS_TPMI_SH_AUTH_SESSION_Marshal :: "TPMI_SH_AUTH_SESSION \<Rightarrow> marshal" where
  "TSS_TPMI_SH_AUTH_SESSION_Marshal source = TSS_TPM_HANDLE_Marshal source"

definition TSS_TPMI_SH_HMAC_Marshal :: "TPMI_SH_HMAC \<Rightarrow> marshal" where
  "TSS_TPMI_SH_HMAC_Marshal source = TSS_TPM_HANDLE_Marshal source"

definition TSS_TPMI_SH_POLICY_Marshal :: "TPMI_SH_POLICY \<Rightarrow> marshal" where
  "TSS_TPMI_SH_POLICY_Marshal source = TSS_TPM_HANDLE_Marshal source"

definition TSS_TPMI_DH_CONTEXT_Marshal :: "TPMI_DH_CONTEXT \<Rightarrow> marshal" where
  "TSS_TPMI_DH_CONTEXT_Marshal source = TSS_TPM_HANDLE_Marshal source"

definition TSS_TPMI_RH_HIERARCHY_Marshal :: "TPMI_RH_HIERARCHY \<Rightarrow> marshal" where
  "TSS_TPMI_RH_HIERARCHY_Marshal source = TSS_TPM_HANDLE_Marshal source"

definition TSS_TPMI_RH_ENABLES_Marshal :: "TPMI_RH_ENABLES \<Rightarrow> marshal" where
  "TSS_TPMI_RH_ENABLES_Marshal source = TSS_TPM_HANDLE_Marshal source"

definition TSS_TPMI_RH_HIERARCHY_AUTH_Marshal :: "TPMI_RH_HIERARCHY_AUTH \<Rightarrow> marshal" where
  "TSS_TPMI_RH_HIERARCHY_AUTH_Marshal source = TSS_TPM_HANDLE_Marshal source"

definition TSS_TPMI_RH_PLATFORM_Marshal :: "TPMI_RH_PLATFORM \<Rightarrow> marshal" where
  "TSS_TPMI_RH_PLATFORM_Marshal source = TSS_TPM_HANDLE_Marshal source"

definition TSS_TPMI_RH_ENDORSEMENT_Marshal :: "TPMI_RH_ENDORSEMENT \<Rightarrow> marshal" where
  "TSS_TPMI_RH_ENDORSEMENT_Marshal source = TSS_TPM_HANDLE_Marshal source"

definition TSS_TPMI_RH_PROVISION_Marshal :: "TPMI_RH_PROVISION \<Rightarrow> marshal" where
  "TSS_TPMI_RH_PROVISION_Marshal source = TSS_TPM_HANDLE_Marshal source"

definition TSS_TPMI_RH_CLEAR_Marshal :: "TPMI_RH_CLEAR \<Rightarrow> marshal" where
  "TSS_TPMI_RH_CLEAR_Marshal source = TSS_TPM_HANDLE_Marshal source"

definition TSS_TPMI_RH_NV_AUTH_Marshal :: "TPMI_RH_NV_AUTH \<Rightarrow> marshal" where
  "TSS_TPMI_RH_NV_AUTH_Marshal source = TSS_TPM_HANDLE_Marshal source"

definition TSS_TPMI_RH_LOCKOUT_Marshal :: "TPMI_RH_LOCKOUT \<Rightarrow> marshal" where
  "TSS_TPMI_RH_LOCKOUT_Marshal source = TSS_TPM_HANDLE_Marshal source"

definition TSS_TPMI_RH_NV_INDEX_Marshal :: "TPMI_RH_NV_INDEX \<Rightarrow> marshal" where
  "TSS_TPMI_RH_NV_INDEX_Marshal source = TSS_TPM_HANDLE_Marshal source"

definition TSS_TPMI_ALG_HASH_Marshal :: "TPMI_ALG_HASH \<Rightarrow> marshal" where
  "TSS_TPMI_ALG_HASH_Marshal source = TSS_TPM_ALG_ID_Marshal source"

definition TSS_TPMI_ALG_SYM_Marshal :: "TPMI_ALG_SYM \<Rightarrow> marshal" where
  "TSS_TPMI_ALG_SYM_Marshal source = TSS_TPM_ALG_ID_Marshal source"

definition TSS_TPMI_ALG_SYM_OBJECT_Marshal :: "TPMI_ALG_SYM_OBJECT \<Rightarrow> marshal" where
  "TSS_TPMI_ALG_SYM_OBJECT_Marshal source = TSS_TPM_ALG_ID_Marshal source"

definition TSS_TPMI_ALG_SYM_MODE_Marshal :: "TPMI_ALG_SYM_MODE \<Rightarrow> marshal" where
  "TSS_TPMI_ALG_SYM_MODE_Marshal source = TSS_TPM_ALG_ID_Marshal source"

definition TSS_TPMI_ALG_KDF_Marshal :: "TPMI_ALG_KDF \<Rightarrow> marshal" where
  "TSS_TPMI_ALG_KDF_Marshal source = TSS_TPM_ALG_ID_Marshal source"

definition TSS_TPMI_ALG_SIG_SCHEME_Marshal :: "TPMI_ALG_SIG_SCHEME \<Rightarrow> marshal" where
  "TSS_TPMI_ALG_SIG_SCHEME_Marshal source = TSS_TPM_ALG_ID_Marshal source"

definition TSS_TPMI_ECC_KEY_EXCHANGE_Marshal :: "TPMI_ECC_KEY_EXCHANGE \<Rightarrow> marshal" where
  "TSS_TPMI_ECC_KEY_EXCHANGE_Marshal source = TSS_TPM_ALG_ID_Marshal source"

definition TSS_TPMI_ST_COMMAND_TAG_Marshal :: "TPMI_ST_COMMAND_TAG \<Rightarrow> marshal" where
  "TSS_TPMI_ST_COMMAND_TAG_Marshal source = TSS_TPM_ST_Marshal source"

section \<open>Digests, sized buffers, tickets and lists\<close>

definition TSS_TPMU_HA_Marshal :: "TPMU_HA \<Rightarrow> UINT32 \<Rightarrow> marshal" where
  "TSS_TPMU_HA_Marshal source selector =
    (if selector = TPM_ALG_SHA1 then (case source of TPMU_HA_sha1 x \<Rightarrow> TSS_Array_Marshal x SHA1_DIGEST_SIZE | _ \<Rightarrow> m_bad)
     else if selector = TPM_ALG_SHA256 then (case source of TPMU_HA_sha256 x \<Rightarrow> TSS_Array_Marshal x SHA256_DIGEST_SIZE | _ \<Rightarrow> m_bad)
     else if selector = TPM_ALG_SHA384 then (case source of TPMU_HA_sha384 x \<Rightarrow> TSS_Array_Marshal x SHA384_DIGEST_SIZE | _ \<Rightarrow> m_bad)
     else if selector = TPM_ALG_NULL then m_done
     else m_fail TPM_RC_SELECTOR)"

definition TSS_TPMT_HA_Marshal :: "TPMT_HA \<Rightarrow> marshal" where
  "TSS_TPMT_HA_Marshal source =
     m_then (TSS_TPMI_ALG_HASH_Marshal (TPMT_HA_hashAlg source)) (
     TSS_TPMU_HA_Marshal (TPMT_HA_digest source) (ucast (TPMT_HA_hashAlg source)))"

definition TSS_TPM2B_DIGEST_Marshal :: "TPM2B_DIGEST \<Rightarrow> marshal" where
  "TSS_TPM2B_DIGEST_Marshal source = TSS_TPM2B_Marshal source"

definition TSS_TPM2B_DATA_Marshal :: "TPM2B_DATA \<Rightarrow> marshal" where
  "TSS_TPM2B_DATA_Marshal source = TSS_TPM2B_Marshal source"

definition TSS_TPM2B_NONCE_Marshal :: "TPM2B_NONCE \<Rightarrow> marshal" where
  "TSS_TPM2B_NONCE_Marshal source = TSS_TPM2B_DIGEST_Marshal source"

definition TSS_TPM2B_AUTH_Marshal :: "TPM2B_AUTH \<Rightarrow> marshal" where
  "TSS_TPM2B_AUTH_Marshal source = TSS_TPM2B_DIGEST_Marshal source"

definition TSS_TPM2B_OPERAND_Marshal :: "TPM2B_OPERAND \<Rightarrow> marshal" where
  "TSS_TPM2B_OPERAND_Marshal source = TSS_TPM2B_DIGEST_Marshal source"

definition TSS_TPM2B_EVENT_Marshal :: "TPM2B_EVENT \<Rightarrow> marshal" where
  "TSS_TPM2B_EVENT_Marshal source = TSS_TPM2B_Marshal source"

definition TSS_TPM2B_MAX_BUFFER_Marshal :: "TPM2B_MAX_BUFFER \<Rightarrow> marshal" where
  "TSS_TPM2B_MAX_BUFFER_Marshal source = TSS_TPM2B_Marshal source"

definition TSS_TPM2B_MAX_NV_BUFFER_Marshal :: "TPM2B_MAX_NV_BUFFER \<Rightarrow> marshal" where
  "TSS_TPM2B_MAX_NV_BUFFER_Marshal source = TSS_TPM2B_Marshal source"

definition TSS_TPM2B_TIMEOUT_Marshal :: "TPM2B_TIMEOUT \<Rightarrow> marshal" where
  "TSS_TPM2B_TIMEOUT_Marshal source = TSS_TPM2B_DIGEST_Marshal source"

definition TSS_TPM2B_IV_Marshal :: "TPM2B_IV \<Rightarrow> marshal" where
  "TSS_TPM2B_IV_Marshal source = TSS_TPM2B_Marshal source"

definition TSS_TPM2B_NAME_Marshal :: "TPM2B_NAME \<Rightarrow> marshal" where
  "TSS_TPM2B_NAME_Marshal source = TSS_TPM2B_Marshal source"

definition TSS_TPMS_PCR_SELECTION_Marshal :: "TPMS_PCR_SELECTION \<Rightarrow> marshal" where
  "TSS_TPMS_PCR_SELECTION_Marshal source =
     m_then (TSS_TPMI_ALG_HASH_Marshal (TPMS_PCR_SELECTION_hash source)) (
     m_then (TSS_UINT8_Marshal (TPMS_PCR_SELECTION_sizeofSelect source)) (
     TSS_Array_Marshal (TPMS_PCR_SELECTION_pcrSelect source) PCR_SELECT_MAX))"

definition TSS_TPMT_TK_CREATION_Marshal :: "TPMT_TK_CREATION \<Rightarrow> marshal" where
  "TSS_TPMT_TK_CREATION_Marshal source =
     m_then (TSS_TPM_ST_Marshal (TPMT_TK_CREATION_tag source)) (
     m_then (TSS_TPMI_RH_HIERARCHY_Marshal (TPMT_TK_CREATION_hierarchy source)) (
     TSS_TPM2B_DIGEST_Marshal (TPMT_TK_CREATION_digest source)))"

definition TSS_TPMT_TK_VERIFIED_Marshal :: "TPMT_TK_VERIFIED \<Rightarrow> marshal" where
  "TSS_TPMT_TK_VERIFIED_Marshal source =
     m_then (TSS_TPM_ST_Marshal (TPMT_TK_VERIFIED_tag source)) (
     m_then (TSS_TPMI_RH_HIERARCHY_Marshal (TPMT_TK_VERIFIED_hierarchy source)) (
     TSS_TPM2B_DIGEST_Marshal (TPMT_TK_VERIFIED_digest source)))"

definition TSS_TPMT_TK_AUTH_Marshal :: "TPMT_TK_AUTH \<Rightarrow> marshal" where
  "TSS_TPMT_TK_AUTH_Marshal source =
     m_then (TSS_TPM_ST_Marshal (TPMT_TK_AUTH_tag source)) (
     m_then (TSS_TPMI_RH_HIERARCHY_Marshal (TPMT_TK_AUTH_hierarchy source)) (
     TSS_TPM2B_DIGEST_Marshal (TPMT_TK_AUTH_digest source)))"

definition TSS_TPMT_TK_HASHCHECK_Marshal :: "TPMT_TK_HASHCHECK \<Rightarrow> marshal" where
  "TSS_TPMT_TK_HASHCHECK_Marshal source =
     m_then (TSS_TPM_ST_Marshal (TPMT_TK_HASHCHECK_tag source)) (
     m_then (TSS_TPMI_RH_HIERARCHY_Marshal (TPMT_TK_HASHCHECK_hierarchy source)) (
     TSS_TPM2B_DIGEST_Marshal (TPMT_TK_HASHCHECK_digest source)))"

definition TSS_TPMS_ALG_PROPERTY_Marshal :: "TPMS_ALG_PROPERTY \<Rightarrow> marshal" where
  "TSS_TPMS_ALG_PROPERTY_Marshal source =
     m_then (TSS_TPM_ALG_ID_Marshal (TPMS_ALG_PROPERTY_alg source)) (
     TSS_TPMA_ALGORITHM_Marshal (TPMS_ALG_PROPERTY_algProperties source))"

definition TSS_TPMS_TAGGED_PROPERTY_Marshal :: "TPMS_TAGGED_PROPERTY \<Rightarrow> marshal" where
  "TSS_TPMS_TAGGED_PROPERTY_Marshal source =
     m_then (TSS_TPM_PT_Marshal (TPMS_TAGGED_PROPERTY_property source)) (
     TSS_UINT32_Marshal (TPMS_TAGGED_PROPERTY_value source))"

definition TSS_TPMS_TAGGED_PCR_SELECT_Marshal :: "TPMS_TAGGED_PCR_SELECT \<Rightarrow> marshal" where
  "TSS_TPMS_TAGGED_PCR_SELECT_Marshal source =
     m_then (TSS_TPM_PT_PCR_Marshal (TPMS_TAGGED_PCR_SELECT_tag source)) (
     m_then (TSS_UINT8_Marshal (TPMS_TAGGED_PCR_SELECT_sizeofSelect source)) (
     TSS_Array_Marshal (TPMS_TAGGED_PCR_SELECT_pcrSelect source) PCR_SELECT_MAX))"

definition TSS_TPML_CC_Marshal :: "TPML_CC \<Rightarrow> marshal" where
  "TSS_TPML_CC_Marshal source =
     m_then (TSS_UINT32_Marshal (TPML_CC_count source)) (
     m_list (unat (TPML_CC_count source)) TSS_TPM_CC_Marshal (TPML_CC_commandCodes source))"

definition TSS_TPML_CCA_Marshal :: "TPML_CCA \<Rightarrow> marshal" where
  "TSS_TPML_CCA_Marshal source =
     m_then (TSS_UINT32_Marshal (TPML_CCA_count source)) (
     m_list (unat (TPML_CCA_count source)) TSS_TPMA_CC_Marshal (TPML_CCA_commandAttributes source))"

definition TSS_TPML_ALG_Marshal :: "TPML_ALG \<Rightarrow> marshal" where
  "TSS_TPML_ALG_Marshal source =
     m_then (TSS_UINT32_Marshal (TPML_ALG_count source)) (
     m_list (unat (TPML_ALG_count source)) TSS_TPM_ALG_ID_Marshal (TPML_ALG_algorithms source))"

definition TSS_TPML_HANDLE_Marshal :: "TPML_HANDLE \<Rightarrow> marshal" where
  "TSS_TPML_HANDLE_Marshal source =
     m_then (TSS_UINT32_Marshal (TPML_HANDLE_count source)) (
     m_list (unat (TPML_HANDLE_count source)) TSS_TPM_HANDLE_Marshal (TPML_HANDLE_handle source))"

definition TSS_TPML_DIGEST_Marshal :: "TPML_DIGEST \<Rightarrow> marshal" where
  "TSS_TPML_DIGEST_Marshal source =
     m_then (TSS_UINT32_Marshal (TPML_DIGEST_count source)) (
     m_list (unat (TPML_DIGEST_count source)) TSS_TPM2B_DIGEST_Marshal (TPML_DIGEST_digests source))"

definition TSS_TPML_DIGEST_VALUES_Marshal :: "TPML_DIGEST_VALUES \<Rightarrow> marshal" where
  "TSS_TPML_DIGEST_VALUES_Marshal source =
     m_then (TSS_UINT32_Marshal (TPML_DIGEST_VALUES_count source)) (
     m_list (unat (TPML_DIGEST_VALUES_count source)) TSS_TPMT_HA_Marshal (TPML_DIGEST_VALUES_digests source))"

definition TSS_TPML_PCR_SELECTION_Marshal :: "TPML_PCR_SELECTION \<Rightarrow> marshal" where
  "TSS_TPML_PCR_SELECTION_Marshal source =
     m_then (TSS_UINT32_Marshal (TPML_PCR_SELECTION_count source)) (
     m_list (unat (TPML_PCR_SELECTION_count source)) TSS_TPMS_PCR_SELECTION_Marshal (TPML_PCR_SELECTION_pcrSelections source))"

definition TSS_TPML_ALG_PROPERTY_Marshal :: "TPML_ALG_PROPERTY \<Rightarrow> marshal" where
  "TSS_TPML_ALG_PROPERTY_Marshal source =
     m_then (TSS_UINT32_Marshal (TPML_ALG_PROPERTY_count source)) (
     m_list (unat (TPML_ALG_PROPERTY_count source)) TSS_TPMS_ALG_PROPERTY_Marshal (TPML_ALG_PROPERTY_algProperties source))"

definition TSS_TPML_TAGGED_TPM_PROPERTY_Marshal :: "TPML_TAGGED_TPM_PROPERTY \<Rightarrow> marshal" where
  "TSS_TPML_TAGGED_TPM_PROPERTY_Marshal source =
     m_then (TSS_UINT32_Marshal (TPML_TAGGED_TPM_PROPERTY_count source)) (
     m_list (unat (TPML_TAGGED_TPM_PROPERTY_count source)) TSS_TPMS_TAGGED_PROPERTY_Marshal (TPML_TAGGED_TPM_PROPERTY_tpmProperty source))"

definition TSS_TPML_TAGGED_PCR_PROPERTY_Marshal :: "TPML_TAGGED_PCR_PROPERTY \<Rightarrow> marshal" where
  "TSS_TPML_TAGGED_PCR_PROPERTY_Marshal source =
     m_then (TSS_UINT32_Marshal (TPML_TAGGED_PCR_PROPERTY_count source)) (
     m_list (unat (TPML_TAGGED_PCR_PROPERTY_count source)) TSS_TPMS_TAGGED_PCR_SELECT_Marshal (TPML_TAGGED_PCR_PROPERTY_pcrProperty source))"

definition TSS_TPML_ECC_CURVE_Marshal :: "TPML_ECC_CURVE \<Rightarrow> marshal" where
  "TSS_TPML_ECC_CURVE_Marshal source =
     m_then (TSS_UINT32_Marshal (TPML_ECC_CURVE_count source)) (
     m_list (unat (TPML_ECC_CURVE_count source)) TSS_TPM_ECC_CURVE_Marshal (TPML_ECC_CURVE_eccCurves source))"

section \<open>Capabilities and attestation\<close>

definition TSS_TPMU_CAPABILITIES_Marshal :: "TPMU_CAPABILITIES \<Rightarrow> UINT32 \<Rightarrow> marshal" where
  "TSS_TPMU_CAPABILITIES_Marshal source selector =
    (if selector = TPM_CAP_ALGS then (case source of TPMU_CAPABILITIES_algorithms x \<Rightarrow> TSS_TPML_ALG_PROPERTY_Marshal x | _ \<Rightarrow> m_bad)
     else if selector = TPM_CAP_HANDLES then (case source of TPMU_CAPABILITIES_handles x \<Rightarrow> TSS_TPML_HANDLE_Marshal x | _ \<Rightarrow> m_bad)
     else if selector = TPM_CAP_COMMANDS then (case source of TPMU_CAPABILITIES_command x \<Rightarrow> TSS_TPML_CCA_Marshal x | _ \<Rightarrow> m_bad)
     else if selector = TPM_CAP_PP_COMMANDS then (case source of TPMU_CAPABILITIES_ppCommands x \<Rightarrow> TSS_TPML_CC_Marshal x | _ \<Rightarrow> m_bad)
     else if selector = TPM_CAP_AUDIT_COMMANDS then (case source of TPMU_CAPABILITIES_auditCommands x \<Rightarrow> TSS_TPML_CC_Marshal x | _ \<Rightarrow> m_bad)
     else if selector = TPM_CAP_PCRS then (case source of TPMU_CAPABILITIES_assignedPCR x \<Rightarrow> TSS_TPML_PCR_SELECTION_Marshal x | _ \<Rightarrow> m_bad)
     else if selector = TPM_CAP_TPM_PROPERTIES then (case source of TPMU_CAPABILITIES_tpmProperties x \<Rightarrow> TSS_TPML_TAGGED_TPM_PROPERTY_Marshal x | _ \<Rightarrow> m_bad)
     else if selector = TPM_CAP_PCR_PROPERTIES then (case source of TPMU_CAPABILITIES_pcrProperties x \<Rightarrow> TSS_TPML_TAGGED_PCR_PROPERTY_Marshal x | _ \<Rightarrow> m_bad)
     else if selector = TPM_CAP_ECC_CURVES then (case source of TPMU_CAPABILITIES_eccCurves x \<Rightarrow> TSS_TPML_ECC_CURVE_Marshal x | _ \<Rightarrow> m_bad)
     else m_fail TPM_RC_SELECTOR)"

definition TSS_TPMS_CAPABILITY_DATA_Marshal :: "TPMS_CAPABILITY_DATA \<Rightarrow> marshal" where
  "TSS_TPMS_CAPABILITY_DATA_Marshal source =
     m_then (TSS_TPM_CAP_Marshal (TPMS_CAPABILITY_DATA_capability source)) (
     TSS_TPMU_CAPABILITIES_Marshal (TPMS_CAPABILITY_DATA_data source) (TPMS_CAPABILITY_DATA_capability source))"

definition TSS_TPMS_CLOCK_INFO_Marshal :: "TPMS_CLOCK_INFO \<Rightarrow> marshal" where
  "TSS_TPMS_CLOCK_INFO_Marshal source =
     m_then (TSS_UINT64_Marshal (TPMS_CLOCK_INFO_clock source)) (
     m_then (TSS_UINT32_Marshal (TPMS_CLOCK_INFO_resetCount source)) (
     m_then (TSS_UINT32_Marshal (TPMS_CLOCK_INFO_restartCount source)) (
     TSS_TPMI_YES_NO_Marshal (TPMS_CLOCK_INFO_safe source))))"

definition TSS_TPMS_TIME_INFO_Marshal :: "TPMS_TIME_INFO \<Rightarrow> marshal" where
  "TSS_TPMS_TIME_INFO_Marshal source =
     m_then (TSS_UINT64_Marshal (TPMS_TIME_INFO_time source)) (
     TSS_TPMS_CLOCK_INFO_Marshal (TPMS_TIME_INFO_clockInfo source))"

definition TSS_TPMS_TIME_ATTEST_INFO_Marshal :: "TPMS_TIME_ATTEST_INFO \<Rightarrow> marshal" where
  "TSS_TPMS_TIME_ATTEST_INFO_Marshal source =
     m_then (TSS_TPMS_TIME_INFO_Marshal (TPMS_TIME_ATTEST_INFO_time source)) (
     TSS_UINT64_Marshal (TPMS_TIME_ATTEST_INFO_firmwareVersion source))"

definition TSS_TPMS_CERTIFY_INFO_Marshal :: "TPMS_CERTIFY_INFO \<Rightarrow> marshal" where
  "TSS_TPMS_CERTIFY_INFO_Marshal source =
     m_then (TSS_TPM2B_NAME_Marshal (TPMS_CERTIFY_INFO_name source)) (
     TSS_TPM2B_NAME_Marshal (TPMS_CERTIFY_INFO_qualifiedName source))"

definition TSS_TPMS_QUOTE_INFO_Marshal :: "TPMS_QUOTE_INFO \<Rightarrow> marshal" where
  "TSS_TPMS_QUOTE_INFO_Marshal source =
     m_then (TSS_TPML_PCR_SELECTION_Marshal (TPMS_QUOTE_INFO_pcrSelect source)) (
     TSS_TPM2B_DIGEST_Marshal (TPMS_QUOTE_INFO_pcrDigest source))"

definition TSS_TPMS_COMMAND_AUDIT_INFO_Marshal :: "TPMS_COMMAND_AUDIT_INFO \<Rightarrow> marshal" where
  "TSS_TPMS_COMMAND_AUDIT_INFO_Marshal source =
     m_then (TSS_UINT64_Marshal (TPMS_COMMAND_AUDIT_INFO_auditCounter source)) (
     m_then (TSS_TPM_ALG_ID_Marshal (TPMS_COMMAND_AUDIT_INFO_digestAlg source)) (
     m_then (TSS_TPM2B_DIGEST_Marshal (TPMS_COMMAND_AUDIT_INFO_auditDigest source)) (
     TSS_TPM2B_DIGEST_Marshal (TPMS_COMMAND_AUDIT_INFO_commandDigest source))))"

definition TSS_TPMS_SESSION_AUDIT_INFO_Marshal :: "TPMS_SESSION_AUDIT_INFO \<Rightarrow> marshal" where
  "TSS_TPMS_SESSION_AUDIT_INFO_Marshal source =
     m_then (TSS_TPMI_YES_NO_Marshal (TPMS_SESSION_AUDIT_INFO_exclusiveSession source)) (
     TSS_TPM2B_DIGEST_Marshal (TPMS_SESSION_AUDIT_INFO_sessionDigest source))"

definition TSS_TPMS_CREATION_INFO_Marshal :: "TPMS_CREATION_INFO \<Rightarrow> marshal" where
  "TSS_TPMS_CREATION_INFO_Marshal source =
     m_then (TSS_TPM2B_NAME_Marshal (TPMS_CREATION_INFO_objectName source)) (
     TSS_TPM2B_DIGEST_Marshal (TPMS_CREATION_INFO_creationHash source))"

definition TSS_TPMS_NV_CERTIFY_INFO_Marshal :: "TPMS_NV_CERTIFY_INFO \<Rightarrow> marshal" where
  "TSS_TPMS_NV_CERTIFY_INFO_Marshal source =
     m_then (TSS_TPM2B_NAME_Marshal (TPMS_NV_CERTIFY_INFO_indexName source)) (
     m_then (TSS_UINT16_Marshal (TPMS_NV_CERTIFY_INFO_offset source)) (
     TSS_TPM2B_MAX_NV_BUFFER_Marshal (TPMS_NV_CERTIFY_INFO_nvContents source)))"

definition TSS_TPMI_ST_ATTEST_Marshal :: "TPMI_ST_ATTEST \<Rightarrow> marshal" where
  "TSS_TPMI_ST_ATTEST_Marshal source = TSS_TPM_ST_Marshal source"

definition TSS_TPMU_ATTEST_Marshal :: "TPMU_ATTEST \<Rightarrow> UINT32 \<Rightarrow> marshal" where
  "TSS_TPMU_ATTEST_Marshal source selector =
    (if selector = TPM_ST_ATTEST_CERTIFY then (case source of TPMU_ATTEST_certify x \<Rightarrow> TSS_TPMS_CERTIFY_INFO_Marshal x | _ \<Rightarrow> m_bad)
     else if selector = TPM_ST_ATTEST_CREATION then (case source of TPMU_ATTEST_creation x \<Rightarrow> TSS_TPMS_CREATION_INFO_Marshal x | _ \<Rightarrow> m_bad)
     else if selector = TPM_ST_ATTEST_QUOTE then (case source of TPMU_ATTEST_quote x \<Rightarrow> TSS_TPMS_QUOTE_INFO_Marshal x | _ \<Rightarrow> m_bad)
     else if selector = TPM_ST_ATTEST_COMMAND_AUDIT then (case source of TPMU_ATTEST_commandAudit x \<Rightarrow> TSS_TPMS_COMMAND_AUDIT_INFO_Marshal x | _ \<Rightarrow> m_bad)
     else if selector = TPM_ST_ATTEST_SESSION_AUDIT then (case source of TPMU_ATTEST_sessionAudit x \<Rightarrow> TSS_TPMS_SESSION_AUDIT_INFO_Marshal x | _ \<Rightarrow> m_bad)
     else if selector = TPM_ST_ATTEST_TIME then (case source of TPMU_ATTEST_time x \<Rightarrow> TSS_TPMS_TIME_ATTEST_INFO_Marshal x | _ \<Rightarrow> m_bad)
     else if selector = TPM_ST_ATTEST_NV then (case source of TPMU_ATTEST_nv x \<Rightarrow> TSS_TPMS_NV_CERTIFY_INFO_Marshal x | _ \<Rightarrow> m_bad)
     else m_fail TPM_RC_SELECTOR)"

definition TSS_TPMS_ATTEST_Marshal :: "TPMS_ATTEST \<Rightarrow> marshal" where
  "TSS_TPMS_ATTEST_Marshal source =
     m_then (TSS_TPM_GENERATED_Marshal (TPMS_ATTEST_magic source)) (
     m_then (TSS_TPMI_ST_ATTEST_Marshal (TPMS_ATTEST_type source)) (
     m_then (TSS_TPM2B_NAME_Marshal (TPMS_ATTEST_qualifiedSigner source)) (
     m_then (TSS_TPM2B_DATA_Marshal (TPMS_ATTEST_extraData source)) (
     m_then (TSS_TPMS_CLOCK_INFO_Marshal (TPMS_ATTEST_clockInfo source)) (
     m_then (TSS_UINT64_Marshal (TPMS_ATTEST_firmwareVersion source)) (
     TSS_TPMU_ATTEST_Marshal (TPMS_ATTEST_attested source) (ucast (TPMS_ATTEST_type source))))))))"

definition TSS_TPM2B_ATTEST_Marshal :: "TPM2B_ATTEST \<Rightarrow> marshal" where
  "TSS_TPM2B_ATTEST_Marshal source = TSS_TPM2B_Marshal source"

definition TSS_TPMS_AUTH_COMMAND_Marshal :: "TPMS_AUTH_COMMAND \<Rightarrow> marshal" where
  "TSS_TPMS_AUTH_COMMAND_Marshal source =
     m_then (TSS_TPMI_SH_AUTH_SESSION_Marshal (TPMS_AUTH_COMMAND_sessionHandle source)) (
     m_then (TSS_TPM2B_NONCE_Marshal (TPMS_AUTH_COMMAND_nonce source)) (
     m_then (TSS_TPMA_SESSION_Marshal (TPMS_AUTH_COMMAND_sessionAttributes source)) (
     TSS_TPM2B_AUTH_Marshal (TPMS_AUTH_COMMAND_hmac source))))"

section \<open>Algorithm parameters and schemes\<close>

definition TSS_TPMI_AES_KEY_BITS_Marshal :: "TPMI_AES_KEY_BITS \<Rightarrow> marshal" where
  "TSS_TPMI_AES_KEY_BITS_Marshal source = TSS_TPM_KEY_BITS_Marshal source"

definition TSS_TPMU_SYM_KEY_BITS_Marshal :: "TPMU_SYM_KEY_BITS \<Rightarrow> UINT32 \<Rightarrow> marshal" where
  "TSS_TPMU_SYM_KEY_BITS_Marshal source selector =
    (if selector = TPM_ALG_AES then (case source of TPMU_SYM_KEY_BITS_aes x \<Rightarrow> TSS_TPMI_AES_KEY_BITS_Marshal x | _ \<Rightarrow> m_bad)
     else if selector = TPM_ALG_XOR then (case source of TPMU_SYM_KEY_BITS_xorr x \<Rightarrow> TSS_TPMI_ALG_HASH_Marshal x | _ \<Rightarrow> m_bad)
     else if selector = TPM_ALG_NULL then m_done
     else m_done)"

definition TSS_TPMU_SYM_MODE_Marshal :: "TPMU_SYM_MODE \<Rightarrow> UINT32 \<Rightarrow> marshal" where
  "TSS_TPMU_SYM_MODE_Marshal source selector =
    (if selector = TPM_ALG_AES then (case source of TPMU_SYM_MODE_aes x \<Rightarrow> TSS_TPMI_ALG_SYM_MODE_Marshal x | _ \<Rightarrow> m_bad)
     else if selector = TPM_ALG_XOR \<or> selector = TPM_ALG_NULL then m_done
     else m_fail TPM_RC_SELECTOR)"

definition TSS_TPMT_SYM_DEF_Marshal :: "TPMT_SYM_DEF \<Rightarrow> marshal" where
  "TSS_TPMT_SYM_DEF_Marshal source =
     m_then (TSS_TPMI_ALG_SYM_Marshal (TPMT_SYM_DEF_algorithm source)) (
     m_then (TSS_TPMU_SYM_KEY_BITS_Marshal (TPMT_SYM_DEF_keyBits source) (ucast (TPMT_SYM_DEF_algorithm source))) (
     TSS_TPMU_SYM_MODE_Marshal (TPMT_SYM_DEF_mode source) (ucast (TPMT_SYM_DEF_algorithm source))))"

definition TSS_TPMT_SYM_DEF_OBJECT_Marshal :: "TPMT_SYM_DEF_OBJECT \<Rightarrow> marshal" where
  "TSS_TPMT_SYM_DEF_OBJECT_Marshal source =
     m_then (TSS_TPMI_ALG_SYM_OBJECT_Marshal (TPMT_SYM_DEF_OBJECT_algorithm source)) (
     m_then (TSS_TPMU_SYM_KEY_BITS_Marshal (TPMT_SYM_DEF_OBJECT_keyBits source) (ucast (TPMT_SYM_DEF_OBJECT_algorithm source))) (
     TSS_TPMU_SYM_MODE_Marshal (TPMT_SYM_DEF_OBJECT_mode source) (ucast (TPMT_SYM_DEF_OBJECT_algorithm source))))"

definition TSS_TPM2B_SYM_KEY_Marshal :: "TPM2B_SYM_KEY \<Rightarrow> marshal" where
  "TSS_TPM2B_SYM_KEY_Marshal source = TSS_TPM2B_Marshal source"

definition TSS_TPMS_SYMCIPHER_PARMS_Marshal :: "TPMS_SYMCIPHER_PARMS \<Rightarrow> marshal" where
  "TSS_TPMS_SYMCIPHER_PARMS_Marshal source = TSS_TPMT_SYM_DEF_OBJECT_Marshal (TPMS_SYMCIPHER_PARMS_sym source)"

definition TSS_TPM2B_SENSITIVE_DATA_Marshal :: "TPM2B_SENSITIVE_DATA \<Rightarrow> marshal" where
  "TSS_TPM2B_SENSITIVE_DATA_Marshal source = TSS_TPM2B_Marshal source"

definition TSS_TPMS_SENSITIVE_CREATE_Marshal :: "TPMS_SENSITIVE_CREATE \<Rightarrow> marshal" where
  "TSS_TPMS_SENSITIVE_CREATE_Marshal source =
     m_then (TSS_TPM2B_AUTH_Marshal (TPMS_SENSITIVE_CREATE_userAuth source)) (
     TSS_TPM2B_SENSITIVE_DATA_Marshal (TPMS_SENSITIVE_CREATE_data source))"

definition TSS_TPM2B_SENSITIVE_CREATE_Marshal :: "TPM2B_SENSITIVE_CREATE \<Rightarrow> marshal" where
  "TSS_TPM2B_SENSITIVE_CREATE_Marshal source = m_sized 2 (TSS_TPMS_SENSITIVE_CREATE_Marshal (TPM2B_SENSITIVE_CREATE_sensitive source))"

definition TSS_TPMS_SCHEME_HASH_Marshal :: "TPMS_SCHEME_HASH \<Rightarrow> marshal" where
  "TSS_TPMS_SCHEME_HASH_Marshal source = TSS_TPMI_ALG_HASH_Marshal (TPMS_SCHEME_HASH_hashAlg source)"

definition TSS_TPMS_SCHEME_ECDAA_Marshal :: "TPMS_SCHEME_ECDAA \<Rightarrow> marshal" where
  "TSS_TPMS_SCHEME_ECDAA_Marshal source =
     m_then (TSS_TPMI_ALG_HASH_Marshal (TPMS_SCHEME_ECDAA_hashAlg source)) (
     TSS_UINT16_Marshal (TPMS_SCHEME_ECDAA_count source))"

definition TSS_TPMI_ALG_KEYEDHASH_SCHEME_Marshal :: "TPMI_ALG_KEYEDHASH_SCHEME \<Rightarrow> marshal" where
  "TSS_TPMI_ALG_KEYEDHASH_SCHEME_Marshal source = TSS_TPM_ALG_ID_Marshal source"

definition TSS_TPMS_SCHEME_HMAC_Marshal :: "TPMS_SCHEME_HMAC \<Rightarrow> marshal" where
  "TSS_TPMS_SCHEME_HMAC_Marshal source = TSS_TPMS_SCHEME_HASH_Marshal source"

definition TSS_TPMS_SCHEME_XOR_Marshal :: "TPMS_SCHEME_XOR \<Rightarrow> marshal" where
  "TSS_TPMS_SCHEME_XOR_Marshal source =
     m_then (TSS_TPMI_ALG_HASH_Marshal (TPMS_SCHEME_XOR_hashAlg source)) (
     TSS_TPMI_ALG_KDF_Marshal (TPMS_SCHEME_XOR_kdf source))"

definition TSS_TPMU_SCHEME_KEYEDHASH_Marshal :: "TPMU_SCHEME_KEYEDHASH \<Rightarrow> UINT32 \<Rightarrow> marshal" where
  "TSS_TPMU_SCHEME_KEYEDHASH_Marshal source selector =
    (if selector = TPM_ALG_HMAC then (case source of TPMU_SCHEME_KEYEDHASH_hmac x \<Rightarrow> TSS_TPMS_SCHEME_HMAC_Marshal x | _ \<Rightarrow> m_bad)
     else if selector = TPM_ALG_XOR then (case source of TPMU_SCHEME_KEYEDHASH_xorr x \<Rightarrow> TSS_TPMS_SCHEME_XOR_Marshal x | _ \<Rightarrow> m_bad)
     else if selector = TPM_ALG_NULL then m_done
     else m_fail TPM_RC_SELECTOR)"

definition TSS_TPMT_KEYEDHASH_SCHEME_Marshal :: "TPMT_KEYEDHASH_SCHEME \<Rightarrow> marshal" where
  "TSS_TPMT_KEYEDHASH_SCHEME_Marshal source =
     m_then (TSS_TPMI_ALG_KEYEDHASH_SCHEME_Marshal (TPMT_KEYEDHASH_SCHEME_scheme source)) (
     TSS_TPMU_SCHEME_KEYEDHASH_Marshal (TPMT_KEYEDHASH_SCHEME_details source) (ucast (TPMT_KEYEDHASH_SCHEME_scheme source)))"

definition TSS_TPMS_SIG_SCHEME_RSASSA_Marshal :: "TPMS_SIG_SCHEME_RSASSA \<Rightarrow> marshal" where
  "TSS_TPMS_SIG_SCHEME_RSASSA_Marshal source = TSS_TPMS_SCHEME_HASH_Marshal source"

definition TSS_TPMS_SIG_SCHEME_RSAPSS_Marshal :: "TPMS_SIG_SCHEME_RSAPSS \<Rightarrow> marshal" where
  "TSS_TPMS_SIG_SCHEME_RSAPSS_Marshal source = TSS_TPMS_SCHEME_HASH_Marshal source"

definition TSS_TPMS_SIG_SCHEME_ECDSA_Marshal :: "TPMS_SIG_SCHEME_ECDSA \<Rightarrow> marshal" where
  "TSS_TPMS_SIG_SCHEME_ECDSA_Marshal source = TSS_TPMS_SCHEME_HASH_Marshal source"

definition TSS_TPMS_SIG_SCHEME_SM2_Marshal :: "TPMS_SIG_SCHEME_SM2 \<Rightarrow> marshal" where
  "TSS_TPMS_SIG_SCHEME_SM2_Marshal source = TSS_TPMS_SCHEME_HASH_Marshal source"

definition TSS_TPMS_SIG_SCHEME_ECSCHNORR_Marshal :: "TPMS_SIG_SCHEME_ECSCHNORR \<Rightarrow> marshal" where
  "TSS_TPMS_SIG_SCHEME_ECSCHNORR_Marshal source = TSS_TPMS_SCHEME_HASH_Marshal source"

definition TSS_TPMS_SIG_SCHEME_ECDAA_Marshal :: "TPMS_SIG_SCHEME_ECDAA \<Rightarrow> marshal" where
  "TSS_TPMS_SIG_SCHEME_ECDAA_Marshal source = TSS_TPMS_SCHEME_ECDAA_Marshal source"

definition TSS_TPMU_SIG_SCHEME_Marshal :: "TPMU_SIG_SCHEME \<Rightarrow> UINT32 \<Rightarrow> marshal" where
  "TSS_TPMU_SIG_SCHEME_Marshal source selector =
    (if selector = TPM_ALG_RSASSA then (case source of TPMU_SIG_SCHEME_rsassa x \<Rightarrow> TSS_TPMS_SIG_SCHEME_RSASSA_Marshal x | _ \<Rightarrow> m_bad)
     else if selector = TPM_ALG_RSAPSS then (case source of TPMU_SIG_SCHEME_rsapss x \<Rightarrow> TSS_TPMS_SIG_SCHEME_RSAPSS_Marshal x | _ \<Rightarrow> m_bad)
     else if selector = TPM_ALG_ECDSA then (case source of TPMU_SIG_SCHEME_ecdsa x \<Rightarrow> TSS_TPMS_SIG_SCHEME_ECDSA_Marshal x | _ \<Rightarrow> m_bad)
     else if selector = TPM_ALG_ECDAA then (case source of TPMU_SIG_SCHEME_ecdaa x \<Rightarrow> TSS_TPMS_SIG_SCHEME_ECDAA_Marshal x | _ \<Rightarrow> m_bad)
     else if selector = TPM_ALG_SM2 then (case source of TPMU_SIG_SCHEME_sm2 x \<Rightarrow> TSS_TPMS_SIG_SCHEME_SM2_Marshal x | _ \<Rightarrow> m_bad)
     else if selector = TPM_ALG_ECSCHNORR then (case source of TPMU_SIG_SCHEME_ecSchnorr x \<Rightarrow> TSS_TPMS_SIG_SCHEME_ECSCHNORR_Marshal x | _ \<Rightarrow> m_bad)
     else if selector = TPM_ALG_HMAC then (case source of TPMU_SIG_SCHEME_hmac x \<Rightarrow> TSS_TPMS_SCHEME_HMAC_Marshal x | _ \<Rightarrow> m_bad)
     else if selector = TPM_ALG_NULL then m_done
     else m_fail TPM_RC_SELECTOR)"

definition TSS_TPMT_SIG_SCHEME_Marshal :: "TPMT_SIG_SCHEME \<Rightarrow> marshal" where
  "TSS_TPMT_SIG_SCHEME_Marshal source =
     m_then (TSS_TPMI_ALG_SIG_SCHEME_Marshal (TPMT_SIG_SCHEME_scheme source)) (
     TSS_TPMU_SIG_SCHEME_Marshal (TPMT_SIG_SCHEME_details source) (ucast (TPMT_SIG_SCHEME_scheme source)))"

definition TSS_TPMS_ENC_SCHEME_OAEP_Marshal :: "TPMS_ENC_SCHEME_OAEP \<Rightarrow> marshal" where
  "TSS_TPMS_ENC_SCHEME_OAEP_Marshal source = TSS_TPMS_SCHEME_HASH_Marshal source"

definition TSS_TPMS_ENC_SCHEME_RSAES_Marshal :: "TPMS_ENC_SCHEME_RSAES \<Rightarrow> marshal" where
  "TSS_TPMS_ENC_SCHEME_RSAES_Marshal source = m_done"

definition TSS_TPMS_KEY_SCHEME_ECDH_Marshal :: "TPMS_KEY_SCHEME_ECDH \<Rightarrow> marshal" where
  "TSS_TPMS_KEY_SCHEME_ECDH_Marshal source = TSS_TPMS_SCHEME_HASH_Marshal source"

definition TSS_TPMS_KEY_SCHEME_ECMQV_Marshal :: "TPMS_KEY_SCHEME_ECMQV \<Rightarrow> marshal" where
  "TSS_TPMS_KEY_SCHEME_ECMQV_Marshal source = TSS_TPMS_SCHEME_HASH_Marshal source"

definition TSS_TPMS_SCHEME_MGF1_Marshal :: "TPMS_SCHEME_MGF1 \<Rightarrow> marshal" where
  "TSS_TPMS_SCHEME_MGF1_Marshal source = TSS_TPMS_SCHEME_HASH_Marshal source"

definition TSS_TPMS_SCHEME_KDF1_SP800_56A_Marshal :: "TPMS_SCHEME_KDF1_SP800_56A \<Rightarrow> marshal" where
  "TSS_TPMS_SCHEME_KDF1_SP800_56A_Marshal source = TSS_TPMS_SCHEME_HASH_Marshal source"

definition TSS_TPMS_SCHEME_KDF2_Marshal :: "TPMS_SCHEME_KDF2 \<Rightarrow> marshal" where
  "TSS_TPMS_SCHEME_KDF2_Marshal source = TSS_TPMS_SCHEME_HASH_Marshal source"

definition TSS_TPMS_SCHEME_KDF1_SP800_108_Marshal :: "TPMS_SCHEME_KDF1_SP800_108 \<Rightarrow> marshal" where
  "TSS_TPMS_SCHEME_KDF1_SP800_108_Marshal source = TSS_TPMS_SCHEME_HASH_Marshal source"

definition TSS_TPMU_KDF_SCHEME_Marshal :: "TPMU_KDF_SCHEME \<Rightarrow> UINT32 \<Rightarrow> marshal" where
  "TSS_TPMU_KDF_SCHEME_Marshal source selector =
    (if selector = TPM_ALG_MGF1 then (case source of TPMU_KDF_SCHEME_mgf1 x \<Rightarrow> TSS_TPMS_SCHEME_MGF1_Marshal x | _ \<Rightarrow> m_bad)
     else if selector = TPM_ALG_KDF1_SP800_56A then (case source of TPMU_KDF_SCHEME_kdf1_SP800_56a x \<Rightarrow> TSS_TPMS_SCHEME_KDF1_SP800_56A_Marshal x | _ \<Rightarrow> m_bad)
     else if selector = TPM_ALG_KDF1_SP800_108 then (case source of TPMU_KDF_SCHEME_kdf1_sp800_108 x \<Rightarrow> TSS_TPMS_SCHEME_KDF1_SP800_108_Marshal x | _ \<Rightarrow> m_bad)
     else if selector = TPM_ALG_NULL then m_done
     else m_fail TPM_RC_SELECTOR)"

definition TSS_TPMT_KDF_SCHEME_Marshal :: "TPMT_KDF_SCHEME \<Rightarrow> marshal" where
  "TSS_TPMT_KDF_SCHEME_Marshal source =
     m_then (TSS_TPMI_ALG_KDF_Marshal (TPMT_KDF_SCHEME_scheme source)) (
     TSS_TPMU_KDF_SCHEME_Marshal (TPMT_KDF_SCHEME_details source) (ucast (TPMT_KDF_SCHEME_scheme source)))"

definition TSS_TPMU_ASYM_SCHEME_Marshal :: "TPMU_ASYM_SCHEME \<Rightarrow> UINT32 \<Rightarrow> marshal" where
  "TSS_TPMU_ASYM_SCHEME_Marshal source selector =
    (if selector = TPM_ALG_ECDH then (case source of TPMU_ASYM_SCHEME_ecdh x \<Rightarrow> TSS_TPMS_KEY_SCHEME_ECDH_Marshal x | _ \<Rightarrow> m_bad)
     else if selector = TPM_ALG_RSASSA then (case source of TPMU_ASYM_SCHEME_rsassa x \<Rightarrow> TSS_TPMS_SIG_SCHEME_RSASSA_Marshal x | _ \<Rightarrow> m_bad)
     else if selector = TPM_ALG_RSAPSS then (case source of TPMU_ASYM_SCHEME_rsapss x \<Rightarrow> TSS_TPMS_SIG_SCHEME_RSAPSS_Marshal x | _ \<Rightarrow> m_bad)
     else if selector = TPM_ALG_ECDSA then (case source of TPMU_ASYM_SCHEME_ecdsa x \<Rightarrow> TSS_TPMS_SIG_SCHEME_ECDSA_Marshal x | _ \<Rightarrow> m_bad)
     else if selector = TPM_ALG_ECDAA then (case source of TPMU_ASYM_SCHEME_ecdaa x \<Rightarrow> TSS_TPMS_SIG_SCHEME_ECDAA_Marshal x | _ \<Rightarrow> m_bad)
     else if selector = TPM_ALG_SM2 then (case source of TPMU_ASYM_SCHEME_sm2 x \<Rightarrow> TSS_TPMS_SIG_SCHEME_SM2_Marshal x | _ \<Rightarrow> m_bad)
     else if selector = TPM_ALG_ECSCHNORR then (case source of TPMU_ASYM_SCHEME_ecSchnorr x \<Rightarrow> TSS_TPMS_SIG_SCHEME_ECSCHNORR_Marshal x | _ \<Rightarrow> m_bad)
     else if selector = TPM_ALG_RSAES then (case source of TPMU_ASYM_SCHEME_rsaes x \<Rightarrow> TSS_TPMS_ENC_SCHEME_RSAES_Marshal x | _ \<Rightarrow> m_bad)
     else if selector = TPM_ALG_OAEP then (case source of TPMU_ASYM_SCHEME_oaep x \<Rightarrow> TSS_TPMS_ENC_SCHEME_OAEP_Marshal x | _ \<Rightarrow> m_bad)
     else if selector = TPM_ALG_NULL then m_done
     else m_fail TPM_RC_SELECTOR)"

definition TSS_TPMI_ALG_RSA_SCHEME_Marshal :: "TPMI_ALG_RSA_SCHEME \<Rightarrow> marshal" where
  "TSS_TPMI_ALG_RSA_SCHEME_Marshal source = TSS_TPM_ALG_ID_Marshal source"

definition TSS_TPMT_RSA_SCHEME_Marshal :: "TPMT_RSA_SCHEME \<Rightarrow> marshal" where
  "TSS_TPMT_RSA_SCHEME_Marshal source =
     m_then (TSS_TPMI_ALG_RSA_SCHEME_Marshal (TPMT_RSA_SCHEME_scheme source)) (
     TSS_TPMU_ASYM_SCHEME_Marshal (TPMT_RSA_SCHEME_details source) (ucast (TPMT_RSA_SCHEME_scheme source)))"

definition TSS_TPMI_ALG_RSA_DECRYPT_Marshal :: "TPMI_ALG_RSA_DECRYPT \<Rightarrow> marshal" where
  "TSS_TPMI_ALG_RSA_DECRYPT_Marshal source = TSS_TPM_ALG_ID_Marshal source"

definition TSS_TPMT_RSA_DECRYPT_Marshal :: "TPMT_RSA_DECRYPT \<Rightarrow> marshal" where
  "TSS_TPMT_RSA_DECRYPT_Marshal source =
     m_then (TSS_TPMI_ALG_RSA_DECRYPT_Marshal (TPMT_RSA_DECRYPT_scheme source)) (
     TSS_TPMU_ASYM_SCHEME_Marshal (TPMT_RSA_DECRYPT_details source) (ucast (TPMT_RSA_DECRYPT_scheme source)))"

definition TSS_TPM2B_PUBLIC_KEY_RSA_Marshal :: "TPM2B_PUBLIC_KEY_RSA \<Rightarrow> marshal" where
  "TSS_TPM2B_PUBLIC_KEY_RSA_Marshal source = TSS_TPM2B_Marshal source"

definition TSS_TPMI_RSA_KEY_BITS_Marshal :: "TPMI_RSA_KEY_BITS \<Rightarrow> marshal" where
  "TSS_TPMI_RSA_KEY_BITS_Marshal source = TSS_TPM_KEY_BITS_Marshal source"

definition TSS_TPM2B_PRIVATE_KEY_RSA_Marshal :: "TPM2B_PRIVATE_KEY_RSA \<Rightarrow> marshal" where
  "TSS_TPM2B_PRIVATE_KEY_RSA_Marshal source = TSS_TPM2B_Marshal source"

definition TSS_TPM2B_ECC_PARAMETER_Marshal :: "TPM2B_ECC_PARAMETER \<Rightarrow> marshal" where
  "TSS_TPM2B_ECC_PARAMETER_Marshal source = TSS_TPM2B_Marshal source"

definition TSS_TPMS_ECC_POINT_Marshal :: "TPMS_ECC_POINT \<Rightarrow> marshal" where
  "TSS_TPMS_ECC_POINT_Marshal source =
     m_then (TSS_TPM2B_ECC_PARAMETER_Marshal (TPMS_ECC_POINT_x source)) (
     TSS_TPM2B_ECC_PARAMETER_Marshal (TPMS_ECC_POINT_y source))"

definition TSS_TPM2B_ECC_POINT_Marshal :: "TPM2B_ECC_POINT \<Rightarrow> marshal" where
  "TSS_TPM2B_ECC_POINT_Marshal source = m_sized 2 (TSS_TPMS_ECC_POINT_Marshal (TPM2B_ECC_POINT_point source))"

definition TSS_TPMI_ALG_ECC_SCHEME_Marshal :: "TPMI_ALG_ECC_SCHEME \<Rightarrow> marshal" where
  "TSS_TPMI_ALG_ECC_SCHEME_Marshal source = TSS_TPM_ALG_ID_Marshal source"

definition TSS_TPMI_ECC_CURVE_Marshal :: "TPMI_ECC_CURVE \<Rightarrow> marshal" where
  "TSS_TPMI_ECC_CURVE_Marshal source = TSS_TPM_ECC_CURVE_Marshal source"

definition TSS_TPMT_ECC_SCHEME_Marshal :: "TPMT_ECC_SCHEME \<Rightarrow> marshal" where
  "TSS_TPMT_ECC_SCHEME_Marshal source =
     m_then (TSS_TPMI_ALG_ECC_SCHEME_Marshal (TPMT_ECC_SCHEME_scheme source)) (
     TSS_TPMU_ASYM_SCHEME_Marshal (TPMT_ECC_SCHEME_details source) (ucast (TPMT_ECC_SCHEME_scheme source)))"

definition TSS_TPMS_ALGORITHM_DETAIL_ECC_Marshal :: "TPMS_ALGORITHM_DETAIL_ECC \<Rightarrow> marshal" where
  "TSS_TPMS_ALGORITHM_DETAIL_ECC_Marshal source =
     m_then (TSS_TPM_ECC_CURVE_Marshal (TPMS_ALGORITHM_DETAIL_ECC_curveID source)) (
     m_then (TSS_UINT16_Marshal (TPMS_ALGORITHM_DETAIL_ECC_keySize source)) (
     m_then (TSS_TPMT_KDF_SCHEME_Marshal (TPMS_ALGORITHM_DETAIL_ECC_kdf source)) (
     m_then (TSS_TPMT_ECC_SCHEME_Marshal (TPMS_ALGORITHM_DETAIL_ECC_sign source)) (
     m_then (TSS_TPM2B_ECC_PARAMETER_Marshal (TPMS_ALGORITHM_DETAIL_ECC_p source)) (
     m_then (TSS_TPM2B_ECC_PARAMETER_Marshal (TPMS_ALGORITHM_DETAIL_ECC_a source)) (
     m_then (TSS_TPM2B_ECC_PARAMETER_Marshal (TPMS_ALGORITHM_DETAIL_ECC_b source)) (
     m_then (TSS_TPM2B_ECC_PARAMETER_Marshal (TPMS_ALGORITHM_DETAIL_ECC_gX source)) (
     m_then (TSS_TPM2B_ECC_PARAMETER_Marshal (TPMS_ALGORITHM_DETAIL_ECC_gY source)) (
     m_then (TSS_TPM2B_ECC_PARAMETER_Marshal (TPMS_ALGORITHM_DETAIL_ECC_n source)) (
     TSS_TPM2B_ECC_PARAMETER_Marshal (TPMS_ALGORITHM_DETAIL_ECC_h source)))))))))))"

section \<open>Signatures\<close>

definition TSS_TPMS_SIGNATURE_RSA_Marshal :: "TPMS_SIGNATURE_RSA \<Rightarrow> marshal" where
  "TSS_TPMS_SIGNATURE_RSA_Marshal source =
     m_then (TSS_TPMI_ALG_HASH_Marshal (TPMS_SIGNATURE_RSA_hash source)) (
     TSS_TPM2B_PUBLIC_KEY_RSA_Marshal (TPMS_SIGNATURE_RSA_sig source))"

definition TSS_TPMS_SIGNATURE_RSASSA_Marshal :: "TPMS_SIGNATURE_RSASSA \<Rightarrow> marshal" where
  "TSS_TPMS_SIGNATURE_RSASSA_Marshal source = TSS_TPMS_SIGNATURE_RSA_Marshal source"

definition TSS_TPMS_SIGNATURE_RSAPSS_Marshal :: "TPMS_SIGNATURE_RSAPSS \<Rightarrow> marshal" where
  "TSS_TPMS_SIGNATURE_RSAPSS_Marshal source = TSS_TPMS_SIGNATURE_RSA_Marshal source"

definition TSS_TPMS_SIGNATURE_ECC_Marshal :: "TPMS_SIGNATURE_ECC \<Rightarrow> marshal" where
  "TSS_TPMS_SIGNATURE_ECC_Marshal source =
     m_then (TSS_TPMI_ALG_HASH_Marshal (TPMS_SIGNATURE_ECC_hash source)) (
     m_then (TSS_TPM2B_ECC_PARAMETER_Marshal (TPMS_SIGNATURE_ECC_signatureR source)) (
     TSS_TPM2B_ECC_PARAMETER_Marshal (TPMS_SIGNATURE_ECC_signatureS source)))"

definition TSS_TPMS_SIGNATURE_ECDSA_Marshal :: "TPMS_SIGNATURE_ECDSA \<Rightarrow> marshal" where
  "TSS_TPMS_SIGNATURE_ECDSA_Marshal source = TSS_TPMS_SIGNATURE_ECC_Marshal source"

definition TSS_TPMS_SIGNATURE_ECDAA_Marshal :: "TPMS_SIGNATURE_ECDAA \<Rightarrow> marshal" where
  "TSS_TPMS_SIGNATURE_ECDAA_Marshal source = TSS_TPMS_SIGNATURE_ECC_Marshal source"

definition TSS_TPMS_SIGNATURE_SM2_Marshal :: "TPMS_SIGNATURE_SM2 \<Rightarrow> marshal" where
  "TSS_TPMS_SIGNATURE_SM2_Marshal source = TSS_TPMS_SIGNATURE_ECC_Marshal source"

definition TSS_TPMS_SIGNATURE_ECSCHNORR_Marshal :: "TPMS_SIGNATURE_ECSCHNORR \<Rightarrow> marshal" where
  "TSS_TPMS_SIGNATURE_ECSCHNORR_Marshal source = TSS_TPMS_SIGNATURE_ECC_Marshal source"

definition TSS_TPMU_SIGNATURE_Marshal :: "TPMU_SIGNATURE \<Rightarrow> UINT32 \<Rightarrow> marshal" where
  "TSS_TPMU_SIGNATURE_Marshal source selector =
    (if selector = TPM_ALG_RSASSA then (case source of TPMU_SIGNATURE_rsassa x \<Rightarrow> TSS_TPMS_SIGNATURE_RSASSA_Marshal x | _ \<Rightarrow> m_bad)
     else if selector = TPM_ALG_RSAPSS then (case source of TPMU_SIGNATURE_rsapss x \<Rightarrow> TSS_TPMS_SIGNATURE_RSAPSS_Marshal x | _ \<Rightarrow> m_bad)
     else if selector = TPM_ALG_ECDSA then (case source of TPMU_SIGNATURE_ecdsa x \<Rightarrow> TSS_TPMS_SIGNATURE_ECDSA_Marshal x | _ \<Rightarrow> m_bad)
     else if selector = TPM_ALG_ECDAA then (case source of TPMU_SIGNATURE_ecdaa x \<Rightarrow> TSS_TPMS_SIGNATURE_ECDSA_Marshal x | _ \<Rightarrow> m_bad)
     else if selector = TPM_ALG_SM2 then (case source of TPMU_SIGNATURE_sm2 x \<Rightarrow> TSS_TPMS_SIGNATURE_ECDSA_Marshal x | _ \<Rightarrow> m_bad)
     else if selector = TPM_ALG_ECSCHNORR then (case source of TPMU_SIGNATURE_ecschnorr x \<Rightarrow> TSS_TPMS_SIGNATURE_ECDSA_Marshal x | _ \<Rightarrow> m_bad)
     else if selector = TPM_ALG_HMAC then (case source of TPMU_SIGNATURE_hmac x \<Rightarrow> TSS_TPMT_HA_Marshal x | _ \<Rightarrow> m_bad)
     else if selector = TPM_ALG_NULL then m_done
     else m_fail TPM_RC_SELECTOR)"

definition TSS_TPMT_SIGNATURE_Marshal :: "TPMT_SIGNATURE \<Rightarrow> marshal" where
  "TSS_TPMT_SIGNATURE_Marshal source =
     m_then (TSS_TPMI_ALG_SIG_SCHEME_Marshal (TPMT_SIGNATURE_sigAlg source)) (
     TSS_TPMU_SIGNATURE_Marshal (TPMT_SIGNATURE_signature source) (ucast (TPMT_SIGNATURE_sigAlg source)))"

definition TSS_TPM2B_ENCRYPTED_SECRET_Marshal :: "TPM2B_ENCRYPTED_SECRET \<Rightarrow> marshal" where
  "TSS_TPM2B_ENCRYPTED_SECRET_Marshal source = TSS_TPM2B_Marshal source"

section \<open>Objects\<close>

definition TSS_TPMI_ALG_PUBLIC_Marshal :: "TPMI_ALG_PUBLIC \<Rightarrow> marshal" where
  "TSS_TPMI_ALG_PUBLIC_Marshal source = TSS_TPM_ALG_ID_Marshal source"

definition TSS_TPMU_PUBLIC_ID_Marshal :: "TPMU_PUBLIC_ID \<Rightarrow> UINT32 \<Rightarrow> marshal" where
  "TSS_TPMU_PUBLIC_ID_Marshal source selector =
    (if selector = TPM_ALG_KEYEDHASH then (case source of TPMU_PUBLIC_ID_keyedHash x \<Rightarrow> TSS_TPM2B_DIGEST_Marshal x | _ \<Rightarrow> m_bad)
     else if selector = TPM_ALG_SYMCIPHER then (case source of TPMU_PUBLIC_ID_sym x \<Rightarrow> TSS_TPM2B_DIGEST_Marshal x | _ \<Rightarrow> m_bad)
     else if selector = TPM_ALG_RSA then (case source of TPMU_PUBLIC_ID_rsa x \<Rightarrow> TSS_TPM2B_PUBLIC_KEY_RSA_Marshal x | _ \<Rightarrow> m_bad)
     else if selector = TPM_ALG_ECC then (case source of TPMU_PUBLIC_ID_ecc x \<Rightarrow> TSS_TPMS_ECC_POINT_Marshal x | _ \<Rightarrow> m_bad)
     else m_fail TPM_RC_SELECTOR)"

definition TSS_TPMS_KEYEDHASH_PARMS_Marshal :: "TPMS_KEYEDHASH_PARMS \<Rightarrow> marshal" where
  "TSS_TPMS_KEYEDHASH_PARMS_Marshal source = TSS_TPMT_KEYEDHASH_SCHEME_Marshal (TPMS_KEYEDHASH_PARMS_scheme source)"

definition TSS_TPMS_RSA_PARMS_Marshal :: "TPMS_RSA_PARMS \<Rightarrow> marshal" where
  "TSS_TPMS_RSA_PARMS_Marshal source =
     m_then (TSS_TPMT_SYM_DEF_OBJECT_Marshal (TPMS_RSA_PARMS_symmetric source)) (
     m_then (TSS_TPMT_RSA_SCHEME_Marshal (TPMS_RSA_PARMS_scheme source)) (
     m_then (TSS_TPMI_RSA_KEY_BITS_Marshal (TPMS_RSA_PARMS_keyBits source)) (
     TSS_UINT32_Marshal (TPMS_RSA_PARMS_exponent source))))"

definition TSS_TPMS_ECC_PARMS_Marshal :: "TPMS_ECC_PARMS \<Rightarrow> marshal" where
  "TSS_TPMS_ECC_PARMS_Marshal source =
     m_then (TSS_TPMT_SYM_DEF_OBJECT_Marshal (TPMS_ECC_PARMS_symmetric source)) (
     m_then (TSS_TPMT_ECC_SCHEME_Marshal (TPMS_ECC_PARMS_scheme source)) (
     m_then (TSS_TPMI_ECC_CURVE_Marshal (TPMS_ECC_PARMS_curveID source)) (
     TSS_TPMT_KDF_SCHEME_Marshal (TPMS_ECC_PARMS_kdf source))))"

definition TSS_TPMU_PUBLIC_PARMS_Marshal :: "TPMU_PUBLIC_PARMS \<Rightarrow> UINT32 \<Rightarrow> marshal" where
  "TSS_TPMU_PUBLIC_PARMS_Marshal source selector =
    (if selector = TPM_ALG_KEYEDHASH then (case source of TPMU_PUBLIC_PARMS_keyedHashDetail x \<Rightarrow> TSS_TPMS_KEYEDHASH_PARMS_Marshal x | _ \<Rightarrow> m_bad)
     else if selector = TPM_ALG_SYMCIPHER then (case source of TPMU_PUBLIC_PARMS_symDetail x \<Rightarrow> TSS_TPMS_SYMCIPHER_PARMS_Marshal x | _ \<Rightarrow> m_bad)
     else if selector = TPM_ALG_RSA then (case source of TPMU_PUBLIC_PARMS_rsaDetail x \<Rightarrow> TSS_TPMS_RSA_PARMS_Marshal x | _ \<Rightarrow> m_bad)
     else if selector = TPM_ALG_ECC then (case source of TPMU_PUBLIC_PARMS_eccDetail x \<Rightarrow> TSS_TPMS_ECC_PARMS_Marshal x | _ \<Rightarrow> m_bad)
     else m_fail TPM_RC_SELECTOR)"

definition TSS_TPMT_PUBLIC_PARMS_Marshal :: "TPMT_PUBLIC_PARMS \<Rightarrow> marshal" where
  "TSS_TPMT_PUBLIC_PARMS_Marshal source =
     m_then (TSS_TPMI_ALG_PUBLIC_Marshal (TPMT_PUBLIC_PARMS_type source)) (
     TSS_TPMU_PUBLIC_PARMS_Marshal (TPMT_PUBLIC_PARMS_parameters source) (ucast (TPMT_PUBLIC_PARMS_type source)))"

definition TSS_TPMT_PUBLIC_Marshal :: "TPMT_PUBLIC \<Rightarrow> marshal" where
  "TSS_TPMT_PUBLIC_Marshal source =
     m_then (TSS_TPMI_ALG_PUBLIC_Marshal (TPMT_PUBLIC_type source)) (
     m_then (TSS_TPMI_ALG_HASH_Marshal (TPMT_PUBLIC_nameAlg source)) (
     m_then (TSS_TPMA_OBJECT_Marshal (TPMT_PUBLIC_objectAttributes source)) (
     m_then (TSS_TPM2B_DIGEST_Marshal (TPMT_PUBLIC_authPolicy source)) (
     m_then (TSS_TPMU_PUBLIC_PARMS_Marshal (TPMT_PUBLIC_parameters source) (ucast (TPMT_PUBLIC_type source))) (
     TSS_TPMU_PUBLIC_ID_Marshal (TPMT_PUBLIC_unique source) (ucast (TPMT_PUBLIC_type source)))))))"

definition TSS_TPM2B_PUBLIC_Marshal :: "TPM2B_PUBLIC \<Rightarrow> marshal" where
  "TSS_TPM2B_PUBLIC_Marshal source = m_sized 2 (TSS_TPMT_PUBLIC_Marshal (TPM2B_PUBLIC_publicArea source))"

definition TSS_TPMU_SENSITIVE_COMPOSITE_Marshal :: "TPMU_SENSITIVE_COMPOSITE \<Rightarrow> UINT32 \<Rightarrow> marshal" where
  "TSS_TPMU_SENSITIVE_COMPOSITE_Marshal source selector =
    (if selector = TPM_ALG_RSA then (case source of TPMU_SENSITIVE_COMPOSITE_rsa x \<Rightarrow> TSS_TPM2B_PRIVATE_KEY_RSA_Marshal x | _ \<Rightarrow> m_bad)
     else if selector = TPM_ALG_ECC then (case source of TPMU_SENSITIVE_COMPOSITE_ecc x \<Rightarrow> TSS_TPM2B_ECC_PARAMETER_Marshal x | _ \<Rightarrow> m_bad)
     else if selector = TPM_ALG_KEYEDHASH then (case source of TPMU_SENSITIVE_COMPOSITE_bits x \<Rightarrow> TSS_TPM2B_SENSITIVE_DATA_Marshal x | _ \<Rightarrow> m_bad)
     else if selector = TPM_ALG_SYMCIPHER then (case source of TPMU_SENSITIVE_COMPOSITE_sym x \<Rightarrow> TSS_TPM2B_SYM_KEY_Marshal x | _ \<Rightarrow> m_bad)
     else m_fail TPM_RC_SELECTOR)"

definition TSS_TPMT_SENSITIVE_Marshal :: "TPMT_SENSITIVE \<Rightarrow> marshal" where
  "TSS_TPMT_SENSITIVE_Marshal source =
     m_then (TSS_TPMI_ALG_PUBLIC_Marshal (TPMT_SENSITIVE_sensitiveType source)) (
     m_then (TSS_TPM2B_AUTH_Marshal (TPMT_SENSITIVE_authValue source)) (
     m_then (TSS_TPM2B_DIGEST_Marshal (TPMT_SENSITIVE_seedValue source)) (
     TSS_TPMU_SENSITIVE_COMPOSITE_Marshal (TPMT_SENSITIVE_sensitive source) (ucast (TPMT_SENSITIVE_sensitiveType source)))))"

definition TSS_TPM2B_SENSITIVE_Marshal :: "TPM2B_SENSITIVE \<Rightarrow> marshal" where
  "TSS_TPM2B_SENSITIVE_Marshal source =
     m_sized 2 (case TPM2B_SENSITIVE_sensitiveArea source of Some sensitiveArea \<Rightarrow> TSS_TPMT_SENSITIVE_Marshal sensitiveArea | None \<Rightarrow> m_bad)"

definition TSS_TPM2B_PRIVATE_Marshal :: "TPM2B_PRIVATE \<Rightarrow> marshal" where
  "TSS_TPM2B_PRIVATE_Marshal source = TSS_TPM2B_Marshal source"

definition TSS_TPM2B_ID_OBJECT_Marshal :: "TPM2B_ID_OBJECT \<Rightarrow> marshal" where
  "TSS_TPM2B_ID_OBJECT_Marshal source = TSS_TPM2B_Marshal source"

section \<open>NV indices, contexts and creation data\<close>

definition TSS_TPMA_NV_Marshal :: "TPMA_NV \<Rightarrow> marshal" where
  "TSS_TPMA_NV_Marshal source = TSS_UINT32_Marshal source"

definition TSS_TPMS_NV_PUBLIC_Marshal :: "TPMS_NV_PUBLIC \<Rightarrow> marshal" where
  "TSS_TPMS_NV_PUBLIC_Marshal source =
     m_then (TSS_TPMI_RH_NV_INDEX_Marshal (TPMS_NV_PUBLIC_nvIndex source)) (
     m_then (TSS_TPMI_ALG_HASH_Marshal (TPMS_NV_PUBLIC_nameAlg source)) (
     m_then (TSS_TPMA_NV_Marshal (TPMS_NV_PUBLIC_attributes source)) (
     m_then (TSS_TPM2B_DIGEST_Marshal (TPMS_NV_PUBLIC_authPolicy source)) (
     TSS_UINT16_Marshal (TPMS_NV_PUBLIC_dataSize source)))))"

definition TSS_TPM2B_NV_PUBLIC_Marshal :: "TPM2B_NV_PUBLIC \<Rightarrow> marshal" where
  "TSS_TPM2B_NV_PUBLIC_Marshal source = m_sized 2 (TSS_TPMS_NV_PUBLIC_Marshal (TPM2B_NV_PUBLIC_nvPublic source))"

definition TSS_TPM2B_CONTEXT_SENSITIVE_Marshal :: "TPM2B_CONTEXT_SENSITIVE \<Rightarrow> marshal" where
  "TSS_TPM2B_CONTEXT_SENSITIVE_Marshal source = TSS_TPM2B_Marshal source"

definition TSS_TPM2B_CONTEXT_DATA_Marshal :: "TPM2B_CONTEXT_DATA \<Rightarrow> marshal" where
  "TSS_TPM2B_CONTEXT_DATA_Marshal source = TSS_TPM2B_Marshal source"

definition TSS_TPMS_CONTEXT_Marshal :: "TPMS_CONTEXT \<Rightarrow> marshal" where
  "TSS_TPMS_CONTEXT_Marshal source =
     m_then (TSS_UINT64_Marshal (TPMS_CONTEXT_sequence source)) (
     m_then (TSS_TPMI_DH_CONTEXT_Marshal (TPMS_CONTEXT_savedHandle source)) (
     m_then (TSS_TPMI_RH_HIERARCHY_Marshal (TPMS_CONTEXT_hierarchy source)) (
     TSS_TPM2B_CONTEXT_DATA_Marshal (TPMS_CONTEXT_contextBlob source))))"

definition TSS_TPMS_CREATION_DATA_Marshal :: "TPMS_CREATION_DATA \<Rightarrow> marshal" where
  "TSS_TPMS_CREATION_DATA_Marshal source =
     m_then (TSS_TPML_PCR_SELECTION_Marshal (TPMS_CREATION_DATA_pcrSelect source)) (
     m_then (TSS_TPM2B_DIGEST_Marshal (TPMS_CREATION_DATA_pcrDigest source)) (
     m_then (TSS_TPMA_LOCALITY_Marshal (TPMS_CREATION_DATA_locality source)) (
     m_then (TSS_TPM_ALG_ID_Marshal (TPMS_CREATION_DATA_parentNameAlg source)) (
     m_then (TSS_TPM2B_NAME_Marshal (TPMS_CREATION_DATA_parentName source)) (
     m_then (TSS_TPM2B_NAME_Marshal (TPMS_CREATION_DATA_parentQualifiedName source)) (
     TSS_TPM2B_DATA_Marshal (TPMS_CREATION_DATA_outsideInfo source)))))))"

definition TSS_TPM2B_CREATION_DATA_Marshal :: "TPM2B_CREATION_DATA \<Rightarrow> marshal" where
  "TSS_TPM2B_CREATION_DATA_Marshal source = m_sized 0 (TSS_TPMS_CREATION_DATA_Marshal (TPM2B_CREATION_DATA_creationData source))"

end
