(* ===== verification/Tss_Codec.thy ===== *)
theory Tss_Codec
  imports Tss_Unmarshal Tss_Marshal
begin

text \<open>
  Both directions of every type agree: the function of \<^verbatim>\<open>Unmarshal.c\<close> and that of \<^verbatim>\<open>tssmarshal.c\<close> meet the
  contract \<^const>\<open>reads\<close>. The types for which they do not are left out here: \<open>TPMS_TAGGED_PCR_SELECT\<close> (and the
  capability structures that contain it), whose unmarshal function accepts sizes that its marshal function does not
  write, and \<open>TPM2B_CREATION_DATA\<close>, whose marshal function counts two bytes too few for a null buffer.
\<close>

section \<open>Constants of the interface\<close>

lemma TPM_KEY_BITS_codec [codec_intro]: "reads k [] TPM_KEY_BITS_Unmarshal TSS_TPM_KEY_BITS_Marshal"
  unfolding TPM_KEY_BITS_Unmarshal_def TSS_TPM_KEY_BITS_Marshal_def by (rule UINT16_codec)

lemma TPM_GENERATED_codec [codec_intro]: "reads k [] TPM_GENERATED_Unmarshal TSS_TPM_GENERATED_Marshal"
  unfolding TPM_GENERATED_Unmarshal_def TSS_TPM_GENERATED_Marshal_def
  by (intro reads_bind [OF UINT32_codec] reads_guard reads_return) simp_all

lemma TPM_ALG_ID_codec [codec_intro]: "reads k [] TPM_ALG_ID_Unmarshal TSS_TPM_ALG_ID_Marshal"
  unfolding TPM_ALG_ID_Unmarshal_def TSS_TPM_ALG_ID_Marshal_def by (rule UINT16_codec)

lemma TPM_ECC_CURVE_codec [codec_intro]: "reads k [] TPM_ECC_CURVE_Unmarshal TSS_TPM_ECC_CURVE_Marshal"
  unfolding TPM_ECC_CURVE_Unmarshal_def TSS_TPM_ECC_CURVE_Marshal_def
  by (intro reads_bind [OF UINT16_codec] reads_guard reads_return) simp_all

lemma TPM_CC_codec [codec_intro]: "reads k [] TPM_CC_Unmarshal TSS_TPM_CC_Marshal"
  unfolding TPM_CC_Unmarshal_def TSS_TPM_CC_Marshal_def by (rule UINT32_codec)

lemma TPM_RC_codec [codec_intro]: "reads k [] TPM_RC_Unmarshal TSS_TPM_RC_Marshal"
  unfolding TPM_RC_Unmarshal_def TSS_TPM_RC_Marshal_def by (rule UINT32_codec)

lemma TPM_CLOCK_ADJUST_codec [codec_intro]: "reads k [] TPM_CLOCK_ADJUST_Unmarshal TSS_TPM_CLOCK_ADJUST_Marshal"
  unfolding TPM_CLOCK_ADJUST_Unmarshal_def TSS_TPM_CLOCK_ADJUST_Marshal_def
  by (intro reads_bind [OF INT8_codec] reads_guard reads_return) simp_all

lemma TPM_EO_codec [codec_intro]: "reads k [] TPM_EO_Unmarshal TSS_TPM_EO_Marshal"
  unfolding TPM_EO_Unmarshal_def TSS_TPM_EO_Marshal_def
  by (intro reads_bind [OF UINT16_codec] reads_guard reads_return) simp_all

lemma TPM_ST_codec [codec_intro]: "reads k [] TPM_ST_Unmarshal TSS_TPM_ST_Marshal"
  unfolding TPM_ST_Unmarshal_def TSS_TPM_ST_Marshal_def
  by (intro reads_bind [OF UINT16_codec] reads_guard reads_return) simp_all

lemma TPM_SU_codec [codec_intro]: "reads k [] TPM_SU_Unmarshal TSS_TPM_SU_Marshal"
  unfolding TPM_SU_Unmarshal_def TSS_TPM_SU_Marshal_def
  by (intro reads_bind [OF UINT16_codec] reads_guard reads_return) simp_all

lemma TPM_SE_codec [codec_intro]: "reads k [] TPM_SE_Unmarshal TSS_TPM_SE_Marshal"
  unfolding TPM_SE_Unmarshal_def TSS_TPM_SE_Marshal_def
  by (intro reads_bind [OF UINT8_codec] reads_guard reads_return) simp_all

lemma TPM_CAP_codec [codec_intro]: "reads k [] TPM_CAP_Unmarshal TSS_TPM_CAP_Marshal"
  unfolding TPM_CAP_Unmarshal_def TSS_TPM_CAP_Marshal_def
  by (intro reads_bind [OF UINT32_codec] reads_guard reads_return) simp_all

lemma TPM_PT_codec [codec_intro]: "reads k [] TPM_PT_Unmarshal TSS_TPM_PT_Marshal"
  unfolding TPM_PT_Unmarshal_def TSS_TPM_PT_Marshal_def by (rule UINT32_codec)

lemma TPM_PT_PCR_codec [codec_intro]: "reads k [] TPM_PT_PCR_Unmarshal TSS_TPM_PT_PCR_Marshal"
  unfolding TPM_PT_PCR_Unmarshal_def TSS_TPM_PT_PCR_Marshal_def by (rule UINT32_codec)

lemma TPM_HANDLE_codec [codec_intro]: "reads k [] TPM_HANDLE_Unmarshal TSS_TPM_HANDLE_Marshal"
  unfolding TPM_HANDLE_Unmarshal_def TSS_TPM_HANDLE_Marshal_def by (rule UINT32_codec)

section \<open>Attributes\<close>

lemma TPMA_ALGORITHM_codec [codec_intro]: "reads k [] TPMA_ALGORITHM_Unmarshal TSS_TPMA_ALGORITHM_Marshal"
  unfolding TPMA_ALGORITHM_Unmarshal_def TSS_TPMA_ALGORITHM_Marshal_def
  by (intro reads_bind [OF UINT32_codec] reads_guard reads_return) simp_all

lemma TPMA_OBJECT_codec [codec_intro]: "reads k [] TPMA_OBJECT_Unmarshal TSS_TPMA_OBJECT_Marshal"
  unfolding TPMA_OBJECT_Unmarshal_def TSS_TPMA_OBJECT_Marshal_def
  by (intro reads_bind [OF UINT32_codec] reads_guard reads_return) simp_all

lemma TPMA_SESSION_codec [codec_intro]: "reads k [] TPMA_SESSION_Unmarshal TSS_TPMA_SESSION_Marshal"
  unfolding TPMA_SESSION_Unmarshal_def TSS_TPMA_SESSION_Marshal_def
  by (intro reads_bind [OF UINT8_codec] reads_guard reads_return) simp_all

lemma TPMA_LOCALITY_codec [codec_intro]: "reads k [] TPMA_LOCALITY_Unmarshal TSS_TPMA_LOCALITY_Marshal"
  unfolding TPMA_LOCALITY_Unmarshal_def TSS_TPMA_LOCALITY_Marshal_def by (rule UINT8_codec)

lemma TPMA_CC_codec [codec_intro]: "reads k [] TPMA_CC_Unmarshal TSS_TPMA_CC_Marshal"
  unfolding TPMA_CC_Unmarshal_def TSS_TPMA_CC_Marshal_def
  by (intro reads_bind [OF UINT32_codec] reads_guard reads_return) simp_all

section \<open>Interface types\<close>

lemma TPMI_YES_NO_codec [codec_intro]: "reads k [] TPMI_YES_NO_Unmarshal TSS_TPMI_YES_NO_Marshal"
  unfolding TPMI_YES_NO_Unmarshal_def TSS_TPMI_YES_NO_Marshal_def
  by (intro reads_bind [OF UINT8_codec] reads_guard reads_return) simp_all

lemma TPMI_DH_OBJECT_codec [codec_intro]: "reads k [] (TPMI_DH_OBJECT_Unmarshal allowNull) TSS_TPMI_DH_OBJECT_Marshal"
  unfolding TPMI_DH_OBJECT_Unmarshal_def TSS_TPMI_DH_OBJECT_Marshal_def Let_def
  by (intro reads_bind [OF TPM_HANDLE_codec] reads_guard reads_return) simp_all

lemma TPMI_DH_PERSISTENT_codec [codec_intro]: "reads k [] TPMI_DH_PERSISTENT_Unmarshal TSS_TPMI_DH_PERSISTENT_Marshal"
  unfolding TPMI_DH_PERSISTENT_Unmarshal_def TSS_TPMI_DH_PERSISTENT_Marshal_def Let_def
  by (intro reads_bind [OF TPM_HANDLE_codec] reads_guard reads_return) simp_all

lemma TPMI_DH_ENTITY_codec [codec_intro]: "reads k [] (TPMI_DH_ENTITY_Unmarshal allowNull) TSS_TPMI_DH_ENTITY_Marshal"
  unfolding TPMI_DH_ENTITY_Unmarshal_def TSS_TPMI_DH_ENTITY_Marshal_def Let_def
  by (intro reads_bind [OF TPM_HANDLE_codec] reads_guard reads_return) simp_all

lemma TPMI_DH_PCR_codec [codec_intro]: "reads k [] (TPMI_DH_PCR_Unmarshal allowNull) TSS_TPMI_DH_PCR_Marshal"
  unfolding TPMI_DH_PCR_Unmarshal_def TSS_TPMI_DH_PCR_Marshal_def Let_def
  by (intro reads_bind [OF TPM_HANDLE_codec] reads_guard reads_return) simp_all

lemma TPMI_SH_AUTH_SESSION_codec [codec_intro]: "reads k [] (TPMI_SH_AUTH_SESSION_Unmarshal allowPwd) TSS_TPMI_SH_AUTH_SESSION_Marshal"
  unfolding TPMI_SH_AUTH_SESSION_Unmarshal_def TSS_TPMI_SH_AUTH_SESSION_Marshal_def Let_def
  by (intro reads_bind [OF TPM_HANDLE_codec] reads_guard reads_return) simp_all

lemma TPMI_SH_HMAC_codec [codec_intro]: "reads k [] (TPMI_SH_HMAC_Unmarshal allowNull) TSS_TPMI_SH_HMAC_Marshal"
  unfolding TPMI_SH_HMAC_Unmarshal_def TSS_TPMI_SH_HMAC_Marshal_def Let_def
  by (intro reads_bind [OF TPM_HANDLE_codec] reads_guard reads_return) simp_all

lemma TPMI_SH_POLICY_codec [codec_intro]: "reads k [] (TPMI_SH_POLICY_Unmarshal allowNull) TSS_TPMI_SH_POLICY_Marshal"
  unfolding TPMI_SH_POLICY_Unmarshal_def TSS_TPMI_SH_POLICY_Marshal_def Let_def
  by (intro reads_bind [OF TPM_HANDLE_codec] reads_guard reads_return) simp_all

lemma TPMI_DH_CONTEXT_codec [codec_intro]: "reads k [] (TPMI_DH_CONTEXT_Unmarshal allowNull) TSS_TPMI_DH_CONTEXT_Marshal"
  unfolding TPMI_DH_CONTEXT_Unmarshal_def TSS_TPMI_DH_CONTEXT_Marshal_def Let_def
  by (intro reads_bind [OF TPM_HANDLE_codec] reads_guard reads_return) simp_all

lemma TPMI_RH_HIERARCHY_codec [codec_intro]: "reads k [] (TPMI_RH_HIERARCHY_Unmarshal allowNull) TSS_TPMI_RH_HIERARCHY_Marshal"
  unfolding TPMI_RH_HIERARCHY_Unmarshal_def TSS_TPMI_RH_HIERARCHY_Marshal_def
  by (intro reads_bind [OF TPM_HANDLE_codec] reads_guard reads_return) simp_all

lemma TPMI_RH_ENABLES_codec [codec_intro]: "reads k [] (TPMI_RH_ENABLES_Unmarshal allowNull) TSS_TPMI_RH_ENABLES_Marshal"
  unfolding TPMI_RH_ENABLES_Unmarshal_def TSS_TPMI_RH_ENABLES_Marshal_def
  by (intro reads_bind [OF TPM_HANDLE_codec] reads_guard reads_return) simp_all

lemma TPMI_RH_HIERARCHY_AUTH_codec [codec_intro]: "reads k [] (TPMI_RH_HIERARCHY_AUTH_Unmarshal allowNull) TSS_TPMI_RH_HIERARCHY_AUTH_Marshal"
  unfolding TPMI_RH_HIERARCHY_AUTH_Unmarshal_def TSS_TPMI_RH_HIERARCHY_AUTH_Marshal_def
  by (intro reads_bind [OF TPM_HANDLE_codec] reads_guard reads_return) simp_all

lemma TPMI_RH_PLATFORM_codec [codec_intro]: "reads k [] (TPMI_RH_PLATFORM_Unmarshal allowNull) TSS_TPMI_RH_PLATFORM_Marshal"
  unfolding TPMI_RH_PLATFORM_Unmarshal_def TSS_TPMI_RH_PLATFORM_Marshal_def
  by (intro reads_bind [OF TPM_HANDLE_codec] reads_guard reads_return) simp_all

lemma TPMI_RH_ENDORSEMENT_codec [codec_intro]: "reads k [] (TPMI_RH_ENDORSEMENT_Unmarshal allowNull) TSS_TPMI_RH_ENDORSEMENT_Marshal"
  unfolding TPMI_RH_ENDORSEMENT_Unmarshal_def TSS_TPMI_RH_ENDORSEMENT_Marshal_def
  by (intro reads_bind [OF TPM_HANDLE_codec] reads_guard reads_return) simp_all

lemma TPMI_RH_PROVISION_codec [codec_intro]: "reads k [] (TPMI_RH_PROVISION_Unmarshal allowNull) TSS_TPMI_RH_PROVISION_Marshal"
  unfolding TPMI_RH_PROVISION_Unmarshal_def TSS_TPMI_RH_PROVISION_Marshal_def
  by (intro reads_bind [OF TPM_HANDLE_codec] reads_guard reads_return) simp_all

lemma TPMI_RH_CLEAR_codec [codec_intro]: "reads k [] (TPMI_RH_CLEAR_Unmarshal allowNull) TSS_TPMI_RH_CLEAR_Marshal"
  unfolding TPMI_RH_CLEAR_Unmarshal_def TSS_TPMI_RH_CLEAR_Marshal_def
  by (intro reads_bind [OF TPM_HANDLE_codec] reads_guard reads_return) simp_all

lemma TPMI_RH_NV_AUTH_codec [codec_intro]: "reads k [] (TPMI_RH_NV_AUTH_Unmarshal allowNull) TSS_TPMI_RH_NV_AUTH_Marshal"
  unfolding TPMI_RH_NV_AUTH_Unmarshal_def TSS_TPMI_RH_NV_AUTH_Marshal_def Let_def
  by (intro reads_bind [OF TPM_HANDLE_codec] reads_guard reads_return) simp_all

lemma TPMI_RH_LOCKOUT_codec [codec_intro]: "reads k [] (TPMI_RH_LOCKOUT_Unmarshal allowNull) TSS_TPMI_RH_LOCKOUT_Marshal"
  unfolding TPMI_RH_LOCKOUT_Unmarshal_def TSS_TPMI_RH_LOCKOUT_Marshal_def
  by (intro reads_bind [OF TPM_HANDLE_codec] reads_guard reads_return) simp_all

lemma TPMI_RH_NV_INDEX_codec [codec_intro]: "reads k [] (TPMI_RH_NV_INDEX_Unmarshal allowNull) TSS_TPMI_RH_NV_INDEX_Marshal"
  unfolding TPMI_RH_NV_INDEX_Unmarshal_def TSS_TPMI_RH_NV_INDEX_Marshal_def Let_def
  by (intro reads_bind [OF TPM_HANDLE_codec] reads_guard reads_return) simp_all

lemma TPMI_ALG_HASH_codec [codec_intro]: "reads k [] (TPMI_ALG_HASH_Unmarshal allowNull) TSS_TPMI_ALG_HASH_Marshal"
  unfolding TPMI_ALG_HASH_Unmarshal_def TSS_TPMI_ALG_HASH_Marshal_def
  by (intro reads_bind [OF TPM_ALG_ID_codec] reads_guard reads_return) simp_all

lemma TPMI_ALG_SYM_codec [codec_intro]: "reads k [] (TPMI_ALG_SYM_Unmarshal allowNull) TSS_TPMI_ALG_SYM_Marshal"
  unfolding TPMI_ALG_SYM_Unmarshal_def TSS_TPMI_ALG_SYM_Marshal_def
  by (intro reads_bind [OF TPM_ALG_ID_codec] reads_guard reads_return) simp_all

lemma TPMI_ALG_SYM_OBJECT_codec [codec_intro]: "reads k [] (TPMI_ALG_SYM_OBJECT_Unmarshal allowNull) TSS_TPMI_ALG_SYM_OBJECT_Marshal"
  unfolding TPMI_ALG_SYM_OBJECT_Unmarshal_def TSS_TPMI_ALG_SYM_OBJECT_Marshal_def
  by (intro reads_bind [OF TPM_ALG_ID_codec] reads_guard reads_return) simp_all

lemma TPMI_ALG_SYM_MODE_codec [codec_intro]: "reads k [] (TPMI_ALG_SYM_MODE_Unmarshal allowNull) TSS_TPMI_ALG_SYM_MODE_Marshal"
  unfolding TPMI_ALG_SYM_MODE_Unmarshal_def TSS_TPMI_ALG_SYM_MODE_Marshal_def
  by (intro reads_bind [OF TPM_ALG_ID_codec] reads_guard reads_return) simp_all

lemma TPMI_ALG_KDF_codec [codec_intro]: "reads k [] (TPMI_ALG_KDF_Unmarshal allowNull) TSS_TPMI_ALG_KDF_Marshal"
  unfolding TPMI_ALG_KDF_Unmarshal_def TSS_TPMI_ALG_KDF_Marshal_def
  by (intro reads_bind [OF TPM_ALG_ID_codec] reads_guard reads_return) simp_all

lemma TPMI_ALG_SIG_SCHEME_codec [codec_intro]: "reads k [] (TPMI_ALG_SIG_SCHEME_Unmarshal allowNull) TSS_TPMI_ALG_SIG_SCHEME_Marshal"
  unfolding TPMI_ALG_SIG_SCHEME_Unmarshal_def TSS_TPMI_ALG_SIG_SCHEME_Marshal_def
  by (intro reads_bind [OF TPM_ALG_ID_codec] reads_guard reads_return) simp_all

lemma TPMI_ECC_KEY_EXCHANGE_codec [codec_intro]: "reads k [] (TPMI_ECC_KEY_EXCHANGE_Unmarshal allowNull) TSS_TPMI_ECC_KEY_EXCHANGE_Marshal"
  unfolding TPMI_ECC_KEY_EXCHANGE_Unmarshal_def TSS_TPMI_ECC_KEY_EXCHANGE_Marshal_def
  by (intro reads_bind [OF TPM_ALG_ID_codec] reads_guard reads_return) simp_all

lemma TPMI_ST_COMMAND_TAG_codec [codec_intro]: "reads k [] TPMI_ST_COMMAND_TAG_Unmarshal TSS_TPMI_ST_COMMAND_TAG_Marshal"
  unfolding TPMI_ST_COMMAND_TAG_Unmarshal_def TSS_TPMI_ST_COMMAND_TAG_Marshal_def
  by (intro reads_bind [OF TPM_ST_codec] reads_guard reads_return) simp_all

section \<open>Digests, sized buffers, tickets and lists\<close>

lemma TPMU_HA_codec [codec_intro]: "reads k [] (TPMU_HA_Unmarshal selector) (\<lambda>v. TSS_TPMU_HA_Marshal v selector)"
  unfolding TPMU_HA_Unmarshal_def TSS_TPMU_HA_Marshal_def by (intro reads_if reads_fail reads_return reads_map [OF Array_codec])
    (simp_all add: emits_done)

lemma TPMT_HA_codec [codec_intro]: "reads k [] (TPMT_HA_Unmarshal allowNull) TSS_TPMT_HA_Marshal"
  unfolding TPMT_HA_Unmarshal_def TSS_TPMT_HA_Marshal_def
  by (intro reads_bind [OF TPMI_ALG_HASH_codec] reads_bind [OF TPMU_HA_codec] reads_return)
    (simp_all add: emits_then)

lemma TPM2B_DIGEST_codec [codec_intro]: "reads k [] TPM2B_DIGEST_Unmarshal TSS_TPM2B_DIGEST_Marshal"
  unfolding TPM2B_DIGEST_Unmarshal_def TSS_TPM2B_DIGEST_Marshal_def by (rule TPM2B_codec)

lemma TPM2B_DATA_codec [codec_intro]: "reads k [] TPM2B_DATA_Unmarshal TSS_TPM2B_DATA_Marshal"
  unfolding TPM2B_DATA_Unmarshal_def TSS_TPM2B_DATA_Marshal_def by (rule TPM2B_codec)

lemma TPM2B_NONCE_codec [codec_intro]: "reads k [] TPM2B_NONCE_Unmarshal TSS_TPM2B_NONCE_Marshal"
  unfolding TPM2B_NONCE_Unmarshal_def TSS_TPM2B_NONCE_Marshal_def by (rule TPM2B_DIGEST_codec)

lemma TPM2B_AUTH_codec [codec_intro]: "reads k [] TPM2B_AUTH_Unmarshal TSS_TPM2B_AUTH_Marshal"
  unfolding TPM2B_AUTH_Unmarshal_def TSS_TPM2B_AUTH_Marshal_def by (rule TPM2B_DIGEST_codec)

lemma TPM2B_OPERAND_codec [codec_intro]: "reads k [] TPM2B_OPERAND_Unmarshal TSS_TPM2B_OPERAND_Marshal"
  unfolding TPM2B_OPERAND_Unmarshal_def TSS_TPM2B_OPERAND_Marshal_def by (rule TPM2B_DIGEST_codec)

lemma TPM2B_EVENT_codec [codec_intro]: "reads k [] TPM2B_EVENT_Unmarshal TSS_TPM2B_EVENT_Marshal"
  unfolding TPM2B_EVENT_Unmarshal_def TSS_TPM2B_EVENT_Marshal_def by (rule TPM2B_codec)

lemma TPM2B_MAX_BUFFER_codec [codec_intro]: "reads k [] TPM2B_MAX_BUFFER_Unmarshal TSS_TPM2B_MAX_BUFFER_Marshal"
  unfolding TPM2B_MAX_BUFFER_Unmarshal_def TSS_TPM2B_MAX_BUFFER_Marshal_def by (rule TPM2B_codec)

lemma TPM2B_MAX_NV_BUFFER_codec [codec_intro]: "reads k [] TPM2B_MAX_NV_BUFFER_Unmarshal TSS_TPM2B_MAX_NV_BUFFER_Marshal"
  unfolding TPM2B_MAX_NV_BUFFER_Unmarshal_def TSS_TPM2B_MAX_NV_BUFFER_Marshal_def by (rule TPM2B_codec)

lemma TPM2B_TIMEOUT_codec [codec_intro]: "reads k [] TPM2B_TIMEOUT_Unmarshal TSS_TPM2B_TIMEOUT_Marshal"
  unfolding TPM2B_TIMEOUT_Unmarshal_def TSS_TPM2B_TIMEOUT_Marshal_def by (rule TPM2B_DIGEST_codec)

lemma TPM2B_IV_codec [codec_intro]: "reads k [] TPM2B_IV_Unmarshal TSS_TPM2B_IV_Marshal"
  unfolding TPM2B_IV_Unmarshal_def TSS_TPM2B_IV_Marshal_def by (rule TPM2B_codec)

lemma TPM2B_NAME_codec [codec_intro]: "reads k [] TPM2B_NAME_Unmarshal TSS_TPM2B_NAME_Marshal"
  unfolding TPM2B_NAME_Unmarshal_def TSS_TPM2B_NAME_Marshal_def by (rule TPM2B_codec)

lemma TPMS_PCR_SELECTION_codec [codec_intro]: "reads k [] TPMS_PCR_SELECTION_Unmarshal TSS_TPMS_PCR_SELECTION_Marshal"
  unfolding TPMS_PCR_SELECTION_Unmarshal_def TSS_TPMS_PCR_SELECTION_Marshal_def
proof (intro reads_bind [OF TPMI_ALG_HASH_codec] reads_bind [OF UINT8_codec] reads_guard)
  fix hash :: TPMI_ALG_HASH and sizeofSelect :: UINT8 and bs cs
  assume "\<not> (sizeofSelect < PCR_SELECT_MIN \<or> sizeofSelect > PCR_SELECT_MAX)"
  then have s: "sizeofSelect = 3" by (simp add: not_less antisym)
  assume "emits k (TSS_TPMI_ALG_HASH_Marshal hash) 0 bs" "emits k (TSS_UINT8_Marshal sizeofSelect) 0 cs"
  then show "reads k (([] @ bs) @ cs) (u_bind (Array_Unmarshal (ucast sizeofSelect)) (\<lambda>pcrSelect.
      u_return \<lparr>TPMS_PCR_SELECTION_hash = hash, TPMS_PCR_SELECTION_sizeofSelect = sizeofSelect,
        TPMS_PCR_SELECTION_pcrSelect = pcrSelect\<rparr>)) (\<lambda>source.
      m_then (TSS_TPMI_ALG_HASH_Marshal (TPMS_PCR_SELECTION_hash source)) (
      m_then (TSS_UINT8_Marshal (TPMS_PCR_SELECTION_sizeofSelect source)) (
      TSS_Array_Marshal (TPMS_PCR_SELECTION_pcrSelect source) PCR_SELECT_MAX)))"
    unfolding s by (intro reads_bind [OF Array_codec] reads_return) (simp add: emits_then)
qed simp

lemma TPMT_TK_CREATION_codec [codec_intro]: "reads k [] TPMT_TK_CREATION_Unmarshal TSS_TPMT_TK_CREATION_Marshal"
  unfolding TPMT_TK_CREATION_Unmarshal_def TSS_TPMT_TK_CREATION_Marshal_def
  by (intro reads_bind [OF TPM_ST_codec] reads_bind [OF TPMI_RH_HIERARCHY_codec]
       reads_bind [OF TPM2B_DIGEST_codec] reads_guard reads_return)
    (simp_all add: emits_then)

lemma TPMT_TK_VERIFIED_codec [codec_intro]: "reads k [] TPMT_TK_VERIFIED_Unmarshal TSS_TPMT_TK_VERIFIED_Marshal"
  unfolding TPMT_TK_VERIFIED_Unmarshal_def TSS_TPMT_TK_VERIFIED_Marshal_def
  by (intro reads_bind [OF TPM_ST_codec] reads_bind [OF TPMI_RH_HIERARCHY_codec]
       reads_bind [OF TPM2B_DIGEST_codec] reads_guard reads_return)
    (simp_all add: emits_then)

lemma TPMT_TK_AUTH_codec [codec_intro]: "reads k [] TPMT_TK_AUTH_Unmarshal TSS_TPMT_TK_AUTH_Marshal"
  unfolding TPMT_TK_AUTH_Unmarshal_def TSS_TPMT_TK_AUTH_Marshal_def
  by (intro reads_bind [OF TPM_ST_codec] reads_bind [OF TPMI_RH_HIERARCHY_codec]
       reads_bind [OF TPM2B_DIGEST_codec] reads_guard reads_return)
    (simp_all add: emits_then)

lemma TPMT_TK_HASHCHECK_codec [codec_intro]: "reads k [] TPMT_TK_HASHCHECK_Unmarshal TSS_TPMT_TK_HASHCHECK_Marshal"
  unfolding TPMT_TK_HASHCHECK_Unmarshal_def TSS_TPMT_TK_HASHCHECK_Marshal_def
  by (intro reads_bind [OF TPM_ST_codec] reads_bind [OF TPMI_RH_HIERARCHY_codec]
       reads_bind [OF TPM2B_DIGEST_codec] reads_guard reads_return)
    (simp_all add: emits_then)

lemma TPMS_ALG_PROPERTY_codec [codec_intro]: "reads k [] TPMS_ALG_PROPERTY_Unmarshal TSS_TPMS_ALG_PROPERTY_Marshal"
  unfolding TPMS_ALG_PROPERTY_Unmarshal_def TSS_TPMS_ALG_PROPERTY_Marshal_def
  by (intro reads_bind [OF TPM_ALG_ID_codec] reads_bind [OF TPMA_ALGORITHM_codec] reads_return)
    (simp_all add: emits_then)

lemma TPMS_TAGGED_PROPERTY_codec [codec_intro]: "reads k [] TPMS_TAGGED_PROPERTY_Unmarshal TSS_TPMS_TAGGED_PROPERTY_Marshal"
  unfolding TPMS_TAGGED_PROPERTY_Unmarshal_def TSS_TPMS_TAGGED_PROPERTY_Marshal_def
  by (intro reads_bind [OF TPM_PT_codec] reads_bind [OF UINT32_codec] reads_return)
    (simp_all add: emits_then)

lemma TPML_CC_codec [codec_intro]: "reads k [] TPML_CC_Unmarshal TSS_TPML_CC_Marshal"
  unfolding TPML_CC_Unmarshal_def TSS_TPML_CC_Marshal_def
  by (intro reads_bind [OF UINT32_codec] reads_bind [OF reads_list [OF TPM_CC_codec]] reads_guard
       reads_return)
    (simp_all add: emits_then)

lemma TPML_CCA_codec [codec_intro]: "reads k [] TPML_CCA_Unmarshal TSS_TPML_CCA_Marshal"
  unfolding TPML_CCA_Unmarshal_def TSS_TPML_CCA_Marshal_def
  by (intro reads_bind [OF UINT32_codec] reads_bind [OF reads_list [OF TPMA_CC_codec]] reads_guard
       reads_return)
    (simp_all add: emits_then)

lemma TPML_ALG_codec [codec_intro]: "reads k [] TPML_ALG_Unmarshal TSS_TPML_ALG_Marshal"
  unfolding TPML_ALG_Unmarshal_def TSS_TPML_ALG_Marshal_def
  by (intro reads_bind [OF UINT32_codec] reads_bind [OF reads_list [OF TPM_ALG_ID_codec]] reads_guard
       reads_return)
    (simp_all add: emits_then)

lemma TPML_HANDLE_codec [codec_intro]: "reads k [] TPML_HANDLE_Unmarshal TSS_TPML_HANDLE_Marshal"
  unfolding TPML_HANDLE_Unmarshal_def TSS_TPML_HANDLE_Marshal_def
  by (intro reads_bind [OF UINT32_codec] reads_bind [OF reads_list [OF TPM_HANDLE_codec]] reads_guard
       reads_return)
    (simp_all add: emits_then)

lemma TPML_DIGEST_codec [codec_intro]: "reads k [] (TPML_DIGEST_Unmarshal minCount) TSS_TPML_DIGEST_Marshal"
  unfolding TPML_DIGEST_Unmarshal_def TSS_TPML_DIGEST_Marshal_def
  by (intro reads_bind [OF UINT32_codec] reads_bind [OF reads_list [OF TPM2B_DIGEST_codec]]
       reads_guard reads_return)
    (simp_all add: emits_then)

lemma TPML_DIGEST_VALUES_codec [codec_intro]: "reads k [] TPML_DIGEST_VALUES_Unmarshal TSS_TPML_DIGEST_VALUES_Marshal"
  unfolding TPML_DIGEST_VALUES_Unmarshal_def TSS_TPML_DIGEST_VALUES_Marshal_def
  by (intro reads_bind [OF UINT32_codec] reads_bind [OF reads_list [OF TPMT_HA_codec]] reads_guard
       reads_return)
    (simp_all add: emits_then)

lemma TPML_PCR_SELECTION_codec [codec_intro]: "reads k [] TPML_PCR_SELECTION_Unmarshal TSS_TPML_PCR_SELECTION_Marshal"
  unfolding TPML_PCR_SELECTION_Unmarshal_def TSS_TPML_PCR_SELECTION_Marshal_def
  by (intro reads_bind [OF UINT32_codec] reads_bind [OF reads_list [OF TPMS_PCR_SELECTION_codec]]
       reads_guard reads_return)
    (simp_all add: emits_then)

lemma TPML_ALG_PROPERTY_codec [codec_intro]: "reads k [] TPML_ALG_PROPERTY_Unmarshal TSS_TPML_ALG_PROPERTY_Marshal"
  unfolding TPML_ALG_PROPERTY_Unmarshal_def TSS_TPML_ALG_PROPERTY_Marshal_def
  by (intro reads_bind [OF UINT32_codec] reads_bind [OF reads_list [OF TPMS_ALG_PROPERTY_codec]]
       reads_guard reads_return)
    (simp_all add: emits_then)

lemma TPML_TAGGED_TPM_PROPERTY_codec [codec_intro]: "reads k [] TPML_TAGGED_TPM_PROPERTY_Unmarshal TSS_TPML_TAGGED_TPM_PROPERTY_Marshal"
  unfolding TPML_TAGGED_TPM_PROPERTY_Unmarshal_def TSS_TPML_TAGGED_TPM_PROPERTY_Marshal_def
  by (intro reads_bind [OF UINT32_codec] reads_bind [OF reads_list [OF TPMS_TAGGED_PROPERTY_codec]]
       reads_guard reads_return)
    (simp_all add: emits_then)

lemma TPML_ECC_CURVE_codec [codec_intro]: "reads k [] TPML_ECC_CURVE_Unmarshal TSS_TPML_ECC_CURVE_Marshal"
  unfolding TPML_ECC_CURVE_Unmarshal_def TSS_TPML_ECC_CURVE_Marshal_def
  by (intro reads_bind [OF UINT32_codec] reads_bind [OF reads_list [OF TPM_ECC_CURVE_codec]]
       reads_guard reads_return)
    (simp_all add: emits_then)

section \<open>Capabilities and attestation\<close>

lemma TPMS_CLOCK_INFO_codec [codec_intro]: "reads k [] TPMS_CLOCK_INFO_Unmarshal TSS_TPMS_CLOCK_INFO_Marshal"
  unfolding TPMS_CLOCK_INFO_Unmarshal_def TSS_TPMS_CLOCK_INFO_Marshal_def
  by (intro reads_bind [OF UINT64_codec] reads_bind [OF UINT32_codec]
       reads_bind [OF TPMI_YES_NO_codec] reads_return)
    (simp_all add: emits_then)

lemma TPMS_TIME_INFO_codec [codec_intro]: "reads k [] TPMS_TIME_INFO_Unmarshal TSS_TPMS_TIME_INFO_Marshal"
  unfolding TPMS_TIME_INFO_Unmarshal_def TSS_TPMS_TIME_INFO_Marshal_def
  by (intro reads_bind [OF UINT64_codec] reads_bind [OF TPMS_CLOCK_INFO_codec] reads_return)
    (simp_all add: emits_then)

lemma TPMS_TIME_ATTEST_INFO_codec [codec_intro]: "reads k [] TPMS_TIME_ATTEST_INFO_Unmarshal TSS_TPMS_TIME_ATTEST_INFO_Marshal"
  unfolding TPMS_TIME_ATTEST_INFO_Unmarshal_def TSS_TPMS_TIME_ATTEST_INFO_Marshal_def
  by (intro reads_bind [OF TPMS_TIME_INFO_codec] reads_bind [OF UINT64_codec] reads_return)
    (simp_all add: emits_then)

lemma TPMS_CERTIFY_INFO_codec [codec_intro]: "reads k [] TPMS_CERTIFY_INFO_Unmarshal TSS_TPMS_CERTIFY_INFO_Marshal"
  unfolding TPMS_CERTIFY_INFO_Unmarshal_def TSS_TPMS_CERTIFY_INFO_Marshal_def
  by (intro reads_bind [OF TPM2B_NAME_codec] reads_return)
    (simp_all add: emits_then)

lemma TPMS_QUOTE_INFO_codec [codec_intro]: "reads k [] TPMS_QUOTE_INFO_Unmarshal TSS_TPMS_QUOTE_INFO_Marshal"
  unfolding TPMS_QUOTE_INFO_Unmarshal_def TSS_TPMS_QUOTE_INFO_Marshal_def
  by (intro reads_bind [OF TPML_PCR_SELECTION_codec] reads_bind [OF TPM2B_DIGEST_codec] reads_return)
    (simp_all add: emits_then)

lemma TPMS_COMMAND_AUDIT_INFO_codec [codec_intro]: "reads k [] TPMS_COMMAND_AUDIT_INFO_Unmarshal TSS_TPMS_COMMAND_AUDIT_INFO_Marshal"
  unfolding TPMS_COMMAND_AUDIT_INFO_Unmarshal_def TSS_TPMS_COMMAND_AUDIT_INFO_Marshal_def
  by (intro reads_bind [OF UINT64_codec] reads_bind [OF TPM_ALG_ID_codec]
       reads_bind [OF TPM2B_DIGEST_codec] reads_return)
    (simp_all add: emits_then)

lemma TPMS_SESSION_AUDIT_INFO_codec [codec_intro]: "reads k [] TPMS_SESSION_AUDIT_INFO_Unmarshal TSS_TPMS_SESSION_AUDIT_INFO_Marshal"
  unfolding TPMS_SESSION_AUDIT_INFO_Unmarshal_def TSS_TPMS_SESSION_AUDIT_INFO_Marshal_def
  by (intro reads_bind [OF TPMI_YES_NO_codec] reads_bind [OF TPM2B_DIGEST_codec] reads_return)
    (simp_all add: emits_then)

lemma TPMS_CREATION_INFO_codec [codec_intro]: "reads k [] TPMS_CREATION_INFO_Unmarshal TSS_TPMS_CREATION_INFO_Marshal"
  unfolding TPMS_CREATION_INFO_Unmarshal_def TSS_TPMS_CREATION_INFO_Marshal_def
  by (intro reads_bind [OF TPM2B_NAME_codec] reads_bind [OF TPM2B_DIGEST_codec] reads_return)
    (simp_all add: emits_then)

lemma TPMS_NV_CERTIFY_INFO_codec [codec_intro]: "reads k [] TPMS_NV_CERTIFY_INFO_Unmarshal TSS_TPMS_NV_CERTIFY_INFO_Marshal"
  unfolding TPMS_NV_CERTIFY_INFO_Unmarshal_def TSS_TPMS_NV_CERTIFY_INFO_Marshal_def
  by (intro reads_bind [OF TPM2B_NAME_codec] reads_bind [OF UINT16_codec]
       reads_bind [OF TPM2B_MAX_NV_BUFFER_codec] reads_return)
    (simp_all add: emits_then)

lemma TPMI_ST_ATTEST_codec [codec_intro]: "reads k [] TPMI_ST_ATTEST_Unmarshal TSS_TPMI_ST_ATTEST_Marshal"
  unfolding TPMI_ST_ATTEST_Unmarshal_def TSS_TPMI_ST_ATTEST_Marshal_def
  by (intro reads_bind [OF TPM_ST_codec] reads_guard reads_return) simp_all

lemma TPMU_ATTEST_codec [codec_intro]: "reads k [] (TPMU_ATTEST_Unmarshal selector) (\<lambda>v. TSS_TPMU_ATTEST_Marshal v selector)"
  unfolding TPMU_ATTEST_Unmarshal_def TSS_TPMU_ATTEST_Marshal_def by (intro reads_if reads_fail reads_return reads_map [OF TPMS_CERTIFY_INFO_codec] reads_map [OF TPMS_CREATION_INFO_codec] reads_map [OF TPMS_QUOTE_INFO_codec] reads_map [OF TPMS_COMMAND_AUDIT_INFO_codec] reads_map [OF TPMS_SESSION_AUDIT_INFO_codec] reads_map [OF TPMS_TIME_ATTEST_INFO_codec] reads_map [OF TPMS_NV_CERTIFY_INFO_codec])
    (simp_all add: emits_done)

lemma TPMS_ATTEST_codec [codec_intro]: "reads k [] TPMS_ATTEST_Unmarshal TSS_TPMS_ATTEST_Marshal"
  unfolding TPMS_ATTEST_Unmarshal_def TSS_TPMS_ATTEST_Marshal_def
  by (intro reads_bind [OF TPM_GENERATED_codec] reads_bind [OF TPMI_ST_ATTEST_codec]
       reads_bind [OF TPM2B_NAME_codec] reads_bind [OF TPM2B_DATA_codec]
       reads_bind [OF TPMS_CLOCK_INFO_codec] reads_bind [OF UINT64_codec]
       reads_bind [OF TPMU_ATTEST_codec] reads_return)
    (simp_all add: emits_then)

lemma TPM2B_ATTEST_codec [codec_intro]: "reads k [] TPM2B_ATTEST_Unmarshal TSS_TPM2B_ATTEST_Marshal"
  unfolding TPM2B_ATTEST_Unmarshal_def TSS_TPM2B_ATTEST_Marshal_def by (rule TPM2B_codec)

section \<open>Algorithm parameters and schemes\<close>

lemma TPMI_AES_KEY_BITS_codec [codec_intro]: "reads k [] TPMI_AES_KEY_BITS_Unmarshal TSS_TPMI_AES_KEY_BITS_Marshal"
  unfolding TPMI_AES_KEY_BITS_Unmarshal_def TSS_TPMI_AES_KEY_BITS_Marshal_def
  by (intro reads_bind [OF TPM_KEY_BITS_codec] reads_guard reads_return) simp_all

lemma TPMU_SYM_KEY_BITS_codec [codec_intro]: "reads k [] (TPMU_SYM_KEY_BITS_Unmarshal selector) (\<lambda>v. TSS_TPMU_SYM_KEY_BITS_Marshal v selector)"
  unfolding TPMU_SYM_KEY_BITS_Unmarshal_def TSS_TPMU_SYM_KEY_BITS_Marshal_def by (intro reads_if reads_fail reads_return reads_map [OF TPMI_AES_KEY_BITS_codec] reads_map [OF TPMI_ALG_HASH_codec])
    (simp_all add: emits_done)

lemma TPMU_SYM_MODE_codec [codec_intro]: "reads k [] (TPMU_SYM_MODE_Unmarshal selector) (\<lambda>v. TSS_TPMU_SYM_MODE_Marshal v selector)"
  unfolding TPMU_SYM_MODE_Unmarshal_def TSS_TPMU_SYM_MODE_Marshal_def by (intro reads_if reads_fail reads_return reads_map [OF TPMI_ALG_SYM_MODE_codec])
    (simp_all add: emits_done)

lemma TPMT_SYM_DEF_codec [codec_intro]: "reads k [] (TPMT_SYM_DEF_Unmarshal allowNull) TSS_TPMT_SYM_DEF_Marshal"
  unfolding TPMT_SYM_DEF_Unmarshal_def TSS_TPMT_SYM_DEF_Marshal_def
  by (intro reads_bind [OF TPMI_ALG_SYM_codec] reads_bind [OF TPMU_SYM_KEY_BITS_codec]
       reads_bind [OF TPMU_SYM_MODE_codec] reads_return)
    (simp_all add: emits_then)

lemma TPMT_SYM_DEF_OBJECT_codec [codec_intro]: "reads k [] (TPMT_SYM_DEF_OBJECT_Unmarshal allowNull) TSS_TPMT_SYM_DEF_OBJECT_Marshal"
  unfolding TPMT_SYM_DEF_OBJECT_Unmarshal_def TSS_TPMT_SYM_DEF_OBJECT_Marshal_def
  by (intro reads_bind [OF TPMI_ALG_SYM_OBJECT_codec] reads_bind [OF TPMU_SYM_KEY_BITS_codec]
       reads_bind [OF TPMU_SYM_MODE_codec] reads_return)
    (simp_all add: emits_then)

lemma TPM2B_SYM_KEY_codec [codec_intro]: "reads k [] TPM2B_SYM_KEY_Unmarshal TSS_TPM2B_SYM_KEY_Marshal"
  unfolding TPM2B_SYM_KEY_Unmarshal_def TSS_TPM2B_SYM_KEY_Marshal_def by (rule TPM2B_codec)

lemma TPMS_SYMCIPHER_PARMS_codec [codec_intro]: "reads k [] TPMS_SYMCIPHER_PARMS_Unmarshal TSS_TPMS_SYMCIPHER_PARMS_Marshal"
  unfolding TPMS_SYMCIPHER_PARMS_Unmarshal_def TSS_TPMS_SYMCIPHER_PARMS_Marshal_def
  by (intro reads_bind [OF TPMT_SYM_DEF_OBJECT_codec] reads_return)
    (simp_all add: emits_then)

lemma TPM2B_SENSITIVE_DATA_codec [codec_intro]: "reads k [] TPM2B_SENSITIVE_DATA_Unmarshal TSS_TPM2B_SENSITIVE_DATA_Marshal"
  unfolding TPM2B_SENSITIVE_DATA_Unmarshal_def TSS_TPM2B_SENSITIVE_DATA_Marshal_def by (rule TPM2B_codec)

lemma TPMS_SENSITIVE_CREATE_codec [codec_intro]: "reads k [] TPMS_SENSITIVE_CREATE_Unmarshal TSS_TPMS_SENSITIVE_CREATE_Marshal"
  unfolding TPMS_SENSITIVE_CREATE_Unmarshal_def TSS_TPMS_SENSITIVE_CREATE_Marshal_def
  by (intro reads_bind [OF TPM2B_AUTH_codec] reads_bind [OF TPM2B_SENSITIVE_DATA_codec] reads_return)
    (simp_all add: emits_then)

lemma TPM2B_SENSITIVE_CREATE_codec [codec_intro]: "2 \<le> k \<Longrightarrow> reads k [] TPM2B_SENSITIVE_CREATE_Unmarshal TSS_TPM2B_SENSITIVE_CREATE_Marshal"
  unfolding TPM2B_SENSITIVE_CREATE_Unmarshal_def by (rule reads_sized_ge [OF TPMS_SENSITIVE_CREATE_codec]) (simp_all add: TSS_TPM2B_SENSITIVE_CREATE_Marshal_def)

lemma TPMS_SCHEME_HASH_codec [codec_intro]: "reads k [] TPMS_SCHEME_HASH_Unmarshal TSS_TPMS_SCHEME_HASH_Marshal"
  unfolding TPMS_SCHEME_HASH_Unmarshal_def TSS_TPMS_SCHEME_HASH_Marshal_def
  by (intro reads_bind [OF TPMI_ALG_HASH_codec] reads_return)
    (simp_all add: emits_then)

lemma TPMS_SCHEME_ECDAA_codec [codec_intro]: "reads k [] TPMS_SCHEME_ECDAA_Unmarshal TSS_TPMS_SCHEME_ECDAA_Marshal"
  unfolding TPMS_SCHEME_ECDAA_Unmarshal_def TSS_TPMS_SCHEME_ECDAA_Marshal_def
  by (intro reads_bind [OF TPMI_ALG_HASH_codec] reads_bind [OF UINT16_codec] reads_return)
    (simp_all add: emits_then)

lemma TPMI_ALG_KEYEDHASH_SCHEME_codec [codec_intro]: "reads k [] (TPMI_ALG_KEYEDHASH_SCHEME_Unmarshal allowNull) TSS_TPMI_ALG_KEYEDHASH_SCHEME_Marshal"
  unfolding TPMI_ALG_KEYEDHASH_SCHEME_Unmarshal_def TSS_TPMI_ALG_KEYEDHASH_SCHEME_Marshal_def
  by (intro reads_bind [OF TPM_ALG_ID_codec] reads_guard reads_return) simp_all

lemma TPMS_SCHEME_HMAC_codec [codec_intro]: "reads k [] TPMS_SCHEME_HMAC_Unmarshal TSS_TPMS_SCHEME_HMAC_Marshal"
  unfolding TPMS_SCHEME_HMAC_Unmarshal_def TSS_TPMS_SCHEME_HMAC_Marshal_def by (rule TPMS_SCHEME_HASH_codec)

lemma TPMS_SCHEME_XOR_codec [codec_intro]: "reads k [] TPMS_SCHEME_XOR_Unmarshal TSS_TPMS_SCHEME_XOR_Marshal"
  unfolding TPMS_SCHEME_XOR_Unmarshal_def TSS_TPMS_SCHEME_XOR_Marshal_def
  by (intro reads_bind [OF TPMI_ALG_HASH_codec] reads_bind [OF TPMI_ALG_KDF_codec] reads_return)
    (simp_all add: emits_then)

lemma TPMU_SCHEME_KEYEDHASH_codec [codec_intro]: "reads k [] (TPMU_SCHEME_KEYEDHASH_Unmarshal selector) (\<lambda>v. TSS_TPMU_SCHEME_KEYEDHASH_Marshal v selector)"
  unfolding TPMU_SCHEME_KEYEDHASH_Unmarshal_def TSS_TPMU_SCHEME_KEYEDHASH_Marshal_def by (intro reads_if reads_fail reads_return reads_map [OF TPMS_SCHEME_HMAC_codec] reads_map [OF TPMS_SCHEME_XOR_codec])
    (simp_all add: emits_done)

lemma TPMT_KEYEDHASH_SCHEME_codec [codec_intro]: "reads k [] (TPMT_KEYEDHASH_SCHEME_Unmarshal allowNull) TSS_TPMT_KEYEDHASH_SCHEME_Marshal"
  unfolding TPMT_KEYEDHASH_SCHEME_Unmarshal_def TSS_TPMT_KEYEDHASH_SCHEME_Marshal_def
  by (intro reads_bind [OF TPMI_ALG_KEYEDHASH_SCHEME_codec]
       reads_bind [OF TPMU_SCHEME_KEYEDHASH_codec] reads_return)
    (simp_all add: emits_then)

lemma TPMS_SIG_SCHEME_RSAPSS_codec [codec_intro]: "reads k [] TPMS_SIG_SCHEME_RSAPSS_Unmarshal TSS_TPMS_SIG_SCHEME_RSAPSS_Marshal"
  unfolding TPMS_SIG_SCHEME_RSAPSS_Unmarshal_def TSS_TPMS_SIG_SCHEME_RSAPSS_Marshal_def by (rule TPMS_SCHEME_HASH_codec)

lemma TPMS_SIG_SCHEME_RSASSA_codec [codec_intro]: "reads k [] TPMS_SIG_SCHEME_RSASSA_Unmarshal TSS_TPMS_SIG_SCHEME_RSASSA_Marshal"
  unfolding TPMS_SIG_SCHEME_RSASSA_Unmarshal_def TSS_TPMS_SIG_SCHEME_RSASSA_Marshal_def by (rule TPMS_SCHEME_HASH_codec)

lemma TPMS_SIG_SCHEME_ECDAA_codec [codec_intro]: "reads k [] TPMS_SIG_SCHEME_ECDAA_Unmarshal TSS_TPMS_SIG_SCHEME_ECDAA_Marshal"
  unfolding TPMS_SIG_SCHEME_ECDAA_Unmarshal_def TSS_TPMS_SIG_SCHEME_ECDAA_Marshal_def by (rule TPMS_SCHEME_ECDAA_codec)

lemma TPMS_SIG_SCHEME_ECDSA_codec [codec_intro]: "reads k [] TPMS_SIG_SCHEME_ECDSA_Unmarshal TSS_TPMS_SIG_SCHEME_ECDSA_Marshal"
  unfolding TPMS_SIG_SCHEME_ECDSA_Unmarshal_def TSS_TPMS_SIG_SCHEME_ECDSA_Marshal_def by (rule TPMS_SCHEME_HASH_codec)

lemma TPMS_SIG_SCHEME_ECSCHNORR_codec [codec_intro]: "reads k [] TPMS_SIG_SCHEME_ECSCHNORR_Unmarshal TSS_TPMS_SIG_SCHEME_ECSCHNORR_Marshal"
  unfolding TPMS_SIG_SCHEME_ECSCHNORR_Unmarshal_def TSS_TPMS_SIG_SCHEME_ECSCHNORR_Marshal_def by (rule TPMS_SCHEME_HASH_codec)

lemma TPMS_SIG_SCHEME_SM2_codec [codec_intro]: "reads k [] TPMS_SIG_SCHEME_SM2_Unmarshal TSS_TPMS_SIG_SCHEME_SM2_Marshal"
  unfolding TPMS_SIG_SCHEME_SM2_Unmarshal_def TSS_TPMS_SIG_SCHEME_SM2_Marshal_def by (rule TPMS_SCHEME_HASH_codec)

lemma TPMU_SIG_SCHEME_codec [codec_intro]: "reads k [] (TPMU_SIG_SCHEME_Unmarshal selector) (\<lambda>v. TSS_TPMU_SIG_SCHEME_Marshal v selector)"
  unfolding TPMU_SIG_SCHEME_Unmarshal_def TSS_TPMU_SIG_SCHEME_Marshal_def by (intro reads_if reads_fail reads_return reads_map [OF TPMS_SIG_SCHEME_RSASSA_codec] reads_map [OF TPMS_SIG_SCHEME_RSAPSS_codec] reads_map [OF TPMS_SIG_SCHEME_ECDSA_codec] reads_map [OF TPMS_SIG_SCHEME_ECDAA_codec] reads_map [OF TPMS_SIG_SCHEME_SM2_codec] reads_map [OF TPMS_SIG_SCHEME_ECSCHNORR_codec] reads_map [OF TPMS_SCHEME_HMAC_codec])
    (simp_all add: emits_done)

lemma TPMT_SIG_SCHEME_codec [codec_intro]: "reads k [] (TPMT_SIG_SCHEME_Unmarshal allowNull) TSS_TPMT_SIG_SCHEME_Marshal"
  unfolding TPMT_SIG_SCHEME_Unmarshal_def TSS_TPMT_SIG_SCHEME_Marshal_def
  by (intro reads_bind [OF TPMI_ALG_SIG_SCHEME_codec] reads_bind [OF TPMU_SIG_SCHEME_codec]
       reads_return)
    (simp_all add: emits_then)

lemma TPMS_ENC_SCHEME_OAEP_codec [codec_intro]: "reads k [] TPMS_ENC_SCHEME_OAEP_Unmarshal TSS_TPMS_ENC_SCHEME_OAEP_Marshal"
  unfolding TPMS_ENC_SCHEME_OAEP_Unmarshal_def TSS_TPMS_ENC_SCHEME_OAEP_Marshal_def by (rule TPMS_SCHEME_HASH_codec)

lemma TPMS_ENC_SCHEME_RSAES_codec [codec_intro]: "reads k [] TPMS_ENC_SCHEME_RSAES_Unmarshal TSS_TPMS_ENC_SCHEME_RSAES_Marshal"
  unfolding TPMS_ENC_SCHEME_RSAES_Unmarshal_def TPMS_EMPTY_Unmarshal_def TSS_TPMS_ENC_SCHEME_RSAES_Marshal_def
  by (intro reads_return emits_done)

lemma TPMS_KEY_SCHEME_ECDH_codec [codec_intro]: "reads k [] TPMS_KEY_SCHEME_ECDH_Unmarshal TSS_TPMS_KEY_SCHEME_ECDH_Marshal"
  unfolding TPMS_KEY_SCHEME_ECDH_Unmarshal_def TSS_TPMS_KEY_SCHEME_ECDH_Marshal_def by (rule TPMS_SCHEME_HASH_codec)

lemma TPMS_KEY_SCHEME_ECMQV_codec [codec_intro]: "reads k [] TPMS_KEY_SCHEME_ECMQV_Unmarshal TSS_TPMS_KEY_SCHEME_ECMQV_Marshal"
  unfolding TPMS_KEY_SCHEME_ECMQV_Unmarshal_def TSS_TPMS_KEY_SCHEME_ECMQV_Marshal_def by (rule TPMS_SCHEME_HASH_codec)

lemma TPMS_SCHEME_KDF1_SP800_108_codec [codec_intro]: "reads k [] TPMS_SCHEME_KDF1_SP800_108_Unmarshal TSS_TPMS_SCHEME_KDF1_SP800_108_Marshal"
  unfolding TPMS_SCHEME_KDF1_SP800_108_Unmarshal_def TSS_TPMS_SCHEME_KDF1_SP800_108_Marshal_def by (rule TPMS_SCHEME_HASH_codec)

lemma TPMS_SCHEME_KDF1_SP800_56A_codec [codec_intro]: "reads k [] TPMS_SCHEME_KDF1_SP800_56A_Unmarshal TSS_TPMS_SCHEME_KDF1_SP800_56A_Marshal"
  unfolding TPMS_SCHEME_KDF1_SP800_56A_Unmarshal_def TSS_TPMS_SCHEME_KDF1_SP800_56A_Marshal_def by (rule TPMS_SCHEME_HASH_codec)

lemma TPMS_SCHEME_KDF2_codec [codec_intro]: "reads k [] TPMS_SCHEME_KDF2_Unmarshal TSS_TPMS_SCHEME_KDF2_Marshal"
  unfolding TPMS_SCHEME_KDF2_Unmarshal_def TSS_TPMS_SCHEME_KDF2_Marshal_def by (rule TPMS_SCHEME_HASH_codec)

lemma TPMS_SCHEME_MGF1_codec [codec_intro]: "reads k [] TPMS_SCHEME_MGF1_Unmarshal TSS_TPMS_SCHEME_MGF1_Marshal"
  unfolding TPMS_SCHEME_MGF1_Unmarshal_def TSS_TPMS_SCHEME_MGF1_Marshal_def by (rule TPMS_SCHEME_HASH_codec)

lemma TPMU_KDF_SCHEME_codec [codec_intro]: "reads k [] (TPMU_KDF_SCHEME_Unmarshal selector) (\<lambda>v. TSS_TPMU_KDF_SCHEME_Marshal v selector)"
  unfolding TPMU_KDF_SCHEME_Unmarshal_def TSS_TPMU_KDF_SCHEME_Marshal_def by (intro reads_if reads_fail reads_return reads_map [OF TPMS_SCHEME_MGF1_codec] reads_map [OF TPMS_SCHEME_KDF1_SP800_56A_codec] reads_map [OF TPMS_SCHEME_KDF1_SP800_108_codec])
    (simp_all add: emits_done)

lemma TPMT_KDF_SCHEME_codec [codec_intro]: "reads k [] (TPMT_KDF_SCHEME_Unmarshal allowNull) TSS_TPMT_KDF_SCHEME_Marshal"
  unfolding TPMT_KDF_SCHEME_Unmarshal_def TSS_TPMT_KDF_SCHEME_Marshal_def
  by (intro reads_bind [OF TPMI_ALG_KDF_codec] reads_bind [OF TPMU_KDF_SCHEME_codec] reads_return)
    (simp_all add: emits_then)

lemma TPMU_ASYM_SCHEME_codec [codec_intro]: "reads k [] (TPMU_ASYM_SCHEME_Unmarshal selector) (\<lambda>v. TSS_TPMU_ASYM_SCHEME_Marshal v selector)"
  unfolding TPMU_ASYM_SCHEME_Unmarshal_def TSS_TPMU_ASYM_SCHEME_Marshal_def by (intro reads_if reads_fail reads_return reads_map [OF TPMS_KEY_SCHEME_ECDH_codec] reads_map [OF TPMS_SIG_SCHEME_RSASSA_codec] reads_map [OF TPMS_SIG_SCHEME_RSAPSS_codec] reads_map [OF TPMS_SIG_SCHEME_ECDSA_codec] reads_map [OF TPMS_SIG_SCHEME_ECDAA_codec] reads_map [OF TPMS_SIG_SCHEME_SM2_codec] reads_map [OF TPMS_SIG_SCHEME_ECSCHNORR_codec] reads_map [OF TPMS_ENC_SCHEME_RSAES_codec] reads_map [OF TPMS_ENC_SCHEME_OAEP_codec])
    (simp_all add: emits_done)

lemma TPMI_ALG_RSA_SCHEME_codec [codec_intro]: "reads k [] (TPMI_ALG_RSA_SCHEME_Unmarshal allowNull) TSS_TPMI_ALG_RSA_SCHEME_Marshal"
  unfolding TPMI_ALG_RSA_SCHEME_Unmarshal_def TSS_TPMI_ALG_RSA_SCHEME_Marshal_def
  by (intro reads_bind [OF TPM_ALG_ID_codec] reads_guard reads_return) simp_all

lemma TPMT_RSA_SCHEME_codec [codec_intro]: "reads k [] (TPMT_RSA_SCHEME_Unmarshal allowNull) TSS_TPMT_RSA_SCHEME_Marshal"
  unfolding TPMT_RSA_SCHEME_Unmarshal_def TSS_TPMT_RSA_SCHEME_Marshal_def
  by (intro reads_bind [OF TPMI_ALG_RSA_SCHEME_codec] reads_bind [OF TPMU_ASYM_SCHEME_codec]
       reads_return)
    (simp_all add: emits_then)

lemma TPMI_ALG_RSA_DECRYPT_codec [codec_intro]: "reads k [] (TPMI_ALG_RSA_DECRYPT_Unmarshal allowNull) TSS_TPMI_ALG_RSA_DECRYPT_Marshal"
  unfolding TPMI_ALG_RSA_DECRYPT_Unmarshal_def TSS_TPMI_ALG_RSA_DECRYPT_Marshal_def
  by (intro reads_bind [OF TPM_ALG_ID_codec] reads_guard reads_return) simp_all

lemma TPMT_RSA_DECRYPT_codec [codec_intro]: "reads k [] (TPMT_RSA_DECRYPT_Unmarshal allowNull) TSS_TPMT_RSA_DECRYPT_Marshal"
  unfolding TPMT_RSA_DECRYPT_Unmarshal_def TSS_TPMT_RSA_DECRYPT_Marshal_def
  by (intro reads_bind [OF TPMI_ALG_RSA_DECRYPT_codec] reads_bind [OF TPMU_ASYM_SCHEME_codec]
       reads_return)
    (simp_all add: emits_then)

lemma TPM2B_PUBLIC_KEY_RSA_codec [codec_intro]: "reads k [] TPM2B_PUBLIC_KEY_RSA_Unmarshal TSS_TPM2B_PUBLIC_KEY_RSA_Marshal"
  unfolding TPM2B_PUBLIC_KEY_RSA_Unmarshal_def TSS_TPM2B_PUBLIC_KEY_RSA_Marshal_def by (rule TPM2B_codec)

lemma TPMI_RSA_KEY_BITS_codec [codec_intro]: "reads k [] TPMI_RSA_KEY_BITS_Unmarshal TSS_TPMI_RSA_KEY_BITS_Marshal"
  unfolding TPMI_RSA_KEY_BITS_Unmarshal_def TSS_TPMI_RSA_KEY_BITS_Marshal_def
  by (intro reads_bind [OF TPM_KEY_BITS_codec] reads_guard reads_return) simp_all

lemma TPM2B_PRIVATE_KEY_RSA_codec [codec_intro]: "reads k [] TPM2B_PRIVATE_KEY_RSA_Unmarshal TSS_TPM2B_PRIVATE_KEY_RSA_Marshal"
  unfolding TPM2B_PRIVATE_KEY_RSA_Unmarshal_def TSS_TPM2B_PRIVATE_KEY_RSA_Marshal_def by (rule TPM2B_codec)

lemma TPM2B_ECC_PARAMETER_codec [codec_intro]: "reads k [] TPM2B_ECC_PARAMETER_Unmarshal TSS_TPM2B_ECC_PARAMETER_Marshal"
  unfolding TPM2B_ECC_PARAMETER_Unmarshal_def TSS_TPM2B_ECC_PARAMETER_Marshal_def by (rule TPM2B_codec)

lemma TPMS_ECC_POINT_codec [codec_intro]: "reads k [] TPMS_ECC_POINT_Unmarshal TSS_TPMS_ECC_POINT_Marshal"
  unfolding TPMS_ECC_POINT_Unmarshal_def TSS_TPMS_ECC_POINT_Marshal_def
  by (intro reads_bind [OF TPM2B_ECC_PARAMETER_codec] reads_return)
    (simp_all add: emits_then)

lemma TPM2B_ECC_POINT_codec [codec_intro]: "2 \<le> k \<Longrightarrow> reads k [] TPM2B_ECC_POINT_Unmarshal TSS_TPM2B_ECC_POINT_Marshal"
  unfolding TPM2B_ECC_POINT_Unmarshal_def by (rule reads_sized_ge [OF TPMS_ECC_POINT_codec]) (simp_all add: TSS_TPM2B_ECC_POINT_Marshal_def)

lemma TPMI_ALG_ECC_SCHEME_codec [codec_intro]: "reads k [] (TPMI_ALG_ECC_SCHEME_Unmarshal allowNull) TSS_TPMI_ALG_ECC_SCHEME_Marshal"
  unfolding TPMI_ALG_ECC_SCHEME_Unmarshal_def TSS_TPMI_ALG_ECC_SCHEME_Marshal_def
  by (intro reads_bind [OF TPM_ALG_ID_codec] reads_guard reads_return) simp_all

lemma TPMI_ECC_CURVE_codec [codec_intro]: "reads k [] TPMI_ECC_CURVE_Unmarshal TSS_TPMI_ECC_CURVE_Marshal"
  unfolding TPMI_ECC_CURVE_Unmarshal_def TSS_TPMI_ECC_CURVE_Marshal_def
  by (intro reads_bind [OF TPM_ECC_CURVE_codec] reads_guard reads_return) simp_all

lemma TPMT_ECC_SCHEME_codec [codec_intro]: "reads k [] (TPMT_ECC_SCHEME_Unmarshal allowNull) TSS_TPMT_ECC_SCHEME_Marshal"
  unfolding TPMT_ECC_SCHEME_Unmarshal_def TSS_TPMT_ECC_SCHEME_Marshal_def
  by (intro reads_bind [OF TPMI_ALG_ECC_SCHEME_codec] reads_bind [OF TPMU_ASYM_SCHEME_codec]
       reads_return)
    (simp_all add: emits_then)

lemma TPMS_ALGORITHM_DETAIL_ECC_codec [codec_intro]: "reads k [] TPMS_ALGORITHM_DETAIL_ECC_Unmarshal TSS_TPMS_ALGORITHM_DETAIL_ECC_Marshal"
  unfolding TPMS_ALGORITHM_DETAIL_ECC_Unmarshal_def TSS_TPMS_ALGORITHM_DETAIL_ECC_Marshal_def
  by (intro reads_bind [OF TPM_ECC_CURVE_codec] reads_bind [OF UINT16_codec]
       reads_bind [OF TPMT_KDF_SCHEME_codec] reads_bind [OF TPMT_ECC_SCHEME_codec]
       reads_bind [OF TPM2B_ECC_PARAMETER_codec] reads_return)
    (simp_all add: emits_then)

section \<open>Signatures\<close>

lemma TPMS_SIGNATURE_RSA_codec [codec_intro]: "reads k [] TPMS_SIGNATURE_RSA_Unmarshal TSS_TPMS_SIGNATURE_RSA_Marshal"
  unfolding TPMS_SIGNATURE_RSA_Unmarshal_def TSS_TPMS_SIGNATURE_RSA_Marshal_def
  by (intro reads_bind [OF TPMI_ALG_HASH_codec] reads_bind [OF TPM2B_PUBLIC_KEY_RSA_codec]
       reads_return)
    (simp_all add: emits_then)

lemma TPMS_SIGNATURE_RSASSA_codec [codec_intro]: "reads k [] TPMS_SIGNATURE_RSASSA_Unmarshal TSS_TPMS_SIGNATURE_RSASSA_Marshal"
  unfolding TPMS_SIGNATURE_RSASSA_Unmarshal_def TSS_TPMS_SIGNATURE_RSASSA_Marshal_def by (rule TPMS_SIGNATURE_RSA_codec)

lemma TPMS_SIGNATURE_RSAPSS_codec [codec_intro]: "reads k [] TPMS_SIGNATURE_RSAPSS_Unmarshal TSS_TPMS_SIGNATURE_RSAPSS_Marshal"
  unfolding TPMS_SIGNATURE_RSAPSS_Unmarshal_def TSS_TPMS_SIGNATURE_RSAPSS_Marshal_def by (rule TPMS_SIGNATURE_RSA_codec)

lemma TPMS_SIGNATURE_ECC_codec [codec_intro]: "reads k [] TPMS_SIGNATURE_ECC_Unmarshal TSS_TPMS_SIGNATURE_ECC_Marshal"
  unfolding TPMS_SIGNATURE_ECC_Unmarshal_def TSS_TPMS_SIGNATURE_ECC_Marshal_def
  by (intro reads_bind [OF TPMI_ALG_HASH_codec] reads_bind [OF TPM2B_ECC_PARAMETER_codec] reads_return)
    (simp_all add: emits_then)

lemma TPMS_SIGNATURE_ECDSA_codec [codec_intro]: "reads k [] TPMS_SIGNATURE_ECDSA_Unmarshal TSS_TPMS_SIGNATURE_ECDSA_Marshal"
  unfolding TPMS_SIGNATURE_ECDSA_Unmarshal_def TSS_TPMS_SIGNATURE_ECDSA_Marshal_def by (rule TPMS_SIGNATURE_ECC_codec)

lemma TPMS_SIGNATURE_ECDAA_codec [codec_intro]: "reads k [] TPMS_SIGNATURE_ECDAA_Unmarshal TSS_TPMS_SIGNATURE_ECDAA_Marshal"
  unfolding TPMS_SIGNATURE_ECDAA_Unmarshal_def TSS_TPMS_SIGNATURE_ECDAA_Marshal_def by (rule TPMS_SIGNATURE_ECC_codec)

lemma TPMS_SIGNATURE_SM2_codec [codec_intro]: "reads k [] TPMS_SIGNATURE_SM2_Unmarshal TSS_TPMS_SIGNATURE_SM2_Marshal"
  unfolding TPMS_SIGNATURE_SM2_Unmarshal_def TSS_TPMS_SIGNATURE_SM2_Marshal_def by (rule TPMS_SIGNATURE_ECC_codec)

lemma TPMS_SIGNATURE_ECSCHNORR_codec [codec_intro]: "reads k [] TPMS_SIGNATURE_ECSCHNORR_Unmarshal TSS_TPMS_SIGNATURE_ECSCHNORR_Marshal"
  unfolding TPMS_SIGNATURE_ECSCHNORR_Unmarshal_def TSS_TPMS_SIGNATURE_ECSCHNORR_Marshal_def by (rule TPMS_SIGNATURE_ECC_codec)

lemma TPMU_SIGNATURE_codec [codec_intro]: "reads k [] (TPMU_SIGNATURE_Unmarshal selector) (\<lambda>v. TSS_TPMU_SIGNATURE_Marshal v selector)"
  unfolding TPMU_SIGNATURE_Unmarshal_def TSS_TPMU_SIGNATURE_Marshal_def by (intro reads_if reads_fail reads_return reads_map [OF TPMS_SIGNATURE_RSASSA_codec] reads_map [OF TPMS_SIGNATURE_RSAPSS_codec] reads_map [OF TPMS_SIGNATURE_ECDSA_codec] reads_map [OF TPMS_SIGNATURE_ECDAA_codec] reads_map [OF TPMS_SIGNATURE_SM2_codec] reads_map [OF TPMS_SIGNATURE_ECSCHNORR_codec] reads_map [OF TPMT_HA_codec])
    (simp_all add: emits_done TSS_TPMS_SIGNATURE_ECDSA_Marshal_def TSS_TPMS_SIGNATURE_ECDAA_Marshal_def
      TSS_TPMS_SIGNATURE_SM2_Marshal_def TSS_TPMS_SIGNATURE_ECSCHNORR_Marshal_def)

lemma TPMT_SIGNATURE_codec [codec_intro]: "reads k [] (TPMT_SIGNATURE_Unmarshal allowNull) TSS_TPMT_SIGNATURE_Marshal"
  unfolding TPMT_SIGNATURE_Unmarshal_def TSS_TPMT_SIGNATURE_Marshal_def
  by (intro reads_bind [OF TPMI_ALG_SIG_SCHEME_codec] reads_bind [OF TPMU_SIGNATURE_codec]
       reads_return)
    (simp_all add: emits_then)

lemma TPM2B_ENCRYPTED_SECRET_codec [codec_intro]: "reads k [] TPM2B_ENCRYPTED_SECRET_Unmarshal TSS_TPM2B_ENCRYPTED_SECRET_Marshal"
  unfolding TPM2B_ENCRYPTED_SECRET_Unmarshal_def TSS_TPM2B_ENCRYPTED_SECRET_Marshal_def by (rule TPM2B_codec)

section \<open>Objects\<close>

lemma TPMI_ALG_PUBLIC_codec [codec_intro]: "reads k [] TPMI_ALG_PUBLIC_Unmarshal TSS_TPMI_ALG_PUBLIC_Marshal"
  unfolding TPMI_ALG_PUBLIC_Unmarshal_def TSS_TPMI_ALG_PUBLIC_Marshal_def
  by (intro reads_bind [OF TPM_ALG_ID_codec] reads_guard reads_return) simp_all

lemma TPMU_PUBLIC_ID_codec [codec_intro]: "reads k [] (TPMU_PUBLIC_ID_Unmarshal selector) (\<lambda>v. TSS_TPMU_PUBLIC_ID_Marshal v selector)"
  unfolding TPMU_PUBLIC_ID_Unmarshal_def TSS_TPMU_PUBLIC_ID_Marshal_def by (intro reads_if reads_fail reads_return reads_map [OF TPM2B_DIGEST_codec] reads_map [OF TPM2B_PUBLIC_KEY_RSA_codec] reads_map [OF TPMS_ECC_POINT_codec])
    (simp_all add: emits_done)

lemma TPMS_KEYEDHASH_PARMS_codec [codec_intro]: "reads k [] TPMS_KEYEDHASH_PARMS_Unmarshal TSS_TPMS_KEYEDHASH_PARMS_Marshal"
  unfolding TPMS_KEYEDHASH_PARMS_Unmarshal_def TSS_TPMS_KEYEDHASH_PARMS_Marshal_def
  by (intro reads_bind [OF TPMT_KEYEDHASH_SCHEME_codec] reads_return)
    (simp_all add: emits_then)

lemma TPMS_RSA_PARMS_codec [codec_intro]: "reads k [] TPMS_RSA_PARMS_Unmarshal TSS_TPMS_RSA_PARMS_Marshal"
  unfolding TPMS_RSA_PARMS_Unmarshal_def TSS_TPMS_RSA_PARMS_Marshal_def
  by (intro reads_bind [OF TPMT_SYM_DEF_OBJECT_codec] reads_bind [OF TPMT_RSA_SCHEME_codec]
       reads_bind [OF TPMI_RSA_KEY_BITS_codec] reads_bind [OF UINT32_codec] reads_return)
    (simp_all add: emits_then)

lemma TPMS_ECC_PARMS_codec [codec_intro]: "reads k [] TPMS_ECC_PARMS_Unmarshal TSS_TPMS_ECC_PARMS_Marshal"
  unfolding TPMS_ECC_PARMS_Unmarshal_def TSS_TPMS_ECC_PARMS_Marshal_def
  by (intro reads_bind [OF TPMT_SYM_DEF_OBJECT_codec] reads_bind [OF TPMT_ECC_SCHEME_codec]
       reads_bind [OF TPMI_ECC_CURVE_codec] reads_bind [OF TPMT_KDF_SCHEME_codec] reads_return)
    (simp_all add: emits_then)

lemma TPMU_PUBLIC_PARMS_codec [codec_intro]: "reads k [] (TPMU_PUBLIC_PARMS_Unmarshal selector) (\<lambda>v. TSS_TPMU_PUBLIC_PARMS_Marshal v selector)"
  unfolding TPMU_PUBLIC_PARMS_Unmarshal_def TSS_TPMU_PUBLIC_PARMS_Marshal_def by (intro reads_if reads_fail reads_return reads_map [OF TPMS_KEYEDHASH_PARMS_codec] reads_map [OF TPMS_SYMCIPHER_PARMS_codec] reads_map [OF TPMS_RSA_PARMS_codec] reads_map [OF TPMS_ECC_PARMS_codec])
    (simp_all add: emits_done)

lemma TPMT_PUBLIC_PARMS_codec [codec_intro]: "reads k [] TPMT_PUBLIC_PARMS_Unmarshal TSS_TPMT_PUBLIC_PARMS_Marshal"
  unfolding TPMT_PUBLIC_PARMS_Unmarshal_def TSS_TPMT_PUBLIC_PARMS_Marshal_def
  by (intro reads_bind [OF TPMI_ALG_PUBLIC_codec] reads_bind [OF TPMU_PUBLIC_PARMS_codec] reads_return)
    (simp_all add: emits_then)

lemma TPMT_PUBLIC_codec [codec_intro]: "reads k [] (TPMT_PUBLIC_Unmarshal allowNull) TSS_TPMT_PUBLIC_Marshal"
  unfolding TPMT_PUBLIC_Unmarshal_def TSS_TPMT_PUBLIC_Marshal_def
  by (intro reads_bind [OF TPMI_ALG_PUBLIC_codec] reads_bind [OF TPMI_ALG_HASH_codec]
       reads_bind [OF TPMA_OBJECT_codec] reads_bind [OF TPM2B_DIGEST_codec]
       reads_bind [OF TPMU_PUBLIC_PARMS_codec] reads_bind [OF TPMU_PUBLIC_ID_codec] reads_return)
    (simp_all add: emits_then)

lemma TPM2B_PUBLIC_codec [codec_intro]: "2 \<le> k \<Longrightarrow> reads k [] (TPM2B_PUBLIC_Unmarshal allowNull) TSS_TPM2B_PUBLIC_Marshal"
  unfolding TPM2B_PUBLIC_Unmarshal_def by (rule reads_sized_ge [OF TPMT_PUBLIC_codec]) (simp_all add: TSS_TPM2B_PUBLIC_Marshal_def)

lemma TPMU_SENSITIVE_COMPOSITE_codec [codec_intro]: "reads k [] (TPMU_SENSITIVE_COMPOSITE_Unmarshal selector) (\<lambda>v. TSS_TPMU_SENSITIVE_COMPOSITE_Marshal v selector)"
  unfolding TPMU_SENSITIVE_COMPOSITE_Unmarshal_def TSS_TPMU_SENSITIVE_COMPOSITE_Marshal_def by (intro reads_if reads_fail reads_return reads_map [OF TPM2B_PRIVATE_KEY_RSA_codec] reads_map [OF TPM2B_ECC_PARAMETER_codec] reads_map [OF TPM2B_SENSITIVE_DATA_codec] reads_map [OF TPM2B_SYM_KEY_codec])
    (simp_all add: emits_done)

lemma TPMT_SENSITIVE_codec [codec_intro]: "reads k [] TPMT_SENSITIVE_Unmarshal TSS_TPMT_SENSITIVE_Marshal"
  unfolding TPMT_SENSITIVE_Unmarshal_def TSS_TPMT_SENSITIVE_Marshal_def
  by (intro reads_bind [OF TPMI_ALG_PUBLIC_codec] reads_bind [OF TPM2B_AUTH_codec]
       reads_bind [OF TPM2B_DIGEST_codec] reads_bind [OF TPMU_SENSITIVE_COMPOSITE_codec]
       reads_return)
    (simp_all add: emits_then)

text \<open>The sensitive area may be absent; the caller that marshals it tests its size first.\<close>

lemma TPM2B_SENSITIVE_optional_codec:
  assumes "2 \<le> k"
  shows "reads k [] TPM2B_SENSITIVE_Unmarshal (\<lambda>v. if TPM2B_SENSITIVE_size v = 0 then TSS_UINT16_Marshal 0
    else TSS_TPM2B_SENSITIVE_Marshal v)"
proof -
  from assms obtain k' where k: "k = k' + 2" by (metis add.commute le_iff_add)
  show ?thesis
    unfolding TPM2B_SENSITIVE_Unmarshal_def k
    by (rule reads_optional [OF TPMT_SENSITIVE_codec]) (simp_all add: TSS_TPM2B_SENSITIVE_Marshal_def)
qed

lemma TPM2B_PRIVATE_codec [codec_intro]: "reads k [] TPM2B_PRIVATE_Unmarshal TSS_TPM2B_PRIVATE_Marshal"
  unfolding TPM2B_PRIVATE_Unmarshal_def TSS_TPM2B_PRIVATE_Marshal_def by (rule TPM2B_codec)

lemma TPM2B_ID_OBJECT_codec [codec_intro]: "reads k [] TPM2B_ID_OBJECT_Unmarshal TSS_TPM2B_ID_OBJECT_Marshal"
  unfolding TPM2B_ID_OBJECT_Unmarshal_def TSS_TPM2B_ID_OBJECT_Marshal_def by (rule TPM2B_codec)

section \<open>NV indices, contexts and creation data\<close>

lemma TPMA_NV_codec [codec_intro]: "reads k [] TPMA_NV_Unmarshal TSS_TPMA_NV_Marshal"
  unfolding TPMA_NV_Unmarshal_def TSS_TPMA_NV_Marshal_def
  by (intro reads_bind [OF UINT32_codec] reads_guard reads_return) simp_all

lemma TPMS_NV_PUBLIC_codec [codec_intro]: "reads k [] TPMS_NV_PUBLIC_Unmarshal TSS_TPMS_NV_PUBLIC_Marshal"
  unfolding TPMS_NV_PUBLIC_Unmarshal_def TSS_TPMS_NV_PUBLIC_Marshal_def
  by (intro reads_bind [OF TPMI_RH_NV_INDEX_codec] reads_bind [OF TPMI_ALG_HASH_codec]
       reads_bind [OF TPMA_NV_codec] reads_bind [OF TPM2B_DIGEST_codec]
       reads_bind [OF UINT16_codec] reads_guard reads_return)
    (simp_all add: emits_then)

lemma TPM2B_NV_PUBLIC_codec [codec_intro]: "2 \<le> k \<Longrightarrow> reads k [] TPM2B_NV_PUBLIC_Unmarshal TSS_TPM2B_NV_PUBLIC_Marshal"
  unfolding TPM2B_NV_PUBLIC_Unmarshal_def by (rule reads_sized_ge [OF TPMS_NV_PUBLIC_codec]) (simp_all add: TSS_TPM2B_NV_PUBLIC_Marshal_def)

lemma TPM2B_CONTEXT_SENSITIVE_codec [codec_intro]: "reads k [] TPM2B_CONTEXT_SENSITIVE_Unmarshal TSS_TPM2B_CONTEXT_SENSITIVE_Marshal"
  unfolding TPM2B_CONTEXT_SENSITIVE_Unmarshal_def TSS_TPM2B_CONTEXT_SENSITIVE_Marshal_def by (rule TPM2B_codec)

lemma TPM2B_CONTEXT_DATA_codec [codec_intro]: "reads k [] TPM2B_CONTEXT_DATA_Unmarshal TSS_TPM2B_CONTEXT_DATA_Marshal"
  unfolding TPM2B_CONTEXT_DATA_Unmarshal_def TSS_TPM2B_CONTEXT_DATA_Marshal_def by (rule TPM2B_codec)

lemma TPMS_CONTEXT_codec [codec_intro]: "reads k [] TPMS_CONTEXT_Unmarshal TSS_TPMS_CONTEXT_Marshal"
  unfolding TPMS_CONTEXT_Unmarshal_def TSS_TPMS_CONTEXT_Marshal_def
  by (intro reads_bind [OF UINT64_codec] reads_bind [OF TPMI_DH_CONTEXT_codec]
       reads_bind [OF TPMI_RH_HIERARCHY_codec] reads_bind [OF TPM2B_CONTEXT_DATA_codec]
       reads_return)
    (simp_all add: emits_then)

lemma TPMS_CREATION_DATA_codec [codec_intro]: "reads k [] TPMS_CREATION_DATA_Unmarshal TSS_TPMS_CREATION_DATA_Marshal"
  unfolding TPMS_CREATION_DATA_Unmarshal_def TSS_TPMS_CREATION_DATA_Marshal_def
  by (intro reads_bind [OF TPML_PCR_SELECTION_codec] reads_bind [OF TPM2B_DIGEST_codec]
       reads_bind [OF TPMA_LOCALITY_codec] reads_bind [OF TPM_ALG_ID_codec]
       reads_bind [OF TPM2B_NAME_codec] reads_bind [OF TPM2B_DATA_codec] reads_return)
    (simp_all add: emits_then)

section \<open>Handles\<close>

lemma handle_emits:
  "emits k (TSS_TPMI_DH_CONTEXT_Marshal h) 0 (be32 h)"
  "emits k (TSS_TPMI_DH_ENTITY_Marshal h) 0 (be32 h)"
  "emits k (TSS_TPMI_DH_OBJECT_Marshal h) 0 (be32 h)"
  "emits k (TSS_TPMI_DH_PCR_Marshal h) 0 (be32 h)"
  "emits k (TSS_TPMI_RH_CLEAR_Marshal h) 0 (be32 h)"
  "emits k (TSS_TPMI_RH_ENDORSEMENT_Marshal h) 0 (be32 h)"
  "emits k (TSS_TPMI_RH_HIERARCHY_AUTH_Marshal h) 0 (be32 h)"
  "emits k (TSS_TPMI_RH_HIERARCHY_Marshal h) 0 (be32 h)"
  "emits k (TSS_TPMI_RH_LOCKOUT_Marshal h) 0 (be32 h)"
  "emits k (TSS_TPMI_RH_NV_AUTH_Marshal h) 0 (be32 h)"
  "emits k (TSS_TPMI_RH_NV_INDEX_Marshal h) 0 (be32 h)"
  "emits k (TSS_TPMI_RH_PLATFORM_Marshal h) 0 (be32 h)"
  "emits k (TSS_TPMI_RH_PROVISION_Marshal h) 0 (be32 h)"
  "emits k (TSS_TPMI_SH_HMAC_Marshal h) 0 (be32 h)"
  "emits k (TSS_TPMI_SH_POLICY_Marshal h) 0 (be32 h)"
  by (simp_all add: emits_UINT32 TSS_TPM_HANDLE_Marshal_def
     TSS_TPMI_DH_CONTEXT_Marshal_def TSS_TPMI_DH_ENTITY_Marshal_def TSS_TPMI_DH_OBJECT_Marshal_def
     TSS_TPMI_DH_PCR_Marshal_def TSS_TPMI_RH_CLEAR_Marshal_def TSS_TPMI_RH_ENDORSEMENT_Marshal_def
     TSS_TPMI_RH_HIERARCHY_AUTH_Marshal_def TSS_TPMI_RH_HIERARCHY_Marshal_def
     TSS_TPMI_RH_LOCKOUT_Marshal_def TSS_TPMI_RH_NV_AUTH_Marshal_def TSS_TPMI_RH_NV_INDEX_Marshal_def
     TSS_TPMI_RH_PLATFORM_Marshal_def TSS_TPMI_RH_PROVISION_Marshal_def TSS_TPMI_SH_HMAC_Marshal_def
     TSS_TPMI_SH_POLICY_Marshal_def)

section \<open>The interface of the main types\<close>

interpretation public: codec basic_error 0 "[]" "TPMT_PUBLIC_Unmarshal allowNull" TSS_TPMT_PUBLIC_Marshal for allowNull
  by unfold_locales (rule TPMT_PUBLIC_codec, erule basic_error_nonzero)

interpretation sized_public: codec basic_error 2 "[]" "TPM2B_PUBLIC_Unmarshal allowNull" TSS_TPM2B_PUBLIC_Marshal
  for allowNull
  by unfold_locales (rule TPM2B_PUBLIC_codec, simp, erule basic_error_nonzero)

interpretation attest: codec basic_error 0 "[]" TPMS_ATTEST_Unmarshal TSS_TPMS_ATTEST_Marshal
  by unfold_locales (rule TPMS_ATTEST_codec, erule basic_error_nonzero)

text \<open>An object, its encoding, and the states of a caller, for the examples.\<close>

definition ex_public :: TPMT_PUBLIC where
  "ex_public = \<lparr>TPMT_PUBLIC_type = TPM_ALG_KEYEDHASH, TPMT_PUBLIC_nameAlg = TPM_ALG_SHA256,
    TPMT_PUBLIC_objectAttributes = 0x40, TPMT_PUBLIC_authPolicy = \<lparr>TPM2B_size = 0, TPM2B_buffer = []\<rparr>,
    TPMT_PUBLIC_parameters = TPMU_PUBLIC_PARMS_keyedHashDetail
      \<lparr>TPMS_KEYEDHASH_PARMS_scheme = \<lparr>TPMT_KEYEDHASH_SCHEME_scheme = TPM_ALG_NULL,
        TPMT_KEYEDHASH_SCHEME_details = TPMU_SCHEME_KEYEDHASH_unset\<rparr>\<rparr>,
    TPMT_PUBLIC_unique = TPMU_PUBLIC_ID_keyedHash \<lparr>TPM2B_size = 2, TPM2B_buffer = [7, 9]\<rparr>\<rparr>"

definition ex_bytes :: "byte list" where
  "ex_bytes = [0, 8, 0, 11, 0, 0, 0, 0x40, 0, 0, 0, 0x10, 0, 2, 7, 9]"

definition ex_sized :: TPM2B_PUBLIC where
  "ex_sized = \<lparr>TPM2B_PUBLIC_size = 16, TPM2B_PUBLIC_publicArea = ex_public\<rparr>"

definition ex_state :: "nat option \<Rightarrow> int option \<Rightarrow> mst" where
  "ex_state p r = \<lparr>written = 0, memory = (\<lambda>_. 0), position = p, room = r\<rparr>"

lemma ex_public_parsed: "TPMT_PUBLIC_Unmarshal False \<lparr>rest = ex_bytes, avail = 16\<rparr> = Ok ex_public \<lparr>rest = [], avail = 0\<rparr>"
  by code_simp

lemma ex_sized_parsed:
  "TPM2B_PUBLIC_Unmarshal False \<lparr>rest = [0, 16] @ ex_bytes, avail = 18\<rparr> = Ok ex_sized \<lparr>rest = [], avail = 0\<rparr>"
  by code_simp

text \<open>
  C25. Round trip of the public area of an object. If \<open>TPMT_PUBLIC_Unmarshal\<close> reads \<open>v\<close> from a buffer, then
  \<open>TSS_TPMT_PUBLIC_Marshal\<close> writes into any buffer with enough room exactly the bytes that were read, and unmarshalling
  them again, whatever follows them, gives \<open>v\<close> and stops after them.
\<close>

theorem TPMT_PUBLIC_roundtrip:
  assumes "u_good b" "TPMT_PUBLIC_Unmarshal allowNull b = Ok v b'"
    and "good s" "position s = Some p" "room s = None \<or> avail b \<le> the (room s)"
  shows "\<exists>bs s'. rest b = bs @ rest b' \<and> TSS_TPMT_PUBLIC_Marshal v s = Done 0 s' \<and>
    position s' = Some (p + length bs) \<and> (\<forall>i<length bs. memory s' (p + i) = bs ! i) \<and>
    (\<forall>r n. int (length bs) \<le> n \<and> n < 2 ^ 31 \<longrightarrow>
       TPMT_PUBLIC_Unmarshal allowNull \<lparr>rest = bs @ r, avail = n\<rparr> = Ok v \<lparr>rest = r, avail = n - int (length bs)\<rparr>)"
  using public.roundtrip [OF assms(1-4)] assms(5) by simp

theorem TPMT_PUBLIC_roundtrip_witness:
  "\<exists>bs s'. ex_bytes = bs @ [] \<and> TSS_TPMT_PUBLIC_Marshal ex_public (ex_state (Some 5) (Some 16)) = Done 0 s' \<and>
    position s' = Some (5 + length bs) \<and> (\<forall>i<length bs. memory s' (5 + i) = bs ! i)"
  using TPMT_PUBLIC_roundtrip [OF _ ex_public_parsed, of "ex_state (Some 5) (Some 16)" 5]
  by (auto simp: u_good_def ex_bytes_def good_def ex_state_def)

text \<open>
  Remark. An attestation structure has one encoding: if \<open>TPMS_ATTEST_Unmarshal\<close> reads the same structure from two buffers, it
  has consumed the same bytes of both. So a signature over the bytes is a signature over the structure.
\<close>

theorem TPMS_ATTEST_unique_encoding:
  assumes "u_good b" "TPMS_ATTEST_Unmarshal b = Ok v b'" "u_good c" "TPMS_ATTEST_Unmarshal c = Ok v c'"
  shows "take (length (rest b) - length (rest b')) (rest b) = take (length (rest c) - length (rest c')) (rest c)"
  using assms by (rule attest.unique_encoding)

definition ex_attest_bytes :: "byte list" where
  "ex_attest_bytes = [0xFF, 0x54, 0x43, 0x47, 0x80, 0x18, 0, 0, 0, 1, 5] @ replicate 16 0 @ [1] @ replicate 8 0 @
     [0, 0, 0, 0, 0, 0]"

definition ex_attest :: TPMS_ATTEST where
  "ex_attest = \<lparr>TPMS_ATTEST_magic = TPM_GENERATED_VALUE, TPMS_ATTEST_type = TPM_ST_ATTEST_QUOTE,
     TPMS_ATTEST_qualifiedSigner = \<lparr>TPM2B_size = 0, TPM2B_buffer = []\<rparr>,
     TPMS_ATTEST_extraData = \<lparr>TPM2B_size = 1, TPM2B_buffer = [5]\<rparr>,
     TPMS_ATTEST_clockInfo = \<lparr>TPMS_CLOCK_INFO_clock = 0, TPMS_CLOCK_INFO_resetCount = 0,
       TPMS_CLOCK_INFO_restartCount = 0, TPMS_CLOCK_INFO_safe = 1\<rparr>,
     TPMS_ATTEST_firmwareVersion = 0,
     TPMS_ATTEST_attested = TPMU_ATTEST_quote \<lparr>TPMS_QUOTE_INFO_pcrSelect =
         \<lparr>TPML_PCR_SELECTION_count = 0, TPML_PCR_SELECTION_pcrSelections = []\<rparr>,
       TPMS_QUOTE_INFO_pcrDigest = \<lparr>TPM2B_size = 0, TPM2B_buffer = []\<rparr>\<rparr>\<rparr>"

lemma ex_attest_parsed:
  "TPMS_ATTEST_Unmarshal \<lparr>rest = ex_attest_bytes @ [3], avail = 43\<rparr> = Ok ex_attest \<lparr>rest = [3], avail = 1\<rparr>"
  "TPMS_ATTEST_Unmarshal \<lparr>rest = ex_attest_bytes, avail = 42\<rparr> = Ok ex_attest \<lparr>rest = [], avail = 0\<rparr>"
  by code_simp+

theorem TPMS_ATTEST_unique_encoding_witness:
  "take 42 (ex_attest_bytes @ [3]) = take 42 ex_attest_bytes"
  using TPMS_ATTEST_unique_encoding [OF _ ex_attest_parsed(1) _ ex_attest_parsed(2)]
  by (simp add: u_good_def ex_attest_bytes_def)

text \<open>
  Remark. The two passes of marshalling a \<open>TPM2B_PUBLIC\<close> agree: with a null buffer, as in the first pass of a caller that
  allocates, the function counts exactly the bytes that it writes with a buffer.
\<close>

theorem TPM2B_PUBLIC_two_pass:
  assumes "u_good b" "TPM2B_PUBLIC_Unmarshal allowNull b = Ok v b'"
    and "good s" "written s = 0" "position s = None"
    and "good t" "written t = 0" "position t = Some p" "room t = None"
  shows "\<exists>n s' t'. TSS_TPM2B_PUBLIC_Marshal v s = Done 0 s' \<and> TSS_TPM2B_PUBLIC_Marshal v t = Done 0 t' \<and>
    position t' = Some (p + n) \<and> written s' = of_nat n \<and> written t' = of_nat n"
  using sized_public.two_pass [OF assms] .

theorem TPM2B_PUBLIC_two_pass_witness:
  "\<exists>n s' t'. TSS_TPM2B_PUBLIC_Marshal ex_sized (ex_state None None) = Done 0 s' \<and>
    TSS_TPM2B_PUBLIC_Marshal ex_sized (ex_state (Some 3) None) = Done 0 t' \<and>
    position t' = Some (3 + n) \<and> written s' = of_nat n \<and> written t' = of_nat n"
  using TPM2B_PUBLIC_two_pass [OF _ ex_sized_parsed, of "ex_state None None" "ex_state (Some 3) None" 3]
  by (simp add: u_good_def good_def ex_bytes_def ex_state_def)

text \<open>
  Remark. A buffer that is too short for a \<open>TPM2B_PUBLIC\<close>: the only error is \<open>TSS_RC_INSUFFICIENT_BUFFER\<close>, nothing before
  the start of the buffer is changed, and nothing from two bytes after its end on.
\<close>

theorem TPM2B_PUBLIC_short_buffer:
  assumes "u_good b" "TPM2B_PUBLIC_Unmarshal allowNull b = Ok v b'"
    and "good s" "position s = Some p" "room s = Some r" "TSS_TPM2B_PUBLIC_Marshal v s = Done rc s'" "rc \<noteq> 0"
  shows "rc = TSS_RC_INSUFFICIENT_BUFFER \<and>
    (\<forall>a. memory s' a \<noteq> memory s a \<longrightarrow> p \<le> a \<and> int a < int p + r + 2)"
  using sized_public.short_buffer [OF assms(1-3,6,7)] assms(4,5) by (simp add: inside_buffer_def)

lemma ex_sized_inner: "emits 0 (TSS_TPMT_PUBLIC_Marshal ex_public) 0 ex_bytes"
  using public.canonical [OF _ ex_public_parsed] by (simp add: u_good_def ex_bytes_def)

lemma ex_short: "\<exists>s'. TSS_TPM2B_PUBLIC_Marshal ex_sized (ex_state (Some 0) (Some 16)) = Done TSS_RC_INSUFFICIENT_BUFFER s'"
  using m_sized_overrun [OF ex_sized_inner, of "ex_state (Some 0) (Some 16)" 0]
  by (auto simp: TSS_TPM2B_PUBLIC_Marshal_def ex_sized_def ex_state_def ex_bytes_def good_def)

theorem TPM2B_PUBLIC_short_buffer_witness:
  "\<exists>s'. TSS_TPM2B_PUBLIC_Marshal ex_sized (ex_state (Some 0) (Some 16)) = Done TSS_RC_INSUFFICIENT_BUFFER s' \<and>
    (\<forall>a. memory s' a \<noteq> 0 \<longrightarrow> int a < 16 + 2)"
proof -
  obtain s' where s': "TSS_TPM2B_PUBLIC_Marshal ex_sized (ex_state (Some 0) (Some 16)) = Done TSS_RC_INSUFFICIENT_BUFFER s'"
    using ex_short by blast
  with TPM2B_PUBLIC_short_buffer [OF _ ex_sized_parsed _ _ _ s', of 0 16] show ?thesis
    by (auto simp: u_good_def good_def ex_bytes_def ex_state_def)
qed

text \<open>
  C40. The two bytes are really overrun. Let \<open>n\<close> be the number of bytes that marshalling an accepted \<open>TPM2B_PUBLIC\<close> takes.
  With room for only \<open>n - 2\<close> the function returns the error, but it has written the whole structure first, to the
  addresses up to \<open>p + n\<close>: the pointer is advanced past the size before the room is tested.
\<close>

theorem TPM2B_PUBLIC_overrun:
  assumes "u_good b" "TPM2B_PUBLIC_Unmarshal allowNull b = Ok v b'"
    and "good t" "position t = Some p" "room t = None"
  shows "\<exists>n t' s'. 2 \<le> n \<and> TSS_TPM2B_PUBLIC_Marshal v t = Done 0 t' \<and> position t' = Some (p + n) \<and>
    TSS_TPM2B_PUBLIC_Marshal v (t\<lparr>room := Some (int n - 2)\<rparr>) = Done TSS_RC_INSUFFICIENT_BUFFER s' \<and>
    (\<forall>a. p + 2 \<le> a \<and> a < p + n \<longrightarrow> memory s' a = memory t' a)"
proof -
  have "delivers (\<lambda>v. \<exists>bs. emits 0 (TSS_TPMT_PUBLIC_Marshal (TPM2B_PUBLIC_publicArea v)) 0 bs)
      (TPM2B_PUBLIC_Unmarshal allowNull)"
    unfolding TPM2B_PUBLIC_Unmarshal_def by (rule sized_delivers [OF TPMT_PUBLIC_codec]) simp
  from deliversE [OF this assms(1)] assms(2) obtain bs
    where bs: "emits 0 (TSS_TPMT_PUBLIC_Marshal (TPM2B_PUBLIC_publicArea v)) 0 bs" by fastforce
  from sized_public.canonical [OF assms(1,2)] obtain cs
    where cs: "emits 2 (TSS_TPM2B_PUBLIC_Marshal v) 0 cs" "int (length cs) \<le> avail b" by auto
  define s where "s = t\<lparr>room := Some (int (length bs))\<rparr>"
  have f: "fits (length cs) t" using assms(5) by (simp add: fits_def)
  note t' = emits_fits [OF cs(1) assms(3) f]
  have "length cs = length bs + 2 \<and> (\<forall>i<length bs. cs ! (i + 2) = bs ! i)"
    using emits_sized_bytes [OF bs cs(1) [unfolded TSS_TPM2B_PUBLIC_Marshal_def]] .
  moreover from this have "good s" using cs(2) assms(1) by (auto simp: s_def good_def u_good_def)
  moreover have "position s = Some p" "room s = Some (int (length bs))" by (simp_all add: s_def assms(4))
  ultimately obtain s' where "TSS_TPM2B_PUBLIC_Marshal v s = Done TSS_RC_INSUFFICIENT_BUFFER s'"
      "\<forall>i<length bs. memory s' (p + 2 + i) = cs ! (i + 2)" "length cs = length bs + 2"
    using m_sized_overrun [OF bs, of s p 2] unfolding TSS_TPM2B_PUBLIC_Marshal_def by auto
  moreover from this have "memory s' a = memory (emit cs t) a" if "p + 2 \<le> a" "a < p + length cs" for a
    using that assms(4) le_Suc_ex [of "p + 2" a] by (auto simp: emit_def put_bytes_def add.commute add.left_commute)
  ultimately show ?thesis
    using t' assms(4) by (intro exI [of _ "length cs"] exI [of _ "emit cs t"] exI [of _ s'])
      (simp add: emit_def s_def)
qed

theorem TPM2B_PUBLIC_overrun_witness:
  "\<exists>n t' s'. 2 \<le> n \<and> TSS_TPM2B_PUBLIC_Marshal ex_sized (ex_state (Some 0) None) = Done 0 t' \<and> position t' = Some n \<and>
    TSS_TPM2B_PUBLIC_Marshal ex_sized (ex_state (Some 0) (Some (int n - 2))) = Done TSS_RC_INSUFFICIENT_BUFFER s' \<and>
    (\<forall>a. 2 \<le> a \<and> a < n \<longrightarrow> memory s' a = memory t' a)"
  using TPM2B_PUBLIC_overrun [OF _ ex_sized_parsed, of "ex_state (Some 0) None" 0]
  by (simp add: u_good_def good_def ex_bytes_def ex_state_def numeral_2_eq_2)

text \<open>
  Remark. The two passes of marshalling a \<open>TPM2B_CREATION_DATA\<close> do not agree: where the function writes \<open>n\<close> bytes with a
  buffer, it counts \<open>n - 2\<close> with a null buffer, because it adds the length of the size field to the pointer \<open>written\<close> and
  not to the count.
\<close>

theorem TPM2B_CREATION_DATA_null_pass:
  assumes "u_good b" "TPM2B_CREATION_DATA_Unmarshal b = Ok v b'"
    and "good s" "written s = 0" "position s = None"
    and "good t" "written t = 0" "position t = Some p" "room t = None"
  shows "\<exists>n s' t'. TSS_TPM2B_CREATION_DATA_Marshal v s = Done 0 s' \<and> TSS_TPM2B_CREATION_DATA_Marshal v t = Done 0 t' \<and>
    position t' = Some (p + n) \<and> written t' = of_nat n \<and> written s' = of_nat n - 2"
proof -
  have "delivers (\<lambda>v. \<exists>bs. emits 0 (TSS_TPMS_CREATION_DATA_Marshal (TPM2B_CREATION_DATA_creationData v)) 0 bs)
      TPM2B_CREATION_DATA_Unmarshal"
    unfolding TPM2B_CREATION_DATA_Unmarshal_def by (rule sized_delivers [OF TPMS_CREATION_DATA_codec]) simp
  from deliversE [OF this assms(1)] assms(2) obtain bs
    where bs: "emits 0 (TSS_TPMS_CREATION_DATA_Marshal (TPM2B_CREATION_DATA_creationData v)) 0 bs" by fastforce
  from emits_fits [OF emits_sized [OF bs emits_UINT16] assms(6)] assms(9)
    m_sized_null [OF bs assms(3,5), of 0] m_sized_buffer [OF assms(8), of 0 _ 2] assms(4,7,8)
  show ?thesis
    by (intro exI [of _ "length bs + 2"]) (simp add: TSS_TPM2B_CREATION_DATA_Marshal_def fits_def emit_def)
qed

definition ex_creation_bytes :: "byte list" where
  "ex_creation_bytes = [0, 15, 0, 0, 0, 0, 0, 0, 1, 0, 0x0B, 0, 0, 0, 0, 0, 0]"

definition ex_creation :: TPM2B_CREATION_DATA where
  "ex_creation = \<lparr>TPM2B_CREATION_DATA_size = 15, TPM2B_CREATION_DATA_creationData =
     \<lparr>TPMS_CREATION_DATA_pcrSelect = \<lparr>TPML_PCR_SELECTION_count = 0, TPML_PCR_SELECTION_pcrSelections = []\<rparr>,
      TPMS_CREATION_DATA_pcrDigest = \<lparr>TPM2B_size = 0, TPM2B_buffer = []\<rparr>, TPMS_CREATION_DATA_locality = 1,
      TPMS_CREATION_DATA_parentNameAlg = TPM_ALG_SHA256,
      TPMS_CREATION_DATA_parentName = \<lparr>TPM2B_size = 0, TPM2B_buffer = []\<rparr>,
      TPMS_CREATION_DATA_parentQualifiedName = \<lparr>TPM2B_size = 0, TPM2B_buffer = []\<rparr>,
      TPMS_CREATION_DATA_outsideInfo = \<lparr>TPM2B_size = 0, TPM2B_buffer = []\<rparr>\<rparr>\<rparr>"

lemma ex_creation_parsed:
  "TPM2B_CREATION_DATA_Unmarshal \<lparr>rest = ex_creation_bytes, avail = 17\<rparr> = Ok ex_creation \<lparr>rest = [], avail = 0\<rparr>"
  by code_simp

theorem TPM2B_CREATION_DATA_null_pass_witness:
  "\<exists>n s' t'. TSS_TPM2B_CREATION_DATA_Marshal ex_creation (ex_state None None) = Done 0 s' \<and>
    TSS_TPM2B_CREATION_DATA_Marshal ex_creation (ex_state (Some 3) None) = Done 0 t' \<and>
    position t' = Some (3 + n) \<and> written t' = of_nat n \<and> written s' = of_nat n - 2"
  using TPM2B_CREATION_DATA_null_pass [OF _ ex_creation_parsed, of "ex_state None None" "ex_state (Some 3) None" 3]
  by (simp add: u_good_def good_def ex_creation_bytes_def ex_state_def)

end
