(* ===== verification/Tss_Bounds.thy ===== *)
theory Tss_Bounds
  imports Tss_Codec
begin

text \<open>
  The arrays of the target structures. For each type \<open>T\<close> with arrays, \<open>T_bounded\<close> says that what was written to each
  of them is no longer than its declaration in \<^verbatim>\<open>tss2/TPM_Types.h\<close>; it is proved of every result of the type's unmarshal
  function, together with the fact that the function never reads past the end of its buffer. The array \<open>pcrSelect\<close> of
  \<open>TPMS_TAGGED_PCR_SELECT\<close> is the exception: its function does not check \<open>sizeofSelect\<close>.
\<close>

section \<open>Capacities\<close>

definition TPMU_HA_bounded :: "TPMU_HA \<Rightarrow> bool" where
  "TPMU_HA_bounded v \<longleftrightarrow> (case v of
       TPMU_HA_sha1 x \<Rightarrow> length x \<le> 20
     | TPMU_HA_sha256 x \<Rightarrow> length x \<le> 32
     | TPMU_HA_sha384 x \<Rightarrow> length x \<le> 48
     | TPMU_HA_tssmax x \<Rightarrow> length x \<le> 128
     | TPMU_HA_unset \<Rightarrow> True)"

definition TPMT_HA_bounded :: "TPMT_HA \<Rightarrow> bool" where
  "TPMT_HA_bounded v \<longleftrightarrow> TPMU_HA_bounded (TPMT_HA_digest v)"

definition TPM2B_DIGEST_bounded :: "TPM2B_DIGEST \<Rightarrow> bool" where
  "TPM2B_DIGEST_bounded v \<longleftrightarrow> bounded 128 v"

definition TPM2B_DATA_bounded :: "TPM2B_DATA \<Rightarrow> bool" where
  "TPM2B_DATA_bounded v \<longleftrightarrow> bounded 130 v"

definition TPM2B_EVENT_bounded :: "TPM2B_EVENT \<Rightarrow> bool" where
  "TPM2B_EVENT_bounded v \<longleftrightarrow> bounded 1024 v"

definition TPM2B_MAX_BUFFER_bounded :: "TPM2B_MAX_BUFFER \<Rightarrow> bool" where
  "TPM2B_MAX_BUFFER_bounded v \<longleftrightarrow> bounded 2048 v"

definition TPM2B_MAX_NV_BUFFER_bounded :: "TPM2B_MAX_NV_BUFFER \<Rightarrow> bool" where
  "TPM2B_MAX_NV_BUFFER_bounded v \<longleftrightarrow> bounded 2048 v"

definition TPM2B_IV_bounded :: "TPM2B_IV \<Rightarrow> bool" where
  "TPM2B_IV_bounded v \<longleftrightarrow> bounded 16 v"

definition TPM2B_NAME_bounded :: "TPM2B_NAME \<Rightarrow> bool" where
  "TPM2B_NAME_bounded v \<longleftrightarrow> bounded 132 v"

definition TPMS_PCR_SELECTION_bounded :: "TPMS_PCR_SELECTION \<Rightarrow> bool" where
  "TPMS_PCR_SELECTION_bounded v \<longleftrightarrow> length (TPMS_PCR_SELECTION_pcrSelect v) \<le> 3"

definition TPMT_TK_CREATION_bounded :: "TPMT_TK_CREATION \<Rightarrow> bool" where
  "TPMT_TK_CREATION_bounded v \<longleftrightarrow> TPM2B_DIGEST_bounded (TPMT_TK_CREATION_digest v)"

definition TPMT_TK_VERIFIED_bounded :: "TPMT_TK_VERIFIED \<Rightarrow> bool" where
  "TPMT_TK_VERIFIED_bounded v \<longleftrightarrow> TPM2B_DIGEST_bounded (TPMT_TK_VERIFIED_digest v)"

definition TPMT_TK_AUTH_bounded :: "TPMT_TK_AUTH \<Rightarrow> bool" where
  "TPMT_TK_AUTH_bounded v \<longleftrightarrow> TPM2B_DIGEST_bounded (TPMT_TK_AUTH_digest v)"

definition TPMT_TK_HASHCHECK_bounded :: "TPMT_TK_HASHCHECK \<Rightarrow> bool" where
  "TPMT_TK_HASHCHECK_bounded v \<longleftrightarrow> TPM2B_DIGEST_bounded (TPMT_TK_HASHCHECK_digest v)"

definition TPML_CC_bounded :: "TPML_CC \<Rightarrow> bool" where
  "TPML_CC_bounded v \<longleftrightarrow> length (TPML_CC_commandCodes v) \<le> 510"

definition TPML_CCA_bounded :: "TPML_CCA \<Rightarrow> bool" where
  "TPML_CCA_bounded v \<longleftrightarrow> length (TPML_CCA_commandAttributes v) \<le> 510"

definition TPML_ALG_bounded :: "TPML_ALG \<Rightarrow> bool" where
  "TPML_ALG_bounded v \<longleftrightarrow> length (TPML_ALG_algorithms v) \<le> 64"

definition TPML_HANDLE_bounded :: "TPML_HANDLE \<Rightarrow> bool" where
  "TPML_HANDLE_bounded v \<longleftrightarrow> length (TPML_HANDLE_handle v) \<le> 510"

definition TPML_DIGEST_bounded :: "TPML_DIGEST \<Rightarrow> bool" where
  "TPML_DIGEST_bounded v \<longleftrightarrow> length (TPML_DIGEST_digests v) \<le> 8
    \<and> list_all TPM2B_DIGEST_bounded (TPML_DIGEST_digests v)"

definition TPML_DIGEST_VALUES_bounded :: "TPML_DIGEST_VALUES \<Rightarrow> bool" where
  "TPML_DIGEST_VALUES_bounded v \<longleftrightarrow> length (TPML_DIGEST_VALUES_digests v) \<le> 3
    \<and> list_all TPMT_HA_bounded (TPML_DIGEST_VALUES_digests v)"

definition TPML_PCR_SELECTION_bounded :: "TPML_PCR_SELECTION \<Rightarrow> bool" where
  "TPML_PCR_SELECTION_bounded v \<longleftrightarrow> length (TPML_PCR_SELECTION_pcrSelections v) \<le> 3
    \<and> list_all TPMS_PCR_SELECTION_bounded (TPML_PCR_SELECTION_pcrSelections v)"

definition TPML_ALG_PROPERTY_bounded :: "TPML_ALG_PROPERTY \<Rightarrow> bool" where
  "TPML_ALG_PROPERTY_bounded v \<longleftrightarrow> length (TPML_ALG_PROPERTY_algProperties v) \<le> 255"

definition TPML_TAGGED_TPM_PROPERTY_bounded :: "TPML_TAGGED_TPM_PROPERTY \<Rightarrow> bool" where
  "TPML_TAGGED_TPM_PROPERTY_bounded v \<longleftrightarrow> length (TPML_TAGGED_TPM_PROPERTY_tpmProperty v) \<le> 255"

definition TPML_TAGGED_PCR_PROPERTY_bounded :: "TPML_TAGGED_PCR_PROPERTY \<Rightarrow> bool" where
  "TPML_TAGGED_PCR_PROPERTY_bounded v \<longleftrightarrow> length (TPML_TAGGED_PCR_PROPERTY_pcrProperty v) \<le> 255"

definition TPML_ECC_CURVE_bounded :: "TPML_ECC_CURVE \<Rightarrow> bool" where
  "TPML_ECC_CURVE_bounded v \<longleftrightarrow> length (TPML_ECC_CURVE_eccCurves v) \<le> 1020"

definition TPMU_CAPABILITIES_bounded :: "TPMU_CAPABILITIES \<Rightarrow> bool" where
  "TPMU_CAPABILITIES_bounded v \<longleftrightarrow> (case v of
       TPMU_CAPABILITIES_algorithms x \<Rightarrow> TPML_ALG_PROPERTY_bounded x
     | TPMU_CAPABILITIES_handles x \<Rightarrow> TPML_HANDLE_bounded x
     | TPMU_CAPABILITIES_command x \<Rightarrow> TPML_CCA_bounded x
     | TPMU_CAPABILITIES_ppCommands x \<Rightarrow> TPML_CC_bounded x
     | TPMU_CAPABILITIES_auditCommands x \<Rightarrow> TPML_CC_bounded x
     | TPMU_CAPABILITIES_assignedPCR x \<Rightarrow> TPML_PCR_SELECTION_bounded x
     | TPMU_CAPABILITIES_tpmProperties x \<Rightarrow> TPML_TAGGED_TPM_PROPERTY_bounded x
     | TPMU_CAPABILITIES_pcrProperties x \<Rightarrow> TPML_TAGGED_PCR_PROPERTY_bounded x
     | TPMU_CAPABILITIES_eccCurves x \<Rightarrow> TPML_ECC_CURVE_bounded x
     | TPMU_CAPABILITIES_unset \<Rightarrow> True)"

definition TPMS_CAPABILITY_DATA_bounded :: "TPMS_CAPABILITY_DATA \<Rightarrow> bool" where
  "TPMS_CAPABILITY_DATA_bounded v \<longleftrightarrow> TPMU_CAPABILITIES_bounded (TPMS_CAPABILITY_DATA_data v)"

definition TPMS_CERTIFY_INFO_bounded :: "TPMS_CERTIFY_INFO \<Rightarrow> bool" where
  "TPMS_CERTIFY_INFO_bounded v \<longleftrightarrow> TPM2B_NAME_bounded (TPMS_CERTIFY_INFO_name v)
    \<and> TPM2B_NAME_bounded (TPMS_CERTIFY_INFO_qualifiedName v)"

definition TPMS_QUOTE_INFO_bounded :: "TPMS_QUOTE_INFO \<Rightarrow> bool" where
  "TPMS_QUOTE_INFO_bounded v \<longleftrightarrow> TPML_PCR_SELECTION_bounded (TPMS_QUOTE_INFO_pcrSelect v)
    \<and> TPM2B_DIGEST_bounded (TPMS_QUOTE_INFO_pcrDigest v)"

definition TPMS_COMMAND_AUDIT_INFO_bounded :: "TPMS_COMMAND_AUDIT_INFO \<Rightarrow> bool" where
  "TPMS_COMMAND_AUDIT_INFO_bounded v \<longleftrightarrow> TPM2B_DIGEST_bounded (TPMS_COMMAND_AUDIT_INFO_auditDigest v)
    \<and> TPM2B_DIGEST_bounded (TPMS_COMMAND_AUDIT_INFO_commandDigest v)"

definition TPMS_SESSION_AUDIT_INFO_bounded :: "TPMS_SESSION_AUDIT_INFO \<Rightarrow> bool" where
  "TPMS_SESSION_AUDIT_INFO_bounded v \<longleftrightarrow> TPM2B_DIGEST_bounded (TPMS_SESSION_AUDIT_INFO_sessionDigest v)"

definition TPMS_CREATION_INFO_bounded :: "TPMS_CREATION_INFO \<Rightarrow> bool" where
  "TPMS_CREATION_INFO_bounded v \<longleftrightarrow> TPM2B_NAME_bounded (TPMS_CREATION_INFO_objectName v)
    \<and> TPM2B_DIGEST_bounded (TPMS_CREATION_INFO_creationHash v)"

definition TPMS_NV_CERTIFY_INFO_bounded :: "TPMS_NV_CERTIFY_INFO \<Rightarrow> bool" where
  "TPMS_NV_CERTIFY_INFO_bounded v \<longleftrightarrow> TPM2B_NAME_bounded (TPMS_NV_CERTIFY_INFO_indexName v)
    \<and> TPM2B_MAX_NV_BUFFER_bounded (TPMS_NV_CERTIFY_INFO_nvContents v)"

definition TPMU_ATTEST_bounded :: "TPMU_ATTEST \<Rightarrow> bool" where
  "TPMU_ATTEST_bounded v \<longleftrightarrow> (case v of
       TPMU_ATTEST_certify x \<Rightarrow> TPMS_CERTIFY_INFO_bounded x
     | TPMU_ATTEST_creation x \<Rightarrow> TPMS_CREATION_INFO_bounded x
     | TPMU_ATTEST_quote x \<Rightarrow> TPMS_QUOTE_INFO_bounded x
     | TPMU_ATTEST_commandAudit x \<Rightarrow> TPMS_COMMAND_AUDIT_INFO_bounded x
     | TPMU_ATTEST_sessionAudit x \<Rightarrow> TPMS_SESSION_AUDIT_INFO_bounded x
     | TPMU_ATTEST_nv x \<Rightarrow> TPMS_NV_CERTIFY_INFO_bounded x
     | _ \<Rightarrow> True)"

definition TPMS_ATTEST_bounded :: "TPMS_ATTEST \<Rightarrow> bool" where
  "TPMS_ATTEST_bounded v \<longleftrightarrow> TPM2B_NAME_bounded (TPMS_ATTEST_qualifiedSigner v)
    \<and> TPM2B_DATA_bounded (TPMS_ATTEST_extraData v) \<and> TPMU_ATTEST_bounded (TPMS_ATTEST_attested v)"

definition TPM2B_ATTEST_bounded :: "TPM2B_ATTEST \<Rightarrow> bool" where
  "TPM2B_ATTEST_bounded v \<longleftrightarrow> bounded 2496 v"

definition TPMS_AUTH_RESPONSE_bounded :: "TPMS_AUTH_RESPONSE \<Rightarrow> bool" where
  "TPMS_AUTH_RESPONSE_bounded v \<longleftrightarrow> TPM2B_DIGEST_bounded (TPMS_AUTH_RESPONSE_nonce v)
    \<and> TPM2B_DIGEST_bounded (TPMS_AUTH_RESPONSE_hmac v)"

definition TPM2B_SYM_KEY_bounded :: "TPM2B_SYM_KEY \<Rightarrow> bool" where
  "TPM2B_SYM_KEY_bounded v \<longleftrightarrow> bounded 32 v"

definition TPM2B_SENSITIVE_DATA_bounded :: "TPM2B_SENSITIVE_DATA \<Rightarrow> bool" where
  "TPM2B_SENSITIVE_DATA_bounded v \<longleftrightarrow> bounded 128 v"

definition TPMS_SENSITIVE_CREATE_bounded :: "TPMS_SENSITIVE_CREATE \<Rightarrow> bool" where
  "TPMS_SENSITIVE_CREATE_bounded v \<longleftrightarrow> TPM2B_DIGEST_bounded (TPMS_SENSITIVE_CREATE_userAuth v)
    \<and> TPM2B_SENSITIVE_DATA_bounded (TPMS_SENSITIVE_CREATE_data v)"

definition TPM2B_SENSITIVE_CREATE_bounded :: "TPM2B_SENSITIVE_CREATE \<Rightarrow> bool" where
  "TPM2B_SENSITIVE_CREATE_bounded v \<longleftrightarrow> TPMS_SENSITIVE_CREATE_bounded (TPM2B_SENSITIVE_CREATE_sensitive v)"

definition TPM2B_PUBLIC_KEY_RSA_bounded :: "TPM2B_PUBLIC_KEY_RSA \<Rightarrow> bool" where
  "TPM2B_PUBLIC_KEY_RSA_bounded v \<longleftrightarrow> bounded 256 v"

definition TPM2B_PRIVATE_KEY_RSA_bounded :: "TPM2B_PRIVATE_KEY_RSA \<Rightarrow> bool" where
  "TPM2B_PRIVATE_KEY_RSA_bounded v \<longleftrightarrow> bounded 128 v"

definition TPM2B_ECC_PARAMETER_bounded :: "TPM2B_ECC_PARAMETER \<Rightarrow> bool" where
  "TPM2B_ECC_PARAMETER_bounded v \<longleftrightarrow> bounded 48 v"

definition TPMS_ECC_POINT_bounded :: "TPMS_ECC_POINT \<Rightarrow> bool" where
  "TPMS_ECC_POINT_bounded v \<longleftrightarrow> TPM2B_ECC_PARAMETER_bounded (TPMS_ECC_POINT_x v)
    \<and> TPM2B_ECC_PARAMETER_bounded (TPMS_ECC_POINT_y v)"

definition TPM2B_ECC_POINT_bounded :: "TPM2B_ECC_POINT \<Rightarrow> bool" where
  "TPM2B_ECC_POINT_bounded v \<longleftrightarrow> TPMS_ECC_POINT_bounded (TPM2B_ECC_POINT_point v)"

definition TPMS_ALGORITHM_DETAIL_ECC_bounded :: "TPMS_ALGORITHM_DETAIL_ECC \<Rightarrow> bool" where
  "TPMS_ALGORITHM_DETAIL_ECC_bounded v \<longleftrightarrow> TPM2B_ECC_PARAMETER_bounded (TPMS_ALGORITHM_DETAIL_ECC_p v)
    \<and> TPM2B_ECC_PARAMETER_bounded (TPMS_ALGORITHM_DETAIL_ECC_a v)
    \<and> TPM2B_ECC_PARAMETER_bounded (TPMS_ALGORITHM_DETAIL_ECC_b v)
    \<and> TPM2B_ECC_PARAMETER_bounded (TPMS_ALGORITHM_DETAIL_ECC_gX v)
    \<and> TPM2B_ECC_PARAMETER_bounded (TPMS_ALGORITHM_DETAIL_ECC_gY v)
    \<and> TPM2B_ECC_PARAMETER_bounded (TPMS_ALGORITHM_DETAIL_ECC_n v)
    \<and> TPM2B_ECC_PARAMETER_bounded (TPMS_ALGORITHM_DETAIL_ECC_h v)"

definition TPMS_SIGNATURE_RSA_bounded :: "TPMS_SIGNATURE_RSA \<Rightarrow> bool" where
  "TPMS_SIGNATURE_RSA_bounded v \<longleftrightarrow> TPM2B_PUBLIC_KEY_RSA_bounded (TPMS_SIGNATURE_RSA_sig v)"

definition TPMS_SIGNATURE_ECC_bounded :: "TPMS_SIGNATURE_ECC \<Rightarrow> bool" where
  "TPMS_SIGNATURE_ECC_bounded v \<longleftrightarrow> TPM2B_ECC_PARAMETER_bounded (TPMS_SIGNATURE_ECC_signatureR v)
    \<and> TPM2B_ECC_PARAMETER_bounded (TPMS_SIGNATURE_ECC_signatureS v)"

definition TPMU_SIGNATURE_bounded :: "TPMU_SIGNATURE \<Rightarrow> bool" where
  "TPMU_SIGNATURE_bounded v \<longleftrightarrow> (case v of
       TPMU_SIGNATURE_rsassa x \<Rightarrow> TPMS_SIGNATURE_RSA_bounded x
     | TPMU_SIGNATURE_rsapss x \<Rightarrow> TPMS_SIGNATURE_RSA_bounded x
     | TPMU_SIGNATURE_ecdsa x \<Rightarrow> TPMS_SIGNATURE_ECC_bounded x
     | TPMU_SIGNATURE_ecdaa x \<Rightarrow> TPMS_SIGNATURE_ECC_bounded x
     | TPMU_SIGNATURE_sm2 x \<Rightarrow> TPMS_SIGNATURE_ECC_bounded x
     | TPMU_SIGNATURE_ecschnorr x \<Rightarrow> TPMS_SIGNATURE_ECC_bounded x
     | TPMU_SIGNATURE_hmac x \<Rightarrow> TPMT_HA_bounded x
     | _ \<Rightarrow> True)"

definition TPMT_SIGNATURE_bounded :: "TPMT_SIGNATURE \<Rightarrow> bool" where
  "TPMT_SIGNATURE_bounded v \<longleftrightarrow> TPMU_SIGNATURE_bounded (TPMT_SIGNATURE_signature v)"

definition TPM2B_ENCRYPTED_SECRET_bounded :: "TPM2B_ENCRYPTED_SECRET \<Rightarrow> bool" where
  "TPM2B_ENCRYPTED_SECRET_bounded v \<longleftrightarrow> bounded 256 v"

definition TPMU_PUBLIC_ID_bounded :: "TPMU_PUBLIC_ID \<Rightarrow> bool" where
  "TPMU_PUBLIC_ID_bounded v \<longleftrightarrow> (case v of
       TPMU_PUBLIC_ID_keyedHash x \<Rightarrow> TPM2B_DIGEST_bounded x
     | TPMU_PUBLIC_ID_sym x \<Rightarrow> TPM2B_DIGEST_bounded x
     | TPMU_PUBLIC_ID_rsa x \<Rightarrow> TPM2B_PUBLIC_KEY_RSA_bounded x
     | TPMU_PUBLIC_ID_ecc x \<Rightarrow> TPMS_ECC_POINT_bounded x
     | TPMU_PUBLIC_ID_unset \<Rightarrow> True)"

definition TPMT_PUBLIC_bounded :: "TPMT_PUBLIC \<Rightarrow> bool" where
  "TPMT_PUBLIC_bounded v \<longleftrightarrow> TPM2B_DIGEST_bounded (TPMT_PUBLIC_authPolicy v)
    \<and> TPMU_PUBLIC_ID_bounded (TPMT_PUBLIC_unique v)"

definition TPM2B_PUBLIC_bounded :: "TPM2B_PUBLIC \<Rightarrow> bool" where
  "TPM2B_PUBLIC_bounded v \<longleftrightarrow> TPMT_PUBLIC_bounded (TPM2B_PUBLIC_publicArea v)"

definition TPM2B_PRIVATE_VENDOR_SPECIFIC_bounded :: "TPM2B_PRIVATE_VENDOR_SPECIFIC \<Rightarrow> bool" where
  "TPM2B_PRIVATE_VENDOR_SPECIFIC_bounded v \<longleftrightarrow> bounded 640 v"

definition TPMU_SENSITIVE_COMPOSITE_bounded :: "TPMU_SENSITIVE_COMPOSITE \<Rightarrow> bool" where
  "TPMU_SENSITIVE_COMPOSITE_bounded v \<longleftrightarrow> (case v of
       TPMU_SENSITIVE_COMPOSITE_rsa x \<Rightarrow> TPM2B_PRIVATE_KEY_RSA_bounded x
     | TPMU_SENSITIVE_COMPOSITE_ecc x \<Rightarrow> TPM2B_ECC_PARAMETER_bounded x
     | TPMU_SENSITIVE_COMPOSITE_bits x \<Rightarrow> TPM2B_SENSITIVE_DATA_bounded x
     | TPMU_SENSITIVE_COMPOSITE_sym x \<Rightarrow> TPM2B_SYM_KEY_bounded x
     | TPMU_SENSITIVE_COMPOSITE_any x \<Rightarrow> TPM2B_PRIVATE_VENDOR_SPECIFIC_bounded x
     | TPMU_SENSITIVE_COMPOSITE_unset \<Rightarrow> True)"

definition TPMT_SENSITIVE_bounded :: "TPMT_SENSITIVE \<Rightarrow> bool" where
  "TPMT_SENSITIVE_bounded v \<longleftrightarrow> TPM2B_DIGEST_bounded (TPMT_SENSITIVE_authValue v)
    \<and> TPM2B_DIGEST_bounded (TPMT_SENSITIVE_seedValue v)
    \<and> TPMU_SENSITIVE_COMPOSITE_bounded (TPMT_SENSITIVE_sensitive v)"

definition TPM2B_SENSITIVE_bounded :: "TPM2B_SENSITIVE \<Rightarrow> bool" where
  "TPM2B_SENSITIVE_bounded v \<longleftrightarrow> pred_option TPMT_SENSITIVE_bounded (TPM2B_SENSITIVE_sensitiveArea v)"

definition TPM2B_PRIVATE_bounded :: "TPM2B_PRIVATE \<Rightarrow> bool" where
  "TPM2B_PRIVATE_bounded v \<longleftrightarrow> bounded 1166 v"

definition TPM2B_ID_OBJECT_bounded :: "TPM2B_ID_OBJECT \<Rightarrow> bool" where
  "TPM2B_ID_OBJECT_bounded v \<longleftrightarrow> bounded 260 v"

definition TPMS_NV_PUBLIC_bounded :: "TPMS_NV_PUBLIC \<Rightarrow> bool" where
  "TPMS_NV_PUBLIC_bounded v \<longleftrightarrow> TPM2B_DIGEST_bounded (TPMS_NV_PUBLIC_authPolicy v)"

definition TPM2B_NV_PUBLIC_bounded :: "TPM2B_NV_PUBLIC \<Rightarrow> bool" where
  "TPM2B_NV_PUBLIC_bounded v \<longleftrightarrow> TPMS_NV_PUBLIC_bounded (TPM2B_NV_PUBLIC_nvPublic v)"

definition TPM2B_CONTEXT_SENSITIVE_bounded :: "TPM2B_CONTEXT_SENSITIVE \<Rightarrow> bool" where
  "TPM2B_CONTEXT_SENSITIVE_bounded v \<longleftrightarrow> bounded 2048 v"

definition TPMS_CONTEXT_DATA_bounded :: "TPMS_CONTEXT_DATA \<Rightarrow> bool" where
  "TPMS_CONTEXT_DATA_bounded v \<longleftrightarrow> TPM2B_DIGEST_bounded (TPMS_CONTEXT_DATA_integrity v)
    \<and> TPM2B_CONTEXT_SENSITIVE_bounded (TPMS_CONTEXT_DATA_encrypted v)"

definition TPM2B_CONTEXT_DATA_bounded :: "TPM2B_CONTEXT_DATA \<Rightarrow> bool" where
  "TPM2B_CONTEXT_DATA_bounded v \<longleftrightarrow> bounded 2180 v"

definition TPMS_CONTEXT_bounded :: "TPMS_CONTEXT \<Rightarrow> bool" where
  "TPMS_CONTEXT_bounded v \<longleftrightarrow> TPM2B_CONTEXT_DATA_bounded (TPMS_CONTEXT_contextBlob v)"

definition TPMS_CREATION_DATA_bounded :: "TPMS_CREATION_DATA \<Rightarrow> bool" where
  "TPMS_CREATION_DATA_bounded v \<longleftrightarrow> TPML_PCR_SELECTION_bounded (TPMS_CREATION_DATA_pcrSelect v)
    \<and> TPM2B_DIGEST_bounded (TPMS_CREATION_DATA_pcrDigest v)
    \<and> TPM2B_NAME_bounded (TPMS_CREATION_DATA_parentName v)
    \<and> TPM2B_NAME_bounded (TPMS_CREATION_DATA_parentQualifiedName v)
    \<and> TPM2B_DATA_bounded (TPMS_CREATION_DATA_outsideInfo v)"

definition TPM2B_CREATION_DATA_bounded :: "TPM2B_CREATION_DATA \<Rightarrow> bool" where
  "TPM2B_CREATION_DATA_bounded v \<longleftrightarrow> TPMS_CREATION_DATA_bounded (TPM2B_CREATION_DATA_creationData v)"

section \<open>The functions of \<^verbatim>\<open>Unmarshal.c\<close> stay within them\<close>

lemma TPMS_EMPTY_delivers: "delivers (\<lambda>_. True) TPMS_EMPTY_Unmarshal"
  unfolding TPMS_EMPTY_Unmarshal_def by (rule delivers_return) simp

lemma TPMU_HA_delivers: "delivers TPMU_HA_bounded (TPMU_HA_Unmarshal selector)"
  unfolding TPMU_HA_Unmarshal_def
  by (intro delivers_if delivers_fail delivers_return delivers_map [OF Array_delivers])
    (simp_all add: TPMU_HA_bounded_def)

lemma TPMT_HA_delivers: "delivers TPMT_HA_bounded (TPMT_HA_Unmarshal allowNull)"
  unfolding TPMT_HA_Unmarshal_def
  by (intro delivers_bind [OF reads_delivers [OF TPMI_ALG_HASH_codec]] delivers_bind [OF TPMU_HA_delivers]
       delivers_return)
    (simp_all add: TPMT_HA_bounded_def)

lemma TPM2B_DIGEST_delivers: "delivers TPM2B_DIGEST_bounded TPM2B_DIGEST_Unmarshal"
  unfolding TPM2B_DIGEST_Unmarshal_def using TPM2B_delivers [of "sizeof_TPMU_HA"]
  by (rule delivers_mono) (simp add: TPM2B_DIGEST_bounded_def)

lemma TPM2B_DATA_delivers: "delivers TPM2B_DATA_bounded TPM2B_DATA_Unmarshal"
  unfolding TPM2B_DATA_Unmarshal_def using TPM2B_delivers [of "sizeof_TPMT_HA"]
  by (rule delivers_mono) (simp add: TPM2B_DATA_bounded_def)

lemma TPM2B_NONCE_delivers: "delivers TPM2B_DIGEST_bounded TPM2B_NONCE_Unmarshal"
  unfolding TPM2B_NONCE_Unmarshal_def by (rule TPM2B_DIGEST_delivers)

lemma TPM2B_AUTH_delivers: "delivers TPM2B_DIGEST_bounded TPM2B_AUTH_Unmarshal"
  unfolding TPM2B_AUTH_Unmarshal_def by (rule TPM2B_DIGEST_delivers)

lemma TPM2B_OPERAND_delivers: "delivers TPM2B_DIGEST_bounded TPM2B_OPERAND_Unmarshal"
  unfolding TPM2B_OPERAND_Unmarshal_def by (rule TPM2B_DIGEST_delivers)

lemma TPM2B_EVENT_delivers: "delivers TPM2B_EVENT_bounded TPM2B_EVENT_Unmarshal"
  unfolding TPM2B_EVENT_Unmarshal_def using TPM2B_delivers [of "sizeof_EVENT_2B - sizeof_UINT16"]
  by (rule delivers_mono) (simp add: TPM2B_EVENT_bounded_def)

lemma TPM2B_MAX_BUFFER_delivers: "delivers TPM2B_MAX_BUFFER_bounded TPM2B_MAX_BUFFER_Unmarshal"
  unfolding TPM2B_MAX_BUFFER_Unmarshal_def using TPM2B_delivers [of "MAX_DIGEST_BUFFER"]
  by (rule delivers_mono) (simp add: TPM2B_MAX_BUFFER_bounded_def)

lemma TPM2B_MAX_NV_BUFFER_delivers: "delivers TPM2B_MAX_NV_BUFFER_bounded TPM2B_MAX_NV_BUFFER_Unmarshal"
  unfolding TPM2B_MAX_NV_BUFFER_Unmarshal_def using TPM2B_delivers [of "MAX_NV_BUFFER_SIZE"]
  by (rule delivers_mono) (simp add: TPM2B_MAX_NV_BUFFER_bounded_def)

lemma TPM2B_TIMEOUT_delivers: "delivers TPM2B_DIGEST_bounded TPM2B_TIMEOUT_Unmarshal"
  unfolding TPM2B_TIMEOUT_Unmarshal_def by (rule TPM2B_DIGEST_delivers)

lemma TPM2B_IV_delivers: "delivers TPM2B_IV_bounded TPM2B_IV_Unmarshal"
  unfolding TPM2B_IV_Unmarshal_def using TPM2B_delivers [of "MAX_SYM_BLOCK_SIZE"]
  by (rule delivers_mono) (simp add: TPM2B_IV_bounded_def)

lemma TPM2B_NAME_delivers: "delivers TPM2B_NAME_bounded TPM2B_NAME_Unmarshal"
  unfolding TPM2B_NAME_Unmarshal_def using TPM2B_delivers [of "sizeof_TPMU_NAME"]
  by (rule delivers_mono) (simp add: TPM2B_NAME_bounded_def)

lemma TPMS_PCR_SELECTION_delivers: "delivers TPMS_PCR_SELECTION_bounded TPMS_PCR_SELECTION_Unmarshal"
  unfolding TPMS_PCR_SELECTION_Unmarshal_def
  by (intro delivers_bind [OF reads_delivers [OF TPMI_ALG_HASH_codec]]
       delivers_bind [OF reads_delivers [OF UINT8_codec]] delivers_bind [OF Array_delivers]
       delivers_guard delivers_return)
    (simp_all add: unsigned_ucast_eq take_bit_nat_less_eq_self [THEN order_trans] TPMS_PCR_SELECTION_bounded_def not_less word_le_nat_alt)

lemma TPMT_TK_CREATION_delivers: "delivers TPMT_TK_CREATION_bounded TPMT_TK_CREATION_Unmarshal"
  unfolding TPMT_TK_CREATION_Unmarshal_def
  by (intro delivers_bind [OF reads_delivers [OF TPM_ST_codec]]
       delivers_bind [OF reads_delivers [OF TPMI_RH_HIERARCHY_codec]]
       delivers_bind [OF TPM2B_DIGEST_delivers] delivers_guard delivers_return)
    (simp_all add: TPMT_TK_CREATION_bounded_def not_less word_le_nat_alt)

lemma TPMT_TK_VERIFIED_delivers: "delivers TPMT_TK_VERIFIED_bounded TPMT_TK_VERIFIED_Unmarshal"
  unfolding TPMT_TK_VERIFIED_Unmarshal_def
  by (intro delivers_bind [OF reads_delivers [OF TPM_ST_codec]]
       delivers_bind [OF reads_delivers [OF TPMI_RH_HIERARCHY_codec]]
       delivers_bind [OF TPM2B_DIGEST_delivers] delivers_guard delivers_return)
    (simp_all add: TPMT_TK_VERIFIED_bounded_def not_less word_le_nat_alt)

lemma TPMT_TK_AUTH_delivers: "delivers TPMT_TK_AUTH_bounded TPMT_TK_AUTH_Unmarshal"
  unfolding TPMT_TK_AUTH_Unmarshal_def
  by (intro delivers_bind [OF reads_delivers [OF TPM_ST_codec]]
       delivers_bind [OF reads_delivers [OF TPMI_RH_HIERARCHY_codec]]
       delivers_bind [OF TPM2B_DIGEST_delivers] delivers_guard delivers_return)
    (simp_all add: TPMT_TK_AUTH_bounded_def not_less word_le_nat_alt)

lemma TPMT_TK_HASHCHECK_delivers: "delivers TPMT_TK_HASHCHECK_bounded TPMT_TK_HASHCHECK_Unmarshal"
  unfolding TPMT_TK_HASHCHECK_Unmarshal_def
  by (intro delivers_bind [OF reads_delivers [OF TPM_ST_codec]]
       delivers_bind [OF reads_delivers [OF TPMI_RH_HIERARCHY_codec]]
       delivers_bind [OF TPM2B_DIGEST_delivers] delivers_guard delivers_return)
    (simp_all add: TPMT_TK_HASHCHECK_bounded_def not_less word_le_nat_alt)

lemma TPMS_TAGGED_PCR_SELECT_delivers: "delivers (\<lambda>_. True) TPMS_TAGGED_PCR_SELECT_Unmarshal"
  unfolding TPMS_TAGGED_PCR_SELECT_Unmarshal_def
  by (intro delivers_bind [OF reads_delivers [OF TPM_PT_PCR_codec]]
       delivers_bind [OF reads_delivers [OF UINT8_codec]] delivers_bind [OF Array_delivers]
       delivers_return)
    (simp_all)

lemma TPML_CC_delivers: "delivers TPML_CC_bounded TPML_CC_Unmarshal"
  unfolding TPML_CC_Unmarshal_def
  by (intro delivers_bind [OF reads_delivers [OF UINT32_codec]]
       delivers_bind [OF delivers_list [OF reads_delivers [OF TPM_CC_codec]]] delivers_guard
       delivers_return)
    (simp_all add: TPML_CC_bounded_def not_less word_le_nat_alt)

lemma TPML_CCA_delivers: "delivers TPML_CCA_bounded TPML_CCA_Unmarshal"
  unfolding TPML_CCA_Unmarshal_def
  by (intro delivers_bind [OF reads_delivers [OF UINT32_codec]]
       delivers_bind [OF delivers_list [OF reads_delivers [OF TPMA_CC_codec]]] delivers_guard
       delivers_return)
    (simp_all add: TPML_CCA_bounded_def not_less word_le_nat_alt)

lemma TPML_ALG_delivers: "delivers TPML_ALG_bounded TPML_ALG_Unmarshal"
  unfolding TPML_ALG_Unmarshal_def
  by (intro delivers_bind [OF reads_delivers [OF UINT32_codec]]
       delivers_bind [OF delivers_list [OF reads_delivers [OF TPM_ALG_ID_codec]]] delivers_guard
       delivers_return)
    (simp_all add: TPML_ALG_bounded_def not_less word_le_nat_alt)

lemma TPML_HANDLE_delivers: "delivers TPML_HANDLE_bounded TPML_HANDLE_Unmarshal"
  unfolding TPML_HANDLE_Unmarshal_def
  by (intro delivers_bind [OF reads_delivers [OF UINT32_codec]]
       delivers_bind [OF delivers_list [OF reads_delivers [OF TPM_HANDLE_codec]]] delivers_guard
       delivers_return)
    (simp_all add: TPML_HANDLE_bounded_def not_less word_le_nat_alt)

lemma TPML_DIGEST_delivers: "delivers TPML_DIGEST_bounded (TPML_DIGEST_Unmarshal minCount)"
  unfolding TPML_DIGEST_Unmarshal_def
  by (intro delivers_bind [OF reads_delivers [OF UINT32_codec]]
       delivers_bind [OF delivers_list [OF TPM2B_DIGEST_delivers]] delivers_guard delivers_return)
    (simp_all add: TPML_DIGEST_bounded_def not_less word_le_nat_alt)

lemma TPML_DIGEST_VALUES_delivers: "delivers TPML_DIGEST_VALUES_bounded TPML_DIGEST_VALUES_Unmarshal"
  unfolding TPML_DIGEST_VALUES_Unmarshal_def
  by (intro delivers_bind [OF reads_delivers [OF UINT32_codec]]
       delivers_bind [OF delivers_list [OF TPMT_HA_delivers]] delivers_guard delivers_return)
    (simp_all add: TPML_DIGEST_VALUES_bounded_def not_less word_le_nat_alt)

lemma TPML_PCR_SELECTION_delivers: "delivers TPML_PCR_SELECTION_bounded TPML_PCR_SELECTION_Unmarshal"
  unfolding TPML_PCR_SELECTION_Unmarshal_def
  by (intro delivers_bind [OF reads_delivers [OF UINT32_codec]]
       delivers_bind [OF delivers_list [OF TPMS_PCR_SELECTION_delivers]] delivers_guard delivers_return)
    (simp_all add: TPML_PCR_SELECTION_bounded_def not_less word_le_nat_alt)

lemma TPML_ALG_PROPERTY_delivers: "delivers TPML_ALG_PROPERTY_bounded TPML_ALG_PROPERTY_Unmarshal"
  unfolding TPML_ALG_PROPERTY_Unmarshal_def
  by (intro delivers_bind [OF reads_delivers [OF UINT32_codec]]
       delivers_bind [OF delivers_list [OF reads_delivers [OF TPMS_ALG_PROPERTY_codec]]] delivers_guard
       delivers_return)
    (simp_all add: TPML_ALG_PROPERTY_bounded_def not_less word_le_nat_alt)

lemma TPML_TAGGED_TPM_PROPERTY_delivers: "delivers TPML_TAGGED_TPM_PROPERTY_bounded TPML_TAGGED_TPM_PROPERTY_Unmarshal"
  unfolding TPML_TAGGED_TPM_PROPERTY_Unmarshal_def
  by (intro delivers_bind [OF reads_delivers [OF UINT32_codec]]
       delivers_bind [OF delivers_list [OF reads_delivers [OF TPMS_TAGGED_PROPERTY_codec]]]
       delivers_guard delivers_return)
    (simp_all add: TPML_TAGGED_TPM_PROPERTY_bounded_def not_less word_le_nat_alt)

lemma TPML_TAGGED_PCR_PROPERTY_delivers: "delivers TPML_TAGGED_PCR_PROPERTY_bounded TPML_TAGGED_PCR_PROPERTY_Unmarshal"
  unfolding TPML_TAGGED_PCR_PROPERTY_Unmarshal_def
  by (intro delivers_bind [OF reads_delivers [OF UINT32_codec]]
       delivers_bind [OF delivers_list [OF TPMS_TAGGED_PCR_SELECT_delivers]] delivers_guard
       delivers_return)
    (simp_all add: TPML_TAGGED_PCR_PROPERTY_bounded_def not_less word_le_nat_alt)

lemma TPML_ECC_CURVE_delivers: "delivers TPML_ECC_CURVE_bounded TPML_ECC_CURVE_Unmarshal"
  unfolding TPML_ECC_CURVE_Unmarshal_def
  by (intro delivers_bind [OF reads_delivers [OF UINT32_codec]]
       delivers_bind [OF delivers_list [OF reads_delivers [OF TPM_ECC_CURVE_codec]]] delivers_guard
       delivers_return)
    (simp_all add: TPML_ECC_CURVE_bounded_def not_less word_le_nat_alt)

lemma TPMU_CAPABILITIES_delivers: "delivers TPMU_CAPABILITIES_bounded (TPMU_CAPABILITIES_Unmarshal selector)"
  unfolding TPMU_CAPABILITIES_Unmarshal_def
  by (intro delivers_if delivers_fail delivers_return delivers_map [OF TPML_ALG_PROPERTY_delivers]
       delivers_map [OF TPML_HANDLE_delivers] delivers_map [OF TPML_CCA_delivers]
       delivers_map [OF TPML_CC_delivers] delivers_map [OF TPML_PCR_SELECTION_delivers]
       delivers_map [OF TPML_TAGGED_TPM_PROPERTY_delivers]
       delivers_map [OF TPML_TAGGED_PCR_PROPERTY_delivers] delivers_map [OF TPML_ECC_CURVE_delivers])
    (simp_all add: TPMU_CAPABILITIES_bounded_def)

lemma TPMS_CAPABILITY_DATA_delivers: "delivers TPMS_CAPABILITY_DATA_bounded TPMS_CAPABILITY_DATA_Unmarshal"
  unfolding TPMS_CAPABILITY_DATA_Unmarshal_def
  by (intro delivers_bind [OF reads_delivers [OF TPM_CAP_codec]]
       delivers_bind [OF TPMU_CAPABILITIES_delivers] delivers_return)
    (simp_all add: TPMS_CAPABILITY_DATA_bounded_def)

lemma TPMS_CERTIFY_INFO_delivers: "delivers TPMS_CERTIFY_INFO_bounded TPMS_CERTIFY_INFO_Unmarshal"
  unfolding TPMS_CERTIFY_INFO_Unmarshal_def
  by (intro delivers_bind [OF TPM2B_NAME_delivers] delivers_return)
    (simp_all add: TPMS_CERTIFY_INFO_bounded_def)

lemma TPMS_QUOTE_INFO_delivers: "delivers TPMS_QUOTE_INFO_bounded TPMS_QUOTE_INFO_Unmarshal"
  unfolding TPMS_QUOTE_INFO_Unmarshal_def
  by (intro delivers_bind [OF TPML_PCR_SELECTION_delivers] delivers_bind [OF TPM2B_DIGEST_delivers]
       delivers_return)
    (simp_all add: TPMS_QUOTE_INFO_bounded_def)

lemma TPMS_COMMAND_AUDIT_INFO_delivers: "delivers TPMS_COMMAND_AUDIT_INFO_bounded TPMS_COMMAND_AUDIT_INFO_Unmarshal"
  unfolding TPMS_COMMAND_AUDIT_INFO_Unmarshal_def
  by (intro delivers_bind [OF reads_delivers [OF UINT64_codec]]
       delivers_bind [OF reads_delivers [OF TPM_ALG_ID_codec]] delivers_bind [OF TPM2B_DIGEST_delivers]
       delivers_return)
    (simp_all add: TPMS_COMMAND_AUDIT_INFO_bounded_def)

lemma TPMS_SESSION_AUDIT_INFO_delivers: "delivers TPMS_SESSION_AUDIT_INFO_bounded TPMS_SESSION_AUDIT_INFO_Unmarshal"
  unfolding TPMS_SESSION_AUDIT_INFO_Unmarshal_def
  by (intro delivers_bind [OF reads_delivers [OF TPMI_YES_NO_codec]]
       delivers_bind [OF TPM2B_DIGEST_delivers] delivers_return)
    (simp_all add: TPMS_SESSION_AUDIT_INFO_bounded_def)

lemma TPMS_CREATION_INFO_delivers: "delivers TPMS_CREATION_INFO_bounded TPMS_CREATION_INFO_Unmarshal"
  unfolding TPMS_CREATION_INFO_Unmarshal_def
  by (intro delivers_bind [OF TPM2B_NAME_delivers] delivers_bind [OF TPM2B_DIGEST_delivers] delivers_return)
    (simp_all add: TPMS_CREATION_INFO_bounded_def)

lemma TPMS_NV_CERTIFY_INFO_delivers: "delivers TPMS_NV_CERTIFY_INFO_bounded TPMS_NV_CERTIFY_INFO_Unmarshal"
  unfolding TPMS_NV_CERTIFY_INFO_Unmarshal_def
  by (intro delivers_bind [OF TPM2B_NAME_delivers] delivers_bind [OF reads_delivers [OF UINT16_codec]]
       delivers_bind [OF TPM2B_MAX_NV_BUFFER_delivers] delivers_return)
    (simp_all add: TPMS_NV_CERTIFY_INFO_bounded_def)

lemma TPMU_ATTEST_delivers: "delivers TPMU_ATTEST_bounded (TPMU_ATTEST_Unmarshal selector)"
  unfolding TPMU_ATTEST_Unmarshal_def
  by (intro delivers_if delivers_fail delivers_return delivers_map [OF TPMS_CERTIFY_INFO_delivers]
       delivers_map [OF TPMS_CREATION_INFO_delivers] delivers_map [OF TPMS_QUOTE_INFO_delivers]
       delivers_map [OF TPMS_COMMAND_AUDIT_INFO_delivers]
       delivers_map [OF TPMS_SESSION_AUDIT_INFO_delivers]
       delivers_map [OF reads_delivers [OF TPMS_TIME_ATTEST_INFO_codec]]
       delivers_map [OF TPMS_NV_CERTIFY_INFO_delivers])
    (simp_all add: TPMU_ATTEST_bounded_def)

lemma TPMS_ATTEST_delivers: "delivers TPMS_ATTEST_bounded TPMS_ATTEST_Unmarshal"
  unfolding TPMS_ATTEST_Unmarshal_def
  by (intro delivers_bind [OF reads_delivers [OF TPM_GENERATED_codec]]
       delivers_bind [OF reads_delivers [OF TPMI_ST_ATTEST_codec]]
       delivers_bind [OF TPM2B_NAME_delivers] delivers_bind [OF TPM2B_DATA_delivers]
       delivers_bind [OF reads_delivers [OF TPMS_CLOCK_INFO_codec]]
       delivers_bind [OF reads_delivers [OF UINT64_codec]] delivers_bind [OF TPMU_ATTEST_delivers]
       delivers_return)
    (simp_all add: TPMS_ATTEST_bounded_def)

lemma TPM2B_ATTEST_delivers: "delivers TPM2B_ATTEST_bounded TPM2B_ATTEST_Unmarshal"
  unfolding TPM2B_ATTEST_Unmarshal_def using TPM2B_delivers [of "sizeof_TPMS_ATTEST"]
  by (rule delivers_mono) (simp add: TPM2B_ATTEST_bounded_def)

lemma TPMS_AUTH_RESPONSE_delivers: "delivers TPMS_AUTH_RESPONSE_bounded TPMS_AUTH_RESPONSE_Unmarshal"
  unfolding TPMS_AUTH_RESPONSE_Unmarshal_def
  by (intro delivers_bind [OF TPM2B_NONCE_delivers]
       delivers_bind [OF reads_delivers [OF TPMA_SESSION_codec]] delivers_bind [OF TPM2B_AUTH_delivers]
       delivers_return)
    (simp_all add: TPMS_AUTH_RESPONSE_bounded_def)

lemma TPM2B_SYM_KEY_delivers: "delivers TPM2B_SYM_KEY_bounded TPM2B_SYM_KEY_Unmarshal"
  unfolding TPM2B_SYM_KEY_Unmarshal_def using TPM2B_delivers [of "MAX_SYM_KEY_BYTES"]
  by (rule delivers_mono) (simp add: TPM2B_SYM_KEY_bounded_def)

lemma TPM2B_SENSITIVE_DATA_delivers: "delivers TPM2B_SENSITIVE_DATA_bounded TPM2B_SENSITIVE_DATA_Unmarshal"
  unfolding TPM2B_SENSITIVE_DATA_Unmarshal_def using TPM2B_delivers [of "MAX_SYM_DATA"]
  by (rule delivers_mono) (simp add: TPM2B_SENSITIVE_DATA_bounded_def)

lemma TPMS_SENSITIVE_CREATE_delivers: "delivers TPMS_SENSITIVE_CREATE_bounded TPMS_SENSITIVE_CREATE_Unmarshal"
  unfolding TPMS_SENSITIVE_CREATE_Unmarshal_def
  by (intro delivers_bind [OF TPM2B_AUTH_delivers] delivers_bind [OF TPM2B_SENSITIVE_DATA_delivers]
       delivers_return)
    (simp_all add: TPMS_SENSITIVE_CREATE_bounded_def)

lemma TPM2B_SENSITIVE_CREATE_delivers: "delivers TPM2B_SENSITIVE_CREATE_bounded TPM2B_SENSITIVE_CREATE_Unmarshal"
  unfolding TPM2B_SENSITIVE_CREATE_Unmarshal_def
  by (intro delivers_bind [OF reads_delivers [OF UINT16_codec]] delivers_guard
       delivers_bind [OF delivers_exactly [OF TPMS_SENSITIVE_CREATE_delivers]] delivers_return)
    (simp_all add: TPM2B_SENSITIVE_CREATE_bounded_def)

lemma TPM2B_PUBLIC_KEY_RSA_delivers: "delivers TPM2B_PUBLIC_KEY_RSA_bounded TPM2B_PUBLIC_KEY_RSA_Unmarshal"
  unfolding TPM2B_PUBLIC_KEY_RSA_Unmarshal_def using TPM2B_delivers [of "MAX_RSA_KEY_BYTES"]
  by (rule delivers_mono) (simp add: TPM2B_PUBLIC_KEY_RSA_bounded_def)

lemma TPM2B_PRIVATE_KEY_RSA_delivers: "delivers TPM2B_PRIVATE_KEY_RSA_bounded TPM2B_PRIVATE_KEY_RSA_Unmarshal"
  unfolding TPM2B_PRIVATE_KEY_RSA_Unmarshal_def using TPM2B_delivers [of "MAX_RSA_KEY_BYTES div 2"]
  by (rule delivers_mono) (simp add: TPM2B_PRIVATE_KEY_RSA_bounded_def)

lemma TPM2B_ECC_PARAMETER_delivers: "delivers TPM2B_ECC_PARAMETER_bounded TPM2B_ECC_PARAMETER_Unmarshal"
  unfolding TPM2B_ECC_PARAMETER_Unmarshal_def using TPM2B_delivers [of "MAX_ECC_KEY_BYTES"]
  by (rule delivers_mono) (simp add: TPM2B_ECC_PARAMETER_bounded_def)

lemma TPMS_ECC_POINT_delivers: "delivers TPMS_ECC_POINT_bounded TPMS_ECC_POINT_Unmarshal"
  unfolding TPMS_ECC_POINT_Unmarshal_def
  by (intro delivers_bind [OF TPM2B_ECC_PARAMETER_delivers] delivers_return)
    (simp_all add: TPMS_ECC_POINT_bounded_def)

lemma TPM2B_ECC_POINT_delivers: "delivers TPM2B_ECC_POINT_bounded TPM2B_ECC_POINT_Unmarshal"
  unfolding TPM2B_ECC_POINT_Unmarshal_def
  by (intro delivers_bind [OF reads_delivers [OF UINT16_codec]] delivers_guard
       delivers_bind [OF delivers_exactly [OF TPMS_ECC_POINT_delivers]] delivers_return)
    (simp_all add: TPM2B_ECC_POINT_bounded_def)

lemma TPMS_ALGORITHM_DETAIL_ECC_delivers: "delivers TPMS_ALGORITHM_DETAIL_ECC_bounded TPMS_ALGORITHM_DETAIL_ECC_Unmarshal"
  unfolding TPMS_ALGORITHM_DETAIL_ECC_Unmarshal_def
  by (intro delivers_bind [OF reads_delivers [OF TPM_ECC_CURVE_codec]]
       delivers_bind [OF reads_delivers [OF UINT16_codec]]
       delivers_bind [OF reads_delivers [OF TPMT_KDF_SCHEME_codec]]
       delivers_bind [OF reads_delivers [OF TPMT_ECC_SCHEME_codec]]
       delivers_bind [OF TPM2B_ECC_PARAMETER_delivers] delivers_return)
    (simp_all add: TPMS_ALGORITHM_DETAIL_ECC_bounded_def)

lemma TPMS_SIGNATURE_RSA_delivers: "delivers TPMS_SIGNATURE_RSA_bounded TPMS_SIGNATURE_RSA_Unmarshal"
  unfolding TPMS_SIGNATURE_RSA_Unmarshal_def
  by (intro delivers_bind [OF reads_delivers [OF TPMI_ALG_HASH_codec]]
       delivers_bind [OF TPM2B_PUBLIC_KEY_RSA_delivers] delivers_return)
    (simp_all add: TPMS_SIGNATURE_RSA_bounded_def)

lemma TPMS_SIGNATURE_RSASSA_delivers: "delivers TPMS_SIGNATURE_RSA_bounded TPMS_SIGNATURE_RSASSA_Unmarshal"
  unfolding TPMS_SIGNATURE_RSASSA_Unmarshal_def by (rule TPMS_SIGNATURE_RSA_delivers)

lemma TPMS_SIGNATURE_RSAPSS_delivers: "delivers TPMS_SIGNATURE_RSA_bounded TPMS_SIGNATURE_RSAPSS_Unmarshal"
  unfolding TPMS_SIGNATURE_RSAPSS_Unmarshal_def by (rule TPMS_SIGNATURE_RSA_delivers)

lemma TPMS_SIGNATURE_ECC_delivers: "delivers TPMS_SIGNATURE_ECC_bounded TPMS_SIGNATURE_ECC_Unmarshal"
  unfolding TPMS_SIGNATURE_ECC_Unmarshal_def
  by (intro delivers_bind [OF reads_delivers [OF TPMI_ALG_HASH_codec]]
       delivers_bind [OF TPM2B_ECC_PARAMETER_delivers] delivers_return)
    (simp_all add: TPMS_SIGNATURE_ECC_bounded_def)

lemma TPMS_SIGNATURE_ECDSA_delivers: "delivers TPMS_SIGNATURE_ECC_bounded TPMS_SIGNATURE_ECDSA_Unmarshal"
  unfolding TPMS_SIGNATURE_ECDSA_Unmarshal_def by (rule TPMS_SIGNATURE_ECC_delivers)

lemma TPMS_SIGNATURE_ECDAA_delivers: "delivers TPMS_SIGNATURE_ECC_bounded TPMS_SIGNATURE_ECDAA_Unmarshal"
  unfolding TPMS_SIGNATURE_ECDAA_Unmarshal_def by (rule TPMS_SIGNATURE_ECC_delivers)

lemma TPMS_SIGNATURE_SM2_delivers: "delivers TPMS_SIGNATURE_ECC_bounded TPMS_SIGNATURE_SM2_Unmarshal"
  unfolding TPMS_SIGNATURE_SM2_Unmarshal_def by (rule TPMS_SIGNATURE_ECC_delivers)

lemma TPMS_SIGNATURE_ECSCHNORR_delivers: "delivers TPMS_SIGNATURE_ECC_bounded TPMS_SIGNATURE_ECSCHNORR_Unmarshal"
  unfolding TPMS_SIGNATURE_ECSCHNORR_Unmarshal_def by (rule TPMS_SIGNATURE_ECC_delivers)

lemma TPMU_SIGNATURE_delivers: "delivers TPMU_SIGNATURE_bounded (TPMU_SIGNATURE_Unmarshal selector)"
  unfolding TPMU_SIGNATURE_Unmarshal_def
  by (intro delivers_if delivers_fail delivers_return delivers_map [OF TPMS_SIGNATURE_RSASSA_delivers]
       delivers_map [OF TPMS_SIGNATURE_RSAPSS_delivers] delivers_map [OF TPMS_SIGNATURE_ECDSA_delivers]
       delivers_map [OF TPMS_SIGNATURE_ECDAA_delivers] delivers_map [OF TPMS_SIGNATURE_SM2_delivers]
       delivers_map [OF TPMS_SIGNATURE_ECSCHNORR_delivers] delivers_map [OF TPMT_HA_delivers])
    (simp_all add: TPMU_SIGNATURE_bounded_def)

lemma TPMT_SIGNATURE_delivers: "delivers TPMT_SIGNATURE_bounded (TPMT_SIGNATURE_Unmarshal allowNull)"
  unfolding TPMT_SIGNATURE_Unmarshal_def
  by (intro delivers_bind [OF reads_delivers [OF TPMI_ALG_SIG_SCHEME_codec]]
       delivers_bind [OF TPMU_SIGNATURE_delivers] delivers_return)
    (simp_all add: TPMT_SIGNATURE_bounded_def)

lemma TPM2B_ENCRYPTED_SECRET_delivers: "delivers TPM2B_ENCRYPTED_SECRET_bounded TPM2B_ENCRYPTED_SECRET_Unmarshal"
  unfolding TPM2B_ENCRYPTED_SECRET_Unmarshal_def using TPM2B_delivers [of "sizeof_TPMU_ENCRYPTED_SECRET"]
  by (rule delivers_mono) (simp add: TPM2B_ENCRYPTED_SECRET_bounded_def)

lemma TPMU_PUBLIC_ID_delivers: "delivers TPMU_PUBLIC_ID_bounded (TPMU_PUBLIC_ID_Unmarshal selector)"
  unfolding TPMU_PUBLIC_ID_Unmarshal_def
  by (intro delivers_if delivers_fail delivers_return delivers_map [OF TPM2B_DIGEST_delivers]
       delivers_map [OF TPM2B_PUBLIC_KEY_RSA_delivers] delivers_map [OF TPMS_ECC_POINT_delivers])
    (simp_all add: TPMU_PUBLIC_ID_bounded_def)

lemma TPMT_PUBLIC_delivers: "delivers TPMT_PUBLIC_bounded (TPMT_PUBLIC_Unmarshal allowNull)"
  unfolding TPMT_PUBLIC_Unmarshal_def
  by (intro delivers_bind [OF reads_delivers [OF TPMI_ALG_PUBLIC_codec]]
       delivers_bind [OF reads_delivers [OF TPMI_ALG_HASH_codec]]
       delivers_bind [OF reads_delivers [OF TPMA_OBJECT_codec]]
       delivers_bind [OF TPM2B_DIGEST_delivers]
       delivers_bind [OF reads_delivers [OF TPMU_PUBLIC_PARMS_codec]]
       delivers_bind [OF TPMU_PUBLIC_ID_delivers] delivers_return)
    (simp_all add: TPMT_PUBLIC_bounded_def)

lemma TPM2B_PUBLIC_delivers: "delivers TPM2B_PUBLIC_bounded (TPM2B_PUBLIC_Unmarshal allowNull)"
  unfolding TPM2B_PUBLIC_Unmarshal_def
  by (intro delivers_bind [OF reads_delivers [OF UINT16_codec]] delivers_guard
       delivers_bind [OF delivers_exactly [OF TPMT_PUBLIC_delivers]] delivers_return)
    (simp_all add: TPM2B_PUBLIC_bounded_def)

lemma TPMU_SENSITIVE_COMPOSITE_delivers: "delivers TPMU_SENSITIVE_COMPOSITE_bounded (TPMU_SENSITIVE_COMPOSITE_Unmarshal selector)"
  unfolding TPMU_SENSITIVE_COMPOSITE_Unmarshal_def
  by (intro delivers_if delivers_fail delivers_return delivers_map [OF TPM2B_PRIVATE_KEY_RSA_delivers]
       delivers_map [OF TPM2B_ECC_PARAMETER_delivers] delivers_map [OF TPM2B_SENSITIVE_DATA_delivers]
       delivers_map [OF TPM2B_SYM_KEY_delivers])
    (simp_all add: TPMU_SENSITIVE_COMPOSITE_bounded_def)

lemma TPMT_SENSITIVE_delivers: "delivers TPMT_SENSITIVE_bounded TPMT_SENSITIVE_Unmarshal"
  unfolding TPMT_SENSITIVE_Unmarshal_def
  by (intro delivers_bind [OF reads_delivers [OF TPMI_ALG_PUBLIC_codec]]
       delivers_bind [OF TPM2B_AUTH_delivers] delivers_bind [OF TPM2B_DIGEST_delivers]
       delivers_bind [OF TPMU_SENSITIVE_COMPOSITE_delivers] delivers_return)
    (simp_all add: TPMT_SENSITIVE_bounded_def)

lemma TPM2B_SENSITIVE_delivers: "delivers TPM2B_SENSITIVE_bounded TPM2B_SENSITIVE_Unmarshal"
  unfolding TPM2B_SENSITIVE_Unmarshal_def
  by (intro delivers_bind [OF reads_delivers [OF UINT16_codec]] delivers_if
       delivers_bind [OF delivers_exactly [OF TPMT_SENSITIVE_delivers]] delivers_return)
    (simp_all add: TPM2B_SENSITIVE_bounded_def)

lemma TPM2B_PRIVATE_delivers: "delivers TPM2B_PRIVATE_bounded TPM2B_PRIVATE_Unmarshal"
  unfolding TPM2B_PRIVATE_Unmarshal_def using TPM2B_delivers [of "sizeof_PRIVATE"]
  by (rule delivers_mono) (simp add: TPM2B_PRIVATE_bounded_def)

lemma TPM2B_ID_OBJECT_delivers: "delivers TPM2B_ID_OBJECT_bounded TPM2B_ID_OBJECT_Unmarshal"
  unfolding TPM2B_ID_OBJECT_Unmarshal_def using TPM2B_delivers [of "sizeof_ID_OBJECT"]
  by (rule delivers_mono) (simp add: TPM2B_ID_OBJECT_bounded_def)

lemma TPMS_NV_PUBLIC_delivers: "delivers TPMS_NV_PUBLIC_bounded TPMS_NV_PUBLIC_Unmarshal"
  unfolding TPMS_NV_PUBLIC_Unmarshal_def
  by (intro delivers_bind [OF reads_delivers [OF TPMI_RH_NV_INDEX_codec]]
       delivers_bind [OF reads_delivers [OF TPMI_ALG_HASH_codec]]
       delivers_bind [OF reads_delivers [OF TPMA_NV_codec]] delivers_bind [OF TPM2B_DIGEST_delivers]
       delivers_bind [OF reads_delivers [OF UINT16_codec]] delivers_guard delivers_return)
    (simp_all add: TPMS_NV_PUBLIC_bounded_def not_less word_le_nat_alt)

lemma TPM2B_NV_PUBLIC_delivers: "delivers TPM2B_NV_PUBLIC_bounded TPM2B_NV_PUBLIC_Unmarshal"
  unfolding TPM2B_NV_PUBLIC_Unmarshal_def
  by (intro delivers_bind [OF reads_delivers [OF UINT16_codec]] delivers_guard
       delivers_bind [OF delivers_exactly [OF TPMS_NV_PUBLIC_delivers]] delivers_return)
    (simp_all add: TPM2B_NV_PUBLIC_bounded_def)

lemma TPM2B_CONTEXT_SENSITIVE_delivers: "delivers TPM2B_CONTEXT_SENSITIVE_bounded TPM2B_CONTEXT_SENSITIVE_Unmarshal"
  unfolding TPM2B_CONTEXT_SENSITIVE_Unmarshal_def using TPM2B_delivers [of "MAX_CONTEXT_SIZE"]
  by (rule delivers_mono) (simp add: TPM2B_CONTEXT_SENSITIVE_bounded_def)

lemma TPMS_CONTEXT_DATA_delivers: "delivers TPMS_CONTEXT_DATA_bounded TPMS_CONTEXT_DATA_Unmarshal"
  unfolding TPMS_CONTEXT_DATA_Unmarshal_def
  by (intro delivers_bind [OF TPM2B_DIGEST_delivers] delivers_bind [OF TPM2B_CONTEXT_SENSITIVE_delivers]
       delivers_return)
    (simp_all add: TPMS_CONTEXT_DATA_bounded_def)

lemma TPM2B_CONTEXT_DATA_delivers: "delivers TPM2B_CONTEXT_DATA_bounded TPM2B_CONTEXT_DATA_Unmarshal"
  unfolding TPM2B_CONTEXT_DATA_Unmarshal_def using TPM2B_delivers [of "sizeof_TPMS_CONTEXT_DATA"]
  by (rule delivers_mono) (simp add: TPM2B_CONTEXT_DATA_bounded_def)

lemma TPMS_CONTEXT_delivers: "delivers TPMS_CONTEXT_bounded TPMS_CONTEXT_Unmarshal"
  unfolding TPMS_CONTEXT_Unmarshal_def
  by (intro delivers_bind [OF reads_delivers [OF UINT64_codec]]
       delivers_bind [OF reads_delivers [OF TPMI_DH_CONTEXT_codec]]
       delivers_bind [OF reads_delivers [OF TPMI_RH_HIERARCHY_codec]]
       delivers_bind [OF TPM2B_CONTEXT_DATA_delivers] delivers_return)
    (simp_all add: TPMS_CONTEXT_bounded_def)

lemma TPMS_CREATION_DATA_delivers: "delivers TPMS_CREATION_DATA_bounded TPMS_CREATION_DATA_Unmarshal"
  unfolding TPMS_CREATION_DATA_Unmarshal_def
  by (intro delivers_bind [OF TPML_PCR_SELECTION_delivers] delivers_bind [OF TPM2B_DIGEST_delivers]
       delivers_bind [OF reads_delivers [OF TPMA_LOCALITY_codec]]
       delivers_bind [OF reads_delivers [OF TPM_ALG_ID_codec]] delivers_bind [OF TPM2B_NAME_delivers]
       delivers_bind [OF TPM2B_DATA_delivers] delivers_return)
    (simp_all add: TPMS_CREATION_DATA_bounded_def)

lemma TPM2B_CREATION_DATA_delivers: "delivers TPM2B_CREATION_DATA_bounded TPM2B_CREATION_DATA_Unmarshal"
  unfolding TPM2B_CREATION_DATA_Unmarshal_def
  by (intro delivers_bind [OF reads_delivers [OF UINT16_codec]] delivers_guard
       delivers_bind [OF delivers_exactly [OF TPMS_CREATION_DATA_delivers]] delivers_return)
    (simp_all add: TPM2B_CREATION_DATA_bounded_def)

section \<open>The array without a check\<close>

text \<open>
  C39. \<open>TPMS_TAGGED_PCR_SELECT_Unmarshal\<close> copies as many bytes as \<open>sizeofSelect\<close> says into \<open>pcrSelect\<close>, an array of
  \<open>PCR_SELECT_MAX\<close> = 3 bytes. For every \<open>n\<close> up to 255 there is a response on which it returns success after writing
  \<open>n\<close> bytes there.
\<close>

theorem TPMS_TAGGED_PCR_SELECT_overflow:
  assumes "n \<le> 255"
  shows "\<exists>b v b'. u_good b \<and> TPMS_TAGGED_PCR_SELECT_Unmarshal b = Ok v b' \<and>
    length (TPMS_TAGGED_PCR_SELECT_pcrSelect v) = n"
proof -
  let ?v = "\<lparr>TPMS_TAGGED_PCR_SELECT_tag = 0, TPMS_TAGGED_PCR_SELECT_sizeofSelect = of_nat n,
    TPMS_TAGGED_PCR_SELECT_pcrSelect = replicate n 0\<rparr>"
  let ?bs = "be32 0 @ [of_nat n] @ replicate n 0 @ []"
  have "unat (ucast (of_nat n :: 8 word) :: 16 word) = n"
    using assms by (simp add: unsigned_ucast_eq unsigned_of_nat take_bit_nat_eq_self)
  then have "parses TPMS_TAGGED_PCR_SELECT_Unmarshal ?bs ?v"
    unfolding TPMS_TAGGED_PCR_SELECT_Unmarshal_def TPM_PT_PCR_Unmarshal_def
    by (intro parses_bind [OF parses_UINT32] parses_bind [OF parses_UINT8] parses_bind [OF parses_array] parses_return)
      simp_all
  then have "TPMS_TAGGED_PCR_SELECT_Unmarshal \<lparr>rest = ?bs, avail = int (length ?bs)\<rparr> = Ok ?v \<lparr>rest = [], avail = 0\<rparr>"
    by (rule parses_exact) (use assms in \<open>simp add: be32_def\<close>)
  moreover have "u_good \<lparr>rest = ?bs, avail = int (length ?bs)\<rparr>" using assms by (simp add: u_good_def be32_def)
  ultimately show ?thesis by (intro exI conjI) (assumption+, simp)
qed

theorem TPMS_TAGGED_PCR_SELECT_overflow_witness:
  "\<exists>b v b'. u_good b \<and> TPMS_TAGGED_PCR_SELECT_Unmarshal b = Ok v b' \<and>
    length (TPMS_TAGGED_PCR_SELECT_pcrSelect v) = 255"
  by (rule TPMS_TAGGED_PCR_SELECT_overflow) simp

end
