(* ===== verification/Tss_Cmd_Object.thy ===== *)
theory Tss_Cmd_Object
  imports Tss_Bounds
begin

text \<open>
  The commands for start-up, sessions, objects and duplication: the parameter structures (\<^verbatim>\<open>tss2/*_fp.h\<close>), \<open>TSS_*_In_Marshal\<close> and
  \<open>TSS_*_Out_Unmarshal\<close> of \<^verbatim>\<open>libtss2/tssmarshal.c\<close>, and \<open>*_In_Unmarshal\<close> of \<^verbatim>\<open>libtss2/Commands.c\<close>, to which the
  handles of the command are passed in the array \<open>handles\<close>. A command is written in the form in which it is read; a
  response is read within its buffer and within its target.
\<close>

section \<open>Parameters\<close>

text \<open>What a command adds to the error of a parameter, and the structures.\<close>

abbreviation RC_Startup_startupType :: "32 word" where "RC_Startup_startupType \<equiv> 0x140"
abbreviation RC_Shutdown_shutdownType :: "32 word" where "RC_Shutdown_shutdownType \<equiv> 0x140"
abbreviation RC_SelfTest_fullTest :: "32 word" where "RC_SelfTest_fullTest \<equiv> 0x140"
abbreviation RC_IncrementalSelfTest_toTest :: "32 word" where "RC_IncrementalSelfTest_toTest \<equiv> 0x140"
abbreviation RC_StartAuthSession_nonceCaller :: "32 word" where "RC_StartAuthSession_nonceCaller \<equiv> 0x140"
abbreviation RC_StartAuthSession_encryptedSalt :: "32 word" where "RC_StartAuthSession_encryptedSalt \<equiv> 0x240"
abbreviation RC_StartAuthSession_sessionType :: "32 word" where "RC_StartAuthSession_sessionType \<equiv> 0x340"
abbreviation RC_StartAuthSession_symmetric :: "32 word" where "RC_StartAuthSession_symmetric \<equiv> 0x440"
abbreviation RC_StartAuthSession_authHash :: "32 word" where "RC_StartAuthSession_authHash \<equiv> 0x540"
abbreviation RC_Create_inSensitive :: "32 word" where "RC_Create_inSensitive \<equiv> 0x140"
abbreviation RC_Create_inPublic :: "32 word" where "RC_Create_inPublic \<equiv> 0x240"
abbreviation RC_Create_outsideInfo :: "32 word" where "RC_Create_outsideInfo \<equiv> 0x340"
abbreviation RC_Create_creationPCR :: "32 word" where "RC_Create_creationPCR \<equiv> 0x440"
abbreviation RC_Load_inPrivate :: "32 word" where "RC_Load_inPrivate \<equiv> 0x140"
abbreviation RC_Load_inPublic :: "32 word" where "RC_Load_inPublic \<equiv> 0x240"
abbreviation RC_LoadExternal_inPrivate :: "32 word" where "RC_LoadExternal_inPrivate \<equiv> 0x140"
abbreviation RC_LoadExternal_inPublic :: "32 word" where "RC_LoadExternal_inPublic \<equiv> 0x240"
abbreviation RC_LoadExternal_hierarchy :: "32 word" where "RC_LoadExternal_hierarchy \<equiv> 0x340"
abbreviation RC_ActivateCredential_credentialBlob :: "32 word" where "RC_ActivateCredential_credentialBlob \<equiv> 0x140"
abbreviation RC_ActivateCredential_secret :: "32 word" where "RC_ActivateCredential_secret \<equiv> 0x240"
abbreviation RC_MakeCredential_credential :: "32 word" where "RC_MakeCredential_credential \<equiv> 0x140"
abbreviation RC_MakeCredential_objectName :: "32 word" where "RC_MakeCredential_objectName \<equiv> 0x240"
abbreviation RC_Duplicate_encryptionKeyIn :: "32 word" where "RC_Duplicate_encryptionKeyIn \<equiv> 0x140"
abbreviation RC_Duplicate_symmetricAlg :: "32 word" where "RC_Duplicate_symmetricAlg \<equiv> 0x240"
abbreviation RC_Rewrap_inDuplicate :: "32 word" where "RC_Rewrap_inDuplicate \<equiv> 0x140"
abbreviation RC_Rewrap_name :: "32 word" where "RC_Rewrap_name \<equiv> 0x240"
abbreviation RC_Rewrap_inSymSeed :: "32 word" where "RC_Rewrap_inSymSeed \<equiv> 0x340"
abbreviation RC_Import_objectPublic :: "32 word" where "RC_Import_objectPublic \<equiv> 0x240"
abbreviation RC_Import_duplicate :: "32 word" where "RC_Import_duplicate \<equiv> 0x340"
abbreviation RC_Import_inSymSeed :: "32 word" where "RC_Import_inSymSeed \<equiv> 0x440"
abbreviation RC_Import_symmetricAlg :: "32 word" where "RC_Import_symmetricAlg \<equiv> 0x540"

record Startup_In =
  Startup_In_startupType :: "TPM_SU"

record Shutdown_In =
  Shutdown_In_shutdownType :: "TPM_SU"

record SelfTest_In =
  SelfTest_In_fullTest :: "TPMI_YES_NO"

record IncrementalSelfTest_In =
  IncrementalSelfTest_In_toTest :: "TPML_ALG"

record IncrementalSelfTest_Out =
  IncrementalSelfTest_Out_toDoList :: "TPML_ALG"

record GetTestResult_Out =
  GetTestResult_Out_outData :: "TPM2B_MAX_BUFFER"
  GetTestResult_Out_testResult :: "TPM_RC"

record StartAuthSession_In =
  StartAuthSession_In_tpmKey :: "TPMI_DH_OBJECT"
  StartAuthSession_In_bind :: "TPMI_DH_ENTITY"
  StartAuthSession_In_nonceCaller :: "TPM2B_NONCE"
  StartAuthSession_In_encryptedSalt :: "TPM2B_ENCRYPTED_SECRET"
  StartAuthSession_In_sessionType :: "TPM_SE"
  StartAuthSession_In_symmetric :: "TPMT_SYM_DEF"
  StartAuthSession_In_authHash :: "TPMI_ALG_HASH"

record StartAuthSession_Out =
  StartAuthSession_Out_sessionHandle :: "TPMI_SH_AUTH_SESSION"
  StartAuthSession_Out_nonceTPM :: "TPM2B_NONCE"

record PolicyRestart_In =
  PolicyRestart_In_sessionHandle :: "TPMI_SH_POLICY"

record Create_In =
  Create_In_parentHandle :: "TPMI_DH_OBJECT"
  Create_In_inSensitive :: "TPM2B_SENSITIVE_CREATE"
  Create_In_inPublic :: "TPM2B_PUBLIC"
  Create_In_outsideInfo :: "TPM2B_DATA"
  Create_In_creationPCR :: "TPML_PCR_SELECTION"

record Create_Out =
  Create_Out_outPrivate :: "TPM2B_PRIVATE"
  Create_Out_outPublic :: "TPM2B_PUBLIC"
  Create_Out_creationData :: "TPM2B_CREATION_DATA"
  Create_Out_creationHash :: "TPM2B_DIGEST"
  Create_Out_creationTicket :: "TPMT_TK_CREATION"

record Load_In =
  Load_In_parentHandle :: "TPMI_DH_OBJECT"
  Load_In_inPrivate :: "TPM2B_PRIVATE"
  Load_In_inPublic :: "TPM2B_PUBLIC"

record Load_Out =
  Load_Out_objectHandle :: "TPM_HANDLE"
  Load_Out_name :: "TPM2B_NAME"

record LoadExternal_In =
  LoadExternal_In_inPrivate :: "TPM2B_SENSITIVE"
  LoadExternal_In_inPublic :: "TPM2B_PUBLIC"
  LoadExternal_In_hierarchy :: "TPMI_RH_HIERARCHY"

record LoadExternal_Out =
  LoadExternal_Out_objectHandle :: "TPM_HANDLE"
  LoadExternal_Out_name :: "TPM2B_NAME"

record ReadPublic_In =
  ReadPublic_In_objectHandle :: "TPMI_DH_OBJECT"

record ReadPublic_Out =
  ReadPublic_Out_outPublic :: "TPM2B_PUBLIC"
  ReadPublic_Out_name :: "TPM2B_NAME"
  ReadPublic_Out_qualifiedName :: "TPM2B_NAME"

record ActivateCredential_In =
  ActivateCredential_In_activateHandle :: "TPMI_DH_OBJECT"
  ActivateCredential_In_keyHandle :: "TPMI_DH_OBJECT"
  ActivateCredential_In_credentialBlob :: "TPM2B_ID_OBJECT"
  ActivateCredential_In_secret :: "TPM2B_ENCRYPTED_SECRET"

record ActivateCredential_Out =
  ActivateCredential_Out_certInfo :: "TPM2B_DIGEST"

record MakeCredential_In =
  MakeCredential_In_handle :: "TPMI_DH_OBJECT"
  MakeCredential_In_credential :: "TPM2B_DIGEST"
  MakeCredential_In_objectName :: "TPM2B_NAME"

record MakeCredential_Out =
  MakeCredential_Out_credentialBlob :: "TPM2B_ID_OBJECT"
  MakeCredential_Out_secret :: "TPM2B_ENCRYPTED_SECRET"

record Unseal_In =
  Unseal_In_itemHandle :: "TPMI_DH_OBJECT"

record Unseal_Out =
  Unseal_Out_outData :: "TPM2B_SENSITIVE_DATA"

record ObjectChangeAuth_In =
  ObjectChangeAuth_In_objectHandle :: "TPMI_DH_OBJECT"
  ObjectChangeAuth_In_parentHandle :: "TPMI_DH_OBJECT"
  ObjectChangeAuth_In_newAuth :: "TPM2B_AUTH"

record ObjectChangeAuth_Out =
  ObjectChangeAuth_Out_outPrivate :: "TPM2B_PRIVATE"

record Duplicate_In =
  Duplicate_In_objectHandle :: "TPMI_DH_OBJECT"
  Duplicate_In_newParentHandle :: "TPMI_DH_OBJECT"
  Duplicate_In_encryptionKeyIn :: "TPM2B_DATA"
  Duplicate_In_symmetricAlg :: "TPMT_SYM_DEF_OBJECT"

record Duplicate_Out =
  Duplicate_Out_encryptionKeyOut :: "TPM2B_DATA"
  Duplicate_Out_duplicate :: "TPM2B_PRIVATE"
  Duplicate_Out_outSymSeed :: "TPM2B_ENCRYPTED_SECRET"

record Rewrap_In =
  Rewrap_In_oldParent :: "TPMI_DH_OBJECT"
  Rewrap_In_newParent :: "TPMI_DH_OBJECT"
  Rewrap_In_inDuplicate :: "TPM2B_PRIVATE"
  Rewrap_In_name :: "TPM2B_NAME"
  Rewrap_In_inSymSeed :: "TPM2B_ENCRYPTED_SECRET"

record Rewrap_Out =
  Rewrap_Out_outDuplicate :: "TPM2B_PRIVATE"
  Rewrap_Out_outSymSeed :: "TPM2B_ENCRYPTED_SECRET"

record Import_In =
  Import_In_parentHandle :: "TPMI_DH_OBJECT"
  Import_In_encryptionKey :: "TPM2B_DATA"
  Import_In_objectPublic :: "TPM2B_PUBLIC"
  Import_In_duplicate :: "TPM2B_PRIVATE"
  Import_In_inSymSeed :: "TPM2B_ENCRYPTED_SECRET"
  Import_In_symmetricAlg :: "TPMT_SYM_DEF_OBJECT"

record Import_Out =
  Import_Out_outPrivate :: "TPM2B_PRIVATE"

section \<open>Marshalling commands\<close>

definition TSS_Startup_In_Marshal :: "Startup_In \<Rightarrow> marshal" where
  "TSS_Startup_In_Marshal source = TSS_TPM_SU_Marshal (Startup_In_startupType source)"

definition TSS_Shutdown_In_Marshal :: "Shutdown_In \<Rightarrow> marshal" where
  "TSS_Shutdown_In_Marshal source = TSS_TPM_SU_Marshal (Shutdown_In_shutdownType source)"

definition TSS_SelfTest_In_Marshal :: "SelfTest_In \<Rightarrow> marshal" where
  "TSS_SelfTest_In_Marshal source = TSS_TPMI_YES_NO_Marshal (SelfTest_In_fullTest source)"

definition TSS_IncrementalSelfTest_In_Marshal :: "IncrementalSelfTest_In \<Rightarrow> marshal" where
  "TSS_IncrementalSelfTest_In_Marshal source = TSS_TPML_ALG_Marshal (IncrementalSelfTest_In_toTest source)"

definition TSS_StartAuthSession_In_Marshal :: "StartAuthSession_In \<Rightarrow> marshal" where
  "TSS_StartAuthSession_In_Marshal source =
     m_then (TSS_TPMI_DH_OBJECT_Marshal (StartAuthSession_In_tpmKey source)) (
     m_then (TSS_TPMI_DH_ENTITY_Marshal (StartAuthSession_In_bind source)) (
     m_then (TSS_TPM2B_NONCE_Marshal (StartAuthSession_In_nonceCaller source)) (
     m_then (TSS_TPM2B_ENCRYPTED_SECRET_Marshal (StartAuthSession_In_encryptedSalt source)) (
     m_then (TSS_TPM_SE_Marshal (StartAuthSession_In_sessionType source)) (
     m_then (TSS_TPMT_SYM_DEF_Marshal (StartAuthSession_In_symmetric source)) (
     TSS_TPMI_ALG_HASH_Marshal (StartAuthSession_In_authHash source)))))))"

definition TSS_PolicyRestart_In_Marshal :: "PolicyRestart_In \<Rightarrow> marshal" where
  "TSS_PolicyRestart_In_Marshal source = TSS_TPMI_SH_POLICY_Marshal (PolicyRestart_In_sessionHandle source)"

definition TSS_Create_In_Marshal :: "Create_In \<Rightarrow> marshal" where
  "TSS_Create_In_Marshal source =
     m_then (TSS_TPMI_DH_OBJECT_Marshal (Create_In_parentHandle source)) (
     m_then (TSS_TPM2B_SENSITIVE_CREATE_Marshal (Create_In_inSensitive source)) (
     m_then (TSS_TPM2B_PUBLIC_Marshal (Create_In_inPublic source)) (
     m_then (TSS_TPM2B_DATA_Marshal (Create_In_outsideInfo source)) (
     TSS_TPML_PCR_SELECTION_Marshal (Create_In_creationPCR source)))))"

definition TSS_Load_In_Marshal :: "Load_In \<Rightarrow> marshal" where
  "TSS_Load_In_Marshal source =
     m_then (TSS_TPMI_DH_OBJECT_Marshal (Load_In_parentHandle source)) (
     m_then (TSS_TPM2B_PRIVATE_Marshal (Load_In_inPrivate source)) (
     TSS_TPM2B_PUBLIC_Marshal (Load_In_inPublic source)))"

definition TSS_LoadExternal_In_Marshal :: "LoadExternal_In \<Rightarrow> marshal" where
  "TSS_LoadExternal_In_Marshal source =
     m_then (if TPM2B_SENSITIVE_size (LoadExternal_In_inPrivate source) = 0 then TSS_UINT16_Marshal 0
        else TSS_TPM2B_SENSITIVE_Marshal (LoadExternal_In_inPrivate source)) (
     m_then (TSS_TPM2B_PUBLIC_Marshal (LoadExternal_In_inPublic source)) (
     TSS_TPMI_RH_HIERARCHY_Marshal (LoadExternal_In_hierarchy source)))"

definition TSS_ReadPublic_In_Marshal :: "ReadPublic_In \<Rightarrow> marshal" where
  "TSS_ReadPublic_In_Marshal source = TSS_TPMI_DH_OBJECT_Marshal (ReadPublic_In_objectHandle source)"

definition TSS_ActivateCredential_In_Marshal :: "ActivateCredential_In \<Rightarrow> marshal" where
  "TSS_ActivateCredential_In_Marshal source =
     m_then (TSS_TPMI_DH_OBJECT_Marshal (ActivateCredential_In_activateHandle source)) (
     m_then (TSS_TPMI_DH_OBJECT_Marshal (ActivateCredential_In_keyHandle source)) (
     m_then (TSS_TPM2B_ID_OBJECT_Marshal (ActivateCredential_In_credentialBlob source)) (
     TSS_TPM2B_ENCRYPTED_SECRET_Marshal (ActivateCredential_In_secret source))))"

definition TSS_MakeCredential_In_Marshal :: "MakeCredential_In \<Rightarrow> marshal" where
  "TSS_MakeCredential_In_Marshal source =
     m_then (TSS_TPMI_DH_OBJECT_Marshal (MakeCredential_In_handle source)) (
     m_then (TSS_TPM2B_DIGEST_Marshal (MakeCredential_In_credential source)) (
     TSS_TPM2B_NAME_Marshal (MakeCredential_In_objectName source)))"

definition TSS_Unseal_In_Marshal :: "Unseal_In \<Rightarrow> marshal" where
  "TSS_Unseal_In_Marshal source = TSS_TPMI_DH_OBJECT_Marshal (Unseal_In_itemHandle source)"

definition TSS_ObjectChangeAuth_In_Marshal :: "ObjectChangeAuth_In \<Rightarrow> marshal" where
  "TSS_ObjectChangeAuth_In_Marshal source =
     m_then (TSS_TPMI_DH_OBJECT_Marshal (ObjectChangeAuth_In_objectHandle source)) (
     m_then (TSS_TPMI_DH_OBJECT_Marshal (ObjectChangeAuth_In_parentHandle source)) (
     TSS_TPM2B_AUTH_Marshal (ObjectChangeAuth_In_newAuth source)))"

definition TSS_Duplicate_In_Marshal :: "Duplicate_In \<Rightarrow> marshal" where
  "TSS_Duplicate_In_Marshal source =
     m_then (TSS_TPMI_DH_OBJECT_Marshal (Duplicate_In_objectHandle source)) (
     m_then (TSS_TPMI_DH_OBJECT_Marshal (Duplicate_In_newParentHandle source)) (
     m_then (TSS_TPM2B_DATA_Marshal (Duplicate_In_encryptionKeyIn source)) (
     TSS_TPMT_SYM_DEF_OBJECT_Marshal (Duplicate_In_symmetricAlg source))))"

definition TSS_Rewrap_In_Marshal :: "Rewrap_In \<Rightarrow> marshal" where
  "TSS_Rewrap_In_Marshal source =
     m_then (TSS_TPMI_DH_OBJECT_Marshal (Rewrap_In_oldParent source)) (
     m_then (TSS_TPMI_DH_OBJECT_Marshal (Rewrap_In_newParent source)) (
     m_then (TSS_TPM2B_PRIVATE_Marshal (Rewrap_In_inDuplicate source)) (
     m_then (TSS_TPM2B_NAME_Marshal (Rewrap_In_name source)) (
     TSS_TPM2B_ENCRYPTED_SECRET_Marshal (Rewrap_In_inSymSeed source)))))"

definition TSS_Import_In_Marshal :: "Import_In \<Rightarrow> marshal" where
  "TSS_Import_In_Marshal source =
     m_then (TSS_TPMI_DH_OBJECT_Marshal (Import_In_parentHandle source)) (
     m_then (TSS_TPM2B_DATA_Marshal (Import_In_encryptionKey source)) (
     m_then (TSS_TPM2B_PUBLIC_Marshal (Import_In_objectPublic source)) (
     m_then (TSS_TPM2B_PRIVATE_Marshal (Import_In_duplicate source)) (
     m_then (TSS_TPM2B_ENCRYPTED_SECRET_Marshal (Import_In_inSymSeed source)) (
     TSS_TPMT_SYM_DEF_OBJECT_Marshal (Import_In_symmetricAlg source))))))"

section \<open>Unmarshalling commands\<close>

definition Startup_In_Unmarshal :: "(nat \<Rightarrow> TPM_HANDLE) \<Rightarrow> Startup_In unmarshal" where
  "Startup_In_Unmarshal handles =
     u_bind (u_add_rc RC_Startup_startupType TPM_SU_Unmarshal) (\<lambda>startupType.
     u_return \<lparr>Startup_In_startupType = startupType\<rparr>)"

definition Shutdown_In_Unmarshal :: "(nat \<Rightarrow> TPM_HANDLE) \<Rightarrow> Shutdown_In unmarshal" where
  "Shutdown_In_Unmarshal handles =
     u_bind (u_add_rc RC_Shutdown_shutdownType TPM_SU_Unmarshal) (\<lambda>shutdownType.
     u_return \<lparr>Shutdown_In_shutdownType = shutdownType\<rparr>)"

definition SelfTest_In_Unmarshal :: "(nat \<Rightarrow> TPM_HANDLE) \<Rightarrow> SelfTest_In unmarshal" where
  "SelfTest_In_Unmarshal handles =
     u_bind (u_add_rc RC_SelfTest_fullTest TPMI_YES_NO_Unmarshal) (\<lambda>fullTest.
     u_return \<lparr>SelfTest_In_fullTest = fullTest\<rparr>)"

definition IncrementalSelfTest_In_Unmarshal :: "(nat \<Rightarrow> TPM_HANDLE) \<Rightarrow> IncrementalSelfTest_In unmarshal" where
  "IncrementalSelfTest_In_Unmarshal handles =
     u_bind (u_add_rc RC_IncrementalSelfTest_toTest TPML_ALG_Unmarshal) (\<lambda>toTest.
     u_return \<lparr>IncrementalSelfTest_In_toTest = toTest\<rparr>)"

definition StartAuthSession_In_Unmarshal :: "(nat \<Rightarrow> TPM_HANDLE) \<Rightarrow> StartAuthSession_In unmarshal" where
  "StartAuthSession_In_Unmarshal handles =
     u_bind (u_add_rc RC_StartAuthSession_nonceCaller TPM2B_NONCE_Unmarshal) (\<lambda>nonceCaller.
     u_bind (u_add_rc RC_StartAuthSession_encryptedSalt TPM2B_ENCRYPTED_SECRET_Unmarshal) (\<lambda>encryptedSalt.
     u_bind (u_add_rc RC_StartAuthSession_sessionType TPM_SE_Unmarshal) (\<lambda>sessionType.
     u_bind (u_add_rc RC_StartAuthSession_symmetric (TPMT_SYM_DEF_Unmarshal True)) (\<lambda>symmetric.
     u_bind (u_add_rc RC_StartAuthSession_authHash (TPMI_ALG_HASH_Unmarshal False)) (\<lambda>authHash.
     u_return \<lparr>StartAuthSession_In_tpmKey = handles 0, StartAuthSession_In_bind = handles 1,
       StartAuthSession_In_nonceCaller = nonceCaller, StartAuthSession_In_encryptedSalt = encryptedSalt,
       StartAuthSession_In_sessionType = sessionType, StartAuthSession_In_symmetric = symmetric,
       StartAuthSession_In_authHash = authHash\<rparr>)))))"

definition PolicyRestart_In_Unmarshal :: "(nat \<Rightarrow> TPM_HANDLE) \<Rightarrow> PolicyRestart_In unmarshal" where
  "PolicyRestart_In_Unmarshal handles =
     u_return \<lparr>PolicyRestart_In_sessionHandle = handles 0\<rparr>"

definition Create_In_Unmarshal :: "(nat \<Rightarrow> TPM_HANDLE) \<Rightarrow> Create_In unmarshal" where
  "Create_In_Unmarshal handles =
     u_bind (u_add_rc RC_Create_inSensitive TPM2B_SENSITIVE_CREATE_Unmarshal) (\<lambda>inSensitive.
     u_bind (u_add_rc RC_Create_inPublic (TPM2B_PUBLIC_Unmarshal False)) (\<lambda>inPublic.
     u_bind (u_add_rc RC_Create_outsideInfo TPM2B_DATA_Unmarshal) (\<lambda>outsideInfo.
     u_bind (u_add_rc RC_Create_creationPCR TPML_PCR_SELECTION_Unmarshal) (\<lambda>creationPCR.
     u_return \<lparr>Create_In_parentHandle = handles 0, Create_In_inSensitive = inSensitive,
       Create_In_inPublic = inPublic, Create_In_outsideInfo = outsideInfo,
       Create_In_creationPCR = creationPCR\<rparr>))))"

definition Load_In_Unmarshal :: "(nat \<Rightarrow> TPM_HANDLE) \<Rightarrow> Load_In unmarshal" where
  "Load_In_Unmarshal handles =
     u_bind (u_add_rc RC_Load_inPrivate TPM2B_PRIVATE_Unmarshal) (\<lambda>inPrivate.
     u_bind (u_add_rc RC_Load_inPublic (TPM2B_PUBLIC_Unmarshal False)) (\<lambda>inPublic.
     u_return \<lparr>Load_In_parentHandle = handles 0, Load_In_inPrivate = inPrivate,
       Load_In_inPublic = inPublic\<rparr>))"

definition LoadExternal_In_Unmarshal :: "(nat \<Rightarrow> TPM_HANDLE) \<Rightarrow> LoadExternal_In unmarshal" where
  "LoadExternal_In_Unmarshal handles =
     u_bind (u_add_rc RC_LoadExternal_inPrivate TPM2B_SENSITIVE_Unmarshal) (\<lambda>inPrivate.
     u_bind (u_add_rc RC_LoadExternal_inPublic (TPM2B_PUBLIC_Unmarshal True)) (\<lambda>inPublic.
     u_bind (u_add_rc RC_LoadExternal_hierarchy (TPMI_RH_HIERARCHY_Unmarshal True)) (\<lambda>hierarchy.
     u_return \<lparr>LoadExternal_In_inPrivate = inPrivate, LoadExternal_In_inPublic = inPublic,
       LoadExternal_In_hierarchy = hierarchy\<rparr>)))"

definition ReadPublic_In_Unmarshal :: "(nat \<Rightarrow> TPM_HANDLE) \<Rightarrow> ReadPublic_In unmarshal" where
  "ReadPublic_In_Unmarshal handles =
     u_return \<lparr>ReadPublic_In_objectHandle = handles 0\<rparr>"

definition ActivateCredential_In_Unmarshal :: "(nat \<Rightarrow> TPM_HANDLE) \<Rightarrow> ActivateCredential_In unmarshal" where
  "ActivateCredential_In_Unmarshal handles =
     u_bind (u_add_rc RC_ActivateCredential_credentialBlob TPM2B_ID_OBJECT_Unmarshal) (\<lambda>credentialBlob.
     u_bind (u_add_rc RC_ActivateCredential_secret TPM2B_ENCRYPTED_SECRET_Unmarshal) (\<lambda>secret.
     u_return \<lparr>ActivateCredential_In_activateHandle = handles 0,
       ActivateCredential_In_keyHandle = handles 1, ActivateCredential_In_credentialBlob = credentialBlob,
       ActivateCredential_In_secret = secret\<rparr>))"

definition MakeCredential_In_Unmarshal :: "(nat \<Rightarrow> TPM_HANDLE) \<Rightarrow> MakeCredential_In unmarshal" where
  "MakeCredential_In_Unmarshal handles =
     u_bind (u_add_rc RC_MakeCredential_credential TPM2B_DIGEST_Unmarshal) (\<lambda>credential.
     u_bind (u_add_rc RC_MakeCredential_objectName TPM2B_NAME_Unmarshal) (\<lambda>objectName.
     u_return \<lparr>MakeCredential_In_handle = handles 0, MakeCredential_In_credential = credential,
       MakeCredential_In_objectName = objectName\<rparr>))"

definition Unseal_In_Unmarshal :: "(nat \<Rightarrow> TPM_HANDLE) \<Rightarrow> Unseal_In unmarshal" where
  "Unseal_In_Unmarshal handles =
     u_return \<lparr>Unseal_In_itemHandle = handles 0\<rparr>"

definition ObjectChangeAuth_In_Unmarshal :: "(nat \<Rightarrow> TPM_HANDLE) \<Rightarrow> ObjectChangeAuth_In unmarshal" where
  "ObjectChangeAuth_In_Unmarshal handles =
     u_bind TPM2B_AUTH_Unmarshal (\<lambda>newAuth.
     u_return \<lparr>ObjectChangeAuth_In_objectHandle = handles 0,
       ObjectChangeAuth_In_parentHandle = handles 1, ObjectChangeAuth_In_newAuth = newAuth\<rparr>)"

definition Duplicate_In_Unmarshal :: "(nat \<Rightarrow> TPM_HANDLE) \<Rightarrow> Duplicate_In unmarshal" where
  "Duplicate_In_Unmarshal handles =
     u_bind (u_add_rc RC_Duplicate_encryptionKeyIn TPM2B_DATA_Unmarshal) (\<lambda>encryptionKeyIn.
     u_bind (u_add_rc RC_Duplicate_symmetricAlg (TPMT_SYM_DEF_OBJECT_Unmarshal True)) (\<lambda>symmetricAlg.
     u_return \<lparr>Duplicate_In_objectHandle = handles 0, Duplicate_In_newParentHandle = handles 1,
       Duplicate_In_encryptionKeyIn = encryptionKeyIn, Duplicate_In_symmetricAlg = symmetricAlg\<rparr>))"

definition Rewrap_In_Unmarshal :: "(nat \<Rightarrow> TPM_HANDLE) \<Rightarrow> Rewrap_In unmarshal" where
  "Rewrap_In_Unmarshal handles =
     u_bind (u_add_rc RC_Rewrap_inDuplicate TPM2B_PRIVATE_Unmarshal) (\<lambda>inDuplicate.
     u_bind (u_add_rc RC_Rewrap_name TPM2B_NAME_Unmarshal) (\<lambda>name.
     u_bind (u_add_rc RC_Rewrap_inSymSeed TPM2B_ENCRYPTED_SECRET_Unmarshal) (\<lambda>inSymSeed.
     u_return \<lparr>Rewrap_In_oldParent = handles 0, Rewrap_In_newParent = handles 1,
       Rewrap_In_inDuplicate = inDuplicate, Rewrap_In_name = name,
       Rewrap_In_inSymSeed = inSymSeed\<rparr>)))"

definition Import_In_Unmarshal :: "(nat \<Rightarrow> TPM_HANDLE) \<Rightarrow> Import_In unmarshal" where
  "Import_In_Unmarshal handles =
     u_bind TPM2B_DATA_Unmarshal (\<lambda>encryptionKey.
     u_bind (u_add_rc RC_Import_objectPublic (TPM2B_PUBLIC_Unmarshal False)) (\<lambda>objectPublic.
     u_bind (u_add_rc RC_Import_duplicate TPM2B_PRIVATE_Unmarshal) (\<lambda>duplicate.
     u_bind (u_add_rc RC_Import_inSymSeed TPM2B_ENCRYPTED_SECRET_Unmarshal) (\<lambda>inSymSeed.
     u_bind (u_add_rc RC_Import_symmetricAlg (TPMT_SYM_DEF_OBJECT_Unmarshal True)) (\<lambda>symmetricAlg.
     u_return \<lparr>Import_In_parentHandle = handles 0, Import_In_encryptionKey = encryptionKey,
       Import_In_objectPublic = objectPublic, Import_In_duplicate = duplicate,
       Import_In_inSymSeed = inSymSeed, Import_In_symmetricAlg = symmetricAlg\<rparr>)))))"

section \<open>Unmarshalling responses\<close>

definition TSS_IncrementalSelfTest_Out_Unmarshal :: "TPM_ST \<Rightarrow> IncrementalSelfTest_Out unmarshal" where
  "TSS_IncrementalSelfTest_Out_Unmarshal tag =
     u_bind (u_when (tag = TPM_ST_SESSIONS) UINT32_Unmarshal) (\<lambda>_.
     u_bind TPML_ALG_Unmarshal (\<lambda>toDoList.
     u_return \<lparr>IncrementalSelfTest_Out_toDoList = toDoList\<rparr>))"

definition TSS_GetTestResult_Out_Unmarshal :: "TPM_ST \<Rightarrow> GetTestResult_Out unmarshal" where
  "TSS_GetTestResult_Out_Unmarshal tag =
     u_bind (u_when (tag = TPM_ST_SESSIONS) UINT32_Unmarshal) (\<lambda>_.
     u_bind TPM2B_MAX_BUFFER_Unmarshal (\<lambda>outData.
     u_bind TPM_RC_Unmarshal (\<lambda>testResult.
     u_return \<lparr>GetTestResult_Out_outData = outData,
       GetTestResult_Out_testResult = testResult\<rparr>)))"

definition TSS_StartAuthSession_Out_Unmarshal :: "TPM_ST \<Rightarrow> StartAuthSession_Out unmarshal" where
  "TSS_StartAuthSession_Out_Unmarshal tag =
     u_bind (TPMI_SH_AUTH_SESSION_Unmarshal False) (\<lambda>sessionHandle.
     u_bind (u_when (tag = TPM_ST_SESSIONS) UINT32_Unmarshal) (\<lambda>_.
     u_bind TPM2B_NONCE_Unmarshal (\<lambda>nonceTPM.
     u_return \<lparr>StartAuthSession_Out_sessionHandle = sessionHandle,
       StartAuthSession_Out_nonceTPM = nonceTPM\<rparr>)))"

definition TSS_Create_Out_Unmarshal :: "TPM_ST \<Rightarrow> Create_Out unmarshal" where
  "TSS_Create_Out_Unmarshal tag =
     u_bind (u_when (tag = TPM_ST_SESSIONS) UINT32_Unmarshal) (\<lambda>_.
     u_bind TPM2B_PRIVATE_Unmarshal (\<lambda>outPrivate.
     u_bind (TPM2B_PUBLIC_Unmarshal False) (\<lambda>outPublic.
     u_bind TPM2B_CREATION_DATA_Unmarshal (\<lambda>creationData.
     u_bind TPM2B_DIGEST_Unmarshal (\<lambda>creationHash.
     u_bind TPMT_TK_CREATION_Unmarshal (\<lambda>creationTicket.
     u_return \<lparr>Create_Out_outPrivate = outPrivate, Create_Out_outPublic = outPublic,
       Create_Out_creationData = creationData, Create_Out_creationHash = creationHash,
       Create_Out_creationTicket = creationTicket\<rparr>))))))"

definition TSS_Load_Out_Unmarshal :: "TPM_ST \<Rightarrow> Load_Out unmarshal" where
  "TSS_Load_Out_Unmarshal tag =
     u_bind TPM_HANDLE_Unmarshal (\<lambda>objectHandle.
     u_bind (u_when (tag = TPM_ST_SESSIONS) UINT32_Unmarshal) (\<lambda>_.
     u_bind TPM2B_NAME_Unmarshal (\<lambda>name.
     u_return \<lparr>Load_Out_objectHandle = objectHandle, Load_Out_name = name\<rparr>)))"

definition TSS_LoadExternal_Out_Unmarshal :: "TPM_ST \<Rightarrow> LoadExternal_Out unmarshal" where
  "TSS_LoadExternal_Out_Unmarshal tag =
     u_bind TPM_HANDLE_Unmarshal (\<lambda>objectHandle.
     u_bind (u_when (tag = TPM_ST_SESSIONS) UINT32_Unmarshal) (\<lambda>_.
     u_bind TPM2B_NAME_Unmarshal (\<lambda>name.
     u_return \<lparr>LoadExternal_Out_objectHandle = objectHandle, LoadExternal_Out_name = name\<rparr>)))"

definition TSS_ReadPublic_Out_Unmarshal :: "TPM_ST \<Rightarrow> ReadPublic_Out unmarshal" where
  "TSS_ReadPublic_Out_Unmarshal tag =
     u_bind (u_when (tag = TPM_ST_SESSIONS) UINT32_Unmarshal) (\<lambda>_.
     u_bind (TPM2B_PUBLIC_Unmarshal False) (\<lambda>outPublic.
     u_bind TPM2B_NAME_Unmarshal (\<lambda>name.
     u_bind TPM2B_NAME_Unmarshal (\<lambda>qualifiedName.
     u_return \<lparr>ReadPublic_Out_outPublic = outPublic, ReadPublic_Out_name = name,
       ReadPublic_Out_qualifiedName = qualifiedName\<rparr>))))"

definition TSS_ActivateCredential_Out_Unmarshal :: "TPM_ST \<Rightarrow> ActivateCredential_Out unmarshal" where
  "TSS_ActivateCredential_Out_Unmarshal tag =
     u_bind (u_when (tag = TPM_ST_SESSIONS) UINT32_Unmarshal) (\<lambda>_.
     u_bind TPM2B_DIGEST_Unmarshal (\<lambda>certInfo.
     u_return \<lparr>ActivateCredential_Out_certInfo = certInfo\<rparr>))"

definition TSS_MakeCredential_Out_Unmarshal :: "TPM_ST \<Rightarrow> MakeCredential_Out unmarshal" where
  "TSS_MakeCredential_Out_Unmarshal tag =
     u_bind (u_when (tag = TPM_ST_SESSIONS) UINT32_Unmarshal) (\<lambda>_.
     u_bind TPM2B_ID_OBJECT_Unmarshal (\<lambda>credentialBlob.
     u_bind TPM2B_ENCRYPTED_SECRET_Unmarshal (\<lambda>secret.
     u_return \<lparr>MakeCredential_Out_credentialBlob = credentialBlob,
       MakeCredential_Out_secret = secret\<rparr>)))"

definition TSS_Unseal_Out_Unmarshal :: "TPM_ST \<Rightarrow> Unseal_Out unmarshal" where
  "TSS_Unseal_Out_Unmarshal tag =
     u_bind (u_when (tag = TPM_ST_SESSIONS) UINT32_Unmarshal) (\<lambda>_.
     u_bind TPM2B_SENSITIVE_DATA_Unmarshal (\<lambda>outData.
     u_return \<lparr>Unseal_Out_outData = outData\<rparr>))"

definition TSS_ObjectChangeAuth_Out_Unmarshal :: "TPM_ST \<Rightarrow> ObjectChangeAuth_Out unmarshal" where
  "TSS_ObjectChangeAuth_Out_Unmarshal tag =
     u_bind (u_when (tag = TPM_ST_SESSIONS) UINT32_Unmarshal) (\<lambda>_.
     u_bind TPM2B_PRIVATE_Unmarshal (\<lambda>outPrivate.
     u_return \<lparr>ObjectChangeAuth_Out_outPrivate = outPrivate\<rparr>))"

definition TSS_Duplicate_Out_Unmarshal :: "TPM_ST \<Rightarrow> Duplicate_Out unmarshal" where
  "TSS_Duplicate_Out_Unmarshal tag =
     u_bind (u_when (tag = TPM_ST_SESSIONS) UINT32_Unmarshal) (\<lambda>_.
     u_bind TPM2B_DATA_Unmarshal (\<lambda>encryptionKeyOut.
     u_bind TPM2B_PRIVATE_Unmarshal (\<lambda>duplicate.
     u_bind TPM2B_ENCRYPTED_SECRET_Unmarshal (\<lambda>outSymSeed.
     u_return \<lparr>Duplicate_Out_encryptionKeyOut = encryptionKeyOut,
       Duplicate_Out_duplicate = duplicate, Duplicate_Out_outSymSeed = outSymSeed\<rparr>))))"

definition TSS_Rewrap_Out_Unmarshal :: "TPM_ST \<Rightarrow> Rewrap_Out unmarshal" where
  "TSS_Rewrap_Out_Unmarshal tag =
     u_bind (u_when (tag = TPM_ST_SESSIONS) UINT32_Unmarshal) (\<lambda>_.
     u_bind TPM2B_PRIVATE_Unmarshal (\<lambda>outDuplicate.
     u_bind TPM2B_ENCRYPTED_SECRET_Unmarshal (\<lambda>outSymSeed.
     u_return \<lparr>Rewrap_Out_outDuplicate = outDuplicate, Rewrap_Out_outSymSeed = outSymSeed\<rparr>)))"

definition TSS_Import_Out_Unmarshal :: "TPM_ST \<Rightarrow> Import_Out unmarshal" where
  "TSS_Import_Out_Unmarshal tag =
     u_bind (u_when (tag = TPM_ST_SESSIONS) UINT32_Unmarshal) (\<lambda>_.
     u_bind TPM2B_PRIVATE_Unmarshal (\<lambda>outPrivate.
     u_return \<lparr>Import_Out_outPrivate = outPrivate\<rparr>))"

section \<open>Commands are read as they are written\<close>

lemma Startup_In_codec: "reads_e param_error k [] (Startup_In_Unmarshal handles) TSS_Startup_In_Marshal"
  unfolding Startup_In_Unmarshal_def TSS_Startup_In_Marshal_def
  by (intro reads_bind [OF reads_add_rc [OF TPM_SU_codec]] reads_return)
    (simp_all add: emits_then handle_emits)

lemma Shutdown_In_codec: "reads_e param_error k [] (Shutdown_In_Unmarshal handles) TSS_Shutdown_In_Marshal"
  unfolding Shutdown_In_Unmarshal_def TSS_Shutdown_In_Marshal_def
  by (intro reads_bind [OF reads_add_rc [OF TPM_SU_codec]] reads_return)
    (simp_all add: emits_then handle_emits)

lemma SelfTest_In_codec: "reads_e param_error k [] (SelfTest_In_Unmarshal handles) TSS_SelfTest_In_Marshal"
  unfolding SelfTest_In_Unmarshal_def TSS_SelfTest_In_Marshal_def
  by (intro reads_bind [OF reads_add_rc [OF TPMI_YES_NO_codec]] reads_return)
    (simp_all add: emits_then handle_emits)

lemma IncrementalSelfTest_In_codec: "reads_e param_error k [] (IncrementalSelfTest_In_Unmarshal handles) TSS_IncrementalSelfTest_In_Marshal"
  unfolding IncrementalSelfTest_In_Unmarshal_def TSS_IncrementalSelfTest_In_Marshal_def
  by (intro reads_bind [OF reads_add_rc [OF TPML_ALG_codec]] reads_return)
    (simp_all add: emits_then handle_emits)

lemma StartAuthSession_In_codec: "reads_e param_error k (be32 (handles 0) @ be32 (handles 1)) (StartAuthSession_In_Unmarshal handles) TSS_StartAuthSession_In_Marshal"
  unfolding StartAuthSession_In_Unmarshal_def TSS_StartAuthSession_In_Marshal_def
  by (intro reads_bind [OF reads_add_rc [OF TPM2B_NONCE_codec]]
       reads_bind [OF reads_add_rc [OF TPM2B_ENCRYPTED_SECRET_codec]]
       reads_bind [OF reads_add_rc [OF TPM_SE_codec]]
       reads_bind [OF reads_add_rc [OF TPMT_SYM_DEF_codec]]
       reads_bind [OF reads_add_rc [OF TPMI_ALG_HASH_codec]] reads_return)
    (simp_all add: emits_then handle_emits)

lemma PolicyRestart_In_codec: "reads_e param_error k (be32 (handles 0)) (PolicyRestart_In_Unmarshal handles) TSS_PolicyRestart_In_Marshal"
  unfolding PolicyRestart_In_Unmarshal_def TSS_PolicyRestart_In_Marshal_def
  by (intro reads_return)
    (simp_all add: emits_then handle_emits)

lemma Create_In_codec: "2 \<le> k \<Longrightarrow> reads_e param_error k (be32 (handles 0)) (Create_In_Unmarshal handles) TSS_Create_In_Marshal"
  unfolding Create_In_Unmarshal_def TSS_Create_In_Marshal_def
  by (intro reads_bind [OF reads_add_rc [OF TPM2B_SENSITIVE_CREATE_codec]]
       reads_bind [OF reads_add_rc [OF TPM2B_PUBLIC_codec]]
       reads_bind [OF reads_add_rc [OF TPM2B_DATA_codec]]
       reads_bind [OF reads_add_rc [OF TPML_PCR_SELECTION_codec]] reads_return)
    (simp_all add: emits_then handle_emits)

lemma Load_In_codec: "2 \<le> k \<Longrightarrow> reads_e param_error k (be32 (handles 0)) (Load_In_Unmarshal handles) TSS_Load_In_Marshal"
  unfolding Load_In_Unmarshal_def TSS_Load_In_Marshal_def
  by (intro reads_bind [OF reads_add_rc [OF TPM2B_PRIVATE_codec]]
       reads_bind [OF reads_add_rc [OF TPM2B_PUBLIC_codec]] reads_return)
    (simp_all add: emits_then handle_emits)

lemma LoadExternal_In_codec: "2 \<le> k \<Longrightarrow> reads_e param_error k [] (LoadExternal_In_Unmarshal handles) TSS_LoadExternal_In_Marshal"
  unfolding LoadExternal_In_Unmarshal_def TSS_LoadExternal_In_Marshal_def
  by (intro reads_bind [OF reads_add_rc [OF TPM2B_SENSITIVE_optional_codec]]
       reads_bind [OF reads_add_rc [OF TPM2B_PUBLIC_codec]]
       reads_bind [OF reads_add_rc [OF TPMI_RH_HIERARCHY_codec]] reads_return)
    (simp_all add: emits_then handle_emits split: if_splits)

lemma ReadPublic_In_codec: "reads_e param_error k (be32 (handles 0)) (ReadPublic_In_Unmarshal handles) TSS_ReadPublic_In_Marshal"
  unfolding ReadPublic_In_Unmarshal_def TSS_ReadPublic_In_Marshal_def
  by (intro reads_return)
    (simp_all add: emits_then handle_emits)

lemma ActivateCredential_In_codec: "reads_e param_error k (be32 (handles 0) @ be32 (handles 1)) (ActivateCredential_In_Unmarshal handles) TSS_ActivateCredential_In_Marshal"
  unfolding ActivateCredential_In_Unmarshal_def TSS_ActivateCredential_In_Marshal_def
  by (intro reads_bind [OF reads_add_rc [OF TPM2B_ID_OBJECT_codec]]
       reads_bind [OF reads_add_rc [OF TPM2B_ENCRYPTED_SECRET_codec]] reads_return)
    (simp_all add: emits_then handle_emits)

lemma MakeCredential_In_codec: "reads_e param_error k (be32 (handles 0)) (MakeCredential_In_Unmarshal handles) TSS_MakeCredential_In_Marshal"
  unfolding MakeCredential_In_Unmarshal_def TSS_MakeCredential_In_Marshal_def
  by (intro reads_bind [OF reads_add_rc [OF TPM2B_DIGEST_codec]]
       reads_bind [OF reads_add_rc [OF TPM2B_NAME_codec]] reads_return)
    (simp_all add: emits_then handle_emits)

lemma Unseal_In_codec: "reads_e param_error k (be32 (handles 0)) (Unseal_In_Unmarshal handles) TSS_Unseal_In_Marshal"
  unfolding Unseal_In_Unmarshal_def TSS_Unseal_In_Marshal_def
  by (intro reads_return)
    (simp_all add: emits_then handle_emits)

lemma ObjectChangeAuth_In_codec: "reads_e param_error k (be32 (handles 0) @ be32 (handles 1)) (ObjectChangeAuth_In_Unmarshal handles) TSS_ObjectChangeAuth_In_Marshal"
  unfolding ObjectChangeAuth_In_Unmarshal_def TSS_ObjectChangeAuth_In_Marshal_def
  by (intro reads_bind [OF reads_param [OF TPM2B_AUTH_codec]] reads_return)
    (simp_all add: emits_then handle_emits)

lemma Duplicate_In_codec: "reads_e param_error k (be32 (handles 0) @ be32 (handles 1)) (Duplicate_In_Unmarshal handles) TSS_Duplicate_In_Marshal"
  unfolding Duplicate_In_Unmarshal_def TSS_Duplicate_In_Marshal_def
  by (intro reads_bind [OF reads_add_rc [OF TPM2B_DATA_codec]]
       reads_bind [OF reads_add_rc [OF TPMT_SYM_DEF_OBJECT_codec]] reads_return)
    (simp_all add: emits_then handle_emits)

lemma Rewrap_In_codec: "reads_e param_error k (be32 (handles 0) @ be32 (handles 1)) (Rewrap_In_Unmarshal handles) TSS_Rewrap_In_Marshal"
  unfolding Rewrap_In_Unmarshal_def TSS_Rewrap_In_Marshal_def
  by (intro reads_bind [OF reads_add_rc [OF TPM2B_PRIVATE_codec]]
       reads_bind [OF reads_add_rc [OF TPM2B_NAME_codec]]
       reads_bind [OF reads_add_rc [OF TPM2B_ENCRYPTED_SECRET_codec]] reads_return)
    (simp_all add: emits_then handle_emits)

lemma Import_In_codec: "2 \<le> k \<Longrightarrow> reads_e param_error k (be32 (handles 0)) (Import_In_Unmarshal handles) TSS_Import_In_Marshal"
  unfolding Import_In_Unmarshal_def TSS_Import_In_Marshal_def
  by (intro reads_bind [OF reads_param [OF TPM2B_DATA_codec]]
       reads_bind [OF reads_add_rc [OF TPM2B_PUBLIC_codec]]
       reads_bind [OF reads_add_rc [OF TPM2B_PRIVATE_codec]]
       reads_bind [OF reads_add_rc [OF TPM2B_ENCRYPTED_SECRET_codec]]
       reads_bind [OF reads_add_rc [OF TPMT_SYM_DEF_OBJECT_codec]] reads_return)
    (simp_all add: emits_then handle_emits)

section \<open>Responses stay within their target\<close>

definition IncrementalSelfTest_Out_bounded :: "IncrementalSelfTest_Out \<Rightarrow> bool" where
  "IncrementalSelfTest_Out_bounded v \<longleftrightarrow> TPML_ALG_bounded (IncrementalSelfTest_Out_toDoList v)"

definition GetTestResult_Out_bounded :: "GetTestResult_Out \<Rightarrow> bool" where
  "GetTestResult_Out_bounded v \<longleftrightarrow> TPM2B_MAX_BUFFER_bounded (GetTestResult_Out_outData v)"

definition StartAuthSession_Out_bounded :: "StartAuthSession_Out \<Rightarrow> bool" where
  "StartAuthSession_Out_bounded v \<longleftrightarrow> TPM2B_DIGEST_bounded (StartAuthSession_Out_nonceTPM v)"

definition Create_Out_bounded :: "Create_Out \<Rightarrow> bool" where
  "Create_Out_bounded v \<longleftrightarrow> TPM2B_PRIVATE_bounded (Create_Out_outPrivate v)
    \<and> TPM2B_PUBLIC_bounded (Create_Out_outPublic v)
    \<and> TPM2B_CREATION_DATA_bounded (Create_Out_creationData v)
    \<and> TPM2B_DIGEST_bounded (Create_Out_creationHash v)
    \<and> TPMT_TK_CREATION_bounded (Create_Out_creationTicket v)"

definition Load_Out_bounded :: "Load_Out \<Rightarrow> bool" where
  "Load_Out_bounded v \<longleftrightarrow> TPM2B_NAME_bounded (Load_Out_name v)"

definition LoadExternal_Out_bounded :: "LoadExternal_Out \<Rightarrow> bool" where
  "LoadExternal_Out_bounded v \<longleftrightarrow> TPM2B_NAME_bounded (LoadExternal_Out_name v)"

definition ReadPublic_Out_bounded :: "ReadPublic_Out \<Rightarrow> bool" where
  "ReadPublic_Out_bounded v \<longleftrightarrow> TPM2B_PUBLIC_bounded (ReadPublic_Out_outPublic v)
    \<and> TPM2B_NAME_bounded (ReadPublic_Out_name v)
    \<and> TPM2B_NAME_bounded (ReadPublic_Out_qualifiedName v)"

definition ActivateCredential_Out_bounded :: "ActivateCredential_Out \<Rightarrow> bool" where
  "ActivateCredential_Out_bounded v \<longleftrightarrow> TPM2B_DIGEST_bounded (ActivateCredential_Out_certInfo v)"

definition MakeCredential_Out_bounded :: "MakeCredential_Out \<Rightarrow> bool" where
  "MakeCredential_Out_bounded v \<longleftrightarrow> TPM2B_ID_OBJECT_bounded (MakeCredential_Out_credentialBlob v)
    \<and> TPM2B_ENCRYPTED_SECRET_bounded (MakeCredential_Out_secret v)"

definition Unseal_Out_bounded :: "Unseal_Out \<Rightarrow> bool" where
  "Unseal_Out_bounded v \<longleftrightarrow> TPM2B_SENSITIVE_DATA_bounded (Unseal_Out_outData v)"

definition ObjectChangeAuth_Out_bounded :: "ObjectChangeAuth_Out \<Rightarrow> bool" where
  "ObjectChangeAuth_Out_bounded v \<longleftrightarrow> TPM2B_PRIVATE_bounded (ObjectChangeAuth_Out_outPrivate v)"

definition Duplicate_Out_bounded :: "Duplicate_Out \<Rightarrow> bool" where
  "Duplicate_Out_bounded v \<longleftrightarrow> TPM2B_DATA_bounded (Duplicate_Out_encryptionKeyOut v)
    \<and> TPM2B_PRIVATE_bounded (Duplicate_Out_duplicate v)
    \<and> TPM2B_ENCRYPTED_SECRET_bounded (Duplicate_Out_outSymSeed v)"

definition Rewrap_Out_bounded :: "Rewrap_Out \<Rightarrow> bool" where
  "Rewrap_Out_bounded v \<longleftrightarrow> TPM2B_PRIVATE_bounded (Rewrap_Out_outDuplicate v)
    \<and> TPM2B_ENCRYPTED_SECRET_bounded (Rewrap_Out_outSymSeed v)"

definition Import_Out_bounded :: "Import_Out \<Rightarrow> bool" where
  "Import_Out_bounded v \<longleftrightarrow> TPM2B_PRIVATE_bounded (Import_Out_outPrivate v)"

lemma IncrementalSelfTest_Out_delivers: "delivers IncrementalSelfTest_Out_bounded (TSS_IncrementalSelfTest_Out_Unmarshal tag)"
  unfolding TSS_IncrementalSelfTest_Out_Unmarshal_def
  by (intro delivers_bind [OF delivers_when [OF reads_delivers [OF UINT32_codec]]]
       delivers_bind [OF TPML_ALG_delivers] delivers_return)
    (simp_all add: IncrementalSelfTest_Out_bounded_def)

lemma GetTestResult_Out_delivers: "delivers GetTestResult_Out_bounded (TSS_GetTestResult_Out_Unmarshal tag)"
  unfolding TSS_GetTestResult_Out_Unmarshal_def
  by (intro delivers_bind [OF delivers_when [OF reads_delivers [OF UINT32_codec]]]
       delivers_bind [OF TPM2B_MAX_BUFFER_delivers] delivers_bind [OF reads_delivers [OF TPM_RC_codec]]
       delivers_return)
    (simp_all add: GetTestResult_Out_bounded_def)

lemma StartAuthSession_Out_delivers: "delivers StartAuthSession_Out_bounded (TSS_StartAuthSession_Out_Unmarshal tag)"
  unfolding TSS_StartAuthSession_Out_Unmarshal_def
  by (intro delivers_bind [OF reads_delivers [OF TPMI_SH_AUTH_SESSION_codec]]
       delivers_bind [OF delivers_when [OF reads_delivers [OF UINT32_codec]]]
       delivers_bind [OF TPM2B_NONCE_delivers] delivers_return)
    (simp_all add: StartAuthSession_Out_bounded_def)

lemma Create_Out_delivers: "delivers Create_Out_bounded (TSS_Create_Out_Unmarshal tag)"
  unfolding TSS_Create_Out_Unmarshal_def
  by (intro delivers_bind [OF delivers_when [OF reads_delivers [OF UINT32_codec]]]
       delivers_bind [OF TPM2B_PRIVATE_delivers] delivers_bind [OF TPM2B_PUBLIC_delivers]
       delivers_bind [OF TPM2B_CREATION_DATA_delivers] delivers_bind [OF TPM2B_DIGEST_delivers]
       delivers_bind [OF TPMT_TK_CREATION_delivers] delivers_return)
    (simp_all add: Create_Out_bounded_def)

lemma Load_Out_delivers: "delivers Load_Out_bounded (TSS_Load_Out_Unmarshal tag)"
  unfolding TSS_Load_Out_Unmarshal_def
  by (intro delivers_bind [OF reads_delivers [OF TPM_HANDLE_codec]]
       delivers_bind [OF delivers_when [OF reads_delivers [OF UINT32_codec]]]
       delivers_bind [OF TPM2B_NAME_delivers] delivers_return)
    (simp_all add: Load_Out_bounded_def)

lemma LoadExternal_Out_delivers: "delivers LoadExternal_Out_bounded (TSS_LoadExternal_Out_Unmarshal tag)"
  unfolding TSS_LoadExternal_Out_Unmarshal_def
  by (intro delivers_bind [OF reads_delivers [OF TPM_HANDLE_codec]]
       delivers_bind [OF delivers_when [OF reads_delivers [OF UINT32_codec]]]
       delivers_bind [OF TPM2B_NAME_delivers] delivers_return)
    (simp_all add: LoadExternal_Out_bounded_def)

lemma ReadPublic_Out_delivers: "delivers ReadPublic_Out_bounded (TSS_ReadPublic_Out_Unmarshal tag)"
  unfolding TSS_ReadPublic_Out_Unmarshal_def
  by (intro delivers_bind [OF delivers_when [OF reads_delivers [OF UINT32_codec]]]
       delivers_bind [OF TPM2B_PUBLIC_delivers] delivers_bind [OF TPM2B_NAME_delivers] delivers_return)
    (simp_all add: ReadPublic_Out_bounded_def)

lemma ActivateCredential_Out_delivers: "delivers ActivateCredential_Out_bounded (TSS_ActivateCredential_Out_Unmarshal tag)"
  unfolding TSS_ActivateCredential_Out_Unmarshal_def
  by (intro delivers_bind [OF delivers_when [OF reads_delivers [OF UINT32_codec]]]
       delivers_bind [OF TPM2B_DIGEST_delivers] delivers_return)
    (simp_all add: ActivateCredential_Out_bounded_def)

lemma MakeCredential_Out_delivers: "delivers MakeCredential_Out_bounded (TSS_MakeCredential_Out_Unmarshal tag)"
  unfolding TSS_MakeCredential_Out_Unmarshal_def
  by (intro delivers_bind [OF delivers_when [OF reads_delivers [OF UINT32_codec]]]
       delivers_bind [OF TPM2B_ID_OBJECT_delivers] delivers_bind [OF TPM2B_ENCRYPTED_SECRET_delivers]
       delivers_return)
    (simp_all add: MakeCredential_Out_bounded_def)

lemma Unseal_Out_delivers: "delivers Unseal_Out_bounded (TSS_Unseal_Out_Unmarshal tag)"
  unfolding TSS_Unseal_Out_Unmarshal_def
  by (intro delivers_bind [OF delivers_when [OF reads_delivers [OF UINT32_codec]]]
       delivers_bind [OF TPM2B_SENSITIVE_DATA_delivers] delivers_return)
    (simp_all add: Unseal_Out_bounded_def)

lemma ObjectChangeAuth_Out_delivers: "delivers ObjectChangeAuth_Out_bounded (TSS_ObjectChangeAuth_Out_Unmarshal tag)"
  unfolding TSS_ObjectChangeAuth_Out_Unmarshal_def
  by (intro delivers_bind [OF delivers_when [OF reads_delivers [OF UINT32_codec]]]
       delivers_bind [OF TPM2B_PRIVATE_delivers] delivers_return)
    (simp_all add: ObjectChangeAuth_Out_bounded_def)

lemma Duplicate_Out_delivers: "delivers Duplicate_Out_bounded (TSS_Duplicate_Out_Unmarshal tag)"
  unfolding TSS_Duplicate_Out_Unmarshal_def
  by (intro delivers_bind [OF delivers_when [OF reads_delivers [OF UINT32_codec]]]
       delivers_bind [OF TPM2B_DATA_delivers] delivers_bind [OF TPM2B_PRIVATE_delivers]
       delivers_bind [OF TPM2B_ENCRYPTED_SECRET_delivers] delivers_return)
    (simp_all add: Duplicate_Out_bounded_def)

lemma Rewrap_Out_delivers: "delivers Rewrap_Out_bounded (TSS_Rewrap_Out_Unmarshal tag)"
  unfolding TSS_Rewrap_Out_Unmarshal_def
  by (intro delivers_bind [OF delivers_when [OF reads_delivers [OF UINT32_codec]]]
       delivers_bind [OF TPM2B_PRIVATE_delivers] delivers_bind [OF TPM2B_ENCRYPTED_SECRET_delivers]
       delivers_return)
    (simp_all add: Rewrap_Out_bounded_def)

lemma Import_Out_delivers: "delivers Import_Out_bounded (TSS_Import_Out_Unmarshal tag)"
  unfolding TSS_Import_Out_Unmarshal_def
  by (intro delivers_bind [OF delivers_when [OF reads_delivers [OF UINT32_codec]]]
       delivers_bind [OF TPM2B_PRIVATE_delivers] delivers_return)
    (simp_all add: Import_Out_bounded_def)

section \<open>TPM2_Create\<close>

interpretation create: codec param_error 2 "be32 (handles 0)" "Create_In_Unmarshal handles" TSS_Create_In_Marshal
  for handles
  by unfold_locales (rule Create_In_codec, simp, erule param_error_nonzero)

text \<open>
  C26. The command TPM2_Create. The parameters that \<open>Create_In_Unmarshal\<close> accepts are marshalled by
  \<open>TSS_Create_In_Marshal\<close> to the handle of the parent followed by exactly the bytes from which they were read.
\<close>

theorem Create_In_roundtrip:
  assumes "u_good b" "Create_In_Unmarshal handles b = Ok v b'"
    and "good s" "position s = Some p" "room s = None \<or> avail b + 4 \<le> the (room s)"
  shows "\<exists>bs s'. rest b = bs @ rest b' \<and> TSS_Create_In_Marshal v s = Done 0 s' \<and>
    position s' = Some (p + 4 + length bs) \<and> (\<forall>i<4. memory s' (p + i) = be32 (handles 0) ! i) \<and>
    (\<forall>i<length bs. memory s' (p + 4 + i) = bs ! i)"
proof -
  have l: "length (be32 (handles 0)) = 4" by (simp add: be32_def)
  from create.roundtrip [OF assms(1-4)] assms(5) obtain bs s'
    where bs: "rest b = bs @ rest b'" "TSS_Create_In_Marshal v s = Done 0 s'" "position s' = Some (p + (4 + length bs))"
      and m: "\<And>i. i < 4 + length bs \<Longrightarrow> memory s' (p + i) = (be32 (handles 0) @ bs) ! i"
    by (auto simp: l)
  have "memory s' (p + i) = be32 (handles 0) ! i" if "i < 4" for i using m [of i] that by (simp add: nth_append l)
  moreover have "memory s' (p + 4 + i) = bs ! i" if "i < length bs" for i
    using m [of "4 + i"] that by (simp add: nth_append l add.assoc)
  ultimately show ?thesis using bs by (intro exI [of _ bs] exI [of _ s']) (simp add: add.assoc)
qed

definition ex_create_bytes :: "byte list" where
  "ex_create_bytes = [0, 4, 0, 0, 0, 0, 0, 16] @ ex_bytes @ [0, 0, 0, 0, 0, 0]"

definition ex_create :: Create_In where
  "ex_create = \<lparr>Create_In_parentHandle = 0x80000001,
     Create_In_inSensitive = \<lparr>TPM2B_SENSITIVE_CREATE_size = 4, TPM2B_SENSITIVE_CREATE_sensitive =
       \<lparr>TPMS_SENSITIVE_CREATE_userAuth = \<lparr>TPM2B_size = 0, TPM2B_buffer = []\<rparr>,
        TPMS_SENSITIVE_CREATE_data = \<lparr>TPM2B_size = 0, TPM2B_buffer = []\<rparr>\<rparr>\<rparr>,
     Create_In_inPublic = ex_sized, Create_In_outsideInfo = \<lparr>TPM2B_size = 0, TPM2B_buffer = []\<rparr>,
     Create_In_creationPCR = \<lparr>TPML_PCR_SELECTION_count = 0, TPML_PCR_SELECTION_pcrSelections = []\<rparr>\<rparr>"

lemma ex_create_parsed:
  "Create_In_Unmarshal (\<lambda>_. 0x80000001) \<lparr>rest = ex_create_bytes, avail = 30\<rparr> = Ok ex_create \<lparr>rest = [], avail = 0\<rparr>"
  by code_simp

theorem Create_In_roundtrip_witness:
  "\<exists>bs s'. ex_create_bytes = bs \<and> TSS_Create_In_Marshal ex_create (ex_state (Some 10) (Some 40)) = Done 0 s' \<and>
    position s' = Some (14 + length bs) \<and> (\<forall>i<4. memory s' (10 + i) = be32 0x80000001 ! i) \<and>
    (\<forall>i<length bs. memory s' (14 + i) = bs ! i)"
  using Create_In_roundtrip [OF _ ex_create_parsed, of "ex_state (Some 10) (Some 40)" 10]
  by (simp add: u_good_def good_def ex_create_bytes_def ex_bytes_def ex_state_def)

text \<open>
  C27. The response to TPM2_Create. Whatever bytes the TPM sends, \<open>TSS_Create_Out_Unmarshal\<close> does not read past the end of
  the response; it fails with an error code and the buffer moved forward at most to its end, or it returns a structure
  all of whose arrays hold no more than they have room for.
\<close>

theorem TSS_Create_Out_Unmarshal_safe:
  assumes "u_good b"
  shows "case TSS_Create_Out_Unmarshal tag b of
      Ok v b' \<Rightarrow> Create_Out_bounded v \<and>
        (\<exists>bs. rest b = bs @ rest b' \<and> avail b' = avail b - int (length bs) \<and> 0 \<le> avail b')
    | Fail rc b' \<Rightarrow> rc \<noteq> 0 \<and> rc < 0x1000 \<and>
        (\<exists>bs. rest b = bs @ rest b' \<and> avail b' = avail b - int (length bs) \<and> 0 \<le> avail b')
    | Overread \<Rightarrow> False"
  using Create_Out_delivers [of tag] assms
  by (cases rule: deliversE) (fastforce simp: consumed_def basic_error_def)+

theorem TSS_Create_Out_Unmarshal_safe_witness:
  "TSS_Create_Out_Unmarshal 0x8001 \<lparr>rest = [0, 1], avail = 2\<rparr> \<noteq> Overread"
  using TSS_Create_Out_Unmarshal_safe [of "\<lparr>rest = [0, 1], avail = 2\<rparr>" "0x8001"] by (auto simp: u_good_def)

end
