(* ===== verification/Tss_Cmd_Crypto.thy ===== *)
theory Tss_Cmd_Crypto
  imports Tss_Bounds
begin

text \<open>
  The commands for encryption, key exchange, hashing, HMAC and random numbers: the parameter structures (\<^verbatim>\<open>tss2/*_fp.h\<close>), \<open>TSS_*_In_Marshal\<close> and
  \<open>TSS_*_Out_Unmarshal\<close> of \<^verbatim>\<open>libtss2/tssmarshal.c\<close>, and \<open>*_In_Unmarshal\<close> of \<^verbatim>\<open>libtss2/Commands.c\<close>, to which the
  handles of the command are passed in the array \<open>handles\<close>. A command is written in the form in which it is read; a
  response is read within its buffer and within its target.
\<close>

section \<open>Parameters\<close>

text \<open>What a command adds to the error of a parameter, and the structures.\<close>

abbreviation RC_RSA_Encrypt_message :: "32 word" where "RC_RSA_Encrypt_message \<equiv> 0x140"
abbreviation RC_RSA_Encrypt_inScheme :: "32 word" where "RC_RSA_Encrypt_inScheme \<equiv> 0x240"
abbreviation RC_RSA_Encrypt_label :: "32 word" where "RC_RSA_Encrypt_label \<equiv> 0x340"
abbreviation RC_RSA_Decrypt_cipherText :: "32 word" where "RC_RSA_Decrypt_cipherText \<equiv> 0x140"
abbreviation RC_RSA_Decrypt_inScheme :: "32 word" where "RC_RSA_Decrypt_inScheme \<equiv> 0x240"
abbreviation RC_RSA_Decrypt_label :: "32 word" where "RC_RSA_Decrypt_label \<equiv> 0x340"
abbreviation RC_ECDH_ZGen_inPoint :: "32 word" where "RC_ECDH_ZGen_inPoint \<equiv> 0x140"
abbreviation RC_ECC_Parameters_curveID :: "32 word" where "RC_ECC_Parameters_curveID \<equiv> 0x140"
abbreviation RC_ZGen_2Phase_inQsB :: "32 word" where "RC_ZGen_2Phase_inQsB \<equiv> 0x140"
abbreviation RC_ZGen_2Phase_inQeB :: "32 word" where "RC_ZGen_2Phase_inQeB \<equiv> 0x240"
abbreviation RC_ZGen_2Phase_inScheme :: "32 word" where "RC_ZGen_2Phase_inScheme \<equiv> 0x340"
abbreviation RC_ZGen_2Phase_counter :: "32 word" where "RC_ZGen_2Phase_counter \<equiv> 0x440"
abbreviation RC_EncryptDecrypt_decrypt :: "32 word" where "RC_EncryptDecrypt_decrypt \<equiv> 0x140"
abbreviation RC_EncryptDecrypt_mode :: "32 word" where "RC_EncryptDecrypt_mode \<equiv> 0x240"
abbreviation RC_EncryptDecrypt_ivIn :: "32 word" where "RC_EncryptDecrypt_ivIn \<equiv> 0x340"
abbreviation RC_EncryptDecrypt_inData :: "32 word" where "RC_EncryptDecrypt_inData \<equiv> 0x440"
abbreviation RC_Hash_data :: "32 word" where "RC_Hash_data \<equiv> 0x140"
abbreviation RC_Hash_hashAlg :: "32 word" where "RC_Hash_hashAlg \<equiv> 0x240"
abbreviation RC_Hash_hierarchy :: "32 word" where "RC_Hash_hierarchy \<equiv> 0x340"
abbreviation RC_HMAC_buffer :: "32 word" where "RC_HMAC_buffer \<equiv> 0x140"
abbreviation RC_HMAC_hashAlg :: "32 word" where "RC_HMAC_hashAlg \<equiv> 0x240"
abbreviation RC_GetRandom_bytesRequested :: "32 word" where "RC_GetRandom_bytesRequested \<equiv> 0x140"
abbreviation RC_StirRandom_inData :: "32 word" where "RC_StirRandom_inData \<equiv> 0x140"
abbreviation RC_HMAC_Start_auth :: "32 word" where "RC_HMAC_Start_auth \<equiv> 0x140"
abbreviation RC_HMAC_Start_hashAlg :: "32 word" where "RC_HMAC_Start_hashAlg \<equiv> 0x240"
abbreviation RC_HashSequenceStart_auth :: "32 word" where "RC_HashSequenceStart_auth \<equiv> 0x140"
abbreviation RC_HashSequenceStart_hashAlg :: "32 word" where "RC_HashSequenceStart_hashAlg \<equiv> 0x240"
abbreviation RC_SequenceUpdate_buffer :: "32 word" where "RC_SequenceUpdate_buffer \<equiv> 0x240"
abbreviation RC_SequenceComplete_buffer :: "32 word" where "RC_SequenceComplete_buffer \<equiv> 0x140"
abbreviation RC_SequenceComplete_hierarchy :: "32 word" where "RC_SequenceComplete_hierarchy \<equiv> 0x240"
abbreviation RC_EventSequenceComplete_buffer :: "32 word" where "RC_EventSequenceComplete_buffer \<equiv> 0x140"

record RSA_Encrypt_In =
  RSA_Encrypt_In_keyHandle :: "TPMI_DH_OBJECT"
  RSA_Encrypt_In_message :: "TPM2B_PUBLIC_KEY_RSA"
  RSA_Encrypt_In_inScheme :: "TPMT_RSA_DECRYPT"
  RSA_Encrypt_In_label :: "TPM2B_DATA"

record RSA_Encrypt_Out =
  RSA_Encrypt_Out_outData :: "TPM2B_PUBLIC_KEY_RSA"

record RSA_Decrypt_In =
  RSA_Decrypt_In_keyHandle :: "TPMI_DH_OBJECT"
  RSA_Decrypt_In_cipherText :: "TPM2B_PUBLIC_KEY_RSA"
  RSA_Decrypt_In_inScheme :: "TPMT_RSA_DECRYPT"
  RSA_Decrypt_In_label :: "TPM2B_DATA"

record RSA_Decrypt_Out =
  RSA_Decrypt_Out_message :: "TPM2B_PUBLIC_KEY_RSA"

record ECDH_KeyGen_In =
  ECDH_KeyGen_In_keyHandle :: "TPMI_DH_OBJECT"

record ECDH_KeyGen_Out =
  ECDH_KeyGen_Out_zPoint :: "TPM2B_ECC_POINT"
  ECDH_KeyGen_Out_pubPoint :: "TPM2B_ECC_POINT"

record ECDH_ZGen_In =
  ECDH_ZGen_In_keyHandle :: "TPMI_DH_OBJECT"
  ECDH_ZGen_In_inPoint :: "TPM2B_ECC_POINT"

record ECDH_ZGen_Out =
  ECDH_ZGen_Out_outPoint :: "TPM2B_ECC_POINT"

record ECC_Parameters_In =
  ECC_Parameters_In_curveID :: "TPMI_ECC_CURVE"

record ECC_Parameters_Out =
  ECC_Parameters_Out_parameters :: "TPMS_ALGORITHM_DETAIL_ECC"

record ZGen_2Phase_In =
  ZGen_2Phase_In_keyA :: "TPMI_DH_OBJECT"
  ZGen_2Phase_In_inQsB :: "TPM2B_ECC_POINT"
  ZGen_2Phase_In_inQeB :: "TPM2B_ECC_POINT"
  ZGen_2Phase_In_inScheme :: "TPMI_ECC_KEY_EXCHANGE"
  ZGen_2Phase_In_counter :: "UINT16"

record ZGen_2Phase_Out =
  ZGen_2Phase_Out_outZ1 :: "TPM2B_ECC_POINT"
  ZGen_2Phase_Out_outZ2 :: "TPM2B_ECC_POINT"

record EncryptDecrypt_In =
  EncryptDecrypt_In_keyHandle :: "TPMI_DH_OBJECT"
  EncryptDecrypt_In_decrypt :: "TPMI_YES_NO"
  EncryptDecrypt_In_mode :: "TPMI_ALG_SYM_MODE"
  EncryptDecrypt_In_ivIn :: "TPM2B_IV"
  EncryptDecrypt_In_inData :: "TPM2B_MAX_BUFFER"

record EncryptDecrypt_Out =
  EncryptDecrypt_Out_outData :: "TPM2B_MAX_BUFFER"
  EncryptDecrypt_Out_ivOut :: "TPM2B_IV"

record Hash_In =
  Hash_In_data :: "TPM2B_MAX_BUFFER"
  Hash_In_hashAlg :: "TPMI_ALG_HASH"
  Hash_In_hierarchy :: "TPMI_RH_HIERARCHY"

record Hash_Out =
  Hash_Out_outHash :: "TPM2B_DIGEST"
  Hash_Out_validation :: "TPMT_TK_HASHCHECK"

record HMAC_In =
  HMAC_In_handle :: "TPMI_DH_OBJECT"
  HMAC_In_buffer :: "TPM2B_MAX_BUFFER"
  HMAC_In_hashAlg :: "TPMI_ALG_HASH"

record HMAC_Out =
  HMAC_Out_outHMAC :: "TPM2B_DIGEST"

record GetRandom_In =
  GetRandom_In_bytesRequested :: "UINT16"

record GetRandom_Out =
  GetRandom_Out_randomBytes :: "TPM2B_DIGEST"

record StirRandom_In =
  StirRandom_In_inData :: "TPM2B_SENSITIVE_DATA"

record HMAC_Start_In =
  HMAC_Start_In_handle :: "TPMI_DH_OBJECT"
  HMAC_Start_In_auth :: "TPM2B_AUTH"
  HMAC_Start_In_hashAlg :: "TPMI_ALG_HASH"

record HMAC_Start_Out =
  HMAC_Start_Out_sequenceHandle :: "TPMI_DH_OBJECT"

record HashSequenceStart_In =
  HashSequenceStart_In_auth :: "TPM2B_AUTH"
  HashSequenceStart_In_hashAlg :: "TPMI_ALG_HASH"

record HashSequenceStart_Out =
  HashSequenceStart_Out_sequenceHandle :: "TPMI_DH_OBJECT"

record SequenceUpdate_In =
  SequenceUpdate_In_sequenceHandle :: "TPMI_DH_OBJECT"
  SequenceUpdate_In_buffer :: "TPM2B_MAX_BUFFER"

record SequenceComplete_In =
  SequenceComplete_In_sequenceHandle :: "TPMI_DH_OBJECT"
  SequenceComplete_In_buffer :: "TPM2B_MAX_BUFFER"
  SequenceComplete_In_hierarchy :: "TPMI_RH_HIERARCHY"

record SequenceComplete_Out =
  SequenceComplete_Out_result :: "TPM2B_DIGEST"
  SequenceComplete_Out_validation :: "TPMT_TK_HASHCHECK"

record EventSequenceComplete_In =
  EventSequenceComplete_In_pcrHandle :: "TPMI_DH_PCR"
  EventSequenceComplete_In_sequenceHandle :: "TPMI_DH_OBJECT"
  EventSequenceComplete_In_buffer :: "TPM2B_MAX_BUFFER"

record EventSequenceComplete_Out =
  EventSequenceComplete_Out_results :: "TPML_DIGEST_VALUES"

section \<open>Marshalling commands\<close>

definition TSS_RSA_Encrypt_In_Marshal :: "RSA_Encrypt_In \<Rightarrow> marshal" where
  "TSS_RSA_Encrypt_In_Marshal source =
     m_then (TSS_TPMI_DH_OBJECT_Marshal (RSA_Encrypt_In_keyHandle source)) (
     m_then (TSS_TPM2B_PUBLIC_KEY_RSA_Marshal (RSA_Encrypt_In_message source)) (
     m_then (TSS_TPMT_RSA_DECRYPT_Marshal (RSA_Encrypt_In_inScheme source)) (
     TSS_TPM2B_DATA_Marshal (RSA_Encrypt_In_label source))))"

definition TSS_RSA_Decrypt_In_Marshal :: "RSA_Decrypt_In \<Rightarrow> marshal" where
  "TSS_RSA_Decrypt_In_Marshal source =
     m_then (TSS_TPMI_DH_OBJECT_Marshal (RSA_Decrypt_In_keyHandle source)) (
     m_then (TSS_TPM2B_PUBLIC_KEY_RSA_Marshal (RSA_Decrypt_In_cipherText source)) (
     m_then (TSS_TPMT_RSA_DECRYPT_Marshal (RSA_Decrypt_In_inScheme source)) (
     TSS_TPM2B_DATA_Marshal (RSA_Decrypt_In_label source))))"

definition TSS_ECDH_KeyGen_In_Marshal :: "ECDH_KeyGen_In \<Rightarrow> marshal" where
  "TSS_ECDH_KeyGen_In_Marshal source = TSS_TPMI_DH_OBJECT_Marshal (ECDH_KeyGen_In_keyHandle source)"

definition TSS_ECDH_ZGen_In_Marshal :: "ECDH_ZGen_In \<Rightarrow> marshal" where
  "TSS_ECDH_ZGen_In_Marshal source =
     m_then (TSS_TPMI_DH_OBJECT_Marshal (ECDH_ZGen_In_keyHandle source)) (
     TSS_TPM2B_ECC_POINT_Marshal (ECDH_ZGen_In_inPoint source))"

definition TSS_ECC_Parameters_In_Marshal :: "ECC_Parameters_In \<Rightarrow> marshal" where
  "TSS_ECC_Parameters_In_Marshal source = TSS_TPMI_ECC_CURVE_Marshal (ECC_Parameters_In_curveID source)"

definition TSS_ZGen_2Phase_In_Marshal :: "ZGen_2Phase_In \<Rightarrow> marshal" where
  "TSS_ZGen_2Phase_In_Marshal source =
     m_then (TSS_TPMI_DH_OBJECT_Marshal (ZGen_2Phase_In_keyA source)) (
     m_then (TSS_TPM2B_ECC_POINT_Marshal (ZGen_2Phase_In_inQsB source)) (
     m_then (TSS_TPM2B_ECC_POINT_Marshal (ZGen_2Phase_In_inQeB source)) (
     m_then (TSS_TPMI_ECC_KEY_EXCHANGE_Marshal (ZGen_2Phase_In_inScheme source)) (
     TSS_UINT16_Marshal (ZGen_2Phase_In_counter source)))))"

definition TSS_EncryptDecrypt_In_Marshal :: "EncryptDecrypt_In \<Rightarrow> marshal" where
  "TSS_EncryptDecrypt_In_Marshal source =
     m_then (TSS_TPMI_DH_OBJECT_Marshal (EncryptDecrypt_In_keyHandle source)) (
     m_then (TSS_TPMI_YES_NO_Marshal (EncryptDecrypt_In_decrypt source)) (
     m_then (TSS_TPMI_ALG_SYM_MODE_Marshal (EncryptDecrypt_In_mode source)) (
     m_then (TSS_TPM2B_IV_Marshal (EncryptDecrypt_In_ivIn source)) (
     TSS_TPM2B_MAX_BUFFER_Marshal (EncryptDecrypt_In_inData source)))))"

definition TSS_Hash_In_Marshal :: "Hash_In \<Rightarrow> marshal" where
  "TSS_Hash_In_Marshal source =
     m_then (TSS_TPM2B_MAX_BUFFER_Marshal (Hash_In_data source)) (
     m_then (TSS_TPMI_ALG_HASH_Marshal (Hash_In_hashAlg source)) (
     TSS_TPMI_RH_HIERARCHY_Marshal (Hash_In_hierarchy source)))"

definition TSS_HMAC_In_Marshal :: "HMAC_In \<Rightarrow> marshal" where
  "TSS_HMAC_In_Marshal source =
     m_then (TSS_TPMI_DH_OBJECT_Marshal (HMAC_In_handle source)) (
     m_then (TSS_TPM2B_MAX_BUFFER_Marshal (HMAC_In_buffer source)) (
     TSS_TPMI_ALG_HASH_Marshal (HMAC_In_hashAlg source)))"

definition TSS_GetRandom_In_Marshal :: "GetRandom_In \<Rightarrow> marshal" where
  "TSS_GetRandom_In_Marshal source = TSS_UINT16_Marshal (GetRandom_In_bytesRequested source)"

definition TSS_StirRandom_In_Marshal :: "StirRandom_In \<Rightarrow> marshal" where
  "TSS_StirRandom_In_Marshal source = TSS_TPM2B_SENSITIVE_DATA_Marshal (StirRandom_In_inData source)"

definition TSS_HMAC_Start_In_Marshal :: "HMAC_Start_In \<Rightarrow> marshal" where
  "TSS_HMAC_Start_In_Marshal source =
     m_then (TSS_TPMI_DH_OBJECT_Marshal (HMAC_Start_In_handle source)) (
     m_then (TSS_TPM2B_AUTH_Marshal (HMAC_Start_In_auth source)) (
     TSS_TPMI_ALG_HASH_Marshal (HMAC_Start_In_hashAlg source)))"

definition TSS_HashSequenceStart_In_Marshal :: "HashSequenceStart_In \<Rightarrow> marshal" where
  "TSS_HashSequenceStart_In_Marshal source =
     m_then (TSS_TPM2B_AUTH_Marshal (HashSequenceStart_In_auth source)) (
     TSS_TPMI_ALG_HASH_Marshal (HashSequenceStart_In_hashAlg source))"

definition TSS_SequenceUpdate_In_Marshal :: "SequenceUpdate_In \<Rightarrow> marshal" where
  "TSS_SequenceUpdate_In_Marshal source =
     m_then (TSS_TPMI_DH_OBJECT_Marshal (SequenceUpdate_In_sequenceHandle source)) (
     TSS_TPM2B_MAX_BUFFER_Marshal (SequenceUpdate_In_buffer source))"

definition TSS_SequenceComplete_In_Marshal :: "SequenceComplete_In \<Rightarrow> marshal" where
  "TSS_SequenceComplete_In_Marshal source =
     m_then (TSS_TPMI_DH_OBJECT_Marshal (SequenceComplete_In_sequenceHandle source)) (
     m_then (TSS_TPM2B_MAX_BUFFER_Marshal (SequenceComplete_In_buffer source)) (
     TSS_TPMI_RH_HIERARCHY_Marshal (SequenceComplete_In_hierarchy source)))"

definition TSS_EventSequenceComplete_In_Marshal :: "EventSequenceComplete_In \<Rightarrow> marshal" where
  "TSS_EventSequenceComplete_In_Marshal source =
     m_then (TSS_TPMI_DH_PCR_Marshal (EventSequenceComplete_In_pcrHandle source)) (
     m_then (TSS_TPMI_DH_OBJECT_Marshal (EventSequenceComplete_In_sequenceHandle source)) (
     TSS_TPM2B_MAX_BUFFER_Marshal (EventSequenceComplete_In_buffer source)))"

section \<open>Unmarshalling commands\<close>

definition RSA_Encrypt_In_Unmarshal :: "(nat \<Rightarrow> TPM_HANDLE) \<Rightarrow> RSA_Encrypt_In unmarshal" where
  "RSA_Encrypt_In_Unmarshal handles =
     u_bind (u_add_rc RC_RSA_Encrypt_message TPM2B_PUBLIC_KEY_RSA_Unmarshal) (\<lambda>message.
     u_bind (u_add_rc RC_RSA_Encrypt_inScheme (TPMT_RSA_DECRYPT_Unmarshal True)) (\<lambda>inScheme.
     u_bind (u_add_rc RC_RSA_Encrypt_label TPM2B_DATA_Unmarshal) (\<lambda>label.
     u_return \<lparr>RSA_Encrypt_In_keyHandle = handles 0, RSA_Encrypt_In_message = message,
       RSA_Encrypt_In_inScheme = inScheme, RSA_Encrypt_In_label = label\<rparr>)))"

definition RSA_Decrypt_In_Unmarshal :: "(nat \<Rightarrow> TPM_HANDLE) \<Rightarrow> RSA_Decrypt_In unmarshal" where
  "RSA_Decrypt_In_Unmarshal handles =
     u_bind (u_add_rc RC_RSA_Decrypt_cipherText TPM2B_PUBLIC_KEY_RSA_Unmarshal) (\<lambda>cipherText.
     u_bind (u_add_rc RC_RSA_Decrypt_inScheme (TPMT_RSA_DECRYPT_Unmarshal True)) (\<lambda>inScheme.
     u_bind (u_add_rc RC_RSA_Decrypt_label TPM2B_DATA_Unmarshal) (\<lambda>label.
     u_return \<lparr>RSA_Decrypt_In_keyHandle = handles 0, RSA_Decrypt_In_cipherText = cipherText,
       RSA_Decrypt_In_inScheme = inScheme, RSA_Decrypt_In_label = label\<rparr>)))"

definition ECDH_KeyGen_In_Unmarshal :: "(nat \<Rightarrow> TPM_HANDLE) \<Rightarrow> ECDH_KeyGen_In unmarshal" where
  "ECDH_KeyGen_In_Unmarshal handles =
     u_return \<lparr>ECDH_KeyGen_In_keyHandle = handles 0\<rparr>"

definition ECDH_ZGen_In_Unmarshal :: "(nat \<Rightarrow> TPM_HANDLE) \<Rightarrow> ECDH_ZGen_In unmarshal" where
  "ECDH_ZGen_In_Unmarshal handles =
     u_bind (u_add_rc RC_ECDH_ZGen_inPoint TPM2B_ECC_POINT_Unmarshal) (\<lambda>inPoint.
     u_return \<lparr>ECDH_ZGen_In_keyHandle = handles 0, ECDH_ZGen_In_inPoint = inPoint\<rparr>)"

definition ECC_Parameters_In_Unmarshal :: "(nat \<Rightarrow> TPM_HANDLE) \<Rightarrow> ECC_Parameters_In unmarshal" where
  "ECC_Parameters_In_Unmarshal handles =
     u_bind (u_add_rc RC_ECC_Parameters_curveID TPMI_ECC_CURVE_Unmarshal) (\<lambda>curveID.
     u_return \<lparr>ECC_Parameters_In_curveID = curveID\<rparr>)"

definition ZGen_2Phase_In_Unmarshal :: "(nat \<Rightarrow> TPM_HANDLE) \<Rightarrow> ZGen_2Phase_In unmarshal" where
  "ZGen_2Phase_In_Unmarshal handles =
     u_bind (u_add_rc RC_ZGen_2Phase_inQsB TPM2B_ECC_POINT_Unmarshal) (\<lambda>inQsB.
     u_bind (u_add_rc RC_ZGen_2Phase_inQeB TPM2B_ECC_POINT_Unmarshal) (\<lambda>inQeB.
     u_bind (u_add_rc RC_ZGen_2Phase_inScheme (TPMI_ECC_KEY_EXCHANGE_Unmarshal False)) (\<lambda>inScheme.
     u_bind (u_add_rc RC_ZGen_2Phase_counter UINT16_Unmarshal) (\<lambda>counter.
     u_return \<lparr>ZGen_2Phase_In_keyA = handles 0, ZGen_2Phase_In_inQsB = inQsB,
       ZGen_2Phase_In_inQeB = inQeB, ZGen_2Phase_In_inScheme = inScheme,
       ZGen_2Phase_In_counter = counter\<rparr>))))"

definition EncryptDecrypt_In_Unmarshal :: "(nat \<Rightarrow> TPM_HANDLE) \<Rightarrow> EncryptDecrypt_In unmarshal" where
  "EncryptDecrypt_In_Unmarshal handles =
     u_bind (u_add_rc RC_EncryptDecrypt_decrypt TPMI_YES_NO_Unmarshal) (\<lambda>decrypt.
     u_bind (u_add_rc RC_EncryptDecrypt_mode (TPMI_ALG_SYM_MODE_Unmarshal True)) (\<lambda>mode.
     u_bind (u_add_rc RC_EncryptDecrypt_ivIn TPM2B_IV_Unmarshal) (\<lambda>ivIn.
     u_bind (u_add_rc RC_EncryptDecrypt_inData TPM2B_MAX_BUFFER_Unmarshal) (\<lambda>inData.
     u_return \<lparr>EncryptDecrypt_In_keyHandle = handles 0, EncryptDecrypt_In_decrypt = decrypt,
       EncryptDecrypt_In_mode = mode, EncryptDecrypt_In_ivIn = ivIn,
       EncryptDecrypt_In_inData = inData\<rparr>))))"

definition Hash_In_Unmarshal :: "(nat \<Rightarrow> TPM_HANDLE) \<Rightarrow> Hash_In unmarshal" where
  "Hash_In_Unmarshal handles =
     u_bind (u_add_rc RC_Hash_data TPM2B_MAX_BUFFER_Unmarshal) (\<lambda>data.
     u_bind (u_add_rc RC_Hash_hashAlg (TPMI_ALG_HASH_Unmarshal False)) (\<lambda>hashAlg.
     u_bind (u_add_rc RC_Hash_hierarchy (TPMI_RH_HIERARCHY_Unmarshal True)) (\<lambda>hierarchy.
     u_return \<lparr>Hash_In_data = data, Hash_In_hashAlg = hashAlg,
       Hash_In_hierarchy = hierarchy\<rparr>)))"

definition HMAC_In_Unmarshal :: "(nat \<Rightarrow> TPM_HANDLE) \<Rightarrow> HMAC_In unmarshal" where
  "HMAC_In_Unmarshal handles =
     u_bind (u_add_rc RC_HMAC_buffer TPM2B_MAX_BUFFER_Unmarshal) (\<lambda>buffer.
     u_bind (u_add_rc RC_HMAC_hashAlg (TPMI_ALG_HASH_Unmarshal True)) (\<lambda>hashAlg.
     u_return \<lparr>HMAC_In_handle = handles 0, HMAC_In_buffer = buffer,
       HMAC_In_hashAlg = hashAlg\<rparr>))"

definition GetRandom_In_Unmarshal :: "(nat \<Rightarrow> TPM_HANDLE) \<Rightarrow> GetRandom_In unmarshal" where
  "GetRandom_In_Unmarshal handles =
     u_bind (u_add_rc RC_GetRandom_bytesRequested UINT16_Unmarshal) (\<lambda>bytesRequested.
     u_return \<lparr>GetRandom_In_bytesRequested = bytesRequested\<rparr>)"

definition StirRandom_In_Unmarshal :: "(nat \<Rightarrow> TPM_HANDLE) \<Rightarrow> StirRandom_In unmarshal" where
  "StirRandom_In_Unmarshal handles =
     u_bind (u_add_rc RC_StirRandom_inData TPM2B_SENSITIVE_DATA_Unmarshal) (\<lambda>inData.
     u_return \<lparr>StirRandom_In_inData = inData\<rparr>)"

definition HMAC_Start_In_Unmarshal :: "(nat \<Rightarrow> TPM_HANDLE) \<Rightarrow> HMAC_Start_In unmarshal" where
  "HMAC_Start_In_Unmarshal handles =
     u_bind (u_add_rc RC_HMAC_Start_auth TPM2B_AUTH_Unmarshal) (\<lambda>auth.
     u_bind (u_add_rc RC_HMAC_Start_hashAlg (TPMI_ALG_HASH_Unmarshal True)) (\<lambda>hashAlg.
     u_return \<lparr>HMAC_Start_In_handle = handles 0, HMAC_Start_In_auth = auth,
       HMAC_Start_In_hashAlg = hashAlg\<rparr>))"

definition HashSequenceStart_In_Unmarshal :: "(nat \<Rightarrow> TPM_HANDLE) \<Rightarrow> HashSequenceStart_In unmarshal" where
  "HashSequenceStart_In_Unmarshal handles =
     u_bind (u_add_rc RC_HashSequenceStart_auth TPM2B_AUTH_Unmarshal) (\<lambda>auth.
     u_bind (u_add_rc RC_HashSequenceStart_hashAlg (TPMI_ALG_HASH_Unmarshal True)) (\<lambda>hashAlg.
     u_return \<lparr>HashSequenceStart_In_auth = auth, HashSequenceStart_In_hashAlg = hashAlg\<rparr>))"

definition SequenceUpdate_In_Unmarshal :: "(nat \<Rightarrow> TPM_HANDLE) \<Rightarrow> SequenceUpdate_In unmarshal" where
  "SequenceUpdate_In_Unmarshal handles =
     u_bind (u_add_rc RC_SequenceUpdate_buffer TPM2B_MAX_BUFFER_Unmarshal) (\<lambda>buffer.
     u_return \<lparr>SequenceUpdate_In_sequenceHandle = handles 0,
       SequenceUpdate_In_buffer = buffer\<rparr>)"

definition SequenceComplete_In_Unmarshal :: "(nat \<Rightarrow> TPM_HANDLE) \<Rightarrow> SequenceComplete_In unmarshal" where
  "SequenceComplete_In_Unmarshal handles =
     u_bind (u_add_rc RC_SequenceComplete_buffer TPM2B_MAX_BUFFER_Unmarshal) (\<lambda>buffer.
     u_bind (u_add_rc RC_SequenceComplete_hierarchy (TPMI_RH_HIERARCHY_Unmarshal True)) (\<lambda>hierarchy.
     u_return \<lparr>SequenceComplete_In_sequenceHandle = handles 0, SequenceComplete_In_buffer = buffer,
       SequenceComplete_In_hierarchy = hierarchy\<rparr>))"

definition EventSequenceComplete_In_Unmarshal :: "(nat \<Rightarrow> TPM_HANDLE) \<Rightarrow> EventSequenceComplete_In unmarshal" where
  "EventSequenceComplete_In_Unmarshal handles =
     u_bind (u_add_rc RC_EventSequenceComplete_buffer TPM2B_MAX_BUFFER_Unmarshal) (\<lambda>buffer.
     u_return \<lparr>EventSequenceComplete_In_pcrHandle = handles 0,
       EventSequenceComplete_In_sequenceHandle = handles 1,
       EventSequenceComplete_In_buffer = buffer\<rparr>)"

section \<open>Unmarshalling responses\<close>

definition TSS_RSA_Encrypt_Out_Unmarshal :: "TPM_ST \<Rightarrow> RSA_Encrypt_Out unmarshal" where
  "TSS_RSA_Encrypt_Out_Unmarshal tag =
     u_bind (u_when (tag = TPM_ST_SESSIONS) UINT32_Unmarshal) (\<lambda>_.
     u_bind TPM2B_PUBLIC_KEY_RSA_Unmarshal (\<lambda>outData.
     u_return \<lparr>RSA_Encrypt_Out_outData = outData\<rparr>))"

definition TSS_RSA_Decrypt_Out_Unmarshal :: "TPM_ST \<Rightarrow> RSA_Decrypt_Out unmarshal" where
  "TSS_RSA_Decrypt_Out_Unmarshal tag =
     u_bind (u_when (tag = TPM_ST_SESSIONS) UINT32_Unmarshal) (\<lambda>_.
     u_bind TPM2B_PUBLIC_KEY_RSA_Unmarshal (\<lambda>message.
     u_return \<lparr>RSA_Decrypt_Out_message = message\<rparr>))"

definition TSS_ECDH_KeyGen_Out_Unmarshal :: "TPM_ST \<Rightarrow> ECDH_KeyGen_Out unmarshal" where
  "TSS_ECDH_KeyGen_Out_Unmarshal tag =
     u_bind (u_when (tag = TPM_ST_SESSIONS) UINT32_Unmarshal) (\<lambda>_.
     u_bind TPM2B_ECC_POINT_Unmarshal (\<lambda>zPoint.
     u_bind TPM2B_ECC_POINT_Unmarshal (\<lambda>pubPoint.
     u_return \<lparr>ECDH_KeyGen_Out_zPoint = zPoint, ECDH_KeyGen_Out_pubPoint = pubPoint\<rparr>)))"

definition TSS_ECDH_ZGen_Out_Unmarshal :: "TPM_ST \<Rightarrow> ECDH_ZGen_Out unmarshal" where
  "TSS_ECDH_ZGen_Out_Unmarshal tag =
     u_bind (u_when (tag = TPM_ST_SESSIONS) UINT32_Unmarshal) (\<lambda>_.
     u_bind TPM2B_ECC_POINT_Unmarshal (\<lambda>outPoint.
     u_return \<lparr>ECDH_ZGen_Out_outPoint = outPoint\<rparr>))"

definition TSS_ECC_Parameters_Out_Unmarshal :: "TPM_ST \<Rightarrow> ECC_Parameters_Out unmarshal" where
  "TSS_ECC_Parameters_Out_Unmarshal tag =
     u_bind (u_when (tag = TPM_ST_SESSIONS) UINT32_Unmarshal) (\<lambda>_.
     u_bind TPMS_ALGORITHM_DETAIL_ECC_Unmarshal (\<lambda>parameters.
     u_return \<lparr>ECC_Parameters_Out_parameters = parameters\<rparr>))"

definition TSS_ZGen_2Phase_Out_Unmarshal :: "TPM_ST \<Rightarrow> ZGen_2Phase_Out unmarshal" where
  "TSS_ZGen_2Phase_Out_Unmarshal tag =
     u_bind (u_when (tag = TPM_ST_SESSIONS) UINT32_Unmarshal) (\<lambda>_.
     u_bind TPM2B_ECC_POINT_Unmarshal (\<lambda>outZ1.
     u_bind TPM2B_ECC_POINT_Unmarshal (\<lambda>outZ2.
     u_return \<lparr>ZGen_2Phase_Out_outZ1 = outZ1, ZGen_2Phase_Out_outZ2 = outZ2\<rparr>)))"

definition TSS_EncryptDecrypt_Out_Unmarshal :: "TPM_ST \<Rightarrow> EncryptDecrypt_Out unmarshal" where
  "TSS_EncryptDecrypt_Out_Unmarshal tag =
     u_bind (u_when (tag = TPM_ST_SESSIONS) UINT32_Unmarshal) (\<lambda>_.
     u_bind TPM2B_MAX_BUFFER_Unmarshal (\<lambda>outData.
     u_bind TPM2B_IV_Unmarshal (\<lambda>ivOut.
     u_return \<lparr>EncryptDecrypt_Out_outData = outData, EncryptDecrypt_Out_ivOut = ivOut\<rparr>)))"

definition TSS_Hash_Out_Unmarshal :: "TPM_ST \<Rightarrow> Hash_Out unmarshal" where
  "TSS_Hash_Out_Unmarshal tag =
     u_bind (u_when (tag = TPM_ST_SESSIONS) UINT32_Unmarshal) (\<lambda>_.
     u_bind TPM2B_DIGEST_Unmarshal (\<lambda>outHash.
     u_bind TPMT_TK_HASHCHECK_Unmarshal (\<lambda>validation.
     u_return \<lparr>Hash_Out_outHash = outHash, Hash_Out_validation = validation\<rparr>)))"

definition TSS_HMAC_Out_Unmarshal :: "TPM_ST \<Rightarrow> HMAC_Out unmarshal" where
  "TSS_HMAC_Out_Unmarshal tag =
     u_bind (u_when (tag = TPM_ST_SESSIONS) UINT32_Unmarshal) (\<lambda>_.
     u_bind TPM2B_DIGEST_Unmarshal (\<lambda>outHMAC.
     u_return \<lparr>HMAC_Out_outHMAC = outHMAC\<rparr>))"

definition TSS_GetRandom_Out_Unmarshal :: "TPM_ST \<Rightarrow> GetRandom_Out unmarshal" where
  "TSS_GetRandom_Out_Unmarshal tag =
     u_bind (u_when (tag = TPM_ST_SESSIONS) UINT32_Unmarshal) (\<lambda>_.
     u_bind TPM2B_DIGEST_Unmarshal (\<lambda>randomBytes.
     u_return \<lparr>GetRandom_Out_randomBytes = randomBytes\<rparr>))"

definition TSS_HMAC_Start_Out_Unmarshal :: "TPM_ST \<Rightarrow> HMAC_Start_Out unmarshal" where
  "TSS_HMAC_Start_Out_Unmarshal tag =
     u_bind (TPMI_DH_OBJECT_Unmarshal False) (\<lambda>sequenceHandle.
     u_bind (u_when (tag = TPM_ST_SESSIONS) UINT32_Unmarshal) (\<lambda>_.
     u_return \<lparr>HMAC_Start_Out_sequenceHandle = sequenceHandle\<rparr>))"

definition TSS_HashSequenceStart_Out_Unmarshal :: "TPM_ST \<Rightarrow> HashSequenceStart_Out unmarshal" where
  "TSS_HashSequenceStart_Out_Unmarshal tag =
     u_bind (TPMI_DH_OBJECT_Unmarshal False) (\<lambda>sequenceHandle.
     u_bind (u_when (tag = TPM_ST_SESSIONS) UINT32_Unmarshal) (\<lambda>_.
     u_return \<lparr>HashSequenceStart_Out_sequenceHandle = sequenceHandle\<rparr>))"

definition TSS_SequenceComplete_Out_Unmarshal :: "TPM_ST \<Rightarrow> SequenceComplete_Out unmarshal" where
  "TSS_SequenceComplete_Out_Unmarshal tag =
     u_bind (u_when (tag = TPM_ST_SESSIONS) UINT32_Unmarshal) (\<lambda>_.
     u_bind TPM2B_DIGEST_Unmarshal (\<lambda>result.
     u_bind TPMT_TK_HASHCHECK_Unmarshal (\<lambda>validation.
     u_return \<lparr>SequenceComplete_Out_result = result,
       SequenceComplete_Out_validation = validation\<rparr>)))"

definition TSS_EventSequenceComplete_Out_Unmarshal :: "TPM_ST \<Rightarrow> EventSequenceComplete_Out unmarshal" where
  "TSS_EventSequenceComplete_Out_Unmarshal tag =
     u_bind (u_when (tag = TPM_ST_SESSIONS) UINT32_Unmarshal) (\<lambda>_.
     u_bind TPML_DIGEST_VALUES_Unmarshal (\<lambda>results.
     u_return \<lparr>EventSequenceComplete_Out_results = results\<rparr>))"

section \<open>Commands are read as they are written\<close>

lemma RSA_Encrypt_In_codec: "reads_e param_error k (be32 (handles 0)) (RSA_Encrypt_In_Unmarshal handles) TSS_RSA_Encrypt_In_Marshal"
  unfolding RSA_Encrypt_In_Unmarshal_def TSS_RSA_Encrypt_In_Marshal_def
  by (intro reads_bind [OF reads_add_rc [OF TPM2B_PUBLIC_KEY_RSA_codec]]
       reads_bind [OF reads_add_rc [OF TPMT_RSA_DECRYPT_codec]]
       reads_bind [OF reads_add_rc [OF TPM2B_DATA_codec]] reads_return)
    (simp_all add: emits_then handle_emits)

lemma RSA_Decrypt_In_codec: "reads_e param_error k (be32 (handles 0)) (RSA_Decrypt_In_Unmarshal handles) TSS_RSA_Decrypt_In_Marshal"
  unfolding RSA_Decrypt_In_Unmarshal_def TSS_RSA_Decrypt_In_Marshal_def
  by (intro reads_bind [OF reads_add_rc [OF TPM2B_PUBLIC_KEY_RSA_codec]]
       reads_bind [OF reads_add_rc [OF TPMT_RSA_DECRYPT_codec]]
       reads_bind [OF reads_add_rc [OF TPM2B_DATA_codec]] reads_return)
    (simp_all add: emits_then handle_emits)

lemma ECDH_KeyGen_In_codec: "reads_e param_error k (be32 (handles 0)) (ECDH_KeyGen_In_Unmarshal handles) TSS_ECDH_KeyGen_In_Marshal"
  unfolding ECDH_KeyGen_In_Unmarshal_def TSS_ECDH_KeyGen_In_Marshal_def
  by (intro reads_return)
    (simp_all add: emits_then handle_emits)

lemma ECDH_ZGen_In_codec: "2 \<le> k \<Longrightarrow> reads_e param_error k (be32 (handles 0)) (ECDH_ZGen_In_Unmarshal handles) TSS_ECDH_ZGen_In_Marshal"
  unfolding ECDH_ZGen_In_Unmarshal_def TSS_ECDH_ZGen_In_Marshal_def
  by (intro reads_bind [OF reads_add_rc [OF TPM2B_ECC_POINT_codec]] reads_return)
    (simp_all add: emits_then handle_emits)

lemma ECC_Parameters_In_codec: "reads_e param_error k [] (ECC_Parameters_In_Unmarshal handles) TSS_ECC_Parameters_In_Marshal"
  unfolding ECC_Parameters_In_Unmarshal_def TSS_ECC_Parameters_In_Marshal_def
  by (intro reads_bind [OF reads_add_rc [OF TPMI_ECC_CURVE_codec]] reads_return)
    (simp_all add: emits_then handle_emits)

lemma ZGen_2Phase_In_codec: "2 \<le> k \<Longrightarrow> reads_e param_error k (be32 (handles 0)) (ZGen_2Phase_In_Unmarshal handles) TSS_ZGen_2Phase_In_Marshal"
  unfolding ZGen_2Phase_In_Unmarshal_def TSS_ZGen_2Phase_In_Marshal_def
  by (intro reads_bind [OF reads_add_rc [OF TPM2B_ECC_POINT_codec]]
       reads_bind [OF reads_add_rc [OF TPMI_ECC_KEY_EXCHANGE_codec]]
       reads_bind [OF reads_add_rc [OF UINT16_codec]] reads_return)
    (simp_all add: emits_then handle_emits)

lemma EncryptDecrypt_In_codec: "reads_e param_error k (be32 (handles 0)) (EncryptDecrypt_In_Unmarshal handles) TSS_EncryptDecrypt_In_Marshal"
  unfolding EncryptDecrypt_In_Unmarshal_def TSS_EncryptDecrypt_In_Marshal_def
  by (intro reads_bind [OF reads_add_rc [OF TPMI_YES_NO_codec]]
       reads_bind [OF reads_add_rc [OF TPMI_ALG_SYM_MODE_codec]]
       reads_bind [OF reads_add_rc [OF TPM2B_IV_codec]]
       reads_bind [OF reads_add_rc [OF TPM2B_MAX_BUFFER_codec]] reads_return)
    (simp_all add: emits_then handle_emits)

lemma Hash_In_codec: "reads_e param_error k [] (Hash_In_Unmarshal handles) TSS_Hash_In_Marshal"
  unfolding Hash_In_Unmarshal_def TSS_Hash_In_Marshal_def
  by (intro reads_bind [OF reads_add_rc [OF TPM2B_MAX_BUFFER_codec]]
       reads_bind [OF reads_add_rc [OF TPMI_ALG_HASH_codec]]
       reads_bind [OF reads_add_rc [OF TPMI_RH_HIERARCHY_codec]] reads_return)
    (simp_all add: emits_then handle_emits)

lemma HMAC_In_codec: "reads_e param_error k (be32 (handles 0)) (HMAC_In_Unmarshal handles) TSS_HMAC_In_Marshal"
  unfolding HMAC_In_Unmarshal_def TSS_HMAC_In_Marshal_def
  by (intro reads_bind [OF reads_add_rc [OF TPM2B_MAX_BUFFER_codec]]
       reads_bind [OF reads_add_rc [OF TPMI_ALG_HASH_codec]] reads_return)
    (simp_all add: emits_then handle_emits)

lemma GetRandom_In_codec: "reads_e param_error k [] (GetRandom_In_Unmarshal handles) TSS_GetRandom_In_Marshal"
  unfolding GetRandom_In_Unmarshal_def TSS_GetRandom_In_Marshal_def
  by (intro reads_bind [OF reads_add_rc [OF UINT16_codec]] reads_return)
    (simp_all add: emits_then handle_emits)

lemma StirRandom_In_codec: "reads_e param_error k [] (StirRandom_In_Unmarshal handles) TSS_StirRandom_In_Marshal"
  unfolding StirRandom_In_Unmarshal_def TSS_StirRandom_In_Marshal_def
  by (intro reads_bind [OF reads_add_rc [OF TPM2B_SENSITIVE_DATA_codec]] reads_return)
    (simp_all add: emits_then handle_emits)

lemma HMAC_Start_In_codec: "reads_e param_error k (be32 (handles 0)) (HMAC_Start_In_Unmarshal handles) TSS_HMAC_Start_In_Marshal"
  unfolding HMAC_Start_In_Unmarshal_def TSS_HMAC_Start_In_Marshal_def
  by (intro reads_bind [OF reads_add_rc [OF TPM2B_AUTH_codec]]
       reads_bind [OF reads_add_rc [OF TPMI_ALG_HASH_codec]] reads_return)
    (simp_all add: emits_then handle_emits)

lemma HashSequenceStart_In_codec: "reads_e param_error k [] (HashSequenceStart_In_Unmarshal handles) TSS_HashSequenceStart_In_Marshal"
  unfolding HashSequenceStart_In_Unmarshal_def TSS_HashSequenceStart_In_Marshal_def
  by (intro reads_bind [OF reads_add_rc [OF TPM2B_AUTH_codec]]
       reads_bind [OF reads_add_rc [OF TPMI_ALG_HASH_codec]] reads_return)
    (simp_all add: emits_then handle_emits)

lemma SequenceUpdate_In_codec: "reads_e param_error k (be32 (handles 0)) (SequenceUpdate_In_Unmarshal handles) TSS_SequenceUpdate_In_Marshal"
  unfolding SequenceUpdate_In_Unmarshal_def TSS_SequenceUpdate_In_Marshal_def
  by (intro reads_bind [OF reads_add_rc [OF TPM2B_MAX_BUFFER_codec]] reads_return)
    (simp_all add: emits_then handle_emits)

lemma SequenceComplete_In_codec: "reads_e param_error k (be32 (handles 0)) (SequenceComplete_In_Unmarshal handles) TSS_SequenceComplete_In_Marshal"
  unfolding SequenceComplete_In_Unmarshal_def TSS_SequenceComplete_In_Marshal_def
  by (intro reads_bind [OF reads_add_rc [OF TPM2B_MAX_BUFFER_codec]]
       reads_bind [OF reads_add_rc [OF TPMI_RH_HIERARCHY_codec]] reads_return)
    (simp_all add: emits_then handle_emits)

lemma EventSequenceComplete_In_codec: "reads_e param_error k (be32 (handles 0) @ be32 (handles 1)) (EventSequenceComplete_In_Unmarshal handles) TSS_EventSequenceComplete_In_Marshal"
  unfolding EventSequenceComplete_In_Unmarshal_def TSS_EventSequenceComplete_In_Marshal_def
  by (intro reads_bind [OF reads_add_rc [OF TPM2B_MAX_BUFFER_codec]] reads_return)
    (simp_all add: emits_then handle_emits)

section \<open>Responses stay within their target\<close>

definition RSA_Encrypt_Out_bounded :: "RSA_Encrypt_Out \<Rightarrow> bool" where
  "RSA_Encrypt_Out_bounded v \<longleftrightarrow> TPM2B_PUBLIC_KEY_RSA_bounded (RSA_Encrypt_Out_outData v)"

definition RSA_Decrypt_Out_bounded :: "RSA_Decrypt_Out \<Rightarrow> bool" where
  "RSA_Decrypt_Out_bounded v \<longleftrightarrow> TPM2B_PUBLIC_KEY_RSA_bounded (RSA_Decrypt_Out_message v)"

definition ECDH_KeyGen_Out_bounded :: "ECDH_KeyGen_Out \<Rightarrow> bool" where
  "ECDH_KeyGen_Out_bounded v \<longleftrightarrow> TPM2B_ECC_POINT_bounded (ECDH_KeyGen_Out_zPoint v)
    \<and> TPM2B_ECC_POINT_bounded (ECDH_KeyGen_Out_pubPoint v)"

definition ECDH_ZGen_Out_bounded :: "ECDH_ZGen_Out \<Rightarrow> bool" where
  "ECDH_ZGen_Out_bounded v \<longleftrightarrow> TPM2B_ECC_POINT_bounded (ECDH_ZGen_Out_outPoint v)"

definition ECC_Parameters_Out_bounded :: "ECC_Parameters_Out \<Rightarrow> bool" where
  "ECC_Parameters_Out_bounded v \<longleftrightarrow> TPMS_ALGORITHM_DETAIL_ECC_bounded (ECC_Parameters_Out_parameters v)"

definition ZGen_2Phase_Out_bounded :: "ZGen_2Phase_Out \<Rightarrow> bool" where
  "ZGen_2Phase_Out_bounded v \<longleftrightarrow> TPM2B_ECC_POINT_bounded (ZGen_2Phase_Out_outZ1 v)
    \<and> TPM2B_ECC_POINT_bounded (ZGen_2Phase_Out_outZ2 v)"

definition EncryptDecrypt_Out_bounded :: "EncryptDecrypt_Out \<Rightarrow> bool" where
  "EncryptDecrypt_Out_bounded v \<longleftrightarrow> TPM2B_MAX_BUFFER_bounded (EncryptDecrypt_Out_outData v)
    \<and> TPM2B_IV_bounded (EncryptDecrypt_Out_ivOut v)"

definition Hash_Out_bounded :: "Hash_Out \<Rightarrow> bool" where
  "Hash_Out_bounded v \<longleftrightarrow> TPM2B_DIGEST_bounded (Hash_Out_outHash v)
    \<and> TPMT_TK_HASHCHECK_bounded (Hash_Out_validation v)"

definition HMAC_Out_bounded :: "HMAC_Out \<Rightarrow> bool" where
  "HMAC_Out_bounded v \<longleftrightarrow> TPM2B_DIGEST_bounded (HMAC_Out_outHMAC v)"

definition GetRandom_Out_bounded :: "GetRandom_Out \<Rightarrow> bool" where
  "GetRandom_Out_bounded v \<longleftrightarrow> TPM2B_DIGEST_bounded (GetRandom_Out_randomBytes v)"

definition SequenceComplete_Out_bounded :: "SequenceComplete_Out \<Rightarrow> bool" where
  "SequenceComplete_Out_bounded v \<longleftrightarrow> TPM2B_DIGEST_bounded (SequenceComplete_Out_result v)
    \<and> TPMT_TK_HASHCHECK_bounded (SequenceComplete_Out_validation v)"

definition EventSequenceComplete_Out_bounded :: "EventSequenceComplete_Out \<Rightarrow> bool" where
  "EventSequenceComplete_Out_bounded v \<longleftrightarrow> TPML_DIGEST_VALUES_bounded (EventSequenceComplete_Out_results v)"

lemma RSA_Encrypt_Out_delivers: "delivers RSA_Encrypt_Out_bounded (TSS_RSA_Encrypt_Out_Unmarshal tag)"
  unfolding TSS_RSA_Encrypt_Out_Unmarshal_def
  by (intro delivers_bind [OF delivers_when [OF reads_delivers [OF UINT32_codec]]]
       delivers_bind [OF TPM2B_PUBLIC_KEY_RSA_delivers] delivers_return)
    (simp_all add: RSA_Encrypt_Out_bounded_def)

lemma RSA_Decrypt_Out_delivers: "delivers RSA_Decrypt_Out_bounded (TSS_RSA_Decrypt_Out_Unmarshal tag)"
  unfolding TSS_RSA_Decrypt_Out_Unmarshal_def
  by (intro delivers_bind [OF delivers_when [OF reads_delivers [OF UINT32_codec]]]
       delivers_bind [OF TPM2B_PUBLIC_KEY_RSA_delivers] delivers_return)
    (simp_all add: RSA_Decrypt_Out_bounded_def)

lemma ECDH_KeyGen_Out_delivers: "delivers ECDH_KeyGen_Out_bounded (TSS_ECDH_KeyGen_Out_Unmarshal tag)"
  unfolding TSS_ECDH_KeyGen_Out_Unmarshal_def
  by (intro delivers_bind [OF delivers_when [OF reads_delivers [OF UINT32_codec]]]
       delivers_bind [OF TPM2B_ECC_POINT_delivers] delivers_return)
    (simp_all add: ECDH_KeyGen_Out_bounded_def)

lemma ECDH_ZGen_Out_delivers: "delivers ECDH_ZGen_Out_bounded (TSS_ECDH_ZGen_Out_Unmarshal tag)"
  unfolding TSS_ECDH_ZGen_Out_Unmarshal_def
  by (intro delivers_bind [OF delivers_when [OF reads_delivers [OF UINT32_codec]]]
       delivers_bind [OF TPM2B_ECC_POINT_delivers] delivers_return)
    (simp_all add: ECDH_ZGen_Out_bounded_def)

lemma ECC_Parameters_Out_delivers: "delivers ECC_Parameters_Out_bounded (TSS_ECC_Parameters_Out_Unmarshal tag)"
  unfolding TSS_ECC_Parameters_Out_Unmarshal_def
  by (intro delivers_bind [OF delivers_when [OF reads_delivers [OF UINT32_codec]]]
       delivers_bind [OF TPMS_ALGORITHM_DETAIL_ECC_delivers] delivers_return)
    (simp_all add: ECC_Parameters_Out_bounded_def)

lemma ZGen_2Phase_Out_delivers: "delivers ZGen_2Phase_Out_bounded (TSS_ZGen_2Phase_Out_Unmarshal tag)"
  unfolding TSS_ZGen_2Phase_Out_Unmarshal_def
  by (intro delivers_bind [OF delivers_when [OF reads_delivers [OF UINT32_codec]]]
       delivers_bind [OF TPM2B_ECC_POINT_delivers] delivers_return)
    (simp_all add: ZGen_2Phase_Out_bounded_def)

lemma EncryptDecrypt_Out_delivers: "delivers EncryptDecrypt_Out_bounded (TSS_EncryptDecrypt_Out_Unmarshal tag)"
  unfolding TSS_EncryptDecrypt_Out_Unmarshal_def
  by (intro delivers_bind [OF delivers_when [OF reads_delivers [OF UINT32_codec]]]
       delivers_bind [OF TPM2B_MAX_BUFFER_delivers] delivers_bind [OF TPM2B_IV_delivers]
       delivers_return)
    (simp_all add: EncryptDecrypt_Out_bounded_def)

lemma Hash_Out_delivers: "delivers Hash_Out_bounded (TSS_Hash_Out_Unmarshal tag)"
  unfolding TSS_Hash_Out_Unmarshal_def
  by (intro delivers_bind [OF delivers_when [OF reads_delivers [OF UINT32_codec]]]
       delivers_bind [OF TPM2B_DIGEST_delivers] delivers_bind [OF TPMT_TK_HASHCHECK_delivers]
       delivers_return)
    (simp_all add: Hash_Out_bounded_def)

lemma HMAC_Out_delivers: "delivers HMAC_Out_bounded (TSS_HMAC_Out_Unmarshal tag)"
  unfolding TSS_HMAC_Out_Unmarshal_def
  by (intro delivers_bind [OF delivers_when [OF reads_delivers [OF UINT32_codec]]]
       delivers_bind [OF TPM2B_DIGEST_delivers] delivers_return)
    (simp_all add: HMAC_Out_bounded_def)

lemma GetRandom_Out_delivers: "delivers GetRandom_Out_bounded (TSS_GetRandom_Out_Unmarshal tag)"
  unfolding TSS_GetRandom_Out_Unmarshal_def
  by (intro delivers_bind [OF delivers_when [OF reads_delivers [OF UINT32_codec]]]
       delivers_bind [OF TPM2B_DIGEST_delivers] delivers_return)
    (simp_all add: GetRandom_Out_bounded_def)

lemma HMAC_Start_Out_delivers: "delivers (\<lambda>_. True) (TSS_HMAC_Start_Out_Unmarshal tag)"
  unfolding TSS_HMAC_Start_Out_Unmarshal_def
  by (intro delivers_bind [OF reads_delivers [OF TPMI_DH_OBJECT_codec]]
       delivers_bind [OF delivers_when [OF reads_delivers [OF UINT32_codec]]] delivers_return)
    (simp_all)

lemma HashSequenceStart_Out_delivers: "delivers (\<lambda>_. True) (TSS_HashSequenceStart_Out_Unmarshal tag)"
  unfolding TSS_HashSequenceStart_Out_Unmarshal_def
  by (intro delivers_bind [OF reads_delivers [OF TPMI_DH_OBJECT_codec]]
       delivers_bind [OF delivers_when [OF reads_delivers [OF UINT32_codec]]] delivers_return)
    (simp_all)

lemma SequenceComplete_Out_delivers: "delivers SequenceComplete_Out_bounded (TSS_SequenceComplete_Out_Unmarshal tag)"
  unfolding TSS_SequenceComplete_Out_Unmarshal_def
  by (intro delivers_bind [OF delivers_when [OF reads_delivers [OF UINT32_codec]]]
       delivers_bind [OF TPM2B_DIGEST_delivers] delivers_bind [OF TPMT_TK_HASHCHECK_delivers]
       delivers_return)
    (simp_all add: SequenceComplete_Out_bounded_def)

lemma EventSequenceComplete_Out_delivers: "delivers EventSequenceComplete_Out_bounded (TSS_EventSequenceComplete_Out_Unmarshal tag)"
  unfolding TSS_EventSequenceComplete_Out_Unmarshal_def
  by (intro delivers_bind [OF delivers_when [OF reads_delivers [OF UINT32_codec]]]
       delivers_bind [OF TPML_DIGEST_VALUES_delivers] delivers_return)
    (simp_all add: EventSequenceComplete_Out_bounded_def)

end
