(* ===== verification/Tss_Cmd_Attest.thy ===== *)
theory Tss_Cmd_Attest
  imports Tss_Bounds
begin

text \<open>
  The commands for attestation, signing, audit and PCRs: the parameter structures (\<^verbatim>\<open>tss2/*_fp.h\<close>), \<open>TSS_*_In_Marshal\<close> and
  \<open>TSS_*_Out_Unmarshal\<close> of \<^verbatim>\<open>libtss2/tssmarshal.c\<close>, and \<open>*_In_Unmarshal\<close> of \<^verbatim>\<open>libtss2/Commands.c\<close>, to which the
  handles of the command are passed in the array \<open>handles\<close>. A command is written in the form in which it is read; a
  response is read within its buffer and within its target.
\<close>

section \<open>Parameters\<close>

text \<open>What a command adds to the error of a parameter, and the structures.\<close>

abbreviation RC_Certify_qualifyingData :: "32 word" where "RC_Certify_qualifyingData \<equiv> 0x140"
abbreviation RC_Certify_inScheme :: "32 word" where "RC_Certify_inScheme \<equiv> 0x240"
abbreviation RC_CertifyCreation_creationHash :: "32 word" where "RC_CertifyCreation_creationHash \<equiv> 0x240"
abbreviation RC_CertifyCreation_inScheme :: "32 word" where "RC_CertifyCreation_inScheme \<equiv> 0x340"
abbreviation RC_CertifyCreation_creationTicket :: "32 word" where "RC_CertifyCreation_creationTicket \<equiv> 0x440"
abbreviation RC_Quote_qualifyingData :: "32 word" where "RC_Quote_qualifyingData \<equiv> 0x140"
abbreviation RC_Quote_inScheme :: "32 word" where "RC_Quote_inScheme \<equiv> 0x240"
abbreviation RC_Quote_PCRselect :: "32 word" where "RC_Quote_PCRselect \<equiv> 0x340"
abbreviation RC_GetSessionAuditDigest_qualifyingData :: "32 word" where "RC_GetSessionAuditDigest_qualifyingData \<equiv> 0x140"
abbreviation RC_GetSessionAuditDigest_inScheme :: "32 word" where "RC_GetSessionAuditDigest_inScheme \<equiv> 0x240"
abbreviation RC_GetCommandAuditDigest_qualifyingData :: "32 word" where "RC_GetCommandAuditDigest_qualifyingData \<equiv> 0x140"
abbreviation RC_GetCommandAuditDigest_inScheme :: "32 word" where "RC_GetCommandAuditDigest_inScheme \<equiv> 0x240"
abbreviation RC_GetTime_qualifyingData :: "32 word" where "RC_GetTime_qualifyingData \<equiv> 0x140"
abbreviation RC_GetTime_inScheme :: "32 word" where "RC_GetTime_inScheme \<equiv> 0x240"
abbreviation RC_Commit_P1 :: "32 word" where "RC_Commit_P1 \<equiv> 0x140"
abbreviation RC_Commit_s2 :: "32 word" where "RC_Commit_s2 \<equiv> 0x240"
abbreviation RC_Commit_y2 :: "32 word" where "RC_Commit_y2 \<equiv> 0x340"
abbreviation RC_EC_Ephemeral_curveID :: "32 word" where "RC_EC_Ephemeral_curveID \<equiv> 0x140"
abbreviation RC_VerifySignature_digest :: "32 word" where "RC_VerifySignature_digest \<equiv> 0x140"
abbreviation RC_VerifySignature_signature :: "32 word" where "RC_VerifySignature_signature \<equiv> 0x240"
abbreviation RC_Sign_digest :: "32 word" where "RC_Sign_digest \<equiv> 0x140"
abbreviation RC_Sign_inScheme :: "32 word" where "RC_Sign_inScheme \<equiv> 0x240"
abbreviation RC_Sign_validation :: "32 word" where "RC_Sign_validation \<equiv> 0x340"
abbreviation RC_SetCommandCodeAuditStatus_auditAlg :: "32 word" where "RC_SetCommandCodeAuditStatus_auditAlg \<equiv> 0x140"
abbreviation RC_SetCommandCodeAuditStatus_setList :: "32 word" where "RC_SetCommandCodeAuditStatus_setList \<equiv> 0x240"
abbreviation RC_SetCommandCodeAuditStatus_clearList :: "32 word" where "RC_SetCommandCodeAuditStatus_clearList \<equiv> 0x340"
abbreviation RC_PCR_Extend_digests :: "32 word" where "RC_PCR_Extend_digests \<equiv> 0x140"
abbreviation RC_PCR_Event_eventData :: "32 word" where "RC_PCR_Event_eventData \<equiv> 0x140"
abbreviation RC_PCR_Read_pcrSelectionIn :: "32 word" where "RC_PCR_Read_pcrSelectionIn \<equiv> 0x140"
abbreviation RC_PCR_Allocate_pcrAllocation :: "32 word" where "RC_PCR_Allocate_pcrAllocation \<equiv> 0x140"
abbreviation RC_PCR_SetAuthPolicy_authPolicy :: "32 word" where "RC_PCR_SetAuthPolicy_authPolicy \<equiv> 0x140"
abbreviation RC_PCR_SetAuthPolicy_hashAlg :: "32 word" where "RC_PCR_SetAuthPolicy_hashAlg \<equiv> 0x240"
abbreviation RC_PCR_SetAuthPolicy_pcrNum :: "32 word" where "RC_PCR_SetAuthPolicy_pcrNum \<equiv> 0x340"
abbreviation RC_PCR_SetAuthValue_auth :: "32 word" where "RC_PCR_SetAuthValue_auth \<equiv> 0x140"

record Certify_In =
  Certify_In_objectHandle :: "TPMI_DH_OBJECT"
  Certify_In_signHandle :: "TPMI_DH_OBJECT"
  Certify_In_qualifyingData :: "TPM2B_DATA"
  Certify_In_inScheme :: "TPMT_SIG_SCHEME"

record Certify_Out =
  Certify_Out_certifyInfo :: "TPM2B_ATTEST"
  Certify_Out_signature :: "TPMT_SIGNATURE"

record CertifyCreation_In =
  CertifyCreation_In_signHandle :: "TPMI_DH_OBJECT"
  CertifyCreation_In_objectHandle :: "TPMI_DH_OBJECT"
  CertifyCreation_In_qualifyingData :: "TPM2B_DATA"
  CertifyCreation_In_creationHash :: "TPM2B_DIGEST"
  CertifyCreation_In_inScheme :: "TPMT_SIG_SCHEME"
  CertifyCreation_In_creationTicket :: "TPMT_TK_CREATION"

record CertifyCreation_Out =
  CertifyCreation_Out_certifyInfo :: "TPM2B_ATTEST"
  CertifyCreation_Out_signature :: "TPMT_SIGNATURE"

record Quote_In =
  Quote_In_signHandle :: "TPMI_DH_OBJECT"
  Quote_In_qualifyingData :: "TPM2B_DATA"
  Quote_In_inScheme :: "TPMT_SIG_SCHEME"
  Quote_In_PCRselect :: "TPML_PCR_SELECTION"

record Quote_Out =
  Quote_Out_quoted :: "TPM2B_ATTEST"
  Quote_Out_signature :: "TPMT_SIGNATURE"

record GetSessionAuditDigest_In =
  GetSessionAuditDigest_In_privacyAdminHandle :: "TPMI_RH_ENDORSEMENT"
  GetSessionAuditDigest_In_signHandle :: "TPMI_DH_OBJECT"
  GetSessionAuditDigest_In_sessionHandle :: "TPMI_SH_HMAC"
  GetSessionAuditDigest_In_qualifyingData :: "TPM2B_DATA"
  GetSessionAuditDigest_In_inScheme :: "TPMT_SIG_SCHEME"

record GetSessionAuditDigest_Out =
  GetSessionAuditDigest_Out_auditInfo :: "TPM2B_ATTEST"
  GetSessionAuditDigest_Out_signature :: "TPMT_SIGNATURE"

record GetCommandAuditDigest_In =
  GetCommandAuditDigest_In_privacyHandle :: "TPMI_RH_ENDORSEMENT"
  GetCommandAuditDigest_In_signHandle :: "TPMI_DH_OBJECT"
  GetCommandAuditDigest_In_qualifyingData :: "TPM2B_DATA"
  GetCommandAuditDigest_In_inScheme :: "TPMT_SIG_SCHEME"

record GetCommandAuditDigest_Out =
  GetCommandAuditDigest_Out_auditInfo :: "TPM2B_ATTEST"
  GetCommandAuditDigest_Out_signature :: "TPMT_SIGNATURE"

record GetTime_In =
  GetTime_In_privacyAdminHandle :: "TPMI_RH_ENDORSEMENT"
  GetTime_In_signHandle :: "TPMI_DH_OBJECT"
  GetTime_In_qualifyingData :: "TPM2B_DATA"
  GetTime_In_inScheme :: "TPMT_SIG_SCHEME"

record GetTime_Out =
  GetTime_Out_timeInfo :: "TPM2B_ATTEST"
  GetTime_Out_signature :: "TPMT_SIGNATURE"

record Commit_In =
  Commit_In_signHandle :: "TPMI_DH_OBJECT"
  Commit_In_P1 :: "TPM2B_ECC_POINT"
  Commit_In_s2 :: "TPM2B_SENSITIVE_DATA"
  Commit_In_y2 :: "TPM2B_ECC_PARAMETER"

record Commit_Out =
  Commit_Out_K :: "TPM2B_ECC_POINT"
  Commit_Out_L :: "TPM2B_ECC_POINT"
  Commit_Out_E :: "TPM2B_ECC_POINT"
  Commit_Out_counter :: "UINT16"

record EC_Ephemeral_In =
  EC_Ephemeral_In_curveID :: "TPMI_ECC_CURVE"

record EC_Ephemeral_Out =
  EC_Ephemeral_Out_Q :: "TPM2B_ECC_POINT"
  EC_Ephemeral_Out_counter :: "UINT16"

record VerifySignature_In =
  VerifySignature_In_keyHandle :: "TPMI_DH_OBJECT"
  VerifySignature_In_digest :: "TPM2B_DIGEST"
  VerifySignature_In_signature :: "TPMT_SIGNATURE"

record VerifySignature_Out =
  VerifySignature_Out_validation :: "TPMT_TK_VERIFIED"

record Sign_In =
  Sign_In_keyHandle :: "TPMI_DH_OBJECT"
  Sign_In_digest :: "TPM2B_DIGEST"
  Sign_In_inScheme :: "TPMT_SIG_SCHEME"
  Sign_In_validation :: "TPMT_TK_HASHCHECK"

record Sign_Out =
  Sign_Out_signature :: "TPMT_SIGNATURE"

record SetCommandCodeAuditStatus_In =
  SetCommandCodeAuditStatus_In_auth :: "TPMI_RH_PROVISION"
  SetCommandCodeAuditStatus_In_auditAlg :: "TPMI_ALG_HASH"
  SetCommandCodeAuditStatus_In_setList :: "TPML_CC"
  SetCommandCodeAuditStatus_In_clearList :: "TPML_CC"

record PCR_Extend_In =
  PCR_Extend_In_pcrHandle :: "TPMI_DH_PCR"
  PCR_Extend_In_digests :: "TPML_DIGEST_VALUES"

record PCR_Event_In =
  PCR_Event_In_pcrHandle :: "TPMI_DH_PCR"
  PCR_Event_In_eventData :: "TPM2B_EVENT"

record PCR_Event_Out =
  PCR_Event_Out_digests :: "TPML_DIGEST_VALUES"

record PCR_Read_In =
  PCR_Read_In_pcrSelectionIn :: "TPML_PCR_SELECTION"

record PCR_Read_Out =
  PCR_Read_Out_pcrUpdateCounter :: "UINT32"
  PCR_Read_Out_pcrSelectionOut :: "TPML_PCR_SELECTION"
  PCR_Read_Out_pcrValues :: "TPML_DIGEST"

record PCR_Allocate_In =
  PCR_Allocate_In_authHandle :: "TPMI_RH_PLATFORM"
  PCR_Allocate_In_pcrAllocation :: "TPML_PCR_SELECTION"

record PCR_Allocate_Out =
  PCR_Allocate_Out_allocationSuccess :: "TPMI_YES_NO"
  PCR_Allocate_Out_maxPCR :: "UINT32"
  PCR_Allocate_Out_sizeNeeded :: "UINT32"
  PCR_Allocate_Out_sizeAvailable :: "UINT32"

record PCR_SetAuthPolicy_In =
  PCR_SetAuthPolicy_In_authHandle :: "TPMI_RH_PLATFORM"
  PCR_SetAuthPolicy_In_authPolicy :: "TPM2B_DIGEST"
  PCR_SetAuthPolicy_In_hashAlg :: "TPMI_ALG_HASH"
  PCR_SetAuthPolicy_In_pcrNum :: "TPMI_DH_PCR"

record PCR_SetAuthValue_In =
  PCR_SetAuthValue_In_pcrHandle :: "TPMI_DH_PCR"
  PCR_SetAuthValue_In_auth :: "TPM2B_DIGEST"

record PCR_Reset_In =
  PCR_Reset_In_pcrHandle :: "TPMI_DH_PCR"

section \<open>Marshalling commands\<close>

definition TSS_Certify_In_Marshal :: "Certify_In \<Rightarrow> marshal" where
  "TSS_Certify_In_Marshal source =
     m_then (TSS_TPMI_DH_OBJECT_Marshal (Certify_In_objectHandle source)) (
     m_then (TSS_TPMI_DH_OBJECT_Marshal (Certify_In_signHandle source)) (
     m_then (TSS_TPM2B_DATA_Marshal (Certify_In_qualifyingData source)) (
     TSS_TPMT_SIG_SCHEME_Marshal (Certify_In_inScheme source))))"

definition TSS_CertifyCreation_In_Marshal :: "CertifyCreation_In \<Rightarrow> marshal" where
  "TSS_CertifyCreation_In_Marshal source =
     m_then (TSS_TPMI_DH_OBJECT_Marshal (CertifyCreation_In_signHandle source)) (
     m_then (TSS_TPMI_DH_OBJECT_Marshal (CertifyCreation_In_objectHandle source)) (
     m_then (TSS_TPM2B_DATA_Marshal (CertifyCreation_In_qualifyingData source)) (
     m_then (TSS_TPM2B_DIGEST_Marshal (CertifyCreation_In_creationHash source)) (
     m_then (TSS_TPMT_SIG_SCHEME_Marshal (CertifyCreation_In_inScheme source)) (
     TSS_TPMT_TK_CREATION_Marshal (CertifyCreation_In_creationTicket source))))))"

definition TSS_Quote_In_Marshal :: "Quote_In \<Rightarrow> marshal" where
  "TSS_Quote_In_Marshal source =
     m_then (TSS_TPMI_DH_OBJECT_Marshal (Quote_In_signHandle source)) (
     m_then (TSS_TPM2B_DATA_Marshal (Quote_In_qualifyingData source)) (
     m_then (TSS_TPMT_SIG_SCHEME_Marshal (Quote_In_inScheme source)) (
     TSS_TPML_PCR_SELECTION_Marshal (Quote_In_PCRselect source))))"

definition TSS_GetSessionAuditDigest_In_Marshal :: "GetSessionAuditDigest_In \<Rightarrow> marshal" where
  "TSS_GetSessionAuditDigest_In_Marshal source =
     m_then (TSS_TPMI_RH_ENDORSEMENT_Marshal (GetSessionAuditDigest_In_privacyAdminHandle source)) (
     m_then (TSS_TPMI_DH_OBJECT_Marshal (GetSessionAuditDigest_In_signHandle source)) (
     m_then (TSS_TPMI_SH_HMAC_Marshal (GetSessionAuditDigest_In_sessionHandle source)) (
     m_then (TSS_TPM2B_DATA_Marshal (GetSessionAuditDigest_In_qualifyingData source)) (
     TSS_TPMT_SIG_SCHEME_Marshal (GetSessionAuditDigest_In_inScheme source)))))"

definition TSS_GetCommandAuditDigest_In_Marshal :: "GetCommandAuditDigest_In \<Rightarrow> marshal" where
  "TSS_GetCommandAuditDigest_In_Marshal source =
     m_then (TSS_TPMI_RH_ENDORSEMENT_Marshal (GetCommandAuditDigest_In_privacyHandle source)) (
     m_then (TSS_TPMI_DH_OBJECT_Marshal (GetCommandAuditDigest_In_signHandle source)) (
     m_then (TSS_TPM2B_DATA_Marshal (GetCommandAuditDigest_In_qualifyingData source)) (
     TSS_TPMT_SIG_SCHEME_Marshal (GetCommandAuditDigest_In_inScheme source))))"

definition TSS_GetTime_In_Marshal :: "GetTime_In \<Rightarrow> marshal" where
  "TSS_GetTime_In_Marshal source =
     m_then (TSS_TPMI_RH_ENDORSEMENT_Marshal (GetTime_In_privacyAdminHandle source)) (
     m_then (TSS_TPMI_DH_OBJECT_Marshal (GetTime_In_signHandle source)) (
     m_then (TSS_TPM2B_DATA_Marshal (GetTime_In_qualifyingData source)) (
     TSS_TPMT_SIG_SCHEME_Marshal (GetTime_In_inScheme source))))"

definition TSS_Commit_In_Marshal :: "Commit_In \<Rightarrow> marshal" where
  "TSS_Commit_In_Marshal source =
     m_then (TSS_TPMI_DH_OBJECT_Marshal (Commit_In_signHandle source)) (
     m_then (TSS_TPM2B_ECC_POINT_Marshal (Commit_In_P1 source)) (
     m_then (TSS_TPM2B_SENSITIVE_DATA_Marshal (Commit_In_s2 source)) (
     TSS_TPM2B_ECC_PARAMETER_Marshal (Commit_In_y2 source))))"

definition TSS_EC_Ephemeral_In_Marshal :: "EC_Ephemeral_In \<Rightarrow> marshal" where
  "TSS_EC_Ephemeral_In_Marshal source = TSS_TPMI_ECC_CURVE_Marshal (EC_Ephemeral_In_curveID source)"

definition TSS_VerifySignature_In_Marshal :: "VerifySignature_In \<Rightarrow> marshal" where
  "TSS_VerifySignature_In_Marshal source =
     m_then (TSS_TPMI_DH_OBJECT_Marshal (VerifySignature_In_keyHandle source)) (
     m_then (TSS_TPM2B_DIGEST_Marshal (VerifySignature_In_digest source)) (
     TSS_TPMT_SIGNATURE_Marshal (VerifySignature_In_signature source)))"

definition TSS_Sign_In_Marshal :: "Sign_In \<Rightarrow> marshal" where
  "TSS_Sign_In_Marshal source =
     m_then (TSS_TPMI_DH_OBJECT_Marshal (Sign_In_keyHandle source)) (
     m_then (TSS_TPM2B_DIGEST_Marshal (Sign_In_digest source)) (
     m_then (TSS_TPMT_SIG_SCHEME_Marshal (Sign_In_inScheme source)) (
     TSS_TPMT_TK_HASHCHECK_Marshal (Sign_In_validation source))))"

definition TSS_SetCommandCodeAuditStatus_In_Marshal :: "SetCommandCodeAuditStatus_In \<Rightarrow> marshal" where
  "TSS_SetCommandCodeAuditStatus_In_Marshal source =
     m_then (TSS_TPMI_RH_PROVISION_Marshal (SetCommandCodeAuditStatus_In_auth source)) (
     m_then (TSS_TPMI_ALG_HASH_Marshal (SetCommandCodeAuditStatus_In_auditAlg source)) (
     m_then (TSS_TPML_CC_Marshal (SetCommandCodeAuditStatus_In_setList source)) (
     TSS_TPML_CC_Marshal (SetCommandCodeAuditStatus_In_clearList source))))"

definition TSS_PCR_Extend_In_Marshal :: "PCR_Extend_In \<Rightarrow> marshal" where
  "TSS_PCR_Extend_In_Marshal source =
     m_then (TSS_TPMI_DH_PCR_Marshal (PCR_Extend_In_pcrHandle source)) (
     TSS_TPML_DIGEST_VALUES_Marshal (PCR_Extend_In_digests source))"

definition TSS_PCR_Event_In_Marshal :: "PCR_Event_In \<Rightarrow> marshal" where
  "TSS_PCR_Event_In_Marshal source =
     m_then (TSS_TPMI_DH_PCR_Marshal (PCR_Event_In_pcrHandle source)) (
     TSS_TPM2B_EVENT_Marshal (PCR_Event_In_eventData source))"

definition TSS_PCR_Read_In_Marshal :: "PCR_Read_In \<Rightarrow> marshal" where
  "TSS_PCR_Read_In_Marshal source = TSS_TPML_PCR_SELECTION_Marshal (PCR_Read_In_pcrSelectionIn source)"

definition TSS_PCR_Allocate_In_Marshal :: "PCR_Allocate_In \<Rightarrow> marshal" where
  "TSS_PCR_Allocate_In_Marshal source =
     m_then (TSS_TPMI_RH_PLATFORM_Marshal (PCR_Allocate_In_authHandle source)) (
     TSS_TPML_PCR_SELECTION_Marshal (PCR_Allocate_In_pcrAllocation source))"

definition TSS_PCR_SetAuthPolicy_In_Marshal :: "PCR_SetAuthPolicy_In \<Rightarrow> marshal" where
  "TSS_PCR_SetAuthPolicy_In_Marshal source =
     m_then (TSS_TPMI_RH_PLATFORM_Marshal (PCR_SetAuthPolicy_In_authHandle source)) (
     m_then (TSS_TPM2B_DIGEST_Marshal (PCR_SetAuthPolicy_In_authPolicy source)) (
     m_then (TSS_TPMI_ALG_HASH_Marshal (PCR_SetAuthPolicy_In_hashAlg source)) (
     TSS_TPMI_DH_PCR_Marshal (PCR_SetAuthPolicy_In_pcrNum source))))"

definition TSS_PCR_SetAuthValue_In_Marshal :: "PCR_SetAuthValue_In \<Rightarrow> marshal" where
  "TSS_PCR_SetAuthValue_In_Marshal source =
     m_then (TSS_TPMI_DH_PCR_Marshal (PCR_SetAuthValue_In_pcrHandle source)) (
     TSS_TPM2B_DIGEST_Marshal (PCR_SetAuthValue_In_auth source))"

definition TSS_PCR_Reset_In_Marshal :: "PCR_Reset_In \<Rightarrow> marshal" where
  "TSS_PCR_Reset_In_Marshal source = TSS_TPMI_DH_PCR_Marshal (PCR_Reset_In_pcrHandle source)"

section \<open>Unmarshalling commands\<close>

definition Certify_In_Unmarshal :: "(nat \<Rightarrow> TPM_HANDLE) \<Rightarrow> Certify_In unmarshal" where
  "Certify_In_Unmarshal handles =
     u_bind (u_add_rc RC_Certify_qualifyingData TPM2B_DATA_Unmarshal) (\<lambda>qualifyingData.
     u_bind (u_add_rc RC_Certify_inScheme (TPMT_SIG_SCHEME_Unmarshal True)) (\<lambda>inScheme.
     u_return \<lparr>Certify_In_objectHandle = handles 0, Certify_In_signHandle = handles 1,
       Certify_In_qualifyingData = qualifyingData, Certify_In_inScheme = inScheme\<rparr>))"

definition CertifyCreation_In_Unmarshal :: "(nat \<Rightarrow> TPM_HANDLE) \<Rightarrow> CertifyCreation_In unmarshal" where
  "CertifyCreation_In_Unmarshal handles =
     u_bind (u_add_rc RC_CertifyCreation_creationHash TPM2B_DATA_Unmarshal) (\<lambda>qualifyingData.
     u_bind (u_add_rc RC_CertifyCreation_creationHash TPM2B_DIGEST_Unmarshal) (\<lambda>creationHash.
     u_bind (u_add_rc RC_CertifyCreation_inScheme (TPMT_SIG_SCHEME_Unmarshal True)) (\<lambda>inScheme.
     u_bind (u_add_rc RC_CertifyCreation_creationTicket TPMT_TK_CREATION_Unmarshal) (\<lambda>creationTicket.
     u_return \<lparr>CertifyCreation_In_signHandle = handles 0,
       CertifyCreation_In_objectHandle = handles 1, CertifyCreation_In_qualifyingData = qualifyingData,
       CertifyCreation_In_creationHash = creationHash, CertifyCreation_In_inScheme = inScheme,
       CertifyCreation_In_creationTicket = creationTicket\<rparr>))))"

definition Quote_In_Unmarshal :: "(nat \<Rightarrow> TPM_HANDLE) \<Rightarrow> Quote_In unmarshal" where
  "Quote_In_Unmarshal handles =
     u_bind (u_add_rc RC_Quote_qualifyingData TPM2B_DATA_Unmarshal) (\<lambda>qualifyingData.
     u_bind (u_add_rc RC_Quote_inScheme (TPMT_SIG_SCHEME_Unmarshal True)) (\<lambda>inScheme.
     u_bind (u_add_rc RC_Quote_PCRselect TPML_PCR_SELECTION_Unmarshal) (\<lambda>PCRselect.
     u_return \<lparr>Quote_In_signHandle = handles 0, Quote_In_qualifyingData = qualifyingData,
       Quote_In_inScheme = inScheme, Quote_In_PCRselect = PCRselect\<rparr>)))"

definition GetSessionAuditDigest_In_Unmarshal :: "(nat \<Rightarrow> TPM_HANDLE) \<Rightarrow> GetSessionAuditDigest_In unmarshal" where
  "GetSessionAuditDigest_In_Unmarshal handles =
     u_bind (u_add_rc RC_GetSessionAuditDigest_qualifyingData TPM2B_DATA_Unmarshal) (\<lambda>qualifyingData.
     u_bind (u_add_rc RC_GetSessionAuditDigest_inScheme (TPMT_SIG_SCHEME_Unmarshal True)) (\<lambda>inScheme.
     u_return \<lparr>GetSessionAuditDigest_In_privacyAdminHandle = handles 0,
       GetSessionAuditDigest_In_signHandle = handles 1, GetSessionAuditDigest_In_sessionHandle = handles 2,
       GetSessionAuditDigest_In_qualifyingData = qualifyingData,
       GetSessionAuditDigest_In_inScheme = inScheme\<rparr>))"

definition GetCommandAuditDigest_In_Unmarshal :: "(nat \<Rightarrow> TPM_HANDLE) \<Rightarrow> GetCommandAuditDigest_In unmarshal" where
  "GetCommandAuditDigest_In_Unmarshal handles =
     u_bind (u_add_rc RC_GetCommandAuditDigest_qualifyingData TPM2B_DATA_Unmarshal) (\<lambda>qualifyingData.
     u_bind (u_add_rc RC_GetCommandAuditDigest_inScheme (TPMT_SIG_SCHEME_Unmarshal True)) (\<lambda>inScheme.
     u_return \<lparr>GetCommandAuditDigest_In_privacyHandle = handles 0,
       GetCommandAuditDigest_In_signHandle = handles 1,
       GetCommandAuditDigest_In_qualifyingData = qualifyingData,
       GetCommandAuditDigest_In_inScheme = inScheme\<rparr>))"

definition GetTime_In_Unmarshal :: "(nat \<Rightarrow> TPM_HANDLE) \<Rightarrow> GetTime_In unmarshal" where
  "GetTime_In_Unmarshal handles =
     u_bind (u_add_rc RC_GetTime_qualifyingData TPM2B_DATA_Unmarshal) (\<lambda>qualifyingData.
     u_bind (u_add_rc RC_GetTime_inScheme (TPMT_SIG_SCHEME_Unmarshal True)) (\<lambda>inScheme.
     u_return \<lparr>GetTime_In_privacyAdminHandle = handles 0, GetTime_In_signHandle = handles 1,
       GetTime_In_qualifyingData = qualifyingData, GetTime_In_inScheme = inScheme\<rparr>))"

definition Commit_In_Unmarshal :: "(nat \<Rightarrow> TPM_HANDLE) \<Rightarrow> Commit_In unmarshal" where
  "Commit_In_Unmarshal handles =
     u_bind (u_add_rc RC_Commit_P1 TPM2B_ECC_POINT_Unmarshal) (\<lambda>P1.
     u_bind (u_add_rc RC_Commit_s2 TPM2B_SENSITIVE_DATA_Unmarshal) (\<lambda>s2.
     u_bind (u_add_rc RC_Commit_y2 TPM2B_ECC_PARAMETER_Unmarshal) (\<lambda>y2.
     u_return \<lparr>Commit_In_signHandle = handles 0, Commit_In_P1 = P1, Commit_In_s2 = s2,
       Commit_In_y2 = y2\<rparr>)))"

definition EC_Ephemeral_In_Unmarshal :: "(nat \<Rightarrow> TPM_HANDLE) \<Rightarrow> EC_Ephemeral_In unmarshal" where
  "EC_Ephemeral_In_Unmarshal handles =
     u_bind (u_add_rc RC_EC_Ephemeral_curveID TPMI_ECC_CURVE_Unmarshal) (\<lambda>curveID.
     u_return \<lparr>EC_Ephemeral_In_curveID = curveID\<rparr>)"

definition VerifySignature_In_Unmarshal :: "(nat \<Rightarrow> TPM_HANDLE) \<Rightarrow> VerifySignature_In unmarshal" where
  "VerifySignature_In_Unmarshal handles =
     u_bind (u_add_rc RC_VerifySignature_digest TPM2B_DIGEST_Unmarshal) (\<lambda>digest.
     u_bind (u_add_rc RC_VerifySignature_signature (TPMT_SIGNATURE_Unmarshal False)) (\<lambda>signature.
     u_return \<lparr>VerifySignature_In_keyHandle = handles 0, VerifySignature_In_digest = digest,
       VerifySignature_In_signature = signature\<rparr>))"

definition Sign_In_Unmarshal :: "(nat \<Rightarrow> TPM_HANDLE) \<Rightarrow> Sign_In unmarshal" where
  "Sign_In_Unmarshal handles =
     u_bind (u_add_rc RC_Sign_digest TPM2B_DIGEST_Unmarshal) (\<lambda>digest.
     u_bind (u_add_rc RC_Sign_inScheme (TPMT_SIG_SCHEME_Unmarshal True)) (\<lambda>inScheme.
     u_bind (u_add_rc RC_Sign_validation TPMT_TK_HASHCHECK_Unmarshal) (\<lambda>validation.
     u_return \<lparr>Sign_In_keyHandle = handles 0, Sign_In_digest = digest, Sign_In_inScheme = inScheme,
       Sign_In_validation = validation\<rparr>)))"

definition SetCommandCodeAuditStatus_In_Unmarshal :: "(nat \<Rightarrow> TPM_HANDLE) \<Rightarrow> SetCommandCodeAuditStatus_In unmarshal" where
  "SetCommandCodeAuditStatus_In_Unmarshal handles =
     u_bind (u_add_rc RC_SetCommandCodeAuditStatus_auditAlg (TPMI_ALG_HASH_Unmarshal True)) (\<lambda>auditAlg.
     u_bind (u_add_rc RC_SetCommandCodeAuditStatus_setList TPML_CC_Unmarshal) (\<lambda>setList.
     u_bind (u_add_rc RC_SetCommandCodeAuditStatus_clearList TPML_CC_Unmarshal) (\<lambda>clearList.
     u_return \<lparr>SetCommandCodeAuditStatus_In_auth = handles 0,
       SetCommandCodeAuditStatus_In_auditAlg = auditAlg, SetCommandCodeAuditStatus_In_setList = setList,
       SetCommandCodeAuditStatus_In_clearList = clearList\<rparr>)))"

definition PCR_Extend_In_Unmarshal :: "(nat \<Rightarrow> TPM_HANDLE) \<Rightarrow> PCR_Extend_In unmarshal" where
  "PCR_Extend_In_Unmarshal handles =
     u_bind (u_add_rc RC_PCR_Extend_digests TPML_DIGEST_VALUES_Unmarshal) (\<lambda>digests.
     u_return \<lparr>PCR_Extend_In_pcrHandle = handles 0, PCR_Extend_In_digests = digests\<rparr>)"

definition PCR_Event_In_Unmarshal :: "(nat \<Rightarrow> TPM_HANDLE) \<Rightarrow> PCR_Event_In unmarshal" where
  "PCR_Event_In_Unmarshal handles =
     u_bind (u_add_rc RC_PCR_Event_eventData TPM2B_EVENT_Unmarshal) (\<lambda>eventData.
     u_return \<lparr>PCR_Event_In_pcrHandle = handles 0, PCR_Event_In_eventData = eventData\<rparr>)"

definition PCR_Read_In_Unmarshal :: "(nat \<Rightarrow> TPM_HANDLE) \<Rightarrow> PCR_Read_In unmarshal" where
  "PCR_Read_In_Unmarshal handles =
     u_bind (u_add_rc RC_PCR_Read_pcrSelectionIn TPML_PCR_SELECTION_Unmarshal) (\<lambda>pcrSelectionIn.
     u_return \<lparr>PCR_Read_In_pcrSelectionIn = pcrSelectionIn\<rparr>)"

definition PCR_Allocate_In_Unmarshal :: "(nat \<Rightarrow> TPM_HANDLE) \<Rightarrow> PCR_Allocate_In unmarshal" where
  "PCR_Allocate_In_Unmarshal handles =
     u_bind (u_add_rc RC_PCR_Allocate_pcrAllocation TPML_PCR_SELECTION_Unmarshal) (\<lambda>pcrAllocation.
     u_return \<lparr>PCR_Allocate_In_authHandle = handles 0,
       PCR_Allocate_In_pcrAllocation = pcrAllocation\<rparr>)"

definition PCR_SetAuthPolicy_In_Unmarshal :: "(nat \<Rightarrow> TPM_HANDLE) \<Rightarrow> PCR_SetAuthPolicy_In unmarshal" where
  "PCR_SetAuthPolicy_In_Unmarshal handles =
     u_bind (u_add_rc RC_PCR_SetAuthPolicy_authPolicy TPM2B_DIGEST_Unmarshal) (\<lambda>authPolicy.
     u_bind (u_add_rc RC_PCR_SetAuthPolicy_hashAlg (TPMI_ALG_HASH_Unmarshal True)) (\<lambda>hashAlg.
     u_bind (u_add_rc RC_PCR_SetAuthPolicy_pcrNum (TPMI_DH_PCR_Unmarshal False)) (\<lambda>pcrNum.
     u_return \<lparr>PCR_SetAuthPolicy_In_authHandle = handles 0,
       PCR_SetAuthPolicy_In_authPolicy = authPolicy, PCR_SetAuthPolicy_In_hashAlg = hashAlg,
       PCR_SetAuthPolicy_In_pcrNum = pcrNum\<rparr>)))"

definition PCR_SetAuthValue_In_Unmarshal :: "(nat \<Rightarrow> TPM_HANDLE) \<Rightarrow> PCR_SetAuthValue_In unmarshal" where
  "PCR_SetAuthValue_In_Unmarshal handles =
     u_bind (u_add_rc RC_PCR_SetAuthValue_auth TPM2B_DIGEST_Unmarshal) (\<lambda>auth.
     u_return \<lparr>PCR_SetAuthValue_In_pcrHandle = handles 0, PCR_SetAuthValue_In_auth = auth\<rparr>)"

definition PCR_Reset_In_Unmarshal :: "(nat \<Rightarrow> TPM_HANDLE) \<Rightarrow> PCR_Reset_In unmarshal" where
  "PCR_Reset_In_Unmarshal handles =
     u_return \<lparr>PCR_Reset_In_pcrHandle = handles 0\<rparr>"

section \<open>Unmarshalling responses\<close>

definition TSS_Certify_Out_Unmarshal :: "TPM_ST \<Rightarrow> Certify_Out unmarshal" where
  "TSS_Certify_Out_Unmarshal tag =
     u_bind (u_when (tag = TPM_ST_SESSIONS) UINT32_Unmarshal) (\<lambda>_.
     u_bind TPM2B_ATTEST_Unmarshal (\<lambda>certifyInfo.
     u_bind (TPMT_SIGNATURE_Unmarshal False) (\<lambda>signature.
     u_return \<lparr>Certify_Out_certifyInfo = certifyInfo, Certify_Out_signature = signature\<rparr>)))"

definition TSS_CertifyCreation_Out_Unmarshal :: "TPM_ST \<Rightarrow> CertifyCreation_Out unmarshal" where
  "TSS_CertifyCreation_Out_Unmarshal tag =
     u_bind (u_when (tag = TPM_ST_SESSIONS) UINT32_Unmarshal) (\<lambda>_.
     u_bind TPM2B_ATTEST_Unmarshal (\<lambda>certifyInfo.
     u_bind (TPMT_SIGNATURE_Unmarshal False) (\<lambda>signature.
     u_return \<lparr>CertifyCreation_Out_certifyInfo = certifyInfo,
       CertifyCreation_Out_signature = signature\<rparr>)))"

definition TSS_Quote_Out_Unmarshal :: "TPM_ST \<Rightarrow> Quote_Out unmarshal" where
  "TSS_Quote_Out_Unmarshal tag =
     u_bind (u_when (tag = TPM_ST_SESSIONS) UINT32_Unmarshal) (\<lambda>_.
     u_bind TPM2B_ATTEST_Unmarshal (\<lambda>quoted.
     u_bind (TPMT_SIGNATURE_Unmarshal False) (\<lambda>signature.
     u_return \<lparr>Quote_Out_quoted = quoted, Quote_Out_signature = signature\<rparr>)))"

definition TSS_GetSessionAuditDigest_Out_Unmarshal :: "TPM_ST \<Rightarrow> GetSessionAuditDigest_Out unmarshal" where
  "TSS_GetSessionAuditDigest_Out_Unmarshal tag =
     u_bind (u_when (tag = TPM_ST_SESSIONS) UINT32_Unmarshal) (\<lambda>_.
     u_bind TPM2B_ATTEST_Unmarshal (\<lambda>auditInfo.
     u_bind (TPMT_SIGNATURE_Unmarshal False) (\<lambda>signature.
     u_return \<lparr>GetSessionAuditDigest_Out_auditInfo = auditInfo,
       GetSessionAuditDigest_Out_signature = signature\<rparr>)))"

definition TSS_GetCommandAuditDigest_Out_Unmarshal :: "TPM_ST \<Rightarrow> GetCommandAuditDigest_Out unmarshal" where
  "TSS_GetCommandAuditDigest_Out_Unmarshal tag =
     u_bind (u_when (tag = TPM_ST_SESSIONS) UINT32_Unmarshal) (\<lambda>_.
     u_bind TPM2B_ATTEST_Unmarshal (\<lambda>auditInfo.
     u_bind (TPMT_SIGNATURE_Unmarshal False) (\<lambda>signature.
     u_return \<lparr>GetCommandAuditDigest_Out_auditInfo = auditInfo,
       GetCommandAuditDigest_Out_signature = signature\<rparr>)))"

definition TSS_GetTime_Out_Unmarshal :: "TPM_ST \<Rightarrow> GetTime_Out unmarshal" where
  "TSS_GetTime_Out_Unmarshal tag =
     u_bind (u_when (tag = TPM_ST_SESSIONS) UINT32_Unmarshal) (\<lambda>_.
     u_bind TPM2B_ATTEST_Unmarshal (\<lambda>timeInfo.
     u_bind (TPMT_SIGNATURE_Unmarshal False) (\<lambda>signature.
     u_return \<lparr>GetTime_Out_timeInfo = timeInfo, GetTime_Out_signature = signature\<rparr>)))"

definition TSS_Commit_Out_Unmarshal :: "TPM_ST \<Rightarrow> Commit_Out unmarshal" where
  "TSS_Commit_Out_Unmarshal tag =
     u_bind (u_when (tag = TPM_ST_SESSIONS) UINT32_Unmarshal) (\<lambda>_.
     u_bind TPM2B_ECC_POINT_Unmarshal (\<lambda>K.
     u_bind TPM2B_ECC_POINT_Unmarshal (\<lambda>L.
     u_bind TPM2B_ECC_POINT_Unmarshal (\<lambda>E.
     u_bind UINT16_Unmarshal (\<lambda>counter.
     u_return \<lparr>Commit_Out_K = K, Commit_Out_L = L, Commit_Out_E = E,
       Commit_Out_counter = counter\<rparr>)))))"

definition TSS_EC_Ephemeral_Out_Unmarshal :: "TPM_ST \<Rightarrow> EC_Ephemeral_Out unmarshal" where
  "TSS_EC_Ephemeral_Out_Unmarshal tag =
     u_bind (u_when (tag = TPM_ST_SESSIONS) UINT32_Unmarshal) (\<lambda>_.
     u_bind TPM2B_ECC_POINT_Unmarshal (\<lambda>Q.
     u_bind UINT16_Unmarshal (\<lambda>counter.
     u_return \<lparr>EC_Ephemeral_Out_Q = Q, EC_Ephemeral_Out_counter = counter\<rparr>)))"

definition TSS_VerifySignature_Out_Unmarshal :: "TPM_ST \<Rightarrow> VerifySignature_Out unmarshal" where
  "TSS_VerifySignature_Out_Unmarshal tag =
     u_bind (u_when (tag = TPM_ST_SESSIONS) UINT32_Unmarshal) (\<lambda>_.
     u_bind TPMT_TK_VERIFIED_Unmarshal (\<lambda>validation.
     u_return \<lparr>VerifySignature_Out_validation = validation\<rparr>))"

definition TSS_Sign_Out_Unmarshal :: "TPM_ST \<Rightarrow> Sign_Out unmarshal" where
  "TSS_Sign_Out_Unmarshal tag =
     u_bind (u_when (tag = TPM_ST_SESSIONS) UINT32_Unmarshal) (\<lambda>_.
     u_bind (TPMT_SIGNATURE_Unmarshal False) (\<lambda>signature.
     u_return \<lparr>Sign_Out_signature = signature\<rparr>))"

definition TSS_PCR_Event_Out_Unmarshal :: "TPM_ST \<Rightarrow> PCR_Event_Out unmarshal" where
  "TSS_PCR_Event_Out_Unmarshal tag =
     u_bind (u_when (tag = TPM_ST_SESSIONS) UINT32_Unmarshal) (\<lambda>_.
     u_bind TPML_DIGEST_VALUES_Unmarshal (\<lambda>digests.
     u_return \<lparr>PCR_Event_Out_digests = digests\<rparr>))"

definition TSS_PCR_Read_Out_Unmarshal :: "TPM_ST \<Rightarrow> PCR_Read_Out unmarshal" where
  "TSS_PCR_Read_Out_Unmarshal tag =
     u_bind (u_when (tag = TPM_ST_SESSIONS) UINT32_Unmarshal) (\<lambda>_.
     u_bind UINT32_Unmarshal (\<lambda>pcrUpdateCounter.
     u_bind TPML_PCR_SELECTION_Unmarshal (\<lambda>pcrSelectionOut.
     u_bind (TPML_DIGEST_Unmarshal 0) (\<lambda>pcrValues.
     u_return \<lparr>PCR_Read_Out_pcrUpdateCounter = pcrUpdateCounter,
       PCR_Read_Out_pcrSelectionOut = pcrSelectionOut, PCR_Read_Out_pcrValues = pcrValues\<rparr>))))"

definition TSS_PCR_Allocate_Out_Unmarshal :: "TPM_ST \<Rightarrow> PCR_Allocate_Out unmarshal" where
  "TSS_PCR_Allocate_Out_Unmarshal tag =
     u_bind (u_when (tag = TPM_ST_SESSIONS) UINT32_Unmarshal) (\<lambda>_.
     u_bind TPMI_YES_NO_Unmarshal (\<lambda>allocationSuccess.
     u_bind UINT32_Unmarshal (\<lambda>maxPCR.
     u_bind UINT32_Unmarshal (\<lambda>sizeNeeded.
     u_bind UINT32_Unmarshal (\<lambda>sizeAvailable.
     u_return \<lparr>PCR_Allocate_Out_allocationSuccess = allocationSuccess,
       PCR_Allocate_Out_maxPCR = maxPCR, PCR_Allocate_Out_sizeNeeded = sizeNeeded,
       PCR_Allocate_Out_sizeAvailable = sizeAvailable\<rparr>)))))"

section \<open>Commands are read as they are written\<close>

lemma Certify_In_codec: "reads_e param_error k (be32 (handles 0) @ be32 (handles 1)) (Certify_In_Unmarshal handles) TSS_Certify_In_Marshal"
  unfolding Certify_In_Unmarshal_def TSS_Certify_In_Marshal_def
  by (intro reads_bind [OF reads_add_rc [OF TPM2B_DATA_codec]]
       reads_bind [OF reads_add_rc [OF TPMT_SIG_SCHEME_codec]] reads_return)
    (simp_all add: emits_then handle_emits)

lemma CertifyCreation_In_codec: "reads_e param_error k (be32 (handles 0) @ be32 (handles 1)) (CertifyCreation_In_Unmarshal handles) TSS_CertifyCreation_In_Marshal"
  unfolding CertifyCreation_In_Unmarshal_def TSS_CertifyCreation_In_Marshal_def
  by (intro reads_bind [OF reads_add_rc [OF TPM2B_DATA_codec]]
       reads_bind [OF reads_add_rc [OF TPM2B_DIGEST_codec]]
       reads_bind [OF reads_add_rc [OF TPMT_SIG_SCHEME_codec]]
       reads_bind [OF reads_add_rc [OF TPMT_TK_CREATION_codec]] reads_return)
    (simp_all add: emits_then handle_emits)

lemma Quote_In_codec: "reads_e param_error k (be32 (handles 0)) (Quote_In_Unmarshal handles) TSS_Quote_In_Marshal"
  unfolding Quote_In_Unmarshal_def TSS_Quote_In_Marshal_def
  by (intro reads_bind [OF reads_add_rc [OF TPM2B_DATA_codec]]
       reads_bind [OF reads_add_rc [OF TPMT_SIG_SCHEME_codec]]
       reads_bind [OF reads_add_rc [OF TPML_PCR_SELECTION_codec]] reads_return)
    (simp_all add: emits_then handle_emits)

lemma GetSessionAuditDigest_In_codec: "reads_e param_error k (be32 (handles 0) @ be32 (handles 1) @ be32 (handles 2)) (GetSessionAuditDigest_In_Unmarshal handles) TSS_GetSessionAuditDigest_In_Marshal"
  unfolding GetSessionAuditDigest_In_Unmarshal_def TSS_GetSessionAuditDigest_In_Marshal_def
  by (intro reads_bind [OF reads_add_rc [OF TPM2B_DATA_codec]]
       reads_bind [OF reads_add_rc [OF TPMT_SIG_SCHEME_codec]] reads_return)
    (simp_all add: emits_then handle_emits)

lemma GetCommandAuditDigest_In_codec: "reads_e param_error k (be32 (handles 0) @ be32 (handles 1)) (GetCommandAuditDigest_In_Unmarshal handles) TSS_GetCommandAuditDigest_In_Marshal"
  unfolding GetCommandAuditDigest_In_Unmarshal_def TSS_GetCommandAuditDigest_In_Marshal_def
  by (intro reads_bind [OF reads_add_rc [OF TPM2B_DATA_codec]]
       reads_bind [OF reads_add_rc [OF TPMT_SIG_SCHEME_codec]] reads_return)
    (simp_all add: emits_then handle_emits)

lemma GetTime_In_codec: "reads_e param_error k (be32 (handles 0) @ be32 (handles 1)) (GetTime_In_Unmarshal handles) TSS_GetTime_In_Marshal"
  unfolding GetTime_In_Unmarshal_def TSS_GetTime_In_Marshal_def
  by (intro reads_bind [OF reads_add_rc [OF TPM2B_DATA_codec]]
       reads_bind [OF reads_add_rc [OF TPMT_SIG_SCHEME_codec]] reads_return)
    (simp_all add: emits_then handle_emits)

lemma Commit_In_codec: "2 \<le> k \<Longrightarrow> reads_e param_error k (be32 (handles 0)) (Commit_In_Unmarshal handles) TSS_Commit_In_Marshal"
  unfolding Commit_In_Unmarshal_def TSS_Commit_In_Marshal_def
  by (intro reads_bind [OF reads_add_rc [OF TPM2B_ECC_POINT_codec]]
       reads_bind [OF reads_add_rc [OF TPM2B_SENSITIVE_DATA_codec]]
       reads_bind [OF reads_add_rc [OF TPM2B_ECC_PARAMETER_codec]] reads_return)
    (simp_all add: emits_then handle_emits)

lemma EC_Ephemeral_In_codec: "reads_e param_error k [] (EC_Ephemeral_In_Unmarshal handles) TSS_EC_Ephemeral_In_Marshal"
  unfolding EC_Ephemeral_In_Unmarshal_def TSS_EC_Ephemeral_In_Marshal_def
  by (intro reads_bind [OF reads_add_rc [OF TPMI_ECC_CURVE_codec]] reads_return)
    (simp_all add: emits_then handle_emits)

lemma VerifySignature_In_codec: "reads_e param_error k (be32 (handles 0)) (VerifySignature_In_Unmarshal handles) TSS_VerifySignature_In_Marshal"
  unfolding VerifySignature_In_Unmarshal_def TSS_VerifySignature_In_Marshal_def
  by (intro reads_bind [OF reads_add_rc [OF TPM2B_DIGEST_codec]]
       reads_bind [OF reads_add_rc [OF TPMT_SIGNATURE_codec]] reads_return)
    (simp_all add: emits_then handle_emits)

lemma Sign_In_codec: "reads_e param_error k (be32 (handles 0)) (Sign_In_Unmarshal handles) TSS_Sign_In_Marshal"
  unfolding Sign_In_Unmarshal_def TSS_Sign_In_Marshal_def
  by (intro reads_bind [OF reads_add_rc [OF TPM2B_DIGEST_codec]]
       reads_bind [OF reads_add_rc [OF TPMT_SIG_SCHEME_codec]]
       reads_bind [OF reads_add_rc [OF TPMT_TK_HASHCHECK_codec]] reads_return)
    (simp_all add: emits_then handle_emits)

lemma SetCommandCodeAuditStatus_In_codec: "reads_e param_error k (be32 (handles 0)) (SetCommandCodeAuditStatus_In_Unmarshal handles) TSS_SetCommandCodeAuditStatus_In_Marshal"
  unfolding SetCommandCodeAuditStatus_In_Unmarshal_def TSS_SetCommandCodeAuditStatus_In_Marshal_def
  by (intro reads_bind [OF reads_add_rc [OF TPMI_ALG_HASH_codec]]
       reads_bind [OF reads_add_rc [OF TPML_CC_codec]] reads_return)
    (simp_all add: emits_then handle_emits)

lemma PCR_Extend_In_codec: "reads_e param_error k (be32 (handles 0)) (PCR_Extend_In_Unmarshal handles) TSS_PCR_Extend_In_Marshal"
  unfolding PCR_Extend_In_Unmarshal_def TSS_PCR_Extend_In_Marshal_def
  by (intro reads_bind [OF reads_add_rc [OF TPML_DIGEST_VALUES_codec]] reads_return)
    (simp_all add: emits_then handle_emits)

lemma PCR_Event_In_codec: "reads_e param_error k (be32 (handles 0)) (PCR_Event_In_Unmarshal handles) TSS_PCR_Event_In_Marshal"
  unfolding PCR_Event_In_Unmarshal_def TSS_PCR_Event_In_Marshal_def
  by (intro reads_bind [OF reads_add_rc [OF TPM2B_EVENT_codec]] reads_return)
    (simp_all add: emits_then handle_emits)

lemma PCR_Read_In_codec: "reads_e param_error k [] (PCR_Read_In_Unmarshal handles) TSS_PCR_Read_In_Marshal"
  unfolding PCR_Read_In_Unmarshal_def TSS_PCR_Read_In_Marshal_def
  by (intro reads_bind [OF reads_add_rc [OF TPML_PCR_SELECTION_codec]] reads_return)
    (simp_all add: emits_then handle_emits)

lemma PCR_Allocate_In_codec: "reads_e param_error k (be32 (handles 0)) (PCR_Allocate_In_Unmarshal handles) TSS_PCR_Allocate_In_Marshal"
  unfolding PCR_Allocate_In_Unmarshal_def TSS_PCR_Allocate_In_Marshal_def
  by (intro reads_bind [OF reads_add_rc [OF TPML_PCR_SELECTION_codec]] reads_return)
    (simp_all add: emits_then handle_emits)

lemma PCR_SetAuthPolicy_In_codec: "reads_e param_error k (be32 (handles 0)) (PCR_SetAuthPolicy_In_Unmarshal handles) TSS_PCR_SetAuthPolicy_In_Marshal"
  unfolding PCR_SetAuthPolicy_In_Unmarshal_def TSS_PCR_SetAuthPolicy_In_Marshal_def
  by (intro reads_bind [OF reads_add_rc [OF TPM2B_DIGEST_codec]]
       reads_bind [OF reads_add_rc [OF TPMI_ALG_HASH_codec]]
       reads_bind [OF reads_add_rc [OF TPMI_DH_PCR_codec]] reads_return)
    (simp_all add: emits_then handle_emits)

lemma PCR_SetAuthValue_In_codec: "reads_e param_error k (be32 (handles 0)) (PCR_SetAuthValue_In_Unmarshal handles) TSS_PCR_SetAuthValue_In_Marshal"
  unfolding PCR_SetAuthValue_In_Unmarshal_def TSS_PCR_SetAuthValue_In_Marshal_def
  by (intro reads_bind [OF reads_add_rc [OF TPM2B_DIGEST_codec]] reads_return)
    (simp_all add: emits_then handle_emits)

lemma PCR_Reset_In_codec: "reads_e param_error k (be32 (handles 0)) (PCR_Reset_In_Unmarshal handles) TSS_PCR_Reset_In_Marshal"
  unfolding PCR_Reset_In_Unmarshal_def TSS_PCR_Reset_In_Marshal_def
  by (intro reads_return)
    (simp_all add: emits_then handle_emits)

section \<open>Responses stay within their target\<close>

definition Certify_Out_bounded :: "Certify_Out \<Rightarrow> bool" where
  "Certify_Out_bounded v \<longleftrightarrow> TPM2B_ATTEST_bounded (Certify_Out_certifyInfo v)
    \<and> TPMT_SIGNATURE_bounded (Certify_Out_signature v)"

definition CertifyCreation_Out_bounded :: "CertifyCreation_Out \<Rightarrow> bool" where
  "CertifyCreation_Out_bounded v \<longleftrightarrow> TPM2B_ATTEST_bounded (CertifyCreation_Out_certifyInfo v)
    \<and> TPMT_SIGNATURE_bounded (CertifyCreation_Out_signature v)"

definition Quote_Out_bounded :: "Quote_Out \<Rightarrow> bool" where
  "Quote_Out_bounded v \<longleftrightarrow> TPM2B_ATTEST_bounded (Quote_Out_quoted v)
    \<and> TPMT_SIGNATURE_bounded (Quote_Out_signature v)"

definition GetSessionAuditDigest_Out_bounded :: "GetSessionAuditDigest_Out \<Rightarrow> bool" where
  "GetSessionAuditDigest_Out_bounded v \<longleftrightarrow> TPM2B_ATTEST_bounded (GetSessionAuditDigest_Out_auditInfo v)
    \<and> TPMT_SIGNATURE_bounded (GetSessionAuditDigest_Out_signature v)"

definition GetCommandAuditDigest_Out_bounded :: "GetCommandAuditDigest_Out \<Rightarrow> bool" where
  "GetCommandAuditDigest_Out_bounded v \<longleftrightarrow> TPM2B_ATTEST_bounded (GetCommandAuditDigest_Out_auditInfo v)
    \<and> TPMT_SIGNATURE_bounded (GetCommandAuditDigest_Out_signature v)"

definition GetTime_Out_bounded :: "GetTime_Out \<Rightarrow> bool" where
  "GetTime_Out_bounded v \<longleftrightarrow> TPM2B_ATTEST_bounded (GetTime_Out_timeInfo v)
    \<and> TPMT_SIGNATURE_bounded (GetTime_Out_signature v)"

definition Commit_Out_bounded :: "Commit_Out \<Rightarrow> bool" where
  "Commit_Out_bounded v \<longleftrightarrow> TPM2B_ECC_POINT_bounded (Commit_Out_K v)
    \<and> TPM2B_ECC_POINT_bounded (Commit_Out_L v) \<and> TPM2B_ECC_POINT_bounded (Commit_Out_E v)"

definition EC_Ephemeral_Out_bounded :: "EC_Ephemeral_Out \<Rightarrow> bool" where
  "EC_Ephemeral_Out_bounded v \<longleftrightarrow> TPM2B_ECC_POINT_bounded (EC_Ephemeral_Out_Q v)"

definition VerifySignature_Out_bounded :: "VerifySignature_Out \<Rightarrow> bool" where
  "VerifySignature_Out_bounded v \<longleftrightarrow> TPMT_TK_VERIFIED_bounded (VerifySignature_Out_validation v)"

definition Sign_Out_bounded :: "Sign_Out \<Rightarrow> bool" where
  "Sign_Out_bounded v \<longleftrightarrow> TPMT_SIGNATURE_bounded (Sign_Out_signature v)"

definition PCR_Event_Out_bounded :: "PCR_Event_Out \<Rightarrow> bool" where
  "PCR_Event_Out_bounded v \<longleftrightarrow> TPML_DIGEST_VALUES_bounded (PCR_Event_Out_digests v)"

definition PCR_Read_Out_bounded :: "PCR_Read_Out \<Rightarrow> bool" where
  "PCR_Read_Out_bounded v \<longleftrightarrow> TPML_PCR_SELECTION_bounded (PCR_Read_Out_pcrSelectionOut v)
    \<and> TPML_DIGEST_bounded (PCR_Read_Out_pcrValues v)"

lemma Certify_Out_delivers: "delivers Certify_Out_bounded (TSS_Certify_Out_Unmarshal tag)"
  unfolding TSS_Certify_Out_Unmarshal_def
  by (intro delivers_bind [OF delivers_when [OF reads_delivers [OF UINT32_codec]]]
       delivers_bind [OF TPM2B_ATTEST_delivers] delivers_bind [OF TPMT_SIGNATURE_delivers]
       delivers_return)
    (simp_all add: Certify_Out_bounded_def)

lemma CertifyCreation_Out_delivers: "delivers CertifyCreation_Out_bounded (TSS_CertifyCreation_Out_Unmarshal tag)"
  unfolding TSS_CertifyCreation_Out_Unmarshal_def
  by (intro delivers_bind [OF delivers_when [OF reads_delivers [OF UINT32_codec]]]
       delivers_bind [OF TPM2B_ATTEST_delivers] delivers_bind [OF TPMT_SIGNATURE_delivers]
       delivers_return)
    (simp_all add: CertifyCreation_Out_bounded_def)

lemma Quote_Out_delivers: "delivers Quote_Out_bounded (TSS_Quote_Out_Unmarshal tag)"
  unfolding TSS_Quote_Out_Unmarshal_def
  by (intro delivers_bind [OF delivers_when [OF reads_delivers [OF UINT32_codec]]]
       delivers_bind [OF TPM2B_ATTEST_delivers] delivers_bind [OF TPMT_SIGNATURE_delivers]
       delivers_return)
    (simp_all add: Quote_Out_bounded_def)

lemma GetSessionAuditDigest_Out_delivers: "delivers GetSessionAuditDigest_Out_bounded (TSS_GetSessionAuditDigest_Out_Unmarshal tag)"
  unfolding TSS_GetSessionAuditDigest_Out_Unmarshal_def
  by (intro delivers_bind [OF delivers_when [OF reads_delivers [OF UINT32_codec]]]
       delivers_bind [OF TPM2B_ATTEST_delivers] delivers_bind [OF TPMT_SIGNATURE_delivers]
       delivers_return)
    (simp_all add: GetSessionAuditDigest_Out_bounded_def)

lemma GetCommandAuditDigest_Out_delivers: "delivers GetCommandAuditDigest_Out_bounded (TSS_GetCommandAuditDigest_Out_Unmarshal tag)"
  unfolding TSS_GetCommandAuditDigest_Out_Unmarshal_def
  by (intro delivers_bind [OF delivers_when [OF reads_delivers [OF UINT32_codec]]]
       delivers_bind [OF TPM2B_ATTEST_delivers] delivers_bind [OF TPMT_SIGNATURE_delivers]
       delivers_return)
    (simp_all add: GetCommandAuditDigest_Out_bounded_def)

lemma GetTime_Out_delivers: "delivers GetTime_Out_bounded (TSS_GetTime_Out_Unmarshal tag)"
  unfolding TSS_GetTime_Out_Unmarshal_def
  by (intro delivers_bind [OF delivers_when [OF reads_delivers [OF UINT32_codec]]]
       delivers_bind [OF TPM2B_ATTEST_delivers] delivers_bind [OF TPMT_SIGNATURE_delivers]
       delivers_return)
    (simp_all add: GetTime_Out_bounded_def)

lemma Commit_Out_delivers: "delivers Commit_Out_bounded (TSS_Commit_Out_Unmarshal tag)"
  unfolding TSS_Commit_Out_Unmarshal_def
  by (intro delivers_bind [OF delivers_when [OF reads_delivers [OF UINT32_codec]]]
       delivers_bind [OF TPM2B_ECC_POINT_delivers] delivers_bind [OF reads_delivers [OF UINT16_codec]]
       delivers_return)
    (simp_all add: Commit_Out_bounded_def)

lemma EC_Ephemeral_Out_delivers: "delivers EC_Ephemeral_Out_bounded (TSS_EC_Ephemeral_Out_Unmarshal tag)"
  unfolding TSS_EC_Ephemeral_Out_Unmarshal_def
  by (intro delivers_bind [OF delivers_when [OF reads_delivers [OF UINT32_codec]]]
       delivers_bind [OF TPM2B_ECC_POINT_delivers] delivers_bind [OF reads_delivers [OF UINT16_codec]]
       delivers_return)
    (simp_all add: EC_Ephemeral_Out_bounded_def)

lemma VerifySignature_Out_delivers: "delivers VerifySignature_Out_bounded (TSS_VerifySignature_Out_Unmarshal tag)"
  unfolding TSS_VerifySignature_Out_Unmarshal_def
  by (intro delivers_bind [OF delivers_when [OF reads_delivers [OF UINT32_codec]]]
       delivers_bind [OF TPMT_TK_VERIFIED_delivers] delivers_return)
    (simp_all add: VerifySignature_Out_bounded_def)

lemma Sign_Out_delivers: "delivers Sign_Out_bounded (TSS_Sign_Out_Unmarshal tag)"
  unfolding TSS_Sign_Out_Unmarshal_def
  by (intro delivers_bind [OF delivers_when [OF reads_delivers [OF UINT32_codec]]]
       delivers_bind [OF TPMT_SIGNATURE_delivers] delivers_return)
    (simp_all add: Sign_Out_bounded_def)

lemma PCR_Event_Out_delivers: "delivers PCR_Event_Out_bounded (TSS_PCR_Event_Out_Unmarshal tag)"
  unfolding TSS_PCR_Event_Out_Unmarshal_def
  by (intro delivers_bind [OF delivers_when [OF reads_delivers [OF UINT32_codec]]]
       delivers_bind [OF TPML_DIGEST_VALUES_delivers] delivers_return)
    (simp_all add: PCR_Event_Out_bounded_def)

lemma PCR_Read_Out_delivers: "delivers PCR_Read_Out_bounded (TSS_PCR_Read_Out_Unmarshal tag)"
  unfolding TSS_PCR_Read_Out_Unmarshal_def
  by (intro delivers_bind [OF delivers_when [OF reads_delivers [OF UINT32_codec]]]
       delivers_bind [OF reads_delivers [OF UINT32_codec]]
       delivers_bind [OF TPML_PCR_SELECTION_delivers] delivers_bind [OF TPML_DIGEST_delivers]
       delivers_return)
    (simp_all add: PCR_Read_Out_bounded_def)

lemma PCR_Allocate_Out_delivers: "delivers (\<lambda>_. True) (TSS_PCR_Allocate_Out_Unmarshal tag)"
  unfolding TSS_PCR_Allocate_Out_Unmarshal_def
  by (intro delivers_bind [OF delivers_when [OF reads_delivers [OF UINT32_codec]]]
       delivers_bind [OF reads_delivers [OF TPMI_YES_NO_codec]]
       delivers_bind [OF reads_delivers [OF UINT32_codec]] delivers_return)
    (simp_all)

section \<open>The parameter that an error names\<close>

text \<open>
  Remark. \<open>CertifyCreation_In_Unmarshal\<close> blames the wrong parameter: an error in \<open>qualifyingData\<close>, the first parameter, is
  reported with \<open>RC_CertifyCreation_creationHash\<close>, which stands for parameter 2, and not with the code \<open>0x140\<close> of
  parameter 1 that \<^verbatim>\<open>CertifyCreation_fp.h\<close> defines for it.
\<close>

theorem CertifyCreation_wrong_parameter:
  assumes "TPM2B_DATA_Unmarshal b = Fail rc b'"
  shows "CertifyCreation_In_Unmarshal handles b = Fail (rc + RC_CertifyCreation_creationHash) b' \<and>
    CertifyCreation_In_Unmarshal handles b \<noteq> Fail (rc + 0x140) b'"
  using assms by (simp add: CertifyCreation_In_Unmarshal_def u_bind_def u_add_rc_def)

theorem CertifyCreation_wrong_parameter_witness:
  "CertifyCreation_In_Unmarshal (\<lambda>_. 0) \<lparr>rest = [1], avail = 1\<rparr> = Fail 0x2DA \<lparr>rest = [1], avail = 1\<rparr>"
  using CertifyCreation_wrong_parameter [of "\<lparr>rest = [1], avail = 1\<rparr>" TPM_RC_INSUFFICIENT "\<lparr>rest = [1], avail = 1\<rparr>" "\<lambda>_. 0"]
  by code_simp

end
