(* ===== verification/Tss_Cmd_Policy.thy ===== *)
theory Tss_Cmd_Policy
  imports Tss_Bounds
begin

text \<open>
  The commands for policies: the parameter structures (\<^verbatim>\<open>tss2/*_fp.h\<close>), \<open>TSS_*_In_Marshal\<close> and
  \<open>TSS_*_Out_Unmarshal\<close> of \<^verbatim>\<open>libtss2/tssmarshal.c\<close>, and \<open>*_In_Unmarshal\<close> of \<^verbatim>\<open>libtss2/Commands.c\<close>, to which the
  handles of the command are passed in the array \<open>handles\<close>. A command is written in the form in which it is read; a
  response is read within its buffer and within its target.
\<close>

section \<open>Parameters\<close>

text \<open>What a command adds to the error of a parameter, and the structures.\<close>

abbreviation RC_PolicySigned_nonceTPM :: "32 word" where "RC_PolicySigned_nonceTPM \<equiv> 0x140"
abbreviation RC_PolicySigned_cpHashA :: "32 word" where "RC_PolicySigned_cpHashA \<equiv> 0x240"
abbreviation RC_PolicySigned_policyRef :: "32 word" where "RC_PolicySigned_policyRef \<equiv> 0x340"
abbreviation RC_PolicySigned_expiration :: "32 word" where "RC_PolicySigned_expiration \<equiv> 0x440"
abbreviation RC_PolicySigned_auth :: "32 word" where "RC_PolicySigned_auth \<equiv> 0x540"
abbreviation RC_PolicySecret_nonceTPM :: "32 word" where "RC_PolicySecret_nonceTPM \<equiv> 0x140"
abbreviation RC_PolicySecret_cpHashA :: "32 word" where "RC_PolicySecret_cpHashA \<equiv> 0x240"
abbreviation RC_PolicySecret_policyRef :: "32 word" where "RC_PolicySecret_policyRef \<equiv> 0x340"
abbreviation RC_PolicySecret_expiration :: "32 word" where "RC_PolicySecret_expiration \<equiv> 0x440"
abbreviation RC_PolicyTicket_timeout :: "32 word" where "RC_PolicyTicket_timeout \<equiv> 0x140"
abbreviation RC_PolicyTicket_cpHashA :: "32 word" where "RC_PolicyTicket_cpHashA \<equiv> 0x240"
abbreviation RC_PolicyTicket_policyRef :: "32 word" where "RC_PolicyTicket_policyRef \<equiv> 0x340"
abbreviation RC_PolicyTicket_authName :: "32 word" where "RC_PolicyTicket_authName \<equiv> 0x440"
abbreviation RC_PolicyTicket_ticket :: "32 word" where "RC_PolicyTicket_ticket \<equiv> 0x540"
abbreviation RC_PolicyOR_pHashList :: "32 word" where "RC_PolicyOR_pHashList \<equiv> 0x140"
abbreviation RC_PolicyPCR_pcrDigest :: "32 word" where "RC_PolicyPCR_pcrDigest \<equiv> 0x140"
abbreviation RC_PolicyPCR_pcrs :: "32 word" where "RC_PolicyPCR_pcrs \<equiv> 0x240"
abbreviation RC_PolicyLocality_locality :: "32 word" where "RC_PolicyLocality_locality \<equiv> 0x140"
abbreviation RC_PolicyNV_operandB :: "32 word" where "RC_PolicyNV_operandB \<equiv> 0x140"
abbreviation RC_PolicyNV_offset :: "32 word" where "RC_PolicyNV_offset \<equiv> 0x240"
abbreviation RC_PolicyNV_operation :: "32 word" where "RC_PolicyNV_operation \<equiv> 0x340"
abbreviation RC_PolicyCounterTimer_operandB :: "32 word" where "RC_PolicyCounterTimer_operandB \<equiv> 0x140"
abbreviation RC_PolicyCounterTimer_offset :: "32 word" where "RC_PolicyCounterTimer_offset \<equiv> 0x240"
abbreviation RC_PolicyCounterTimer_operation :: "32 word" where "RC_PolicyCounterTimer_operation \<equiv> 0x340"
abbreviation RC_PolicyCommandCode_code :: "32 word" where "RC_PolicyCommandCode_code \<equiv> 0x140"
abbreviation RC_PolicyCpHash_cpHashA :: "32 word" where "RC_PolicyCpHash_cpHashA \<equiv> 0x140"
abbreviation RC_PolicyNameHash_nameHash :: "32 word" where "RC_PolicyNameHash_nameHash \<equiv> 0x140"
abbreviation RC_PolicyDuplicationSelect_objectName :: "32 word" where "RC_PolicyDuplicationSelect_objectName \<equiv> 0x140"
abbreviation RC_PolicyDuplicationSelect_newParentName :: "32 word" where "RC_PolicyDuplicationSelect_newParentName \<equiv> 0x240"
abbreviation RC_PolicyDuplicationSelect_includeObject :: "32 word" where "RC_PolicyDuplicationSelect_includeObject \<equiv> 0x340"
abbreviation RC_PolicyAuthorize_approvedPolicy :: "32 word" where "RC_PolicyAuthorize_approvedPolicy \<equiv> 0x140"
abbreviation RC_PolicyAuthorize_policyRef :: "32 word" where "RC_PolicyAuthorize_policyRef \<equiv> 0x240"
abbreviation RC_PolicyAuthorize_keySign :: "32 word" where "RC_PolicyAuthorize_keySign \<equiv> 0x340"
abbreviation RC_PolicyAuthorize_checkTicket :: "32 word" where "RC_PolicyAuthorize_checkTicket \<equiv> 0x440"
abbreviation RC_PolicyNvWritten_writtenSet :: "32 word" where "RC_PolicyNvWritten_writtenSet \<equiv> 0x140"

record PolicySigned_In =
  PolicySigned_In_authObject :: "TPMI_DH_OBJECT"
  PolicySigned_In_policySession :: "TPMI_SH_POLICY"
  PolicySigned_In_nonceTPM :: "TPM2B_NONCE"
  PolicySigned_In_cpHashA :: "TPM2B_DIGEST"
  PolicySigned_In_policyRef :: "TPM2B_NONCE"
  PolicySigned_In_expiration :: "INT32"
  PolicySigned_In_auth :: "TPMT_SIGNATURE"

record PolicySigned_Out =
  PolicySigned_Out_timeout :: "TPM2B_TIMEOUT"
  PolicySigned_Out_policyTicket :: "TPMT_TK_AUTH"

record PolicySecret_In =
  PolicySecret_In_authHandle :: "TPMI_DH_ENTITY"
  PolicySecret_In_policySession :: "TPMI_SH_POLICY"
  PolicySecret_In_nonceTPM :: "TPM2B_NONCE"
  PolicySecret_In_cpHashA :: "TPM2B_DIGEST"
  PolicySecret_In_policyRef :: "TPM2B_NONCE"
  PolicySecret_In_expiration :: "INT32"

record PolicySecret_Out =
  PolicySecret_Out_timeout :: "TPM2B_TIMEOUT"
  PolicySecret_Out_policyTicket :: "TPMT_TK_AUTH"

record PolicyTicket_In =
  PolicyTicket_In_policySession :: "TPMI_SH_POLICY"
  PolicyTicket_In_timeout :: "TPM2B_TIMEOUT"
  PolicyTicket_In_cpHashA :: "TPM2B_DIGEST"
  PolicyTicket_In_policyRef :: "TPM2B_NONCE"
  PolicyTicket_In_authName :: "TPM2B_NAME"
  PolicyTicket_In_ticket :: "TPMT_TK_AUTH"

record PolicyOR_In =
  PolicyOR_In_policySession :: "TPMI_SH_POLICY"
  PolicyOR_In_pHashList :: "TPML_DIGEST"

record PolicyPCR_In =
  PolicyPCR_In_policySession :: "TPMI_SH_POLICY"
  PolicyPCR_In_pcrDigest :: "TPM2B_DIGEST"
  PolicyPCR_In_pcrs :: "TPML_PCR_SELECTION"

record PolicyLocality_In =
  PolicyLocality_In_policySession :: "TPMI_SH_POLICY"
  PolicyLocality_In_locality :: "TPMA_LOCALITY"

record PolicyNV_In =
  PolicyNV_In_authHandle :: "TPMI_RH_NV_AUTH"
  PolicyNV_In_nvIndex :: "TPMI_RH_NV_INDEX"
  PolicyNV_In_policySession :: "TPMI_SH_POLICY"
  PolicyNV_In_operandB :: "TPM2B_OPERAND"
  PolicyNV_In_offset :: "UINT16"
  PolicyNV_In_operation :: "TPM_EO"

record PolicyCounterTimer_In =
  PolicyCounterTimer_In_policySession :: "TPMI_SH_POLICY"
  PolicyCounterTimer_In_operandB :: "TPM2B_OPERAND"
  PolicyCounterTimer_In_offset :: "UINT16"
  PolicyCounterTimer_In_operation :: "TPM_EO"

record PolicyCommandCode_In =
  PolicyCommandCode_In_policySession :: "TPMI_SH_POLICY"
  PolicyCommandCode_In_code :: "TPM_CC"

record PolicyPhysicalPresence_In =
  PolicyPhysicalPresence_In_policySession :: "TPMI_SH_POLICY"

record PolicyCpHash_In =
  PolicyCpHash_In_policySession :: "TPMI_SH_POLICY"
  PolicyCpHash_In_cpHashA :: "TPM2B_DIGEST"

record PolicyNameHash_In =
  PolicyNameHash_In_policySession :: "TPMI_SH_POLICY"
  PolicyNameHash_In_nameHash :: "TPM2B_DIGEST"

record PolicyDuplicationSelect_In =
  PolicyDuplicationSelect_In_policySession :: "TPMI_SH_POLICY"
  PolicyDuplicationSelect_In_objectName :: "TPM2B_NAME"
  PolicyDuplicationSelect_In_newParentName :: "TPM2B_NAME"
  PolicyDuplicationSelect_In_includeObject :: "TPMI_YES_NO"

record PolicyAuthorize_In =
  PolicyAuthorize_In_policySession :: "TPMI_SH_POLICY"
  PolicyAuthorize_In_approvedPolicy :: "TPM2B_DIGEST"
  PolicyAuthorize_In_policyRef :: "TPM2B_NONCE"
  PolicyAuthorize_In_keySign :: "TPM2B_NAME"
  PolicyAuthorize_In_checkTicket :: "TPMT_TK_VERIFIED"

record PolicyAuthValue_In =
  PolicyAuthValue_In_policySession :: "TPMI_SH_POLICY"

record PolicyPassword_In =
  PolicyPassword_In_policySession :: "TPMI_SH_POLICY"

record PolicyGetDigest_In =
  PolicyGetDigest_In_policySession :: "TPMI_SH_POLICY"

record PolicyGetDigest_Out =
  PolicyGetDigest_Out_policyDigest :: "TPM2B_DIGEST"

record PolicyNvWritten_In =
  PolicyNvWritten_In_policySession :: "TPMI_SH_POLICY"
  PolicyNvWritten_In_writtenSet :: "TPMI_YES_NO"

section \<open>Marshalling commands\<close>

definition TSS_PolicySigned_In_Marshal :: "PolicySigned_In \<Rightarrow> marshal" where
  "TSS_PolicySigned_In_Marshal source =
     m_then (TSS_TPMI_DH_OBJECT_Marshal (PolicySigned_In_authObject source)) (
     m_then (TSS_TPMI_SH_POLICY_Marshal (PolicySigned_In_policySession source)) (
     m_then (TSS_TPM2B_NONCE_Marshal (PolicySigned_In_nonceTPM source)) (
     m_then (TSS_TPM2B_DIGEST_Marshal (PolicySigned_In_cpHashA source)) (
     m_then (TSS_TPM2B_NONCE_Marshal (PolicySigned_In_policyRef source)) (
     m_then (TSS_INT32_Marshal (PolicySigned_In_expiration source)) (
     TSS_TPMT_SIGNATURE_Marshal (PolicySigned_In_auth source)))))))"

definition TSS_PolicySecret_In_Marshal :: "PolicySecret_In \<Rightarrow> marshal" where
  "TSS_PolicySecret_In_Marshal source =
     m_then (TSS_TPMI_DH_ENTITY_Marshal (PolicySecret_In_authHandle source)) (
     m_then (TSS_TPMI_SH_POLICY_Marshal (PolicySecret_In_policySession source)) (
     m_then (TSS_TPM2B_NONCE_Marshal (PolicySecret_In_nonceTPM source)) (
     m_then (TSS_TPM2B_DIGEST_Marshal (PolicySecret_In_cpHashA source)) (
     m_then (TSS_TPM2B_NONCE_Marshal (PolicySecret_In_policyRef source)) (
     TSS_INT32_Marshal (PolicySecret_In_expiration source))))))"

definition TSS_PolicyTicket_In_Marshal :: "PolicyTicket_In \<Rightarrow> marshal" where
  "TSS_PolicyTicket_In_Marshal source =
     m_then (TSS_TPMI_SH_POLICY_Marshal (PolicyTicket_In_policySession source)) (
     m_then (TSS_TPM2B_TIMEOUT_Marshal (PolicyTicket_In_timeout source)) (
     m_then (TSS_TPM2B_DIGEST_Marshal (PolicyTicket_In_cpHashA source)) (
     m_then (TSS_TPM2B_NONCE_Marshal (PolicyTicket_In_policyRef source)) (
     m_then (TSS_TPM2B_NAME_Marshal (PolicyTicket_In_authName source)) (
     TSS_TPMT_TK_AUTH_Marshal (PolicyTicket_In_ticket source))))))"

definition TSS_PolicyOR_In_Marshal :: "PolicyOR_In \<Rightarrow> marshal" where
  "TSS_PolicyOR_In_Marshal source =
     m_then (TSS_TPMI_SH_POLICY_Marshal (PolicyOR_In_policySession source)) (
     TSS_TPML_DIGEST_Marshal (PolicyOR_In_pHashList source))"

definition TSS_PolicyPCR_In_Marshal :: "PolicyPCR_In \<Rightarrow> marshal" where
  "TSS_PolicyPCR_In_Marshal source =
     m_then (TSS_TPMI_SH_POLICY_Marshal (PolicyPCR_In_policySession source)) (
     m_then (TSS_TPM2B_DIGEST_Marshal (PolicyPCR_In_pcrDigest source)) (
     TSS_TPML_PCR_SELECTION_Marshal (PolicyPCR_In_pcrs source)))"

definition TSS_PolicyLocality_In_Marshal :: "PolicyLocality_In \<Rightarrow> marshal" where
  "TSS_PolicyLocality_In_Marshal source =
     m_then (TSS_TPMI_SH_POLICY_Marshal (PolicyLocality_In_policySession source)) (
     TSS_TPMA_LOCALITY_Marshal (PolicyLocality_In_locality source))"

definition TSS_PolicyNV_In_Marshal :: "PolicyNV_In \<Rightarrow> marshal" where
  "TSS_PolicyNV_In_Marshal source =
     m_then (TSS_TPMI_RH_NV_AUTH_Marshal (PolicyNV_In_authHandle source)) (
     m_then (TSS_TPMI_RH_NV_INDEX_Marshal (PolicyNV_In_nvIndex source)) (
     m_then (TSS_TPMI_SH_POLICY_Marshal (PolicyNV_In_policySession source)) (
     m_then (TSS_TPM2B_OPERAND_Marshal (PolicyNV_In_operandB source)) (
     m_then (TSS_UINT16_Marshal (PolicyNV_In_offset source)) (
     TSS_TPM_EO_Marshal (PolicyNV_In_operation source))))))"

definition TSS_PolicyCounterTimer_In_Marshal :: "PolicyCounterTimer_In \<Rightarrow> marshal" where
  "TSS_PolicyCounterTimer_In_Marshal source =
     m_then (TSS_TPMI_SH_POLICY_Marshal (PolicyCounterTimer_In_policySession source)) (
     m_then (TSS_TPM2B_OPERAND_Marshal (PolicyCounterTimer_In_operandB source)) (
     m_then (TSS_UINT16_Marshal (PolicyCounterTimer_In_offset source)) (
     TSS_TPM_EO_Marshal (PolicyCounterTimer_In_operation source))))"

definition TSS_PolicyCommandCode_In_Marshal :: "PolicyCommandCode_In \<Rightarrow> marshal" where
  "TSS_PolicyCommandCode_In_Marshal source =
     m_then (TSS_TPMI_SH_POLICY_Marshal (PolicyCommandCode_In_policySession source)) (
     TSS_TPM_CC_Marshal (PolicyCommandCode_In_code source))"

definition TSS_PolicyPhysicalPresence_In_Marshal :: "PolicyPhysicalPresence_In \<Rightarrow> marshal" where
  "TSS_PolicyPhysicalPresence_In_Marshal source = TSS_TPMI_SH_POLICY_Marshal (PolicyPhysicalPresence_In_policySession source)"

definition TSS_PolicyCpHash_In_Marshal :: "PolicyCpHash_In \<Rightarrow> marshal" where
  "TSS_PolicyCpHash_In_Marshal source =
     m_then (TSS_TPMI_SH_POLICY_Marshal (PolicyCpHash_In_policySession source)) (
     TSS_TPM2B_DIGEST_Marshal (PolicyCpHash_In_cpHashA source))"

definition TSS_PolicyNameHash_In_Marshal :: "PolicyNameHash_In \<Rightarrow> marshal" where
  "TSS_PolicyNameHash_In_Marshal source =
     m_then (TSS_TPMI_SH_POLICY_Marshal (PolicyNameHash_In_policySession source)) (
     TSS_TPM2B_DIGEST_Marshal (PolicyNameHash_In_nameHash source))"

definition TSS_PolicyDuplicationSelect_In_Marshal :: "PolicyDuplicationSelect_In \<Rightarrow> marshal" where
  "TSS_PolicyDuplicationSelect_In_Marshal source =
     m_then (TSS_TPMI_SH_POLICY_Marshal (PolicyDuplicationSelect_In_policySession source)) (
     m_then (TSS_TPM2B_NAME_Marshal (PolicyDuplicationSelect_In_objectName source)) (
     m_then (TSS_TPM2B_NAME_Marshal (PolicyDuplicationSelect_In_newParentName source)) (
     TSS_TPMI_YES_NO_Marshal (PolicyDuplicationSelect_In_includeObject source))))"

definition TSS_PolicyAuthorize_In_Marshal :: "PolicyAuthorize_In \<Rightarrow> marshal" where
  "TSS_PolicyAuthorize_In_Marshal source =
     m_then (TSS_TPMI_SH_POLICY_Marshal (PolicyAuthorize_In_policySession source)) (
     m_then (TSS_TPM2B_DIGEST_Marshal (PolicyAuthorize_In_approvedPolicy source)) (
     m_then (TSS_TPM2B_NONCE_Marshal (PolicyAuthorize_In_policyRef source)) (
     m_then (TSS_TPM2B_NAME_Marshal (PolicyAuthorize_In_keySign source)) (
     TSS_TPMT_TK_VERIFIED_Marshal (PolicyAuthorize_In_checkTicket source)))))"

definition TSS_PolicyAuthValue_In_Marshal :: "PolicyAuthValue_In \<Rightarrow> marshal" where
  "TSS_PolicyAuthValue_In_Marshal source = TSS_TPMI_SH_POLICY_Marshal (PolicyAuthValue_In_policySession source)"

definition TSS_PolicyPassword_In_Marshal :: "PolicyPassword_In \<Rightarrow> marshal" where
  "TSS_PolicyPassword_In_Marshal source = TSS_TPMI_SH_POLICY_Marshal (PolicyPassword_In_policySession source)"

definition TSS_PolicyGetDigest_In_Marshal :: "PolicyGetDigest_In \<Rightarrow> marshal" where
  "TSS_PolicyGetDigest_In_Marshal source = TSS_TPMI_SH_POLICY_Marshal (PolicyGetDigest_In_policySession source)"

definition TSS_PolicyNvWritten_In_Marshal :: "PolicyNvWritten_In \<Rightarrow> marshal" where
  "TSS_PolicyNvWritten_In_Marshal source =
     m_then (TSS_TPMI_SH_POLICY_Marshal (PolicyNvWritten_In_policySession source)) (
     TSS_TPMI_YES_NO_Marshal (PolicyNvWritten_In_writtenSet source))"

section \<open>Unmarshalling commands\<close>

definition PolicySigned_In_Unmarshal :: "(nat \<Rightarrow> TPM_HANDLE) \<Rightarrow> PolicySigned_In unmarshal" where
  "PolicySigned_In_Unmarshal handles =
     u_bind (u_add_rc RC_PolicySigned_nonceTPM TPM2B_NONCE_Unmarshal) (\<lambda>nonceTPM.
     u_bind (u_add_rc RC_PolicySigned_cpHashA TPM2B_DIGEST_Unmarshal) (\<lambda>cpHashA.
     u_bind (u_add_rc RC_PolicySigned_policyRef TPM2B_NONCE_Unmarshal) (\<lambda>policyRef.
     u_bind (u_add_rc RC_PolicySigned_expiration INT32_Unmarshal) (\<lambda>expiration.
     u_bind (u_add_rc RC_PolicySigned_auth (TPMT_SIGNATURE_Unmarshal False)) (\<lambda>auth.
     u_return \<lparr>PolicySigned_In_authObject = handles 0, PolicySigned_In_policySession = handles 1,
       PolicySigned_In_nonceTPM = nonceTPM, PolicySigned_In_cpHashA = cpHashA,
       PolicySigned_In_policyRef = policyRef, PolicySigned_In_expiration = expiration,
       PolicySigned_In_auth = auth\<rparr>)))))"

definition PolicySecret_In_Unmarshal :: "(nat \<Rightarrow> TPM_HANDLE) \<Rightarrow> PolicySecret_In unmarshal" where
  "PolicySecret_In_Unmarshal handles =
     u_bind (u_add_rc RC_PolicySecret_nonceTPM TPM2B_NONCE_Unmarshal) (\<lambda>nonceTPM.
     u_bind (u_add_rc RC_PolicySecret_cpHashA TPM2B_DIGEST_Unmarshal) (\<lambda>cpHashA.
     u_bind (u_add_rc RC_PolicySecret_policyRef TPM2B_NONCE_Unmarshal) (\<lambda>policyRef.
     u_bind (u_add_rc RC_PolicySecret_expiration INT32_Unmarshal) (\<lambda>expiration.
     u_return \<lparr>PolicySecret_In_authHandle = handles 0, PolicySecret_In_policySession = handles 1,
       PolicySecret_In_nonceTPM = nonceTPM, PolicySecret_In_cpHashA = cpHashA,
       PolicySecret_In_policyRef = policyRef, PolicySecret_In_expiration = expiration\<rparr>))))"

definition PolicyTicket_In_Unmarshal :: "(nat \<Rightarrow> TPM_HANDLE) \<Rightarrow> PolicyTicket_In unmarshal" where
  "PolicyTicket_In_Unmarshal handles =
     u_bind (u_add_rc RC_PolicyTicket_timeout TPM2B_TIMEOUT_Unmarshal) (\<lambda>timeout.
     u_bind (u_add_rc RC_PolicyTicket_cpHashA TPM2B_DIGEST_Unmarshal) (\<lambda>cpHashA.
     u_bind (u_add_rc RC_PolicyTicket_policyRef TPM2B_NONCE_Unmarshal) (\<lambda>policyRef.
     u_bind (u_add_rc RC_PolicyTicket_authName TPM2B_NAME_Unmarshal) (\<lambda>authName.
     u_bind (u_add_rc RC_PolicyTicket_ticket TPMT_TK_AUTH_Unmarshal) (\<lambda>ticket.
     u_return \<lparr>PolicyTicket_In_policySession = handles 0, PolicyTicket_In_timeout = timeout,
       PolicyTicket_In_cpHashA = cpHashA, PolicyTicket_In_policyRef = policyRef,
       PolicyTicket_In_authName = authName, PolicyTicket_In_ticket = ticket\<rparr>)))))"

definition PolicyOR_In_Unmarshal :: "(nat \<Rightarrow> TPM_HANDLE) \<Rightarrow> PolicyOR_In unmarshal" where
  "PolicyOR_In_Unmarshal handles =
     u_bind (u_add_rc RC_PolicyOR_pHashList (TPML_DIGEST_Unmarshal 2)) (\<lambda>pHashList.
     u_return \<lparr>PolicyOR_In_policySession = handles 0, PolicyOR_In_pHashList = pHashList\<rparr>)"

definition PolicyPCR_In_Unmarshal :: "(nat \<Rightarrow> TPM_HANDLE) \<Rightarrow> PolicyPCR_In unmarshal" where
  "PolicyPCR_In_Unmarshal handles =
     u_bind (u_add_rc RC_PolicyPCR_pcrDigest TPM2B_DIGEST_Unmarshal) (\<lambda>pcrDigest.
     u_bind (u_add_rc RC_PolicyPCR_pcrs TPML_PCR_SELECTION_Unmarshal) (\<lambda>pcrs.
     u_return \<lparr>PolicyPCR_In_policySession = handles 0, PolicyPCR_In_pcrDigest = pcrDigest,
       PolicyPCR_In_pcrs = pcrs\<rparr>))"

definition PolicyLocality_In_Unmarshal :: "(nat \<Rightarrow> TPM_HANDLE) \<Rightarrow> PolicyLocality_In unmarshal" where
  "PolicyLocality_In_Unmarshal handles =
     u_bind (u_add_rc RC_PolicyLocality_locality TPMA_LOCALITY_Unmarshal) (\<lambda>locality.
     u_return \<lparr>PolicyLocality_In_policySession = handles 0,
       PolicyLocality_In_locality = locality\<rparr>)"

definition PolicyNV_In_Unmarshal :: "(nat \<Rightarrow> TPM_HANDLE) \<Rightarrow> PolicyNV_In unmarshal" where
  "PolicyNV_In_Unmarshal handles =
     u_bind (u_add_rc RC_PolicyNV_operandB TPM2B_OPERAND_Unmarshal) (\<lambda>operandB.
     u_bind (u_add_rc RC_PolicyNV_offset UINT16_Unmarshal) (\<lambda>offset.
     u_bind (u_add_rc RC_PolicyNV_operation TPM_EO_Unmarshal) (\<lambda>operation.
     u_return \<lparr>PolicyNV_In_authHandle = handles 0, PolicyNV_In_nvIndex = handles 1,
       PolicyNV_In_policySession = handles 2, PolicyNV_In_operandB = operandB, PolicyNV_In_offset = offset,
       PolicyNV_In_operation = operation\<rparr>)))"

definition PolicyCounterTimer_In_Unmarshal :: "(nat \<Rightarrow> TPM_HANDLE) \<Rightarrow> PolicyCounterTimer_In unmarshal" where
  "PolicyCounterTimer_In_Unmarshal handles =
     u_bind (u_add_rc RC_PolicyCounterTimer_operandB TPM2B_OPERAND_Unmarshal) (\<lambda>operandB.
     u_bind (u_add_rc RC_PolicyCounterTimer_offset UINT16_Unmarshal) (\<lambda>offset.
     u_bind (u_add_rc RC_PolicyCounterTimer_operation TPM_EO_Unmarshal) (\<lambda>operation.
     u_return \<lparr>PolicyCounterTimer_In_policySession = handles 0,
       PolicyCounterTimer_In_operandB = operandB, PolicyCounterTimer_In_offset = offset,
       PolicyCounterTimer_In_operation = operation\<rparr>)))"

definition PolicyCommandCode_In_Unmarshal :: "(nat \<Rightarrow> TPM_HANDLE) \<Rightarrow> PolicyCommandCode_In unmarshal" where
  "PolicyCommandCode_In_Unmarshal handles =
     u_bind (u_add_rc RC_PolicyCommandCode_code TPM_CC_Unmarshal) (\<lambda>code.
     u_return \<lparr>PolicyCommandCode_In_policySession = handles 0,
       PolicyCommandCode_In_code = code\<rparr>)"

definition PolicyPhysicalPresence_In_Unmarshal :: "(nat \<Rightarrow> TPM_HANDLE) \<Rightarrow> PolicyPhysicalPresence_In unmarshal" where
  "PolicyPhysicalPresence_In_Unmarshal handles =
     u_return \<lparr>PolicyPhysicalPresence_In_policySession = handles 0\<rparr>"

definition PolicyCpHash_In_Unmarshal :: "(nat \<Rightarrow> TPM_HANDLE) \<Rightarrow> PolicyCpHash_In unmarshal" where
  "PolicyCpHash_In_Unmarshal handles =
     u_bind (u_add_rc RC_PolicyCpHash_cpHashA TPM2B_DIGEST_Unmarshal) (\<lambda>cpHashA.
     u_return \<lparr>PolicyCpHash_In_policySession = handles 0, PolicyCpHash_In_cpHashA = cpHashA\<rparr>)"

definition PolicyNameHash_In_Unmarshal :: "(nat \<Rightarrow> TPM_HANDLE) \<Rightarrow> PolicyNameHash_In unmarshal" where
  "PolicyNameHash_In_Unmarshal handles =
     u_bind (u_add_rc RC_PolicyNameHash_nameHash TPM2B_DIGEST_Unmarshal) (\<lambda>nameHash.
     u_return \<lparr>PolicyNameHash_In_policySession = handles 0,
       PolicyNameHash_In_nameHash = nameHash\<rparr>)"

definition PolicyDuplicationSelect_In_Unmarshal :: "(nat \<Rightarrow> TPM_HANDLE) \<Rightarrow> PolicyDuplicationSelect_In unmarshal" where
  "PolicyDuplicationSelect_In_Unmarshal handles =
     u_bind (u_add_rc RC_PolicyDuplicationSelect_objectName TPM2B_NAME_Unmarshal) (\<lambda>objectName.
     u_bind (u_add_rc RC_PolicyDuplicationSelect_newParentName TPM2B_NAME_Unmarshal) (\<lambda>newParentName.
     u_bind (u_add_rc RC_PolicyDuplicationSelect_includeObject TPMI_YES_NO_Unmarshal) (\<lambda>includeObject.
     u_return \<lparr>PolicyDuplicationSelect_In_policySession = handles 0,
       PolicyDuplicationSelect_In_objectName = objectName,
       PolicyDuplicationSelect_In_newParentName = newParentName,
       PolicyDuplicationSelect_In_includeObject = includeObject\<rparr>)))"

definition PolicyAuthorize_In_Unmarshal :: "(nat \<Rightarrow> TPM_HANDLE) \<Rightarrow> PolicyAuthorize_In unmarshal" where
  "PolicyAuthorize_In_Unmarshal handles =
     u_bind (u_add_rc RC_PolicyAuthorize_approvedPolicy TPM2B_DIGEST_Unmarshal) (\<lambda>approvedPolicy.
     u_bind (u_add_rc RC_PolicyAuthorize_policyRef TPM2B_NONCE_Unmarshal) (\<lambda>policyRef.
     u_bind (u_add_rc RC_PolicyAuthorize_keySign TPM2B_NAME_Unmarshal) (\<lambda>keySign.
     u_bind (u_add_rc RC_PolicyAuthorize_checkTicket TPMT_TK_VERIFIED_Unmarshal) (\<lambda>checkTicket.
     u_return \<lparr>PolicyAuthorize_In_policySession = handles 0,
       PolicyAuthorize_In_approvedPolicy = approvedPolicy, PolicyAuthorize_In_policyRef = policyRef,
       PolicyAuthorize_In_keySign = keySign, PolicyAuthorize_In_checkTicket = checkTicket\<rparr>))))"

definition PolicyAuthValue_In_Unmarshal :: "(nat \<Rightarrow> TPM_HANDLE) \<Rightarrow> PolicyAuthValue_In unmarshal" where
  "PolicyAuthValue_In_Unmarshal handles =
     u_return \<lparr>PolicyAuthValue_In_policySession = handles 0\<rparr>"

definition PolicyPassword_In_Unmarshal :: "(nat \<Rightarrow> TPM_HANDLE) \<Rightarrow> PolicyPassword_In unmarshal" where
  "PolicyPassword_In_Unmarshal handles =
     u_return \<lparr>PolicyPassword_In_policySession = handles 0\<rparr>"

definition PolicyGetDigest_In_Unmarshal :: "(nat \<Rightarrow> TPM_HANDLE) \<Rightarrow> PolicyGetDigest_In unmarshal" where
  "PolicyGetDigest_In_Unmarshal handles =
     u_return \<lparr>PolicyGetDigest_In_policySession = handles 0\<rparr>"

definition PolicyNvWritten_In_Unmarshal :: "(nat \<Rightarrow> TPM_HANDLE) \<Rightarrow> PolicyNvWritten_In unmarshal" where
  "PolicyNvWritten_In_Unmarshal handles =
     u_bind (u_add_rc RC_PolicyNvWritten_writtenSet TPMI_YES_NO_Unmarshal) (\<lambda>writtenSet.
     u_return \<lparr>PolicyNvWritten_In_policySession = handles 0,
       PolicyNvWritten_In_writtenSet = writtenSet\<rparr>)"

section \<open>Unmarshalling responses\<close>

definition TSS_PolicySigned_Out_Unmarshal :: "TPM_ST \<Rightarrow> PolicySigned_Out unmarshal" where
  "TSS_PolicySigned_Out_Unmarshal tag =
     u_bind (u_when (tag = TPM_ST_SESSIONS) UINT32_Unmarshal) (\<lambda>_.
     u_bind TPM2B_TIMEOUT_Unmarshal (\<lambda>timeout.
     u_bind TPMT_TK_AUTH_Unmarshal (\<lambda>policyTicket.
     u_return \<lparr>PolicySigned_Out_timeout = timeout,
       PolicySigned_Out_policyTicket = policyTicket\<rparr>)))"

definition TSS_PolicySecret_Out_Unmarshal :: "TPM_ST \<Rightarrow> PolicySecret_Out unmarshal" where
  "TSS_PolicySecret_Out_Unmarshal tag =
     u_bind (u_when (tag = TPM_ST_SESSIONS) UINT32_Unmarshal) (\<lambda>_.
     u_bind TPM2B_TIMEOUT_Unmarshal (\<lambda>timeout.
     u_bind TPMT_TK_AUTH_Unmarshal (\<lambda>policyTicket.
     u_return \<lparr>PolicySecret_Out_timeout = timeout,
       PolicySecret_Out_policyTicket = policyTicket\<rparr>)))"

definition TSS_PolicyGetDigest_Out_Unmarshal :: "TPM_ST \<Rightarrow> PolicyGetDigest_Out unmarshal" where
  "TSS_PolicyGetDigest_Out_Unmarshal tag =
     u_bind (u_when (tag = TPM_ST_SESSIONS) UINT32_Unmarshal) (\<lambda>_.
     u_bind TPM2B_DIGEST_Unmarshal (\<lambda>policyDigest.
     u_return \<lparr>PolicyGetDigest_Out_policyDigest = policyDigest\<rparr>))"

section \<open>Commands are read as they are written\<close>

lemma PolicySigned_In_codec: "reads_e param_error k (be32 (handles 0) @ be32 (handles 1)) (PolicySigned_In_Unmarshal handles) TSS_PolicySigned_In_Marshal"
  unfolding PolicySigned_In_Unmarshal_def TSS_PolicySigned_In_Marshal_def
  by (intro reads_bind [OF reads_add_rc [OF TPM2B_NONCE_codec]]
       reads_bind [OF reads_add_rc [OF TPM2B_DIGEST_codec]]
       reads_bind [OF reads_add_rc [OF INT32_codec]]
       reads_bind [OF reads_add_rc [OF TPMT_SIGNATURE_codec]] reads_return)
    (simp_all add: emits_then handle_emits)

lemma PolicySecret_In_codec: "reads_e param_error k (be32 (handles 0) @ be32 (handles 1)) (PolicySecret_In_Unmarshal handles) TSS_PolicySecret_In_Marshal"
  unfolding PolicySecret_In_Unmarshal_def TSS_PolicySecret_In_Marshal_def
  by (intro reads_bind [OF reads_add_rc [OF TPM2B_NONCE_codec]]
       reads_bind [OF reads_add_rc [OF TPM2B_DIGEST_codec]]
       reads_bind [OF reads_add_rc [OF INT32_codec]] reads_return)
    (simp_all add: emits_then handle_emits)

lemma PolicyTicket_In_codec: "reads_e param_error k (be32 (handles 0)) (PolicyTicket_In_Unmarshal handles) TSS_PolicyTicket_In_Marshal"
  unfolding PolicyTicket_In_Unmarshal_def TSS_PolicyTicket_In_Marshal_def
  by (intro reads_bind [OF reads_add_rc [OF TPM2B_TIMEOUT_codec]]
       reads_bind [OF reads_add_rc [OF TPM2B_DIGEST_codec]]
       reads_bind [OF reads_add_rc [OF TPM2B_NONCE_codec]]
       reads_bind [OF reads_add_rc [OF TPM2B_NAME_codec]]
       reads_bind [OF reads_add_rc [OF TPMT_TK_AUTH_codec]] reads_return)
    (simp_all add: emits_then handle_emits)

lemma PolicyOR_In_codec: "reads_e param_error k (be32 (handles 0)) (PolicyOR_In_Unmarshal handles) TSS_PolicyOR_In_Marshal"
  unfolding PolicyOR_In_Unmarshal_def TSS_PolicyOR_In_Marshal_def
  by (intro reads_bind [OF reads_add_rc [OF TPML_DIGEST_codec]] reads_return)
    (simp_all add: emits_then handle_emits)

lemma PolicyPCR_In_codec: "reads_e param_error k (be32 (handles 0)) (PolicyPCR_In_Unmarshal handles) TSS_PolicyPCR_In_Marshal"
  unfolding PolicyPCR_In_Unmarshal_def TSS_PolicyPCR_In_Marshal_def
  by (intro reads_bind [OF reads_add_rc [OF TPM2B_DIGEST_codec]]
       reads_bind [OF reads_add_rc [OF TPML_PCR_SELECTION_codec]] reads_return)
    (simp_all add: emits_then handle_emits)

lemma PolicyLocality_In_codec: "reads_e param_error k (be32 (handles 0)) (PolicyLocality_In_Unmarshal handles) TSS_PolicyLocality_In_Marshal"
  unfolding PolicyLocality_In_Unmarshal_def TSS_PolicyLocality_In_Marshal_def
  by (intro reads_bind [OF reads_add_rc [OF TPMA_LOCALITY_codec]] reads_return)
    (simp_all add: emits_then handle_emits)

lemma PolicyNV_In_codec: "reads_e param_error k (be32 (handles 0) @ be32 (handles 1) @ be32 (handles 2)) (PolicyNV_In_Unmarshal handles) TSS_PolicyNV_In_Marshal"
  unfolding PolicyNV_In_Unmarshal_def TSS_PolicyNV_In_Marshal_def
  by (intro reads_bind [OF reads_add_rc [OF TPM2B_OPERAND_codec]]
       reads_bind [OF reads_add_rc [OF UINT16_codec]] reads_bind [OF reads_add_rc [OF TPM_EO_codec]]
       reads_return)
    (simp_all add: emits_then handle_emits)

lemma PolicyCounterTimer_In_codec: "reads_e param_error k (be32 (handles 0)) (PolicyCounterTimer_In_Unmarshal handles) TSS_PolicyCounterTimer_In_Marshal"
  unfolding PolicyCounterTimer_In_Unmarshal_def TSS_PolicyCounterTimer_In_Marshal_def
  by (intro reads_bind [OF reads_add_rc [OF TPM2B_OPERAND_codec]]
       reads_bind [OF reads_add_rc [OF UINT16_codec]] reads_bind [OF reads_add_rc [OF TPM_EO_codec]]
       reads_return)
    (simp_all add: emits_then handle_emits)

lemma PolicyCommandCode_In_codec: "reads_e param_error k (be32 (handles 0)) (PolicyCommandCode_In_Unmarshal handles) TSS_PolicyCommandCode_In_Marshal"
  unfolding PolicyCommandCode_In_Unmarshal_def TSS_PolicyCommandCode_In_Marshal_def
  by (intro reads_bind [OF reads_add_rc [OF TPM_CC_codec]] reads_return)
    (simp_all add: emits_then handle_emits)

lemma PolicyPhysicalPresence_In_codec: "reads_e param_error k (be32 (handles 0)) (PolicyPhysicalPresence_In_Unmarshal handles) TSS_PolicyPhysicalPresence_In_Marshal"
  unfolding PolicyPhysicalPresence_In_Unmarshal_def TSS_PolicyPhysicalPresence_In_Marshal_def
  by (intro reads_return)
    (simp_all add: emits_then handle_emits)

lemma PolicyCpHash_In_codec: "reads_e param_error k (be32 (handles 0)) (PolicyCpHash_In_Unmarshal handles) TSS_PolicyCpHash_In_Marshal"
  unfolding PolicyCpHash_In_Unmarshal_def TSS_PolicyCpHash_In_Marshal_def
  by (intro reads_bind [OF reads_add_rc [OF TPM2B_DIGEST_codec]] reads_return)
    (simp_all add: emits_then handle_emits)

lemma PolicyNameHash_In_codec: "reads_e param_error k (be32 (handles 0)) (PolicyNameHash_In_Unmarshal handles) TSS_PolicyNameHash_In_Marshal"
  unfolding PolicyNameHash_In_Unmarshal_def TSS_PolicyNameHash_In_Marshal_def
  by (intro reads_bind [OF reads_add_rc [OF TPM2B_DIGEST_codec]] reads_return)
    (simp_all add: emits_then handle_emits)

lemma PolicyDuplicationSelect_In_codec: "reads_e param_error k (be32 (handles 0)) (PolicyDuplicationSelect_In_Unmarshal handles) TSS_PolicyDuplicationSelect_In_Marshal"
  unfolding PolicyDuplicationSelect_In_Unmarshal_def TSS_PolicyDuplicationSelect_In_Marshal_def
  by (intro reads_bind [OF reads_add_rc [OF TPM2B_NAME_codec]]
       reads_bind [OF reads_add_rc [OF TPMI_YES_NO_codec]] reads_return)
    (simp_all add: emits_then handle_emits)

lemma PolicyAuthorize_In_codec: "reads_e param_error k (be32 (handles 0)) (PolicyAuthorize_In_Unmarshal handles) TSS_PolicyAuthorize_In_Marshal"
  unfolding PolicyAuthorize_In_Unmarshal_def TSS_PolicyAuthorize_In_Marshal_def
  by (intro reads_bind [OF reads_add_rc [OF TPM2B_DIGEST_codec]]
       reads_bind [OF reads_add_rc [OF TPM2B_NONCE_codec]]
       reads_bind [OF reads_add_rc [OF TPM2B_NAME_codec]]
       reads_bind [OF reads_add_rc [OF TPMT_TK_VERIFIED_codec]] reads_return)
    (simp_all add: emits_then handle_emits)

lemma PolicyAuthValue_In_codec: "reads_e param_error k (be32 (handles 0)) (PolicyAuthValue_In_Unmarshal handles) TSS_PolicyAuthValue_In_Marshal"
  unfolding PolicyAuthValue_In_Unmarshal_def TSS_PolicyAuthValue_In_Marshal_def
  by (intro reads_return)
    (simp_all add: emits_then handle_emits)

lemma PolicyPassword_In_codec: "reads_e param_error k (be32 (handles 0)) (PolicyPassword_In_Unmarshal handles) TSS_PolicyPassword_In_Marshal"
  unfolding PolicyPassword_In_Unmarshal_def TSS_PolicyPassword_In_Marshal_def
  by (intro reads_return)
    (simp_all add: emits_then handle_emits)

lemma PolicyGetDigest_In_codec: "reads_e param_error k (be32 (handles 0)) (PolicyGetDigest_In_Unmarshal handles) TSS_PolicyGetDigest_In_Marshal"
  unfolding PolicyGetDigest_In_Unmarshal_def TSS_PolicyGetDigest_In_Marshal_def
  by (intro reads_return)
    (simp_all add: emits_then handle_emits)

lemma PolicyNvWritten_In_codec: "reads_e param_error k (be32 (handles 0)) (PolicyNvWritten_In_Unmarshal handles) TSS_PolicyNvWritten_In_Marshal"
  unfolding PolicyNvWritten_In_Unmarshal_def TSS_PolicyNvWritten_In_Marshal_def
  by (intro reads_bind [OF reads_add_rc [OF TPMI_YES_NO_codec]] reads_return)
    (simp_all add: emits_then handle_emits)

section \<open>Responses stay within their target\<close>

definition PolicySigned_Out_bounded :: "PolicySigned_Out \<Rightarrow> bool" where
  "PolicySigned_Out_bounded v \<longleftrightarrow> TPM2B_DIGEST_bounded (PolicySigned_Out_timeout v)
    \<and> TPMT_TK_AUTH_bounded (PolicySigned_Out_policyTicket v)"

definition PolicySecret_Out_bounded :: "PolicySecret_Out \<Rightarrow> bool" where
  "PolicySecret_Out_bounded v \<longleftrightarrow> TPM2B_DIGEST_bounded (PolicySecret_Out_timeout v)
    \<and> TPMT_TK_AUTH_bounded (PolicySecret_Out_policyTicket v)"

definition PolicyGetDigest_Out_bounded :: "PolicyGetDigest_Out \<Rightarrow> bool" where
  "PolicyGetDigest_Out_bounded v \<longleftrightarrow> TPM2B_DIGEST_bounded (PolicyGetDigest_Out_policyDigest v)"

lemma PolicySigned_Out_delivers: "delivers PolicySigned_Out_bounded (TSS_PolicySigned_Out_Unmarshal tag)"
  unfolding TSS_PolicySigned_Out_Unmarshal_def
  by (intro delivers_bind [OF delivers_when [OF reads_delivers [OF UINT32_codec]]]
       delivers_bind [OF TPM2B_TIMEOUT_delivers] delivers_bind [OF TPMT_TK_AUTH_delivers]
       delivers_return)
    (simp_all add: PolicySigned_Out_bounded_def)

lemma PolicySecret_Out_delivers: "delivers PolicySecret_Out_bounded (TSS_PolicySecret_Out_Unmarshal tag)"
  unfolding TSS_PolicySecret_Out_Unmarshal_def
  by (intro delivers_bind [OF delivers_when [OF reads_delivers [OF UINT32_codec]]]
       delivers_bind [OF TPM2B_TIMEOUT_delivers] delivers_bind [OF TPMT_TK_AUTH_delivers]
       delivers_return)
    (simp_all add: PolicySecret_Out_bounded_def)

lemma PolicyGetDigest_Out_delivers: "delivers PolicyGetDigest_Out_bounded (TSS_PolicyGetDigest_Out_Unmarshal tag)"
  unfolding TSS_PolicyGetDigest_Out_Unmarshal_def
  by (intro delivers_bind [OF delivers_when [OF reads_delivers [OF UINT32_codec]]]
       delivers_bind [OF TPM2B_DIGEST_delivers] delivers_return)
    (simp_all add: PolicyGetDigest_Out_bounded_def)

end
