(* ===== verification/Tss_Cmd_Hierarchy.thy ===== *)
theory Tss_Cmd_Hierarchy
  imports Tss_Bounds
begin

text \<open>
  The commands for hierarchies, dictionary attacks, contexts and the clock: the parameter structures (\<^verbatim>\<open>tss2/*_fp.h\<close>), \<open>TSS_*_In_Marshal\<close> and
  \<open>TSS_*_Out_Unmarshal\<close> of \<^verbatim>\<open>libtss2/tssmarshal.c\<close>, and \<open>*_In_Unmarshal\<close> of \<^verbatim>\<open>libtss2/Commands.c\<close>, to which the
  handles of the command are passed in the array \<open>handles\<close>. A command is written in the form in which it is read; a
  response is read within its buffer and within its target.
\<close>

section \<open>Parameters\<close>

text \<open>What a command adds to the error of a parameter, and the structures.\<close>

abbreviation RC_CreatePrimary_inSensitive :: "32 word" where "RC_CreatePrimary_inSensitive \<equiv> 0x140"
abbreviation RC_CreatePrimary_inPublic :: "32 word" where "RC_CreatePrimary_inPublic \<equiv> 0x240"
abbreviation RC_CreatePrimary_outsideInfo :: "32 word" where "RC_CreatePrimary_outsideInfo \<equiv> 0x340"
abbreviation RC_CreatePrimary_creationPCR :: "32 word" where "RC_CreatePrimary_creationPCR \<equiv> 0x440"
abbreviation RC_HierarchyControl_enable :: "32 word" where "RC_HierarchyControl_enable \<equiv> 0x140"
abbreviation RC_HierarchyControl_state :: "32 word" where "RC_HierarchyControl_state \<equiv> 0x240"
abbreviation RC_SetPrimaryPolicy_authPolicy :: "32 word" where "RC_SetPrimaryPolicy_authPolicy \<equiv> 0x140"
abbreviation RC_SetPrimaryPolicy_hashAlg :: "32 word" where "RC_SetPrimaryPolicy_hashAlg \<equiv> 0x240"
abbreviation RC_ClearControl_disable :: "32 word" where "RC_ClearControl_disable \<equiv> 0x140"
abbreviation RC_HierarchyChangeAuth_newAuth :: "32 word" where "RC_HierarchyChangeAuth_newAuth \<equiv> 0x240"
abbreviation RC_DictionaryAttackParameters_newMaxTries :: "32 word" where "RC_DictionaryAttackParameters_newMaxTries \<equiv> 0x140"
abbreviation RC_DictionaryAttackParameters_newRecoveryTime :: "32 word" where "RC_DictionaryAttackParameters_newRecoveryTime \<equiv> 0x240"
abbreviation RC_DictionaryAttackParameters_lockoutRecovery :: "32 word" where "RC_DictionaryAttackParameters_lockoutRecovery \<equiv> 0x340"
abbreviation RC_PP_Commands_setList :: "32 word" where "RC_PP_Commands_setList \<equiv> 0x140"
abbreviation RC_PP_Commands_clearList :: "32 word" where "RC_PP_Commands_clearList \<equiv> 0x240"
abbreviation RC_SetAlgorithmSet_algorithmSet :: "32 word" where "RC_SetAlgorithmSet_algorithmSet \<equiv> 0x140"
abbreviation RC_ContextLoad_context :: "32 word" where "RC_ContextLoad_context \<equiv> 0x140"
abbreviation RC_FlushContext_flushHandle :: "32 word" where "RC_FlushContext_flushHandle \<equiv> 0x140"
abbreviation RC_EvictControl_persistentHandle :: "32 word" where "RC_EvictControl_persistentHandle \<equiv> 0x140"
abbreviation RC_ClockSet_newTime :: "32 word" where "RC_ClockSet_newTime \<equiv> 0x140"
abbreviation RC_ClockRateAdjust_rateAdjust :: "32 word" where "RC_ClockRateAdjust_rateAdjust \<equiv> 0x140"

record CreatePrimary_In =
  CreatePrimary_In_primaryHandle :: "TPMI_RH_HIERARCHY"
  CreatePrimary_In_inSensitive :: "TPM2B_SENSITIVE_CREATE"
  CreatePrimary_In_inPublic :: "TPM2B_PUBLIC"
  CreatePrimary_In_outsideInfo :: "TPM2B_DATA"
  CreatePrimary_In_creationPCR :: "TPML_PCR_SELECTION"

record CreatePrimary_Out =
  CreatePrimary_Out_objectHandle :: "TPM_HANDLE"
  CreatePrimary_Out_outPublic :: "TPM2B_PUBLIC"
  CreatePrimary_Out_creationData :: "TPM2B_CREATION_DATA"
  CreatePrimary_Out_creationHash :: "TPM2B_DIGEST"
  CreatePrimary_Out_creationTicket :: "TPMT_TK_CREATION"
  CreatePrimary_Out_name :: "TPM2B_NAME"

record HierarchyControl_In =
  HierarchyControl_In_authHandle :: "TPMI_RH_HIERARCHY"
  HierarchyControl_In_enable :: "TPMI_RH_ENABLES"
  HierarchyControl_In_state :: "TPMI_YES_NO"

record SetPrimaryPolicy_In =
  SetPrimaryPolicy_In_authHandle :: "TPMI_RH_HIERARCHY_AUTH"
  SetPrimaryPolicy_In_authPolicy :: "TPM2B_DIGEST"
  SetPrimaryPolicy_In_hashAlg :: "TPMI_ALG_HASH"

record ChangePPS_In =
  ChangePPS_In_authHandle :: "TPMI_RH_PLATFORM"

record ChangeEPS_In =
  ChangeEPS_In_authHandle :: "TPMI_RH_PLATFORM"

record Clear_In =
  Clear_In_authHandle :: "TPMI_RH_CLEAR"

record ClearControl_In =
  ClearControl_In_auth :: "TPMI_RH_CLEAR"
  ClearControl_In_disable :: "TPMI_YES_NO"

record HierarchyChangeAuth_In =
  HierarchyChangeAuth_In_authHandle :: "TPMI_RH_HIERARCHY_AUTH"
  HierarchyChangeAuth_In_newAuth :: "TPM2B_AUTH"

record DictionaryAttackLockReset_In =
  DictionaryAttackLockReset_In_lockHandle :: "TPMI_RH_LOCKOUT"

record DictionaryAttackParameters_In =
  DictionaryAttackParameters_In_lockHandle :: "TPMI_RH_LOCKOUT"
  DictionaryAttackParameters_In_newMaxTries :: "UINT32"
  DictionaryAttackParameters_In_newRecoveryTime :: "UINT32"
  DictionaryAttackParameters_In_lockoutRecovery :: "UINT32"

record PP_Commands_In =
  PP_Commands_In_auth :: "TPMI_RH_PLATFORM"
  PP_Commands_In_setList :: "TPML_CC"
  PP_Commands_In_clearList :: "TPML_CC"

record SetAlgorithmSet_In =
  SetAlgorithmSet_In_authHandle :: "TPMI_RH_PLATFORM"
  SetAlgorithmSet_In_algorithmSet :: "UINT32"

record ContextSave_In =
  ContextSave_In_saveHandle :: "TPMI_DH_CONTEXT"

record ContextSave_Out =
  ContextSave_Out_context :: "TPMS_CONTEXT"

record ContextLoad_In =
  ContextLoad_In_context :: "TPMS_CONTEXT"

record ContextLoad_Out =
  ContextLoad_Out_loadedHandle :: "TPMI_DH_CONTEXT"

record FlushContext_In =
  FlushContext_In_flushHandle :: "TPMI_DH_CONTEXT"

record EvictControl_In =
  EvictControl_In_auth :: "TPMI_RH_PROVISION"
  EvictControl_In_objectHandle :: "TPMI_DH_OBJECT"
  EvictControl_In_persistentHandle :: "TPMI_DH_PERSISTENT"

record ReadClock_Out =
  ReadClock_Out_currentTime :: "TPMS_TIME_INFO"

record ClockSet_In =
  ClockSet_In_auth :: "TPMI_RH_PROVISION"
  ClockSet_In_newTime :: "UINT64"

record ClockRateAdjust_In =
  ClockRateAdjust_In_auth :: "TPMI_RH_PROVISION"
  ClockRateAdjust_In_rateAdjust :: "TPM_CLOCK_ADJUST"

section \<open>Marshalling commands\<close>

definition TSS_CreatePrimary_In_Marshal :: "CreatePrimary_In \<Rightarrow> marshal" where
  "TSS_CreatePrimary_In_Marshal source =
     m_then (TSS_TPMI_RH_HIERARCHY_Marshal (CreatePrimary_In_primaryHandle source)) (
     m_then (TSS_TPM2B_SENSITIVE_CREATE_Marshal (CreatePrimary_In_inSensitive source)) (
     m_then (TSS_TPM2B_PUBLIC_Marshal (CreatePrimary_In_inPublic source)) (
     m_then (TSS_TPM2B_DATA_Marshal (CreatePrimary_In_outsideInfo source)) (
     TSS_TPML_PCR_SELECTION_Marshal (CreatePrimary_In_creationPCR source)))))"

definition TSS_HierarchyControl_In_Marshal :: "HierarchyControl_In \<Rightarrow> marshal" where
  "TSS_HierarchyControl_In_Marshal source =
     m_then (TSS_TPMI_RH_HIERARCHY_Marshal (HierarchyControl_In_authHandle source)) (
     m_then (TSS_TPMI_RH_ENABLES_Marshal (HierarchyControl_In_enable source)) (
     TSS_TPMI_YES_NO_Marshal (HierarchyControl_In_state source)))"

definition TSS_SetPrimaryPolicy_In_Marshal :: "SetPrimaryPolicy_In \<Rightarrow> marshal" where
  "TSS_SetPrimaryPolicy_In_Marshal source =
     m_then (TSS_TPMI_RH_HIERARCHY_AUTH_Marshal (SetPrimaryPolicy_In_authHandle source)) (
     m_then (TSS_TPM2B_DIGEST_Marshal (SetPrimaryPolicy_In_authPolicy source)) (
     TSS_TPMI_ALG_HASH_Marshal (SetPrimaryPolicy_In_hashAlg source)))"

definition TSS_ChangePPS_In_Marshal :: "ChangePPS_In \<Rightarrow> marshal" where
  "TSS_ChangePPS_In_Marshal source = TSS_TPMI_RH_PLATFORM_Marshal (ChangePPS_In_authHandle source)"

definition TSS_ChangeEPS_In_Marshal :: "ChangeEPS_In \<Rightarrow> marshal" where
  "TSS_ChangeEPS_In_Marshal source = TSS_TPMI_RH_PLATFORM_Marshal (ChangeEPS_In_authHandle source)"

definition TSS_Clear_In_Marshal :: "Clear_In \<Rightarrow> marshal" where
  "TSS_Clear_In_Marshal source = TSS_TPMI_RH_CLEAR_Marshal (Clear_In_authHandle source)"

definition TSS_ClearControl_In_Marshal :: "ClearControl_In \<Rightarrow> marshal" where
  "TSS_ClearControl_In_Marshal source =
     m_then (TSS_TPMI_RH_CLEAR_Marshal (ClearControl_In_auth source)) (
     TSS_TPMI_YES_NO_Marshal (ClearControl_In_disable source))"

definition TSS_HierarchyChangeAuth_In_Marshal :: "HierarchyChangeAuth_In \<Rightarrow> marshal" where
  "TSS_HierarchyChangeAuth_In_Marshal source =
     m_then (TSS_TPMI_RH_HIERARCHY_AUTH_Marshal (HierarchyChangeAuth_In_authHandle source)) (
     TSS_TPM2B_AUTH_Marshal (HierarchyChangeAuth_In_newAuth source))"

definition TSS_DictionaryAttackLockReset_In_Marshal :: "DictionaryAttackLockReset_In \<Rightarrow> marshal" where
  "TSS_DictionaryAttackLockReset_In_Marshal source = TSS_TPMI_RH_LOCKOUT_Marshal (DictionaryAttackLockReset_In_lockHandle source)"

definition TSS_DictionaryAttackParameters_In_Marshal :: "DictionaryAttackParameters_In \<Rightarrow> marshal" where
  "TSS_DictionaryAttackParameters_In_Marshal source =
     m_then (TSS_TPMI_RH_LOCKOUT_Marshal (DictionaryAttackParameters_In_lockHandle source)) (
     m_then (TSS_UINT32_Marshal (DictionaryAttackParameters_In_newMaxTries source)) (
     m_then (TSS_UINT32_Marshal (DictionaryAttackParameters_In_newRecoveryTime source)) (
     TSS_UINT32_Marshal (DictionaryAttackParameters_In_lockoutRecovery source))))"

definition TSS_PP_Commands_In_Marshal :: "PP_Commands_In \<Rightarrow> marshal" where
  "TSS_PP_Commands_In_Marshal source =
     m_then (TSS_TPMI_RH_PLATFORM_Marshal (PP_Commands_In_auth source)) (
     m_then (TSS_TPML_CC_Marshal (PP_Commands_In_setList source)) (
     TSS_TPML_CC_Marshal (PP_Commands_In_clearList source)))"

definition TSS_SetAlgorithmSet_In_Marshal :: "SetAlgorithmSet_In \<Rightarrow> marshal" where
  "TSS_SetAlgorithmSet_In_Marshal source =
     m_then (TSS_TPMI_RH_PLATFORM_Marshal (SetAlgorithmSet_In_authHandle source)) (
     TSS_UINT32_Marshal (SetAlgorithmSet_In_algorithmSet source))"

definition TSS_ContextSave_In_Marshal :: "ContextSave_In \<Rightarrow> marshal" where
  "TSS_ContextSave_In_Marshal source = TSS_TPMI_DH_CONTEXT_Marshal (ContextSave_In_saveHandle source)"

definition TSS_ContextLoad_In_Marshal :: "ContextLoad_In \<Rightarrow> marshal" where
  "TSS_ContextLoad_In_Marshal source = TSS_TPMS_CONTEXT_Marshal (ContextLoad_In_context source)"

definition TSS_FlushContext_In_Marshal :: "FlushContext_In \<Rightarrow> marshal" where
  "TSS_FlushContext_In_Marshal source = TSS_TPMI_DH_CONTEXT_Marshal (FlushContext_In_flushHandle source)"

definition TSS_EvictControl_In_Marshal :: "EvictControl_In \<Rightarrow> marshal" where
  "TSS_EvictControl_In_Marshal source =
     m_then (TSS_TPMI_RH_PROVISION_Marshal (EvictControl_In_auth source)) (
     m_then (TSS_TPMI_DH_OBJECT_Marshal (EvictControl_In_objectHandle source)) (
     TSS_TPMI_DH_PERSISTENT_Marshal (EvictControl_In_persistentHandle source)))"

definition TSS_ClockSet_In_Marshal :: "ClockSet_In \<Rightarrow> marshal" where
  "TSS_ClockSet_In_Marshal source =
     m_then (TSS_TPMI_RH_PROVISION_Marshal (ClockSet_In_auth source)) (
     TSS_UINT64_Marshal (ClockSet_In_newTime source))"

definition TSS_ClockRateAdjust_In_Marshal :: "ClockRateAdjust_In \<Rightarrow> marshal" where
  "TSS_ClockRateAdjust_In_Marshal source =
     m_then (TSS_TPMI_RH_PROVISION_Marshal (ClockRateAdjust_In_auth source)) (
     TSS_TPM_CLOCK_ADJUST_Marshal (ClockRateAdjust_In_rateAdjust source))"

section \<open>Unmarshalling commands\<close>

definition CreatePrimary_In_Unmarshal :: "(nat \<Rightarrow> TPM_HANDLE) \<Rightarrow> CreatePrimary_In unmarshal" where
  "CreatePrimary_In_Unmarshal handles =
     u_bind (u_add_rc RC_CreatePrimary_inSensitive TPM2B_SENSITIVE_CREATE_Unmarshal) (\<lambda>inSensitive.
     u_bind (u_add_rc RC_CreatePrimary_inPublic (TPM2B_PUBLIC_Unmarshal False)) (\<lambda>inPublic.
     u_bind (u_add_rc RC_CreatePrimary_outsideInfo TPM2B_DATA_Unmarshal) (\<lambda>outsideInfo.
     u_bind (u_add_rc RC_CreatePrimary_creationPCR TPML_PCR_SELECTION_Unmarshal) (\<lambda>creationPCR.
     u_return \<lparr>CreatePrimary_In_primaryHandle = handles 0,
       CreatePrimary_In_inSensitive = inSensitive, CreatePrimary_In_inPublic = inPublic,
       CreatePrimary_In_outsideInfo = outsideInfo, CreatePrimary_In_creationPCR = creationPCR\<rparr>))))"

definition HierarchyControl_In_Unmarshal :: "(nat \<Rightarrow> TPM_HANDLE) \<Rightarrow> HierarchyControl_In unmarshal" where
  "HierarchyControl_In_Unmarshal handles =
     u_bind (u_add_rc RC_HierarchyControl_enable (TPMI_RH_ENABLES_Unmarshal False)) (\<lambda>enable.
     u_bind (u_add_rc RC_HierarchyControl_state TPMI_YES_NO_Unmarshal) (\<lambda>state.
     u_return \<lparr>HierarchyControl_In_authHandle = handles 0, HierarchyControl_In_enable = enable,
       HierarchyControl_In_state = state\<rparr>))"

definition SetPrimaryPolicy_In_Unmarshal :: "(nat \<Rightarrow> TPM_HANDLE) \<Rightarrow> SetPrimaryPolicy_In unmarshal" where
  "SetPrimaryPolicy_In_Unmarshal handles =
     u_bind (u_add_rc RC_SetPrimaryPolicy_authPolicy TPM2B_DIGEST_Unmarshal) (\<lambda>authPolicy.
     u_bind (u_add_rc RC_SetPrimaryPolicy_hashAlg (TPMI_ALG_HASH_Unmarshal True)) (\<lambda>hashAlg.
     u_return \<lparr>SetPrimaryPolicy_In_authHandle = handles 0,
       SetPrimaryPolicy_In_authPolicy = authPolicy, SetPrimaryPolicy_In_hashAlg = hashAlg\<rparr>))"

definition ChangePPS_In_Unmarshal :: "(nat \<Rightarrow> TPM_HANDLE) \<Rightarrow> ChangePPS_In unmarshal" where
  "ChangePPS_In_Unmarshal handles =
     u_return \<lparr>ChangePPS_In_authHandle = handles 0\<rparr>"

definition ChangeEPS_In_Unmarshal :: "(nat \<Rightarrow> TPM_HANDLE) \<Rightarrow> ChangeEPS_In unmarshal" where
  "ChangeEPS_In_Unmarshal handles =
     u_return \<lparr>ChangeEPS_In_authHandle = handles 0\<rparr>"

definition Clear_In_Unmarshal :: "(nat \<Rightarrow> TPM_HANDLE) \<Rightarrow> Clear_In unmarshal" where
  "Clear_In_Unmarshal handles =
     u_return \<lparr>Clear_In_authHandle = handles 0\<rparr>"

definition ClearControl_In_Unmarshal :: "(nat \<Rightarrow> TPM_HANDLE) \<Rightarrow> ClearControl_In unmarshal" where
  "ClearControl_In_Unmarshal handles =
     u_bind (u_add_rc RC_ClearControl_disable TPMI_YES_NO_Unmarshal) (\<lambda>disable.
     u_return \<lparr>ClearControl_In_auth = handles 0, ClearControl_In_disable = disable\<rparr>)"

definition HierarchyChangeAuth_In_Unmarshal :: "(nat \<Rightarrow> TPM_HANDLE) \<Rightarrow> HierarchyChangeAuth_In unmarshal" where
  "HierarchyChangeAuth_In_Unmarshal handles =
     u_bind (u_add_rc RC_HierarchyChangeAuth_newAuth TPM2B_AUTH_Unmarshal) (\<lambda>newAuth.
     u_return \<lparr>HierarchyChangeAuth_In_authHandle = handles 0,
       HierarchyChangeAuth_In_newAuth = newAuth\<rparr>)"

definition DictionaryAttackLockReset_In_Unmarshal :: "(nat \<Rightarrow> TPM_HANDLE) \<Rightarrow> DictionaryAttackLockReset_In unmarshal" where
  "DictionaryAttackLockReset_In_Unmarshal handles =
     u_return \<lparr>DictionaryAttackLockReset_In_lockHandle = handles 0\<rparr>"

definition DictionaryAttackParameters_In_Unmarshal :: "(nat \<Rightarrow> TPM_HANDLE) \<Rightarrow> DictionaryAttackParameters_In unmarshal" where
  "DictionaryAttackParameters_In_Unmarshal handles =
     u_bind (u_add_rc RC_DictionaryAttackParameters_newMaxTries UINT32_Unmarshal) (\<lambda>newMaxTries.
     u_bind (u_add_rc RC_DictionaryAttackParameters_newRecoveryTime UINT32_Unmarshal) (\<lambda>newRecoveryTime.
     u_bind (u_add_rc RC_DictionaryAttackParameters_lockoutRecovery UINT32_Unmarshal) (\<lambda>lockoutRecovery.
     u_return \<lparr>DictionaryAttackParameters_In_lockHandle = handles 0,
       DictionaryAttackParameters_In_newMaxTries = newMaxTries,
       DictionaryAttackParameters_In_newRecoveryTime = newRecoveryTime,
       DictionaryAttackParameters_In_lockoutRecovery = lockoutRecovery\<rparr>)))"

definition PP_Commands_In_Unmarshal :: "(nat \<Rightarrow> TPM_HANDLE) \<Rightarrow> PP_Commands_In unmarshal" where
  "PP_Commands_In_Unmarshal handles =
     u_bind (u_add_rc RC_PP_Commands_setList TPML_CC_Unmarshal) (\<lambda>setList.
     u_bind (u_add_rc RC_PP_Commands_clearList TPML_CC_Unmarshal) (\<lambda>clearList.
     u_return \<lparr>PP_Commands_In_auth = handles 0, PP_Commands_In_setList = setList,
       PP_Commands_In_clearList = clearList\<rparr>))"

definition SetAlgorithmSet_In_Unmarshal :: "(nat \<Rightarrow> TPM_HANDLE) \<Rightarrow> SetAlgorithmSet_In unmarshal" where
  "SetAlgorithmSet_In_Unmarshal handles =
     u_bind (u_add_rc RC_SetAlgorithmSet_algorithmSet UINT32_Unmarshal) (\<lambda>algorithmSet.
     u_return \<lparr>SetAlgorithmSet_In_authHandle = handles 0,
       SetAlgorithmSet_In_algorithmSet = algorithmSet\<rparr>)"

definition ContextSave_In_Unmarshal :: "(nat \<Rightarrow> TPM_HANDLE) \<Rightarrow> ContextSave_In unmarshal" where
  "ContextSave_In_Unmarshal handles =
     u_return \<lparr>ContextSave_In_saveHandle = handles 0\<rparr>"

definition ContextLoad_In_Unmarshal :: "(nat \<Rightarrow> TPM_HANDLE) \<Rightarrow> ContextLoad_In unmarshal" where
  "ContextLoad_In_Unmarshal handles =
     u_bind (u_add_rc RC_ContextLoad_context TPMS_CONTEXT_Unmarshal) (\<lambda>context.
     u_return \<lparr>ContextLoad_In_context = context\<rparr>)"

definition FlushContext_In_Unmarshal :: "(nat \<Rightarrow> TPM_HANDLE) \<Rightarrow> FlushContext_In unmarshal" where
  "FlushContext_In_Unmarshal handles =
     u_bind (u_add_rc RC_FlushContext_flushHandle (TPMI_DH_CONTEXT_Unmarshal False)) (\<lambda>flushHandle.
     u_return \<lparr>FlushContext_In_flushHandle = flushHandle\<rparr>)"

definition EvictControl_In_Unmarshal :: "(nat \<Rightarrow> TPM_HANDLE) \<Rightarrow> EvictControl_In unmarshal" where
  "EvictControl_In_Unmarshal handles =
     u_bind (u_add_rc RC_EvictControl_persistentHandle TPMI_DH_PERSISTENT_Unmarshal) (\<lambda>persistentHandle.
     u_return \<lparr>EvictControl_In_auth = handles 0, EvictControl_In_objectHandle = handles 1,
       EvictControl_In_persistentHandle = persistentHandle\<rparr>)"

definition ClockSet_In_Unmarshal :: "(nat \<Rightarrow> TPM_HANDLE) \<Rightarrow> ClockSet_In unmarshal" where
  "ClockSet_In_Unmarshal handles =
     u_bind (u_add_rc RC_ClockSet_newTime UINT64_Unmarshal) (\<lambda>newTime.
     u_return \<lparr>ClockSet_In_auth = handles 0, ClockSet_In_newTime = newTime\<rparr>)"

definition ClockRateAdjust_In_Unmarshal :: "(nat \<Rightarrow> TPM_HANDLE) \<Rightarrow> ClockRateAdjust_In unmarshal" where
  "ClockRateAdjust_In_Unmarshal handles =
     u_bind (u_add_rc RC_ClockRateAdjust_rateAdjust TPM_CLOCK_ADJUST_Unmarshal) (\<lambda>rateAdjust.
     u_return \<lparr>ClockRateAdjust_In_auth = handles 0,
       ClockRateAdjust_In_rateAdjust = rateAdjust\<rparr>)"

section \<open>Unmarshalling responses\<close>

definition TSS_CreatePrimary_Out_Unmarshal :: "TPM_ST \<Rightarrow> CreatePrimary_Out unmarshal" where
  "TSS_CreatePrimary_Out_Unmarshal tag =
     u_bind TPM_HANDLE_Unmarshal (\<lambda>objectHandle.
     u_bind (u_when (tag = TPM_ST_SESSIONS) UINT32_Unmarshal) (\<lambda>_.
     u_bind (TPM2B_PUBLIC_Unmarshal False) (\<lambda>outPublic.
     u_bind TPM2B_CREATION_DATA_Unmarshal (\<lambda>creationData.
     u_bind TPM2B_DIGEST_Unmarshal (\<lambda>creationHash.
     u_bind TPMT_TK_CREATION_Unmarshal (\<lambda>creationTicket.
     u_bind TPM2B_NAME_Unmarshal (\<lambda>name.
     u_return \<lparr>CreatePrimary_Out_objectHandle = objectHandle,
       CreatePrimary_Out_outPublic = outPublic, CreatePrimary_Out_creationData = creationData,
       CreatePrimary_Out_creationHash = creationHash, CreatePrimary_Out_creationTicket = creationTicket,
       CreatePrimary_Out_name = name\<rparr>)))))))"

definition TSS_ContextSave_Out_Unmarshal :: "TPM_ST \<Rightarrow> ContextSave_Out unmarshal" where
  "TSS_ContextSave_Out_Unmarshal tag =
     u_bind (u_when (tag = TPM_ST_SESSIONS) UINT32_Unmarshal) (\<lambda>_.
     u_bind TPMS_CONTEXT_Unmarshal (\<lambda>context.
     u_return \<lparr>ContextSave_Out_context = context\<rparr>))"

definition TSS_ContextLoad_Out_Unmarshal :: "TPM_ST \<Rightarrow> ContextLoad_Out unmarshal" where
  "TSS_ContextLoad_Out_Unmarshal tag =
     u_bind (TPMI_DH_CONTEXT_Unmarshal False) (\<lambda>loadedHandle.
     u_bind (u_when (tag = TPM_ST_SESSIONS) UINT32_Unmarshal) (\<lambda>_.
     u_return \<lparr>ContextLoad_Out_loadedHandle = loadedHandle\<rparr>))"

definition TSS_ReadClock_Out_Unmarshal :: "TPM_ST \<Rightarrow> ReadClock_Out unmarshal" where
  "TSS_ReadClock_Out_Unmarshal tag =
     u_bind (u_when (tag = TPM_ST_SESSIONS) UINT32_Unmarshal) (\<lambda>_.
     u_bind TPMS_TIME_INFO_Unmarshal (\<lambda>currentTime.
     u_return \<lparr>ReadClock_Out_currentTime = currentTime\<rparr>))"

section \<open>Commands are read as they are written\<close>

lemma CreatePrimary_In_codec: "2 \<le> k \<Longrightarrow> reads_e param_error k (be32 (handles 0)) (CreatePrimary_In_Unmarshal handles) TSS_CreatePrimary_In_Marshal"
  unfolding CreatePrimary_In_Unmarshal_def TSS_CreatePrimary_In_Marshal_def
  by (intro reads_bind [OF reads_add_rc [OF TPM2B_SENSITIVE_CREATE_codec]]
       reads_bind [OF reads_add_rc [OF TPM2B_PUBLIC_codec]]
       reads_bind [OF reads_add_rc [OF TPM2B_DATA_codec]]
       reads_bind [OF reads_add_rc [OF TPML_PCR_SELECTION_codec]] reads_return)
    (simp_all add: emits_then handle_emits)

lemma HierarchyControl_In_codec: "reads_e param_error k (be32 (handles 0)) (HierarchyControl_In_Unmarshal handles) TSS_HierarchyControl_In_Marshal"
  unfolding HierarchyControl_In_Unmarshal_def TSS_HierarchyControl_In_Marshal_def
  by (intro reads_bind [OF reads_add_rc [OF TPMI_RH_ENABLES_codec]]
       reads_bind [OF reads_add_rc [OF TPMI_YES_NO_codec]] reads_return)
    (simp_all add: emits_then handle_emits)

lemma SetPrimaryPolicy_In_codec: "reads_e param_error k (be32 (handles 0)) (SetPrimaryPolicy_In_Unmarshal handles) TSS_SetPrimaryPolicy_In_Marshal"
  unfolding SetPrimaryPolicy_In_Unmarshal_def TSS_SetPrimaryPolicy_In_Marshal_def
  by (intro reads_bind [OF reads_add_rc [OF TPM2B_DIGEST_codec]]
       reads_bind [OF reads_add_rc [OF TPMI_ALG_HASH_codec]] reads_return)
    (simp_all add: emits_then handle_emits)

lemma ChangePPS_In_codec: "reads_e param_error k (be32 (handles 0)) (ChangePPS_In_Unmarshal handles) TSS_ChangePPS_In_Marshal"
  unfolding ChangePPS_In_Unmarshal_def TSS_ChangePPS_In_Marshal_def
  by (intro reads_return)
    (simp_all add: emits_then handle_emits)

lemma ChangeEPS_In_codec: "reads_e param_error k (be32 (handles 0)) (ChangeEPS_In_Unmarshal handles) TSS_ChangeEPS_In_Marshal"
  unfolding ChangeEPS_In_Unmarshal_def TSS_ChangeEPS_In_Marshal_def
  by (intro reads_return)
    (simp_all add: emits_then handle_emits)

lemma Clear_In_codec: "reads_e param_error k (be32 (handles 0)) (Clear_In_Unmarshal handles) TSS_Clear_In_Marshal"
  unfolding Clear_In_Unmarshal_def TSS_Clear_In_Marshal_def
  by (intro reads_return)
    (simp_all add: emits_then handle_emits)

lemma ClearControl_In_codec: "reads_e param_error k (be32 (handles 0)) (ClearControl_In_Unmarshal handles) TSS_ClearControl_In_Marshal"
  unfolding ClearControl_In_Unmarshal_def TSS_ClearControl_In_Marshal_def
  by (intro reads_bind [OF reads_add_rc [OF TPMI_YES_NO_codec]] reads_return)
    (simp_all add: emits_then handle_emits)

lemma HierarchyChangeAuth_In_codec: "reads_e param_error k (be32 (handles 0)) (HierarchyChangeAuth_In_Unmarshal handles) TSS_HierarchyChangeAuth_In_Marshal"
  unfolding HierarchyChangeAuth_In_Unmarshal_def TSS_HierarchyChangeAuth_In_Marshal_def
  by (intro reads_bind [OF reads_add_rc [OF TPM2B_AUTH_codec]] reads_return)
    (simp_all add: emits_then handle_emits)

lemma DictionaryAttackLockReset_In_codec: "reads_e param_error k (be32 (handles 0)) (DictionaryAttackLockReset_In_Unmarshal handles) TSS_DictionaryAttackLockReset_In_Marshal"
  unfolding DictionaryAttackLockReset_In_Unmarshal_def TSS_DictionaryAttackLockReset_In_Marshal_def
  by (intro reads_return)
    (simp_all add: emits_then handle_emits)

lemma DictionaryAttackParameters_In_codec: "reads_e param_error k (be32 (handles 0)) (DictionaryAttackParameters_In_Unmarshal handles) TSS_DictionaryAttackParameters_In_Marshal"
  unfolding DictionaryAttackParameters_In_Unmarshal_def TSS_DictionaryAttackParameters_In_Marshal_def
  by (intro reads_bind [OF reads_add_rc [OF UINT32_codec]] reads_return)
    (simp_all add: emits_then handle_emits)

lemma PP_Commands_In_codec: "reads_e param_error k (be32 (handles 0)) (PP_Commands_In_Unmarshal handles) TSS_PP_Commands_In_Marshal"
  unfolding PP_Commands_In_Unmarshal_def TSS_PP_Commands_In_Marshal_def
  by (intro reads_bind [OF reads_add_rc [OF TPML_CC_codec]] reads_return)
    (simp_all add: emits_then handle_emits)

lemma SetAlgorithmSet_In_codec: "reads_e param_error k (be32 (handles 0)) (SetAlgorithmSet_In_Unmarshal handles) TSS_SetAlgorithmSet_In_Marshal"
  unfolding SetAlgorithmSet_In_Unmarshal_def TSS_SetAlgorithmSet_In_Marshal_def
  by (intro reads_bind [OF reads_add_rc [OF UINT32_codec]] reads_return)
    (simp_all add: emits_then handle_emits)

lemma ContextSave_In_codec: "reads_e param_error k (be32 (handles 0)) (ContextSave_In_Unmarshal handles) TSS_ContextSave_In_Marshal"
  unfolding ContextSave_In_Unmarshal_def TSS_ContextSave_In_Marshal_def
  by (intro reads_return)
    (simp_all add: emits_then handle_emits)

lemma ContextLoad_In_codec: "reads_e param_error k [] (ContextLoad_In_Unmarshal handles) TSS_ContextLoad_In_Marshal"
  unfolding ContextLoad_In_Unmarshal_def TSS_ContextLoad_In_Marshal_def
  by (intro reads_bind [OF reads_add_rc [OF TPMS_CONTEXT_codec]] reads_return)
    (simp_all add: emits_then handle_emits)

lemma FlushContext_In_codec: "reads_e param_error k [] (FlushContext_In_Unmarshal handles) TSS_FlushContext_In_Marshal"
  unfolding FlushContext_In_Unmarshal_def TSS_FlushContext_In_Marshal_def
  by (intro reads_bind [OF reads_add_rc [OF TPMI_DH_CONTEXT_codec]] reads_return)
    (simp_all add: emits_then handle_emits)

lemma EvictControl_In_codec: "reads_e param_error k (be32 (handles 0) @ be32 (handles 1)) (EvictControl_In_Unmarshal handles) TSS_EvictControl_In_Marshal"
  unfolding EvictControl_In_Unmarshal_def TSS_EvictControl_In_Marshal_def
  by (intro reads_bind [OF reads_add_rc [OF TPMI_DH_PERSISTENT_codec]] reads_return)
    (simp_all add: emits_then handle_emits)

lemma ClockSet_In_codec: "reads_e param_error k (be32 (handles 0)) (ClockSet_In_Unmarshal handles) TSS_ClockSet_In_Marshal"
  unfolding ClockSet_In_Unmarshal_def TSS_ClockSet_In_Marshal_def
  by (intro reads_bind [OF reads_add_rc [OF UINT64_codec]] reads_return)
    (simp_all add: emits_then handle_emits)

lemma ClockRateAdjust_In_codec: "reads_e param_error k (be32 (handles 0)) (ClockRateAdjust_In_Unmarshal handles) TSS_ClockRateAdjust_In_Marshal"
  unfolding ClockRateAdjust_In_Unmarshal_def TSS_ClockRateAdjust_In_Marshal_def
  by (intro reads_bind [OF reads_add_rc [OF TPM_CLOCK_ADJUST_codec]] reads_return)
    (simp_all add: emits_then handle_emits)

section \<open>Responses stay within their target\<close>

definition CreatePrimary_Out_bounded :: "CreatePrimary_Out \<Rightarrow> bool" where
  "CreatePrimary_Out_bounded v \<longleftrightarrow> TPM2B_PUBLIC_bounded (CreatePrimary_Out_outPublic v)
    \<and> TPM2B_CREATION_DATA_bounded (CreatePrimary_Out_creationData v)
    \<and> TPM2B_DIGEST_bounded (CreatePrimary_Out_creationHash v)
    \<and> TPMT_TK_CREATION_bounded (CreatePrimary_Out_creationTicket v)
    \<and> TPM2B_NAME_bounded (CreatePrimary_Out_name v)"

definition ContextSave_Out_bounded :: "ContextSave_Out \<Rightarrow> bool" where
  "ContextSave_Out_bounded v \<longleftrightarrow> TPMS_CONTEXT_bounded (ContextSave_Out_context v)"

lemma CreatePrimary_Out_delivers: "delivers CreatePrimary_Out_bounded (TSS_CreatePrimary_Out_Unmarshal tag)"
  unfolding TSS_CreatePrimary_Out_Unmarshal_def
  by (intro delivers_bind [OF reads_delivers [OF TPM_HANDLE_codec]]
       delivers_bind [OF delivers_when [OF reads_delivers [OF UINT32_codec]]]
       delivers_bind [OF TPM2B_PUBLIC_delivers] delivers_bind [OF TPM2B_CREATION_DATA_delivers]
       delivers_bind [OF TPM2B_DIGEST_delivers] delivers_bind [OF TPMT_TK_CREATION_delivers]
       delivers_bind [OF TPM2B_NAME_delivers] delivers_return)
    (simp_all add: CreatePrimary_Out_bounded_def)

lemma ContextSave_Out_delivers: "delivers ContextSave_Out_bounded (TSS_ContextSave_Out_Unmarshal tag)"
  unfolding TSS_ContextSave_Out_Unmarshal_def
  by (intro delivers_bind [OF delivers_when [OF reads_delivers [OF UINT32_codec]]]
       delivers_bind [OF TPMS_CONTEXT_delivers] delivers_return)
    (simp_all add: ContextSave_Out_bounded_def)

lemma ContextLoad_Out_delivers: "delivers (\<lambda>_. True) (TSS_ContextLoad_Out_Unmarshal tag)"
  unfolding TSS_ContextLoad_Out_Unmarshal_def
  by (intro delivers_bind [OF reads_delivers [OF TPMI_DH_CONTEXT_codec]]
       delivers_bind [OF delivers_when [OF reads_delivers [OF UINT32_codec]]] delivers_return)
    (simp_all)

lemma ReadClock_Out_delivers: "delivers (\<lambda>_. True) (TSS_ReadClock_Out_Unmarshal tag)"
  unfolding TSS_ReadClock_Out_Unmarshal_def
  by (intro delivers_bind [OF delivers_when [OF reads_delivers [OF UINT32_codec]]]
       delivers_bind [OF reads_delivers [OF TPMS_TIME_INFO_codec]] delivers_return)
    (simp_all)

end
