(* ===== verification/Tss_Cmd_NV.thy ===== *)
theory Tss_Cmd_NV
  imports Tss_Bounds
begin

text \<open>
  The commands for capabilities and NV indices: the parameter structures (\<^verbatim>\<open>tss2/*_fp.h\<close>), \<open>TSS_*_In_Marshal\<close> and
  \<open>TSS_*_Out_Unmarshal\<close> of \<^verbatim>\<open>libtss2/tssmarshal.c\<close>, and \<open>*_In_Unmarshal\<close> of \<^verbatim>\<open>libtss2/Commands.c\<close>, to which the
  handles of the command are passed in the array \<open>handles\<close>. A command is written in the form in which it is read; a
  response is read within its buffer and within its target.
\<close>

section \<open>Parameters\<close>

text \<open>What a command adds to the error of a parameter, and the structures.\<close>

abbreviation RC_GetCapability_capability :: "32 word" where "RC_GetCapability_capability \<equiv> 0x140"
abbreviation RC_GetCapability_property :: "32 word" where "RC_GetCapability_property \<equiv> 0x240"
abbreviation RC_GetCapability_propertyCount :: "32 word" where "RC_GetCapability_propertyCount \<equiv> 0x340"
abbreviation RC_TestParms_parameters :: "32 word" where "RC_TestParms_parameters \<equiv> 0x140"
abbreviation RC_NV_DefineSpace_auth :: "32 word" where "RC_NV_DefineSpace_auth \<equiv> 0x140"
abbreviation RC_NV_DefineSpace_publicInfo :: "32 word" where "RC_NV_DefineSpace_publicInfo \<equiv> 0x240"
abbreviation RC_NV_Write_data :: "32 word" where "RC_NV_Write_data \<equiv> 0x140"
abbreviation RC_NV_Write_offset :: "32 word" where "RC_NV_Write_offset \<equiv> 0x240"
abbreviation RC_NV_Extend_data :: "32 word" where "RC_NV_Extend_data \<equiv> 0x140"
abbreviation RC_NV_SetBits_bits :: "32 word" where "RC_NV_SetBits_bits \<equiv> 0x140"
abbreviation RC_NV_Read_size :: "32 word" where "RC_NV_Read_size \<equiv> 0x140"
abbreviation RC_NV_Read_offset :: "32 word" where "RC_NV_Read_offset \<equiv> 0x240"
abbreviation RC_NV_ChangeAuth_newAuth :: "32 word" where "RC_NV_ChangeAuth_newAuth \<equiv> 0x140"
abbreviation RC_NV_Certify_qualifyingData :: "32 word" where "RC_NV_Certify_qualifyingData \<equiv> 0x140"
abbreviation RC_NV_Certify_inScheme :: "32 word" where "RC_NV_Certify_inScheme \<equiv> 0x240"
abbreviation RC_NV_Certify_size :: "32 word" where "RC_NV_Certify_size \<equiv> 0x340"
abbreviation RC_NV_Certify_offset :: "32 word" where "RC_NV_Certify_offset \<equiv> 0x440"

record GetCapability_In =
  GetCapability_In_capability :: "TPM_CAP"
  GetCapability_In_property :: "UINT32"
  GetCapability_In_propertyCount :: "UINT32"

record GetCapability_Out =
  GetCapability_Out_moreData :: "TPMI_YES_NO"
  GetCapability_Out_capabilityData :: "TPMS_CAPABILITY_DATA"

record TestParms_In =
  TestParms_In_parameters :: "TPMT_PUBLIC_PARMS"

record NV_DefineSpace_In =
  NV_DefineSpace_In_authHandle :: "TPMI_RH_PROVISION"
  NV_DefineSpace_In_auth :: "TPM2B_AUTH"
  NV_DefineSpace_In_publicInfo :: "TPM2B_NV_PUBLIC"

record NV_UndefineSpace_In =
  NV_UndefineSpace_In_authHandle :: "TPMI_RH_PROVISION"
  NV_UndefineSpace_In_nvIndex :: "TPMI_RH_NV_INDEX"

record NV_UndefineSpaceSpecial_In =
  NV_UndefineSpaceSpecial_In_nvIndex :: "TPMI_RH_NV_INDEX"
  NV_UndefineSpaceSpecial_In_platform :: "TPMI_RH_PLATFORM"

record NV_ReadPublic_In =
  NV_ReadPublic_In_nvIndex :: "TPMI_RH_NV_INDEX"

record NV_ReadPublic_Out =
  NV_ReadPublic_Out_nvPublic :: "TPM2B_NV_PUBLIC"
  NV_ReadPublic_Out_nvName :: "TPM2B_NAME"

record NV_Write_In =
  NV_Write_In_authHandle :: "TPMI_RH_NV_AUTH"
  NV_Write_In_nvIndex :: "TPMI_RH_NV_INDEX"
  NV_Write_In_data :: "TPM2B_MAX_NV_BUFFER"
  NV_Write_In_offset :: "UINT16"

record NV_Increment_In =
  NV_Increment_In_authHandle :: "TPMI_RH_NV_AUTH"
  NV_Increment_In_nvIndex :: "TPMI_RH_NV_INDEX"

record NV_Extend_In =
  NV_Extend_In_authHandle :: "TPMI_RH_NV_AUTH"
  NV_Extend_In_nvIndex :: "TPMI_RH_NV_INDEX"
  NV_Extend_In_data :: "TPM2B_MAX_NV_BUFFER"

record NV_SetBits_In =
  NV_SetBits_In_authHandle :: "TPMI_RH_NV_AUTH"
  NV_SetBits_In_nvIndex :: "TPMI_RH_NV_INDEX"
  NV_SetBits_In_bits :: "UINT64"

record NV_WriteLock_In =
  NV_WriteLock_In_authHandle :: "TPMI_RH_NV_AUTH"
  NV_WriteLock_In_nvIndex :: "TPMI_RH_NV_INDEX"

record NV_GlobalWriteLock_In =
  NV_GlobalWriteLock_In_authHandle :: "TPMI_RH_PROVISION"

record NV_Read_In =
  NV_Read_In_authHandle :: "TPMI_RH_NV_AUTH"
  NV_Read_In_nvIndex :: "TPMI_RH_NV_INDEX"
  NV_Read_In_size :: "UINT16"
  NV_Read_In_offset :: "UINT16"

record NV_Read_Out =
  NV_Read_Out_data :: "TPM2B_MAX_NV_BUFFER"

record NV_ReadLock_In =
  NV_ReadLock_In_authHandle :: "TPMI_RH_NV_AUTH"
  NV_ReadLock_In_nvIndex :: "TPMI_RH_NV_INDEX"

record NV_ChangeAuth_In =
  NV_ChangeAuth_In_nvIndex :: "TPMI_RH_NV_INDEX"
  NV_ChangeAuth_In_newAuth :: "TPM2B_AUTH"

record NV_Certify_In =
  NV_Certify_In_signHandle :: "TPMI_DH_OBJECT"
  NV_Certify_In_authHandle :: "TPMI_RH_NV_AUTH"
  NV_Certify_In_nvIndex :: "TPMI_RH_NV_INDEX"
  NV_Certify_In_qualifyingData :: "TPM2B_DATA"
  NV_Certify_In_inScheme :: "TPMT_SIG_SCHEME"
  NV_Certify_In_size :: "UINT16"
  NV_Certify_In_offset :: "UINT16"

record NV_Certify_Out =
  NV_Certify_Out_certifyInfo :: "TPM2B_ATTEST"
  NV_Certify_Out_signature :: "TPMT_SIGNATURE"

section \<open>Marshalling commands\<close>

definition TSS_GetCapability_In_Marshal :: "GetCapability_In \<Rightarrow> marshal" where
  "TSS_GetCapability_In_Marshal source =
     m_then (TSS_TPM_CAP_Marshal (GetCapability_In_capability source)) (
     m_then (TSS_UINT32_Marshal (GetCapability_In_property source)) (
     TSS_UINT32_Marshal (GetCapability_In_propertyCount source)))"

definition TSS_TestParms_In_Marshal :: "TestParms_In \<Rightarrow> marshal" where
  "TSS_TestParms_In_Marshal source = TSS_TPMT_PUBLIC_PARMS_Marshal (TestParms_In_parameters source)"

definition TSS_NV_DefineSpace_In_Marshal :: "NV_DefineSpace_In \<Rightarrow> marshal" where
  "TSS_NV_DefineSpace_In_Marshal source =
     m_then (TSS_TPMI_RH_PROVISION_Marshal (NV_DefineSpace_In_authHandle source)) (
     m_then (TSS_TPM2B_AUTH_Marshal (NV_DefineSpace_In_auth source)) (
     TSS_TPM2B_NV_PUBLIC_Marshal (NV_DefineSpace_In_publicInfo source)))"

definition TSS_NV_UndefineSpace_In_Marshal :: "NV_UndefineSpace_In \<Rightarrow> marshal" where
  "TSS_NV_UndefineSpace_In_Marshal source =
     m_then (TSS_TPMI_RH_PROVISION_Marshal (NV_UndefineSpace_In_authHandle source)) (
     TSS_TPMI_RH_NV_INDEX_Marshal (NV_UndefineSpace_In_nvIndex source))"

definition TSS_NV_UndefineSpaceSpecial_In_Marshal :: "NV_UndefineSpaceSpecial_In \<Rightarrow> marshal" where
  "TSS_NV_UndefineSpaceSpecial_In_Marshal source =
     m_then (TSS_TPMI_RH_NV_INDEX_Marshal (NV_UndefineSpaceSpecial_In_nvIndex source)) (
     TSS_TPMI_RH_PLATFORM_Marshal (NV_UndefineSpaceSpecial_In_platform source))"

definition TSS_NV_ReadPublic_In_Marshal :: "NV_ReadPublic_In \<Rightarrow> marshal" where
  "TSS_NV_ReadPublic_In_Marshal source = TSS_TPMI_RH_NV_INDEX_Marshal (NV_ReadPublic_In_nvIndex source)"

definition TSS_NV_Write_In_Marshal :: "NV_Write_In \<Rightarrow> marshal" where
  "TSS_NV_Write_In_Marshal source =
     m_then (TSS_TPMI_RH_NV_AUTH_Marshal (NV_Write_In_authHandle source)) (
     m_then (TSS_TPMI_RH_NV_INDEX_Marshal (NV_Write_In_nvIndex source)) (
     m_then (TSS_TPM2B_MAX_NV_BUFFER_Marshal (NV_Write_In_data source)) (
     TSS_UINT16_Marshal (NV_Write_In_offset source))))"

definition TSS_NV_Increment_In_Marshal :: "NV_Increment_In \<Rightarrow> marshal" where
  "TSS_NV_Increment_In_Marshal source =
     m_then (TSS_TPMI_RH_NV_AUTH_Marshal (NV_Increment_In_authHandle source)) (
     TSS_TPMI_RH_NV_INDEX_Marshal (NV_Increment_In_nvIndex source))"

definition TSS_NV_Extend_In_Marshal :: "NV_Extend_In \<Rightarrow> marshal" where
  "TSS_NV_Extend_In_Marshal source =
     m_then (TSS_TPMI_RH_NV_AUTH_Marshal (NV_Extend_In_authHandle source)) (
     m_then (TSS_TPMI_RH_NV_INDEX_Marshal (NV_Extend_In_nvIndex source)) (
     TSS_TPM2B_MAX_NV_BUFFER_Marshal (NV_Extend_In_data source)))"

definition TSS_NV_SetBits_In_Marshal :: "NV_SetBits_In \<Rightarrow> marshal" where
  "TSS_NV_SetBits_In_Marshal source =
     m_then (TSS_TPMI_RH_NV_AUTH_Marshal (NV_SetBits_In_authHandle source)) (
     m_then (TSS_TPMI_RH_NV_INDEX_Marshal (NV_SetBits_In_nvIndex source)) (
     TSS_UINT64_Marshal (NV_SetBits_In_bits source)))"

definition TSS_NV_WriteLock_In_Marshal :: "NV_WriteLock_In \<Rightarrow> marshal" where
  "TSS_NV_WriteLock_In_Marshal source =
     m_then (TSS_TPMI_RH_NV_AUTH_Marshal (NV_WriteLock_In_authHandle source)) (
     TSS_TPMI_RH_NV_INDEX_Marshal (NV_WriteLock_In_nvIndex source))"

definition TSS_NV_GlobalWriteLock_In_Marshal :: "NV_GlobalWriteLock_In \<Rightarrow> marshal" where
  "TSS_NV_GlobalWriteLock_In_Marshal source = TSS_TPMI_RH_PROVISION_Marshal (NV_GlobalWriteLock_In_authHandle source)"

definition TSS_NV_Read_In_Marshal :: "NV_Read_In \<Rightarrow> marshal" where
  "TSS_NV_Read_In_Marshal source =
     m_then (TSS_TPMI_RH_NV_AUTH_Marshal (NV_Read_In_authHandle source)) (
     m_then (TSS_TPMI_RH_NV_INDEX_Marshal (NV_Read_In_nvIndex source)) (
     m_then (TSS_UINT16_Marshal (NV_Read_In_size source)) (
     TSS_UINT16_Marshal (NV_Read_In_offset source))))"

definition TSS_NV_ReadLock_In_Marshal :: "NV_ReadLock_In \<Rightarrow> marshal" where
  "TSS_NV_ReadLock_In_Marshal source =
     m_then (TSS_TPMI_RH_NV_AUTH_Marshal (NV_ReadLock_In_authHandle source)) (
     TSS_TPMI_RH_NV_INDEX_Marshal (NV_ReadLock_In_nvIndex source))"

definition TSS_NV_ChangeAuth_In_Marshal :: "NV_ChangeAuth_In \<Rightarrow> marshal" where
  "TSS_NV_ChangeAuth_In_Marshal source =
     m_then (TSS_TPMI_RH_NV_INDEX_Marshal (NV_ChangeAuth_In_nvIndex source)) (
     TSS_TPM2B_AUTH_Marshal (NV_ChangeAuth_In_newAuth source))"

definition TSS_NV_Certify_In_Marshal :: "NV_Certify_In \<Rightarrow> marshal" where
  "TSS_NV_Certify_In_Marshal source =
     m_then (TSS_TPMI_DH_OBJECT_Marshal (NV_Certify_In_signHandle source)) (
     m_then (TSS_TPMI_RH_NV_AUTH_Marshal (NV_Certify_In_authHandle source)) (
     m_then (TSS_TPMI_RH_NV_INDEX_Marshal (NV_Certify_In_nvIndex source)) (
     m_then (TSS_TPM2B_DATA_Marshal (NV_Certify_In_qualifyingData source)) (
     m_then (TSS_TPMT_SIG_SCHEME_Marshal (NV_Certify_In_inScheme source)) (
     m_then (TSS_UINT16_Marshal (NV_Certify_In_size source)) (
     TSS_UINT16_Marshal (NV_Certify_In_offset source)))))))"

section \<open>Unmarshalling commands\<close>

definition GetCapability_In_Unmarshal :: "(nat \<Rightarrow> TPM_HANDLE) \<Rightarrow> GetCapability_In unmarshal" where
  "GetCapability_In_Unmarshal handles =
     u_bind (u_add_rc RC_GetCapability_capability TPM_CAP_Unmarshal) (\<lambda>capability.
     u_bind (u_add_rc RC_GetCapability_property UINT32_Unmarshal) (\<lambda>property.
     u_bind (u_add_rc RC_GetCapability_propertyCount UINT32_Unmarshal) (\<lambda>propertyCount.
     u_return \<lparr>GetCapability_In_capability = capability, GetCapability_In_property = property,
       GetCapability_In_propertyCount = propertyCount\<rparr>)))"

definition TestParms_In_Unmarshal :: "(nat \<Rightarrow> TPM_HANDLE) \<Rightarrow> TestParms_In unmarshal" where
  "TestParms_In_Unmarshal handles =
     u_bind (u_add_rc RC_TestParms_parameters TPMT_PUBLIC_PARMS_Unmarshal) (\<lambda>parameters.
     u_return \<lparr>TestParms_In_parameters = parameters\<rparr>)"

definition NV_DefineSpace_In_Unmarshal :: "(nat \<Rightarrow> TPM_HANDLE) \<Rightarrow> NV_DefineSpace_In unmarshal" where
  "NV_DefineSpace_In_Unmarshal handles =
     u_bind (u_add_rc RC_NV_DefineSpace_auth TPM2B_AUTH_Unmarshal) (\<lambda>auth.
     u_bind (u_add_rc RC_NV_DefineSpace_publicInfo TPM2B_NV_PUBLIC_Unmarshal) (\<lambda>publicInfo.
     u_return \<lparr>NV_DefineSpace_In_authHandle = handles 0, NV_DefineSpace_In_auth = auth,
       NV_DefineSpace_In_publicInfo = publicInfo\<rparr>))"

definition NV_UndefineSpace_In_Unmarshal :: "(nat \<Rightarrow> TPM_HANDLE) \<Rightarrow> NV_UndefineSpace_In unmarshal" where
  "NV_UndefineSpace_In_Unmarshal handles =
     u_return \<lparr>NV_UndefineSpace_In_authHandle = handles 0,
       NV_UndefineSpace_In_nvIndex = handles 1\<rparr>"

definition NV_UndefineSpaceSpecial_In_Unmarshal :: "(nat \<Rightarrow> TPM_HANDLE) \<Rightarrow> NV_UndefineSpaceSpecial_In unmarshal" where
  "NV_UndefineSpaceSpecial_In_Unmarshal handles =
     u_return \<lparr>NV_UndefineSpaceSpecial_In_nvIndex = handles 0,
       NV_UndefineSpaceSpecial_In_platform = handles 1\<rparr>"

definition NV_ReadPublic_In_Unmarshal :: "(nat \<Rightarrow> TPM_HANDLE) \<Rightarrow> NV_ReadPublic_In unmarshal" where
  "NV_ReadPublic_In_Unmarshal handles =
     u_return \<lparr>NV_ReadPublic_In_nvIndex = handles 0\<rparr>"

definition NV_Write_In_Unmarshal :: "(nat \<Rightarrow> TPM_HANDLE) \<Rightarrow> NV_Write_In unmarshal" where
  "NV_Write_In_Unmarshal handles =
     u_bind (u_add_rc RC_NV_Write_data TPM2B_MAX_NV_BUFFER_Unmarshal) (\<lambda>data.
     u_bind (u_add_rc RC_NV_Write_offset UINT16_Unmarshal) (\<lambda>offset.
     u_return \<lparr>NV_Write_In_authHandle = handles 0, NV_Write_In_nvIndex = handles 1,
       NV_Write_In_data = data, NV_Write_In_offset = offset\<rparr>))"

definition NV_Increment_In_Unmarshal :: "(nat \<Rightarrow> TPM_HANDLE) \<Rightarrow> NV_Increment_In unmarshal" where
  "NV_Increment_In_Unmarshal handles =
     u_return \<lparr>NV_Increment_In_authHandle = handles 0, NV_Increment_In_nvIndex = handles 1\<rparr>"

definition NV_Extend_In_Unmarshal :: "(nat \<Rightarrow> TPM_HANDLE) \<Rightarrow> NV_Extend_In unmarshal" where
  "NV_Extend_In_Unmarshal handles =
     u_bind (u_add_rc RC_NV_Extend_data TPM2B_MAX_NV_BUFFER_Unmarshal) (\<lambda>data.
     u_return \<lparr>NV_Extend_In_authHandle = handles 0, NV_Extend_In_nvIndex = handles 1,
       NV_Extend_In_data = data\<rparr>)"

definition NV_SetBits_In_Unmarshal :: "(nat \<Rightarrow> TPM_HANDLE) \<Rightarrow> NV_SetBits_In unmarshal" where
  "NV_SetBits_In_Unmarshal handles =
     u_bind (u_add_rc RC_NV_SetBits_bits UINT64_Unmarshal) (\<lambda>bits.
     u_return \<lparr>NV_SetBits_In_authHandle = handles 0, NV_SetBits_In_nvIndex = handles 1,
       NV_SetBits_In_bits = bits\<rparr>)"

definition NV_WriteLock_In_Unmarshal :: "(nat \<Rightarrow> TPM_HANDLE) \<Rightarrow> NV_WriteLock_In unmarshal" where
  "NV_WriteLock_In_Unmarshal handles =
     u_return \<lparr>NV_WriteLock_In_authHandle = handles 0, NV_WriteLock_In_nvIndex = handles 1\<rparr>"

definition NV_GlobalWriteLock_In_Unmarshal :: "(nat \<Rightarrow> TPM_HANDLE) \<Rightarrow> NV_GlobalWriteLock_In unmarshal" where
  "NV_GlobalWriteLock_In_Unmarshal handles =
     u_return \<lparr>NV_GlobalWriteLock_In_authHandle = handles 0\<rparr>"

definition NV_Read_In_Unmarshal :: "(nat \<Rightarrow> TPM_HANDLE) \<Rightarrow> NV_Read_In unmarshal" where
  "NV_Read_In_Unmarshal handles =
     u_bind (u_add_rc RC_NV_Read_size UINT16_Unmarshal) (\<lambda>size.
     u_bind (u_add_rc RC_NV_Read_offset UINT16_Unmarshal) (\<lambda>offset.
     u_return \<lparr>NV_Read_In_authHandle = handles 0, NV_Read_In_nvIndex = handles 1,
       NV_Read_In_size = size, NV_Read_In_offset = offset\<rparr>))"

definition NV_ReadLock_In_Unmarshal :: "(nat \<Rightarrow> TPM_HANDLE) \<Rightarrow> NV_ReadLock_In unmarshal" where
  "NV_ReadLock_In_Unmarshal handles =
     u_return \<lparr>NV_ReadLock_In_authHandle = handles 0, NV_ReadLock_In_nvIndex = handles 1\<rparr>"

definition NV_ChangeAuth_In_Unmarshal :: "(nat \<Rightarrow> TPM_HANDLE) \<Rightarrow> NV_ChangeAuth_In unmarshal" where
  "NV_ChangeAuth_In_Unmarshal handles =
     u_bind (u_add_rc RC_NV_ChangeAuth_newAuth TPM2B_AUTH_Unmarshal) (\<lambda>newAuth.
     u_return \<lparr>NV_ChangeAuth_In_nvIndex = handles 0, NV_ChangeAuth_In_newAuth = newAuth\<rparr>)"

definition NV_Certify_In_Unmarshal :: "(nat \<Rightarrow> TPM_HANDLE) \<Rightarrow> NV_Certify_In unmarshal" where
  "NV_Certify_In_Unmarshal handles =
     u_bind (u_add_rc RC_NV_Certify_qualifyingData TPM2B_DATA_Unmarshal) (\<lambda>qualifyingData.
     u_bind (u_add_rc RC_NV_Certify_inScheme (TPMT_SIG_SCHEME_Unmarshal True)) (\<lambda>inScheme.
     u_bind (u_add_rc RC_NV_Certify_size UINT16_Unmarshal) (\<lambda>size.
     u_bind (u_add_rc RC_NV_Certify_offset UINT16_Unmarshal) (\<lambda>offset.
     u_return \<lparr>NV_Certify_In_signHandle = handles 0, NV_Certify_In_authHandle = handles 1,
       NV_Certify_In_nvIndex = handles 2, NV_Certify_In_qualifyingData = qualifyingData,
       NV_Certify_In_inScheme = inScheme, NV_Certify_In_size = size,
       NV_Certify_In_offset = offset\<rparr>))))"

section \<open>Unmarshalling responses\<close>

definition TSS_GetCapability_Out_Unmarshal :: "TPM_ST \<Rightarrow> GetCapability_Out unmarshal" where
  "TSS_GetCapability_Out_Unmarshal tag =
     u_bind (u_when (tag = TPM_ST_SESSIONS) UINT32_Unmarshal) (\<lambda>_.
     u_bind TPMI_YES_NO_Unmarshal (\<lambda>moreData.
     u_bind TPMS_CAPABILITY_DATA_Unmarshal (\<lambda>capabilityData.
     u_return \<lparr>GetCapability_Out_moreData = moreData,
       GetCapability_Out_capabilityData = capabilityData\<rparr>)))"

definition TSS_NV_ReadPublic_Out_Unmarshal :: "TPM_ST \<Rightarrow> NV_ReadPublic_Out unmarshal" where
  "TSS_NV_ReadPublic_Out_Unmarshal tag =
     u_bind (u_when (tag = TPM_ST_SESSIONS) UINT32_Unmarshal) (\<lambda>_.
     u_bind TPM2B_NV_PUBLIC_Unmarshal (\<lambda>nvPublic.
     u_bind TPM2B_NAME_Unmarshal (\<lambda>nvName.
     u_return \<lparr>NV_ReadPublic_Out_nvPublic = nvPublic, NV_ReadPublic_Out_nvName = nvName\<rparr>)))"

definition TSS_NV_Read_Out_Unmarshal :: "TPM_ST \<Rightarrow> NV_Read_Out unmarshal" where
  "TSS_NV_Read_Out_Unmarshal tag =
     u_bind (u_when (tag = TPM_ST_SESSIONS) UINT32_Unmarshal) (\<lambda>_.
     u_bind TPM2B_MAX_NV_BUFFER_Unmarshal (\<lambda>data.
     u_return \<lparr>NV_Read_Out_data = data\<rparr>))"

definition TSS_NV_Certify_Out_Unmarshal :: "TPM_ST \<Rightarrow> NV_Certify_Out unmarshal" where
  "TSS_NV_Certify_Out_Unmarshal tag =
     u_bind (u_when (tag = TPM_ST_SESSIONS) UINT32_Unmarshal) (\<lambda>_.
     u_bind TPM2B_ATTEST_Unmarshal (\<lambda>certifyInfo.
     u_bind (TPMT_SIGNATURE_Unmarshal False) (\<lambda>signature.
     u_return \<lparr>NV_Certify_Out_certifyInfo = certifyInfo,
       NV_Certify_Out_signature = signature\<rparr>)))"

section \<open>Commands are read as they are written\<close>

lemma GetCapability_In_codec: "reads_e param_error k [] (GetCapability_In_Unmarshal handles) TSS_GetCapability_In_Marshal"
  unfolding GetCapability_In_Unmarshal_def TSS_GetCapability_In_Marshal_def
  by (intro reads_bind [OF reads_add_rc [OF TPM_CAP_codec]] reads_bind [OF reads_add_rc [OF UINT32_codec]]
       reads_return)
    (simp_all add: emits_then handle_emits)

lemma TestParms_In_codec: "reads_e param_error k [] (TestParms_In_Unmarshal handles) TSS_TestParms_In_Marshal"
  unfolding TestParms_In_Unmarshal_def TSS_TestParms_In_Marshal_def
  by (intro reads_bind [OF reads_add_rc [OF TPMT_PUBLIC_PARMS_codec]] reads_return)
    (simp_all add: emits_then handle_emits)

lemma NV_DefineSpace_In_codec: "2 \<le> k \<Longrightarrow> reads_e param_error k (be32 (handles 0)) (NV_DefineSpace_In_Unmarshal handles) TSS_NV_DefineSpace_In_Marshal"
  unfolding NV_DefineSpace_In_Unmarshal_def TSS_NV_DefineSpace_In_Marshal_def
  by (intro reads_bind [OF reads_add_rc [OF TPM2B_AUTH_codec]]
       reads_bind [OF reads_add_rc [OF TPM2B_NV_PUBLIC_codec]] reads_return)
    (simp_all add: emits_then handle_emits)

lemma NV_UndefineSpace_In_codec: "reads_e param_error k (be32 (handles 0) @ be32 (handles 1)) (NV_UndefineSpace_In_Unmarshal handles) TSS_NV_UndefineSpace_In_Marshal"
  unfolding NV_UndefineSpace_In_Unmarshal_def TSS_NV_UndefineSpace_In_Marshal_def
  by (intro reads_return)
    (simp_all add: emits_then handle_emits)

lemma NV_UndefineSpaceSpecial_In_codec: "reads_e param_error k (be32 (handles 0) @ be32 (handles 1)) (NV_UndefineSpaceSpecial_In_Unmarshal handles) TSS_NV_UndefineSpaceSpecial_In_Marshal"
  unfolding NV_UndefineSpaceSpecial_In_Unmarshal_def TSS_NV_UndefineSpaceSpecial_In_Marshal_def
  by (intro reads_return)
    (simp_all add: emits_then handle_emits)

lemma NV_ReadPublic_In_codec: "reads_e param_error k (be32 (handles 0)) (NV_ReadPublic_In_Unmarshal handles) TSS_NV_ReadPublic_In_Marshal"
  unfolding NV_ReadPublic_In_Unmarshal_def TSS_NV_ReadPublic_In_Marshal_def
  by (intro reads_return)
    (simp_all add: emits_then handle_emits)

lemma NV_Write_In_codec: "reads_e param_error k (be32 (handles 0) @ be32 (handles 1)) (NV_Write_In_Unmarshal handles) TSS_NV_Write_In_Marshal"
  unfolding NV_Write_In_Unmarshal_def TSS_NV_Write_In_Marshal_def
  by (intro reads_bind [OF reads_add_rc [OF TPM2B_MAX_NV_BUFFER_codec]]
       reads_bind [OF reads_add_rc [OF UINT16_codec]] reads_return)
    (simp_all add: emits_then handle_emits)

lemma NV_Increment_In_codec: "reads_e param_error k (be32 (handles 0) @ be32 (handles 1)) (NV_Increment_In_Unmarshal handles) TSS_NV_Increment_In_Marshal"
  unfolding NV_Increment_In_Unmarshal_def TSS_NV_Increment_In_Marshal_def
  by (intro reads_return)
    (simp_all add: emits_then handle_emits)

lemma NV_Extend_In_codec: "reads_e param_error k (be32 (handles 0) @ be32 (handles 1)) (NV_Extend_In_Unmarshal handles) TSS_NV_Extend_In_Marshal"
  unfolding NV_Extend_In_Unmarshal_def TSS_NV_Extend_In_Marshal_def
  by (intro reads_bind [OF reads_add_rc [OF TPM2B_MAX_NV_BUFFER_codec]] reads_return)
    (simp_all add: emits_then handle_emits)

lemma NV_SetBits_In_codec: "reads_e param_error k (be32 (handles 0) @ be32 (handles 1)) (NV_SetBits_In_Unmarshal handles) TSS_NV_SetBits_In_Marshal"
  unfolding NV_SetBits_In_Unmarshal_def TSS_NV_SetBits_In_Marshal_def
  by (intro reads_bind [OF reads_add_rc [OF UINT64_codec]] reads_return)
    (simp_all add: emits_then handle_emits)

lemma NV_WriteLock_In_codec: "reads_e param_error k (be32 (handles 0) @ be32 (handles 1)) (NV_WriteLock_In_Unmarshal handles) TSS_NV_WriteLock_In_Marshal"
  unfolding NV_WriteLock_In_Unmarshal_def TSS_NV_WriteLock_In_Marshal_def
  by (intro reads_return)
    (simp_all add: emits_then handle_emits)

lemma NV_GlobalWriteLock_In_codec: "reads_e param_error k (be32 (handles 0)) (NV_GlobalWriteLock_In_Unmarshal handles) TSS_NV_GlobalWriteLock_In_Marshal"
  unfolding NV_GlobalWriteLock_In_Unmarshal_def TSS_NV_GlobalWriteLock_In_Marshal_def
  by (intro reads_return)
    (simp_all add: emits_then handle_emits)

lemma NV_Read_In_codec: "reads_e param_error k (be32 (handles 0) @ be32 (handles 1)) (NV_Read_In_Unmarshal handles) TSS_NV_Read_In_Marshal"
  unfolding NV_Read_In_Unmarshal_def TSS_NV_Read_In_Marshal_def
  by (intro reads_bind [OF reads_add_rc [OF UINT16_codec]] reads_return)
    (simp_all add: emits_then handle_emits)

lemma NV_ReadLock_In_codec: "reads_e param_error k (be32 (handles 0) @ be32 (handles 1)) (NV_ReadLock_In_Unmarshal handles) TSS_NV_ReadLock_In_Marshal"
  unfolding NV_ReadLock_In_Unmarshal_def TSS_NV_ReadLock_In_Marshal_def
  by (intro reads_return)
    (simp_all add: emits_then handle_emits)

lemma NV_ChangeAuth_In_codec: "reads_e param_error k (be32 (handles 0)) (NV_ChangeAuth_In_Unmarshal handles) TSS_NV_ChangeAuth_In_Marshal"
  unfolding NV_ChangeAuth_In_Unmarshal_def TSS_NV_ChangeAuth_In_Marshal_def
  by (intro reads_bind [OF reads_add_rc [OF TPM2B_AUTH_codec]] reads_return)
    (simp_all add: emits_then handle_emits)

lemma NV_Certify_In_codec: "reads_e param_error k (be32 (handles 0) @ be32 (handles 1) @ be32 (handles 2)) (NV_Certify_In_Unmarshal handles) TSS_NV_Certify_In_Marshal"
  unfolding NV_Certify_In_Unmarshal_def TSS_NV_Certify_In_Marshal_def
  by (intro reads_bind [OF reads_add_rc [OF TPM2B_DATA_codec]]
       reads_bind [OF reads_add_rc [OF TPMT_SIG_SCHEME_codec]]
       reads_bind [OF reads_add_rc [OF UINT16_codec]] reads_return)
    (simp_all add: emits_then handle_emits)

section \<open>Responses stay within their target\<close>

definition GetCapability_Out_bounded :: "GetCapability_Out \<Rightarrow> bool" where
  "GetCapability_Out_bounded v \<longleftrightarrow> TPMS_CAPABILITY_DATA_bounded (GetCapability_Out_capabilityData v)"

definition NV_ReadPublic_Out_bounded :: "NV_ReadPublic_Out \<Rightarrow> bool" where
  "NV_ReadPublic_Out_bounded v \<longleftrightarrow> TPM2B_NV_PUBLIC_bounded (NV_ReadPublic_Out_nvPublic v)
    \<and> TPM2B_NAME_bounded (NV_ReadPublic_Out_nvName v)"

definition NV_Read_Out_bounded :: "NV_Read_Out \<Rightarrow> bool" where
  "NV_Read_Out_bounded v \<longleftrightarrow> TPM2B_MAX_NV_BUFFER_bounded (NV_Read_Out_data v)"

definition NV_Certify_Out_bounded :: "NV_Certify_Out \<Rightarrow> bool" where
  "NV_Certify_Out_bounded v \<longleftrightarrow> TPM2B_ATTEST_bounded (NV_Certify_Out_certifyInfo v)
    \<and> TPMT_SIGNATURE_bounded (NV_Certify_Out_signature v)"

lemma GetCapability_Out_delivers: "delivers GetCapability_Out_bounded (TSS_GetCapability_Out_Unmarshal tag)"
  unfolding TSS_GetCapability_Out_Unmarshal_def
  by (intro delivers_bind [OF delivers_when [OF reads_delivers [OF UINT32_codec]]]
       delivers_bind [OF reads_delivers [OF TPMI_YES_NO_codec]]
       delivers_bind [OF TPMS_CAPABILITY_DATA_delivers] delivers_return)
    (simp_all add: GetCapability_Out_bounded_def)

lemma NV_ReadPublic_Out_delivers: "delivers NV_ReadPublic_Out_bounded (TSS_NV_ReadPublic_Out_Unmarshal tag)"
  unfolding TSS_NV_ReadPublic_Out_Unmarshal_def
  by (intro delivers_bind [OF delivers_when [OF reads_delivers [OF UINT32_codec]]]
       delivers_bind [OF TPM2B_NV_PUBLIC_delivers] delivers_bind [OF TPM2B_NAME_delivers]
       delivers_return)
    (simp_all add: NV_ReadPublic_Out_bounded_def)

lemma NV_Read_Out_delivers: "delivers NV_Read_Out_bounded (TSS_NV_Read_Out_Unmarshal tag)"
  unfolding TSS_NV_Read_Out_Unmarshal_def
  by (intro delivers_bind [OF delivers_when [OF reads_delivers [OF UINT32_codec]]]
       delivers_bind [OF TPM2B_MAX_NV_BUFFER_delivers] delivers_return)
    (simp_all add: NV_Read_Out_bounded_def)

lemma NV_Certify_Out_delivers: "delivers NV_Certify_Out_bounded (TSS_NV_Certify_Out_Unmarshal tag)"
  unfolding TSS_NV_Certify_Out_Unmarshal_def
  by (intro delivers_bind [OF delivers_when [OF reads_delivers [OF UINT32_codec]]]
       delivers_bind [OF TPM2B_ATTEST_delivers] delivers_bind [OF TPMT_SIGNATURE_delivers]
       delivers_return)
    (simp_all add: NV_Certify_Out_bounded_def)

end
