(* ===== verification/Tss_Params.thy ===== *)
theory Tss_Params
  imports Tss_Attributes Tss_Cmd_Object Tss_Cmd_Crypto Tss_Cmd_Attest Tss_Cmd_Policy Tss_Cmd_Hierarchy Tss_Cmd_NV
begin

text \<open>
  The unions \<open>COMMAND_PARAMETERS\<close> and \<open>RESPONSE_PARAMETERS\<close> of \<^verbatim>\<open>libtss2/tss2/Parameters.h\<close> and the dispatch table of
  \<^verbatim>\<open>libtss2/tssauth.c\<close>. The members of a union are grouped by the theory that defines their type; a member that is not the one
  written has no value (\<open>None\<close>). \<open>PolicyNvWritten\<close> is missing from the union of the source; its callers cast their structure
  to it, so it is a member here.
\<close>

section \<open>The unions\<close>

datatype Object_In_member =
    In_ActivateCredential ActivateCredential_In
  | In_Create Create_In
  | In_Duplicate Duplicate_In
  | In_Import Import_In
  | In_IncrementalSelfTest IncrementalSelfTest_In
  | In_LoadExternal LoadExternal_In
  | In_Load Load_In
  | In_MakeCredential MakeCredential_In
  | In_ObjectChangeAuth ObjectChangeAuth_In
  | In_PolicyRestart PolicyRestart_In
  | In_ReadPublic ReadPublic_In
  | In_Rewrap Rewrap_In
  | In_SelfTest SelfTest_In
  | In_Shutdown Shutdown_In
  | In_StartAuthSession StartAuthSession_In
  | In_Startup Startup_In
  | In_Unseal Unseal_In

datatype Crypto_In_member =
    In_ECC_Parameters ECC_Parameters_In
  | In_ECDH_KeyGen ECDH_KeyGen_In
  | In_ECDH_ZGen ECDH_ZGen_In
  | In_EncryptDecrypt EncryptDecrypt_In
  | In_EventSequenceComplete EventSequenceComplete_In
  | In_GetRandom GetRandom_In
  | In_HMAC HMAC_In
  | In_HMAC_Start HMAC_Start_In
  | In_HashSequenceStart HashSequenceStart_In
  | In_Hash Hash_In
  | In_RSA_Decrypt RSA_Decrypt_In
  | In_RSA_Encrypt RSA_Encrypt_In
  | In_SequenceComplete SequenceComplete_In
  | In_SequenceUpdate SequenceUpdate_In
  | In_StirRandom StirRandom_In
  | In_ZGen_2Phase ZGen_2Phase_In

datatype Attest_In_member =
    In_CertifyCreation CertifyCreation_In
  | In_Certify Certify_In
  | In_Commit Commit_In
  | In_EC_Ephemeral EC_Ephemeral_In
  | In_GetCommandAuditDigest GetCommandAuditDigest_In
  | In_GetSessionAuditDigest GetSessionAuditDigest_In
  | In_GetTime GetTime_In
  | In_PCR_Allocate PCR_Allocate_In
  | In_PCR_Event PCR_Event_In
  | In_PCR_Extend PCR_Extend_In
  | In_PCR_Read PCR_Read_In
  | In_PCR_Reset PCR_Reset_In
  | In_PCR_SetAuthPolicy PCR_SetAuthPolicy_In
  | In_PCR_SetAuthValue PCR_SetAuthValue_In
  | In_Quote Quote_In
  | In_SetCommandCodeAuditStatus SetCommandCodeAuditStatus_In
  | In_Sign Sign_In
  | In_VerifySignature VerifySignature_In

datatype Policy_In_member =
    In_PolicyAuthValue PolicyAuthValue_In
  | In_PolicyAuthorize PolicyAuthorize_In
  | In_PolicyCommandCode PolicyCommandCode_In
  | In_PolicyCounterTimer PolicyCounterTimer_In
  | In_PolicyCpHash PolicyCpHash_In
  | In_PolicyDuplicationSelect PolicyDuplicationSelect_In
  | In_PolicyGetDigest PolicyGetDigest_In
  | In_PolicyLocality PolicyLocality_In
  | In_PolicyNV PolicyNV_In
  | In_PolicyNameHash PolicyNameHash_In
  | In_PolicyNvWritten PolicyNvWritten_In
  | In_PolicyOR PolicyOR_In
  | In_PolicyPCR PolicyPCR_In
  | In_PolicyPassword PolicyPassword_In
  | In_PolicyPhysicalPresence PolicyPhysicalPresence_In
  | In_PolicySecret PolicySecret_In
  | In_PolicySigned PolicySigned_In
  | In_PolicyTicket PolicyTicket_In

datatype Hierarchy_In_member =
    In_ChangeEPS ChangeEPS_In
  | In_ChangePPS ChangePPS_In
  | In_ClearControl ClearControl_In
  | In_Clear Clear_In
  | In_ClockRateAdjust ClockRateAdjust_In
  | In_ClockSet ClockSet_In
  | In_ContextLoad ContextLoad_In
  | In_ContextSave ContextSave_In
  | In_CreatePrimary CreatePrimary_In
  | In_DictionaryAttackLockReset DictionaryAttackLockReset_In
  | In_DictionaryAttackParameters DictionaryAttackParameters_In
  | In_EvictControl EvictControl_In
  | In_FlushContext FlushContext_In
  | In_HierarchyChangeAuth HierarchyChangeAuth_In
  | In_HierarchyControl HierarchyControl_In
  | In_PP_Commands PP_Commands_In
  | In_SetAlgorithmSet SetAlgorithmSet_In
  | In_SetPrimaryPolicy SetPrimaryPolicy_In

datatype NV_In_member =
    In_GetCapability GetCapability_In
  | In_NV_Certify NV_Certify_In
  | In_NV_ChangeAuth NV_ChangeAuth_In
  | In_NV_DefineSpace NV_DefineSpace_In
  | In_NV_Extend NV_Extend_In
  | In_NV_GlobalWriteLock NV_GlobalWriteLock_In
  | In_NV_Increment NV_Increment_In
  | In_NV_ReadLock NV_ReadLock_In
  | In_NV_ReadPublic NV_ReadPublic_In
  | In_NV_Read NV_Read_In
  | In_NV_SetBits NV_SetBits_In
  | In_NV_UndefineSpaceSpecial NV_UndefineSpaceSpecial_In
  | In_NV_UndefineSpace NV_UndefineSpace_In
  | In_NV_WriteLock NV_WriteLock_In
  | In_NV_Write NV_Write_In
  | In_TestParms TestParms_In

datatype COMMAND_PARAMETERS =
    Object_Parameters Object_In_member
  | Crypto_Parameters Crypto_In_member
  | Attest_Parameters Attest_In_member
  | Policy_Parameters Policy_In_member
  | Hierarchy_Parameters Hierarchy_In_member
  | NV_Parameters NV_In_member

datatype Object_Out_member =
    Out_ActivateCredential ActivateCredential_Out
  | Out_Create Create_Out
  | Out_Duplicate Duplicate_Out
  | Out_GetTestResult GetTestResult_Out
  | Out_Import Import_Out
  | Out_IncrementalSelfTest IncrementalSelfTest_Out
  | Out_LoadExternal LoadExternal_Out
  | Out_Load Load_Out
  | Out_MakeCredential MakeCredential_Out
  | Out_ObjectChangeAuth ObjectChangeAuth_Out
  | Out_ReadPublic ReadPublic_Out
  | Out_Rewrap Rewrap_Out
  | Out_StartAuthSession StartAuthSession_Out
  | Out_Unseal Unseal_Out

datatype Crypto_Out_member =
    Out_ECC_Parameters ECC_Parameters_Out
  | Out_ECDH_KeyGen ECDH_KeyGen_Out
  | Out_ECDH_ZGen ECDH_ZGen_Out
  | Out_EncryptDecrypt EncryptDecrypt_Out
  | Out_EventSequenceComplete EventSequenceComplete_Out
  | Out_GetRandom GetRandom_Out
  | Out_HMAC HMAC_Out
  | Out_HMAC_Start HMAC_Start_Out
  | Out_HashSequenceStart HashSequenceStart_Out
  | Out_Hash Hash_Out
  | Out_RSA_Decrypt RSA_Decrypt_Out
  | Out_RSA_Encrypt RSA_Encrypt_Out
  | Out_SequenceComplete SequenceComplete_Out
  | Out_ZGen_2Phase ZGen_2Phase_Out

datatype Attest_Out_member =
    Out_CertifyCreation CertifyCreation_Out
  | Out_Certify Certify_Out
  | Out_Commit Commit_Out
  | Out_EC_Ephemeral EC_Ephemeral_Out
  | Out_GetCommandAuditDigest GetCommandAuditDigest_Out
  | Out_GetSessionAuditDigest GetSessionAuditDigest_Out
  | Out_GetTime GetTime_Out
  | Out_PCR_Allocate PCR_Allocate_Out
  | Out_PCR_Event PCR_Event_Out
  | Out_PCR_Read PCR_Read_Out
  | Out_Quote Quote_Out
  | Out_Sign Sign_Out
  | Out_VerifySignature VerifySignature_Out

datatype Policy_Out_member =
    Out_PolicyGetDigest PolicyGetDigest_Out
  | Out_PolicySecret PolicySecret_Out
  | Out_PolicySigned PolicySigned_Out

datatype Hierarchy_Out_member =
    Out_ContextLoad ContextLoad_Out
  | Out_ContextSave ContextSave_Out
  | Out_CreatePrimary CreatePrimary_Out
  | Out_ReadClock ReadClock_Out

datatype NV_Out_member =
    Out_GetCapability GetCapability_Out
  | Out_NV_Certify NV_Certify_Out
  | Out_NV_ReadPublic NV_ReadPublic_Out
  | Out_NV_Read NV_Read_Out

datatype RESPONSE_PARAMETERS =
    Object_Response Object_Out_member
  | Crypto_Response Crypto_Out_member
  | Attest_Response Attest_Out_member
  | Policy_Response Policy_Out_member
  | Hierarchy_Response Hierarchy_Out_member
  | NV_Response NV_Out_member

text \<open>The members of a command.\<close>

definition in_ActivateCredential :: "COMMAND_PARAMETERS \<Rightarrow> ActivateCredential_In option" where
  "in_ActivateCredential p = (case p of Object_Parameters (In_ActivateCredential x) \<Rightarrow> Some x | _ \<Rightarrow> None)"

definition in_CertifyCreation :: "COMMAND_PARAMETERS \<Rightarrow> CertifyCreation_In option" where
  "in_CertifyCreation p = (case p of Attest_Parameters (In_CertifyCreation x) \<Rightarrow> Some x | _ \<Rightarrow> None)"

definition in_Certify :: "COMMAND_PARAMETERS \<Rightarrow> Certify_In option" where
  "in_Certify p = (case p of Attest_Parameters (In_Certify x) \<Rightarrow> Some x | _ \<Rightarrow> None)"

definition in_ChangeEPS :: "COMMAND_PARAMETERS \<Rightarrow> ChangeEPS_In option" where
  "in_ChangeEPS p = (case p of Hierarchy_Parameters (In_ChangeEPS x) \<Rightarrow> Some x | _ \<Rightarrow> None)"

definition in_ChangePPS :: "COMMAND_PARAMETERS \<Rightarrow> ChangePPS_In option" where
  "in_ChangePPS p = (case p of Hierarchy_Parameters (In_ChangePPS x) \<Rightarrow> Some x | _ \<Rightarrow> None)"

definition in_ClearControl :: "COMMAND_PARAMETERS \<Rightarrow> ClearControl_In option" where
  "in_ClearControl p = (case p of Hierarchy_Parameters (In_ClearControl x) \<Rightarrow> Some x | _ \<Rightarrow> None)"

definition in_Clear :: "COMMAND_PARAMETERS \<Rightarrow> Clear_In option" where
  "in_Clear p = (case p of Hierarchy_Parameters (In_Clear x) \<Rightarrow> Some x | _ \<Rightarrow> None)"

definition in_ClockRateAdjust :: "COMMAND_PARAMETERS \<Rightarrow> ClockRateAdjust_In option" where
  "in_ClockRateAdjust p = (case p of Hierarchy_Parameters (In_ClockRateAdjust x) \<Rightarrow> Some x | _ \<Rightarrow> None)"

definition in_ClockSet :: "COMMAND_PARAMETERS \<Rightarrow> ClockSet_In option" where
  "in_ClockSet p = (case p of Hierarchy_Parameters (In_ClockSet x) \<Rightarrow> Some x | _ \<Rightarrow> None)"

definition in_Commit :: "COMMAND_PARAMETERS \<Rightarrow> Commit_In option" where
  "in_Commit p = (case p of Attest_Parameters (In_Commit x) \<Rightarrow> Some x | _ \<Rightarrow> None)"

definition in_ContextLoad :: "COMMAND_PARAMETERS \<Rightarrow> ContextLoad_In option" where
  "in_ContextLoad p = (case p of Hierarchy_Parameters (In_ContextLoad x) \<Rightarrow> Some x | _ \<Rightarrow> None)"

definition in_ContextSave :: "COMMAND_PARAMETERS \<Rightarrow> ContextSave_In option" where
  "in_ContextSave p = (case p of Hierarchy_Parameters (In_ContextSave x) \<Rightarrow> Some x | _ \<Rightarrow> None)"

definition in_CreatePrimary :: "COMMAND_PARAMETERS \<Rightarrow> CreatePrimary_In option" where
  "in_CreatePrimary p = (case p of Hierarchy_Parameters (In_CreatePrimary x) \<Rightarrow> Some x | _ \<Rightarrow> None)"

definition in_Create :: "COMMAND_PARAMETERS \<Rightarrow> Create_In option" where
  "in_Create p = (case p of Object_Parameters (In_Create x) \<Rightarrow> Some x | _ \<Rightarrow> None)"

definition in_DictionaryAttackLockReset :: "COMMAND_PARAMETERS \<Rightarrow> DictionaryAttackLockReset_In option" where
  "in_DictionaryAttackLockReset p = (case p of Hierarchy_Parameters (In_DictionaryAttackLockReset x) \<Rightarrow> Some x | _ \<Rightarrow> None)"

definition in_DictionaryAttackParameters :: "COMMAND_PARAMETERS \<Rightarrow> DictionaryAttackParameters_In option" where
  "in_DictionaryAttackParameters p = (case p of Hierarchy_Parameters (In_DictionaryAttackParameters x) \<Rightarrow> Some x | _ \<Rightarrow> None)"

definition in_Duplicate :: "COMMAND_PARAMETERS \<Rightarrow> Duplicate_In option" where
  "in_Duplicate p = (case p of Object_Parameters (In_Duplicate x) \<Rightarrow> Some x | _ \<Rightarrow> None)"

definition in_ECC_Parameters :: "COMMAND_PARAMETERS \<Rightarrow> ECC_Parameters_In option" where
  "in_ECC_Parameters p = (case p of Crypto_Parameters (In_ECC_Parameters x) \<Rightarrow> Some x | _ \<Rightarrow> None)"

definition in_ECDH_KeyGen :: "COMMAND_PARAMETERS \<Rightarrow> ECDH_KeyGen_In option" where
  "in_ECDH_KeyGen p = (case p of Crypto_Parameters (In_ECDH_KeyGen x) \<Rightarrow> Some x | _ \<Rightarrow> None)"

definition in_ECDH_ZGen :: "COMMAND_PARAMETERS \<Rightarrow> ECDH_ZGen_In option" where
  "in_ECDH_ZGen p = (case p of Crypto_Parameters (In_ECDH_ZGen x) \<Rightarrow> Some x | _ \<Rightarrow> None)"

definition in_EC_Ephemeral :: "COMMAND_PARAMETERS \<Rightarrow> EC_Ephemeral_In option" where
  "in_EC_Ephemeral p = (case p of Attest_Parameters (In_EC_Ephemeral x) \<Rightarrow> Some x | _ \<Rightarrow> None)"

definition in_EncryptDecrypt :: "COMMAND_PARAMETERS \<Rightarrow> EncryptDecrypt_In option" where
  "in_EncryptDecrypt p = (case p of Crypto_Parameters (In_EncryptDecrypt x) \<Rightarrow> Some x | _ \<Rightarrow> None)"

definition in_EventSequenceComplete :: "COMMAND_PARAMETERS \<Rightarrow> EventSequenceComplete_In option" where
  "in_EventSequenceComplete p = (case p of Crypto_Parameters (In_EventSequenceComplete x) \<Rightarrow> Some x | _ \<Rightarrow> None)"

definition in_EvictControl :: "COMMAND_PARAMETERS \<Rightarrow> EvictControl_In option" where
  "in_EvictControl p = (case p of Hierarchy_Parameters (In_EvictControl x) \<Rightarrow> Some x | _ \<Rightarrow> None)"

definition in_FlushContext :: "COMMAND_PARAMETERS \<Rightarrow> FlushContext_In option" where
  "in_FlushContext p = (case p of Hierarchy_Parameters (In_FlushContext x) \<Rightarrow> Some x | _ \<Rightarrow> None)"

definition in_GetCapability :: "COMMAND_PARAMETERS \<Rightarrow> GetCapability_In option" where
  "in_GetCapability p = (case p of NV_Parameters (In_GetCapability x) \<Rightarrow> Some x | _ \<Rightarrow> None)"

definition in_GetCommandAuditDigest :: "COMMAND_PARAMETERS \<Rightarrow> GetCommandAuditDigest_In option" where
  "in_GetCommandAuditDigest p = (case p of Attest_Parameters (In_GetCommandAuditDigest x) \<Rightarrow> Some x | _ \<Rightarrow> None)"

definition in_GetRandom :: "COMMAND_PARAMETERS \<Rightarrow> GetRandom_In option" where
  "in_GetRandom p = (case p of Crypto_Parameters (In_GetRandom x) \<Rightarrow> Some x | _ \<Rightarrow> None)"

definition in_GetSessionAuditDigest :: "COMMAND_PARAMETERS \<Rightarrow> GetSessionAuditDigest_In option" where
  "in_GetSessionAuditDigest p = (case p of Attest_Parameters (In_GetSessionAuditDigest x) \<Rightarrow> Some x | _ \<Rightarrow> None)"

definition in_GetTime :: "COMMAND_PARAMETERS \<Rightarrow> GetTime_In option" where
  "in_GetTime p = (case p of Attest_Parameters (In_GetTime x) \<Rightarrow> Some x | _ \<Rightarrow> None)"

definition in_HMAC :: "COMMAND_PARAMETERS \<Rightarrow> HMAC_In option" where
  "in_HMAC p = (case p of Crypto_Parameters (In_HMAC x) \<Rightarrow> Some x | _ \<Rightarrow> None)"

definition in_HMAC_Start :: "COMMAND_PARAMETERS \<Rightarrow> HMAC_Start_In option" where
  "in_HMAC_Start p = (case p of Crypto_Parameters (In_HMAC_Start x) \<Rightarrow> Some x | _ \<Rightarrow> None)"

definition in_HashSequenceStart :: "COMMAND_PARAMETERS \<Rightarrow> HashSequenceStart_In option" where
  "in_HashSequenceStart p = (case p of Crypto_Parameters (In_HashSequenceStart x) \<Rightarrow> Some x | _ \<Rightarrow> None)"

definition in_Hash :: "COMMAND_PARAMETERS \<Rightarrow> Hash_In option" where
  "in_Hash p = (case p of Crypto_Parameters (In_Hash x) \<Rightarrow> Some x | _ \<Rightarrow> None)"

definition in_HierarchyChangeAuth :: "COMMAND_PARAMETERS \<Rightarrow> HierarchyChangeAuth_In option" where
  "in_HierarchyChangeAuth p = (case p of Hierarchy_Parameters (In_HierarchyChangeAuth x) \<Rightarrow> Some x | _ \<Rightarrow> None)"

definition in_HierarchyControl :: "COMMAND_PARAMETERS \<Rightarrow> HierarchyControl_In option" where
  "in_HierarchyControl p = (case p of Hierarchy_Parameters (In_HierarchyControl x) \<Rightarrow> Some x | _ \<Rightarrow> None)"

definition in_Import :: "COMMAND_PARAMETERS \<Rightarrow> Import_In option" where
  "in_Import p = (case p of Object_Parameters (In_Import x) \<Rightarrow> Some x | _ \<Rightarrow> None)"

definition in_IncrementalSelfTest :: "COMMAND_PARAMETERS \<Rightarrow> IncrementalSelfTest_In option" where
  "in_IncrementalSelfTest p = (case p of Object_Parameters (In_IncrementalSelfTest x) \<Rightarrow> Some x | _ \<Rightarrow> None)"

definition in_LoadExternal :: "COMMAND_PARAMETERS \<Rightarrow> LoadExternal_In option" where
  "in_LoadExternal p = (case p of Object_Parameters (In_LoadExternal x) \<Rightarrow> Some x | _ \<Rightarrow> None)"

definition in_Load :: "COMMAND_PARAMETERS \<Rightarrow> Load_In option" where
  "in_Load p = (case p of Object_Parameters (In_Load x) \<Rightarrow> Some x | _ \<Rightarrow> None)"

definition in_MakeCredential :: "COMMAND_PARAMETERS \<Rightarrow> MakeCredential_In option" where
  "in_MakeCredential p = (case p of Object_Parameters (In_MakeCredential x) \<Rightarrow> Some x | _ \<Rightarrow> None)"

definition in_NV_Certify :: "COMMAND_PARAMETERS \<Rightarrow> NV_Certify_In option" where
  "in_NV_Certify p = (case p of NV_Parameters (In_NV_Certify x) \<Rightarrow> Some x | _ \<Rightarrow> None)"

definition in_NV_ChangeAuth :: "COMMAND_PARAMETERS \<Rightarrow> NV_ChangeAuth_In option" where
  "in_NV_ChangeAuth p = (case p of NV_Parameters (In_NV_ChangeAuth x) \<Rightarrow> Some x | _ \<Rightarrow> None)"

definition in_NV_DefineSpace :: "COMMAND_PARAMETERS \<Rightarrow> NV_DefineSpace_In option" where
  "in_NV_DefineSpace p = (case p of NV_Parameters (In_NV_DefineSpace x) \<Rightarrow> Some x | _ \<Rightarrow> None)"

definition in_NV_Extend :: "COMMAND_PARAMETERS \<Rightarrow> NV_Extend_In option" where
  "in_NV_Extend p = (case p of NV_Parameters (In_NV_Extend x) \<Rightarrow> Some x | _ \<Rightarrow> None)"

definition in_NV_GlobalWriteLock :: "COMMAND_PARAMETERS \<Rightarrow> NV_GlobalWriteLock_In option" where
  "in_NV_GlobalWriteLock p = (case p of NV_Parameters (In_NV_GlobalWriteLock x) \<Rightarrow> Some x | _ \<Rightarrow> None)"

definition in_NV_Increment :: "COMMAND_PARAMETERS \<Rightarrow> NV_Increment_In option" where
  "in_NV_Increment p = (case p of NV_Parameters (In_NV_Increment x) \<Rightarrow> Some x | _ \<Rightarrow> None)"

definition in_NV_ReadLock :: "COMMAND_PARAMETERS \<Rightarrow> NV_ReadLock_In option" where
  "in_NV_ReadLock p = (case p of NV_Parameters (In_NV_ReadLock x) \<Rightarrow> Some x | _ \<Rightarrow> None)"

definition in_NV_ReadPublic :: "COMMAND_PARAMETERS \<Rightarrow> NV_ReadPublic_In option" where
  "in_NV_ReadPublic p = (case p of NV_Parameters (In_NV_ReadPublic x) \<Rightarrow> Some x | _ \<Rightarrow> None)"

definition in_NV_Read :: "COMMAND_PARAMETERS \<Rightarrow> NV_Read_In option" where
  "in_NV_Read p = (case p of NV_Parameters (In_NV_Read x) \<Rightarrow> Some x | _ \<Rightarrow> None)"

definition in_NV_SetBits :: "COMMAND_PARAMETERS \<Rightarrow> NV_SetBits_In option" where
  "in_NV_SetBits p = (case p of NV_Parameters (In_NV_SetBits x) \<Rightarrow> Some x | _ \<Rightarrow> None)"

definition in_NV_UndefineSpaceSpecial :: "COMMAND_PARAMETERS \<Rightarrow> NV_UndefineSpaceSpecial_In option" where
  "in_NV_UndefineSpaceSpecial p = (case p of NV_Parameters (In_NV_UndefineSpaceSpecial x) \<Rightarrow> Some x | _ \<Rightarrow> None)"

definition in_NV_UndefineSpace :: "COMMAND_PARAMETERS \<Rightarrow> NV_UndefineSpace_In option" where
  "in_NV_UndefineSpace p = (case p of NV_Parameters (In_NV_UndefineSpace x) \<Rightarrow> Some x | _ \<Rightarrow> None)"

definition in_NV_WriteLock :: "COMMAND_PARAMETERS \<Rightarrow> NV_WriteLock_In option" where
  "in_NV_WriteLock p = (case p of NV_Parameters (In_NV_WriteLock x) \<Rightarrow> Some x | _ \<Rightarrow> None)"

definition in_NV_Write :: "COMMAND_PARAMETERS \<Rightarrow> NV_Write_In option" where
  "in_NV_Write p = (case p of NV_Parameters (In_NV_Write x) \<Rightarrow> Some x | _ \<Rightarrow> None)"

definition in_ObjectChangeAuth :: "COMMAND_PARAMETERS \<Rightarrow> ObjectChangeAuth_In option" where
  "in_ObjectChangeAuth p = (case p of Object_Parameters (In_ObjectChangeAuth x) \<Rightarrow> Some x | _ \<Rightarrow> None)"

definition in_PCR_Allocate :: "COMMAND_PARAMETERS \<Rightarrow> PCR_Allocate_In option" where
  "in_PCR_Allocate p = (case p of Attest_Parameters (In_PCR_Allocate x) \<Rightarrow> Some x | _ \<Rightarrow> None)"

definition in_PCR_Event :: "COMMAND_PARAMETERS \<Rightarrow> PCR_Event_In option" where
  "in_PCR_Event p = (case p of Attest_Parameters (In_PCR_Event x) \<Rightarrow> Some x | _ \<Rightarrow> None)"

definition in_PCR_Extend :: "COMMAND_PARAMETERS \<Rightarrow> PCR_Extend_In option" where
  "in_PCR_Extend p = (case p of Attest_Parameters (In_PCR_Extend x) \<Rightarrow> Some x | _ \<Rightarrow> None)"

definition in_PCR_Read :: "COMMAND_PARAMETERS \<Rightarrow> PCR_Read_In option" where
  "in_PCR_Read p = (case p of Attest_Parameters (In_PCR_Read x) \<Rightarrow> Some x | _ \<Rightarrow> None)"

definition in_PCR_Reset :: "COMMAND_PARAMETERS \<Rightarrow> PCR_Reset_In option" where
  "in_PCR_Reset p = (case p of Attest_Parameters (In_PCR_Reset x) \<Rightarrow> Some x | _ \<Rightarrow> None)"

definition in_PCR_SetAuthPolicy :: "COMMAND_PARAMETERS \<Rightarrow> PCR_SetAuthPolicy_In option" where
  "in_PCR_SetAuthPolicy p = (case p of Attest_Parameters (In_PCR_SetAuthPolicy x) \<Rightarrow> Some x | _ \<Rightarrow> None)"

definition in_PCR_SetAuthValue :: "COMMAND_PARAMETERS \<Rightarrow> PCR_SetAuthValue_In option" where
  "in_PCR_SetAuthValue p = (case p of Attest_Parameters (In_PCR_SetAuthValue x) \<Rightarrow> Some x | _ \<Rightarrow> None)"

definition in_PP_Commands :: "COMMAND_PARAMETERS \<Rightarrow> PP_Commands_In option" where
  "in_PP_Commands p = (case p of Hierarchy_Parameters (In_PP_Commands x) \<Rightarrow> Some x | _ \<Rightarrow> None)"

definition in_PolicyAuthValue :: "COMMAND_PARAMETERS \<Rightarrow> PolicyAuthValue_In option" where
  "in_PolicyAuthValue p = (case p of Policy_Parameters (In_PolicyAuthValue x) \<Rightarrow> Some x | _ \<Rightarrow> None)"

definition in_PolicyAuthorize :: "COMMAND_PARAMETERS \<Rightarrow> PolicyAuthorize_In option" where
  "in_PolicyAuthorize p = (case p of Policy_Parameters (In_PolicyAuthorize x) \<Rightarrow> Some x | _ \<Rightarrow> None)"

definition in_PolicyCommandCode :: "COMMAND_PARAMETERS \<Rightarrow> PolicyCommandCode_In option" where
  "in_PolicyCommandCode p = (case p of Policy_Parameters (In_PolicyCommandCode x) \<Rightarrow> Some x | _ \<Rightarrow> None)"

definition in_PolicyCounterTimer :: "COMMAND_PARAMETERS \<Rightarrow> PolicyCounterTimer_In option" where
  "in_PolicyCounterTimer p = (case p of Policy_Parameters (In_PolicyCounterTimer x) \<Rightarrow> Some x | _ \<Rightarrow> None)"

definition in_PolicyCpHash :: "COMMAND_PARAMETERS \<Rightarrow> PolicyCpHash_In option" where
  "in_PolicyCpHash p = (case p of Policy_Parameters (In_PolicyCpHash x) \<Rightarrow> Some x | _ \<Rightarrow> None)"

definition in_PolicyDuplicationSelect :: "COMMAND_PARAMETERS \<Rightarrow> PolicyDuplicationSelect_In option" where
  "in_PolicyDuplicationSelect p = (case p of Policy_Parameters (In_PolicyDuplicationSelect x) \<Rightarrow> Some x | _ \<Rightarrow> None)"

definition in_PolicyGetDigest :: "COMMAND_PARAMETERS \<Rightarrow> PolicyGetDigest_In option" where
  "in_PolicyGetDigest p = (case p of Policy_Parameters (In_PolicyGetDigest x) \<Rightarrow> Some x | _ \<Rightarrow> None)"

definition in_PolicyLocality :: "COMMAND_PARAMETERS \<Rightarrow> PolicyLocality_In option" where
  "in_PolicyLocality p = (case p of Policy_Parameters (In_PolicyLocality x) \<Rightarrow> Some x | _ \<Rightarrow> None)"

definition in_PolicyNV :: "COMMAND_PARAMETERS \<Rightarrow> PolicyNV_In option" where
  "in_PolicyNV p = (case p of Policy_Parameters (In_PolicyNV x) \<Rightarrow> Some x | _ \<Rightarrow> None)"

definition in_PolicyNameHash :: "COMMAND_PARAMETERS \<Rightarrow> PolicyNameHash_In option" where
  "in_PolicyNameHash p = (case p of Policy_Parameters (In_PolicyNameHash x) \<Rightarrow> Some x | _ \<Rightarrow> None)"

definition in_PolicyNvWritten :: "COMMAND_PARAMETERS \<Rightarrow> PolicyNvWritten_In option" where
  "in_PolicyNvWritten p = (case p of Policy_Parameters (In_PolicyNvWritten x) \<Rightarrow> Some x | _ \<Rightarrow> None)"

definition in_PolicyOR :: "COMMAND_PARAMETERS \<Rightarrow> PolicyOR_In option" where
  "in_PolicyOR p = (case p of Policy_Parameters (In_PolicyOR x) \<Rightarrow> Some x | _ \<Rightarrow> None)"

definition in_PolicyPCR :: "COMMAND_PARAMETERS \<Rightarrow> PolicyPCR_In option" where
  "in_PolicyPCR p = (case p of Policy_Parameters (In_PolicyPCR x) \<Rightarrow> Some x | _ \<Rightarrow> None)"

definition in_PolicyPassword :: "COMMAND_PARAMETERS \<Rightarrow> PolicyPassword_In option" where
  "in_PolicyPassword p = (case p of Policy_Parameters (In_PolicyPassword x) \<Rightarrow> Some x | _ \<Rightarrow> None)"

definition in_PolicyPhysicalPresence :: "COMMAND_PARAMETERS \<Rightarrow> PolicyPhysicalPresence_In option" where
  "in_PolicyPhysicalPresence p = (case p of Policy_Parameters (In_PolicyPhysicalPresence x) \<Rightarrow> Some x | _ \<Rightarrow> None)"

definition in_PolicyRestart :: "COMMAND_PARAMETERS \<Rightarrow> PolicyRestart_In option" where
  "in_PolicyRestart p = (case p of Object_Parameters (In_PolicyRestart x) \<Rightarrow> Some x | _ \<Rightarrow> None)"

definition in_PolicySecret :: "COMMAND_PARAMETERS \<Rightarrow> PolicySecret_In option" where
  "in_PolicySecret p = (case p of Policy_Parameters (In_PolicySecret x) \<Rightarrow> Some x | _ \<Rightarrow> None)"

definition in_PolicySigned :: "COMMAND_PARAMETERS \<Rightarrow> PolicySigned_In option" where
  "in_PolicySigned p = (case p of Policy_Parameters (In_PolicySigned x) \<Rightarrow> Some x | _ \<Rightarrow> None)"

definition in_PolicyTicket :: "COMMAND_PARAMETERS \<Rightarrow> PolicyTicket_In option" where
  "in_PolicyTicket p = (case p of Policy_Parameters (In_PolicyTicket x) \<Rightarrow> Some x | _ \<Rightarrow> None)"

definition in_Quote :: "COMMAND_PARAMETERS \<Rightarrow> Quote_In option" where
  "in_Quote p = (case p of Attest_Parameters (In_Quote x) \<Rightarrow> Some x | _ \<Rightarrow> None)"

definition in_RSA_Decrypt :: "COMMAND_PARAMETERS \<Rightarrow> RSA_Decrypt_In option" where
  "in_RSA_Decrypt p = (case p of Crypto_Parameters (In_RSA_Decrypt x) \<Rightarrow> Some x | _ \<Rightarrow> None)"

definition in_RSA_Encrypt :: "COMMAND_PARAMETERS \<Rightarrow> RSA_Encrypt_In option" where
  "in_RSA_Encrypt p = (case p of Crypto_Parameters (In_RSA_Encrypt x) \<Rightarrow> Some x | _ \<Rightarrow> None)"

definition in_ReadPublic :: "COMMAND_PARAMETERS \<Rightarrow> ReadPublic_In option" where
  "in_ReadPublic p = (case p of Object_Parameters (In_ReadPublic x) \<Rightarrow> Some x | _ \<Rightarrow> None)"

definition in_Rewrap :: "COMMAND_PARAMETERS \<Rightarrow> Rewrap_In option" where
  "in_Rewrap p = (case p of Object_Parameters (In_Rewrap x) \<Rightarrow> Some x | _ \<Rightarrow> None)"

definition in_SelfTest :: "COMMAND_PARAMETERS \<Rightarrow> SelfTest_In option" where
  "in_SelfTest p = (case p of Object_Parameters (In_SelfTest x) \<Rightarrow> Some x | _ \<Rightarrow> None)"

definition in_SequenceComplete :: "COMMAND_PARAMETERS \<Rightarrow> SequenceComplete_In option" where
  "in_SequenceComplete p = (case p of Crypto_Parameters (In_SequenceComplete x) \<Rightarrow> Some x | _ \<Rightarrow> None)"

definition in_SequenceUpdate :: "COMMAND_PARAMETERS \<Rightarrow> SequenceUpdate_In option" where
  "in_SequenceUpdate p = (case p of Crypto_Parameters (In_SequenceUpdate x) \<Rightarrow> Some x | _ \<Rightarrow> None)"

definition in_SetAlgorithmSet :: "COMMAND_PARAMETERS \<Rightarrow> SetAlgorithmSet_In option" where
  "in_SetAlgorithmSet p = (case p of Hierarchy_Parameters (In_SetAlgorithmSet x) \<Rightarrow> Some x | _ \<Rightarrow> None)"

definition in_SetCommandCodeAuditStatus :: "COMMAND_PARAMETERS \<Rightarrow> SetCommandCodeAuditStatus_In option" where
  "in_SetCommandCodeAuditStatus p = (case p of Attest_Parameters (In_SetCommandCodeAuditStatus x) \<Rightarrow> Some x | _ \<Rightarrow> None)"

definition in_SetPrimaryPolicy :: "COMMAND_PARAMETERS \<Rightarrow> SetPrimaryPolicy_In option" where
  "in_SetPrimaryPolicy p = (case p of Hierarchy_Parameters (In_SetPrimaryPolicy x) \<Rightarrow> Some x | _ \<Rightarrow> None)"

definition in_Shutdown :: "COMMAND_PARAMETERS \<Rightarrow> Shutdown_In option" where
  "in_Shutdown p = (case p of Object_Parameters (In_Shutdown x) \<Rightarrow> Some x | _ \<Rightarrow> None)"

definition in_Sign :: "COMMAND_PARAMETERS \<Rightarrow> Sign_In option" where
  "in_Sign p = (case p of Attest_Parameters (In_Sign x) \<Rightarrow> Some x | _ \<Rightarrow> None)"

definition in_StartAuthSession :: "COMMAND_PARAMETERS \<Rightarrow> StartAuthSession_In option" where
  "in_StartAuthSession p = (case p of Object_Parameters (In_StartAuthSession x) \<Rightarrow> Some x | _ \<Rightarrow> None)"

definition in_Startup :: "COMMAND_PARAMETERS \<Rightarrow> Startup_In option" where
  "in_Startup p = (case p of Object_Parameters (In_Startup x) \<Rightarrow> Some x | _ \<Rightarrow> None)"

definition in_StirRandom :: "COMMAND_PARAMETERS \<Rightarrow> StirRandom_In option" where
  "in_StirRandom p = (case p of Crypto_Parameters (In_StirRandom x) \<Rightarrow> Some x | _ \<Rightarrow> None)"

definition in_TestParms :: "COMMAND_PARAMETERS \<Rightarrow> TestParms_In option" where
  "in_TestParms p = (case p of NV_Parameters (In_TestParms x) \<Rightarrow> Some x | _ \<Rightarrow> None)"

definition in_Unseal :: "COMMAND_PARAMETERS \<Rightarrow> Unseal_In option" where
  "in_Unseal p = (case p of Object_Parameters (In_Unseal x) \<Rightarrow> Some x | _ \<Rightarrow> None)"

definition in_VerifySignature :: "COMMAND_PARAMETERS \<Rightarrow> VerifySignature_In option" where
  "in_VerifySignature p = (case p of Attest_Parameters (In_VerifySignature x) \<Rightarrow> Some x | _ \<Rightarrow> None)"

definition in_ZGen_2Phase :: "COMMAND_PARAMETERS \<Rightarrow> ZGen_2Phase_In option" where
  "in_ZGen_2Phase p = (case p of Crypto_Parameters (In_ZGen_2Phase x) \<Rightarrow> Some x | _ \<Rightarrow> None)"

lemma in_members [simp]:
  "in_ActivateCredential (Object_Parameters (In_ActivateCredential x0)) = Some x0"
  "in_CertifyCreation (Attest_Parameters (In_CertifyCreation x1)) = Some x1"
  "in_Certify (Attest_Parameters (In_Certify x2)) = Some x2"
  "in_ChangeEPS (Hierarchy_Parameters (In_ChangeEPS x3)) = Some x3"
  "in_ChangePPS (Hierarchy_Parameters (In_ChangePPS x4)) = Some x4"
  "in_ClearControl (Hierarchy_Parameters (In_ClearControl x5)) = Some x5"
  "in_Clear (Hierarchy_Parameters (In_Clear x6)) = Some x6"
  "in_ClockRateAdjust (Hierarchy_Parameters (In_ClockRateAdjust x7)) = Some x7"
  "in_ClockSet (Hierarchy_Parameters (In_ClockSet x8)) = Some x8"
  "in_Commit (Attest_Parameters (In_Commit x9)) = Some x9"
  "in_ContextLoad (Hierarchy_Parameters (In_ContextLoad x10)) = Some x10"
  "in_ContextSave (Hierarchy_Parameters (In_ContextSave x11)) = Some x11"
  "in_CreatePrimary (Hierarchy_Parameters (In_CreatePrimary x12)) = Some x12"
  "in_Create (Object_Parameters (In_Create x13)) = Some x13"
  "in_DictionaryAttackLockReset (Hierarchy_Parameters (In_DictionaryAttackLockReset x14)) = Some x14"
  "in_DictionaryAttackParameters (Hierarchy_Parameters (In_DictionaryAttackParameters x15)) = Some x15"
  "in_Duplicate (Object_Parameters (In_Duplicate x16)) = Some x16"
  "in_ECC_Parameters (Crypto_Parameters (In_ECC_Parameters x17)) = Some x17"
  "in_ECDH_KeyGen (Crypto_Parameters (In_ECDH_KeyGen x18)) = Some x18"
  "in_ECDH_ZGen (Crypto_Parameters (In_ECDH_ZGen x19)) = Some x19"
  "in_EC_Ephemeral (Attest_Parameters (In_EC_Ephemeral x20)) = Some x20"
  "in_EncryptDecrypt (Crypto_Parameters (In_EncryptDecrypt x21)) = Some x21"
  "in_EventSequenceComplete (Crypto_Parameters (In_EventSequenceComplete x22)) = Some x22"
  "in_EvictControl (Hierarchy_Parameters (In_EvictControl x23)) = Some x23"
  "in_FlushContext (Hierarchy_Parameters (In_FlushContext x24)) = Some x24"
  "in_GetCapability (NV_Parameters (In_GetCapability x25)) = Some x25"
  "in_GetCommandAuditDigest (Attest_Parameters (In_GetCommandAuditDigest x26)) = Some x26"
  "in_GetRandom (Crypto_Parameters (In_GetRandom x27)) = Some x27"
  "in_GetSessionAuditDigest (Attest_Parameters (In_GetSessionAuditDigest x28)) = Some x28"
  "in_GetTime (Attest_Parameters (In_GetTime x29)) = Some x29"
  "in_HMAC (Crypto_Parameters (In_HMAC x30)) = Some x30"
  "in_HMAC_Start (Crypto_Parameters (In_HMAC_Start x31)) = Some x31"
  "in_HashSequenceStart (Crypto_Parameters (In_HashSequenceStart x32)) = Some x32"
  "in_Hash (Crypto_Parameters (In_Hash x33)) = Some x33"
  "in_HierarchyChangeAuth (Hierarchy_Parameters (In_HierarchyChangeAuth x34)) = Some x34"
  "in_HierarchyControl (Hierarchy_Parameters (In_HierarchyControl x35)) = Some x35"
  "in_Import (Object_Parameters (In_Import x36)) = Some x36"
  "in_IncrementalSelfTest (Object_Parameters (In_IncrementalSelfTest x37)) = Some x37"
  "in_LoadExternal (Object_Parameters (In_LoadExternal x38)) = Some x38"
  "in_Load (Object_Parameters (In_Load x39)) = Some x39"
  "in_MakeCredential (Object_Parameters (In_MakeCredential x40)) = Some x40"
  "in_NV_Certify (NV_Parameters (In_NV_Certify x41)) = Some x41"
  "in_NV_ChangeAuth (NV_Parameters (In_NV_ChangeAuth x42)) = Some x42"
  "in_NV_DefineSpace (NV_Parameters (In_NV_DefineSpace x43)) = Some x43"
  "in_NV_Extend (NV_Parameters (In_NV_Extend x44)) = Some x44"
  "in_NV_GlobalWriteLock (NV_Parameters (In_NV_GlobalWriteLock x45)) = Some x45"
  "in_NV_Increment (NV_Parameters (In_NV_Increment x46)) = Some x46"
  "in_NV_ReadLock (NV_Parameters (In_NV_ReadLock x47)) = Some x47"
  "in_NV_ReadPublic (NV_Parameters (In_NV_ReadPublic x48)) = Some x48"
  "in_NV_Read (NV_Parameters (In_NV_Read x49)) = Some x49"
  "in_NV_SetBits (NV_Parameters (In_NV_SetBits x50)) = Some x50"
  "in_NV_UndefineSpaceSpecial (NV_Parameters (In_NV_UndefineSpaceSpecial x51)) = Some x51"
  "in_NV_UndefineSpace (NV_Parameters (In_NV_UndefineSpace x52)) = Some x52"
  "in_NV_WriteLock (NV_Parameters (In_NV_WriteLock x53)) = Some x53"
  "in_NV_Write (NV_Parameters (In_NV_Write x54)) = Some x54"
  "in_ObjectChangeAuth (Object_Parameters (In_ObjectChangeAuth x55)) = Some x55"
  "in_PCR_Allocate (Attest_Parameters (In_PCR_Allocate x56)) = Some x56"
  "in_PCR_Event (Attest_Parameters (In_PCR_Event x57)) = Some x57"
  "in_PCR_Extend (Attest_Parameters (In_PCR_Extend x58)) = Some x58"
  "in_PCR_Read (Attest_Parameters (In_PCR_Read x59)) = Some x59"
  "in_PCR_Reset (Attest_Parameters (In_PCR_Reset x60)) = Some x60"
  "in_PCR_SetAuthPolicy (Attest_Parameters (In_PCR_SetAuthPolicy x61)) = Some x61"
  "in_PCR_SetAuthValue (Attest_Parameters (In_PCR_SetAuthValue x62)) = Some x62"
  "in_PP_Commands (Hierarchy_Parameters (In_PP_Commands x63)) = Some x63"
  "in_PolicyAuthValue (Policy_Parameters (In_PolicyAuthValue x64)) = Some x64"
  "in_PolicyAuthorize (Policy_Parameters (In_PolicyAuthorize x65)) = Some x65"
  "in_PolicyCommandCode (Policy_Parameters (In_PolicyCommandCode x66)) = Some x66"
  "in_PolicyCounterTimer (Policy_Parameters (In_PolicyCounterTimer x67)) = Some x67"
  "in_PolicyCpHash (Policy_Parameters (In_PolicyCpHash x68)) = Some x68"
  "in_PolicyDuplicationSelect (Policy_Parameters (In_PolicyDuplicationSelect x69)) = Some x69"
  "in_PolicyGetDigest (Policy_Parameters (In_PolicyGetDigest x70)) = Some x70"
  "in_PolicyLocality (Policy_Parameters (In_PolicyLocality x71)) = Some x71"
  "in_PolicyNV (Policy_Parameters (In_PolicyNV x72)) = Some x72"
  "in_PolicyNameHash (Policy_Parameters (In_PolicyNameHash x73)) = Some x73"
  "in_PolicyNvWritten (Policy_Parameters (In_PolicyNvWritten x74)) = Some x74"
  "in_PolicyOR (Policy_Parameters (In_PolicyOR x75)) = Some x75"
  "in_PolicyPCR (Policy_Parameters (In_PolicyPCR x76)) = Some x76"
  "in_PolicyPassword (Policy_Parameters (In_PolicyPassword x77)) = Some x77"
  "in_PolicyPhysicalPresence (Policy_Parameters (In_PolicyPhysicalPresence x78)) = Some x78"
  "in_PolicyRestart (Object_Parameters (In_PolicyRestart x79)) = Some x79"
  "in_PolicySecret (Policy_Parameters (In_PolicySecret x80)) = Some x80"
  "in_PolicySigned (Policy_Parameters (In_PolicySigned x81)) = Some x81"
  "in_PolicyTicket (Policy_Parameters (In_PolicyTicket x82)) = Some x82"
  "in_Quote (Attest_Parameters (In_Quote x83)) = Some x83"
  "in_RSA_Decrypt (Crypto_Parameters (In_RSA_Decrypt x84)) = Some x84"
  "in_RSA_Encrypt (Crypto_Parameters (In_RSA_Encrypt x85)) = Some x85"
  "in_ReadPublic (Object_Parameters (In_ReadPublic x86)) = Some x86"
  "in_Rewrap (Object_Parameters (In_Rewrap x87)) = Some x87"
  "in_SelfTest (Object_Parameters (In_SelfTest x88)) = Some x88"
  "in_SequenceComplete (Crypto_Parameters (In_SequenceComplete x89)) = Some x89"
  "in_SequenceUpdate (Crypto_Parameters (In_SequenceUpdate x90)) = Some x90"
  "in_SetAlgorithmSet (Hierarchy_Parameters (In_SetAlgorithmSet x91)) = Some x91"
  "in_SetCommandCodeAuditStatus (Attest_Parameters (In_SetCommandCodeAuditStatus x92)) = Some x92"
  "in_SetPrimaryPolicy (Hierarchy_Parameters (In_SetPrimaryPolicy x93)) = Some x93"
  "in_Shutdown (Object_Parameters (In_Shutdown x94)) = Some x94"
  "in_Sign (Attest_Parameters (In_Sign x95)) = Some x95"
  "in_StartAuthSession (Object_Parameters (In_StartAuthSession x96)) = Some x96"
  "in_Startup (Object_Parameters (In_Startup x97)) = Some x97"
  "in_StirRandom (Crypto_Parameters (In_StirRandom x98)) = Some x98"
  "in_TestParms (NV_Parameters (In_TestParms x99)) = Some x99"
  "in_Unseal (Object_Parameters (In_Unseal x100)) = Some x100"
  "in_VerifySignature (Attest_Parameters (In_VerifySignature x101)) = Some x101"
  "in_ZGen_2Phase (Crypto_Parameters (In_ZGen_2Phase x102)) = Some x102"
  by (simp_all add: in_ActivateCredential_def in_CertifyCreation_def in_Certify_def in_ChangeEPS_def in_ChangePPS_def
    in_ClearControl_def in_Clear_def in_ClockRateAdjust_def in_ClockSet_def in_Commit_def in_ContextLoad_def
    in_ContextSave_def in_CreatePrimary_def in_Create_def in_DictionaryAttackLockReset_def
    in_DictionaryAttackParameters_def in_Duplicate_def in_ECC_Parameters_def in_ECDH_KeyGen_def
    in_ECDH_ZGen_def in_EC_Ephemeral_def in_EncryptDecrypt_def in_EventSequenceComplete_def
    in_EvictControl_def in_FlushContext_def in_GetCapability_def in_GetCommandAuditDigest_def
    in_GetRandom_def in_GetSessionAuditDigest_def in_GetTime_def in_HMAC_def in_HMAC_Start_def
    in_HashSequenceStart_def in_Hash_def in_HierarchyChangeAuth_def in_HierarchyControl_def in_Import_def
    in_IncrementalSelfTest_def in_LoadExternal_def in_Load_def in_MakeCredential_def in_NV_Certify_def
    in_NV_ChangeAuth_def in_NV_DefineSpace_def in_NV_Extend_def in_NV_GlobalWriteLock_def in_NV_Increment_def
    in_NV_ReadLock_def in_NV_ReadPublic_def in_NV_Read_def in_NV_SetBits_def in_NV_UndefineSpaceSpecial_def
    in_NV_UndefineSpace_def in_NV_WriteLock_def in_NV_Write_def in_ObjectChangeAuth_def in_PCR_Allocate_def
    in_PCR_Event_def in_PCR_Extend_def in_PCR_Read_def in_PCR_Reset_def in_PCR_SetAuthPolicy_def
    in_PCR_SetAuthValue_def in_PP_Commands_def in_PolicyAuthValue_def in_PolicyAuthorize_def
    in_PolicyCommandCode_def in_PolicyCounterTimer_def in_PolicyCpHash_def in_PolicyDuplicationSelect_def
    in_PolicyGetDigest_def in_PolicyLocality_def in_PolicyNV_def in_PolicyNameHash_def in_PolicyNvWritten_def
    in_PolicyOR_def in_PolicyPCR_def in_PolicyPassword_def in_PolicyPhysicalPresence_def in_PolicyRestart_def
    in_PolicySecret_def in_PolicySigned_def in_PolicyTicket_def in_Quote_def in_RSA_Decrypt_def
    in_RSA_Encrypt_def in_ReadPublic_def in_Rewrap_def in_SelfTest_def in_SequenceComplete_def
    in_SequenceUpdate_def in_SetAlgorithmSet_def in_SetCommandCodeAuditStatus_def in_SetPrimaryPolicy_def
    in_Shutdown_def in_Sign_def in_StartAuthSession_def in_Startup_def in_StirRandom_def in_TestParms_def
    in_Unseal_def in_VerifySignature_def in_ZGen_2Phase_def)

section \<open>The dispatch table\<close>

text \<open>
  The functions of the table are cast to the types of the unions: a marshal function reads its member of the command, an
  unmarshal function fills its member.
\<close>

definition in_marshal :: "(COMMAND_PARAMETERS \<Rightarrow> 'a option) \<Rightarrow> ('a \<Rightarrow> marshal) \<Rightarrow> COMMAND_PARAMETERS \<Rightarrow> marshal" where
  "in_marshal member m p = (case member p of Some x \<Rightarrow> m x | None \<Rightarrow> m_bad)"

definition in_unmarshal :: "('a \<Rightarrow> COMMAND_PARAMETERS) \<Rightarrow> ((nat \<Rightarrow> TPM_HANDLE) \<Rightarrow> 'a unmarshal) \<Rightarrow>
  (nat \<Rightarrow> TPM_HANDLE) \<Rightarrow> COMMAND_PARAMETERS unmarshal" where
  "in_unmarshal member u handles = u_map member (u handles)"

definition out_unmarshal :: "('a \<Rightarrow> RESPONSE_PARAMETERS) \<Rightarrow> (TPM_ST \<Rightarrow> 'a unmarshal) \<Rightarrow>
  TPM_ST \<Rightarrow> RESPONSE_PARAMETERS unmarshal" where
  "out_unmarshal member u tag = u_map member (u tag)"

record MARSHAL_TABLE =
  mt_commandCode :: TPM_CC
  mt_commandText :: string
  mt_marshalFunction :: "(COMMAND_PARAMETERS \<Rightarrow> marshal) option"
  mt_unmarshalFunction :: "(TPM_ST \<Rightarrow> RESPONSE_PARAMETERS unmarshal) option"
  mt_unmarshalInFunction :: "((nat \<Rightarrow> TPM_HANDLE) \<Rightarrow> COMMAND_PARAMETERS unmarshal) option"

definition marshal_Startup :: MARSHAL_TABLE where
  "marshal_Startup = \<lparr>mt_commandCode = TPM_CC_Startup, mt_commandText = ''TPM2_Startup'',
     mt_marshalFunction = Some (in_marshal in_Startup TSS_Startup_In_Marshal),
     mt_unmarshalFunction = None,
     mt_unmarshalInFunction = Some (in_unmarshal (Object_Parameters \<circ> In_Startup) Startup_In_Unmarshal)\<rparr>"

definition marshal_Shutdown :: MARSHAL_TABLE where
  "marshal_Shutdown = \<lparr>mt_commandCode = TPM_CC_Shutdown, mt_commandText = ''TPM2_Shutdown'',
     mt_marshalFunction = Some (in_marshal in_Shutdown TSS_Shutdown_In_Marshal),
     mt_unmarshalFunction = None,
     mt_unmarshalInFunction = Some (in_unmarshal (Object_Parameters \<circ> In_Shutdown) Shutdown_In_Unmarshal)\<rparr>"

definition marshal_SelfTest :: MARSHAL_TABLE where
  "marshal_SelfTest = \<lparr>mt_commandCode = TPM_CC_SelfTest, mt_commandText = ''TPM2_SelfTest'',
     mt_marshalFunction = Some (in_marshal in_SelfTest TSS_SelfTest_In_Marshal),
     mt_unmarshalFunction = None,
     mt_unmarshalInFunction = Some (in_unmarshal (Object_Parameters \<circ> In_SelfTest) SelfTest_In_Unmarshal)\<rparr>"

definition marshal_IncrementalSelfTest :: MARSHAL_TABLE where
  "marshal_IncrementalSelfTest = \<lparr>mt_commandCode = TPM_CC_IncrementalSelfTest, mt_commandText = ''TPM2_IncrementalSelfTest'',
     mt_marshalFunction = Some (in_marshal in_IncrementalSelfTest TSS_IncrementalSelfTest_In_Marshal),
     mt_unmarshalFunction = Some (out_unmarshal (Object_Response \<circ> Out_IncrementalSelfTest) TSS_IncrementalSelfTest_Out_Unmarshal),
     mt_unmarshalInFunction = Some (in_unmarshal (Object_Parameters \<circ> In_IncrementalSelfTest) IncrementalSelfTest_In_Unmarshal)\<rparr>"

definition marshal_GetTestResult :: MARSHAL_TABLE where
  "marshal_GetTestResult = \<lparr>mt_commandCode = TPM_CC_GetTestResult, mt_commandText = ''TPM2_GetTestResult'',
     mt_marshalFunction = None,
     mt_unmarshalFunction = Some (out_unmarshal (Object_Response \<circ> Out_GetTestResult) TSS_GetTestResult_Out_Unmarshal),
     mt_unmarshalInFunction = None\<rparr>"

definition marshal_StartAuthSession :: MARSHAL_TABLE where
  "marshal_StartAuthSession = \<lparr>mt_commandCode = TPM_CC_StartAuthSession, mt_commandText = ''TPM2_StartAuthSession'',
     mt_marshalFunction = Some (in_marshal in_StartAuthSession TSS_StartAuthSession_In_Marshal),
     mt_unmarshalFunction = Some (out_unmarshal (Object_Response \<circ> Out_StartAuthSession) TSS_StartAuthSession_Out_Unmarshal),
     mt_unmarshalInFunction = Some (in_unmarshal (Object_Parameters \<circ> In_StartAuthSession) StartAuthSession_In_Unmarshal)\<rparr>"

definition marshal_PolicyRestart :: MARSHAL_TABLE where
  "marshal_PolicyRestart = \<lparr>mt_commandCode = TPM_CC_PolicyRestart, mt_commandText = ''TPM2_PolicyRestart'',
     mt_marshalFunction = Some (in_marshal in_PolicyRestart TSS_PolicyRestart_In_Marshal),
     mt_unmarshalFunction = None,
     mt_unmarshalInFunction = Some (in_unmarshal (Object_Parameters \<circ> In_PolicyRestart) PolicyRestart_In_Unmarshal)\<rparr>"

definition marshal_Create :: MARSHAL_TABLE where
  "marshal_Create = \<lparr>mt_commandCode = TPM_CC_Create, mt_commandText = ''TPM2_Create'',
     mt_marshalFunction = Some (in_marshal in_Create TSS_Create_In_Marshal),
     mt_unmarshalFunction = Some (out_unmarshal (Object_Response \<circ> Out_Create) TSS_Create_Out_Unmarshal),
     mt_unmarshalInFunction = Some (in_unmarshal (Object_Parameters \<circ> In_Create) Create_In_Unmarshal)\<rparr>"

definition marshal_Load :: MARSHAL_TABLE where
  "marshal_Load = \<lparr>mt_commandCode = TPM_CC_Load, mt_commandText = ''TPM2_Load'',
     mt_marshalFunction = Some (in_marshal in_Load TSS_Load_In_Marshal),
     mt_unmarshalFunction = Some (out_unmarshal (Object_Response \<circ> Out_Load) TSS_Load_Out_Unmarshal),
     mt_unmarshalInFunction = Some (in_unmarshal (Object_Parameters \<circ> In_Load) Load_In_Unmarshal)\<rparr>"

definition marshal_LoadExternal :: MARSHAL_TABLE where
  "marshal_LoadExternal = \<lparr>mt_commandCode = TPM_CC_LoadExternal, mt_commandText = ''TPM2_LoadExternal'',
     mt_marshalFunction = Some (in_marshal in_LoadExternal TSS_LoadExternal_In_Marshal),
     mt_unmarshalFunction = Some (out_unmarshal (Object_Response \<circ> Out_LoadExternal) TSS_LoadExternal_Out_Unmarshal),
     mt_unmarshalInFunction = Some (in_unmarshal (Object_Parameters \<circ> In_LoadExternal) LoadExternal_In_Unmarshal)\<rparr>"

definition marshal_ReadPublic :: MARSHAL_TABLE where
  "marshal_ReadPublic = \<lparr>mt_commandCode = TPM_CC_ReadPublic, mt_commandText = ''TPM2_ReadPublic'',
     mt_marshalFunction = Some (in_marshal in_ReadPublic TSS_ReadPublic_In_Marshal),
     mt_unmarshalFunction = Some (out_unmarshal (Object_Response \<circ> Out_ReadPublic) TSS_ReadPublic_Out_Unmarshal),
     mt_unmarshalInFunction = Some (in_unmarshal (Object_Parameters \<circ> In_ReadPublic) ReadPublic_In_Unmarshal)\<rparr>"

definition marshal_ActivateCredential :: MARSHAL_TABLE where
  "marshal_ActivateCredential = \<lparr>mt_commandCode = TPM_CC_ActivateCredential, mt_commandText = ''TPM2_ActivateCredential'',
     mt_marshalFunction = Some (in_marshal in_ActivateCredential TSS_ActivateCredential_In_Marshal),
     mt_unmarshalFunction = Some (out_unmarshal (Object_Response \<circ> Out_ActivateCredential) TSS_ActivateCredential_Out_Unmarshal),
     mt_unmarshalInFunction = Some (in_unmarshal (Object_Parameters \<circ> In_ActivateCredential) ActivateCredential_In_Unmarshal)\<rparr>"

definition marshal_MakeCredential :: MARSHAL_TABLE where
  "marshal_MakeCredential = \<lparr>mt_commandCode = TPM_CC_MakeCredential, mt_commandText = ''TPM2_MakeCredential'',
     mt_marshalFunction = Some (in_marshal in_MakeCredential TSS_MakeCredential_In_Marshal),
     mt_unmarshalFunction = Some (out_unmarshal (Object_Response \<circ> Out_MakeCredential) TSS_MakeCredential_Out_Unmarshal),
     mt_unmarshalInFunction = Some (in_unmarshal (Object_Parameters \<circ> In_MakeCredential) MakeCredential_In_Unmarshal)\<rparr>"

definition marshal_Unseal :: MARSHAL_TABLE where
  "marshal_Unseal = \<lparr>mt_commandCode = TPM_CC_Unseal, mt_commandText = ''TPM2_Unseal'',
     mt_marshalFunction = Some (in_marshal in_Unseal TSS_Unseal_In_Marshal),
     mt_unmarshalFunction = Some (out_unmarshal (Object_Response \<circ> Out_Unseal) TSS_Unseal_Out_Unmarshal),
     mt_unmarshalInFunction = Some (in_unmarshal (Object_Parameters \<circ> In_Unseal) Unseal_In_Unmarshal)\<rparr>"

definition marshal_ObjectChangeAuth :: MARSHAL_TABLE where
  "marshal_ObjectChangeAuth = \<lparr>mt_commandCode = TPM_CC_ObjectChangeAuth, mt_commandText = ''TPM2_ObjectChangeAuth'',
     mt_marshalFunction = Some (in_marshal in_ObjectChangeAuth TSS_ObjectChangeAuth_In_Marshal),
     mt_unmarshalFunction = Some (out_unmarshal (Object_Response \<circ> Out_ObjectChangeAuth) TSS_ObjectChangeAuth_Out_Unmarshal),
     mt_unmarshalInFunction = Some (in_unmarshal (Object_Parameters \<circ> In_ObjectChangeAuth) ObjectChangeAuth_In_Unmarshal)\<rparr>"

definition marshal_Duplicate :: MARSHAL_TABLE where
  "marshal_Duplicate = \<lparr>mt_commandCode = TPM_CC_Duplicate, mt_commandText = ''TPM2_Duplicate'',
     mt_marshalFunction = Some (in_marshal in_Duplicate TSS_Duplicate_In_Marshal),
     mt_unmarshalFunction = Some (out_unmarshal (Object_Response \<circ> Out_Duplicate) TSS_Duplicate_Out_Unmarshal),
     mt_unmarshalInFunction = Some (in_unmarshal (Object_Parameters \<circ> In_Duplicate) Duplicate_In_Unmarshal)\<rparr>"

definition marshal_Rewrap :: MARSHAL_TABLE where
  "marshal_Rewrap = \<lparr>mt_commandCode = TPM_CC_Rewrap, mt_commandText = ''TPM2_Rewrap'',
     mt_marshalFunction = Some (in_marshal in_Rewrap TSS_Rewrap_In_Marshal),
     mt_unmarshalFunction = Some (out_unmarshal (Object_Response \<circ> Out_Rewrap) TSS_Rewrap_Out_Unmarshal),
     mt_unmarshalInFunction = Some (in_unmarshal (Object_Parameters \<circ> In_Rewrap) Rewrap_In_Unmarshal)\<rparr>"

definition marshal_Import :: MARSHAL_TABLE where
  "marshal_Import = \<lparr>mt_commandCode = TPM_CC_Import, mt_commandText = ''TPM2_Import'',
     mt_marshalFunction = Some (in_marshal in_Import TSS_Import_In_Marshal),
     mt_unmarshalFunction = Some (out_unmarshal (Object_Response \<circ> Out_Import) TSS_Import_Out_Unmarshal),
     mt_unmarshalInFunction = Some (in_unmarshal (Object_Parameters \<circ> In_Import) Import_In_Unmarshal)\<rparr>"

definition marshal_RSA_Encrypt :: MARSHAL_TABLE where
  "marshal_RSA_Encrypt = \<lparr>mt_commandCode = TPM_CC_RSA_Encrypt, mt_commandText = ''TPM2_RSA_Encrypt'',
     mt_marshalFunction = Some (in_marshal in_RSA_Encrypt TSS_RSA_Encrypt_In_Marshal),
     mt_unmarshalFunction = Some (out_unmarshal (Crypto_Response \<circ> Out_RSA_Encrypt) TSS_RSA_Encrypt_Out_Unmarshal),
     mt_unmarshalInFunction = Some (in_unmarshal (Crypto_Parameters \<circ> In_RSA_Encrypt) RSA_Encrypt_In_Unmarshal)\<rparr>"

definition marshal_RSA_Decrypt :: MARSHAL_TABLE where
  "marshal_RSA_Decrypt = \<lparr>mt_commandCode = TPM_CC_RSA_Decrypt, mt_commandText = ''TPM2_RSA_Decrypt'',
     mt_marshalFunction = Some (in_marshal in_RSA_Decrypt TSS_RSA_Decrypt_In_Marshal),
     mt_unmarshalFunction = Some (out_unmarshal (Crypto_Response \<circ> Out_RSA_Decrypt) TSS_RSA_Decrypt_Out_Unmarshal),
     mt_unmarshalInFunction = Some (in_unmarshal (Crypto_Parameters \<circ> In_RSA_Decrypt) RSA_Decrypt_In_Unmarshal)\<rparr>"

definition marshal_ECDH_KeyGen :: MARSHAL_TABLE where
  "marshal_ECDH_KeyGen = \<lparr>mt_commandCode = TPM_CC_ECDH_KeyGen, mt_commandText = ''TPM2_ECDH_KeyGen'',
     mt_marshalFunction = Some (in_marshal in_ECDH_KeyGen TSS_ECDH_KeyGen_In_Marshal),
     mt_unmarshalFunction = Some (out_unmarshal (Crypto_Response \<circ> Out_ECDH_KeyGen) TSS_ECDH_KeyGen_Out_Unmarshal),
     mt_unmarshalInFunction = Some (in_unmarshal (Crypto_Parameters \<circ> In_ECDH_KeyGen) ECDH_KeyGen_In_Unmarshal)\<rparr>"

definition marshal_ECDH_ZGen :: MARSHAL_TABLE where
  "marshal_ECDH_ZGen = \<lparr>mt_commandCode = TPM_CC_ECDH_ZGen, mt_commandText = ''TPM2_ECDH_ZGen'',
     mt_marshalFunction = Some (in_marshal in_ECDH_ZGen TSS_ECDH_ZGen_In_Marshal),
     mt_unmarshalFunction = Some (out_unmarshal (Crypto_Response \<circ> Out_ECDH_ZGen) TSS_ECDH_ZGen_Out_Unmarshal),
     mt_unmarshalInFunction = Some (in_unmarshal (Crypto_Parameters \<circ> In_ECDH_ZGen) ECDH_ZGen_In_Unmarshal)\<rparr>"

definition marshal_ECC_Parameters :: MARSHAL_TABLE where
  "marshal_ECC_Parameters = \<lparr>mt_commandCode = TPM_CC_ECC_Parameters, mt_commandText = ''TPM2_ECC_Parameters'',
     mt_marshalFunction = Some (in_marshal in_ECC_Parameters TSS_ECC_Parameters_In_Marshal),
     mt_unmarshalFunction = Some (out_unmarshal (Crypto_Response \<circ> Out_ECC_Parameters) TSS_ECC_Parameters_Out_Unmarshal),
     mt_unmarshalInFunction = Some (in_unmarshal (Crypto_Parameters \<circ> In_ECC_Parameters) ECC_Parameters_In_Unmarshal)\<rparr>"

definition marshal_ZGen_2Phase :: MARSHAL_TABLE where
  "marshal_ZGen_2Phase = \<lparr>mt_commandCode = TPM_CC_ZGen_2Phase, mt_commandText = ''TPM2_ZGen_2Phase'',
     mt_marshalFunction = Some (in_marshal in_ZGen_2Phase TSS_ZGen_2Phase_In_Marshal),
     mt_unmarshalFunction = Some (out_unmarshal (Crypto_Response \<circ> Out_ZGen_2Phase) TSS_ZGen_2Phase_Out_Unmarshal),
     mt_unmarshalInFunction = Some (in_unmarshal (Crypto_Parameters \<circ> In_ZGen_2Phase) ZGen_2Phase_In_Unmarshal)\<rparr>"

definition marshal_EncryptDecrypt :: MARSHAL_TABLE where
  "marshal_EncryptDecrypt = \<lparr>mt_commandCode = TPM_CC_EncryptDecrypt, mt_commandText = ''TPM2_EncryptDecrypt'',
     mt_marshalFunction = Some (in_marshal in_EncryptDecrypt TSS_EncryptDecrypt_In_Marshal),
     mt_unmarshalFunction = Some (out_unmarshal (Crypto_Response \<circ> Out_EncryptDecrypt) TSS_EncryptDecrypt_Out_Unmarshal),
     mt_unmarshalInFunction = Some (in_unmarshal (Crypto_Parameters \<circ> In_EncryptDecrypt) EncryptDecrypt_In_Unmarshal)\<rparr>"

definition marshal_Hash :: MARSHAL_TABLE where
  "marshal_Hash = \<lparr>mt_commandCode = TPM_CC_Hash, mt_commandText = ''TPM2_Hash'',
     mt_marshalFunction = Some (in_marshal in_Hash TSS_Hash_In_Marshal),
     mt_unmarshalFunction = Some (out_unmarshal (Crypto_Response \<circ> Out_Hash) TSS_Hash_Out_Unmarshal),
     mt_unmarshalInFunction = Some (in_unmarshal (Crypto_Parameters \<circ> In_Hash) Hash_In_Unmarshal)\<rparr>"

definition marshal_HMAC :: MARSHAL_TABLE where
  "marshal_HMAC = \<lparr>mt_commandCode = TPM_CC_HMAC, mt_commandText = ''TPM2_HMAC'',
     mt_marshalFunction = Some (in_marshal in_HMAC TSS_HMAC_In_Marshal),
     mt_unmarshalFunction = Some (out_unmarshal (Crypto_Response \<circ> Out_HMAC) TSS_HMAC_Out_Unmarshal),
     mt_unmarshalInFunction = Some (in_unmarshal (Crypto_Parameters \<circ> In_HMAC) HMAC_In_Unmarshal)\<rparr>"

definition marshal_GetRandom :: MARSHAL_TABLE where
  "marshal_GetRandom = \<lparr>mt_commandCode = TPM_CC_GetRandom, mt_commandText = ''TPM2_GetRandom'',
     mt_marshalFunction = Some (in_marshal in_GetRandom TSS_GetRandom_In_Marshal),
     mt_unmarshalFunction = Some (out_unmarshal (Crypto_Response \<circ> Out_GetRandom) TSS_GetRandom_Out_Unmarshal),
     mt_unmarshalInFunction = Some (in_unmarshal (Crypto_Parameters \<circ> In_GetRandom) GetRandom_In_Unmarshal)\<rparr>"

definition marshal_StirRandom :: MARSHAL_TABLE where
  "marshal_StirRandom = \<lparr>mt_commandCode = TPM_CC_StirRandom, mt_commandText = ''TPM2_StirRandom'',
     mt_marshalFunction = Some (in_marshal in_StirRandom TSS_StirRandom_In_Marshal),
     mt_unmarshalFunction = None,
     mt_unmarshalInFunction = Some (in_unmarshal (Crypto_Parameters \<circ> In_StirRandom) StirRandom_In_Unmarshal)\<rparr>"

definition marshal_HMAC_Start :: MARSHAL_TABLE where
  "marshal_HMAC_Start = \<lparr>mt_commandCode = TPM_CC_HMAC_Start, mt_commandText = ''TPM2_HMAC_Start'',
     mt_marshalFunction = Some (in_marshal in_HMAC_Start TSS_HMAC_Start_In_Marshal),
     mt_unmarshalFunction = Some (out_unmarshal (Crypto_Response \<circ> Out_HMAC_Start) TSS_HMAC_Start_Out_Unmarshal),
     mt_unmarshalInFunction = Some (in_unmarshal (Crypto_Parameters \<circ> In_HMAC_Start) HMAC_Start_In_Unmarshal)\<rparr>"

definition marshal_HashSequenceStart :: MARSHAL_TABLE where
  "marshal_HashSequenceStart = \<lparr>mt_commandCode = TPM_CC_HashSequenceStart, mt_commandText = ''TPM2_HashSequenceStart'',
     mt_marshalFunction = Some (in_marshal in_HashSequenceStart TSS_HashSequenceStart_In_Marshal),
     mt_unmarshalFunction = Some (out_unmarshal (Crypto_Response \<circ> Out_HashSequenceStart) TSS_HashSequenceStart_Out_Unmarshal),
     mt_unmarshalInFunction = Some (in_unmarshal (Crypto_Parameters \<circ> In_HashSequenceStart) HashSequenceStart_In_Unmarshal)\<rparr>"

definition marshal_SequenceUpdate :: MARSHAL_TABLE where
  "marshal_SequenceUpdate = \<lparr>mt_commandCode = TPM_CC_SequenceUpdate, mt_commandText = ''TPM2_SequenceUpdate'',
     mt_marshalFunction = Some (in_marshal in_SequenceUpdate TSS_SequenceUpdate_In_Marshal),
     mt_unmarshalFunction = None,
     mt_unmarshalInFunction = Some (in_unmarshal (Crypto_Parameters \<circ> In_SequenceUpdate) SequenceUpdate_In_Unmarshal)\<rparr>"

definition marshal_SequenceComplete :: MARSHAL_TABLE where
  "marshal_SequenceComplete = \<lparr>mt_commandCode = TPM_CC_SequenceComplete, mt_commandText = ''TPM2_SequenceComplete'',
     mt_marshalFunction = Some (in_marshal in_SequenceComplete TSS_SequenceComplete_In_Marshal),
     mt_unmarshalFunction = Some (out_unmarshal (Crypto_Response \<circ> Out_SequenceComplete) TSS_SequenceComplete_Out_Unmarshal),
     mt_unmarshalInFunction = Some (in_unmarshal (Crypto_Parameters \<circ> In_SequenceComplete) SequenceComplete_In_Unmarshal)\<rparr>"

definition marshal_EventSequenceComplete :: MARSHAL_TABLE where
  "marshal_EventSequenceComplete = \<lparr>mt_commandCode = TPM_CC_EventSequenceComplete, mt_commandText = ''TPM2_EventSequenceComplete'',
     mt_marshalFunction = Some (in_marshal in_EventSequenceComplete TSS_EventSequenceComplete_In_Marshal),
     mt_unmarshalFunction = Some (out_unmarshal (Crypto_Response \<circ> Out_EventSequenceComplete) TSS_EventSequenceComplete_Out_Unmarshal),
     mt_unmarshalInFunction = Some (in_unmarshal (Crypto_Parameters \<circ> In_EventSequenceComplete) EventSequenceComplete_In_Unmarshal)\<rparr>"

definition marshal_Certify :: MARSHAL_TABLE where
  "marshal_Certify = \<lparr>mt_commandCode = TPM_CC_Certify, mt_commandText = ''TPM2_Certify'',
     mt_marshalFunction = Some (in_marshal in_Certify TSS_Certify_In_Marshal),
     mt_unmarshalFunction = Some (out_unmarshal (Attest_Response \<circ> Out_Certify) TSS_Certify_Out_Unmarshal),
     mt_unmarshalInFunction = Some (in_unmarshal (Attest_Parameters \<circ> In_Certify) Certify_In_Unmarshal)\<rparr>"

definition marshal_CertifyCreation :: MARSHAL_TABLE where
  "marshal_CertifyCreation = \<lparr>mt_commandCode = TPM_CC_CertifyCreation, mt_commandText = ''TPM2_CertifyCreation'',
     mt_marshalFunction = Some (in_marshal in_CertifyCreation TSS_CertifyCreation_In_Marshal),
     mt_unmarshalFunction = Some (out_unmarshal (Attest_Response \<circ> Out_CertifyCreation) TSS_CertifyCreation_Out_Unmarshal),
     mt_unmarshalInFunction = Some (in_unmarshal (Attest_Parameters \<circ> In_CertifyCreation) CertifyCreation_In_Unmarshal)\<rparr>"

definition marshal_Quote :: MARSHAL_TABLE where
  "marshal_Quote = \<lparr>mt_commandCode = TPM_CC_Quote, mt_commandText = ''TPM2_Quote'',
     mt_marshalFunction = Some (in_marshal in_Quote TSS_Quote_In_Marshal),
     mt_unmarshalFunction = Some (out_unmarshal (Attest_Response \<circ> Out_Quote) TSS_Quote_Out_Unmarshal),
     mt_unmarshalInFunction = Some (in_unmarshal (Attest_Parameters \<circ> In_Quote) Quote_In_Unmarshal)\<rparr>"

definition marshal_GetSessionAuditDigest :: MARSHAL_TABLE where
  "marshal_GetSessionAuditDigest = \<lparr>mt_commandCode = TPM_CC_GetSessionAuditDigest, mt_commandText = ''TPM2_GetSessionAuditDigest'',
     mt_marshalFunction = Some (in_marshal in_GetSessionAuditDigest TSS_GetSessionAuditDigest_In_Marshal),
     mt_unmarshalFunction = Some (out_unmarshal (Attest_Response \<circ> Out_GetSessionAuditDigest) TSS_GetSessionAuditDigest_Out_Unmarshal),
     mt_unmarshalInFunction = Some (in_unmarshal (Attest_Parameters \<circ> In_GetSessionAuditDigest) GetSessionAuditDigest_In_Unmarshal)\<rparr>"

definition marshal_GetCommandAuditDigest :: MARSHAL_TABLE where
  "marshal_GetCommandAuditDigest = \<lparr>mt_commandCode = TPM_CC_GetCommandAuditDigest, mt_commandText = ''TPM2_GetCommandAuditDigest'',
     mt_marshalFunction = Some (in_marshal in_GetCommandAuditDigest TSS_GetCommandAuditDigest_In_Marshal),
     mt_unmarshalFunction = Some (out_unmarshal (Attest_Response \<circ> Out_GetCommandAuditDigest) TSS_GetCommandAuditDigest_Out_Unmarshal),
     mt_unmarshalInFunction = Some (in_unmarshal (Attest_Parameters \<circ> In_GetCommandAuditDigest) GetCommandAuditDigest_In_Unmarshal)\<rparr>"

definition marshal_GetTime :: MARSHAL_TABLE where
  "marshal_GetTime = \<lparr>mt_commandCode = TPM_CC_GetTime, mt_commandText = ''TPM2_GetTime'',
     mt_marshalFunction = Some (in_marshal in_GetTime TSS_GetTime_In_Marshal),
     mt_unmarshalFunction = Some (out_unmarshal (Attest_Response \<circ> Out_GetTime) TSS_GetTime_Out_Unmarshal),
     mt_unmarshalInFunction = Some (in_unmarshal (Attest_Parameters \<circ> In_GetTime) GetTime_In_Unmarshal)\<rparr>"

definition marshal_Commit :: MARSHAL_TABLE where
  "marshal_Commit = \<lparr>mt_commandCode = TPM_CC_Commit, mt_commandText = ''TPM2_Commit'',
     mt_marshalFunction = Some (in_marshal in_Commit TSS_Commit_In_Marshal),
     mt_unmarshalFunction = Some (out_unmarshal (Attest_Response \<circ> Out_Commit) TSS_Commit_Out_Unmarshal),
     mt_unmarshalInFunction = Some (in_unmarshal (Attest_Parameters \<circ> In_Commit) Commit_In_Unmarshal)\<rparr>"

definition marshal_EC_Ephemeral :: MARSHAL_TABLE where
  "marshal_EC_Ephemeral = \<lparr>mt_commandCode = TPM_CC_EC_Ephemeral, mt_commandText = ''TPM2_EC_Ephemeral'',
     mt_marshalFunction = Some (in_marshal in_EC_Ephemeral TSS_EC_Ephemeral_In_Marshal),
     mt_unmarshalFunction = Some (out_unmarshal (Attest_Response \<circ> Out_EC_Ephemeral) TSS_EC_Ephemeral_Out_Unmarshal),
     mt_unmarshalInFunction = Some (in_unmarshal (Attest_Parameters \<circ> In_EC_Ephemeral) EC_Ephemeral_In_Unmarshal)\<rparr>"

definition marshal_VerifySignature :: MARSHAL_TABLE where
  "marshal_VerifySignature = \<lparr>mt_commandCode = TPM_CC_VerifySignature, mt_commandText = ''TPM2_VerifySignature'',
     mt_marshalFunction = Some (in_marshal in_VerifySignature TSS_VerifySignature_In_Marshal),
     mt_unmarshalFunction = Some (out_unmarshal (Attest_Response \<circ> Out_VerifySignature) TSS_VerifySignature_Out_Unmarshal),
     mt_unmarshalInFunction = Some (in_unmarshal (Attest_Parameters \<circ> In_VerifySignature) VerifySignature_In_Unmarshal)\<rparr>"

definition marshal_Sign :: MARSHAL_TABLE where
  "marshal_Sign = \<lparr>mt_commandCode = TPM_CC_Sign, mt_commandText = ''TPM2_Sign'',
     mt_marshalFunction = Some (in_marshal in_Sign TSS_Sign_In_Marshal),
     mt_unmarshalFunction = Some (out_unmarshal (Attest_Response \<circ> Out_Sign) TSS_Sign_Out_Unmarshal),
     mt_unmarshalInFunction = Some (in_unmarshal (Attest_Parameters \<circ> In_Sign) Sign_In_Unmarshal)\<rparr>"

definition marshal_SetCommandCodeAuditStatus :: MARSHAL_TABLE where
  "marshal_SetCommandCodeAuditStatus = \<lparr>mt_commandCode = TPM_CC_SetCommandCodeAuditStatus, mt_commandText = ''TPM2_SetCommandCodeAuditStatus'',
     mt_marshalFunction = Some (in_marshal in_SetCommandCodeAuditStatus TSS_SetCommandCodeAuditStatus_In_Marshal),
     mt_unmarshalFunction = None,
     mt_unmarshalInFunction = Some (in_unmarshal (Attest_Parameters \<circ> In_SetCommandCodeAuditStatus) SetCommandCodeAuditStatus_In_Unmarshal)\<rparr>"

definition marshal_PCR_Extend :: MARSHAL_TABLE where
  "marshal_PCR_Extend = \<lparr>mt_commandCode = TPM_CC_PCR_Extend, mt_commandText = ''TPM2_PCR_Extend'',
     mt_marshalFunction = Some (in_marshal in_PCR_Extend TSS_PCR_Extend_In_Marshal),
     mt_unmarshalFunction = None,
     mt_unmarshalInFunction = Some (in_unmarshal (Attest_Parameters \<circ> In_PCR_Extend) PCR_Extend_In_Unmarshal)\<rparr>"

definition marshal_PCR_Event :: MARSHAL_TABLE where
  "marshal_PCR_Event = \<lparr>mt_commandCode = TPM_CC_PCR_Event, mt_commandText = ''TPM2_PCR_Event'',
     mt_marshalFunction = Some (in_marshal in_PCR_Event TSS_PCR_Event_In_Marshal),
     mt_unmarshalFunction = Some (out_unmarshal (Attest_Response \<circ> Out_PCR_Event) TSS_PCR_Event_Out_Unmarshal),
     mt_unmarshalInFunction = Some (in_unmarshal (Attest_Parameters \<circ> In_PCR_Event) PCR_Event_In_Unmarshal)\<rparr>"

definition marshal_PCR_Read :: MARSHAL_TABLE where
  "marshal_PCR_Read = \<lparr>mt_commandCode = TPM_CC_PCR_Read, mt_commandText = ''TPM2_PCR_Read'',
     mt_marshalFunction = Some (in_marshal in_PCR_Read TSS_PCR_Read_In_Marshal),
     mt_unmarshalFunction = Some (out_unmarshal (Attest_Response \<circ> Out_PCR_Read) TSS_PCR_Read_Out_Unmarshal),
     mt_unmarshalInFunction = Some (in_unmarshal (Attest_Parameters \<circ> In_PCR_Read) PCR_Read_In_Unmarshal)\<rparr>"

definition marshal_PCR_Allocate :: MARSHAL_TABLE where
  "marshal_PCR_Allocate = \<lparr>mt_commandCode = TPM_CC_PCR_Allocate, mt_commandText = ''TPM2_PCR_Allocate'',
     mt_marshalFunction = Some (in_marshal in_PCR_Allocate TSS_PCR_Allocate_In_Marshal),
     mt_unmarshalFunction = Some (out_unmarshal (Attest_Response \<circ> Out_PCR_Allocate) TSS_PCR_Allocate_Out_Unmarshal),
     mt_unmarshalInFunction = Some (in_unmarshal (Attest_Parameters \<circ> In_PCR_Allocate) PCR_Allocate_In_Unmarshal)\<rparr>"

definition marshal_PCR_SetAuthPolicy :: MARSHAL_TABLE where
  "marshal_PCR_SetAuthPolicy = \<lparr>mt_commandCode = TPM_CC_PCR_SetAuthPolicy, mt_commandText = ''TPM2_PCR_SetAuthPolicy'',
     mt_marshalFunction = Some (in_marshal in_PCR_SetAuthPolicy TSS_PCR_SetAuthPolicy_In_Marshal),
     mt_unmarshalFunction = None,
     mt_unmarshalInFunction = Some (in_unmarshal (Attest_Parameters \<circ> In_PCR_SetAuthPolicy) PCR_SetAuthPolicy_In_Unmarshal)\<rparr>"

definition marshal_PCR_SetAuthValue :: MARSHAL_TABLE where
  "marshal_PCR_SetAuthValue = \<lparr>mt_commandCode = TPM_CC_PCR_SetAuthValue, mt_commandText = ''TPM2_PCR_SetAuthValue'',
     mt_marshalFunction = Some (in_marshal in_PCR_SetAuthValue TSS_PCR_SetAuthValue_In_Marshal),
     mt_unmarshalFunction = None,
     mt_unmarshalInFunction = Some (in_unmarshal (Attest_Parameters \<circ> In_PCR_SetAuthValue) PCR_SetAuthValue_In_Unmarshal)\<rparr>"

definition marshal_PCR_Reset :: MARSHAL_TABLE where
  "marshal_PCR_Reset = \<lparr>mt_commandCode = TPM_CC_PCR_Reset, mt_commandText = ''TPM2_PCR_Reset'',
     mt_marshalFunction = Some (in_marshal in_PCR_Reset TSS_PCR_Reset_In_Marshal),
     mt_unmarshalFunction = None,
     mt_unmarshalInFunction = Some (in_unmarshal (Attest_Parameters \<circ> In_PCR_Reset) PCR_Reset_In_Unmarshal)\<rparr>"

definition marshal_PolicySigned :: MARSHAL_TABLE where
  "marshal_PolicySigned = \<lparr>mt_commandCode = TPM_CC_PolicySigned, mt_commandText = ''TPM2_PolicySigned'',
     mt_marshalFunction = Some (in_marshal in_PolicySigned TSS_PolicySigned_In_Marshal),
     mt_unmarshalFunction = Some (out_unmarshal (Policy_Response \<circ> Out_PolicySigned) TSS_PolicySigned_Out_Unmarshal),
     mt_unmarshalInFunction = Some (in_unmarshal (Policy_Parameters \<circ> In_PolicySigned) PolicySigned_In_Unmarshal)\<rparr>"

definition marshal_PolicySecret :: MARSHAL_TABLE where
  "marshal_PolicySecret = \<lparr>mt_commandCode = TPM_CC_PolicySecret, mt_commandText = ''TPM2_PolicySecret'',
     mt_marshalFunction = Some (in_marshal in_PolicySecret TSS_PolicySecret_In_Marshal),
     mt_unmarshalFunction = Some (out_unmarshal (Policy_Response \<circ> Out_PolicySecret) TSS_PolicySecret_Out_Unmarshal),
     mt_unmarshalInFunction = Some (in_unmarshal (Policy_Parameters \<circ> In_PolicySecret) PolicySecret_In_Unmarshal)\<rparr>"

definition marshal_PolicyTicket :: MARSHAL_TABLE where
  "marshal_PolicyTicket = \<lparr>mt_commandCode = TPM_CC_PolicyTicket, mt_commandText = ''TPM2_PolicyTicket'',
     mt_marshalFunction = Some (in_marshal in_PolicyTicket TSS_PolicyTicket_In_Marshal),
     mt_unmarshalFunction = None,
     mt_unmarshalInFunction = Some (in_unmarshal (Policy_Parameters \<circ> In_PolicyTicket) PolicyTicket_In_Unmarshal)\<rparr>"

definition marshal_PolicyOR :: MARSHAL_TABLE where
  "marshal_PolicyOR = \<lparr>mt_commandCode = TPM_CC_PolicyOR, mt_commandText = ''TPM2_PolicyOR'',
     mt_marshalFunction = Some (in_marshal in_PolicyOR TSS_PolicyOR_In_Marshal),
     mt_unmarshalFunction = None,
     mt_unmarshalInFunction = Some (in_unmarshal (Policy_Parameters \<circ> In_PolicyOR) PolicyOR_In_Unmarshal)\<rparr>"

definition marshal_PolicyPCR :: MARSHAL_TABLE where
  "marshal_PolicyPCR = \<lparr>mt_commandCode = TPM_CC_PolicyPCR, mt_commandText = ''TPM2_PolicyPCR'',
     mt_marshalFunction = Some (in_marshal in_PolicyPCR TSS_PolicyPCR_In_Marshal),
     mt_unmarshalFunction = None,
     mt_unmarshalInFunction = Some (in_unmarshal (Policy_Parameters \<circ> In_PolicyPCR) PolicyPCR_In_Unmarshal)\<rparr>"

definition marshal_PolicyLocality :: MARSHAL_TABLE where
  "marshal_PolicyLocality = \<lparr>mt_commandCode = TPM_CC_PolicyLocality, mt_commandText = ''TPM2_PolicyLocality'',
     mt_marshalFunction = Some (in_marshal in_PolicyLocality TSS_PolicyLocality_In_Marshal),
     mt_unmarshalFunction = None,
     mt_unmarshalInFunction = Some (in_unmarshal (Policy_Parameters \<circ> In_PolicyLocality) PolicyLocality_In_Unmarshal)\<rparr>"

definition marshal_PolicyNV :: MARSHAL_TABLE where
  "marshal_PolicyNV = \<lparr>mt_commandCode = TPM_CC_PolicyNV, mt_commandText = ''TPM2_PolicyNV'',
     mt_marshalFunction = Some (in_marshal in_PolicyNV TSS_PolicyNV_In_Marshal),
     mt_unmarshalFunction = None,
     mt_unmarshalInFunction = Some (in_unmarshal (Policy_Parameters \<circ> In_PolicyNV) PolicyNV_In_Unmarshal)\<rparr>"

definition marshal_PolicyCounterTimer :: MARSHAL_TABLE where
  "marshal_PolicyCounterTimer = \<lparr>mt_commandCode = TPM_CC_PolicyCounterTimer, mt_commandText = ''TPM2_PolicyCounterTimer'',
     mt_marshalFunction = Some (in_marshal in_PolicyCounterTimer TSS_PolicyCounterTimer_In_Marshal),
     mt_unmarshalFunction = None,
     mt_unmarshalInFunction = Some (in_unmarshal (Policy_Parameters \<circ> In_PolicyCounterTimer) PolicyCounterTimer_In_Unmarshal)\<rparr>"

definition marshal_PolicyCommandCode :: MARSHAL_TABLE where
  "marshal_PolicyCommandCode = \<lparr>mt_commandCode = TPM_CC_PolicyCommandCode, mt_commandText = ''TPM2_PolicyCommandCode'',
     mt_marshalFunction = Some (in_marshal in_PolicyCommandCode TSS_PolicyCommandCode_In_Marshal),
     mt_unmarshalFunction = None,
     mt_unmarshalInFunction = Some (in_unmarshal (Policy_Parameters \<circ> In_PolicyCommandCode) PolicyCommandCode_In_Unmarshal)\<rparr>"

definition marshal_PolicyPhysicalPresence :: MARSHAL_TABLE where
  "marshal_PolicyPhysicalPresence = \<lparr>mt_commandCode = TPM_CC_PolicyPhysicalPresence, mt_commandText = ''TPM2_PolicyPhysicalPresence'',
     mt_marshalFunction = Some (in_marshal in_PolicyPhysicalPresence TSS_PolicyPhysicalPresence_In_Marshal),
     mt_unmarshalFunction = None,
     mt_unmarshalInFunction = Some (in_unmarshal (Policy_Parameters \<circ> In_PolicyPhysicalPresence) PolicyPhysicalPresence_In_Unmarshal)\<rparr>"

definition marshal_PolicyCpHash :: MARSHAL_TABLE where
  "marshal_PolicyCpHash = \<lparr>mt_commandCode = TPM_CC_PolicyCpHash, mt_commandText = ''TPM2_PolicyCpHash'',
     mt_marshalFunction = Some (in_marshal in_PolicyCpHash TSS_PolicyCpHash_In_Marshal),
     mt_unmarshalFunction = None,
     mt_unmarshalInFunction = Some (in_unmarshal (Policy_Parameters \<circ> In_PolicyCpHash) PolicyCpHash_In_Unmarshal)\<rparr>"

definition marshal_PolicyNameHash :: MARSHAL_TABLE where
  "marshal_PolicyNameHash = \<lparr>mt_commandCode = TPM_CC_PolicyNameHash, mt_commandText = ''TPM2_PolicyNameHash'',
     mt_marshalFunction = Some (in_marshal in_PolicyNameHash TSS_PolicyNameHash_In_Marshal),
     mt_unmarshalFunction = None,
     mt_unmarshalInFunction = Some (in_unmarshal (Policy_Parameters \<circ> In_PolicyNameHash) PolicyNameHash_In_Unmarshal)\<rparr>"

definition marshal_PolicyDuplicationSelect :: MARSHAL_TABLE where
  "marshal_PolicyDuplicationSelect = \<lparr>mt_commandCode = TPM_CC_PolicyDuplicationSelect, mt_commandText = ''TPM2_PolicyDuplicationSelect'',
     mt_marshalFunction = Some (in_marshal in_PolicyDuplicationSelect TSS_PolicyDuplicationSelect_In_Marshal),
     mt_unmarshalFunction = None,
     mt_unmarshalInFunction = Some (in_unmarshal (Policy_Parameters \<circ> In_PolicyDuplicationSelect) PolicyDuplicationSelect_In_Unmarshal)\<rparr>"

definition marshal_PolicyAuthorize :: MARSHAL_TABLE where
  "marshal_PolicyAuthorize = \<lparr>mt_commandCode = TPM_CC_PolicyAuthorize, mt_commandText = ''TPM2_PolicyAuthorize'',
     mt_marshalFunction = Some (in_marshal in_PolicyAuthorize TSS_PolicyAuthorize_In_Marshal),
     mt_unmarshalFunction = None,
     mt_unmarshalInFunction = Some (in_unmarshal (Policy_Parameters \<circ> In_PolicyAuthorize) PolicyAuthorize_In_Unmarshal)\<rparr>"

definition marshal_PolicyAuthValue :: MARSHAL_TABLE where
  "marshal_PolicyAuthValue = \<lparr>mt_commandCode = TPM_CC_PolicyAuthValue, mt_commandText = ''TPM2_PolicyAuthValue'',
     mt_marshalFunction = Some (in_marshal in_PolicyAuthValue TSS_PolicyAuthValue_In_Marshal),
     mt_unmarshalFunction = None,
     mt_unmarshalInFunction = Some (in_unmarshal (Policy_Parameters \<circ> In_PolicyAuthValue) PolicyAuthValue_In_Unmarshal)\<rparr>"

definition marshal_PolicyPassword :: MARSHAL_TABLE where
  "marshal_PolicyPassword = \<lparr>mt_commandCode = TPM_CC_PolicyPassword, mt_commandText = ''TPM2_PolicyPassword'',
     mt_marshalFunction = Some (in_marshal in_PolicyPassword TSS_PolicyPassword_In_Marshal),
     mt_unmarshalFunction = None,
     mt_unmarshalInFunction = Some (in_unmarshal (Policy_Parameters \<circ> In_PolicyPassword) PolicyPassword_In_Unmarshal)\<rparr>"

definition marshal_PolicyGetDigest :: MARSHAL_TABLE where
  "marshal_PolicyGetDigest = \<lparr>mt_commandCode = TPM_CC_PolicyGetDigest, mt_commandText = ''TPM2_PolicyGetDigest'',
     mt_marshalFunction = Some (in_marshal in_PolicyGetDigest TSS_PolicyGetDigest_In_Marshal),
     mt_unmarshalFunction = Some (out_unmarshal (Policy_Response \<circ> Out_PolicyGetDigest) TSS_PolicyGetDigest_Out_Unmarshal),
     mt_unmarshalInFunction = Some (in_unmarshal (Policy_Parameters \<circ> In_PolicyGetDigest) PolicyGetDigest_In_Unmarshal)\<rparr>"

definition marshal_PolicyNvWritten :: MARSHAL_TABLE where
  "marshal_PolicyNvWritten = \<lparr>mt_commandCode = TPM_CC_PolicyNvWritten, mt_commandText = ''TPM2_PolicyNvWritten'',
     mt_marshalFunction = Some (in_marshal in_PolicyNvWritten TSS_PolicyNvWritten_In_Marshal),
     mt_unmarshalFunction = None,
     mt_unmarshalInFunction = Some (in_unmarshal (Policy_Parameters \<circ> In_PolicyNvWritten) PolicyNvWritten_In_Unmarshal)\<rparr>"

definition marshal_CreatePrimary :: MARSHAL_TABLE where
  "marshal_CreatePrimary = \<lparr>mt_commandCode = TPM_CC_CreatePrimary, mt_commandText = ''TPM2_CreatePrimary'',
     mt_marshalFunction = Some (in_marshal in_CreatePrimary TSS_CreatePrimary_In_Marshal),
     mt_unmarshalFunction = Some (out_unmarshal (Hierarchy_Response \<circ> Out_CreatePrimary) TSS_CreatePrimary_Out_Unmarshal),
     mt_unmarshalInFunction = Some (in_unmarshal (Hierarchy_Parameters \<circ> In_CreatePrimary) CreatePrimary_In_Unmarshal)\<rparr>"

definition marshal_HierarchyControl :: MARSHAL_TABLE where
  "marshal_HierarchyControl = \<lparr>mt_commandCode = TPM_CC_HierarchyControl, mt_commandText = ''TPM2_HierarchyControl'',
     mt_marshalFunction = Some (in_marshal in_HierarchyControl TSS_HierarchyControl_In_Marshal),
     mt_unmarshalFunction = None,
     mt_unmarshalInFunction = Some (in_unmarshal (Hierarchy_Parameters \<circ> In_HierarchyControl) HierarchyControl_In_Unmarshal)\<rparr>"

definition marshal_SetPrimaryPolicy :: MARSHAL_TABLE where
  "marshal_SetPrimaryPolicy = \<lparr>mt_commandCode = TPM_CC_SetPrimaryPolicy, mt_commandText = ''TPM2_SetPrimaryPolicy'',
     mt_marshalFunction = Some (in_marshal in_SetPrimaryPolicy TSS_SetPrimaryPolicy_In_Marshal),
     mt_unmarshalFunction = None,
     mt_unmarshalInFunction = Some (in_unmarshal (Hierarchy_Parameters \<circ> In_SetPrimaryPolicy) SetPrimaryPolicy_In_Unmarshal)\<rparr>"

definition marshal_ChangePPS :: MARSHAL_TABLE where
  "marshal_ChangePPS = \<lparr>mt_commandCode = TPM_CC_ChangePPS, mt_commandText = ''TPM2_ChangePPS'',
     mt_marshalFunction = Some (in_marshal in_ChangePPS TSS_ChangePPS_In_Marshal),
     mt_unmarshalFunction = None,
     mt_unmarshalInFunction = Some (in_unmarshal (Hierarchy_Parameters \<circ> In_ChangePPS) ChangePPS_In_Unmarshal)\<rparr>"

definition marshal_ChangeEPS :: MARSHAL_TABLE where
  "marshal_ChangeEPS = \<lparr>mt_commandCode = TPM_CC_ChangeEPS, mt_commandText = ''TPM2_ChangeEPS'',
     mt_marshalFunction = Some (in_marshal in_ChangeEPS TSS_ChangeEPS_In_Marshal),
     mt_unmarshalFunction = None,
     mt_unmarshalInFunction = Some (in_unmarshal (Hierarchy_Parameters \<circ> In_ChangeEPS) ChangeEPS_In_Unmarshal)\<rparr>"

definition marshal_Clear :: MARSHAL_TABLE where
  "marshal_Clear = \<lparr>mt_commandCode = TPM_CC_Clear, mt_commandText = ''TPM2_Clear'',
     mt_marshalFunction = Some (in_marshal in_Clear TSS_Clear_In_Marshal),
     mt_unmarshalFunction = None,
     mt_unmarshalInFunction = Some (in_unmarshal (Hierarchy_Parameters \<circ> In_Clear) Clear_In_Unmarshal)\<rparr>"

definition marshal_ClearControl :: MARSHAL_TABLE where
  "marshal_ClearControl = \<lparr>mt_commandCode = TPM_CC_ClearControl, mt_commandText = ''TPM2_ClearControl'',
     mt_marshalFunction = Some (in_marshal in_ClearControl TSS_ClearControl_In_Marshal),
     mt_unmarshalFunction = None,
     mt_unmarshalInFunction = Some (in_unmarshal (Hierarchy_Parameters \<circ> In_ClearControl) ClearControl_In_Unmarshal)\<rparr>"

definition marshal_HierarchyChangeAuth :: MARSHAL_TABLE where
  "marshal_HierarchyChangeAuth = \<lparr>mt_commandCode = TPM_CC_HierarchyChangeAuth, mt_commandText = ''TPM2_HierarchyChangeAuth'',
     mt_marshalFunction = Some (in_marshal in_HierarchyChangeAuth TSS_HierarchyChangeAuth_In_Marshal),
     mt_unmarshalFunction = None,
     mt_unmarshalInFunction = Some (in_unmarshal (Hierarchy_Parameters \<circ> In_HierarchyChangeAuth) HierarchyChangeAuth_In_Unmarshal)\<rparr>"

definition marshal_DictionaryAttackLockReset :: MARSHAL_TABLE where
  "marshal_DictionaryAttackLockReset = \<lparr>mt_commandCode = TPM_CC_DictionaryAttackLockReset, mt_commandText = ''TPM2_DictionaryAttackLockReset'',
     mt_marshalFunction = Some (in_marshal in_DictionaryAttackLockReset TSS_DictionaryAttackLockReset_In_Marshal),
     mt_unmarshalFunction = None,
     mt_unmarshalInFunction = Some (in_unmarshal (Hierarchy_Parameters \<circ> In_DictionaryAttackLockReset) DictionaryAttackLockReset_In_Unmarshal)\<rparr>"

definition marshal_DictionaryAttackParameters :: MARSHAL_TABLE where
  "marshal_DictionaryAttackParameters = \<lparr>mt_commandCode = TPM_CC_DictionaryAttackParameters, mt_commandText = ''TPM2_DictionaryAttackParameters'',
     mt_marshalFunction = Some (in_marshal in_DictionaryAttackParameters TSS_DictionaryAttackParameters_In_Marshal),
     mt_unmarshalFunction = None,
     mt_unmarshalInFunction = Some (in_unmarshal (Hierarchy_Parameters \<circ> In_DictionaryAttackParameters) DictionaryAttackParameters_In_Unmarshal)\<rparr>"

definition marshal_PP_Commands :: MARSHAL_TABLE where
  "marshal_PP_Commands = \<lparr>mt_commandCode = TPM_CC_PP_Commands, mt_commandText = ''TPM2_PP_Commands'',
     mt_marshalFunction = Some (in_marshal in_PP_Commands TSS_PP_Commands_In_Marshal),
     mt_unmarshalFunction = None,
     mt_unmarshalInFunction = Some (in_unmarshal (Hierarchy_Parameters \<circ> In_PP_Commands) PP_Commands_In_Unmarshal)\<rparr>"

definition marshal_SetAlgorithmSet :: MARSHAL_TABLE where
  "marshal_SetAlgorithmSet = \<lparr>mt_commandCode = TPM_CC_SetAlgorithmSet, mt_commandText = ''TPM2_SetAlgorithmSet'',
     mt_marshalFunction = Some (in_marshal in_SetAlgorithmSet TSS_SetAlgorithmSet_In_Marshal),
     mt_unmarshalFunction = None,
     mt_unmarshalInFunction = Some (in_unmarshal (Hierarchy_Parameters \<circ> In_SetAlgorithmSet) SetAlgorithmSet_In_Unmarshal)\<rparr>"

definition marshal_ContextSave :: MARSHAL_TABLE where
  "marshal_ContextSave = \<lparr>mt_commandCode = TPM_CC_ContextSave, mt_commandText = ''TPM2_ContextSave'',
     mt_marshalFunction = Some (in_marshal in_ContextSave TSS_ContextSave_In_Marshal),
     mt_unmarshalFunction = Some (out_unmarshal (Hierarchy_Response \<circ> Out_ContextSave) TSS_ContextSave_Out_Unmarshal),
     mt_unmarshalInFunction = Some (in_unmarshal (Hierarchy_Parameters \<circ> In_ContextSave) ContextSave_In_Unmarshal)\<rparr>"

definition marshal_ContextLoad :: MARSHAL_TABLE where
  "marshal_ContextLoad = \<lparr>mt_commandCode = TPM_CC_ContextLoad, mt_commandText = ''TPM2_ContextLoad'',
     mt_marshalFunction = Some (in_marshal in_ContextLoad TSS_ContextLoad_In_Marshal),
     mt_unmarshalFunction = Some (out_unmarshal (Hierarchy_Response \<circ> Out_ContextLoad) TSS_ContextLoad_Out_Unmarshal),
     mt_unmarshalInFunction = Some (in_unmarshal (Hierarchy_Parameters \<circ> In_ContextLoad) ContextLoad_In_Unmarshal)\<rparr>"

definition marshal_FlushContext :: MARSHAL_TABLE where
  "marshal_FlushContext = \<lparr>mt_commandCode = TPM_CC_FlushContext, mt_commandText = ''TPM2_FlushContext'',
     mt_marshalFunction = Some (in_marshal in_FlushContext TSS_FlushContext_In_Marshal),
     mt_unmarshalFunction = None,
     mt_unmarshalInFunction = Some (in_unmarshal (Hierarchy_Parameters \<circ> In_FlushContext) FlushContext_In_Unmarshal)\<rparr>"

definition marshal_EvictControl :: MARSHAL_TABLE where
  "marshal_EvictControl = \<lparr>mt_commandCode = TPM_CC_EvictControl, mt_commandText = ''TPM2_EvictControl'',
     mt_marshalFunction = Some (in_marshal in_EvictControl TSS_EvictControl_In_Marshal),
     mt_unmarshalFunction = None,
     mt_unmarshalInFunction = Some (in_unmarshal (Hierarchy_Parameters \<circ> In_EvictControl) EvictControl_In_Unmarshal)\<rparr>"

definition marshal_ReadClock :: MARSHAL_TABLE where
  "marshal_ReadClock = \<lparr>mt_commandCode = TPM_CC_ReadClock, mt_commandText = ''TPM2_ReadClock'',
     mt_marshalFunction = None,
     mt_unmarshalFunction = Some (out_unmarshal (Hierarchy_Response \<circ> Out_ReadClock) TSS_ReadClock_Out_Unmarshal),
     mt_unmarshalInFunction = None\<rparr>"

definition marshal_ClockSet :: MARSHAL_TABLE where
  "marshal_ClockSet = \<lparr>mt_commandCode = TPM_CC_ClockSet, mt_commandText = ''TPM2_ClockSet'',
     mt_marshalFunction = Some (in_marshal in_ClockSet TSS_ClockSet_In_Marshal),
     mt_unmarshalFunction = None,
     mt_unmarshalInFunction = Some (in_unmarshal (Hierarchy_Parameters \<circ> In_ClockSet) ClockSet_In_Unmarshal)\<rparr>"

definition marshal_ClockRateAdjust :: MARSHAL_TABLE where
  "marshal_ClockRateAdjust = \<lparr>mt_commandCode = TPM_CC_ClockRateAdjust, mt_commandText = ''TPM2_ClockRateAdjust'',
     mt_marshalFunction = Some (in_marshal in_ClockRateAdjust TSS_ClockRateAdjust_In_Marshal),
     mt_unmarshalFunction = None,
     mt_unmarshalInFunction = Some (in_unmarshal (Hierarchy_Parameters \<circ> In_ClockRateAdjust) ClockRateAdjust_In_Unmarshal)\<rparr>"

definition marshal_GetCapability :: MARSHAL_TABLE where
  "marshal_GetCapability = \<lparr>mt_commandCode = TPM_CC_GetCapability, mt_commandText = ''TPM2_GetCapability'',
     mt_marshalFunction = Some (in_marshal in_GetCapability TSS_GetCapability_In_Marshal),
     mt_unmarshalFunction = Some (out_unmarshal (NV_Response \<circ> Out_GetCapability) TSS_GetCapability_Out_Unmarshal),
     mt_unmarshalInFunction = Some (in_unmarshal (NV_Parameters \<circ> In_GetCapability) GetCapability_In_Unmarshal)\<rparr>"

definition marshal_TestParms :: MARSHAL_TABLE where
  "marshal_TestParms = \<lparr>mt_commandCode = TPM_CC_TestParms, mt_commandText = ''TPM2_TestParms'',
     mt_marshalFunction = Some (in_marshal in_TestParms TSS_TestParms_In_Marshal),
     mt_unmarshalFunction = None,
     mt_unmarshalInFunction = Some (in_unmarshal (NV_Parameters \<circ> In_TestParms) TestParms_In_Unmarshal)\<rparr>"

definition marshal_NV_DefineSpace :: MARSHAL_TABLE where
  "marshal_NV_DefineSpace = \<lparr>mt_commandCode = TPM_CC_NV_DefineSpace, mt_commandText = ''TPM2_NV_DefineSpace'',
     mt_marshalFunction = Some (in_marshal in_NV_DefineSpace TSS_NV_DefineSpace_In_Marshal),
     mt_unmarshalFunction = None,
     mt_unmarshalInFunction = Some (in_unmarshal (NV_Parameters \<circ> In_NV_DefineSpace) NV_DefineSpace_In_Unmarshal)\<rparr>"

definition marshal_NV_UndefineSpace :: MARSHAL_TABLE where
  "marshal_NV_UndefineSpace = \<lparr>mt_commandCode = TPM_CC_NV_UndefineSpace, mt_commandText = ''TPM2_NV_UndefineSpace'',
     mt_marshalFunction = Some (in_marshal in_NV_UndefineSpace TSS_NV_UndefineSpace_In_Marshal),
     mt_unmarshalFunction = None,
     mt_unmarshalInFunction = Some (in_unmarshal (NV_Parameters \<circ> In_NV_UndefineSpace) NV_UndefineSpace_In_Unmarshal)\<rparr>"

definition marshal_NV_UndefineSpaceSpecial :: MARSHAL_TABLE where
  "marshal_NV_UndefineSpaceSpecial = \<lparr>mt_commandCode = TPM_CC_NV_UndefineSpaceSpecial, mt_commandText = ''TPM2_NV_UndefineSpaceSpecial'',
     mt_marshalFunction = Some (in_marshal in_NV_UndefineSpaceSpecial TSS_NV_UndefineSpaceSpecial_In_Marshal),
     mt_unmarshalFunction = None,
     mt_unmarshalInFunction = Some (in_unmarshal (NV_Parameters \<circ> In_NV_UndefineSpaceSpecial) NV_UndefineSpaceSpecial_In_Unmarshal)\<rparr>"

definition marshal_NV_ReadPublic :: MARSHAL_TABLE where
  "marshal_NV_ReadPublic = \<lparr>mt_commandCode = TPM_CC_NV_ReadPublic, mt_commandText = ''TPM2_NV_ReadPublic'',
     mt_marshalFunction = Some (in_marshal in_NV_ReadPublic TSS_NV_ReadPublic_In_Marshal),
     mt_unmarshalFunction = Some (out_unmarshal (NV_Response \<circ> Out_NV_ReadPublic) TSS_NV_ReadPublic_Out_Unmarshal),
     mt_unmarshalInFunction = Some (in_unmarshal (NV_Parameters \<circ> In_NV_ReadPublic) NV_ReadPublic_In_Unmarshal)\<rparr>"

definition marshal_NV_Write :: MARSHAL_TABLE where
  "marshal_NV_Write = \<lparr>mt_commandCode = TPM_CC_NV_Write, mt_commandText = ''TPM2_NV_Write'',
     mt_marshalFunction = Some (in_marshal in_NV_Write TSS_NV_Write_In_Marshal),
     mt_unmarshalFunction = None,
     mt_unmarshalInFunction = Some (in_unmarshal (NV_Parameters \<circ> In_NV_Write) NV_Write_In_Unmarshal)\<rparr>"

definition marshal_NV_Increment :: MARSHAL_TABLE where
  "marshal_NV_Increment = \<lparr>mt_commandCode = TPM_CC_NV_Increment, mt_commandText = ''TPM2_NV_Increment'',
     mt_marshalFunction = Some (in_marshal in_NV_Increment TSS_NV_Increment_In_Marshal),
     mt_unmarshalFunction = None,
     mt_unmarshalInFunction = Some (in_unmarshal (NV_Parameters \<circ> In_NV_Increment) NV_Increment_In_Unmarshal)\<rparr>"

definition marshal_NV_Extend :: MARSHAL_TABLE where
  "marshal_NV_Extend = \<lparr>mt_commandCode = TPM_CC_NV_Extend, mt_commandText = ''TPM2_NV_Extend'',
     mt_marshalFunction = Some (in_marshal in_NV_Extend TSS_NV_Extend_In_Marshal),
     mt_unmarshalFunction = None,
     mt_unmarshalInFunction = Some (in_unmarshal (NV_Parameters \<circ> In_NV_Extend) NV_Extend_In_Unmarshal)\<rparr>"

definition marshal_NV_SetBits :: MARSHAL_TABLE where
  "marshal_NV_SetBits = \<lparr>mt_commandCode = TPM_CC_NV_SetBits, mt_commandText = ''TPM2_NV_SetBits'',
     mt_marshalFunction = Some (in_marshal in_NV_SetBits TSS_NV_SetBits_In_Marshal),
     mt_unmarshalFunction = None,
     mt_unmarshalInFunction = Some (in_unmarshal (NV_Parameters \<circ> In_NV_SetBits) NV_SetBits_In_Unmarshal)\<rparr>"

definition marshal_NV_WriteLock :: MARSHAL_TABLE where
  "marshal_NV_WriteLock = \<lparr>mt_commandCode = TPM_CC_NV_WriteLock, mt_commandText = ''TPM2_NV_WriteLock'',
     mt_marshalFunction = Some (in_marshal in_NV_WriteLock TSS_NV_WriteLock_In_Marshal),
     mt_unmarshalFunction = None,
     mt_unmarshalInFunction = Some (in_unmarshal (NV_Parameters \<circ> In_NV_WriteLock) NV_WriteLock_In_Unmarshal)\<rparr>"

definition marshal_NV_GlobalWriteLock :: MARSHAL_TABLE where
  "marshal_NV_GlobalWriteLock = \<lparr>mt_commandCode = TPM_CC_NV_GlobalWriteLock, mt_commandText = ''TPM2_NV_GlobalWriteLock'',
     mt_marshalFunction = Some (in_marshal in_NV_GlobalWriteLock TSS_NV_GlobalWriteLock_In_Marshal),
     mt_unmarshalFunction = None,
     mt_unmarshalInFunction = Some (in_unmarshal (NV_Parameters \<circ> In_NV_GlobalWriteLock) NV_GlobalWriteLock_In_Unmarshal)\<rparr>"

definition marshal_NV_Read :: MARSHAL_TABLE where
  "marshal_NV_Read = \<lparr>mt_commandCode = TPM_CC_NV_Read, mt_commandText = ''TPM2_NV_Read'',
     mt_marshalFunction = Some (in_marshal in_NV_Read TSS_NV_Read_In_Marshal),
     mt_unmarshalFunction = Some (out_unmarshal (NV_Response \<circ> Out_NV_Read) TSS_NV_Read_Out_Unmarshal),
     mt_unmarshalInFunction = Some (in_unmarshal (NV_Parameters \<circ> In_NV_Read) NV_Read_In_Unmarshal)\<rparr>"

definition marshal_NV_ReadLock :: MARSHAL_TABLE where
  "marshal_NV_ReadLock = \<lparr>mt_commandCode = TPM_CC_NV_ReadLock, mt_commandText = ''TPM2_NV_ReadLock'',
     mt_marshalFunction = Some (in_marshal in_NV_ReadLock TSS_NV_ReadLock_In_Marshal),
     mt_unmarshalFunction = None,
     mt_unmarshalInFunction = Some (in_unmarshal (NV_Parameters \<circ> In_NV_ReadLock) NV_ReadLock_In_Unmarshal)\<rparr>"

definition marshal_NV_ChangeAuth :: MARSHAL_TABLE where
  "marshal_NV_ChangeAuth = \<lparr>mt_commandCode = TPM_CC_NV_ChangeAuth, mt_commandText = ''TPM2_NV_ChangeAuth'',
     mt_marshalFunction = Some (in_marshal in_NV_ChangeAuth TSS_NV_ChangeAuth_In_Marshal),
     mt_unmarshalFunction = None,
     mt_unmarshalInFunction = Some (in_unmarshal (NV_Parameters \<circ> In_NV_ChangeAuth) NV_ChangeAuth_In_Unmarshal)\<rparr>"

definition marshal_NV_Certify :: MARSHAL_TABLE where
  "marshal_NV_Certify = \<lparr>mt_commandCode = TPM_CC_NV_Certify, mt_commandText = ''TPM2_NV_Certify'',
     mt_marshalFunction = Some (in_marshal in_NV_Certify TSS_NV_Certify_In_Marshal),
     mt_unmarshalFunction = Some (out_unmarshal (NV_Response \<circ> Out_NV_Certify) TSS_NV_Certify_Out_Unmarshal),
     mt_unmarshalInFunction = Some (in_unmarshal (NV_Parameters \<circ> In_NV_Certify) NV_Certify_In_Unmarshal)\<rparr>"

definition marshalTable :: "MARSHAL_TABLE list" where
  "marshalTable =
    [marshal_Startup, marshal_Shutdown, marshal_SelfTest, marshal_IncrementalSelfTest, marshal_GetTestResult,
     marshal_StartAuthSession, marshal_PolicyRestart, marshal_Create, marshal_Load, marshal_LoadExternal,
     marshal_ReadPublic, marshal_ActivateCredential, marshal_MakeCredential, marshal_Unseal,
     marshal_ObjectChangeAuth, marshal_Duplicate, marshal_Rewrap, marshal_Import, marshal_RSA_Encrypt,
     marshal_RSA_Decrypt, marshal_ECDH_KeyGen, marshal_ECDH_ZGen, marshal_ECC_Parameters, marshal_ZGen_2Phase,
     marshal_EncryptDecrypt, marshal_Hash, marshal_HMAC, marshal_GetRandom, marshal_StirRandom,
     marshal_HMAC_Start, marshal_HashSequenceStart, marshal_SequenceUpdate, marshal_SequenceComplete,
     marshal_EventSequenceComplete, marshal_Certify, marshal_CertifyCreation, marshal_Quote,
     marshal_GetSessionAuditDigest, marshal_GetCommandAuditDigest, marshal_GetTime, marshal_Commit,
     marshal_EC_Ephemeral, marshal_VerifySignature, marshal_Sign, marshal_SetCommandCodeAuditStatus,
     marshal_PCR_Extend, marshal_PCR_Event, marshal_PCR_Read, marshal_PCR_Allocate, marshal_PCR_SetAuthPolicy,
     marshal_PCR_SetAuthValue, marshal_PCR_Reset, marshal_PolicySigned, marshal_PolicySecret,
     marshal_PolicyTicket, marshal_PolicyOR, marshal_PolicyPCR, marshal_PolicyLocality, marshal_PolicyNV,
     marshal_PolicyCounterTimer, marshal_PolicyCommandCode, marshal_PolicyPhysicalPresence,
     marshal_PolicyCpHash, marshal_PolicyNameHash, marshal_PolicyDuplicationSelect, marshal_PolicyAuthorize,
     marshal_PolicyAuthValue, marshal_PolicyPassword, marshal_PolicyGetDigest, marshal_PolicyNvWritten,
     marshal_CreatePrimary, marshal_HierarchyControl, marshal_SetPrimaryPolicy, marshal_ChangePPS,
     marshal_ChangeEPS, marshal_Clear, marshal_ClearControl, marshal_HierarchyChangeAuth,
     marshal_DictionaryAttackLockReset, marshal_DictionaryAttackParameters, marshal_PP_Commands,
     marshal_SetAlgorithmSet, marshal_ContextSave, marshal_ContextLoad, marshal_FlushContext,
     marshal_EvictControl, marshal_ReadClock, marshal_ClockSet, marshal_ClockRateAdjust,
     marshal_GetCapability, marshal_TestParms, marshal_NV_DefineSpace, marshal_NV_UndefineSpace,
     marshal_NV_UndefineSpaceSpecial, marshal_NV_ReadPublic, marshal_NV_Write, marshal_NV_Increment,
     marshal_NV_Extend, marshal_NV_SetBits, marshal_NV_WriteLock, marshal_NV_GlobalWriteLock, marshal_NV_Read,
     marshal_NV_ReadLock, marshal_NV_ChangeAuth, marshal_NV_Certify]"

end
