(* ===== verification/Tss_Auth.thy ===== *)
theory Tss_Auth
  imports Tss_Params
begin

text \<open>
  The command and response packets: the context of \<^verbatim>\<open>libtss2/tssauth.c\<close> and every operation on it. \<open>commandBuffer\<close> is the memory
  from the start of the array on, so a write at \<open>MAX_COMMAND_SIZE\<close> or above is a write past its end; \<open>responseBuffer\<close> is the array
  itself. Pointers into the arrays are offsets. An operation returns its response code with the context after it; \<open>None\<close> says that it
  reads or writes outside of an array, uses a null pointer or reads what was never written. The handles passed to the
  functions that check the parameters of a command are the uninitialized array \<open>handles\<close> of \<open>TSS_Marshal\<close>.
\<close>

abbreviation MAX_COMMAND_SIZE :: nat where "MAX_COMMAND_SIZE \<equiv> 4096"
abbreviation MAX_RESPONSE_SIZE :: nat where "MAX_RESPONSE_SIZE \<equiv> 4096"

abbreviation TSS_RC_OUT_OF_MEMORY :: "32 word" where "TSS_RC_OUT_OF_MEMORY \<equiv> 0xB0001"
abbreviation TSS_RC_MALFORMED_RESPONSE :: "32 word" where "TSS_RC_MALFORMED_RESPONSE \<equiv> 0xB000A"
abbreviation TSS_RC_BAD_ENCRYPT_SIZE :: "32 word" where "TSS_RC_BAD_ENCRYPT_SIZE \<equiv> 0xB0058"
abbreviation TSS_RC_COMMAND_UNIMPLEMENTED :: "32 word" where "TSS_RC_COMMAND_UNIMPLEMENTED \<equiv> 0xB0080"
abbreviation TSS_RC_IN_PARAMETER :: "32 word" where "TSS_RC_IN_PARAMETER \<equiv> 0xB0081"
abbreviation TSS_RC_OUT_PARAMETER :: "32 word" where "TSS_RC_OUT_PARAMETER \<equiv> 0xB0082"
abbreviation TSS_RC_BAD_HANDLE_NUMBER :: "32 word" where "TSS_RC_BAD_HANDLE_NUMBER \<equiv> 0xB0083"

section \<open>The context\<close>

record TSS_AUTH_CONTEXT =
  commandBuffer :: "nat \<Rightarrow> byte"
  responseBuffer :: "byte list"
  commandText :: "string option"
  tpmCommandIndex :: COMMAND_INDEX
  commandCode :: TPM_CC
  responseCode :: "32 word"
  commandHandleCount :: "32 word"
  responseHandleCount :: "32 word"
  authCount :: "16 word"
  commandSize :: "16 word"
  cpBufferSize :: "32 word"
  cpBuffer :: "nat option"
  responseSize :: "32 word"
  marshalFunction :: "(COMMAND_PARAMETERS \<Rightarrow> marshal) option"
  unmarshalFunction :: "(TPM_ST \<Rightarrow> RESPONSE_PARAMETERS unmarshal) option"
  unmarshalInFunction :: "((nat \<Rightarrow> TPM_HANDLE) \<Rightarrow> COMMAND_PARAMETERS unmarshal) option"

definition TSS_MarshalTable_Process :: "TSS_AUTH_CONTEXT \<Rightarrow> TPM_CC \<Rightarrow> 32 word \<times> TSS_AUTH_CONTEXT" where
  "TSS_MarshalTable_Process c cc =
     (case find (\<lambda>e. mt_commandCode e = cc) marshalTable of
        Some e \<Rightarrow> (0, c\<lparr>commandCode := cc, commandText := Some (mt_commandText e),
                      marshalFunction := mt_marshalFunction e, unmarshalFunction := mt_unmarshalFunction e,
                      unmarshalInFunction := mt_unmarshalInFunction e\<rparr>)
      | None \<Rightarrow> (TSS_RC_COMMAND_UNIMPLEMENTED, c))"

text \<open>The command index and the function that checks the parameters are not reset.\<close>

definition TSS_InitAuthContext :: "TSS_AUTH_CONTEXT \<Rightarrow> TSS_AUTH_CONTEXT" where
  "TSS_InitAuthContext c = c\<lparr>
     commandBuffer := (\<lambda>a. if a < MAX_COMMAND_SIZE then 0 else commandBuffer c a),
     responseBuffer := replicate MAX_RESPONSE_SIZE 0, commandText := None, commandCode := 0, responseCode := 0,
     commandHandleCount := 0, responseHandleCount := 0, authCount := 0, commandSize := 0, cpBufferSize := 0,
     cpBuffer := None, responseSize := 0, marshalFunction := None, unmarshalFunction := None\<rparr>"

text \<open>\<open>malloc\<close> returns a context of unspecified content, or a null pointer.\<close>

definition TSS_AuthCreate :: "TSS_AUTH_CONTEXT option \<Rightarrow> 32 word \<times> TSS_AUTH_CONTEXT option" where
  "TSS_AuthCreate malloc = (case malloc of
      None \<Rightarrow> (TSS_RC_OUT_OF_MEMORY, None)
    | Some c \<Rightarrow> (0, Some (TSS_InitAuthContext c)))"

section \<open>Marshalling a command\<close>

text \<open>The marshal functions write to the command buffer and count in \<open>commandSize\<close>.\<close>

definition at_command :: "TSS_AUTH_CONTEXT \<Rightarrow> nat \<Rightarrow> int option \<Rightarrow> mst" where
  "at_command c p sz = \<lparr>written = commandSize c, memory = commandBuffer c, position = Some p, room = sz\<rparr>"

definition put_command :: "mst \<Rightarrow> TSS_AUTH_CONTEXT \<Rightarrow> TSS_AUTH_CONTEXT" where
  "put_command s c = c\<lparr>commandBuffer := memory s, commandSize := written s\<rparr>"

text \<open>Tag, the size so far, which is that of the tag, and command code.\<close>

definition marshal_header :: "TPM_CC \<Rightarrow> marshal" where
  "marshal_header cc =
     m_then (TSS_TPMI_ST_COMMAND_TAG_Marshal TPM_ST_NO_SESSIONS) (
     m_then (\<lambda>s. TSS_UINT32_Marshal (ucast (written s)) s) (
     TSS_TPM_CC_Marshal cc))"

text \<open>The parameters, by the function of the table.\<close>

definition marshal_in :: "(COMMAND_PARAMETERS \<Rightarrow> marshal) option \<Rightarrow> COMMAND_PARAMETERS option \<Rightarrow> marshal" where
  "marshal_in mf inp = (case (mf, inp) of
      (Some m, Some p) \<Rightarrow> m p
    | (Some _, None) \<Rightarrow> m_fail TSS_RC_IN_PARAMETER
    | (None, Some _) \<Rightarrow> m_fail TSS_RC_IN_PARAMETER
    | (None, None) \<Rightarrow> m_done)"

text \<open>The check of the parameters: \<open>*size\<close> is that of the whole buffer.\<close>

definition from_command :: "TSS_AUTH_CONTEXT \<Rightarrow> nat \<Rightarrow> ubuf" where
  "from_command c p = \<lparr>rest = map (commandBuffer c) [p..<MAX_COMMAND_SIZE], avail = int MAX_COMMAND_SIZE\<rparr>"

definition validate_in :: "(nat \<Rightarrow> TPM_HANDLE) \<Rightarrow> TSS_AUTH_CONTEXT \<Rightarrow> nat \<Rightarrow> 32 word option" where
  "validate_in handles c bufferu = (case unmarshalInFunction c of
      None \<Rightarrow> Some 0
    | Some u \<Rightarrow> (case u handles (from_command c bufferu) of
          Ok _ _ \<Rightarrow> Some 0
        | Fail rc _ \<Rightarrow> Some rc
        | Overread \<Rightarrow> None))"

text \<open>A value written at a known place, without a test of the room.\<close>

definition back_fill :: "marshal \<Rightarrow> nat \<Rightarrow> TSS_AUTH_CONTEXT \<Rightarrow> TSS_AUTH_CONTEXT" where
  "back_fill m p c = (case m \<lparr>written = 0, memory = commandBuffer c, position = Some p, room = None\<rparr> of
      Done _ s \<Rightarrow> c\<lparr>commandBuffer := memory s\<rparr>
    | BadSource \<Rightarrow> c)"

definition set_cpBuffer :: "TSS_AUTH_CONTEXT \<Rightarrow> TSS_AUTH_CONTEXT" where
  "set_cpBuffer c =
     (let notCpBufferSize = 10 + 4 * commandHandleCount c
      in c\<lparr>cpBuffer := Some (unat notCpBufferSize), cpBufferSize := ucast (commandSize c) - notCpBufferSize\<rparr>)"

definition TSS_Marshal_packet :: "(nat \<Rightarrow> TPM_HANDLE) \<Rightarrow> TSS_AUTH_CONTEXT \<Rightarrow> COMMAND_PARAMETERS option \<Rightarrow> TPM_CC \<Rightarrow>
  (32 word \<times> TSS_AUTH_CONTEXT) option" where
  "TSS_Marshal_packet handles c inp cc =
     (case marshal_header cc (at_command c 0 (Some (int MAX_COMMAND_SIZE))) of
        BadSource \<Rightarrow> None
      | Done rc s1 \<Rightarrow>
          if rc \<noteq> 0 then Some (rc, put_command s1 c)
          else (case marshal_in (marshalFunction c) inp s1 of
             BadSource \<Rightarrow> None
           | Done rc s2 \<Rightarrow>
               let c2 = put_command s2 c in
               if rc \<noteq> 0 then Some (rc, c2)
               else (case validate_in handles c2 (the (position s1) + unat (commandHandleCount c2 * 4)) of
                  None \<Rightarrow> None
                | Some rc \<Rightarrow>
                    if rc \<noteq> 0 then Some (rc, c2)
                    else Some (0, set_cpBuffer (back_fill (TSS_UINT32_Marshal (ucast (commandSize c2))) 2 c2)))))"

definition TSS_Marshal :: "(nat \<Rightarrow> TPM_HANDLE) \<Rightarrow> TSS_AUTH_CONTEXT \<Rightarrow> COMMAND_PARAMETERS option \<Rightarrow> TPM_CC \<Rightarrow>
  (32 word \<times> TSS_AUTH_CONTEXT) option" where
  "TSS_Marshal handles c inp cc =
     (case TSS_MarshalTable_Process (TSS_InitAuthContext c) cc of
        (rc, c1) \<Rightarrow>
          if rc \<noteq> 0 then Some (rc, c1)
          else (case CommandCodeToCommandIndex cc of
             None \<Rightarrow> None
           | Some index \<Rightarrow>
               let c2 = c1\<lparr>tpmCommandIndex := index\<rparr> in
               if index = UNIMPLEMENTED_COMMAND_INDEX then Some (TSS_RC_COMMAND_UNIMPLEMENTED, c2)
               else (case (getCommandHandleCount index, getresponseHandleCount index) of
                  (Some h, Some r) \<Rightarrow>
                    TSS_Marshal_packet handles (c2\<lparr>commandHandleCount := h, responseHandleCount := r\<rparr>) inp cc
                | _ \<Rightarrow> None)))"

section \<open>Reading and changing a command\<close>

definition TSS_GetCommandCode :: "TSS_AUTH_CONTEXT \<Rightarrow> TPM_CC" where
  "TSS_GetCommandCode c = commandCode c"

definition TSS_GetCpBuffer :: "TSS_AUTH_CONTEXT \<Rightarrow> 32 word \<times> nat option" where
  "TSS_GetCpBuffer c = (cpBufferSize c, cpBuffer c)"

definition TSS_GetCommandHandleCount :: "TSS_AUTH_CONTEXT \<Rightarrow> 32 word" where
  "TSS_GetCommandHandleCount c = commandHandleCount c"

definition TSS_GetAuthRole :: "TSS_AUTH_CONTEXT \<Rightarrow> 32 word \<Rightarrow> 32 word option" where
  "TSS_GetAuthRole c handleIndex = getCommandAuthRole (tpmCommandIndex c) handleIndex"

text \<open>The bytes of the command buffer from an offset on, as many as are read.\<close>

definition command_bytes :: "TSS_AUTH_CONTEXT \<Rightarrow> nat \<Rightarrow> nat \<Rightarrow> byte list" where
  "command_bytes c p n = map (commandBuffer c) [p..<p + n]"

definition TSS_GetCommandHandle :: "TSS_AUTH_CONTEXT \<Rightarrow> 32 word \<Rightarrow> (32 word + TPM_HANDLE) option" where
  "TSS_GetCommandHandle c index =
     (if index \<ge> commandHandleCount c then Some (Inl TSS_RC_BAD_HANDLE_NUMBER)
      else if 10 + 4 * unat index + 4 > MAX_COMMAND_SIZE then None
      else (case TPM_HANDLE_Unmarshal \<lparr>rest = command_bytes c (10 + 4 * unat index) 4, avail = 4\<rparr> of
          Ok h _ \<Rightarrow> Some (Inr h)
        | Fail rc _ \<Rightarrow> Some (Inl rc)
        | Overread \<Rightarrow> None))"

text \<open>\<open>ntohs\<close> of the first two bytes.\<close>

definition ntohs_at :: "byte list \<Rightarrow> nat \<Rightarrow> 32 word" where
  "ntohs_at bs p = push_bit 8 (ucast (bs ! p)) OR ucast (bs ! (p + 1))"

definition TSS_GetCommandDecryptParam :: "TSS_AUTH_CONTEXT \<Rightarrow> (32 word \<times> nat) option" where
  "TSS_GetCommandDecryptParam c = (case cpBuffer c of
      None \<Rightarrow> None
    | Some p \<Rightarrow> if p + 2 > MAX_COMMAND_SIZE then None
                else Some (ntohs_at (command_bytes c p 2) 0, p + 2))"

text \<open>\<open>encryptParamBuffer\<close> has at least \<open>encryptParamSize\<close> bytes, or is read past its end.\<close>

definition TSS_SetCommandDecryptParam :: "TSS_AUTH_CONTEXT \<Rightarrow> 32 word \<Rightarrow> byte list \<Rightarrow> (32 word \<times> TSS_AUTH_CONTEXT) option" where
  "TSS_SetCommandDecryptParam c encryptParamSize encryptParamBuffer = (case TSS_GetCommandDecryptParam c of
      None \<Rightarrow> None
    | Some (decryptParamSize, decryptParamBuffer) \<Rightarrow>
        if decryptParamSize \<noteq> encryptParamSize then Some (TSS_RC_BAD_ENCRYPT_SIZE, c)
        else if length encryptParamBuffer < unat encryptParamSize
          \<or> decryptParamBuffer + unat encryptParamSize > MAX_COMMAND_SIZE then None
        else Some (0, c\<lparr>commandBuffer :=
               put_bytes decryptParamBuffer (take (unat encryptParamSize) encryptParamBuffer) (commandBuffer c)\<rparr>))"

section \<open>Authorizations of a command\<close>

text \<open>The first loop, with null pointers for the buffer and its size: it only counts.\<close>

definition authorizations_size :: "TPMS_AUTH_COMMAND list \<Rightarrow> (32 word \<times> 16 word) option" where
  "authorizations_size auths =
     (case m_list (length auths) TSS_TPMS_AUTH_COMMAND_Marshal auths
             \<lparr>written = 0, memory = (\<lambda>_. 0), position = None, room = None\<rparr> of
        BadSource \<Rightarrow> None
      | Done rc s \<Rightarrow> Some (rc, written s))"

text \<open>The second loop, which also counts the authorizations.\<close>

fun put_authorizations :: "TPMS_AUTH_COMMAND list \<Rightarrow> mst \<Rightarrow> 16 word \<Rightarrow> (32 word \<times> mst \<times> 16 word) option" where
  "put_authorizations [] s count = Some (0, s, count)"
| "put_authorizations (a # as) s count = (case TSS_TPMS_AUTH_COMMAND_Marshal a s of
      BadSource \<Rightarrow> None
    | Done rc s' \<Rightarrow> if rc = 0 then put_authorizations as s' (count + 1) else Some (rc, s', count + 1))"

definition TSS_SetCmdAuths :: "TSS_AUTH_CONTEXT \<Rightarrow> TPMS_AUTH_COMMAND list \<Rightarrow> (32 word \<times> TSS_AUTH_CONTEXT) option" where
  "TSS_SetCmdAuths c auths =
     (case authorizations_size auths of
        None \<Rightarrow> None
      | Some (rc, authorizationSize) \<Rightarrow>
          if authorizationSize = 0 then Some (rc, c)
          else if rc \<noteq> 0 then None
          else
            let c1 = back_fill (TSS_TPMI_ST_COMMAND_TAG_Marshal TPM_ST_SESSIONS) 0 c in
            (case TSS_GetCpBuffer c1 of
               (_, None) \<Rightarrow> None
             | (cpSize, Some cp) \<Rightarrow>
                 if cp + unat cpSize + 4 + unat authorizationSize > MAX_COMMAND_SIZE
                 then Some (TSS_RC_INSUFFICIENT_BUFFER, c1)
                 else
                   let moved = put_bytes (cp + 4 + unat authorizationSize) (command_bytes c1 cp (unat cpSize)) (commandBuffer c1);
                       sized = back_fill (TSS_UINT32_Marshal (ucast authorizationSize)) cp (c1\<lparr>commandBuffer := moved\<rparr>)
                   in (case put_authorizations auths
                             \<lparr>written = 0, memory = commandBuffer sized, position = Some (cp + 4), room = None\<rparr> (authCount c1) of
                         None \<Rightarrow> None
                       | Some (rc, s, count) \<Rightarrow>
                           let c2 = sized\<lparr>commandBuffer := memory s, authCount := count\<rparr> in
                           if rc \<noteq> 0 then Some (rc, c2)
                           else
                             let c3 = c2\<lparr>cpBuffer := Some (cp + 4 + unat (written s)),
                                         commandSize := commandSize c2 + (4 + written s)\<rparr>
                             in Some (0, back_fill (TSS_UINT32_Marshal (ucast (commandSize c3))) 2 c3))))"

section \<open>Responses\<close>

text \<open>The response from an offset on, with the value of \<open>size\<close> that a subtraction of unsigned integers gives.\<close>

definition from_response :: "TSS_AUTH_CONTEXT \<Rightarrow> 32 word \<Rightarrow> ubuf" where
  "from_response c offset = \<lparr>rest = drop (unat offset) (responseBuffer c), avail = sint (responseSize c - offset)\<rparr>"

definition TSS_Unmarshal :: "TSS_AUTH_CONTEXT \<Rightarrow> bool \<Rightarrow> (32 word + RESPONSE_PARAMETERS option) option" where
  "TSS_Unmarshal c out = (case unmarshalFunction c of
      Some f \<Rightarrow>
        if out then
          (case TPM_ST_Unmarshal (from_response c 0) of
             Overread \<Rightarrow> None
           | Fail rc _ \<Rightarrow> Some (Inl rc)
           | Ok tag _ \<Rightarrow> (case f tag (from_response c 10) of
                 Overread \<Rightarrow> None
               | Fail rc _ \<Rightarrow> Some (Inl rc)
               | Ok v _ \<Rightarrow> Some (Inr (Some v))))
        else Some (Inl TSS_RC_OUT_PARAMETER)
    | None \<Rightarrow> if out then Some (Inl TSS_RC_OUT_PARAMETER) else Some (Inr None))"

text \<open>The offset of the parameter area, behind the header and the handles.\<close>

definition response_offset :: "TSS_AUTH_CONTEXT \<Rightarrow> 32 word" where
  "response_offset c = 10 + 4 * responseHandleCount c"

text \<open>\<open>n\<close> is the number of structures in the argument list.\<close>

definition TSS_GetRspAuths :: "TSS_AUTH_CONTEXT \<Rightarrow> nat \<Rightarrow> (32 word + TPMS_AUTH_RESPONSE list) option" where
  "TSS_GetRspAuths c n =
     (case TPM_ST_Unmarshal (from_response c 0) of
        Overread \<Rightarrow> None
      | Fail rc _ \<Rightarrow> Some (Inl rc)
      | Ok tag _ \<Rightarrow>
          if tag = TPM_ST_SESSIONS then
            (case UINT32_Unmarshal (from_response c (response_offset c)) of
               Overread \<Rightarrow> None
             | Fail rc _ \<Rightarrow> Some (Inl rc)
             | Ok parameterSize b \<Rightarrow>
                 (case u_list n TPMS_AUTH_RESPONSE_Unmarshal
                         \<lparr>rest = drop (unat parameterSize) (rest b), avail = s32 (avail b - uint parameterSize)\<rparr> of
                    Overread \<Rightarrow> None
                  | Fail rc _ \<Rightarrow> Some (Inl rc)
                  | Ok auths b' \<Rightarrow>
                      if avail b' \<noteq> 0 then Some (Inl TSS_RC_MALFORMED_RESPONSE)
                      else if authCount c \<noteq> of_nat n then Some (Inl TSS_RC_MALFORMED_RESPONSE)
                      else Some (Inr auths)))
          else if authCount c \<noteq> 0 then Some (Inl TSS_RC_MALFORMED_RESPONSE)
          else Some (Inr []))"

definition TSS_GetRpBuffer :: "TSS_AUTH_CONTEXT \<Rightarrow> (32 word + 32 word \<times> 32 word) option" where
  "TSS_GetRpBuffer c =
     (case TPM_ST_Unmarshal (from_response c 0) of
        Overread \<Rightarrow> None
      | Fail rc _ \<Rightarrow> Some (Inl rc)
      | Ok tag _ \<Rightarrow>
          let offsetSize = response_offset c in
          if tag = TPM_ST_NO_SESSIONS then Some (Inr (responseSize c - offsetSize, offsetSize))
          else (case UINT32_Unmarshal (from_response c offsetSize) of
                  Overread \<Rightarrow> None
                | Fail rc _ \<Rightarrow> Some (Inl rc)
                | Ok parameterSize _ \<Rightarrow> Some (Inr (parameterSize, offsetSize + 4))))"

definition TSS_GetResponseEncryptParam :: "TSS_AUTH_CONTEXT \<Rightarrow> (32 word + 32 word \<times> nat) option" where
  "TSS_GetResponseEncryptParam c = (case TSS_GetRpBuffer c of
      None \<Rightarrow> None
    | Some (Inl rc) \<Rightarrow> Some (Inl rc)
    | Some (Inr (_, rp)) \<Rightarrow>
        if unat rp + 2 > MAX_RESPONSE_SIZE then None
        else Some (Inr (ntohs_at (responseBuffer c) (unat rp), unat rp + 2)))"

definition TSS_SetResponseDecryptParam :: "TSS_AUTH_CONTEXT \<Rightarrow> 32 word \<Rightarrow> byte list \<Rightarrow> (32 word \<times> TSS_AUTH_CONTEXT) option" where
  "TSS_SetResponseDecryptParam c decryptParamSize decryptParamBuffer = (case TSS_GetResponseEncryptParam c of
      None \<Rightarrow> None
    | Some (Inl rc) \<Rightarrow> Some (rc, c)
    | Some (Inr (encryptParamSize, encryptParamBuffer)) \<Rightarrow>
        if decryptParamSize \<noteq> encryptParamSize then Some (TSS_RC_BAD_ENCRYPT_SIZE, c)
        else if length decryptParamBuffer < unat decryptParamSize
          \<or> encryptParamBuffer + unat decryptParamSize > MAX_RESPONSE_SIZE then None
        else Some (0, c\<lparr>responseBuffer := take encryptParamBuffer (responseBuffer c)
               @ take (unat decryptParamSize) decryptParamBuffer
               @ drop (encryptParamBuffer + unat decryptParamSize) (responseBuffer c)\<rparr>))"

text \<open>
  \<open>TSS_Transmit\<close> is a parameter: it gets the command and returns a response code, the response buffer
  and the size of the response.
\<close>

definition TSS_AuthExecute :: "(byte list \<Rightarrow> byte list \<Rightarrow> 32 word \<times> byte list \<times> 32 word) \<Rightarrow> TSS_AUTH_CONTEXT \<Rightarrow>
  32 word \<times> TSS_AUTH_CONTEXT" where
  "TSS_AuthExecute transmit c =
     (case transmit (command_bytes c 0 (unat (commandSize c))) (responseBuffer c) of
        (rc, buf, n) \<Rightarrow> (rc, c\<lparr>responseBuffer := buf, responseSize := n\<rparr>))"

end
