(* ===== verification/Tss_Store.thy ===== *)
theory Tss_Store
  imports Tss_Crypto Tss_Auth
begin

text \<open>
  What the library keeps between commands (\<^verbatim>\<open>libtss2/tss.c\<close>): files in its data directory with the names and public areas of
  objects and NV indexes, by handle or by a string. The state is the \<open>world\<close> with the context of the library. A file name is
  printed into an array of 128 bytes, so a longer one is a write behind its end (\<open>None\<close>).
\<close>

abbreviation TSS_RC_NAME_NOT_IMPLEMENTED :: "32 word" where "TSS_RC_NAME_NOT_IMPLEMENTED \<equiv> 0xB0040"
abbreviation TSS_RC_MALFORMED_NV_PUBLIC :: "32 word" where "TSS_RC_MALFORMED_NV_PUBLIC \<equiv> 0xB0041"
abbreviation TSS_RC_NAME_FILENAME :: "32 word" where "TSS_RC_NAME_FILENAME \<equiv> 0xB0042"

abbreviation TPM_HT_PCR :: "8 word" where "TPM_HT_PCR \<equiv> 0"
abbreviation TPM_HT_NV_INDEX :: "8 word" where "TPM_HT_NV_INDEX \<equiv> 1"
abbreviation TPM_HT_HMAC_SESSION :: "8 word" where "TPM_HT_HMAC_SESSION \<equiv> 2"
abbreviation TPM_HT_POLICY_SESSION :: "8 word" where "TPM_HT_POLICY_SESSION \<equiv> 3"
abbreviation TPM_HT_PERMANENT :: "8 word" where "TPM_HT_PERMANENT \<equiv> 0x40"
abbreviation TPM_HT_TRANSIENT :: "8 word" where "TPM_HT_TRANSIENT \<equiv> 0x80"
abbreviation TPM_HT_PERSISTENT :: "8 word" where "TPM_HT_PERSISTENT \<equiv> 0x81"

record TSS_CONTEXT = world +
  tssAuthContext :: TSS_AUTH_CONTEXT
  tssDataDirectory :: string
  tssEncryptSessions :: bool

type_synonym 'a tss = "(TSS_CONTEXT, 'a) effect"

section \<open>File names\<close>

definition hex_digit :: "nat \<Rightarrow> char" where
  "hex_digit n = ''0123456789abcdef'' ! n"

definition hex8 :: "32 word \<Rightarrow> string" where
  "hex8 w = map (\<lambda>i. hex_digit (unat (drop_bit (4 * i) w AND 0xF))) [7, 6, 5, 4, 3, 2, 1, 0]"

definition hex2 :: "byte \<Rightarrow> string" where
  "hex2 b = [hex_digit (unat (drop_bit 4 b)), hex_digit (unat (b AND 0xF))]"

definition sprintf_filename :: "string \<Rightarrow> string \<Rightarrow> string \<Rightarrow> string result" where
  "sprintf_filename dir prefix name =
     (let s = dir @ ''/'' @ prefix @ name @ ''.bin'' in r_need (length s < 128) (r_return s))"

definition handle_file :: "string \<Rightarrow> TPM_HANDLE \<Rightarrow> string tss" where
  "handle_file prefix handle s = e_lift (sprintf_filename (tssDataDirectory s) prefix (hex8 handle)) s"

text \<open>By handle, or by string where the handle is 0; a call with both or none is an error.\<close>

definition object_file :: "string \<Rightarrow> TPM_HANDLE \<Rightarrow> string option \<Rightarrow> string tss" where
  "object_file prefix handle string s = (case string of
       None \<Rightarrow> if handle \<noteq> 0 then handle_file prefix handle s else e_fail TSS_RC_NAME_FILENAME s
     | Some str \<Rightarrow> if handle = 0 then e_lift (sprintf_filename (tssDataDirectory s) prefix str) s else e_fail TSS_RC_NAME_FILENAME s)"

section \<open>Names and public areas\<close>

definition TSS_Name_Store :: "TPM2B \<Rightarrow> TPM_HANDLE \<Rightarrow> string option \<Rightarrow> unit tss" where
  "TSS_Name_Store name handle string =
     e_bind (object_file ''h'' handle string) (\<lambda>fn.
       if TPM2B_ok name then TSS_File_WriteBinaryFile (TPM2B_bytes name) fn else (\<lambda>_. None))"

definition TSS_Name_Load :: "TPM_HANDLE \<Rightarrow> string option \<Rightarrow> TPM2B tss" where
  "TSS_Name_Load handle string =
     e_bind (object_file ''h'' handle string) (\<lambda>fn. TSS_File_Read2B (unat (sizeof_TPMU_NAME :: 16 word)) sizeof_TPMU_NAME fn)"

definition TSS_Name_Copy :: "TPM_HANDLE \<Rightarrow> string option \<Rightarrow> TPM_HANDLE \<Rightarrow> string option \<Rightarrow> unit tss" where
  "TSS_Name_Copy outHandle outString inHandle inString =
     e_bind (TSS_Name_Load inHandle inString) (\<lambda>name. TSS_Name_Store name outHandle outString)"

definition TSS_Public_Store :: "TPM2B_PUBLIC \<Rightarrow> TPM_HANDLE \<Rightarrow> string option \<Rightarrow> unit tss" where
  "TSS_Public_Store public handle string =
     e_bind (object_file ''hp'' handle string) (\<lambda>fn. TSS_File_WriteStructure (TSS_TPM2B_PUBLIC_Marshal public) fn)"

text \<open>The type of the unmarshal function has no third parameter, so \<open>allowNull\<close> of the function that is called is not given; the model
  takes it as a parameter.\<close>

definition TSS_Public_Load :: "bool \<Rightarrow> TPM_HANDLE \<Rightarrow> string option \<Rightarrow> TPM2B_PUBLIC tss" where
  "TSS_Public_Load allowNull handle string =
     e_bind (object_file ''hp'' handle string) (\<lambda>fn. TSS_File_ReadStructure (TPM2B_PUBLIC_Unmarshal allowNull) fn)"

definition TSS_Public_Copy :: "bool \<Rightarrow> TPM_HANDLE \<Rightarrow> string option \<Rightarrow> TPM_HANDLE \<Rightarrow> string option \<Rightarrow> unit tss" where
  "TSS_Public_Copy allowNull outHandle outString inHandle inString =
     e_bind (TSS_Public_Load allowNull inHandle inString) (\<lambda>public. TSS_Public_Store public outHandle outString)"

definition TSS_DeleteHandle :: "TPM_HANDLE \<Rightarrow> unit tss" where
  "TSS_DeleteHandle handle =
     e_bind (e_bind (handle_file ''h'' handle) TSS_File_DeleteFile) (\<lambda>_.
     e_bind (handle_file ''hp'' handle) (\<lambda>fn. e_ignore (TSS_File_DeleteFile fn)))"

section \<open>The Name of an entity\<close>

text \<open>
  \<open>name\<close> is what the target holds before (\<open>None\<close> when it was never written). For a handle of another type the switch breaks
  before it sets the error, and the target stays as it is.
\<close>

definition handle_type :: "TPM_HANDLE \<Rightarrow> 8 word" where
  "handle_type handle = ucast (drop_bit 24 (handle AND 0xFF000000))"

definition TSS_Name_GetName :: "TPM2B option \<Rightarrow> TPM_HANDLE \<Rightarrow> TPM2B option tss" where
  "TSS_Name_GetName name handle =
     (let handleType = handle_type handle in
      if handleType \<in> {TPM_HT_PCR, TPM_HT_HMAC_SESSION, TPM_HT_POLICY_SESSION, TPM_HT_PERMANENT}
      then e_bind (e_lift (TSS_TPM2B_CreateUint32 handle sizeof_TPMU_NAME)) (\<lambda>n. e_return (Some n))
      else if handleType \<in> {TPM_HT_NV_INDEX, TPM_HT_TRANSIENT, TPM_HT_PERSISTENT}
      then e_bind (TSS_Name_Load handle None) (\<lambda>n. e_return (Some n))
      else e_return name)"

text \<open>The names of the handles of the command, into an array of empty names. The loop goes on after an error, and does nothing.\<close>

fun get_names :: "nat \<Rightarrow> 32 word \<Rightarrow> TPM2B option list \<Rightarrow> TPM2B option list tss" where
  "get_names 0 i names = e_return names"
| "get_names (Suc n) i names =
     e_bind (\<lambda>s. e_lift (TSS_GetCommandHandle (tssAuthContext s) i) s) (\<lambda>commandHandle.
     if unat i \<ge> length names then (\<lambda>_. None)
     else e_bind (TSS_Name_GetName (names ! unat i) commandHandle) (\<lambda>name.
       get_names n (i + 1) (names[unat i := name])))"

definition TSS_Name_GetAllNames :: "TPM2B option list \<Rightarrow> TPM2B option list tss" where
  "TSS_Name_GetAllNames names s = get_names (unat (TSS_GetCommandHandleCount (tssAuthContext s))) 0 names s"

section \<open>NV indexes\<close>

definition TSS_NVPublic_Store :: "TPMS_NV_PUBLIC \<Rightarrow> TPM_HANDLE \<Rightarrow> unit tss" where
  "TSS_NVPublic_Store nvPublic nvIndex =
     e_bind (handle_file ''nvp'' nvIndex) (\<lambda>fn. TSS_File_WriteStructure (TSS_TPMS_NV_PUBLIC_Marshal nvPublic) fn)"

definition TSS_NVPublic_Load :: "TPM_HANDLE \<Rightarrow> TPMS_NV_PUBLIC tss" where
  "TSS_NVPublic_Load nvIndex =
     e_bind (handle_file ''nvp'' nvIndex) (\<lambda>fn. TSS_File_ReadStructure TPMS_NV_PUBLIC_Unmarshal fn)"

definition TSS_NVPublic_Delete :: "TPM_HANDLE \<Rightarrow> unit tss" where
  "TSS_NVPublic_Delete nvIndex = e_bind (handle_file ''nvp'' nvIndex) TSS_File_DeleteFile"

text \<open>The Name is the algorithm and the digest of the public area.\<close>

definition TSS_NVPublic_GetName :: "'z openssl_scheme \<Rightarrow> TPMS_NV_PUBLIC \<Rightarrow> TPM2B result" where
  "TSS_NVPublic_GetName L nvPublic =
     (case TSS_TPMS_NV_PUBLIC_Marshal nvPublic
             \<lparr>written = 0, memory = (\<lambda>_. 0), position = Some 0, room = Some (int MAX_RESPONSE_SIZE)\<rparr> of
        BadSource \<Rightarrow> None
      | Done rc s \<Rightarrow>
          if rc \<noteq> 0 then r_fail rc
          else
            let buffer = map (memory s) [0..<unat (written s)]; nameAlg = TPMS_NV_PUBLIC_nameAlg nvPublic in
            r_bind (TSS_Hash_Generate L nameAlg [whole buffer, (0, None)]) (\<lambda>digest.
              let sizeInBytes = unat (TSS_GetDigestSize nameAlg) in
              r_need (sizeInBytes \<le> length digest)
              (r_return \<lparr>TPM2B_size = of_nat (sizeInBytes + 2),
                 TPM2B_buffer = [ucast (drop_bit 8 nameAlg), ucast nameAlg] @ take sizeInBytes digest\<rparr>)))"

end
