(* ===== verification/Tss_Sym.thy ===== *)
theory Tss_Sym
  imports Tss_Types
begin

text \<open>
  The block cipher modes of \<^verbatim>\<open>libtss2/CpriSym.c\<close>. The cipher itself is OpenSSL's: \<open>AES_encrypt\<close> and \<open>AES_decrypt\<close> are parameters
  of the functions here, which take the key that a schedule was made of and one block. A function returns its result with the data that it
  writes and the new initialization vector; \<open>None\<close> says that it uses a key schedule that was never set up, reads
  behind one of its buffers, or uses a null pointer. A failed assertion only prints a message here (\<^verbatim>\<open>fail.c\<close>), and the
  function goes on.
\<close>

type_synonym CRYPT_RESULT = "16 word"

abbreviation CRYPT_SUCCESS :: CRYPT_RESULT where "CRYPT_SUCCESS \<equiv> 0"
abbreviation CRYPT_PARAMETER :: CRYPT_RESULT where "CRYPT_PARAMETER \<equiv> - 3"
abbreviation INT32_MAX :: "32 word" where "INT32_MAX \<equiv> 0x7FFFFFFF"

type_synonym cipher = "byte list \<Rightarrow> byte list \<Rightarrow> byte list"

definition cpri__GetSymmetricBlockSize :: "16 word \<Rightarrow> 16 word \<Rightarrow> 16 word" where
  "cpri__GetSymmetricBlockSize symmetricAlg keySizeInBits =
     (if symmetricAlg = TPM_ALG_AES then if keySizeInBits \<noteq> 0 then 16 else 0 else 0)"

text \<open>OpenSSL sets up a schedule for keys of 128, 192 and 256 bits, and reads as many bits of the key.\<close>

definition key_schedule :: "byte list \<Rightarrow> 32 word \<Rightarrow> byte list option" where
  "key_schedule key bits =
     (if bits \<in> {128, 192, 256} \<and> unat bits div 8 \<le> length key then Some (take (unat bits div 8) key) else None)"

definition xor_bytes :: "byte list \<Rightarrow> byte list \<Rightarrow> byte list" where
  "xor_bytes xs ys = map2 (XOR) xs ys"

lemma length_xor_bytes [simp]: "length (xor_bytes xs ys) = min (length xs) (length ys)"
  by (simp add: xor_bytes_def)

lemma xor_bytes_cancel [simp]: "xor_bytes xs (xor_bytes xs ys) = take (length xs) ys"
  by (rule nth_equalityI) (simp_all add: xor_bytes_def xor.assoc [symmetric])

lemma xor_bytes_commute: "xor_bytes xs ys = xor_bytes ys xs"
  by (rule nth_equalityI) (simp_all add: xor_bytes_def xor.commute)

section \<open>The loops\<close>

text \<open>Cipher block chaining. The data is a number of blocks.\<close>

function cbc_encrypt :: "(byte list \<Rightarrow> byte list) \<Rightarrow> byte list \<Rightarrow> byte list \<Rightarrow> byte list \<times> byte list" where
  "cbc_encrypt E iv dIn =
     (if dIn = [] then ([], iv)
      else let iv' = E (xor_bytes iv (take 16 dIn)); (dOut, iv'') = cbc_encrypt E iv' (drop 16 dIn) in (iv' @ dOut, iv''))"
  by auto
termination by (relation "measure (\<lambda>(_, _, dIn). length dIn)") auto

function cbc_decrypt :: "(byte list \<Rightarrow> byte list) \<Rightarrow> byte list \<Rightarrow> byte list \<Rightarrow> byte list \<times> byte list" where
  "cbc_decrypt D iv dIn =
     (if dIn = [] then ([], iv)
      else let tmp = take 16 dIn; (dOut, iv') = cbc_decrypt D tmp (drop 16 dIn) in (xor_bytes (D tmp) iv @ dOut, iv'))"
  by auto
termination by (relation "measure (\<lambda>(_, _, dIn). length dIn)") auto

text \<open>Cipher feedback. A last block that is not full leaves its cipher text in the vector, filled up with zeros.\<close>

function cfb_encrypt :: "(byte list \<Rightarrow> byte list) \<Rightarrow> byte list \<Rightarrow> byte list \<Rightarrow> byte list \<times> byte list" where
  "cfb_encrypt E iv dIn =
     (if dIn = [] then ([], iv)
      else let c = xor_bytes (E iv) (take 16 dIn) in
        if length dIn < 16 then (c, c @ replicate (16 - length dIn) 0)
        else let (dOut, iv') = cfb_encrypt E c (drop 16 dIn) in (c @ dOut, iv'))"
  by auto
termination by (relation "measure (\<lambda>(_, _, dIn). length dIn)") auto

function cfb_decrypt :: "(byte list \<Rightarrow> byte list) \<Rightarrow> byte list \<Rightarrow> byte list \<Rightarrow> byte list \<times> byte list" where
  "cfb_decrypt E iv dIn =
     (if dIn = [] then ([], iv)
      else let c = take 16 dIn; p = xor_bytes (E iv) c in
        if length dIn < 16 then (p, c @ replicate (16 - length dIn) 0)
        else let (dOut, iv') = cfb_decrypt E c (drop 16 dIn) in (p @ dOut, iv'))"
  by auto
termination by (relation "measure (\<lambda>(_, _, dIn). length dIn)") auto

text \<open>Counter mode: the carry runs from the last byte of the counter to the first.\<close>

fun increment_le :: "byte list \<Rightarrow> byte list" where
  "increment_le [] = []"
| "increment_le (b # bs) = (if b + 1 \<noteq> 0 then (b + 1) # bs else 0 # increment_le bs)"

definition increment :: "byte list \<Rightarrow> byte list" where
  "increment iv = rev (increment_le (rev iv))"

function ctr_encrypt :: "(byte list \<Rightarrow> byte list) \<Rightarrow> byte list \<Rightarrow> byte list \<Rightarrow> byte list \<times> byte list" where
  "ctr_encrypt E iv dIn =
     (if dIn = [] then ([], iv)
      else let (dOut, iv') = ctr_encrypt E (increment iv) (drop 16 dIn) in (xor_bytes (take 16 dIn) (E iv) @ dOut, iv'))"
  by auto
termination by (relation "measure (\<lambda>(_, _, dIn). length dIn)") auto

text \<open>Output feedback.\<close>

function ofb_encrypt :: "(byte list \<Rightarrow> byte list) \<Rightarrow> byte list \<Rightarrow> byte list \<Rightarrow> byte list \<times> byte list" where
  "ofb_encrypt E iv dIn =
     (if dIn = [] then ([], iv)
      else let t = E iv; (dOut, iv') = ofb_encrypt E t (drop 16 dIn) in (xor_bytes t (take 16 dIn) @ dOut, iv'))"
  by auto
termination by (relation "measure (\<lambda>(_, _, dIn). length dIn)") auto

function ecb :: "(byte list \<Rightarrow> byte list) \<Rightarrow> byte list \<Rightarrow> byte list" where
  "ecb E dIn = (if dIn = [] then [] else E (take 16 dIn) @ ecb E (drop 16 dIn))"
  by auto
termination by (relation "measure (\<lambda>(_, dIn). length dIn)") auto

declare cbc_encrypt.simps [simp del] cbc_decrypt.simps [simp del] cfb_encrypt.simps [simp del] cfb_decrypt.simps [simp del]
  ctr_encrypt.simps [simp del] ofb_encrypt.simps [simp del] ecb.simps [simp del]

section \<open>The functions\<close>

text \<open>
  What they share: no data is no work; more than \<open>INT32_MAX\<close> bytes give a negative size and no iteration, after which the cipher
  feedback modes write to a null pointer; the modes of whole blocks refuse other sizes.
\<close>

definition with_schedule :: "bool \<Rightarrow> byte list \<Rightarrow> 32 word \<Rightarrow> byte list \<Rightarrow> 32 word \<Rightarrow> byte list \<Rightarrow>
  (byte list \<Rightarrow> byte list \<Rightarrow> byte list \<times> byte list) \<Rightarrow> (CRYPT_RESULT \<times> byte list \<times> byte list) option" where
  "with_schedule pads key bits iv dInSize dIn f =
     (if dInSize = 0 then Some (CRYPT_SUCCESS, [], iv)
      else if dInSize > INT32_MAX then if pads then None else Some (CRYPT_SUCCESS, [], iv)
      else if length dIn < unat dInSize \<or> length iv < 16 then None
      else (case key_schedule key bits of
          None \<Rightarrow> None
        | Some k \<Rightarrow> (case f k (take (unat dInSize) dIn) of
              (dOut, iv') \<Rightarrow> Some (CRYPT_SUCCESS, dOut, iv' @ drop 16 iv))))"

definition whole_blocks :: "32 word \<Rightarrow> byte list \<Rightarrow> (CRYPT_RESULT \<times> byte list \<times> byte list) option \<Rightarrow>
  (CRYPT_RESULT \<times> byte list \<times> byte list) option" where
  "whole_blocks dInSize iv r = (if unat dInSize mod 16 \<noteq> 0 then Some (CRYPT_PARAMETER, [], iv) else r)"

definition cpri__AESEncryptCBC :: "cipher \<Rightarrow> 32 word \<Rightarrow> byte list \<Rightarrow> byte list \<Rightarrow> 32 word \<Rightarrow> byte list \<Rightarrow>
  (CRYPT_RESULT \<times> byte list \<times> byte list) option" where
  "cpri__AESEncryptCBC AES_encrypt bits key iv dInSize dIn = whole_blocks dInSize iv
     (with_schedule False key bits iv dInSize dIn (\<lambda>k. cbc_encrypt (AES_encrypt k) (take 16 iv)))"

definition cpri__AESDecryptCBC :: "cipher \<Rightarrow> 32 word \<Rightarrow> byte list \<Rightarrow> byte list \<Rightarrow> 32 word \<Rightarrow> byte list \<Rightarrow>
  (CRYPT_RESULT \<times> byte list \<times> byte list) option" where
  "cpri__AESDecryptCBC AES_decrypt bits key iv dInSize dIn = whole_blocks dInSize iv
     (with_schedule False key bits iv dInSize dIn (\<lambda>k. cbc_decrypt (AES_decrypt k) (take 16 iv)))"

definition cpri__AESEncryptCFB :: "cipher \<Rightarrow> 32 word \<Rightarrow> byte list \<Rightarrow> byte list \<Rightarrow> 32 word \<Rightarrow> byte list \<Rightarrow>
  (CRYPT_RESULT \<times> byte list \<times> byte list) option" where
  "cpri__AESEncryptCFB AES_encrypt bits key iv dInSize dIn =
     with_schedule True key bits iv dInSize dIn (\<lambda>k. cfb_encrypt (AES_encrypt k) (take 16 iv))"

definition cpri__AESDecryptCFB :: "cipher \<Rightarrow> 32 word \<Rightarrow> byte list \<Rightarrow> byte list \<Rightarrow> 32 word \<Rightarrow> byte list \<Rightarrow>
  (CRYPT_RESULT \<times> byte list \<times> byte list) option" where
  "cpri__AESDecryptCFB AES_encrypt bits key iv dInSize dIn =
     with_schedule True key bits iv dInSize dIn (\<lambda>k. cfb_decrypt (AES_encrypt k) (take 16 iv))"

definition cpri__AESEncryptCTR :: "cipher \<Rightarrow> 32 word \<Rightarrow> byte list \<Rightarrow> byte list \<Rightarrow> 32 word \<Rightarrow> byte list \<Rightarrow>
  (CRYPT_RESULT \<times> byte list \<times> byte list) option" where
  "cpri__AESEncryptCTR AES_encrypt bits key iv dInSize dIn =
     with_schedule False key bits iv dInSize dIn (\<lambda>k. ctr_encrypt (AES_encrypt k) (take 16 iv))"

definition cpri__AESEncryptOFB :: "cipher \<Rightarrow> 32 word \<Rightarrow> byte list \<Rightarrow> byte list \<Rightarrow> 32 word \<Rightarrow> byte list \<Rightarrow>
  (CRYPT_RESULT \<times> byte list \<times> byte list) option" where
  "cpri__AESEncryptOFB AES_encrypt bits key iv dInSize dIn =
     with_schedule False key bits iv dInSize dIn (\<lambda>k. ofb_encrypt (AES_encrypt k) (take 16 iv))"

text \<open>There is no vector.\<close>

definition cpri__AESEncryptECB :: "cipher \<Rightarrow> 32 word \<Rightarrow> byte list \<Rightarrow> 32 word \<Rightarrow> byte list \<Rightarrow> (CRYPT_RESULT \<times> byte list) option" where
  "cpri__AESEncryptECB AES_encrypt bits key dInSize dIn = map_option (\<lambda>(rc, dOut, _). (rc, dOut)) (whole_blocks dInSize []
     (with_schedule False key bits (replicate 16 0) dInSize dIn (\<lambda>k d. (ecb (AES_encrypt k) d, []))))"

definition cpri__AESDecryptECB :: "cipher \<Rightarrow> 32 word \<Rightarrow> byte list \<Rightarrow> 32 word \<Rightarrow> byte list \<Rightarrow> (CRYPT_RESULT \<times> byte list) option" where
  "cpri__AESDecryptECB AES_decrypt bits key dInSize dIn = map_option (\<lambda>(rc, dOut, _). (rc, dOut)) (whole_blocks dInSize []
     (with_schedule False key bits (replicate 16 0) dInSize dIn (\<lambda>k d. (ecb (AES_decrypt k) d, []))))"

section \<open>Encryption and decryption\<close>

definition block_cipher :: "cipher \<Rightarrow> cipher \<Rightarrow> bool" where
  "block_cipher E D \<longleftrightarrow> (\<forall>k b. length b = 16 \<longrightarrow> length (E k b) = 16 \<and> D k (E k b) = b)"

text \<open>Every mode goes through the data by blocks; these are its steps, and the induction.\<close>

lemma block_steps [simp]:
  assumes "length x = 16"
  shows "cbc_encrypt E iv (x @ d) = (let c = E (xor_bytes iv x); (r, v) = cbc_encrypt E c d in (c @ r, v))"
    and "cbc_decrypt D iv (x @ d) = (let (r, v) = cbc_decrypt D x d in (xor_bytes (D x) iv @ r, v))"
    and "cfb_encrypt E iv (x @ d) = (let c = xor_bytes (E iv) x; (r, v) = cfb_encrypt E c d in (c @ r, v))"
    and "cfb_decrypt E iv (x @ d) = (let (r, v) = cfb_decrypt E x d in (xor_bytes (E iv) x @ r, v))"
    and "ctr_encrypt E iv (x @ d) = (let (r, v) = ctr_encrypt E (increment iv) d in (xor_bytes x (E iv) @ r, v))"
    and "ofb_encrypt E iv (x @ d) = (let (r, v) = ofb_encrypt E (E iv) d in (xor_bytes (E iv) x @ r, v))"
    and "ecb E (x @ d) = E x @ ecb E d"
  using assms
  by (auto simp: cbc_encrypt.simps [of _ _ "x @ d"] cbc_decrypt.simps [of _ _ "x @ d"] cfb_encrypt.simps [of _ _ "x @ d"]
    cfb_decrypt.simps [of _ _ "x @ d"] ctr_encrypt.simps [of _ _ "x @ d"] ofb_encrypt.simps [of _ _ "x @ d"] ecb.simps [of _ "x @ d"]
    Let_def split: prod.split)

lemma last_steps [simp]:
  "cbc_encrypt E iv [] = ([], iv)" "cbc_decrypt D iv [] = ([], iv)" "ecb E [] = []"
  "length d < 16 \<Longrightarrow> cfb_encrypt E iv d = (if d = [] then ([], iv) else
     (xor_bytes (E iv) d, xor_bytes (E iv) d @ replicate (16 - length d) 0))"
  "length d < 16 \<Longrightarrow> cfb_decrypt E iv d = (if d = [] then ([], iv) else (xor_bytes (E iv) d, d @ replicate (16 - length d) 0))"
  "length d < 16 \<Longrightarrow> ctr_encrypt E iv d = (if d = [] then ([], iv) else (xor_bytes d (E iv), increment iv))"
  "length d < 16 \<Longrightarrow> ofb_encrypt E iv d = (if d = [] then ([], iv) else (xor_bytes (E iv) d, E iv))"
  by (simp_all add: cbc_encrypt.simps [of _ _ "[]"] cbc_decrypt.simps [of _ _ "[]"] ecb.simps [of _ "[]"] cfb_encrypt.simps [of _ _ d]
    cfb_decrypt.simps [of _ _ d] ctr_encrypt.simps [of _ _ d] ctr_encrypt.simps [of _ _ "[]"] ofb_encrypt.simps [of _ _ d]
    ofb_encrypt.simps [of _ _ "[]"] Let_def)

lemma block_induct [case_names last block]:
  assumes "\<And>d. length d < 16 \<Longrightarrow> P d" "\<And>x d. length x = (16 :: nat) \<Longrightarrow> P d \<Longrightarrow> P (x @ d)"
  shows "P d"
proof (induction d rule: length_induct)
  case (1 d)
  show ?case
  proof (cases "length d < 16")
    case False
    then have "P (take 16 d @ drop 16 d)" using 1 by (intro assms(2)) auto
    then show ?thesis by simp
  qed (rule assms(1))
qed

lemma length_increment [simp]: "length (increment iv) = length iv"
proof -
  have "length (increment_le bs) = length bs" for bs by (induction bs) simp_all
  then show ?thesis by (simp add: increment_def)
qed

lemma xor_bytes_cancel' [simp]: "xor_bytes (xor_bytes ys xs) xs = take (length xs) ys"
  by (rule nth_equalityI) (simp_all add: xor_bytes_def xor.assoc)

lemma xor_bytes_cancel'' [simp]: "xor_bytes (xor_bytes xs ys) xs = take (length xs) ys"
  by (subst xor_bytes_commute [of xs ys]) simp

lemma xor_bytes_Nil_iff [simp]: "xor_bytes xs ys = [] \<longleftrightarrow> xs = [] \<or> ys = []"
  by (simp add: xor_bytes_def)

lemma cfb_round:
  assumes E: "\<And>b. length b = 16 \<Longrightarrow> length (E b) = 16"
  shows "length iv = 16 \<Longrightarrow> cfb_encrypt E iv d = (c, iv') \<Longrightarrow> length c = length d \<and> length iv' = 16 \<and> cfb_decrypt E iv c = (d, iv')"
proof (induction d arbitrary: iv c iv' rule: block_induct)
  case (last d)
  then have "length (E iv) = 16" using E by simp
  then have "E iv \<noteq> []" by auto
  with last \<open>length (E iv) = 16\<close> show ?case by (auto simp: E split: if_splits)
next
  case (block x d)
  have e: "length (E iv) = 16" "length (E (xor_bytes iv x)) = 16" using block.prems block.hyps by (simp_all add: E)
  obtain r v where r: "cfb_encrypt E (xor_bytes (E iv) x) d = (r, v)" by fastforce
  have c: "c = xor_bytes (E iv) x @ r" "iv' = v" using r block.prems block.hyps by (simp_all add: Let_def)
  have "length r = length d \<and> length v = 16 \<and> cfb_decrypt E (xor_bytes (E iv) x) r = (d, v)"
    using block.prems block.hyps e by (intro block.IH r) (auto simp: mod_simps)
  with c e block.hyps block.prems show ?case by (simp add: Let_def E)
qed

lemma cbc_round:
  assumes E: "\<And>b. length b = 16 \<Longrightarrow> length (E b) = 16" "\<And>b. length b = 16 \<Longrightarrow> D (E b) = b"
  shows "length iv = 16 \<Longrightarrow> length d mod 16 = 0 \<Longrightarrow> cbc_encrypt E iv d = (c, iv') \<Longrightarrow> length c = length d \<and> length iv' = 16 \<and> cbc_decrypt D iv c = (d, iv')"
proof (induction d arbitrary: iv c iv' rule: block_induct)
  case (last d)
  then have "d = []" by simp
  with last show ?case by simp
next
  case (block x d)
  have e: "length (E iv) = 16" "length (E (xor_bytes iv x)) = 16" using block.prems block.hyps by (simp_all add: E)
  obtain r v where r: "cbc_encrypt E (E (xor_bytes iv x)) d = (r, v)" by fastforce
  have c: "c = E (xor_bytes iv x) @ r" "iv' = v" using r block.prems block.hyps by (simp_all add: Let_def)
  have "length r = length d \<and> length v = 16 \<and> cbc_decrypt D (E (xor_bytes iv x)) r = (d, v)"
    using block.prems block.hyps e by (intro block.IH r) (auto simp: mod_simps)
  with c e block.hyps block.prems show ?case by (simp add: Let_def E)
qed

lemma ctr_round:
  assumes E: "\<And>b. length b = 16 \<Longrightarrow> length (E b) = 16"
  shows "length iv = 16 \<Longrightarrow> ctr_encrypt E iv d = (c, iv') \<Longrightarrow> length c = length d \<and> length iv' = 16 \<and> ctr_encrypt E iv c = (d, iv')"
proof (induction d arbitrary: iv c iv' rule: block_induct)
  case (last d)
  then have "length (E iv) = 16" using E by simp
  then have "E iv \<noteq> []" by auto
  with last \<open>length (E iv) = 16\<close> show ?case by (auto simp: E split: if_splits)
next
  case (block x d)
  have e: "length (E iv) = 16" "length (E (xor_bytes iv x)) = 16" using block.prems block.hyps by (simp_all add: E)
  obtain r v where r: "ctr_encrypt E (increment iv) d = (r, v)" by fastforce
  have c: "c = xor_bytes x (E iv) @ r" "iv' = v" using r block.prems block.hyps by (simp_all add: Let_def)
  have "length r = length d \<and> length v = 16 \<and> ctr_encrypt E (increment iv) r = (d, v)"
    using block.prems block.hyps e by (intro block.IH r) (auto simp: mod_simps)
  with c e block.hyps block.prems show ?case by (simp add: Let_def E)
qed

lemma ofb_round:
  assumes E: "\<And>b. length b = 16 \<Longrightarrow> length (E b) = 16"
  shows "length iv = 16 \<Longrightarrow> ofb_encrypt E iv d = (c, iv') \<Longrightarrow> length c = length d \<and> length iv' = 16 \<and> ofb_encrypt E iv c = (d, iv')"
proof (induction d arbitrary: iv c iv' rule: block_induct)
  case (last d)
  then have "length (E iv) = 16" using E by simp
  then have "E iv \<noteq> []" by auto
  with last \<open>length (E iv) = 16\<close> show ?case by (auto simp: E split: if_splits)
next
  case (block x d)
  have e: "length (E iv) = 16" "length (E (xor_bytes iv x)) = 16" using block.prems block.hyps by (simp_all add: E)
  obtain r v where r: "ofb_encrypt E (E iv) d = (r, v)" by fastforce
  have c: "c = xor_bytes (E iv) x @ r" "iv' = v" using r block.prems block.hyps by (simp_all add: Let_def)
  have "length r = length d \<and> length v = 16 \<and> ofb_encrypt E (E iv) r = (d, v)"
    using block.prems block.hyps e by (intro block.IH r) (auto simp: mod_simps)
  with c e block.hyps block.prems show ?case by (simp add: Let_def E)
qed

lemma ecb_round:
  assumes "\<And>b. length b = 16 \<Longrightarrow> length (E b) = 16 \<and> D (E b) = b" "length d mod 16 = 0"
  shows "length (ecb E d) = length d \<and> ecb D (ecb E d) = d"
  using assms(2) by (induction d rule: block_induct) (auto simp: assms(1))

lemma block_cipherD:
  assumes "block_cipher E D" "length b = 16"
  shows "length (E k b) = 16" "D k (E k b) = b"
  using assms by (simp_all add: block_cipher_def)

lemma with_schedule_round:
  assumes k: "key_schedule key bits = Some k" and n: "n \<le> INT32_MAX" "length d = unat n" "length iv = 16"
    and f: "\<And>c v. f k d = (c, v) \<Longrightarrow> length c = length d \<and> length v = 16 \<and> g k c = (d, v)"
    and e: "f k [] = ([], iv)"
  shows "\<exists>c v. with_schedule pads key bits iv n d f = Some (CRYPT_SUCCESS, c, v) \<and> length c = length d \<and>
    with_schedule pads key bits iv n c g = Some (CRYPT_SUCCESS, d, v)"
proof (cases "n = 0")
  case True
  with n show ?thesis by (simp add: with_schedule_def)
next
  case False
  obtain c v where c: "f k d = (c, v)" by fastforce
  from f [OF c] False n k c show ?thesis
    by (rule_tac x = c in exI, rule_tac x = v in exI) (simp add: with_schedule_def leD)
qed

text \<open>C23. Decryption is the inverse of encryption in every mode, and leaves the same vector: for data of any size in the cipher feedback,
  counter and output feedback modes, the last two being their own inverse; for whole blocks in the other two modes, which
  refuse any other size.\<close>

theorem cpri_AES_modes_inverse:
  assumes c: "block_cipher E D" and k: "key_schedule key bits \<noteq> None" and n: "n \<le> INT32_MAX" "length d = unat n" "length iv = 16"
  shows "(\<exists>c v. cpri__AESEncryptCFB E bits key iv n d = Some (CRYPT_SUCCESS, c, v) \<and> length c = length d \<and>
      cpri__AESDecryptCFB E bits key iv n c = Some (CRYPT_SUCCESS, d, v)) \<and>
    (\<exists>c v. cpri__AESEncryptCTR E bits key iv n d = Some (CRYPT_SUCCESS, c, v) \<and> length c = length d \<and>
      cpri__AESEncryptCTR E bits key iv n c = Some (CRYPT_SUCCESS, d, v)) \<and>
    (\<exists>c v. cpri__AESEncryptOFB E bits key iv n d = Some (CRYPT_SUCCESS, c, v) \<and> length c = length d \<and>
      cpri__AESEncryptOFB E bits key iv n c = Some (CRYPT_SUCCESS, d, v)) \<and>
    (if unat n mod 16 = 0
     then (\<exists>c v. cpri__AESEncryptCBC E bits key iv n d = Some (CRYPT_SUCCESS, c, v) \<and> length c = length d \<and>
         cpri__AESDecryptCBC D bits key iv n c = Some (CRYPT_SUCCESS, d, v)) \<and>
       (\<exists>c. cpri__AESEncryptECB E bits key n d = Some (CRYPT_SUCCESS, c) \<and> length c = length d \<and>
         cpri__AESDecryptECB D bits key n c = Some (CRYPT_SUCCESS, d))
     else cpri__AESEncryptCBC E bits key iv n d = Some (CRYPT_PARAMETER, [], iv) \<and>
       cpri__AESDecryptCBC D bits key iv n d = Some (CRYPT_PARAMETER, [], iv) \<and>
       cpri__AESEncryptECB E bits key n d = Some (CRYPT_PARAMETER, []) \<and>
       cpri__AESDecryptECB D bits key n d = Some (CRYPT_PARAMETER, []))"
proof -
  from k obtain ks where ks: "key_schedule key bits = Some ks" by auto
  note b = block_cipherD [OF c, where k = ks]
  note w = with_schedule_round [OF ks n]
  have t: "take 16 iv = iv" using n by simp
  have "length d mod 16 = 0" if "unat n mod 16 = 0" using that n by simp
  then have "\<exists>c. cpri__AESEncryptECB E bits key n d = Some (CRYPT_SUCCESS, c) \<and> length c = length d \<and>
      cpri__AESDecryptECB D bits key n c = Some (CRYPT_SUCCESS, d)" if "unat n mod 16 = 0"
    using that ecb_round [of "E ks" "D ks" d] b n ks
    by (cases "n = 0") (auto simp: cpri__AESEncryptECB_def cpri__AESDecryptECB_def whole_blocks_def with_schedule_def)
  moreover have "\<exists>c v. cpri__AESEncryptCBC E bits key iv n d = Some (CRYPT_SUCCESS, c, v) \<and> length c = length d \<and>
      cpri__AESDecryptCBC D bits key iv n c = Some (CRYPT_SUCCESS, d, v)" if "unat n mod 16 = 0"
    unfolding cpri__AESEncryptCBC_def cpri__AESDecryptCBC_def t whole_blocks_def
    using that by (simp, intro w cbc_round [of "E ks" "D ks"]) (use b n in auto)
  moreover have "\<exists>c v. cpri__AESEncryptCFB E bits key iv n d = Some (CRYPT_SUCCESS, c, v) \<and> length c = length d \<and>
      cpri__AESDecryptCFB E bits key iv n c = Some (CRYPT_SUCCESS, d, v)"
    unfolding cpri__AESEncryptCFB_def cpri__AESDecryptCFB_def t by (intro w cfb_round) (use b n in auto)
  moreover have "\<exists>c v. cpri__AESEncryptCTR E bits key iv n d = Some (CRYPT_SUCCESS, c, v) \<and> length c = length d \<and>
      cpri__AESEncryptCTR E bits key iv n c = Some (CRYPT_SUCCESS, d, v)"
    unfolding cpri__AESEncryptCTR_def t by (intro w ctr_round) (use b n in auto)
  moreover have "\<exists>c v. cpri__AESEncryptOFB E bits key iv n d = Some (CRYPT_SUCCESS, c, v) \<and> length c = length d \<and>
      cpri__AESEncryptOFB E bits key iv n c = Some (CRYPT_SUCCESS, d, v)"
    unfolding cpri__AESEncryptOFB_def t by (intro w ofb_round) (use b n in auto)
  ultimately show ?thesis
    by (auto simp: cpri__AESEncryptCBC_def cpri__AESDecryptCBC_def cpri__AESEncryptECB_def cpri__AESDecryptECB_def whole_blocks_def)
qed

theorem cpri_AES_modes_inverse_witness:
  "\<exists>c v. cpri__AESEncryptCFB (\<lambda>k b. map (\<lambda>x. x + 1) b) 128 (replicate 16 7) (replicate 16 0) 3 [1, 2, 3] = Some (CRYPT_SUCCESS, c, v) \<and>
     cpri__AESDecryptCFB (\<lambda>k b. map (\<lambda>x. x + 1) b) 128 (replicate 16 7) (replicate 16 0) 3 c = Some (CRYPT_SUCCESS, [1, 2, 3], v)"
proof -
  have "block_cipher (\<lambda>k b. map (\<lambda>x. x + 1) b) (\<lambda>k b. map (\<lambda>x. x - 1) b)" by (simp add: block_cipher_def comp_def)
  from cpri_AES_modes_inverse [OF this, of "replicate 16 7" 128 3 "[1, 2, 3]" "replicate 16 0"] show ?thesis
    by (auto simp: key_schedule_def)
qed

end
