(* ===== verification/Tss_Session.thy ===== *)
theory Tss_Session
  imports Tss_Store Tss_Sym
begin

text \<open>
  The sessions of \<^verbatim>\<open>libtss2/tss.c\<close>: password authorizations, and the HMAC and policy sessions with their keys, nonces, HMACs,
  parameter encryption and the files that keep them between commands. The HMAC key and the session value live for one command and are not
  stored.
\<close>

abbreviation TSS_RC_BAD_PWAP_NONCE :: "32 word" where "TSS_RC_BAD_PWAP_NONCE \<equiv> 0xB0030"
abbreviation TSS_RC_BAD_PWAP_ATTRIBUTES :: "32 word" where "TSS_RC_BAD_PWAP_ATTRIBUTES \<equiv> 0xB0031"
abbreviation TSS_RC_BAD_PWAP_HMAC :: "32 word" where "TSS_RC_BAD_PWAP_HMAC \<equiv> 0xB0032"
abbreviation TSS_RC_DECRYPT_SESSIONS :: "32 word" where "TSS_RC_DECRYPT_SESSIONS \<equiv> 0xB0050"
abbreviation TSS_RC_ENCRYPT_SESSIONS :: "32 word" where "TSS_RC_ENCRYPT_SESSIONS \<equiv> 0xB0051"
abbreviation TSS_RC_NO_DECRYPT_PARAMETER :: "32 word" where "TSS_RC_NO_DECRYPT_PARAMETER \<equiv> 0xB0052"
abbreviation TSS_RC_NO_ENCRYPT_PARAMETER :: "32 word" where "TSS_RC_NO_ENCRYPT_PARAMETER \<equiv> 0xB0053"
abbreviation TSS_RC_BAD_DECRYPT_ALGORITHM :: "32 word" where "TSS_RC_BAD_DECRYPT_ALGORITHM \<equiv> 0xB0054"
abbreviation TSS_RC_BAD_ENCRYPT_ALGORITHM :: "32 word" where "TSS_RC_BAD_ENCRYPT_ALGORITHM \<equiv> 0xB0055"
abbreviation TSS_RC_AES_ENCRYPT_FAILURE :: "32 word" where "TSS_RC_AES_ENCRYPT_FAILURE \<equiv> 0xB0056"
abbreviation TSS_RC_KDFA_FAILED :: "32 word" where "TSS_RC_KDFA_FAILED \<equiv> 0xB0070"
abbreviation TSS_RC_HMAC_SIZE :: "32 word" where "TSS_RC_HMAC_SIZE \<equiv> 0xB0072"

abbreviation TPMA_SESSION_CONTINUESESSION :: byte where "TPMA_SESSION_CONTINUESESSION \<equiv> 0x01"
abbreviation TPMA_SESSION_DECRYPT :: byte where "TPMA_SESSION_DECRYPT \<equiv> 0x20"
abbreviation TPMA_SESSION_ENCRYPT :: byte where "TPMA_SESSION_ENCRYPT \<equiv> 0x40"
abbreviation TPMA_SESSION_AUDIT :: byte where "TPMA_SESSION_AUDIT \<equiv> 0x80"

abbreviation MAX_SESSION_NUM :: nat where "MAX_SESSION_NUM \<equiv> 3"

abbreviation sizeof_TPM2B_KEY_buffer :: "'a::len word" where "sizeof_TPM2B_KEY_buffer \<equiv> 258"

definition empty_TPM2B :: TPM2B where
  "empty_TPM2B = \<lparr>TPM2B_size = 0, TPM2B_buffer = []\<rparr>"

section \<open>Password sessions\<close>

definition TSS_PwapSession_Set :: "byte list option \<Rightarrow> TPMS_AUTH_COMMAND result" where
  "TSS_PwapSession_Set password =
     r_bind (case password of None \<Rightarrow> r_return empty_TPM2B | Some pw \<Rightarrow> TSS_TPM2B_StringCopy (Some pw) sizeof_TPMU_HA) (\<lambda>hmac.
     r_return \<lparr>TPMS_AUTH_COMMAND_sessionHandle = TPM_RS_PW, TPMS_AUTH_COMMAND_nonce = empty_TPM2B,
       TPMS_AUTH_COMMAND_sessionAttributes = 0, TPMS_AUTH_COMMAND_hmac = hmac\<rparr>)"

definition TSS_PwapSession_Verify :: "TPMS_AUTH_RESPONSE \<Rightarrow> unit result" where
  "TSS_PwapSession_Verify authResponse =
     r_guard (TPM2B_size (TPMS_AUTH_RESPONSE_nonce authResponse) \<noteq> 0) TSS_RC_BAD_PWAP_NONCE
     (r_guard (TPMS_AUTH_RESPONSE_sessionAttributes authResponse \<noteq> TPMA_SESSION_CONTINUESESSION) TSS_RC_BAD_PWAP_ATTRIBUTES
     (r_guard (TPM2B_size (TPMS_AUTH_RESPONSE_hmac authResponse) \<noteq> 0) TSS_RC_BAD_PWAP_HMAC
     (r_return ())))"

section \<open>Session contexts\<close>

record TSS_HMAC_CONTEXT =
  s_sessionHandle :: TPM_HANDLE
  s_authHashAlg :: TPM_ALG_ID
  s_sizeInBytes :: "32 word"
  s_symmetric :: TPMT_SYM_DEF
  s_bind :: TPM_HANDLE
  s_bindName :: TPM2B
  s_bindAuthValue :: TPM2B
  s_nonceTPM :: TPM2B
  s_nonceCaller :: TPM2B
  s_sessionKey :: TPM2B
  s_sessionType :: TPM_SE
  s_isPasswordNeeded :: byte
  s_isAuthValueNeeded :: byte
  s_hmacKey :: TPM2B
  s_sessionValue :: TPM2B

definition TSS_HmacSession_InitContext :: TSS_HMAC_CONTEXT where
  "TSS_HmacSession_InitContext =
     \<lparr>s_sessionHandle = TPM_RH_NULL, s_authHashAlg = TPM_ALG_NULL, s_sizeInBytes = 0,
      s_symmetric = \<lparr>TPMT_SYM_DEF_algorithm = TPM_ALG_NULL, TPMT_SYM_DEF_keyBits = TPMU_SYM_KEY_BITS_unset,
        TPMT_SYM_DEF_mode = TPMU_SYM_MODE_unset\<rparr>,
      s_bind = TPM_RH_NULL, s_bindName = empty_TPM2B, s_bindAuthValue = empty_TPM2B, s_nonceTPM = empty_TPM2B,
      s_nonceCaller = empty_TPM2B, s_sessionKey = empty_TPM2B, s_sessionType = 0, s_isPasswordNeeded = 0,
      s_isAuthValueNeeded = 0, s_hmacKey = empty_TPM2B, s_sessionValue = empty_TPM2B\<rparr>"

text \<open>The function returns a 16-bit integer.\<close>

definition m_short :: "marshal \<Rightarrow> marshal" where
  "m_short m s = (case m s of Done rc s' \<Rightarrow> Done (ucast (ucast rc :: 16 word)) s' | BadSource \<Rightarrow> BadSource)"

definition HmacSession_members :: "TSS_HMAC_CONTEXT \<Rightarrow> marshal" where
  "HmacSession_members source =
     m_then (TSS_TPMI_SH_AUTH_SESSION_Marshal (s_sessionHandle source)) (
     m_then (TSS_TPMI_ALG_HASH_Marshal (s_authHashAlg source)) (
     m_then (TSS_UINT32_Marshal (s_sizeInBytes source)) (
     m_then (TSS_TPMT_SYM_DEF_Marshal (s_symmetric source)) (
     m_then (TSS_TPMI_DH_ENTITY_Marshal (s_bind source)) (
     m_then (TSS_TPM2B_NAME_Marshal (s_bindName source)) (
     m_then (TSS_TPM2B_AUTH_Marshal (s_bindAuthValue source)) (
     m_then (TSS_TPM2B_NONCE_Marshal (s_nonceTPM source)) (
     m_then (TSS_TPM2B_NONCE_Marshal (s_nonceCaller source)) (
     m_then (TSS_TPM2B_DIGEST_Marshal (s_sessionKey source)) (
     m_then (TSS_TPM_SE_Marshal (s_sessionType source)) (
     m_then (TSS_UINT8_Marshal (s_isPasswordNeeded source)) (
     TSS_UINT8_Marshal (s_isAuthValueNeeded source)))))))))))))"

definition TSS_HmacSession_Marshal :: "TSS_HMAC_CONTEXT \<Rightarrow> marshal" where
  "TSS_HmacSession_Marshal source = m_short (HmacSession_members source)"

text \<open>The members that are not stored are those of the target, here a context that was just made.\<close>

definition TSS_HmacSession_Unmarshal :: "TSS_HMAC_CONTEXT unmarshal" where
  "TSS_HmacSession_Unmarshal =
     u_bind (TPMI_SH_AUTH_SESSION_Unmarshal False) (\<lambda>sessionHandle.
     u_bind (TPMI_ALG_HASH_Unmarshal False) (\<lambda>authHashAlg.
     u_bind UINT32_Unmarshal (\<lambda>sizeInBytes.
     u_bind (TPMT_SYM_DEF_Unmarshal True) (\<lambda>symmetric.
     u_bind (TPMI_DH_ENTITY_Unmarshal True) (\<lambda>bind.
     u_bind TPM2B_NAME_Unmarshal (\<lambda>bindName.
     u_bind TPM2B_AUTH_Unmarshal (\<lambda>bindAuthValue.
     u_bind TPM2B_NONCE_Unmarshal (\<lambda>nonceTPM.
     u_bind TPM2B_NONCE_Unmarshal (\<lambda>nonceCaller.
     u_bind TPM2B_DIGEST_Unmarshal (\<lambda>sessionKey.
     u_bind TPM_SE_Unmarshal (\<lambda>sessionType.
     u_bind UINT8_Unmarshal (\<lambda>isPasswordNeeded.
     u_bind UINT8_Unmarshal (\<lambda>isAuthValueNeeded.
     u_return \<lparr>s_sessionHandle = sessionHandle, s_authHashAlg = authHashAlg, s_sizeInBytes = sizeInBytes, s_symmetric = symmetric,
       s_bind = bind, s_bindName = bindName, s_bindAuthValue = bindAuthValue, s_nonceTPM = nonceTPM, s_nonceCaller = nonceCaller,
       s_sessionKey = sessionKey, s_sessionType = sessionType, s_isPasswordNeeded = isPasswordNeeded,
       s_isAuthValueNeeded = isAuthValueNeeded, s_hmacKey = empty_TPM2B, s_sessionValue = empty_TPM2B\<rparr>)))))))))))))"

definition TSS_HmacSession_SaveSession :: "'z crypto_scheme \<Rightarrow> TSS_HMAC_CONTEXT \<Rightarrow> unit tss" where
  "TSS_HmacSession_SaveSession L session =
     e_bind (handle_file ''h'' (s_sessionHandle session)) (\<lambda>sessionFilename.
     e_bind (e_lift (marshal_twice (\<lambda>_. r_return ()) (TSS_HmacSession_Marshal session))) (\<lambda>buffer.
     e_bind (\<lambda>s. if tssEncryptSessions s then TSS_AES_Encrypt L buffer s else e_return buffer s) (\<lambda>outBuffer.
     TSS_File_WriteBinaryFile outBuffer sessionFilename)))"

definition TSS_HmacSession_LoadSession :: "'z crypto_scheme \<Rightarrow> TPM_HANDLE \<Rightarrow> TSS_HMAC_CONTEXT tss" where
  "TSS_HmacSession_LoadSession L sessionHandle =
     e_bind (handle_file ''h'' sessionHandle) (\<lambda>sessionFilename.
     e_bind (read_and_free sessionFilename) (\<lambda>buffer.
     e_bind (\<lambda>s. if tssEncryptSessions s then TSS_AES_Decrypt L buffer s else e_return buffer s) (\<lambda>inData.
     e_lift (case TSS_HmacSession_Unmarshal \<lparr>rest = inData, avail = s32 (int (length inData))\<rparr> of
         Ok session _ \<Rightarrow> r_return session
       | Fail rc _ \<Rightarrow> r_fail rc
       | Overread \<Rightarrow> None))))"

section \<open>Keys and nonces\<close>

text \<open>The labels of the key derivation, with the NUL at their end.\<close>

definition label_ATH :: "byte list" where "label_ATH = [0x41, 0x54, 0x48, 0]"
definition label_XOR :: "byte list" where "label_XOR = [0x58, 0x4F, 0x52, 0]"
definition label_CFB :: "byte list" where "label_CFB = [0x43, 0x46, 0x42, 0]"

text \<open>A call of KDFa that writes into an array of \<open>room'\<close> bytes, with a counter that starts at 0; a size of 0 is an error.\<close>

definition KDFa_into :: "'z openssl_scheme \<Rightarrow> nat \<Rightarrow> TPM_ALG_ID \<Rightarrow> TPM2B \<Rightarrow> byte list \<Rightarrow> TPM2B \<Rightarrow> TPM2B \<Rightarrow> 32 word \<Rightarrow>
  (16 word \<times> byte list) result" where
  "KDFa_into L room' hashAlg key label contextU contextV sizeInBits =
     (case cpri__KDFa (openssl.truncate L) hashAlg key (Some label) (Some contextU) (Some contextV) sizeInBits (Some 0) False of
        None \<Rightarrow> None
      | Some (n, out, _) \<Rightarrow> r_need (length out \<le> room') (r_guard (n = 0) TSS_RC_KDFA_FAILED (r_return (n, out))))"

definition TSS_HmacSession_SetSessionKey :: "'z openssl_scheme \<Rightarrow> TSS_HMAC_CONTEXT \<Rightarrow> TPM2B \<Rightarrow> TPM_HANDLE \<Rightarrow> TPM2B \<Rightarrow> TSS_HMAC_CONTEXT tss" where
  "TSS_HmacSession_SetSessionKey L session salt bind bindAuthValue =
     e_bind (if bind \<noteq> TPM_RH_NULL then TSS_Name_GetName (Some (s_bindName session)) bind else e_return (Some (s_bindName session)))
       (\<lambda>bindName.
     let session = session\<lparr>s_bind := bind, s_bindName := the bindName\<rparr> in
     if bind \<noteq> TPM_RH_NULL \<or> TPM2B_size salt \<noteq> 0 then
       e_lift (
         r_bind (TSS_TPM2B_Copy 258 bindAuthValue sizeof_TPM2B_KEY_buffer) (\<lambda>key.
         r_bind (TSS_TPM2B_Append 258 key salt sizeof_TPM2B_KEY_buffer) (\<lambda>key.
         r_bind (KDFa_into L (unat (sizeof_TPMU_HA :: 16 word)) (s_authHashAlg session) key label_ATH (s_nonceTPM session)
           (s_nonceCaller session) (s_sizeInBytes session * 8)) (\<lambda>(n, out).
         r_return (session\<lparr>s_sessionKey := \<lparr>TPM2B_size = n, TPM2B_buffer = out\<rparr>\<rparr>)))))
     else e_return (session\<lparr>s_sessionKey := empty_TPM2B\<rparr>))"

definition TSS_HmacSession_SetNonceCaller :: "TSS_HMAC_CONTEXT \<Rightarrow> (TSS_HMAC_CONTEXT \<times> TPM2B) tss" where
  "TSS_HmacSession_SetNonceCaller session =
     e_bind (TSS_RandBytes (unat (s_sizeInBytes session))) (\<lambda>bytes.
     if unat (s_sizeInBytes session) > unat (sizeof_TPMU_HA :: 16 word) then (\<lambda>_. None)
     else let nonceCaller = \<lparr>TPM2B_size = ucast (s_sizeInBytes session), TPM2B_buffer = bytes\<rparr> in
       e_bind (e_lift (TSS_TPM2B_Copy (unat (sizeof_TPMU_HA :: 16 word)) nonceCaller sizeof_TPMU_HA)) (\<lambda>nonce.
       e_return (session\<lparr>s_nonceCaller := nonceCaller\<rparr>, nonce)))"

text \<open>The password, or the authorization value that it stands for, appended to one of the two keys of a command.\<close>

definition append_auth :: "TPM2B \<Rightarrow> byte list option \<Rightarrow> TPM2B result" where
  "append_auth key password =
     r_bind (TSS_TPM2B_StringCopy password sizeof_TPMU_HA) (\<lambda>authValue.
     TSS_TPM2B_Append 258 key authValue sizeof_TPM2B_KEY_buffer)"

text \<open>Whether the session is bound to the object of its handle.\<close>

definition bind_match :: "TSS_HMAC_CONTEXT \<Rightarrow> 32 word \<Rightarrow> bool tss" where
  "bind_match session handleNumber =
     (if s_bind session \<noteq> TPM_RH_NULL \<and> s_sessionType session \<noteq> TPM_SE_POLICY then
        e_bind (\<lambda>s. e_lift (TSS_GetCommandHandle (tssAuthContext s) handleNumber) s) (\<lambda>commandHandle.
        e_bind (TSS_Name_GetName None commandHandle) (\<lambda>name. case name of
            None \<Rightarrow> (\<lambda>_. None)
          | Some name \<Rightarrow> e_lift (map_option Inr (TSS_TPM2B_Compare name (s_bindName session)))))
      else e_return False)"

definition TSS_HmacSession_SetHmacKey :: "TSS_HMAC_CONTEXT \<Rightarrow> 32 word \<Rightarrow> byte list option \<Rightarrow> TSS_HMAC_CONTEXT tss" where
  "TSS_HmacSession_SetHmacKey session handleNumber password =
     e_bind (e_lift (TSS_TPM2B_Copy 258 (s_sessionKey session) sizeof_TPM2B_KEY_buffer)) (\<lambda>hmacKey.
     e_bind (e_lift (TSS_TPM2B_Copy 258 (s_sessionKey session) sizeof_TPM2B_KEY_buffer)) (\<lambda>sessionValue.
     e_bind (\<lambda>s. e_lift (map_option Inr (TSS_GetAuthRole (tssAuthContext s) handleNumber)) s) (\<lambda>authRole.
     if authRole = AUTH_NONE then e_return (session\<lparr>s_hmacKey := hmacKey, s_sessionValue := sessionValue\<rparr>)
     else
       e_bind (bind_match session handleNumber) (\<lambda>bindMatch.
       let no_auth = s_sessionType session = TPM_SE_POLICY \<and> s_isAuthValueNeeded session = 0 in
       e_bind (e_lift (if \<not> bindMatch \<and> password \<noteq> None \<and> \<not> no_auth then append_auth hmacKey password else r_return hmacKey))
         (\<lambda>hmacKey.
       e_bind (e_lift (if no_auth then r_return sessionValue
                       else if \<not> bindMatch then append_auth sessionValue password
                       else TSS_TPM2B_Append 258 sessionValue (s_bindAuthValue session) sizeof_TPM2B_KEY_buffer)) (\<lambda>sessionValue.
       e_return (session\<lparr>s_hmacKey := hmacKey, s_sessionValue := sessionValue\<rparr>)))))))"

end
