(* ===== verification/Tss_Hmac.thy ===== *)
theory Tss_Hmac
  imports Tss_Session
begin

text \<open>
  What the sessions of a command do to it (\<^verbatim>\<open>libtss2/tss.c\<close>): the HMACs of the command and of the response, and the encryption of the first
  parameter of each. A command uses up to three sessions, in the order of the arguments; a \<open>slot\<close> is one of them, with what
  the arrays of \<^verbatim>\<open>TSS_Execute_valist\<close> hold at its index. The loops there stop at the first unused index, and so does the list.
\<close>

record slot =
  sl_handle :: TPM_HANDLE
  sl_password :: "byte list option"
  sl_attributes :: byte
  sl_session :: "TSS_HMAC_CONTEXT option"
  sl_auth :: TPMS_AUTH_COMMAND

section \<open>Decrypt and encrypt sessions\<close>

text \<open>How many sessions have the attribute, and the last of them (the caller's 0 when there is none).\<close>

definition sessions_with :: "byte \<Rightarrow> slot list \<Rightarrow> nat \<times> nat" where
  "sessions_with attribute slots =
     (let is = filter (\<lambda>i. sl_attributes (slots ! i) AND attribute \<noteq> 0) [0..<length slots] in
      (length is, if is = [] then 0 else last is))"

definition TSS_Sessions_GetDecryptSession :: "slot list \<Rightarrow> (nat \<times> nat) result" where
  "TSS_Sessions_GetDecryptSession slots =
     (case sessions_with TPMA_SESSION_DECRYPT slots of (isDecrypt, decryptSession) \<Rightarrow>
        r_guard (isDecrypt > 1) TSS_RC_DECRYPT_SESSIONS (r_return (isDecrypt, decryptSession)))"

definition TSS_Sessions_GetEncryptSession :: "slot list \<Rightarrow> (nat \<times> nat) result" where
  "TSS_Sessions_GetEncryptSession slots =
     (case sessions_with TPMA_SESSION_ENCRYPT slots of (isEncrypt, encryptSession) \<Rightarrow>
        r_guard (isEncrypt > 1) TSS_RC_ENCRYPT_SESSIONS (r_return (isEncrypt, encryptSession)))"

text \<open>The session of a slot; a password authorization has a null pointer.\<close>

definition the_session :: "slot list \<Rightarrow> nat \<Rightarrow> TSS_HMAC_CONTEXT result" where
  "the_session slots i = (if i < length slots then map_option Inr (sl_session (slots ! i)) else None)"

section \<open>The HMAC of a command\<close>

text \<open>A sized buffer as an argument: its size, and its bytes.\<close>

definition sized :: "TPM2B \<Rightarrow> int \<times> byte list option" where
  "sized b = (int (unat (TPM2B_size b)), Some (TPM2B_buffer b))"

definition cp_hash :: "'z openssl_scheme \<Rightarrow> TSS_AUTH_CONTEXT \<Rightarrow> TPM_ALG_ID \<Rightarrow> TPM2B list \<Rightarrow> byte list result" where
  "cp_hash L c hashAlg names = (case TSS_GetCpBuffer c of
      (_, None) \<Rightarrow> None
    | (cpSize, Some p) \<Rightarrow>
        TSS_Hash_Generate L hashAlg
          ((4, Some (be32 (TSS_GetCommandCode c))) # map sized names @
           [(sint cpSize, Some (command_bytes c p (MAX_COMMAND_SIZE - p))), (0, None)]))"

text \<open>
  The nonces of the sessions that decrypt and encrypt, which go into the HMAC of the first session when they are other
  sessions, and only once when they are the same.
\<close>

definition extra_nonces :: "slot list \<Rightarrow> nat \<Rightarrow> (TPM2B \<times> TPM2B) result" where
  "extra_nonces slots i =
     (if i = 0 then
        r_bind (TSS_Sessions_GetDecryptSession slots) (\<lambda>(isDecrypt, decryptSession).
        r_bind (if isDecrypt \<noteq> 0 \<and> decryptSession \<noteq> 0
                then r_bind (the_session slots decryptSession) (\<lambda>session. TSS_TPM2B_Copy 128 (s_nonceTPM session) sizeof_TPMU_HA)
                else r_return empty_TPM2B) (\<lambda>nonceTPMDecrypt.
        r_bind (TSS_Sessions_GetEncryptSession slots) (\<lambda>(isEncrypt, encryptSession).
        r_bind (if isEncrypt \<noteq> 0 \<and> encryptSession \<noteq> 0 \<and> (isDecrypt = 0 \<or> encryptSession \<noteq> decryptSession)
                then r_bind (the_session slots encryptSession) (\<lambda>session. TSS_TPM2B_Copy 128 (s_nonceTPM session) sizeof_TPMU_HA)
                else r_return empty_TPM2B) (\<lambda>nonceTPMEncrypt.
        r_return (nonceTPMDecrypt, nonceTPMEncrypt)))))
      else r_return (empty_TPM2B, empty_TPM2B))"

definition command_hmac :: "'z crypto_scheme \<Rightarrow> TSS_HMAC_CONTEXT \<Rightarrow> byte list \<Rightarrow> TPM2B \<times> TPM2B \<Rightarrow> byte \<Rightarrow> TPM2B result" where
  "command_hmac L session cpHash nonces sessionAttr8 =
     r_bind (TSS_HMAC_Generate L (s_authHashAlg session) (s_hmacKey session)
       [(sint (s_sizeInBytes session), Some cpHash), sized (s_nonceCaller session), sized (s_nonceTPM session),
        sized (fst nonces), sized (snd nonces), (1, Some [sessionAttr8]), (0, None)]) (\<lambda>hmac.
     TSS_TPM2B_Create 128 hmac (ucast (s_sizeInBytes session)) sizeof_TPMU_HA)"

text \<open>One round of the loop; \<open>cp\<close> is the hash of the parameters that was made last, with its algorithm.\<close>

definition set_hmac :: "'z crypto_scheme \<Rightarrow> TSS_AUTH_CONTEXT \<Rightarrow> TPM2B list \<Rightarrow> slot list \<Rightarrow> nat \<Rightarrow> TPM_ALG_ID \<times> byte list \<Rightarrow>
  TSS_HMAC_CONTEXT \<Rightarrow> (TPMS_AUTH_COMMAND \<times> TPM_ALG_ID \<times> byte list) result" where
  "set_hmac L c names slots i cp session =
     (let s = slots ! i;
          auth = (sl_auth s)\<lparr>TPMS_AUTH_COMMAND_sessionHandle := s_sessionHandle session,
                    TPMS_AUTH_COMMAND_sessionAttributes := sl_attributes s\<rparr> in
      if s_isPasswordNeeded session = 0 then
        if s_sessionType session = TPM_SE_HMAC \<or> (s_sessionType session = TPM_SE_POLICY \<and> s_isAuthValueNeeded session \<noteq> 0) then
          r_bind (if fst cp \<noteq> s_authHashAlg session
                  then r_bind (cp_hash L c (s_authHashAlg session) names) (\<lambda>h. r_return (s_authHashAlg session, h))
                  else r_return cp) (\<lambda>cp.
          r_bind (extra_nonces slots i) (\<lambda>nonces.
          r_bind (command_hmac L session (snd cp) nonces (sl_attributes s)) (\<lambda>hmac.
          r_return (auth\<lparr>TPMS_AUTH_COMMAND_hmac := hmac\<rparr>, cp))))
        else r_return (auth\<lparr>TPMS_AUTH_COMMAND_hmac := empty_TPM2B\<rparr>, cp)
      else
        r_bind (TSS_TPM2B_StringCopy (sl_password s) sizeof_TPMU_HA) (\<lambda>hmac.
        r_return (auth\<lparr>TPMS_AUTH_COMMAND_hmac := hmac\<rparr>, cp)))"

fun set_hmacs :: "'z crypto_scheme \<Rightarrow> TSS_AUTH_CONTEXT \<Rightarrow> TPM2B list \<Rightarrow> slot list \<Rightarrow> nat list \<Rightarrow> TPM_ALG_ID \<times> byte list \<Rightarrow>
  TPMS_AUTH_COMMAND list result" where
  "set_hmacs L c names slots [] cp = r_return []"
| "set_hmacs L c names slots (i # is) cp =
     r_bind (if sl_handle (slots ! i) = TPM_RS_PW then r_return (sl_auth (slots ! i), cp)
             else r_bind (the_session slots i) (set_hmac L c names slots i cp)) (\<lambda>(auth, cp).
     r_bind (set_hmacs L c names slots is cp) (\<lambda>auths. r_return (auth # auths)))"

definition TSS_HmacSession_SetHMAC :: "'z crypto_scheme \<Rightarrow> TSS_AUTH_CONTEXT \<Rightarrow> slot list \<Rightarrow> TPM2B list \<Rightarrow> TPMS_AUTH_COMMAND list result" where
  "TSS_HmacSession_SetHMAC L c slots names = set_hmacs L c names slots [0..<length slots] (TPM_ALG_NULL, [])"

section \<open>The HMAC of a response\<close>

definition response_data :: "TSS_AUTH_CONTEXT \<Rightarrow> nat \<Rightarrow> nat \<Rightarrow> byte list" where
  "response_data c p n = take n (drop p (responseBuffer c))"

definition TSS_HmacSession_Verify :: "'z crypto_scheme \<Rightarrow> TSS_AUTH_CONTEXT \<Rightarrow> TSS_HMAC_CONTEXT \<Rightarrow> TPMS_AUTH_RESPONSE \<Rightarrow> unit result" where
  "TSS_HmacSession_Verify L c session authResponse =
     r_bind (TSS_GetRpBuffer c) (\<lambda>(rpBufferSize, rpBuffer).
     r_bind (TSS_Hash_Generate L (s_authHashAlg session)
       [(4, Some [0, 0, 0, 0]), (4, Some (be32 (TSS_GetCommandCode c))),
        (sint rpBufferSize, Some (drop (unat rpBuffer) (responseBuffer c))), (0, None)]) (\<lambda>rpHash.
     let hmac = TPMS_AUTH_RESPONSE_hmac authResponse in
     r_guard ((ucast (TPM2B_size hmac) :: 32 word) \<noteq> s_sizeInBytes session) TSS_RC_HMAC_SIZE
     (r_need (TPM2B_ok hmac)
     (TSS_HMAC_Verify L (s_authHashAlg session) (TPM2B_bytes hmac) (s_hmacKey session) (s_sizeInBytes session)
       [(sint (s_sizeInBytes session), Some rpHash), sized (s_nonceTPM session), sized (s_nonceCaller session),
        (1, Some [TPMS_AUTH_RESPONSE_sessionAttributes authResponse]), (0, None)]))))"

definition TSS_HmacSession_Continue :: "'z crypto_scheme \<Rightarrow> TSS_HMAC_CONTEXT \<Rightarrow> TPMS_AUTH_RESPONSE \<Rightarrow> unit tss" where
  "TSS_HmacSession_Continue L session authR =
     (if TPMS_AUTH_RESPONSE_sessionAttributes authR AND TPMA_SESSION_CONTINUESESSION \<noteq> 0
      then TSS_HmacSession_SaveSession L (session\<lparr>s_isPasswordNeeded := 0, s_isAuthValueNeeded := 0\<rparr>)
      else TSS_DeleteHandle (s_sessionHandle session))"

section \<open>Parameter encryption\<close>

definition keyBits_aes :: "TPMT_SYM_DEF \<Rightarrow> 16 word option" where
  "keyBits_aes symmetric = (case TPMT_SYM_DEF_keyBits symmetric of
       TPMU_SYM_KEY_BITS_unset \<Rightarrow> None
     | TPMU_SYM_KEY_BITS_aes n \<Rightarrow> Some n
     | TPMU_SYM_KEY_BITS_xorr n \<Rightarrow> Some n
     | TPMU_SYM_KEY_BITS_sym n \<Rightarrow> Some n)"

text \<open>The XOR obfuscation of \<open>data\<close>.\<close>

definition xor_param :: "'z openssl_scheme \<Rightarrow> TSS_HMAC_CONTEXT \<Rightarrow> TPM2B \<Rightarrow> TPM2B \<Rightarrow> byte list \<Rightarrow> byte list result" where
  "xor_param L session nonceNewer nonceOlder data =
     r_bind (KDFa_into L (length data) (s_authHashAlg session) (s_sessionValue session) label_XOR nonceNewer nonceOlder
       (of_nat (length data) * 8)) (\<lambda>(_, m).
     r_need (length data \<le> length m) (r_return (map2 (XOR) data m)))"

text \<open>The key and the vector of AES in CFB mode; the array for both has 48 bytes. The key that is used has always 128 bits.\<close>

definition aes_param :: "'z openssl_scheme \<Rightarrow> (32 word \<Rightarrow> byte list \<Rightarrow> byte list \<Rightarrow> 32 word \<Rightarrow> byte list \<Rightarrow>
  (CRYPT_RESULT \<times> byte list \<times> byte list) option) \<Rightarrow> 32 word \<Rightarrow> TSS_HMAC_CONTEXT \<Rightarrow> TPM2B \<Rightarrow> TPM2B \<Rightarrow> byte list \<Rightarrow> byte list result" where
  "aes_param L aes failure session nonceNewer nonceOlder data =
     (case keyBits_aes (s_symmetric session) of
        None \<Rightarrow> None
      | Some keyBits \<Rightarrow>
          let ivSize = cpri__GetSymmetricBlockSize (TPMT_SYM_DEF_algorithm (s_symmetric session)) keyBits;
              kdfaBits = ucast keyBits + ucast ivSize * 8; keySizeinBytes = unat keyBits div 8 in
          r_bind (KDFa_into L 48 (s_authHashAlg session) (s_sessionValue session) label_CFB nonceNewer nonceOlder kdfaBits)
            (\<lambda>(_, symParmString).
          r_need (keySizeinBytes + unat ivSize \<le> length symParmString)
          (case aes 128 symParmString (take (unat ivSize) (drop keySizeinBytes symParmString)) (of_nat (length data)) data of
             None \<Rightarrow> None
           | Some (crc, out, _) \<Rightarrow> r_guard (crc \<noteq> 0) failure (r_return out))))"

text \<open>A function of the context that returns its new value with the code.\<close>

definition set_param :: "(32 word \<times> TSS_AUTH_CONTEXT) option \<Rightarrow> TSS_AUTH_CONTEXT result" where
  "set_param r = (case r of None \<Rightarrow> None | Some (rc, c) \<Rightarrow> if rc = 0 then r_return c else r_fail rc)"

definition TSS_Command_DecryptXor :: "'z crypto_scheme \<Rightarrow> TSS_AUTH_CONTEXT \<Rightarrow> TSS_HMAC_CONTEXT \<Rightarrow> TSS_AUTH_CONTEXT result" where
  "TSS_Command_DecryptXor L c session = (case TSS_GetCommandDecryptParam c of
       None \<Rightarrow> None
     | Some (paramSize, p) \<Rightarrow>
         r_need (p + unat paramSize \<le> MAX_COMMAND_SIZE)
         (r_bind (xor_param L session (s_nonceCaller session) (s_nonceTPM session) (command_bytes c p (unat paramSize)))
           (\<lambda>out. set_param (TSS_SetCommandDecryptParam c paramSize out))))"

definition TSS_Command_DecryptAes :: "'z crypto_scheme \<Rightarrow> TSS_AUTH_CONTEXT \<Rightarrow> TSS_HMAC_CONTEXT \<Rightarrow> TSS_AUTH_CONTEXT result" where
  "TSS_Command_DecryptAes L c session = (case TSS_GetCommandDecryptParam c of
       None \<Rightarrow> None
     | Some (paramSize, p) \<Rightarrow>
         r_need (p + unat paramSize \<le> MAX_COMMAND_SIZE)
         (r_bind (aes_param L (cpri__AESEncryptCFB (AES_encrypt L)) TSS_RC_AES_ENCRYPT_FAILURE session (s_nonceCaller session)
             (s_nonceTPM session) (command_bytes c p (unat paramSize)))
           (\<lambda>out. set_param (TSS_SetCommandDecryptParam c paramSize out))))"

definition TSS_Command_Decrypt :: "'z crypto_scheme \<Rightarrow> TSS_AUTH_CONTEXT \<Rightarrow> slot list \<Rightarrow> TSS_AUTH_CONTEXT result" where
  "TSS_Command_Decrypt L c slots =
     r_bind (TSS_Sessions_GetDecryptSession slots) (\<lambda>(isDecrypt, decryptSession).
     if isDecrypt = 0 then r_return c
     else (case Option.bind (CommandCodeToCommandIndex (TSS_GetCommandCode c)) getDecryptSize of
         None \<Rightarrow> None
       | Some decryptSize \<Rightarrow>
           r_guard (decryptSize \<noteq> 2) TSS_RC_NO_DECRYPT_PARAMETER
           (case TSS_GetCommandDecryptParam c of
              None \<Rightarrow> None
            | Some (paramSize, _) \<Rightarrow>
                if paramSize = 0 then r_return c
                else r_bind (the_session slots decryptSession) (\<lambda>session.
                  let algorithm = TPMT_SYM_DEF_algorithm (s_symmetric session) in
                  if algorithm = TPM_ALG_XOR then TSS_Command_DecryptXor L c session
                  else if algorithm = TPM_ALG_AES then TSS_Command_DecryptAes L c session
                  else r_fail TSS_RC_BAD_DECRYPT_ALGORITHM))))"

definition TSS_Response_EncryptXor :: "'z crypto_scheme \<Rightarrow> TSS_AUTH_CONTEXT \<Rightarrow> TSS_HMAC_CONTEXT \<Rightarrow> TSS_AUTH_CONTEXT result" where
  "TSS_Response_EncryptXor L c session =
     r_bind (TSS_GetResponseEncryptParam c) (\<lambda>(paramSize, p).
     r_need (p + unat paramSize \<le> MAX_RESPONSE_SIZE)
     (r_bind (xor_param L session (s_nonceTPM session) (s_nonceCaller session) (response_data c p (unat paramSize)))
       (\<lambda>out. set_param (TSS_SetResponseDecryptParam c paramSize out))))"

definition TSS_Response_EncryptAes :: "'z crypto_scheme \<Rightarrow> TSS_AUTH_CONTEXT \<Rightarrow> TSS_HMAC_CONTEXT \<Rightarrow> TSS_AUTH_CONTEXT result" where
  "TSS_Response_EncryptAes L c session =
     r_bind (TSS_GetResponseEncryptParam c) (\<lambda>(paramSize, p).
     r_need (p + unat paramSize \<le> MAX_RESPONSE_SIZE)
     (r_bind (aes_param L (cpri__AESDecryptCFB (AES_encrypt L)) TSS_RC_AES_DECRYPT_FAILURE session (s_nonceTPM session)
         (s_nonceCaller session) (response_data c p (unat paramSize)))
       (\<lambda>out. set_param (TSS_SetResponseDecryptParam c paramSize out))))"

definition TSS_Response_Encrypt :: "'z crypto_scheme \<Rightarrow> TSS_AUTH_CONTEXT \<Rightarrow> slot list \<Rightarrow> TSS_AUTH_CONTEXT result" where
  "TSS_Response_Encrypt L c slots =
     r_bind (TSS_Sessions_GetEncryptSession slots) (\<lambda>(isEncrypt, encryptSession).
     if isEncrypt = 0 then r_return c
     else (case Option.bind (CommandCodeToCommandIndex (TSS_GetCommandCode c)) getEncryptSize of
         None \<Rightarrow> None
       | Some encryptSize \<Rightarrow>
           r_guard (encryptSize = 0) TSS_RC_NO_ENCRYPT_PARAMETER
           (r_bind (TSS_GetResponseEncryptParam c) (\<lambda>(paramSize, _).
              if paramSize = 0 then r_return c
              else r_bind (the_session slots encryptSession) (\<lambda>session.
                let algorithm = TPMT_SYM_DEF_algorithm (s_symmetric session) in
                if algorithm = TPM_ALG_XOR then TSS_Response_EncryptXor L c session
                else if algorithm = TPM_ALG_AES then TSS_Response_EncryptAes L c session
                else r_fail TSS_RC_BAD_ENCRYPT_ALGORITHM)))))"

end
