(* ===== verification/Tss_Process.thy ===== *)
theory Tss_Process
  imports Tss_Hmac
begin

text \<open>
  The functions of \<^verbatim>\<open>libtss2/tss.c\<close> for single commands: before a command is marshalled (pre-processing), before the HMAC of its
  response is checked (change of an authorization), and after the response (post-processing), with the table that names them. The
  parameters are the union of the caller; a function that reads another member of it than the one for its command is not modelled
  (\<open>None\<close>).
\<close>

abbreviation TSS_RC_NULL_PARAMETER :: "32 word" where "TSS_RC_NULL_PARAMETER \<equiv> 0xB000B"
abbreviation TSS_RC_BAD_SALT_KEY :: "32 word" where "TSS_RC_BAD_SALT_KEY \<equiv> 0xB0060"

abbreviation TPMA_OBJECT_DECRYPT :: "32 word" where "TPMA_OBJECT_DECRYPT \<equiv> 0x20000"
abbreviation TPMA_OBJECT_SIGN :: "32 word" where "TPMA_OBJECT_SIGN \<equiv> 0x40000"
abbreviation TPMA_NVA_POLICY_DELETE :: "32 word" where "TPMA_NVA_POLICY_DELETE \<equiv> 0x400"
abbreviation TPMA_NVA_WRITELOCKED :: "32 word" where "TPMA_NVA_WRITELOCKED \<equiv> 0x800"
abbreviation TPMA_NVA_READLOCKED :: "32 word" where "TPMA_NVA_READLOCKED \<equiv> 0x10000000"
abbreviation TPMA_NVA_WRITTEN :: "32 word" where "TPMA_NVA_WRITTEN \<equiv> 0x20000000"

datatype EXTRA_PARAMETERS =
    StartAuthSession_Extra (bindPassword: "byte list option") (salt: TPM2B)
  | PolicySigned_Extra "TPM_ALG_ID \<Rightarrow> byte list \<Rightarrow> 32 word + TPM2B"

text \<open>A structure that a function may change: the caller's parameters and extra parameters.\<close>

type_synonym in_extra = "COMMAND_PARAMETERS option \<times> EXTRA_PARAMETERS option"

definition undefined_behaviour :: "'a tss" where
  "undefined_behaviour s = None"

text \<open>\<open>fclose\<close>-like cleanup: on an error, \<open>h\<close> runs and its code is not looked at.\<close>

definition e_on_error :: "('s, 'a) effect \<Rightarrow> ('s, unit) effect \<Rightarrow> ('s, 'a) effect" where
  "e_on_error m h s = (case m s of
      Some (Inl rc, s') \<Rightarrow> e_bind (e_ignore h) (\<lambda>_. e_fail rc) s'
    | r \<Rightarrow> r)"

section \<open>Pre-processing\<close>

definition bad_salt_key :: "TPMT_PUBLIC \<Rightarrow> bool" where
  "bad_salt_key publicArea \<longleftrightarrow>
     TPMT_PUBLIC_type publicArea \<noteq> TPM_ALG_RSA \<or>
     TPMT_PUBLIC_objectAttributes publicArea AND TPMA_OBJECT_SIGN \<noteq> 0 \<or>
     TPMT_PUBLIC_objectAttributes publicArea AND TPMA_OBJECT_DECRYPT = 0 \<or>
     (case TPMT_PUBLIC_parameters publicArea of
        TPMU_PUBLIC_PARMS_rsaDetail d \<Rightarrow> TPMS_RSA_PARMS_keyBits d \<noteq> 2048 \<or> TPMS_RSA_PARMS_exponent d \<noteq> 0
      | _ \<Rightarrow> False)"

definition label_SECRET :: "byte list" where
  "label_SECRET = [0x53, 0x45, 0x43, 0x52, 0x45, 0x54, 0]"

text \<open>The modulus; the second number is its size.\<close>

definition rsa_unique :: "TPMT_PUBLIC \<Rightarrow> TPM2B option" where
  "rsa_unique publicArea = (case TPMT_PUBLIC_unique publicArea of TPMU_PUBLIC_ID_rsa n \<Rightarrow> Some n | _ \<Rightarrow> None)"

definition encrypt_salt :: "'z crypto_scheme \<Rightarrow> TPMT_PUBLIC \<Rightarrow> (TPM2B \<times> TPM2B) tss" where
  "encrypt_salt L publicArea = (case rsa_unique publicArea of
       None \<Rightarrow> undefined_behaviour
     | Some n \<Rightarrow>
         let saltSize = TSS_GetDigestSize (TPMT_PUBLIC_nameAlg publicArea) in
         e_bind (TSS_RandBytes (unat saltSize)) (\<lambda>salt.
         e_bind (TSS_RSAPublicEncrypt L 256 salt (TPM2B_buffer n) (unat (TPM2B_size n)) [1, 0, 1] 3 label_SECRET
           (TPMT_PUBLIC_nameAlg publicArea)) (\<lambda>secret.
         e_return (\<lparr>TPM2B_size = saltSize, TPM2B_buffer = salt\<rparr>, \<lparr>TPM2B_size = TPM2B_size n, TPM2B_buffer = secret\<rparr>))))"

definition TSS_PR_StartAuthSession :: "'z crypto_scheme \<Rightarrow> bool \<Rightarrow> StartAuthSession_In \<Rightarrow> EXTRA_PARAMETERS option \<Rightarrow>
  (StartAuthSession_In \<times> EXTRA_PARAMETERS option) tss" where
  "TSS_PR_StartAuthSession L allowNull inp extra =
     (let nonceSize = TSS_GetDigestSize (StartAuthSession_In_authHash inp) in
      e_guard (nonceSize = 0) TSS_RC_BAD_HASH_ALGORITHM
      (e_bind (TSS_RandBytes (unat nonceSize)) (\<lambda>nonce.
      let inp = inp\<lparr>StartAuthSession_In_nonceCaller := \<lparr>TPM2B_size = nonceSize, TPM2B_buffer = nonce\<rparr>,
                    StartAuthSession_In_encryptedSalt := empty_TPM2B\<rparr> in
      (case extra of
         Some (PolicySigned_Extra _) \<Rightarrow> undefined_behaviour
       | None \<Rightarrow>
           e_guard (StartAuthSession_In_tpmKey inp \<noteq> TPM_RH_NULL) TSS_RC_NULL_PARAMETER (e_return (inp, None))
       | Some (StartAuthSession_Extra pw _) \<Rightarrow>
           if StartAuthSession_In_tpmKey inp = TPM_RH_NULL then e_return (inp, Some (StartAuthSession_Extra pw empty_TPM2B))
           else
             e_bind (TSS_Public_Load allowNull (StartAuthSession_In_tpmKey inp) None) (\<lambda>bPublic.
             let publicArea = TPM2B_PUBLIC_publicArea bPublic in
             e_guard (bad_salt_key publicArea) TSS_RC_BAD_SALT_KEY
             (e_bind (encrypt_salt L publicArea) (\<lambda>(salt, secret).
             e_return (inp\<lparr>StartAuthSession_In_encryptedSalt := secret\<rparr>, Some (StartAuthSession_Extra pw salt)))))))))"

definition TSS_PR_PolicySigned :: "'z crypto_scheme \<Rightarrow> PolicySigned_In \<Rightarrow> EXTRA_PARAMETERS option \<Rightarrow> PolicySigned_In tss" where
  "TSS_PR_PolicySigned L inp extra = (case TPMT_SIGNATURE_signature (PolicySigned_In_auth inp) of
       TPMU_SIGNATURE_rsassa sig \<Rightarrow>
         let hashAlg = TPMS_SIGNATURE_RSA_hash sig in
         e_bind (e_lift (TSS_Hash_Generate L hashAlg [sized (PolicySigned_In_nonceTPM inp), (4, Some (be32 (PolicySigned_In_expiration inp))),
           sized (PolicySigned_In_cpHashA inp), sized (PolicySigned_In_policyRef inp), (0, None)])) (\<lambda>digest.
         (case extra of
            Some (PolicySigned_Extra signatureCallback) \<Rightarrow>
              e_bind (e_lift (Some (signatureCallback hashAlg digest))) (\<lambda>s.
              e_return (inp\<lparr>PolicySigned_In_auth := (PolicySigned_In_auth inp)
                \<lparr>TPMT_SIGNATURE_signature := TPMU_SIGNATURE_rsassa (sig\<lparr>TPMS_SIGNATURE_RSA_sig := s\<rparr>)\<rparr>\<rparr>))
          | _ \<Rightarrow> undefined_behaviour))
     | _ \<Rightarrow> undefined_behaviour)"

definition TSS_PR_NV_DefineSpace :: "NV_DefineSpace_In \<Rightarrow> unit tss" where
  "TSS_PR_NV_DefineSpace inp =
     (let nvPublic = TPM2B_NV_PUBLIC_nvPublic (NV_DefineSpace_In_publicInfo inp) in
      e_guard (TPMS_NV_PUBLIC_attributes nvPublic AND TPMA_NVA_POLICY_DELETE \<noteq> 0 \<and> TPM2B_size (TPMS_NV_PUBLIC_authPolicy nvPublic) = 0)
        TSS_RC_IN_PARAMETER (e_return ()))"

section \<open>Change of an authorization\<close>

text \<open>The new authorization value as a string: the bytes up to the first NUL, or no string when the value is empty.\<close>

definition auth_password :: "TPM2B \<Rightarrow> byte list option result" where
  "auth_password newAuth =
     (if TPM2B_size newAuth = 0 then r_return None
      else r_need (TPM2B_ok newAuth) (r_return (Some (takeWhile (\<lambda>b. b \<noteq> 0) (TPM2B_bytes newAuth)))))"

definition TSS_CA_HierarchyChangeAuth :: "TSS_HMAC_CONTEXT \<Rightarrow> 32 word \<Rightarrow> HierarchyChangeAuth_In \<Rightarrow> TSS_HMAC_CONTEXT tss" where
  "TSS_CA_HierarchyChangeAuth session handleNumber inp =
     e_bind (e_lift (auth_password (HierarchyChangeAuth_In_newAuth inp))) (TSS_HmacSession_SetHmacKey session handleNumber)"

definition TSS_CA_NV_ChangeAuth :: "TSS_HMAC_CONTEXT \<Rightarrow> 32 word \<Rightarrow> NV_ChangeAuth_In \<Rightarrow> TSS_HMAC_CONTEXT tss" where
  "TSS_CA_NV_ChangeAuth session handleNumber inp =
     e_bind (e_lift (auth_password (NV_ChangeAuth_In_newAuth inp))) (TSS_HmacSession_SetHmacKey session handleNumber)"

definition TSS_CA_NV_UndefineSpaceSpecial :: "TSS_HMAC_CONTEXT \<Rightarrow> 32 word \<Rightarrow> TSS_HMAC_CONTEXT tss" where
  "TSS_CA_NV_UndefineSpaceSpecial session handleNumber =
     (if handleNumber = 0 then TSS_HmacSession_SetHmacKey session handleNumber None else e_return session)"

section \<open>Post-processing\<close>

text \<open>The bounds of the copies are larger than the arrays: \<open>sizeof(TPMT_HA)\<close> is 130, and the arrays have 128 bytes.\<close>

definition TSS_PO_StartAuthSession :: "'z crypto_scheme \<Rightarrow> StartAuthSession_In \<Rightarrow> StartAuthSession_Out \<Rightarrow> EXTRA_PARAMETERS option \<Rightarrow> unit tss" where
  "TSS_PO_StartAuthSession L inp out extra =
     (let session = TSS_HmacSession_InitContext\<lparr>s_sessionHandle := StartAuthSession_Out_sessionHandle out,
            s_authHashAlg := StartAuthSession_In_authHash inp,
            s_sizeInBytes := ucast (TSS_GetDigestSize (StartAuthSession_In_authHash inp)),
            s_symmetric := StartAuthSession_In_symmetric inp, s_sessionType := StartAuthSession_In_sessionType inp\<rparr> in
      case extra of
        Some (PolicySigned_Extra _) \<Rightarrow> undefined_behaviour
      | _ \<Rightarrow>
          let pw = (case extra of Some (StartAuthSession_Extra (Some pw) _) \<Rightarrow>
                      if StartAuthSession_In_bind inp = TPM_RH_NULL then None else Some pw | _ \<Rightarrow> None);
              extraSalt = (case extra of Some (StartAuthSession_Extra _ s) \<Rightarrow> s | _ \<Rightarrow> empty_TPM2B) in
          e_bind (e_lift (case pw of None \<Rightarrow> r_return empty_TPM2B | Some pw \<Rightarrow> TSS_TPM2B_StringCopy (Some pw) sizeof_TPMU_HA))
            (\<lambda>bindAuthValue.
          e_bind (e_lift (TSS_TPM2B_Copy 128 extraSalt sizeof_TPMT_HA)) (\<lambda>salt.
          e_bind (e_lift (TSS_TPM2B_Copy 128 (StartAuthSession_Out_nonceTPM out) sizeof_TPMT_HA)) (\<lambda>nonceTPM.
          e_bind (e_lift (TSS_TPM2B_Copy 128 (StartAuthSession_In_nonceCaller inp) sizeof_TPMT_HA)) (\<lambda>nonceCaller.
          e_bind (TSS_HmacSession_SetSessionKey L
              (session\<lparr>s_bindAuthValue := bindAuthValue, s_nonceTPM := nonceTPM, s_nonceCaller := nonceCaller\<rparr>)
              salt (StartAuthSession_In_bind inp) bindAuthValue) (\<lambda>session.
          TSS_HmacSession_SaveSession L session))))))"

text \<open>The file name of a saved context is the digest of its blob.\<close>

definition TSS_HashToString :: "byte list \<Rightarrow> string" where
  "TSS_HashToString digest = concat (map hex2 (take 32 digest))"

definition context_string :: "'z crypto_scheme \<Rightarrow> TPMS_CONTEXT \<Rightarrow> string tss" where
  "context_string L context =
     e_bind (e_lift (TSS_Hash_Generate L TPM_ALG_SHA256 [sized (TPMS_CONTEXT_contextBlob context), (0, None)])) (\<lambda>cpHash.
     if length cpHash < 32 then undefined_behaviour else e_return (TSS_HashToString cpHash))"

definition TSS_PO_ContextSave :: "'z crypto_scheme \<Rightarrow> bool \<Rightarrow> ContextSave_In \<Rightarrow> ContextSave_Out \<Rightarrow> unit tss" where
  "TSS_PO_ContextSave L allowNull inp out =
     (let handle = ContextSave_In_saveHandle inp in
      if handle_type handle \<noteq> TPM_HT_TRANSIENT then e_return ()
      else e_bind (context_string L (ContextSave_Out_context out)) (\<lambda>string.
        e_bind (TSS_Name_Copy 0 (Some string) handle None) (\<lambda>_.
        TSS_Public_Copy allowNull 0 (Some string) handle None)))"

definition TSS_PO_ContextLoad :: "'z crypto_scheme \<Rightarrow> bool \<Rightarrow> ContextLoad_In \<Rightarrow> ContextLoad_Out \<Rightarrow> unit tss" where
  "TSS_PO_ContextLoad L allowNull inp out =
     (let handle = ContextLoad_Out_loadedHandle out in
      if handle_type handle \<noteq> TPM_HT_TRANSIENT then e_return ()
      else e_bind (context_string L (ContextLoad_In_context inp)) (\<lambda>string.
        e_bind (TSS_Name_Copy handle None 0 (Some string)) (\<lambda>_.
        TSS_Public_Copy allowNull handle None 0 (Some string))))"

definition TSS_PO_FlushContext :: "FlushContext_In \<Rightarrow> unit tss" where
  "TSS_PO_FlushContext inp = TSS_DeleteHandle (FlushContext_In_flushHandle inp)"

definition TSS_PO_EvictControl :: "bool \<Rightarrow> EvictControl_In \<Rightarrow> unit tss" where
  "TSS_PO_EvictControl allowNull inp =
     (let object = EvictControl_In_objectHandle inp; persistent = EvictControl_In_persistentHandle inp in
      if object \<noteq> persistent then
        e_bind (TSS_Name_Copy persistent None object None) (\<lambda>_. TSS_Public_Copy allowNull persistent None object None)
      else TSS_DeleteHandle persistent)"

definition TSS_PO_HashSequenceStart :: "HashSequenceStart_Out \<Rightarrow> unit tss" where
  "TSS_PO_HashSequenceStart out = TSS_Name_Store empty_TPM2B (HashSequenceStart_Out_sequenceHandle out) None"

definition TSS_PO_HMAC_Start :: "HMAC_Start_Out \<Rightarrow> unit tss" where
  "TSS_PO_HMAC_Start out = TSS_Name_Store empty_TPM2B (HMAC_Start_Out_sequenceHandle out) None"

definition TSS_PO_SequenceComplete :: "SequenceComplete_In \<Rightarrow> unit tss" where
  "TSS_PO_SequenceComplete inp = TSS_DeleteHandle (SequenceComplete_In_sequenceHandle inp)"

definition TSS_PO_EventSequenceComplete :: "EventSequenceComplete_In \<Rightarrow> unit tss" where
  "TSS_PO_EventSequenceComplete inp = TSS_DeleteHandle (EventSequenceComplete_In_sequenceHandle inp)"

definition TSS_PO_PolicyAuthValue :: "'z crypto_scheme \<Rightarrow> PolicyAuthValue_In \<Rightarrow> unit tss" where
  "TSS_PO_PolicyAuthValue L inp =
     e_bind (TSS_HmacSession_LoadSession L (PolicyAuthValue_In_policySession inp)) (\<lambda>session.
     TSS_HmacSession_SaveSession L (session\<lparr>s_isPasswordNeeded := 0, s_isAuthValueNeeded := 1\<rparr>))"

definition TSS_PO_PolicyPassword :: "'z crypto_scheme \<Rightarrow> PolicyPassword_In \<Rightarrow> unit tss" where
  "TSS_PO_PolicyPassword L inp =
     e_bind (TSS_HmacSession_LoadSession L (PolicyPassword_In_policySession inp)) (\<lambda>session.
     TSS_HmacSession_SaveSession L (session\<lparr>s_isPasswordNeeded := 1, s_isAuthValueNeeded := 0\<rparr>))"

text \<open>The Name that the TPM returned is compared with the one of the public area.\<close>

definition TSS_PO_NV_ReadPublic :: "'z openssl_scheme \<Rightarrow> NV_ReadPublic_In \<Rightarrow> NV_ReadPublic_Out \<Rightarrow> unit tss" where
  "TSS_PO_NV_ReadPublic L inp out =
     (let nvPublic = TPM2B_NV_PUBLIC_nvPublic (NV_ReadPublic_Out_nvPublic out); nvName = NV_ReadPublic_Out_nvName out;
          nvIndex = NV_ReadPublic_In_nvIndex inp in
      e_bind (e_lift (TSS_NVPublic_GetName L nvPublic)) (\<lambda>name.
      e_bind (e_lift (map_option Inr (TSS_TPM2B_Compare name nvName))) (\<lambda>equal.
      e_guard (\<not> equal) TSS_RC_MALFORMED_NV_PUBLIC
      (e_bind (TSS_Name_Store nvName nvIndex None) (\<lambda>_.
      TSS_NVPublic_Store nvPublic nvIndex)))))"

text \<open>The error codes of the two deletions are not looked at.\<close>

definition nv_delete :: "TPM_HANDLE \<Rightarrow> unit tss" where
  "nv_delete nvIndex = e_bind (e_ignore (TSS_DeleteHandle nvIndex)) (\<lambda>_. e_ignore (TSS_NVPublic_Delete nvIndex))"

definition TSS_PO_NV_UndefineSpace :: "NV_UndefineSpace_In \<Rightarrow> unit tss" where
  "TSS_PO_NV_UndefineSpace inp = nv_delete (NV_UndefineSpace_In_nvIndex inp)"

definition TSS_PO_NV_UndefineSpaceSpecial :: "NV_UndefineSpaceSpecial_In \<Rightarrow> unit tss" where
  "TSS_PO_NV_UndefineSpaceSpecial inp = nv_delete (NV_UndefineSpaceSpecial_In_nvIndex inp)"

text \<open>
  What the three functions below share: the attribute that the command has set in the TPM is set in the stored public area,
  which gives the index a new Name. When the load fails, the attributes are read although they were never written.
\<close>

definition nv_set_attribute :: "'z openssl_scheme \<Rightarrow> 32 word \<Rightarrow> TPM_HANDLE \<Rightarrow> unit tss" where
  "nv_set_attribute L attribute nvIndex s = (case TSS_NVPublic_Load nvIndex s of
       Some (Inr nvPublic, s') \<Rightarrow>
         (if TPMS_NV_PUBLIC_attributes nvPublic AND attribute = 0 then
            let nvPublic = nvPublic\<lparr>TPMS_NV_PUBLIC_attributes := TPMS_NV_PUBLIC_attributes nvPublic OR attribute\<rparr> in
            e_on_error
              (e_bind (TSS_NVPublic_Store nvPublic nvIndex) (\<lambda>_.
               e_bind (e_lift (TSS_NVPublic_GetName L nvPublic)) (\<lambda>name.
               TSS_Name_Store name nvIndex None)))
              (nv_delete nvIndex) s'
          else e_return () s')
     | _ \<Rightarrow> None)"

definition TSS_PO_NV_Write :: "'z openssl_scheme \<Rightarrow> TPM_HANDLE \<Rightarrow> unit tss" where
  "TSS_PO_NV_Write L nvIndex = nv_set_attribute L TPMA_NVA_WRITTEN nvIndex"

definition TSS_PO_NV_WriteLock :: "'z openssl_scheme \<Rightarrow> NV_WriteLock_In \<Rightarrow> unit tss" where
  "TSS_PO_NV_WriteLock L inp = nv_set_attribute L TPMA_NVA_WRITELOCKED (NV_WriteLock_In_nvIndex inp)"

definition TSS_PO_NV_ReadLock :: "'z openssl_scheme \<Rightarrow> NV_ReadLock_In \<Rightarrow> unit tss" where
  "TSS_PO_NV_ReadLock L inp = nv_set_attribute L TPMA_NVA_READLOCKED (NV_ReadLock_In_nvIndex inp)"

section \<open>The table\<close>

text \<open>
  The functions as the table has them, on the unions. \<open>allowNull\<close> is the argument that the calls of
  \<^verbatim>\<open>TPM2B_PUBLIC_Unmarshal\<close> do not give. The four commands that write an index share a function, which reads the index where their
  structures all have it.
\<close>

definition pre_StartAuthSession :: "'z crypto_scheme \<Rightarrow> bool \<Rightarrow> in_extra \<Rightarrow> in_extra tss" where
  "pre_StartAuthSession L allowNull ie = (case ie of
       (Some (Object_Parameters (In_StartAuthSession i)), extra) \<Rightarrow>
         e_bind (TSS_PR_StartAuthSession L allowNull i extra) (\<lambda>(i, extra). e_return (Some (Object_Parameters (In_StartAuthSession i)), extra))
     | _ \<Rightarrow> undefined_behaviour)"

definition pre_PolicySigned :: "'z crypto_scheme \<Rightarrow> bool \<Rightarrow> in_extra \<Rightarrow> in_extra tss" where
  "pre_PolicySigned L allowNull ie = (case ie of
       (Some (Policy_Parameters (In_PolicySigned i)), extra) \<Rightarrow>
         e_bind (TSS_PR_PolicySigned L i extra) (\<lambda>i. e_return (Some (Policy_Parameters (In_PolicySigned i)), extra))
     | _ \<Rightarrow> undefined_behaviour)"

definition pre_NV_DefineSpace :: "'z crypto_scheme \<Rightarrow> bool \<Rightarrow> in_extra \<Rightarrow> in_extra tss" where
  "pre_NV_DefineSpace L allowNull ie = (case ie of
       (Some (NV_Parameters (In_NV_DefineSpace i)), extra) \<Rightarrow> e_bind (TSS_PR_NV_DefineSpace i) (\<lambda>_. e_return ie)
     | _ \<Rightarrow> undefined_behaviour)"

definition change_HierarchyChangeAuth :: "TSS_HMAC_CONTEXT \<Rightarrow> 32 word \<Rightarrow> COMMAND_PARAMETERS option \<Rightarrow> TSS_HMAC_CONTEXT tss" where
  "change_HierarchyChangeAuth session handleNumber inp = (case inp of
       Some (Hierarchy_Parameters (In_HierarchyChangeAuth i)) \<Rightarrow> TSS_CA_HierarchyChangeAuth session handleNumber i
     | _ \<Rightarrow> undefined_behaviour)"

definition change_NV_ChangeAuth :: "TSS_HMAC_CONTEXT \<Rightarrow> 32 word \<Rightarrow> COMMAND_PARAMETERS option \<Rightarrow> TSS_HMAC_CONTEXT tss" where
  "change_NV_ChangeAuth session handleNumber inp = (case inp of
       Some (NV_Parameters (In_NV_ChangeAuth i)) \<Rightarrow> TSS_CA_NV_ChangeAuth session handleNumber i
     | _ \<Rightarrow> undefined_behaviour)"

definition change_NV_UndefineSpaceSpecial :: "TSS_HMAC_CONTEXT \<Rightarrow> 32 word \<Rightarrow> COMMAND_PARAMETERS option \<Rightarrow> TSS_HMAC_CONTEXT tss" where
  "change_NV_UndefineSpaceSpecial session handleNumber inp = TSS_CA_NV_UndefineSpaceSpecial session handleNumber"

definition post_StartAuthSession :: "'z crypto_scheme \<Rightarrow> bool \<Rightarrow> in_extra \<Rightarrow> RESPONSE_PARAMETERS option \<Rightarrow> unit tss" where
  "post_StartAuthSession L allowNull ie out = (case (ie, out) of
       ((Some (Object_Parameters (In_StartAuthSession i)), extra), Some (Object_Response (Out_StartAuthSession r))) \<Rightarrow> TSS_PO_StartAuthSession L i r extra
     | _ \<Rightarrow> undefined_behaviour)"

definition post_ContextSave :: "'z crypto_scheme \<Rightarrow> bool \<Rightarrow> in_extra \<Rightarrow> RESPONSE_PARAMETERS option \<Rightarrow> unit tss" where
  "post_ContextSave L allowNull ie out = (case (fst ie, out) of
       (Some (Hierarchy_Parameters (In_ContextSave i)), Some (Hierarchy_Response (Out_ContextSave r))) \<Rightarrow> TSS_PO_ContextSave L allowNull i r
     | _ \<Rightarrow> undefined_behaviour)"

definition post_ContextLoad :: "'z crypto_scheme \<Rightarrow> bool \<Rightarrow> in_extra \<Rightarrow> RESPONSE_PARAMETERS option \<Rightarrow> unit tss" where
  "post_ContextLoad L allowNull ie out = (case (fst ie, out) of
       (Some (Hierarchy_Parameters (In_ContextLoad i)), Some (Hierarchy_Response (Out_ContextLoad r))) \<Rightarrow> TSS_PO_ContextLoad L allowNull i r
     | _ \<Rightarrow> undefined_behaviour)"

definition post_NV_ReadPublic :: "'z crypto_scheme \<Rightarrow> bool \<Rightarrow> in_extra \<Rightarrow> RESPONSE_PARAMETERS option \<Rightarrow> unit tss" where
  "post_NV_ReadPublic L allowNull ie out = (case (fst ie, out) of
       (Some (NV_Parameters (In_NV_ReadPublic i)), Some (NV_Response (Out_NV_ReadPublic r))) \<Rightarrow> TSS_PO_NV_ReadPublic L i r
     | _ \<Rightarrow> undefined_behaviour)"

definition post_HashSequenceStart :: "'z crypto_scheme \<Rightarrow> bool \<Rightarrow> in_extra \<Rightarrow> RESPONSE_PARAMETERS option \<Rightarrow> unit tss" where
  "post_HashSequenceStart L allowNull ie out = (case out of
       Some (Crypto_Response (Out_HashSequenceStart r)) \<Rightarrow> TSS_PO_HashSequenceStart r
     | _ \<Rightarrow> undefined_behaviour)"

definition post_HMAC_Start :: "'z crypto_scheme \<Rightarrow> bool \<Rightarrow> in_extra \<Rightarrow> RESPONSE_PARAMETERS option \<Rightarrow> unit tss" where
  "post_HMAC_Start L allowNull ie out = (case out of
       Some (Crypto_Response (Out_HMAC_Start r)) \<Rightarrow> TSS_PO_HMAC_Start r
     | _ \<Rightarrow> undefined_behaviour)"

definition post_FlushContext :: "'z crypto_scheme \<Rightarrow> bool \<Rightarrow> in_extra \<Rightarrow> RESPONSE_PARAMETERS option \<Rightarrow> unit tss" where
  "post_FlushContext L allowNull ie out = (case fst ie of
       Some (Hierarchy_Parameters (In_FlushContext i)) \<Rightarrow> TSS_PO_FlushContext i
     | _ \<Rightarrow> undefined_behaviour)"

definition post_EvictControl :: "'z crypto_scheme \<Rightarrow> bool \<Rightarrow> in_extra \<Rightarrow> RESPONSE_PARAMETERS option \<Rightarrow> unit tss" where
  "post_EvictControl L allowNull ie out = (case fst ie of
       Some (Hierarchy_Parameters (In_EvictControl i)) \<Rightarrow> TSS_PO_EvictControl allowNull i
     | _ \<Rightarrow> undefined_behaviour)"

definition post_SequenceComplete :: "'z crypto_scheme \<Rightarrow> bool \<Rightarrow> in_extra \<Rightarrow> RESPONSE_PARAMETERS option \<Rightarrow> unit tss" where
  "post_SequenceComplete L allowNull ie out = (case fst ie of
       Some (Crypto_Parameters (In_SequenceComplete i)) \<Rightarrow> TSS_PO_SequenceComplete i
     | _ \<Rightarrow> undefined_behaviour)"

definition post_EventSequenceComplete :: "'z crypto_scheme \<Rightarrow> bool \<Rightarrow> in_extra \<Rightarrow> RESPONSE_PARAMETERS option \<Rightarrow> unit tss" where
  "post_EventSequenceComplete L allowNull ie out = (case fst ie of
       Some (Crypto_Parameters (In_EventSequenceComplete i)) \<Rightarrow> TSS_PO_EventSequenceComplete i
     | _ \<Rightarrow> undefined_behaviour)"

definition post_PolicyAuthValue :: "'z crypto_scheme \<Rightarrow> bool \<Rightarrow> in_extra \<Rightarrow> RESPONSE_PARAMETERS option \<Rightarrow> unit tss" where
  "post_PolicyAuthValue L allowNull ie out = (case fst ie of
       Some (Policy_Parameters (In_PolicyAuthValue i)) \<Rightarrow> TSS_PO_PolicyAuthValue L i
     | _ \<Rightarrow> undefined_behaviour)"

definition post_PolicyPassword :: "'z crypto_scheme \<Rightarrow> bool \<Rightarrow> in_extra \<Rightarrow> RESPONSE_PARAMETERS option \<Rightarrow> unit tss" where
  "post_PolicyPassword L allowNull ie out = (case fst ie of
       Some (Policy_Parameters (In_PolicyPassword i)) \<Rightarrow> TSS_PO_PolicyPassword L i
     | _ \<Rightarrow> undefined_behaviour)"

definition post_NV_UndefineSpace :: "'z crypto_scheme \<Rightarrow> bool \<Rightarrow> in_extra \<Rightarrow> RESPONSE_PARAMETERS option \<Rightarrow> unit tss" where
  "post_NV_UndefineSpace L allowNull ie out = (case fst ie of
       Some (NV_Parameters (In_NV_UndefineSpace i)) \<Rightarrow> TSS_PO_NV_UndefineSpace i
     | _ \<Rightarrow> undefined_behaviour)"

definition post_NV_UndefineSpaceSpecial :: "'z crypto_scheme \<Rightarrow> bool \<Rightarrow> in_extra \<Rightarrow> RESPONSE_PARAMETERS option \<Rightarrow> unit tss" where
  "post_NV_UndefineSpaceSpecial L allowNull ie out = (case fst ie of
       Some (NV_Parameters (In_NV_UndefineSpaceSpecial i)) \<Rightarrow> TSS_PO_NV_UndefineSpaceSpecial i
     | _ \<Rightarrow> undefined_behaviour)"

definition post_NV_WriteLock :: "'z crypto_scheme \<Rightarrow> bool \<Rightarrow> in_extra \<Rightarrow> RESPONSE_PARAMETERS option \<Rightarrow> unit tss" where
  "post_NV_WriteLock L allowNull ie out = (case fst ie of
       Some (NV_Parameters (In_NV_WriteLock i)) \<Rightarrow> TSS_PO_NV_WriteLock L i
     | _ \<Rightarrow> undefined_behaviour)"

definition post_NV_ReadLock :: "'z crypto_scheme \<Rightarrow> bool \<Rightarrow> in_extra \<Rightarrow> RESPONSE_PARAMETERS option \<Rightarrow> unit tss" where
  "post_NV_ReadLock L allowNull ie out = (case fst ie of
       Some (NV_Parameters (In_NV_ReadLock i)) \<Rightarrow> TSS_PO_NV_ReadLock L i
     | _ \<Rightarrow> undefined_behaviour)"

definition post_NV_Write :: "'z crypto_scheme \<Rightarrow> bool \<Rightarrow> in_extra \<Rightarrow> RESPONSE_PARAMETERS option \<Rightarrow> unit tss" where
  "post_NV_Write L allowNull ie out = (case fst ie of
       Some (NV_Parameters (In_NV_Write i)) \<Rightarrow> TSS_PO_NV_Write L (NV_Write_In_nvIndex i)
     | Some (NV_Parameters (In_NV_Increment i)) \<Rightarrow> TSS_PO_NV_Write L (NV_Increment_In_nvIndex i)
     | Some (NV_Parameters (In_NV_Extend i)) \<Rightarrow> TSS_PO_NV_Write L (NV_Extend_In_nvIndex i)
     | Some (NV_Parameters (In_NV_SetBits i)) \<Rightarrow> TSS_PO_NV_Write L (NV_SetBits_In_nvIndex i)
     | _ \<Rightarrow> undefined_behaviour)"

type_synonym TSS_TABLE = "TPM_CC \<times> (in_extra \<Rightarrow> in_extra tss) option \<times>
  (TSS_HMAC_CONTEXT \<Rightarrow> 32 word \<Rightarrow> COMMAND_PARAMETERS option \<Rightarrow> TSS_HMAC_CONTEXT tss) option \<times>
  (in_extra \<Rightarrow> RESPONSE_PARAMETERS option \<Rightarrow> unit tss) option"

definition tssTable :: "'z crypto_scheme \<Rightarrow> bool \<Rightarrow> TSS_TABLE list" where
  "tssTable L allowNull =
   [
    (TPM_CC_Startup, None, None, None),
    (TPM_CC_Shutdown, None, None, None),
    (TPM_CC_SelfTest, None, None, None),
    (TPM_CC_IncrementalSelfTest, None, None, None),
    (TPM_CC_GetTestResult, None, None, None),
    (TPM_CC_StartAuthSession, Some (pre_StartAuthSession L allowNull), None, Some (post_StartAuthSession L allowNull)),
    (TPM_CC_PolicyRestart, None, None, None),
    (TPM_CC_Create, None, None, None),
    (TPM_CC_Load, None, None, None),
    (TPM_CC_LoadExternal, None, None, None),
    (TPM_CC_ReadPublic, None, None, None),
    (TPM_CC_ActivateCredential, None, None, None),
    (TPM_CC_MakeCredential, None, None, None),
    (TPM_CC_Unseal, None, None, None),
    (TPM_CC_ObjectChangeAuth, None, None, None),
    (TPM_CC_Duplicate, None, None, None),
    (TPM_CC_Rewrap, None, None, None),
    (TPM_CC_Import, None, None, None),
    (TPM_CC_RSA_Encrypt, None, None, None),
    (TPM_CC_RSA_Decrypt, None, None, None),
    (TPM_CC_ECDH_KeyGen, None, None, None),
    (TPM_CC_ECDH_ZGen, None, None, None),
    (TPM_CC_ECC_Parameters, None, None, None),
    (TPM_CC_ZGen_2Phase, None, None, None),
    (TPM_CC_EncryptDecrypt, None, None, None),
    (TPM_CC_Hash, None, None, None),
    (TPM_CC_HMAC, None, None, None),
    (TPM_CC_GetRandom, None, None, None),
    (TPM_CC_StirRandom, None, None, None),
    (TPM_CC_HMAC_Start, None, None, Some (post_HMAC_Start L allowNull)),
    (TPM_CC_HashSequenceStart, None, None, Some (post_HashSequenceStart L allowNull)),
    (TPM_CC_SequenceUpdate, None, None, None),
    (TPM_CC_SequenceComplete, None, None, Some (post_SequenceComplete L allowNull)),
    (TPM_CC_EventSequenceComplete, None, None, Some (post_EventSequenceComplete L allowNull)),
    (TPM_CC_Certify, None, None, None),
    (TPM_CC_CertifyCreation, None, None, None),
    (TPM_CC_Quote, None, None, None),
    (TPM_CC_GetSessionAuditDigest, None, None, None),
    (TPM_CC_GetCommandAuditDigest, None, None, None),
    (TPM_CC_GetTime, None, None, None),
    (TPM_CC_Commit, None, None, None),
    (TPM_CC_EC_Ephemeral, None, None, None),
    (TPM_CC_VerifySignature, None, None, None),
    (TPM_CC_Sign, None, None, None),
    (TPM_CC_SetCommandCodeAuditStatus, None, None, None),
    (TPM_CC_PCR_Extend, None, None, None),
    (TPM_CC_PCR_Event, None, None, None),
    (TPM_CC_PCR_Read, None, None, None),
    (TPM_CC_PCR_Allocate, None, None, None),
    (TPM_CC_PCR_SetAuthPolicy, None, None, None),
    (TPM_CC_PCR_SetAuthValue, None, None, None),
    (TPM_CC_PCR_Reset, None, None, None),
    (TPM_CC_PolicySigned, Some (pre_PolicySigned L allowNull), None, None),
    (TPM_CC_PolicySecret, None, None, None),
    (TPM_CC_PolicyTicket, None, None, None),
    (TPM_CC_PolicyOR, None, None, None),
    (TPM_CC_PolicyPCR, None, None, None),
    (TPM_CC_PolicyLocality, None, None, None),
    (TPM_CC_PolicyNV, None, None, None),
    (TPM_CC_PolicyCounterTimer, None, None, None),
    (TPM_CC_PolicyCommandCode, None, None, None),
    (TPM_CC_PolicyPhysicalPresence, None, None, None),
    (TPM_CC_PolicyCpHash, None, None, None),
    (TPM_CC_PolicyNameHash, None, None, None),
    (TPM_CC_PolicyDuplicationSelect, None, None, None),
    (TPM_CC_PolicyAuthorize, None, None, None),
    (TPM_CC_PolicyAuthValue, None, None, Some (post_PolicyAuthValue L allowNull)),
    (TPM_CC_PolicyPassword, None, None, Some (post_PolicyPassword L allowNull)),
    (TPM_CC_PolicyGetDigest, None, None, None),
    (TPM_CC_PolicyNvWritten, None, None, None),
    (TPM_CC_CreatePrimary, None, None, None),
    (TPM_CC_HierarchyControl, None, None, None),
    (TPM_CC_SetPrimaryPolicy, None, None, None),
    (TPM_CC_ChangePPS, None, None, None),
    (TPM_CC_ChangeEPS, None, None, None),
    (TPM_CC_Clear, None, None, None),
    (TPM_CC_ClearControl, None, None, None),
    (TPM_CC_HierarchyChangeAuth, None, Some change_HierarchyChangeAuth, None),
    (TPM_CC_DictionaryAttackLockReset, None, None, None),
    (TPM_CC_DictionaryAttackParameters, None, None, None),
    (TPM_CC_PP_Commands, None, None, None),
    (TPM_CC_SetAlgorithmSet, None, None, None),
    (TPM_CC_ContextSave, None, None, Some (post_ContextSave L allowNull)),
    (TPM_CC_ContextLoad, None, None, Some (post_ContextLoad L allowNull)),
    (TPM_CC_FlushContext, None, None, Some (post_FlushContext L allowNull)),
    (TPM_CC_EvictControl, None, None, Some (post_EvictControl L allowNull)),
    (TPM_CC_ReadClock, None, None, None),
    (TPM_CC_ClockSet, None, None, None),
    (TPM_CC_ClockRateAdjust, None, None, None),
    (TPM_CC_GetCapability, None, None, None),
    (TPM_CC_TestParms, None, None, None),
    (TPM_CC_NV_DefineSpace, Some (pre_NV_DefineSpace L allowNull), None, None),
    (TPM_CC_NV_UndefineSpace, None, None, Some (post_NV_UndefineSpace L allowNull)),
    (TPM_CC_NV_UndefineSpaceSpecial, None, Some change_NV_UndefineSpaceSpecial, Some (post_NV_UndefineSpaceSpecial L allowNull)),
    (TPM_CC_NV_ReadPublic, None, None, Some (post_NV_ReadPublic L allowNull)),
    (TPM_CC_NV_Write, None, None, Some (post_NV_Write L allowNull)),
    (TPM_CC_NV_Increment, None, None, Some (post_NV_Write L allowNull)),
    (TPM_CC_NV_Extend, None, None, Some (post_NV_Write L allowNull)),
    (TPM_CC_NV_SetBits, None, None, Some (post_NV_Write L allowNull)),
    (TPM_CC_NV_WriteLock, None, None, Some (post_NV_WriteLock L allowNull)),
    (TPM_CC_NV_GlobalWriteLock, None, None, None),
    (TPM_CC_NV_Read, None, None, None),
    (TPM_CC_NV_ReadLock, None, None, Some (post_NV_ReadLock L allowNull)),
    (TPM_CC_NV_ChangeAuth, None, Some change_NV_ChangeAuth, None),
    (TPM_CC_NV_Certify, None, None, None)
   ]"

definition tss_entry :: "'z crypto_scheme \<Rightarrow> bool \<Rightarrow> TPM_CC \<Rightarrow> TSS_TABLE option" where
  "tss_entry L allowNull cc = find (\<lambda>e. fst e = cc) (tssTable L allowNull)"

definition TSS_Command_PreProcessor :: "'z crypto_scheme \<Rightarrow> bool \<Rightarrow> TPM_CC \<Rightarrow> in_extra \<Rightarrow> in_extra tss" where
  "TSS_Command_PreProcessor L allowNull cc ie = (case tss_entry L allowNull cc of
       Some (_, Some preProcessFunction, _) \<Rightarrow> preProcessFunction ie
     | _ \<Rightarrow> e_return ie)"

definition TSS_Command_ChangeAuthProcessor :: "'z crypto_scheme \<Rightarrow> bool \<Rightarrow> TSS_HMAC_CONTEXT \<Rightarrow> 32 word \<Rightarrow> COMMAND_PARAMETERS option \<Rightarrow>
  TSS_HMAC_CONTEXT tss" where
  "TSS_Command_ChangeAuthProcessor L allowNull session handleNumber inp s =
     (case tss_entry L allowNull (TSS_GetCommandCode (tssAuthContext s)) of
        Some (_, _, Some changeAuthFunction, _) \<Rightarrow> changeAuthFunction session handleNumber inp s
      | _ \<Rightarrow> e_return session s)"

definition TSS_Response_PostProcessor :: "'z crypto_scheme \<Rightarrow> bool \<Rightarrow> in_extra \<Rightarrow> RESPONSE_PARAMETERS option \<Rightarrow> unit tss" where
  "TSS_Response_PostProcessor L allowNull ie out s =
     (case tss_entry L allowNull (TSS_GetCommandCode (tssAuthContext s)) of
        Some (_, _, _, Some postProcessFunction) \<Rightarrow> postProcessFunction ie out s
      | _ \<Rightarrow> e_return () s)"

end
