(* ===== verification/Tss_Execute.thy ===== *)
theory Tss_Execute
  imports Tss_Process
begin

text \<open>
  \<^verbatim>\<open>TSS_Execute\<close> and \<^verbatim>\<open>TSS_Execute_valist\<close> of \<^verbatim>\<open>libtss2/tss.c\<close>: a command with its sessions, from the parameters of the caller
  to those of the response. The arguments of a command with a variable number of them are a list of triples (session handle, password,
  attributes) that \<open>TPM_RH_NULL\<close> ends; an argument that was not passed is read as \<open>None\<close>. \<^verbatim>\<open>TSS_Transmit\<close> is a parameter.
\<close>

type_synonym vararg = "TPM_HANDLE \<times> byte list option \<times> 32 word"

type_synonym transmit = "byte list \<Rightarrow> byte list \<Rightarrow> 32 word \<times> byte list \<times> 32 word"

section \<open>Loops and calls\<close>

text \<open>A loop that stops at the first error.\<close>

fun e_map :: "('a \<Rightarrow> ('s, 'b) effect) \<Rightarrow> 'a list \<Rightarrow> ('s, 'b list) effect" where
  "e_map f [] = e_return []"
| "e_map f (x # xs) = e_bind (f x) (\<lambda>y. e_bind (e_map f xs) (\<lambda>ys. e_return (y # ys)))"

text \<open>A function of the authorization context that returns a code and changes it.\<close>

definition e_context :: "(TSS_AUTH_CONTEXT \<Rightarrow> (32 word \<times> TSS_AUTH_CONTEXT) option) \<Rightarrow> unit tss" where
  "e_context f s = (case f (tssAuthContext s) of
       None \<Rightarrow> None
     | Some (rc, c) \<Rightarrow> Some (if rc = 0 then Inr () else Inl rc, s\<lparr>tssAuthContext := c\<rparr>))"

text \<open>One that gives the new context when it does not fail, and leaves the old one when it fails.\<close>

definition e_update :: "(TSS_AUTH_CONTEXT \<Rightarrow> TSS_AUTH_CONTEXT result) \<Rightarrow> unit tss" where
  "e_update f s = (case f (tssAuthContext s) of
       None \<Rightarrow> None
     | Some (Inl rc) \<Rightarrow> Some (Inl rc, s)
     | Some (Inr c) \<Rightarrow> Some (Inr (), s\<lparr>tssAuthContext := c\<rparr>))"

text \<open>One that only reads it.\<close>

definition e_read :: "(TSS_AUTH_CONTEXT \<Rightarrow> 'a result) \<Rightarrow> 'a tss" where
  "e_read f s = e_lift (f (tssAuthContext s)) s"

section \<open>The sessions of a command\<close>

definition empty_auth :: TPMS_AUTH_COMMAND where
  "empty_auth = \<lparr>TPMS_AUTH_COMMAND_sessionHandle = 0, TPMS_AUTH_COMMAND_nonce = empty_TPM2B,
     TPMS_AUTH_COMMAND_sessionAttributes = 0, TPMS_AUTH_COMMAND_hmac = empty_TPM2B\<rparr>"

definition no_names :: "TPM2B list" where
  "no_names = [empty_TPM2B, empty_TPM2B, empty_TPM2B]"

text \<open>The names, which are computed for the first session that is not a password.\<close>

definition names_of :: "TPM2B list option \<Rightarrow> TPM2B list tss" where
  "names_of names = (case names of
       Some ns \<Rightarrow> e_return ns
     | None \<Rightarrow> e_bind (TSS_Name_GetAllNames (map Some no_names)) (\<lambda>ns. e_return (map the ns)))"

text \<open>Step 2, with the rounds that are left, the arguments that are left, and the names when they are there.\<close>

fun gather :: "'z crypto_scheme \<Rightarrow> nat \<Rightarrow> vararg list \<Rightarrow> TPM2B list option \<Rightarrow> (slot list \<times> TPM2B list option) tss" where
  "gather L 0 args names = e_return ([], names)"
| "gather L (Suc n) [] names = undefined_behaviour"
| "gather L (Suc n) ((handle, password, attributes) # args) names =
     (let slot = \<lparr>sl_handle = handle, sl_password = password, sl_attributes = ucast attributes, sl_session = None, sl_auth = empty_auth\<rparr> in
      if handle = TPM_RH_NULL then e_return ([], names)
      else if handle = TPM_RS_PW then
        e_bind (e_lift (TSS_PwapSession_Set password)) (\<lambda>auth.
        e_bind (gather L n args names) (\<lambda>(slots, names).
        e_return (slot\<lparr>sl_auth := auth\<rparr> # slots, names)))
      else
        e_bind (names_of names) (\<lambda>ns.
        e_bind (TSS_HmacSession_LoadSession L handle) (\<lambda>session.
        e_bind (gather L n args (Some ns)) (\<lambda>(slots, names).
        e_return (slot\<lparr>sl_session := Some session\<rparr> # slots, names)))))"

text \<open>A loop over the sessions that are not passwords.\<close>

definition for_sessions :: "(nat \<Rightarrow> slot \<Rightarrow> TSS_HMAC_CONTEXT \<Rightarrow> slot tss) \<Rightarrow> slot list \<Rightarrow> slot list tss" where
  "for_sessions f slots =
     e_map (\<lambda>(i, sl). if sl_handle sl = TPM_RS_PW then e_return sl
                      else case sl_session sl of None \<Rightarrow> undefined_behaviour | Some session \<Rightarrow> f i sl session)
       (enumerate 0 slots)"

definition roll_nonce :: "nat \<Rightarrow> slot \<Rightarrow> TSS_HMAC_CONTEXT \<Rightarrow> slot tss" where
  "roll_nonce i sl session =
     e_bind (TSS_HmacSession_SetNonceCaller session) (\<lambda>(session, nonce).
     e_return (sl\<lparr>sl_session := Some session, sl_auth := (sl_auth sl)\<lparr>TPMS_AUTH_COMMAND_nonce := nonce\<rparr>\<rparr>))"

definition calculate_key :: "nat \<Rightarrow> slot \<Rightarrow> TSS_HMAC_CONTEXT \<Rightarrow> slot tss" where
  "calculate_key i sl session =
     e_bind (TSS_HmacSession_SetHmacKey session (of_nat i) (sl_password sl)) (\<lambda>session.
     e_return (sl\<lparr>sl_session := Some session\<rparr>))"

text \<open>Step 10.\<close>

definition has_hmac :: "TSS_HMAC_CONTEXT \<Rightarrow> bool" where
  "has_hmac session \<longleftrightarrow> s_sessionType session = TPM_SE_HMAC \<or> (s_sessionType session = TPM_SE_POLICY \<and> s_isAuthValueNeeded session \<noteq> 0)"

definition verify_session :: "'z crypto_scheme \<Rightarrow> bool \<Rightarrow> COMMAND_PARAMETERS option \<Rightarrow> nat \<Rightarrow> TSS_HMAC_CONTEXT \<Rightarrow> TPMS_AUTH_RESPONSE \<Rightarrow>
  TSS_HMAC_CONTEXT tss" where
  "verify_session L allowNull inp i session authR =
     e_bind (e_lift (TSS_TPM2B_Copy 128 (TPMS_AUTH_RESPONSE_nonce authR) sizeof_TPMU_HA)) (\<lambda>nonceTPM.
     let session = session\<lparr>s_nonceTPM := nonceTPM\<rparr> in
     if has_hmac session then
       e_bind (TSS_Command_ChangeAuthProcessor L allowNull session (of_nat i) inp) (\<lambda>session.
       e_bind (e_read (\<lambda>c. TSS_HmacSession_Verify L c session authR)) (\<lambda>_.
       e_return session))
     else e_return session)"

definition verify_slot :: "'z crypto_scheme \<Rightarrow> bool \<Rightarrow> COMMAND_PARAMETERS option \<Rightarrow> nat \<times> slot \<times> TPMS_AUTH_RESPONSE \<Rightarrow> slot tss" where
  "verify_slot L allowNull inp = (\<lambda>(i, sl, authR).
     if sl_handle sl = TPM_RS_PW then e_bind (e_lift (TSS_PwapSession_Verify authR)) (\<lambda>_. e_return sl)
     else (case sl_session sl of
         None \<Rightarrow> undefined_behaviour
       | Some session \<Rightarrow> e_bind (verify_session L allowNull inp i session authR) (\<lambda>session. e_return (sl\<lparr>sl_session := Some session\<rparr>))))"

definition verify_slots :: "'z crypto_scheme \<Rightarrow> bool \<Rightarrow> COMMAND_PARAMETERS option \<Rightarrow> slot list \<Rightarrow> TPMS_AUTH_RESPONSE list \<Rightarrow> slot list tss" where
  "verify_slots L allowNull inp slots authRs =
     (if length authRs = length slots then e_map (verify_slot L allowNull inp) (enumerate 0 (zip slots authRs)) else undefined_behaviour)"

text \<open>Step 11: a session that was used for an audit loses its binding.\<close>

definition audit_slot :: "slot \<Rightarrow> TPMS_AUTH_RESPONSE \<Rightarrow> slot" where
  "audit_slot sl authR =
     (if sl_handle sl \<noteq> TPM_RS_PW \<and> TPMS_AUTH_RESPONSE_sessionAttributes authR AND TPMA_SESSION_AUDIT \<noteq> 0
      then sl\<lparr>sl_session := map_option (\<lambda>session. session\<lparr>s_bind := TPM_RH_NULL\<rparr>) (sl_session sl)\<rparr> else sl)"

text \<open>Step 12.\<close>

definition continue_slot :: "'z crypto_scheme \<Rightarrow> slot \<times> TPMS_AUTH_RESPONSE \<Rightarrow> unit tss" where
  "continue_slot L = (\<lambda>(sl, authR).
     if sl_handle sl = TPM_RS_PW then e_return ()
     else (case sl_session sl of None \<Rightarrow> undefined_behaviour | Some session \<Rightarrow> TSS_HmacSession_Continue L session authR))"

section \<open>Execution\<close>

text \<open>Steps 2 to 7: the command with its authorizations.\<close>

definition set_auths :: "slot list \<Rightarrow> TPMS_AUTH_COMMAND list \<Rightarrow> slot list" where
  "set_auths slots auths = map2 (\<lambda>sl a. sl\<lparr>sl_auth := a\<rparr>) slots auths"

definition authorize_command :: "'z crypto_scheme \<Rightarrow> vararg list \<Rightarrow> slot list tss" where
  "authorize_command L ap =
     e_bind (gather L MAX_SESSION_NUM ap None) (\<lambda>(slots, names).
     e_bind (for_sessions roll_nonce slots) (\<lambda>slots.
     e_bind (for_sessions calculate_key slots) (\<lambda>slots.
     e_bind (e_update (\<lambda>c. TSS_Command_Decrypt L c slots)) (\<lambda>_.
     e_bind (e_read (\<lambda>c. TSS_HmacSession_SetHMAC L c slots (case names of None \<Rightarrow> no_names | Some ns \<Rightarrow> ns))) (\<lambda>auths.
     e_bind (e_context (\<lambda>c. TSS_SetCmdAuths c auths)) (\<lambda>_.
     e_return (set_auths slots auths)))))))"

text \<open>Steps 9 to 13: the authorizations of the response.\<close>

definition check_response :: "'z crypto_scheme \<Rightarrow> bool \<Rightarrow> COMMAND_PARAMETERS option \<Rightarrow> slot list \<Rightarrow> unit tss" where
  "check_response L allowNull inp slots =
     e_bind (e_read (\<lambda>c. TSS_GetRspAuths c (length slots))) (\<lambda>authRs.
     e_bind (verify_slots L allowNull inp slots authRs) (\<lambda>slots.
     let slots = map2 audit_slot slots authRs in
     e_bind (e_map (continue_slot L) (zip slots authRs)) (\<lambda>_.
     e_update (\<lambda>c. TSS_Response_Encrypt L c slots))))"

definition TSS_Execute_valist :: "'z crypto_scheme \<Rightarrow> bool \<Rightarrow> transmit \<Rightarrow> COMMAND_PARAMETERS option \<Rightarrow> vararg list \<Rightarrow> unit tss" where
  "TSS_Execute_valist L allowNull transmit inp ap =
     e_bind (authorize_command L ap) (\<lambda>slots.
     e_bind (e_context (\<lambda>c. Some (TSS_AuthExecute transmit c))) (\<lambda>_.
     check_response L allowNull inp slots))"

text \<open>\<open>out\<close> says whether the caller gives a place for the response; the parameters of the caller are returned as they were changed.\<close>

definition TSS_Execute :: "'z crypto_scheme \<Rightarrow> bool \<Rightarrow> (nat \<Rightarrow> TPM_HANDLE) \<Rightarrow> transmit \<Rightarrow> bool \<Rightarrow> in_extra \<Rightarrow> TPM_CC \<Rightarrow> vararg list \<Rightarrow>
  (in_extra \<times> RESPONSE_PARAMETERS option) tss" where
  "TSS_Execute L allowNull handles transmit out ie cc ap =
     e_bind (e_context (\<lambda>c. Some (0, TSS_InitAuthContext c))) (\<lambda>_.
     e_bind (TSS_Command_PreProcessor L allowNull cc ie) (\<lambda>ie.
     e_bind (e_context (\<lambda>c. TSS_Marshal handles c (fst ie) cc)) (\<lambda>_.
     e_bind (TSS_Execute_valist L allowNull transmit (fst ie) ap) (\<lambda>_.
     e_bind (e_read (\<lambda>c. TSS_Unmarshal c out)) (\<lambda>response.
     e_bind (TSS_Response_PostProcessor L allowNull ie response) (\<lambda>_.
     e_return (ie, response)))))))"

end
