(* ===== verification/Tss_Dispatch.thy ===== *)
theory Tss_Dispatch
  imports Tss_Params
begin

text \<open>
  The contract that \<open>command_ok\<close> states of an entry of the dispatch table: its functions are each other's inverse, and the
  attributes of the command say how many handles they read and write, whether their first parameter starts with a size,
  as parameter encryption needs, and which handles are authorized. It is proved of every entry.
\<close>

section \<open>The contract of an entry\<close>

text \<open>The bytes of the handle area: \<open>n\<close> handles.\<close>

definition handle_area :: "nat \<Rightarrow> (nat \<Rightarrow> TPM_HANDLE) \<Rightarrow> byte list" where
  "handle_area n handles = concat (map (\<lambda>i. be32 (handles i)) [0..<n])"

text \<open>The handles that a command is checked with do not decide whether the check passes, only what the target holds.\<close>

definition same_outcome :: "'a ures \<Rightarrow> 'a ures \<Rightarrow> bool" where
  "same_outcome r s \<longleftrightarrow> (case (r, s) of
      (Ok _ b, Ok _ b') \<Rightarrow> b = b'
    | (Fail rc b, Fail rc' b') \<Rightarrow> rc = rc' \<and> b = b'
    | (Overread, Overread) \<Rightarrow> True
    | _ \<Rightarrow> False)"

lemma same_return: "same_outcome (u_return v b) (u_return w b)"
  by (simp add: same_outcome_def u_return_def)

lemma same_bind: "(\<And>v b. same_outcome (f v b) (g v b)) \<Longrightarrow> same_outcome (u_bind u f b) (u_bind u g b)"
  by (cases "u b") (simp_all add: same_outcome_def u_bind_def)

lemma u_map_apply:
  "u_map f u b = (case u b of Ok v b' \<Rightarrow> Ok (f v) b' | Fail rc b' \<Rightarrow> Fail rc b' | Overread \<Rightarrow> Overread)"
  by (simp add: u_map_def u_bind_def u_return_def split: ures.split)

text \<open>A parameter that starts with its size, and parameters of which the first does.\<close>

definition be16 :: "16 word \<Rightarrow> byte list" where
  "be16 w = [ucast (drop_bit 8 w), ucast w]"

definition sized_tail :: "16 word \<Rightarrow> 'a unmarshal \<Rightarrow> bool" where
  "sized_tail n u \<longleftrightarrow> (\<forall>b v b'. u_good b \<longrightarrow> u b = Ok v b' \<longrightarrow> (\<exists>xs. consumed b xs b' \<and> length xs = unat n))"

definition sized_param :: "'a unmarshal \<Rightarrow> bool" where
  "sized_param u \<longleftrightarrow> (\<forall>b v b'. u_good b \<longrightarrow> u b = Ok v b' \<longrightarrow> (\<exists>n xs. consumed b (be16 n @ xs) b' \<and> length xs = unat n))"

definition first_sized :: "'a unmarshal \<Rightarrow> bool" where
  "first_sized u \<longleftrightarrow> (\<forall>b v b'. u_good b \<longrightarrow> u b = Ok v b' \<longrightarrow> (\<exists>n xs r. rest b = be16 n @ xs @ r \<and> length xs = unat n \<and>
     int (2 + length xs) \<le> avail b))"

named_theorems sized_intro "parameters that start with their size"

lemma emits_be16: "emits k (TSS_UINT16_Marshal w) 0 (be16 w)"
  using emits_UINT16 [of k w] by (simp add: be16_def ucast_low_byte)

lemma sized_bind [sized_intro]:
  assumes f: "\<And>n. sized_tail n (f n)"
  shows "sized_param (u_bind UINT16_Unmarshal f)"
  unfolding sized_param_def
proof (intro allI impI)
  fix b v b' assume b: "u_good b" and r: "u_bind UINT16_Unmarshal f b = Ok v b'"
  from r obtain n b1 where n: "UINT16_Unmarshal b = Ok n b1" "f n b1 = Ok v b'"
    by (auto simp: u_bind_def split: ures.splits)
  from UINT16_codec [of 0] b obtain bs where c: "consumed b bs b1" "emits 0 (TSS_UINT16_Marshal n) 0 bs"
    by (cases rule: readsE) (use n in auto)
  have "bs = be16 n" by (rule emits_unique [OF c(2) emits_be16])
  with c(1) have c1: "consumed b (be16 n) b1" by simp
  from f n(2) consumed_good [OF b c1] obtain xs where "consumed b1 xs b'" "length xs = unat n"
    unfolding sized_tail_def by blast
  with consumed_append [OF c1] show "\<exists>n xs. consumed b (be16 n @ xs) b' \<and> length xs = unat n" by blast
qed

lemma sized_guard [sized_intro]: "sized_tail n u \<Longrightarrow> sized_tail n (u_guard c e u)"
  by (simp add: sized_tail_def u_guard_def u_fail_def)

lemma sized_then_return [sized_intro]: "sized_tail n u \<Longrightarrow> sized_tail n (u_bind u (\<lambda>v. u_return (f v)))"
  by (fastforce simp: sized_tail_def u_bind_def u_return_def split: ures.splits)

lemma sized_array [sized_intro]: "sized_tail n (Array_Unmarshal n)"
  unfolding sized_tail_def
proof (intro allI impI)
  fix b v b' assume b: "u_good b" and r: "Array_Unmarshal n b = Ok v b'"
  from r have n: "int (unat n) \<le> avail b" by (auto simp: Array_Unmarshal_def split: if_splits)
  with b have "s32 (avail b - int (unat n)) = avail b - int (unat n)"
    by (intro s32_id) (auto simp: u_good_def intro: le_less_trans [of _ "avail b"])
  with r b n have "consumed b (take (unat n) (rest b)) b' \<and> length (take (unat n) (rest b)) = unat n"
    by (auto simp: Array_Unmarshal_def u_take_def consumed_def u_good_def split: if_splits)
  then show "\<exists>xs. consumed b xs b' \<and> length xs = unat n" by blast
qed

lemma sized_exactly: "reads_e E k ps u m \<Longrightarrow> sized_tail n (u_exactly n u)"
  unfolding sized_tail_def
proof (intro allI impI)
  fix b v b' assume c: "reads_e E k ps u m" and b: "u_good b" and r: "u_exactly n u b = Ok v b'"
  from r have u: "u b = Ok v b'" and n: "int (unat n) = s32 (avail b - avail b')"
    by (auto simp: u_exactly_eq split: ures.splits if_splits)
  from c b obtain bs where bs: "consumed b bs b'" by (cases rule: readsE) (use u in auto)
  with b have "s32 (avail b - avail b') = int (length bs)"
    by (auto simp: consumed_def u_good_def intro!: s32_id)
  with n have "length bs = unat n" by linarith
  with bs show "\<exists>xs. consumed b xs b' \<and> length xs = unat n" by blast
qed

lemma sized_optional:
  "reads_e E k ps u m \<Longrightarrow> sized_tail n (if n \<noteq> 0 then u_bind (u_exactly n u) (\<lambda>v. u_return (f v)) else u_return w)"
  by (simp add: sized_then_return sized_exactly) (simp add: sized_tail_def u_return_def)

lemma sized_add_rc [sized_intro]: "sized_param u \<Longrightarrow> sized_param (u_add_rc e u)"
  by (fastforce simp: sized_param_def u_add_rc_def split: ures.splits)

lemma sized_TPM2B [sized_intro]: "sized_param (TPM2B_Unmarshal n)"
  unfolding TPM2B_Unmarshal_def by (intro sized_intro)

lemma first_sized_bind [sized_intro]:
  assumes "sized_param u"
  shows "first_sized (u_bind u f)"
  unfolding first_sized_def
proof (intro allI impI)
  fix b v b' assume b: "u_good b" and r: "u_bind u f b = Ok v b'"
  from r obtain x b1 where "u b = Ok x b1" by (auto simp: u_bind_def split: ures.splits)
  with assms b obtain n xs where "consumed b (be16 n @ xs) b1" "length xs = unat n" unfolding sized_param_def by blast
  then have "rest b = be16 n @ xs @ rest b1 \<and> length xs = unat n \<and> int (2 + length xs) \<le> avail b"
    by (simp add: consumed_def be16_def)
  then show "\<exists>n xs r. rest b = be16 n @ xs @ r \<and> length xs = unat n \<and> int (2 + length xs) \<le> avail b" by blast
qed

lemma first_sized_map: "first_sized u \<Longrightarrow> first_sized (u_map C u)"
  unfolding first_sized_def by (fastforce simp: u_map_apply split: ures.splits)

text \<open>
  The parameters of a command with \<open>h\<close> handles: what the unmarshal function reads, with the handles it is given, is what the
  marshal function writes after those handles. The constant 2 is the number of bytes by which the size of a structure may
  pass the end of the buffer.
\<close>

definition params_ok :: "32 word \<Rightarrow> bool \<Rightarrow> (COMMAND_PARAMETERS \<Rightarrow> marshal) option \<Rightarrow>
  ((nat \<Rightarrow> TPM_HANDLE) \<Rightarrow> COMMAND_PARAMETERS unmarshal) option \<Rightarrow> bool" where
  "params_ok h decrypt mo uo \<longleftrightarrow> (case (mo, uo) of
      (Some m, Some u) \<Rightarrow>
        (\<forall>handles. reads_e param_error 2 (handle_area (unat h) handles) (u handles) m) \<and>
        (\<forall>handles handles' b. same_outcome (u handles b) (u handles' b)) \<and>
        (\<forall>handles. decrypt \<longrightarrow> first_sized (u handles))
    | (None, None) \<Rightarrow> h = 0 \<and> \<not> decrypt
    | _ \<Rightarrow> False)"

text \<open>A response has at most one handle, then its parameter size if it has sessions, then its parameters.\<close>

definition four_bytes :: "'a unmarshal \<Rightarrow> nat \<Rightarrow> bool" where
  "four_bytes u r \<longleftrightarrow> (\<forall>b h b'. u_good b \<longrightarrow> u b = Ok h b' \<longrightarrow> (\<exists>bs. consumed b bs b' \<and> length bs = 4 * r \<and> parses u bs h))"

definition response_ok :: "32 word \<Rightarrow> bool \<Rightarrow> (TPM_ST \<Rightarrow> RESPONSE_PARAMETERS unmarshal) option \<Rightarrow> bool" where
  "response_ok r encrypt fo \<longleftrightarrow> (case fo of None \<Rightarrow> r = 0 \<and> \<not> encrypt | Some f \<Rightarrow>
     (\<exists>(hu :: TPM_HANDLE unmarshal) g. four_bytes hu (unat r) \<and> (\<forall>h. encrypt \<longrightarrow> first_sized (g h)) \<and>
        (\<forall>tag. f tag = u_bind hu (\<lambda>h. u_bind (u_when (tag = TPM_ST_SESSIONS) UINT32_Unmarshal) (\<lambda>_. g h)))) \<and>
     (\<forall>tag. delivers (\<lambda>_. True) (f tag)))"

text \<open>A role belongs to a handle that the command has.\<close>

definition roles_ok :: "COMMAND_INDEX \<Rightarrow> 32 word \<Rightarrow> bool" where
  "roles_ok i h \<longleftrightarrow> (getCommandAuthRole i 0 = Some AUTH_NONE \<or> h \<ge> 1) \<and> (getCommandAuthRole i 1 = Some AUTH_NONE \<or> h \<ge> 2)"

definition command_ok :: "MARSHAL_TABLE \<Rightarrow> bool" where
  "command_ok e \<longleftrightarrow> (\<exists>i h r d n. CommandCodeToCommandIndex (mt_commandCode e) = Some i \<and> i \<noteq> UNIMPLEMENTED_COMMAND_INDEX \<and>
     getCommandHandleCount i = Some h \<and> getresponseHandleCount i = Some r \<and>
     getDecryptSize i = Some d \<and> getEncryptSize i = Some n \<and> d \<in> {0, 2} \<and> n \<in> {0, 2} \<and>
     unat h \<le> 3 \<and> unat r \<le> 1 \<and> roles_ok i h \<and>
     params_ok h (d = 2) (mt_marshalFunction e) (mt_unmarshalInFunction e) \<and>
     response_ok r (n = 2) (mt_unmarshalFunction e))"

lemma command_okI:
  assumes "e = \<lparr>mt_commandCode = cc, mt_commandText = t, mt_marshalFunction = m, mt_unmarshalFunction = f,
      mt_unmarshalInFunction = u\<rparr>"
    and "CommandCodeToCommandIndex cc = Some i" "getCommandHandleCount i = Some h" "getresponseHandleCount i = Some r"
    and "getDecryptSize i = Some d" "getEncryptSize i = Some n" "roles_ok i h"
    and "i \<noteq> UNIMPLEMENTED_COMMAND_INDEX \<and> unat h \<le> 3 \<and> unat r \<le> 1 \<and> d \<in> {0, 2} \<and> n \<in> {0, 2}"
    and "params_ok h (d = 2) m u" "response_ok r (n = 2) f"
  shows "command_ok e"
  using assms by (simp add: command_ok_def)

lemma parses_map: "parses u bs v \<Longrightarrow> w = f v \<Longrightarrow> parses (u_map f u) bs w"
  by (simp add: parses_def u_map_def u_bind_def u_return_def)

lemma in_ok:
  assumes s: "\<And>x. sel (C (D x)) = Some x" and r: "\<And>handles. reads_e param_error 2 (handle_area (unat h) handles) (u handles) m"
    and o: "\<And>handles handles' b. same_outcome (u handles b) (u handles' b)"
    and d: "\<And>handles. decrypt \<Longrightarrow> first_sized (u handles)"
  shows "params_ok h decrypt (Some (in_marshal sel m)) (Some (in_unmarshal (C \<circ> D) u))"
proof -
  have "reads_e param_error 2 (handle_area (unat h) handles) (in_unmarshal (C \<circ> D) u handles) (in_marshal sel m)" for handles
    unfolding reads_e_def
  proof (intro allI impI)
    fix b assume "u_good b"
    with r [of handles] show "case in_unmarshal (C \<circ> D) u handles b of
        Ok v b' \<Rightarrow> \<exists>bs. consumed b bs b' \<and> parses (in_unmarshal (C \<circ> D) u handles) bs v \<and>
          emits 2 (in_marshal sel m v) 0 (handle_area (unat h) handles @ bs)
      | Fail rc b' \<Rightarrow> param_error rc \<and> (\<exists>bs. consumed b bs b') | Overread \<Rightarrow> False"
      by (cases rule: readsE)
        (auto simp: in_unmarshal_def in_marshal_def u_map_apply s intro!: exI conjI elim!: parses_map)
  qed
  moreover have "same_outcome (in_unmarshal (C \<circ> D) u handles b) (in_unmarshal (C \<circ> D) u handles' b)" for handles handles' b
    using o [of handles b handles'] by (cases "u handles b"; cases "u handles' b") (simp_all add: in_unmarshal_def same_outcome_def u_map_apply)
  moreover have "decrypt \<longrightarrow> first_sized (in_unmarshal (C \<circ> D) u handles)" for handles
    using d by (simp add: in_unmarshal_def first_sized_map)
  ultimately show ?thesis by (simp add: params_ok_def)
qed

lemma handle_area_simps [simp]:
  "handle_area 0 handles = []" "handle_area (Suc 0) handles = be32 (handles 0)"
  "handle_area 2 handles = be32 (handles 0) @ be32 (handles 1)"
  "handle_area 3 handles = be32 (handles 0) @ be32 (handles 1) @ be32 (handles 2)"
  by (simp_all add: handle_area_def numeral_eq_Suc)

lemma in_ok0:
  assumes "\<And>x. sel (C (D x)) = Some x" "\<And>handles. reads_e param_error 2 [] (u handles) m"
    "\<And>handles handles' b. same_outcome (u handles b) (u handles' b)"
    "\<And>handles. decrypt \<Longrightarrow> first_sized (u handles)"
  shows "params_ok 0 decrypt (Some (in_marshal sel m)) (Some (in_unmarshal (C \<circ> D) u))"
  by (rule in_ok) (use assms in simp_all)

lemma in_ok1:
  assumes "\<And>x. sel (C (D x)) = Some x" "\<And>handles. reads_e param_error 2 (be32 (handles 0)) (u handles) m"
    "\<And>handles handles' b. same_outcome (u handles b) (u handles' b)"
    "\<And>handles. decrypt \<Longrightarrow> first_sized (u handles)"
  shows "params_ok 1 decrypt (Some (in_marshal sel m)) (Some (in_unmarshal (C \<circ> D) u))"
  by (rule in_ok) (use assms in simp_all)

lemma in_ok2:
  assumes "\<And>x. sel (C (D x)) = Some x" "\<And>handles. reads_e param_error 2 (be32 (handles 0) @ be32 (handles 1)) (u handles) m"
    "\<And>handles handles' b. same_outcome (u handles b) (u handles' b)"
    "\<And>handles. decrypt \<Longrightarrow> first_sized (u handles)"
  shows "params_ok 2 decrypt (Some (in_marshal sel m)) (Some (in_unmarshal (C \<circ> D) u))"
  by (rule in_ok) (use assms in simp_all)

lemma in_ok3:
  assumes "\<And>x. sel (C (D x)) = Some x" "\<And>handles. reads_e param_error 2 (be32 (handles 0) @ be32 (handles 1) @ be32 (handles 2)) (u handles) m"
    "\<And>handles handles' b. same_outcome (u handles b) (u handles' b)"
    "\<And>handles. decrypt \<Longrightarrow> first_sized (u handles)"
  shows "params_ok 3 decrypt (Some (in_marshal sel m)) (Some (in_unmarshal (C \<circ> D) u))"
  by (rule in_ok) (use assms in simp_all)

lemma no_params_ok: "params_ok 0 (0 = (2 :: int)) None None"
  by (simp add: params_ok_def)

lemma no_response_ok: "response_ok 0 (0 = (2 :: int)) None"
  by (simp add: response_ok_def)

lemma u_bind_assoc: "u_bind (u_bind u f) g = u_bind u (\<lambda>v. u_bind (f v) g)"
  by (rule ext) (simp add: u_bind_def split: ures.split)

lemma u_bind_return: "u_bind (u_return v) f = f v"
  by (rule ext) (simp add: u_bind_def u_return_def)

lemma out_delivers: "delivers P u \<Longrightarrow> delivers (\<lambda>_. True) (u_map C u)"
  by (rule delivers_map) (auto intro: delivers_mono)

lemma out_ok0:
  assumes "\<And>tag. f tag = u_bind (u_when (tag = TPM_ST_SESSIONS) UINT32_Unmarshal) (\<lambda>_. g)" "\<And>tag. delivers P (f tag)" "encrypt \<Longrightarrow> first_sized g"
  shows "response_ok 0 encrypt (Some (out_unmarshal C f))"
proof -
  have "four_bytes (u_return (0 :: TPM_HANDLE)) 0"
    by (auto simp: four_bytes_def u_return_def parses_def)
  moreover have "out_unmarshal C f tag = u_bind (u_return (0 :: TPM_HANDLE)) (\<lambda>h.
      u_bind (u_when (tag = TPM_ST_SESSIONS) UINT32_Unmarshal) (\<lambda>_. u_map C g))" for tag
    by (simp only: out_unmarshal_def assms(1) u_map_def u_bind_assoc u_bind_return)
  moreover have "delivers (\<lambda>_. True) (out_unmarshal C f tag)" for tag
    using out_delivers [OF assms(2)] by (simp add: out_unmarshal_def)
  moreover have "encrypt \<longrightarrow> first_sized (u_map C g)" using assms(3) by (simp add: first_sized_map)
  ultimately show ?thesis by (auto simp only: response_ok_def option.case unat_0)
qed

lemma out_ok1:
  assumes "\<And>tag. f tag = u_bind hu (\<lambda>h. u_bind (u_when (tag = TPM_ST_SESSIONS) UINT32_Unmarshal) (\<lambda>_. g h))"
    and "\<And>tag. delivers P (f tag)" and c: "reads_e E 0 [] hu m" and e: "\<And>h. emits 0 (m h) 0 (be32 h)"
    and s: "\<And>h. encrypt \<Longrightarrow> first_sized (g h)"
  shows "response_ok 1 encrypt (Some (out_unmarshal C f))"
proof -
  have "four_bytes hu 1"
    unfolding four_bytes_def
  proof (intro allI impI)
    fix b h b' assume "u_good b" and h: "hu b = Ok h b'"
    with c obtain bs where "consumed b bs b'" "parses hu bs h" "emits 0 (m h) 0 bs" by (cases rule: readsE) auto
    moreover from emits_unique [OF this(3) e] have "length bs = 4" by (simp add: be32_def)
    ultimately show "\<exists>bs. consumed b bs b' \<and> length bs = 4 * 1 \<and> parses hu bs h" by auto
  qed
  moreover have "out_unmarshal C f tag = u_bind hu (\<lambda>h.
      u_bind (u_when (tag = TPM_ST_SESSIONS) UINT32_Unmarshal) (\<lambda>_. u_map C (g h)))" for tag
    by (simp only: out_unmarshal_def assms(1) u_map_def u_bind_assoc)
  moreover have "delivers (\<lambda>_. True) (out_unmarshal C f tag)" for tag
    using out_delivers [OF assms(2)] by (simp add: out_unmarshal_def)
  moreover have "encrypt \<longrightarrow> first_sized (u_map C (g h))" for h using s by (simp add: first_sized_map)
  ultimately show ?thesis unfolding response_ok_def option.case unat_1
    by (intro conjI exI [of _ hu] exI [of _ "\<lambda>h. u_map C (g h)"] allI)
qed

lemma TPMI_SH_AUTH_SESSION_emits: "emits k (TSS_TPMI_SH_AUTH_SESSION_Marshal h) 0 (be32 h)"
  by (simp add: emits_UINT32 TSS_TPM_HANDLE_Marshal_def TSS_TPMI_SH_AUTH_SESSION_Marshal_def)

lemma TPM_HANDLE_emits: "emits k (TSS_TPM_HANDLE_Marshal h) 0 (be32 h)"
  by (simp add: emits_UINT32 TSS_TPM_HANDLE_Marshal_def)

section \<open>Every entry keeps it\<close>

lemma sized_types [sized_intro]:
  "sized_param TPM2B_ATTEST_Unmarshal"
  "sized_param TPM2B_AUTH_Unmarshal"
  "sized_param TPM2B_DATA_Unmarshal"
  "sized_param TPM2B_DIGEST_Unmarshal"
  "sized_param TPM2B_EVENT_Unmarshal"
  "sized_param TPM2B_ID_OBJECT_Unmarshal"
  "sized_param TPM2B_MAX_BUFFER_Unmarshal"
  "sized_param TPM2B_MAX_NV_BUFFER_Unmarshal"
  "sized_param TPM2B_NAME_Unmarshal"
  "sized_param TPM2B_NONCE_Unmarshal"
  "sized_param TPM2B_OPERAND_Unmarshal"
  "sized_param TPM2B_PRIVATE_Unmarshal"
  "sized_param TPM2B_PUBLIC_KEY_RSA_Unmarshal"
  "sized_param TPM2B_SENSITIVE_DATA_Unmarshal"
  "sized_param TPM2B_TIMEOUT_Unmarshal"
  by (simp_all add: sized_TPM2B TPM2B_ATTEST_Unmarshal_def TPM2B_AUTH_Unmarshal_def TPM2B_DATA_Unmarshal_def TPM2B_DIGEST_Unmarshal_def
    TPM2B_EVENT_Unmarshal_def TPM2B_ID_OBJECT_Unmarshal_def TPM2B_MAX_BUFFER_Unmarshal_def
    TPM2B_MAX_NV_BUFFER_Unmarshal_def TPM2B_NAME_Unmarshal_def TPM2B_NONCE_Unmarshal_def
    TPM2B_OPERAND_Unmarshal_def TPM2B_PRIVATE_Unmarshal_def TPM2B_PUBLIC_KEY_RSA_Unmarshal_def
    TPM2B_SENSITIVE_DATA_Unmarshal_def TPM2B_TIMEOUT_Unmarshal_def)

lemma TPM2B_ECC_POINT_sized [sized_intro]: "sized_param TPM2B_ECC_POINT_Unmarshal"
  unfolding TPM2B_ECC_POINT_Unmarshal_def by (intro sized_intro sized_exactly [OF TPMS_ECC_POINT_codec])

lemma TPM2B_NV_PUBLIC_sized [sized_intro]: "sized_param TPM2B_NV_PUBLIC_Unmarshal"
  unfolding TPM2B_NV_PUBLIC_Unmarshal_def by (intro sized_intro sized_exactly [OF TPMS_NV_PUBLIC_codec])

lemma TPM2B_PUBLIC_sized [sized_intro]: "sized_param (TPM2B_PUBLIC_Unmarshal allowNull)"
  unfolding TPM2B_PUBLIC_Unmarshal_def by (intro sized_intro sized_exactly [OF TPMT_PUBLIC_codec])

lemma TPM2B_SENSITIVE_sized [sized_intro]: "sized_param TPM2B_SENSITIVE_Unmarshal"
  unfolding TPM2B_SENSITIVE_Unmarshal_def by (rule sized_bind, rule sized_optional [OF TPMT_SENSITIVE_codec])

lemma TPM2B_SENSITIVE_CREATE_sized [sized_intro]: "sized_param TPM2B_SENSITIVE_CREATE_Unmarshal"
  unfolding TPM2B_SENSITIVE_CREATE_Unmarshal_def by (intro sized_intro sized_exactly [OF TPMS_SENSITIVE_CREATE_codec])

lemma Startup_attributes:
  "CommandCodeToCommandIndex TPM_CC_Startup = Some 34" "getCommandHandleCount 34 = Some 0" "getresponseHandleCount 34 = Some 0"
  "getDecryptSize 34 = Some 0" "getEncryptSize 34 = Some 0" "roles_ok 34 0"
  by (simp_all add: attribute_simps roles_ok_def)

lemma Startup_ok: "command_ok marshal_Startup"
  by (rule command_okI [OF marshal_Startup_def Startup_attributes], simp, rule in_ok0, simp, rule Startup_In_codec, unfold Startup_In_Unmarshal_def,
      intro same_bind same_return, simp,
      rule no_response_ok)

lemma Shutdown_attributes:
  "CommandCodeToCommandIndex TPM_CC_Shutdown = Some 35" "getCommandHandleCount 35 = Some 0" "getresponseHandleCount 35 = Some 0"
  "getDecryptSize 35 = Some 0" "getEncryptSize 35 = Some 0" "roles_ok 35 0"
  by (simp_all add: attribute_simps roles_ok_def)

lemma Shutdown_ok: "command_ok marshal_Shutdown"
  by (rule command_okI [OF marshal_Shutdown_def Shutdown_attributes], simp, rule in_ok0, simp, rule Shutdown_In_codec, unfold Shutdown_In_Unmarshal_def,
      intro same_bind same_return, simp,
      rule no_response_ok)

lemma SelfTest_attributes:
  "CommandCodeToCommandIndex TPM_CC_SelfTest = Some 33" "getCommandHandleCount 33 = Some 0" "getresponseHandleCount 33 = Some 0"
  "getDecryptSize 33 = Some 0" "getEncryptSize 33 = Some 0" "roles_ok 33 0"
  by (simp_all add: attribute_simps roles_ok_def)

lemma SelfTest_ok: "command_ok marshal_SelfTest"
  by (rule command_okI [OF marshal_SelfTest_def SelfTest_attributes], simp, rule in_ok0, simp, rule SelfTest_In_codec, unfold SelfTest_In_Unmarshal_def,
      intro same_bind same_return, simp,
      rule no_response_ok)

lemma IncrementalSelfTest_attributes:
  "CommandCodeToCommandIndex TPM_CC_IncrementalSelfTest = Some 32" "getCommandHandleCount 32 = Some 0" "getresponseHandleCount 32 = Some 0"
  "getDecryptSize 32 = Some 0" "getEncryptSize 32 = Some 0" "roles_ok 32 0"
  by (simp_all add: attribute_simps roles_ok_def)

lemma IncrementalSelfTest_ok: "command_ok marshal_IncrementalSelfTest"
  by (rule command_okI [OF marshal_IncrementalSelfTest_def IncrementalSelfTest_attributes], simp, rule in_ok0, simp, rule IncrementalSelfTest_In_codec, unfold IncrementalSelfTest_In_Unmarshal_def,
      intro same_bind same_return, simp,
      rule out_ok0 [OF TSS_IncrementalSelfTest_Out_Unmarshal_def IncrementalSelfTest_Out_delivers], simp)

lemma GetTestResult_attributes:
  "CommandCodeToCommandIndex TPM_CC_GetTestResult = Some 85" "getCommandHandleCount 85 = Some 0" "getresponseHandleCount 85 = Some 0"
  "getDecryptSize 85 = Some 0" "getEncryptSize 85 = Some 2" "roles_ok 85 0"
  by (simp_all add: attribute_simps roles_ok_def)

lemma GetTestResult_ok: "command_ok marshal_GetTestResult"
  by (rule command_okI [OF marshal_GetTestResult_def GetTestResult_attributes], simp, rule no_params_ok,
      rule out_ok0 [OF TSS_GetTestResult_Out_Unmarshal_def GetTestResult_Out_delivers], intro sized_intro)

lemma StartAuthSession_attributes:
  "CommandCodeToCommandIndex TPM_CC_StartAuthSession = Some 80" "getCommandHandleCount 80 = Some 2" "getresponseHandleCount 80 = Some 1"
  "getDecryptSize 80 = Some 2" "getEncryptSize 80 = Some 2" "roles_ok 80 2"
  by (simp_all add: attribute_simps roles_ok_def)

lemma StartAuthSession_ok: "command_ok marshal_StartAuthSession"
  by (rule command_okI [OF marshal_StartAuthSession_def StartAuthSession_attributes], simp, rule in_ok2, simp, rule StartAuthSession_In_codec, unfold StartAuthSession_In_Unmarshal_def,
      intro same_bind same_return, intro sized_intro,
      rule out_ok1 [OF TSS_StartAuthSession_Out_Unmarshal_def StartAuthSession_Out_delivers TPMI_SH_AUTH_SESSION_codec TPMI_SH_AUTH_SESSION_emits], intro sized_intro)

lemma PolicyRestart_attributes:
  "CommandCodeToCommandIndex TPM_CC_PolicyRestart = Some 89" "getCommandHandleCount 89 = Some 1" "getresponseHandleCount 89 = Some 0"
  "getDecryptSize 89 = Some 0" "getEncryptSize 89 = Some 0" "roles_ok 89 1"
  by (simp_all add: attribute_simps roles_ok_def)

lemma PolicyRestart_ok: "command_ok marshal_PolicyRestart"
  by (rule command_okI [OF marshal_PolicyRestart_def PolicyRestart_attributes], simp, rule in_ok1, simp, rule PolicyRestart_In_codec, unfold PolicyRestart_In_Unmarshal_def,
      intro same_bind same_return, simp,
      rule no_response_ok)

lemma Create_attributes:
  "CommandCodeToCommandIndex TPM_CC_Create = Some 49" "getCommandHandleCount 49 = Some 1" "getresponseHandleCount 49 = Some 0"
  "getDecryptSize 49 = Some 2" "getEncryptSize 49 = Some 2" "roles_ok 49 1"
  by (simp_all add: attribute_simps roles_ok_def)

lemma Create_ok: "command_ok marshal_Create"
  by (rule command_okI [OF marshal_Create_def Create_attributes], simp, rule in_ok1, simp, rule Create_In_codec [OF le_refl], unfold Create_In_Unmarshal_def,
      intro same_bind same_return, intro sized_intro,
      rule out_ok0 [OF TSS_Create_Out_Unmarshal_def Create_Out_delivers], intro sized_intro)

lemma Load_attributes:
  "CommandCodeToCommandIndex TPM_CC_Load = Some 53" "getCommandHandleCount 53 = Some 1" "getresponseHandleCount 53 = Some 1"
  "getDecryptSize 53 = Some 2" "getEncryptSize 53 = Some 2" "roles_ok 53 1"
  by (simp_all add: attribute_simps roles_ok_def)

lemma Load_ok: "command_ok marshal_Load"
  by (rule command_okI [OF marshal_Load_def Load_attributes], simp, rule in_ok1, simp, rule Load_In_codec [OF le_refl], unfold Load_In_Unmarshal_def,
      intro same_bind same_return, intro sized_intro,
      rule out_ok1 [OF TSS_Load_Out_Unmarshal_def Load_Out_delivers TPM_HANDLE_codec TPM_HANDLE_emits], intro sized_intro)

lemma LoadExternal_attributes:
  "CommandCodeToCommandIndex TPM_CC_LoadExternal = Some 66" "getCommandHandleCount 66 = Some 0" "getresponseHandleCount 66 = Some 1"
  "getDecryptSize 66 = Some 2" "getEncryptSize 66 = Some 2" "roles_ok 66 0"
  by (simp_all add: attribute_simps roles_ok_def)

lemma LoadExternal_ok: "command_ok marshal_LoadExternal"
  by (rule command_okI [OF marshal_LoadExternal_def LoadExternal_attributes], simp, rule in_ok0, simp, rule LoadExternal_In_codec [OF le_refl], unfold LoadExternal_In_Unmarshal_def,
      intro same_bind same_return, intro sized_intro,
      rule out_ok1 [OF TSS_LoadExternal_Out_Unmarshal_def LoadExternal_Out_delivers TPM_HANDLE_codec TPM_HANDLE_emits], intro sized_intro)

lemma ReadPublic_attributes:
  "CommandCodeToCommandIndex TPM_CC_ReadPublic = Some 78" "getCommandHandleCount 78 = Some 1" "getresponseHandleCount 78 = Some 0"
  "getDecryptSize 78 = Some 0" "getEncryptSize 78 = Some 2" "roles_ok 78 1"
  by (simp_all add: attribute_simps roles_ok_def)

lemma ReadPublic_ok: "command_ok marshal_ReadPublic"
  by (rule command_okI [OF marshal_ReadPublic_def ReadPublic_attributes], simp, rule in_ok1, simp, rule ReadPublic_In_codec, unfold ReadPublic_In_Unmarshal_def,
      intro same_bind same_return, simp,
      rule out_ok0 [OF TSS_ReadPublic_Out_Unmarshal_def ReadPublic_Out_delivers], intro sized_intro)

lemma ActivateCredential_attributes:
  "CommandCodeToCommandIndex TPM_CC_ActivateCredential = Some 37" "getCommandHandleCount 37 = Some 2" "getresponseHandleCount 37 = Some 0"
  "getDecryptSize 37 = Some 2" "getEncryptSize 37 = Some 2" "roles_ok 37 2"
  by (simp_all add: attribute_simps roles_ok_def)

lemma ActivateCredential_ok: "command_ok marshal_ActivateCredential"
  by (rule command_okI [OF marshal_ActivateCredential_def ActivateCredential_attributes], simp, rule in_ok2, simp, rule ActivateCredential_In_codec, unfold ActivateCredential_In_Unmarshal_def,
      intro same_bind same_return, intro sized_intro,
      rule out_ok0 [OF TSS_ActivateCredential_Out_Unmarshal_def ActivateCredential_Out_delivers], intro sized_intro)

lemma MakeCredential_attributes:
  "CommandCodeToCommandIndex TPM_CC_MakeCredential = Some 67" "getCommandHandleCount 67 = Some 1" "getresponseHandleCount 67 = Some 0"
  "getDecryptSize 67 = Some 2" "getEncryptSize 67 = Some 2" "roles_ok 67 1"
  by (simp_all add: attribute_simps roles_ok_def)

lemma MakeCredential_ok: "command_ok marshal_MakeCredential"
  by (rule command_okI [OF marshal_MakeCredential_def MakeCredential_attributes], simp, rule in_ok1, simp, rule MakeCredential_In_codec, unfold MakeCredential_In_Unmarshal_def,
      intro same_bind same_return, intro sized_intro,
      rule out_ok0 [OF TSS_MakeCredential_Out_Unmarshal_def MakeCredential_Out_delivers], intro sized_intro)

lemma Unseal_attributes:
  "CommandCodeToCommandIndex TPM_CC_Unseal = Some 59" "getCommandHandleCount 59 = Some 1" "getresponseHandleCount 59 = Some 0"
  "getDecryptSize 59 = Some 0" "getEncryptSize 59 = Some 2" "roles_ok 59 1"
  by (simp_all add: attribute_simps roles_ok_def)

lemma Unseal_ok: "command_ok marshal_Unseal"
  by (rule command_okI [OF marshal_Unseal_def Unseal_attributes], simp, rule in_ok1, simp, rule Unseal_In_codec, unfold Unseal_In_Unmarshal_def,
      intro same_bind same_return, simp,
      rule out_ok0 [OF TSS_Unseal_Out_Unmarshal_def Unseal_Out_delivers], intro sized_intro)

lemma ObjectChangeAuth_attributes:
  "CommandCodeToCommandIndex TPM_CC_ObjectChangeAuth = Some 46" "getCommandHandleCount 46 = Some 2" "getresponseHandleCount 46 = Some 0"
  "getDecryptSize 46 = Some 2" "getEncryptSize 46 = Some 2" "roles_ok 46 2"
  by (simp_all add: attribute_simps roles_ok_def)

lemma ObjectChangeAuth_ok: "command_ok marshal_ObjectChangeAuth"
  by (rule command_okI [OF marshal_ObjectChangeAuth_def ObjectChangeAuth_attributes], simp, rule in_ok2, simp, rule ObjectChangeAuth_In_codec, unfold ObjectChangeAuth_In_Unmarshal_def,
      intro same_bind same_return, intro sized_intro,
      rule out_ok0 [OF TSS_ObjectChangeAuth_Out_Unmarshal_def ObjectChangeAuth_Out_delivers], intro sized_intro)

lemma Duplicate_attributes:
  "CommandCodeToCommandIndex TPM_CC_Duplicate = Some 41" "getCommandHandleCount 41 = Some 2" "getresponseHandleCount 41 = Some 0"
  "getDecryptSize 41 = Some 2" "getEncryptSize 41 = Some 2" "roles_ok 41 2"
  by (simp_all add: attribute_simps roles_ok_def)

lemma Duplicate_ok: "command_ok marshal_Duplicate"
  by (rule command_okI [OF marshal_Duplicate_def Duplicate_attributes], simp, rule in_ok2, simp, rule Duplicate_In_codec, unfold Duplicate_In_Unmarshal_def,
      intro same_bind same_return, intro sized_intro,
      rule out_ok0 [OF TSS_Duplicate_Out_Unmarshal_def Duplicate_Out_delivers], intro sized_intro)

lemma Rewrap_attributes:
  "CommandCodeToCommandIndex TPM_CC_Rewrap = Some 48" "getCommandHandleCount 48 = Some 2" "getresponseHandleCount 48 = Some 0"
  "getDecryptSize 48 = Some 2" "getEncryptSize 48 = Some 2" "roles_ok 48 2"
  by (simp_all add: attribute_simps roles_ok_def)

lemma Rewrap_ok: "command_ok marshal_Rewrap"
  by (rule command_okI [OF marshal_Rewrap_def Rewrap_attributes], simp, rule in_ok2, simp, rule Rewrap_In_codec, unfold Rewrap_In_Unmarshal_def,
      intro same_bind same_return, intro sized_intro,
      rule out_ok0 [OF TSS_Rewrap_Out_Unmarshal_def Rewrap_Out_delivers], intro sized_intro)

lemma Import_attributes:
  "CommandCodeToCommandIndex TPM_CC_Import = Some 52" "getCommandHandleCount 52 = Some 1" "getresponseHandleCount 52 = Some 0"
  "getDecryptSize 52 = Some 2" "getEncryptSize 52 = Some 2" "roles_ok 52 1"
  by (simp_all add: attribute_simps roles_ok_def)

lemma Import_ok: "command_ok marshal_Import"
  by (rule command_okI [OF marshal_Import_def Import_attributes], simp, rule in_ok1, simp, rule Import_In_codec [OF le_refl], unfold Import_In_Unmarshal_def,
      intro same_bind same_return, intro sized_intro,
      rule out_ok0 [OF TSS_Import_Out_Unmarshal_def Import_Out_delivers], intro sized_intro)

lemma RSA_Encrypt_attributes:
  "CommandCodeToCommandIndex TPM_CC_RSA_Encrypt = Some 79" "getCommandHandleCount 79 = Some 1" "getresponseHandleCount 79 = Some 0"
  "getDecryptSize 79 = Some 2" "getEncryptSize 79 = Some 2" "roles_ok 79 1"
  by (simp_all add: attribute_simps roles_ok_def)

lemma RSA_Encrypt_ok: "command_ok marshal_RSA_Encrypt"
  by (rule command_okI [OF marshal_RSA_Encrypt_def RSA_Encrypt_attributes], simp, rule in_ok1, simp, rule RSA_Encrypt_In_codec, unfold RSA_Encrypt_In_Unmarshal_def,
      intro same_bind same_return, intro sized_intro,
      rule out_ok0 [OF TSS_RSA_Encrypt_Out_Unmarshal_def RSA_Encrypt_Out_delivers], intro sized_intro)

lemma RSA_Decrypt_attributes:
  "CommandCodeToCommandIndex TPM_CC_RSA_Decrypt = Some 55" "getCommandHandleCount 55 = Some 1" "getresponseHandleCount 55 = Some 0"
  "getDecryptSize 55 = Some 2" "getEncryptSize 55 = Some 2" "roles_ok 55 1"
  by (simp_all add: attribute_simps roles_ok_def)

lemma RSA_Decrypt_ok: "command_ok marshal_RSA_Decrypt"
  by (rule command_okI [OF marshal_RSA_Decrypt_def RSA_Decrypt_attributes], simp, rule in_ok1, simp, rule RSA_Decrypt_In_codec, unfold RSA_Decrypt_In_Unmarshal_def,
      intro same_bind same_return, intro sized_intro,
      rule out_ok0 [OF TSS_RSA_Decrypt_Out_Unmarshal_def RSA_Decrypt_Out_delivers], intro sized_intro)

lemma ECDH_KeyGen_attributes:
  "CommandCodeToCommandIndex TPM_CC_ECDH_KeyGen = Some 63" "getCommandHandleCount 63 = Some 1" "getresponseHandleCount 63 = Some 0"
  "getDecryptSize 63 = Some 0" "getEncryptSize 63 = Some 2" "roles_ok 63 1"
  by (simp_all add: attribute_simps roles_ok_def)

lemma ECDH_KeyGen_ok: "command_ok marshal_ECDH_KeyGen"
  by (rule command_okI [OF marshal_ECDH_KeyGen_def ECDH_KeyGen_attributes], simp, rule in_ok1, simp, rule ECDH_KeyGen_In_codec, unfold ECDH_KeyGen_In_Unmarshal_def,
      intro same_bind same_return, simp,
      rule out_ok0 [OF TSS_ECDH_KeyGen_Out_Unmarshal_def ECDH_KeyGen_Out_delivers], intro sized_intro)

lemma ECDH_ZGen_attributes:
  "CommandCodeToCommandIndex TPM_CC_ECDH_ZGen = Some 50" "getCommandHandleCount 50 = Some 1" "getresponseHandleCount 50 = Some 0"
  "getDecryptSize 50 = Some 2" "getEncryptSize 50 = Some 2" "roles_ok 50 1"
  by (simp_all add: attribute_simps roles_ok_def)

lemma ECDH_ZGen_ok: "command_ok marshal_ECDH_ZGen"
  by (rule command_okI [OF marshal_ECDH_ZGen_def ECDH_ZGen_attributes], simp, rule in_ok1, simp, rule ECDH_ZGen_In_codec [OF le_refl], unfold ECDH_ZGen_In_Unmarshal_def,
      intro same_bind same_return, intro sized_intro,
      rule out_ok0 [OF TSS_ECDH_ZGen_Out_Unmarshal_def ECDH_ZGen_Out_delivers], intro sized_intro)

lemma ECC_Parameters_attributes:
  "CommandCodeToCommandIndex TPM_CC_ECC_Parameters = Some 82" "getCommandHandleCount 82 = Some 0" "getresponseHandleCount 82 = Some 0"
  "getDecryptSize 82 = Some 0" "getEncryptSize 82 = Some 0" "roles_ok 82 0"
  by (simp_all add: attribute_simps roles_ok_def)

lemma ECC_Parameters_ok: "command_ok marshal_ECC_Parameters"
  by (rule command_okI [OF marshal_ECC_Parameters_def ECC_Parameters_attributes], simp, rule in_ok0, simp, rule ECC_Parameters_In_codec, unfold ECC_Parameters_In_Unmarshal_def,
      intro same_bind same_return, simp,
      rule out_ok0 [OF TSS_ECC_Parameters_Out_Unmarshal_def ECC_Parameters_Out_delivers], simp)

lemma ZGen_2Phase_attributes:
  "CommandCodeToCommandIndex TPM_CC_ZGen_2Phase = Some 102" "getCommandHandleCount 102 = Some 1" "getresponseHandleCount 102 = Some 0"
  "getDecryptSize 102 = Some 2" "getEncryptSize 102 = Some 2" "roles_ok 102 1"
  by (simp_all add: attribute_simps roles_ok_def)

lemma ZGen_2Phase_ok: "command_ok marshal_ZGen_2Phase"
  by (rule command_okI [OF marshal_ZGen_2Phase_def ZGen_2Phase_attributes], simp, rule in_ok1, simp, rule ZGen_2Phase_In_codec [OF le_refl], unfold ZGen_2Phase_In_Unmarshal_def,
      intro same_bind same_return, intro sized_intro,
      rule out_ok0 [OF TSS_ZGen_2Phase_Out_Unmarshal_def ZGen_2Phase_Out_delivers], intro sized_intro)

lemma EncryptDecrypt_attributes:
  "CommandCodeToCommandIndex TPM_CC_EncryptDecrypt = Some 64" "getCommandHandleCount 64 = Some 1" "getresponseHandleCount 64 = Some 0"
  "getDecryptSize 64 = Some 0" "getEncryptSize 64 = Some 2" "roles_ok 64 1"
  by (simp_all add: attribute_simps roles_ok_def)

lemma EncryptDecrypt_ok: "command_ok marshal_EncryptDecrypt"
  by (rule command_okI [OF marshal_EncryptDecrypt_def EncryptDecrypt_attributes], simp, rule in_ok1, simp, rule EncryptDecrypt_In_codec, unfold EncryptDecrypt_In_Unmarshal_def,
      intro same_bind same_return, simp,
      rule out_ok0 [OF TSS_EncryptDecrypt_Out_Unmarshal_def EncryptDecrypt_Out_delivers], intro sized_intro)

lemma Hash_attributes:
  "CommandCodeToCommandIndex TPM_CC_Hash = Some 86" "getCommandHandleCount 86 = Some 0" "getresponseHandleCount 86 = Some 0"
  "getDecryptSize 86 = Some 2" "getEncryptSize 86 = Some 2" "roles_ok 86 0"
  by (simp_all add: attribute_simps roles_ok_def)

lemma Hash_ok: "command_ok marshal_Hash"
  by (rule command_okI [OF marshal_Hash_def Hash_attributes], simp, rule in_ok0, simp, rule Hash_In_codec, unfold Hash_In_Unmarshal_def,
      intro same_bind same_return, intro sized_intro,
      rule out_ok0 [OF TSS_Hash_Out_Unmarshal_def Hash_Out_delivers], intro sized_intro)

lemma HMAC_attributes:
  "CommandCodeToCommandIndex TPM_CC_HMAC = Some 51" "getCommandHandleCount 51 = Some 1" "getresponseHandleCount 51 = Some 0"
  "getDecryptSize 51 = Some 2" "getEncryptSize 51 = Some 2" "roles_ok 51 1"
  by (simp_all add: attribute_simps roles_ok_def)

lemma HMAC_ok: "command_ok marshal_HMAC"
  by (rule command_okI [OF marshal_HMAC_def HMAC_attributes], simp, rule in_ok1, simp, rule HMAC_In_codec, unfold HMAC_In_Unmarshal_def,
      intro same_bind same_return, intro sized_intro,
      rule out_ok0 [OF TSS_HMAC_Out_Unmarshal_def HMAC_Out_delivers], intro sized_intro)

lemma GetRandom_attributes:
  "CommandCodeToCommandIndex TPM_CC_GetRandom = Some 84" "getCommandHandleCount 84 = Some 0" "getresponseHandleCount 84 = Some 0"
  "getDecryptSize 84 = Some 0" "getEncryptSize 84 = Some 2" "roles_ok 84 0"
  by (simp_all add: attribute_simps roles_ok_def)

lemma GetRandom_ok: "command_ok marshal_GetRandom"
  by (rule command_okI [OF marshal_GetRandom_def GetRandom_attributes], simp, rule in_ok0, simp, rule GetRandom_In_codec, unfold GetRandom_In_Unmarshal_def,
      intro same_bind same_return, simp,
      rule out_ok0 [OF TSS_GetRandom_Out_Unmarshal_def GetRandom_Out_delivers], intro sized_intro)

lemma StirRandom_attributes:
  "CommandCodeToCommandIndex TPM_CC_StirRandom = Some 36" "getCommandHandleCount 36 = Some 0" "getresponseHandleCount 36 = Some 0"
  "getDecryptSize 36 = Some 2" "getEncryptSize 36 = Some 0" "roles_ok 36 0"
  by (simp_all add: attribute_simps roles_ok_def)

lemma StirRandom_ok: "command_ok marshal_StirRandom"
  by (rule command_okI [OF marshal_StirRandom_def StirRandom_attributes], simp, rule in_ok0, simp, rule StirRandom_In_codec, unfold StirRandom_In_Unmarshal_def,
      intro same_bind same_return, intro sized_intro,
      rule no_response_ok)

lemma HMAC_Start_attributes:
  "CommandCodeToCommandIndex TPM_CC_HMAC_Start = Some 56" "getCommandHandleCount 56 = Some 1" "getresponseHandleCount 56 = Some 1"
  "getDecryptSize 56 = Some 2" "getEncryptSize 56 = Some 0" "roles_ok 56 1"
  by (simp_all add: attribute_simps roles_ok_def)

lemma HMAC_Start_ok: "command_ok marshal_HMAC_Start"
  by (rule command_okI [OF marshal_HMAC_Start_def HMAC_Start_attributes], simp, rule in_ok1, simp, rule HMAC_Start_In_codec, unfold HMAC_Start_In_Unmarshal_def,
      intro same_bind same_return, intro sized_intro,
      rule out_ok1 [OF TSS_HMAC_Start_Out_Unmarshal_def HMAC_Start_Out_delivers TPMI_DH_OBJECT_codec handle_emits(3)], simp)

lemma HashSequenceStart_attributes:
  "CommandCodeToCommandIndex TPM_CC_HashSequenceStart = Some 95" "getCommandHandleCount 95 = Some 0" "getresponseHandleCount 95 = Some 1"
  "getDecryptSize 95 = Some 2" "getEncryptSize 95 = Some 0" "roles_ok 95 0"
  by (simp_all add: attribute_simps roles_ok_def)

lemma HashSequenceStart_ok: "command_ok marshal_HashSequenceStart"
  by (rule command_okI [OF marshal_HashSequenceStart_def HashSequenceStart_attributes], simp, rule in_ok0, simp, rule HashSequenceStart_In_codec, unfold HashSequenceStart_In_Unmarshal_def,
      intro same_bind same_return, intro sized_intro,
      rule out_ok1 [OF TSS_HashSequenceStart_Out_Unmarshal_def HashSequenceStart_Out_delivers TPMI_DH_OBJECT_codec handle_emits(3)], simp)

lemma SequenceUpdate_attributes:
  "CommandCodeToCommandIndex TPM_CC_SequenceUpdate = Some 57" "getCommandHandleCount 57 = Some 1" "getresponseHandleCount 57 = Some 0"
  "getDecryptSize 57 = Some 2" "getEncryptSize 57 = Some 0" "roles_ok 57 1"
  by (simp_all add: attribute_simps roles_ok_def)

lemma SequenceUpdate_ok: "command_ok marshal_SequenceUpdate"
  by (rule command_okI [OF marshal_SequenceUpdate_def SequenceUpdate_attributes], simp, rule in_ok1, simp, rule SequenceUpdate_In_codec, unfold SequenceUpdate_In_Unmarshal_def,
      intro same_bind same_return, intro sized_intro,
      rule no_response_ok)

lemma SequenceComplete_attributes:
  "CommandCodeToCommandIndex TPM_CC_SequenceComplete = Some 29" "getCommandHandleCount 29 = Some 1" "getresponseHandleCount 29 = Some 0"
  "getDecryptSize 29 = Some 2" "getEncryptSize 29 = Some 2" "roles_ok 29 1"
  by (simp_all add: attribute_simps roles_ok_def)

lemma SequenceComplete_ok: "command_ok marshal_SequenceComplete"
  by (rule command_okI [OF marshal_SequenceComplete_def SequenceComplete_attributes], simp, rule in_ok1, simp, rule SequenceComplete_In_codec, unfold SequenceComplete_In_Unmarshal_def,
      intro same_bind same_return, intro sized_intro,
      rule out_ok0 [OF TSS_SequenceComplete_Out_Unmarshal_def SequenceComplete_Out_delivers], intro sized_intro)

lemma EventSequenceComplete_attributes:
  "CommandCodeToCommandIndex TPM_CC_EventSequenceComplete = Some 94" "getCommandHandleCount 94 = Some 2" "getresponseHandleCount 94 = Some 0"
  "getDecryptSize 94 = Some 2" "getEncryptSize 94 = Some 0" "roles_ok 94 2"
  by (simp_all add: attribute_simps roles_ok_def)

lemma EventSequenceComplete_ok: "command_ok marshal_EventSequenceComplete"
  by (rule command_okI [OF marshal_EventSequenceComplete_def EventSequenceComplete_attributes], simp, rule in_ok2, simp, rule EventSequenceComplete_In_codec, unfold EventSequenceComplete_In_Unmarshal_def,
      intro same_bind same_return, intro sized_intro,
      rule out_ok0 [OF TSS_EventSequenceComplete_Out_Unmarshal_def EventSequenceComplete_Out_delivers], simp)

lemma Certify_attributes:
  "CommandCodeToCommandIndex TPM_CC_Certify = Some 38" "getCommandHandleCount 38 = Some 2" "getresponseHandleCount 38 = Some 0"
  "getDecryptSize 38 = Some 2" "getEncryptSize 38 = Some 2" "roles_ok 38 2"
  by (simp_all add: attribute_simps roles_ok_def)

lemma Certify_ok: "command_ok marshal_Certify"
  by (rule command_okI [OF marshal_Certify_def Certify_attributes], simp, rule in_ok2, simp, rule Certify_In_codec, unfold Certify_In_Unmarshal_def,
      intro same_bind same_return, intro sized_intro,
      rule out_ok0 [OF TSS_Certify_Out_Unmarshal_def Certify_Out_delivers], intro sized_intro)

lemma CertifyCreation_attributes:
  "CommandCodeToCommandIndex TPM_CC_CertifyCreation = Some 40" "getCommandHandleCount 40 = Some 2" "getresponseHandleCount 40 = Some 0"
  "getDecryptSize 40 = Some 2" "getEncryptSize 40 = Some 2" "roles_ok 40 2"
  by (simp_all add: attribute_simps roles_ok_def)

lemma CertifyCreation_ok: "command_ok marshal_CertifyCreation"
  by (rule command_okI [OF marshal_CertifyCreation_def CertifyCreation_attributes], simp, rule in_ok2, simp, rule CertifyCreation_In_codec, unfold CertifyCreation_In_Unmarshal_def,
      intro same_bind same_return, intro sized_intro,
      rule out_ok0 [OF TSS_CertifyCreation_Out_Unmarshal_def CertifyCreation_Out_delivers], intro sized_intro)

lemma Quote_attributes:
  "CommandCodeToCommandIndex TPM_CC_Quote = Some 54" "getCommandHandleCount 54 = Some 1" "getresponseHandleCount 54 = Some 0"
  "getDecryptSize 54 = Some 2" "getEncryptSize 54 = Some 2" "roles_ok 54 1"
  by (simp_all add: attribute_simps roles_ok_def)

lemma Quote_ok: "command_ok marshal_Quote"
  by (rule command_okI [OF marshal_Quote_def Quote_attributes], simp, rule in_ok1, simp, rule Quote_In_codec, unfold Quote_In_Unmarshal_def,
      intro same_bind same_return, intro sized_intro,
      rule out_ok0 [OF TSS_Quote_Out_Unmarshal_def Quote_Out_delivers], intro sized_intro)

lemma GetSessionAuditDigest_attributes:
  "CommandCodeToCommandIndex TPM_CC_GetSessionAuditDigest = Some 43" "getCommandHandleCount 43 = Some 3" "getresponseHandleCount 43 = Some 0"
  "getDecryptSize 43 = Some 2" "getEncryptSize 43 = Some 2" "roles_ok 43 3"
  by (simp_all add: attribute_simps roles_ok_def)

lemma GetSessionAuditDigest_ok: "command_ok marshal_GetSessionAuditDigest"
  by (rule command_okI [OF marshal_GetSessionAuditDigest_def GetSessionAuditDigest_attributes], simp, rule in_ok3, simp, rule GetSessionAuditDigest_In_codec, unfold GetSessionAuditDigest_In_Unmarshal_def,
      intro same_bind same_return, intro sized_intro,
      rule out_ok0 [OF TSS_GetSessionAuditDigest_Out_Unmarshal_def GetSessionAuditDigest_Out_delivers], intro sized_intro)

lemma GetCommandAuditDigest_attributes:
  "CommandCodeToCommandIndex TPM_CC_GetCommandAuditDigest = Some 18" "getCommandHandleCount 18 = Some 2" "getresponseHandleCount 18 = Some 0"
  "getDecryptSize 18 = Some 2" "getEncryptSize 18 = Some 2" "roles_ok 18 2"
  by (simp_all add: attribute_simps roles_ok_def)

lemma GetCommandAuditDigest_ok: "command_ok marshal_GetCommandAuditDigest"
  by (rule command_okI [OF marshal_GetCommandAuditDigest_def GetCommandAuditDigest_attributes], simp, rule in_ok2, simp, rule GetCommandAuditDigest_In_codec, unfold GetCommandAuditDigest_In_Unmarshal_def,
      intro same_bind same_return, intro sized_intro,
      rule out_ok0 [OF TSS_GetCommandAuditDigest_Out_Unmarshal_def GetCommandAuditDigest_Out_delivers], intro sized_intro)

lemma GetTime_attributes:
  "CommandCodeToCommandIndex TPM_CC_GetTime = Some 42" "getCommandHandleCount 42 = Some 2" "getresponseHandleCount 42 = Some 0"
  "getDecryptSize 42 = Some 2" "getEncryptSize 42 = Some 2" "roles_ok 42 2"
  by (simp_all add: attribute_simps roles_ok_def)

lemma GetTime_ok: "command_ok marshal_GetTime"
  by (rule command_okI [OF marshal_GetTime_def GetTime_attributes], simp, rule in_ok2, simp, rule GetTime_In_codec, unfold GetTime_In_Unmarshal_def,
      intro same_bind same_return, intro sized_intro,
      rule out_ok0 [OF TSS_GetTime_Out_Unmarshal_def GetTime_Out_delivers], intro sized_intro)

lemma Commit_attributes:
  "CommandCodeToCommandIndex TPM_CC_Commit = Some 100" "getCommandHandleCount 100 = Some 1" "getresponseHandleCount 100 = Some 0"
  "getDecryptSize 100 = Some 2" "getEncryptSize 100 = Some 2" "roles_ok 100 1"
  by (simp_all add: attribute_simps roles_ok_def)

lemma Commit_ok: "command_ok marshal_Commit"
  by (rule command_okI [OF marshal_Commit_def Commit_attributes], simp, rule in_ok1, simp, rule Commit_In_codec [OF le_refl], unfold Commit_In_Unmarshal_def,
      intro same_bind same_return, intro sized_intro,
      rule out_ok0 [OF TSS_Commit_Out_Unmarshal_def Commit_Out_delivers], intro sized_intro)

lemma EC_Ephemeral_attributes:
  "CommandCodeToCommandIndex TPM_CC_EC_Ephemeral = Some 103" "getCommandHandleCount 103 = Some 0" "getresponseHandleCount 103 = Some 0"
  "getDecryptSize 103 = Some 0" "getEncryptSize 103 = Some 2" "roles_ok 103 0"
  by (simp_all add: attribute_simps roles_ok_def)

lemma EC_Ephemeral_ok: "command_ok marshal_EC_Ephemeral"
  by (rule command_okI [OF marshal_EC_Ephemeral_def EC_Ephemeral_attributes], simp, rule in_ok0, simp, rule EC_Ephemeral_In_codec, unfold EC_Ephemeral_In_Unmarshal_def,
      intro same_bind same_return, simp,
      rule out_ok0 [OF TSS_EC_Ephemeral_Out_Unmarshal_def EC_Ephemeral_Out_delivers], intro sized_intro)

lemma VerifySignature_attributes:
  "CommandCodeToCommandIndex TPM_CC_VerifySignature = Some 81" "getCommandHandleCount 81 = Some 1" "getresponseHandleCount 81 = Some 0"
  "getDecryptSize 81 = Some 2" "getEncryptSize 81 = Some 0" "roles_ok 81 1"
  by (simp_all add: attribute_simps roles_ok_def)

lemma VerifySignature_ok: "command_ok marshal_VerifySignature"
  by (rule command_okI [OF marshal_VerifySignature_def VerifySignature_attributes], simp, rule in_ok1, simp, rule VerifySignature_In_codec, unfold VerifySignature_In_Unmarshal_def,
      intro same_bind same_return, intro sized_intro,
      rule out_ok0 [OF TSS_VerifySignature_Out_Unmarshal_def VerifySignature_Out_delivers], simp)

lemma Sign_attributes:
  "CommandCodeToCommandIndex TPM_CC_Sign = Some 58" "getCommandHandleCount 58 = Some 1" "getresponseHandleCount 58 = Some 0"
  "getDecryptSize 58 = Some 2" "getEncryptSize 58 = Some 0" "roles_ok 58 1"
  by (simp_all add: attribute_simps roles_ok_def)

lemma Sign_ok: "command_ok marshal_Sign"
  by (rule command_okI [OF marshal_Sign_def Sign_attributes], simp, rule in_ok1, simp, rule Sign_In_codec, unfold Sign_In_Unmarshal_def,
      intro same_bind same_return, intro sized_intro,
      rule out_ok0 [OF TSS_Sign_Out_Unmarshal_def Sign_Out_delivers], simp)

lemma SetCommandCodeAuditStatus_attributes:
  "CommandCodeToCommandIndex TPM_CC_SetCommandCodeAuditStatus = Some 31" "getCommandHandleCount 31 = Some 1" "getresponseHandleCount 31 = Some 0"
  "getDecryptSize 31 = Some 0" "getEncryptSize 31 = Some 0" "roles_ok 31 1"
  by (simp_all add: attribute_simps roles_ok_def)

lemma SetCommandCodeAuditStatus_ok: "command_ok marshal_SetCommandCodeAuditStatus"
  by (rule command_okI [OF marshal_SetCommandCodeAuditStatus_def SetCommandCodeAuditStatus_attributes], simp, rule in_ok1, simp, rule SetCommandCodeAuditStatus_In_codec, unfold SetCommandCodeAuditStatus_In_Unmarshal_def,
      intro same_bind same_return, simp,
      rule no_response_ok)

lemma PCR_Extend_attributes:
  "CommandCodeToCommandIndex TPM_CC_PCR_Extend = Some 91" "getCommandHandleCount 91 = Some 1" "getresponseHandleCount 91 = Some 0"
  "getDecryptSize 91 = Some 0" "getEncryptSize 91 = Some 0" "roles_ok 91 1"
  by (simp_all add: attribute_simps roles_ok_def)

lemma PCR_Extend_ok: "command_ok marshal_PCR_Extend"
  by (rule command_okI [OF marshal_PCR_Extend_def PCR_Extend_attributes], simp, rule in_ok1, simp, rule PCR_Extend_In_codec, unfold PCR_Extend_In_Unmarshal_def,
      intro same_bind same_return, simp,
      rule no_response_ok)

lemma PCR_Event_attributes:
  "CommandCodeToCommandIndex TPM_CC_PCR_Event = Some 27" "getCommandHandleCount 27 = Some 1" "getresponseHandleCount 27 = Some 0"
  "getDecryptSize 27 = Some 2" "getEncryptSize 27 = Some 0" "roles_ok 27 1"
  by (simp_all add: attribute_simps roles_ok_def)

lemma PCR_Event_ok: "command_ok marshal_PCR_Event"
  by (rule command_okI [OF marshal_PCR_Event_def PCR_Event_attributes], simp, rule in_ok1, simp, rule PCR_Event_In_codec, unfold PCR_Event_In_Unmarshal_def,
      intro same_bind same_return, intro sized_intro,
      rule out_ok0 [OF TSS_PCR_Event_Out_Unmarshal_def PCR_Event_Out_delivers], simp)

lemma PCR_Read_attributes:
  "CommandCodeToCommandIndex TPM_CC_PCR_Read = Some 87" "getCommandHandleCount 87 = Some 0" "getresponseHandleCount 87 = Some 0"
  "getDecryptSize 87 = Some 0" "getEncryptSize 87 = Some 0" "roles_ok 87 0"
  by (simp_all add: attribute_simps roles_ok_def)

lemma PCR_Read_ok: "command_ok marshal_PCR_Read"
  by (rule command_okI [OF marshal_PCR_Read_def PCR_Read_attributes], simp, rule in_ok0, simp, rule PCR_Read_In_codec, unfold PCR_Read_In_Unmarshal_def,
      intro same_bind same_return, simp,
      rule out_ok0 [OF TSS_PCR_Read_Out_Unmarshal_def PCR_Read_Out_delivers], simp)

lemma PCR_Allocate_attributes:
  "CommandCodeToCommandIndex TPM_CC_PCR_Allocate = Some 11" "getCommandHandleCount 11 = Some 1" "getresponseHandleCount 11 = Some 0"
  "getDecryptSize 11 = Some 0" "getEncryptSize 11 = Some 0" "roles_ok 11 1"
  by (simp_all add: attribute_simps roles_ok_def)

lemma PCR_Allocate_ok: "command_ok marshal_PCR_Allocate"
  by (rule command_okI [OF marshal_PCR_Allocate_def PCR_Allocate_attributes], simp, rule in_ok1, simp, rule PCR_Allocate_In_codec, unfold PCR_Allocate_In_Unmarshal_def,
      intro same_bind same_return, simp,
      rule out_ok0 [OF TSS_PCR_Allocate_Out_Unmarshal_def PCR_Allocate_Out_delivers], simp)

lemma PCR_SetAuthPolicy_attributes:
  "CommandCodeToCommandIndex TPM_CC_PCR_SetAuthPolicy = Some 12" "getCommandHandleCount 12 = Some 1" "getresponseHandleCount 12 = Some 0"
  "getDecryptSize 12 = Some 2" "getEncryptSize 12 = Some 0" "roles_ok 12 1"
  by (simp_all add: attribute_simps roles_ok_def)

lemma PCR_SetAuthPolicy_ok: "command_ok marshal_PCR_SetAuthPolicy"
  by (rule command_okI [OF marshal_PCR_SetAuthPolicy_def PCR_SetAuthPolicy_attributes], simp, rule in_ok1, simp, rule PCR_SetAuthPolicy_In_codec, unfold PCR_SetAuthPolicy_In_Unmarshal_def,
      intro same_bind same_return, intro sized_intro,
      rule no_response_ok)

lemma PCR_SetAuthValue_attributes:
  "CommandCodeToCommandIndex TPM_CC_PCR_SetAuthValue = Some 92" "getCommandHandleCount 92 = Some 1" "getresponseHandleCount 92 = Some 0"
  "getDecryptSize 92 = Some 2" "getEncryptSize 92 = Some 0" "roles_ok 92 1"
  by (simp_all add: attribute_simps roles_ok_def)

lemma PCR_SetAuthValue_ok: "command_ok marshal_PCR_SetAuthValue"
  by (rule command_okI [OF marshal_PCR_SetAuthValue_def PCR_SetAuthValue_attributes], simp, rule in_ok1, simp, rule PCR_SetAuthValue_In_codec, unfold PCR_SetAuthValue_In_Unmarshal_def,
      intro same_bind same_return, intro sized_intro,
      rule no_response_ok)

lemma PCR_Reset_attributes:
  "CommandCodeToCommandIndex TPM_CC_PCR_Reset = Some 28" "getCommandHandleCount 28 = Some 1" "getresponseHandleCount 28 = Some 0"
  "getDecryptSize 28 = Some 0" "getEncryptSize 28 = Some 0" "roles_ok 28 1"
  by (simp_all add: attribute_simps roles_ok_def)

lemma PCR_Reset_ok: "command_ok marshal_PCR_Reset"
  by (rule command_okI [OF marshal_PCR_Reset_def PCR_Reset_attributes], simp, rule in_ok1, simp, rule PCR_Reset_In_codec, unfold PCR_Reset_In_Unmarshal_def,
      intro same_bind same_return, simp,
      rule no_response_ok)

lemma PolicySigned_attributes:
  "CommandCodeToCommandIndex TPM_CC_PolicySigned = Some 60" "getCommandHandleCount 60 = Some 2" "getresponseHandleCount 60 = Some 0"
  "getDecryptSize 60 = Some 2" "getEncryptSize 60 = Some 2" "roles_ok 60 2"
  by (simp_all add: attribute_simps roles_ok_def)

lemma PolicySigned_ok: "command_ok marshal_PolicySigned"
  by (rule command_okI [OF marshal_PolicySigned_def PolicySigned_attributes], simp, rule in_ok2, simp, rule PolicySigned_In_codec, unfold PolicySigned_In_Unmarshal_def,
      intro same_bind same_return, intro sized_intro,
      rule out_ok0 [OF TSS_PolicySigned_Out_Unmarshal_def PolicySigned_Out_delivers], intro sized_intro)

lemma PolicySecret_attributes:
  "CommandCodeToCommandIndex TPM_CC_PolicySecret = Some 47" "getCommandHandleCount 47 = Some 2" "getresponseHandleCount 47 = Some 0"
  "getDecryptSize 47 = Some 2" "getEncryptSize 47 = Some 2" "roles_ok 47 2"
  by (simp_all add: attribute_simps roles_ok_def)

lemma PolicySecret_ok: "command_ok marshal_PolicySecret"
  by (rule command_okI [OF marshal_PolicySecret_def PolicySecret_attributes], simp, rule in_ok2, simp, rule PolicySecret_In_codec, unfold PolicySecret_In_Unmarshal_def,
      intro same_bind same_return, intro sized_intro,
      rule out_ok0 [OF TSS_PolicySecret_Out_Unmarshal_def PolicySecret_Out_delivers], intro sized_intro)

lemma PolicyTicket_attributes:
  "CommandCodeToCommandIndex TPM_CC_PolicyTicket = Some 77" "getCommandHandleCount 77 = Some 1" "getresponseHandleCount 77 = Some 0"
  "getDecryptSize 77 = Some 2" "getEncryptSize 77 = Some 0" "roles_ok 77 1"
  by (simp_all add: attribute_simps roles_ok_def)

lemma PolicyTicket_ok: "command_ok marshal_PolicyTicket"
  by (rule command_okI [OF marshal_PolicyTicket_def PolicyTicket_attributes], simp, rule in_ok1, simp, rule PolicyTicket_In_codec, unfold PolicyTicket_In_Unmarshal_def,
      intro same_bind same_return, intro sized_intro,
      rule no_response_ok)

lemma PolicyOR_attributes:
  "CommandCodeToCommandIndex TPM_CC_PolicyOR = Some 76" "getCommandHandleCount 76 = Some 1" "getresponseHandleCount 76 = Some 0"
  "getDecryptSize 76 = Some 0" "getEncryptSize 76 = Some 0" "roles_ok 76 1"
  by (simp_all add: attribute_simps roles_ok_def)

lemma PolicyOR_ok: "command_ok marshal_PolicyOR"
  by (rule command_okI [OF marshal_PolicyOR_def PolicyOR_attributes], simp, rule in_ok1, simp, rule PolicyOR_In_codec, unfold PolicyOR_In_Unmarshal_def,
      intro same_bind same_return, simp,
      rule no_response_ok)

lemma PolicyPCR_attributes:
  "CommandCodeToCommandIndex TPM_CC_PolicyPCR = Some 88" "getCommandHandleCount 88 = Some 1" "getresponseHandleCount 88 = Some 0"
  "getDecryptSize 88 = Some 2" "getEncryptSize 88 = Some 0" "roles_ok 88 1"
  by (simp_all add: attribute_simps roles_ok_def)

lemma PolicyPCR_ok: "command_ok marshal_PolicyPCR"
  by (rule command_okI [OF marshal_PolicyPCR_def PolicyPCR_attributes], simp, rule in_ok1, simp, rule PolicyPCR_In_codec, unfold PolicyPCR_In_Unmarshal_def,
      intro same_bind same_return, intro sized_intro,
      rule no_response_ok)

lemma PolicyLocality_attributes:
  "CommandCodeToCommandIndex TPM_CC_PolicyLocality = Some 74" "getCommandHandleCount 74 = Some 1" "getresponseHandleCount 74 = Some 0"
  "getDecryptSize 74 = Some 0" "getEncryptSize 74 = Some 0" "roles_ok 74 1"
  by (simp_all add: attribute_simps roles_ok_def)

lemma PolicyLocality_ok: "command_ok marshal_PolicyLocality"
  by (rule command_okI [OF marshal_PolicyLocality_def PolicyLocality_attributes], simp, rule in_ok1, simp, rule PolicyLocality_In_codec, unfold PolicyLocality_In_Unmarshal_def,
      intro same_bind same_return, simp,
      rule no_response_ok)

lemma PolicyNV_attributes:
  "CommandCodeToCommandIndex TPM_CC_PolicyNV = Some 39" "getCommandHandleCount 39 = Some 3" "getresponseHandleCount 39 = Some 0"
  "getDecryptSize 39 = Some 2" "getEncryptSize 39 = Some 0" "roles_ok 39 3"
  by (simp_all add: attribute_simps roles_ok_def)

lemma PolicyNV_ok: "command_ok marshal_PolicyNV"
  by (rule command_okI [OF marshal_PolicyNV_def PolicyNV_attributes], simp, rule in_ok3, simp, rule PolicyNV_In_codec, unfold PolicyNV_In_Unmarshal_def,
      intro same_bind same_return, intro sized_intro,
      rule no_response_ok)

lemma PolicyCounterTimer_attributes:
  "CommandCodeToCommandIndex TPM_CC_PolicyCounterTimer = Some 72" "getCommandHandleCount 72 = Some 1" "getresponseHandleCount 72 = Some 0"
  "getDecryptSize 72 = Some 2" "getEncryptSize 72 = Some 0" "roles_ok 72 1"
  by (simp_all add: attribute_simps roles_ok_def)

lemma PolicyCounterTimer_ok: "command_ok marshal_PolicyCounterTimer"
  by (rule command_okI [OF marshal_PolicyCounterTimer_def PolicyCounterTimer_attributes], simp, rule in_ok1, simp, rule PolicyCounterTimer_In_codec, unfold PolicyCounterTimer_In_Unmarshal_def,
      intro same_bind same_return, intro sized_intro,
      rule no_response_ok)

lemma PolicyCommandCode_attributes:
  "CommandCodeToCommandIndex TPM_CC_PolicyCommandCode = Some 71" "getCommandHandleCount 71 = Some 1" "getresponseHandleCount 71 = Some 0"
  "getDecryptSize 71 = Some 0" "getEncryptSize 71 = Some 0" "roles_ok 71 1"
  by (simp_all add: attribute_simps roles_ok_def)

lemma PolicyCommandCode_ok: "command_ok marshal_PolicyCommandCode"
  by (rule command_okI [OF marshal_PolicyCommandCode_def PolicyCommandCode_attributes], simp, rule in_ok1, simp, rule PolicyCommandCode_In_codec, unfold PolicyCommandCode_In_Unmarshal_def,
      intro same_bind same_return, simp,
      rule no_response_ok)

lemma PolicyPhysicalPresence_attributes:
  "CommandCodeToCommandIndex TPM_CC_PolicyPhysicalPresence = Some 96" "getCommandHandleCount 96 = Some 1" "getresponseHandleCount 96 = Some 0"
  "getDecryptSize 96 = Some 0" "getEncryptSize 96 = Some 0" "roles_ok 96 1"
  by (simp_all add: attribute_simps roles_ok_def)

lemma PolicyPhysicalPresence_ok: "command_ok marshal_PolicyPhysicalPresence"
  by (rule command_okI [OF marshal_PolicyPhysicalPresence_def PolicyPhysicalPresence_attributes], simp, rule in_ok1, simp, rule PolicyPhysicalPresence_In_codec, unfold PolicyPhysicalPresence_In_Unmarshal_def,
      intro same_bind same_return, simp,
      rule no_response_ok)

lemma PolicyCpHash_attributes:
  "CommandCodeToCommandIndex TPM_CC_PolicyCpHash = Some 73" "getCommandHandleCount 73 = Some 1" "getresponseHandleCount 73 = Some 0"
  "getDecryptSize 73 = Some 2" "getEncryptSize 73 = Some 0" "roles_ok 73 1"
  by (simp_all add: attribute_simps roles_ok_def)

lemma PolicyCpHash_ok: "command_ok marshal_PolicyCpHash"
  by (rule command_okI [OF marshal_PolicyCpHash_def PolicyCpHash_attributes], simp, rule in_ok1, simp, rule PolicyCpHash_In_codec, unfold PolicyCpHash_In_Unmarshal_def,
      intro same_bind same_return, intro sized_intro,
      rule no_response_ok)

lemma PolicyNameHash_attributes:
  "CommandCodeToCommandIndex TPM_CC_PolicyNameHash = Some 75" "getCommandHandleCount 75 = Some 1" "getresponseHandleCount 75 = Some 0"
  "getDecryptSize 75 = Some 2" "getEncryptSize 75 = Some 0" "roles_ok 75 1"
  by (simp_all add: attribute_simps roles_ok_def)

lemma PolicyNameHash_ok: "command_ok marshal_PolicyNameHash"
  by (rule command_okI [OF marshal_PolicyNameHash_def PolicyNameHash_attributes], simp, rule in_ok1, simp, rule PolicyNameHash_In_codec, unfold PolicyNameHash_In_Unmarshal_def,
      intro same_bind same_return, intro sized_intro,
      rule no_response_ok)

lemma PolicyDuplicationSelect_attributes:
  "CommandCodeToCommandIndex TPM_CC_PolicyDuplicationSelect = Some 97" "getCommandHandleCount 97 = Some 1" "getresponseHandleCount 97 = Some 0"
  "getDecryptSize 97 = Some 2" "getEncryptSize 97 = Some 0" "roles_ok 97 1"
  by (simp_all add: attribute_simps roles_ok_def)

lemma PolicyDuplicationSelect_ok: "command_ok marshal_PolicyDuplicationSelect"
  by (rule command_okI [OF marshal_PolicyDuplicationSelect_def PolicyDuplicationSelect_attributes], simp, rule in_ok1, simp, rule PolicyDuplicationSelect_In_codec, unfold PolicyDuplicationSelect_In_Unmarshal_def,
      intro same_bind same_return, intro sized_intro,
      rule no_response_ok)

lemma PolicyAuthorize_attributes:
  "CommandCodeToCommandIndex TPM_CC_PolicyAuthorize = Some 69" "getCommandHandleCount 69 = Some 1" "getresponseHandleCount 69 = Some 0"
  "getDecryptSize 69 = Some 2" "getEncryptSize 69 = Some 0" "roles_ok 69 1"
  by (simp_all add: attribute_simps roles_ok_def)

lemma PolicyAuthorize_ok: "command_ok marshal_PolicyAuthorize"
  by (rule command_okI [OF marshal_PolicyAuthorize_def PolicyAuthorize_attributes], simp, rule in_ok1, simp, rule PolicyAuthorize_In_codec, unfold PolicyAuthorize_In_Unmarshal_def,
      intro same_bind same_return, intro sized_intro,
      rule no_response_ok)

lemma PolicyAuthValue_attributes:
  "CommandCodeToCommandIndex TPM_CC_PolicyAuthValue = Some 70" "getCommandHandleCount 70 = Some 1" "getresponseHandleCount 70 = Some 0"
  "getDecryptSize 70 = Some 0" "getEncryptSize 70 = Some 0" "roles_ok 70 1"
  by (simp_all add: attribute_simps roles_ok_def)

lemma PolicyAuthValue_ok: "command_ok marshal_PolicyAuthValue"
  by (rule command_okI [OF marshal_PolicyAuthValue_def PolicyAuthValue_attributes], simp, rule in_ok1, simp, rule PolicyAuthValue_In_codec, unfold PolicyAuthValue_In_Unmarshal_def,
      intro same_bind same_return, simp,
      rule no_response_ok)

lemma PolicyPassword_attributes:
  "CommandCodeToCommandIndex TPM_CC_PolicyPassword = Some 101" "getCommandHandleCount 101 = Some 1" "getresponseHandleCount 101 = Some 0"
  "getDecryptSize 101 = Some 0" "getEncryptSize 101 = Some 0" "roles_ok 101 1"
  by (simp_all add: attribute_simps roles_ok_def)

lemma PolicyPassword_ok: "command_ok marshal_PolicyPassword"
  by (rule command_okI [OF marshal_PolicyPassword_def PolicyPassword_attributes], simp, rule in_ok1, simp, rule PolicyPassword_In_codec, unfold PolicyPassword_In_Unmarshal_def,
      intro same_bind same_return, simp,
      rule no_response_ok)

lemma PolicyGetDigest_attributes:
  "CommandCodeToCommandIndex TPM_CC_PolicyGetDigest = Some 98" "getCommandHandleCount 98 = Some 1" "getresponseHandleCount 98 = Some 0"
  "getDecryptSize 98 = Some 0" "getEncryptSize 98 = Some 2" "roles_ok 98 1"
  by (simp_all add: attribute_simps roles_ok_def)

lemma PolicyGetDigest_ok: "command_ok marshal_PolicyGetDigest"
  by (rule command_okI [OF marshal_PolicyGetDigest_def PolicyGetDigest_attributes], simp, rule in_ok1, simp, rule PolicyGetDigest_In_codec, unfold PolicyGetDigest_In_Unmarshal_def,
      intro same_bind same_return, simp,
      rule out_ok0 [OF TSS_PolicyGetDigest_Out_Unmarshal_def PolicyGetDigest_Out_delivers], intro sized_intro)

lemma PolicyNvWritten_attributes:
  "CommandCodeToCommandIndex TPM_CC_PolicyNvWritten = Some 104" "getCommandHandleCount 104 = Some 1" "getresponseHandleCount 104 = Some 0"
  "getDecryptSize 104 = Some 0" "getEncryptSize 104 = Some 0" "roles_ok 104 1"
  by (simp_all add: attribute_simps roles_ok_def)

lemma PolicyNvWritten_ok: "command_ok marshal_PolicyNvWritten"
  by (rule command_okI [OF marshal_PolicyNvWritten_def PolicyNvWritten_attributes], simp, rule in_ok1, simp, rule PolicyNvWritten_In_codec, unfold PolicyNvWritten_In_Unmarshal_def,
      intro same_bind same_return, simp,
      rule no_response_ok)

lemma CreatePrimary_attributes:
  "CommandCodeToCommandIndex TPM_CC_CreatePrimary = Some 16" "getCommandHandleCount 16 = Some 1" "getresponseHandleCount 16 = Some 1"
  "getDecryptSize 16 = Some 2" "getEncryptSize 16 = Some 2" "roles_ok 16 1"
  by (simp_all add: attribute_simps roles_ok_def)

lemma CreatePrimary_ok: "command_ok marshal_CreatePrimary"
  by (rule command_okI [OF marshal_CreatePrimary_def CreatePrimary_attributes], simp, rule in_ok1, simp, rule CreatePrimary_In_codec [OF le_refl], unfold CreatePrimary_In_Unmarshal_def,
      intro same_bind same_return, intro sized_intro,
      rule out_ok1 [OF TSS_CreatePrimary_Out_Unmarshal_def CreatePrimary_Out_delivers TPM_HANDLE_codec TPM_HANDLE_emits], intro sized_intro)

lemma HierarchyControl_attributes:
  "CommandCodeToCommandIndex TPM_CC_HierarchyControl = Some 2" "getCommandHandleCount 2 = Some 1" "getresponseHandleCount 2 = Some 0"
  "getDecryptSize 2 = Some 0" "getEncryptSize 2 = Some 0" "roles_ok 2 1"
  by (simp_all add: attribute_simps roles_ok_def)

lemma HierarchyControl_ok: "command_ok marshal_HierarchyControl"
  by (rule command_okI [OF marshal_HierarchyControl_def HierarchyControl_attributes], simp, rule in_ok1, simp, rule HierarchyControl_In_codec, unfold HierarchyControl_In_Unmarshal_def,
      intro same_bind same_return, simp,
      rule no_response_ok)

lemma SetPrimaryPolicy_attributes:
  "CommandCodeToCommandIndex TPM_CC_SetPrimaryPolicy = Some 14" "getCommandHandleCount 14 = Some 1" "getresponseHandleCount 14 = Some 0"
  "getDecryptSize 14 = Some 2" "getEncryptSize 14 = Some 0" "roles_ok 14 1"
  by (simp_all add: attribute_simps roles_ok_def)

lemma SetPrimaryPolicy_ok: "command_ok marshal_SetPrimaryPolicy"
  by (rule command_okI [OF marshal_SetPrimaryPolicy_def SetPrimaryPolicy_attributes], simp, rule in_ok1, simp, rule SetPrimaryPolicy_In_codec, unfold SetPrimaryPolicy_In_Unmarshal_def,
      intro same_bind same_return, intro sized_intro,
      rule no_response_ok)

lemma ChangePPS_attributes:
  "CommandCodeToCommandIndex TPM_CC_ChangePPS = Some 5" "getCommandHandleCount 5 = Some 1" "getresponseHandleCount 5 = Some 0"
  "getDecryptSize 5 = Some 0" "getEncryptSize 5 = Some 0" "roles_ok 5 1"
  by (simp_all add: attribute_simps roles_ok_def)

lemma ChangePPS_ok: "command_ok marshal_ChangePPS"
  by (rule command_okI [OF marshal_ChangePPS_def ChangePPS_attributes], simp, rule in_ok1, simp, rule ChangePPS_In_codec, unfold ChangePPS_In_Unmarshal_def,
      intro same_bind same_return, simp,
      rule no_response_ok)

lemma ChangeEPS_attributes:
  "CommandCodeToCommandIndex TPM_CC_ChangeEPS = Some 4" "getCommandHandleCount 4 = Some 1" "getresponseHandleCount 4 = Some 0"
  "getDecryptSize 4 = Some 0" "getEncryptSize 4 = Some 0" "roles_ok 4 1"
  by (simp_all add: attribute_simps roles_ok_def)

lemma ChangeEPS_ok: "command_ok marshal_ChangeEPS"
  by (rule command_okI [OF marshal_ChangeEPS_def ChangeEPS_attributes], simp, rule in_ok1, simp, rule ChangeEPS_In_codec, unfold ChangeEPS_In_Unmarshal_def,
      intro same_bind same_return, simp,
      rule no_response_ok)

lemma Clear_attributes:
  "CommandCodeToCommandIndex TPM_CC_Clear = Some 6" "getCommandHandleCount 6 = Some 1" "getresponseHandleCount 6 = Some 0"
  "getDecryptSize 6 = Some 0" "getEncryptSize 6 = Some 0" "roles_ok 6 1"
  by (simp_all add: attribute_simps roles_ok_def)

lemma Clear_ok: "command_ok marshal_Clear"
  by (rule command_okI [OF marshal_Clear_def Clear_attributes], simp, rule in_ok1, simp, rule Clear_In_codec, unfold Clear_In_Unmarshal_def,
      intro same_bind same_return, simp,
      rule no_response_ok)

lemma ClearControl_attributes:
  "CommandCodeToCommandIndex TPM_CC_ClearControl = Some 7" "getCommandHandleCount 7 = Some 1" "getresponseHandleCount 7 = Some 0"
  "getDecryptSize 7 = Some 0" "getEncryptSize 7 = Some 0" "roles_ok 7 1"
  by (simp_all add: attribute_simps roles_ok_def)

lemma ClearControl_ok: "command_ok marshal_ClearControl"
  by (rule command_okI [OF marshal_ClearControl_def ClearControl_attributes], simp, rule in_ok1, simp, rule ClearControl_In_codec, unfold ClearControl_In_Unmarshal_def,
      intro same_bind same_return, simp,
      rule no_response_ok)

lemma HierarchyChangeAuth_attributes:
  "CommandCodeToCommandIndex TPM_CC_HierarchyChangeAuth = Some 9" "getCommandHandleCount 9 = Some 1" "getresponseHandleCount 9 = Some 0"
  "getDecryptSize 9 = Some 2" "getEncryptSize 9 = Some 0" "roles_ok 9 1"
  by (simp_all add: attribute_simps roles_ok_def)

lemma HierarchyChangeAuth_ok: "command_ok marshal_HierarchyChangeAuth"
  by (rule command_okI [OF marshal_HierarchyChangeAuth_def HierarchyChangeAuth_attributes], simp, rule in_ok1, simp, rule HierarchyChangeAuth_In_codec, unfold HierarchyChangeAuth_In_Unmarshal_def,
      intro same_bind same_return, intro sized_intro,
      rule no_response_ok)

lemma DictionaryAttackLockReset_attributes:
  "CommandCodeToCommandIndex TPM_CC_DictionaryAttackLockReset = Some 24" "getCommandHandleCount 24 = Some 1" "getresponseHandleCount 24 = Some 0"
  "getDecryptSize 24 = Some 0" "getEncryptSize 24 = Some 0" "roles_ok 24 1"
  by (simp_all add: attribute_simps roles_ok_def)

lemma DictionaryAttackLockReset_ok: "command_ok marshal_DictionaryAttackLockReset"
  by (rule command_okI [OF marshal_DictionaryAttackLockReset_def DictionaryAttackLockReset_attributes], simp, rule in_ok1, simp, rule DictionaryAttackLockReset_In_codec, unfold DictionaryAttackLockReset_In_Unmarshal_def,
      intro same_bind same_return, simp,
      rule no_response_ok)

lemma DictionaryAttackParameters_attributes:
  "CommandCodeToCommandIndex TPM_CC_DictionaryAttackParameters = Some 25" "getCommandHandleCount 25 = Some 1" "getresponseHandleCount 25 = Some 0"
  "getDecryptSize 25 = Some 0" "getEncryptSize 25 = Some 0" "roles_ok 25 1"
  by (simp_all add: attribute_simps roles_ok_def)

lemma DictionaryAttackParameters_ok: "command_ok marshal_DictionaryAttackParameters"
  by (rule command_okI [OF marshal_DictionaryAttackParameters_def DictionaryAttackParameters_attributes], simp, rule in_ok1, simp, rule DictionaryAttackParameters_In_codec, unfold DictionaryAttackParameters_In_Unmarshal_def,
      intro same_bind same_return, simp,
      rule no_response_ok)

lemma PP_Commands_attributes:
  "CommandCodeToCommandIndex TPM_CC_PP_Commands = Some 13" "getCommandHandleCount 13 = Some 1" "getresponseHandleCount 13 = Some 0"
  "getDecryptSize 13 = Some 0" "getEncryptSize 13 = Some 0" "roles_ok 13 1"
  by (simp_all add: attribute_simps roles_ok_def)

lemma PP_Commands_ok: "command_ok marshal_PP_Commands"
  by (rule command_okI [OF marshal_PP_Commands_def PP_Commands_attributes], simp, rule in_ok1, simp, rule PP_Commands_In_codec, unfold PP_Commands_In_Unmarshal_def,
      intro same_bind same_return, simp,
      rule no_response_ok)

lemma SetAlgorithmSet_attributes:
  "CommandCodeToCommandIndex TPM_CC_SetAlgorithmSet = Some 30" "getCommandHandleCount 30 = Some 1" "getresponseHandleCount 30 = Some 0"
  "getDecryptSize 30 = Some 0" "getEncryptSize 30 = Some 0" "roles_ok 30 1"
  by (simp_all add: attribute_simps roles_ok_def)

lemma SetAlgorithmSet_ok: "command_ok marshal_SetAlgorithmSet"
  by (rule command_okI [OF marshal_SetAlgorithmSet_def SetAlgorithmSet_attributes], simp, rule in_ok1, simp, rule SetAlgorithmSet_In_codec, unfold SetAlgorithmSet_In_Unmarshal_def,
      intro same_bind same_return, simp,
      rule no_response_ok)

lemma ContextSave_attributes:
  "CommandCodeToCommandIndex TPM_CC_ContextSave = Some 62" "getCommandHandleCount 62 = Some 1" "getresponseHandleCount 62 = Some 0"
  "getDecryptSize 62 = Some 0" "getEncryptSize 62 = Some 0" "roles_ok 62 1"
  by (simp_all add: attribute_simps roles_ok_def)

lemma ContextSave_ok: "command_ok marshal_ContextSave"
  by (rule command_okI [OF marshal_ContextSave_def ContextSave_attributes], simp, rule in_ok1, simp, rule ContextSave_In_codec, unfold ContextSave_In_Unmarshal_def,
      intro same_bind same_return, simp,
      rule out_ok0 [OF TSS_ContextSave_Out_Unmarshal_def ContextSave_Out_delivers], simp)

lemma ContextLoad_attributes:
  "CommandCodeToCommandIndex TPM_CC_ContextLoad = Some 61" "getCommandHandleCount 61 = Some 0" "getresponseHandleCount 61 = Some 1"
  "getDecryptSize 61 = Some 0" "getEncryptSize 61 = Some 0" "roles_ok 61 0"
  by (simp_all add: attribute_simps roles_ok_def)

lemma ContextLoad_ok: "command_ok marshal_ContextLoad"
  by (rule command_okI [OF marshal_ContextLoad_def ContextLoad_attributes], simp, rule in_ok0, simp, rule ContextLoad_In_codec, unfold ContextLoad_In_Unmarshal_def,
      intro same_bind same_return, simp,
      rule out_ok1 [OF TSS_ContextLoad_Out_Unmarshal_def ContextLoad_Out_delivers TPMI_DH_CONTEXT_codec handle_emits(1)], simp)

lemma FlushContext_attributes:
  "CommandCodeToCommandIndex TPM_CC_FlushContext = Some 65" "getCommandHandleCount 65 = Some 0" "getresponseHandleCount 65 = Some 0"
  "getDecryptSize 65 = Some 0" "getEncryptSize 65 = Some 0" "roles_ok 65 0"
  by (simp_all add: attribute_simps roles_ok_def)

lemma FlushContext_ok: "command_ok marshal_FlushContext"
  by (rule command_okI [OF marshal_FlushContext_def FlushContext_attributes], simp, rule in_ok0, simp, rule FlushContext_In_codec, unfold FlushContext_In_Unmarshal_def,
      intro same_bind same_return, simp,
      rule no_response_ok)

lemma EvictControl_attributes:
  "CommandCodeToCommandIndex TPM_CC_EvictControl = Some 1" "getCommandHandleCount 1 = Some 2" "getresponseHandleCount 1 = Some 0"
  "getDecryptSize 1 = Some 0" "getEncryptSize 1 = Some 0" "roles_ok 1 2"
  by (simp_all add: attribute_simps roles_ok_def)

lemma EvictControl_ok: "command_ok marshal_EvictControl"
  by (rule command_okI [OF marshal_EvictControl_def EvictControl_attributes], simp, rule in_ok2, simp, rule EvictControl_In_codec, unfold EvictControl_In_Unmarshal_def,
      intro same_bind same_return, simp,
      rule no_response_ok)

lemma ReadClock_attributes:
  "CommandCodeToCommandIndex TPM_CC_ReadClock = Some 90" "getCommandHandleCount 90 = Some 0" "getresponseHandleCount 90 = Some 0"
  "getDecryptSize 90 = Some 0" "getEncryptSize 90 = Some 0" "roles_ok 90 0"
  by (simp_all add: attribute_simps roles_ok_def)

lemma ReadClock_ok: "command_ok marshal_ReadClock"
  by (rule command_okI [OF marshal_ReadClock_def ReadClock_attributes], simp, rule no_params_ok,
      rule out_ok0 [OF TSS_ReadClock_Out_Unmarshal_def ReadClock_Out_delivers], simp)

lemma ClockSet_attributes:
  "CommandCodeToCommandIndex TPM_CC_ClockSet = Some 8" "getCommandHandleCount 8 = Some 1" "getresponseHandleCount 8 = Some 0"
  "getDecryptSize 8 = Some 0" "getEncryptSize 8 = Some 0" "roles_ok 8 1"
  by (simp_all add: attribute_simps roles_ok_def)

lemma ClockSet_ok: "command_ok marshal_ClockSet"
  by (rule command_okI [OF marshal_ClockSet_def ClockSet_attributes], simp, rule in_ok1, simp, rule ClockSet_In_codec, unfold ClockSet_In_Unmarshal_def,
      intro same_bind same_return, simp,
      rule no_response_ok)

lemma ClockRateAdjust_attributes:
  "CommandCodeToCommandIndex TPM_CC_ClockRateAdjust = Some 15" "getCommandHandleCount 15 = Some 1" "getresponseHandleCount 15 = Some 0"
  "getDecryptSize 15 = Some 0" "getEncryptSize 15 = Some 0" "roles_ok 15 1"
  by (simp_all add: attribute_simps roles_ok_def)

lemma ClockRateAdjust_ok: "command_ok marshal_ClockRateAdjust"
  by (rule command_okI [OF marshal_ClockRateAdjust_def ClockRateAdjust_attributes], simp, rule in_ok1, simp, rule ClockRateAdjust_In_codec, unfold ClockRateAdjust_In_Unmarshal_def,
      intro same_bind same_return, simp,
      rule no_response_ok)

lemma GetCapability_attributes:
  "CommandCodeToCommandIndex TPM_CC_GetCapability = Some 83" "getCommandHandleCount 83 = Some 0" "getresponseHandleCount 83 = Some 0"
  "getDecryptSize 83 = Some 0" "getEncryptSize 83 = Some 0" "roles_ok 83 0"
  by (simp_all add: attribute_simps roles_ok_def)

lemma GetCapability_ok: "command_ok marshal_GetCapability"
  by (rule command_okI [OF marshal_GetCapability_def GetCapability_attributes], simp, rule in_ok0, simp, rule GetCapability_In_codec, unfold GetCapability_In_Unmarshal_def,
      intro same_bind same_return, simp,
      rule out_ok0 [OF TSS_GetCapability_Out_Unmarshal_def GetCapability_Out_delivers], simp)

lemma TestParms_attributes:
  "CommandCodeToCommandIndex TPM_CC_TestParms = Some 99" "getCommandHandleCount 99 = Some 0" "getresponseHandleCount 99 = Some 0"
  "getDecryptSize 99 = Some 0" "getEncryptSize 99 = Some 0" "roles_ok 99 0"
  by (simp_all add: attribute_simps roles_ok_def)

lemma TestParms_ok: "command_ok marshal_TestParms"
  by (rule command_okI [OF marshal_TestParms_def TestParms_attributes], simp, rule in_ok0, simp, rule TestParms_In_codec, unfold TestParms_In_Unmarshal_def,
      intro same_bind same_return, simp,
      rule no_response_ok)

lemma NV_DefineSpace_attributes:
  "CommandCodeToCommandIndex TPM_CC_NV_DefineSpace = Some 10" "getCommandHandleCount 10 = Some 1" "getresponseHandleCount 10 = Some 0"
  "getDecryptSize 10 = Some 2" "getEncryptSize 10 = Some 0" "roles_ok 10 1"
  by (simp_all add: attribute_simps roles_ok_def)

lemma NV_DefineSpace_ok: "command_ok marshal_NV_DefineSpace"
  by (rule command_okI [OF marshal_NV_DefineSpace_def NV_DefineSpace_attributes], simp, rule in_ok1, simp, rule NV_DefineSpace_In_codec [OF le_refl], unfold NV_DefineSpace_In_Unmarshal_def,
      intro same_bind same_return, intro sized_intro,
      rule no_response_ok)

lemma NV_UndefineSpace_attributes:
  "CommandCodeToCommandIndex TPM_CC_NV_UndefineSpace = Some 3" "getCommandHandleCount 3 = Some 2" "getresponseHandleCount 3 = Some 0"
  "getDecryptSize 3 = Some 0" "getEncryptSize 3 = Some 0" "roles_ok 3 2"
  by (simp_all add: attribute_simps roles_ok_def)

lemma NV_UndefineSpace_ok: "command_ok marshal_NV_UndefineSpace"
  by (rule command_okI [OF marshal_NV_UndefineSpace_def NV_UndefineSpace_attributes], simp, rule in_ok2, simp, rule NV_UndefineSpace_In_codec, unfold NV_UndefineSpace_In_Unmarshal_def,
      intro same_bind same_return, simp,
      rule no_response_ok)

lemma NV_UndefineSpaceSpecial_attributes:
  "CommandCodeToCommandIndex TPM_CC_NV_UndefineSpaceSpecial = Some 0" "getCommandHandleCount 0 = Some 2" "getresponseHandleCount 0 = Some 0"
  "getDecryptSize 0 = Some 0" "getEncryptSize 0 = Some 0" "roles_ok 0 2"
  by (simp_all add: attribute_simps roles_ok_def)

lemma NV_UndefineSpaceSpecial_ok: "command_ok marshal_NV_UndefineSpaceSpecial"
  by (rule command_okI [OF marshal_NV_UndefineSpaceSpecial_def NV_UndefineSpaceSpecial_attributes], simp, rule in_ok2, simp, rule NV_UndefineSpaceSpecial_In_codec, unfold NV_UndefineSpaceSpecial_In_Unmarshal_def,
      intro same_bind same_return, simp,
      rule no_response_ok)

lemma NV_ReadPublic_attributes:
  "CommandCodeToCommandIndex TPM_CC_NV_ReadPublic = Some 68" "getCommandHandleCount 68 = Some 1" "getresponseHandleCount 68 = Some 0"
  "getDecryptSize 68 = Some 0" "getEncryptSize 68 = Some 2" "roles_ok 68 1"
  by (simp_all add: attribute_simps roles_ok_def)

lemma NV_ReadPublic_ok: "command_ok marshal_NV_ReadPublic"
  by (rule command_okI [OF marshal_NV_ReadPublic_def NV_ReadPublic_attributes], simp, rule in_ok1, simp, rule NV_ReadPublic_In_codec, unfold NV_ReadPublic_In_Unmarshal_def,
      intro same_bind same_return, simp,
      rule out_ok0 [OF TSS_NV_ReadPublic_Out_Unmarshal_def NV_ReadPublic_Out_delivers], intro sized_intro)

lemma NV_Write_attributes:
  "CommandCodeToCommandIndex TPM_CC_NV_Write = Some 22" "getCommandHandleCount 22 = Some 2" "getresponseHandleCount 22 = Some 0"
  "getDecryptSize 22 = Some 2" "getEncryptSize 22 = Some 0" "roles_ok 22 2"
  by (simp_all add: attribute_simps roles_ok_def)

lemma NV_Write_ok: "command_ok marshal_NV_Write"
  by (rule command_okI [OF marshal_NV_Write_def NV_Write_attributes], simp, rule in_ok2, simp, rule NV_Write_In_codec, unfold NV_Write_In_Unmarshal_def,
      intro same_bind same_return, intro sized_intro,
      rule no_response_ok)

lemma NV_Increment_attributes:
  "CommandCodeToCommandIndex TPM_CC_NV_Increment = Some 19" "getCommandHandleCount 19 = Some 2" "getresponseHandleCount 19 = Some 0"
  "getDecryptSize 19 = Some 0" "getEncryptSize 19 = Some 0" "roles_ok 19 2"
  by (simp_all add: attribute_simps roles_ok_def)

lemma NV_Increment_ok: "command_ok marshal_NV_Increment"
  by (rule command_okI [OF marshal_NV_Increment_def NV_Increment_attributes], simp, rule in_ok2, simp, rule NV_Increment_In_codec, unfold NV_Increment_In_Unmarshal_def,
      intro same_bind same_return, simp,
      rule no_response_ok)

lemma NV_Extend_attributes:
  "CommandCodeToCommandIndex TPM_CC_NV_Extend = Some 21" "getCommandHandleCount 21 = Some 2" "getresponseHandleCount 21 = Some 0"
  "getDecryptSize 21 = Some 2" "getEncryptSize 21 = Some 0" "roles_ok 21 2"
  by (simp_all add: attribute_simps roles_ok_def)

lemma NV_Extend_ok: "command_ok marshal_NV_Extend"
  by (rule command_okI [OF marshal_NV_Extend_def NV_Extend_attributes], simp, rule in_ok2, simp, rule NV_Extend_In_codec, unfold NV_Extend_In_Unmarshal_def,
      intro same_bind same_return, intro sized_intro,
      rule no_response_ok)

lemma NV_SetBits_attributes:
  "CommandCodeToCommandIndex TPM_CC_NV_SetBits = Some 20" "getCommandHandleCount 20 = Some 2" "getresponseHandleCount 20 = Some 0"
  "getDecryptSize 20 = Some 0" "getEncryptSize 20 = Some 0" "roles_ok 20 2"
  by (simp_all add: attribute_simps roles_ok_def)

lemma NV_SetBits_ok: "command_ok marshal_NV_SetBits"
  by (rule command_okI [OF marshal_NV_SetBits_def NV_SetBits_attributes], simp, rule in_ok2, simp, rule NV_SetBits_In_codec, unfold NV_SetBits_In_Unmarshal_def,
      intro same_bind same_return, simp,
      rule no_response_ok)

lemma NV_WriteLock_attributes:
  "CommandCodeToCommandIndex TPM_CC_NV_WriteLock = Some 23" "getCommandHandleCount 23 = Some 2" "getresponseHandleCount 23 = Some 0"
  "getDecryptSize 23 = Some 0" "getEncryptSize 23 = Some 0" "roles_ok 23 2"
  by (simp_all add: attribute_simps roles_ok_def)

lemma NV_WriteLock_ok: "command_ok marshal_NV_WriteLock"
  by (rule command_okI [OF marshal_NV_WriteLock_def NV_WriteLock_attributes], simp, rule in_ok2, simp, rule NV_WriteLock_In_codec, unfold NV_WriteLock_In_Unmarshal_def,
      intro same_bind same_return, simp,
      rule no_response_ok)

lemma NV_GlobalWriteLock_attributes:
  "CommandCodeToCommandIndex TPM_CC_NV_GlobalWriteLock = Some 17" "getCommandHandleCount 17 = Some 1" "getresponseHandleCount 17 = Some 0"
  "getDecryptSize 17 = Some 0" "getEncryptSize 17 = Some 0" "roles_ok 17 1"
  by (simp_all add: attribute_simps roles_ok_def)

lemma NV_GlobalWriteLock_ok: "command_ok marshal_NV_GlobalWriteLock"
  by (rule command_okI [OF marshal_NV_GlobalWriteLock_def NV_GlobalWriteLock_attributes], simp, rule in_ok1, simp, rule NV_GlobalWriteLock_In_codec, unfold NV_GlobalWriteLock_In_Unmarshal_def,
      intro same_bind same_return, simp,
      rule no_response_ok)

lemma NV_Read_attributes:
  "CommandCodeToCommandIndex TPM_CC_NV_Read = Some 44" "getCommandHandleCount 44 = Some 2" "getresponseHandleCount 44 = Some 0"
  "getDecryptSize 44 = Some 0" "getEncryptSize 44 = Some 2" "roles_ok 44 2"
  by (simp_all add: attribute_simps roles_ok_def)

lemma NV_Read_ok: "command_ok marshal_NV_Read"
  by (rule command_okI [OF marshal_NV_Read_def NV_Read_attributes], simp, rule in_ok2, simp, rule NV_Read_In_codec, unfold NV_Read_In_Unmarshal_def,
      intro same_bind same_return, simp,
      rule out_ok0 [OF TSS_NV_Read_Out_Unmarshal_def NV_Read_Out_delivers], intro sized_intro)

lemma NV_ReadLock_attributes:
  "CommandCodeToCommandIndex TPM_CC_NV_ReadLock = Some 45" "getCommandHandleCount 45 = Some 2" "getresponseHandleCount 45 = Some 0"
  "getDecryptSize 45 = Some 0" "getEncryptSize 45 = Some 0" "roles_ok 45 2"
  by (simp_all add: attribute_simps roles_ok_def)

lemma NV_ReadLock_ok: "command_ok marshal_NV_ReadLock"
  by (rule command_okI [OF marshal_NV_ReadLock_def NV_ReadLock_attributes], simp, rule in_ok2, simp, rule NV_ReadLock_In_codec, unfold NV_ReadLock_In_Unmarshal_def,
      intro same_bind same_return, simp,
      rule no_response_ok)

lemma NV_ChangeAuth_attributes:
  "CommandCodeToCommandIndex TPM_CC_NV_ChangeAuth = Some 26" "getCommandHandleCount 26 = Some 1" "getresponseHandleCount 26 = Some 0"
  "getDecryptSize 26 = Some 2" "getEncryptSize 26 = Some 0" "roles_ok 26 1"
  by (simp_all add: attribute_simps roles_ok_def)

lemma NV_ChangeAuth_ok: "command_ok marshal_NV_ChangeAuth"
  by (rule command_okI [OF marshal_NV_ChangeAuth_def NV_ChangeAuth_attributes], simp, rule in_ok1, simp, rule NV_ChangeAuth_In_codec, unfold NV_ChangeAuth_In_Unmarshal_def,
      intro same_bind same_return, intro sized_intro,
      rule no_response_ok)

lemma NV_Certify_attributes:
  "CommandCodeToCommandIndex TPM_CC_NV_Certify = Some 93" "getCommandHandleCount 93 = Some 3" "getresponseHandleCount 93 = Some 0"
  "getDecryptSize 93 = Some 2" "getEncryptSize 93 = Some 2" "roles_ok 93 3"
  by (simp_all add: attribute_simps roles_ok_def)

lemma NV_Certify_ok: "command_ok marshal_NV_Certify"
  by (rule command_okI [OF marshal_NV_Certify_def NV_Certify_attributes], simp, rule in_ok3, simp, rule NV_Certify_In_codec, unfold NV_Certify_In_Unmarshal_def,
      intro same_bind same_return, intro sized_intro,
      rule out_ok0 [OF TSS_NV_Certify_Out_Unmarshal_def NV_Certify_Out_delivers], intro sized_intro)

lemma marshalTable_distinct: "distinct (map mt_commandCode marshalTable)"
  by (simp add: marshalTable_def marshal_Startup_def marshal_Shutdown_def marshal_SelfTest_def marshal_IncrementalSelfTest_def
    marshal_GetTestResult_def marshal_StartAuthSession_def marshal_PolicyRestart_def marshal_Create_def
    marshal_Load_def marshal_LoadExternal_def marshal_ReadPublic_def marshal_ActivateCredential_def
    marshal_MakeCredential_def marshal_Unseal_def marshal_ObjectChangeAuth_def marshal_Duplicate_def
    marshal_Rewrap_def marshal_Import_def marshal_RSA_Encrypt_def marshal_RSA_Decrypt_def
    marshal_ECDH_KeyGen_def marshal_ECDH_ZGen_def marshal_ECC_Parameters_def marshal_ZGen_2Phase_def
    marshal_EncryptDecrypt_def marshal_Hash_def marshal_HMAC_def marshal_GetRandom_def marshal_StirRandom_def
    marshal_HMAC_Start_def marshal_HashSequenceStart_def marshal_SequenceUpdate_def
    marshal_SequenceComplete_def marshal_EventSequenceComplete_def marshal_Certify_def
    marshal_CertifyCreation_def marshal_Quote_def marshal_GetSessionAuditDigest_def
    marshal_GetCommandAuditDigest_def marshal_GetTime_def marshal_Commit_def marshal_EC_Ephemeral_def
    marshal_VerifySignature_def marshal_Sign_def marshal_SetCommandCodeAuditStatus_def marshal_PCR_Extend_def
    marshal_PCR_Event_def marshal_PCR_Read_def marshal_PCR_Allocate_def marshal_PCR_SetAuthPolicy_def
    marshal_PCR_SetAuthValue_def marshal_PCR_Reset_def marshal_PolicySigned_def marshal_PolicySecret_def
    marshal_PolicyTicket_def marshal_PolicyOR_def marshal_PolicyPCR_def marshal_PolicyLocality_def
    marshal_PolicyNV_def marshal_PolicyCounterTimer_def marshal_PolicyCommandCode_def
    marshal_PolicyPhysicalPresence_def marshal_PolicyCpHash_def marshal_PolicyNameHash_def
    marshal_PolicyDuplicationSelect_def marshal_PolicyAuthorize_def marshal_PolicyAuthValue_def
    marshal_PolicyPassword_def marshal_PolicyGetDigest_def marshal_PolicyNvWritten_def
    marshal_CreatePrimary_def marshal_HierarchyControl_def marshal_SetPrimaryPolicy_def marshal_ChangePPS_def
    marshal_ChangeEPS_def marshal_Clear_def marshal_ClearControl_def marshal_HierarchyChangeAuth_def
    marshal_DictionaryAttackLockReset_def marshal_DictionaryAttackParameters_def marshal_PP_Commands_def
    marshal_SetAlgorithmSet_def marshal_ContextSave_def marshal_ContextLoad_def marshal_FlushContext_def
    marshal_EvictControl_def marshal_ReadClock_def marshal_ClockSet_def marshal_ClockRateAdjust_def
    marshal_GetCapability_def marshal_TestParms_def marshal_NV_DefineSpace_def marshal_NV_UndefineSpace_def
    marshal_NV_UndefineSpaceSpecial_def marshal_NV_ReadPublic_def marshal_NV_Write_def
    marshal_NV_Increment_def marshal_NV_Extend_def marshal_NV_SetBits_def marshal_NV_WriteLock_def
    marshal_NV_GlobalWriteLock_def marshal_NV_Read_def marshal_NV_ReadLock_def marshal_NV_ChangeAuth_def
    marshal_NV_Certify_def)

lemma marshalTable_ok: "list_all command_ok marshalTable"
  by (simp add: marshalTable_def Startup_ok Shutdown_ok SelfTest_ok IncrementalSelfTest_ok GetTestResult_ok StartAuthSession_ok
    PolicyRestart_ok Create_ok Load_ok LoadExternal_ok ReadPublic_ok ActivateCredential_ok MakeCredential_ok
    Unseal_ok ObjectChangeAuth_ok Duplicate_ok Rewrap_ok Import_ok RSA_Encrypt_ok RSA_Decrypt_ok
    ECDH_KeyGen_ok ECDH_ZGen_ok ECC_Parameters_ok ZGen_2Phase_ok EncryptDecrypt_ok Hash_ok HMAC_ok
    GetRandom_ok StirRandom_ok HMAC_Start_ok HashSequenceStart_ok SequenceUpdate_ok SequenceComplete_ok
    EventSequenceComplete_ok Certify_ok CertifyCreation_ok Quote_ok GetSessionAuditDigest_ok
    GetCommandAuditDigest_ok GetTime_ok Commit_ok EC_Ephemeral_ok VerifySignature_ok Sign_ok
    SetCommandCodeAuditStatus_ok PCR_Extend_ok PCR_Event_ok PCR_Read_ok PCR_Allocate_ok PCR_SetAuthPolicy_ok
    PCR_SetAuthValue_ok PCR_Reset_ok PolicySigned_ok PolicySecret_ok PolicyTicket_ok PolicyOR_ok PolicyPCR_ok
    PolicyLocality_ok PolicyNV_ok PolicyCounterTimer_ok PolicyCommandCode_ok PolicyPhysicalPresence_ok
    PolicyCpHash_ok PolicyNameHash_ok PolicyDuplicationSelect_ok PolicyAuthorize_ok PolicyAuthValue_ok
    PolicyPassword_ok PolicyGetDigest_ok PolicyNvWritten_ok CreatePrimary_ok HierarchyControl_ok
    SetPrimaryPolicy_ok ChangePPS_ok ChangeEPS_ok Clear_ok ClearControl_ok HierarchyChangeAuth_ok
    DictionaryAttackLockReset_ok DictionaryAttackParameters_ok PP_Commands_ok SetAlgorithmSet_ok
    ContextSave_ok ContextLoad_ok FlushContext_ok EvictControl_ok ReadClock_ok ClockSet_ok ClockRateAdjust_ok
    GetCapability_ok TestParms_ok NV_DefineSpace_ok NV_UndefineSpace_ok NV_UndefineSpaceSpecial_ok
    NV_ReadPublic_ok NV_Write_ok NV_Increment_ok NV_Extend_ok NV_SetBits_ok NV_WriteLock_ok
    NV_GlobalWriteLock_ok NV_Read_ok NV_ReadLock_ok NV_ChangeAuth_ok NV_Certify_ok)

text \<open>C9. Every entry of the dispatch table satisfies its contract, and no command code has two entries: the functions that marshal and check
  the parameters of a command are inverse to each other behind as many handles as the attribute table says, the function for its response
  reads that many handles, the optional size of the parameters and then the same parameters, the first of which starts with
  its size if the attributes allow it to be encrypted; and only handles that the command has are authorized.\<close>

theorem marshalTable_consistent: "list_all command_ok marshalTable \<and> distinct (map mt_commandCode marshalTable)"
  by (simp add: marshalTable_ok marshalTable_distinct)

end
