(* ===== verification/Tss_Auth_Correct.thy ===== *)
theory Tss_Auth_Correct
  imports Tss_Auth Tss_Dispatch
begin

text \<open>
  What the operations of \<^verbatim>\<open>tssauth.c\<close> do to the packets. \<open>packet\<close> is the abstract view of a command, \<open>holds\<close> says that a
  context holds it; \<open>TSS_Marshal\<close> makes a packet, \<open>TSS_SetCmdAuths\<close> adds the authorizations to it, and the functions that read
  a command give its parts. The last section is about responses.
\<close>

section \<open>Bytes in memory\<close>

definition bytes_at :: "(nat \<Rightarrow> byte) \<Rightarrow> nat \<Rightarrow> nat \<Rightarrow> byte list" where
  "bytes_at mem p n = map mem [p..<p + n]"

lemma length_bytes_at [simp]: "length (bytes_at mem p n) = n"
  by (simp add: bytes_at_def)

lemma bytes_at_add: "bytes_at mem p (n + m) = bytes_at mem p n @ bytes_at mem (p + n) m"
  using upt_add_eq_append [of p "p + n" m] by (simp add: bytes_at_def add.assoc)

lemma bytes_at_put [simp]: "bytes_at (put_bytes p bs mem) p (length bs) = bs"
  by (rule nth_equalityI) (simp_all add: bytes_at_def put_bytes_def)

lemma bytes_at_elsewhere: "p + n \<le> q \<or> q + length bs \<le> p \<Longrightarrow> bytes_at (put_bytes q bs mem) p n = bytes_at mem p n"
  by (auto simp: bytes_at_def put_bytes_def)

lemma bytes_at_within:
  assumes "bytes_at mem p (length (as @ bs @ cs)) = as @ bs @ cs"
  shows "bytes_at mem (p + length as) (length bs) = bs"
  using assms by (simp add: bytes_at_add)

lemma bytes_at_replace:
  assumes "bytes_at mem p (length (as @ bs @ cs)) = as @ bs @ cs" "length ds = length bs"
  shows "bytes_at (put_bytes (p + length as) ds mem) p (length (as @ ds @ cs)) = as @ ds @ cs"
proof -
  have "bytes_at (put_bytes (p + length as) ds mem) p (length as) = as"
    "bytes_at (put_bytes (p + length as) ds mem) (p + length as + length ds) (length cs) = cs"
    using assms by (simp_all add: bytes_at_elsewhere bytes_at_add)
  then show ?thesis by (simp add: bytes_at_add add.assoc [symmetric])
qed

lemma command_bytes_eq: "command_bytes c p n = bytes_at (commandBuffer c) p n"
  by (simp add: command_bytes_def bytes_at_def)

lemma from_command_eq:
  "p \<le> MAX_COMMAND_SIZE \<Longrightarrow> from_command c p = \<lparr>rest = bytes_at (commandBuffer c) p (MAX_COMMAND_SIZE - p), avail = int MAX_COMMAND_SIZE\<rparr>"
  by (simp add: from_command_def bytes_at_def)

lemma length_be [simp]: "length (be16 w) = 2" "length (be32 v) = 4"
  by (simp_all add: be16_def be32_def)

lemma ucast_of_nat_small: "n < 2 ^ 16 \<Longrightarrow> ucast (of_nat n :: 16 word) = (of_nat n :: 32 word)"
  by (simp add: unsigned_of_nat take_bit_nat_eq_self)

lemma update_order: "c\<lparr>commandSize := x, commandBuffer := y\<rparr> = c\<lparr>commandBuffer := y, commandSize := x\<rparr>"
  by (cases c) simp

lemma unat_ucast_16: "unat (ucast (n :: 16 word) :: 32 word) = unat n"
proof -
  have "unat n < 2 ^ 16" using unsigned_less [of n, where 'a = nat] by simp
  then show ?thesis by (simp add: unsigned_ucast_eq take_bit_nat_eq_self)
qed

text \<open>No command has more than three handles.\<close>

lemma handle_bytes:
  assumes "unat (h :: 32 word) \<le> 3"
  shows "unat (h * 4) = 4 * unat h" "unat (10 + 4 * h) = 10 + 4 * unat h"
proof -
  from assms have "h = 0 \<or> h = 1 \<or> h = 2 \<or> h = 3"
    by (auto simp: word_unat_eq_iff)
  then show "unat (h * 4) = 4 * unat h" "unat (10 + 4 * h) = 10 + 4 * unat h" by auto
qed

section \<open>Packets\<close>

record packet =
  pk_tag :: "16 word"
  pk_code :: TPM_CC
  pk_handles :: "byte list"
  pk_auths :: "byte list option"
  pk_params :: "byte list"

definition auth_area :: "byte list option \<Rightarrow> byte list" where
  "auth_area ao = (case ao of None \<Rightarrow> [] | Some as \<Rightarrow> be32 (of_nat (length as)) @ as)"

definition packet_size :: "packet \<Rightarrow> nat" where
  "packet_size p = 10 + length (pk_handles p) + length (auth_area (pk_auths p)) + length (pk_params p)"

definition packet_bytes :: "packet \<Rightarrow> byte list" where
  "packet_bytes p = be16 (pk_tag p) @ be32 (of_nat (packet_size p)) @ be32 (pk_code p) @ pk_handles p @
     auth_area (pk_auths p) @ pk_params p"

lemma length_packet_bytes [simp]: "length (packet_bytes p) = packet_size p"
  by (simp add: packet_bytes_def packet_size_def)

definition holds :: "TSS_AUTH_CONTEXT \<Rightarrow> packet \<Rightarrow> bool" where
  "holds c p \<longleftrightarrow> packet_size p \<le> MAX_COMMAND_SIZE \<and> unat (commandSize c) = packet_size p \<and>
     bytes_at (commandBuffer c) 0 (packet_size p) = packet_bytes p \<and>
     length (pk_handles p) = 4 * unat (commandHandleCount c) \<and>
     cpBuffer c = Some (10 + length (pk_handles p) + length (auth_area (pk_auths p))) \<and>
     unat (cpBufferSize c) = length (pk_params p)"

section \<open>Marshalling a command\<close>

definition plain_packet :: "TPM_CC \<Rightarrow> byte list \<Rightarrow> byte list \<Rightarrow> packet" where
  "plain_packet cc hs ps = \<lparr>pk_tag = TPM_ST_NO_SESSIONS, pk_code = cc, pk_handles = hs, pk_auths = None, pk_params = ps\<rparr>"

lemma packet_size_plain [simp]: "packet_size (plain_packet cc hs ps) = 10 + length hs + length ps"
  by (simp add: packet_size_def plain_packet_def auth_area_def)

lemma length_handle_area [simp]: "length (handle_area n handles) = 4 * n"
  by (induction n) (simp_all add: handle_area_def)

definition header_bytes :: "TPM_CC \<Rightarrow> byte list" where
  "header_bytes cc = be16 TPM_ST_NO_SESSIONS @ be32 2 @ be32 cc"

lemma marshal_header_emit:
  assumes "commandSize c = 0"
  shows "marshal_header cc (at_command c 0 (Some 4096)) =
    Done 0 (emit (header_bytes cc) (at_command c 0 (Some 4096)))"
proof -
  let ?s = "at_command c 0 (Some 4096)"
  let ?t = "emit (be16 TPM_ST_NO_SESSIONS) ?s" and ?u = "emit (be16 TPM_ST_NO_SESSIONS @ be32 2) ?s"
  have g: "good ?s" by (simp add: good_def at_command_def)
  have f: "fits 2 ?s" "fits 4 ?t" "fits 4 ?u" by (simp_all add: fits_def at_command_def emit_def)
  have g': "good ?t" "good ?u" using g by (auto intro: good_emit simp: fits_def at_command_def)
  have w: "ucast (written ?t) = (2 :: 32 word)" using assms by (simp add: at_command_def emit_def)
  have "TSS_TPMI_ST_COMMAND_TAG_Marshal TPM_ST_NO_SESSIONS ?s = Done 0 ?t"
    using emits_fits [OF emits_be16 g] f(1) by (simp add: TSS_TPMI_ST_COMMAND_TAG_Marshal_def TSS_TPM_ST_Marshal_def)
  moreover have "TSS_UINT32_Marshal 2 ?t = Done 0 ?u"
    using emits_fits [OF emits_UINT32 g'(1)] f(2) by (simp add: emit_append)
  moreover have "TSS_TPM_CC_Marshal cc ?u = Done 0 (emit (header_bytes cc) ?s)"
    using emits_fits [OF emits_UINT32 g'(2)] f(3) by (simp add: TSS_TPM_CC_Marshal_def emit_append header_bytes_def)
  ultimately show ?thesis by (simp add: marshal_header_def m_then_def w)
qed

lemma back_fill_UINT32: "back_fill (TSS_UINT32_Marshal w) p c = c\<lparr>commandBuffer := put_bytes p (be32 w) (commandBuffer c)\<rparr>"
  using emits_fits [OF emits_UINT32, of "\<lparr>written = 0, memory = commandBuffer c, position = Some p, room = None\<rparr>" w]
  by (simp add: back_fill_def good_def fits_def emit_def)

lemma back_fill_TAG: "back_fill (TSS_TPMI_ST_COMMAND_TAG_Marshal w) p c =
    c\<lparr>commandBuffer := put_bytes p (be16 w) (commandBuffer c)\<rparr>"
  using emits_fits [OF emits_be16, of "\<lparr>written = 0, memory = commandBuffer c, position = Some p, room = None\<rparr>" w]
  by (simp add: back_fill_def good_def fits_def emit_def TSS_TPMI_ST_COMMAND_TAG_Marshal_def TSS_TPM_ST_Marshal_def)

lemma length_header [simp]: "length (header_bytes cc) = 10"
  by (simp add: header_bytes_def)

text \<open>What the parameters of the source are: bytes that the check reads again, whatever handles it is given.\<close>

definition encodes :: "((nat \<Rightarrow> TPM_HANDLE) \<Rightarrow> COMMAND_PARAMETERS unmarshal) \<Rightarrow> (nat \<Rightarrow> TPM_HANDLE) \<Rightarrow> byte list \<Rightarrow>
  COMMAND_PARAMETERS \<Rightarrow> bool" where
  "encodes u hs ps inp \<longleftrightarrow> parses (u hs) ps inp \<and> (\<forall>h h' b. same_outcome (u h b) (u h' b))"

lemma validate_encoded:
  assumes u: "unmarshalInFunction c = Some u" "encodes u hs ps inp"
    and p: "p + length ps \<le> MAX_COMMAND_SIZE" "bytes_at (commandBuffer c) p (length ps) = ps"
  shows "validate_in handles c p = Some 0"
proof -
  have "bytes_at (commandBuffer c) p (MAX_COMMAND_SIZE - p) =
      ps @ bytes_at (commandBuffer c) (p + length ps) (MAX_COMMAND_SIZE - p - length ps)"
    using p bytes_at_add [of "commandBuffer c" p "length ps" "MAX_COMMAND_SIZE - p - length ps"] by simp
  with u(2) p(1) obtain b' where "u hs (from_command c p) = Ok inp b'"
    by (auto simp: from_command_eq encodes_def parses_def)
  moreover have "same_outcome (u hs (from_command c p)) (u handles (from_command c p))"
    using u(2) by (simp add: encodes_def)
  ultimately obtain v where "u handles (from_command c p) = Ok v b'"
    by (auto simp: same_outcome_def split: ures.splits)
  with u(1) show ?thesis by (simp add: validate_in_def)
qed

lemma marshal_packet_fits:
  assumes c: "commandSize c = 0" "marshalFunction c = Some m" "unmarshalInFunction c = Some u"
    and h: "unat (commandHandleCount c) \<le> 3" "length ha = 4 * unat (commandHandleCount c)"
    and e: "emits 2 (m inp) 0 (ha @ ps)" "encodes u hs ps inp"
    and n: "n = 10 + length ha + length ps" "n \<le> MAX_COMMAND_SIZE"
  shows "\<exists>mem. TSS_Marshal_packet handles c (Some inp) cc =
      Some (0, set_cpBuffer (c\<lparr>commandBuffer := mem, commandSize := of_nat n\<rparr>)) \<and>
    bytes_at mem 0 n = packet_bytes (plain_packet cc ha ps)"
proof -
  let ?s = "at_command c 0 (Some 4096)" and ?all = "header_bytes cc @ ha @ ps"
  let ?mem = "put_bytes 0 ?all (commandBuffer c)"
  let ?c2 = "c\<lparr>commandBuffer := ?mem, commandSize := of_nat n\<rparr>"
  have "good (emit (header_bytes cc) ?s)" "fits (length (ha @ ps)) (emit (header_bytes cc) ?s)"
    using n by (auto simp: good_def fits_def at_command_def emit_def)
  from emits_fits [OF e(1) this] have m: "m inp (emit (header_bytes cc) ?s) = Done 0 (emit ?all ?s)" by (simp add: emit_append)
  have pos: "position (emit (header_bytes cc) ?s) = Some 10" by (simp add: emit_def at_command_def)
  have c2: "put_command (emit ?all ?s) c = ?c2"
    using c(1) by (simp add: put_command_def emit_def at_command_def add.assoc n(1))
  have h4: "unat (commandHandleCount c * 4) = length ha" using handle_bytes(1) [OF h(1)] h(2) by simp
  have all: "bytes_at ?mem 0 (length ?all) = ?all" by (rule bytes_at_put)
  have "validate_in handles ?c2 (10 + length ha) = Some 0"
    using bytes_at_within [of ?mem 0 "header_bytes cc @ ha" ps "[]"] all n c(3) e(2)
    by (intro validate_encoded) (simp_all add: add.assoc)
  then have v: "validate_in handles ?c2 (10 + unat (commandHandleCount c * 4)) = Some 0"
    by (simp only: h4)
  have size: "ucast (of_nat n :: 16 word) = (of_nat n :: 32 word)"
    using n by (intro ucast_of_nat_small) simp
  from bytes_at_replace [of ?mem 0 "be16 TPM_ST_NO_SESSIONS" "be32 2" "be32 cc @ ha @ ps" "be32 (of_nat n)"] all
  have "bytes_at (put_bytes 2 (be32 (of_nat n)) ?mem) 0 n = packet_bytes (plain_packet cc ha ps)"
    by (simp add: header_bytes_def packet_bytes_def plain_packet_def packet_size_def auth_area_def n(1) add.assoc numeral_2_eq_2)
  moreover have "TSS_Marshal_packet handles c (Some inp) cc =
      Some (0, set_cpBuffer (c\<lparr>commandBuffer := put_bytes 2 (be32 (of_nat n)) ?mem, commandSize := of_nat n\<rparr>))"
    using v by (simp add: TSS_Marshal_packet_def marshal_header_emit [OF c(1)] marshal_in_def c(2) m Let_def pos
      back_fill_UINT32 c2 size update_order)
  ultimately show ?thesis by blast
qed

lemma marshal_packet_short:
  assumes c: "commandSize c = 0" "marshalFunction c = Some m"
    and e: "emits 2 (m inp) 0 (ha @ ps)"
    and n: "n = 10 + length ha + length ps" "n > MAX_COMMAND_SIZE"
  shows "\<exists>c'. TSS_Marshal_packet handles c (Some inp) cc = Some (TSS_RC_INSUFFICIENT_BUFFER, c') \<and>
    (\<forall>a\<ge>MAX_COMMAND_SIZE + 2. commandBuffer c' a = commandBuffer c a)"
proof -
  let ?s = "at_command c 0 (Some 4096)" and ?t = "emit (header_bytes cc) (at_command c 0 (Some 4096))"
  have "good ?t" "\<not> fits (length (ha @ ps)) ?t"
    using n by (auto simp: good_def fits_def at_command_def emit_def)
  from emits_short [OF e this] obtain s'
    where s': "m inp ?t = Done TSS_RC_INSUFFICIENT_BUFFER s'" "inside_buffer 2 ?t s'" .
  have "memory s' a = commandBuffer c a" if "a \<ge> MAX_COMMAND_SIZE + 2" for a
  proof -
    from s'(2) that have "memory s' a = memory ?t a"
      by (auto simp: inside_buffer_def emit_def at_command_def)
    also from that have "\<dots> = commandBuffer c a" by (simp add: emit_def at_command_def put_bytes_def)
    finally show ?thesis .
  qed
  with s'(1) show ?thesis
    by (simp add: TSS_Marshal_packet_def marshal_header_emit [OF c(1)] marshal_in_def c(2) put_command_def)
qed

text \<open>The entry of a command.\<close>

lemma find_distinct:
  "e \<in> set es \<Longrightarrow> distinct (map f es) \<Longrightarrow> find (\<lambda>x. f x = f e) es = Some e"
  by (induction es) (auto simp: image_iff)

lemma MarshalTable_Process_entry:
  assumes "e \<in> set marshalTable"
  shows "TSS_MarshalTable_Process c (mt_commandCode e) = (0, c\<lparr>commandCode := mt_commandCode e,
    commandText := Some (mt_commandText e), marshalFunction := mt_marshalFunction e,
    unmarshalFunction := mt_unmarshalFunction e, unmarshalInFunction := mt_unmarshalInFunction e\<rparr>)"
  using find_distinct [OF assms marshalTable_distinct] by (simp add: TSS_MarshalTable_Process_def)

text \<open>The context of a command whose parameters are about to be marshalled, and afterwards.\<close>

definition made_by :: "MARSHAL_TABLE \<Rightarrow> TSS_AUTH_CONTEXT \<Rightarrow> bool" where
  "made_by e c \<longleftrightarrow> commandCode c = mt_commandCode e \<and> marshalFunction c = mt_marshalFunction e \<and>
     unmarshalFunction c = mt_unmarshalFunction e \<and> unmarshalInFunction c = mt_unmarshalInFunction e \<and>
     CommandCodeToCommandIndex (mt_commandCode e) = Some (tpmCommandIndex c) \<and>
     getCommandHandleCount (tpmCommandIndex c) = Some (commandHandleCount c) \<and>
     getresponseHandleCount (tpmCommandIndex c) = Some (responseHandleCount c)"

lemma Marshal_entry:
  assumes e: "e \<in> set marshalTable"
  obtains c1 where "\<And>inp. TSS_Marshal handles c inp (mt_commandCode e) = TSS_Marshal_packet handles c1 inp (mt_commandCode e)"
    and "made_by e c1" "commandSize c1 = 0" "authCount c1 = 0" "length (responseBuffer c1) = MAX_RESPONSE_SIZE"
    and "\<And>a. a \<ge> MAX_COMMAND_SIZE \<Longrightarrow> commandBuffer c1 a = commandBuffer c a"
proof -
  from marshalTable_ok e have "command_ok e" by (simp add: list_all_iff)
  then obtain i h r where i: "CommandCodeToCommandIndex (mt_commandCode e) = Some i" "i \<noteq> UNIMPLEMENTED_COMMAND_INDEX"
    "getCommandHandleCount i = Some h" "getresponseHandleCount i = Some r"
    unfolding command_ok_def by blast
  let ?c0 = "snd (TSS_MarshalTable_Process (TSS_InitAuthContext c) (mt_commandCode e))"
  let ?c1 = "?c0\<lparr>tpmCommandIndex := i, commandHandleCount := h, responseHandleCount := r\<rparr>"
  have "TSS_Marshal handles c inp (mt_commandCode e) = TSS_Marshal_packet handles ?c1 inp (mt_commandCode e)" for inp
    using i by (simp add: TSS_Marshal_def MarshalTable_Process_entry [OF e])
  moreover have "made_by e ?c1" using i by (simp add: MarshalTable_Process_entry [OF e] made_by_def)
  ultimately show thesis
    by (rule that) (simp_all add: MarshalTable_Process_entry [OF e] TSS_InitAuthContext_def)
qed

lemma holds_plain:
  assumes "bytes_at mem 0 n = packet_bytes (plain_packet cc ha ps)" "n = 10 + length ha + length ps" "n \<le> MAX_COMMAND_SIZE"
    and "unat (commandHandleCount c) \<le> 3" "length ha = 4 * unat (commandHandleCount c)"
  shows "holds (set_cpBuffer (c\<lparr>commandBuffer := mem, commandSize := of_nat n\<rparr>)) (plain_packet cc ha ps)"
proof -
  have h: "unat (10 + 4 * commandHandleCount c) = 10 + length ha"
    using handle_bytes(2) [OF assms(4)] assms(5) by simp
  have n: "unat (of_nat n :: 16 word) = n" "unat (of_nat n :: 32 word) = n"
    using assms(3) by (simp_all add: unat_of_nat)
  have "ucast (of_nat n :: 16 word) = (of_nat n :: 32 word)" using assms(3) by (intro ucast_of_nat_small) simp
  moreover have "unat (of_nat n - (10 + 4 * commandHandleCount c)) = length ps"
    using h n assms(2) by (subst unat_sub) (simp_all add: word_le_nat_alt)
  ultimately show ?thesis
    using assms h n by (simp add: holds_def set_cpBuffer_def Let_def) (simp add: plain_packet_def auth_area_def)
qed

text \<open>The number of handles in the command of an entry.\<close>

definition handle_count :: "MARSHAL_TABLE \<Rightarrow> nat" where
  "handle_count e = (case Option.bind (CommandCodeToCommandIndex (mt_commandCode e)) getCommandHandleCount of
     Some h \<Rightarrow> unat h | None \<Rightarrow> 0)"

lemma made_by_handles: "made_by e c \<Longrightarrow> handle_count e = unat (commandHandleCount c)"
  by (simp add: made_by_def handle_count_def)

lemma Marshal_makes_packet:
  assumes e: "e \<in> set marshalTable" "mt_marshalFunction e = Some m" "mt_unmarshalInFunction e = Some u"
    and v: "u_good b" "u hs b = Ok inp b'"
  shows "\<exists>ps. rest b = ps @ rest b' \<and>
    (let p = plain_packet (mt_commandCode e) (handle_area (handle_count e) hs) ps in
     if packet_size p \<le> MAX_COMMAND_SIZE
     then \<exists>c'. TSS_Marshal handles c (Some inp) (mt_commandCode e) = Some (0, c') \<and> made_by e c' \<and> holds c' p \<and> authCount c' = 0
     else \<exists>c'. TSS_Marshal handles c (Some inp) (mt_commandCode e) = Some (TSS_RC_INSUFFICIENT_BUFFER, c') \<and>
       (\<forall>a. a \<ge> MAX_COMMAND_SIZE + 2 \<longrightarrow> commandBuffer c' a = commandBuffer c a))"
proof -
  from Marshal_entry [OF e(1)] obtain c1
    where r: "\<And>inp. TSS_Marshal handles c inp (mt_commandCode e) = TSS_Marshal_packet handles c1 inp (mt_commandCode e)"
      and c1: "made_by e c1" "commandSize c1 = 0" "authCount c1 = 0"
        "\<And>a. a \<ge> MAX_COMMAND_SIZE \<Longrightarrow> commandBuffer c1 a = commandBuffer c a" by metis
  have hc: "handle_count e = unat (commandHandleCount c1)" by (rule made_by_handles [OF c1(1)])
  from marshalTable_ok e(1) have "command_ok e" by (simp add: list_all_iff)
  with c1(1) e have h: "unat (commandHandleCount c1) \<le> 3"
    and P: "\<And>handles. reads_e param_error 2 (handle_area (handle_count e) handles) (u handles) m"
      "\<And>h h' b. same_outcome (u h b) (u h' b)"
    by (auto simp: command_ok_def made_by_def params_ok_def hc)
  from P(1) [of hs] v(1) obtain ps
    where ps: "consumed b ps b'" "parses (u hs) ps inp" "emits 2 (m inp) 0 (handle_area (handle_count e) hs @ ps)"
    by (cases rule: readsE) (use v(2) in auto)
  have enc: "encodes u hs ps inp" using ps(2) P(2) by (simp add: encodes_def)
  have m: "marshalFunction c1 = Some m" "unmarshalInFunction c1 = Some u" using c1(1) e by (simp_all add: made_by_def)
  define n where "n = 10 + length (handle_area (handle_count e) hs) + length ps"
  let ?p = "plain_packet (mt_commandCode e) (handle_area (handle_count e) hs) ps"
  have len: "length (handle_area (handle_count e) hs) = 4 * unat (commandHandleCount c1)" by (simp add: hc)
  have "rest b = ps @ rest b'" using ps(1) by (simp add: consumed_def)
  moreover have "\<exists>c'. TSS_Marshal handles c (Some inp) (mt_commandCode e) = Some (0, c') \<and> made_by e c' \<and> holds c' ?p \<and> authCount c' = 0"
    if fit: "n \<le> MAX_COMMAND_SIZE"
  proof -
    from marshal_packet_fits [OF c1(2) m h len ps(3) enc n_def fit] obtain mem
      where "TSS_Marshal_packet handles c1 (Some inp) (mt_commandCode e) =
          Some (0, set_cpBuffer (c1\<lparr>commandBuffer := mem, commandSize := of_nat n\<rparr>))"
        and mem: "bytes_at mem 0 n = packet_bytes ?p" by blast
    moreover have "holds (set_cpBuffer (c1\<lparr>commandBuffer := mem, commandSize := of_nat n\<rparr>)) ?p"
      by (rule holds_plain [OF mem n_def fit h len])
    ultimately show ?thesis using r c1 by (simp add: made_by_def set_cpBuffer_def Let_def)
  qed
  moreover have "\<exists>c'. TSS_Marshal handles c (Some inp) (mt_commandCode e) = Some (TSS_RC_INSUFFICIENT_BUFFER, c') \<and>
      (\<forall>a. a \<ge> MAX_COMMAND_SIZE + 2 \<longrightarrow> commandBuffer c' a = commandBuffer c a)" if "n > MAX_COMMAND_SIZE"
    using marshal_packet_short [OF c1(2) m(1) ps(3) n_def that] r c1(4) by simp
  moreover have "packet_size ?p = n" by (simp add: n_def)
  ultimately show ?thesis by (intro exI [of _ ps]) (simp only: Let_def split: if_split, simp)
qed

text \<open>C5. \<open>TSS_Marshal\<close> of parameters that some bytes encode (that is, of every value that the unmarshal function of the
  command can produce) succeeds exactly if the packet fits the command buffer: it holds then the tag without sessions, the
  true size of the packet, the command code, the handles and the canonical encoding of the parameters, and the context
  points to the parameters. Otherwise the error is \<open>TSS_RC_INSUFFICIENT_BUFFER\<close>, and at most two bytes behind the buffer
  have changed.\<close>

theorem TSS_Marshal_correct:
  assumes e: "e \<in> set marshalTable" "mt_marshalFunction e = Some m" "mt_unmarshalInFunction e = Some u"
    and v: "u_good b" "u hs b = Ok inp b'"
  shows "\<exists>ps. rest b = ps @ rest b' \<and>
    (let p = plain_packet (mt_commandCode e) (handle_area (handle_count e) hs) ps in
     if packet_size p \<le> MAX_COMMAND_SIZE
     then \<exists>c'. TSS_Marshal handles c (Some inp) (mt_commandCode e) = Some (0, c') \<and> made_by e c' \<and> holds c' p \<and> authCount c' = 0
     else \<exists>c'. TSS_Marshal handles c (Some inp) (mt_commandCode e) = Some (TSS_RC_INSUFFICIENT_BUFFER, c') \<and>
       (\<forall>a. a \<ge> MAX_COMMAND_SIZE + 2 \<longrightarrow> commandBuffer c' a = commandBuffer c a))"
  by (rule Marshal_makes_packet [OF assms])

section \<open>Adding authorizations\<close>

definition auth_ok :: "TPMS_AUTH_COMMAND \<Rightarrow> bool" where
  "auth_ok a \<longleftrightarrow> unat (TPM2B_size (TPMS_AUTH_COMMAND_nonce a)) \<le> length (TPM2B_buffer (TPMS_AUTH_COMMAND_nonce a)) \<and>
     unat (TPM2B_size (TPMS_AUTH_COMMAND_hmac a)) \<le> length (TPM2B_buffer (TPMS_AUTH_COMMAND_hmac a))"

definition sized_bytes :: "TPM2B \<Rightarrow> byte list" where
  "sized_bytes t = be16 (TPM2B_size t) @ take (unat (TPM2B_size t)) (TPM2B_buffer t)"

definition auth_bytes :: "TPMS_AUTH_COMMAND \<Rightarrow> byte list" where
  "auth_bytes a = be32 (TPMS_AUTH_COMMAND_sessionHandle a) @ sized_bytes (TPMS_AUTH_COMMAND_nonce a) @
     [TPMS_AUTH_COMMAND_sessionAttributes a] @ sized_bytes (TPMS_AUTH_COMMAND_hmac a)"

definition area_bytes :: "TPMS_AUTH_COMMAND list \<Rightarrow> byte list" where
  "area_bytes as = concat (map auth_bytes as)"

lemma emits_TPM2B: "unat (TPM2B_size t) \<le> length (TPM2B_buffer t) \<Longrightarrow> emits k (TSS_TPM2B_Marshal t) 0 (sized_bytes t)"
  unfolding TSS_TPM2B_Marshal_def sized_bytes_def
proof (rule emits_then [OF emits_be16])
  assume l: "unat (TPM2B_size t) \<le> length (TPM2B_buffer t)"
  have "emits k (TSS_Array_Marshal (take (unat (TPM2B_size t)) (TPM2B_buffer t)) (TPM2B_size t)) 0
      (take (unat (TPM2B_size t)) (TPM2B_buffer t))"
    by (rule emits_array) (use l in simp)
  with l show "emits k (TSS_Array_Marshal (TPM2B_buffer t) (TPM2B_size t)) 0 (take (unat (TPM2B_size t)) (TPM2B_buffer t))"
    by (simp add: TSS_Array_Marshal_def)
qed

lemma emits_UINT8: "emits k (TSS_UINT8_Marshal w) 0 [w]"
  by (simp add: TSS_UINT8_Marshal_def emits_fixed)

lemma auth_emits: "auth_ok a \<Longrightarrow> emits k (TSS_TPMS_AUTH_COMMAND_Marshal a) 0 (auth_bytes a)"
  unfolding TSS_TPMS_AUTH_COMMAND_Marshal_def auth_bytes_def auth_ok_def
  by (intro emits_then)
    (simp_all add: TPMI_SH_AUTH_SESSION_emits emits_UINT8 emits_TPM2B TSS_TPM2B_NONCE_Marshal_def TSS_TPM2B_DIGEST_Marshal_def
      TSS_TPMA_SESSION_Marshal_def TSS_TPM2B_AUTH_Marshal_def)

lemma area_emits: "list_all auth_ok as \<Longrightarrow> emits k (m_list (length as) TSS_TPMS_AUTH_COMMAND_Marshal as) 0 (area_bytes as)"
proof (induction as)
  case Nil
  then show ?case by (simp add: area_bytes_def emits_done)
next
  case (Cons a as)
  then have "emits k (m_then (TSS_TPMS_AUTH_COMMAND_Marshal a) (m_list (length as) TSS_TPMS_AUTH_COMMAND_Marshal as)) 0
      (auth_bytes a @ area_bytes as)"
    by (intro emits_then) (simp_all add: auth_emits)
  then show ?case by (simp add: area_bytes_def)
qed

lemma authorizations_size_eq: "list_all auth_ok as \<Longrightarrow> authorizations_size as = Some (0, of_nat (length (area_bytes as)))"
  using emits_fits [OF area_emits, of as "\<lparr>written = 0, memory = \<lambda>_. 0, position = None, room = None\<rparr>"]
  by (simp add: authorizations_size_def good_def fits_def emit_def)

lemma put_authorizations_eq:
  "list_all auth_ok as \<Longrightarrow> position s = Some p \<Longrightarrow> room s = None \<Longrightarrow>
    put_authorizations as s count = Some (0, emit (area_bytes as) s, count + of_nat (length as))"
proof (induction as arbitrary: s p count)
  case Nil
  then show ?case by (simp add: area_bytes_def)
next
  case (Cons a as)
  from Cons.prems have "TSS_TPMS_AUTH_COMMAND_Marshal a s = Done 0 (emit (auth_bytes a) s)"
    by (intro emits_fits [OF auth_emits]) (simp_all add: good_def fits_def)
  moreover from Cons.prems have "position (emit (auth_bytes a) s) = Some (p + length (auth_bytes a))" "room (emit (auth_bytes a) s) = None"
    by (simp_all add: emit_def)
  ultimately show ?case using Cons.IH [of "emit (auth_bytes a) s"] Cons.prems
    by (simp add: emit_append area_bytes_def)
qed

text \<open>The moves and writes of \<open>TSS_SetCmdAuths\<close> in memory.\<close>

lemma insert_area:
  fixes M :: "nat \<Rightarrow> byte" and area :: "byte list"
  assumes M: "bytes_at M 0 (10 + length hs + length ps) = be16 t @ be32 n @ be32 cc @ hs @ ps"
    and cp: "cp = 10 + length hs" and l: "length sz = 4" "length sz' = 4" "length t' = 2"
  defines "M1 \<equiv> put_bytes 0 t' M"
  defines "M2 \<equiv> put_bytes (cp + 4 + length area) (bytes_at M1 cp (length ps)) M1"
  defines "M3 \<equiv> put_bytes (cp + 4) area (put_bytes cp sz M2)"
  shows "bytes_at (put_bytes 2 sz' M3) 0 (10 + length hs + (4 + length area) + length ps) = t' @ sz' @ be32 cc @ hs @ (sz @ area) @ ps"
proof -
  let ?M = "put_bytes 2 sz' M3"
  have bytes: "bytes_at M 6 (4 + length hs) = be32 cc @ hs" "bytes_at M cp (length ps) = ps"
    using bytes_at_within [of M 0 "be16 t @ be32 n" "be32 cc @ hs" ps] bytes_at_within [of M 0 "be16 t @ be32 n @ be32 cc @ hs" ps "[]"] M cp
    by (simp_all add: add.assoc)
  have ps: "bytes_at M1 cp (length ps) = ps" unfolding M1_def using cp l bytes(2) by (subst bytes_at_elsewhere) simp_all
  have cp10: "10 \<le> cp" using cp by simp
  have 1: "bytes_at ?M 0 2 = t'"
    using cp l bytes_at_put [of 0 t' M] by (simp add: M3_def M2_def M1_def bytes_at_elsewhere)
  have 2: "bytes_at ?M 2 4 = sz'"
    using l bytes_at_put [of 2 sz' M3] by simp
  have 3: "bytes_at ?M 6 (4 + length hs) = be32 cc @ hs"
    using cp l bytes(1) by (simp add: M3_def M2_def M1_def bytes_at_elsewhere)
  have 4: "bytes_at ?M cp 4 = sz"
    using cp l bytes_at_put [of cp sz M2] by (simp add: M3_def bytes_at_elsewhere)
  have 5: "bytes_at ?M (cp + 4) (length area) = area"
    using cp l bytes_at_put [of "cp + 4" area] by (simp add: M3_def bytes_at_elsewhere)
  have 6: "bytes_at ?M (cp + 4 + length area) (length ps) = ps"
    using cp10 l bytes_at_put [of "cp + 4 + length area" ps M1] by (simp add: M3_def M2_def [unfolded ps] bytes_at_elsewhere)
  have "bytes_at ?M 0 (2 + 4 + (4 + length hs) + 4 + length area + length ps) =
      bytes_at ?M 0 2 @ bytes_at ?M 2 4 @ bytes_at ?M 6 (4 + length hs) @ bytes_at ?M cp 4 @ bytes_at ?M (cp + 4) (length area) @
      bytes_at ?M (cp + 4 + length area) (length ps)"
    unfolding cp bytes_at_add by (simp add: add.assoc numeral_2_eq_2)
  also have "\<dots> = t' @ sz' @ be32 cc @ hs @ (sz @ area) @ ps" unfolding 1 2 3 4 5 6 by simp
  finally show ?thesis by (simp add: add.assoc)
qed

lemma SetCmdAuths_holds:
  assumes h: "holds c p" "pk_auths p = None" and a: "list_all auth_ok as" "0 < length (area_bytes as)" "length (area_bytes as) < 2 ^ 16"
  shows "if packet_size p + 4 + length (area_bytes as) \<le> MAX_COMMAND_SIZE
    then \<exists>c'. TSS_SetCmdAuths c as = Some (0, c') \<and> holds c' (p\<lparr>pk_tag := TPM_ST_SESSIONS, pk_auths := Some (area_bytes as)\<rparr>) \<and>
      authCount c' = authCount c + of_nat (length as) \<and> (\<forall>e. made_by e c \<longrightarrow> made_by e c')
    else \<exists>c'. TSS_SetCmdAuths c as = Some (TSS_RC_INSUFFICIENT_BUFFER, c') \<and>
      c' = c\<lparr>commandBuffer := put_bytes 0 (be16 TPM_ST_SESSIONS) (commandBuffer c)\<rparr>"
proof -
  let ?A = "area_bytes as" and ?hs = "pk_handles p" and ?ps = "pk_params p"
  define A where "A = length ?A"
  define cp where "cp = 10 + length ?hs"
  define w where "w = (of_nat A :: 16 word)"
  have size: "authorizations_size as = Some (0, w)" using authorizations_size_eq [OF a(1)] by (simp add: w_def A_def)
  have w: "unat w = A" using a(3) by (simp add: w_def A_def unat_of_nat)
  then have w0: "w \<noteq> 0" using a(2) by (auto simp: A_def)
  have psz: "packet_size p = cp + length ?ps" "auth_area (pk_auths p) = []"
    using h(2) by (simp_all add: packet_size_def auth_area_def cp_def)
  have cpb: "cpBuffer c = Some cp" "unat (cpBufferSize c) = length ?ps"
    using h by (simp_all add: holds_def auth_area_def cp_def)
  let ?c1 = "c\<lparr>commandBuffer := put_bytes 0 (be16 TPM_ST_SESSIONS) (commandBuffer c)\<rparr>"
  show ?thesis
  proof (cases "packet_size p + 4 + A \<le> MAX_COMMAND_SIZE")
    case False
    then have "TSS_SetCmdAuths c as = Some (TSS_RC_INSUFFICIENT_BUFFER, ?c1)"
      using w w0 cpb psz by (simp add: TSS_SetCmdAuths_def size back_fill_TAG TSS_GetCpBuffer_def Let_def)
    with False show ?thesis by (simp add: A_def)
  next
    case fit: True
    let ?M1 = "put_bytes 0 (be16 TPM_ST_SESSIONS) (commandBuffer c)"
    let ?M2 = "put_bytes (cp + 4 + A) (bytes_at ?M1 cp (length ?ps)) ?M1"
    let ?M3 = "put_bytes (cp + 4) ?A (put_bytes cp (be32 (of_nat A)) ?M2)"
    define n where "n = packet_size p + 4 + A"
    let ?M4 = "put_bytes 2 (be32 (of_nat n)) ?M3"
    let ?c' = "c\<lparr>commandBuffer := ?M4, cpBuffer := Some (cp + 4 + A), commandSize := of_nat n, authCount := authCount c + of_nat (length as)\<rparr>"
    let ?p = "p\<lparr>pk_tag := TPM_ST_SESSIONS, pk_auths := Some ?A\<rparr>"
    have u32: "ucast w = (of_nat A :: 32 word)" unfolding w_def using a(3) by (intro ucast_of_nat_small) (simp add: A_def)
    have cs: "commandSize c = of_nat (packet_size p)" 
    proof -
      have "commandSize c = of_nat (unat (commandSize c))" by simp
      with h(1) show ?thesis by (simp only: holds_def)
    qed
    then have cs': "commandSize c + (4 + w) = of_nat n" by (simp add: n_def w_def)
    have n32: "ucast (of_nat n :: 16 word) = (of_nat n :: 32 word)" using fit by (intro ucast_of_nat_small) (simp add: n_def)
    have put: "put_authorizations as \<lparr>written = 0, memory = put_bytes cp (be32 (of_nat A)) ?M2, position = Some (cp + 4), room = None\<rparr> k =
        Some (0, \<lparr>written = w, memory = ?M3, position = Some (cp + 4 + A), room = None\<rparr>, k + of_nat (length as))" for k
      using put_authorizations_eq [OF a(1)] by (simp add: emit_def A_def w_def)
    have "TSS_SetCmdAuths c as = Some (0, ?c')"
      using fit w w0 cpb psz cs' n32
      by (simp add: TSS_SetCmdAuths_def size back_fill_TAG back_fill_UINT32 TSS_GetCpBuffer_def Let_def command_bytes_eq u32 put)
    moreover have "holds ?c' ?p"
    proof -
      have nn: "n \<le> MAX_COMMAND_SIZE" "unat (of_nat n :: 16 word) = n"
        using fit by (simp_all only: n_def unat_of_nat) simp
      have "packet_size ?p = n" using psz h(2) by (simp add: packet_size_def auth_area_def n_def A_def)
      moreover have "bytes_at (commandBuffer c) 0 (10 + length ?hs + length ?ps) = be16 (pk_tag p) @ be32 (of_nat (packet_size p)) @ be32 (pk_code p) @ ?hs @ ?ps"
      proof -
        have "packet_bytes p = be16 (pk_tag p) @ be32 (of_nat (packet_size p)) @ be32 (pk_code p) @ ?hs @ ?ps"
          by (simp only: packet_bytes_def psz(2) append_Nil)
        moreover have "bytes_at (commandBuffer c) 0 (packet_size p) = packet_bytes p" using h(1) by (simp add: holds_def)
        moreover have "10 + length ?hs + length ?ps = packet_size p" using psz(1) by (simp add: cp_def)
        ultimately show ?thesis by simp
      qed
      from insert_area [OF this cp_def, of "be32 (of_nat A)" "be32 (of_nat n)" "be16 TPM_ST_SESSIONS" ?A]
      have "bytes_at ?M4 0 n = packet_bytes ?p"
        using psz calculation by (simp add: packet_bytes_def auth_area_def n_def A_def cp_def add.assoc add.left_commute add.commute)
      ultimately show ?thesis
        using h(1) cpb nn by (simp add: holds_def auth_area_def cp_def A_def)
    qed
    moreover have "\<forall>e. made_by e c \<longrightarrow> made_by e ?c'" by (simp add: made_by_def)
    ultimately show ?thesis using fit by (simp add: A_def)
  qed
qed

text \<open>C6. \<open>TSS_SetCmdAuths\<close> on a context that holds a packet without authorizations: if the authorizations fit, the packet
  has then the tag for sessions, the authorization area with its size between handles and parameters, and its new true size; the
  parameters and the pointer to them have moved, and the number of authorizations is counted. If they do not fit, the error is
  \<open>TSS_RC_INSUFFICIENT_BUFFER\<close> and only the tag has changed.\<close>

theorem TSS_SetCmdAuths_correct:
  assumes h: "holds c p" "pk_auths p = None" and a: "list_all auth_ok as" "0 < length (area_bytes as)" "length (area_bytes as) < 2 ^ 16"
  shows "if packet_size p + 4 + length (area_bytes as) \<le> MAX_COMMAND_SIZE
    then \<exists>c'. TSS_SetCmdAuths c as = Some (0, c') \<and> holds c' (p\<lparr>pk_tag := TPM_ST_SESSIONS, pk_auths := Some (area_bytes as)\<rparr>) \<and>
      authCount c' = authCount c + of_nat (length as) \<and> (\<forall>e. made_by e c \<longrightarrow> made_by e c')
    else \<exists>c'. TSS_SetCmdAuths c as = Some (TSS_RC_INSUFFICIENT_BUFFER, c') \<and>
      c' = c\<lparr>commandBuffer := put_bytes 0 (be16 TPM_ST_SESSIONS) (commandBuffer c)\<rparr>"
  by (rule SetCmdAuths_holds [OF assms])

section \<open>Reading and changing a command\<close>

lemma packet_within:
  assumes "holds c p" "packet_bytes p = as @ bs @ cs"
  shows "bytes_at (commandBuffer c) (length as) (length bs) = bs" "length as + length bs \<le> MAX_COMMAND_SIZE"
proof -
  have "bytes_at (commandBuffer c) 0 (length (as @ bs @ cs)) = as @ bs @ cs" "length (as @ bs @ cs) \<le> MAX_COMMAND_SIZE"
    using assms length_packet_bytes [of p] by (simp_all add: holds_def)
  from bytes_at_within [OF this(1)] this(2) show "bytes_at (commandBuffer c) (length as) (length bs) = bs"
    "length as + length bs \<le> MAX_COMMAND_SIZE" by simp_all
qed

lemma handle_area_split:
  "i < n \<Longrightarrow> handle_area n hs = handle_area i hs @ be32 (hs i) @ concat (map (\<lambda>i. be32 (hs i)) [Suc i..<n])"
  using upt_add_eq_append [of 0 i "n - i"] by (simp add: handle_area_def upt_conv_Cons)

text \<open>Remark. The handles of a packet can be read back, by their index; an index too large gives the error for it.\<close>

theorem TSS_GetCommandHandle_correct:
  assumes "holds c p" "pk_handles p = handle_area (unat (commandHandleCount c)) hs"
  shows "TSS_GetCommandHandle c i =
    Some (if i < commandHandleCount c then Inr (hs (unat i)) else Inl TSS_RC_BAD_HANDLE_NUMBER)"
proof (cases "i < commandHandleCount c")
  case True
  then have i: "unat i < unat (commandHandleCount c)" by (simp add: word_less_nat_alt)
  from packet_within [OF assms(1), of "be16 (pk_tag p) @ be32 (of_nat (packet_size p)) @ be32 (pk_code p) @ handle_area (unat i) hs" "be32 (hs (unat i))"]
  have b: "bytes_at (commandBuffer c) (10 + 4 * unat i) 4 = be32 (hs (unat i))" "10 + 4 * unat i + 4 \<le> MAX_COMMAND_SIZE"
    by (simp_all add: packet_bytes_def assms(2) handle_area_split [OF i])
  have "UINT32_Unmarshal \<lparr>rest = be32 (hs (unat i)), avail = 4\<rparr> = Ok (hs (unat i)) \<lparr>rest = [], avail = 0\<rparr>"
    using parses_UINT32 [of "hs (unat i)"] unfolding parses_def by (auto dest: spec [of _ "[]"] spec [of _ 4])
  with True b show ?thesis
    by (simp add: TSS_GetCommandHandle_def command_bytes_eq TPM_HANDLE_Unmarshal_def not_le)
qed (simp add: TSS_GetCommandHandle_def not_less)

lemma ntohs_be16: "ntohs_at (be16 n @ r) 0 = ucast n"
  by (rule bit_word_eqI) (use bit_imp_le_length [of n] in \<open>fastforce simp: ntohs_at_def be16_def bit_simps\<close>)

definition decryptable :: "packet \<Rightarrow> 16 word \<Rightarrow> byte list \<Rightarrow> byte list \<Rightarrow> bool" where
  "decryptable p n xs ys \<longleftrightarrow> pk_params p = be16 n @ xs @ ys \<and> length xs = unat n"

lemma GetCommandDecryptParam_eq:
  assumes "holds c p" "decryptable p n xs ys"
  shows "TSS_GetCommandDecryptParam c = Some (ucast n, packet_size p - length (xs @ ys))"
    and "bytes_at (commandBuffer c) (packet_size p - length (xs @ ys)) (unat n) = xs"
    and "packet_size p - length (xs @ ys) + unat n \<le> MAX_COMMAND_SIZE"
proof -
  let ?pre = "be16 (pk_tag p) @ be32 (of_nat (packet_size p)) @ be32 (pk_code p) @ pk_handles p @ auth_area (pk_auths p)"
  have pb: "packet_bytes p = ?pre @ be16 n @ xs @ ys" using assms(2) by (simp add: packet_bytes_def decryptable_def)
  have q: "length ?pre = 10 + length (pk_handles p) + length (auth_area (pk_auths p))" by simp
  have sz: "packet_size p - length (xs @ ys) = length ?pre + 2"
    using assms(2) by (simp add: packet_size_def decryptable_def)
  from packet_within [OF assms(1) pb] have "bytes_at (commandBuffer c) (length ?pre) 2 = be16 n" "length ?pre + 2 \<le> MAX_COMMAND_SIZE" by simp_all
  moreover have "cpBuffer c = Some (length ?pre)" using assms(1) q by (simp add: holds_def)
  ultimately show "TSS_GetCommandDecryptParam c = Some (ucast n, packet_size p - length (xs @ ys))"
    using ntohs_be16 [of n "[]"] unfolding sz by (simp add: TSS_GetCommandDecryptParam_def command_bytes_eq)
  from packet_within [OF assms(1), of "?pre @ be16 n" xs ys] pb assms(2)
  show "bytes_at (commandBuffer c) (packet_size p - length (xs @ ys)) (unat n) = xs"
    "packet_size p - length (xs @ ys) + unat n \<le> MAX_COMMAND_SIZE"
    unfolding sz by (simp_all add: decryptable_def add.assoc)
qed

lemma holds_set_params:
  assumes "holds c p" "decryptable p n xs ys" "length zs = unat n"
  shows "holds (c\<lparr>commandBuffer := put_bytes (packet_size p - length (xs @ ys)) zs (commandBuffer c)\<rparr>) (p\<lparr>pk_params := be16 n @ zs @ ys\<rparr>)"
proof -
  let ?pre = "be16 (pk_tag p) @ be32 (of_nat (packet_size p)) @ be32 (pk_code p) @ pk_handles p @ auth_area (pk_auths p) @ be16 n"
  have pb: "packet_bytes p = ?pre @ xs @ ys" using assms(2) by (simp add: packet_bytes_def decryptable_def)
  have sz: "packet_size p - length (xs @ ys) = length ?pre" "packet_size (p\<lparr>pk_params := be16 n @ zs @ ys\<rparr>) = packet_size p"
    using assms(2,3) by (simp_all add: packet_size_def decryptable_def)
  have "bytes_at (commandBuffer c) 0 (length (?pre @ xs @ ys)) = ?pre @ xs @ ys"
    using assms(1) pb length_packet_bytes [of p] by (simp add: holds_def)
  from bytes_at_replace [OF this, of zs] assms(2,3)
  have "bytes_at (put_bytes (length ?pre) zs (commandBuffer c)) 0 (length (?pre @ zs @ ys)) = ?pre @ zs @ ys"
    by (simp add: decryptable_def)
  moreover have "packet_bytes (p\<lparr>pk_params := be16 n @ zs @ ys\<rparr>) = ?pre @ zs @ ys" by (simp add: packet_bytes_def sz(2))
  moreover from this have "length (?pre @ zs @ ys) = packet_size p"
    using length_packet_bytes [of "p\<lparr>pk_params := be16 n @ zs @ ys\<rparr>"] sz(2) by simp
  ultimately show ?thesis
    using assms unfolding sz(1) by (simp only: holds_def sz(2)) (simp add: decryptable_def)
qed

text \<open>Remark. A command whose attributes allow its first parameter to be encrypted: \<open>TSS_GetCommandDecryptParam\<close> finds the size and the
  place of the content of that parameter, inside the packet, and \<open>TSS_SetCommandDecryptParam\<close> of a content of that size replaces
  it and nothing else of the packet; a content of another size is refused, and changes nothing.\<close>

theorem TSS_CommandDecryptParam_correct:
  assumes c: "holds c p" "made_by e c" "e \<in> set marshalTable" "getDecryptSize (tpmCommandIndex c) = Some 2"
    and u: "mt_unmarshalInFunction e = Some u" "parses (u hs) (pk_params p) inp"
  shows "\<exists>n xs ys q. decryptable p n xs ys \<and> TSS_GetCommandDecryptParam c = Some (ucast n, q) \<and>
    q + unat n \<le> MAX_COMMAND_SIZE \<and> bytes_at (commandBuffer c) q (unat n) = xs \<and>
    (\<forall>k zs. if k = ucast n
       then length zs = unat n \<longrightarrow> (\<exists>c'. TSS_SetCommandDecryptParam c k zs = Some (0, c') \<and>
         holds c' (p\<lparr>pk_params := be16 n @ zs @ ys\<rparr>) \<and> made_by e c')
       else TSS_SetCommandDecryptParam c k zs = Some (TSS_RC_BAD_ENCRYPT_SIZE, c))"
proof -
  have ok: "command_ok e" using marshalTable_ok c(3) by (simp add: list_all_iff)
  then have f: "first_sized (u hs)"
    using c(2,4) u(1) by (auto simp: command_ok_def made_by_def params_ok_def split: option.splits)
  let ?ps = "pk_params p"
  have l: "length ?ps \<le> MAX_COMMAND_SIZE" using c(1) by (simp add: holds_def packet_size_def)
  then have "u hs \<lparr>rest = ?ps @ [], avail = int (length ?ps)\<rparr> = Ok inp \<lparr>rest = [], avail = 0\<rparr>"
    using u(2) [unfolded parses_def, rule_format, of "int (length ?ps)" "[]"] by simp
  moreover have "u_good \<lparr>rest = ?ps @ [], avail = int (length ?ps)\<rparr>" using l by (simp add: u_good_def)
  ultimately obtain n xs ys where d: "decryptable p n xs ys"
    using f unfolding first_sized_def decryptable_def by fastforce
  note g = GetCommandDecryptParam_eq [OF c(1) d]
  have n: "unat (ucast n :: 32 word) = unat n" by (rule unat_ucast_16)
  show ?thesis
  proof (intro exI conjI allI)
    show "decryptable p n xs ys" "TSS_GetCommandDecryptParam c = Some (ucast n, packet_size p - length (xs @ ys))"
      "packet_size p - length (xs @ ys) + unat n \<le> MAX_COMMAND_SIZE"
      "bytes_at (commandBuffer c) (packet_size p - length (xs @ ys)) (unat n) = xs" using d g by simp_all
    fix k :: "32 word" and zs
    show "if k = ucast n
       then length zs = unat n \<longrightarrow> (\<exists>c'. TSS_SetCommandDecryptParam c k zs = Some (0, c') \<and>
         holds c' (p\<lparr>pk_params := be16 n @ zs @ ys\<rparr>) \<and> made_by e c')
       else TSS_SetCommandDecryptParam c k zs = Some (TSS_RC_BAD_ENCRYPT_SIZE, c)"
      using g(1,3) n holds_set_params [OF c(1) d, of zs] c(2)
      by (simp add: TSS_SetCommandDecryptParam_def made_by_def)
  qed
qed

end
