(* ===== verification/Tss_Auth_Response.thy ===== *)
theory Tss_Auth_Response
  imports Tss_Auth_Correct
begin

text \<open>
  What the operations of \<^verbatim>\<open>tssauth.c\<close> read from a response: on well-formed responses, with and without sessions, each of them
  finds its part, and on any response of at least the size of a header \<open>TSS_Unmarshal\<close> stays inside the buffer. The parameter
  size of a response with sessions is not checked against the size of the response: the last section shows what it does.
\<close>

section \<open>Well-formed responses\<close>

record response =
  rs_sessions :: bool
  rs_code :: "32 word"
  rs_handles :: "byte list"
  rs_params :: "byte list"
  rs_auths :: "byte list"

definition param_size :: "response \<Rightarrow> byte list" where
  "param_size p = (if rs_sessions p then be32 (of_nat (length (rs_params p))) else [])"

definition response_tag :: "response \<Rightarrow> 16 word" where
  "response_tag p = (if rs_sessions p then TPM_ST_SESSIONS else TPM_ST_NO_SESSIONS)"

definition response_size :: "response \<Rightarrow> nat" where
  "response_size p = 10 + length (rs_handles p) + length (param_size p) + length (rs_params p) + length (rs_auths p)"

definition response_bytes :: "response \<Rightarrow> byte list" where
  "response_bytes p = be16 (response_tag p) @ be32 (of_nat (response_size p)) @ be32 (rs_code p) @ rs_handles p @
     param_size p @ rs_params p @ rs_auths p"

lemma length_response_bytes [simp]: "length (response_bytes p) = response_size p"
  by (simp add: response_bytes_def response_size_def)

text \<open>The context has received the response; what follows it in the buffer is arbitrary.\<close>

definition received :: "TSS_AUTH_CONTEXT \<Rightarrow> response \<Rightarrow> bool" where
  "received c p \<longleftrightarrow> length (responseBuffer c) = MAX_RESPONSE_SIZE \<and> take (response_size p) (responseBuffer c) = response_bytes p \<and>
     response_size p \<le> MAX_RESPONSE_SIZE \<and> responseSize c = of_nat (response_size p) \<and>
     length (rs_handles p) = 4 * unat (responseHandleCount c) \<and> unat (responseHandleCount c) \<le> 1 \<and>
     (\<not> rs_sessions p \<longrightarrow> rs_auths p = [])"

lemma sint_small: "n < 2 ^ 31 \<Longrightarrow> sint (of_nat n :: 32 word) = int n"
  by (simp add: signed_of_nat signed_take_bit_int_eq_self)

lemma sint_unat: "unat (w :: 32 word) < 2 ^ 31 \<Longrightarrow> sint w = int (unat w)"
  using sint_small [of "unat w"] by simp

lemma from_response_at:
  assumes r: "received c p" "response_bytes p = as @ bs" and o: "unat off = length as"
  shows "from_response c off = \<lparr>rest = bs @ drop (response_size p) (responseBuffer c), avail = int (length bs)\<rparr>"
proof -
  have l: "response_size p = length as + length bs" using length_response_bytes [of p] r(2) by simp
  have buf: "responseBuffer c = as @ bs @ drop (response_size p) (responseBuffer c)"
    using append_take_drop_id [of "response_size p" "responseBuffer c", symmetric] r
    by (metis append.assoc received_def)
  have "drop (unat off) (responseBuffer c) = bs @ drop (response_size p) (responseBuffer c)"
    by (subst buf) (simp add: o)
  moreover have "off = of_nat (unat off)" by simp
  with o have "responseSize c - off = of_nat (length bs)" using r(1) l by (simp add: received_def)
  moreover have "length bs < 2 ^ 31" using r(1) l by (simp add: received_def)
  ultimately show ?thesis by (simp add: from_response_def sint_small)
qed

lemma parses_UINT16: "parses UINT16_Unmarshal (be16 w) w"
  unfolding UINT16_Unmarshal_def be16_def using word16_bytes [of w]
  by (intro parses_fixed) (simp_all add: ucast_low_byte)

lemma parses_tag: "t = TPM_ST_SESSIONS \<or> t = TPM_ST_NO_SESSIONS \<Longrightarrow> parses TPM_ST_Unmarshal (be16 t) t"
  using parses_UINT16 [of t] by (auto simp: TPM_ST_Unmarshal_def parses_def u_bind_def u_guard_def u_return_def)

lemma received_tag:
  assumes "received c p"
  obtains b where "TPM_ST_Unmarshal (from_response c 0) = Ok (response_tag p) b"
proof -
  have "from_response c 0 = \<lparr>rest = response_bytes p @ drop (response_size p) (responseBuffer c), avail = int (response_size p)\<rparr>"
    using from_response_at [OF assms, of "[]" "response_bytes p" 0] by simp
  moreover have "response_size p < 2 ^ 31" "2 \<le> response_size p" using assms by (simp_all add: received_def response_size_def)
  moreover have "parses TPM_ST_Unmarshal (be16 (response_tag p)) (response_tag p)" by (rule parses_tag) (simp add: response_tag_def)
  ultimately show thesis
    using that by (simp add: parses_def response_bytes_def)
qed

section \<open>Every operation finds its part\<close>

text \<open>The response that the unmarshal function of a command decodes, whether there are sessions or not.\<close>

lemma response_decoded:
  assumes ok: "response_ok r enc (Some f)" and v: "parses (f TPM_ST_NO_SESSIONS) (hs @ ps) v"
    and l: "length hs = 4 * unat r" "length (hs @ ps @ as) < 2 ^ 30"
  shows "\<exists>b. f TPM_ST_NO_SESSIONS \<lparr>rest = hs @ ps @ x, avail = int (length (hs @ ps @ as))\<rparr> = Ok v b"
    and "\<exists>b. f TPM_ST_SESSIONS \<lparr>rest = hs @ be32 w @ ps @ x, avail = int (length (hs @ be32 w @ ps @ as))\<rparr> = Ok v b"
proof -
  from ok obtain hu :: "TPM_HANDLE unmarshal" and g
    where hu: "four_bytes hu (unat r)"
      and f: "\<And>tag. f tag = u_bind hu (\<lambda>h. u_bind (u_when (tag = TPM_ST_SESSIONS) UINT32_Unmarshal) (\<lambda>_. g h))"
    unfolding response_ok_def option.case by blast
  have no: "f TPM_ST_NO_SESSIONS = u_bind hu g"
    by (rule ext) (simp add: f u_when_def u_bind_def u_return_def split: ures.split)
  let ?b0 = "\<lparr>rest = hs @ ps, avail = int (length (hs @ ps))\<rparr>"
  have "u_bind hu g ?b0 = Ok v \<lparr>rest = [], avail = 0\<rparr>"
    using parses_exact [OF v] l(2) by (simp add: no)
  then obtain h b1 where h: "hu ?b0 = Ok h b1" by (auto simp: u_bind_def split: ures.splits)
  have "u_good ?b0" using l(2) by (simp add: u_good_def)
  with hu h obtain bs where bs: "consumed ?b0 bs b1" "length bs = 4 * unat r" "parses hu bs h"
    unfolding four_bytes_def by blast
  from bs(1,2) l(1) have "bs = hs" by (auto simp: consumed_def append_eq_append_conv)
  with bs(3) have ph: "parses hu hs h" by simp
  let ?b = "\<lparr>rest = hs @ ps @ x, avail = int (length (hs @ ps @ as))\<rparr>"
  have fv: "f TPM_ST_NO_SESSIONS ?b = Ok v \<lparr>rest = x, avail = int (length as)\<rparr>"
    using v l(2) by (simp add: parses_def)
  then show "\<exists>b. f TPM_ST_NO_SESSIONS ?b = Ok v b" by blast
  have "hu ?b = Ok h \<lparr>rest = ps @ x, avail = int (length (ps @ as))\<rparr>"
    using ph l(2) by (simp add: parses_def)
  with fv have g: "g h \<lparr>rest = ps @ x, avail = int (length (ps @ as))\<rparr> = Ok v \<lparr>rest = x, avail = int (length as)\<rparr>"
    by (simp add: no u_bind_def)
  have "hu \<lparr>rest = hs @ be32 w @ ps @ x, avail = int (length (hs @ be32 w @ ps @ as))\<rparr> =
      Ok h \<lparr>rest = be32 w @ ps @ x, avail = int (length (be32 w @ ps @ as))\<rparr>"
    using ph l(2) by (simp add: parses_def)
  moreover have "UINT32_Unmarshal \<lparr>rest = be32 w @ ps @ x, avail = int (length (be32 w @ ps @ as))\<rparr> =
      Ok w \<lparr>rest = ps @ x, avail = int (length (ps @ as))\<rparr>"
    using parses_UINT32 [of w] l(2) by (simp add: parses_def)
  ultimately show "\<exists>b. f TPM_ST_SESSIONS \<lparr>rest = hs @ be32 w @ ps @ x, avail = int (length (hs @ be32 w @ ps @ as))\<rparr> = Ok v b"
    using g by (simp add: f u_bind_def u_when_def u_map_def u_return_def)
qed

text \<open>Its parameters start with a sized one if the attributes say so.\<close>

lemma response_first_sized:
  assumes ok: "response_ok r True (Some f)" and v: "parses (f TPM_ST_NO_SESSIONS) (hs @ ps) v"
    and l: "length hs = 4 * unat r" "length (hs @ ps) < 2 ^ 30"
  shows "\<exists>n xs ys. ps = be16 n @ xs @ ys \<and> length xs = unat n"
proof -
  from ok obtain hu :: "TPM_HANDLE unmarshal" and g
    where hu: "four_bytes hu (unat r)" and s: "\<And>h. first_sized (g h)"
      and f: "\<And>tag. f tag = u_bind hu (\<lambda>h. u_bind (u_when (tag = TPM_ST_SESSIONS) UINT32_Unmarshal) (\<lambda>_. g h))"
    unfolding response_ok_def option.case by blast
  let ?b0 = "\<lparr>rest = hs @ ps, avail = int (length (hs @ ps))\<rparr>"
  have "f TPM_ST_NO_SESSIONS = u_bind hu g"
    by (rule ext) (simp add: f u_when_def u_bind_def u_return_def split: ures.split)
  then have "u_bind hu g ?b0 = Ok v \<lparr>rest = [], avail = 0\<rparr>"
    using parses_exact [OF v] l(2) by simp
  then obtain h b1 where h: "hu ?b0 = Ok h b1" "g h b1 = Ok v \<lparr>rest = [], avail = 0\<rparr>" by (auto simp: u_bind_def split: ures.splits)
  have b0: "u_good ?b0" using l(2) by (simp add: u_good_def)
  with hu h obtain bs where bs: "consumed ?b0 bs b1" "length bs = 4 * unat r" unfolding four_bytes_def by blast
  with l(1) have "rest b1 = ps" by (auto simp: consumed_def append_eq_append_conv)
  with s h(2) consumed_good [OF b0 bs(1)] show ?thesis unfolding first_sized_def by blast
qed

lemma response_offset_eq: "unat (responseHandleCount c) \<le> 1 \<Longrightarrow> unat (response_offset c) = 10 + 4 * unat (responseHandleCount c)"
  using handle_bytes(2) [of "responseHandleCount c"] by (simp add: response_offset_def)

text \<open>The buffer behind the header, behind the handles, and behind the parameter size.\<close>

lemma received_at:
  assumes "received c p"
  defines "z \<equiv> drop (response_size p) (responseBuffer c)"
  shows "from_response c 10 = \<lparr>rest = rs_handles p @ param_size p @ rs_params p @ rs_auths p @ z,
      avail = int (length (rs_handles p @ param_size p @ rs_params p @ rs_auths p))\<rparr>"
    and "from_response c (response_offset c) = \<lparr>rest = param_size p @ rs_params p @ rs_auths p @ z,
      avail = int (length (param_size p @ rs_params p @ rs_auths p))\<rparr>"
  using from_response_at [OF assms(1), of "be16 (response_tag p) @ be32 (of_nat (response_size p)) @ be32 (rs_code p)"
      "rs_handles p @ param_size p @ rs_params p @ rs_auths p" 10]
    from_response_at [OF assms(1), of "be16 (response_tag p) @ be32 (of_nat (response_size p)) @ be32 (rs_code p) @ rs_handles p"
      "param_size p @ rs_params p @ rs_auths p" "response_offset c"]
    assms response_offset_eq [of c]
  by (simp_all add: response_bytes_def received_def)

lemma TSS_Unmarshal_received:
  assumes e: "made_by e c" "e \<in> set marshalTable" "mt_unmarshalFunction e = Some f"
    and r: "received c p" and v: "parses (f TPM_ST_NO_SESSIONS) (rs_handles p @ rs_params p) v"
  shows "TSS_Unmarshal c True = Some (Inr (Some v))"
proof -
  have "command_ok e" using marshalTable_ok e(2) by (simp add: list_all_iff)
  with e obtain enc where ok: "response_ok (responseHandleCount c) enc (Some f)"
    by (auto simp: command_ok_def made_by_def)
  have l: "length (rs_handles p) = 4 * unat (responseHandleCount c)" "length (rs_handles p @ rs_params p @ rs_auths p) < 2 ^ 30"
    using r by (simp_all add: received_def response_size_def)
  note d = response_decoded [OF ok v l, where x = "rs_auths p @ drop (response_size p) (responseBuffer c)"]
  from received_tag [OF r] obtain b where "TPM_ST_Unmarshal (from_response c 0) = Ok (response_tag p) b" .
  moreover have "\<exists>b. f (response_tag p) (from_response c 10) = Ok v b"
    using d(1) d(2) [where w = "of_nat (length (rs_params p))"] by (cases "rs_sessions p") (simp_all add: received_at [OF r] response_tag_def param_size_def)
  moreover have "unmarshalFunction c = Some f" using e by (simp add: made_by_def)
  ultimately show ?thesis by (auto simp: TSS_Unmarshal_def)
qed

lemma TSS_GetRpBuffer_received:
  assumes r: "received c p"
  shows "TSS_GetRpBuffer c = Some (Inr (of_nat (length (rs_params p)), response_offset c + of_nat (length (param_size p))))"
    and "take (length (rs_params p)) (drop (unat (response_offset c + of_nat (length (param_size p)))) (responseBuffer c)) = rs_params p"
proof -
  from received_tag [OF r] obtain b where t: "TPM_ST_Unmarshal (from_response c 0) = Ok (response_tag p) b" .
  let ?z = "drop (response_size p) (responseBuffer c)"
  have o: "unat (response_offset c) = 10 + length (rs_handles p)" using r response_offset_eq [of c] by (simp add: received_def)
  have rs: "responseSize c = of_nat (response_size p)" "response_size p \<le> MAX_RESPONSE_SIZE" using r by (simp_all add: received_def)
  have "UINT32_Unmarshal (from_response c (response_offset c)) =
      Ok (of_nat (length (rs_params p))) \<lparr>rest = rs_params p @ rs_auths p @ ?z, avail = int (length (rs_params p @ rs_auths p))\<rparr>"
    if "rs_sessions p"
    using parses_UINT32 [of "of_nat (length (rs_params p))"] that rs(2)
    by (simp add: received_at [OF r] param_size_def parses_def response_size_def)
  moreover have "of_nat (response_size p) - response_offset c = of_nat (length (rs_params p))" if "\<not> rs_sessions p"
  proof -
    have "response_offset c = of_nat (10 + length (rs_handles p))" using o by (metis of_nat_unat ucast_id)
    then show ?thesis using that r by (simp add: response_size_def param_size_def received_def)
  qed
  ultimately show "TSS_GetRpBuffer c = Some (Inr (of_nat (length (rs_params p)), response_offset c + of_nat (length (param_size p))))"
    using t rs by (simp add: TSS_GetRpBuffer_def response_tag_def Let_def param_size_def)
  let ?as = "be16 (response_tag p) @ be32 (of_nat (response_size p)) @ be32 (rs_code p) @ rs_handles p @ param_size p"
  have "unat (response_offset c + of_nat (length (param_size p))) = length ?as"
  proof -
    have "unat (of_nat (length (param_size p)) :: 32 word) = length (param_size p)" by (simp add: param_size_def)
    moreover from this have "unat (response_offset c) + unat (of_nat (length (param_size p)) :: 32 word) < 2 ^ LENGTH(32)"
      using o rs(2) by (simp add: response_size_def)
    ultimately show ?thesis using o by (simp add: unat_add_lem [THEN iffD1])
  qed
  with from_response_at [OF r, of ?as "rs_params p @ rs_auths p"]
  show "take (length (rs_params p)) (drop (unat (response_offset c + of_nat (length (param_size p)))) (responseBuffer c)) = rs_params p"
    by (simp add: response_bytes_def from_response_def)
qed

lemma TSS_GetRspAuths_received:
  assumes r: "received c p" and a: "parses (u_list n TPMS_AUTH_RESPONSE_Unmarshal) (rs_auths p) as"
  shows "TSS_GetRspAuths c n = Some (if authCount c = (if rs_sessions p then of_nat n else 0)
    then Inr (if rs_sessions p then as else []) else Inl TSS_RC_MALFORMED_RESPONSE)"
proof -
  from received_tag [OF r] obtain b where t: "TPM_ST_Unmarshal (from_response c 0) = Ok (response_tag p) b" .
  let ?z = "drop (response_size p) (responseBuffer c)"
  have rs: "response_size p \<le> MAX_RESPONSE_SIZE" using r by (simp add: received_def)
  show ?thesis
  proof (cases "rs_sessions p")
    case True
    have u: "UINT32_Unmarshal (from_response c (response_offset c)) =
        Ok (of_nat (length (rs_params p))) \<lparr>rest = rs_params p @ rs_auths p @ ?z, avail = int (length (rs_params p @ rs_auths p))\<rparr>"
      using parses_UINT32 [of "of_nat (length (rs_params p))"] True rs
      by (simp add: received_at [OF r] param_size_def parses_def response_size_def)
    have n: "unat (of_nat (length (rs_params p)) :: 32 word) = length (rs_params p)"
      using rs by (simp add: unat_of_nat response_size_def)
    then have n': "uint (of_nat (length (rs_params p)) :: 32 word) = int (length (rs_params p))" by (metis uint_nat)
    have "s32 (int (length (rs_auths p))) = int (length (rs_auths p))" using rs by (intro s32_id) (simp_all add: response_size_def)
    moreover have "u_list n TPMS_AUTH_RESPONSE_Unmarshal \<lparr>rest = rs_auths p @ ?z, avail = int (length (rs_auths p))\<rparr> =
        Ok as \<lparr>rest = ?z, avail = 0\<rparr>"
      using a rs by (simp add: parses_def response_size_def)
    ultimately show ?thesis
      using True t by (simp add: TSS_GetRspAuths_def response_tag_def u n n')
  next
    case False
    with t show ?thesis by (simp add: TSS_GetRspAuths_def response_tag_def)
  qed
qed

text \<open>C7. What the three readers of a response find in a well-formed one: \<open>TSS_Unmarshal\<close> decodes the structure that its handles and
  parameters encode, with sessions the same as without; \<open>TSS_GetRpBuffer\<close> gives size and place of the parameters; and
  \<open>TSS_GetRspAuths\<close> returns the authorizations exactly if their number is that of the command.\<close>

theorem TSS_response_correct:
  assumes e: "made_by e c" "e \<in> set marshalTable" "mt_unmarshalFunction e = Some f"
    and r: "received c p" and v: "parses (f TPM_ST_NO_SESSIONS) (rs_handles p @ rs_params p) v"
    and a: "parses (u_list n TPMS_AUTH_RESPONSE_Unmarshal) (rs_auths p) as"
  shows "TSS_Unmarshal c True = Some (Inr (Some v)) \<and>
    (\<exists>off. TSS_GetRpBuffer c = Some (Inr (of_nat (length (rs_params p)), off)) \<and>
       take (length (rs_params p)) (drop (unat off) (responseBuffer c)) = rs_params p) \<and>
    TSS_GetRspAuths c n = Some (if authCount c = (if rs_sessions p then of_nat n else 0)
      then Inr (if rs_sessions p then as else []) else Inl TSS_RC_MALFORMED_RESPONSE)"
  using TSS_Unmarshal_received [OF e r v] TSS_GetRpBuffer_received [OF r] TSS_GetRspAuths_received [OF r a] by blast

section \<open>A parameter of a response\<close>

lemma ntohs_shift: "p + 1 < length bs \<Longrightarrow> ntohs_at bs p = ntohs_at (drop p bs) 0"
  by (simp add: ntohs_at_def)

lemma GetResponseEncryptParam_eq:
  assumes r: "received c p" and ps: "rs_params p = be16 n @ xs @ ys" "length xs = unat n"
  defines "q \<equiv> 12 + length (rs_handles p) + length (param_size p)"
  shows "TSS_GetResponseEncryptParam c = Some (Inr (ucast n, q))"
    and "take (unat n) (drop q (responseBuffer c)) = xs" and "q + unat n \<le> MAX_RESPONSE_SIZE"
    and "responseBuffer c = take q (responseBuffer c) @ xs @ drop (q + unat n) (responseBuffer c)"
proof -
  let ?as = "be16 (response_tag p) @ be32 (of_nat (response_size p)) @ be32 (rs_code p) @ rs_handles p @ param_size p"
  let ?z = "drop (response_size p) (responseBuffer c)"
  have rs: "response_size p \<le> MAX_RESPONSE_SIZE" "length (responseBuffer c) = MAX_RESPONSE_SIZE" using r by (simp_all add: received_def)
  have q: "q = length ?as + 2" by (simp add: q_def)
  have o: "unat (response_offset c + of_nat (length (param_size p))) = length ?as"
  proof -
    have "unat (of_nat (length (param_size p)) :: 32 word) = length (param_size p)" by (simp add: param_size_def)
    moreover from this have "unat (response_offset c) + unat (of_nat (length (param_size p)) :: 32 word) < 2 ^ LENGTH(32)"
      using r response_offset_eq [of c] rs(1) by (simp add: response_size_def received_def)
    ultimately show ?thesis using r response_offset_eq [of c] by (simp add: unat_add_lem [THEN iffD1] received_def)
  qed
  have "drop (length ?as) (responseBuffer c) = rs_params p @ rs_auths p @ ?z"
    using from_response_at [OF r, of ?as "rs_params p @ rs_auths p" "response_offset c + of_nat (length (param_size p))"] o
    by (simp add: response_bytes_def from_response_def)
  then have d: "drop (length ?as) (responseBuffer c) = be16 n @ xs @ ys @ rs_auths p @ ?z" by (simp add: ps)
  then have d2: "drop q (responseBuffer c) = xs @ ys @ rs_auths p @ ?z"
    using drop_drop [of 2 "length ?as" "responseBuffer c"] by (simp add: q add.commute)
  have lq: "q + unat n \<le> response_size p" using ps by (simp add: q_def response_size_def)
  then show "q + unat n \<le> MAX_RESPONSE_SIZE" using rs by simp
  show "take (unat n) (drop q (responseBuffer c)) = xs" using d2 ps(2) by simp
  then show "responseBuffer c = take q (responseBuffer c) @ xs @ drop (q + unat n) (responseBuffer c)"
    by (metis append_take_drop_id drop_drop add.commute)
  have "ntohs_at (responseBuffer c) (length ?as) = ucast n"
    using ntohs_shift [of "length ?as" "responseBuffer c"] d ntohs_be16 lq rs q by simp
  then show "TSS_GetResponseEncryptParam c = Some (Inr (ucast n, q))"
    using TSS_GetRpBuffer_received(1) [OF r] o lq rs q by (simp add: TSS_GetResponseEncryptParam_def)
qed

lemma SetResponseDecryptParam_eq:
  assumes r: "received c p" and ps: "rs_params p = be16 n @ xs @ ys" "length xs = unat n" and l: "length zs = unat n"
  shows "\<exists>c'. TSS_SetResponseDecryptParam c (ucast n) zs = Some (0, c') \<and> received c' (p\<lparr>rs_params := be16 n @ zs @ ys\<rparr>) \<and>
    (\<forall>e. made_by e c' \<longleftrightarrow> made_by e c)"
proof -
  let ?q = "12 + length (rs_handles p) + length (param_size p)"
  note g = GetResponseEncryptParam_eq [OF r ps]
  let ?c' = "c\<lparr>responseBuffer := take ?q (responseBuffer c) @ zs @ drop (?q + unat n) (responseBuffer c)\<rparr>"
  have set: "TSS_SetResponseDecryptParam c (ucast n) zs = Some (0, ?c')"
    using l g(1,3) by (simp add: TSS_SetResponseDecryptParam_def unat_ucast_16)
  have "received ?c' (p\<lparr>rs_params := be16 n @ zs @ ys\<rparr>)"
  proof -
    let ?p = "p\<lparr>rs_params := be16 n @ zs @ ys\<rparr>" and ?as = "be16 (response_tag p) @ be32 (of_nat (response_size p)) @ be32 (rs_code p) @ rs_handles p @ param_size p @ be16 n"
    have sz: "response_size ?p = response_size p" "param_size ?p = param_size p" "response_tag ?p = response_tag p"
      using ps l by (simp_all add: response_size_def param_size_def response_tag_def)
    have t: "take (response_size p) (responseBuffer c) = ?as @ xs @ ys @ rs_auths p"
      using r ps(1) by (simp add: received_def response_bytes_def)
    have len: "length ?as = ?q" "response_size p = ?q + length (xs @ ys @ rs_auths p)"
      using ps by (simp_all add: response_size_def)
    have full: "responseBuffer c = (?as @ xs @ ys @ rs_auths p) @ drop (response_size p) (responseBuffer c)"
      using t append_take_drop_id [of "response_size p" "responseBuffer c"] by simp
    have "take ?q (responseBuffer c) = ?as"
      by (subst full) (simp add: len(1) [symmetric])
    moreover have "drop (?q + unat n) (responseBuffer c) = ys @ rs_auths p @ drop (response_size p) (responseBuffer c)"
      by (subst full) (simp add: len(1) [symmetric] ps(2) [symmetric])
    ultimately have b: "responseBuffer ?c' = (?as @ zs @ ys @ rs_auths p) @ drop (response_size p) (responseBuffer c)" by simp
    have "length (?as @ zs @ ys @ rs_auths p) = response_size p" using len l ps(2) by simp
    with b have "take (response_size p) (responseBuffer ?c') = ?as @ zs @ ys @ rs_auths p" by simp
    moreover have "length (responseBuffer ?c') = MAX_RESPONSE_SIZE"
      using r g(3) l by (simp add: received_def)
    ultimately show ?thesis using r by (simp add: received_def sz response_bytes_def)
  qed
  with set show ?thesis by (intro exI [of _ ?c']) (simp add: made_by_def)
qed

text \<open>Remark. A response whose attributes allow its first parameter to be encrypted: \<open>TSS_GetResponseEncryptParam\<close> finds size and place of the
  content of that parameter, inside the response; \<open>TSS_SetResponseDecryptParam\<close> of a content of that size replaces it and nothing
  else, and one of another size is refused and changes nothing.\<close>

theorem TSS_ResponseEncryptParam_correct:
  assumes e: "made_by e c" "e \<in> set marshalTable" "mt_unmarshalFunction e = Some f" "getEncryptSize (tpmCommandIndex c) = Some 2"
    and r: "received c p" and v: "parses (f TPM_ST_NO_SESSIONS) (rs_handles p @ rs_params p) v"
  shows "\<exists>n xs ys q. rs_params p = be16 n @ xs @ ys \<and> length xs = unat n \<and>
    TSS_GetResponseEncryptParam c = Some (Inr (ucast n, q)) \<and> take (unat n) (drop q (responseBuffer c)) = xs \<and>
    q + unat n \<le> MAX_RESPONSE_SIZE \<and>
    (\<forall>k zs. if k = ucast n
       then length zs = unat n \<longrightarrow> (\<exists>c'. TSS_SetResponseDecryptParam c k zs = Some (0, c') \<and>
         received c' (p\<lparr>rs_params := be16 n @ zs @ ys\<rparr>) \<and> made_by e c')
       else TSS_SetResponseDecryptParam c k zs = Some (TSS_RC_BAD_ENCRYPT_SIZE, c))"
proof -
  have "command_ok e" using marshalTable_ok e(2) by (simp add: list_all_iff)
  with e have ok: "response_ok (responseHandleCount c) True (Some f)" by (auto simp: command_ok_def made_by_def)
  have "length (rs_handles p) = 4 * unat (responseHandleCount c)" "length (rs_handles p @ rs_params p) < 2 ^ 30"
    using r by (simp_all add: received_def response_size_def)
  from response_first_sized [OF ok v this] obtain n xs ys where ps: "rs_params p = be16 n @ xs @ ys" "length xs = unat n" by blast
  let ?q = "12 + length (rs_handles p) + length (param_size p)"
  note g = GetResponseEncryptParam_eq [OF r ps]
  show ?thesis
  proof (intro exI conjI allI)
    show "rs_params p = be16 n @ xs @ ys" "length xs = unat n" by (fact ps)+
    show "TSS_GetResponseEncryptParam c = Some (Inr (ucast n, ?q))" "take (unat n) (drop ?q (responseBuffer c)) = xs"
      "?q + unat n \<le> MAX_RESPONSE_SIZE" by (fact g)+
    fix k :: "32 word" and zs
    show "if k = ucast n
       then length zs = unat n \<longrightarrow> (\<exists>c'. TSS_SetResponseDecryptParam c k zs = Some (0, c') \<and>
         received c' (p\<lparr>rs_params := be16 n @ zs @ ys\<rparr>) \<and> made_by e c')
       else TSS_SetResponseDecryptParam c k zs = Some (TSS_RC_BAD_ENCRYPT_SIZE, c)"
      using SetResponseDecryptParam_eq [OF r ps, of zs] e(1) g(1)
      by (auto simp: TSS_SetResponseDecryptParam_def)
  qed
qed

section \<open>Responses that are not well-formed\<close>

lemma Unmarshal_inside:
  assumes e: "made_by e c" "e \<in> set marshalTable" and b: "length (responseBuffer c) = MAX_RESPONSE_SIZE"
    and n: "10 \<le> unat (responseSize c)" "unat (responseSize c) \<le> MAX_RESPONSE_SIZE"
  shows "TSS_Unmarshal c out \<noteq> None"
proof -
  have good: "u_good (from_response c off)" if "unat off \<le> unat (responseSize c)" for off
  proof -
    have "unat (responseSize c - off) = unat (responseSize c) - unat off"
      using that by (intro unat_sub) (simp add: word_le_nat_alt)
    then have "sint (responseSize c - off) = int (unat (responseSize c) - unat off)"
      using n(2) by (subst sint_unat) simp_all
    moreover have "uint off \<le> uint (responseSize c) \<and> uint (responseSize c) \<le> 4096 \<and> uint (responseSize c) - uint off < 2147483648"
      using that n(2) unfolding uint_nat by linarith
    ultimately show ?thesis using that n(2) b by (simp add: from_response_def u_good_def)
  qed
  have "TPM_ST_Unmarshal (from_response c 0) \<noteq> Overread"
    using TPM_ST_codec [of 0] good [of 0] by (cases rule: readsE) auto
  moreover have "f tag (from_response c 10) \<noteq> Overread" if "unmarshalFunction c = Some f" for f tag
  proof -
    have "command_ok e" using marshalTable_ok e(2) by (simp add: list_all_iff)
    with e that obtain r enc where "response_ok r enc (Some f)" by (auto simp: command_ok_def made_by_def)
    then have "delivers (\<lambda>_. True) (f tag)" by (simp add: response_ok_def)
    then show ?thesis using good [of 10] n(1) by (cases rule: deliversE) auto
  qed
  ultimately show ?thesis by (auto simp: TSS_Unmarshal_def split: option.split ures.split)
qed

text \<open>C8. \<open>TSS_Unmarshal\<close> reads any response of at least the ten bytes of a header, whatever its content, inside the buffer: it returns
  a response code or a structure.\<close>

theorem TSS_Unmarshal_safe:
  assumes e: "made_by e c" "e \<in> set marshalTable" and b: "length (responseBuffer c) = MAX_RESPONSE_SIZE"
    and n: "10 \<le> unat (responseSize c)" "unat (responseSize c) \<le> MAX_RESPONSE_SIZE"
  shows "TSS_Unmarshal c out \<noteq> None"
  by (rule Unmarshal_inside [OF assms])

lemma word_of_s32: "(word_of_int (s32 x) :: 32 word) = word_of_int x"
proof -
  have "s32 x mod 2 ^ 32 = x mod 2 ^ 32" by (simp add: s32_def mod_diff_left_eq)
  then show ?thesis by (simp add: word_of_int_eq_iff take_bit_eq_mod)
qed

lemma read_behind:
  assumes "(w :: 32 word) \<noteq> 0" "w \<noteq> 0xFFFFFFFF"
  shows "TPMS_AUTH_RESPONSE_Unmarshal \<lparr>rest = [], avail = s32 (- uint w)\<rparr> = Overread"
proof -
  have "\<not> - w < 2"
  proof
    assume "- w < 2"
    then have "unat (- w) < 2" by (simp add: word_less_nat_alt)
    then have "- w = 0 \<or> - w = 1" by (auto simp: word_unat_eq_iff)
    then have "w = 0 \<or> w = - 1" by (metis minus_minus neg_0_equal_iff_equal)
    with assms show False by simp
  qed
  then have "\<not> (word_of_int (s32 (- uint w)) :: 32 word) < 2" by (simp add: word_of_s32)
  then show ?thesis
    by (simp add: TPMS_AUTH_RESPONSE_Unmarshal_def TPM2B_NONCE_Unmarshal_def TPM2B_DIGEST_Unmarshal_def TPM2B_Unmarshal_def
      UINT16_Unmarshal_def u_fixed_def u_take_def u_bind_def)
qed

text \<open>C38. The parameter size of a response with sessions is not checked: any that leads behind the end of the response buffer, but the
  largest 32-bit number, makes \<open>TSS_GetRspAuths\<close> read there.\<close>

theorem TSS_GetRspAuths_overrun:
  assumes "length (responseBuffer c) = MAX_RESPONSE_SIZE" "responseSize c = 14" "responseHandleCount c = 0"
    and "take 14 (responseBuffer c) = be16 TPM_ST_SESSIONS @ be32 14 @ be32 0 @ be32 w"
    and w: "4082 \<le> unat w" "w \<noteq> 0xFFFFFFFF"
  shows "TSS_GetRspAuths c (Suc n) = None"
proof -
  let ?z = "drop 14 (responseBuffer c)"
  have buf: "responseBuffer c = be16 TPM_ST_SESSIONS @ be32 14 @ be32 0 @ be32 w @ ?z"
    using append_take_drop_id [of 14 "responseBuffer c"] assms(4) by simp
  have "sint (14 :: 32 word) = 14" "sint (4 :: 32 word) = 4" by simp_all
  have "from_response c 0 = \<lparr>rest = be16 TPM_ST_SESSIONS @ be32 14 @ be32 0 @ be32 w @ ?z, avail = 14\<rparr>"
    using buf assms(2) by (simp add: from_response_def)
  moreover have "parses TPM_ST_Unmarshal (be16 TPM_ST_SESSIONS) TPM_ST_SESSIONS" by (rule parses_tag) simp
  ultimately obtain b where t: "TPM_ST_Unmarshal (from_response c 0) = Ok TPM_ST_SESSIONS b" by (simp add: parses_def)
  have "drop 10 (responseBuffer c) = be32 w @ ?z" by (subst buf) simp
  then have "from_response c 10 = \<lparr>rest = be32 w @ ?z, avail = 4\<rparr>" using assms(2) by (simp add: from_response_def)
  then have u: "UINT32_Unmarshal (from_response c (response_offset c)) = Ok w \<lparr>rest = ?z, avail = 0\<rparr>"
    using parses_UINT32 [of w] assms(3) by (simp add: parses_def response_offset_def)
  have "drop (unat w) ?z = []" using assms(1) w(1) by simp
  moreover have "w \<noteq> 0" using w(1) by auto
  ultimately show ?thesis using w(2) read_behind [of w] by (simp add: TSS_GetRspAuths_def t u u_bind_def)
qed

end
