(* ===== verification/Tss_Auth_Examples.thy ===== *)
theory Tss_Auth_Examples
  imports Tss_Auth_Response
begin

text \<open>
  The properties of the command and response packets on concrete ones: a \<open>TPM2_StirRandom\<close> command with one byte of data, a
  \<open>TPM2_Unseal\<close> command with its handle, and a response to \<open>TPM2_GetRandom\<close> with one session.
\<close>

definition ex_blank :: TSS_AUTH_CONTEXT where
  "ex_blank = \<lparr>commandBuffer = (\<lambda>_. 0), responseBuffer = replicate 4096 0, commandText = None, tpmCommandIndex = 0, commandCode = 0,
     responseCode = 0, commandHandleCount = 0, responseHandleCount = 0, authCount = 0, commandSize = 0, cpBufferSize = 0,
     cpBuffer = None, responseSize = 0, marshalFunction = None, unmarshalFunction = None, unmarshalInFunction = None\<rparr>"

section \<open>A command without handles\<close>

definition ex_stir :: COMMAND_PARAMETERS where
  "ex_stir = Crypto_Parameters (In_StirRandom \<lparr>StirRandom_In_inData = \<lparr>TPM2B_size = 1, TPM2B_buffer = [0xAA]\<rparr>\<rparr>)"

definition ex_stir_packet :: packet where
  "ex_stir_packet = plain_packet TPM_CC_StirRandom [] [0, 1, 0xAA]"

definition ex_stir_context :: TSS_AUTH_CONTEXT where
  "ex_stir_context = ex_blank\<lparr>commandBuffer := put_bytes 0 [0x80, 1, 0, 0, 0, 13, 0, 0, 1, 0x46, 0, 1, 0xAA] (\<lambda>_. 0),
     tpmCommandIndex := 36, commandCode := TPM_CC_StirRandom, commandSize := 13, cpBufferSize := 3, cpBuffer := Some 10,
     marshalFunction := mt_marshalFunction marshal_StirRandom, unmarshalInFunction := mt_unmarshalInFunction marshal_StirRandom\<rparr>"

lemma ex_stir_entry:
  "marshal_StirRandom \<in> set marshalTable"
  "mt_marshalFunction marshal_StirRandom = Some (in_marshal in_StirRandom TSS_StirRandom_In_Marshal)"
  "mt_unmarshalInFunction marshal_StirRandom = Some (in_unmarshal (Crypto_Parameters \<circ> In_StirRandom) StirRandom_In_Unmarshal)"
  "mt_commandCode marshal_StirRandom = TPM_CC_StirRandom" "handle_count marshal_StirRandom = 0"
  by (simp add: marshalTable_def)
    (simp_all add: marshal_StirRandom_def handle_count_def StirRandom_attributes)

lemma ex_stir_made: "made_by marshal_StirRandom ex_stir_context"
  by (simp add: made_by_def ex_stir_context_def ex_blank_def marshal_StirRandom_def StirRandom_attributes)

lemma ex_stir_holds: "holds ex_stir_context ex_stir_packet"
  by (simp add: holds_def ex_stir_context_def ex_stir_packet_def ex_blank_def plain_packet_def auth_area_def packet_size_def
    packet_bytes_def be16_def be32_def bytes_at_def put_bytes_def upt_rec)

lemma parses_TPM2B: "n \<le> s \<Longrightarrow> length bs = unat n \<Longrightarrow> parses (TPM2B_Unmarshal s) (be16 n @ bs) \<lparr>TPM2B_size = n, TPM2B_buffer = bs\<rparr>"
  unfolding TPM2B_Unmarshal_def
  by (rule parses_bind [OF parses_UINT16])
    (use parses_bind [OF parses_array parses_return, of bs n "\<lambda>b. \<lparr>TPM2B_size = n, TPM2B_buffer = b\<rparr>"] in \<open>auto simp: u_guard_def\<close>)

lemma ex_stir_parses: "parses (in_unmarshal (Crypto_Parameters \<circ> In_StirRandom) StirRandom_In_Unmarshal hs) [0, 1, 0xAA] ex_stir"
proof -
  have "parses TPM2B_SENSITIVE_DATA_Unmarshal [0, 1, 0xAA] \<lparr>TPM2B_size = 1, TPM2B_buffer = [0xAA]\<rparr>"
    using parses_TPM2B [of 1 _ "[0xAA]"] by (simp add: TPM2B_SENSITIVE_DATA_Unmarshal_def be16_def)
  then show ?thesis
    by (simp add: parses_def in_unmarshal_def u_map_def StirRandom_In_Unmarshal_def ex_stir_def u_add_rc_def u_bind_def u_return_def)
qed

theorem TSS_Marshal_correct_witness:
  "\<exists>c'. TSS_Marshal (\<lambda>_. 7) ex_blank (Some ex_stir) TPM_CC_StirRandom = Some (0, c') \<and> made_by marshal_StirRandom c' \<and>
     holds c' ex_stir_packet \<and> authCount c' = 0"
proof -
  have "in_unmarshal (Crypto_Parameters \<circ> In_StirRandom) StirRandom_In_Unmarshal (\<lambda>_. 0) \<lparr>rest = [0, 1, 0xAA], avail = 3\<rparr> =
      Ok ex_stir \<lparr>rest = [], avail = 0\<rparr>"
    using parses_exact [OF ex_stir_parses] by simp
  moreover have "u_good \<lparr>rest = [0, 1, 0xAA], avail = 3\<rparr>" by (simp add: u_good_def)
  ultimately show ?thesis
    using TSS_Marshal_correct [OF ex_stir_entry(1-3), of "\<lparr>rest = [0, 1, 0xAA], avail = 3\<rparr>" "\<lambda>_. 0" ex_stir _ "\<lambda>_. 7" ex_blank]
    by (simp add: ex_stir_entry(4,5) ex_stir_packet_def handle_area_def Let_def)
qed

section \<open>Its authorization\<close>

text \<open>A password authorization with an empty password: the handle \<open>TPM_RS_PW\<close>, and no nonce, attributes or password.\<close>

definition ex_auth :: TPMS_AUTH_COMMAND where
  "ex_auth = \<lparr>TPMS_AUTH_COMMAND_sessionHandle = 0x40000009, TPMS_AUTH_COMMAND_nonce = \<lparr>TPM2B_size = 0, TPM2B_buffer = []\<rparr>,
     TPMS_AUTH_COMMAND_sessionAttributes = 0, TPMS_AUTH_COMMAND_hmac = \<lparr>TPM2B_size = 0, TPM2B_buffer = []\<rparr>\<rparr>"

theorem TSS_SetCmdAuths_correct_witness:
  "\<exists>c'. TSS_SetCmdAuths ex_stir_context [ex_auth] = Some (0, c') \<and> holds c'
     (ex_stir_packet\<lparr>pk_tag := TPM_ST_SESSIONS, pk_auths := Some [0x40, 0, 0, 9, 0, 0, 0, 0, 0]\<rparr>) \<and> authCount c' = 1"
  using TSS_SetCmdAuths_correct [OF ex_stir_holds, of "[ex_auth]"]
  by (auto simp: ex_stir_packet_def plain_packet_def ex_auth_def auth_ok_def area_bytes_def auth_bytes_def sized_bytes_def be16_def be32_def
    packet_size_def auth_area_def ex_stir_context_def ex_blank_def)

theorem TSS_CommandDecryptParam_correct_witness:
  "\<exists>n xs ys q. decryptable ex_stir_packet n xs ys \<and> TSS_GetCommandDecryptParam ex_stir_context = Some (ucast n, q) \<and>
     bytes_at (commandBuffer ex_stir_context) q (unat n) = xs"
proof -
  have "getDecryptSize (tpmCommandIndex ex_stir_context) = Some 2" by (simp add: ex_stir_context_def StirRandom_attributes)
  moreover have "parses (in_unmarshal (Crypto_Parameters \<circ> In_StirRandom) StirRandom_In_Unmarshal (\<lambda>_. 0)) (pk_params ex_stir_packet) ex_stir"
    using ex_stir_parses by (simp add: ex_stir_packet_def plain_packet_def)
  ultimately show ?thesis
    using TSS_CommandDecryptParam_correct [OF ex_stir_holds ex_stir_made ex_stir_entry(1) _ ex_stir_entry(3)] by blast
qed

section \<open>A command with a handle\<close>

definition ex_unseal_context :: TSS_AUTH_CONTEXT where
  "ex_unseal_context = ex_blank\<lparr>commandBuffer := put_bytes 0 [0x80, 1, 0, 0, 0, 14, 0, 0, 1, 0x5E, 0x80, 0, 0, 1] (\<lambda>_. 0),
     tpmCommandIndex := 59, commandCode := TPM_CC_Unseal, commandSize := 14, cpBufferSize := 0, cpBuffer := Some 14, commandHandleCount := 1,
     marshalFunction := mt_marshalFunction marshal_Unseal, unmarshalInFunction := mt_unmarshalInFunction marshal_Unseal\<rparr>"

theorem TSS_GetCommandHandle_correct_witness:
  "TSS_GetCommandHandle ex_unseal_context 0 = Some (Inr 0x80000001) \<and>
   TSS_GetCommandHandle ex_unseal_context 1 = Some (Inl TSS_RC_BAD_HANDLE_NUMBER)"
proof -
  have "holds ex_unseal_context (plain_packet TPM_CC_Unseal [0x80, 0, 0, 1] [])"
    by (simp add: holds_def ex_unseal_context_def ex_blank_def plain_packet_def auth_area_def packet_size_def
      packet_bytes_def be16_def be32_def bytes_at_def put_bytes_def upt_rec)
  then show ?thesis
    using TSS_GetCommandHandle_correct [of ex_unseal_context "plain_packet TPM_CC_Unseal [0x80, 0, 0, 1] []" "\<lambda>_. 0x80000001"]
    by (simp add: plain_packet_def ex_unseal_context_def handle_area_def be32_def)
qed

section \<open>A response with a session\<close>

definition ex_random :: RESPONSE_PARAMETERS where
  "ex_random = Crypto_Response (Out_GetRandom \<lparr>GetRandom_Out_randomBytes = \<lparr>TPM2B_size = 1, TPM2B_buffer = [7]\<rparr>\<rparr>)"

definition ex_response :: response where
  "ex_response = \<lparr>rs_sessions = True, rs_code = 0, rs_handles = [], rs_params = [0, 1, 7], rs_auths = [0, 0, 1, 0, 0]\<rparr>"

definition ex_random_context :: TSS_AUTH_CONTEXT where
  "ex_random_context = ex_blank\<lparr>responseBuffer := [0x80, 2, 0, 0, 0, 22, 0, 0, 0, 0, 0, 0, 0, 3, 0, 1, 7, 0, 0, 1, 0, 0] @ replicate 4074 0,
     tpmCommandIndex := 84, commandCode := TPM_CC_GetRandom, responseSize := 22, authCount := 1,
     marshalFunction := mt_marshalFunction marshal_GetRandom, unmarshalFunction := mt_unmarshalFunction marshal_GetRandom,
     unmarshalInFunction := mt_unmarshalInFunction marshal_GetRandom\<rparr>"

lemma ex_random_entry:
  "marshal_GetRandom \<in> set marshalTable"
  "mt_unmarshalFunction marshal_GetRandom = Some (out_unmarshal (Crypto_Response \<circ> Out_GetRandom) TSS_GetRandom_Out_Unmarshal)"
  by (simp add: marshalTable_def) (simp add: marshal_GetRandom_def)

lemma ex_random_made: "made_by marshal_GetRandom ex_random_context"
  by (simp add: made_by_def ex_random_context_def ex_blank_def marshal_GetRandom_def GetRandom_attributes)

lemma ex_random_received: "received ex_random_context ex_response"
  by (simp add: received_def ex_random_context_def ex_blank_def ex_response_def response_size_def param_size_def response_bytes_def
    response_tag_def be16_def be32_def)

lemma ex_random_parses:
  "parses (out_unmarshal (Crypto_Response \<circ> Out_GetRandom) TSS_GetRandom_Out_Unmarshal TPM_ST_NO_SESSIONS) [0, 1, 7] ex_random"
proof -
  have "parses TPM2B_DIGEST_Unmarshal [0, 1, 7] \<lparr>TPM2B_size = 1, TPM2B_buffer = [7]\<rparr>"
    using parses_TPM2B [of 1 _ "[7]"] by (simp add: TPM2B_DIGEST_Unmarshal_def be16_def)
  then show ?thesis
    by (simp add: parses_def out_unmarshal_def TSS_GetRandom_Out_Unmarshal_def ex_random_def u_map_def u_bind_def u_when_def u_return_def)
qed

lemma ex_auth_parses:
  "parses (u_list 1 TPMS_AUTH_RESPONSE_Unmarshal) [0, 0, 1, 0, 0]
     [\<lparr>TPMS_AUTH_RESPONSE_nonce = \<lparr>TPM2B_size = 0, TPM2B_buffer = []\<rparr>, TPMS_AUTH_RESPONSE_sessionAttributes = 1,
       TPMS_AUTH_RESPONSE_hmac = \<lparr>TPM2B_size = 0, TPM2B_buffer = []\<rparr>\<rparr>]"
proof -
  have d: "parses TPM2B_DIGEST_Unmarshal [0, 0] \<lparr>TPM2B_size = 0, TPM2B_buffer = []\<rparr>"
    using parses_TPM2B [of 0 _ "[]"] by (simp add: TPM2B_DIGEST_Unmarshal_def be16_def)
  have s: "parses TPMA_SESSION_Unmarshal [1] 1"
    using parses_UINT8 [of 1]
    by (simp add: TPMA_SESSION_Unmarshal_def u_guard_def parses_def u_bind_def u_return_def)
  from d s show ?thesis
    by (simp add: parses_def u_bind_def u_return_def TPMS_AUTH_RESPONSE_Unmarshal_def TPM2B_NONCE_Unmarshal_def TPM2B_AUTH_Unmarshal_def)
qed

theorem TSS_response_correct_witness:
  "TSS_Unmarshal ex_random_context True = Some (Inr (Some ex_random)) \<and>
   TSS_GetRspAuths ex_random_context 1 = Some (Inr [\<lparr>TPMS_AUTH_RESPONSE_nonce = \<lparr>TPM2B_size = 0, TPM2B_buffer = []\<rparr>,
     TPMS_AUTH_RESPONSE_sessionAttributes = 1, TPMS_AUTH_RESPONSE_hmac = \<lparr>TPM2B_size = 0, TPM2B_buffer = []\<rparr>\<rparr>])"
proof -
  have "parses (out_unmarshal (Crypto_Response \<circ> Out_GetRandom) TSS_GetRandom_Out_Unmarshal TPM_ST_NO_SESSIONS)
      (rs_handles ex_response @ rs_params ex_response) ex_random"
    using ex_random_parses by (simp add: ex_response_def)
  moreover have "rs_auths ex_response = [0, 0, 1, 0, 0]" "rs_sessions ex_response" "authCount ex_random_context = 1"
    by (simp_all add: ex_response_def ex_random_context_def)
  ultimately show ?thesis
    using TSS_response_correct [OF ex_random_made ex_random_entry ex_random_received, of ex_random 1] ex_auth_parses by simp
qed

theorem TSS_ResponseEncryptParam_correct_witness:
  "\<exists>n xs ys q. rs_params ex_response = be16 n @ xs @ ys \<and>
     TSS_GetResponseEncryptParam ex_random_context = Some (Inr (ucast n, q)) \<and> take (unat n) (drop q (responseBuffer ex_random_context)) = xs"
proof -
  have "parses (out_unmarshal (Crypto_Response \<circ> Out_GetRandom) TSS_GetRandom_Out_Unmarshal TPM_ST_NO_SESSIONS)
      (rs_handles ex_response @ rs_params ex_response) ex_random"
    using ex_random_parses by (simp add: ex_response_def)
  moreover have "getEncryptSize (tpmCommandIndex ex_random_context) = Some 2" by (simp add: ex_random_context_def GetRandom_attributes)
  ultimately show ?thesis
    using TSS_ResponseEncryptParam_correct [OF ex_random_made ex_random_entry _ ex_random_received] by blast
qed

theorem TSS_Unmarshal_safe_witness: "TSS_Unmarshal (ex_random_context\<lparr>responseSize := 11\<rparr>) True \<noteq> None"
proof -
  have "made_by marshal_GetRandom (ex_random_context\<lparr>responseSize := 11\<rparr>)" using ex_random_made by (simp add: made_by_def)
  from TSS_Unmarshal_safe [OF this ex_random_entry(1)] show ?thesis by (simp add: ex_random_context_def ex_blank_def)
qed

theorem TSS_GetRspAuths_overrun_witness:
  "TSS_GetRspAuths (ex_blank\<lparr>responseBuffer := [0x80, 2, 0, 0, 0, 14, 0, 0, 0, 0, 0xFF, 0xFF, 0xF0, 0] @ replicate 4082 0,
     responseSize := 14\<rparr>) (Suc 0) = None"
  by (rule TSS_GetRspAuths_overrun [of _ "0xFFFFF000"]) (simp_all add: ex_blank_def be16_def be32_def)

end
