(* ===== verification/Tss_Session_Correct.thy ===== *)
theory Tss_Session_Correct
  imports Tss_Execute Tss_Auth_Examples
begin

text \<open>
  Properties of the stores and sessions: what is written to a file is read back, what one handle stores does not disturb another, and
  the bounds of the file names. A session is stored as the bytes \<open>session_bytes\<close>.
\<close>

section \<open>File names\<close>

lemma length_hex8 [simp]: "length (hex8 w) = 8"
  by (simp add: hex8_def)

lemma hex_digit_inj: "a < 16 \<Longrightarrow> b < 16 \<Longrightarrow> hex_digit a = hex_digit b \<longleftrightarrow> a = b"
proof -
  have "distinct ''0123456789abcdef''" by simp
  from nth_eq_iff_index_eq [OF this, of a b] show "a < 16 \<Longrightarrow> b < 16 \<Longrightarrow> hex_digit a = hex_digit b \<longleftrightarrow> a = b"
    by (simp add: hex_digit_def)
qed

lemma nibble_less: "unat (x AND 0xF :: 32 word) < 16"
proof -
  have "x AND 0xF \<le> (0xF :: 32 word)" by (rule word_and_le1)
  then show ?thesis by (simp add: word_le_nat_alt)
qed

text \<open>Two handles never have the same name.\<close>

lemma hex8_inj: "hex8 v = hex8 w \<longleftrightarrow> v = w"
proof
  assume "hex8 v = hex8 w"
  then have n: "drop_bit (4 * i) v AND 0xF = drop_bit (4 * i) w AND 0xF" if "i \<in> set [7, 6, 5, 4, 3, 2, 1, 0]" for i
    using that by (simp add: hex8_def hex_digit_inj nibble_less) (auto simp: word_unat_eq_iff)
  show "v = w"
  proof (rule bit_word_eqI)
    fix n assume "n < LENGTH(32)"
    then have d: "n div 4 \<in> set [7, 6, 5, 4, 3, 2, 1, 0]" "n mod 4 < 4" "n = 4 * (n div 4) + n mod 4" by auto
    from n [OF d(1)] have "bit (drop_bit (4 * (n div 4)) v AND 0xF) (n mod 4) = bit (drop_bit (4 * (n div 4)) w AND 0xF) (n mod 4)" by simp
    moreover have "bit (0xF :: 32 word) (n mod 4)"
    proof -
      consider "n mod 4 = 0" | "n mod 4 = 1" | "n mod 4 = 2" | "n mod 4 = 3" using d(2) by linarith
      then show ?thesis by cases simp_all
    qed
    ultimately show "bit v n = bit w n" using d(3) by (simp add: bit_and_iff bit_drop_bit_eq)
  qed
qed simp

text \<open>The name of the file of a handle, and the longest data directory for which the array is large enough.\<close>

definition file_of :: "TSS_CONTEXT \<Rightarrow> string \<Rightarrow> TPM_HANDLE \<Rightarrow> string" where
  "file_of s prefix handle = tssDataDirectory s @ ''/'' @ prefix @ hex8 handle @ ''.bin''"

definition short_directory :: "TSS_CONTEXT \<Rightarrow> bool" where
  "short_directory s \<longleftrightarrow> length (tssDataDirectory s) \<le> 111"

lemma file_of_inj [simp]: "file_of s prefix h = file_of s prefix h' \<longleftrightarrow> h = h'"
  by (simp add: file_of_def hex8_inj)

lemma handle_file_ok: "short_directory s \<Longrightarrow> length prefix \<le> 3 \<Longrightarrow> handle_file prefix h s = Some (Inr (file_of s prefix h), s)"
  by (simp add: handle_file_def sprintf_filename_def Let_def short_directory_def file_of_def r_need_def r_return_def e_lift_def)

lemma handle_file_bind [simp]:
  "short_directory s \<Longrightarrow> length prefix \<le> 3 \<Longrightarrow> e_bind (handle_file prefix h) f s = f (file_of s prefix h) s"
  by (simp add: e_bind_def handle_file_ok)

section \<open>Structures in files\<close>

lemma marshal_twice_ok:
  assumes m: "\<And>s. good s \<Longrightarrow> fits (length bs) s \<Longrightarrow> m s = Done 0 (emit bs s)"
    and l: "length bs < 2 ^ 16" "alloc (of_nat (length bs)) = r_return ()"
  shows "marshal_twice alloc m = r_return bs"
proof -
  let ?s = "\<lambda>p. \<lparr>written = 0, memory = \<lambda>_. 0, position = p, room = None\<rparr>"
  have "m (?s p) = Done 0 (emit bs (?s p))" for p by (rule m) (simp_all add: good_def fits_def)
  moreover have "map (put_bytes 0 bs (\<lambda>_. 0)) [0..<length bs] = bs"
    by (rule nth_equalityI) (simp_all add: put_bytes_def)
  moreover have "unat (of_nat (length bs) :: 16 word) = length bs" using l(1) by (simp add: unat_of_nat)
  ultimately show ?thesis using l(2) by (simp add: marshal_twice_def emit_def)
qed

text \<open>A value that is parsed from some bytes is marshalled to them, by a function with the contract.\<close>

lemma parses_emits:
  assumes "reads k [] u m" "parses u bs v" "length bs < 2 ^ 31"
  shows "emits k (m v) 0 bs"
proof -
  let ?b = "\<lparr>rest = bs, avail = int (length bs)\<rparr>"
  have g: "u_good ?b" using assms(3) by (simp add: u_good_def)
  have e: "u ?b = Ok v \<lparr>rest = [], avail = 0\<rparr>" by (rule parses_exact [OF assms(2,3)])
  from readsE [OF assms(1) g] e show ?thesis by cases (auto simp: consumed_def)
qed

section \<open>Sessions in files\<close>

definition TPM2B_exact :: "nat \<Rightarrow> TPM2B \<Rightarrow> bool" where
  "TPM2B_exact n b \<longleftrightarrow> length (TPM2B_buffer b) = unat (TPM2B_size b) \<and> unat (TPM2B_size b) \<le> n"

fun sym_bytes :: "TPMT_SYM_DEF \<Rightarrow> byte list" where
  "sym_bytes \<lparr>TPMT_SYM_DEF_algorithm = a, TPMT_SYM_DEF_keyBits = TPMU_SYM_KEY_BITS_aes n, TPMT_SYM_DEF_mode = TPMU_SYM_MODE_aes m\<rparr> =
     be16 a @ be16 n @ be16 m"
| "sym_bytes \<lparr>TPMT_SYM_DEF_algorithm = a, TPMT_SYM_DEF_keyBits = TPMU_SYM_KEY_BITS_xorr h, TPMT_SYM_DEF_mode = m\<rparr> = be16 a @ be16 h"
| "sym_bytes \<lparr>TPMT_SYM_DEF_algorithm = a, TPMT_SYM_DEF_keyBits = k, TPMT_SYM_DEF_mode = m\<rparr> = be16 a"

text \<open>What the TPM accepts for the parameter encryption of a session.\<close>

fun sym_ok :: "TPMT_SYM_DEF \<Rightarrow> bool" where
  "sym_ok \<lparr>TPMT_SYM_DEF_algorithm = a, TPMT_SYM_DEF_keyBits = TPMU_SYM_KEY_BITS_aes n, TPMT_SYM_DEF_mode = TPMU_SYM_MODE_aes m\<rparr> \<longleftrightarrow>
     a = TPM_ALG_AES \<and> n \<in> {128, 256} \<and> m \<in> {TPM_ALG_CTR, TPM_ALG_OFB, TPM_ALG_CBC, TPM_ALG_CFB, TPM_ALG_ECB, TPM_ALG_NULL}"
| "sym_ok \<lparr>TPMT_SYM_DEF_algorithm = a, TPMT_SYM_DEF_keyBits = TPMU_SYM_KEY_BITS_xorr h, TPMT_SYM_DEF_mode = TPMU_SYM_MODE_unset\<rparr> \<longleftrightarrow>
     a = TPM_ALG_XOR \<and> h \<in> {TPM_ALG_SHA1, TPM_ALG_SHA256, TPM_ALG_SHA384}"
| "sym_ok \<lparr>TPMT_SYM_DEF_algorithm = a, TPMT_SYM_DEF_keyBits = TPMU_SYM_KEY_BITS_unset, TPMT_SYM_DEF_mode = TPMU_SYM_MODE_unset\<rparr> \<longleftrightarrow> a = TPM_ALG_NULL"
| "sym_ok _ \<longleftrightarrow> False"

definition entity_ok :: "TPM_HANDLE \<Rightarrow> bool" where
  "entity_ok h \<longleftrightarrow> h \<in> {TPM_RH_OWNER, TPM_RH_ENDORSEMENT, TPM_RH_PLATFORM, TPM_RH_LOCKOUT, TPM_RH_NULL} \<or>
     (TRANSIENT_FIRST \<le> h \<and> h \<le> TRANSIENT_LAST) \<or> (PERSISTENT_FIRST \<le> h \<and> h \<le> PERSISTENT_LAST) \<or>
     (NV_INDEX_FIRST \<le> h \<and> h \<le> NV_INDEX_LAST) \<or> h \<le> PCR_LAST \<or> (TPM_RH_AUTH_00 \<le> h \<and> h \<le> TPM_RH_AUTH_FF)"

definition session_handle :: "TPM_HANDLE \<Rightarrow> bool" where
  "session_handle h \<longleftrightarrow> (HMAC_SESSION_FIRST \<le> h \<and> h \<le> HMAC_SESSION_LAST) \<or> (POLICY_SESSION_FIRST \<le> h \<and> h \<le> POLICY_SESSION_LAST)"

definition session_ok :: "TSS_HMAC_CONTEXT \<Rightarrow> bool" where
  "session_ok s \<longleftrightarrow> session_handle (s_sessionHandle s) \<and> s_authHashAlg s \<in> {TPM_ALG_SHA1, TPM_ALG_SHA256, TPM_ALG_SHA384} \<and>
     sym_ok (s_symmetric s) \<and> entity_ok (s_bind s) \<and> TPM2B_exact (unat (sizeof_TPMU_NAME :: 16 word)) (s_bindName s) \<and>
     list_all (TPM2B_exact (unat (sizeof_TPMU_HA :: 16 word))) [s_bindAuthValue s, s_nonceTPM s, s_nonceCaller s, s_sessionKey s] \<and>
     s_sessionType s \<in> {TPM_SE_HMAC, TPM_SE_POLICY, TPM_SE_TRIAL}"

definition session_bytes :: "TSS_HMAC_CONTEXT \<Rightarrow> byte list" where
  "session_bytes s = be32 (s_sessionHandle s) @ be16 (s_authHashAlg s) @ be32 (s_sizeInBytes s) @ sym_bytes (s_symmetric s) @
     be32 (s_bind s) @ sized_bytes (s_bindName s) @ sized_bytes (s_bindAuthValue s) @ sized_bytes (s_nonceTPM s) @
     sized_bytes (s_nonceCaller s) @ sized_bytes (s_sessionKey s) @ [s_sessionType s] @ [s_isPasswordNeeded s] @ [s_isAuthValueNeeded s]"

definition stored :: "TSS_HMAC_CONTEXT \<Rightarrow> TSS_HMAC_CONTEXT" where
  "stored s = s\<lparr>s_hmacKey := empty_TPM2B, s_sessionValue := empty_TPM2B\<rparr>"

lemma stored_eq:
  "stored s = \<lparr>s_sessionHandle = s_sessionHandle s, s_authHashAlg = s_authHashAlg s, s_sizeInBytes = s_sizeInBytes s,
     s_symmetric = s_symmetric s, s_bind = s_bind s, s_bindName = s_bindName s, s_bindAuthValue = s_bindAuthValue s,
     s_nonceTPM = s_nonceTPM s, s_nonceCaller = s_nonceCaller s, s_sessionKey = s_sessionKey s, s_sessionType = s_sessionType s,
     s_isPasswordNeeded = s_isPasswordNeeded s, s_isAuthValueNeeded = s_isAuthValueNeeded s, s_hmacKey = empty_TPM2B,
     s_sessionValue = empty_TPM2B\<rparr>"
  by (cases s) (simp add: stored_def)

lemma HmacSession_codec: "reads 0 [] TSS_HmacSession_Unmarshal HmacSession_members"
  unfolding TSS_HmacSession_Unmarshal_def HmacSession_members_def
  by (intro reads_bind [OF TPMI_SH_AUTH_SESSION_codec] reads_bind [OF TPMI_ALG_HASH_codec] reads_bind [OF UINT32_codec]
      reads_bind [OF TPMT_SYM_DEF_codec] reads_bind [OF TPMI_DH_ENTITY_codec] reads_bind [OF TPM2B_NAME_codec]
      reads_bind [OF TPM2B_AUTH_codec] reads_bind [OF TPM2B_NONCE_codec] reads_bind [OF TPM2B_DIGEST_codec]
      reads_bind [OF TPM_SE_codec] reads_bind [OF UINT8_codec] reads_return)
    (simp_all add: emits_then)

lemma parses_bind_return: "parses u bs x \<Longrightarrow> f x = u_return v \<Longrightarrow> parses (u_bind u f) bs v"
  using parses_bind [of u bs x f "[]" v] by (simp add: parses_return)

lemma parses_TPM2B_exact:
  assumes "TPM2B_exact (unat n) b"
  shows "parses (TPM2B_Unmarshal n) (sized_bytes b) b"
proof -
  have *: "\<not> TPM2B_size b > n" using assms by (simp add: TPM2B_exact_def word_less_nat_alt)
  have "parses (Array_Unmarshal (TPM2B_size b)) (TPM2B_buffer b) (TPM2B_buffer b)"
    by (rule parses_array) (use assms in \<open>simp add: TPM2B_exact_def\<close>)
  then have "parses (u_bind (Array_Unmarshal (TPM2B_size b)) (\<lambda>buffer. u_return \<lparr>TPM2B_size = TPM2B_size b, TPM2B_buffer = buffer\<rparr>)) (TPM2B_buffer b) b"
    by (rule parses_bind_return) (cases b, simp)
  with * show ?thesis unfolding TPM2B_Unmarshal_def sized_bytes_def using assms
    by (intro parses_bind [OF parses_UINT16]) (simp add: u_guard_def TPM2B_exact_def)
qed

lemma parses_guard: "\<not> bad \<Longrightarrow> parses u bs v \<Longrightarrow> parses (u_guard bad e u) bs v"
  by (simp add: u_guard_def)

lemma parses_alg: "parses TPM_ALG_ID_Unmarshal (be16 a) a"
  unfolding TPM_ALG_ID_Unmarshal_def by (rule parses_UINT16)

lemma parses_handle: "parses TPM_HANDLE_Unmarshal (be32 h) h"
  unfolding TPM_HANDLE_Unmarshal_def by (rule parses_UINT32)

lemma parses_hash: "h \<in> {TPM_ALG_SHA1, TPM_ALG_SHA256, TPM_ALG_SHA384} \<Longrightarrow> parses (TPMI_ALG_HASH_Unmarshal allowNull) (be16 h) h"
  unfolding TPMI_ALG_HASH_Unmarshal_def by (rule parses_bind_return [OF parses_alg]) (simp add: u_guard_def)

lemma parses_entity: "entity_ok h \<Longrightarrow> parses (TPMI_DH_ENTITY_Unmarshal True) (be32 h) h"
  unfolding TPMI_DH_ENTITY_Unmarshal_def
  by (rule parses_bind_return [OF parses_handle]) (auto simp: u_guard_def entity_ok_def Let_def not_less)

lemma parses_session_handle: "session_handle h \<Longrightarrow> parses (TPMI_SH_AUTH_SESSION_Unmarshal False) (be32 h) h"
  unfolding TPMI_SH_AUTH_SESSION_Unmarshal_def
  by (rule parses_bind_return [OF parses_handle]) (auto simp: u_guard_def session_handle_def Let_def not_less)

lemma parses_session_type: "t \<in> {TPM_SE_HMAC, TPM_SE_POLICY, TPM_SE_TRIAL} \<Longrightarrow> parses TPM_SE_Unmarshal [t] t"
  unfolding TPM_SE_Unmarshal_def by (rule parses_bind_return [OF parses_UINT8]) (simp add: u_guard_def)

lemma sym_ok_cases:
  assumes "sym_ok d"
  obtains (aes) n m where "d = \<lparr>TPMT_SYM_DEF_algorithm = TPM_ALG_AES, TPMT_SYM_DEF_keyBits = TPMU_SYM_KEY_BITS_aes n, TPMT_SYM_DEF_mode = TPMU_SYM_MODE_aes m\<rparr>"
      "n \<in> {128, 256}" "m \<in> {TPM_ALG_CTR, TPM_ALG_OFB, TPM_ALG_CBC, TPM_ALG_CFB, TPM_ALG_ECB, TPM_ALG_NULL}"
    | (xorr) h where "d = \<lparr>TPMT_SYM_DEF_algorithm = TPM_ALG_XOR, TPMT_SYM_DEF_keyBits = TPMU_SYM_KEY_BITS_xorr h, TPMT_SYM_DEF_mode = TPMU_SYM_MODE_unset\<rparr>"
      "h \<in> {TPM_ALG_SHA1, TPM_ALG_SHA256, TPM_ALG_SHA384}"
    | (none) "d = \<lparr>TPMT_SYM_DEF_algorithm = TPM_ALG_NULL, TPMT_SYM_DEF_keyBits = TPMU_SYM_KEY_BITS_unset, TPMT_SYM_DEF_mode = TPMU_SYM_MODE_unset\<rparr>"
  using assms by (elim sym_ok.elims(2)) auto

lemma parses_SYM_DEF:
  assumes "sym_ok d"
  shows "parses (TPMT_SYM_DEF_Unmarshal True) (sym_bytes d) d" and "length (sym_bytes d) \<le> 6"
proof -
  have alg: "a \<in> {TPM_ALG_AES, TPM_ALG_XOR, TPM_ALG_NULL} \<Longrightarrow> parses (TPMI_ALG_SYM_Unmarshal True) (be16 a) a" for a
    unfolding TPMI_ALG_SYM_Unmarshal_def by (rule parses_bind_return [OF parses_alg]) (auto simp: u_guard_def)
  have bits: "n \<in> {128, 256} \<Longrightarrow> parses TPMI_AES_KEY_BITS_Unmarshal (be16 n) n" for n
    unfolding TPMI_AES_KEY_BITS_Unmarshal_def TPM_KEY_BITS_Unmarshal_def
    by (rule parses_bind_return [OF parses_UINT16]) (auto simp: u_guard_def)
  have mode: "m \<in> {TPM_ALG_CTR, TPM_ALG_OFB, TPM_ALG_CBC, TPM_ALG_CFB, TPM_ALG_ECB, TPM_ALG_NULL} \<Longrightarrow>
      parses (TPMI_ALG_SYM_MODE_Unmarshal True) (be16 m) m" for m
    unfolding TPMI_ALG_SYM_MODE_Unmarshal_def by (rule parses_bind_return [OF parses_alg]) (auto simp: u_guard_def)
  from assms show "parses (TPMT_SYM_DEF_Unmarshal True) (sym_bytes d) d"
  proof (cases rule: sym_ok_cases)
    case (aes n m)
    show ?thesis unfolding TPMT_SYM_DEF_Unmarshal_def aes(1) sym_bytes.simps
      by (rule parses_bind [OF alg], simp, rule parses_bind, simp add: TPMU_SYM_KEY_BITS_Unmarshal_def, rule parses_map [OF _ refl], rule bits [OF aes(2)],
          rule parses_bind_return, simp add: TPMU_SYM_MODE_Unmarshal_def, rule parses_map [OF _ refl], rule mode [OF aes(3)], simp)
  next
    case (xorr h)
    have "parses (TPMT_SYM_DEF_Unmarshal True) (be16 TPM_ALG_XOR @ be16 h @ []) d" unfolding TPMT_SYM_DEF_Unmarshal_def xorr(1)
      by (rule parses_bind [OF alg], simp, rule parses_bind, simp add: TPMU_SYM_KEY_BITS_Unmarshal_def, rule parses_map [OF _ refl], rule parses_hash [OF xorr(2)],
          rule parses_bind_return, simp add: TPMU_SYM_MODE_Unmarshal_def, rule parses_return, simp)
    then show ?thesis by (simp add: xorr(1))
  next
    case none
    have "parses (TPMT_SYM_DEF_Unmarshal True) (be16 TPM_ALG_NULL @ [] @ []) d" unfolding TPMT_SYM_DEF_Unmarshal_def none
      by (rule parses_bind [OF alg], simp, rule parses_bind, simp add: TPMU_SYM_KEY_BITS_Unmarshal_def, rule parses_return,
          rule parses_bind_return, simp add: TPMU_SYM_MODE_Unmarshal_def, rule parses_return, simp)
    then show ?thesis by (simp add: none)
  qed
  show "length (sym_bytes d) \<le> 6" using assms by (cases rule: sym_ok_cases) simp_all
qed

lemma session_parses:
  assumes "session_ok s"
  shows "parses TSS_HmacSession_Unmarshal (session_bytes s) (stored s)"
proof -
  note ok = assms [unfolded session_ok_def]
  have t: "parses TPM2B_DIGEST_Unmarshal (sized_bytes b) b" if "TPM2B_exact (unat (sizeof_TPMU_HA :: 16 word)) b" for b
    unfolding TPM2B_DIGEST_Unmarshal_def by (rule parses_TPM2B_exact) (use that in simp)
  have n: "parses TPM2B_NAME_Unmarshal (sized_bytes (s_bindName s)) (s_bindName s)"
    unfolding TPM2B_NAME_Unmarshal_def by (rule parses_TPM2B_exact) (use ok in simp)
  show ?thesis
    unfolding TSS_HmacSession_Unmarshal_def session_bytes_def TPM2B_AUTH_Unmarshal_def TPM2B_NONCE_Unmarshal_def
    by (intro parses_bind [OF parses_session_handle] parses_bind [OF parses_hash] parses_bind [OF parses_UINT32]
        parses_bind [OF parses_SYM_DEF(1)] parses_bind [OF parses_entity] parses_bind [OF n] parses_bind [OF t]
        parses_bind [OF parses_session_type] parses_bind [OF parses_UINT8] parses_bind_return [OF parses_UINT8])
      (use ok in \<open>simp_all add: stored_eq\<close>)
qed

lemma length_session_bytes: "session_ok s \<Longrightarrow> 0 < length (session_bytes s) \<and> length (session_bytes s) \<le> 1000"
  using parses_SYM_DEF(2) [of "s_symmetric s"] by (simp add: session_ok_def session_bytes_def sized_bytes_def TPM2B_exact_def)

lemma session_marshalled:
  assumes "session_ok s"
  shows "marshal_twice (\<lambda>_. r_return ()) (TSS_HmacSession_Marshal s) = r_return (session_bytes s)"
proof (rule marshal_twice_ok)
  note l = length_session_bytes [OF assms]
  have "emits 0 (HmacSession_members (stored s)) 0 (session_bytes s)"
    by (rule parses_emits [OF HmacSession_codec session_parses [OF assms]]) (use l in simp)
  moreover have "HmacSession_members (stored s) = HmacSession_members s" by (simp add: HmacSession_members_def stored_def)
  ultimately show "good st \<Longrightarrow> fits (length (session_bytes s)) st \<Longrightarrow> TSS_HmacSession_Marshal s st = Done 0 (emit (session_bytes s) st)" for st
    by (simp add: TSS_HmacSession_Marshal_def m_short_def emits_fits)
  show "length (session_bytes s) < 2 ^ 16" using l by simp
qed simp

lemma session_unmarshalled:
  assumes "session_ok s"
  shows "TSS_HmacSession_Unmarshal \<lparr>rest = session_bytes s, avail = s32 (int (length (session_bytes s)))\<rparr> = Ok (stored s) \<lparr>rest = [], avail = 0\<rparr>"
proof -
  note l = length_session_bytes [OF assms]
  then have "s32 (int (length (session_bytes s))) = int (length (session_bytes s))" by (simp add: s32_def)
  with parses_exact [OF session_parses [OF assms]] l show ?thesis by simp
qed

text \<open>What the stored sessions need: a key when they are encrypted.\<close>

definition can_store :: "'z crypto_scheme \<Rightarrow> TSS_CONTEXT \<Rightarrow> bool" where
  "can_store L s \<longleftrightarrow> short_directory s \<and> (tssEncryptSessions s \<longrightarrow> cbc_ok L \<and> aes_key s \<noteq> None)"

text \<open>
  C14. A session that is saved is loaded again as it was, with or without encryption of the file, when its file can be written
  and read; only the two values that live for one command are empty afterwards. Saving changes no other file, and no other part
  of the state.
\<close>

theorem TSS_HmacSession_roundtrip:
  assumes ok: "session_ok session" "can_store L s"
    and w: "writable s (file_of s ''h'' (s_sessionHandle session))" and r: "readable s (file_of s ''h'' (s_sessionHandle session))"
  shows "\<exists>data s'. TSS_HmacSession_SaveSession L session s = Some (Inr (), s') \<and>
    s' = s\<lparr>files := (files s)(file_of s ''h'' (s_sessionHandle session) \<mapsto> data)\<rparr> \<and>
    TSS_HmacSession_LoadSession L (s_sessionHandle session) s' = Some (Inr (stored session), s')"
proof -
  let ?fn = "file_of s ''h'' (s_sessionHandle session)" and ?bs = "session_bytes session"
  note l = length_session_bytes [OF ok(1)]
  obtain data where enc: "(if tssEncryptSessions s then TSS_AES_Encrypt L ?bs s else e_return ?bs s) = Some (Inr data, s)"
    and d: "0 < length data" "length data \<le> 0x10000"
    and dec: "\<And>s' :: TSS_CONTEXT. tssEncryptSessions s' = tssEncryptSessions s \<Longrightarrow> aes_key s' = aes_key s \<Longrightarrow>
      (if tssEncryptSessions s' then TSS_AES_Decrypt L data s' else e_return data s') = Some (Inr ?bs, s')"
  proof (cases "tssEncryptSessions s")
    case True
    with ok(2) obtain k where k: "cbc_ok L" "aes_key s = Some k" by (auto simp: can_store_def)
    from l have "length ?bs + 16 \<le> 0x10000" by simp
    from AES_Encrypt_correct [OF k(1) this, of k] obtain e where e: "length e = length ?bs + (16 - length ?bs mod 16)"
      "\<And>w :: TSS_CONTEXT. aes_key w = Some k \<Longrightarrow> TSS_AES_Encrypt L ?bs w = Some (Inr e, w) \<and> TSS_AES_Decrypt L e w = Some (Inr ?bs, w)" by blast
    from e(1) l have "0 < length e" "length e \<le> 0x10000" by linarith+
    with True k(2) e(2) show ?thesis by (intro that [of e]) auto
  next
    case False
    with l show ?thesis by (intro that [of ?bs]) (auto simp: e_return_def)
  qed
  let ?s' = "s\<lparr>files := (files s)(?fn \<mapsto> data)\<rparr>"
  have dir: "short_directory s" "short_directory ?s'" "file_of ?s' ''h'' (s_sessionHandle session) = ?fn"
    using ok(2) by (simp_all add: can_store_def short_directory_def file_of_def)
  have "TSS_HmacSession_SaveSession L session s = Some (Inr (), ?s')"
    using w by (simp add: TSS_HmacSession_SaveSession_def session_marshalled [OF ok(1)] dir e_bind_def [of "\<lambda>s. if _ s then _ s else _ s"] enc
        write_file)
  moreover have "TSS_HmacSession_LoadSession L (s_sessionHandle session) ?s' = Some (Inr (stored session), ?s')"
  proof -
    have "read_and_free ?fn ?s' = Some (Inr data, ?s')" by (rule read_file) (use d r in simp_all)
    with dec [of ?s'] show ?thesis
      by (simp add: TSS_HmacSession_LoadSession_def dir e_bind_Some(1) [of "read_and_free _"] e_bind_def [of "\<lambda>s. if _ s then _ s else _ s"]
          session_unmarshalled [OF ok(1)] e_return_def)
  qed
  ultimately show ?thesis by blast
qed

text \<open>An example: a session that is bound to the owner hierarchy and encrypts with XOR, stored in an encrypted file.\<close>

definition example_context :: TSS_CONTEXT where
  "example_context = \<lparr>random = replicate 100 7, aes_key = Some (replicate 16 3), files = Map.empty, on_write = \<lambda>_. Written, on_read = \<lambda>_. Completed, removable = \<lambda>_. True,
     tssAuthContext = ex_blank, tssDataDirectory = ''.'', tssEncryptSessions = True\<rparr>"

definition example_session :: TSS_HMAC_CONTEXT where
  "example_session = TSS_HmacSession_InitContext
     \<lparr>s_sessionHandle := 0x02000001, s_authHashAlg := TPM_ALG_SHA256, s_sizeInBytes := 32,
      s_symmetric := \<lparr>TPMT_SYM_DEF_algorithm = TPM_ALG_XOR, TPMT_SYM_DEF_keyBits = TPMU_SYM_KEY_BITS_xorr TPM_ALG_SHA256,
        TPMT_SYM_DEF_mode = TPMU_SYM_MODE_unset\<rparr>,
      s_bind := TPM_RH_OWNER, s_bindName := \<lparr>TPM2B_size = 4, TPM2B_buffer = be32 TPM_RH_OWNER\<rparr>,
      s_nonceTPM := \<lparr>TPM2B_size = 32, TPM2B_buffer = replicate 32 5\<rparr>, s_nonceCaller := \<lparr>TPM2B_size = 32, TPM2B_buffer = replicate 32 6\<rparr>,
      s_sessionKey := \<lparr>TPM2B_size = 32, TPM2B_buffer = replicate 32 9\<rparr>, s_hmacKey := \<lparr>TPM2B_size = 1, TPM2B_buffer = [1]\<rparr>\<rparr>"

lemma example_session_ok: "session_ok example_session"
  by (simp add: session_ok_def example_session_def TSS_HmacSession_InitContext_def session_handle_def entity_ok_def TPM2B_exact_def empty_TPM2B_def)

theorem TSS_HmacSession_roundtrip_witness:
  "\<exists>s'. TSS_HmacSession_SaveSession example_crypto example_session example_context = Some (Inr (), s') \<and>
     TSS_HmacSession_LoadSession example_crypto 0x02000001 s' = Some (Inr (example_session\<lparr>s_hmacKey := empty_TPM2B\<rparr>), s')"
proof -
  have "can_store example_crypto example_context" by (simp add: can_store_def short_directory_def example_context_def)
  moreover have "stored example_session = example_session\<lparr>s_hmacKey := empty_TPM2B\<rparr>"
    by (simp add: stored_def example_session_def TSS_HmacSession_InitContext_def)
  ultimately show ?thesis using TSS_HmacSession_roundtrip [OF example_session_ok, of example_crypto example_context]
    by (auto simp: example_context_def) (auto simp: example_session_def)
qed

end
