(* ===== verification/Tss_Hmac_Correct.thy ===== *)
theory Tss_Hmac_Correct
  imports Tss_Session_Correct
begin

text \<open>
  What the sessions do to a command and accept from a response, against the definitions of the TPM specification: the hash of the command
  parameters, the HMAC of each session with the nonces of the sessions that encrypt, the HMAC of the response, and the encryption of the
  first parameter, which the TPM undoes with the same session value and nonces.
\<close>

section \<open>The HMACs of the specification\<close>

definition cpHash :: "'z openssl_scheme \<Rightarrow> EVP_MD \<Rightarrow> TPM_CC \<Rightarrow> TPM2B list \<Rightarrow> byte list \<Rightarrow> byte list" where
  "cpHash L md cc names params = EVP_Digest L md (be32 cc @ concat (map TPM2B_bytes names) @ params)"

definition rpHash :: "'z openssl_scheme \<Rightarrow> EVP_MD \<Rightarrow> TPM_CC \<Rightarrow> byte list \<Rightarrow> byte list" where
  "rpHash L md cc params = EVP_Digest L md (be32 0 @ be32 cc @ params)"

definition hmac_ok :: "'z crypto_scheme \<Rightarrow> bool" where
  "hmac_ok L \<longleftrightarrow> openssl_ok (openssl.truncate L) \<and> (\<forall>md k m. length (HMAC_Final L md k m) = EVP_MD_size md)"

text \<open>A session whose digest is implemented, with buffers that hold what their sizes say.\<close>

definition hmac_session :: "EVP_MD \<Rightarrow> TSS_HMAC_CONTEXT \<Rightarrow> bool" where
  "hmac_session md s \<longleftrightarrow> GetHashServer (s_authHashAlg s) = Some md \<and> s_sizeInBytes s = of_nat (EVP_MD_size md) \<and>
     list_all TPM2B_ok [s_hmacKey s, s_sessionValue s, s_nonceCaller s, s_nonceTPM s] \<and> unat (TPM2B_size (s_nonceTPM s)) \<le> 128"

definition attr_sessions :: "byte \<Rightarrow> slot list \<Rightarrow> nat list" where
  "attr_sessions attribute slots = filter (\<lambda>i. sl_attributes (slots ! i) AND attribute \<noteq> 0) [0..<length slots]"

text \<open>
  The nonces in the HMAC of the first session: of the decrypt session when it is another one, and of the encrypt session when it is a
  third one.
\<close>

definition nonce_of :: "slot list \<Rightarrow> nat \<Rightarrow> byte list" where
  "nonce_of slots i = TPM2B_bytes (s_nonceTPM (the (sl_session (slots ! i))))"

definition first_nonces :: "slot list \<Rightarrow> byte list" where
  "first_nonces slots =
     concat (map (nonce_of slots) (filter (\<lambda>i. i \<noteq> 0) (attr_sessions TPMA_SESSION_DECRYPT slots))) @
     concat (map (nonce_of slots)
       (filter (\<lambda>i. i \<noteq> 0 \<and> i \<notin> set (attr_sessions TPMA_SESSION_DECRYPT slots)) (attr_sessions TPMA_SESSION_ENCRYPT slots)))"

definition auth_hmac :: "'z crypto_scheme \<Rightarrow> EVP_MD \<Rightarrow> byte list \<Rightarrow> slot list \<Rightarrow> nat \<Rightarrow> TSS_HMAC_CONTEXT \<Rightarrow> byte list" where
  "auth_hmac L md cph slots i session = HMAC_Final L md (TPM2B_bytes (s_hmacKey session))
     (cph @ TPM2B_bytes (s_nonceCaller session) @ TPM2B_bytes (s_nonceTPM session) @ (if i = 0 then first_nonces slots else []) @
      [sl_attributes (slots ! i)])"

definition password_TPM2B :: "byte list option \<Rightarrow> TPM2B" where
  "password_TPM2B password = (let pw = (case password of None \<Rightarrow> [] | Some pw \<Rightarrow> pw) in \<lparr>TPM2B_size = of_nat (length pw), TPM2B_buffer = pw\<rparr>)"

definition session_auth :: "'z crypto_scheme \<Rightarrow> TPM_CC \<Rightarrow> TPM2B list \<Rightarrow> byte list \<Rightarrow> slot list \<Rightarrow> nat \<Rightarrow> TSS_HMAC_CONTEXT \<Rightarrow> TPMS_AUTH_COMMAND" where
  "session_auth L cc names params slots i session = (sl_auth (slots ! i))
     \<lparr>TPMS_AUTH_COMMAND_sessionHandle := s_sessionHandle session, TPMS_AUTH_COMMAND_sessionAttributes := sl_attributes (slots ! i),
      TPMS_AUTH_COMMAND_hmac :=
        (if s_isPasswordNeeded session \<noteq> 0 then password_TPM2B (sl_password (slots ! i))
         else if has_hmac session
         then (let md = the (GetHashServer (s_authHashAlg session)) in
           \<lparr>TPM2B_size = of_nat (EVP_MD_size md), TPM2B_buffer = auth_hmac L md (cpHash L md cc names params) slots i session\<rparr>)
         else empty_TPM2B)\<rparr>"

definition reference_auth :: "'z crypto_scheme \<Rightarrow> TPM_CC \<Rightarrow> TPM2B list \<Rightarrow> byte list \<Rightarrow> slot list \<Rightarrow> nat \<Rightarrow> TPMS_AUTH_COMMAND" where
  "reference_auth L cc names params slots i =
     (if sl_handle (slots ! i) = TPM_RS_PW then sl_auth (slots ! i)
      else session_auth L cc names params slots i (the (sl_session (slots ! i))))"

text \<open>
  The sessions of a command as \<^verbatim>\<open>TSS_Execute_valist\<close> has them, when at most one decrypts, at most one encrypts, and neither is
  a password.
\<close>

definition slot_ok :: "slot \<Rightarrow> bool" where
  "slot_ok sl \<longleftrightarrow> (if sl_handle sl = TPM_RS_PW then sl_attributes sl AND TPMA_SESSION_DECRYPT = 0 \<and> sl_attributes sl AND TPMA_SESSION_ENCRYPT = 0
     else (\<exists>session md. sl_session sl = Some session \<and> hmac_session md session) \<and> (\<forall>pw. sl_password sl = Some pw \<longrightarrow> length pw \<le> 128))"

definition slots_ok :: "slot list \<Rightarrow> bool" where
  "slots_ok slots \<longleftrightarrow> list_all slot_ok slots \<and> length (attr_sessions TPMA_SESSION_DECRYPT slots) \<le> 1 \<and>
     length (attr_sessions TPMA_SESSION_ENCRYPT slots) \<le> 1"

lemma update_streams_sized [simp]:
  "TPM2B_ok b \<Longrightarrow> update_streams e (sized b # ap) = r_bind (update_streams e ap) (\<lambda>m. r_return (TPM2B_bytes b @ m))"
  by (simp add: sized_def TPM2B_ok_def TPM2B_bytes_def)

lemma update_streams_names:
  "list_all TPM2B_ok names \<Longrightarrow>
   update_streams e (map sized names @ ap) = r_bind (update_streams e ap) (\<lambda>m. r_return (concat (map TPM2B_bytes names) @ m))"
  by (induction names) (auto simp: r_bind_def r_return_def split: option.splits sum.splits)

section \<open>The hash of the parameters\<close>

lemma packet_params:
  assumes "holds c p"
  obtains off where "TSS_GetCpBuffer c = (of_nat (length (pk_params p)), Some off)" "length (pk_params p) \<le> MAX_COMMAND_SIZE - off"
    "take (length (pk_params p)) (command_bytes c off (MAX_COMMAND_SIZE - off)) = pk_params p"
proof -
  let ?pre = "be16 (pk_tag p) @ be32 (of_nat (packet_size p)) @ be32 (pk_code p) @ pk_handles p @ auth_area (pk_auths p)"
  have pb: "packet_bytes p = ?pre @ pk_params p @ []" by (simp add: packet_bytes_def)
  have q: "cpBuffer c = Some (length ?pre)" "cpBufferSize c = of_nat (length (pk_params p))"
    using assms by (simp add: holds_def, metis assms holds_def of_nat_unat ucast_id)
  from packet_within [OF assms pb] have w: "bytes_at (commandBuffer c) (length ?pre) (length (pk_params p)) = pk_params p"
    "length ?pre + length (pk_params p) \<le> MAX_COMMAND_SIZE" by simp_all
  have t: "take (length (pk_params p)) (command_bytes c (length ?pre) (MAX_COMMAND_SIZE - length ?pre)) = pk_params p"
  proof -
    have "MAX_COMMAND_SIZE - length ?pre = length (pk_params p) + (MAX_COMMAND_SIZE - length ?pre - length (pk_params p))" using w(2) by simp
    then have "command_bytes c (length ?pre) (MAX_COMMAND_SIZE - length ?pre) =
        pk_params p @ bytes_at (commandBuffer c) (length ?pre + length (pk_params p)) (MAX_COMMAND_SIZE - length ?pre - length (pk_params p))"
      using w(1) by (metis bytes_at_add command_bytes_eq)
    then show ?thesis by simp
  qed
  show ?thesis by (rule that [of "length ?pre"]) (use q w t in \<open>simp_all add: TSS_GetCpBuffer_def\<close>)
qed

lemma cp_hash_eq:
  assumes c: "holds c p" "GetHashServer a = Some md" "list_all TPM2B_ok names"
  shows "cp_hash L c a names = r_return (cpHash L md (TSS_GetCommandCode c) names (pk_params p))"
proof -
  from packet_params [OF c(1)] obtain off where o: "TSS_GetCpBuffer c = (of_nat (length (pk_params p)), Some off)"
    "length (pk_params p) \<le> MAX_COMMAND_SIZE - off" "take (length (pk_params p)) (command_bytes c off (MAX_COMMAND_SIZE - off)) = pk_params p" .
  have "length (pk_params p) \<le> MAX_COMMAND_SIZE" using c(1) by (simp add: holds_def packet_size_def)
  then have "sint (of_nat (length (pk_params p)) :: 32 word) = int (length (pk_params p))" by (intro sint_small) simp
  with o c(2,3) show ?thesis
    by (simp add: cp_hash_def TSS_Hash_Generate_def GetMd_server update_streams_names cpHash_def command_bytes_def)
qed

section \<open>The nonces\<close>

lemma sint_md_size [simp]: "sint (of_nat (EVP_MD_size md) :: 32 word) = int (EVP_MD_size md)"
  by (cases md) simp_all

lemma sessions_with_eq:
  "sessions_with a slots = (length (attr_sessions a slots), if attr_sessions a slots = [] then 0 else last (attr_sessions a slots))"
  by (simp add: sessions_with_def attr_sessions_def Let_def)

lemma copy_128:
  assumes "TPM2B_ok b" "unat (TPM2B_size b) \<le> 128"
  shows "\<exists>b'. TSS_TPM2B_Copy 128 b sizeof_TPMU_HA = r_return b' \<and> TPM2B_ok b' \<and> TPM2B_bytes b' = TPM2B_bytes b"
proof -
  have "\<not> TPM2B_size b > 128" using assms(2) by (simp add: word_less_nat_alt)
  with assms show ?thesis by (simp add: TSS_TPM2B_Copy_def TPM2B_ok_def TPM2B_bytes_def)
qed

lemma slot_session:
  assumes "list_all slot_ok slots" "i < length slots" "sl_handle (slots ! i) \<noteq> TPM_RS_PW"
  obtains session md where "the_session slots i = r_return session" "sl_session (slots ! i) = Some session" "hmac_session md session"
    "\<And>pw. sl_password (slots ! i) = Some pw \<Longrightarrow> length pw \<le> 128"
proof -
  from assms have "slot_ok (slots ! i)" by (simp add: list_all_length)
  with assms(3) obtain session md where "sl_session (slots ! i) = Some session" "hmac_session md session"
    "\<forall>pw. sl_password (slots ! i) = Some pw \<longrightarrow> length pw \<le> 128" unfolding slot_ok_def by (auto split: if_splits)
  with assms(2) show ?thesis by (intro that) (simp_all add: the_session_def r_return_def)
qed

lemma attr_nonce:
  assumes ok: "list_all slot_ok slots" and i: "i \<in> set (attr_sessions a slots)" and a: "a \<in> {TPMA_SESSION_DECRYPT, TPMA_SESSION_ENCRYPT}"
  shows "\<exists>b. r_bind (the_session slots i) (\<lambda>session. TSS_TPM2B_Copy 128 (s_nonceTPM session) sizeof_TPMU_HA) = r_return b \<and>
    TPM2B_ok b \<and> TPM2B_bytes b = nonce_of slots i"
proof -
  from i have l: "i < length slots" "sl_attributes (slots ! i) AND a \<noteq> 0" by (simp_all add: attr_sessions_def)
  have "slot_ok (slots ! i)" using ok l(1) by (simp add: list_all_length)
  with l(2) a have pw: "sl_handle (slots ! i) \<noteq> TPM_RS_PW" unfolding slot_ok_def by (auto split: if_splits)
  from slot_session [OF ok l(1) pw] obtain session md where s: "the_session slots i = r_return session" "sl_session (slots ! i) = Some session"
    "hmac_session md session" by metis
  with copy_128 [of "s_nonceTPM session"] show ?thesis by (simp add: hmac_session_def nonce_of_def)
qed

lemma empty_TPM2B_simps [simp]: "TPM2B_ok empty_TPM2B" "TPM2B_bytes empty_TPM2B = []"
  by (simp_all add: TPM2B_ok_def TPM2B_bytes_def empty_TPM2B_def)

lemma extra_nonces_eq:
  assumes "slots_ok slots"
  shows "\<exists>a b. extra_nonces slots i = r_return (a, b) \<and> TPM2B_ok a \<and> TPM2B_ok b \<and>
    TPM2B_bytes a @ TPM2B_bytes b = (if i = 0 then first_nonces slots else [])"
proof (cases "i = 0")
  case False
  then show ?thesis by (simp add: extra_nonces_def)
next
  case True
  let ?D = "attr_sessions TPMA_SESSION_DECRYPT slots" and ?E = "attr_sessions TPMA_SESSION_ENCRYPT slots"
  have ok: "list_all slot_ok slots" using assms by (simp add: slots_ok_def)
  have one: "\<And>xs :: nat list. length xs \<le> 1 \<longleftrightarrow> xs = [] \<or> (\<exists>x. xs = [x])" by (case_tac xs) auto
  from assms consider "?D = []" "?E = []" | e where "?D = []" "?E = [e]" | d where "?D = [d]" "?E = []" | d e where "?D = [d]" "?E = [e]"
    unfolding slots_ok_def one by blast
  then show ?thesis
  proof cases
    case (2 e)
    with attr_nonce [OF ok, of e TPMA_SESSION_ENCRYPT] True show ?thesis
      by (auto simp: extra_nonces_def TSS_Sessions_GetDecryptSession_def TSS_Sessions_GetEncryptSession_def sessions_with_eq first_nonces_def)
  next
    case (3 d)
    with attr_nonce [OF ok, of d TPMA_SESSION_DECRYPT] True show ?thesis
      by (auto simp: extra_nonces_def TSS_Sessions_GetDecryptSession_def TSS_Sessions_GetEncryptSession_def sessions_with_eq first_nonces_def)
  next
    case (4 d e)
    with attr_nonce [OF ok, of d TPMA_SESSION_DECRYPT] attr_nonce [OF ok, of e TPMA_SESSION_ENCRYPT] True show ?thesis
      by (cases "e = d") (auto simp: extra_nonces_def TSS_Sessions_GetDecryptSession_def TSS_Sessions_GetEncryptSession_def sessions_with_eq first_nonces_def)
  qed (simp add: True extra_nonces_def TSS_Sessions_GetDecryptSession_def TSS_Sessions_GetEncryptSession_def sessions_with_eq first_nonces_def)
qed

section \<open>The HMAC of a command\<close>

text \<open>The hash that the loop carries is that of the parameters, when it was made.\<close>

definition carried :: "'z crypto_scheme \<Rightarrow> TPM_CC \<Rightarrow> TPM2B list \<Rightarrow> byte list \<Rightarrow> TPM_ALG_ID \<times> byte list \<Rightarrow> bool" where
  "carried L cc names params cp \<longleftrightarrow> (\<forall>md. GetHashServer (fst cp) = Some md \<longrightarrow> snd cp = cpHash L md cc names params)"

lemma command_hmac_eq:
  assumes L: "hmac_ok L" and s: "hmac_session md s" and n: "extra_nonces slots i = r_return nonces" "TPM2B_ok (fst nonces)" "TPM2B_ok (snd nonces)"
    "TPM2B_bytes (fst nonces) @ TPM2B_bytes (snd nonces) = (if i = 0 then first_nonces slots else [])"
    and h: "length h = EVP_MD_size md"
  shows "command_hmac L s h nonces (sl_attributes (slots ! i)) =
    r_return \<lparr>TPM2B_size = of_nat (EVP_MD_size md), TPM2B_buffer = auth_hmac L md h slots i s\<rparr>"
proof -
  have sz: "sint (s_sizeInBytes s) = int (EVP_MD_size md)" "ucast (s_sizeInBytes s) = (of_nat (EVP_MD_size md) :: 16 word)"
    using s by (simp_all add: hmac_session_def) (cases md; simp)+
  have nn: "\<not> (of_nat (EVP_MD_size md) :: 16 word) > 128" by (cases md) simp_all
  have le: "EVP_MD_size md \<le> 128" using md_sizes(2) [of md] by simp
  have b: "TPM2B_bytes (fst nonces) @ TPM2B_bytes (snd nonces) @ x = (if i = 0 then first_nonces slots else []) @ x" for x
    by (simp only: append.assoc [symmetric] n(4))
  have "TSS_HMAC_Generate L (s_authHashAlg s) (s_hmacKey s)
      [(sint (s_sizeInBytes s), Some h), sized (s_nonceCaller s), sized (s_nonceTPM s), sized (fst nonces), sized (snd nonces),
       (1, Some [sl_attributes (slots ! i)]), (0, None)] = r_return (auth_hmac L md h slots i s)"
    using s n(2,3) h by (simp add: TSS_HMAC_Generate_def GetMd_server hmac_session_def sz auth_hmac_def b)
  moreover have "length (auth_hmac L md h slots i s) = EVP_MD_size md" using L by (simp add: hmac_ok_def auth_hmac_def)
  ultimately show ?thesis using nn le by (simp add: command_hmac_def sz TSS_TPM2B_Create_def)
qed

lemma set_hmac_eq:
  assumes c: "holds c p" "list_all TPM2B_ok names" "hmac_ok L" and sl: "slots_ok slots" "hmac_session md s"
    "\<And>pw. sl_password (slots ! i) = Some pw \<Longrightarrow> length pw \<le> 128"
    and cp: "carried L (TSS_GetCommandCode c) names (pk_params p) cp"
  shows "\<exists>cp'. carried L (TSS_GetCommandCode c) names (pk_params p) cp' \<and>
    set_hmac L c names slots i cp s = r_return (session_auth L (TSS_GetCommandCode c) names (pk_params p) slots i s, cp')"
proof (cases "s_isPasswordNeeded s = 0")
  case False
  have "TSS_TPM2B_StringCopy (sl_password (slots ! i)) sizeof_TPMU_HA = r_return (password_TPM2B (sl_password (slots ! i)))"
    using sl(3) by (cases "sl_password (slots ! i)") (simp_all add: TSS_TPM2B_StringCopy_def password_TPM2B_def)
  with False cp show ?thesis by (intro exI [of _ cp]) (simp add: set_hmac_def session_auth_def Let_def)
next
  case pw: True
  note hh = has_hmac_def [symmetric]
  show ?thesis
  proof (cases "has_hmac s")
    case False
    with pw cp show ?thesis by (intro exI [of _ cp]) (simp add: set_hmac_def hh session_auth_def Let_def)
  next
    case True
    let ?h = "cpHash L md (TSS_GetCommandCode c) names (pk_params p)" and ?a = "s_authHashAlg s"
    from sl(2) have md: "GetHashServer ?a = Some md" by (simp add: hmac_session_def)
    have "(if fst cp \<noteq> ?a then r_bind (cp_hash L c ?a names) (\<lambda>h. r_return (?a, h)) else r_return cp) = r_return (?a, ?h)"
      using cp md by (cases cp) (auto simp: cp_hash_eq [OF c(1) md c(2)] carried_def)
    moreover have "length ?h = EVP_MD_size md" using c(3) openssl_ok_truncate [of L md] by (simp add: hmac_ok_def cpHash_def)
    moreover obtain na nb where n: "extra_nonces slots i = r_return (na, nb)" "TPM2B_ok na" "TPM2B_ok nb"
      "TPM2B_bytes na @ TPM2B_bytes nb = (if i = 0 then first_nonces slots else [])" using extra_nonces_eq [OF sl(1)] by blast
    ultimately have "set_hmac L c names slots i cp s = r_return (session_auth L (TSS_GetCommandCode c) names (pk_params p) slots i s, (?a, ?h))"
      using pw True md by (simp add: set_hmac_def hh session_auth_def Let_def command_hmac_eq [OF c(3) sl(2), of slots i "(na, nb)"])
    moreover have "carried L (TSS_GetCommandCode c) names (pk_params p) (?a, ?h)" using md by (simp add: carried_def)
    ultimately show ?thesis by blast
  qed
qed

lemma set_hmacs_eq:
  assumes c: "holds c p" "list_all TPM2B_ok names" "hmac_ok L" and sl: "slots_ok slots"
  shows "carried L (TSS_GetCommandCode c) names (pk_params p) cp \<Longrightarrow> list_all (\<lambda>i. i < length slots) is \<Longrightarrow>
    set_hmacs L c names slots is cp = r_return (map (reference_auth L (TSS_GetCommandCode c) names (pk_params p) slots) is)"
proof (induction "is" arbitrary: cp)
  case (Cons i "is")
  have ok: "list_all slot_ok slots" using sl by (simp add: slots_ok_def)
  show ?case
  proof (cases "sl_handle (slots ! i) = TPM_RS_PW")
    case True
    with Cons show ?thesis by (simp add: reference_auth_def)
  next
    case False
    from Cons.prems(2) have "i < length slots" by simp
    from slot_session [OF ok this False] obtain s md where s: "the_session slots i = r_return s" "sl_session (slots ! i) = Some s"
      "hmac_session md s" "\<And>pw. sl_password (slots ! i) = Some pw \<Longrightarrow> length pw \<le> 128" by metis
    obtain cp' where "carried L (TSS_GetCommandCode c) names (pk_params p) cp'"
      "set_hmac L c names slots i cp s = r_return (session_auth L (TSS_GetCommandCode c) names (pk_params p) slots i s, cp')"
      using set_hmac_eq [OF c sl s(3) _ Cons.prems(1), of i] s(4) by blast
    with Cons.IH [of cp'] Cons.prems False s(1,2) show ?thesis by (simp add: reference_auth_def)
  qed
qed simp

text \<open>
  C10. The authorizations that a command gets are those of the TPM specification: for every session the HMAC under its key of the hash of
  the command, its nonces and attributes, with the nonces of the sessions that encrypt in the first one; for a session in which
  the password is needed, the password; and nothing for a policy that needs neither. The order of the sessions and their digests are
  arbitrary, although the code keeps the hash of the parameters from one session to the next.
\<close>

theorem TSS_HmacSession_SetHMAC_correct:
  assumes "holds c p" "list_all TPM2B_ok names" "hmac_ok L" "slots_ok slots"
  shows "TSS_HmacSession_SetHMAC L c slots names =
    r_return (map (reference_auth L (TSS_GetCommandCode c) names (pk_params p) slots) [0..<length slots])"
  unfolding TSS_HmacSession_SetHMAC_def
proof (rule set_hmacs_eq [OF assms])
  show "carried L (TSS_GetCommandCode c) names (pk_params p) (TPM_ALG_NULL, [])" by (simp add: carried_def GetHashServer_def)
  show "list_all (\<lambda>i. i < length slots) [0..<length slots]" by (simp add: list_all_iff)
qed

section \<open>The HMAC of a response\<close>

definition response_hmac :: "'z crypto_scheme \<Rightarrow> EVP_MD \<Rightarrow> byte list \<Rightarrow> TSS_HMAC_CONTEXT \<Rightarrow> TPMS_AUTH_RESPONSE \<Rightarrow> byte list" where
  "response_hmac L md rph session authR = HMAC_Final L md (TPM2B_bytes (s_hmacKey session))
     (rph @ TPM2B_bytes (s_nonceTPM session) @ TPM2B_bytes (s_nonceCaller session) @ [TPMS_AUTH_RESPONSE_sessionAttributes authR])"

lemma rp_hash_eq:
  assumes "received c p" "GetHashServer a = Some md"
  shows "r_bind (TSS_GetRpBuffer c) (\<lambda>(rpBufferSize, rpBuffer). r_bind (TSS_Hash_Generate L a
       [(4, Some [0, 0, 0, 0]), (4, Some (be32 (TSS_GetCommandCode c))),
        (sint rpBufferSize, Some (drop (unat rpBuffer) (responseBuffer c))), (0, None)]) f) =
    f (rpHash L md (TSS_GetCommandCode c) (rs_params p))"
proof -
  note g = TSS_GetRpBuffer_received [OF assms(1)]
  have "length (rs_params p) \<le> MAX_RESPONSE_SIZE" using assms(1) by (simp add: received_def response_size_def)
  then have s: "sint (of_nat (length (rs_params p)) :: 32 word) = int (length (rs_params p))" by (intro sint_small) simp
  have "length (rs_params p) \<le> length (drop (unat (response_offset c + of_nat (length (param_size p)))) (responseBuffer c))"
    using g(2) by (metis length_take min.cobounded2 min.commute)
  moreover have "be32 0 = [0, 0, 0, 0]" by (simp add: be32_def)
  ultimately show ?thesis using assms(2) g(2)
    by (simp add: g(1) [unfolded r_return_def [symmetric]] TSS_Hash_Generate_def GetMd_server s rpHash_def)
qed

text \<open>
  C11. The HMAC of a response is accepted if and only if it has the size of the digest of the session and is the HMAC, under the key
  of the session, of the hash of the response, the nonces and the attributes; any other is one of the two errors.
\<close>

theorem TSS_HmacSession_Verify_correct:
  assumes c: "received c p" and L: "hmac_ok L" and s: "hmac_session md session" and a: "TPM2B_ok (TPMS_AUTH_RESPONSE_hmac authR)"
  defines "expected \<equiv> response_hmac L md (rpHash L md (TSS_GetCommandCode c) (rs_params p)) session authR"
  shows "TSS_HmacSession_Verify L c session authR =
    (if unat (TPM2B_size (TPMS_AUTH_RESPONSE_hmac authR)) \<noteq> EVP_MD_size md then r_fail TSS_RC_HMAC_SIZE
     else if TPM2B_bytes (TPMS_AUTH_RESPONSE_hmac authR) \<noteq> expected then r_fail TSS_RC_HMAC_VERIFY else r_return ())"
proof -
  let ?h = "TPMS_AUTH_RESPONSE_hmac authR" and ?rph = "rpHash L md (TSS_GetCommandCode c) (rs_params p)"
  have sz: "s_sizeInBytes session = of_nat (EVP_MD_size md)" "GetHashServer (s_authHashAlg session) = Some md"
    "TPM2B_ok (s_hmacKey session)" "TPM2B_ok (s_nonceTPM session)" "TPM2B_ok (s_nonceCaller session)" using s by (simp_all add: hmac_session_def)
  have l: "length ?rph = EVP_MD_size md" "length expected = EVP_MD_size md" using L openssl_ok_truncate [of L md]
    by (simp_all add: hmac_ok_def rpHash_def expected_def response_hmac_def)
  have iff: "(ucast (TPM2B_size ?h) :: 32 word) \<noteq> of_nat (EVP_MD_size md) \<longleftrightarrow> unat (TPM2B_size ?h) \<noteq> EVP_MD_size md"
    by (metis md_size_words(2) unat_ucast_16 word_unat_eq_iff)
  have "TSS_HMAC_Verify L (s_authHashAlg session) (TPM2B_bytes ?h) (s_hmacKey session) (of_nat (EVP_MD_size md))
       [(int (EVP_MD_size md), Some ?rph), sized (s_nonceTPM session), sized (s_nonceCaller session),
        (1, Some [TPMS_AUTH_RESPONSE_sessionAttributes authR]), (0, None)] =
      r_guard (TPM2B_bytes ?h \<noteq> expected) TSS_RC_HMAC_VERIFY (r_return ())" if "unat (TPM2B_size ?h) = EVP_MD_size md"
    using that a sz(2-5) l
    by (simp add: TSS_HMAC_Verify_def TSS_HMAC_Generate_def GetMd_server expected_def response_hmac_def TPM2B_ok_def TPM2B_bytes_def [of ?h])
  then show ?thesis
    by (simp add: TSS_HmacSession_Verify_def rp_hash_eq [OF c sz(2)] Let_def sz(1) iff a r_guard_def)
qed

section \<open>Parameter encryption\<close>

text \<open>
  What the TPM does, which is what the code has to agree with. The bytes that the key derivation makes from the session value and the
  nonces of both sides, and the two ciphers with them. For AES the key has as many bits as the session has negotiated, and what follows
  it is the vector.
\<close>

definition session_stream :: "'z openssl_scheme \<Rightarrow> EVP_MD \<Rightarrow> TSS_HMAC_CONTEXT \<Rightarrow> TPM2B \<Rightarrow> TPM2B \<Rightarrow> byte list \<Rightarrow> 32 word \<Rightarrow> byte list" where
  "session_stream L md session newer older label bits =
     counter_mode (\<lambda>c. md_HMAC (openssl.truncate L) md (TPM2B_bytes (s_sessionValue session)) (KDFa_message (Some label) (Some newer) (Some older) bits c))
       (EVP_MD_size md) 1 (unat bits div 8)"

definition xor_cipher :: "'z openssl_scheme \<Rightarrow> EVP_MD \<Rightarrow> TSS_HMAC_CONTEXT \<Rightarrow> TPM2B \<Rightarrow> TPM2B \<Rightarrow> byte list \<Rightarrow> byte list" where
  "xor_cipher L md session newer older data =
     map2 (XOR) data (session_stream L md session newer older label_XOR (of_nat (length data) * 8))"

definition cfb_key :: "'z openssl_scheme \<Rightarrow> EVP_MD \<Rightarrow> TSS_HMAC_CONTEXT \<Rightarrow> TPM2B \<Rightarrow> TPM2B \<Rightarrow> byte list \<times> byte list" where
  "cfb_key L md session newer older =
     (let keyBits = the (keyBits_aes (s_symmetric session));
          stream = session_stream L md session newer older label_CFB (ucast keyBits + 128) in
      (take (unat keyBits div 8) stream, take 16 (drop (unat keyBits div 8) stream)))"

definition encrypt_param :: "'z crypto_scheme \<Rightarrow> EVP_MD \<Rightarrow> TSS_HMAC_CONTEXT \<Rightarrow> TPM2B \<Rightarrow> TPM2B \<Rightarrow> byte list \<Rightarrow> byte list" where
  "encrypt_param L md session newer older data =
     (if TPMT_SYM_DEF_algorithm (s_symmetric session) = TPM_ALG_XOR then xor_cipher L md session newer older data
      else case cfb_key L md session newer older of (key, iv) \<Rightarrow> fst (cfb_encrypt (AES_encrypt L key) iv data))"

definition decrypt_param :: "'z crypto_scheme \<Rightarrow> EVP_MD \<Rightarrow> TSS_HMAC_CONTEXT \<Rightarrow> TPM2B \<Rightarrow> TPM2B \<Rightarrow> byte list \<Rightarrow> byte list" where
  "decrypt_param L md session newer older data =
     (if TPMT_SYM_DEF_algorithm (s_symmetric session) = TPM_ALG_XOR then xor_cipher L md session newer older data
      else case cfb_key L md session newer older of (key, iv) \<Rightarrow> fst (cfb_decrypt (AES_encrypt L key) iv data))"

text \<open>
  The sessions whose ciphers agree with the TPM: XOR, and AES with keys of 128 bits. The code schedules 128 bits of the key whatever
  the session has negotiated; \<open>aes_param_key\<close> says what becomes of a session with 256 bits.
\<close>

definition cipher_ok :: "'z crypto_scheme \<Rightarrow> EVP_MD \<Rightarrow> TSS_HMAC_CONTEXT \<Rightarrow> bool" where
  "cipher_ok L md s \<longleftrightarrow> openssl_ok (openssl.truncate L) \<and> (\<forall>k b. length b = 16 \<longrightarrow> length (AES_encrypt L k b) = 16) \<and> hmac_session md s \<and>
     (TPMT_SYM_DEF_algorithm (s_symmetric s) = TPM_ALG_XOR \<or>
      TPMT_SYM_DEF_algorithm (s_symmetric s) = TPM_ALG_AES \<and> keyBits_aes (s_symmetric s) = Some 128)"

lemma length_session_stream:
  "openssl_ok (openssl.truncate L) \<Longrightarrow> length (session_stream L md session newer older label bits) = unat bits div 8"
  unfolding session_stream_def by (rule length_counter_mode [OF md_sizes(1) length_HMAC])

lemma KDFa_into_eq:
  assumes c: "openssl_ok (openssl.truncate L)" "hmac_session md s" "TPM2B_ok newer" "TPM2B_ok older" and l: "label \<in> {label_XOR, label_CFB}"
    and n: "unat bits = 8 * n" "0 < n" "n \<le> room'" "n \<le> 32767"
  shows "KDFa_into L room' (s_authHashAlg s) (s_sessionValue s) label newer older bits =
    r_return (of_nat n, session_stream L md s newer older label bits)"
proof -
  have e: "(unat bits + 7) div 8 = n" "bits mod 8 = 0" using n(1) by (simp_all, simp add: word_unat_eq_iff unat_mod)
  have o: "openssl_ok (openssl.truncate L)" "GetHashServer (s_authHashAlg s) = Some md" "TPM2B_ok (s_sessionValue s)" "label_ok (Some label)"
    "context_ok (Some newer)" "context_ok (Some older)"
    using c l by (auto simp: hmac_session_def label_ok_def context_ok_def label_XOR_def label_CFB_def)
  have "(of_nat n :: 16 word) \<noteq> 0" using n by (simp add: word_unat_eq_iff unat_of_nat)
  moreover have "(0 :: 32 word) + 1 = 1" by simp
  ultimately show ?thesis
    using KDFa_supported(1) [OF o, of bits "Some 0"] e n length_session_stream [OF o(1), of md s newer older label bits]
    by (simp add: KDFa_into_def session_stream_def mask_first_def)
qed

lemma xor_param_eq:
  assumes c: "cipher_ok L md s" "TPM2B_ok newer" "TPM2B_ok older" and d: "0 < length data" "length data \<le> 32767"
  shows "xor_param L s newer older data = r_return (xor_cipher L md s newer older data)"
proof -
  have u: "unat (of_nat (length data) * 8 :: 32 word) = 8 * length data"
    using d(2) by (subst unat_mult_lem [THEN iffD1]) (simp_all add: unat_of_nat)
  have o: "openssl_ok (openssl.truncate L)" "hmac_session md s" using c(1) by (simp_all add: cipher_ok_def)
  note l = length_session_stream [OF o(1), of md s newer older label_XOR "of_nat (length data) * 8"]
  show ?thesis using KDFa_into_eq [OF o c(2,3), of label_XOR "of_nat (length data) * 8" "length data" "length data"] d u l
    by (simp add: xor_param_def xor_cipher_def)
qed

lemma xor_cipher_inverse:
  assumes "openssl_ok (openssl.truncate L)" "length data \<le> 65535"
  shows "length (xor_cipher L md s newer older data) = length data" and "xor_cipher L md s newer older (xor_cipher L md s newer older data) = data"
proof -
  have u: "unat (of_nat (length data) * 8 :: 32 word) = 8 * length data"
    using assms(2) by (subst unat_mult_lem [THEN iffD1]) (simp_all add: unat_of_nat)
  note l = length_session_stream [OF assms(1), of md s newer older label_XOR "of_nat (length data) * 8"]
  show n: "length (xor_cipher L md s newer older data) = length data" using l u by (simp add: xor_cipher_def)
  show "xor_cipher L md s newer older (xor_cipher L md s newer older data) = data"
    unfolding xor_cipher_def [of L md s newer older "xor_cipher L md s newer older data"] n
    by (rule nth_equalityI) (use l u in \<open>simp_all add: xor_cipher_def xor.assoc\<close>)
qed

text \<open>The key that the code uses is the first 16 bytes, also when the session has negotiated a longer one.\<close>

lemma aes_param_key:
  fixes L :: "'z crypto_scheme" and k :: "16 word"
  defines "stream md s newer older \<equiv> session_stream L md s newer older label_CFB (ucast k + 128)"
  assumes o: "openssl_ok (openssl.truncate L)" "hmac_session md s" "TPM2B_ok newer" "TPM2B_ok older"
    and s: "TPMT_SYM_DEF_algorithm (s_symmetric s) = TPM_ALG_AES" "keyBits_aes (s_symmetric s) = Some k" "k = 128 \<or> k = 256"
    and d: "0 < length data" "length data \<le> 65535"
  shows "aes_param L (cpri__AESEncryptCFB (AES_encrypt L)) failure s newer older data = r_return (fst
      (cfb_encrypt (AES_encrypt L (take 16 (stream md s newer older))) (take 16 (drop (unat k div 8) (stream md s newer older))) data))"
    and "aes_param L (cpri__AESDecryptCFB (AES_encrypt L)) failure s newer older data = r_return (fst
      (cfb_decrypt (AES_encrypt L (take 16 (stream md s newer older))) (take 16 (drop (unat k div 8) (stream md s newer older))) data))"
    and "length (stream md s newer older) = unat k div 8 + 16"
proof -
  let ?n = "unat k div 8 + 16" and ?s = "stream md s newer older"
  have n: "?n = 32 \<or> ?n = 48" and u: "unat (ucast k + 128 :: 32 word) = 8 * ?n" using s(3) by auto
  show l: "length ?s = ?n" using length_session_stream [OF o(1)] u by (simp add: stream_def)
  have K: "KDFa_into L 48 (s_authHashAlg s) (s_sessionValue s) label_CFB newer older (ucast k + 128) = r_return (of_nat ?n, ?s)"
    using KDFa_into_eq [OF o, of label_CFB "ucast k + 128" ?n 48] n u by (auto simp: stream_def)
  have bs: "cpri__GetSymmetricBlockSize TPM_ALG_AES k = 16" using s(3) by (auto simp: cpri__GetSymmetricBlockSize_def)
  have iv: "length (take 16 (drop (unat k div 8) ?s)) = 16" using l by simp
  have dl: "unat (of_nat (length data) :: 32 word) = length data" "(of_nat (length data) :: 32 word) \<noteq> 0" "\<not> (of_nat (length data) :: 32 word) > INT32_MAX"
    using d by (simp_all add: unat_of_nat word_unat_eq_iff word_less_nat_alt)
  have ks: "key_schedule ?s 128 = Some (take 16 ?s)" using l by (simp add: key_schedule_def)
  have run: "(case with_schedule True ?s 128 (take 16 (drop (unat k div 8) ?s)) (of_nat (length data)) data f of
      None \<Rightarrow> None | Some (crc, out, _) \<Rightarrow> r_guard (crc \<noteq> 0) failure (r_return out)) = r_return (fst (f (take 16 ?s) data))" for f
    using dl ks iv by (simp add: with_schedule_def split: prod.split)
  show "aes_param L (cpri__AESEncryptCFB (AES_encrypt L)) failure s newer older data = r_return (fst
      (cfb_encrypt (AES_encrypt L (take 16 ?s)) (take 16 (drop (unat k div 8) ?s)) data))"
    using run [of "\<lambda>k. cfb_encrypt (AES_encrypt L k) _"] iv l by (simp add: aes_param_def s(1,2) Let_def bs K cpri__AESEncryptCFB_def)
  show "aes_param L (cpri__AESDecryptCFB (AES_encrypt L)) failure s newer older data = r_return (fst
      (cfb_decrypt (AES_encrypt L (take 16 ?s)) (take 16 (drop (unat k div 8) ?s)) data))"
    using run [of "\<lambda>k. cfb_decrypt (AES_encrypt L k) _"] iv l by (simp add: aes_param_def s(1,2) Let_def bs K cpri__AESDecryptCFB_def)
qed

lemma aes_param_eq:
  assumes c: "cipher_ok L md s" "TPM2B_ok newer" "TPM2B_ok older" and a: "TPMT_SYM_DEF_algorithm (s_symmetric s) \<noteq> TPM_ALG_XOR"
    and d: "0 < length data" "length data \<le> 65535"
  shows "aes_param L (cpri__AESEncryptCFB (AES_encrypt L)) failure s newer older data = r_return (encrypt_param L md s newer older data)"
    and "aes_param L (cpri__AESDecryptCFB (AES_encrypt L)) failure s newer older data = r_return (decrypt_param L md s newer older data)"
    and "length (encrypt_param L md s newer older data) = length data" and "decrypt_param L md s newer older (encrypt_param L md s newer older data) = data"
proof -
  from c(1) a have k: "TPMT_SYM_DEF_algorithm (s_symmetric s) = TPM_ALG_AES" "keyBits_aes (s_symmetric s) = Some 128" "(128 :: 16 word) = 128 \<or> (128 :: 16 word) = 256"
    and E: "\<And>k b. length b = 16 \<Longrightarrow> length (AES_encrypt L k b) = 16" and o: "openssl_ok (openssl.truncate L)" "hmac_session md s" by (auto simp: cipher_ok_def)
  note run = aes_param_key [OF o c(2,3) k d]
  define stream where "stream = session_stream L md s newer older label_CFB (ucast (128 :: 16 word) + 128)"
  have key: "cfb_key L md s newer older = (take 16 stream, take 16 (drop 16 stream))" by (simp add: cfb_key_def k(2) stream_def Let_def)
  have iv: "length (take 16 (drop 16 stream)) = 16" using run(3) by (simp add: stream_def)
  show "aes_param L (cpri__AESEncryptCFB (AES_encrypt L)) failure s newer older data = r_return (encrypt_param L md s newer older data)"
    using run(1) a by (simp add: encrypt_param_def key stream_def)
  show "aes_param L (cpri__AESDecryptCFB (AES_encrypt L)) failure s newer older data = r_return (decrypt_param L md s newer older data)"
    using run(2) a by (simp add: decrypt_param_def key stream_def)
  obtain out v where out: "cfb_encrypt (AES_encrypt L (take 16 stream)) (take 16 (drop 16 stream)) data = (out, v)" by fastforce
  from cfb_round [OF E iv out] have "length out = length data"
    "cfb_decrypt (AES_encrypt L (take 16 stream)) (take 16 (drop 16 stream)) out = (data, v)" by simp_all
  with out a show "length (encrypt_param L md s newer older data) = length data" "decrypt_param L md s newer older (encrypt_param L md s newer older data) = data"
    by (simp_all add: encrypt_param_def decrypt_param_def key)
qed

lemma xor_is_param:
  "TPMT_SYM_DEF_algorithm (s_symmetric s) = TPM_ALG_XOR \<Longrightarrow> encrypt_param L md s newer older = xor_cipher L md s newer older"
  "TPMT_SYM_DEF_algorithm (s_symmetric s) = TPM_ALG_XOR \<Longrightarrow> decrypt_param L md s newer older = xor_cipher L md s newer older"
  by (simp_all add: fun_eq_iff encrypt_param_def decrypt_param_def)

lemma params_of_nothing [simp]: "encrypt_param L md s newer older [] = []" "decrypt_param L md s newer older [] = []"
  by (simp_all add: encrypt_param_def decrypt_param_def xor_cipher_def split: prod.split)

lemma decrypt_encrypt_param:
  assumes c: "cipher_ok L md s" "TPM2B_ok newer" "TPM2B_ok older" and d: "length data \<le> 65535"
  shows "length (encrypt_param L md s newer older data) = length data \<and> decrypt_param L md s newer older (encrypt_param L md s newer older data) = data"
proof (cases "data = []")
  case False
  then have n: "0 < length data" by simp
  show ?thesis
  proof (cases "TPMT_SYM_DEF_algorithm (s_symmetric s) = TPM_ALG_XOR")
    case True
    with xor_cipher_inverse [of L data md s newer older] c(1) d show ?thesis by (simp add: xor_is_param cipher_ok_def)
  next
    case False
    from aes_param_eq(3,4) [OF c False n d] show ?thesis by simp
  qed
qed simp

text \<open>The session of the command that decrypts, or of the response that encrypts.\<close>

definition the_cipher :: "byte \<Rightarrow> 'z crypto_scheme \<Rightarrow> EVP_MD \<Rightarrow> slot list \<Rightarrow> TSS_HMAC_CONTEXT \<Rightarrow> bool" where
  "the_cipher attribute L md slots s \<longleftrightarrow> cipher_ok L md s \<and>
     (\<exists>k. attr_sessions attribute slots = [k] \<and> sl_session (slots ! k) = Some s)"

lemma the_cipherE:
  assumes "the_cipher a L md slots s"
  obtains k where "sessions_with a slots = (1, k)" "the_session slots k = r_return s" "cipher_ok L md s" "TPM2B_ok (s_nonceCaller s)" "TPM2B_ok (s_nonceTPM s)"
proof -
  from assms obtain k where k: "attr_sessions a slots = [k]" "sl_session (slots ! k) = Some s" "cipher_ok L md s" by (auto simp: the_cipher_def)
  then have "k \<in> set (attr_sessions a slots)" by simp
  then have "k < length slots" by (simp add: attr_sessions_def)
  with k that [of k] show ?thesis by (simp add: sessions_with_eq the_session_def r_return_def cipher_ok_def hmac_session_def)
qed

text \<open>
  C12. Encryption of a command. When one session decrypts, with XOR or with AES and keys of 128 bits, and the command allows it, the
  content of the first parameter is replaced by what the TPM, which has the same session value and nonces, decrypts to what it was; the
  rest of the packet is unchanged. An empty parameter stays empty.
\<close>

theorem TSS_Command_Decrypt_correct:
  assumes c: "holds c p" "decryptable p n xs ys" and i: "CommandCodeToCommandIndex (TSS_GetCommandCode c) = Some i" "getDecryptSize i = Some 2"
    and s: "the_cipher TPMA_SESSION_DECRYPT L md slots s"
  shows "\<exists>zs c'. TSS_Command_Decrypt L c slots = r_return c' \<and> holds c' (p\<lparr>pk_params := be16 n @ zs @ ys\<rparr>) \<and> length zs = unat n \<and>
    zs = encrypt_param L md s (s_nonceCaller s) (s_nonceTPM s) xs \<and> decrypt_param L md s (s_nonceCaller s) (s_nonceTPM s) zs = xs"
proof -
  from the_cipherE [OF s] obtain k where k: "sessions_with TPMA_SESSION_DECRYPT slots = (1, k)" "the_session slots k = r_return s"
    and ok: "cipher_ok L md s" "TPM2B_ok (s_nonceCaller s)" "TPM2B_ok (s_nonceTPM s)" by blast
  note g = GetCommandDecryptParam_eq [OF c]
  from c(2) have l: "length xs = unat n" "length xs \<le> 4096" using g(3) by (simp_all add: decryptable_def)
  let ?zs = "encrypt_param L md s (s_nonceCaller s) (s_nonceTPM s) xs"
  from decrypt_encrypt_param [OF ok, of xs] l have z: "length ?zs = unat n" "decrypt_param L md s (s_nonceCaller s) (s_nonceTPM s) ?zs = xs" by simp_all
  let ?c' = "c\<lparr>commandBuffer := put_bytes (packet_size p - length (xs @ ys)) ?zs (commandBuffer c)\<rparr>"
  have "TSS_Command_Decrypt L c slots = r_return (if n = 0 then c else ?c')"
  proof (cases "n = 0")
    case True
    then show ?thesis using k i g(1) by (simp add: TSS_Command_Decrypt_def TSS_Sessions_GetDecryptSession_def)
  next
    case False
    then have n: "(ucast n :: 32 word) \<noteq> 0" "0 < length xs" using l(1) by (simp_all add: unat_ucast_16 word_unat_eq_iff)
    have set: "set_param (TSS_SetCommandDecryptParam c (ucast n) ?zs) = r_return ?c'"
      using z(1) g(1,3) by (simp add: set_param_def TSS_SetCommandDecryptParam_def unat_ucast_16)
    have "TSS_Command_DecryptXor L c s = r_return ?c'" if x: "TPMT_SYM_DEF_algorithm (s_symmetric s) = TPM_ALG_XOR"
      using set g n l xor_param_eq [OF ok n(2)] by (simp add: TSS_Command_DecryptXor_def xor_is_param x command_bytes_eq unat_ucast_16)
    moreover have "TSS_Command_DecryptAes L c s = r_return ?c'" if x: "TPMT_SYM_DEF_algorithm (s_symmetric s) \<noteq> TPM_ALG_XOR"
      using set g n l aes_param_eq(1) [OF ok x n(2)] by (simp add: TSS_Command_DecryptAes_def command_bytes_eq unat_ucast_16)
    ultimately show ?thesis using k i g(1) n False ok(1)
      by (auto simp: TSS_Command_Decrypt_def TSS_Sessions_GetDecryptSession_def Let_def cipher_ok_def)
  qed
  moreover have "holds (if n = 0 then c else ?c') (p\<lparr>pk_params := be16 n @ ?zs @ ys\<rparr>)"
  proof (cases "n = 0")
    case True
    then have "p\<lparr>pk_params := be16 n @ ?zs @ ys\<rparr> = p" using c(2) l(1) by (simp add: decryptable_def)
    with True c(1) show ?thesis by simp
  qed (use holds_set_params [OF c z(1)] in simp)
  ultimately show ?thesis using z by blast
qed

text \<open>
  C13. Decryption of a response. When one session encrypts, with XOR or with AES and keys of 128 bits, and the response has a parameter
  for it, the content of the first parameter that the TPM encrypted with the session value and the nonces is replaced by what it was
  before; the rest of the response is unchanged.
\<close>

theorem TSS_Response_Encrypt_correct:
  assumes r: "received c p" and ps: "rs_params p = be16 n @ encrypt_param L md s (s_nonceTPM s) (s_nonceCaller s) xs @ ys" "length xs = unat n"
    and i: "CommandCodeToCommandIndex (TSS_GetCommandCode c) = Some i" "getEncryptSize i = Some 2" and s: "the_cipher TPMA_SESSION_ENCRYPT L md slots s"
  shows "\<exists>c'. TSS_Response_Encrypt L c slots = r_return c' \<and> received c' (p\<lparr>rs_params := be16 n @ xs @ ys\<rparr>)"
proof -
  let ?zs = "encrypt_param L md s (s_nonceTPM s) (s_nonceCaller s) xs"
  from the_cipherE [OF s] obtain k where k: "sessions_with TPMA_SESSION_ENCRYPT slots = (1, k)" "the_session slots k = r_return s"
    and ok: "cipher_ok L md s" "TPM2B_ok (s_nonceTPM s)" "TPM2B_ok (s_nonceCaller s)" by blast
  have l: "length xs \<le> 65535" using ps(2) unsigned_less [of n, where ?'a = nat] by simp
  from decrypt_encrypt_param [OF ok l] ps(2) have z: "length ?zs = unat n" "decrypt_param L md s (s_nonceTPM s) (s_nonceCaller s) ?zs = xs" by simp_all
  note g = GetResponseEncryptParam_eq [OF r ps(1) z(1)]
  from SetResponseDecryptParam_eq [OF r ps(1) z(1) ps(2)] obtain c' where c': "TSS_SetResponseDecryptParam c (ucast n) xs = Some (0, c')"
    "received c' (p\<lparr>rs_params := be16 n @ xs @ ys\<rparr>)" by blast
  show ?thesis
  proof (cases "n = 0")
    case True
    then have "p\<lparr>rs_params := be16 n @ xs @ ys\<rparr> = p" using ps z(1) by (cases p) simp
    with True r k i g(1) show ?thesis by (simp add: TSS_Response_Encrypt_def TSS_Sessions_GetEncryptSession_def r_return_def [symmetric])
  next
    case False
    then have n: "(ucast n :: 32 word) \<noteq> 0" "0 < length ?zs" "length ?zs \<le> 4096"
      using z(1) g(3) by (simp_all add: unat_ucast_16 word_unat_eq_iff)
    have "TSS_Response_EncryptXor L c s = r_return c'" if x: "TPMT_SYM_DEF_algorithm (s_symmetric s) = TPM_ALG_XOR"
      using c' g n z xor_param_eq [OF ok n(2)]
      by (simp add: TSS_Response_EncryptXor_def xor_is_param x response_data_def unat_ucast_16 set_param_def r_return_def [symmetric])
    moreover have "TSS_Response_EncryptAes L c s = r_return c'" if x: "TPMT_SYM_DEF_algorithm (s_symmetric s) \<noteq> TPM_ALG_XOR"
      using c' g n z aes_param_eq(2) [OF ok x n(2)]
      by (simp add: TSS_Response_EncryptAes_def response_data_def unat_ucast_16 set_param_def r_return_def [symmetric])
    ultimately have "TSS_Response_Encrypt L c slots = r_return c'" using k i g(1) n(1) ok(1)
      by (auto simp: TSS_Response_Encrypt_def TSS_Sessions_GetEncryptSession_def Let_def cipher_ok_def r_return_def [symmetric])
    with c'(2) show ?thesis by blast
  qed
qed

section \<open>Examples\<close>

text \<open>A command with a password and the session of the example, which decrypts and encrypts.\<close>

definition example_slots :: "slot list" where
  "example_slots =
     [\<lparr>sl_handle = TPM_RS_PW, sl_password = None, sl_attributes = 0, sl_session = None, sl_auth = empty_auth\<rparr>,
      \<lparr>sl_handle = 0x02000001, sl_password = None, sl_attributes = TPMA_SESSION_DECRYPT OR TPMA_SESSION_ENCRYPT,
       sl_session = Some example_session, sl_auth = empty_auth\<rparr>]"

lemma example_hmac_session: "hmac_session EVP_sha256 example_session"
  by (simp add: hmac_session_def example_session_def TSS_HmacSession_InitContext_def GetHashServer_def TPM2B_ok_def empty_TPM2B_def)

lemma example_hmac_ok: "hmac_ok example_crypto"
  by (simp add: hmac_ok_def, simp add: example_crypto_def)

lemma example_attr: "attr_sessions TPMA_SESSION_DECRYPT example_slots = [1]" "attr_sessions TPMA_SESSION_ENCRYPT example_slots = [1]"
  by (simp_all add: attr_sessions_def example_slots_def upt_rec)

lemma example_slots_ok: "slots_ok example_slots"
  using example_hmac_session by (auto simp: slots_ok_def example_attr) (auto simp: example_slots_def slot_ok_def)

lemma example_cipher: "the_cipher TPMA_SESSION_DECRYPT example_crypto EVP_sha256 example_slots example_session"
    "the_cipher TPMA_SESSION_ENCRYPT example_crypto EVP_sha256 example_slots example_session"
  using example_hmac_session unfolding the_cipher_def example_attr cipher_ok_def
  by (simp_all add: example_slots_def) (simp_all add: example_session_def example_crypto_def)

theorem TSS_HmacSession_SetHMAC_correct_witness:
  "TSS_HmacSession_SetHMAC example_crypto ex_stir_context example_slots [empty_TPM2B] =
     r_return [empty_auth, empty_auth\<lparr>TPMS_AUTH_COMMAND_sessionHandle := 0x02000001, TPMS_AUTH_COMMAND_sessionAttributes := 0x60,
       TPMS_AUTH_COMMAND_hmac := \<lparr>TPM2B_size = 32, TPM2B_buffer = replicate 32 98\<rparr>\<rparr>]"
  using TSS_HmacSession_SetHMAC_correct [OF ex_stir_holds _ example_hmac_ok example_slots_ok, of "[empty_TPM2B]"]
  by (simp add: reference_auth_def session_auth_def example_slots_def example_session_def TSS_HmacSession_InitContext_def has_hmac_def GetHashServer_def
      auth_hmac_def cpHash_def TPM2B_bytes_def example_crypto_def)

theorem TSS_HmacSession_Verify_correct_witness:
  "TSS_HmacSession_Verify example_crypto ex_random_context example_session
     \<lparr>TPMS_AUTH_RESPONSE_nonce = empty_TPM2B, TPMS_AUTH_RESPONSE_sessionAttributes = 1,
      TPMS_AUTH_RESPONSE_hmac = \<lparr>TPM2B_size = 32, TPM2B_buffer = replicate 32 98\<rparr>\<rparr> = r_return ()"
  using TSS_HmacSession_Verify_correct [OF ex_random_received example_hmac_ok example_hmac_session,
    of "\<lparr>TPMS_AUTH_RESPONSE_nonce = empty_TPM2B, TPMS_AUTH_RESPONSE_sessionAttributes = 1,
      TPMS_AUTH_RESPONSE_hmac = \<lparr>TPM2B_size = 32, TPM2B_buffer = replicate 32 98\<rparr>\<rparr>"]
  by (simp add: TPM2B_ok_def TPM2B_bytes_def response_hmac_def rpHash_def example_session_def TSS_HmacSession_InitContext_def example_crypto_def)

text \<open>The same session with AES.\<close>

definition aes_session :: TSS_HMAC_CONTEXT where
  "aes_session = example_session\<lparr>s_symmetric := \<lparr>TPMT_SYM_DEF_algorithm = TPM_ALG_AES, TPMT_SYM_DEF_keyBits = TPMU_SYM_KEY_BITS_aes 128,
     TPMT_SYM_DEF_mode = TPMU_SYM_MODE_aes TPM_ALG_CFB\<rparr>\<rparr>"

definition aes_slots :: "slot list" where
  "aes_slots = [\<lparr>sl_handle = 0x02000001, sl_password = None, sl_attributes = TPMA_SESSION_DECRYPT, sl_session = Some aes_session, sl_auth = empty_auth\<rparr>]"

lemma aes_cipher: "the_cipher TPMA_SESSION_DECRYPT example_crypto EVP_sha256 aes_slots aes_session"
proof -
  have "attr_sessions TPMA_SESSION_DECRYPT aes_slots = [0]" by (simp add: attr_sessions_def aes_slots_def upt_rec)
  moreover have "hmac_session EVP_sha256 aes_session" using example_hmac_session by (simp add: hmac_session_def aes_session_def)
  moreover have "keyBits_aes (s_symmetric aes_session) = Some 128" "TPMT_SYM_DEF_algorithm (s_symmetric aes_session) = TPM_ALG_AES"
    by (simp_all add: keyBits_aes_def aes_session_def)
  moreover have "length b = 16 \<Longrightarrow> length (AES_encrypt example_crypto k b) = 16" for k b by (simp add: example_crypto_def)
  ultimately show ?thesis by (simp add: the_cipher_def cipher_ok_def) (simp add: aes_slots_def)
qed

theorem TSS_Command_Decrypt_correct_witness:
  "\<exists>zs c'. TSS_Command_Decrypt example_crypto ex_stir_context aes_slots = r_return c' \<and> length zs = 1 \<and>
     holds c' (ex_stir_packet\<lparr>pk_params := [0, 1] @ zs\<rparr>) \<and>
     decrypt_param example_crypto EVP_sha256 aes_session (s_nonceCaller aes_session) (s_nonceTPM aes_session) zs = [0xAA]"
proof -
  have "decryptable ex_stir_packet 1 [0xAA] []" by (simp add: decryptable_def ex_stir_packet_def plain_packet_def be16_def)
  from TSS_Command_Decrypt_correct [OF ex_stir_holds this, of 36, OF _ _ aes_cipher] show ?thesis
    by (auto simp: TSS_GetCommandCode_def ex_stir_context_def StirRandom_attributes be16_def)
qed

theorem TSS_Response_Encrypt_correct_witness:
  "\<exists>xs c'. TSS_Response_Encrypt example_crypto ex_random_context example_slots = r_return c' \<and> length xs = 1 \<and>
     received c' (ex_response\<lparr>rs_params := [0, 1] @ xs\<rparr>)"
proof -
  let ?x = "xor_cipher example_crypto EVP_sha256 example_session (s_nonceTPM example_session) (s_nonceCaller example_session)"
  have e: "encrypt_param example_crypto EVP_sha256 example_session (s_nonceTPM example_session) (s_nonceCaller example_session) = ?x"
    by (rule xor_is_param) (simp add: example_session_def)
  from xor_cipher_inverse [OF example_crypto_ok, of "[7]" EVP_sha256 example_session "s_nonceTPM example_session" "s_nonceCaller example_session"]
  have l: "length (?x [7]) = 1" "?x (?x [7]) = [7]" by simp_all
  have "rs_params ex_response = be16 1 @ ?x (?x [7]) @ []" by (simp only: l) (simp add: ex_response_def be16_def)
  moreover have "CommandCodeToCommandIndex (TSS_GetCommandCode ex_random_context) = Some 84" "getEncryptSize 84 = Some 2"
    by (simp_all add: TSS_GetCommandCode_def ex_random_context_def GetRandom_attributes)
  moreover have "be16 1 @ ?x [7] @ [] = [0, 1] @ ?x [7]" by (simp add: be16_def)
  ultimately show ?thesis using TSS_Response_Encrypt_correct [OF ex_random_received _ _ _ _ example_cipher(2), of 1 "?x [7]" "[]" 84] l(1)
    by (intro exI [of _ "?x [7]"]) (simp add: e)
qed

end
