(* ===== verification/Tss_Transport.thy ===== *)
theory Tss_Transport
  imports Tss_Execute
begin

text \<open>
  The connection to the TPM: \<^verbatim>\<open>libtss2/tsstransmit.c\<close>, \<^verbatim>\<open>tsssocket.c\<close> and \<^verbatim>\<open>tssdev.c\<close> for POSIX, and the properties that choose
  it, \<^verbatim>\<open>tssproperties.c\<close>. The operating system is the environment in the state: what becomes of the next connections, and for the one that
  is open what each \<^verbatim>\<open>read\<close> finds (a chunk of bytes; an empty one is the end of the stream or an error) and what each
  \<^verbatim>\<open>write\<close> returns. What the library does is recorded as a list of events. Printing is left out.
\<close>

abbreviation TSS_RC_BAD_PROPERTY :: "32 word" where "TSS_RC_BAD_PROPERTY \<equiv> 0xB0005"
abbreviation TSS_RC_BAD_PROPERTY_VALUE :: "32 word" where "TSS_RC_BAD_PROPERTY_VALUE \<equiv> 0xB0006"
abbreviation TSS_RC_INSUPPORTED_INTERFACE :: "32 word" where "TSS_RC_INSUPPORTED_INTERFACE \<equiv> 0xB0007"
abbreviation TSS_RC_NO_CONNECTION :: "32 word" where "TSS_RC_NO_CONNECTION \<equiv> 0xB0008"
abbreviation TSS_RC_BAD_CONNECTION :: "32 word" where "TSS_RC_BAD_CONNECTION \<equiv> 0xB0009"

abbreviation TPM_SEND_COMMAND :: "32 word" where "TPM_SEND_COMMAND \<equiv> 8"
abbreviation TPM_SESSION_END :: "32 word" where "TPM_SESSION_END \<equiv> 20"

text \<open>
  What is done with the operating system. \<open>Abandoned\<close> is a socket that was created and not connected, whose descriptor the library
  never closes.
\<close>

datatype event =
    Connected string "16 word"
  | Abandoned string "16 word"
  | Opened string
  | Wrote "byte list"
  | Closed

text \<open>An attempt to connect: to a stream that is read and written, or without a descriptor, or with one that cannot be connected.\<close>

datatype attempt = Accepted "byte list list" "int list" | Refused | Unconnected

record TSS_INTERFACE = TSS_CONTEXT +
  tssCommandPort :: "16 word"
  tssPlatformPort :: "16 word"
  tssServerName :: string
  tssServerType :: string
  tssInterfaceType :: string
  tssDevice :: string
  tssFirstTransmit :: bool
  tssFirstCall :: bool
  connections :: "attempt list"
  reads :: "byte list list"
  writes :: "int list"
  close_ok :: bool
  events :: "event list"

type_synonym 'a tif = "(TSS_INTERFACE, 'a) effect"

definition e_event :: "event \<Rightarrow> unit tif" where
  "e_event e s = e_return () (s\<lparr>events := events s @ [e]\<rparr>)"

text \<open>A connection is established, or not.\<close>

definition next_connection :: "event \<Rightarrow> unit tif" where
  "next_connection e s = (case connections s of
       [] \<Rightarrow> e_fail TSS_RC_NO_CONNECTION s
     | Accepted rs ws # cs \<Rightarrow> e_event e (s\<lparr>connections := cs, reads := rs, writes := ws\<rparr>)
     | _ # cs \<Rightarrow> e_fail TSS_RC_NO_CONNECTION (s\<lparr>connections := cs\<rparr>))"

section \<open>Bytes over a socket\<close>

text \<open>The loop over partial writes, with the bytes that were sent.\<close>

fun send_loop :: "byte list \<Rightarrow> int list \<Rightarrow> bool \<times> byte list \<times> int list" where
  "send_loop [] ws = (True, [], ws)"
| "send_loop (b # bs) [] = (False, [], [])"
| "send_loop (b # bs) (w # ws) =
     (if w < 0 then (False, [], ws)
      else (case send_loop (drop (nat w) (b # bs)) ws of (ok, out, ws') \<Rightarrow> (ok, take (nat w) (b # bs) @ out, ws')))"

definition TSS_Socket_SendBytes :: "byte list \<Rightarrow> unit tif" where
  "TSS_Socket_SendBytes buffer s = (case send_loop buffer (writes s) of
       (ok, out, ws) \<Rightarrow> e_bind (e_event (Wrote out)) (\<lambda>_. if ok then e_return () else e_fail TSS_RC_BAD_CONNECTION) (s\<lparr>writes := ws\<rparr>))"

text \<open>
  The loop over partial reads: what was read, and whether all of it was. A chunk that is longer than what was asked for leaves its
  end for the next read.
\<close>

function receive_loop :: "nat \<Rightarrow> byte list list \<Rightarrow> bool \<times> byte list \<times> byte list list" where
  "receive_loop nleft rs =
     (if nleft = 0 then (True, [], rs)
      else (case rs of
          [] \<Rightarrow> (False, [], [])
        | chunk # rs \<Rightarrow>
            if chunk = [] then (False, [], rs)
            else if nleft < length chunk then (True, take nleft chunk, drop nleft chunk # rs)
            else (case receive_loop (nleft - length chunk) rs of (ok, bs, rs) \<Rightarrow> (ok, chunk @ bs, rs))))"
  by pat_completeness auto
termination
  by (relation "measure (length \<circ> snd)") auto

declare receive_loop.simps [simp del]

text \<open>
  The number of bytes becomes an \<^verbatim>\<open>int\<close>; a negative one is nothing to read. On an error the bytes that came are in the
  buffer.
\<close>

definition TSS_Socket_ReceiveBytes :: "32 word \<Rightarrow> TSS_INTERFACE \<Rightarrow> 32 word \<times> byte list \<times> TSS_INTERFACE" where
  "TSS_Socket_ReceiveBytes nbytes s =
     (case receive_loop (nat (sint nbytes)) (reads s) of (ok, bs, rs) \<Rightarrow> (if ok then 0 else TSS_RC_BAD_CONNECTION, bs, s\<lparr>reads := rs\<rparr>))"

definition TSS_Socket_GetServerType :: "TSS_INTERFACE \<Rightarrow> bool result" where
  "TSS_Socket_GetServerType s =
     (if tssServerType s = ''mssim'' then r_return True
      else if tssServerType s = ''raw'' then r_return False
      else r_fail TSS_RC_INSUPPORTED_INTERFACE)"

definition e_mssim :: "bool tif" where
  "e_mssim s = e_lift (TSS_Socket_GetServerType s) s"

text \<open>The socket is created first; when the server has no address or does not answer, its descriptor stays open and is overwritten by the next.\<close>

definition TSS_Socket_Open :: "16 word \<Rightarrow> unit tif" where
  "TSS_Socket_Open port s = (case connections s of
       Unconnected # cs \<Rightarrow> e_bind (e_event (Abandoned (tssServerName s) port)) (\<lambda>_. e_fail TSS_RC_NO_CONNECTION) (s\<lparr>connections := cs\<rparr>)
     | _ \<Rightarrow> next_connection (Connected (tssServerName s) port) s)"

section \<open>Commands and responses over a socket\<close>

text \<open>The length of the command becomes one of 16 bits.\<close>

definition TSS_Socket_SendCommand :: "byte list \<Rightarrow> unit tif" where
  "TSS_Socket_SendCommand buffer =
     (let buffer = take (unat (of_nat (length buffer) :: 16 word)) buffer in
     e_bind e_mssim (\<lambda>mssim.
     e_bind (if mssim then TSS_Socket_SendBytes (be32 TPM_SEND_COMMAND) else e_return ()) (\<lambda>_.
     e_bind (if mssim then TSS_Socket_SendBytes [0] else e_return ()) (\<lambda>_.
     e_bind (if mssim then TSS_Socket_SendBytes (be32 (of_nat (length buffer))) else e_return ()) (\<lambda>_.
     TSS_Socket_SendBytes buffer)))))"

definition TSS_Socket_SendPlatform :: "32 word \<Rightarrow> unit tif" where
  "TSS_Socket_SendPlatform command = TSS_Socket_SendBytes (be32 command)"

text \<open>The four bytes at a place of a buffer, most significant first, and a part of it that is written.\<close>

definition ntohl_at :: "byte list \<Rightarrow> nat \<Rightarrow> 32 word" where
  "ntohl_at bs p = push_bit 24 (ucast (bs ! p)) OR push_bit 16 (ucast (bs ! (p + 1))) OR push_bit 8 (ucast (bs ! (p + 2))) OR ucast (bs ! (p + 3))"

definition overwrite :: "nat \<Rightarrow> byte list \<Rightarrow> byte list \<Rightarrow> byte list" where
  "overwrite p bs buffer = take p buffer @ bs @ drop (p + length bs) buffer"

text \<open>The word that the MS simulator sends before and behind a response.\<close>

definition receive_mssim :: "bool \<Rightarrow> TSS_INTERFACE \<Rightarrow> 32 word \<times> byte list \<times> TSS_INTERFACE" where
  "receive_mssim mssim s = (if mssim then TSS_Socket_ReceiveBytes 4 s else (0, [0, 0, 0, 0], s))"

text \<open>
  A response is received into a buffer; the result has the response code or the error, the buffer, the length (\<open>len\<close>
  before) and the state. The remaining size is computed without a sign.
\<close>

definition TSS_Socket_ReceiveCommand :: "byte list \<Rightarrow> 32 word \<Rightarrow> TSS_INTERFACE \<Rightarrow> 32 word \<times> byte list \<times> 32 word \<times> TSS_INTERFACE" where
  "TSS_Socket_ReceiveCommand buffer len s =
     (case TSS_Socket_GetServerType s of
        Some (Inr mssim) \<Rightarrow>
          (case receive_mssim mssim s of (rc, lengthBytes, s) \<Rightarrow>
           if rc \<noteq> 0 then (rc, buffer, len, s)
           else (case TSS_Socket_ReceiveBytes 6 s of (rc, bs, s) \<Rightarrow>
             let buffer = overwrite 0 bs buffer in
             if rc \<noteq> 0 then (rc, buffer, len, s)
             else
               let responseSize = ntohl_at buffer 2 in
               if responseSize > of_nat MAX_RESPONSE_SIZE \<or> (mssim \<and> responseSize \<noteq> ntohl_at lengthBytes 0)
               then (TSS_RC_BAD_CONNECTION, buffer, responseSize, s)
               else (case TSS_Socket_ReceiveBytes (responseSize - 6) s of (rc, bs, s) \<Rightarrow>
                 let buffer = overwrite 6 bs buffer in
                 if rc \<noteq> 0 then (rc, buffer, responseSize, s)
                 else (case receive_mssim mssim s of (rc, acknowledgement, s) \<Rightarrow>
                   if rc \<noteq> 0 then (rc, buffer, responseSize, s)
                   else
                     let responseCode = ntohl_at buffer 6 in
                     (if responseCode \<noteq> 0 then responseCode else if mssim then ntohl_at acknowledgement 0 else 0,
                      buffer, responseSize, s)))))
      | Some (Inl rc) \<Rightarrow> (rc, buffer, len, s)
      | None \<Rightarrow> (0, buffer, len, s))"

definition TSS_Socket_ReceivePlatform :: "TSS_INTERFACE \<Rightarrow> 32 word \<times> TSS_INTERFACE" where
  "TSS_Socket_ReceivePlatform s = (case TSS_Socket_ReceiveBytes 4 s of (rc, acknowledgement, s) \<Rightarrow>
     (if rc \<noteq> 0 then rc else ntohl_at acknowledgement 0, s))"

text \<open>What opens the connection at the first command.\<close>

definition first_transmit :: "unit tif \<Rightarrow> unit tif" where
  "first_transmit connect s =
     (if tssFirstTransmit s then e_bind connect (\<lambda>_ s. e_return () (s\<lparr>tssFirstTransmit := False\<rparr>)) s else e_return () s)"

text \<open>The result of sending, and then of receiving when it was sent.\<close>

definition then_receive :: "unit tif \<Rightarrow> (TSS_INTERFACE \<Rightarrow> 32 word \<times> byte list \<times> 32 word \<times> TSS_INTERFACE) \<Rightarrow> byte list \<Rightarrow> 32 word \<Rightarrow>
  TSS_INTERFACE \<Rightarrow> (32 word \<times> byte list \<times> 32 word \<times> TSS_INTERFACE) option" where
  "then_receive m receive buffer len s = (case m s of
       None \<Rightarrow> None
     | Some (Inl rc, s) \<Rightarrow> Some (rc, buffer, len, s)
     | Some (Inr _, s) \<Rightarrow> Some (receive s))"

definition TSS_Socket_Transmit :: "byte list \<Rightarrow> byte list \<Rightarrow> 32 word \<Rightarrow> TSS_INTERFACE \<Rightarrow> (32 word \<times> byte list \<times> 32 word \<times> TSS_INTERFACE) option" where
  "TSS_Socket_Transmit command respBuffer len =
     then_receive
       (e_bind (first_transmit (e_bind e_mssim (\<lambda>_ s. TSS_Socket_Open (tssCommandPort s) s))) (\<lambda>_.
        TSS_Socket_SendCommand command))
       (TSS_Socket_ReceiveCommand respBuffer len) respBuffer len"

definition TSS_Socket_TransmitPlatform :: "32 word \<Rightarrow> unit tif" where
  "TSS_Socket_TransmitPlatform command =
     e_bind (first_transmit (e_bind e_mssim (\<lambda>mssim.
       e_guard (\<not> mssim) TSS_RC_INSUPPORTED_INTERFACE (\<lambda>s. TSS_Socket_Open (tssPlatformPort s) s)))) (\<lambda>_.
     e_bind (TSS_Socket_SendPlatform command) (\<lambda>_ s.
     case TSS_Socket_ReceivePlatform s of (rc, s) \<Rightarrow> if rc = 0 then e_return () s else e_fail rc s))"

text \<open>The socket is closed whatever came before, and the error of \<^verbatim>\<open>close\<close> hides an earlier one.\<close>

definition TSS_Socket_Close :: "unit tif" where
  "TSS_Socket_Close s =
     (case e_bind e_mssim (\<lambda>mssim. if mssim then TSS_Socket_SendBytes (be32 TPM_SESSION_END) else e_return ()) s of
        None \<Rightarrow> None
      | Some (r, s) \<Rightarrow>
          let s = s\<lparr>events := events s @ [Closed]\<rparr> in
          Some (if close_ok s then r else Inl TSS_RC_BAD_CONNECTION, s))"

section \<open>The device\<close>

definition TSS_Dev_Open :: "unit tif" where
  "TSS_Dev_Open s = next_connection (Opened (tssDevice s)) s"

text \<open>One \<^verbatim>\<open>write\<close>, whose count is not looked at, and one \<^verbatim>\<open>read\<close>.\<close>

definition TSS_Dev_SendCommand :: "byte list \<Rightarrow> unit tif" where
  "TSS_Dev_SendCommand buffer s = (case writes s of
       [] \<Rightarrow> e_fail TSS_RC_BAD_CONNECTION s
     | w # ws \<Rightarrow>
         if w < 0 then e_fail TSS_RC_BAD_CONNECTION (s\<lparr>writes := ws\<rparr>)
         else e_event (Wrote (take (nat w) buffer)) (s\<lparr>writes := ws\<rparr>))"

definition TSS_Dev_ReceiveCommand :: "byte list \<Rightarrow> 32 word \<Rightarrow> TSS_INTERFACE \<Rightarrow> 32 word \<times> byte list \<times> 32 word \<times> TSS_INTERFACE" where
  "TSS_Dev_ReceiveCommand buffer len s = (case reads s of
       [] \<Rightarrow> (TSS_RC_BAD_CONNECTION, buffer, len, s)
     | chunk # rs \<Rightarrow>
         let bs = take MAX_RESPONSE_SIZE chunk; s = s\<lparr>reads := rs\<rparr>; buffer = overwrite 0 bs buffer in
         if bs = [] then (TSS_RC_BAD_CONNECTION, buffer, len, s)
         else if length bs < 10 then (TSS_RC_MALFORMED_RESPONSE, buffer, 0, s)
         else if ntohl_at buffer 2 \<noteq> of_nat (length bs) then (TSS_RC_BAD_CONNECTION, buffer, len, s)
         else (ntohl_at buffer 6, buffer, ntohl_at buffer 2, s))"

definition TSS_Dev_Transmit :: "byte list \<Rightarrow> byte list \<Rightarrow> 32 word \<Rightarrow> TSS_INTERFACE \<Rightarrow> (32 word \<times> byte list \<times> 32 word \<times> TSS_INTERFACE) option" where
  "TSS_Dev_Transmit command respBuffer len =
     then_receive (e_bind (first_transmit TSS_Dev_Open) (\<lambda>_. TSS_Dev_SendCommand command))
       (TSS_Dev_ReceiveCommand respBuffer len) respBuffer len"

definition TSS_Dev_Close :: "unit tif" where
  "TSS_Dev_Close = e_event Closed"

section \<open>The interface that was chosen\<close>

definition TSS_Transmit :: "byte list \<Rightarrow> byte list \<Rightarrow> 32 word \<Rightarrow> TSS_INTERFACE \<Rightarrow> (32 word \<times> byte list \<times> 32 word \<times> TSS_INTERFACE) option" where
  "TSS_Transmit command respBuffer len s =
     (if tssInterfaceType s = ''socsim'' then TSS_Socket_Transmit command respBuffer len s
      else if tssInterfaceType s = ''dev'' then TSS_Dev_Transmit command respBuffer len s
      else Some (TSS_RC_INSUPPORTED_INTERFACE, respBuffer, len, s))"

definition TSS_TransmitPlatform :: "32 word \<Rightarrow> unit tif" where
  "TSS_TransmitPlatform command s =
     (if tssInterfaceType s = ''socsim'' then TSS_Socket_TransmitPlatform command s else e_fail TSS_RC_INSUPPORTED_INTERFACE s)"

definition TSS_Close :: "unit tif" where
  "TSS_Close s =
     (if tssFirstTransmit s then e_return () s
      else map_option (\<lambda>(r, s). (r, s\<lparr>tssFirstTransmit := True\<rparr>))
        ((if tssInterfaceType s = ''socsim'' then TSS_Socket_Close
          else if tssInterfaceType s = ''dev'' then TSS_Dev_Close
          else e_fail TSS_RC_INSUPPORTED_INTERFACE) s))"

text \<open>A command of the library over the interface: what \<^verbatim>\<open>TSS_AuthExecute\<close> does with its context.\<close>

definition TSS_AuthExecute_interface :: "unit tif" where
  "TSS_AuthExecute_interface s =
     (let c = tssAuthContext s in
      map_option (\<lambda>(rc, buf, n, s). (if rc = 0 then Inr () else Inl rc, s\<lparr>tssAuthContext := c\<lparr>responseBuffer := buf, responseSize := n\<rparr>\<rparr>))
        (TSS_Transmit (command_bytes c 0 (unat (commandSize c))) (responseBuffer c) (responseSize c) s))"

section \<open>Properties\<close>

text \<open>
  The number that \<^verbatim>\<open>sscanf\<close> finds with \<^verbatim>\<open>%u\<close> or \<^verbatim>\<open>%hu\<close>: white space, a sign, digits. One that does not fit is undefined in C
  (\<open>None\<close>).
\<close>

definition is_digit :: "char \<Rightarrow> bool" where
  "is_digit c \<longleftrightarrow> 48 \<le> (of_char c :: nat) \<and> (of_char c :: nat) \<le> 57"

definition is_space :: "char \<Rightarrow> bool" where
  "is_space c \<longleftrightarrow> (of_char c :: nat) = 32 \<or> (9 \<le> (of_char c :: nat) \<and> (of_char c :: nat) \<le> 13)"

definition digits_value :: "string \<Rightarrow> int" where
  "digits_value ds = foldl (\<lambda>n c. 10 * n + (of_char c - 48)) 0 ds"

fun scan_sign :: "string \<Rightarrow> int \<times> string" where
  "scan_sign [] = (1, [])"
| "scan_sign (c # cs) = (if c = CHR ''-'' then (-1, cs) else if c = CHR ''+'' then (1, cs) else (1, c # cs))"

definition scan_unsigned :: "string \<Rightarrow> int option" where
  "scan_unsigned str = (case scan_sign (dropWhile is_space str) of (sign, s) \<Rightarrow>
     let ds = takeWhile is_digit s in if ds = [] then None else Some (sign * digits_value ds))"

definition scan_property :: "nat \<Rightarrow> string option \<Rightarrow> string \<Rightarrow> int result" where
  "scan_property w value preset = (case scan_unsigned (case value of None \<Rightarrow> preset | Some v \<Rightarrow> v) of
       None \<Rightarrow> r_fail TSS_RC_BAD_PROPERTY_VALUE
     | Some v \<Rightarrow> r_need (\<bar>v\<bar> < 2 ^ w) (r_return v))"

text \<open>The trace level only chooses what is printed.\<close>

definition TSS_SetTraceLevel :: "string option \<Rightarrow> unit tif" where
  "TSS_SetTraceLevel value = e_bind (e_lift (scan_property 32 value ''0'')) (\<lambda>_. e_return ())"

definition TSS_SetDataDirectory :: "string option \<Rightarrow> unit tif" where
  "TSS_SetDataDirectory value s = e_return () (s\<lparr>tssDataDirectory := (case value of None \<Rightarrow> ''.'' | Some v \<Rightarrow> v)\<rparr>)"

definition TSS_SetCommandPort :: "string option \<Rightarrow> unit tif" where
  "TSS_SetCommandPort value =
     e_bind TSS_Close (\<lambda>_.
     e_bind (e_lift (scan_property 16 value ''2321'')) (\<lambda>v s. e_return () (s\<lparr>tssCommandPort := word_of_int v\<rparr>)))"

definition TSS_SetPlatformPort :: "string option \<Rightarrow> unit tif" where
  "TSS_SetPlatformPort value =
     e_bind TSS_Close (\<lambda>_.
     e_bind (e_lift (scan_property 16 value ''2322'')) (\<lambda>v s. e_return () (s\<lparr>tssPlatformPort := word_of_int v\<rparr>)))"

definition TSS_SetServerName :: "string option \<Rightarrow> unit tif" where
  "TSS_SetServerName value =
     e_bind TSS_Close (\<lambda>_ s. e_return () (s\<lparr>tssServerName := (case value of None \<Rightarrow> ''localhost'' | Some v \<Rightarrow> v)\<rparr>))"

definition TSS_SetServerType :: "string option \<Rightarrow> unit tif" where
  "TSS_SetServerType value =
     e_bind TSS_Close (\<lambda>_ s. e_return () (s\<lparr>tssServerType := (case value of None \<Rightarrow> ''mssim'' | Some v \<Rightarrow> v)\<rparr>))"

definition TSS_SetInterfaceType :: "string option \<Rightarrow> unit tif" where
  "TSS_SetInterfaceType value =
     e_bind TSS_Close (\<lambda>_ s. e_return () (s\<lparr>tssInterfaceType := (case value of None \<Rightarrow> ''dev'' | Some v \<Rightarrow> v)\<rparr>))"

definition TSS_SetDevice :: "string option \<Rightarrow> unit tif" where
  "TSS_SetDevice value =
     e_bind TSS_Close (\<lambda>_ s. e_return () (s\<lparr>tssDevice := (case value of None \<Rightarrow> ''/dev/tpm'' | Some v \<Rightarrow> v)\<rparr>))"

definition TSS_SetEncryptSessions :: "string option \<Rightarrow> unit tif" where
  "TSS_SetEncryptSessions value =
     e_bind (e_lift (scan_property 32 value ''1'')) (\<lambda>v s. e_return () (s\<lparr>tssEncryptSessions := (word_of_int v :: 32 word) \<noteq> 0\<rparr>))"

text \<open>The environment variables are a parameter.\<close>

definition TSS_GlobalProperties_Init :: "(string \<Rightarrow> string option) \<Rightarrow> unit tif" where
  "TSS_GlobalProperties_Init getenv = TSS_SetTraceLevel (getenv ''TPM_TRACE_LEVEL'')"

definition TSS_Properties_Init :: "(string \<Rightarrow> string option) \<Rightarrow> unit tif" where
  "TSS_Properties_Init getenv =
     e_bind (\<lambda>s. e_return () (s\<lparr>tssFirstTransmit := True\<rparr>)) (\<lambda>_.
     e_bind (TSS_SetDataDirectory (getenv ''TPM_DATA_DIR'')) (\<lambda>_.
     e_bind (TSS_SetEncryptSessions (getenv ''TPM_ENCRYPT_SESSIONS'')) (\<lambda>_.
     e_bind (TSS_SetCommandPort (getenv ''TPM_COMMAND_PORT'')) (\<lambda>_.
     e_bind (TSS_SetPlatformPort (getenv ''TPM_PLATFORM_PORT'')) (\<lambda>_.
     e_bind (TSS_SetServerName (getenv ''TPM_SERVER_NAME'')) (\<lambda>_.
     e_bind (TSS_SetServerType (getenv ''TPM_SERVER_TYPE'')) (\<lambda>_.
     e_bind (TSS_SetInterfaceType (getenv ''TPM_INTERFACE_TYPE'')) (\<lambda>_.
     TSS_SetDevice (getenv ''TPM_DEVICE'')))))))))"

text \<open>The first call of the library initializes what its contexts share; it counts as the first one whether it succeeds or not.\<close>

definition first_call :: "(string \<Rightarrow> string option) \<Rightarrow> unit tif" where
  "first_call getenv s =
     (if tssFirstCall s
      then map_option (\<lambda>(r, s). (r, s\<lparr>tssFirstCall := False\<rparr>)) (e_bind TSS_Crypto_Init (\<lambda>_. TSS_GlobalProperties_Init getenv) s)
      else e_return () s)"

fun set_property :: "int \<Rightarrow> string option \<Rightarrow> unit tif" where
  "set_property property value =
     (if property = 1 then TSS_SetTraceLevel value
      else if property = 2 then TSS_SetDataDirectory value
      else if property = 3 then TSS_SetCommandPort value
      else if property = 4 then TSS_SetPlatformPort value
      else if property = 5 then TSS_SetServerName value
      else if property = 6 then TSS_SetInterfaceType value
      else if property = 7 then TSS_SetDevice value
      else if property = 8 then TSS_SetEncryptSessions value
      else if property = 9 then TSS_SetServerType value
      else e_fail TSS_RC_BAD_PROPERTY)"

definition TSS_SetProperty :: "(string \<Rightarrow> string option) \<Rightarrow> int \<Rightarrow> string option \<Rightarrow> unit tif" where
  "TSS_SetProperty getenv property value = e_bind (first_call getenv) (\<lambda>_. set_property property value)"

definition TSS_Context_Init :: "(string \<Rightarrow> string option) \<Rightarrow> unit tif" where
  "TSS_Context_Init getenv = e_bind (first_call getenv) (\<lambda>_. TSS_Properties_Init getenv)"

text \<open>The two allocations succeed; what the contexts hold before is the state.\<close>

definition TSS_Create :: "(string \<Rightarrow> string option) \<Rightarrow> unit tif" where
  "TSS_Create getenv =
     e_bind (TSS_Context_Init getenv) (\<lambda>_ s. e_return () (s\<lparr>tssAuthContext := TSS_InitAuthContext (tssAuthContext s)\<rparr>))"

definition TSS_Delete :: "unit tif" where
  "TSS_Delete = TSS_Close"

end
