(* ===== verification/Tss_Keeps.thy ===== *)
theory Tss_Keeps
  imports Tss_Execute
begin

text \<open>
  A calculus for functions of the state that keep a predicate of it, whether they succeed or fail: rules for the combinators of the
  model, in \<open>keeps_intro\<close>, and the functions of the library that only read.
\<close>

section \<open>Functions that keep a predicate of the state\<close>

named_theorems keeps_intro "functions that keep a predicate of the state"

definition keeps :: "('s \<Rightarrow> bool) \<Rightarrow> ('s, 'a) effect \<Rightarrow> bool" where
  "keeps I m \<longleftrightarrow> (\<forall>s r s'. I s \<longrightarrow> m s = Some (r, s') \<longrightarrow> I s')"

lemma keepsD: "keeps I m \<Longrightarrow> I s \<Longrightarrow> m s = Some (r, s') \<Longrightarrow> I s'"
  by (auto simp: keeps_def)

lemma keeps_basic [keeps_intro]:
  "keeps I (e_return x)" "keeps I (e_fail rc)" "keeps I (e_lift r)" "keeps I (\<lambda>_. None)"
  by (simp_all add: keeps_def e_return_def e_fail_def e_lift_def)

lemma keeps_undefined [keeps_intro]: "keeps I undefined_behaviour"
  by (simp add: keeps_def undefined_behaviour_def)

lemma keeps_lift_of [keeps_intro]: "keeps I (\<lambda>s. e_lift (f s) s)"
  by (auto simp: keeps_def e_lift_def)

lemma keeps_bind [keeps_intro]: "keeps I m \<Longrightarrow> (\<And>x. keeps I (f x)) \<Longrightarrow> keeps I (e_bind m f)"
  unfolding keeps_def
proof (intro allI impI)
  fix s r s' assume m: "\<forall>s r s'. I s \<longrightarrow> m s = Some (r, s') \<longrightarrow> I s'" and f: "\<And>x. \<forall>s r s'. I s \<longrightarrow> f x s = Some (r, s') \<longrightarrow> I s'"
    and s: "I s" "e_bind m f s = Some (r, s')"
  show "I s'"
  proof (cases "m s")
    case None
    with s show ?thesis by (simp add: e_bind_def)
  next
    case (Some q)
    with m s(1) have "I (snd q)" by (cases q) auto
    with f Some s(2) show ?thesis by (cases q; cases "fst q") (auto simp: e_bind_def)
  qed
qed

lemma keeps_guard [keeps_intro]: "keeps I m \<Longrightarrow> keeps I (e_guard b e m)"
  by (cases b) (simp_all add: keeps_basic)

lemma keeps_if [keeps_intro]: "(b \<Longrightarrow> keeps I m) \<Longrightarrow> (\<not> b \<Longrightarrow> keeps I m') \<Longrightarrow> keeps I (if b then m else m')"
  by simp

lemma keeps_if_of [keeps_intro]:
  assumes "keeps I m" "keeps I m'"
  shows "keeps I (\<lambda>s. if b s then m s else m' s)"
  unfolding keeps_def
proof (intro allI impI)
  fix s r s' assume i: "I s" and e: "(if b s then m s else m' s) = Some (r, s')"
  show "I s'"
  proof (cases "b s")
    case True
    with e show ?thesis by (intro keepsD [OF assms(1) i, of r]) simp
  next
    case False
    with e show ?thesis by (intro keepsD [OF assms(2) i, of r]) simp
  qed
qed

lemma keeps_option [keeps_intro]:
  "(x = None \<Longrightarrow> keeps I m) \<Longrightarrow> (\<And>y. x = Some y \<Longrightarrow> keeps I (f y)) \<Longrightarrow> keeps I (case x of None \<Rightarrow> m | Some y \<Rightarrow> f y)"
  by (cases x) simp_all

lemma keeps_prod [keeps_intro]: "(\<And>x y. p = (x, y) \<Longrightarrow> keeps I (f x y)) \<Longrightarrow> keeps I (case p of (x, y) \<Rightarrow> f x y)"
  by (cases p) simp

lemma keeps_let [keeps_intro]: "keeps I (f x) \<Longrightarrow> keeps I (Let x f)"
  by simp

lemma keeps_ignore [keeps_intro]: "keeps I m \<Longrightarrow> keeps I (e_ignore m)"
  by (auto simp: keeps_def e_ignore_def)

text \<open>The same with a condition before, one behind a success and one behind an error.\<close>

named_theorems triple_intro "rules for conditions before and behind a function of the state"

definition triple :: "('s \<Rightarrow> bool) \<Rightarrow> ('s, 'a) effect \<Rightarrow> ('a \<Rightarrow> 's \<Rightarrow> bool) \<Rightarrow> ('s \<Rightarrow> bool) \<Rightarrow> bool" where
  "triple P m Q E \<longleftrightarrow> (\<forall>s r s'. P s \<longrightarrow> m s = Some (r, s') \<longrightarrow> (case r of Inl rc \<Rightarrow> E s' | Inr x \<Rightarrow> Q x s'))"

lemma tripleD:
  "triple P m Q E \<Longrightarrow> P s \<Longrightarrow> m s = Some (r, s') \<Longrightarrow> (case r of Inl rc \<Rightarrow> E s' | Inr x \<Rightarrow> Q x s')"
  by (auto simp: triple_def)

lemma triple_bind [triple_intro]:
  assumes "triple P m R E" "\<And>x. triple (R x) (f x) Q E"
  shows "triple P (e_bind m f) Q E"
  unfolding triple_def
proof (intro allI impI)
  fix s r s' assume p: "P s" and e: "e_bind m f s = Some (r, s')"
  show "case r of Inl rc \<Rightarrow> E s' | Inr x \<Rightarrow> Q x s'"
  proof (cases "m s")
    case None
    with e show ?thesis by (simp add: e_bind_def)
  next
    case (Some q)
    obtain x t where q: "q = (x, t)" by fastforce
    have m: "case x of Inl rc \<Rightarrow> E t | Inr y \<Rightarrow> R y t" by (rule tripleD [OF assms(1) p]) (use Some q in simp)
    show ?thesis
    proof (cases x)
      case (Inl rc)
      with e Some q m show ?thesis by (auto simp: e_bind_def)
    next
      case (Inr y)
      with m have "R y t" by simp
      from tripleD [OF assms(2) this] e Some q Inr show ?thesis by (simp add: e_bind_def)
    qed
  qed
qed

lemma triple_keeps: "keeps I m \<Longrightarrow> triple I m (\<lambda>_. I) I"
  unfolding triple_def keeps_def by (auto split: sum.split)

lemma keeps_triple: "triple I m (\<lambda>_. I) I \<Longrightarrow> keeps I m"
  unfolding keeps_def
proof (intro allI impI)
  fix s r s' assume "triple I m (\<lambda>_. I) I" "I s" "m s = Some (r, s')"
  from tripleD [OF this] show "I s'" by (cases r) simp_all
qed

lemma triple_weaken: "triple P m Q E \<Longrightarrow> (\<And>s. P' s \<Longrightarrow> P s) \<Longrightarrow> (\<And>x s. Q x s \<Longrightarrow> Q' x s) \<Longrightarrow> (\<And>s. E s \<Longrightarrow> E' s) \<Longrightarrow> triple P' m Q' E'"
  unfolding triple_def
proof (intro allI impI)
  fix s r s'
  assume t: "\<forall>s r s'. P s \<longrightarrow> m s = Some (r, s') \<longrightarrow> (case r of Inl rc \<Rightarrow> E s' | Inr x \<Rightarrow> Q x s')"
    and w: "\<And>s. P' s \<Longrightarrow> P s" "\<And>x s. Q x s \<Longrightarrow> Q' x s" "\<And>s. E s \<Longrightarrow> E' s" and s: "P' s" "m s = Some (r, s')"
  from t w(1) [OF s(1)] s(2) have "case r of Inl rc \<Rightarrow> E s' | Inr x \<Rightarrow> Q x s'" by blast
  with w(2,3) show "case r of Inl rc \<Rightarrow> E' s' | Inr x \<Rightarrow> Q' x s'" by (cases r) simp_all
qed

lemma triple_basic [triple_intro]:
  "(\<And>s. P s \<Longrightarrow> Q x s) \<Longrightarrow> triple P (e_return x) Q E" "(\<And>s. P s \<Longrightarrow> E s) \<Longrightarrow> triple P (e_fail rc) Q E"
  by (simp_all add: triple_def e_return_def e_fail_def)

lemma triple_guard [triple_intro]: "(\<And>s. P s \<Longrightarrow> E s) \<Longrightarrow> triple P m Q E \<Longrightarrow> triple P (e_guard b rc m) Q E"
  by (cases b) (simp_all add: triple_def e_fail_def)

lemma triple_if [triple_intro]: "(b \<Longrightarrow> triple P m Q E) \<Longrightarrow> (\<not> b \<Longrightarrow> triple P m' Q E) \<Longrightarrow> triple P (if b then m else m') Q E"
  by simp

lemma triple_of: "(\<And>t. triple P (m t) Q E) \<Longrightarrow> triple P (\<lambda>s. m s s) Q E"
  by (simp add: triple_def)

text \<open>The functions that only read.\<close>

lemma keeps_files [keeps_intro]:
  "keeps I (object_file p h str)" "keeps I (handle_file p h)" "keeps I (read_and_free fn)"
  "keeps I (TSS_AES_Encrypt L d)" "keeps I (TSS_AES_Decrypt L d)"
  by (auto simp: keeps_def object_file_def handle_file_def read_and_free_def TSS_File_ReadBinaryFile_def e_bind_def e_ignore_def TSS_AES_Encrypt_def TSS_AES_Decrypt_def
      e_lift_def e_fail_def e_return_def Let_def split: option.splits sum.splits read_outcome.splits if_splits)

lemma keeps_loads [keeps_intro]:
  "keeps I (TSS_File_Read2B room' n fn)" "keeps I (TSS_File_ReadStructure u fn)" "keeps I (TSS_Name_Load h str)"
  "keeps I (TSS_Public_Load allowNull h str)" "keeps I (TSS_NVPublic_Load h)" "keeps I (TSS_HmacSession_LoadSession L h)"
  by (unfold TSS_File_Read2B_def TSS_File_ReadStructure_def TSS_Name_Load_def TSS_Public_Load_def TSS_NVPublic_Load_def
      TSS_HmacSession_LoadSession_def) (intro keeps_intro)+

lemma keeps_names [keeps_intro]: "keeps I (TSS_Name_GetName name h)"
  unfolding TSS_Name_GetName_def Let_def by (intro keeps_intro)

lemma keeps_keys [keeps_intro]:
  "keeps I (TSS_HmacSession_SetSessionKey L session sa bnd authValue)" "keeps I (bind_match session i)"
  "keeps I (TSS_HmacSession_SetHmacKey session i pw)"
  by (unfold TSS_HmacSession_SetSessionKey_def bind_match_def TSS_HmacSession_SetHmacKey_def Let_def) (intro keeps_intro)+

lemma keeps_context_string [keeps_intro]: "keeps I (context_string L context)"
  unfolding context_string_def by (intro keeps_intro)

end
