(* ===== verification/Tss_Transport_Correct.thy ===== *)
theory Tss_Transport_Correct
  imports Tss_Transport Tss_Session_Correct Tss_Keeps
begin

text \<open>
  What the connection does for its clients: commands and responses arrive whole, however the system splits them, a response of the
  device has a header, and the responses of a socket that are taken without one.
\<close>

section \<open>Bytes\<close>

text \<open>The bytes that the next reads will find, up to the end of the stream.\<close>

definition stream :: "byte list list \<Rightarrow> byte list" where
  "stream rs = concat (takeWhile (\<lambda>chunk. chunk \<noteq> []) rs)"

lemma stream_simps [simp]: "stream [] = []" "stream ([] # rs) = []" "chunk \<noteq> [] \<Longrightarrow> stream (chunk # rs) = chunk @ stream rs"
  by (simp_all add: stream_def)

lemma receive_loop_0 [simp]: "receive_loop 0 rs = (True, [], rs)"
  by (simp add: receive_loop.simps)

lemma receive_loop_ok: "n \<le> length (stream rs) \<Longrightarrow> \<exists>rs'. receive_loop n rs = (True, take n (stream rs), rs') \<and> stream rs' = drop n (stream rs)"
proof (induction rs arbitrary: n)
  case (Cons chunk rs)
  show ?case
  proof (cases "n = 0 \<or> n < length chunk")
    case True
    then show ?thesis
    proof
      assume l: "n < length chunk"
      then have "chunk \<noteq> []" "drop n chunk \<noteq> []" by auto
      with l show ?thesis by (cases "n = 0") (simp_all add: receive_loop.simps [of n])
    qed simp
  next
    case False
    with Cons.prems have c: "chunk \<noteq> []" "n - length chunk \<le> length (stream rs)" by (cases "chunk = []"; simp)+
    from Cons.IH [OF c(2)] False c(1) show ?thesis by (auto simp: receive_loop.simps [of n])
  qed
qed simp

lemma receive_loop_short: "length (stream rs) < n \<Longrightarrow> \<exists>rs'. receive_loop n rs = (False, stream rs, rs')"
proof (induction rs arbitrary: n)
  case (Cons chunk rs)
  show ?case
  proof (cases "chunk = []")
    case True
    with Cons.prems show ?thesis by (simp add: receive_loop.simps [of n])
  next
    case False
    with Cons.prems have "length (stream rs) < n - length chunk" "\<not> n < length chunk" "n \<noteq> 0" by auto
    with Cons.IH [of "n - length chunk"] False show ?thesis by (auto simp: receive_loop.simps [of n])
  qed
qed (simp add: receive_loop.simps)

lemma ReceiveBytes_ok:
  assumes "n \<le> length (stream (reads s))" "n < 2 ^ 31"
  shows "\<exists>rs. TSS_Socket_ReceiveBytes (of_nat n) s = (0, take n (stream (reads s)), s\<lparr>reads := rs\<rparr>) \<and> stream rs = drop n (stream (reads s))"
proof -
  have "nat (sint (of_nat n :: 32 word)) = n" using sint_small [OF assms(2)] by simp
  with receive_loop_ok [OF assms(1)] show ?thesis by (auto simp: TSS_Socket_ReceiveBytes_def)
qed

lemma send_loop_ok:
  "list_all (\<lambda>w. 0 < w) ws \<Longrightarrow> length bs \<le> length ws \<Longrightarrow>
    \<exists>ws'. send_loop bs ws = (True, bs, ws') \<and> list_all (\<lambda>w. 0 < w) ws' \<and> length ws - length bs \<le> length ws'"
proof (induction bs ws rule: send_loop.induct)
  case (3 b bs w ws)
  let ?d = "drop (nat w) (b # bs)"
  have "length ?d \<le> length bs" using 3(2) by (cases "nat w") auto
  with 3 obtain ws' where "send_loop ?d ws = (True, ?d, ws')" "list_all (\<lambda>w. 0 < w) ws'" "length ws - length ?d \<le> length ws'" by auto
  moreover have "\<not> w < 0" using 3(2) by simp
  ultimately show ?case using \<open>length ?d \<le> length bs\<close> by (auto simp del: drop_Cons take_Cons)
qed auto

lemma ntohl_be32: "length as = p \<Longrightarrow> ntohl_at (as @ be32 w @ bs) p = w"
  using word32_bytes [of w] by (auto simp: ntohl_at_def be32_def nth_append)


section \<open>Commands over a socket\<close>

text \<open>What some events sent, and how a command is sent: the MS simulator expects a command code, a locality and a length before it.\<close>

definition sent :: "event list \<Rightarrow> byte list" where
  "sent es = concat (map (\<lambda>e. case e of Wrote bs \<Rightarrow> bs | _ \<Rightarrow> []) es)"

lemma sent_simps [simp]:
  "sent [] = []" "sent (Wrote bs # es) = bs @ sent es" "sent (Connected a p # es) = sent es" "sent (Abandoned a p # es) = sent es" "sent (Opened d # es) = sent es"
  "sent (Closed # es) = sent es" "sent (es @ es') = sent es @ sent es'"
  by (simp_all add: sent_def)

definition command_frame :: "bool \<Rightarrow> byte list \<Rightarrow> byte list" where
  "command_frame mssim command = (if mssim then be32 8 @ [0] @ be32 (of_nat (length command)) else []) @ command"

text \<open>Writes that make progress, and are enough for a number of bytes.\<close>

definition progress :: "nat \<Rightarrow> int list \<Rightarrow> bool" where
  "progress n ws \<longleftrightarrow> list_all (\<lambda>w. 0 < w) ws \<and> n \<le> length ws"

lemma SendBytes_ok:
  assumes "progress (length bs + n) (writes s)"
  obtains ws where "TSS_Socket_SendBytes bs s = Some (Inr (), s\<lparr>writes := ws, events := events s @ [Wrote bs]\<rparr>)" "progress n ws"
proof -
  from send_loop_ok [of "writes s" bs] assms obtain ws where
    "send_loop bs (writes s) = (True, bs, ws)" "progress n ws" by (auto simp: progress_def)
  with that show ?thesis
    by (simp add: TSS_Socket_SendBytes_def e_bind_def e_event_def e_return_def)
qed

definition served :: "bool \<Rightarrow> TSS_INTERFACE \<Rightarrow> bool" where
  "served mssim s \<longleftrightarrow> tssServerType s = (if mssim then ''mssim'' else ''raw'')"

lemma served_type: "served mssim s \<Longrightarrow> TSS_Socket_GetServerType s = Some (Inr mssim)"
  by (simp add: served_def TSS_Socket_GetServerType_def r_return_def)

lemma e_mssim_ok: "served mssim s \<Longrightarrow> e_bind e_mssim f s = f mssim s"
  by (simp add: e_mssim_def e_bind_def e_lift_def served_type)

lemma SendCommand_ok:
  assumes m: "served mssim s" and l: "length command < 2 ^ 16" and w: "progress (9 + length command) (writes s)"
  obtains ws es where
    "TSS_Socket_SendCommand command s = Some (Inr (), s\<lparr>writes := ws, events := events s @ es\<rparr>)" "sent es = command_frame mssim command"
proof -
  have t: "take (unat (of_nat (length command) :: 16 word)) command = command" using l by (simp add: unat_of_nat)
  show thesis
  proof (cases mssim)
    case True
    let ?l = "be32 (of_nat (length command))"
    obtain w1 where 1: "TSS_Socket_SendBytes (be32 8) s = Some (Inr (), s\<lparr>writes := w1, events := events s @ [Wrote (be32 8)]\<rparr>)"
        "progress (5 + length command) w1"
      by (rule SendBytes_ok [of "be32 8" "5 + length command" s]) (use w in simp_all)
    let ?s1 = "s\<lparr>writes := w1, events := events s @ [Wrote (be32 8)]\<rparr>"
    obtain w2 where 2: "TSS_Socket_SendBytes [0] ?s1 = Some (Inr (), ?s1\<lparr>writes := w2, events := events ?s1 @ [Wrote [0]]\<rparr>)"
        "progress (4 + length command) w2"
      by (rule SendBytes_ok [of "[0]" "4 + length command" ?s1]) (use 1 in simp_all)
    let ?s2 = "?s1\<lparr>writes := w2, events := events ?s1 @ [Wrote [0]]\<rparr>"
    obtain w3 where 3: "TSS_Socket_SendBytes ?l ?s2 = Some (Inr (), ?s2\<lparr>writes := w3, events := events ?s2 @ [Wrote ?l]\<rparr>)"
        "progress (length command) w3"
      by (rule SendBytes_ok [of ?l "length command" ?s2]) (use 2 in simp_all)
    let ?s3 = "?s2\<lparr>writes := w3, events := events ?s2 @ [Wrote ?l]\<rparr>"
    obtain w4 where 4: "TSS_Socket_SendBytes command ?s3 = Some (Inr (), ?s3\<lparr>writes := w4, events := events ?s3 @ [Wrote command]\<rparr>)"
      by (rule SendBytes_ok [of command 0 ?s3]) (use 3 in simp_all)
    have "TSS_Socket_SendCommand command s = Some (Inr (), ?s3\<lparr>writes := w4, events := events ?s3 @ [Wrote command]\<rparr>)"
      using 1(1) 2(1) 3(1) 4 True by (simp add: TSS_Socket_SendCommand_def t e_mssim_ok [OF m] Let_def) (simp add: e_bind_def)
    then show thesis using True
      by (intro that [of "[Wrote (be32 8), Wrote [0], Wrote ?l, Wrote command]"]) (simp_all add: command_frame_def)
  next
    case False
    obtain w4 where 4: "TSS_Socket_SendBytes command s = Some (Inr (), s\<lparr>writes := w4, events := events s @ [Wrote command]\<rparr>)"
      by (rule SendBytes_ok [of command 9 s]) (use w in \<open>simp_all add: add.commute\<close>)
    with False show thesis
      by (intro that [of "[Wrote command]"])
        (simp_all add: TSS_Socket_SendCommand_def t e_mssim_ok [OF m] command_frame_def Let_def)
  qed
qed

section \<open>Responses over a socket\<close>

definition response_frame :: "bool \<Rightarrow> byte list \<Rightarrow> 32 word \<Rightarrow> byte list" where
  "response_frame mssim response acknowledgement =
     (if mssim then be32 (of_nat (length response)) else []) @ response @ (if mssim then be32 acknowledgement else [])"

lemma receive_mssim_ok:
  assumes "stream (reads s) = (if mssim then be32 w else []) @ tail"
  obtains rs where "receive_mssim mssim s =
      (0, if mssim then be32 w else [0, 0, 0, 0], s\<lparr>reads := rs\<rparr>)" "stream rs = tail"
proof (cases mssim)
  case True
  with assms ReceiveBytes_ok [of 4 s] that show thesis by (auto simp: receive_mssim_def)
next
  case False
  with assms that [of "reads s"] show thesis by (simp add: receive_mssim_def)
qed

lemma ReceiveCommand_ok:
  assumes m: "served mssim s" and r: "stream (reads s) = response_frame mssim response acknowledgement @ tail"
    and n: "6 \<le> length response" "length response \<le> MAX_RESPONSE_SIZE" "ntohl_at response 2 = of_nat (length response)"
    and b: "length buffer = MAX_RESPONSE_SIZE"
  obtains rs where "TSS_Socket_ReceiveCommand buffer len s =
      (let code = ntohl_at (response @ drop (length response) buffer) 6 in if code \<noteq> 0 then code else if mssim then acknowledgement else 0,
       response @ drop (length response) buffer, of_nat (length response), s\<lparr>reads := rs\<rparr>)" "stream rs = tail"
proof -
  let ?n = "length response" and ?head = "take 6 response" and ?body = "drop 6 response"
  obtain r1 where 1: "receive_mssim mssim s =
        (0, if mssim then be32 (of_nat ?n) else [0, 0, 0, 0], s\<lparr>reads := r1\<rparr>)"
      "stream r1 = response @ (if mssim then be32 acknowledgement else []) @ tail"
    using receive_mssim_ok [of s mssim "of_nat ?n"] r by (auto simp: response_frame_def)
  let ?s1 = "s\<lparr>reads := r1\<rparr>"
  obtain r2 where 2: "TSS_Socket_ReceiveBytes 6 ?s1 = (0, ?head, ?s1\<lparr>reads := r2\<rparr>)"
      "stream r2 = ?body @ (if mssim then be32 acknowledgement else []) @ tail"
    using ReceiveBytes_ok [of 6 ?s1] 1(2) n(1) by auto
  let ?s2 = "?s1\<lparr>reads := r2\<rparr>"
  have minus: "(of_nat ?n - 6 :: 32 word) = of_nat (?n - 6)" using n(1) by (simp add: of_nat_diff)
  have small: "?n - 6 < 2 ^ 31" using n(2) by simp
  obtain r3 where 3: "TSS_Socket_ReceiveBytes (of_nat ?n - 6) ?s2 = (0, ?body, ?s2\<lparr>reads := r3\<rparr>)"
      "stream r3 = (if mssim then be32 acknowledgement else []) @ tail"
    using ReceiveBytes_ok [of "?n - 6" ?s2, OF _ small] 2(2) unfolding minus by auto
  let ?s3 = "?s2\<lparr>reads := r3\<rparr>"
  obtain r4 where 4: "receive_mssim mssim ?s3 =
        (0, if mssim then be32 acknowledgement else [0, 0, 0, 0], ?s3\<lparr>reads := r4\<rparr>)" "stream r4 = tail"
    using receive_mssim_ok [of ?s3 mssim acknowledgement tail] 3(2) by auto
  have size: "ntohl_at (overwrite 0 ?head buffer) 2 = of_nat ?n"
  proof -
    have "length ?head = 6" using n(1) by simp
    then have "overwrite 0 ?head buffer ! i = response ! i" if "i < 6" for i
      using that n(1) by (simp add: overwrite_def nth_append)
    with n(3) show ?thesis by (simp add: ntohl_at_def)
  qed
  have whole: "overwrite 6 ?body (overwrite 0 ?head buffer) = response @ drop ?n buffer"
  proof -
    have "take 6 (overwrite 0 ?head buffer) = ?head" using n(1) by (simp add: overwrite_def)
    moreover have "drop ?n (overwrite 0 ?head buffer) = drop ?n buffer" using n(1) by (simp add: overwrite_def)
    ultimately show ?thesis using n(1) unfolding overwrite_def [of 6] by simp
  qed
  have "\<not> of_nat ?n > (of_nat MAX_RESPONSE_SIZE :: 32 word)" using n(2) by (simp add: word_less_nat_alt unat_of_nat)
  moreover have "mssim \<Longrightarrow> ntohl_at (be32 (of_nat ?n)) 0 = of_nat ?n" "ntohl_at (be32 acknowledgement) 0 = acknowledgement"
    using ntohl_be32 [of "[]" 0 _ "[]"] by simp_all
  ultimately have "TSS_Socket_ReceiveCommand buffer len s =
      (let code = ntohl_at (response @ drop ?n buffer) 6 in if code \<noteq> 0 then code else if mssim then acknowledgement else 0,
       response @ drop ?n buffer, of_nat ?n, s\<lparr>reads := r4\<rparr>)"
    using 1(1) 2(1) 3(1) 4(1)
    by (simp add: TSS_Socket_ReceiveCommand_def served_type [OF m] Let_def size whole)
  with that 4(2) show thesis by simp
qed


section \<open>Transmission\<close>

text \<open>What a command finds: the open connection, or the one that it opens.\<close>

definition line :: "TSS_INTERFACE \<Rightarrow> (byte list list \<times> int list) option" where
  "line s = (if tssFirstTransmit s then (case connections s of Accepted rs ws # _ \<Rightarrow> Some (rs, ws) | _ \<Rightarrow> None) else Some (reads s, writes s))"

lemma first_transmit_ok:
  assumes "served mssim s" "line s = Some (rs, ws)"
  obtains t es where "first_transmit (e_bind e_mssim (\<lambda>_ s. TSS_Socket_Open (tssCommandPort s) s)) s = Some (Inr (), t)"
    "reads t = rs" "writes t = ws" "served mssim t" "events t = events s @ es" "sent es = []" "\<not> tssFirstTransmit t"
proof (cases "tssFirstTransmit s")
  case True
  with assms(2) obtain cs where "connections s = Accepted rs ws # cs"
    by (auto simp: line_def split: list.splits option.splits attempt.splits)
  with True assms(1) show thesis
    by (intro that [of "s\<lparr>connections := cs, reads := rs, writes := ws, events := events s @ [Connected (tssServerName s) (tssCommandPort s)],
        tssFirstTransmit := False\<rparr>" "[Connected (tssServerName s) (tssCommandPort s)]"])
      (simp_all add: first_transmit_def e_mssim_ok [OF assms(1)] e_bind_def [of "e_bind _ _"] TSS_Socket_Open_def next_connection_def e_event_def
        e_return_def served_def)
next
  case False
  with assms show thesis by (intro that [of s "[]"]) (simp_all add: first_transmit_def e_return_def line_def)
qed

lemma Transmit_ok:
  assumes i: "tssInterfaceType s = ''socsim''" and m: "served mssim s" and l: "line s = Some (rs, ws)"
    and c: "length command < 2 ^ 16" "progress (9 + length command) ws"
    and t: "\<And>t. served mssim t \<Longrightarrow> reads t = rs \<Longrightarrow> \<exists>rs'. TSS_Socket_ReceiveCommand buffer len t = (rc, buf, n, t\<lparr>reads := rs'\<rparr>) \<and> stream rs' = tail"
  obtains s' es where "TSS_Transmit command buffer len s = Some (rc, buf, n, s')" "events s' = events s @ es"
    "sent es = command_frame mssim command" "stream (reads s') = tail" "\<not> tssFirstTransmit s'"
proof -
  obtain s1 es where 1: "first_transmit (e_bind e_mssim (\<lambda>_ s. TSS_Socket_Open (tssCommandPort s) s)) s = Some (Inr (), s1)"
    "reads s1 = rs" "writes s1 = ws" "served mssim s1" "events s1 = events s @ es" "sent es = []" "\<not> tssFirstTransmit s1"
    by (rule first_transmit_ok [OF m l])
  obtain ws' es' where 2: "TSS_Socket_SendCommand command s1 = Some (Inr (), s1\<lparr>writes := ws', events := events s1 @ es'\<rparr>)"
      "sent es' = command_frame mssim command"
    by (rule SendCommand_ok [OF 1(4) c(1)]) (use c(2) 1(3) in auto)
  let ?t = "s1\<lparr>writes := ws', events := events s1 @ es'\<rparr>"
  obtain rs' where 3: "TSS_Socket_ReceiveCommand buffer len ?t = (rc, buf, n, ?t\<lparr>reads := rs'\<rparr>)" "stream rs' = tail"
    using t [of ?t] 1(2,4) by (auto simp: served_def)
  show thesis
  proof (rule that [of "?t\<lparr>reads := rs'\<rparr>" "es @ es'"])
    show "TSS_Transmit command buffer len s = Some (rc, buf, n, ?t\<lparr>reads := rs'\<rparr>)"
      using i 1(1) 2(1) 3(1) by (simp add: TSS_Transmit_def TSS_Socket_Transmit_def then_receive_def e_bind_def [of "first_transmit _"])
  qed (use 1 2(2) 3(2) in simp_all)
qed

text \<open>C18. A command over a socket, on the connection that is open or on the one that it opens: however the system splits what it writes
  and reads, the command is sent whole in the frame of the server and the response is received whole from its frame, with its
  response code (or the acknowledgement of the MS simulator) as the result, and nothing behind it is read.\<close>

theorem TSS_Transmit_socket_correct:
  assumes "tssInterfaceType s = ''socsim''" "served mssim s" "line s = Some (rs, ws)"
    and "length command < 2 ^ 16" "progress (9 + length command) ws"
    and "stream rs = response_frame mssim response acknowledgement @ tail"
    and "10 \<le> length response" "length response \<le> MAX_RESPONSE_SIZE" "ntohl_at response 2 = of_nat (length response)"
    and "length buffer = MAX_RESPONSE_SIZE"
  shows "\<exists>s' es. TSS_Transmit command buffer len s =
      Some (let code = ntohl_at response 6 in if code \<noteq> 0 then code else if mssim then acknowledgement else 0,
        response @ drop (length response) buffer, of_nat (length response), s') \<and>
    events s' = events s @ es \<and> sent es = command_frame mssim command \<and> stream (reads s') = tail \<and> \<not> tssFirstTransmit s'"
proof -
  have code: "ntohl_at (response @ drop (length response) buffer) 6 = ntohl_at response 6"
    using assms(7) by (simp add: ntohl_at_def nth_append)
  have "\<exists>rs'. TSS_Socket_ReceiveCommand buffer len t =
      (let code = ntohl_at response 6 in if code \<noteq> 0 then code else if mssim then acknowledgement else 0,
       response @ drop (length response) buffer, of_nat (length response), t\<lparr>reads := rs'\<rparr>) \<and> stream rs' = tail"
    if t: "served mssim t" "reads t = rs" for t
  proof -
    have r: "stream (reads t) = response_frame mssim response acknowledgement @ tail" using assms(6) t(2) by simp
    obtain rs' where "TSS_Socket_ReceiveCommand buffer len t =
        (let code = ntohl_at (response @ drop (length response) buffer) 6 in if code \<noteq> 0 then code else if mssim then acknowledgement else 0,
         response @ drop (length response) buffer, of_nat (length response), t\<lparr>reads := rs'\<rparr>)" "stream rs' = tail"
      by (rule ReceiveCommand_ok [OF t(1) r _ assms(8,9,10)]) (use assms(7) in simp)
    then show ?thesis unfolding code by blast
  qed
  from Transmit_ok [OF assms(1-5) this] show ?thesis by blast
qed


definition example_interface :: "byte list list \<Rightarrow> TSS_INTERFACE" where
  "example_interface rs = \<lparr>random = [], aes_key = None, files = Map.empty, on_write = \<lambda>_. Written, on_read = \<lambda>_. Completed, removable = \<lambda>_. True,
     tssAuthContext = ex_random_context\<lparr>responseBuffer := replicate 4096 0\<rparr>, tssDataDirectory = ''.'', tssEncryptSessions = True,
     tssCommandPort = 2321, tssPlatformPort = 2322, tssServerName = ''localhost'', tssServerType = ''mssim'',
     tssInterfaceType = ''socsim'', tssDevice = ''/dev/tpm'', tssFirstTransmit = True, tssFirstCall = True,
     connections = [Accepted rs (replicate 40 1)], reads = [], writes = [], close_ok = True, events = []\<rparr>"

definition example_request :: "byte list" where
  "example_request = [0x80, 1, 0, 0, 0, 12, 0, 0, 1, 0x44, 0, 0]"

definition example_reply :: "byte list" where
  "example_reply = [0x80, 1, 0, 0, 0, 10, 0, 0, 1, 0]"

definition example_chunks :: "byte list list" where
  "example_chunks = [[0, 0, 0], [10, 0x80, 1, 0, 0, 0], [10, 0, 0, 1, 0, 0, 0, 0, 0]]"

theorem TSS_Transmit_socket_correct_witness:
  "\<exists>s' es. TSS_Transmit example_request (replicate 4096 0) 0 (example_interface example_chunks) =
      Some (0x100, example_reply @ replicate 4086 0, 10, s') \<and>
    events s' = events (example_interface example_chunks) @ es \<and> sent es = command_frame True example_request \<and>
    stream (reads s') = [] \<and> \<not> tssFirstTransmit s'"
proof -
  have "tssInterfaceType (example_interface example_chunks) = ''socsim''" "served True (example_interface example_chunks)"
      "line (example_interface example_chunks) = Some (example_chunks, replicate 40 1)"
    by (simp_all add: served_def line_def example_interface_def)
  moreover have "stream example_chunks = response_frame True example_reply 0 @ []"
    by (simp add: example_chunks_def example_reply_def response_frame_def be32_def)
  moreover have "ntohl_at example_reply 2 = 10" "ntohl_at example_reply 6 = 0x100" "length example_reply = 10" "length example_request = 12"
    by (simp_all add: ntohl_at_def example_reply_def example_request_def push_bit_eq_mult)
  ultimately show ?thesis
    using TSS_Transmit_socket_correct [of "example_interface example_chunks" True example_chunks "replicate 40 1" example_request
      example_reply 0 "[]" "replicate 4096 0" 0] by (simp add: progress_def list_all_length)
qed

section \<open>Responses without a header\<close>

lemma receive_nothing: "sint n \<le> 0 \<Longrightarrow> TSS_Socket_ReceiveBytes n s = (0, [], s)"
  by (simp add: TSS_Socket_ReceiveBytes_def)

lemma below_header: "n \<le> 6 \<Longrightarrow> n \<in> {0, 1, 2, 3, 4, 5, 6 :: 32 word}"
proof -
  assume "n \<le> 6"
  then have "unat n \<in> {0, 1, 2, 3, 4, 5, 6}" by (auto simp: word_le_nat_alt)
  then have "of_nat (unat n) \<in> (of_nat :: nat \<Rightarrow> 32 word) ` {0, 1, 2, 3, 4, 5, 6}" by (rule imageI)
  then show ?thesis by simp
qed

text \<open>A packet of six bytes that says it has no more than them: the buffer keeps what it had in the place of the response code.\<close>

definition short_frame :: "bool \<Rightarrow> 16 word \<Rightarrow> 32 word \<Rightarrow> byte list" where
  "short_frame mssim tag n = (if mssim then be32 n else []) @ be16 tag @ be32 n @ (if mssim then be32 0 else [])"

lemma length_be16 [simp]: "length (be16 w) = 2"
  by (simp add: be16_def)

lemma ReceiveCommand_short:
  assumes m: "served mssim s" and r: "stream (reads s) = short_frame mssim tag n @ tail" and n: "n \<le> 6"
  shows "\<exists>rs. TSS_Socket_ReceiveCommand (replicate MAX_RESPONSE_SIZE 0) len s =
      (0, be16 tag @ be32 n @ replicate 4090 0, n, s\<lparr>reads := rs\<rparr>) \<and> stream rs = tail"
proof -
  let ?head = "be16 tag @ be32 n" and ?tail = "(if mssim then be32 0 else []) @ tail"
  obtain r1 where 1: "receive_mssim mssim s = (0, if mssim then be32 n else [0, 0, 0, 0], s\<lparr>reads := r1\<rparr>)" "stream r1 = ?head @ ?tail"
    using receive_mssim_ok [of s mssim n] r by (auto simp: short_frame_def)
  let ?s1 = "s\<lparr>reads := r1\<rparr>"
  obtain r2 where 2: "TSS_Socket_ReceiveBytes 6 ?s1 = (0, ?head, ?s1\<lparr>reads := r2\<rparr>)" "stream r2 = ?tail"
    using ReceiveBytes_ok [of 6 ?s1] 1(2) by auto
  let ?s2 = "?s1\<lparr>reads := r2\<rparr>"
  have "sint (n - 6) \<le> 0" using below_header [OF n] by auto
  from receive_nothing [OF this] have 3: "TSS_Socket_ReceiveBytes (n - 6) ?s2 = (0, [], ?s2)" .
  obtain r4 where 4: "receive_mssim mssim ?s2 = (0, if mssim then be32 0 else [0, 0, 0, 0], ?s2\<lparr>reads := r4\<rparr>)" "stream r4 = tail"
    using receive_mssim_ok [of ?s2 mssim 0 tail] 2(2) by auto
  let ?buffer = "?head @ replicate 4090 0"
  have whole: "overwrite 0 ?head (replicate MAX_RESPONSE_SIZE 0) = ?buffer" "overwrite 6 [] ?buffer = ?buffer"
    by (simp_all add: overwrite_def)
  have at: "ntohl_at ?buffer 2 = n" "ntohl_at ?buffer 6 = 0" "ntohl_at (be32 n) 0 = n" "ntohl_at (be32 0) 0 = 0"
    using ntohl_be32 [of "be16 tag" 2 n] ntohl_be32 [of "[]" 0 _ "[]"] by (simp_all add: ntohl_at_def nth_append)
  have "\<not> n > of_nat MAX_RESPONSE_SIZE" using below_header [OF n] by auto
  then have "TSS_Socket_ReceiveCommand (replicate MAX_RESPONSE_SIZE 0) len s = (0, be16 tag @ be32 n @ replicate 4090 0, n, s\<lparr>reads := r4\<rparr>)"
    using 1(1) 2(1) 3 4(1) at whole by (cases mssim) (simp_all add: TSS_Socket_ReceiveCommand_def served_type [OF m] Let_def)
  with 4(2) show ?thesis by blast
qed

text \<open>C36. A response of a socket that says it has at most six bytes is taken for a success: \<open>TSS_Socket_ReceiveCommand\<close> reads no response
  code and finds the zeros of the cleared buffer. A command without sessions and without output parameters, as \<open>TPM2_Startup\<close>,
  succeeds: \<open>TSS_GetRspAuths\<close> and \<open>TSS_Unmarshal\<close> accept the response. The device refuses the same packet.\<close>

theorem TSS_Socket_short_response:
  assumes "tssInterfaceType s = ''socsim''" "served mssim s" "line s = Some (rs, ws)"
    and "progress (9 + unat (commandSize (tssAuthContext s))) ws"
    and "stream rs = short_frame mssim TPM_ST_NO_SESSIONS n @ tail" "2 \<le> n" "n \<le> 6"
    and "unmarshalFunction (tssAuthContext s) = None" "authCount (tssAuthContext s) = 0"
    and "responseBuffer (tssAuthContext s) = replicate MAX_RESPONSE_SIZE 0"
  shows "\<exists>s'. TSS_AuthExecute_interface s = Some (Inr (), s') \<and> TSS_GetRspAuths (tssAuthContext s') 0 = Some (Inr []) \<and>
    TSS_Unmarshal (tssAuthContext s') False = Some (Inr None) \<and>
    fst (TSS_Dev_ReceiveCommand (replicate MAX_RESPONSE_SIZE 0) 0 (s\<lparr>reads := [be16 TPM_ST_NO_SESSIONS @ be32 n]\<rparr>)) =
      TSS_RC_MALFORMED_RESPONSE"
proof -
  let ?c = "tssAuthContext s" and ?buf = "be16 TPM_ST_NO_SESSIONS @ be32 n @ replicate 4090 0"
  have l: "length (command_bytes ?c 0 (unat (commandSize ?c))) = unat (commandSize ?c)" by (simp add: command_bytes_def)
  have t: "\<exists>rs'. TSS_Socket_ReceiveCommand (replicate MAX_RESPONSE_SIZE 0) (responseSize ?c) t = (0, ?buf, n, t\<lparr>reads := rs'\<rparr>) \<and> stream rs' = tail"
    if "served mssim t" "reads t = rs" for t
    by (rule ReceiveCommand_short [OF that(1) _ assms(7)]) (use that(2) assms(5) in simp)
  obtain s' where s': "TSS_Transmit (command_bytes ?c 0 (unat (commandSize ?c))) (replicate MAX_RESPONSE_SIZE 0) (responseSize ?c) s =
      Some (0, ?buf, n, s')"
    by (rule Transmit_ok [OF assms(1-3), of "command_bytes ?c 0 (unat (commandSize ?c))", unfolded l, OF _ assms(4) t])
      (use unsigned_less [of "commandSize ?c", where ?'a = nat] in simp_all)
  let ?d = "?c\<lparr>responseBuffer := ?buf, responseSize := n\<rparr>"
  have "TSS_AuthExecute_interface s = Some (Inr (), s'\<lparr>tssAuthContext := ?d\<rparr>)"
    using s' by (simp add: TSS_AuthExecute_interface_def Let_def assms(10))
  moreover have "TSS_GetRspAuths ?d 0 = Some (Inr [])"
  proof -
    have "n \<in> {2, 3, 4, 5, 6}" using below_header [OF assms(7)] assms(6) by (auto simp: word_le_nat_alt)
    then have "\<exists>b. TPM_ST_Unmarshal (from_response ?d 0) = Ok TPM_ST_NO_SESSIONS b"
      by (auto simp: from_response_def TPM_ST_Unmarshal_def UINT16_Unmarshal_def u_fixed_def u_bind_def u_take_def u_guard_def u_return_def
        be16_def be32_def)
    with assms(9) show ?thesis by (auto simp: TSS_GetRspAuths_def)
  qed
  moreover have "TSS_Unmarshal ?d False = Some (Inr None)" using assms(8) by (simp add: TSS_Unmarshal_def)
  moreover have "fst (TSS_Dev_ReceiveCommand (replicate MAX_RESPONSE_SIZE 0) 0 (s\<lparr>reads := [be16 TPM_ST_NO_SESSIONS @ be32 n]\<rparr>)) =
      TSS_RC_MALFORMED_RESPONSE"
    by (simp add: TSS_Dev_ReceiveCommand_def Let_def be16_def)
  ultimately show ?thesis by auto
qed

definition example_short :: TSS_INTERFACE where
  "example_short = (example_interface [short_frame True TPM_ST_NO_SESSIONS 6])\<lparr>tssAuthContext := ex_blank\<rparr>"

theorem TSS_Socket_short_response_witness:
  "\<exists>s'. TSS_AuthExecute_interface example_short = Some (Inr (), s') \<and> TSS_GetRspAuths (tssAuthContext s') 0 = Some (Inr []) \<and>
    TSS_Unmarshal (tssAuthContext s') False = Some (Inr None)"
proof -
  let ?rs = "[short_frame True TPM_ST_NO_SESSIONS 6]"
  have "tssInterfaceType example_short = ''socsim''" "served True example_short" "line example_short = Some (?rs, replicate 40 1)"
    by (simp_all add: served_def line_def example_short_def example_interface_def)
  moreover have "short_frame True TPM_ST_NO_SESSIONS 6 \<noteq> []" by (simp add: short_frame_def be32_def)
  then have "stream ?rs = short_frame True TPM_ST_NO_SESSIONS 6 @ []" by simp
  moreover have "tssAuthContext example_short = ex_blank" "progress (9 + unat (commandSize ex_blank)) (replicate 40 1)"
      "unmarshalFunction ex_blank = None" "authCount ex_blank = 0" "responseBuffer ex_blank = replicate 4096 0" "2 \<le> (6 :: 32 word)" "6 \<le> (6 :: 32 word)"
    by (simp_all add: example_short_def ex_blank_def progress_def list_all_length word_le_nat_alt)
  ultimately show ?thesis
    using TSS_Socket_short_response [of example_short True ?rs "replicate 40 1" 6 "[]"] by metis
qed

section \<open>Responses of the device\<close>

lemma Dev_ReceiveCommand_header:
  assumes "TSS_Dev_ReceiveCommand buffer len s = (0, buf, n, s')" "length buffer = MAX_RESPONSE_SIZE"
  shows "10 \<le> unat n \<and> unat n \<le> MAX_RESPONSE_SIZE \<and> length buf = MAX_RESPONSE_SIZE"
proof (cases "reads s")
  case Nil
  with assms(1) show ?thesis by (simp add: TSS_Dev_ReceiveCommand_def)
next
  case (Cons chunk rs)
  let ?bs = "take MAX_RESPONSE_SIZE chunk"
  from assms(1) Cons have "10 \<le> length ?bs" "n = of_nat (length ?bs)" "buf = overwrite 0 ?bs buffer"
    by (simp_all add: TSS_Dev_ReceiveCommand_def Let_def split: if_splits)
  moreover have "length ?bs \<le> MAX_RESPONSE_SIZE" by simp
  ultimately show ?thesis using assms(2) unfolding overwrite_def by (simp add: unat_of_nat del: length_take)
qed

lemma Dev_send_fails:
  "e_bind (first_transmit TSS_Dev_Open) (\<lambda>_. TSS_Dev_SendCommand command) s = Some (Inl rc, t) \<Longrightarrow> rc \<noteq> 0"
proof -
  assume e: "e_bind (first_transmit TSS_Dev_Open) (\<lambda>_. TSS_Dev_SendCommand command) s = Some (Inl rc, t)"
  have send: "TSS_Dev_SendCommand command u = Some (Inl rc, t) \<Longrightarrow> rc \<noteq> 0" for u
    by (auto simp: TSS_Dev_SendCommand_def e_fail_def e_event_def e_return_def split: list.splits if_splits)
  show "rc \<noteq> 0"
  proof (cases "tssFirstTransmit s")
    case False
    with e show ?thesis by (intro send [of s]) (simp add: e_bind_def first_transmit_def e_return_def)
  next
    case True
    have "TSS_Dev_Open s = Some (Inl TSS_RC_NO_CONNECTION, u) \<or> TSS_Dev_Open s = Some (Inr (), u)" if "TSS_Dev_Open s = Some (r, u)" for r u
      using that by (auto simp: TSS_Dev_Open_def next_connection_def e_event_def e_return_def e_fail_def split: list.splits attempt.splits prod.splits)
    with True e send show ?thesis
      by (cases "TSS_Dev_Open s") (fastforce simp: e_bind_def first_transmit_def e_return_def)+
  qed
qed

text \<open>C20. A response that the device gives for a success has a header and fits in the buffer, whatever the device writes; so
  \<open>TSS_Unmarshal\<close> stays inside the buffer for every command of the table.\<close>

theorem TSS_Dev_response_safe:
  assumes "tssInterfaceType s = ''dev''" "TSS_AuthExecute_interface s = Some (Inr (), s')"
    and "made_by e (tssAuthContext s)" "e \<in> set marshalTable" "length (responseBuffer (tssAuthContext s)) = MAX_RESPONSE_SIZE"
  shows "TSS_Unmarshal (tssAuthContext s') out \<noteq> None"
proof -
  let ?c = "tssAuthContext s"
  obtain buf n t where "TSS_Dev_Transmit (command_bytes ?c 0 (unat (commandSize ?c))) (responseBuffer ?c) (responseSize ?c) s = Some (0, buf, n, t)"
      and s': "s' = t\<lparr>tssAuthContext := ?c\<lparr>responseBuffer := buf, responseSize := n\<rparr>\<rparr>"
    using assms(1,2) by (auto simp: TSS_AuthExecute_interface_def TSS_Transmit_def Let_def split: if_splits)
  then obtain u where "TSS_Dev_ReceiveCommand (responseBuffer ?c) (responseSize ?c) u = (0, buf, n, t)"
    by (auto simp: TSS_Dev_Transmit_def then_receive_def dest: Dev_send_fails split: option.splits sum.splits prod.splits)
  from Dev_ReceiveCommand_header [OF this assms(5)] show ?thesis
    by (intro Unmarshal_inside [OF _ assms(4)]) (use s' assms(3) in \<open>auto simp: made_by_def\<close>)
qed


definition example_device :: TSS_INTERFACE where
  "example_device = (example_interface [])\<lparr>tssInterfaceType := ''dev'', tssFirstTransmit := False, writes := [12],
     reads := [[0x80, 1, 0, 0, 0, 10, 0, 0, 0, 0]]\<rparr>"

theorem TSS_Dev_response_safe_witness:
  "\<exists>s'. TSS_AuthExecute_interface example_device = Some (Inr (), s') \<and> TSS_Unmarshal (tssAuthContext s') True \<noteq> None"
proof -
  let ?r = "[0x80, 1, 0, 0, 0, 10, 0, 0, 0, 0] :: byte list"
  have c: "tssAuthContext example_device = ex_random_context\<lparr>responseBuffer := replicate MAX_RESPONSE_SIZE 0\<rparr>" "tssInterfaceType example_device = ''dev''"
    by (simp_all add: example_device_def example_interface_def)
  have "ntohl_at (?r @ xs) 2 = 10" "ntohl_at (?r @ xs) 6 = 0" for xs by (simp_all add: ntohl_at_def)
  then have r: "TSS_Dev_ReceiveCommand b len u = (0, overwrite 0 ?r b, 10, u\<lparr>reads := []\<rparr>)" if "reads u = [?r]" for b len u
    using that unfolding TSS_Dev_ReceiveCommand_def overwrite_def Let_def by simp
  have d: "\<not> tssFirstTransmit example_device" "writes example_device = [12]" "reads example_device = [?r]"
    by (simp_all add: example_device_def)
  have "\<exists>s'. TSS_AuthExecute_interface example_device = Some (Inr (), s')"
    by (simp add: TSS_AuthExecute_interface_def TSS_Transmit_def Let_def TSS_Dev_Transmit_def then_receive_def c e_bind_def first_transmit_def
      TSS_Dev_SendCommand_def e_event_def e_return_def d r)
  then obtain s' where s': "TSS_AuthExecute_interface example_device = Some (Inr (), s')" by blast
  have "made_by marshal_GetRandom (tssAuthContext example_device)" using ex_random_made by (simp add: made_by_def c)
  with TSS_Dev_response_safe [OF c(2) s' _ ex_random_entry(1), of True] s' c(1) show ?thesis by simp
qed

section \<open>Connections\<close>

text \<open>What the library may do with a connection: a state machine over its events, open or not. \<open>None\<close> is a wrong use.\<close>

fun follow :: "bool \<Rightarrow> event list \<Rightarrow> bool option" where
  "follow opened [] = Some opened"
| "follow opened (e # es) = (case e of
      Connected _ _ \<Rightarrow> if opened then None else follow True es
    | Abandoned _ _ \<Rightarrow> if opened then None else follow False es
    | Opened _ \<Rightarrow> if opened then None else follow True es
    | Wrote _ \<Rightarrow> if opened then follow True es else None
    | Closed \<Rightarrow> if opened then follow False es else None)"

lemma follow_append: "follow opened (es @ es') = (case follow opened es of None \<Rightarrow> None | Some b \<Rightarrow> follow b es')"
  by (induction opened es rule: follow.induct) (auto split: event.split)

text \<open>The connection is open exactly when a command was transmitted, over an interface that the library knows.\<close>

definition connection_ok :: "TSS_INTERFACE \<Rightarrow> bool" where
  "connection_ok s \<longleftrightarrow> follow False (events s) = Some (\<not> tssFirstTransmit s) \<and>
     (\<not> tssFirstTransmit s \<longrightarrow> tssInterfaceType s \<in> {''socsim'', ''dev''})"

definition opened_ok :: "TSS_INTERFACE \<Rightarrow> bool" where
  "opened_ok s \<longleftrightarrow> connection_ok s \<and> \<not> tssFirstTransmit s"

text \<open>The uses of the library between \<open>TSS_Create\<close> and \<open>TSS_Delete\<close>.\<close>

inductive connected :: "TSS_INTERFACE \<Rightarrow> bool" where
  created: "connected s" if "tssFirstTransmit s" "events s = []"
| transmit: "connected s'" if "connected s" "TSS_Transmit command buffer len s = Some (rc, buf, n, s')"
| platform: "connected s'" if "connected s" "TSS_TransmitPlatform command s = Some (r, s')"
| property: "connected s'" if "connected s" "TSS_SetProperty getenv property value s = Some (r, s')"
| closed: "connected s'" if "connected s" "TSS_Close s = Some (r, s')"

lemma keeps_opened [keeps_intro]:
  "keeps opened_ok (TSS_Socket_SendBytes bs)" "keeps opened_ok (TSS_Dev_SendCommand bs)"
  by (auto simp: keeps_def opened_ok_def connection_ok_def TSS_Socket_SendBytes_def TSS_Dev_SendCommand_def e_bind_def e_event_def e_return_def
      e_fail_def follow_append split: prod.splits list.splits if_splits)

lemma keeps_mssim [keeps_intro]: "keeps I e_mssim"
  by (simp add: keeps_lift_of e_mssim_def [abs_def])

lemma keeps_sends [keeps_intro]: "keeps opened_ok (TSS_Socket_SendCommand bs)" "keeps opened_ok (TSS_Socket_SendPlatform command)"
  unfolding TSS_Socket_SendCommand_def TSS_Socket_SendPlatform_def by (intro keeps_intro)+



text \<open>Opening a connection when none is open.\<close>

definition closed_ok :: "TSS_INTERFACE \<Rightarrow> bool" where
  "closed_ok s \<longleftrightarrow> connection_ok s \<and> tssInterfaceType s \<in> {''socsim'', ''dev''} \<and> tssFirstTransmit s"

definition opened_now :: "TSS_INTERFACE \<Rightarrow> bool" where
  "opened_now s \<longleftrightarrow> opened_ok (s\<lparr>tssFirstTransmit := False\<rparr>)"

abbreviation opens :: "unit tif \<Rightarrow> bool" where
  "opens m \<equiv> triple closed_ok m (\<lambda>_. opened_now) connection_ok"

lemma opens_next: "(\<exists>a p. e = Connected a p) \<or> (\<exists>d. e = Opened d) \<Longrightarrow> opens (next_connection e)"
  by (auto simp: triple_def next_connection_def e_event_def e_return_def e_fail_def closed_ok_def opened_now_def connection_ok_def opened_ok_def
      follow_append split: list.splits attempt.splits)

lemma triple_mssim [triple_intro]: "(\<And>s. P s \<Longrightarrow> E s) \<Longrightarrow> triple P e_mssim (\<lambda>_. P) E"
  by (simp add: triple_def e_mssim_def e_lift_def TSS_Socket_GetServerType_def r_return_def r_fail_def)

lemma closed_weaken: "closed_ok s \<Longrightarrow> connection_ok s"
  by (simp add: closed_ok_def)

lemma opens_interface: "opens (TSS_Socket_Open port)" "opens TSS_Dev_Open"
proof -
  have "case r of Inl rc \<Rightarrow> connection_ok s' | Inr _ \<Rightarrow> opened_now s'" if "closed_ok s" "TSS_Socket_Open port s = Some (r, s')" for s r s'
  proof (cases "\<exists>cs. connections s = Unconnected # cs")
    case True
    with that show ?thesis
      by (auto simp: TSS_Socket_Open_def e_bind_def e_event_def e_return_def e_fail_def closed_ok_def connection_ok_def follow_append)
  next
    case False
    with that(2) have "next_connection (Connected (tssServerName s) port) s = Some (r, s')"
      by (auto simp: TSS_Socket_Open_def split: list.splits attempt.splits)
    from tripleD [OF opens_next that(1) this] show ?thesis by blast
  qed
  then show "opens (TSS_Socket_Open port)" unfolding triple_def by blast
  show "opens TSS_Dev_Open" unfolding TSS_Dev_Open_def [abs_def] by (rule triple_of, rule opens_next, blast)
qed

lemma opens_socket: "opens (e_bind e_mssim (\<lambda>_ s. TSS_Socket_Open (tssCommandPort s) s))"
  "opens (e_bind e_mssim (\<lambda>mssim. e_guard (\<not> mssim) rc (\<lambda>s. TSS_Socket_Open (tssPlatformPort s) s)))"
proof -
  note port = triple_of [of closed_ok "\<lambda>s. TSS_Socket_Open (_ s)", OF opens_interface(1)]
  show "opens (e_bind e_mssim (\<lambda>_ s. TSS_Socket_Open (tssCommandPort s) s))"
    by (rule triple_bind [OF triple_mssim [OF closed_weaken]], assumption, rule port)
  show "opens (e_bind e_mssim (\<lambda>mssim. e_guard (\<not> mssim) rc (\<lambda>s. TSS_Socket_Open (tssPlatformPort s) s)))"
    by (rule triple_bind [OF triple_mssim [OF closed_weaken]], assumption, rule triple_guard [OF closed_weaken port])
qed

lemma first_transmit_opens:
  assumes "opens m" "connection_ok s" "tssInterfaceType s \<in> {''socsim'', ''dev''}" "first_transmit m s = Some (r, s')"
  shows "case r of Inl rc \<Rightarrow> connection_ok s' | Inr _ \<Rightarrow> opened_ok s'"
proof (cases "tssFirstTransmit s")
  case True
  have "triple closed_ok (e_bind m (\<lambda>_ s. e_return () (s\<lparr>tssFirstTransmit := False\<rparr>))) (\<lambda>_. opened_ok) connection_ok"
    by (rule triple_bind [OF assms(1)]) (simp add: triple_def e_return_def opened_now_def)
  from tripleD [OF this] assms(2-4) True show ?thesis by (simp add: first_transmit_def closed_ok_def)
next
  case False
  with assms(2,4) show ?thesis by (auto simp: first_transmit_def e_return_def opened_ok_def)
qed

text \<open>Behind that, a function that uses the open connection.\<close>

definition usable :: "TSS_INTERFACE \<Rightarrow> bool" where
  "usable s \<longleftrightarrow> connection_ok s \<and> tssInterfaceType s \<in> {''socsim'', ''dev''}"

lemma opened_weaken: "opened_ok s \<Longrightarrow> connection_ok s"
  by (simp add: opened_ok_def)

lemma transmits:
  assumes "opens m" "keeps opened_ok f"
  shows "triple usable (e_bind (first_transmit m) (\<lambda>_. f)) (\<lambda>_. opened_ok) connection_ok"
proof (rule triple_bind)
  show "triple usable (first_transmit m) (\<lambda>_. opened_ok) connection_ok"
    unfolding triple_def usable_def using first_transmit_opens [OF assms(1)] by blast
  show "triple opened_ok f (\<lambda>_. opened_ok) connection_ok"
    by (rule triple_weaken [OF triple_keeps [OF assms(2)]]) (simp_all add: opened_weaken)
qed

text \<open>Receiving changes only what the connection still brings.\<close>

lemma ReceiveBytes_reads: "TSS_Socket_ReceiveBytes n s = (rc, bs, s') \<Longrightarrow> s'\<lparr>reads := []\<rparr> = s\<lparr>reads := []\<rparr>"
  by (auto simp: TSS_Socket_ReceiveBytes_def split: prod.splits)

lemma receive_mssim_reads: "receive_mssim mssim s = (rc, bs, s') \<Longrightarrow> s'\<lparr>reads := []\<rparr> = s\<lparr>reads := []\<rparr>"
  by (cases mssim) (auto simp: receive_mssim_def dest: ReceiveBytes_reads)

lemma ReceiveCommand_reads: "TSS_Socket_ReceiveCommand buffer len s = (rc, buf, n, s') \<Longrightarrow> s'\<lparr>reads := []\<rparr> = s\<lparr>reads := []\<rparr>"
  unfolding TSS_Socket_ReceiveCommand_def Let_def
  by (auto dest!: ReceiveBytes_reads receive_mssim_reads split: option.splits sum.splits prod.splits if_splits)

lemma Dev_ReceiveCommand_reads: "TSS_Dev_ReceiveCommand buffer len s = (rc, buf, n, s') \<Longrightarrow> s'\<lparr>reads := []\<rparr> = s\<lparr>reads := []\<rparr>"
  unfolding TSS_Dev_ReceiveCommand_def Let_def by (auto split: list.splits if_splits)

lemma reads_ok [simp]: "connection_ok (s\<lparr>reads := rs\<rparr>) = connection_ok s"
  by (simp add: connection_ok_def)

lemma same_ok: "s'\<lparr>reads := []\<rparr> = s\<lparr>reads := []\<rparr> \<Longrightarrow> connection_ok s \<Longrightarrow> connection_ok s'"
  by (metis reads_ok)

lemma then_receive_ok:
  assumes "triple P m (\<lambda>_. opened_ok) connection_ok" "P s" "then_receive m receive buffer len s = Some (rc, buf, n, s')"
    and "\<And>t. receive t = (rc, buf, n, s') \<Longrightarrow> s'\<lparr>reads := []\<rparr> = t\<lparr>reads := []\<rparr>"
  shows "connection_ok s'"
proof -
  from assms(3) obtain r t where m: "m s = Some (r, t)" and r: "s' = t \<or> (\<exists>x. r = Inr x) \<and> receive t = (rc, buf, n, s')"
    by (auto simp: then_receive_def split: option.splits prod.splits sum.splits)
  from tripleD [OF assms(1,2) m] have t: "connection_ok t" by (cases r) (simp_all add: opened_ok_def)
  with r same_ok [OF assms(4)] show ?thesis by blast
qed

lemma Transmit_connection:
  assumes "connection_ok s" "TSS_Transmit command buffer len s = Some (rc, buf, n, s')"
  shows "connection_ok s'"
proof -
  consider "tssInterfaceType s = ''socsim''" | "tssInterfaceType s = ''dev''" | "tssInterfaceType s \<notin> {''socsim'', ''dev''}" by auto
  then show ?thesis
  proof cases
    case 1
    show ?thesis
      by (rule then_receive_ok [OF transmits [OF opens_socket(1) keeps_sends(1)]])
        (use assms 1 in \<open>auto simp: usable_def TSS_Transmit_def TSS_Socket_Transmit_def intro: ReceiveCommand_reads\<close>)
  next
    case 2
    show ?thesis
      by (rule then_receive_ok [OF transmits [OF opens_interface(2) keeps_opened(2)]])
        (use assms 2 in \<open>auto simp: usable_def TSS_Transmit_def TSS_Dev_Transmit_def intro: Dev_ReceiveCommand_reads\<close>)
  qed (use assms in \<open>simp add: TSS_Transmit_def\<close>)
qed


lemma keeps_platform [keeps_intro]:
  "keeps opened_ok (\<lambda>s. case TSS_Socket_ReceivePlatform s of (rc, s) \<Rightarrow> if rc = 0 then e_return () s else e_fail rc s)"
  by (auto simp: keeps_def TSS_Socket_ReceivePlatform_def TSS_Socket_ReceiveBytes_def opened_ok_def e_return_def e_fail_def
      split: prod.splits if_splits)

lemma TransmitPlatform_connection:
  assumes "connection_ok s" "TSS_TransmitPlatform command s = Some (r, s')"
  shows "connection_ok s'"
proof (cases "tssInterfaceType s = ''socsim''")
  case True
  have "triple usable (TSS_Socket_TransmitPlatform command) (\<lambda>_. opened_ok) connection_ok"
    unfolding TSS_Socket_TransmitPlatform_def by (rule transmits [OF opens_socket(2)]) (intro keeps_intro)
  from tripleD [OF this, of s r s'] assms True show ?thesis
    by (cases r) (simp_all add: TSS_TransmitPlatform_def usable_def opened_ok_def)
qed (use assms in \<open>simp add: TSS_TransmitPlatform_def e_fail_def\<close>)

text \<open>Closing, and the properties that close first.\<close>

definition shut_ok :: "TSS_INTERFACE \<Rightarrow> bool" where
  "shut_ok s \<longleftrightarrow> connection_ok s \<and> tssFirstTransmit s"

lemma Socket_Close_shuts: "opened_ok s \<Longrightarrow> TSS_Socket_Close s = Some (r, s') \<Longrightarrow> shut_ok (s'\<lparr>tssFirstTransmit := True\<rparr>)"
proof -
  assume o: "opened_ok s" and c: "TSS_Socket_Close s = Some (r, s')"
  let ?m = "e_bind e_mssim (\<lambda>mssim. if mssim then TSS_Socket_SendBytes (be32 TPM_SESSION_END) else e_return ())"
  have "keeps opened_ok ?m" by (intro keeps_intro)
  moreover from c obtain q t where "?m s = Some (q, t)" "events s' = events t @ [Closed]"
    by (auto simp: TSS_Socket_Close_def Let_def split: option.splits prod.splits)
  ultimately show ?thesis using keepsD [of opened_ok ?m s q t] o by (auto simp: shut_ok_def opened_ok_def connection_ok_def follow_append)
qed

lemma Close_shuts: "triple connection_ok TSS_Close (\<lambda>_. shut_ok) shut_ok"
proof -
  have "shut_ok s'" if "connection_ok s" "TSS_Close s = Some (r, s')" for s r s'
  proof (cases "tssFirstTransmit s")
    case False
    with that(1) consider "tssInterfaceType s = ''socsim''" | "tssInterfaceType s = ''dev''" by (auto simp: connection_ok_def)
    then show ?thesis
    proof cases
      case 1
      with that False show ?thesis by (auto simp: TSS_Close_def opened_ok_def intro: Socket_Close_shuts)
    next
      case 2
      with that False show ?thesis
        by (auto simp: TSS_Close_def TSS_Dev_Close_def e_event_def e_return_def shut_ok_def connection_ok_def follow_append)
    qed
  qed (use that in \<open>simp add: TSS_Close_def e_return_def shut_ok_def\<close>)
  then show ?thesis unfolding triple_def by (auto split: sum.split)
qed

lemma shut_update: "shut_ok s \<Longrightarrow> events s' = events s \<Longrightarrow> tssFirstTransmit s' = tssFirstTransmit s \<Longrightarrow> shut_ok s'"
  by (simp add: shut_ok_def connection_ok_def)

lemma shut_closes:
  assumes "\<And>s r s'. m s = Some (r, s') \<Longrightarrow> events s' = events s \<and> tssFirstTransmit s' = tssFirstTransmit s"
  shows "triple connection_ok (e_bind TSS_Close (\<lambda>_. m)) (\<lambda>_. shut_ok) shut_ok"
  by (rule triple_bind [OF Close_shuts]) (auto simp: triple_def dest: assms intro: shut_update split: sum.split)

lemma setters_close:
  "triple connection_ok (TSS_SetCommandPort value) (\<lambda>_. shut_ok) shut_ok"
  "triple connection_ok (TSS_SetPlatformPort value) (\<lambda>_. shut_ok) shut_ok"
  "triple connection_ok (TSS_SetServerName value) (\<lambda>_. shut_ok) shut_ok"
  "triple connection_ok (TSS_SetServerType value) (\<lambda>_. shut_ok) shut_ok"
  "triple connection_ok (TSS_SetInterfaceType value) (\<lambda>_. shut_ok) shut_ok"
  "triple connection_ok (TSS_SetDevice value) (\<lambda>_. shut_ok) shut_ok"
  unfolding TSS_SetCommandPort_def TSS_SetPlatformPort_def TSS_SetServerName_def TSS_SetServerType_def TSS_SetInterfaceType_def TSS_SetDevice_def
  by (rule shut_closes, auto simp: e_bind_def e_lift_def e_return_def split: option.splits sum.splits)+

lemma keeps_other_setters [keeps_intro]:
  "keeps connection_ok (TSS_SetTraceLevel value)" "keeps connection_ok (TSS_SetDataDirectory value)"
  "keeps connection_ok (TSS_SetEncryptSessions value)" "keeps connection_ok TSS_Crypto_Init"
  by (auto simp: keeps_def TSS_SetTraceLevel_def TSS_SetDataDirectory_def TSS_SetEncryptSessions_def TSS_Crypto_Init_def TSS_AES_KeyGenerate_def
      TSS_RandBytes_def e_bind_def e_lift_def e_return_def e_fail_def connection_ok_def split: option.splits sum.splits if_splits)

lemma keeps_first_call [keeps_intro]: "keeps connection_ok (first_call getenv)"
  unfolding keeps_def
proof (intro allI impI)
  fix s r s' assume i: "connection_ok s" and e: "first_call getenv s = Some (r, s')"
  let ?m = "e_bind TSS_Crypto_Init (\<lambda>_. TSS_GlobalProperties_Init getenv)"
  have k: "keeps connection_ok ?m" unfolding TSS_GlobalProperties_Init_def by (intro keeps_intro)
  show "connection_ok s'"
  proof (cases "tssFirstCall s")
    case True
    with e obtain t where "?m s = Some (r, t)" "s' = t\<lparr>tssFirstCall := False\<rparr>" by (auto simp: first_call_def)
    with keepsD [OF k i, of r t] show ?thesis by (simp add: connection_ok_def)
  qed (use i e in \<open>simp add: first_call_def e_return_def\<close>)
qed

lemma keeps_shut: "triple connection_ok m (\<lambda>_. shut_ok) shut_ok \<Longrightarrow> keeps connection_ok m"
  by (rule keeps_triple, erule triple_weaken) (simp_all add: shut_ok_def)

lemma keeps_SetProperty: "keeps connection_ok (TSS_SetProperty getenv property value)"
  unfolding TSS_SetProperty_def set_property.simps by (intro keeps_intro setters_close [THEN keeps_shut])

text \<open>C19. However a context is used, from its creation on, with commands, platform commands and properties, successful or not: a connection
  is opened, or attempted, only when none is open, and what is written is written to the open one. \<open>TSS_Delete\<close> leaves none open. So
  changing an address while a command was sent over the old one never loses the connection. Only the descriptors of failed attempts, the
  \<open>Abandoned\<close> events, are not closed.\<close>

theorem TSS_connections_safe:
  assumes "connected s"
  shows "follow False (events s) = Some (\<not> tssFirstTransmit s) \<and>
    (\<forall>r s'. TSS_Delete s = Some (r, s') \<longrightarrow> follow False (events s') = Some False)"
proof -
  have ok: "connection_ok s" using assms
  proof (induction rule: connected.induct)
    case (created s)
    then show ?case by (simp add: connection_ok_def)
  next
    case (transmit s command buffer len rc buf n s')
    then show ?case using Transmit_connection by blast
  next
    case (platform s command r s')
    then show ?case using TransmitPlatform_connection by blast
  next
    case (property s getenv p v r s')
    then show ?case using keepsD [OF keeps_SetProperty] by blast
  next
    case (closed s r s')
    then show ?case using keepsD [OF keeps_shut [OF Close_shuts]] by blast
  qed
  moreover have "shut_ok s'" if "TSS_Delete s = Some (r, s')" for r s'
    using tripleD [OF Close_shuts ok, of r s'] that by (cases r) (simp_all add: TSS_Delete_def)
  ultimately show ?thesis by (simp add: shut_ok_def connection_ok_def)
qed


definition example_closed :: TSS_INTERFACE where
  "example_closed = (example_interface [])\<lparr>tssInterfaceType := ''dev'', connections := [Accepted [[0x80, 1, 0, 0, 0, 10, 0, 0, 0, 0]] [12]]\<rparr>"

theorem TSS_connections_safe_witness: "\<exists>s. connected s \<and> \<not> tssFirstTransmit s \<and> follow False (events s) = Some True"
proof -
  let ?s = example_closed
  have f: "tssInterfaceType ?s = ''dev''" "tssFirstTransmit ?s" "events ?s = []" "writes ?s = []"
      "connections ?s = [Accepted [[0x80, 1, 0, 0, 0, 10, 0, 0, 0, 0]] [12]]"
    by (simp_all add: example_closed_def example_interface_def)
  have c: "connected ?s" using f(2,3) by (rule connected.created)
  have "\<exists>rc buf n s'. TSS_Transmit [0] [] 0 ?s = Some (rc, buf, n, s') \<and> \<not> tssFirstTransmit s'"
    using f by (auto simp: TSS_Transmit_def TSS_Dev_Transmit_def then_receive_def e_bind_def first_transmit_def TSS_Dev_Open_def next_connection_def
      e_event_def e_return_def TSS_Dev_SendCommand_def TSS_Dev_ReceiveCommand_def Let_def)
  then obtain rc buf n s' where "TSS_Transmit [0] [] 0 ?s = Some (rc, buf, n, s')" "\<not> tssFirstTransmit s'" by blast
  with connected.transmit [OF c] have "connected s'" by blast
  from TSS_connections_safe [OF this] this \<open>\<not> tssFirstTransmit s'\<close> show ?thesis by auto
qed

section \<open>A first call that fails\<close>

lemma default_ports: "scan_property 16 None ''2321'' = r_return 2321" "scan_property 16 None ''2322'' = r_return 2322"
  "scan_property 32 None ''1'' = r_return 1"
  by (simp_all add: scan_property_def scan_unsigned_def is_space_def is_digit_def digits_value_def r_need_def)

lemma Close_unopened: "tssFirstTransmit s \<Longrightarrow> TSS_Close s = Some (Inr (), s)"
  by (simp add: TSS_Close_def e_return_def)

text \<open>C37. When the random numbers fail while the first context is created, \<open>TSS_Create\<close> returns the error, but the first call counts: the next
  \<open>TSS_Create\<close> succeeds without the key that encrypts the sessions, and \<open>TSS_AES_Encrypt\<close> then uses one that was never set.\<close>

theorem TSS_Create_after_failure:
  assumes "tssFirstCall s" "length (random s) < 16" "aes_key s = None"
  shows "\<exists>s' s''. TSS_Create (\<lambda>_. None) s = Some (Inl TSS_RC_RNG_FAILURE, s') \<and> TSS_Create (\<lambda>_. None) s' = Some (Inr (), s'') \<and>
    aes_key s'' = None \<and> tssEncryptSessions s'' \<and> (\<forall>L d. length d < 0x10000 - 16 \<longrightarrow> TSS_AES_Encrypt L d s'' = None)"
proof -
  let ?s' = "s\<lparr>tssFirstCall := False\<rparr>"
  have 1: "TSS_Create (\<lambda>_. None) s = Some (Inl TSS_RC_RNG_FAILURE, ?s')"
    using assms(1,2) by (simp add: TSS_Create_def TSS_Context_Init_def first_call_def TSS_Crypto_Init_def TSS_AES_KeyGenerate_def TSS_RandBytes_def
      e_bind_def e_fail_def)
  have "\<exists>s''. TSS_Create (\<lambda>_. None) ?s' = Some (Inr (), s'') \<and> aes_key s'' = aes_key s \<and> tssEncryptSessions s''"
    by (simp add: TSS_Create_def TSS_Context_Init_def first_call_def TSS_Properties_Init_def TSS_SetDataDirectory_def TSS_SetEncryptSessions_def
      TSS_SetCommandPort_def TSS_SetPlatformPort_def TSS_SetServerName_def TSS_SetServerType_def TSS_SetInterfaceType_def TSS_SetDevice_def
      default_ports e_bind_def e_lift_def e_return_def r_return_def Close_unopened)
  then obtain s'' where 2: "TSS_Create (\<lambda>_. None) ?s' = Some (Inr (), s'')" "aes_key s'' = None" "tssEncryptSessions s''"
    using assms(3) by auto
  have "TSS_AES_Encrypt L d s'' = None" if "length d < 0x10000 - 16" for L :: "'z crypto_scheme" and d
  proof -
    have "0 < length d + (16 - length d mod 16)" "length d + (16 - length d mod 16) \<le> 0x10000" using that by simp_all
    then have "TSS_Malloc True (of_nat (length d + (16 - length d mod 16))) = r_return ()" by (rule Malloc_ok)
    then show ?thesis unfolding TSS_AES_Encrypt_def Let_def using 2(2) by (simp only: e_lift_def r_bind_def r_return_def) simp
  qed
  with 1 2 show ?thesis by blast
qed

theorem TSS_Create_after_failure_witness:
  "\<exists>s' s''. TSS_Create (\<lambda>_. None) (example_interface []) = Some (Inl TSS_RC_RNG_FAILURE, s') \<and> TSS_Create (\<lambda>_. None) s' = Some (Inr (), s'') \<and>
    aes_key s'' = None"
  using TSS_Create_after_failure [of "example_interface []"] by (auto simp: example_interface_def)

end
