(* ===== verification/Tss_Store_Correct.thy ===== *)
theory Tss_Store_Correct
  imports Tss_Session_Correct Tss_Keeps
begin

text \<open>
  The stores of \<^verbatim>\<open>tss.c\<close>. Each of them keeps a kind of values in files, one for a handle, and meets the laws of the locale
  \<open>handle_store\<close>. What the functions after a command do to the stores is a step of a state machine; its invariant is that
  every NV index that is stored has the Name of its public area.
\<close>

section \<open>Stores by handle\<close>

lemma file_of_files [simp]: "file_of (s\<lparr>files := f\<rparr>) prefix h = file_of s prefix h"
  by (simp add: file_of_def)

lemma short_directory_files [simp]: "short_directory (s\<lparr>files := f\<rparr>) = short_directory s"
  by (simp add: short_directory_def)

text \<open>
  The laws: a value is written with its bytes to the file of the handle, and read from a file with its bytes when that can be
  read. What the client of a store gets from them: a value that was put is the one that is got, and a put leaves the values of the
  other handles alone, also when it fails.
\<close>

locale handle_store =
  fixes put :: "'v \<Rightarrow> TPM_HANDLE \<Rightarrow> unit tss"
    and get :: "TPM_HANDLE \<Rightarrow> 'v tss"
    and prefix :: string
    and encodes :: "'v \<Rightarrow> byte list \<Rightarrow> bool"
  assumes put: "short_directory s \<Longrightarrow> h \<noteq> 0 \<Longrightarrow> encodes v bs \<Longrightarrow> put v h s = TSS_File_WriteBinaryFile bs (file_of s prefix h) s"
    and get: "short_directory s \<Longrightarrow> h \<noteq> 0 \<Longrightarrow> encodes v bs \<Longrightarrow> files s (file_of s prefix h) = Some bs \<Longrightarrow>
      readable s (file_of s prefix h) \<Longrightarrow> get h s = Some (Inr v, s)"
begin

lemma put_written:
  assumes "short_directory s" "h \<noteq> 0" "encodes v bs" "writable s (file_of s prefix h)"
  shows "put v h s = Some (Inr (), s\<lparr>files := (files s)(file_of s prefix h \<mapsto> bs)\<rparr>)"
  using assms by (simp add: put write_file)

lemma put_refused:
  assumes "short_directory s" "h \<noteq> 0" "encodes v bs" "on_write s (file_of s prefix h) = Not_opened"
  shows "put v h s = Some (Inl TSS_RC_FILE_OPEN, s)"
  using assms by (simp add: put TSS_File_WriteBinaryFile_def e_fail_def)

lemma put_effect:
  assumes "short_directory s" "h \<noteq> 0" "encodes v bs" "put v h s = Some (r, s')"
  obtains x where "s' = s\<lparr>files := (files s)(file_of s prefix h := x)\<rparr>" "r = Inr () \<Longrightarrow> x = Some bs"
proof -
  from assms(4) have "TSS_File_WriteBinaryFile bs (file_of s prefix h) s = Some (r, s')" by (simp add: put [OF assms(1-3)])
  then show ?thesis
  proof (cases rule: write_effect)
    case 1
    with that [of "files s (file_of s prefix h)"] show ?thesis by simp
  qed (use that in auto)
qed

lemma get_put:
  assumes "short_directory s" "h \<noteq> 0" "encodes v bs" "put v h s = Some (Inr (), s')" "readable s (file_of s prefix h)"
  shows "get h s' = Some (Inr v, s')"
proof -
  from put_effect [OF assms(1-4)] have s': "s' = s\<lparr>files := (files s)(file_of s prefix h \<mapsto> bs)\<rparr>" by blast
  show ?thesis using assms(1,5) by (intro get [OF _ assms(2,3)]) (simp_all add: s')
qed

lemma get_other:
  assumes "short_directory s" "h \<noteq> 0" "encodes v bs" "put v h s = Some (r, s')" "h' \<noteq> h"
    and "h' \<noteq> 0" "encodes v' bs'" "files s (file_of s prefix h') = Some bs'" "readable s (file_of s prefix h')"
  shows "get h' s' = Some (Inr v', s')"
proof -
  from put_effect [OF assms(1-4)] obtain x where s': "s' = s\<lparr>files := (files s)(file_of s prefix h := x)\<rparr>" by blast
  show ?thesis using assms(1,5,8,9) by (intro get [OF _ assms(6,7)]) (simp_all add: s')
qed

end

lemma object_file_handle: "h \<noteq> 0 \<Longrightarrow> object_file prefix h None = handle_file prefix h"
  by (simp add: fun_eq_iff object_file_def)

lemma Malloc_16: "bs \<noteq> [] \<Longrightarrow> length bs < 2 ^ 16 \<Longrightarrow> TSS_Malloc True (ucast (of_nat (length bs) :: 16 word)) = r_return ()"
proof -
  assume b: "bs \<noteq> []" "length bs < 2 ^ 16"
  then have "(ucast (of_nat (length bs) :: 16 word) :: 32 word) = of_nat (length bs)"
    by (simp add: word_unat_eq_iff unat_ucast_16 unat_of_nat)
  with b show ?thesis by simp
qed

text \<open>A structure that its unmarshal function reads from some bytes is written as these bytes.\<close>

lemma structure_written:
  assumes r: "reads k [] u m" and p: "parses u bs v" and l: "bs \<noteq> []" "length bs < 2 ^ 16"
  shows "TSS_Structure_Marshal (m v) = r_return bs"
  unfolding TSS_Structure_Marshal_def
proof (rule marshal_twice_ok)
  have "emits k (m v) 0 bs" by (rule parses_emits [OF r p]) (use l in simp)
  then show "good s \<Longrightarrow> fits (length bs) s \<Longrightarrow> m v s = Done 0 (emit bs s)" for s by (rule emits_fits)
qed (use l Malloc_16 in auto)

lemma structure_read:
  assumes "parses u bs v" "length bs < 2 ^ 16" "files s fn = Some bs" "readable s fn"
  shows "TSS_File_ReadStructure u fn s = Some (Inr v, s)"
proof -
  have "s32 (int (length bs)) = int (length bs)" using assms(2) by (simp add: s32_def)
  moreover have "u \<lparr>rest = bs, avail = int (length bs)\<rparr> = Ok v \<lparr>rest = [], avail = 0\<rparr>" using parses_exact [OF assms(1)] assms(2) by simp
  moreover have "read_and_free fn s = Some (Inr bs, s)" using assms by (simp add: read_file)
  ultimately show ?thesis by (simp add: TSS_File_ReadStructure_def e_bind_Some(1) [of "read_and_free fn"] e_return_def)
qed

text \<open>The three stores: of Names, of public areas of objects, and of public areas of NV indexes.\<close>

definition name_encodes :: "TPM2B \<Rightarrow> byte list \<Rightarrow> bool" where
  "name_encodes v bs \<longleftrightarrow> TPM2B_exact 132 v \<and> bs = TPM2B_buffer v"

definition encodes_by :: "'v unmarshal \<Rightarrow> 'v \<Rightarrow> byte list \<Rightarrow> bool" where
  "encodes_by u v bs \<longleftrightarrow> parses u bs v \<and> bs \<noteq> [] \<and> length bs < 2 ^ 16"

lemma structure_store:
  assumes "encodes_by u v bs" "reads k [] u m"
  shows "TSS_File_WriteStructure (m v) = TSS_File_WriteBinaryFile bs" "files s fn = Some bs \<Longrightarrow> readable s fn \<Longrightarrow> TSS_File_ReadStructure u fn s = Some (Inr v, s)"
  using assms structure_written [of k u m bs v] structure_read [of u bs v s fn]
  by (simp_all add: fun_eq_iff TSS_File_WriteStructure_def encodes_by_def)

interpretation names: handle_store "\<lambda>v h. TSS_Name_Store v h None" "\<lambda>h. TSS_Name_Load h None" "''h''" name_encodes
proof
  show "TSS_Name_Store v h None s = TSS_File_WriteBinaryFile bs (file_of s ''h'' h) s"
    if "short_directory s" "h \<noteq> 0" "name_encodes v bs" for s h v bs
    using that by (simp add: TSS_Name_Store_def object_file_handle name_encodes_def TPM2B_exact_def TPM2B_ok_def TPM2B_bytes_def)
  show "TSS_Name_Load h None s = Some (Inr v, s)"
    if s: "short_directory s" "h \<noteq> 0" "name_encodes v bs" "files s (file_of s ''h'' h) = Some bs" "readable s (file_of s ''h'' h)" for s h v bs
  proof -
    from s(3) have l: "length bs = unat (TPM2B_size v)" "length bs \<le> 132" "TPM2B_buffer v = bs" by (simp_all add: name_encodes_def TPM2B_exact_def)
    have w: "unat (of_nat (length bs) :: 16 word) = length bs" "\<not> (of_nat (length bs) :: 16 word) > 132"
      using l(2) by (simp_all add: unat_of_nat word_less_nat_alt)
    have "of_nat (length bs) = TPM2B_size v" by (simp add: l(1))
    with w l have "TSS_TPM2B_Create 132 bs (of_nat (length bs)) 132 = r_return v" by (cases v) (simp add: TSS_TPM2B_Create_def)
    moreover have "read_and_free (file_of s ''h'' h) s = Some (Inr bs, s)" using s(4,5) l(2) by (simp add: read_file)
    ultimately show ?thesis using s(1,2)
      by (simp add: TSS_Name_Load_def object_file_handle TSS_File_Read2B_def e_bind_Some(1) [of "read_and_free _"] e_return_def)
  qed
qed

interpretation publics: handle_store "\<lambda>v h. TSS_Public_Store v h None" "\<lambda>h. TSS_Public_Load allowNull h None" "''hp''"
  "encodes_by (TPM2B_PUBLIC_Unmarshal allowNull)" for allowNull
proof (unfold_locales, goal_cases)
  case (1 s h v bs)
  then show ?case by (simp add: TSS_Public_Store_def object_file_handle structure_store(1) [OF 1(3) TPM2B_PUBLIC_codec [OF order_refl]])
next
  case (2 s h v bs)
  then show ?case using structure_store(2) [OF 2(3) TPM2B_PUBLIC_codec [OF order_refl] 2(4,5)] by (simp add: TSS_Public_Load_def object_file_handle)
qed

interpretation nv_publics: handle_store TSS_NVPublic_Store TSS_NVPublic_Load "''nvp''" "encodes_by TPMS_NV_PUBLIC_Unmarshal"
proof (unfold_locales, goal_cases)
  case (1 s h v bs)
  then show ?case by (simp add: TSS_NVPublic_Store_def structure_store(1) [OF 1(3) TPMS_NV_PUBLIC_codec [where k = 0]])
next
  case (2 s h v bs)
  then show ?case using structure_store(2) [OF 2(3) TPMS_NV_PUBLIC_codec [where k = 0] 2(4,5)] by (simp add: TSS_NVPublic_Load_def)
qed

section \<open>The Name of an NV index\<close>

text \<open>The public areas that the TPM and the library accept, their bytes, and the Name: the algorithm and the digest of the bytes.\<close>

definition nv_ok :: "TPMS_NV_PUBLIC \<Rightarrow> bool" where
  "nv_ok p \<longleftrightarrow> NV_INDEX_FIRST \<le> TPMS_NV_PUBLIC_nvIndex p \<and> TPMS_NV_PUBLIC_nvIndex p \<le> NV_INDEX_LAST \<and>
     TPMS_NV_PUBLIC_nameAlg p \<in> {TPM_ALG_SHA1, TPM_ALG_SHA256, TPM_ALG_SHA384} \<and> TPMS_NV_PUBLIC_attributes p AND TPMA_NV_RESERVED = 0 \<and>
     TPM2B_exact (unat (sizeof_TPMU_HA :: 16 word)) (TPMS_NV_PUBLIC_authPolicy p) \<and> TPMS_NV_PUBLIC_dataSize p \<le> MAX_NV_INDEX_SIZE"

definition nv_bytes :: "TPMS_NV_PUBLIC \<Rightarrow> byte list" where
  "nv_bytes p = be32 (TPMS_NV_PUBLIC_nvIndex p) @ be16 (TPMS_NV_PUBLIC_nameAlg p) @ be32 (TPMS_NV_PUBLIC_attributes p) @
     sized_bytes (TPMS_NV_PUBLIC_authPolicy p) @ be16 (TPMS_NV_PUBLIC_dataSize p)"

definition nv_name :: "'z openssl_scheme \<Rightarrow> TPMS_NV_PUBLIC \<Rightarrow> byte list" where
  "nv_name L p = be16 (TPMS_NV_PUBLIC_nameAlg p) @ EVP_Digest L (the (GetHashServer (TPMS_NV_PUBLIC_nameAlg p))) (nv_bytes p)"

lemma length_nv_bytes: "nv_ok p \<Longrightarrow> nv_bytes p \<noteq> [] \<and> length (nv_bytes p) \<le> 142"
  by (simp add: nv_ok_def nv_bytes_def sized_bytes_def TPM2B_exact_def be32_def)

lemma nv_parses:
  assumes "nv_ok p"
  shows "parses TPMS_NV_PUBLIC_Unmarshal (nv_bytes p) p"
proof -
  note ok = assms [unfolded nv_ok_def]
  have i: "parses (TPMI_RH_NV_INDEX_Unmarshal False) (be32 (TPMS_NV_PUBLIC_nvIndex p)) (TPMS_NV_PUBLIC_nvIndex p)"
    unfolding TPMI_RH_NV_INDEX_Unmarshal_def by (rule parses_bind_return [OF parses_handle]) (use ok in \<open>simp add: u_guard_def Let_def leD\<close>)
  have a: "parses TPMA_NV_Unmarshal (be32 (TPMS_NV_PUBLIC_attributes p)) (TPMS_NV_PUBLIC_attributes p)"
    unfolding TPMA_NV_Unmarshal_def by (rule parses_bind_return [OF parses_UINT32]) (use ok in \<open>simp add: u_guard_def\<close>)
  have t: "parses TPM2B_DIGEST_Unmarshal (sized_bytes (TPMS_NV_PUBLIC_authPolicy p)) (TPMS_NV_PUBLIC_authPolicy p)"
    unfolding TPM2B_DIGEST_Unmarshal_def by (rule parses_TPM2B_exact) (use ok in simp)
  show ?thesis unfolding TPMS_NV_PUBLIC_Unmarshal_def nv_bytes_def
    by (intro parses_bind [OF i] parses_bind [OF parses_hash] parses_bind [OF a] parses_bind [OF t] parses_bind_return [OF parses_UINT16])
      (use ok in \<open>simp_all add: u_guard_def leD\<close>, cases p, simp)
qed

lemma nv_encodes: "nv_ok p \<Longrightarrow> encodes_by TPMS_NV_PUBLIC_Unmarshal p (nv_bytes p)"
  using length_nv_bytes [of p] by (simp add: encodes_by_def nv_parses)

lemma NVPublic_GetName_eq:
  assumes L: "openssl_ok (openssl.truncate L)" and ok: "nv_ok p"
  shows "\<exists>name. TSS_NVPublic_GetName L p = r_return name \<and> name_encodes name (nv_name L p)"
proof -
  let ?st = "\<lparr>written = 0, memory = (\<lambda>_. 0), position = Some 0, room = Some (int MAX_RESPONSE_SIZE)\<rparr>" and ?bs = "nv_bytes p"
  obtain md where md: "GetHashServer (TPMS_NV_PUBLIC_nameAlg p) = Some md" using ok by (auto simp: nv_ok_def GetHashServer_def)
  note l = length_nv_bytes [OF ok]
  have "emits 0 (TSS_TPMS_NV_PUBLIC_Marshal p) 0 ?bs" by (rule parses_emits [OF TPMS_NV_PUBLIC_codec nv_parses [OF ok]]) (use l in simp)
  then have m: "TSS_TPMS_NV_PUBLIC_Marshal p ?st = Done 0 (emit ?bs ?st)" by (rule emits_fits) (use l in \<open>simp_all add: good_def fits_def\<close>)
  have "unat (of_nat (length ?bs) :: 16 word) = length ?bs" using l by (simp add: unat_of_nat)
  moreover have "map (put_bytes 0 ?bs (\<lambda>_. 0)) [0..<length ?bs] = ?bs" by (rule nth_equalityI) (simp_all add: put_bytes_def)
  ultimately have b: "map (memory (emit ?bs ?st)) [0..<unat (written (emit ?bs ?st))] = ?bs" by (simp add: emit_def)
  have dg: "TSS_GetDigestSize (TPMS_NV_PUBLIC_nameAlg p) = of_nat (EVP_MD_size md)" by (simp add: word_unat_eq_iff md)
  have len: "length (EVP_Digest L md ?bs) = EVP_MD_size md" using openssl_ok_truncate [OF L, of md ?bs] by simp
  have "TSS_NVPublic_GetName L p = r_return \<lparr>TPM2B_size = of_nat (EVP_MD_size md + 2), TPM2B_buffer = nv_name L p\<rparr>"
    unfolding TSS_NVPublic_GetName_def m using b by (simp add: TSS_Hash_Generate_def GetMd_server md len Let_def nv_name_def be16_def dg)
  moreover have "name_encodes \<lparr>TPM2B_size = of_nat (EVP_MD_size md + 2), TPM2B_buffer = nv_name L p\<rparr> (nv_name L p)"
    using len md by (cases md) (simp_all add: name_encodes_def TPM2B_exact_def nv_name_def)
  ultimately show ?thesis by blast
qed

section \<open>The invariant\<close>

text \<open>
  Every index with a public area is an NV index, and its Name is the one of the public area. The outcomes of the writes are named,
  because they decide what becomes of a pair of stores; a public area can always be removed.
\<close>

definition nv_at :: "'z openssl_scheme \<Rightarrow> TSS_CONTEXT \<Rightarrow> TPM_HANDLE \<Rightarrow> bool" where
  "nv_at L s h \<longleftrightarrow> (\<forall>bs. files s (file_of s ''nvp'' h) = Some bs \<longrightarrow> handle_type h = TPM_HT_NV_INDEX \<and>
     (\<exists>p. nv_ok p \<and> bs = nv_bytes p \<and> files s (file_of s ''h'' h) = Some (nv_name L p)))"

definition nv_named :: "'z openssl_scheme \<Rightarrow> TSS_CONTEXT \<Rightarrow> bool" where
  "nv_named L s \<longleftrightarrow> (\<forall>h. nv_at L s h)"

definition nv_inv :: "'z openssl_scheme \<Rightarrow> string \<Rightarrow> (string \<Rightarrow> write_outcome) \<Rightarrow> TSS_CONTEXT \<Rightarrow> bool" where
  "nv_inv L dir W s \<longleftrightarrow> tssDataDirectory s = dir \<and> short_directory s \<and> on_write s = W \<and>
     (\<forall>h. removable s (file_of s ''nvp'' h)) \<and> nv_named L s"

text \<open>The files that the invariant does not speak about.\<close>

definition foreign :: "string \<Rightarrow> string \<Rightarrow> bool" where
  "foreign dir fn \<longleftrightarrow> (\<forall>h. fn \<noteq> dir @ ''/nvp'' @ hex8 h @ ''.bin'' \<and>
     (handle_type h = TPM_HT_NV_INDEX \<longrightarrow> fn \<noteq> dir @ ''/h'' @ hex8 h @ ''.bin''))"

lemma foreignI: "handle_type h \<noteq> TPM_HT_NV_INDEX \<Longrightarrow> foreign dir (dir @ ''/h'' @ hex8 h @ ''.bin'')"
  by (auto simp: foreign_def hex8_inj)

lemma neq_length: "length xs \<noteq> length ys \<Longrightarrow> xs \<noteq> ys"
  by blast

lemma foreign_public: "foreign dir (dir @ ''/hp'' @ hex8 h @ ''.bin'')"
  unfolding foreign_def same_append_eq by (intro allI conjI impI neq_length) simp_all

lemma foreign_string: "length str = 64 \<Longrightarrow> foreign dir (dir @ ''/h'' @ str @ ''.bin'')" "length str = 64 \<Longrightarrow> foreign dir (dir @ ''/hp'' @ str @ ''.bin'')"
  unfolding foreign_def same_append_eq by (intro allI conjI impI neq_length; simp)+

lemma nv_inv_update:
  assumes "nv_inv L dir W s" "foreign dir fn"
  shows "nv_inv L dir W (s\<lparr>files := (files s)(fn := x)\<rparr>)"
proof -
  have "file_of s ''nvp'' h \<noteq> fn" "handle_type h = TPM_HT_NV_INDEX \<Longrightarrow> file_of s ''h'' h \<noteq> fn" for h
    using assms by (auto simp: foreign_def nv_inv_def file_of_def)
  with assms(1) show ?thesis by (auto simp: nv_inv_def nv_named_def nv_at_def)
qed

lemma keeps_foreign [keeps_intro]:
  assumes "foreign dir fn"
  shows "keeps (nv_inv L dir W) (TSS_File_WriteBinaryFile d fn)" "keeps (nv_inv L dir W) (TSS_File_DeleteFile fn)"
proof -
  have "nv_inv L dir W s'" if "nv_inv L dir W s" "TSS_File_WriteBinaryFile d fn s = Some (r, s')" for s r s'
    using that(2) by (cases rule: write_effect) (use that(1) nv_inv_update [OF that(1) assms] in auto)
  then show "keeps (nv_inv L dir W) (TSS_File_WriteBinaryFile d fn)" unfolding keeps_def by blast
  show "keeps (nv_inv L dir W) (TSS_File_DeleteFile fn)"
    using assms by (auto simp: keeps_def TSS_File_DeleteFile_def e_return_def e_fail_def nv_inv_update split: if_splits)
qed

lemma keeps_random [keeps_intro]: "keeps (nv_inv L dir W) (TSS_RandBytes n)"
  by (auto simp: keeps_def TSS_RandBytes_def e_return_def e_fail_def nv_inv_def nv_named_def nv_at_def file_of_def short_directory_def split: if_splits)

text \<open>A function of the name of a file that is foreign.\<close>

lemma handle_file_name: "handle_file p h s = Some (Inr fn, s') \<Longrightarrow> s' = s \<and> fn = file_of s p h"
  by (auto simp: handle_file_def sprintf_filename_def Let_def e_lift_def r_need_def r_return_def file_of_def split: if_splits)

lemma keeps_handle_file:
  assumes "handle_type h \<noteq> TPM_HT_NV_INDEX \<or> p = ''hp''" "p \<in> {''h'', ''hp''}" "\<And>fn. foreign dir fn \<Longrightarrow> keeps (nv_inv L dir W) (m fn)"
  shows "keeps (nv_inv L dir W) (e_bind (handle_file p h) m)"
  unfolding keeps_def
proof (intro allI impI)
  fix s r s' assume i: "nv_inv L dir W s" and e: "e_bind (handle_file p h) m s = Some (r, s')"
  have f: "foreign dir (file_of s p h)" using assms(1,2) i foreignI foreign_public by (auto simp: file_of_def nv_inv_def)
  show "nv_inv L dir W s'"
  proof (cases "handle_file p h s")
    case None
    with e show ?thesis by (simp add: e_bind_def)
  next
    case (Some q)
    obtain x t where q: "q = (x, t)" by fastforce
    show ?thesis
    proof (cases x)
      case (Inl rc)
      with e Some q keepsD [of "nv_inv L dir W" "handle_file p h", OF keeps_files(2) i] show ?thesis by (simp add: e_bind_def)
    next
      case (Inr fn)
      with handle_file_name [of p h s fn t] Some q have "t = s" "fn = file_of s p h" by simp_all
      with e Some q Inr keepsD [OF assms(3) [OF f] i] show ?thesis by (simp add: e_bind_def)
    qed
  qed
qed

lemma keeps_object_file:
  assumes "case str of None \<Rightarrow> handle_type h \<noteq> TPM_HT_NV_INDEX \<or> p = ''hp'' | Some x \<Rightarrow> length x = 64" "p \<in> {''h'', ''hp''}"
    and m: "\<And>fn. foreign dir fn \<Longrightarrow> keeps (nv_inv L dir W) (m fn)"
  shows "keeps (nv_inv L dir W) (e_bind (object_file p h str) m)"
proof (cases str)
  case None
  show ?thesis
  proof (cases "h = 0")
    case True
    with None show ?thesis by (simp add: keeps_def e_bind_def object_file_def e_fail_def)
  next
    case False
    with None keeps_handle_file [OF _ assms(2) m] assms(1) show ?thesis by (simp add: object_file_handle)
  qed
next
  case (Some x)
  with assms(1) have l: "length x = 64" by simp
  show ?thesis unfolding keeps_def
  proof (intro allI impI)
    fix s r s' assume i: "nv_inv L dir W s" and e: "e_bind (object_file p h str) m s = Some (r, s')"
    have f: "foreign dir (dir @ ''/'' @ p @ x @ ''.bin'')" using assms(2) foreign_string [OF l] by auto
    from e i have "s' = s \<or> m (dir @ ''/'' @ p @ x @ ''.bin'') s = Some (r, s')"
      by (auto simp: Some e_bind_def object_file_def sprintf_filename_def Let_def e_lift_def e_fail_def r_need_def r_return_def nv_inv_def split: if_splits)
    with i keepsD [OF m [OF f] i] show "nv_inv L dir W s'" by blast
  qed
qed

section \<open>Steps on the stores\<close>

text \<open>Where a Name or a public area is stored, by a handle that is no NV index, or by the string of a saved context.\<close>

lemma keeps_object_stores [keeps_intro]:
  assumes "case str of None \<Rightarrow> handle_type h \<noteq> TPM_HT_NV_INDEX | Some x \<Rightarrow> length x = 64"
  shows "keeps (nv_inv L dir W) (TSS_Name_Store name h str)" "keeps (nv_inv L dir W) (TSS_Public_Store public h str)"
  using assms unfolding TSS_Name_Store_def TSS_Public_Store_def TSS_File_WriteStructure_def
  by (intro keeps_object_file keeps_if keeps_basic keeps_bind keeps_foreign; simp split: option.splits)+

lemma keeps_copies [keeps_intro]:
  assumes "case str of None \<Rightarrow> handle_type h \<noteq> TPM_HT_NV_INDEX | Some x \<Rightarrow> length x = 64"
  shows "keeps (nv_inv L dir W) (TSS_Name_Copy h str h' str')" "keeps (nv_inv L dir W) (TSS_Public_Copy allowNull h str h' str')"
  unfolding TSS_Name_Copy_def TSS_Public_Copy_def by (intro keeps_bind keeps_loads keeps_object_stores [OF assms])+

lemma keeps_DeleteHandle [keeps_intro]:
  "handle_type h \<noteq> TPM_HT_NV_INDEX \<Longrightarrow> keeps (nv_inv L dir W) (TSS_DeleteHandle h)"
  unfolding TSS_DeleteHandle_def by (intro keeps_bind keeps_handle_file keeps_ignore keeps_foreign) simp_all

lemma keeps_SaveSession [keeps_intro]:
  "handle_type (s_sessionHandle session) \<noteq> TPM_HT_NV_INDEX \<Longrightarrow> keeps (nv_inv L dir W) (TSS_HmacSession_SaveSession M session)"
  unfolding TSS_HmacSession_SaveSession_def by (intro keeps_handle_file keeps_bind keeps_basic keeps_if_of keeps_files keeps_foreign) simp_all

lemma keeps_Continue [keeps_intro]:
  "handle_type (s_sessionHandle session) \<noteq> TPM_HT_NV_INDEX \<Longrightarrow> keeps (nv_inv L dir W) (TSS_HmacSession_Continue M session authR)"
  unfolding TSS_HmacSession_Continue_def by (intro keeps_if keeps_SaveSession keeps_DeleteHandle) simp_all

text \<open>What a function returns may be needed for what follows.\<close>

lemma keeps_bind_result:
  assumes m: "keeps I m" and f: "\<And>s x s'. m s = Some (Inr x, s') \<Longrightarrow> keeps I (f x)"
  shows "keeps I (e_bind m f)"
  unfolding keeps_def
proof (intro allI impI)
  fix s r s' assume i: "I s" and e: "e_bind m f s = Some (r, s')"
  show "I s'"
  proof (cases "m s")
    case None
    with e show ?thesis by (simp add: e_bind_def)
  next
    case (Some q)
    obtain x t where q: "q = (x, t)" by fastforce
    have t: "I t" by (rule keepsD [OF m i]) (use Some q in simp)
    show ?thesis
    proof (cases x)
      case (Inl rc)
      with e Some q t show ?thesis by (simp add: e_bind_def)
    next
      case (Inr y)
      with e Some q keepsD [OF f [of s y t] t] show ?thesis by (simp add: e_bind_def)
    qed
  qed
qed

lemma u_bind_Ok: "u_bind u f b = Ok v b' \<longleftrightarrow> (\<exists>x c. u b = Ok x c \<and> f x c = Ok v b')"
  by (auto simp: u_bind_def split: ures.splits)

lemma e_bind_result: "e_bind m f s = Some (Inr y, s') \<Longrightarrow> \<exists>x t. m s = Some (Inr x, t) \<and> f x t = Some (Inr y, s')"
  by (auto simp: e_bind_def split: option.splits sum.splits)

lemma HmacSession_Unmarshal_handle: "TSS_HmacSession_Unmarshal b = Ok session b' \<Longrightarrow> session_handle (s_sessionHandle session)"
  by (auto simp: TSS_HmacSession_Unmarshal_def TPMI_SH_AUTH_SESSION_Unmarshal_def u_bind_Ok u_guard_def u_return_def u_fail_def Let_def
      session_handle_def not_less split: if_splits)

lemma LoadSession_handle: "TSS_HmacSession_LoadSession L h s = Some (Inr session, s') \<Longrightarrow> session_handle (s_sessionHandle session)"
  unfolding TSS_HmacSession_LoadSession_def
  by (auto dest!: e_bind_result simp: e_lift_def r_return_def r_fail_def split: ures.splits intro: HmacSession_Unmarshal_handle)

lemma unat_handle_type: "unat (handle_type h) = unat h div 2 ^ 24"
proof -
  have "(0xFF :: 32 word) = mask 8" by (simp add: mask_eq_exp_minus_1)
  then have "bit (0xFF :: 32 word) n \<longleftrightarrow> n < 8" for n by (simp only: bit_mask_iff) auto
  then have "handle_type h = ucast (drop_bit 24 h)"
    unfolding handle_type_def by (intro bit_word_eqI) (auto simp: bit_simps)
  moreover have "unat (drop_bit 24 h) = unat h div 2 ^ 24" by (simp add: drop_bit_eq_div unat_div)
  moreover have "unat h div 2 ^ 24 < 2 ^ 8" using unsigned_less [of h, where ?'a = nat] by simp
  ultimately show ?thesis by (simp add: unsigned_ucast_eq take_bit_nat_eq_self)
qed

lemma session_handle_type: "session_handle h \<Longrightarrow> handle_type h \<noteq> TPM_HT_NV_INDEX"
proof
  assume h: "session_handle h" "handle_type h = TPM_HT_NV_INDEX"
  from h(2) have "unat h div 2 ^ 24 = 1" using unat_handle_type [of h] by simp
  then have "unat h < 2 ^ 25" by simp
  with h(1) show False by (auto simp: session_handle_def word_le_nat_alt)
qed

lemma SetSessionKey_handle:
  "TSS_HmacSession_SetSessionKey L session sa bnd authValue s = Some (Inr session', s') \<Longrightarrow> s_sessionHandle session' = s_sessionHandle session"
proof -
  have r: "r_bind r f = Some (Inr y) \<Longrightarrow> \<exists>x. r = r_return x \<and> f x = Some (Inr y)" for r and f :: "'x \<Rightarrow> TSS_HMAC_CONTEXT result" and y
    by (auto simp: r_bind_def r_return_def split: option.splits sum.splits)
  assume "TSS_HmacSession_SetSessionKey L session sa bnd authValue s = Some (Inr session', s')"
  then show ?thesis unfolding TSS_HmacSession_SetSessionKey_def Let_def
    by (auto dest!: e_bind_result r simp: e_return_def e_lift_def r_return_def split: if_splits)
qed

lemma context_string_length: "context_string L context s = Some (Inr str, s') \<Longrightarrow> length str = 64"
proof -
  have "length (concat (map hex2 bs)) = 2 * length bs" for bs by (induction bs) (simp_all add: hex2_def)
  then show "context_string L context s = Some (Inr str, s') \<Longrightarrow> length str = 64" unfolding context_string_def
    by (auto dest!: e_bind_result simp: e_return_def undefined_behaviour_def TSS_HashToString_def split: if_splits)
qed

section \<open>Steps on the NV indexes\<close>

lemma Name_Store_ok:
  assumes "short_directory s" "h \<noteq> 0" "TPM2B_ok v"
  shows "TSS_Name_Store v h None s = TSS_File_WriteBinaryFile (TPM2B_bytes v) (file_of s ''h'' h) s"
  using assms by (simp add: TSS_Name_Store_def object_file_handle)

lemma names_differ [simp]: "file_of s ''nvp'' h \<noteq> file_of s ''h'' h'" "file_of s ''h'' h \<noteq> file_of s ''nvp'' h'"
  by (simp_all add: file_of_def)

lemma public_differs [simp]: "file_of s ''hp'' h \<noteq> file_of s ''nvp'' h'" "file_of s ''nvp'' h \<noteq> file_of s ''hp'' h'"
  "file_of s ''hp'' h \<noteq> file_of s ''h'' h'" "file_of s ''h'' h \<noteq> file_of s ''hp'' h'"
  by (simp_all add: file_of_def) (rule neq_length; simp)+

lemma nv_index_0: "handle_type h = TPM_HT_NV_INDEX \<Longrightarrow> h \<noteq> 0"
  by (auto simp: handle_type_def)

text \<open>The invariant after the files of one index have changed.\<close>

lemma nv_inv_files:
  assumes i: "nv_inv L dir W s" and h: "nv_at L (s\<lparr>files := f\<rparr>) h"
    and f: "\<And>fn. fn \<notin> {file_of s ''h'' h, file_of s ''hp'' h, file_of s ''nvp'' h} \<Longrightarrow> f fn = files s fn"
  shows "nv_inv L dir W (s\<lparr>files := f\<rparr>)"
proof -
  have "nv_at L (s\<lparr>files := f\<rparr>) h'" for h'
  proof (cases "h' = h")
    case False
    then have "f (file_of s ''nvp'' h') = files s (file_of s ''nvp'' h')" "f (file_of s ''h'' h') = files s (file_of s ''h'' h')"
      by (intro f; simp)+
    moreover have "nv_at L s h'" using i by (simp add: nv_inv_def nv_named_def)
    ultimately show ?thesis by (simp add: nv_at_def)
  qed (use h in simp)
  with i show ?thesis by (simp add: nv_inv_def nv_named_def)
qed

lemma nv_inv_put:
  assumes i: "nv_inv L dir W s" and h: "handle_type h = TPM_HT_NV_INDEX" "nv_ok p"
  shows "nv_inv L dir W (s\<lparr>files := (files s)(file_of s ''nvp'' h \<mapsto> nv_bytes p, file_of s ''h'' h \<mapsto> nv_name L p)\<rparr>)"
  using h by (intro nv_inv_files [OF i, of _ h]) (auto simp: nv_at_def)

text \<open>What is left when an index is deleted: its public area is gone, whatever becomes of the other two files.\<close>

lemma delete_file:
  assumes "short_directory s" "length prefix \<le> 3"
  obtains r x where "e_bind (handle_file prefix h) TSS_File_DeleteFile s = Some (r, s\<lparr>files := (files s)(file_of s prefix h := x)\<rparr>)"
    "removable s (file_of s prefix h) \<Longrightarrow> x = None"
proof (cases "files s (file_of s prefix h)")
  case None
  moreover from this have "s\<lparr>files := (files s)(file_of s prefix h := None)\<rparr> = s" by (simp add: fun_upd_idem)
  ultimately show ?thesis using assms that [of "Inr ()" None] by (simp add: TSS_File_DeleteFile_def e_return_def)
next
  case (Some bs)
  show ?thesis
  proof (cases "removable s (file_of s prefix h)")
    case True
    with Some assms that [of "Inr ()" None] show ?thesis by (simp add: TSS_File_DeleteFile_def e_return_def)
  next
    case False
    moreover from Some have "s\<lparr>files := (files s)(file_of s prefix h \<mapsto> bs)\<rparr> = s" by (simp add: fun_upd_idem)
    ultimately show ?thesis using Some assms that [of "Inl TSS_RC_FILE_REMOVE" "Some bs"] by (simp add: TSS_File_DeleteFile_def e_fail_def)
  qed
qed

lemma DeleteHandle_effect:
  assumes "short_directory s"
  obtains r x y where "TSS_DeleteHandle h s = Some (r, s\<lparr>files := (files s)(file_of s ''h'' h := x, file_of s ''hp'' h := y)\<rparr>)"
proof -
  obtain r x where d: "e_bind (handle_file ''h'' h) TSS_File_DeleteFile s = Some (r, s\<lparr>files := (files s)(file_of s ''h'' h := x)\<rparr>)"
    by (rule delete_file [OF assms, of "''h''" h]) (simp, blast)
  show ?thesis
  proof (cases r)
    case (Inl rc)
    with that [of _ x "files s (file_of s ''hp'' h)"] show ?thesis by (simp add: TSS_DeleteHandle_def e_bind_def [of "e_bind _ _"] d fun_upd_idem)
  next
    case (Inr u)
    let ?s = "s\<lparr>files := (files s)(file_of s ''h'' h := x)\<rparr>"
    obtain r' y where "e_bind (handle_file ''hp'' h) TSS_File_DeleteFile ?s = Some (r', ?s\<lparr>files := (files ?s)(file_of ?s ''hp'' h := y)\<rparr>)"
      by (rule delete_file [of ?s "''hp''" h]) (use assms in simp_all)
    with assms have "e_bind (handle_file ''hp'' h) (\<lambda>fn. e_ignore (TSS_File_DeleteFile fn)) ?s =
        Some (Inr (), s\<lparr>files := (files s)(file_of s ''h'' h := x, file_of s ''hp'' h := y)\<rparr>)"
      by (simp add: e_ignore_def)
    with Inr that show ?thesis by (simp add: TSS_DeleteHandle_def e_bind_def [of "e_bind _ _"] d)
  qed
qed

lemma nv_delete_effect:
  assumes "short_directory s" "removable s (file_of s ''nvp'' h)"
  obtains x y where "nv_delete h s = Some (Inr (),
    s\<lparr>files := (files s)(file_of s ''h'' h := x, file_of s ''hp'' h := y, file_of s ''nvp'' h := None)\<rparr>)"
proof -
  obtain r x y where d: "TSS_DeleteHandle h s = Some (r, s\<lparr>files := (files s)(file_of s ''h'' h := x, file_of s ''hp'' h := y)\<rparr>)"
    by (rule DeleteHandle_effect [OF assms(1)])
  let ?s = "s\<lparr>files := (files s)(file_of s ''h'' h := x, file_of s ''hp'' h := y)\<rparr>"
  obtain r' z where "e_bind (handle_file ''nvp'' h) TSS_File_DeleteFile ?s = Some (r', ?s\<lparr>files := (files ?s)(file_of ?s ''nvp'' h := z)\<rparr>)" "z = None"
    by (rule delete_file [of ?s "''nvp''" h]) (use assms in simp_all)
  with that [of x y] show ?thesis by (simp add: nv_delete_def TSS_NVPublic_Delete_def e_bind_def [of "e_ignore _"] e_ignore_def d)
qed

lemma nv_delete_restores:
  assumes i: "nv_inv L dir W s" and e: "nv_delete h (s\<lparr>files := f\<rparr>) = Some (r, s')"
    and f: "\<And>fn. fn \<notin> {file_of s ''h'' h, file_of s ''hp'' h, file_of s ''nvp'' h} \<Longrightarrow> f fn = files s fn"
  shows "nv_inv L dir W s'"
proof -
  obtain x y where "s' = s\<lparr>files := f(file_of s ''h'' h := x, file_of s ''hp'' h := y, file_of s ''nvp'' h := None)\<rparr>"
    by (rule nv_delete_effect [of "s\<lparr>files := f\<rparr>" h]) (use i e in \<open>simp_all add: nv_inv_def\<close>)
  moreover have "nv_inv L dir W (s\<lparr>files := f(file_of s ''h'' h := x, file_of s ''hp'' h := y, file_of s ''nvp'' h := None)\<rparr>)"
    by (intro nv_inv_files [OF i, of _ h]) (simp_all add: nv_at_def f)
  ultimately show ?thesis by simp
qed

lemma keeps_nv_delete: "keeps (nv_inv L dir W) (nv_delete h)"
  unfolding keeps_def
proof (intro allI impI)
  fix s r s' assume "nv_inv L dir W s" "nv_delete h s = Some (r, s')"
  then show "nv_inv L dir W s'" using nv_delete_restores [of L dir W s h "files s" r s'] by simp
qed

text \<open>The attribute is set in the public area, and the Name follows it; when one of them cannot be stored, the index is deleted.\<close>

lemma NVPublic_Load_named:
  assumes i: "nv_inv L dir W s" and l: "TSS_NVPublic_Load h s = Some (Inr p, s')"
  shows "s' = s \<and> handle_type h = TPM_HT_NV_INDEX \<and> nv_ok p"
proof -
  have d: "short_directory s" and n: "nv_at L s h" using i by (simp_all add: nv_inv_def nv_named_def)
  from l d obtain bs t where bs: "read_and_free (file_of s ''nvp'' h) s = Some (Inr bs, t)"
    by (auto simp: TSS_NVPublic_Load_def TSS_File_ReadStructure_def dest: e_bind_result)
  moreover from keepsD [OF keeps_files(3) _ this, of "\<lambda>x. x = s"] have "t = s" by blast
  ultimately have bs: "read_and_free (file_of s ''nvp'' h) s = Some (Inr bs, s)" by simp
  then obtain bs' where f: "files s (file_of s ''nvp'' h) = Some bs'"
    by (auto simp: read_and_free_def TSS_File_ReadBinaryFile_def e_fail_def split: option.splits if_splits)
  with n obtain q where h: "handle_type h = TPM_HT_NV_INDEX" and q: "nv_ok q" "bs' = nv_bytes q" by (auto simp: nv_at_def)
  from bs f length_nv_bytes [OF q(1)] q(2) have "readable s (file_of s ''nvp'' h)"
    by (auto simp: read_and_free_def TSS_File_ReadBinaryFile_def file_contents_def r_guard_def r_need_def r_bind_def r_fail_def r_return_def e_fail_def
        e_lift_def e_ignore_def e_bind_def split: read_outcome.splits option.splits sum.splits if_splits)
  with nv_publics.get [OF d nv_index_0 [OF h] nv_encodes [OF q(1)]] f q l h show ?thesis by simp
qed

lemma keeps_nv_set_attribute:
  fixes L :: "'z openssl_scheme"
  assumes L: "openssl_ok (openssl.truncate L)" and a: "attribute AND TPMA_NV_RESERVED = 0"
  shows "keeps (nv_inv L dir W) (nv_set_attribute L attribute h)"
  unfolding keeps_def
proof (intro allI impI)
  fix s r s' assume i: "nv_inv L dir W s" and e: "nv_set_attribute L attribute h s = Some (r, s')"
  have d: "short_directory s" using i by (simp add: nv_inv_def)
  from e obtain p t where load: "TSS_NVPublic_Load h s = Some (Inr p, t)" by (auto simp: nv_set_attribute_def split: option.splits sum.splits)
  with NVPublic_Load_named [OF i load] have load: "TSS_NVPublic_Load h s = Some (Inr p, s)" and h: "handle_type h = TPM_HT_NV_INDEX" and p: "nv_ok p"
    by simp_all
  note h0 = nv_index_0 [OF h]
  let ?p = "p\<lparr>TPMS_NV_PUBLIC_attributes := TPMS_NV_PUBLIC_attributes p OR attribute\<rparr>"
  have okp: "nv_ok ?p" using p a by (simp add: nv_ok_def word_ao_dist)
  obtain name where n: "TSS_NVPublic_GetName L ?p = r_return name" "name_encodes name (nv_name L ?p)" using NVPublic_GetName_eq [OF L okp] by blast
  let ?m = "e_bind (TSS_NVPublic_Store ?p h) (\<lambda>_. e_bind (e_lift (TSS_NVPublic_GetName L ?p)) (\<lambda>name. TSS_Name_Store name h None))"
  have restore: "nv_inv L dir W s'"
    if "?m s = Some (Inl rc, s\<lparr>files := f\<rparr>)" "f = (files s)(file_of s ''nvp'' h := x, file_of s ''h'' h := y)"
      "TPMS_NV_PUBLIC_attributes p AND attribute = 0" for rc f x y
  proof -
    from e that(1,3) obtain r' where "nv_delete h (s\<lparr>files := f\<rparr>) = Some (r', s')"
      by (auto simp: nv_set_attribute_def load Let_def e_on_error_def e_bind_def [of "e_ignore _"] e_ignore_def e_fail_def split: option.splits prod.splits)
    then show ?thesis by (rule nv_delete_restores [OF i]) (simp add: that(2))
  qed
  show "nv_inv L dir W s'"
  proof (cases "TPMS_NV_PUBLIC_attributes p AND attribute = 0")
    case False
    with e i show ?thesis by (simp add: nv_set_attribute_def load e_return_def)
  next
    case todo: True
    with e obtain q where q: "?m s = Some q" by (cases "?m s") (auto simp: nv_set_attribute_def load Let_def e_on_error_def)
    obtain o1 t where o1: "TSS_NVPublic_Store ?p h s = Some (o1, t)" using q by (auto simp: e_bind_def [of "TSS_NVPublic_Store _ _"] split: option.splits)
    from nv_publics.put_effect [OF d h0 nv_encodes [OF okp] o1] obtain x where
      t: "t = s\<lparr>files := (files s)(file_of s ''nvp'' h := x)\<rparr>" "o1 = Inr () \<Longrightarrow> x = Some (nv_bytes ?p)" by blast
    show ?thesis
    proof (cases o1)
      case (Inl rc)
      then have "?m s = Some (Inl rc, s\<lparr>files := (files s)(file_of s ''nvp'' h := x, file_of s ''h'' h := files s (file_of s ''h'' h))\<rparr>)"
        by (simp add: e_bind_def [of "TSS_NVPublic_Store _ _"] o1 t(1) fun_upd_idem)
      from restore [OF this refl todo] show ?thesis .
    next
      case (Inr u)
      then have x: "x = Some (nv_bytes ?p)" using t(2) by simp
      from q Inr have n2: "TSS_Name_Store name h None t = Some q" by (simp add: e_bind_def [of "TSS_NVPublic_Store _ _"] o1 n(1))
      have dt: "short_directory t" "file_of t ''h'' h = file_of s ''h'' h" using d t(1) by simp_all
      obtain o2 w where o2: "q = (o2, w)" by fastforce
      from names.put_effect [OF dt(1) h0 n(2), of o2 w] n2 o2 obtain y where
        w: "w = t\<lparr>files := (files t)(file_of t ''h'' h := y)\<rparr>" "o2 = Inr () \<Longrightarrow> y = Some (nv_name L ?p)" by blast
      show ?thesis
      proof (cases o2)
        case (Inl rc)
        from restore [OF _ refl todo, of rc x y] show ?thesis using q o2 Inl w(1) t(1) by simp
      next
        case (Inr v)
        then have y: "y = Some (nv_name L ?p)" using w(2) by simp
        from e todo q o2 Inr have "s' = w" by (simp add: nv_set_attribute_def load Let_def e_on_error_def)
        with nv_inv_put [OF i h okp] w(1) t(1) x y show ?thesis by simp
      qed
    qed
  qed
qed

text \<open>\<^verbatim>\<open>TSS_PO_NV_ReadPublic\<close>: the public area and the Name that the TPM returned are stored when the Name is that of the public area.\<close>

lemma ReadPublic_eq:
  fixes L :: "'z openssl_scheme"
  assumes L: "openssl_ok (openssl.truncate L)" and h: "handle_type (NV_ReadPublic_In_nvIndex inp) = TPM_HT_NV_INDEX" and s: "short_directory s"
    and p: "nv_ok (TPM2B_NV_PUBLIC_nvPublic (NV_ReadPublic_Out_nvPublic out))"
    and n: "TPM2B_ok (NV_ReadPublic_Out_nvName out)"
      "TPM2B_bytes (NV_ReadPublic_Out_nvName out) = nv_name L (TPM2B_NV_PUBLIC_nvPublic (NV_ReadPublic_Out_nvPublic out))"
  shows "TSS_PO_NV_ReadPublic L inp out s =
    e_bind (TSS_File_WriteBinaryFile (nv_name L (TPM2B_NV_PUBLIC_nvPublic (NV_ReadPublic_Out_nvPublic out))) (file_of s ''h'' (NV_ReadPublic_In_nvIndex inp)))
      (\<lambda>_. TSS_File_WriteBinaryFile (nv_bytes (TPM2B_NV_PUBLIC_nvPublic (NV_ReadPublic_Out_nvPublic out))) (file_of s ''nvp'' (NV_ReadPublic_In_nvIndex inp))) s"
proof -
  let ?p = "TPM2B_NV_PUBLIC_nvPublic (NV_ReadPublic_Out_nvPublic out)" and ?n = "NV_ReadPublic_Out_nvName out" and ?h = "NV_ReadPublic_In_nvIndex inp"
  let ?w = "TSS_File_WriteBinaryFile (nv_name L ?p) (file_of s ''h'' ?h)"
  note h0 = nv_index_0 [OF h]
  obtain name where name: "TSS_NVPublic_GetName L ?p = r_return name" "name_encodes name (nv_name L ?p)" using NVPublic_GetName_eq [OF L p] by blast
  have "length (TPM2B_bytes ?n) = unat (TPM2B_size ?n)" using n(1) by (simp add: TPM2B_bytes_def TPM2B_ok_def)
  then have "TPM2B_size ?n = TPM2B_size name" using name(2) n(2) by (simp add: name_encodes_def TPM2B_exact_def word_unat_eq_iff)
  then have eq: "TSS_TPM2B_Compare name ?n = Some True"
    using name(2) n by (auto simp: TSS_TPM2B_Compare_def name_encodes_def TPM2B_exact_def TPM2B_bytes_def TPM2B_ok_def)
  have s1: "TSS_Name_Store ?n ?h None s = ?w s" using Name_Store_ok [OF s h0 n(1)] n(2) by simp
  have s2: "TSS_NVPublic_Store ?p ?h t = TSS_File_WriteBinaryFile (nv_bytes ?p) (file_of s ''nvp'' ?h) t" if "?w s = Some (Inr u, t)" for t u
  proof -
    from that have "short_directory t \<and> file_of t ''nvp'' ?h = file_of s ''nvp'' ?h" using s by (cases rule: write_effect) simp_all
    then show ?thesis using nv_publics.put [OF _ h0 nv_encodes [OF p], of t] by simp
  qed
  have "e_bind (TSS_Name_Store ?n ?h None) (\<lambda>_. TSS_NVPublic_Store ?p ?h) s =
      e_bind ?w (\<lambda>_. TSS_File_WriteBinaryFile (nv_bytes ?p) (file_of s ''nvp'' ?h)) s"
    using s2 by (auto simp: e_bind_def s1 split: option.split sum.split)
  then show ?thesis by (simp add: TSS_PO_NV_ReadPublic_def name(1) Let_def eq r_return_def [symmetric])
qed

lemma ReadPublic_stores:
  fixes L :: "'z openssl_scheme"
  assumes L: "openssl_ok (openssl.truncate L)" and h: "handle_type (NV_ReadPublic_In_nvIndex inp) = TPM_HT_NV_INDEX" and s: "short_directory s"
    and p: "nv_ok (TPM2B_NV_PUBLIC_nvPublic (NV_ReadPublic_Out_nvPublic out))"
    and n: "TPM2B_ok (NV_ReadPublic_Out_nvName out)"
      "TPM2B_bytes (NV_ReadPublic_Out_nvName out) = nv_name L (TPM2B_NV_PUBLIC_nvPublic (NV_ReadPublic_Out_nvPublic out))"
    and w: "writable s (file_of s ''h'' (NV_ReadPublic_In_nvIndex inp))" "writable s (file_of s ''nvp'' (NV_ReadPublic_In_nvIndex inp))"
  shows "TSS_PO_NV_ReadPublic L inp out s = Some (Inr (), s\<lparr>files := (files s)
      (file_of s ''h'' (NV_ReadPublic_In_nvIndex inp) \<mapsto> nv_name L (TPM2B_NV_PUBLIC_nvPublic (NV_ReadPublic_Out_nvPublic out)),
       file_of s ''nvp'' (NV_ReadPublic_In_nvIndex inp) \<mapsto> nv_bytes (TPM2B_NV_PUBLIC_nvPublic (NV_ReadPublic_Out_nvPublic out)))\<rparr>)"
  using w by (simp add: ReadPublic_eq [OF L h s p n] e_bind_def write_file)

text \<open>
  The two stores have no cleanup between them. The Name and the public area stay together when both are stored, or when the Name is
  not touched; when only the public area cannot be stored they are left apart.
\<close>

definition public_stored :: "(string \<Rightarrow> write_outcome) \<Rightarrow> string \<Rightarrow> TPM_HANDLE \<Rightarrow> bool" where
  "public_stored W dir h \<longleftrightarrow> W (dir @ ''/h'' @ hex8 h @ ''.bin'') = Not_opened \<or>
     W (dir @ ''/h'' @ hex8 h @ ''.bin'') = Written \<and> W (dir @ ''/nvp'' @ hex8 h @ ''.bin'') = Written"

lemma keeps_NV_ReadPublic:
  fixes L :: "'z openssl_scheme"
  assumes L: "openssl_ok (openssl.truncate L)" and h: "handle_type (NV_ReadPublic_In_nvIndex inp) = TPM_HT_NV_INDEX"
    and w: "public_stored W dir (NV_ReadPublic_In_nvIndex inp)"
    and p: "nv_ok (TPM2B_NV_PUBLIC_nvPublic (NV_ReadPublic_Out_nvPublic out))"
  shows "keeps (nv_inv L dir W) (TSS_PO_NV_ReadPublic L inp out)"
  unfolding keeps_def
proof (intro allI impI)
  let ?p = "TPM2B_NV_PUBLIC_nvPublic (NV_ReadPublic_Out_nvPublic out)" and ?n = "NV_ReadPublic_Out_nvName out" and ?h = "NV_ReadPublic_In_nvIndex inp"
  fix s r s' assume i: "nv_inv L dir W s" and e: "TSS_PO_NV_ReadPublic L inp out s = Some (r, s')"
  have d: "short_directory s" using i by (simp add: nv_inv_def)
  obtain name where n: "TSS_NVPublic_GetName L ?p = r_return name" "name_encodes name (nv_name L ?p)" using NVPublic_GetName_eq [OF L p] by blast
  show "nv_inv L dir W s'"
  proof (cases "TSS_TPM2B_Compare name ?n = Some True")
    case False
    then have "TSS_TPM2B_Compare name ?n = None \<or> TSS_TPM2B_Compare name ?n = Some False" by (cases "TSS_TPM2B_Compare name ?n") auto
    with e have "s' = s" by (auto simp: TSS_PO_NV_ReadPublic_def n(1) Let_def e_fail_def r_return_def [symmetric] e_bind_Some(3) [of "e_lift None"])
    with i show ?thesis by simp
  next
    case True
    then have b: "TPM2B_ok ?n" "TPM2B_bytes ?n = nv_name L ?p"
      using n(2) by (auto simp: TSS_TPM2B_Compare_def name_encodes_def TPM2B_exact_def TPM2B_bytes_def split: if_splits)
    from w i consider "on_write s (file_of s ''h'' ?h) = Not_opened" | "writable s (file_of s ''h'' ?h)" "writable s (file_of s ''nvp'' ?h)"
      by (auto simp: public_stored_def nv_inv_def file_of_def)
    then show ?thesis
    proof cases
      case 1
      with e ReadPublic_eq [OF L h d p b] have "s' = s" by (simp add: e_bind_def TSS_File_WriteBinaryFile_def e_fail_def)
      with i show ?thesis by simp
    next
      case 2
      let ?f = "(files s)(file_of s ''nvp'' ?h \<mapsto> nv_bytes ?p, file_of s ''h'' ?h \<mapsto> nv_name L ?p)"
      have "s' = s\<lparr>files := ?f\<rparr>" using e ReadPublic_stores [OF L h d p b 2] by (simp add: fun_upd_twist)
      then show ?thesis using nv_inv_put [OF i h p] by simp
    qed
  qed
qed

section \<open>The stores after any command\<close>

text \<open>
  What the TPM is trusted for: the handles that a command and its response name are of the types that the TPM gives to such entities,
  and the public area of an index is one that its unmarshal function accepts.
\<close>

definition plausible_in :: "COMMAND_PARAMETERS option \<Rightarrow> bool" where
  "plausible_in inp = (case inp of
       Some (Hierarchy_Parameters (In_FlushContext i)) \<Rightarrow> handle_type (FlushContext_In_flushHandle i) \<noteq> TPM_HT_NV_INDEX
     | Some (Hierarchy_Parameters (In_EvictControl i)) \<Rightarrow> handle_type (EvictControl_In_persistentHandle i) \<noteq> TPM_HT_NV_INDEX
     | Some (Crypto_Parameters (In_SequenceComplete i)) \<Rightarrow> handle_type (SequenceComplete_In_sequenceHandle i) \<noteq> TPM_HT_NV_INDEX
     | Some (Crypto_Parameters (In_EventSequenceComplete i)) \<Rightarrow> handle_type (EventSequenceComplete_In_sequenceHandle i) \<noteq> TPM_HT_NV_INDEX
     | Some (NV_Parameters (In_NV_ReadPublic i)) \<Rightarrow> handle_type (NV_ReadPublic_In_nvIndex i) = TPM_HT_NV_INDEX
     | _ \<Rightarrow> True)"

text \<open>What the files do: a command that reads a public area does not leave the two stores apart.\<close>

definition kept_together :: "(string \<Rightarrow> write_outcome) \<Rightarrow> string \<Rightarrow> COMMAND_PARAMETERS option \<Rightarrow> bool" where
  "kept_together W dir inp = (case inp of
       Some (NV_Parameters (In_NV_ReadPublic i)) \<Rightarrow> public_stored W dir (NV_ReadPublic_In_nvIndex i)
     | _ \<Rightarrow> True)"

definition plausible_out :: "RESPONSE_PARAMETERS option \<Rightarrow> bool" where
  "plausible_out out = (case out of
       Some (Object_Response (Out_StartAuthSession r)) \<Rightarrow> handle_type (StartAuthSession_Out_sessionHandle r) \<noteq> TPM_HT_NV_INDEX
     | Some (Crypto_Response (Out_HashSequenceStart r)) \<Rightarrow> handle_type (HashSequenceStart_Out_sequenceHandle r) \<noteq> TPM_HT_NV_INDEX
     | Some (Crypto_Response (Out_HMAC_Start r)) \<Rightarrow> handle_type (HMAC_Start_Out_sequenceHandle r) \<noteq> TPM_HT_NV_INDEX
     | Some (NV_Response (Out_NV_ReadPublic r)) \<Rightarrow> nv_ok (TPM2B_NV_PUBLIC_nvPublic (NV_ReadPublic_Out_nvPublic r))
     | _ \<Rightarrow> True)"

lemma keeps_StartAuthSession:
  assumes "handle_type (StartAuthSession_Out_sessionHandle out) \<noteq> TPM_HT_NV_INDEX"
  shows "keeps (nv_inv L dir W) (TSS_PO_StartAuthSession M inp out extra)"
proof -
  have "handle_type (s_sessionHandle x) \<noteq> TPM_HT_NV_INDEX"
    if "TSS_HmacSession_SetSessionKey M (TSS_HmacSession_InitContext\<lparr>s_sessionHandle := StartAuthSession_Out_sessionHandle out, s_authHashAlg := a,
      s_sizeInBytes := b, s_symmetric := c, s_sessionType := d, s_bindAuthValue := e, s_nonceTPM := f, s_nonceCaller := g\<rparr>) sa bnd k s = Some (Inr x, s')"
    for a b c d e f g sa bnd k s x s'
    using SetSessionKey_handle [OF that] assms by simp
  then show ?thesis unfolding TSS_PO_StartAuthSession_def Let_def
    by (cases extra; cases "the extra") (auto intro!: keeps_bind keeps_basic keeps_undefined keeps_bind_result [OF keeps_keys(1)] keeps_SaveSession)
qed

lemma loaded_handle: "TSS_HmacSession_LoadSession L h s = Some (Inr session, s') \<Longrightarrow> handle_type (s_sessionHandle session) \<noteq> TPM_HT_NV_INDEX"
  by (rule session_handle_type [OF LoadSession_handle])

lemma keeps_policies: "keeps (nv_inv L dir W) (TSS_PO_PolicyAuthValue M i)" "keeps (nv_inv L dir W) (TSS_PO_PolicyPassword M j)"
  unfolding TSS_PO_PolicyAuthValue_def TSS_PO_PolicyPassword_def
  by (rule keeps_bind_result [OF keeps_loads(6)], rule keeps_SaveSession, simp add: loaded_handle)+

lemma keeps_contexts: "keeps (nv_inv L dir W) (TSS_PO_ContextSave M allowNull i r)" "keeps (nv_inv L dir W) (TSS_PO_ContextLoad M allowNull j t)"
  unfolding TSS_PO_ContextSave_def TSS_PO_ContextLoad_def Let_def
  by (auto intro!: keeps_basic keeps_bind_result [OF keeps_context_string] keeps_bind keeps_copies dest: context_string_length)

lemma keeps_EvictControl: "handle_type (EvictControl_In_persistentHandle i) \<noteq> TPM_HT_NV_INDEX \<Longrightarrow> keeps (nv_inv L dir W) (TSS_PO_EvictControl allowNull i)"
  unfolding TSS_PO_EvictControl_def Let_def by (auto intro!: keeps_bind keeps_copies keeps_DeleteHandle)

lemmas parameter_splits = option.split prod.split COMMAND_PARAMETERS.split RESPONSE_PARAMETERS.split

lemma keeps_object_post:
  "(\<And>r. out = Some (Object_Response (Out_StartAuthSession r)) \<Longrightarrow> handle_type (StartAuthSession_Out_sessionHandle r) \<noteq> TPM_HT_NV_INDEX) \<Longrightarrow>
    keeps (nv_inv L dir W) (post_StartAuthSession M allowNull ie out)"
  unfolding post_StartAuthSession_def
  by (auto intro!: keeps_undefined keeps_StartAuthSession split: parameter_splits Object_In_member.split Object_Out_member.split)

lemma keeps_sequence_post:
  "(\<And>r. out = Some (Crypto_Response (Out_HMAC_Start r)) \<Longrightarrow> handle_type (HMAC_Start_Out_sequenceHandle r) \<noteq> TPM_HT_NV_INDEX) \<Longrightarrow>
    keeps (nv_inv L dir W) (post_HMAC_Start M allowNull ie out)"
  "(\<And>r. out = Some (Crypto_Response (Out_HashSequenceStart r)) \<Longrightarrow> handle_type (HashSequenceStart_Out_sequenceHandle r) \<noteq> TPM_HT_NV_INDEX) \<Longrightarrow>
    keeps (nv_inv L dir W) (post_HashSequenceStart M allowNull ie out)"
  unfolding post_HMAC_Start_def post_HashSequenceStart_def TSS_PO_HMAC_Start_def TSS_PO_HashSequenceStart_def
  by (auto intro!: keeps_undefined keeps_object_stores(1) split: parameter_splits Crypto_Out_member.split)

lemma keeps_complete_post:
  "(\<And>i. fst ie = Some (Crypto_Parameters (In_SequenceComplete i)) \<Longrightarrow> handle_type (SequenceComplete_In_sequenceHandle i) \<noteq> TPM_HT_NV_INDEX) \<Longrightarrow>
    keeps (nv_inv L dir W) (post_SequenceComplete M allowNull ie out)"
  "(\<And>i. fst ie = Some (Crypto_Parameters (In_EventSequenceComplete i)) \<Longrightarrow> handle_type (EventSequenceComplete_In_sequenceHandle i) \<noteq> TPM_HT_NV_INDEX) \<Longrightarrow>
    keeps (nv_inv L dir W) (post_EventSequenceComplete M allowNull ie out)"
  unfolding post_SequenceComplete_def post_EventSequenceComplete_def TSS_PO_SequenceComplete_def TSS_PO_EventSequenceComplete_def
  by (auto intro!: keeps_undefined keeps_DeleteHandle split: parameter_splits Crypto_In_member.split)

lemma keeps_policy_post:
  "keeps (nv_inv L dir W) (post_PolicyAuthValue M allowNull ie out)" "keeps (nv_inv L dir W) (post_PolicyPassword M allowNull ie out)"
  unfolding post_PolicyAuthValue_def post_PolicyPassword_def
  by (auto intro!: keeps_undefined keeps_policies split: parameter_splits Policy_In_member.split)

lemma keeps_context_post:
  "keeps (nv_inv L dir W) (post_ContextSave M allowNull ie out)" "keeps (nv_inv L dir W) (post_ContextLoad M allowNull ie out)"
  unfolding post_ContextSave_def post_ContextLoad_def
  by (auto intro!: keeps_undefined keeps_contexts split: parameter_splits Hierarchy_In_member.split Hierarchy_Out_member.split)

lemma keeps_evict_post:
  "(\<And>i. fst ie = Some (Hierarchy_Parameters (In_FlushContext i)) \<Longrightarrow> handle_type (FlushContext_In_flushHandle i) \<noteq> TPM_HT_NV_INDEX) \<Longrightarrow>
    keeps (nv_inv L dir W) (post_FlushContext M allowNull ie out)"
  "(\<And>i. fst ie = Some (Hierarchy_Parameters (In_EvictControl i)) \<Longrightarrow> handle_type (EvictControl_In_persistentHandle i) \<noteq> TPM_HT_NV_INDEX) \<Longrightarrow>
    keeps (nv_inv L dir W) (post_EvictControl M allowNull ie out)"
  unfolding post_FlushContext_def post_EvictControl_def TSS_PO_FlushContext_def
  by (auto intro!: keeps_undefined keeps_DeleteHandle keeps_EvictControl split: parameter_splits Hierarchy_In_member.split)

lemma keeps_nv_post:
  fixes L :: "'z crypto_scheme"
  assumes L: "openssl_ok (openssl.truncate L)"
  shows "keeps (nv_inv L dir W) (post_NV_UndefineSpace L allowNull ie out)" "keeps (nv_inv L dir W) (post_NV_UndefineSpaceSpecial L allowNull ie out)"
    "keeps (nv_inv L dir W) (post_NV_WriteLock L allowNull ie out)" "keeps (nv_inv L dir W) (post_NV_ReadLock L allowNull ie out)"
    "keeps (nv_inv L dir W) (post_NV_Write L allowNull ie out)"
  unfolding post_NV_UndefineSpace_def post_NV_UndefineSpaceSpecial_def post_NV_WriteLock_def post_NV_ReadLock_def post_NV_Write_def
    TSS_PO_NV_UndefineSpace_def TSS_PO_NV_UndefineSpaceSpecial_def TSS_PO_NV_WriteLock_def TSS_PO_NV_ReadLock_def TSS_PO_NV_Write_def
  by (auto intro!: keeps_undefined keeps_nv_delete keeps_nv_set_attribute [OF L] split: parameter_splits NV_In_member.split)

lemma keeps_read_public_post:
  fixes L :: "'z crypto_scheme"
  assumes L: "openssl_ok (openssl.truncate L)"
    and "\<And>i. fst ie = Some (NV_Parameters (In_NV_ReadPublic i)) \<Longrightarrow> handle_type (NV_ReadPublic_In_nvIndex i) = TPM_HT_NV_INDEX \<and>
      public_stored W dir (NV_ReadPublic_In_nvIndex i)"
    and "\<And>r. out = Some (NV_Response (Out_NV_ReadPublic r)) \<Longrightarrow> nv_ok (TPM2B_NV_PUBLIC_nvPublic (NV_ReadPublic_Out_nvPublic r))"
  shows "keeps (nv_inv L dir W) (post_NV_ReadPublic L allowNull ie out)"
  using assms(2,3) unfolding post_NV_ReadPublic_def
  by (auto intro!: keeps_undefined keeps_NV_ReadPublic [OF L] split: parameter_splits NV_In_member.split NV_Out_member.split)

lemma keeps_post:
  fixes L :: "'z crypto_scheme"
  assumes L: "openssl_ok (openssl.truncate L)" and p: "plausible_in (fst ie)" "kept_together W dir (fst ie)" "plausible_out out"
  shows "list_all (\<lambda>(_, _, _, post). case post of None \<Rightarrow> True | Some f \<Rightarrow> keeps (nv_inv L dir W) (f ie out)) (tssTable L allowNull)"
proof -
  have i: "fst ie = Some (Hierarchy_Parameters (In_FlushContext f)) \<Longrightarrow> handle_type (FlushContext_In_flushHandle f) \<noteq> TPM_HT_NV_INDEX"
    "fst ie = Some (Hierarchy_Parameters (In_EvictControl e)) \<Longrightarrow> handle_type (EvictControl_In_persistentHandle e) \<noteq> TPM_HT_NV_INDEX"
    "fst ie = Some (Crypto_Parameters (In_SequenceComplete q)) \<Longrightarrow> handle_type (SequenceComplete_In_sequenceHandle q) \<noteq> TPM_HT_NV_INDEX"
    "fst ie = Some (Crypto_Parameters (In_EventSequenceComplete v)) \<Longrightarrow> handle_type (EventSequenceComplete_In_sequenceHandle v) \<noteq> TPM_HT_NV_INDEX"
    "fst ie = Some (NV_Parameters (In_NV_ReadPublic n)) \<Longrightarrow> handle_type (NV_ReadPublic_In_nvIndex n) = TPM_HT_NV_INDEX \<and>
      public_stored W dir (NV_ReadPublic_In_nvIndex n)" for f e q v n
    using p(1,2) by (simp_all add: plausible_in_def kept_together_def)
  have o: "out = Some (Object_Response (Out_StartAuthSession r)) \<Longrightarrow> handle_type (StartAuthSession_Out_sessionHandle r) \<noteq> TPM_HT_NV_INDEX"
    "out = Some (Crypto_Response (Out_HashSequenceStart h)) \<Longrightarrow> handle_type (HashSequenceStart_Out_sequenceHandle h) \<noteq> TPM_HT_NV_INDEX"
    "out = Some (Crypto_Response (Out_HMAC_Start m)) \<Longrightarrow> handle_type (HMAC_Start_Out_sequenceHandle m) \<noteq> TPM_HT_NV_INDEX"
    "out = Some (NV_Response (Out_NV_ReadPublic n)) \<Longrightarrow> nv_ok (TPM2B_NV_PUBLIC_nvPublic (NV_ReadPublic_Out_nvPublic n))" for r h m n
    using p(3) by (simp_all add: plausible_out_def)
  show ?thesis unfolding tssTable_def
    by (simp add: keeps_object_post [OF o(1)] keeps_sequence_post(1) [OF o(3)] keeps_sequence_post(2) [OF o(2)] keeps_complete_post(1) [OF i(3)]
      keeps_complete_post(2) [OF i(4)] keeps_policy_post keeps_context_post keeps_evict_post(1) [OF i(1)] keeps_evict_post(2) [OF i(2)]
      keeps_nv_post [OF L] keeps_read_public_post [OF L i(5) o(4)])
qed

lemma keeps_PostProcessor:
  fixes L :: "'z crypto_scheme"
  assumes "openssl_ok (openssl.truncate L)" "plausible_in (fst ie)" "kept_together W dir (fst ie)" "plausible_out out"
  shows "keeps (nv_inv L dir W) (TSS_Response_PostProcessor L allowNull ie out)"
  unfolding keeps_def
proof (intro allI impI)
  fix s r s' assume i: "nv_inv L dir W s" and e: "TSS_Response_PostProcessor L allowNull ie out s = Some (r, s')"
  show "nv_inv L dir W s'"
  proof (cases "tss_entry L allowNull (TSS_GetCommandCode (tssAuthContext s))")
    case None
    with i e show ?thesis by (simp add: TSS_Response_PostProcessor_def e_return_def)
  next
    case (Some q)
    obtain cc pre change post where q: "q = (cc, pre, change, post)" by (cases q) auto
    from Some have "q \<in> set (tssTable L allowNull)" by (auto simp: tss_entry_def find_Some_iff)
    with keeps_post [OF assms, of allowNull] have "case post of None \<Rightarrow> True | Some f \<Rightarrow> keeps (nv_inv L dir W) (f ie out)"
      by (auto simp: list_all_iff q)
    with i e Some show ?thesis by (auto simp: TSS_Response_PostProcessor_def q e_return_def split: option.splits dest: keepsD)
  qed
qed

end
