(* ===== verification/Tss_Execute_Correct.thy ===== *)
theory Tss_Execute_Correct
  imports Tss_Store_Correct
begin

text \<open>
  What a whole execution guarantees. It succeeds only when the response was verified for every session whose response the code
  verifies, and whatever the TPM answers, and whatever stores fail, the stored Names of the NV indexes stay those of their public
  areas.
\<close>

section \<open>Loops\<close>

lemma triple_map [triple_intro]:
  "(\<And>x. x \<in> set xs \<Longrightarrow> triple I (f x) (\<lambda>y s. I s \<and> Q y) I) \<Longrightarrow> triple I (e_map f xs) (\<lambda>ys s. I s \<and> list_all Q ys) I"
proof (induction xs)
  case (Cons x xs)
  have tail: "triple I (e_map f xs) (\<lambda>ys s. I s \<and> list_all Q ys) I" by (rule Cons.IH) (simp add: Cons.prems)
  have "triple (\<lambda>s. I s \<and> Q y) (e_bind (e_map f xs) (\<lambda>ys. e_return (y # ys))) (\<lambda>ys s. I s \<and> list_all Q ys) I" for y
    by (rule triple_bind [where R = "\<lambda>ys s. (I s \<and> list_all Q ys) \<and> Q y"])
      (use tail in \<open>auto simp: triple_def e_return_def split: sum.split\<close>)
  then show ?case unfolding e_map.simps by (intro triple_bind [OF Cons.prems]) simp_all
qed (simp add: triple_def e_return_def)

lemma keeps_map [keeps_intro]: "(\<And>x. x \<in> set xs \<Longrightarrow> keeps I (f x)) \<Longrightarrow> keeps I (e_map f xs)"
proof -
  assume "\<And>x. x \<in> set xs \<Longrightarrow> keeps I (f x)"
  then have "triple I (e_map f xs) (\<lambda>ys s. I s \<and> list_all (\<lambda>_. True) ys) I" by (intro triple_map) (simp add: triple_keeps)
  then show ?thesis by (intro keeps_triple, elim triple_weaken) simp_all
qed

lemma e_map_results: "e_map f xs s = Some (Inr ys, t) \<Longrightarrow> length ys = length xs"
  by (induction xs arbitrary: s ys t) (auto simp: e_return_def dest!: e_bind_result)

text \<open>A loop whose rounds do not change the state succeeds when all of them do.\<close>

lemma e_map_reads:
  assumes "\<And>x. x \<in> set xs \<Longrightarrow> keeps (\<lambda>t. t = s) (f x)" "e_map f xs s = Some (Inr ys, t)"
  shows "t = s \<and> length ys = length xs \<and> (\<forall>i<length xs. f (xs ! i) s = Some (Inr (ys ! i), s))"
  using assms
proof (induction xs arbitrary: ys t)
  case Nil
  then show ?case by (simp add: e_return_def)
next
  case (Cons x xs)
  from Cons.prems(2) obtain y u zs v where 1: "f x s = Some (Inr y, u)" "e_map f xs u = Some (Inr zs, v)" "ys = y # zs" "t = v"
    by (auto simp: e_return_def dest!: e_bind_result)
  have u: "u = s" using keepsD [OF Cons.prems(1) _ 1(1)] by simp
  have "t = s \<and> length zs = length xs \<and> (\<forall>i<length xs. f (xs ! i) s = Some (Inr (zs ! i), s))"
    by (rule Cons.IH) (use Cons.prems(1) 1 u in simp_all)
  then show ?case using 1 u by (auto simp: nth_Cons split: nat.split)
qed

section \<open>The HMACs of a response\<close>

lemma keeps_read [keeps_intro]: "keeps I (e_read f)"
  by (simp add: e_read_def [abs_def] keeps_lift_of)

lemma keeps_change_auth [keeps_intro]:
  "keeps I (change_HierarchyChangeAuth session n inp)" "keeps I (change_NV_ChangeAuth session n inp)"
  "keeps I (change_NV_UndefineSpaceSpecial session n inp)"
  unfolding change_HierarchyChangeAuth_def change_NV_ChangeAuth_def change_NV_UndefineSpaceSpecial_def
    TSS_CA_HierarchyChangeAuth_def TSS_CA_NV_ChangeAuth_def TSS_CA_NV_UndefineSpaceSpecial_def
  by (auto intro!: keeps_undefined keeps_bind keeps_basic keeps_keys(3) keeps_if
      split: option.split COMMAND_PARAMETERS.split Hierarchy_In_member.split NV_In_member.split)

lemma keeps_ChangeAuthProcessor [keeps_intro]: "keeps I (TSS_Command_ChangeAuthProcessor L allowNull session n inp)"
  unfolding keeps_def
proof (intro allI impI)
  fix s r s' assume i: "I s" and e: "TSS_Command_ChangeAuthProcessor L allowNull session n inp s = Some (r, s')"
  have tab: "list_all (\<lambda>(_, _, change, _). case change of None \<Rightarrow> True | Some f \<Rightarrow> keeps I (f session n inp)) (tssTable L allowNull)"
    by (simp add: tssTable_def keeps_change_auth)
  have t: "keeps I (f session n inp)" if "tss_entry L allowNull cc = Some (c, p, Some f, q)" for cc c p f q
  proof -
    from that have "(c, p, Some f, q) \<in> set (tssTable L allowNull)" by (auto simp: tss_entry_def find_Some_iff)
    with tab show ?thesis by (auto simp: list_all_iff)
  qed
  show "I s'"
    using i e by (auto simp: TSS_Command_ChangeAuthProcessor_def e_return_def split: option.splits prod.splits dest!: t dest: keepsD)
qed

lemma keeps_verify_session [keeps_intro]: "keeps I (verify_session L allowNull inp i session authR)"
  unfolding verify_session_def Let_def by (intro keeps_intro)

lemma keeps_verify_slot [keeps_intro]: "keeps I (verify_slot L allowNull inp x)"
  unfolding verify_slot_def by (cases x) (auto intro!: keeps_intro split: option.split)

text \<open>
  What a session that was checked satisfies. The HMAC is checked for HMAC sessions, and for policy sessions whose policy asks for
  the authorization value; of another policy session only the nonce is taken, see \<open>policy_response_unchecked\<close>.
\<close>

definition verified :: "'z crypto_scheme \<Rightarrow> bool \<Rightarrow> COMMAND_PARAMETERS option \<Rightarrow> TSS_CONTEXT \<Rightarrow> nat \<Rightarrow> slot \<Rightarrow> TPMS_AUTH_RESPONSE \<Rightarrow> bool" where
  "verified L allowNull inp s i sl authR \<longleftrightarrow>
     (if sl_handle sl = TPM_RS_PW then TSS_PwapSession_Verify authR = Some (Inr ())
      else \<exists>session nonceTPM. sl_session sl = Some session \<and> TSS_TPM2B_Copy 128 (TPMS_AUTH_RESPONSE_nonce authR) sizeof_TPMU_HA = Some (Inr nonceTPM) \<and>
        (has_hmac (session\<lparr>s_nonceTPM := nonceTPM\<rparr>) \<longrightarrow>
           (\<exists>session'. TSS_Command_ChangeAuthProcessor L allowNull (session\<lparr>s_nonceTPM := nonceTPM\<rparr>) (of_nat i) inp s = Some (Inr session', s) \<and>
              TSS_HmacSession_Verify L (tssAuthContext s) session' authR = Some (Inr ()))))"

lemma e_lift_Inr: "e_lift r s = Some (Inr x, t) \<longleftrightarrow> r = Some (Inr x) \<and> t = s"
  by (auto simp: e_lift_def)

lemma verify_slot_verified: "verify_slot L allowNull inp (i, sl, authR) s = Some (Inr sl', t) \<Longrightarrow> verified L allowNull inp s i sl authR"
proof -
  have c: "TSS_Command_ChangeAuthProcessor L allowNull session n inp s = Some (Inr x, u) \<Longrightarrow> u = s" for session n x u
    using keepsD [OF keeps_ChangeAuthProcessor [of "\<lambda>t. t = s"], of s] by blast
  assume "verify_slot L allowNull inp (i, sl, authR) s = Some (Inr sl', t)"
  then show ?thesis
    by (auto simp: verify_slot_def verify_session_def Let_def verified_def undefined_behaviour_def e_lift_Inr e_read_def e_return_def
      split: if_splits option.splits dest!: e_bind_result) (frule c, simp)+
qed

text \<open>The response of a policy session without authorization value is accepted with any HMAC, also when the session has a session key.\<close>

lemma policy_response_unchecked:
  assumes "sl_handle sl \<noteq> TPM_RS_PW" "sl_session sl = Some session" "s_sessionType session = TPM_SE_POLICY" "s_isAuthValueNeeded session = 0"
    and "TSS_TPM2B_Copy 128 (TPMS_AUTH_RESPONSE_nonce authR) sizeof_TPMU_HA = Some (Inr nonceTPM)"
  shows "verify_slot L allowNull inp (i, sl, authR\<lparr>TPMS_AUTH_RESPONSE_hmac := hmac\<rparr>) s =
    Some (Inr (sl\<lparr>sl_session := Some (session\<lparr>s_nonceTPM := nonceTPM\<rparr>)\<rparr>), s)"
  using assms by (simp add: verify_slot_def verify_session_def has_hmac_def e_bind_def e_lift_def e_return_def Let_def)

section \<open>The sessions of a command\<close>

text \<open>A predicate that does not speak about the packet or the random numbers.\<close>

definition stable :: "(TSS_CONTEXT \<Rightarrow> bool) \<Rightarrow> bool" where
  "stable I \<longleftrightarrow> (\<forall>s c r. I s \<longrightarrow> I (s\<lparr>tssAuthContext := c\<rparr>) \<and> I (s\<lparr>random := r\<rparr>))"

lemma keeps_stable [keeps_intro]:
  assumes "stable I"
  shows "keeps I (e_context f)" "keeps I (e_update g)" "keeps I (TSS_RandBytes n)"
  using assms by (auto simp: stable_def keeps_def e_context_def e_update_def TSS_RandBytes_def e_return_def e_fail_def
    split: option.splits sum.splits if_splits)

lemma keeps_get_names [keeps_intro]: "keeps I (get_names n i names)"
  by (induction n arbitrary: i names) (auto intro!: keeps_intro)

lemma keeps_all_names [keeps_intro]: "keeps I (TSS_Name_GetAllNames names)"
  unfolding TSS_Name_GetAllNames_def [abs_def] keeps_def using keepsD [OF keeps_get_names] by blast

lemma keeps_names_of [keeps_intro]: "keeps I (names_of names)"
  unfolding names_of_def by (intro keeps_intro)

text \<open>The session of a slot has the handle of a session.\<close>

definition slot_ok :: "slot \<Rightarrow> bool" where
  "slot_ok sl \<longleftrightarrow> (case sl_session sl of None \<Rightarrow> True | Some session \<Rightarrow> handle_type (s_sessionHandle session) \<noteq> TPM_HT_NV_INDEX)"

lemma slot_ok_simps [simp]:
  "slot_ok (sl\<lparr>sl_auth := a\<rparr>) = slot_ok sl"
  "slot_ok (sl\<lparr>sl_session := Some session\<rparr>) \<longleftrightarrow> handle_type (s_sessionHandle session) \<noteq> TPM_HT_NV_INDEX"
  by (simp_all add: slot_ok_def)

lemma triple_result:
  "keeps I m \<Longrightarrow> (\<And>s x t. m s = Some (Inr x, t) \<Longrightarrow> Q x) \<Longrightarrow> triple I m (\<lambda>x s. I s \<and> Q x) I"
  unfolding triple_def keeps_def by (fastforce split: sum.split)

lemma triple_extra: "(q \<Longrightarrow> triple P m Q E) \<Longrightarrow> triple (\<lambda>s. P s \<and> q) m Q E"
  by (auto simp: triple_def)

lemma triple_stronger: "triple I m Q I \<Longrightarrow> (\<And>x s. Q x s \<Longrightarrow> R x s) \<Longrightarrow> triple I m R I"
  by (rule triple_weaken)

lemma gather_ok:
  assumes I: "stable I"
  shows "triple I (gather L n args names) (\<lambda>r s. I s \<and> list_all slot_ok (fst r)) I"
proof (induction L n args names rule: gather.induct)
  case (1 L args names)
  show ?case by (simp add: triple_def e_return_def)
next
  case (2 L n names)
  show ?case by (simp add: triple_def undefined_behaviour_def)
next
  case (3 L n handle password attributes args names)
  let ?slot = "\<lparr>sl_handle = handle, sl_password = password, sl_attributes = ucast attributes, sl_session = None, sl_auth = empty_auth\<rparr>"
  have r: "triple (\<lambda>s. I s \<and> list_all slot_ok (fst r)) (case r of (slots, names) \<Rightarrow> e_return (sl # slots, names))
      (\<lambda>r s. I s \<and> list_all slot_ok (fst r)) I" if "slot_ok sl" for sl r
    using that by (cases r) (simp add: triple_def e_return_def)
  show ?case
  proof (cases "handle = TPM_RH_NULL \<or> handle = TPM_RS_PW")
    case True
    then consider "handle = TPM_RH_NULL" | "handle = TPM_RS_PW" "handle \<noteq> TPM_RH_NULL" by auto
    then show ?thesis
    proof cases
      case 1
      then show ?thesis by (simp add: triple_def e_return_def)
    next
      case 2
      then show ?thesis unfolding gather.simps Let_def
        by (simp, intro triple_bind [OF triple_keeps [OF keeps_basic(3)]] triple_bind [OF "3.IH"(1)] r) (simp_all add: slot_ok_def)
    qed
  next
    case False
    have load: "triple I (TSS_HmacSession_LoadSession L handle) (\<lambda>session s. I s \<and> handle_type (s_sessionHandle session) \<noteq> TPM_HT_NV_INDEX) I"
      by (rule triple_result [OF keeps_loads(6)]) (rule loaded_handle)
    have step: "triple (\<lambda>s. I s \<and> handle_type (s_sessionHandle session) \<noteq> TPM_HT_NV_INDEX)
        (e_bind (gather L n args (Some ns)) (\<lambda>(slots, names). e_return (?slot\<lparr>sl_session := Some session\<rparr> # slots, names)))
        (\<lambda>r s. I s \<and> list_all slot_ok (fst r)) I" for session ns
      by (rule triple_extra, rule triple_bind [OF "3.IH"(2)], use False in simp_all, rule r, simp add: slot_ok_def)
    from False show ?thesis unfolding gather.simps Let_def
      by (simp, intro triple_bind [OF triple_keeps [OF keeps_names_of]] triple_bind [OF load]) (use step in simp)
  qed
qed

lemma for_sessions_ok:
  assumes f: "\<And>i sl session. slot_ok sl \<Longrightarrow> sl_session sl = Some session \<Longrightarrow> triple I (f i sl session) (\<lambda>sl s. I s \<and> slot_ok sl) I"
    and s: "list_all slot_ok slots"
  shows "triple I (for_sessions f slots) (\<lambda>slots s. I s \<and> list_all slot_ok slots) I"
  unfolding for_sessions_def
proof (rule triple_map)
  fix x assume "x \<in> set (enumerate 0 slots)"
  then have "snd x \<in> snd ` set (enumerate 0 slots)" by (rule imageI)
  also have "\<dots> = set slots" by (metis map_snd_enumerate set_map)
  finally have "snd x \<in> set slots" .
  then have "slot_ok (snd x)" using s by (simp add: list_all_iff)
  then obtain i sl where x: "x = (i, sl)" "slot_ok sl" by (cases x) simp
  show "triple I (case x of (i, sl) \<Rightarrow> if sl_handle sl = TPM_RS_PW then e_return sl
      else case sl_session sl of None \<Rightarrow> undefined_behaviour | Some session \<Rightarrow> f i sl session) (\<lambda>sl s. I s \<and> slot_ok sl) I"
    using x f by (auto simp: triple_def e_return_def undefined_behaviour_def split: option.split)
qed

lemma roll_nonce_ok:
  assumes "stable I" "slot_ok sl" "sl_session sl = Some session"
  shows "triple I (roll_nonce i sl session) (\<lambda>sl s. I s \<and> slot_ok sl) I"
proof (rule triple_result)
  show "keeps I (roll_nonce i sl session)" unfolding roll_nonce_def TSS_HmacSession_SetNonceCaller_def Let_def
    by (intro keeps_bind keeps_stable(3) assms(1) keeps_if keeps_basic keeps_prod)
  show "slot_ok sl'" if "roll_nonce i sl session s = Some (Inr sl', t)" for s sl' t
    using that assms(2,3)
    by (auto simp: roll_nonce_def TSS_HmacSession_SetNonceCaller_def Let_def e_return_def slot_ok_def [of sl] split: if_splits dest!: e_bind_result)
qed

lemma SetHmacKey_handle: "TSS_HmacSession_SetHmacKey session n pw s = Some (Inr session', t) \<Longrightarrow> s_sessionHandle session' = s_sessionHandle session"
  unfolding TSS_HmacSession_SetHmacKey_def Let_def by (auto simp: e_return_def split: if_splits dest!: e_bind_result)

lemma calculate_key_ok:
  assumes "slot_ok sl" "sl_session sl = Some session"
  shows "triple I (calculate_key i sl session) (\<lambda>sl s. I s \<and> slot_ok sl) I"
proof (rule triple_result)
  show "keeps I (calculate_key i sl session)" unfolding calculate_key_def by (intro keeps_intro)
  show "slot_ok sl'" if "calculate_key i sl session s = Some (Inr sl', t)" for s sl' t
    using that assms by (auto simp: calculate_key_def e_return_def slot_ok_def [of sl] dest!: e_bind_result SetHmacKey_handle)
qed

lemma set_auths_ok: "list_all slot_ok slots \<Longrightarrow> list_all slot_ok (set_auths slots auths)"
  by (auto simp: set_auths_def list_all_iff dest!: set_zip_leftD)

lemma authorize_command_ok:
  assumes I: "stable I"
  shows "triple I (authorize_command L ap) (\<lambda>slots s. I s \<and> list_all slot_ok slots) I"
proof -
  have roll: "triple I (for_sessions roll_nonce slots) (\<lambda>slots s. I s \<and> list_all slot_ok slots) I" if "list_all slot_ok slots" for slots
    by (rule for_sessions_ok [OF roll_nonce_ok [OF I] that])
  have key: "triple I (for_sessions calculate_key slots) (\<lambda>slots s. I s \<and> list_all slot_ok slots) I" if "list_all slot_ok slots" for slots
    by (rule for_sessions_ok [OF calculate_key_ok that])
  have last: "triple I (e_bind (e_update f) (\<lambda>_. e_bind (e_read g) (\<lambda>auths. e_bind (e_context (h auths)) (\<lambda>_. e_return (set_auths slots auths)))))
      (\<lambda>slots s. I s \<and> list_all slot_ok slots) I" if "list_all slot_ok slots" for slots f g h
    by (rule triple_result, intro keeps_bind keeps_stable(1,2) I keeps_read keeps_basic)
      (use that in \<open>auto simp: e_return_def intro: set_auths_ok dest!: e_bind_result\<close>)
  show ?thesis unfolding authorize_command_def
  proof (rule triple_bind [OF gather_ok [OF I]])
    fix r :: "slot list \<times> TPM2B list option"
    obtain slots names where r: "r = (slots, names)" by fastforce
    show "triple (\<lambda>s. I s \<and> list_all slot_ok (fst r)) (case r of (slots, names) \<Rightarrow>
       e_bind (for_sessions roll_nonce slots) (\<lambda>slots.
       e_bind (for_sessions calculate_key slots) (\<lambda>slots.
       e_bind (e_update (\<lambda>c. TSS_Command_Decrypt L c slots)) (\<lambda>_.
       e_bind (e_read (\<lambda>c. TSS_HmacSession_SetHMAC L c slots (case names of None \<Rightarrow> no_names | Some ns \<Rightarrow> ns))) (\<lambda>auths.
       e_bind (e_context (\<lambda>c. TSS_SetCmdAuths c auths)) (\<lambda>_.
       e_return (set_auths slots auths))))))) (\<lambda>slots s. I s \<and> list_all slot_ok slots) I"
      unfolding r prod.case fst_conv
      by (rule triple_extra, rule triple_bind [OF roll], assumption, rule triple_extra, rule triple_bind [OF key], assumption,
          rule triple_extra, rule last)
  qed
qed


section \<open>Responses that were not verified\<close>

lemma stable_files: "stable (\<lambda>s. files s = F)"
  by (simp add: stable_def)

lemma keeps_result: "keeps I m \<Longrightarrow> I s \<Longrightarrow> m s = Some (r, t) \<Longrightarrow> I t"
  by (rule keepsD)

lemma e_bind_cases:
  assumes "e_bind m f s = Some (r, s')"
  obtains (failed) rc where "m s = Some (Inl rc, s')" "r = Inl rc" | (step) x t where "m s = Some (Inr x, t)" "f x t = Some (r, s')"
  using assms by (cases "m s") (auto simp: e_bind_def split: sum.splits)

lemma verify_slots_verified:
  assumes "verify_slots L allowNull inp slots authRs s = Some (r, t)"
  shows "t = s" "r = Inr slots' \<Longrightarrow> length authRs = length slots \<and> (\<forall>i<length slots. verified L allowNull inp s i (slots ! i) (authRs ! i))"
proof -
  have l: "length authRs = length slots" and m: "e_map (verify_slot L allowNull inp) (enumerate 0 (zip slots authRs)) s = Some (r, t)"
    using assms by (auto simp: verify_slots_def undefined_behaviour_def split: if_splits)
  have k: "keeps (\<lambda>t. t = s) (e_map (verify_slot L allowNull inp) (enumerate 0 (zip slots authRs)))" by (intro keeps_intro)
  show "t = s" using keepsD [OF k _ m] by simp
  show "length authRs = length slots \<and> (\<forall>i<length slots. verified L allowNull inp s i (slots ! i) (authRs ! i))" if "r = Inr slots'"
  proof (intro conjI allI impI l)
    fix i assume i: "i < length slots"
    have "verify_slot L allowNull inp (enumerate 0 (zip slots authRs) ! i) s = Some (Inr (slots' ! i), s)"
      using e_map_reads [OF keeps_verify_slot m [unfolded that]] i l by simp
    then show "verified L allowNull inp s i (slots ! i) (authRs ! i)"
      using i l by (intro verify_slot_verified [where sl' = "slots' ! i" and t = s]) (simp add: nth_enumerate_eq)
  qed
qed

text \<open>C15. A command with sessions. Either the responses of the sessions were verified, or the execution returns an error and has changed no
  file, so that nothing of such a response is stored. Verified is the response of a password session by its form, and of an HMAC session,
  and of a policy session whose policy asks for the authorization value, by its HMAC, which is the one that the keys of the session
  give with the new nonce of the TPM (and with the new authorization, where the command changes it). Of a policy session without
  authorization value the code takes the nonce, and its HMAC is not verified.\<close>

theorem TSS_Execute_verifies:
  assumes "TSS_Execute_valist L allowNull transmit inp ap s = Some (r, s')"
  shows "(\<exists>slots t u authRs. authorize_command L ap s = Some (Inr slots, t) \<and>
      e_context (\<lambda>c. Some (TSS_AuthExecute transmit c)) t = Some (Inr (), u) \<and>
      TSS_GetRspAuths (tssAuthContext u) (length slots) = Some (Inr authRs) \<and> length authRs = length slots \<and>
      (\<forall>i<length slots. verified L allowNull inp u i (slots ! i) (authRs ! i))) \<or>
    (\<exists>rc. r = Inl rc \<and> files s' = files s)"
proof -
  let ?I = "\<lambda>t. files t = files s"
  have a: "keeps ?I (authorize_command L ap)"
    by (rule keeps_triple, rule triple_stronger [OF authorize_command_ok [OF stable_files [of "files s"]]], erule conjunct1)
  from assms show ?thesis unfolding TSS_Execute_valist_def
  proof (cases rule: e_bind_cases)
    case (failed rc)
    have "files s' = files s" using keepsD [OF a _ failed(1)] by blast
    with failed(2) show ?thesis by simp
  next
    case (step slots t)
    note authorized = step(1)
    have t: "files t = files s" using keepsD [OF a _ authorized] by blast
    from step(2) show ?thesis
    proof (cases rule: e_bind_cases)
      case (failed rc)
      with keepsD [OF keeps_stable(1) [OF stable_files [of "files s"]] t] show ?thesis by blast
    next
      case (step x u)
      note executed = step(1)
      have u: "files u = files s" using keepsD [OF keeps_stable(1) [OF stable_files [of "files s"]] t executed] .
      from step(2) show ?thesis unfolding check_response_def
      proof (cases rule: e_bind_cases)
        case (failed rc)
        then show ?thesis using u by (auto simp: e_read_def e_lift_def)
      next
        case (step authRs v)
        then have g: "TSS_GetRspAuths (tssAuthContext u) (length slots) = Some (Inr authRs)" "v = u" by (auto simp: e_read_def e_lift_def)
        from step(2) show ?thesis
        proof (cases rule: e_bind_cases)
          case (failed rc)
          with verify_slots_verified(1) g(2) u show ?thesis by blast
        next
          case (step slots' w)
          then have v: "length authRs = length slots \<and> (\<forall>i<length slots. verified L allowNull inp u i (slots ! i) (authRs ! i))"
            using verify_slots_verified(2) [OF step(1) refl] g(2) by simp
          have "e_context (\<lambda>c. Some (TSS_AuthExecute transmit c)) t = Some (Inr (), u)" using executed by simp
          then show ?thesis
            by (intro disjI1, intro exI [of _ slots] exI [of _ t] exI [of _ u] exI [of _ authRs]) (use authorized g(1) v in simp)
        qed
      qed
    qed
  qed
qed


section \<open>The stores after any command\<close>

lemma stable_nv_inv: "stable (nv_inv L dir W)"
  by (auto simp: stable_def nv_inv_def nv_named_def nv_at_def short_directory_def file_of_def)

lemma Name_GetName_stored:
  assumes "short_directory s" "handle_type h = TPM_HT_NV_INDEX" "name_encodes name bs" "files s (file_of s ''h'' h) = Some bs"
    and "readable s (file_of s ''h'' h)"
  shows "TSS_Name_GetName old h s = Some (Inr (Some name), s)"
proof -
  have "TSS_Name_Load h None s = Some (Inr name, s)" by (rule names.get [OF assms(1) nv_index_0 [OF assms(2)] assms(3-5)])
  then show ?thesis using assms(2) by (simp add: TSS_Name_GetName_def Let_def e_bind_def e_return_def)
qed

text \<open>What is assumed of a command: of its handles, and of the files of an index whose public area it reads.\<close>

definition expected :: "(string \<Rightarrow> write_outcome) \<Rightarrow> string \<Rightarrow> COMMAND_PARAMETERS option \<Rightarrow> bool" where
  "expected W dir inp \<longleftrightarrow> plausible_in inp \<and> kept_together W dir inp"

text \<open>Before a command: the parameters may change, but not those that the invariant is about.\<close>

lemma keeps_RSAPublicEncrypt [keeps_intro]:
  assumes "stable I"
  shows "keeps I (TSS_RSAPublicEncrypt L n d narr nb earr eb p halg)"
  unfolding TSS_RSAPublicEncrypt_def TSS_RSA_padding_add_PKCS1_OAEP_def Let_def
  by (intro keeps_bind keeps_basic keeps_prod keeps_guard keeps_stable(3) assms)

lemma keeps_encrypt_salt: "stable I \<Longrightarrow> keeps I (encrypt_salt L publicArea)"
  unfolding encrypt_salt_def Let_def
  by (auto intro!: keeps_undefined keeps_bind keeps_stable(3) keeps_RSAPublicEncrypt keeps_basic split: option.split)

lemma keeps_pre_StartAuthSession: "stable I \<Longrightarrow> keeps I (TSS_PR_StartAuthSession L allowNull inp extra)"
  unfolding TSS_PR_StartAuthSession_def Let_def
  by (auto intro!: keeps_undefined keeps_bind keeps_stable(3) keeps_guard keeps_basic keeps_if keeps_loads keeps_encrypt_salt keeps_prod
      split: option.split EXTRA_PARAMETERS.split)

lemma keeps_pre_PolicySigned: "keeps I (TSS_PR_PolicySigned L inp extra)"
  unfolding TSS_PR_PolicySigned_def Let_def
  by (auto intro!: keeps_undefined keeps_bind keeps_basic split: option.split EXTRA_PARAMETERS.split TPMU_SIGNATURE.split)

lemma triple_pre:
  fixes I :: "TSS_CONTEXT \<Rightarrow> bool"
  assumes I: "stable I" and p: "expected W dir (fst ie)"
  shows "triple I (pre_StartAuthSession L allowNull ie) (\<lambda>ie s. I s \<and> expected W dir (fst ie)) I"
    "triple I (pre_PolicySigned L allowNull ie) (\<lambda>ie s. I s \<and> expected W dir (fst ie)) I"
    "triple I (pre_NV_DefineSpace L allowNull ie) (\<lambda>ie s. I s \<and> expected W dir (fst ie)) I"
proof -
  have q: "expected W dir (Some (Object_Parameters (In_StartAuthSession i)))" "expected W dir (Some (Policy_Parameters (In_PolicySigned j)))" for i j
    by (simp_all add: expected_def plausible_in_def kept_together_def)
  show "triple I (pre_StartAuthSession L allowNull ie) (\<lambda>ie s. I s \<and> expected W dir (fst ie)) I"
    unfolding pre_StartAuthSession_def
    by (rule triple_result)
      (auto intro!: keeps_undefined keeps_bind keeps_pre_StartAuthSession [OF I] keeps_basic q simp: undefined_behaviour_def e_return_def
        split: option.split option.splits prod.split prod.splits COMMAND_PARAMETERS.split COMMAND_PARAMETERS.splits
          Object_In_member.split Object_In_member.splits dest!: e_bind_result)
  show "triple I (pre_PolicySigned L allowNull ie) (\<lambda>ie s. I s \<and> expected W dir (fst ie)) I"
    unfolding pre_PolicySigned_def
    by (rule triple_result)
      (auto intro!: keeps_undefined keeps_bind keeps_pre_PolicySigned keeps_basic q simp: undefined_behaviour_def e_return_def
        split: option.split option.splits prod.split prod.splits COMMAND_PARAMETERS.split COMMAND_PARAMETERS.splits
          Policy_In_member.split Policy_In_member.splits dest!: e_bind_result)
  show "triple I (pre_NV_DefineSpace L allowNull ie) (\<lambda>ie s. I s \<and> expected W dir (fst ie)) I"
    unfolding pre_NV_DefineSpace_def TSS_PR_NV_DefineSpace_def Let_def using p
    by (intro triple_result)
      (auto intro!: keeps_undefined keeps_bind keeps_guard keeps_basic simp: undefined_behaviour_def e_return_def
        split: option.split option.splits prod.split prod.splits COMMAND_PARAMETERS.split COMMAND_PARAMETERS.splits
          NV_In_member.split NV_In_member.splits dest!: e_bind_result)
qed

lemma PreProcessor_ok:
  assumes "stable I" "expected W dir (fst ie)"
  shows "triple I (TSS_Command_PreProcessor L allowNull cc ie) (\<lambda>ie s. I s \<and> expected W dir (fst ie)) I"
proof -
  have tab: "list_all (\<lambda>(_, pre, _, _). case pre of None \<Rightarrow> True | Some f \<Rightarrow> triple I (f ie) (\<lambda>ie s. I s \<and> expected W dir (fst ie)) I)
      (tssTable L allowNull)"
    by (simp add: tssTable_def triple_pre [OF assms])
  have "triple I (f ie) (\<lambda>ie s. I s \<and> expected W dir (fst ie)) I" if "tss_entry L allowNull cc = Some (c, Some f, p, q)" for c f p q
  proof -
    from that have "(c, Some f, p, q) \<in> set (tssTable L allowNull)" by (auto simp: tss_entry_def find_Some_iff)
    with tab show ?thesis by (auto simp: list_all_iff)
  qed
  moreover have "triple I (e_return ie) (\<lambda>ie s. I s \<and> expected W dir (fst ie)) I" using assms(2) by (simp add: triple_def e_return_def)
  ultimately show ?thesis unfolding TSS_Command_PreProcessor_def by (auto split: option.split)
qed

text \<open>Behind a response: the sessions keep their handles.\<close>

lemma ChangeAuth_handle:
  "TSS_Command_ChangeAuthProcessor L allowNull session n inp s = Some (Inr session', t) \<Longrightarrow> s_sessionHandle session' = s_sessionHandle session"
proof -
  assume e: "TSS_Command_ChangeAuthProcessor L allowNull session n inp s = Some (Inr session', t)"
  let ?Q = "\<lambda>m :: TSS_HMAC_CONTEXT tss. \<forall>s x t. m s = Some (Inr x, t) \<longrightarrow> s_sessionHandle x = s_sessionHandle session"
  have key: "?Q (TSS_HmacSession_SetHmacKey session n pw)" for pw by (blast dest: SetHmacKey_handle)
  have "?Q (change_HierarchyChangeAuth session n inp)" "?Q (change_NV_ChangeAuth session n inp)" "?Q (change_NV_UndefineSpaceSpecial session n inp)"
    unfolding change_HierarchyChangeAuth_def change_NV_ChangeAuth_def change_NV_UndefineSpaceSpecial_def
      TSS_CA_HierarchyChangeAuth_def TSS_CA_NV_ChangeAuth_def TSS_CA_NV_UndefineSpaceSpecial_def
    using key by (auto simp: undefined_behaviour_def e_return_def dest!: e_bind_result
        split: option.splits COMMAND_PARAMETERS.splits Hierarchy_In_member.splits NV_In_member.splits if_splits)
  then have tab: "list_all (\<lambda>(_, _, change, _). case change of None \<Rightarrow> True | Some f \<Rightarrow> ?Q (f session n inp)) (tssTable L allowNull)"
    by (simp add: tssTable_def)
  have "?Q (f session n inp)" if "tss_entry L allowNull cc = Some (c, p, Some f, q)" for cc c p f q
  proof -
    from that have "(c, p, Some f, q) \<in> set (tssTable L allowNull)" by (auto simp: tss_entry_def find_Some_iff)
    from tab [unfolded list_all_iff, rule_format, OF this] show ?thesis by simp
  qed
  with e show ?thesis by (auto simp: TSS_Command_ChangeAuthProcessor_def e_return_def split: option.splits) blast
qed

lemma verify_slot_ok: "slot_ok sl \<Longrightarrow> verify_slot L allowNull inp (i, sl, authR) s = Some (Inr sl', t) \<Longrightarrow> slot_ok sl'"
  unfolding slot_ok_def [of sl]
  by (auto simp: verify_slot_def verify_session_def Let_def undefined_behaviour_def e_return_def slot_ok_def
      split: if_splits option.splits dest!: e_bind_result ChangeAuth_handle)


lemma audit_slot_ok: "slot_ok sl \<Longrightarrow> slot_ok (audit_slot sl authR)"
  by (auto simp: audit_slot_def slot_ok_def split: option.splits)

lemma keeps_continue_slot:
  assumes "slot_ok sl"
  shows "keeps (nv_inv L dir W) (continue_slot M (sl, authR))"
  using assms by (auto intro!: keeps_basic keeps_undefined keeps_Continue simp: continue_slot_def slot_ok_def split: option.splits)

lemma verify_slots_ok:
  assumes "list_all slot_ok slots" "verify_slots L allowNull inp slots authRs s = Some (Inr slots', t)"
  shows "list_all slot_ok slots'"
proof -
  have l: "length authRs = length slots" and m: "e_map (verify_slot L allowNull inp) (enumerate 0 (zip slots authRs)) s = Some (Inr slots', t)"
    using assms(2) by (auto simp: verify_slots_def undefined_behaviour_def split: if_splits)
  have "length slots' = length slots" and i: "\<And>i. i < length slots \<Longrightarrow> verify_slot L allowNull inp (i, slots ! i, authRs ! i) s = Some (Inr (slots' ! i), s)"
    using e_map_reads [OF keeps_verify_slot m] l by (simp_all add: nth_enumerate_eq)
  with assms(1) verify_slot_ok [OF _ i] show ?thesis by (simp add: list_all_length)
qed

lemma keeps_check_response:
  assumes s: "list_all slot_ok slots"
  shows "keeps (nv_inv L dir W) (check_response M allowNull inp slots)"
  unfolding check_response_def
proof (rule keeps_bind [OF keeps_read], rule keeps_bind_result)
  fix authRs
  show "keeps (nv_inv L dir W) (verify_slots M allowNull inp slots authRs)"
    by (auto simp: verify_slots_def intro!: keeps_map keeps_verify_slot keeps_undefined)
  fix s x s' assume "verify_slots M allowNull inp slots authRs s = Some (Inr x, s')"
  from verify_slots_ok [OF assms this] have ok: "list_all slot_ok (map2 audit_slot x authRs)"
    by (auto simp: list_all_iff intro: audit_slot_ok dest!: set_zip_leftD)
  then have "keeps (nv_inv L dir W) (e_map (continue_slot M) (zip (map2 audit_slot x authRs) authRs))"
  proof (intro keeps_map)
    fix y assume "y \<in> set (zip (map2 audit_slot x authRs) authRs)"
    moreover obtain a b where y: "y = (a, b)" by fastforce
    ultimately have "a \<in> set (map2 audit_slot x authRs)" by (metis set_zip_leftD)
    with ok have "slot_ok a" by (simp only: list_all_iff)
    with y show "keeps (nv_inv L dir W) (continue_slot M y)" by (simp add: keeps_continue_slot)
  qed
  then show "keeps (nv_inv L dir W) (let slots = map2 audit_slot x authRs in e_bind (e_map (continue_slot M) (zip slots authRs))
      (\<lambda>_. e_update (\<lambda>c. TSS_Response_Encrypt M c slots)))"
    unfolding Let_def by (intro keeps_bind keeps_stable(2) stable_nv_inv)
qed

lemma keeps_valist: "keeps (nv_inv L dir W) (TSS_Execute_valist M allowNull transmit inp ap)"
proof -
  have "triple (\<lambda>s. nv_inv L dir W s \<and> list_all slot_ok slots) (e_bind (e_context f) (\<lambda>_. check_response M allowNull inp slots))
      (\<lambda>_. nv_inv L dir W) (nv_inv L dir W)" for slots f
    by (rule triple_extra, rule triple_keeps, intro keeps_bind keeps_stable(1) stable_nv_inv keeps_check_response)
  then show ?thesis unfolding TSS_Execute_valist_def
    by (intro keeps_triple triple_bind [OF authorize_command_ok [OF stable_nv_inv]])
qed

text \<open>An execution up to the response, with the parameters as they were changed.\<close>

definition execute_response :: "'z crypto_scheme \<Rightarrow> bool \<Rightarrow> (nat \<Rightarrow> TPM_HANDLE) \<Rightarrow> transmit \<Rightarrow> bool \<Rightarrow> in_extra \<Rightarrow> TPM_CC \<Rightarrow> vararg list \<Rightarrow>
  (in_extra \<times> RESPONSE_PARAMETERS option) tss" where
  "execute_response L allowNull handles transmit out ie cc ap =
     e_bind (e_context (\<lambda>c. Some (0, TSS_InitAuthContext c))) (\<lambda>_.
     e_bind (TSS_Command_PreProcessor L allowNull cc ie) (\<lambda>ie.
     e_bind (e_context (\<lambda>c. TSS_Marshal handles c (fst ie) cc)) (\<lambda>_.
     e_bind (TSS_Execute_valist L allowNull transmit (fst ie) ap) (\<lambda>_.
     e_bind (e_read (\<lambda>c. TSS_Unmarshal c out)) (\<lambda>response. e_return (ie, response))))))"

lemma e_bind_assoc: "e_bind (e_bind m f) g = e_bind m (\<lambda>x. e_bind (f x) g)"
  by (auto simp: e_bind_def fun_eq_iff split: option.split sum.split)

lemma TSS_Execute_split: "TSS_Execute L allowNull handles transmit out ie cc ap =
    e_bind (execute_response L allowNull handles transmit out ie cc ap) (\<lambda>(ie, response).
    e_bind (TSS_Response_PostProcessor L allowNull ie response) (\<lambda>_. e_return (ie, response)))"
  by (simp add: TSS_Execute_def execute_response_def e_bind_assoc)

lemma returns_changed:
  assumes "keeps (nv_inv L dir W) m" "keeps (nv_inv L dir W) n" "keeps (nv_inv L dir W) p" "expected W dir (fst ie)"
  shows "triple (nv_inv L dir W) (e_bind m (\<lambda>_. e_bind n (\<lambda>_. e_bind p (\<lambda>response. e_return (ie, response)))))
    (\<lambda>r s. nv_inv L dir W s \<and> expected W dir (fst (fst r))) (nv_inv L dir W)"
  by (rule triple_result, intro keeps_bind assms(1-3) keeps_basic) (use assms(4) in \<open>auto simp: e_return_def dest!: e_bind_result\<close>)

lemma execute_response_ok:
  assumes "expected W dir (fst ie)"
  shows "triple (nv_inv L dir W) (execute_response M allowNull handles transmit out ie cc ap) (\<lambda>r s. nv_inv L dir W s \<and> expected W dir (fst (fst r))) (nv_inv L dir W)"
  unfolding execute_response_def
  by (rule triple_bind [OF triple_keeps [OF keeps_stable(1) [OF stable_nv_inv]]],
      rule triple_bind [OF PreProcessor_ok [OF stable_nv_inv assms]], rule triple_extra,
      rule returns_changed [OF keeps_stable(1) [OF stable_nv_inv] keeps_valist keeps_read])

text \<open>
  The states of a context in which commands are executed one after the other, with any sessions, responses and errors. Between two
  commands the environment may change what becomes of an attempt to read, write or remove a file, and what the random number generator
  returns: any file may be impossible to open, or be cut short, at any time. Two things are assumed of the files of an NV index: its
  public area can be removed, and a command that reads the public area from the TPM does not find the file of the Name in order and
  that of the public area not, nor leave half a Name.
\<close>

inductive executed :: "'z crypto_scheme \<Rightarrow> bool \<Rightarrow> TSS_CONTEXT \<Rightarrow> bool" for L :: "'z crypto_scheme" and allowNull :: bool where
  start: "executed L allowNull s" if "short_directory s" "\<And>h. files s (file_of s ''nvp'' h) = None"
| environment: "executed L allowNull (s\<lparr>on_write := w, on_read := r, removable := m, random := n\<rparr>)" if "executed L allowNull s"
| execute: "executed L allowNull s'" if "executed L allowNull s" "TSS_Execute L allowNull handles transmit out ie cc ap s = Some (r, s')"
    "expected (on_write s) (tssDataDirectory s) (fst ie)" "\<And>h. removable s (file_of s ''nvp'' h)"
    "\<And>ie' response t. execute_response L allowNull handles transmit out ie cc ap s = Some (Inr (ie', response), t) \<Longrightarrow> plausible_out response"

lemma executed_inv:
  fixes L :: "'z crypto_scheme"
  assumes L: "openssl_ok (openssl.truncate L)" and "executed L allowNull s"
  shows "short_directory s \<and> nv_named L s"
  using assms(2)
proof (induction rule: executed.induct)
  case (start s)
  then show ?case by (simp add: nv_named_def nv_at_def)
next
  case (environment s w r m n)
  then show ?case by (simp add: nv_named_def nv_at_def short_directory_def file_of_def)
next
  case (execute s handles transmit out ie cc ap r s')
  let ?dir = "tssDataDirectory s" and ?W = "on_write s"
  have i: "nv_inv L ?dir ?W s" using execute.IH execute(4) by (simp add: nv_inv_def)
  from execute(2) have "nv_inv L ?dir ?W s'" unfolding TSS_Execute_split
  proof (cases rule: e_bind_cases)
    case (failed rc)
    from tripleD [OF execute_response_ok [OF execute(3)] i failed(1)] show ?thesis by simp
  next
    case (step x t)
    obtain ie' response where x: "x = (ie', response)" by fastforce
    from tripleD [OF execute_response_ok [OF execute(3)] i step(1)] have t: "nv_inv L ?dir ?W t" "plausible_in (fst ie')" "kept_together ?W ?dir (fst ie')"
      by (simp_all add: x expected_def)
    have "keeps (nv_inv L ?dir ?W) (e_bind (TSS_Response_PostProcessor L allowNull ie' response) (\<lambda>_. e_return (ie', response)))"
      by (rule keeps_bind [OF keeps_PostProcessor [OF L t(2,3)] keeps_basic(1)]) (use execute(5) step(1) x in blast)
    from keepsD [OF this t(1)] step(2) show ?thesis by (simp add: x)
  qed
  then show ?case by (simp add: nv_inv_def)
qed


end
