(* ===== verification/Tss_Execute_Runs.thy ===== *)
theory Tss_Execute_Runs
  imports Tss_Execute_Correct Tss_Auth_Examples
begin

text \<open>
  Executions from the parameters of the caller to the effect on the context: a command with a password, and \<^verbatim>\<open>TPM2_NV_ReadPublic\<close>,
  whose marshalling, packet, response and postprocessing are composed for every index and public area.
\<close>

section \<open>A command without sessions\<close>

abbreviation no_sessions :: "vararg list" where
  "no_sessions \<equiv> [(TPM_RH_NULL, None, 0)]"

lemma no_session_steps [simp]:
  "TSS_Command_Decrypt L c [] = r_return c" "TSS_Response_Encrypt L c [] = r_return c" "TSS_HmacSession_SetHMAC L c [] names = r_return []"
  "TSS_SetCmdAuths c [] = Some (0, c)" "for_sessions f [] = e_return []" "set_auths [] [] = []"
  "gather L MAX_SESSION_NUM no_sessions None = e_return ([], None)"
  by (simp_all add: TSS_Command_Decrypt_def TSS_Response_Encrypt_def TSS_HmacSession_SetHMAC_def TSS_SetCmdAuths_def authorizations_size_def m_done_def for_sessions_def
    set_auths_def TSS_Sessions_GetDecryptSession_def TSS_Sessions_GetEncryptSession_def sessions_with_def eval_nat_numeral)

lemma authorize_none: "authorize_command L no_sessions s = Some (Inr [], s)"
  by (simp add: authorize_command_def e_bind_def e_return_def e_update_def e_read_def e_context_def e_lift_def r_return_def)

lemma check_none:
  assumes "TSS_GetRspAuths (tssAuthContext s) 0 = Some (Inr [])"
  shows "check_response L allowNull inp [] s = Some (Inr (), s)"
  using assms by (simp add: check_response_def verify_slots_def e_bind_def e_return_def e_update_def e_read_def e_lift_def r_return_def)

definition answer :: "response \<Rightarrow> transmit" where
  "answer r = (\<lambda>_ _. (0, response_bytes r @ replicate (MAX_RESPONSE_SIZE - response_size r) 0, of_nat (response_size r)))"

section \<open>A command with a password\<close>

text \<open>\<^verbatim>\<open>TPM2_StirRandom\<close> with an empty password: the response carries one authorization, with its form.\<close>

abbreviation with_password :: "vararg list" where
  "with_password \<equiv> [(TPM_RS_PW, None, 0), (TPM_RH_NULL, None, 0)]"

abbreviation ex_password_slot :: slot where
  "ex_password_slot \<equiv> \<lparr>sl_handle = TPM_RS_PW, sl_password = None, sl_attributes = 0, sl_session = None, sl_auth = ex_auth\<rparr>"

lemma password_steps:
  "gather L MAX_SESSION_NUM with_password None = e_return ([ex_password_slot], None)"
  "for_sessions f [ex_password_slot] = e_return [ex_password_slot]"
  "TSS_Command_Decrypt L c [ex_password_slot] = r_return c" "TSS_Response_Encrypt L c [ex_password_slot] = r_return c"
  "TSS_HmacSession_SetHMAC L c [ex_password_slot] names = r_return [ex_auth]"
  by (simp_all add: TSS_Command_Decrypt_def TSS_Response_Encrypt_def TSS_HmacSession_SetHMAC_def for_sessions_def
    TSS_Sessions_GetDecryptSession_def TSS_Sessions_GetEncryptSession_def sessions_with_def eval_nat_numeral Let_def
    TSS_PwapSession_Set_def ex_auth_def empty_TPM2B_def)

definition ex_password_context :: TSS_CONTEXT where
  "ex_password_context = example_context\<lparr>tssAuthContext := ex_stir_context\<rparr>"

definition ex_password_response :: response where
  "ex_password_response = \<lparr>rs_sessions = True, rs_code = 0, rs_handles = [], rs_params = [], rs_auths = [0, 0, 1, 0, 0]\<rparr>"

lemma password_authorized:
  "\<exists>c. authorize_command L with_password ex_password_context = Some (Inr [ex_password_slot], ex_password_context\<lparr>tssAuthContext := c\<rparr>) \<and>
     authCount c = 1 \<and> made_by marshal_StirRandom c"
proof -
  have "\<exists>c. TSS_SetCmdAuths ex_stir_context [ex_auth] = Some (0, c) \<and> authCount c = 1 \<and> made_by marshal_StirRandom c"
    using SetCmdAuths_holds [OF ex_stir_holds, of "[ex_auth]"] ex_stir_made
    by (auto simp: ex_stir_packet_def plain_packet_def ex_auth_def auth_ok_def area_bytes_def auth_bytes_def sized_bytes_def be16_def be32_def
      packet_size_def auth_area_def ex_stir_context_def ex_blank_def)
  then show ?thesis
    by (auto simp: authorize_command_def password_steps ex_password_context_def e_bind_def e_return_def e_update_def e_read_def e_context_def
      e_lift_def r_return_def set_auths_def)
qed

theorem TSS_Execute_verifies_witness:
  "\<exists>s' u authRs. TSS_Execute_valist example_crypto False (answer ex_password_response) None with_password ex_password_context = Some (Inr (), s') \<and>
     verified example_crypto False None u 0 ex_password_slot (authRs ! 0)"
proof -
  obtain c where c: "authorize_command example_crypto with_password ex_password_context =
      Some (Inr [ex_password_slot], ex_password_context\<lparr>tssAuthContext := c\<rparr>)" "authCount c = 1" "made_by marshal_StirRandom c"
    using password_authorized by blast
  let ?c = "snd (TSS_AuthExecute (answer ex_password_response) c)"
  let ?u = "ex_password_context\<lparr>tssAuthContext := ?c\<rparr>"
  have "unat (responseHandleCount c) = 0" using c(3) by (auto simp: made_by_def StirRandom_attributes ex_stir_entry)
  then have r: "received ?c ex_password_response"
    by (simp add: received_def TSS_AuthExecute_def answer_def ex_password_response_def response_size_def param_size_def)
  have a: "parses (u_list 1 TPMS_AUTH_RESPONSE_Unmarshal) (rs_auths ex_password_response)
      [\<lparr>TPMS_AUTH_RESPONSE_nonce = \<lparr>TPM2B_size = 0, TPM2B_buffer = []\<rparr>, TPMS_AUTH_RESPONSE_sessionAttributes = 1,
        TPMS_AUTH_RESPONSE_hmac = \<lparr>TPM2B_size = 0, TPM2B_buffer = []\<rparr>\<rparr>]" (is "parses _ _ [?a]")
    using ex_auth_parses by (simp add: ex_password_response_def)
  have g: "TSS_GetRspAuths ?c 1 = Some (Inr [?a])"
    using TSS_GetRspAuths_received [OF r a] c(2) by (simp add: TSS_AuthExecute_def answer_def ex_password_response_def)
  have x: "TSS_Execute_valist example_crypto False (answer ex_password_response) None with_password ex_password_context = Some (Inr (), ?u)"
    using g by (simp add: TSS_Execute_valist_def c(1) e_bind_def e_context_def)
      (simp add: check_response_def verify_slots_def verify_slot_def audit_slot_def continue_slot_def password_steps e_bind_def e_return_def
        e_update_def e_read_def e_lift_def r_return_def TSS_PwapSession_Verify_def TSS_AuthExecute_def answer_def)
  from TSS_Execute_verifies [OF x] obtain u authRs where "verified example_crypto False None u 0 ex_password_slot (authRs ! 0)"
    by (auto simp: c(1))
  with x show ?thesis by blast
qed

section \<open>Reading a public area\<close>

definition public_response :: "'z openssl_scheme \<Rightarrow> TPMS_NV_PUBLIC \<Rightarrow> response" where
  "public_response L p = \<lparr>rs_sessions = False, rs_code = 0, rs_handles = [],
     rs_params = be16 (of_nat (length (nv_bytes p))) @ nv_bytes p @ be16 (of_nat (length (nv_name L p))) @ nv_name L p, rs_auths = []\<rparr>"

definition public_out :: "'z openssl_scheme \<Rightarrow> TPMS_NV_PUBLIC \<Rightarrow> NV_ReadPublic_Out" where
  "public_out L p = \<lparr>NV_ReadPublic_Out_nvPublic = \<lparr>TPM2B_NV_PUBLIC_size = of_nat (length (nv_bytes p)), TPM2B_NV_PUBLIC_nvPublic = p\<rparr>,
     NV_ReadPublic_Out_nvName = \<lparr>TPM2B_size = of_nat (length (nv_name L p)), TPM2B_buffer = nv_name L p\<rparr>\<rparr>"

lemma length_nv_name:
  assumes "openssl_ok (openssl.truncate L)" "nv_ok p"
  shows "length (nv_name L p) \<le> 132"
proof -
  obtain md where md: "GetHashServer (TPMS_NV_PUBLIC_nameAlg p) = Some md" using assms(2) by (auto simp: nv_ok_def GetHashServer_def)
  have "length (EVP_Digest L md (nv_bytes p)) = EVP_MD_size md" using openssl_ok_truncate [OF assms(1), of md "nv_bytes p"] by simp
  then show ?thesis by (cases md) (simp_all add: nv_name_def md)
qed

lemma public_parses:
  assumes L: "openssl_ok (openssl.truncate L)" and p: "nv_ok p"
  shows "parses (out_unmarshal (NV_Response \<circ> Out_NV_ReadPublic) TSS_NV_ReadPublic_Out_Unmarshal TPM_ST_NO_SESSIONS)
    (rs_handles (public_response L p) @ rs_params (public_response L p)) (NV_Response (Out_NV_ReadPublic (public_out L p)))"
proof -
  note l = length_nv_bytes [OF p] length_nv_name [OF L p]
  have u: "unat (of_nat (length (nv_bytes p)) :: 16 word) = length (nv_bytes p)" "unat (of_nat (length (nv_name L p)) :: 16 word) = length (nv_name L p)"
    using l by (simp_all add: unat_of_nat)
  then have nz: "(of_nat (length (nv_bytes p)) :: 16 word) \<noteq> 0" using l by (metis length_0_conv unat_0)
  have x: "parses (u_exactly (of_nat (length (nv_bytes p))) TPMS_NV_PUBLIC_Unmarshal) (nv_bytes p) p"
    using nv_parses [OF p] u l by (simp add: parses_def u_exactly_eq s32_id)
  have public: "parses TPM2B_NV_PUBLIC_Unmarshal (be16 (of_nat (length (nv_bytes p))) @ nv_bytes p)
      \<lparr>TPM2B_NV_PUBLIC_size = of_nat (length (nv_bytes p)), TPM2B_NV_PUBLIC_nvPublic = p\<rparr>"
    unfolding TPM2B_NV_PUBLIC_Unmarshal_def
    by (rule parses_bind [OF parses_UINT16]) (simp add: u_guard_def nz, rule parses_bind_return [OF x refl])
  have name: "parses TPM2B_NAME_Unmarshal (be16 (of_nat (length (nv_name L p))) @ nv_name L p)
      \<lparr>TPM2B_size = of_nat (length (nv_name L p)), TPM2B_buffer = nv_name L p\<rparr>"
    unfolding TPM2B_NAME_Unmarshal_def using l(2) u(2) by (intro parses_TPM2B) (simp_all add: word_le_nat_alt)
  have "parses (TSS_NV_ReadPublic_Out_Unmarshal TPM_ST_NO_SESSIONS) (rs_params (public_response L p)) (public_out L p)"
  proof -
    have "TSS_NV_ReadPublic_Out_Unmarshal TPM_ST_NO_SESSIONS = u_bind TPM2B_NV_PUBLIC_Unmarshal (\<lambda>nvPublic. u_bind TPM2B_NAME_Unmarshal (\<lambda>nvName.
        u_return \<lparr>NV_ReadPublic_Out_nvPublic = nvPublic, NV_ReadPublic_Out_nvName = nvName\<rparr>))"
      by (rule ext) (simp add: TSS_NV_ReadPublic_Out_Unmarshal_def u_when_def u_bind_def u_return_def)
    then show ?thesis using parses_bind [OF public parses_bind_return [OF name refl]] by (simp only: public_response_def public_out_def response.simps append_assoc)
  qed
  then show ?thesis by (simp add: parses_def out_unmarshal_def public_response_def u_map_def u_bind_def u_return_def)
qed

definition public_in :: "TPM_HANDLE \<Rightarrow> in_extra" where
  "public_in h = (Some (NV_Parameters (In_NV_ReadPublic \<lparr>NV_ReadPublic_In_nvIndex = h\<rparr>)), None)"

lemma public_entry:
  "marshal_NV_ReadPublic \<in> set marshalTable" "mt_commandCode marshal_NV_ReadPublic = TPM_CC_NV_ReadPublic"
  "mt_marshalFunction marshal_NV_ReadPublic = Some (in_marshal in_NV_ReadPublic TSS_NV_ReadPublic_In_Marshal)"
  "mt_unmarshalInFunction marshal_NV_ReadPublic = Some (in_unmarshal (NV_Parameters \<circ> In_NV_ReadPublic) NV_ReadPublic_In_Unmarshal)"
  "mt_unmarshalFunction marshal_NV_ReadPublic = Some (out_unmarshal (NV_Response \<circ> Out_NV_ReadPublic) TSS_NV_ReadPublic_Out_Unmarshal)"
  by (simp add: marshalTable_def) (simp_all add: marshal_NV_ReadPublic_def)

lemma public_process:
  "tss_entry L allowNull TPM_CC_NV_ReadPublic = Some (TPM_CC_NV_ReadPublic, None, None, Some (post_NV_ReadPublic L allowNull))"
  by (simp add: tss_entry_def tssTable_def)

lemma public_marshalled:
  "\<exists>c'. TSS_Marshal handles c (fst (public_in h)) TPM_CC_NV_ReadPublic = Some (0, c') \<and> made_by marshal_NV_ReadPublic c' \<and> authCount c' = 0"
proof -
  let ?b = "\<lparr>rest = [], avail = 0\<rparr>"
  have "in_unmarshal (NV_Parameters \<circ> In_NV_ReadPublic) NV_ReadPublic_In_Unmarshal (\<lambda>_. h) ?b = Ok (the (fst (public_in h))) ?b"
    by (simp add: in_unmarshal_def u_map_def NV_ReadPublic_In_Unmarshal_def u_bind_def u_return_def public_in_def)
  moreover have "handle_count marshal_NV_ReadPublic = 1" by (simp add: handle_count_def public_entry NV_ReadPublic_attributes)
  ultimately show ?thesis
    using Marshal_makes_packet [OF public_entry(1,3,4), of ?b "\<lambda>_. h" _ ?b handles c]
    by (auto simp: u_good_def public_entry handle_area_def Let_def packet_size_def plain_packet_def auth_area_def public_in_def)
qed

lemma public_executed:
  fixes L :: "'z crypto_scheme"
  assumes L: "openssl_ok (openssl.truncate L)" and p: "nv_ok p" and h: "handle_type h = TPM_HT_NV_INDEX"
    and s: "short_directory s" "writable s (file_of s ''h'' h)" "writable s (file_of s ''nvp'' h)"
  shows "\<exists>c. let t = s\<lparr>tssAuthContext := c\<rparr>; r = (public_in h, Some (NV_Response (Out_NV_ReadPublic (public_out L p)))) in
    execute_response L allowNull handles (answer (public_response L p)) True (public_in h) TPM_CC_NV_ReadPublic no_sessions s = Some (Inr r, t) \<and>
    TSS_Execute L allowNull handles (answer (public_response L p)) True (public_in h) TPM_CC_NV_ReadPublic no_sessions s =
      Some (Inr r, t\<lparr>files := (files s)(file_of s ''h'' h \<mapsto> nv_name L p, file_of s ''nvp'' h \<mapsto> nv_bytes p)\<rparr>)"
proof -
  let ?resp = "public_response L p"
  obtain c where c: "TSS_Marshal handles (TSS_InitAuthContext (tssAuthContext s)) (fst (public_in h)) TPM_CC_NV_ReadPublic = Some (0, c)"
      "made_by marshal_NV_ReadPublic c" "authCount c = 0"
    using public_marshalled by blast
  define c' where "c' = snd (TSS_AuthExecute (answer ?resp) c)"
  have c': "TSS_AuthExecute (answer ?resp) c = (0, c')" "made_by marshal_NV_ReadPublic c'" "authCount c' = 0"
    using c(2,3) by (simp_all add: c'_def TSS_AuthExecute_def answer_def made_by_def)
  have h0: "responseHandleCount c' = 0" using c'(2) by (auto simp: made_by_def public_entry NV_ReadPublic_attributes)
  have "response_size ?resp \<le> MAX_RESPONSE_SIZE"
    using length_nv_bytes [OF p] length_nv_name [OF L p] by (simp add: response_size_def public_response_def param_size_def)
  then have r: "received c' ?resp"
    using h0 by (simp add: received_def c'_def TSS_AuthExecute_def answer_def) (simp add: public_response_def)
  have u: "TSS_Unmarshal c' True = Some (Inr (Some (NV_Response (Out_NV_ReadPublic (public_out L p)))))"
    by (rule TSS_Unmarshal_received [OF c'(2) public_entry(1,5) r public_parses [OF L p]])
  have g: "TSS_GetRspAuths c' 0 = Some (Inr [])"
    using TSS_GetRspAuths_received [OF r, of 0 "[]"] c'(3) by (simp add: public_response_def parses_def u_return_def)
  let ?t = "s\<lparr>tssAuthContext := c'\<rparr>"
  have pre: "TSS_Command_PreProcessor L allowNull TPM_CC_NV_ReadPublic ie = e_return ie" for ie
    by (simp add: TSS_Command_PreProcessor_def public_process)
  have x: "execute_response L allowNull handles (answer ?resp) True (public_in h) TPM_CC_NV_ReadPublic no_sessions s =
      Some (Inr (public_in h, Some (NV_Response (Out_NV_ReadPublic (public_out L p)))), ?t)"
    using c(1) c'(1) u g
    by (simp add: execute_response_def pre e_bind_def e_context_def TSS_Execute_valist_def authorize_none check_none e_read_def e_lift_def e_return_def)
  have l: "unat (of_nat (length (nv_name L p)) :: 16 word) = length (nv_name L p)"
    using length_nv_name [OF L p] by (simp add: unat_of_nat)
  have "TSS_PO_NV_ReadPublic L \<lparr>NV_ReadPublic_In_nvIndex = h\<rparr> (public_out L p) ?t =
      Some (Inr (), ?t\<lparr>files := (files s)(file_of s ''h'' h \<mapsto> nv_name L p, file_of s ''nvp'' h \<mapsto> nv_bytes p)\<rparr>)"
    using ReadPublic_stores [OF L, of "\<lparr>NV_ReadPublic_In_nvIndex = h\<rparr>" ?t "public_out L p"] h s p l
    by (simp add: public_out_def TPM2B_ok_def TPM2B_bytes_def short_directory_def file_of_def)
  moreover have "TSS_GetCommandCode c' = TPM_CC_NV_ReadPublic" using c'(2) by (simp add: TSS_GetCommandCode_def made_by_def public_entry)
  ultimately have y: "TSS_Response_PostProcessor L allowNull (public_in h) (Some (NV_Response (Out_NV_ReadPublic (public_out L p)))) ?t =
      Some (Inr (), ?t\<lparr>files := (files s)(file_of s ''h'' h \<mapsto> nv_name L p, file_of s ''nvp'' h \<mapsto> nv_bytes p)\<rparr>)"
    by (simp add: TSS_Response_PostProcessor_def public_process post_NV_ReadPublic_def public_in_def)
  show ?thesis
    by (intro exI [of _ c']) (simp add: x y TSS_Execute_split e_bind_def e_return_def)
qed

text \<open>C17. A whole execution of \<^verbatim>\<open>TPM2_NV_ReadPublic\<close> without sessions, for every NV index and well-formed public area. When the TPM answers with
  the public area and its Name, and the two files of the index can be written, the call succeeds, the caller receives both, and the two files of the index, and no others, are written: the
  public area in its canonical encoding and the Name.\<close>

theorem TSS_Execute_ReadPublic:
  fixes L :: "'z crypto_scheme"
  assumes "openssl_ok (openssl.truncate L)" "nv_ok p" "handle_type h = TPM_HT_NV_INDEX" "short_directory s"
    and "writable s (file_of s ''h'' h)" "writable s (file_of s ''nvp'' h)"
  shows "\<exists>c. TSS_Execute L allowNull handles (answer (public_response L p)) True (public_in h) TPM_CC_NV_ReadPublic [(TPM_RH_NULL, None, 0)] s =
    Some (Inr (public_in h, Some (NV_Response (Out_NV_ReadPublic (public_out L p)))),
      s\<lparr>tssAuthContext := c, files := (files s)(file_of s ''h'' h \<mapsto> nv_name L p, file_of s ''nvp'' h \<mapsto> nv_bytes p)\<rparr>)"
  using public_executed [OF assms] by (auto simp: Let_def)

section \<open>An index\<close>

definition ex_public :: TPMS_NV_PUBLIC where
  "ex_public = \<lparr>TPMS_NV_PUBLIC_nvIndex = 0x01000001, TPMS_NV_PUBLIC_nameAlg = TPM_ALG_SHA256, TPMS_NV_PUBLIC_attributes = 0,
     TPMS_NV_PUBLIC_authPolicy = empty_TPM2B, TPMS_NV_PUBLIC_dataSize = 8\<rparr>"

lemma ex_public_ok: "nv_ok ex_public"
  by (simp add: nv_ok_def ex_public_def TPM2B_exact_def empty_TPM2B_def)

theorem TSS_Execute_ReadPublic_witness:
  "\<exists>r s. TSS_Execute example_crypto False (\<lambda>_. 0) (answer (public_response example_crypto ex_public)) True (public_in 0x01000001)
      TPM_CC_NV_ReadPublic [(TPM_RH_NULL, None, 0)] example_context = Some (Inr r, s) \<and>
     files s (file_of s ''nvp'' 0x01000001) = Some [1, 0, 0, 1, 0, 11, 0, 0, 0, 0, 0, 0, 0, 8] \<and>
     files s (file_of s ''h'' 0x01000001) = Some ([0, 11] @ replicate 32 14)"
proof -
  have "nv_bytes ex_public = [1, 0, 0, 1, 0, 11, 0, 0, 0, 0, 0, 0, 0, 8]"
    by (simp add: nv_bytes_def ex_public_def sized_bytes_def empty_TPM2B_def be16_def be32_def)
  moreover from this have "nv_name example_crypto ex_public = [0, 11] @ replicate 32 14"
    by (simp add: nv_name_def) (simp add: ex_public_def example_crypto_def GetHashServer_def be16_def)
  moreover have c: "handle_type 0x01000001 = TPM_HT_NV_INDEX" "short_directory example_context"
    "writable example_context (file_of example_context ''h'' 0x01000001)" "writable example_context (file_of example_context ''nvp'' 0x01000001)"
    by (simp_all add: short_directory_def example_context_def handle_type_def)
  ultimately show ?thesis
    using TSS_Execute_ReadPublic [OF example_crypto_ok ex_public_ok c, of False "\<lambda>_. 0"] by (auto simp: file_of_def)
qed


section \<open>A public area that cannot be stored\<close>

text \<open>C35. The store of a public area has no cleanup. Let a public area \<open>q\<close> be stored for an index, and let the TPM return another public
  area with its Name. When the file of the Name can be written and that of the public area cannot be opened, the command fails, and from
  then on the Name that the library uses for the index is the new one, while the public area that it loads is still \<open>q\<close>, whose Name is
  another one.\<close>

theorem NV_ReadPublic_mismatch:
  fixes L :: "'z openssl_scheme"
  assumes "openssl_ok (openssl.truncate L)" "handle_type (NV_ReadPublic_In_nvIndex inp) = TPM_HT_NV_INDEX" "short_directory s"
    and "nv_ok q" "files s (file_of s ''nvp'' (NV_ReadPublic_In_nvIndex inp)) = Some (nv_bytes q)"
    and "nv_ok (TPM2B_NV_PUBLIC_nvPublic (NV_ReadPublic_Out_nvPublic out))" "TPM2B_ok (NV_ReadPublic_Out_nvName out)"
      "TPM2B_bytes (NV_ReadPublic_Out_nvName out) = nv_name L (TPM2B_NV_PUBLIC_nvPublic (NV_ReadPublic_Out_nvPublic out))"
    and "nv_name L (TPM2B_NV_PUBLIC_nvPublic (NV_ReadPublic_Out_nvPublic out)) \<noteq> nv_name L q"
    and "writable s (file_of s ''h'' (NV_ReadPublic_In_nvIndex inp))" "on_write s (file_of s ''nvp'' (NV_ReadPublic_In_nvIndex inp)) = Not_opened"
    and "readable s (file_of s ''h'' (NV_ReadPublic_In_nvIndex inp))" "readable s (file_of s ''nvp'' (NV_ReadPublic_In_nvIndex inp))"
  shows "\<exists>t name name'. TSS_PO_NV_ReadPublic L inp out s = Some (Inl TSS_RC_FILE_OPEN, t) \<and>
    TSS_Name_GetName old (NV_ReadPublic_In_nvIndex inp) t = Some (Inr (Some name), t) \<and>
    TSS_NVPublic_Load (NV_ReadPublic_In_nvIndex inp) t = Some (Inr q, t) \<and> TSS_NVPublic_GetName L q = Some (Inr name') \<and>
    TPM2B_bytes name \<noteq> TPM2B_bytes name'"
proof -
  let ?h = "NV_ReadPublic_In_nvIndex inp" and ?p = "TPM2B_NV_PUBLIC_nvPublic (NV_ReadPublic_Out_nvPublic out)"
  let ?t = "s\<lparr>files := (files s)(file_of s ''h'' ?h \<mapsto> nv_name L ?p)\<rparr>"
  have run: "TSS_PO_NV_ReadPublic L inp out s = Some (Inl TSS_RC_FILE_OPEN, ?t)"
    unfolding ReadPublic_eq [OF assms(1-3,6-8)] using assms(10,11) by (simp add: e_bind_def TSS_File_WriteBinaryFile_def e_return_def e_fail_def)
  obtain name where n: "TSS_NVPublic_GetName L ?p = r_return name" "name_encodes name (nv_name L ?p)" using NVPublic_GetName_eq [OF assms(1,6)] by blast
  obtain name' where n': "TSS_NVPublic_GetName L q = r_return name'" "name_encodes name' (nv_name L q)" using NVPublic_GetName_eq [OF assms(1,4)] by blast
  have "TSS_Name_GetName old ?h ?t = Some (Inr (Some name), ?t)" by (rule Name_GetName_stored [OF _ assms(2) n(2)]) (use assms(3,12) in simp_all)
  moreover have "TSS_NVPublic_Load ?h ?t = Some (Inr q, ?t)"
    by (rule nv_publics.get [OF _ nv_index_0 [OF assms(2)] nv_encodes [OF assms(4)]]) (use assms(3,5,13) in simp_all)
  moreover have "TPM2B_bytes name \<noteq> TPM2B_bytes name'" using n(2) n'(2) assms(9) by (simp add: name_encodes_def TPM2B_exact_def TPM2B_bytes_def)
  ultimately show ?thesis using run n'(1) by (auto simp: r_return_def)
qed

theorem NV_ReadPublic_mismatch_witness:
  "\<exists>s t name name'. TSS_PO_NV_ReadPublic example_crypto \<lparr>NV_ReadPublic_In_nvIndex = 0x01000001\<rparr> (public_out example_crypto ex_public) s =
      Some (Inl TSS_RC_FILE_OPEN, t) \<and>
    TSS_Name_GetName None 0x01000001 t = Some (Inr (Some name), t) \<and>
    TSS_NVPublic_Load 0x01000001 t = Some (Inr (ex_public\<lparr>TPMS_NV_PUBLIC_nameAlg := TPM_ALG_SHA1\<rparr>), t) \<and>
    TSS_NVPublic_GetName example_crypto (ex_public\<lparr>TPMS_NV_PUBLIC_nameAlg := TPM_ALG_SHA1\<rparr>) = Some (Inr name') \<and>
    TPM2B_bytes name \<noteq> TPM2B_bytes name'"
proof -
  let ?h = "0x01000001 :: TPM_HANDLE" and ?L = example_crypto and ?q = "ex_public\<lparr>TPMS_NV_PUBLIC_nameAlg := TPM_ALG_SHA1\<rparr>"
  let ?fn = "file_of example_context ''nvp'' ?h"
  let ?s = "example_context\<lparr>files := [?fn \<mapsto> nv_bytes ?q], on_write := \<lambda>fn. if fn = ?fn then Not_opened else Written\<rparr>"
  have h: "handle_type (NV_ReadPublic_In_nvIndex \<lparr>NV_ReadPublic_In_nvIndex = ?h\<rparr>) = TPM_HT_NV_INDEX" by (simp add: handle_type_def)
  have s: "short_directory ?s" "files ?s (file_of ?s ''nvp'' ?h) = Some (nv_bytes ?q)" "readable ?s fn"
    "writable ?s (file_of ?s ''h'' ?h)" "on_write ?s (file_of ?s ''nvp'' ?h) = Not_opened" for fn
    by (simp_all add: short_directory_def file_of_def) (simp_all add: example_context_def)
  have q: "nv_ok ?q" using ex_public_ok by (simp add: nv_ok_def)
  have p: "TPM2B_NV_PUBLIC_nvPublic (NV_ReadPublic_Out_nvPublic (public_out ?L ex_public)) = ex_public"
    "TPM2B_ok (NV_ReadPublic_Out_nvName (public_out ?L ex_public))"
    "TPM2B_bytes (NV_ReadPublic_Out_nvName (public_out ?L ex_public)) = nv_name ?L ex_public"
    using length_nv_name [OF example_crypto_ok ex_public_ok] by (simp_all add: public_out_def TPM2B_ok_def TPM2B_bytes_def unat_of_nat)
  have d: "nv_name ?L ex_public \<noteq> nv_name ?L ?q" by (simp add: nv_name_def be16_def ex_public_def)
  show ?thesis
    using NV_ReadPublic_mismatch [OF example_crypto_ok h s(1) q, of "public_out ?L ex_public" None] s(2-5) p ex_public_ok d by auto
qed

end
