(* ===== verification/Spec2Isabelle.thy ===== *)
theory Spec2Isabelle
  imports Ped_Disk_Ops Ped_Loop Ped_Freespace Tss_Hmac_Correct Tss_Transport_Correct Tss_Execute_Runs
begin

text \<open>
  Two libraries of the userland gate, verified: \<^verbatim>\<open>libparted\<close> (the partition tables of the installer,
  \<^verbatim>\<open>src/components/parted/src/libparted/common\<close>) and \<^verbatim>\<open>libtss2\<close> (the TPM 2.0 software stack behind the OpenSSL engine,
  \<^verbatim>\<open>src/components/openssl-tpm2.0-engine/openssl-tpm2.0-engine-1.0/libtss2\<close>). They are the parts of the gate that carry logic of
  their own; the rest builds, patches and packages foreign software. They share only the theory \<open>Prelude\<close>.

  \<^bold>\<open>How the code is modelled.\<close> A struct is a record, a tagged union a datatype with a constructor for each member and one for
  the state in which none was written, a fixed-width unsigned integer a word of that width. Signed C integers are HOL
  integers, with \<open>s32\<close> and \<open>s64\<close> at every operation that may leave the range. A function that fails returns a sum
  (\<open>Inl\<close> the code or exception), and one that the C standard leaves undefined for some input (it reads or writes outside of
  an array, uses a null pointer, reads what was never written) returns \<open>None\<close>, or \<open>Overread\<close> and \<open>BadSource\<close> in the
  codec; that a function does not do so is then a theorem and not an assumption. State is passed explicitly:
  the disk with its partitions, the buffers of a command, the context of the library with its files, random numbers and
  connection. Printing and tracing are left out, allocation succeeds unless a definition says otherwise, and what is only freed is
  dropped.

  \<^bold>\<open>libparted.\<close> Sectors, regions, alignments and constraints are arithmetic; a disk label uses them to decide where a partition
  may lie; \<^verbatim>\<open>disk.c\<close> keeps the lists of partitions and, outside of update mode, fills the gaps with entries for free
  space.

  \<^item> \<open>Ped_Geom\<close> (\<^verbatim>\<open>cs/geom.c\<close>): regions of a device; \<open>region\<close> is the set of sectors of one, and intersection, inclusion
    and mapping are shown to be those of the sets.
  \<^item> \<open>Ped_Natmath\<close> (\<^verbatim>\<open>cs/natmath.c\<close>): rounding, the extended Euclidean algorithm and alignments, whose set of sectors is
    \<open>aligned\<close>; termination, Bezout coefficients, intersection by the Chinese remainder theorem, the nearest aligned sector.
  \<^item> \<open>Ped_Constraint\<close> (\<^verbatim>\<open>cs/constraint.c\<close>): constraints; \<open>solutions\<close> is the set of regions that one allows. Intersection is
    that of the sets, the solver returns only solutions, finds one under the conditions of its theorem, and misses one outside of
    them.
  \<^item> \<open>Ped_Disk\<close>, \<open>Ped_Disk_Update\<close>, \<open>Ped_Disk_Ops\<close> (\<^verbatim>\<open>disk.c\<close>): the lists and their queries; update mode, removal, metadata and
    free space; adding, resizing, moving and maximizing partitions. \<open>disk_ok\<close> is the invariant of a table (ordered, disjoint,
    inside of the device or of the extended partition, numbers and addresses distinct), and every operation keeps it, whether it
    succeeds or fails. \<open>Ped_Disk_Frame\<close> and \<open>Ped_Freespace\<close> hold the lemmas on what removal and update mode change.
  \<^item> \<open>Ped_Loop\<close> (\<^verbatim>\<open>labels/loop.c\<close>): the label for a device without a table.

  \<^bold>\<open>libtss2.\<close> A call of \<open>TSS_Execute\<close> takes the structure of the parameters of a command, marshals it into a packet, adds
  the authorizations of up to three sessions with their HMACs and encrypts the first parameter, transmits the packet, checks
  the HMACs of the response, decrypts its first parameter, unmarshals the rest and updates the names and public areas
  in the files of the library. From below:

  \<^item> \<open>Tss_Base\<close> (the base functions of \<^verbatim>\<open>Unmarshal.c\<close> and \<^verbatim>\<open>tssmarshal.c\<close>), with the contract \<open>reads\<close> between the two
    directions: what is read stays inside of its buffer, and writing it gives the bytes that were read. \<open>delivers\<close> is the part of
    it for structures that are only read, with the bounds of the arrays that are written.
  \<^item> \<open>Tss_Types\<close>, \<open>Tss_Unmarshal\<close>, \<open>Tss_Marshal\<close> (\<^verbatim>\<open>tss2/TPM_Types.h\<close>, \<^verbatim>\<open>Unmarshal.c\<close>, \<^verbatim>\<open>tssmarshal.c\<close>): the types, each function
    a definition. \<open>Tss_Codec\<close> proves the contract of every pair (the collection \<open>codec_intro\<close>), \<open>Tss_Bounds\<close> the bounds of
    every array.
  \<^item> \<open>Tss_Cmd_Object\<close>, \<open>Tss_Cmd_Crypto\<close>, \<open>Tss_Cmd_Attest\<close>, \<open>Tss_Cmd_Policy\<close>, \<open>Tss_Cmd_NV\<close>, \<open>Tss_Cmd_Hierarchy\<close> (\<^verbatim>\<open>tssmarshal.c\<close>,
    \<^verbatim>\<open>Commands.c\<close>): the parameters of the 103 commands in both directions, and of the 52 responses with parameters.
  \<^item> \<open>Tss_Params\<close> (\<^verbatim>\<open>tss2/Parameters.h\<close>, the table of \<^verbatim>\<open>tssauth.c\<close>), \<open>Tss_Attributes\<close> (\<^verbatim>\<open>CommandAttributeData.c\<close>,
    \<^verbatim>\<open>tssccattributes.c\<close>): the two tables of the commands; \<open>Tss_Dispatch\<close> shows that they agree with each other.
  \<^item> \<open>Tss_Auth\<close> (\<^verbatim>\<open>tssauth.c\<close>): the packets. \<open>packet\<close> is the abstract view of a command, \<open>holds\<close> relates a context to
    it; \<open>Tss_Auth_Correct\<close>, \<open>Tss_Auth_Response\<close> and \<open>Tss_Auth_Examples\<close> show what each operation does to it.
  \<^item> \<open>Tss_Sym\<close>, \<open>Tss_Hash\<close>, \<open>Tss_Crypto\<close> (\<^verbatim>\<open>CpriSym.c\<close>, \<^verbatim>\<open>CpriHash.c\<close>, \<^verbatim>\<open>tsscrypto.c\<close>, \<^verbatim>\<open>tssutils.c\<close>): block cipher modes,
    digests, HMAC, key derivation, OAEP, files. Each is shown equal to its definition in the standard (\<open>HMAC\<close>, \<open>KDF\<close>, \<open>MGF\<close>, the
    modes), for any primitives.
  \<^item> \<open>Tss_Store\<close>, \<open>Tss_Session\<close>, \<open>Tss_Hmac\<close>, \<open>Tss_Process\<close>, \<open>Tss_Execute\<close> (\<^verbatim>\<open>tss.c\<close>): the files of names, public areas and NV
    indexes; the sessions; their HMACs and encryption; what is special to single commands; execution.
    \<open>Tss_Session_Correct\<close> and \<open>Tss_Hmac_Correct\<close> prove the storage of sessions, and the HMACs and the encryption against what the TPM
    does on the other side; the encryption for XOR and for AES with 128 bits, because the code uses 128 bits of a longer key too.
  \<^item> \<open>Tss_Transport\<close> (\<^verbatim>\<open>tsstransmit.c\<close>, \<^verbatim>\<open>tsssocket.c\<close>, \<^verbatim>\<open>tssdev.c\<close>, \<^verbatim>\<open>tssproperties.c\<close>): sockets and devices, the properties, and
    the creation and deletion of a context. \<open>Tss_Transport_Correct\<close> shows that commands and responses arrive whole, that connections are used
    in order, and which responses are accepted; the descriptor of an attempt that failed is recorded as \<open>Abandoned\<close>. \<open>Tss_Keeps\<close> is the calculus of state predicates that these proofs use.
  \<^item> \<open>Tss_Store_Correct\<close>, \<open>Tss_Execute_Correct\<close>, \<open>Tss_Execute_Runs\<close>: the composition. No file changes before the responses of the
    sessions were verified, which the code does for all but policy sessions without authorization value. In all states that
    executions reach (\<open>executed\<close>), while files fail to be opened, written or read in between, the stored Name of an NV index is that
    of its stored public area (\<open>nv_named\<close>). One failure is excluded there, and shown to break it: that a read of a public area from
    the TPM stores the Name only. A command is followed from the parameters of the caller to its files.

  \<^bold>\<open>Interfaces.\<close> The locale \<open>meet_semantics\<close> (extended by \<open>closed_meet\<close>) is the contract of an intersection; it is interpreted
  by regions, alignments and constraints, each of which uses the one before. \<open>disk_label\<close> is what \<^verbatim>\<open>disk.c\<close> relies on in a
  label; its lemmas are the theorems on the partition table, which the interpretation \<open>loop\<close> instantiates. \<open>codec\<close> is what a
  user of a type relies on; it is interpreted by public areas, attestation structures and the parameters of a command.
  \<open>handle_store\<close> is the contract of the files that are kept by handle; it is interpreted by names, public areas and NV public
  areas, and the proofs about executions use only its laws.

  \<^bold>\<open>Parameters and their assumptions.\<close> The primitives of OpenSSL are arguments of the definitions (records \<open>openssl\<close> and
  \<open>crypto\<close>): a digest of the documented length, AES as a permutation for every key, where a theorem needs it. Random numbers,
  files, connections, reads and writes of the system are fields of the state, about which a theorem assumes only what it says: a file
  may not be opened, be cut short or fail on \<open>fclose\<close> when it is written (\<open>write_outcome\<close>), and fail in each call when it is read
  (\<open>read_outcome\<close>). The
  operations of a label are a record of functions.

  \<^bold>\<open>Bounds and termination.\<close> There is no fuel: every loop of the two libraries is a recursion with a measure (the remaining
  bytes, chunks, partitions or rounds). The bounds are those of the code: 4096 bytes for a command or a response, 128 for a file name,
  three sessions, sectors up to \<open>2 ^ 61\<close> and grain sizes up to \<open>2 ^ 20\<close> where two alignments are intersected.

  \<^bold>\<open>Not modelled.\<close> Device input and output of \<^verbatim>\<open>libparted\<close>, its other labels and file systems, units and exception dialogs (their
  on-disk formats are read and written through it); the gnulib sources copied into it; output (\<^verbatim>\<open>tssprint.c\<close>); the Windows
  interfaces and the algorithms that \<^verbatim>\<open>Implementation.h\<close> does not enable (elliptic curves, SHA-512, SM3, SM4); of the rest of
  the gate, the PKCS 11 engines, modules for foreign daemons and the X11 libraries, which are calls into programs that are not here or
  vendored code.
\<close>

end
